(* ===== verification/Base.thy ===== *)
theory Base
  imports Main "HOL-Library.Word" "HOL-Library.Monad_Syntax"
begin

text \<open>
  Prelude of the development: the names of the machine types, the little-endian byte
  encodings that every component uses, the convention for C's undefined behaviour, and the
  generic lemmas on lists and options that the component theories share.

  Undefined behaviour. A C operation that may run into undefined behaviour (a read or a write
  outside its array, a shift by at least the width, a signed overflow) is modelled with a
  result in \<^typ>\<open>'a option\<close>: \<open>None\<close> says that the behaviour is undefined,
  \<open>Some r\<close> that it is defined and gives \<open>r\<close>. Operations compose with the option
  monad, so a component is free of undefined behaviour on an input exactly when its model is
  not \<open>None\<close> there.
\<close>

unbundle bit_operations_syntax

section \<open>Machine types\<close>

type_synonym u8 = "8 word"
type_synonym u16 = "16 word"
type_synonym u32 = "32 word"
type_synonym u64 = "64 word"

text \<open>\<open>'a ub\<close>: a C computation, \<open>None\<close> for undefined behaviour.\<close>

type_synonym 'a ub = "'a option"

abbreviation undef :: "'a ub" where
  "undef \<equiv> None"

text \<open>\<open>guard\<close>: the computation is defined only where the condition holds.\<close>

definition guard :: "bool \<Rightarrow> unit ub" where
  "guard b = (if b then Some () else undef)"

lemma guard_True [simp]: "guard True = Some ()"
  by (simp add: guard_def)

lemma guard_False [simp]: "guard False = None"
  by (simp add: guard_def)

lemma guard_bind [simp]: "Option.bind (guard b) f = (if b then f () else None)"
  by (simp add: guard_def)

named_theorems c_model \<comment> \<open>the defining equations that evaluate a component\<close>

section \<open>Little-endian bytes\<close>

fun le_bytes :: "nat \<Rightarrow> 'a::len word \<Rightarrow> u8 list" where
  "le_bytes 0 w = []"
| "le_bytes (Suc n) w = ucast w # le_bytes n (drop_bit 8 w)"

fun le_word :: "u8 list \<Rightarrow> 'a::len word" where
  "le_word [] = 0"
| "le_word (b # bs) = ucast b OR push_bit 8 (le_word bs)"

lemma length_le_bytes [simp]: "length (le_bytes n w) = n"
  by (induction n arbitrary: w) simp_all

lemma le_word_le_bytes: "le_word (le_bytes n w) = take_bit (8 * n) w"
proof (induction n arbitrary: w)
  case 0
  show ?case by simp
next
  case (Suc n)
  show ?case
    by (rule bit_word_eqI) (auto simp: Suc bit_simps)
qed

lemma le_word_le_bytes_full:
  "LENGTH('a) = 8 * n \<Longrightarrow> le_word (le_bytes n w) = (w :: 'a::len word)"
  by (simp add: le_word_le_bytes take_bit_word_eq_self)

lemma bit_le_word:
  "bit (le_word bs :: 'a::len word) i \<longleftrightarrow>
     i < LENGTH('a) \<and> i < 8 * length bs \<and> bit (bs ! (i div 8)) (i mod 8)"
proof (induction bs arbitrary: i)
  case Nil
  show ?case by simp
next
  case (Cons b bs)
  show ?case
  proof (cases "i < 8")
    case True
    then show ?thesis by (simp add: bit_simps)
  next
    case False
    then obtain j where j: "i = j + 8" by (metis add.commute le_Suc_ex not_less)
    have "\<not> bit b i"
      using False by (auto dest: bit_imp_le_length)
    moreover have "bit (push_bit 8 (le_word bs) :: 'a word) i
        = (i < LENGTH('a) \<and> bit (le_word bs :: 'a word) j)"
      using j by (simp add: bit_simps)
    moreover have "(j + 8) div 8 = Suc (j div 8)"
      by (simp add: div_add_self2)
    ultimately show ?thesis
      using j Cons.IH [of j] by (auto simp: bit_simps)
  qed
qed

lemma le_bytes_eq: "le_bytes n w = map (\<lambda>k. ucast (drop_bit (8 * k) w)) [0..<n]"
proof (induction n arbitrary: w)
  case 0
  show ?case by simp
next
  case (Suc n)
  show ?case
    by (simp add: Suc map_upt_Suc drop_bit_drop_bit ac_simps del: upt_Suc)
qed

lemma nth_le_bytes [simp]: "k < n \<Longrightarrow> le_bytes n w ! k = ucast (drop_bit (8 * k) w)"
  by (simp add: le_bytes_eq)

lemma le_bytes_le_word:
  assumes "length bs = n" and "8 * n \<le> LENGTH('a)"
  shows "le_bytes n (le_word bs :: 'a::len word) = bs"
proof (rule nth_equalityI)
  show "length (le_bytes n (le_word bs :: 'a word)) = length bs"
    using assms by simp
next
  fix k assume "k < length (le_bytes n (le_word bs :: 'a word))"
  then have k: "k < n" by simp
  have "bit (ucast (drop_bit (8 * k) (le_word bs :: 'a word)) :: u8) i = bit (bs ! k) i"
    if "i < 8" for i
    using that k assms by (auto simp: bit_simps bit_le_word)
  then show "le_bytes n (le_word bs :: 'a word) ! k = bs ! k"
    using k by (simp add: bit_eq_iff)
qed

lemma le_word_append_bit:
  "le_word (bs @ cs) = (le_word bs OR push_bit (8 * length bs) (le_word cs) :: 'a::len word)"
proof (induction bs)
  case Nil
  show ?case by simp
next
  case (Cons b bs)
  show ?case
    by (rule bit_word_eqI) (auto simp: Cons bit_simps)
qed

section \<open>Counters\<close>

lemma word_less_Suc: "w \<noteq> - 1 \<Longrightarrow> w < w + (1 :: 'a::len word)"
  by (metis inc_less_eq_triv_imp linorder_less_linear not_less)

lemma unat_minus_one_word64: "unat (- 1 :: u64) = 2 ^ 64 - 1"
  by (simp add: unsigned_minus_1_eq_mask mask_eq_exp_minus_1)

section \<open>Partial maps\<close>

lemma partial_map_eqI: "(\<And>a v. f a = Some v \<longleftrightarrow> g a = Some v) \<Longrightarrow> f = g"
proof
  fix a assume eq: "\<And>a v. f a = Some v \<longleftrightarrow> g a = Some v"
  show "f a = g a"
  proof (cases "g a")
    case None
    with eq [of a "the (f a)"] show ?thesis by (cases "f a") simp_all
  next
    case (Some v)
    with eq [of a v] show ?thesis by simp
  qed
qed

section \<open>Tables searched from the front\<close>

text \<open>
  The loops \<open>for (i = 0; i < N; i++) if (P(&t[i])) return i;\<close> of the source: the index of
  the first entry that satisfies the condition.
\<close>

fun find_index :: "('a \<Rightarrow> bool) \<Rightarrow> 'a list \<Rightarrow> nat option" where
  "find_index P [] = None"
| "find_index P (x # xs) = (if P x then Some 0 else map_option Suc (find_index P xs))"

lemma find_index_None [simp]: "find_index P xs = None \<longleftrightarrow> (\<forall>x \<in> set xs. \<not> P x)"
  by (induction xs) auto

lemma find_index_Some:
  "find_index P xs = Some i \<longleftrightarrow> i < length xs \<and> P (xs ! i) \<and> (\<forall>j < i. \<not> P (xs ! j))"
proof (induction xs arbitrary: i)
  case Nil
  show ?case by simp
next
  case (Cons x xs)
  show ?case
  proof (cases i)
    case 0
    then show ?thesis by auto
  next
    case (Suc k)
    then show ?thesis using Cons.IH [of k] by (auto simp: less_Suc_eq_0_disj)
  qed
qed

lemma find_index_SomeD:
  assumes "find_index P xs = Some i"
  shows "i < length xs" and "P (xs ! i)"
  using assms by (auto simp: find_index_Some)

lemma find_index_cong_nth:
  assumes "length xs = length ys" and "\<And>i. i < length xs \<Longrightarrow> P (xs ! i) = Q (ys ! i)"
  shows "find_index P xs = find_index Q ys"
proof (cases "find_index P xs")
  case None
  then have "find_index Q ys = None"
    using assms by (metis find_index_None in_set_conv_nth)
  with None show ?thesis by (simp only:)
next
  case (Some i)
  then have "find_index Q ys = Some i" using assms by (auto simp: find_index_Some)
  with Some show ?thesis by simp
qed

lemma find_index_update_other:
  assumes "i < length xs" and "\<not> P (xs ! i)" and "\<not> P e"
  shows "find_index P (xs[i := e]) = find_index P xs"
  using assms by (intro find_index_cong_nth) (auto simp: nth_list_update)

section \<open>Loops over a range\<close>

text \<open>\<open>for (x : xs) body\<close>, where the body may be undefined.\<close>

fun each :: "('a \<Rightarrow> 's \<Rightarrow> 's ub) \<Rightarrow> 'a list \<Rightarrow> 's \<Rightarrow> 's ub" where
  "each f [] s = Some s"
| "each f (x # xs) s = Option.bind (f x s) (each f xs)"

lemma each_append: "each f (xs @ ys) s = Option.bind (each f xs s) (each f ys)"
proof (induction xs arbitrary: s)
  case (Cons x xs)
  show ?case by (cases "f x s") (simp_all add: Cons)
qed simp

text \<open>An invariant of the body under which the body is defined.\<close>

lemma each_defined:
  assumes "P s" and "\<And>x s. x \<in> set xs \<Longrightarrow> P s \<Longrightarrow> \<exists>s'. f x s = Some s' \<and> P s'"
  shows "\<exists>s'. each f xs s = Some s' \<and> P s'"
  using assms
proof (induction xs arbitrary: s)
  case (Cons x xs)
  from Cons.prems(2) [of x s] Cons.prems(1) obtain s1 where s1: "f x s = Some s1" "P s1" by auto
  have "\<exists>s'. each f xs s1 = Some s' \<and> P s'" by (rule Cons.IH [OF s1(2)]) (use Cons.prems(2) in auto)
  with s1 show ?case by simp
qed simp

text \<open>A value \<open>v\<close> read off the state that every step but one leaves alone gets its value from that
  step; \<open>P\<close> is an invariant under which the steps are defined.\<close>

lemma each_point:
  assumes "P s" and "distinct xs"
    and step: "\<And>x s. x \<in> set xs \<Longrightarrow> P s \<Longrightarrow> \<exists>s'. f x s = Some s' \<and> P s' \<and> v s' = (if Q x then g x (v s) else v s)"
    and one: "\<And>x y. x \<in> set xs \<Longrightarrow> y \<in> set xs \<Longrightarrow> Q x \<Longrightarrow> Q y \<Longrightarrow> x = y"
  shows "\<exists>s'. each f xs s = Some s' \<and> P s' \<and> v s' = (case List.find Q xs of None \<Rightarrow> v s | Some x \<Rightarrow> g x (v s))"
  using assms
proof (induction xs arbitrary: s)
  case Nil
  then show ?case by simp
next
  case (Cons x xs)
  from Cons.prems(3) [OF _ Cons.prems(1), of x] obtain s1 where s1: "f x s = Some s1" "P s1"
    "v s1 = (if Q x then g x (v s) else v s)" by auto
  have "\<exists>s'. each f xs s1 = Some s' \<and> P s' \<and> v s' = (case List.find Q xs of None \<Rightarrow> v s1 | Some x \<Rightarrow> g x (v s1))"
    by (rule Cons.IH [OF s1(2)]) (use Cons.prems in auto)
  moreover have "Q x \<Longrightarrow> List.find Q xs = None"
    unfolding find_None_iff using Cons.prems(2,4) by auto
  ultimately show ?case using s1 by (auto split: option.split)
qed

text \<open>An \<open>int\<close> whose value is representable; the overflow is undefined.\<close>

definition c_int :: "int \<Rightarrow> int ub" where
  "c_int i = (if - (2 ^ 31) \<le> i \<and> i < 2 ^ 31 then Some i else undef)"

lemma c_int_Some [simp]: "- (2 ^ 31) \<le> i \<Longrightarrow> i < 2 ^ 31 \<Longrightarrow> c_int i = Some i"
  by (simp add: c_int_def)

lemma c_int_SomeD: "c_int i = Some j \<Longrightarrow> j = i \<and> - (2 ^ 31) \<le> i \<and> i < 2 ^ 31"
  by (simp add: c_int_def split: if_splits)

end
