(* ===== verification/X86State.thy ===== *)
theory X86State
  imports Base
begin

text \<open>
  The processor state of \<open>Sources/CPU/wg_x86_state.{h,c}\<close>: the record of the registers, the
  reset state, register and flag access, and the three routines that compute the arithmetic
  flags. The general registers are a function from the register index; the source's array has
  16 elements, and every use of an index that does not come from a constant is guarded by
  \<^verbatim>\<open>reg_ok\<close> in the interpreter. The x87 registers \<open>st[8]\<close> are
  never read or written by the sources and are left out.
\<close>

section \<open>The record\<close>

record cpu =
  gpr :: "nat \<Rightarrow> u64"
  rip :: u64
  rflags :: u64
  xmm :: "nat \<Rightarrow> u64 \<times> u64"
  mxcsr :: u32
  seg_cs :: u16
  seg_ds :: u16
  seg_es :: u16
  seg_fs :: u16
  seg_gs :: u16
  seg_ss :: u16
  fpu_control :: u16
  fpu_status :: u16
  fpu_top :: int
  halted :: bool
  interrupt_pending :: bool
  interrupt_vector :: u8
  instruction_count :: u64

definition WG_REG_RAX :: nat where "WG_REG_RAX = 0"
definition WG_REG_RCX :: nat where "WG_REG_RCX = 1"
definition WG_REG_RDX :: nat where "WG_REG_RDX = 2"
definition WG_REG_RBX :: nat where "WG_REG_RBX = 3"
definition WG_REG_RSP :: nat where "WG_REG_RSP = 4"
definition WG_REG_RBP :: nat where "WG_REG_RBP = 5"
definition WG_REG_COUNT :: nat where "WG_REG_COUNT = 16"

lemmas reg_defs [c_model] = WG_REG_RAX_def WG_REG_RCX_def WG_REG_RDX_def WG_REG_RBX_def
  WG_REG_RSP_def WG_REG_RBP_def WG_REG_COUNT_def

definition WG_FLAG_CF :: u64 where "WG_FLAG_CF = push_bit 0 1"
definition WG_FLAG_PF :: u64 where "WG_FLAG_PF = push_bit 2 1"
definition WG_FLAG_AF :: u64 where "WG_FLAG_AF = push_bit 4 1"
definition WG_FLAG_ZF :: u64 where "WG_FLAG_ZF = push_bit 6 1"
definition WG_FLAG_SF :: u64 where "WG_FLAG_SF = push_bit 7 1"
definition WG_FLAG_IF :: u64 where "WG_FLAG_IF = push_bit 9 1"
definition WG_FLAG_DF :: u64 where "WG_FLAG_DF = push_bit 10 1"
definition WG_FLAG_OF :: u64 where "WG_FLAG_OF = push_bit 11 1"

lemmas flag_defs = WG_FLAG_CF_def WG_FLAG_PF_def WG_FLAG_AF_def WG_FLAG_ZF_def WG_FLAG_SF_def
  WG_FLAG_IF_def WG_FLAG_DF_def WG_FLAG_OF_def

text \<open>\<open>wg_x86_state_reset\<close>: everything zeroed, then the fields that are not.\<close>

definition wg_x86_state_reset :: "cpu \<Rightarrow> cpu" where
  "wg_x86_state_reset s =
     \<lparr>gpr = (\<lambda>_. 0), rip = 0, rflags = WG_FLAG_IF OR 0x2, xmm = (\<lambda>_. (0, 0)), mxcsr = 0x1F80,
      seg_cs = 0x33, seg_ds = 0x2B, seg_es = 0x2B, seg_fs = 0, seg_gs = 0, seg_ss = 0x2B,
      fpu_control = 0x037F, fpu_status = 0, fpu_top = 0, halted = False,
      interrupt_pending = False, interrupt_vector = 0, instruction_count = 0\<rparr>"

definition wg_x86_set_reg :: "cpu \<Rightarrow> nat \<Rightarrow> u64 \<Rightarrow> cpu" where
  "wg_x86_set_reg s r val = (if r < WG_REG_COUNT then s\<lparr>gpr := (gpr s)(r := val)\<rparr> else s)"

definition wg_x86_get_reg :: "cpu \<Rightarrow> nat \<Rightarrow> u64" where
  "wg_x86_get_reg s r = (if r < WG_REG_COUNT then gpr s r else 0)"

definition wg_x86_set_rip :: "cpu \<Rightarrow> u64 \<Rightarrow> cpu" where
  "wg_x86_set_rip s v = s\<lparr>rip := v\<rparr>"

definition wg_x86_get_rip :: "cpu \<Rightarrow> u64" where
  "wg_x86_get_rip s = rip s"

section \<open>Flags\<close>

definition wg_x86_set_flag :: "cpu \<Rightarrow> u64 \<Rightarrow> bool \<Rightarrow> cpu" where
  "wg_x86_set_flag s flag val =
     (if val then s\<lparr>rflags := rflags s OR flag\<rparr> else s\<lparr>rflags := rflags s AND NOT flag\<rparr>)"

definition wg_x86_get_flag :: "cpu \<Rightarrow> u64 \<Rightarrow> bool" where
  "wg_x86_get_flag s flag \<longleftrightarrow> rflags s AND flag \<noteq> 0"

definition parity :: "u8 \<Rightarrow> bool" where
  "parity v =
     (let v = v XOR drop_bit 4 v;
          v = v XOR drop_bit 2 v;
          v = v XOR drop_bit 1 v
      in v AND 1 = 0)"

text \<open>
  \<open>bits\<close> is 8, 16, 32 or 64 in every call, so the shift by \<open>bits - 1\<close> is defined.
\<close>

definition sign_bit :: "nat \<Rightarrow> u64" where
  "sign_bit bits = push_bit (bits - 1) 1"

definition mask_for_bits :: "nat \<Rightarrow> u64" where
  "mask_for_bits bits = (if bits \<ge> 64 then NOT 0 else push_bit bits 1 - 1)"

definition wg_x86_update_flags_add :: "cpu \<Rightarrow> u64 \<Rightarrow> u64 \<Rightarrow> u64 \<Rightarrow> nat \<Rightarrow> cpu" where
  "wg_x86_update_flags_add s a b result bits =
     (let m = mask_for_bits bits;
          sb = sign_bit bits;
          r = result AND m;
          s = wg_x86_set_flag s WG_FLAG_CF (m < result);
          s = wg_x86_set_flag s WG_FLAG_ZF (r = 0);
          s = wg_x86_set_flag s WG_FLAG_SF (r AND sb \<noteq> 0);
          s = wg_x86_set_flag s WG_FLAG_OF ((a XOR result) AND (b XOR result) AND sb \<noteq> 0);
          s = wg_x86_set_flag s WG_FLAG_AF ((a XOR b XOR result) AND 0x10 \<noteq> 0)
      in wg_x86_set_flag s WG_FLAG_PF (parity (ucast r)))"

definition wg_x86_update_flags_sub :: "cpu \<Rightarrow> u64 \<Rightarrow> u64 \<Rightarrow> u64 \<Rightarrow> nat \<Rightarrow> cpu" where
  "wg_x86_update_flags_sub s a b result bits =
     (let m = mask_for_bits bits;
          sb = sign_bit bits;
          r = result AND m;
          s = wg_x86_set_flag s WG_FLAG_CF (a < b);
          s = wg_x86_set_flag s WG_FLAG_ZF (r = 0);
          s = wg_x86_set_flag s WG_FLAG_SF (r AND sb \<noteq> 0);
          s = wg_x86_set_flag s WG_FLAG_OF ((a XOR b) AND (a XOR result) AND sb \<noteq> 0);
          s = wg_x86_set_flag s WG_FLAG_AF ((a XOR b XOR result) AND 0x10 \<noteq> 0)
      in wg_x86_set_flag s WG_FLAG_PF (parity (ucast r)))"

definition wg_x86_update_flags_logic :: "cpu \<Rightarrow> u64 \<Rightarrow> nat \<Rightarrow> cpu" where
  "wg_x86_update_flags_logic s result bits =
     (let m = mask_for_bits bits;
          sb = sign_bit bits;
          r = result AND m;
          s = wg_x86_set_flag s WG_FLAG_CF False;
          s = wg_x86_set_flag s WG_FLAG_OF False;
          s = wg_x86_set_flag s WG_FLAG_ZF (r = 0);
          s = wg_x86_set_flag s WG_FLAG_SF (r AND sb \<noteq> 0)
      in wg_x86_set_flag s WG_FLAG_PF (parity (ucast r)))"

section \<open>Reading back what was written\<close>

lemma get_reg_set_reg:
  "wg_x86_get_reg (wg_x86_set_reg s r v) q = (if q = r \<and> r < 16 then v else wg_x86_get_reg s q)"
  by (simp add: wg_x86_get_reg_def wg_x86_set_reg_def WG_REG_COUNT_def)

lemma and_push_bit_1: "(x :: u64) AND push_bit k 1 \<noteq> 0 \<longleftrightarrow> bit x k"
  by (simp add: bit_iff_and_push_bit_not_eq_0)

lemma get_flag_set_flag:
  "i < 64 \<Longrightarrow>
    wg_x86_get_flag (wg_x86_set_flag s (push_bit i 1) v) (push_bit j 1)
      = (if i = j then v else wg_x86_get_flag s (push_bit j 1))"
  by (auto simp: wg_x86_get_flag_def wg_x86_set_flag_def and_push_bit_1 bit_simps
      simp del: push_bit_of_1 dest: bit_imp_le_length)

lemma set_flag_gpr [simp]: "gpr (wg_x86_set_flag s f v) = gpr s"
  and set_flag_rip [simp]: "rip (wg_x86_set_flag s f v) = rip s"
  and set_flag_xmm [simp]: "xmm (wg_x86_set_flag s f v) = xmm s"
  by (simp_all add: wg_x86_set_flag_def)

lemma update_flags_gpr [simp]:
  "gpr (wg_x86_update_flags_add s a b r n) = gpr s"
  "gpr (wg_x86_update_flags_sub s a b r n) = gpr s"
  "gpr (wg_x86_update_flags_logic s r n) = gpr s"
  by (simp_all add: wg_x86_update_flags_add_def wg_x86_update_flags_sub_def
      wg_x86_update_flags_logic_def Let_def)

lemma update_flags_rip [simp]:
  "rip (wg_x86_update_flags_add s a b r n) = rip s"
  "rip (wg_x86_update_flags_sub s a b r n) = rip s"
  "rip (wg_x86_update_flags_logic s r n) = rip s"
  by (simp_all add: wg_x86_update_flags_add_def wg_x86_update_flags_sub_def
      wg_x86_update_flags_logic_def Let_def)

section \<open>What each flag is after an update\<close>

lemma flags_of_add:
  "wg_x86_get_flag (wg_x86_update_flags_add s a b r n) WG_FLAG_CF = (mask_for_bits n < r)"
  "wg_x86_get_flag (wg_x86_update_flags_add s a b r n) WG_FLAG_ZF = (r AND mask_for_bits n = 0)"
  "wg_x86_get_flag (wg_x86_update_flags_add s a b r n) WG_FLAG_SF
     = ((r AND mask_for_bits n) AND sign_bit n \<noteq> 0)"
  "wg_x86_get_flag (wg_x86_update_flags_add s a b r n) WG_FLAG_OF
     = ((a XOR r) AND (b XOR r) AND sign_bit n \<noteq> 0)"
  "wg_x86_get_flag (wg_x86_update_flags_add s a b r n) WG_FLAG_PF
     = parity (ucast (r AND mask_for_bits n))"
  by (simp_all add: wg_x86_update_flags_add_def Let_def flag_defs get_flag_set_flag
      del: push_bit_of_1 push_bit_0_id)

lemma flags_of_sub:
  "wg_x86_get_flag (wg_x86_update_flags_sub s a b r n) WG_FLAG_CF = (a < b)"
  "wg_x86_get_flag (wg_x86_update_flags_sub s a b r n) WG_FLAG_ZF = (r AND mask_for_bits n = 0)"
  "wg_x86_get_flag (wg_x86_update_flags_sub s a b r n) WG_FLAG_SF
     = ((r AND mask_for_bits n) AND sign_bit n \<noteq> 0)"
  "wg_x86_get_flag (wg_x86_update_flags_sub s a b r n) WG_FLAG_OF
     = ((a XOR b) AND (a XOR r) AND sign_bit n \<noteq> 0)"
  "wg_x86_get_flag (wg_x86_update_flags_sub s a b r n) WG_FLAG_PF
     = parity (ucast (r AND mask_for_bits n))"
  by (simp_all add: wg_x86_update_flags_sub_def Let_def flag_defs get_flag_set_flag
      del: push_bit_of_1 push_bit_0_id)

lemma flags_of_logic:
  "\<not> wg_x86_get_flag (wg_x86_update_flags_logic s r n) WG_FLAG_CF"
  "\<not> wg_x86_get_flag (wg_x86_update_flags_logic s r n) WG_FLAG_OF"
  "wg_x86_get_flag (wg_x86_update_flags_logic s r n) WG_FLAG_ZF = (r AND mask_for_bits n = 0)"
  "wg_x86_get_flag (wg_x86_update_flags_logic s r n) WG_FLAG_SF
     = ((r AND mask_for_bits n) AND sign_bit n \<noteq> 0)"
  "wg_x86_get_flag (wg_x86_update_flags_logic s r n) WG_FLAG_PF
     = parity (ucast (r AND mask_for_bits n))"
  by (simp_all add: wg_x86_update_flags_logic_def Let_def flag_defs get_flag_set_flag
      del: push_bit_of_1 push_bit_0_id)

section \<open>The flags as arithmetic facts\<close>

text \<open>The value of the low \<open>n\<close> bits of a word as a two's complement number.\<close>

definition sval :: "nat \<Rightarrow> u64 \<Rightarrow> int" where
  "sval n w = (if bit w (n - 1) then uint w - 2 ^ n else uint w)"

definition fits :: "nat \<Rightarrow> u64 \<Rightarrow> bool" where
  "fits n w \<longleftrightarrow> uint w < 2 ^ n"

lemma mask_for_bits_eq: "n \<le> 64 \<Longrightarrow> mask_for_bits n = mask n"
  by (auto simp: mask_for_bits_def mask_eq_exp_minus_1 simp flip: mask_eq_exp_minus_1)
    (simp add: mask_eq_exp_minus_1)

lemma uint_mask64: "n \<le> 64 \<Longrightarrow> uint (mask n :: u64) = 2 ^ n - 1"
  by (subst uint_mask_eq) (simp add: mask_eq_exp_minus_1 min_def)

lemma and_sign_bit: "0 < n \<Longrightarrow> (x AND sign_bit n \<noteq> 0) = bit x (n - 1)"
  unfolding sign_bit_def by (rule and_push_bit_1)

text \<open>The sign bit of an integer in the range of a sum or difference of two \<open>n\<close>-bit values.\<close>

lemma int_sign_bit:
  fixes k :: int
  assumes "- 2 * 2 ^ m \<le> k" and "k < 2 * 2 ^ m"
  shows "bit k m \<longleftrightarrow> (- (2 ^ m) \<le> k \<and> k < 0) \<or> 2 ^ m \<le> k"
proof -
  let ?H = "2 ^ m :: int"
  have H: "0 < ?H" by simp
  have b: "bit k m = odd (k div ?H)" by (simp add: bit_iff_odd)
  consider "k < - ?H" | "- ?H \<le> k" "k < 0" | "0 \<le> k" "k < ?H" | "?H \<le> k" by linarith
  then show ?thesis
  proof cases
    case 1
    then have "k div ?H = - 2" using assms by (intro int_div_pos_eq [of _ _ _ "k + 2 * ?H"]) auto
    then have "\<not> bit k m" by (simp add: b)
    moreover have "\<not> (- ?H \<le> k \<and> k < 0)" "\<not> ?H \<le> k" using 1 H by linarith+
    ultimately show ?thesis by blast
  next
    case 2
    then have "k div ?H = - 1" by (intro int_div_pos_eq [of _ _ _ "k + ?H"]) auto
    with 2 b show ?thesis by simp
  next
    case 3
    then have "k div ?H = 0" by simp
    with 3 b show ?thesis by simp
  next
    case 4
    then have "k div ?H = 1" using assms by (intro int_div_pos_eq [of _ _ _ "k - ?H"]) auto
    with 4 b show ?thesis by simp
  qed
qed

lemma bit_minus_sign:
  assumes "m < 64"
  shows "bit (a - b :: u64) m = bit (uint a - uint b) m"
proof -
  have "bit (a - b) m = bit (uint (a - b)) m" using assms by (simp add: bit_uint_iff)
  also have "uint (a - b) = take_bit 64 (uint a - uint b)"
    by (simp add: uint_word_ariths take_bit_eq_mod)
  finally show ?thesis using assms by (simp add: bit_take_bit_iff)
qed

lemma bit_plus_sign:
  assumes "m < 64"
  shows "bit (a + b :: u64) m = bit (uint a + uint b) m"
proof -
  have "bit (a + b) m = bit (uint (a + b)) m" using assms by (simp add: bit_uint_iff)
  also have "uint (a + b) = take_bit 64 (uint a + uint b)"
    by (simp add: uint_word_ariths take_bit_eq_mod)
  finally show ?thesis using assms by (simp add: bit_take_bit_iff)
qed

lemma bit_fits_sign:
  assumes "0 < n" and "n \<le> 64" and "fits n a"
  shows "bit a (n - 1) \<longleftrightarrow> 2 ^ (n - 1) \<le> uint a"
proof -
  have n: "2 * 2 ^ (n - 1) = (2 :: int) ^ n" using assms(1) by (cases n) auto
  have A: "uint a < 2 * 2 ^ (n - 1)"
    unfolding n using assms(3) by (simp add: fits_def)
  have "n - 1 < 64" using assms by simp
  then have "bit a (n - 1) = bit (uint a) (n - 1)"
    by (simp add: bit_uint_iff)
  also have "\<dots> \<longleftrightarrow> 2 ^ (n - 1) \<le> uint a"
  proof (subst int_sign_bit)
    show "- 2 * 2 ^ (n - 1) \<le> uint a" by (rule order_trans [of _ 0]) simp_all
  qed (use A in auto)
  finally show ?thesis .
qed

lemma uint_minus_mod: "uint (a - b :: u64) = (uint a - uint b) mod 2 ^ 64"
  and uint_plus_mod: "uint (a + b :: u64) = (uint a + uint b) mod 2 ^ 64"
  by (simp_all add: uint_word_ariths)

lemma zero_iff_mod:
  assumes "n \<le> 64"
  shows "(r :: u64) AND mask_for_bits n = 0 \<longleftrightarrow> 2 ^ n dvd uint r"
  using assms by (simp add: mask_for_bits_eq and_mask_dvd [symmetric])

lemma sf_bit:
  assumes "0 < n" and "n \<le> 64"
  shows "((r :: u64) AND mask_for_bits n) AND sign_bit n \<noteq> 0 \<longleftrightarrow> bit r (n - 1)"
proof -
  have "n - 1 < 64" "n - 1 < n" using assms by auto
  then show ?thesis
    using assms by (simp only: and_sign_bit mask_for_bits_eq) (simp add: bit_simps)
qed

text \<open>The bounds of the \<open>n\<close>-bit signed range, and the arithmetic behind both overflow tests.\<close>

definition in_signed_range :: "nat \<Rightarrow> int \<Rightarrow> bool" where
  "in_signed_range n v \<longleftrightarrow> - (2 ^ (n - 1)) \<le> v \<and> v < 2 ^ (n - 1)"

lemma sub_flags_arith:
  fixes s :: cpu and a b :: u64
  assumes n: "0 < n" "n \<le> 64" and a: "fits n a" and b: "fits n b"
  defines "s' \<equiv> wg_x86_update_flags_sub s a b (a - b) n"
  shows "wg_x86_get_flag s' WG_FLAG_CF \<longleftrightarrow> unat a < unat b"
    and "wg_x86_get_flag s' WG_FLAG_ZF \<longleftrightarrow> a = b"
    and "wg_x86_get_flag s' WG_FLAG_OF \<longleftrightarrow> \<not> in_signed_range n (sval n a - sval n b)"
    and "wg_x86_get_flag s' WG_FLAG_SF \<noteq> wg_x86_get_flag s' WG_FLAG_OF
           \<longleftrightarrow> sval n a < sval n b"
proof -
  define H A B where "H = (2 :: int) ^ (n - 1)" and "A = uint a" and "B = uint b"
  have H: "0 < H" "2 ^ n = 2 * H" using n(1) unfolding H_def by (cases n; simp)+
  have A: "0 \<le> A" "A < 2 * H" and B: "0 \<le> B" "B < 2 * H"
    using a b unfolding A_def B_def fits_def H(2) [symmetric] by simp_all
  have sa: "bit a (n - 1) \<longleftrightarrow> H \<le> A" and sb: "bit b (n - 1) \<longleftrightarrow> H \<le> B"
    using bit_fits_sign [OF n] a b unfolding A_def B_def H_def by blast+
  have sr: "bit (a - b) (n - 1) \<longleftrightarrow> (- H \<le> A - B \<and> A - B < 0) \<or> H \<le> A - B"
  proof -
    have "- 2 * 2 ^ (n - 1) \<le> A - B" "A - B < 2 * 2 ^ (n - 1)"
      using A B unfolding H_def by linarith+
    from int_sign_bit [OF this] bit_minus_sign [of "n - 1" a b] show ?thesis
      using n unfolding A_def B_def H_def by simp
  qed
  have va: "sval n a = (if H \<le> A then A - 2 * H else A)"
    and vb: "sval n b = (if H \<le> B then B - 2 * H else B)"
    using H(2) sa sb by (simp_all add: sval_def A_def B_def)
  show "wg_x86_get_flag s' WG_FLAG_CF \<longleftrightarrow> unat a < unat b"
    by (simp add: s'_def flags_of_sub word_less_nat_alt)
  show "wg_x86_get_flag s' WG_FLAG_ZF \<longleftrightarrow> a = b"
  proof -
    have "wg_x86_get_flag s' WG_FLAG_ZF \<longleftrightarrow> 2 ^ n dvd A - B"
      unfolding s'_def flags_of_sub(2) zero_iff_mod [OF n(2)] A_def B_def uint_minus_mod
      by (rule dvd_mod_iff [OF le_imp_power_dvd [OF n(2)]])
    also have "\<dots> \<longleftrightarrow> A - B = 0"
    proof
      assume d: "2 ^ n dvd A - B"
      show "A - B = 0"
      proof (rule ccontr)
        assume "A - B \<noteq> 0"
        from dvd_imp_le_int [OF this d] show False using A B H by simp
      qed
    qed simp
    finally show ?thesis by (simp add: A_def B_def word_uint_eq_iff)
  qed
  have of: "wg_x86_get_flag s' WG_FLAG_OF
      \<longleftrightarrow> bit a (n - 1) \<noteq> bit b (n - 1) \<and> bit a (n - 1) \<noteq> bit (a - b) (n - 1)"
    using n by (simp add: s'_def flags_of_sub and.assoc [symmetric] and_sign_bit bit_simps)
  then show "wg_x86_get_flag s' WG_FLAG_OF \<longleftrightarrow> \<not> in_signed_range n (sval n a - sval n b)"
    using A B H unfolding sa sb sr va vb in_signed_range_def H_def [symmetric] by (auto split: if_splits)
  have sf: "wg_x86_get_flag s' WG_FLAG_SF \<longleftrightarrow> bit (a - b) (n - 1)"
    using n by (simp only: s'_def flags_of_sub sf_bit)
  show "wg_x86_get_flag s' WG_FLAG_SF \<noteq> wg_x86_get_flag s' WG_FLAG_OF
           \<longleftrightarrow> sval n a < sval n b"
    using A B H unfolding sf of sa sb sr va vb by (auto split: if_splits)
qed

lemma add_flags_arith:
  fixes s :: cpu and a b :: u64
  assumes n: "0 < n" "n < 64" and a: "fits n a" and b: "fits n b"
  defines "s' \<equiv> wg_x86_update_flags_add s a b (a + b) n"
  shows "wg_x86_get_flag s' WG_FLAG_CF \<longleftrightarrow> 2 ^ n \<le> uint a + uint b"
    and "wg_x86_get_flag s' WG_FLAG_ZF \<longleftrightarrow> (uint a + uint b) mod 2 ^ n = 0"
    and "wg_x86_get_flag s' WG_FLAG_OF \<longleftrightarrow> \<not> in_signed_range n (sval n a + sval n b)"
    and "wg_x86_get_flag s' WG_FLAG_SF \<longleftrightarrow> bit (uint a + uint b) (n - 1)"
proof -
  define H A B where "H = (2 :: int) ^ (n - 1)" and "A = uint a" and "B = uint b"
  have n': "n \<le> 64" using n by simp
  have H: "0 < H" "2 ^ n = 2 * H" using n(1) unfolding H_def by (cases n; simp)+
  have A: "0 \<le> A" "A < 2 * H" and B: "0 \<le> B" "B < 2 * H"
    using a b unfolding A_def B_def fits_def H(2) [symmetric] by simp_all
  have sa: "bit a (n - 1) \<longleftrightarrow> H \<le> A" and sb: "bit b (n - 1) \<longleftrightarrow> H \<le> B"
    using bit_fits_sign [OF n(1) n'] a b unfolding A_def B_def H_def by blast+
  have sr: "bit (a + b) (n - 1) = bit (A + B) (n - 1)"
    using n by (simp add: bit_plus_sign A_def B_def)
  have sr': "bit (A + B) (n - 1) \<longleftrightarrow> (H \<le> A + B \<and> A + B < 2 * H) \<or> 3 * H \<le> A + B"
  proof (cases "A + B < 2 * H")
    case True
    then have "- 2 * 2 ^ (n - 1) \<le> A + B" "A + B < 2 * 2 ^ (n - 1)"
      using A B H unfolding H_def by linarith+
    from int_sign_bit [OF this] True show ?thesis using A B H unfolding H_def by auto
  next
    case False
    have "bit (A + B) (n - 1) = bit (A + B - 2 * H) (n - 1)"
    proof -
      have "(A + B - 2 * H) div H = (A + B) div H - 2"
        using div_mult_self1 [of H "A + B" "- 2"] H by simp
      then show ?thesis unfolding bit_iff_odd H_def [symmetric] by simp
    qed
    moreover have "- 2 * 2 ^ (n - 1) \<le> A + B - 2 * H" "A + B - 2 * H < 2 * 2 ^ (n - 1)"
      using False A B H unfolding H_def by linarith+
    ultimately show ?thesis using int_sign_bit [of "n - 1" "A + B - 2 * H"] False A B H
      unfolding H_def by auto
  qed
  have va: "sval n a = (if H \<le> A then A - 2 * H else A)"
    and vb: "sval n b = (if H \<le> B then B - 2 * H else B)"
    using H(2) sa sb by (simp_all add: sval_def A_def B_def)
  have small: "A + B < 2 ^ 64"
  proof -
    have "(2 :: int) * 2 ^ n \<le> 2 ^ 64"
      using power_increasing [of "Suc n" 64 "2 :: int"] n by simp
    then show ?thesis using A B H(2) by linarith
  qed
  then have ab: "uint (a + b) = A + B"
    unfolding uint_plus_mod A_def [symmetric] B_def [symmetric] using A B by (simp add: mod_pos_pos_trivial)
  show "wg_x86_get_flag s' WG_FLAG_CF \<longleftrightarrow> 2 ^ n \<le> uint a + uint b"
    unfolding s'_def flags_of_add mask_for_bits_eq [OF n'] word_less_def uint_mask64 [OF n'] ab
    unfolding A_def B_def by linarith
  show "wg_x86_get_flag s' WG_FLAG_ZF \<longleftrightarrow> (uint a + uint b) mod 2 ^ n = 0"
    unfolding s'_def flags_of_add(2) zero_iff_mod [OF n'] ab A_def B_def
    by (simp add: dvd_eq_mod_eq_0)
  have of: "wg_x86_get_flag s' WG_FLAG_OF
      \<longleftrightarrow> bit a (n - 1) \<noteq> bit (a + b) (n - 1) \<and> bit b (n - 1) \<noteq> bit (a + b) (n - 1)"
    using n by (simp add: s'_def flags_of_add and.assoc [symmetric] and_sign_bit bit_simps)
  show "wg_x86_get_flag s' WG_FLAG_OF \<longleftrightarrow> \<not> in_signed_range n (sval n a + sval n b)"
    using A B H unfolding of sa sb sr sr' va vb in_signed_range_def H_def [symmetric]
    by (auto split: if_splits)
  show "wg_x86_get_flag s' WG_FLAG_SF \<longleftrightarrow> bit (uint a + uint b) (n - 1)"
    using sr n' n unfolding A_def B_def by (simp only: s'_def flags_of_add sf_bit)
qed

section \<open>Parity\<close>

text \<open>The three folding steps compute the parity of the number of one bits.\<close>

lemma parity_bits:
  "parity v \<longleftrightarrow> \<not> (((bit v 0 \<noteq> bit v 4) \<noteq> (bit v 2 \<noteq> bit v 6)) \<noteq>
                  ((bit v 1 \<noteq> bit v 5) \<noteq> (bit v 3 \<noteq> bit v 7)))"
proof -
  have "x AND 1 = 0 \<longleftrightarrow> \<not> bit x 0" for x :: u8
    by (simp add: and_one_eq bit_0 odd_iff_mod_2_eq_one)
  then show ?thesis
    unfolding parity_def Let_def
    by (simp add: bit_xor_iff bit_drop_bit_eq numeral_3_eq_3 del: bit_0)
qed

lemma parity_even_popcount: "parity v \<longleftrightarrow> even (card {i. i < 8 \<and> bit v i})"
proof -
  have "{i. i < 8 \<and> bit v i} = {..<8} \<inter> Collect (bit v)" by auto
  then have "card {i. i < 8 \<and> bit v i} = (\<Sum>i<8. of_bool (bit v i))"
    by simp
  also have "\<dots> = of_bool (bit v 0) + of_bool (bit v 1) + of_bool (bit v 2) + of_bool (bit v 3)
      + of_bool (bit v 4) + of_bool (bit v 5) + of_bool (bit v 6) + of_bool (bit v 7)"
    by (simp add: eval_nat_numeral del: bit_0)
  finally show ?thesis
    unfolding parity_bits by (simp del: bit_0)
qed

end
