(* ===== verification/Interfaces.thy ===== *)
theory Interfaces
  imports Base
begin

text \<open>
  The interfaces of the development, each a locale: \<open>handle_table\<close> and
  \<open>handle_table_free\<close> for the tables that give out Win32 handles (files, device contexts,
  bitmaps, windows, threads), \<open>lifo\<close> for a stack inside a larger state, and
  \<open>byte_memory\<close> for a byte-addressed guest memory. The client lemmas are proved once here; each component that provides an interface interprets it
  on its own operations.
\<close>

section \<open>Tables of handles\<close>

text \<open>
  A table of entries, some of them live, each live one carrying a 32-bit handle. The provider
  promises that allocation takes an entry that is not live, gives it the value of a counter as
  its handle and increments the counter, and that an allocation that fails leaves the entries
  alone. \<open>wf\<close> is the provider's own invariant.
\<close>

locale handle_table =
  fixes live :: "'e \<Rightarrow> bool"
    and hnd :: "'e \<Rightarrow> u32"
    and entries :: "'s \<Rightarrow> 'e list"
    and counter :: "'s \<Rightarrow> u32"
    and wf :: "'s \<Rightarrow> bool"
    and alloc :: "'a \<Rightarrow> 's \<Rightarrow> u32 option \<times> 's"
  assumes alloc_some: "wf s \<Longrightarrow> alloc a s = (Some h, s') \<Longrightarrow>
      h = counter s \<and> counter s' = counter s + 1 \<and>
      (\<exists>i e. i < length (entries s) \<and> \<not> live (entries s ! i) \<and> live e \<and> hnd e = h \<and>
         entries s' = (entries s)[i := e])"
    and alloc_none: "wf s \<Longrightarrow> alloc a s = (None, s') \<Longrightarrow>
      entries s' = entries s \<and> counter s' = counter s"
    and wf_alloc: "wf s \<Longrightarrow> wf (snd (alloc a s))"
begin

definition owner :: "'s \<Rightarrow> u32 \<Rightarrow> nat option" where
  "owner s h = find_index (\<lambda>e. live e \<and> hnd e = h) (entries s)"

definition issued_below :: "'s \<Rightarrow> bool" where
  "issued_below s \<longleftrightarrow> (\<forall>e \<in> set (entries s). live e \<longrightarrow> hnd e < counter s)"

definition handles_unique :: "'s \<Rightarrow> bool" where
  "handles_unique s \<longleftrightarrow> (\<forall>i < length (entries s). \<forall>j < length (entries s).
     live (entries s ! i) \<and> live (entries s ! j) \<and> hnd (entries s ! i) = hnd (entries s ! j)
       \<longrightarrow> i = j)"

definition table_inv :: "'s \<Rightarrow> bool" where
  "table_inv s \<longleftrightarrow> wf s \<and> issued_below s \<and> handles_unique s"

lemma table_invD: "table_inv s \<Longrightarrow> wf s" "table_inv s \<Longrightarrow> issued_below s"
  "table_inv s \<Longrightarrow> handles_unique s"
  by (simp_all add: table_inv_def)

lemma empty_inv:
  assumes "wf s" and "\<forall>e \<in> set (entries s). \<not> live e"
  shows "table_inv s"
proof -
  have "\<not> live (entries s ! i)" if "i < length (entries s)" for i using assms(2) nth_mem [OF that] by blast
  then have "handles_unique s" unfolding handles_unique_def by blast
  moreover have "issued_below s" using assms(2) by (simp add: issued_below_def)
  ultimately show ?thesis using assms(1) by (simp add: table_inv_def)
qed

text \<open>A handle that allocation returns belonged to no live entry before.\<close>

lemma alloc_handle_fresh:
  assumes inv: "table_inv s" and al: "alloc a s = (Some h, s')"
  shows "owner s h = None"
proof -
  have "h = counter s" using alloc_some [OF table_invD(1) [OF inv] al] by simp
  then show ?thesis
    using table_invD(2) [OF inv] by (auto simp: owner_def issued_below_def)
qed

lemma alloc_owner:
  assumes inv: "table_inv s" and al: "alloc a s = (Some h, s')"
  shows "\<exists>i. owner s' h = Some i \<and> i < length (entries s) \<and> \<not> live (entries s ! i)"
proof -
  obtain i e where i: "i < length (entries s)" "\<not> live (entries s ! i)"
    and e: "live e" "hnd e = h" and s': "entries s' = (entries s)[i := e]"
    using alloc_some [OF table_invD(1) [OF inv] al] by blast
  have "\<forall>x \<in> set (entries s). \<not> (live x \<and> hnd x = h)"
    using alloc_handle_fresh [OF inv al] by (simp add: owner_def)
  then have "\<forall>j < length (entries s). \<not> (live (entries s ! j) \<and> hnd (entries s ! j) = h)"
    by simp
  then have "owner s' h = Some i"
    using i e by (auto simp: owner_def s' find_index_Some nth_list_update)
  with i show ?thesis by blast
qed

lemma alloc_owner_other:
  assumes inv: "table_inv s" and al: "alloc a s = (Some h, s')" and ne: "k \<noteq> h"
  shows "owner s' k = owner s k"
proof -
  obtain i e where i: "i < length (entries s)" "\<not> live (entries s ! i)"
    and e: "live e" "hnd e = h" and s': "entries s' = (entries s)[i := e]"
    using alloc_some [OF table_invD(1) [OF inv] al] by blast
  show ?thesis
    unfolding owner_def s'
    by (rule find_index_update_other) (use i e ne in auto)
qed

lemma alloc_inv:
  assumes inv: "table_inv s" and al: "alloc a s = (Some h, s')"
    and room: "counter s \<noteq> - 1"
  shows "table_inv s'"
proof -
  note wf = table_invD(1) [OF inv]
  obtain i e where i: "i < length (entries s)" "\<not> live (entries s ! i)"
    and e: "live e" "hnd e = h" and s': "entries s' = (entries s)[i := e]"
    and c: "h = counter s" "counter s' = counter s + 1"
    using alloc_some [OF wf al] by blast
  have up: "counter s < counter s + 1"
    using room by (rule word_less_Suc)
  have old: "\<And>x. x \<in> set (entries s) \<Longrightarrow> live x \<Longrightarrow> hnd x < counter s"
    using table_invD(2) [OF inv] by (auto simp: issued_below_def)
  have "hnd x < counter s'" if x: "x \<in> set (entries s')" "live x" for x
  proof -
    have "x = e \<or> x \<in> set (entries s)"
      using x(1) set_update_subset_insert [of "entries s" i e] by (auto simp: s')
    then show ?thesis
    proof
      assume "x = e"
      then show ?thesis using e(2) c up by simp
    next
      assume "x \<in> set (entries s)"
      from old [OF this x(2)] up show ?thesis unfolding c(2) by (rule less_trans)
    qed
  qed
  then have "issued_below s'" by (simp add: issued_below_def)
  moreover have "handles_unique s'"
    unfolding handles_unique_def
  proof (intro allI impI, elim conjE)
    fix j k assume j: "j < length (entries s')" and k: "k < length (entries s')"
      and lv: "live (entries s' ! j)" "live (entries s' ! k)"
      and eq: "hnd (entries s' ! j) = hnd (entries s' ! k)"
    have ne: "hnd (entries s ! m) \<noteq> h" if "m < length (entries s)" "live (entries s ! m)" for m
      using old [of "entries s ! m"] that c by force
    have upd: "entries s' ! m = (if m = i then e else entries s ! m)" for m
      using i(1) by (simp add: s')
    have len: "length (entries s') = length (entries s)" by (simp add: s')
    have uniq: "j = k" if "j \<noteq> i" "k \<noteq> i"
      using table_invD(3) [OF inv] that j k lv eq unfolding handles_unique_def upd len by simp
    have "j \<noteq> i \<Longrightarrow> k = i \<Longrightarrow> False" and "k \<noteq> i \<Longrightarrow> j = i \<Longrightarrow> False"
      using ne [of j] ne [of k] j k lv eq e by (simp_all add: upd len)
    with uniq show "j = k" by blast
  qed
  moreover have "wf s'" using wf_alloc [OF wf, of a] al by simp
  ultimately show ?thesis by (simp add: table_inv_def)
qed

lemma alloc_fail_inv:
  assumes inv: "table_inv s" and al: "alloc a s = (None, s')"
  shows "table_inv s'"
  using alloc_none [OF table_invD(1) [OF inv] al] wf_alloc [OF table_invD(1) [OF inv], of a] al inv
  by (simp add: table_inv_def issued_below_def handles_unique_def)

end

text \<open>A table whose entries can also be released by handle.\<close>

locale handle_table_free = handle_table live hnd entries counter wf alloc
  for live :: "'e \<Rightarrow> bool"
    and hnd :: "'e \<Rightarrow> u32"
    and entries :: "'s \<Rightarrow> 'e list"
    and counter :: "'s \<Rightarrow> u32"
    and wf :: "'s \<Rightarrow> bool"
    and alloc :: "'a \<Rightarrow> 's \<Rightarrow> u32 option \<times> 's" +
  fixes release :: "u32 \<Rightarrow> 's \<Rightarrow> 's"
  assumes release_absent: "wf s \<Longrightarrow>
      find_index (\<lambda>e. live e \<and> hnd e = h) (entries s) = None \<Longrightarrow> entries (release h s) = entries s"
    and release_present: "wf s \<Longrightarrow>
      find_index (\<lambda>e. live e \<and> hnd e = h) (entries s) = Some i \<Longrightarrow>
      \<exists>e. \<not> live e \<and> entries (release h s) = (entries s)[i := e]"
    and release_counter: "wf s \<Longrightarrow> counter (release h s) = counter s"
    and wf_release: "wf s \<Longrightarrow> wf (release h s)"
begin

lemma release_owner:
  assumes inv: "table_inv s"
  shows "owner (release h s) h = None"
proof (cases "owner s h")
  case None
  then show ?thesis
    using release_absent [OF table_invD(1) [OF inv]] by (simp add: owner_def)
next
  case (Some i)
  then have fi: "find_index (\<lambda>e. live e \<and> hnd e = h) (entries s) = Some i"
    by (simp add: owner_def)
  then obtain e where e: "\<not> live e" "entries (release h s) = (entries s)[i := e]"
    using release_present [OF table_invD(1) [OF inv]] by blast
  have i: "i < length (entries s)" "live (entries s ! i)" "hnd (entries s ! i) = h"
    using find_index_SomeD [OF fi] by auto
  have "\<not> (live x \<and> hnd x = h)" if "x \<in> set (entries (release h s))" for x
  proof -
    from that obtain j where j: "j < length (entries s)" "x = (entries s)[i := e] ! j"
      by (auto simp: e in_set_conv_nth)
    show ?thesis
      using table_invD(3) [OF inv] i j e(1)
      by (auto simp: nth_list_update handles_unique_def split: if_splits)
  qed
  then show ?thesis by (simp add: owner_def)
qed

lemma release_owner_other:
  assumes inv: "table_inv s" and ne: "k \<noteq> h"
  shows "owner (release h s) k = owner s k"
proof (cases "find_index (\<lambda>e. live e \<and> hnd e = h) (entries s)")
  case None
  then show ?thesis
    using release_absent [OF table_invD(1) [OF inv] None] by (simp add: owner_def)
next
  case (Some i)
  then obtain e where e: "\<not> live e" "entries (release h s) = (entries s)[i := e]"
    using release_present [OF table_invD(1) [OF inv]] by blast
  show ?thesis
    unfolding owner_def e(2)
    by (rule find_index_update_other) (use find_index_SomeD [OF Some] e ne in auto)
qed

lemma release_inv:
  assumes inv: "table_inv s"
  shows "table_inv (release h s)"
proof -
  note wf = table_invD(1) [OF inv]
  have sub: "(entries (release h s)) ! j = entries s ! j"
    if "j < length (entries (release h s))" "live (entries (release h s) ! j)" for j
  proof (cases "find_index (\<lambda>e. live e \<and> hnd e = h) (entries s)")
    case None
    then show ?thesis using release_absent [OF wf None] by simp
  next
    case (Some i)
    then obtain e where "\<not> live e" "entries (release h s) = (entries s)[i := e]"
      using release_present [OF wf] by blast
    then show ?thesis using that find_index_SomeD(1) [OF Some] by (cases "j = i") simp_all
  qed
  have len: "length (entries (release h s)) = length (entries s)"
    using release_absent [OF wf, of h] release_present [OF wf, of h]
    by (cases "find_index (\<lambda>e. live e \<and> hnd e = h) (entries s)") auto
  have "issued_below (release h s)"
    unfolding issued_below_def
  proof (intro ballI impI)
    fix e assume "e \<in> set (entries (release h s))" and lv: "live e"
    then obtain j where j: "j < length (entries (release h s))" "e = entries (release h s) ! j"
      by (auto simp: in_set_conv_nth)
    with sub lv len have "e \<in> set (entries s)" by (metis nth_mem)
    with lv show "hnd e < counter (release h s)"
      using table_invD(2) [OF inv] release_counter [OF wf] by (simp add: issued_below_def)
  qed
  moreover have "handles_unique (release h s)"
    using table_invD(3) [OF inv] sub len unfolding handles_unique_def by metis
  ultimately show ?thesis
    using wf_release [OF wf] by (simp add: table_inv_def)
qed

end

section \<open>Stacks\<close>

text \<open>
  A stack that lives in a larger state: \<open>top_words st n\<close> is the list of its \<open>n\<close> topmost words
  and \<open>room st k n\<close> says that \<open>k\<close> more words fit above \<open>n\<close> words that are in use. Whatever is
  pushed is popped in reverse order, and the words below are untouched.
\<close>

fun push_list :: "('v \<Rightarrow> 's \<Rightarrow> 's option) \<Rightarrow> 'v list \<Rightarrow> 's \<Rightarrow> 's option" where
  "push_list push [] st = Some st"
| "push_list push (v # vs) st = Option.bind (push v st) (push_list push vs)"

fun pop_list :: "('s \<Rightarrow> ('v \<times> 's) option) \<Rightarrow> nat \<Rightarrow> 's \<Rightarrow> ('v list \<times> 's) option" where
  "pop_list pop 0 st = Some ([], st)"
| "pop_list pop (Suc n) st = do {
     (v, st) \<leftarrow> pop st;
     (vs, st) \<leftarrow> pop_list pop n st;
     Some (v # vs, st)
   }"

locale lifo =
  fixes push :: "'v \<Rightarrow> 's \<Rightarrow> 's option"
    and pop :: "'s \<Rightarrow> ('v \<times> 's) option"
    and top_words :: "'s \<Rightarrow> nat \<Rightarrow> 'v list option"
    and room :: "'s \<Rightarrow> nat \<Rightarrow> nat \<Rightarrow> bool"
  assumes push_top: "\<lbrakk>room st (Suc k) n; push v st = Some st'; top_words st n = Some ws\<rbrakk> \<Longrightarrow>
      top_words st' (Suc n) = Some (v # ws)"
    and push_room: "\<lbrakk>room st (Suc k) n; push v st = Some st'\<rbrakk> \<Longrightarrow> room st' k (Suc n)"
    and pop_top: "top_words st (Suc n) = Some (v # ws) \<Longrightarrow>
      \<exists>st'. pop st = Some (v, st') \<and> top_words st' n = Some ws"
    and top_0: "top_words st 0 = Some []"
    and top_length: "top_words st n = Some ws \<Longrightarrow> length ws = n"
begin

lemma push_list_top:
  "\<lbrakk>push_list push vs st = Some st'; room st (length vs) n; top_words st n = Some ws\<rbrakk> \<Longrightarrow>
     top_words st' (length vs + n) = Some (rev vs @ ws)"
proof (induction vs arbitrary: st n ws)
  case Nil
  then show ?case by simp
next
  case (Cons v vs)
  from Cons.prems(1) obtain s1 where p: "push v st = Some s1" and r: "push_list push vs s1 = Some st'"
    by (auto split: bind_splits)
  have "room st (Suc (length vs)) n" using Cons.prems(2) by simp
  from Cons.IH [OF r push_room [OF this p] push_top [OF this p Cons.prems(3)]] show ?case by simp
qed

lemma pop_list_top:
  "top_words st (n + m) = Some (vs @ ws) \<Longrightarrow> length vs = n \<Longrightarrow>
     \<exists>st'. pop_list pop n st = Some (vs, st') \<and> top_words st' m = Some ws"
proof (induction n arbitrary: st vs)
  case 0
  then show ?case by simp
next
  case (Suc n)
  then obtain v vs' where vs: "vs = v # vs'" by (cases vs) auto
  from pop_top [of st "n + m" v "vs' @ ws"] Suc.prems(1) vs
  obtain s1 where p: "pop st = Some (v, s1)" and t: "top_words s1 (n + m) = Some (vs' @ ws)" by auto
  from Suc.IH [OF t] Suc.prems(2) vs obtain st' where
    "pop_list pop n s1 = Some (vs', st')" "top_words st' m = Some ws" by auto
  with p vs show ?case by simp
qed

lemma push_pop_list:
  assumes "push_list push vs st = Some st'" and "room st (length vs) n" and "top_words st n = Some ws"
  shows "\<exists>st''. pop_list pop (length vs) st' = Some (rev vs, st'') \<and> top_words st'' n = Some ws"
  using pop_list_top [OF push_list_top [OF assms]] by simp

end

section \<open>Byte-addressed guest memory\<close>

text \<open>
  The loops that copy a block to or from the guest one byte at a time and stop at the first
  address that is not mapped: the bytes copied so far stay copied.
\<close>

fun load_bytes :: "('m \<Rightarrow> u64 \<Rightarrow> u8 option) \<Rightarrow> 'm \<Rightarrow> u64 \<Rightarrow> nat \<Rightarrow> bool \<times> u8 list" where
  "load_bytes rd m a 0 = (True, [])"
| "load_bytes rd m a (Suc n) =
     (case rd m a of
        None \<Rightarrow> (False, [])
      | Some b \<Rightarrow> (case load_bytes rd m (a + 1) n of (ok, bs) \<Rightarrow> (ok, b # bs)))"

fun store_bytes :: "('m \<Rightarrow> u64 \<Rightarrow> u8 \<Rightarrow> 'm option) \<Rightarrow> 'm \<Rightarrow> u64 \<Rightarrow> u8 list \<Rightarrow> bool \<times> 'm" where
  "store_bytes wr m a [] = (True, m)"
| "store_bytes wr m a (b # bs) =
     (case wr m a b of
        None \<Rightarrow> (False, m)
      | Some m' \<Rightarrow> store_bytes wr m' (a + 1) bs)"

text \<open>
  The interface: a partial read and a partial write of one byte, defined on the same
  addresses, such that a write changes the byte at its own address and no other.
\<close>

locale byte_memory =
  fixes rd :: "'m \<Rightarrow> u64 \<Rightarrow> u8 option"
    and wr :: "'m \<Rightarrow> u64 \<Rightarrow> u8 \<Rightarrow> 'm option"
    and wf :: "'m \<Rightarrow> bool"
  assumes wr_defined: "wf m \<Longrightarrow> wr m a v = None \<longleftrightarrow> rd m a = None"
    and wf_wr: "wf m \<Longrightarrow> wr m a v = Some m' \<Longrightarrow> wf m'"
    and rd_wr: "wf m \<Longrightarrow> wr m a v = Some m' \<Longrightarrow>
      rd m' b = (if b = a then Some v else rd m b)"
begin

definition in_block :: "u64 \<Rightarrow> nat \<Rightarrow> u64 \<Rightarrow> bool" where
  "in_block a n x \<longleftrightarrow> unat (x - a) < n"

lemma in_block_Suc:
  "in_block a (Suc n) x \<longleftrightarrow> x = a \<or> in_block (a + 1) n x \<and> x \<noteq> a" if "n < 2 ^ 64"
proof (cases "x = a")
  case True
  then show ?thesis by (simp add: in_block_def)
next
  case False
  then have "x - a \<noteq> 0" by simp
  then have "unat (x - a - 1) = unat (x - a) - 1" and "0 < unat (x - a)"
    by (simp_all only: unat_minus_one unat_gt_0 not_False_eq_True)
  then have "unat (x - (a + 1)) = unat (x - a) - 1" "0 < unat (x - a)"
    by (simp_all only: diff_diff_eq)
  with False show ?thesis by (auto simp: in_block_def)
qed

lemma store_wf: "wf m \<Longrightarrow> wf (snd (store_bytes wr m a bs))"
  by (induction bs arbitrary: m a) (auto split: option.splits intro: wf_wr)

lemma store_frame:
  "wf m \<Longrightarrow> length bs < 2 ^ 64 \<Longrightarrow> \<not> in_block a (length bs) x \<Longrightarrow>
     rd (snd (store_bytes wr m a bs)) x = rd m x"
proof (induction bs arbitrary: m a)
  case Nil
  then show ?case by simp
next
  case (Cons b bs)
  from Cons.prems have out: "x \<noteq> a" "\<not> in_block (a + 1) (length bs) x"
    by (auto simp: in_block_Suc)
  show ?case
    using Cons.prems Cons.IH [OF wf_wr] out by (auto split: option.splits simp: rd_wr)
qed

lemma store_mapped:
  "wf m \<Longrightarrow> rd (snd (store_bytes wr m a bs)) x = None \<longleftrightarrow> rd m x = None"
proof (induction bs arbitrary: m a)
  case Nil
  then show ?case by simp
next
  case (Cons b bs)
  show ?case
  proof (cases "wr m a b")
    case None
    then show ?thesis by simp
  next
    case (Some m')
    then have "rd m a \<noteq> None" using wr_defined [OF Cons.prems] by (metis option.distinct(1))
    then show ?thesis
      using Some Cons.IH [OF wf_wr [OF Cons.prems Some]] rd_wr [OF Cons.prems Some, of x] by auto
  qed
qed

lemma store_ok_iff:
  "wf m \<Longrightarrow> fst (store_bytes wr m a bs) \<longleftrightarrow> (\<forall>i < length bs. rd m (a + of_nat i) \<noteq> None)"
proof (induction bs arbitrary: m a)
  case Nil
  then show ?case by simp
next
  case (Cons b bs)
  show ?case
  proof (cases "wr m a b")
    case None
    then have "rd m a = None" using wr_defined [OF Cons.prems] by blast
    with None show ?thesis by (auto intro: exI [of _ 0])
  next
    case (Some m')
    have ra: "rd m a \<noteq> None" using Some wr_defined [OF Cons.prems] by (metis option.distinct(1))
    have eq: "rd m' x = None \<longleftrightarrow> rd m x = None" for x
      using rd_wr [OF Cons.prems Some, of x] ra by auto
    show ?thesis
      using Some Cons.IH [OF wf_wr [OF Cons.prems Some]] ra
      by (simp add: eq All_less_Suc2 ac_simps)
  qed
qed

lemma load_after_store:
  "wf m \<Longrightarrow> length bs < 2 ^ 64 \<Longrightarrow> fst (store_bytes wr m a bs) \<Longrightarrow>
     load_bytes rd (snd (store_bytes wr m a bs)) a (length bs) = (True, bs)"
proof (induction bs arbitrary: m a)
  case Nil
  then show ?case by simp
next
  case (Cons b bs)
  from Cons.prems obtain m' where m': "wr m a b = Some m'" by (auto split: option.splits)
  have wf': "wf m'" by (rule wf_wr [OF Cons.prems(1) m'])
  have nin: "\<not> in_block (a + 1) (length bs) a"
  proof -
    have "a - (a + 1) = - 1" by simp
    then have "unat (a - (a + 1)) = 2 ^ 64 - 1" by (simp add: unat_minus_one_word64)
    then show ?thesis using Cons.prems(2) by (simp add: in_block_def)
  qed
  have "rd (snd (store_bytes wr m' (a + 1) bs)) a = Some b"
    using store_frame [OF wf' _ nin] Cons.prems(2) rd_wr [OF Cons.prems(1) m', of a] by simp
  moreover have "load_bytes rd (snd (store_bytes wr m' (a + 1) bs)) (a + 1) (length bs) = (True, bs)"
    using Cons.IH [OF wf'] Cons.prems m' by simp
  ultimately show ?case using m' by simp
qed

end

end
