(* ===== verification/GuestMemory.thy ===== *)
theory GuestMemory
  imports Interfaces
begin

text \<open>
  The guest address space of \<open>Sources/Memory/wg_memory.{h,c}\<close>: an array of at most 1024
  regions searched from the front, each with a zero-initialised host buffer. A host pointer
  into a buffer is the pair of the region's index and the offset. The accessors of 2, 4 and 8
  bytes copy with \<open>memcpy\<close> from the pointer that the first byte resolves to: when the
  access runs past the end of that region's buffer its behaviour is undefined. \<open>calloc\<close>
  may fail; whether it does is the argument \<open>calloc_ok\<close>.
\<close>

record mem_region =
  base :: u64
  rsize :: u64
  prot :: u32
  data :: "u8 list"

record mem_space =
  regions :: "mem_region list"
  total_size :: u64

definition WG_PAGE_SIZE :: u64 where "WG_PAGE_SIZE = 4096"
definition WG_MAX_REGIONS :: nat where "WG_MAX_REGIONS = 1024"

definition wg_memory_create :: "u64 \<Rightarrow> mem_space" where
  "wg_memory_create max_size = \<lparr>regions = [], total_size = max_size\<rparr>"

definition in_region :: "u64 \<Rightarrow> mem_region \<Rightarrow> bool" where
  "in_region addr r \<longleftrightarrow> base r \<le> addr \<and> addr < base r + rsize r"

definition find_region :: "mem_space \<Rightarrow> u64 \<Rightarrow> nat option" where
  "find_region mem addr = find_index (in_region addr) (regions mem)"

definition align_page :: "u64 \<Rightarrow> u64" where
  "align_page sz =
     (let aligned_size = (sz + WG_PAGE_SIZE - 1) AND NOT (WG_PAGE_SIZE - 1)
      in if aligned_size = 0 then WG_PAGE_SIZE else aligned_size)"

definition wg_memory_map :: "bool \<Rightarrow> mem_space \<Rightarrow> u64 \<Rightarrow> u64 \<Rightarrow> u32 \<Rightarrow> bool \<times> mem_space" where
  "wg_memory_map calloc_ok mem b sz p =
     (if WG_MAX_REGIONS \<le> length (regions mem) then (False, mem)
      else let aligned_size = align_page sz in
        if \<not> calloc_ok then (False, mem)
        else (True, mem\<lparr>regions := regions mem @
               [\<lparr>base = b, rsize = aligned_size, prot = p,
                 data = replicate (unat aligned_size) 0\<rparr>]\<rparr>))"

text \<open>\<open>regions[i] = regions[--num_regions]\<close>: the last region moves into the freed place.\<close>

definition wg_memory_unmap :: "mem_space \<Rightarrow> u64 \<Rightarrow> bool \<times> mem_space" where
  "wg_memory_unmap mem b =
     (case find_index (\<lambda>r. base r = b) (regions mem) of
        None \<Rightarrow> (False, mem)
      | Some i \<Rightarrow>
          (True, mem\<lparr>regions := butlast ((regions mem)[i := last (regions mem)])\<rparr>))"

definition wg_memory_protect :: "mem_space \<Rightarrow> u64 \<Rightarrow> u64 \<Rightarrow> u32 \<Rightarrow> bool \<times> mem_space" where
  "wg_memory_protect mem b sz p =
     (case find_region mem b of
        None \<Rightarrow> (False, mem)
      | Some i \<Rightarrow> (True, mem\<lparr>regions := (regions mem)[i := (regions mem ! i)\<lparr>prot := p\<rparr>]\<rparr>))"

definition resolve :: "mem_space \<Rightarrow> u64 \<Rightarrow> (nat \<times> nat) option" where
  "resolve mem addr =
     (case find_region mem addr of
        None \<Rightarrow> None
      | Some i \<Rightarrow> Some (i, unat (addr - base (regions mem ! i))))"

section \<open>Access through a host pointer\<close>

fun memcpy_from :: "mem_space \<Rightarrow> nat \<times> nat \<Rightarrow> nat \<Rightarrow> u8 list ub" where
  "memcpy_from mem (i, off) n =
     (if off + n \<le> length (data (regions mem ! i))
      then Some (take n (drop off (data (regions mem ! i)))) else undef)"

definition overwrite :: "'a list \<Rightarrow> nat \<Rightarrow> 'a list \<Rightarrow> 'a list" where
  "overwrite xs off ys = take off xs @ ys @ drop (off + length ys) xs"

fun memcpy_to :: "mem_space \<Rightarrow> nat \<times> nat \<Rightarrow> u8 list \<Rightarrow> mem_space ub" where
  "memcpy_to mem (i, off) bs =
     (if off + length bs \<le> length (data (regions mem ! i))
      then Some (mem\<lparr>regions := (regions mem)[i := (regions mem ! i)
             \<lparr>data := overwrite (data (regions mem ! i)) off bs\<rparr>]\<rparr>)
      else undef)"

definition wg_memory_read_u8 :: "mem_space \<Rightarrow> u64 \<Rightarrow> u8 ub" where
  "wg_memory_read_u8 mem addr =
     (case resolve mem addr of None \<Rightarrow> Some 0
      | Some p \<Rightarrow> map_option le_word (memcpy_from mem p 1))"

definition wg_memory_read_u16 :: "mem_space \<Rightarrow> u64 \<Rightarrow> u16 ub" where
  "wg_memory_read_u16 mem addr =
     (case resolve mem addr of None \<Rightarrow> Some 0
      | Some p \<Rightarrow> map_option le_word (memcpy_from mem p 2))"

definition wg_memory_read_u32 :: "mem_space \<Rightarrow> u64 \<Rightarrow> u32 ub" where
  "wg_memory_read_u32 mem addr =
     (case resolve mem addr of None \<Rightarrow> Some 0
      | Some p \<Rightarrow> map_option le_word (memcpy_from mem p 4))"

definition wg_memory_read_u64 :: "mem_space \<Rightarrow> u64 \<Rightarrow> u64 ub" where
  "wg_memory_read_u64 mem addr =
     (case resolve mem addr of None \<Rightarrow> Some 0
      | Some p \<Rightarrow> map_option le_word (memcpy_from mem p 8))"

definition wg_memory_write_u8 :: "mem_space \<Rightarrow> u64 \<Rightarrow> u8 \<Rightarrow> mem_space ub" where
  "wg_memory_write_u8 mem addr val =
     (case resolve mem addr of None \<Rightarrow> Some mem | Some p \<Rightarrow> memcpy_to mem p (le_bytes 1 val))"

definition wg_memory_write_u16 :: "mem_space \<Rightarrow> u64 \<Rightarrow> u16 \<Rightarrow> mem_space ub" where
  "wg_memory_write_u16 mem addr val =
     (case resolve mem addr of None \<Rightarrow> Some mem | Some p \<Rightarrow> memcpy_to mem p (le_bytes 2 val))"

definition wg_memory_write_u32 :: "mem_space \<Rightarrow> u64 \<Rightarrow> u32 \<Rightarrow> mem_space ub" where
  "wg_memory_write_u32 mem addr val =
     (case resolve mem addr of None \<Rightarrow> Some mem | Some p \<Rightarrow> memcpy_to mem p (le_bytes 4 val))"

definition wg_memory_write_u64 :: "mem_space \<Rightarrow> u64 \<Rightarrow> u64 \<Rightarrow> mem_space ub" where
  "wg_memory_write_u64 mem addr val =
     (case resolve mem addr of None \<Rightarrow> Some mem | Some p \<Rightarrow> memcpy_to mem p (le_bytes 8 val))"

text \<open>
  The bodies of the loops of \<open>wg_memory_read\<close> and \<open>wg_memory_write\<close>: one byte through the
  resolved pointer, \<open>None\<close> when \<open>resolve\<close> is NULL.
\<close>

definition load_at :: "mem_space \<Rightarrow> u64 \<Rightarrow> u8 option" where
  "load_at mem addr =
     (case resolve mem addr of None \<Rightarrow> None | Some (i, off) \<Rightarrow> Some (data (regions mem ! i) ! off))"

definition store_at :: "mem_space \<Rightarrow> u64 \<Rightarrow> u8 \<Rightarrow> mem_space option" where
  "store_at mem addr b =
     (case resolve mem addr of None \<Rightarrow> None
      | Some (i, off) \<Rightarrow> Some (mem\<lparr>regions := (regions mem)[i := (regions mem ! i)
             \<lparr>data := (data (regions mem ! i))[off := b]\<rparr>]\<rparr>))"

definition wg_memory_read :: "mem_space \<Rightarrow> u64 \<Rightarrow> nat \<Rightarrow> bool \<times> u8 list" where
  "wg_memory_read mem addr len = load_bytes load_at mem addr len"

definition wg_memory_write :: "mem_space \<Rightarrow> u64 \<Rightarrow> u8 list \<Rightarrow> bool \<times> mem_space" where
  "wg_memory_write mem addr bs = store_bytes store_at mem addr bs"

section \<open>Well-formed spaces\<close>

definition wf_mem :: "mem_space \<Rightarrow> bool" where
  "wf_mem mem \<longleftrightarrow> length (regions mem) \<le> WG_MAX_REGIONS \<and>
     (\<forall>r \<in> set (regions mem). length (data r) = unat (rsize r) \<and> rsize r \<noteq> 0)"

lemma wf_memD: "wf_mem mem \<Longrightarrow> i < length (regions mem) \<Longrightarrow>
    length (data (regions mem ! i)) = unat (rsize (regions mem ! i))"
  by (simp add: wf_mem_def)

lemma in_region_offset: "in_region a r \<Longrightarrow> unat (a - base r) < unat (rsize r)"
proof -
  assume "in_region a r"
  then have le: "base r \<le> a" and lt: "a < base r + rsize r" by (simp_all add: in_region_def)
  have "unat (base r + rsize r) \<le> unat (base r) + unat (rsize r)"
    by (simp add: unat_word_ariths)
  then show ?thesis
    using le lt by (simp add: word_less_nat_alt word_le_nat_alt unat_sub)
qed

lemma resolve_SomeD:
  assumes "wf_mem mem" and "resolve mem a = Some (i, off)"
  shows "i < length (regions mem)" and "off < length (data (regions mem ! i))"
    and "off = unat (a - base (regions mem ! i))" and "in_region a (regions mem ! i)"
proof -
  have fr: "find_region mem a = Some i" and off: "off = unat (a - base (regions mem ! i))"
    using assms(2) by (auto simp: resolve_def split: option.splits)
  show i: "i < length (regions mem)" and r: "in_region a (regions mem ! i)"
    using fr find_index_SomeD unfolding find_region_def by blast+
  show "off < length (data (regions mem ! i))"
    using off in_region_offset [OF r] wf_memD [OF assms(1) i] by simp
  show "off = unat (a - base (regions mem ! i))" by (rule off)
qed

lemma length_overwrite [simp]:
  "off + length ys \<le> length xs \<Longrightarrow> length (overwrite xs off ys) = length xs"
  by (simp add: overwrite_def)

lemma wf_mem_create: "wf_mem (wg_memory_create n)"
  by (simp add: wf_mem_def wg_memory_create_def)

lemma align_page_nonzero: "align_page n \<noteq> 0"
  by (simp add: align_page_def Let_def WG_PAGE_SIZE_def)

lemma wf_mem_map: "wf_mem mem \<Longrightarrow> wf_mem (snd (wg_memory_map ok mem b n p))"
  by (auto simp: wf_mem_def wg_memory_map_def Let_def align_page_nonzero)

lemma set_butlast_update:
  "i < length xs \<Longrightarrow> set (butlast (xs[i := last xs])) \<subseteq> set xs"
proof
  fix x assume i: "i < length xs" and "x \<in> set (butlast (xs[i := last xs]))"
  then have "x \<in> set (xs[i := last xs])" by (auto dest: in_set_butlastD)
  moreover have "last xs \<in> set xs" using i by (intro last_in_set) auto
  ultimately show "x \<in> set xs" using set_update_subset_insert [of xs i "last xs"] by auto
qed

lemma wf_mem_unmap: "wf_mem mem \<Longrightarrow> wf_mem (snd (wg_memory_unmap mem b))"
  using set_butlast_update
  by (fastforce simp: wf_mem_def wg_memory_unmap_def split: option.splits
      dest: find_index_SomeD(1))

lemma wf_mem_update:
  assumes "wf_mem mem" and "i < length (regions mem)"
    and "length (data r) = unat (rsize r)" and "rsize r \<noteq> 0"
  shows "wf_mem (mem\<lparr>regions := (regions mem)[i := r]\<rparr>)"
  using assms set_update_subset_insert [of "regions mem" i r] by (auto simp: wf_mem_def)

lemma wf_mem_rsize: "wf_mem mem \<Longrightarrow> i < length (regions mem) \<Longrightarrow> rsize (regions mem ! i) \<noteq> 0"
  by (simp add: wf_mem_def)

lemma wf_mem_protect: "wf_mem mem \<Longrightarrow> wf_mem (snd (wg_memory_protect mem b n p))"
  by (auto simp: wg_memory_protect_def find_region_def wf_memD wf_mem_rsize
      intro!: wf_mem_update split: option.splits dest: find_index_SomeD(1))

lemma wf_memcpy_to:
  assumes "wf_mem mem" and "resolve mem a = Some p" and "memcpy_to mem p bs = Some mem'"
  shows "wf_mem mem'"
proof (cases p)
  case (Pair i off)
  show ?thesis
    using assms resolve_SomeD(1) [OF assms(1), of a i off] unfolding Pair
    by (auto simp: wf_memD wf_mem_rsize intro!: wf_mem_update split: if_splits)
qed

lemma wf_mem_write_u64: "wf_mem mem \<Longrightarrow> wg_memory_write_u64 mem a v = Some mem' \<Longrightarrow> wf_mem mem'"
  and wf_mem_write_u32: "wf_mem mem \<Longrightarrow> wg_memory_write_u32 mem a w = Some mem' \<Longrightarrow> wf_mem mem'"
  and wf_mem_write_u16: "wf_mem mem \<Longrightarrow> wg_memory_write_u16 mem a x = Some mem' \<Longrightarrow> wf_mem mem'"
  and wf_mem_write_u8: "wf_mem mem \<Longrightarrow> wg_memory_write_u8 mem a y = Some mem' \<Longrightarrow> wf_mem mem'"
  by (auto simp: wg_memory_write_u64_def wg_memory_write_u32_def wg_memory_write_u16_def
      wg_memory_write_u8_def simp del: memcpy_to.simps split: option.splits intro: wf_memcpy_to)

lemmas wf_mem_writes = wf_mem_write_u64 wf_mem_write_u32 wf_mem_write_u16 wf_mem_write_u8

section \<open>Same layout, same resolution\<close>

definition layout :: "mem_space \<Rightarrow> (u64 \<times> u64) list" where
  "layout mem = map (\<lambda>r. (base r, rsize r)) (regions mem)"

lemma layout_nth:
  assumes "layout mem' = layout mem" and "i < length (regions mem)"
  shows "base (regions mem' ! i) = base (regions mem ! i)"
    and "rsize (regions mem' ! i) = rsize (regions mem ! i)"
proof -
  have "length (regions mem') = length (regions mem)"
    using assms(1) unfolding layout_def by (rule map_eq_imp_length_eq)
  moreover have "layout mem' ! i = layout mem ! i" using assms(1) by simp
  ultimately show "base (regions mem' ! i) = base (regions mem ! i)"
    and "rsize (regions mem' ! i) = rsize (regions mem ! i)"
    using assms(2) by (simp_all add: layout_def)
qed

lemma resolve_cong_layout:
  assumes "layout mem' = layout mem"
  shows "resolve mem' a = resolve mem a"
proof -
  have len: "length (regions mem') = length (regions mem)"
    using assms unfolding layout_def by (rule map_eq_imp_length_eq)
  have fr: "find_region mem' a = find_region mem a"
    unfolding find_region_def
    by (rule find_index_cong_nth) (use len layout_nth [OF assms] in \<open>simp_all add: in_region_def\<close>)
  show ?thesis
  proof (cases "find_region mem a")
    case None
    with fr show ?thesis by (simp add: resolve_def)
  next
    case (Some i)
    then have "i < length (regions mem)"
      unfolding find_region_def by (rule find_index_SomeD(1))
    with fr Some show ?thesis by (simp add: resolve_def layout_nth(1) [OF assms])
  qed
qed

lemma layout_data_update [simp]:
  "layout (mem\<lparr>regions := (regions mem)[i := (regions mem ! i)\<lparr>data := d\<rparr>]\<rparr>) = layout mem"
  by (cases "i < length (regions mem)")
    (simp_all add: layout_def map_update list_update_same_conv list_update_beyond)

lemma layout_memcpy_to: "memcpy_to mem p bs = Some mem' \<Longrightarrow> layout mem' = layout mem"
  by (cases p) (auto split: if_splits)

lemma layout_store_at: "store_at mem a v = Some mem' \<Longrightarrow> layout mem' = layout mem"
  by (auto simp: store_at_def split: option.splits)

section \<open>The space as a byte memory\<close>

text \<open>\<open>mem_view\<close>: the abstract memory, a partial map from addresses to bytes.\<close>

definition mem_view :: "mem_space \<Rightarrow> u64 \<rightharpoonup> u8" where
  "mem_view mem = load_at mem"

lemma offset_inj: "unat (a - c) = unat (b - c) \<Longrightarrow> a = (b :: u64)"
  by (drule unsigned_word_eqI) simp

lemma load_store_at:
  assumes wf: "wf_mem mem" and st: "store_at mem a v = Some mem'"
  shows "load_at mem' b = (if b = a then Some v else load_at mem b)"
proof -
  obtain i off where ra: "resolve mem a = Some (i, off)"
    and mem': "mem' = mem\<lparr>regions := (regions mem)[i := (regions mem ! i)
        \<lparr>data := (data (regions mem ! i))[off := v]\<rparr>]\<rparr>"
    using st by (auto simp: store_at_def split: option.splits)
  note a = resolve_SomeD [OF wf ra]
  have rb: "resolve mem' b = resolve mem b"
    by (rule resolve_cong_layout [OF layout_store_at [OF st]])
  show ?thesis
  proof (cases "resolve mem b")
    case None
    with rb ra show ?thesis by (auto simp: load_at_def)
  next
    case (Some q)
    obtain j off' where q: "q = (j, off')" by (cases q)
    note b = resolve_SomeD [OF wf Some [unfolded q]]
    show ?thesis
    proof (cases "b = a")
      case True
      with ra rb a show ?thesis by (simp add: load_at_def mem')
    next
      case False
      then have "i = j \<Longrightarrow> off \<noteq> off'" using a(3) b(3) offset_inj by metis
      with False Some q rb a show ?thesis by (auto simp: load_at_def mem' nth_list_update)
    qed
  qed
qed

lemma wf_store_at: "wf_mem mem \<Longrightarrow> store_at mem a v = Some mem' \<Longrightarrow> wf_mem mem'"
  using resolve_SomeD(1) [of mem a]
  by (auto simp: store_at_def wf_memD wf_mem_rsize intro!: wf_mem_update split: option.splits)

interpretation guest: byte_memory load_at store_at wf_mem
proof unfold_locales
  show "store_at m a v = None \<longleftrightarrow> load_at m a = None" if "wf_mem m" for m a v
    by (auto simp: store_at_def load_at_def split: option.splits)
qed (fact wf_store_at, fact load_store_at)

section \<open>Fixed-size accesses\<close>

text \<open>A fixed-size access is inside its region: it starts unmapped, or it does not run past
  the end of the region it starts in.\<close>

definition access_ok :: "mem_space \<Rightarrow> u64 \<Rightarrow> nat \<Rightarrow> bool" where
  "access_ok mem a n =
     (case resolve mem a of None \<Rightarrow> True
      | Some (i, off) \<Rightarrow> off + n \<le> length (data (regions mem ! i)))"

definition mapped :: "mem_space \<Rightarrow> u64 \<Rightarrow> bool" where
  "mapped mem a \<longleftrightarrow> resolve mem a \<noteq> None"

lemma read_defined_iff:
  "wg_memory_read_u16 mem a \<noteq> undef \<longleftrightarrow> access_ok mem a 2"
  "wg_memory_read_u32 mem a \<noteq> undef \<longleftrightarrow> access_ok mem a 4"
  "wg_memory_read_u64 mem a \<noteq> undef \<longleftrightarrow> access_ok mem a 8"
  by (auto simp: wg_memory_read_u16_def wg_memory_read_u32_def wg_memory_read_u64_def
      access_ok_def split: option.splits prod.splits)

lemma write_defined_iff:
  "wg_memory_write_u16 mem a x \<noteq> undef \<longleftrightarrow> access_ok mem a 2"
  "wg_memory_write_u32 mem a y \<noteq> undef \<longleftrightarrow> access_ok mem a 4"
  "wg_memory_write_u64 mem a z \<noteq> undef \<longleftrightarrow> access_ok mem a 8"
  by (auto simp: wg_memory_write_u16_def wg_memory_write_u32_def wg_memory_write_u64_def
      access_ok_def split: option.splits prod.splits)

lemma access_ok_1: "wf_mem mem \<Longrightarrow> access_ok mem a 1"
  using resolve_SomeD(2) by (fastforce simp: access_ok_def split: option.splits)

lemma read_u8_view:
  "wf_mem mem \<Longrightarrow>
     wg_memory_read_u8 mem a = Some (case mem_view mem a of None \<Rightarrow> 0 | Some b \<Rightarrow> b)"
  using resolve_SomeD(2) [of mem a]
  by (auto simp: wg_memory_read_u8_def mem_view_def load_at_def take_Suc_conv_app_nth
      hd_drop_conv_nth Suc_le_eq take_Suc split: option.splits)

lemma write_u8_store:
  assumes "wf_mem mem"
  shows "wg_memory_write_u8 mem a v =
    Some (case store_at mem a v of None \<Rightarrow> mem | Some mem' \<Rightarrow> mem')"
  using resolve_SomeD(2) [OF assms, of a]
  by (auto simp: wg_memory_write_u8_def store_at_def overwrite_def upd_conv_take_nth_drop Suc_le_eq
      split: option.splits)

lemma nth_overwrite:
  assumes "off + length ys \<le> length xs" and "k < length xs"
  shows "overwrite xs off ys ! k = (if off \<le> k \<and> k < off + length ys then ys ! (k - off) else xs ! k)"
  using assms by (auto simp: overwrite_def nth_append min_def)

lemma take_drop_overwrite_same:
  "off + length ys \<le> length xs \<Longrightarrow> take (length ys) (drop off (overwrite xs off ys)) = ys"
  by (simp add: overwrite_def)

lemma take_drop_overwrite_disjoint:
  assumes "off + length ys \<le> length xs" and "o2 + n \<le> length xs"
    and "o2 + n \<le> off \<or> off + length ys \<le> o2"
  shows "take n (drop o2 (overwrite xs off ys)) = take n (drop o2 xs)"
  by (rule nth_equalityI) (use assms in \<open>auto simp: nth_overwrite\<close>)

text \<open>Reading through the pointer that was just written gives the bytes back.\<close>

lemma memcpy_from_to_same:
  assumes "wf_mem mem" and "resolve mem a = Some p" and "memcpy_to mem p bs = Some mem'"
  shows "memcpy_from mem' p (length bs) = Some bs"
  using assms resolve_SomeD(1) [of mem a]
  by (cases p) (auto simp: take_drop_overwrite_same split: if_splits)

text \<open>Two accesses are apart when neither reaches the other's first byte going upwards.\<close>

definition apart :: "u64 \<Rightarrow> nat \<Rightarrow> u64 \<Rightarrow> nat \<Rightarrow> bool" where
  "apart a n b m \<longleftrightarrow> n \<le> unat (b - a) \<and> m \<le> unat (a - b)"

lemma unat_diff_cases:
  "unat (a - b) = (if unat b \<le> unat a then unat a - unat b else 2 ^ 64 + unat a - unat b)"
  for a b :: u64
proof -
  have "unat a < 2 ^ LENGTH(64)" and "unat b < 2 ^ LENGTH(64)" by (rule unsigned_less)+
  then show ?thesis by (simp add: unat_sub_if') linarith
qed

lemma apart_offsets:
  assumes "apart a n b m"
  shows "unat (b - c) + m \<le> unat (a - c) \<or> unat (a - c) + n \<le> unat (b - c)"
proof -
  have "b - a = (b - c) - (a - c)" and "a - b = (a - c) - (b - c)" by simp_all
  then have "n \<le> unat ((b - c) - (a - c))" and "m \<le> unat ((a - c) - (b - c))"
    using assms by (simp_all add: apart_def)
  then show ?thesis
    unfolding unat_diff_cases [of "b - c" "a - c"] unat_diff_cases [of "a - c" "b - c"]
    by (simp split: if_splits)
qed

lemma memcpy_from_to_apart:
  assumes wf: "wf_mem mem" and ra: "resolve mem a = Some p" and rb: "resolve mem b = Some q"
    and ap: "apart a (length bs) b m" and w: "memcpy_to mem p bs = Some mem'"
  shows "memcpy_from mem' q m = memcpy_from mem q m"
proof -
  obtain i off where p: "p = (i, off)" by (cases p)
  obtain j o2 where q: "q = (j, o2)" by (cases q)
  note a = resolve_SomeD [OF wf ra [unfolded p]] and b = resolve_SomeD [OF wf rb [unfolded q]]
  have off: "i = j \<Longrightarrow> o2 + m \<le> off \<or> off + length bs \<le> o2"
    using apart_offsets [OF ap] a(3) b(3) by simp
  have in_i: "off + length bs \<le> length (data (regions mem ! i))"
    and mem': "mem' = mem\<lparr>regions := (regions mem)[i := (regions mem ! i)
       \<lparr>data := overwrite (data (regions mem ! i)) off bs\<rparr>]\<rparr>"
    using w p by (auto split: if_splits)
  show ?thesis
  proof (cases "i = j")
    case True
    then show ?thesis
      using a(1) in_i off by (simp add: q mem' take_drop_overwrite_disjoint)
  next
    case False
    then show ?thesis using b(1) by (simp add: q mem')
  qed
qed

lemma read_write_u64:
  assumes "wf_mem mem" and "mapped mem a" and "wg_memory_write_u64 mem a v = Some mem'"
  shows "wg_memory_read_u64 mem' a = Some v"
proof -
  obtain p where p: "resolve mem a = Some p" using assms(2) by (auto simp: mapped_def)
  then have w: "memcpy_to mem p (le_bytes 8 v) = Some mem'"
    using assms(3) by (simp add: wg_memory_write_u64_def)
  have "memcpy_from mem' p 8 = Some (le_bytes 8 v)"
    using memcpy_from_to_same [OF assms(1) p w] by simp
  then show ?thesis
    using p resolve_cong_layout [OF layout_memcpy_to [OF w]]
    by (simp add: wg_memory_read_u64_def le_word_le_bytes_full)
qed

lemma read_u64_apart:
  assumes "wf_mem mem" and "wg_memory_write_u64 mem a v = Some mem'" and "apart a 8 b 8"
  shows "wg_memory_read_u64 mem' b = wg_memory_read_u64 mem b"
proof (cases "resolve mem a")
  case None
  with assms(2) show ?thesis by (simp add: wg_memory_write_u64_def)
next
  case (Some p)
  then have w: "memcpy_to mem p (le_bytes 8 v) = Some mem'"
    using assms(2) by (simp add: wg_memory_write_u64_def)
  note rs = resolve_cong_layout [OF layout_memcpy_to [OF w]]
  show ?thesis
    using memcpy_from_to_apart [OF assms(1) Some _ _ w, of b] assms(3)
    by (auto simp: wg_memory_read_u64_def rs split: option.splits)
qed

lemma write_u64_mapped:
  "wg_memory_write_u64 mem a v = Some mem' \<Longrightarrow> mapped mem' b = mapped mem b"
  using resolve_cong_layout [OF layout_memcpy_to, of mem _ _ mem' b]
  by (auto simp: wg_memory_write_u64_def mapped_def simp del: memcpy_to.simps split: option.splits)

lemma access_ok_layout:
  assumes "wf_mem mem" and "wf_mem mem'" and l: "layout mem' = layout mem"
  shows "access_ok mem' a n = access_ok mem a n"
proof (cases "resolve mem a")
  case None
  then show ?thesis by (simp add: access_ok_def resolve_cong_layout [OF l])
next
  case (Some p)
  obtain i off where p: "p = (i, off)" by (cases p)
  note r = resolve_SomeD [OF assms(1) Some [unfolded p]]
  have "i < length (regions mem')"
    using r(1) map_eq_imp_length_eq [OF l [unfolded layout_def]] by simp
  then have "length (data (regions mem' ! i)) = length (data (regions mem ! i))"
    using wf_memD assms r(1) layout_nth(2) [OF l] by simp
  with Some show ?thesis by (simp add: access_ok_def p resolve_cong_layout [OF l])
qed

section \<open>Mapping and unmapping, on the abstract memory\<close>

definition block :: "u64 \<Rightarrow> u64 \<Rightarrow> u64 \<rightharpoonup> u8" where
  "block b n = (\<lambda>a. if b \<le> a \<and> a < b + n then Some 0 else None)"

lemma find_index_append:
  "find_index P (xs @ ys) =
     (case find_index P xs of Some i \<Rightarrow> Some i
      | None \<Rightarrow> map_option (\<lambda>i. length xs + i) (find_index P ys))"
proof (induction xs)
  case Nil
  show ?case by (cases "find_index P ys") (simp_all del: find_index_None)
next
  case (Cons x xs)
  then show ?case
    by (cases "find_index P xs"; cases "find_index P ys") (auto simp del: find_index_None)
qed

text \<open>
  A successful map adds a zeroed block that is visible only where nothing was mapped before:
  the first region that contains an address wins, and nothing refuses an overlap.
\<close>

lemma mapped_view:
  assumes "wf_mem mem" and "wg_memory_map ok mem b n p = (True, mem')"
  shows "mem_view mem' = block b (align_page n) ++ mem_view mem"
proof
  fix a
  define r where "r = \<lparr>base = b, rsize = align_page n, prot = p,
      data = replicate (unat (align_page n)) (0 :: u8)\<rparr>"
  have mem': "regions mem' = regions mem @ [r]"
    using assms(2) by (auto simp: wg_memory_map_def Let_def r_def split: if_splits)
  have zero: "data r ! unat (a - b) = 0" if "in_region a r"
    using in_region_offset [OF that] by (simp add: r_def)
  show "mem_view mem' a = (block b (align_page n) ++ mem_view mem) a"
  proof (cases "find_region mem a")
    case None
    then have "find_region mem' a = (if in_region a r then Some (length (regions mem)) else None)"
      by (simp add: find_region_def mem' find_index_append del: find_index_None)
    then show ?thesis
      using None zero
      by (auto simp: mem_view_def load_at_def resolve_def mem' block_def map_add_def in_region_def r_def)
  next
    case (Some i)
    then have i: "i < length (regions mem)"
      unfolding find_region_def by (rule find_index_SomeD(1))
    have "find_region mem' a = Some i"
      using Some by (simp add: find_region_def mem' find_index_append)
    then show ?thesis
      using Some i by (simp add: mem_view_def load_at_def resolve_def mem' nth_append map_add_def)
  qed
qed

theorem map_view:
  assumes "wf_mem mem" and "wg_memory_map ok mem b n p = (True, mem')"
  shows "mem_view mem' = block b (align_page n) ++ mem_view mem"
  by (rule mapped_view [OF assms])

text \<open>
  Unmapping on a space whose regions do not overlap removes exactly the freed region from the
  abstract memory, although the last region moves into its place.
\<close>

definition disjoint_regions :: "mem_space \<Rightarrow> bool" where
  "disjoint_regions mem \<longleftrightarrow> (\<forall>i < length (regions mem). \<forall>j < length (regions mem). \<forall>a.
     in_region a (regions mem ! i) \<and> in_region a (regions mem ! j) \<longrightarrow> i = j)"

lemma disjoint_find_region:
  assumes "disjoint_regions mem" and "i < length (regions mem)" and "in_region a (regions mem ! i)"
  shows "find_region mem a = Some i"
  using assms unfolding find_region_def find_index_Some disjoint_regions_def
  by (metis less_irrefl less_trans)

lemma load_at_region:
  assumes "disjoint_regions mem"
  shows "load_at mem a = Some v \<longleftrightarrow>
    (\<exists>r \<in> set (regions mem). in_region a r \<and> data r ! unat (a - base r) = v)"
proof
  assume "load_at mem a = Some v"
  then obtain i where "find_region mem a = Some i"
    and v: "v = data (regions mem ! i) ! unat (a - base (regions mem ! i))"
    by (auto simp: load_at_def resolve_def split: option.splits)
  then have "i < length (regions mem)" "in_region a (regions mem ! i)"
    using find_index_SomeD unfolding find_region_def by blast+
  with v show "\<exists>r \<in> set (regions mem). in_region a r \<and> data r ! unat (a - base r) = v"
    by (auto intro!: bexI [of _ "regions mem ! i"])
next
  assume "\<exists>r \<in> set (regions mem). in_region a r \<and> data r ! unat (a - base r) = v"
  then obtain i where "i < length (regions mem)" "in_region a (regions mem ! i)"
    "data (regions mem ! i) ! unat (a - base (regions mem ! i)) = v"
    by (auto simp: in_set_conv_nth)
  with disjoint_find_region [OF assms] show "load_at mem a = Some v"
    by (simp add: load_at_def resolve_def)
qed

text \<open>The list after the swap: every index \<open>k\<close> holds what \<open>moved n i k\<close> held.\<close>

definition moved :: "nat \<Rightarrow> nat \<Rightarrow> nat \<Rightarrow> nat" where
  "moved n i k = (if k = i then n - 1 else k)"

lemma nth_swap_remove:
  assumes "i < length xs" and "k < length xs - 1"
  shows "butlast (xs[i := last xs]) ! k = xs ! moved (length xs) i k"
proof -
  have "xs \<noteq> []" using assms(1) by auto
  then have "last xs = xs ! (length xs - 1)" by (rule last_conv_nth)
  then show ?thesis using assms by (auto simp: nth_butlast nth_list_update moved_def)
qed

lemma moved_surj:
  assumes "i < n" and "k < n" and "k \<noteq> i"
  shows "\<exists>k' < n - 1. moved n i k' = k"
proof (cases "k = n - 1")
  case True
  with assms show ?thesis by (intro exI [of _ i]) (auto simp: moved_def)
next
  case False
  with assms show ?thesis by (intro exI [of _ k]) (auto simp: moved_def)
qed

lemma set_swap_remove:
  assumes i: "i < length xs"
  shows "set (butlast (xs[i := last xs])) = {xs ! k | k. k < length xs \<and> k \<noteq> i}" (is "?L = ?R")
proof (intro equalityI subsetI)
  fix x assume "x \<in> ?L"
  then obtain k where "k < length xs - 1" "x = xs ! moved (length xs) i k"
    using nth_swap_remove [OF i] by (auto simp: in_set_conv_nth)
  moreover from this(1) i have "moved (length xs) i k < length xs" "moved (length xs) i k \<noteq> i"
    by (auto simp: moved_def)
  ultimately show "x \<in> ?R" by blast
next
  fix x assume "x \<in> ?R"
  then obtain k where k: "k < length xs" "k \<noteq> i" "x = xs ! k" by blast
  with moved_surj [OF i] obtain k' where "k' < length xs - 1" "moved (length xs) i k' = k" by blast
  with k nth_swap_remove [OF i] show "x \<in> ?L" by (auto simp: in_set_conv_nth intro!: exI [of _ k'])
qed

lemma unmap_disjoint:
  assumes d: "disjoint_regions mem" and u: "wg_memory_unmap mem b = (ok, mem')"
  shows "disjoint_regions mem'"
proof (cases "find_index (\<lambda>r. base r = b) (regions mem)")
  case None
  with u d show ?thesis by (simp add: wg_memory_unmap_def del: find_index_None)
next
  case (Some i)
  note i = find_index_SomeD(1) [OF Some]
  have mem': "regions mem' = butlast ((regions mem)[i := last (regions mem)])"
    using u Some by (auto simp: wg_memory_unmap_def)
  let ?n = "length (regions mem)"
  show ?thesis
    unfolding disjoint_regions_def
  proof (intro allI impI, elim conjE)
    fix j k a assume j: "j < length (regions mem')" and k: "k < length (regions mem')"
      and a: "in_region a (regions mem' ! j)" "in_region a (regions mem' ! k)"
    have jk: "j < ?n - 1" "k < ?n - 1" using j k by (simp_all add: mem')
    then have "moved ?n i j < ?n" "moved ?n i k < ?n" by (auto simp: moved_def)
    moreover have "in_region a (regions mem ! moved ?n i j)" "in_region a (regions mem ! moved ?n i k)"
      using a jk nth_swap_remove [OF i] by (simp_all add: mem')
    ultimately have "moved ?n i j = moved ?n i k"
      using d unfolding disjoint_regions_def by blast
    with jk show "j = k" by (auto simp: moved_def split: if_splits)
  qed
qed

lemma unmap_view:
  assumes d: "disjoint_regions mem" and u: "wg_memory_unmap mem b = (True, mem')"
  shows "\<exists>r \<in> set (regions mem). base r = b \<and>
    mem_view mem' = mem_view mem |` {a. \<not> in_region a r}"
proof -
  obtain i where fi: "find_index (\<lambda>r. base r = b) (regions mem) = Some i"
    and mem': "regions mem' = butlast ((regions mem)[i := last (regions mem)])"
    using u by (auto simp: wg_memory_unmap_def split: option.splits)
  note i = find_index_SomeD [OF fi]
  note d' = unmap_disjoint [OF d u]
  let ?r = "regions mem ! i"
  have "mem_view mem' a = Some v \<longleftrightarrow> (mem_view mem |` {a. \<not> in_region a ?r}) a = Some v" for a v
  proof -
    have "mem_view mem' a = Some v \<longleftrightarrow> (\<exists>k < length (regions mem). k \<noteq> i \<and>
        in_region a (regions mem ! k) \<and> data (regions mem ! k) ! unat (a - base (regions mem ! k)) = v)"
      unfolding mem_view_def load_at_region [OF d'] mem' set_swap_remove [OF i(1)] by blast
    also have "\<dots> \<longleftrightarrow> \<not> in_region a ?r \<and> (\<exists>k < length (regions mem).
        in_region a (regions mem ! k) \<and> data (regions mem ! k) ! unat (a - base (regions mem ! k)) = v)"
      using d i(1) unfolding disjoint_regions_def by blast
    also have "\<dots> \<longleftrightarrow> \<not> in_region a ?r \<and> mem_view mem a = Some v"
      unfolding mem_view_def load_at_region [OF d] Bex_def in_set_conv_nth by blast
    finally show ?thesis by (simp add: restrict_map_def)
  qed
  then have "mem_view mem' = mem_view mem |` {a. \<not> in_region a ?r}"
    by (rule partial_map_eqI)
  with i show ?thesis by (auto intro!: bexI [of _ ?r])
qed

end
