(* ===== verification/X86Opcode.thy ===== *)
theory X86Opcode
  imports Main
begin

text \<open>
  The enumeration \<open>WGOpcode\<close> of \<open>Sources/CPU/wg_x86_decode.h\<close>, in the source's order.
  (The type has only the plugin that code evaluation needs, which keeps its declaration fast.)
\<close>

datatype (plugins only: code) WGOpcode =
    WG_OP_UNKNOWN | WG_OP_NOP
  | WG_OP_MOV | WG_OP_MOVZX | WG_OP_MOVSX | WG_OP_LEA | WG_OP_XCHG
  | WG_OP_PUSH | WG_OP_POP
  | WG_OP_ADD | WG_OP_SUB | WG_OP_ADC | WG_OP_SBB
  | WG_OP_AND | WG_OP_OR | WG_OP_XOR | WG_OP_NOT | WG_OP_NEG
  | WG_OP_INC | WG_OP_DEC
  | WG_OP_CMP | WG_OP_TEST
  | WG_OP_SHL | WG_OP_SHR | WG_OP_SAR | WG_OP_ROL | WG_OP_ROR
  | WG_OP_IMUL | WG_OP_MUL | WG_OP_IDIV | WG_OP_DIV
  | WG_OP_JMP | WG_OP_JCC | WG_OP_CALL | WG_OP_RET
  | WG_OP_CMOVCC
  | WG_OP_SETCC
  | WG_OP_CQO | WG_OP_CDQ | WG_OP_CBW | WG_OP_CWDE | WG_OP_CDQE
  | WG_OP_MOVSB | WG_OP_MOVSW | WG_OP_MOVSD_STR | WG_OP_MOVSQ
  | WG_OP_STOSB | WG_OP_STOSW | WG_OP_STOSD | WG_OP_STOSQ
  | WG_OP_REP
  | WG_OP_LEAVE
  | WG_OP_INT | WG_OP_SYSCALL | WG_OP_HLT
  | WG_OP_CPUID
  | WG_OP_RDTSC
  | WG_OP_BSWAP
  | WG_OP_BSF | WG_OP_BSR
  | WG_OP_BT | WG_OP_BTS | WG_OP_BTR | WG_OP_BTC
  | WG_OP_MOVD_XMM | WG_OP_MOVQ_XMM
  | WG_OP_MOVAPS | WG_OP_MOVUPS
  | WG_OP_XORPS
  | WG_OP_CLC | WG_OP_STC | WG_OP_CMC
  | WG_OP_CLD | WG_OP_STD

end
