(* ===== verification/X86Decode.thy ===== *)
theory X86Decode
  imports Base X86Opcode
begin

text \<open>
  The instruction decoder of \<open>Sources/CPU/wg_x86_decode.{h,c}\<close>. The byte stream is the list
  \<open>code\<close> (its length is the source's \<open>max_len\<close>), \<open>ptr\<close> the number of bytes consumed. The
  immediates and displacements are 64-bit words that hold the \<open>int64_t\<close> values of the
  source. Two operations of the source can be undefined: \<open>decode_modrm\<close> looks at
  \<open>*c->ptr\<close> without comparing it with the end of the buffer, and the RIP-relative address
  is a signed 64-bit sum.
\<close>

section \<open>Instructions\<close>

datatype WGOperandType =
  WG_OPERAND_NONE | WG_OPERAND_REG | WG_OPERAND_MEM | WG_OPERAND_IMM | WG_OPERAND_REL

record operand =
  op_type :: WGOperandType
  op_bytes :: nat          \<comment> \<open>\<open>size\<close>\<close>
  reg_index :: nat
  mem_base :: int
  mem_index :: int
  mem_scale :: u64
  mem_disp :: u64
  mem_seg :: int
  imm :: u64

text \<open>The zeroed operand, and the designated initialisers the decoder uses.\<close>

definition op_none :: operand where
  "op_none = \<lparr>op_type = WG_OPERAND_NONE, op_bytes = 0, reg_index = 0, mem_base = 0,
     mem_index = 0, mem_scale = 0, mem_disp = 0, mem_seg = 0, imm = 0\<rparr>"

definition op_reg :: "nat \<Rightarrow> nat \<Rightarrow> operand" where
  "op_reg r n = op_none\<lparr>op_type := WG_OPERAND_REG, reg_index := r, op_bytes := n\<rparr>"

definition op_imm :: "u64 \<Rightarrow> nat \<Rightarrow> operand" where
  "op_imm v n = op_none\<lparr>op_type := WG_OPERAND_IMM, imm := v, op_bytes := n\<rparr>"

definition op_rel :: "u64 \<Rightarrow> operand" where
  "op_rel v = op_none\<lparr>op_type := WG_OPERAND_REL, imm := v, op_bytes := 8\<rparr>"

record instruction =
  opcode :: WGOpcode
  ilength :: nat           \<comment> \<open>\<open>length\<close>\<close>
  operand0 :: operand
  operand1 :: operand
  operand2 :: operand
  num_operands :: nat
  op_size :: nat
  addr_size :: nat
  has_lock :: bool
  has_rep :: bool
  has_repne :: bool
  segment_override :: int
  condition :: u8

text \<open>\<open>memset(out, 0, sizeof(*out)); out->segment_override = -1;\<close>\<close>

definition blank_insn :: instruction where
  "blank_insn = \<lparr>opcode = WG_OP_UNKNOWN, ilength = 0, operand0 = op_none, operand1 = op_none,
     operand2 = op_none, num_operands = 0, op_size = 0, addr_size = 0, has_lock = False,
     has_rep = False, has_repne = False, segment_override = - 1, condition = 0\<rparr>"

section \<open>The byte stream\<close>

record dctx =
  code :: "u8 list"
  ptr :: nat
  cx_rip :: u64
  rex_present :: bool
  rex_w :: u8
  rex_r :: u8
  rex_x :: u8
  rex_b :: u8
  has_66 :: bool
  has_67 :: bool
  has_f2 :: bool
  has_f3 :: bool
  cx_lock :: bool
  cx_seg :: int

definition init_ctx :: "u8 list \<Rightarrow> u64 \<Rightarrow> dctx" where
  "init_ctx bs rip = \<lparr>code = bs, ptr = 0, cx_rip = rip, rex_present = False, rex_w = 0, rex_r = 0,
     rex_x = 0, rex_b = 0, has_66 = False, has_67 = False, has_f2 = False, has_f3 = False,
     cx_lock = False, cx_seg = - 1\<rparr>"

text \<open>A fixed-size fetch that does not fit returns 0 and consumes nothing.\<close>

definition fetch_n :: "nat \<Rightarrow> dctx \<Rightarrow> 'a::len word \<times> dctx" where
  "fetch_n n c = (if ptr c + n \<le> length (code c)
     then (le_word (take n (drop (ptr c) (code c))), c\<lparr>ptr := ptr c + n\<rparr>) else (0, c))"

definition fetch8 :: "dctx \<Rightarrow> u8 \<times> dctx" where
  "fetch8 c = (if length (code c) \<le> ptr c then (0, c)
     else (code c ! ptr c, c\<lparr>ptr := ptr c + 1\<rparr>))"

definition fetch16 :: "dctx \<Rightarrow> u16 \<times> dctx" where
  "fetch16 c = fetch_n 2 c"

definition fetch32 :: "dctx \<Rightarrow> u32 \<times> dctx" where
  "fetch32 c = fetch_n 4 c"

definition fetch64 :: "dctx \<Rightarrow> u64 \<times> dctx" where
  "fetch64 c =
     (let (lo, c) = fetch32 c;
          (hi, c) = fetch32 c
      in (ucast lo OR push_bit 32 (ucast hi), c))"

definition fetch_simm32 :: "dctx \<Rightarrow> u64 \<times> dctx" where
  "fetch_simm32 c = (let (v, c) = fetch32 c in (scast v, c))"

text \<open>\<open>(int8_t)fetch8(c)\<close> and plain \<open>fetch8(c)\<close>, converted to \<open>int64_t\<close>.\<close>

definition fetch_simm8 :: "dctx \<Rightarrow> u64 \<times> dctx" where
  "fetch_simm8 c = (let (v, c) = fetch8 c in (scast v, c))"

definition fetch_uimm8 :: "dctx \<Rightarrow> u64 \<times> dctx" where
  "fetch_uimm8 c = (let (v, c) = fetch8 c in (ucast v, c))"

definition effective_op_size :: "dctx \<Rightarrow> nat" where
  "effective_op_size c = (if rex_w c \<noteq> 0 then 8 else if has_66 c then 2 else 4)"

section \<open>ModR/M and SIB\<close>

definition MODRM_MOD :: "u8 \<Rightarrow> u8" where "MODRM_MOD b = drop_bit 6 b AND 3"
definition MODRM_REG :: "u8 \<Rightarrow> u8" where "MODRM_REG b = drop_bit 3 b AND 7"
definition MODRM_RM :: "u8 \<Rightarrow> u8" where "MODRM_RM b = b AND 7"
definition SIB_SCALE :: "u8 \<Rightarrow> u8" where "SIB_SCALE b = drop_bit 6 b AND 3"
definition SIB_INDEX :: "u8 \<Rightarrow> u8" where "SIB_INDEX b = drop_bit 3 b AND 7"
definition SIB_BASE :: "u8 \<Rightarrow> u8" where "SIB_BASE b = b AND 7"

text \<open>A three-bit field with its REX bit: \<open>field | (rex << 3)\<close>.\<close>

definition ext_reg :: "u8 \<Rightarrow> u8 \<Rightarrow> nat" where
  "ext_reg f rex = unat (f OR push_bit 3 rex)"

text \<open>The sum of two \<open>int64_t\<close> values, undefined on overflow.\<close>

definition sadd64 :: "u64 \<Rightarrow> u64 \<Rightarrow> u64 ub" where
  "sadd64 a b = (if - (2 ^ 63) \<le> sint a + sint b \<and> sint a + sint b < 2 ^ 63
     then Some (a + b) else undef)"

text \<open>The memory form without its trailing 8- or 32-bit displacement: base, index, scale.\<close>

definition decode_sib :: "dctx \<Rightarrow> u8 \<Rightarrow> operand \<Rightarrow> operand \<times> dctx" where
  "decode_sib c md op =
     (let (sib, c) = fetch8 c;
          sib_base = ext_reg (SIB_BASE sib) (rex_b c);
          sib_index = ext_reg (SIB_INDEX sib) (rex_x c);
          op = (if sib_index \<noteq> 4
                then op\<lparr>mem_index := int sib_index, mem_scale := push_bit (unat (SIB_SCALE sib)) 1\<rparr>
                else op)
      in if md = 0 \<and> SIB_BASE sib = 5
         then let (d, c) = fetch_simm32 c in (op\<lparr>mem_disp := d\<rparr>, c)
         else (op\<lparr>mem_base := int sib_base\<rparr>, c))"

text \<open>The three memory forms: SIB, RIP-relative (sentinel base \<open>-2\<close>), plain base register.\<close>

definition decode_base :: "dctx \<Rightarrow> u8 \<Rightarrow> operand \<Rightarrow> (operand \<times> dctx) ub" where
  "decode_base c modrm op =
     (if MODRM_RM modrm = 4 then Some (decode_sib c (MODRM_MOD modrm) op)
      else if MODRM_MOD modrm = 0 \<and> MODRM_RM modrm = 5 then do {
        let (disp, c) = fetch_simm32 c;
        d \<leftarrow> sadd64 (cx_rip c + of_nat (ptr c)) disp;
        Some (op\<lparr>mem_base := - 2, mem_disp := d\<rparr>, c)
      }
      else Some (op\<lparr>mem_base := int (ext_reg (MODRM_RM modrm) (rex_b c))\<rparr>, c))"

text \<open>The trailing displacement of \<open>mod\<close> 1 and 2 replaces the displacement field.\<close>

definition decode_disp :: "dctx \<Rightarrow> u8 \<Rightarrow> operand \<Rightarrow> operand \<times> dctx" where
  "decode_disp c md op =
     (if md = 1 then let (d, c) = fetch_simm8 c in (op\<lparr>mem_disp := d\<rparr>, c)
      else if md = 2 then let (d, c) = fetch_simm32 c in (op\<lparr>mem_disp := d\<rparr>, c)
      else (op, c))"

definition decode_modrm_mem :: "dctx \<Rightarrow> operand \<Rightarrow> (operand \<times> dctx) ub" where
  "decode_modrm_mem c op =
     (let (modrm, c) = fetch8 c;
          md = MODRM_MOD modrm
      in if md = 3
         then Some (op\<lparr>op_type := WG_OPERAND_REG,
                       reg_index := ext_reg (MODRM_RM modrm) (rex_b c)\<rparr>, c)
         else do {
           (op, c) \<leftarrow> decode_base c modrm
             (op\<lparr>op_type := WG_OPERAND_MEM, mem_base := - 1, mem_index := - 1, mem_scale := 1,
                 mem_disp := 0, mem_seg := cx_seg c\<rparr>);
           Some (decode_disp c md op)
         })"

text \<open>The result: the r/m operand, the register operand, the advanced stream.\<close>

definition decode_modrm :: "dctx \<Rightarrow> nat \<Rightarrow> (operand \<times> operand \<times> dctx) ub" where
  "decode_modrm c osz = do {
     guard (ptr c < length (code c));
     let reg = ext_reg (MODRM_REG (code c ! ptr c)) (rex_r c);
     (rm_op, c) \<leftarrow> decode_modrm_mem c (op_none\<lparr>op_bytes := osz\<rparr>);
     Some (rm_op, op_reg reg osz, c)
   }"

section \<open>Prefixes\<close>

text \<open>One step of the prefix loop: \<open>None\<close> when the byte is not a prefix.\<close>

definition prefix_step :: "u8 \<Rightarrow> dctx \<Rightarrow> dctx option" where
  "prefix_step b c =
     (if b = 0xF0 then Some (c\<lparr>cx_lock := True\<rparr>)
      else if b = 0xF2 then Some (c\<lparr>has_f2 := True\<rparr>)
      else if b = 0xF3 then Some (c\<lparr>has_f3 := True\<rparr>)
      else if b = 0x66 then Some (c\<lparr>has_66 := True\<rparr>)
      else if b = 0x67 then Some (c\<lparr>has_67 := True\<rparr>)
      else if b = 0x26 then Some (c\<lparr>cx_seg := 0\<rparr>)
      else if b = 0x2E then Some (c\<lparr>cx_seg := 1\<rparr>)
      else if b = 0x36 then Some (c\<lparr>cx_seg := 2\<rparr>)
      else if b = 0x3E then Some (c\<lparr>cx_seg := 3\<rparr>)
      else if b = 0x64 then Some (c\<lparr>cx_seg := 4\<rparr>)
      else if b = 0x65 then Some (c\<lparr>cx_seg := 5\<rparr>)
      else if 0x40 \<le> b \<and> b \<le> 0x4F then
        Some (c\<lparr>rex_present := True, rex_w := drop_bit 3 b AND 1, rex_r := drop_bit 2 b AND 1,
                rex_x := drop_bit 1 b AND 1, rex_b := b AND 1\<rparr>)
      else None)"

fun parse_prefixes :: "u8 list \<Rightarrow> dctx \<Rightarrow> dctx" where
  "parse_prefixes [] c = c"
| "parse_prefixes (b # bs) c =
     (case prefix_step b c of
        None \<Rightarrow> c
      | Some c' \<Rightarrow> parse_prefixes bs (c'\<lparr>ptr := ptr c' + 1\<rparr>))"

section \<open>One-byte opcodes, by group\<close>

type_synonym decoder = "dctx \<Rightarrow> instruction \<Rightarrow> (instruction \<times> dctx) ub"

definition alu_ops :: "WGOpcode list" where
  "alu_ops = [WG_OP_ADD, WG_OP_OR, WG_OP_ADC, WG_OP_SBB, WG_OP_AND, WG_OP_SUB, WG_OP_XOR, WG_OP_CMP]"

definition shift_ops :: "WGOpcode list" where
  "shift_ops = [WG_OP_ROL, WG_OP_ROR, WG_OP_UNKNOWN, WG_OP_UNKNOWN,
                WG_OP_SHL, WG_OP_SHR, WG_OP_SHL, WG_OP_SAR]"

text \<open>The forms that several groups share: an immediate operand of \<open>n\<close> bytes that is fetched
  as a signed byte, an unsigned byte or a signed 32-bit value.\<close>

definition imm_s8 :: "nat \<Rightarrow> dctx \<Rightarrow> operand \<times> dctx" where
  "imm_s8 n c = (let (v, c) = fetch_simm8 c in (op_imm v n, c))"

definition imm_u8 :: "nat \<Rightarrow> dctx \<Rightarrow> operand \<times> dctx" where
  "imm_u8 n c = (let (v, c) = fetch_uimm8 c in (op_imm v n, c))"

definition imm_s32 :: "nat \<Rightarrow> dctx \<Rightarrow> operand \<times> dctx" where
  "imm_s32 n c = (let (v, c) = fetch_simm32 c in (op_imm v n, c))"

text \<open>\<open>op r/m, r\<close> and \<open>op r, r/m\<close>.\<close>

definition dec_rm_r :: "WGOpcode \<Rightarrow> nat \<Rightarrow> decoder" where
  "dec_rm_r opc sz c i = do {
     (rm, rg, c) \<leftarrow> decode_modrm c sz;
     Some (i\<lparr>opcode := opc, operand0 := rm, operand1 := rg, num_operands := 2\<rparr>, c)
   }"

definition dec_r_rm :: "WGOpcode \<Rightarrow> nat \<Rightarrow> decoder" where
  "dec_r_rm opc sz c i = do {
     (rm, rg, c) \<leftarrow> decode_modrm c sz;
     Some (i\<lparr>opcode := opc, operand0 := rg, operand1 := rm, num_operands := 2\<rparr>, c)
   }"

definition dec_plain :: "WGOpcode \<Rightarrow> decoder" where
  "dec_plain opc c i = Some (i\<lparr>opcode := opc\<rparr>, c)"

definition dec_nop :: decoder where
  "dec_nop c i =
     (if \<not> rex_present c then Some (i\<lparr>opcode := WG_OP_NOP\<rparr>, c)
      else Some (i\<lparr>opcode := WG_OP_XCHG, operand0 := op_reg (unat (0 OR rex_b c)) (op_size i),
                   operand1 := op_reg 0 (op_size i), num_operands := 2\<rparr>, c))"

definition dec_mov_r8_imm :: "u8 \<Rightarrow> decoder" where
  "dec_mov_r8_imm b c i =
     (let (v, c') = fetch_uimm8 c
      in Some (i\<lparr>opcode := WG_OP_MOV, operand0 := op_reg (ext_reg (b - 0xB0) (rex_b c)) 1,
                 operand1 := op_imm v 1, num_operands := 2\<rparr>, c'))"

definition dec_mov_r_imm :: "u8 \<Rightarrow> decoder" where
  "dec_mov_r_imm b c i =
     (let rg = op_reg (ext_reg (b - 0xB8) (rex_b c)) (op_size i);
          (im, c') = (if rex_w c \<noteq> 0 then (let (v, c) = fetch64 c in (op_imm v 8, c))
                      else (let (v, c) = fetch32 c in (op_imm (scast v) (op_size i), c)))
      in Some (i\<lparr>opcode := WG_OP_MOV, operand0 := rg, operand1 := im, num_operands := 2\<rparr>, c'))"

definition dec_mov_rm_imm :: "u8 \<Rightarrow> decoder" where
  "dec_mov_rm_imm b c i = do {
     let sz = (if b = 0xC6 then 1 else op_size i);
     (rm, rg, c) \<leftarrow> decode_modrm c sz;
     let (im, c) = (if sz = 1 then imm_s8 1 c
                    else imm_s32 sz c);
     Some (i\<lparr>opcode := WG_OP_MOV, operand0 := rm, operand1 := im, num_operands := 2\<rparr>, c)
   }"

text \<open>\<open>80\<close>-\<open>83\<close>: ADD/OR/ADC/SBB/AND/SUB/XOR/CMP r/m, imm.\<close>

definition dec_group_80 :: "u8 \<Rightarrow> decoder" where
  "dec_group_80 b c i = do {
     let sz = (if b = 0x80 \<or> b = 0x82 then 1 else op_size i);
     (rm, rg, c) \<leftarrow> decode_modrm c sz;
     let grp = reg_index rg mod 8;
     let (im, c) = (if b = 0x83 then imm_s8 sz c
                    else if sz = 1 then imm_s8 1 c
                    else imm_s32 sz c);
     Some (i\<lparr>opcode := alu_ops ! grp, operand0 := rm, operand1 := im, num_operands := 2\<rparr>, c)
   }"

text \<open>\<open>00\<close>-\<open>3D\<close>: the ALU operations in their six forms.\<close>

definition dec_alu :: "u8 \<Rightarrow> decoder" where
  "dec_alu b c i =
     (let opc = alu_ops ! unat (drop_bit 3 b AND 7);
          sub = b AND 7
      in if sub \<le> 1 then dec_rm_r opc (if sub = 0 then 1 else op_size i) c i
         else if sub \<le> 3 then dec_r_rm opc (if sub = 2 then 1 else op_size i) c i
         else if sub = 4 then
           (let (v, c) = fetch_simm8 c
            in Some (i\<lparr>opcode := opc, operand0 := op_reg 0 1, operand1 := op_imm v 1,
                       num_operands := 2\<rparr>, c))
         else
           (let (v, c) = fetch_simm32 c
            in Some (i\<lparr>opcode := opc, operand0 := op_reg 0 (op_size i),
                       operand1 := op_imm v (op_size i), num_operands := 2\<rparr>, c)))"

definition dec_test_imm :: "u8 \<Rightarrow> decoder" where
  "dec_test_imm b c i =
     (if b = 0xA8 then
        (let (v, c) = fetch_uimm8 c
         in Some (i\<lparr>opcode := WG_OP_TEST, operand0 := op_reg 0 1, operand1 := op_imm v 1,
                    num_operands := 2\<rparr>, c))
      else
        (let (v, c) = fetch_simm32 c
         in Some (i\<lparr>opcode := WG_OP_TEST, operand0 := op_reg 0 (op_size i),
                    operand1 := op_imm v (op_size i), num_operands := 2\<rparr>, c)))"

definition dec_push_pop :: "u8 \<Rightarrow> decoder" where
  "dec_push_pop b c i =
     (if b \<le> 0x57 then
        Some (i\<lparr>opcode := WG_OP_PUSH, operand0 := op_reg (ext_reg (b - 0x50) (rex_b c)) 8,
                num_operands := 1\<rparr>, c)
      else
        Some (i\<lparr>opcode := WG_OP_POP, operand0 := op_reg (ext_reg (b - 0x58) (rex_b c)) 8,
                num_operands := 1\<rparr>, c))"

definition dec_push_imm :: "u8 \<Rightarrow> decoder" where
  "dec_push_imm b c i =
     (let (v, c) = (if b = 0x6A then fetch_simm8 c else fetch_simm32 c)
      in Some (i\<lparr>opcode := WG_OP_PUSH, operand0 := op_imm v 8, num_operands := 1\<rparr>, c))"

text \<open>A relative target: the address after the displacement, plus the displacement.\<close>

definition rel_target :: "dctx \<Rightarrow> u64 \<Rightarrow> u64" where
  "rel_target c rel = cx_rip c + of_nat (ptr c) + rel"

definition dec_jcc_short :: "u8 \<Rightarrow> decoder" where
  "dec_jcc_short b c i =
     (let (rel, c) = fetch_simm8 c
      in Some (i\<lparr>opcode := WG_OP_JCC, condition := b - 0x70, operand0 := op_rel (rel_target c rel),
                 num_operands := 1\<rparr>, c))"

definition dec_jmp8 :: decoder where
  "dec_jmp8 c i =
     (let (rel, c) = fetch_simm8 c
      in Some (i\<lparr>opcode := WG_OP_JMP, operand0 := op_rel (rel_target c rel), num_operands := 1\<rparr>, c))"

definition dec_branch32 :: "WGOpcode \<Rightarrow> decoder" where
  "dec_branch32 opc c i =
     (let (rel, c) = fetch_simm32 c
      in Some (i\<lparr>opcode := opc, operand0 := op_rel (rel_target c rel), num_operands := 1\<rparr>, c))"

definition dec_ret :: "u8 \<Rightarrow> decoder" where
  "dec_ret b c i =
     (if b = 0xC3 then Some (i\<lparr>opcode := WG_OP_RET, num_operands := 0\<rparr>, c)
      else (let (v, c) = fetch16 c
            in Some (i\<lparr>opcode := WG_OP_RET, operand0 := op_imm (ucast v) 2, num_operands := 1\<rparr>, c)))"

definition dec_group_FF :: decoder where
  "dec_group_FF c i = do {
     (rm, rg, c) \<leftarrow> decode_modrm c (op_size i);
     let g = reg_index rg mod 8;
     let i = i\<lparr>num_operands := 1\<rparr>;
     Some (if g = 0 then i\<lparr>operand0 := rm, opcode := WG_OP_INC\<rparr>
           else if g = 1 then i\<lparr>operand0 := rm, opcode := WG_OP_DEC\<rparr>
           else if g = 2 then i\<lparr>operand0 := rm\<lparr>op_bytes := 8\<rparr>, opcode := WG_OP_CALL\<rparr>
           else if g = 4 then i\<lparr>operand0 := rm\<lparr>op_bytes := 8\<rparr>, opcode := WG_OP_JMP\<rparr>
           else if g = 6 then i\<lparr>operand0 := rm\<lparr>op_bytes := 8\<rparr>, opcode := WG_OP_PUSH\<rparr>
           else i\<lparr>operand0 := rm, opcode := WG_OP_UNKNOWN\<rparr>, c)
   }"

definition dec_group_F6 :: "u8 \<Rightarrow> decoder" where
  "dec_group_F6 b c i = do {
     let sz = (if b = 0xF6 then 1 else op_size i);
     (rm, rg, c) \<leftarrow> decode_modrm c sz;
     let g = reg_index rg mod 8;
     let i = i\<lparr>operand0 := rm\<rparr>;
     if g = 0 \<or> g = 1 then
       (let (im, c) = (if sz = 1 then imm_u8 1 c
                       else imm_s32 sz c)
        in Some (i\<lparr>opcode := WG_OP_TEST, operand1 := im, num_operands := 2\<rparr>, c))
     else Some (i\<lparr>num_operands := 1, opcode :=
         (if g = 2 then WG_OP_NOT else if g = 3 then WG_OP_NEG else if g = 4 then WG_OP_MUL
          else if g = 5 then WG_OP_IMUL else if g = 6 then WG_OP_DIV else WG_OP_IDIV)\<rparr>, c)
   }"

definition dec_shift :: "u8 \<Rightarrow> decoder" where
  "dec_shift b c i = do {
     let sz = (if b = 0xC0 \<or> b = 0xD0 \<or> b = 0xD2 then 1 else op_size i);
     (rm, rg, c) \<leftarrow> decode_modrm c sz;
     let opc = shift_ops ! (reg_index rg mod 8);
     let (cnt, c) = (if b = 0xC0 \<or> b = 0xC1 then imm_u8 1 c
                     else if b = 0xD0 \<or> b = 0xD1 then (op_imm 1 1, c)
                     else (op_reg 1 1, c));
     Some (i\<lparr>opcode := opc, operand0 := rm, operand1 := cnt, num_operands := 2\<rparr>, c)
   }"

definition dec_xchg_rax :: "u8 \<Rightarrow> decoder" where
  "dec_xchg_rax b c i =
     Some (i\<lparr>opcode := WG_OP_XCHG, operand0 := op_reg (ext_reg (b - 0x90) (rex_b c)) (op_size i),
             operand1 := op_reg 0 (op_size i), num_operands := 2\<rparr>, c)"

definition dec_convert :: "u8 \<Rightarrow> decoder" where
  "dec_convert b c i =
     Some (i\<lparr>opcode :=
       (if b = 0x98 then (if rex_w c \<noteq> 0 then WG_OP_CDQE else if has_66 c then WG_OP_CBW else WG_OP_CWDE)
        else if rex_w c \<noteq> 0 then WG_OP_CQO else WG_OP_CDQ)\<rparr>, c)"

definition dec_int :: "u8 \<Rightarrow> decoder" where
  "dec_int b c i =
     (let (v, c) = (if b = 0xCD then fetch_uimm8 c else (3, c))
      in Some (i\<lparr>opcode := WG_OP_INT, operand0 := op_imm v 1, num_operands := 1\<rparr>, c))"

definition dec_string :: "u8 \<Rightarrow> decoder" where
  "dec_string b c i =
     Some (i\<lparr>opcode :=
       (if b = 0xA4 then WG_OP_MOVSB
        else if b = 0xA5 then
          (if rex_w c \<noteq> 0 then WG_OP_MOVSQ else if has_66 c then WG_OP_MOVSW else WG_OP_MOVSD_STR)
        else if b = 0xAA then WG_OP_STOSB
        else if rex_w c \<noteq> 0 then WG_OP_STOSQ else if has_66 c then WG_OP_STOSW else WG_OP_STOSD)\<rparr>, c)"

definition dec_imul3 :: "u8 \<Rightarrow> decoder" where
  "dec_imul3 b c i = do {
     (rm, rg, c) \<leftarrow> decode_modrm c (op_size i);
     let (v, c) = (if b = 0x6B then fetch_simm8 c else fetch_simm32 c);
     Some (i\<lparr>opcode := WG_OP_IMUL, operand0 := rg, operand1 := rm, operand2 := op_imm v (op_size i),
             num_operands := 3\<rparr>, c)
   }"

section \<open>Two-byte opcodes\<close>

definition dec_jcc_near :: "u8 \<Rightarrow> decoder" where
  "dec_jcc_near b c i =
     (let (rel, c) = fetch_simm32 c
      in Some (i\<lparr>opcode := WG_OP_JCC, condition := b - 0x80, operand0 := op_rel (rel_target c rel),
                 num_operands := 1\<rparr>, c))"

definition dec_setcc :: "u8 \<Rightarrow> decoder" where
  "dec_setcc b c i = do {
     (rm, rg, c) \<leftarrow> decode_modrm c 1;
     Some (i\<lparr>opcode := WG_OP_SETCC, condition := b - 0x90, operand0 := rm, num_operands := 1\<rparr>, c)
   }"

definition dec_cmovcc :: "u8 \<Rightarrow> decoder" where
  "dec_cmovcc b c i = do {
     (i, c) \<leftarrow> dec_r_rm WG_OP_CMOVCC (op_size i) c i;
     Some (i\<lparr>condition := b - 0x40\<rparr>, c)
   }"

text \<open>MOVZX and MOVSX: the source has the narrow size, the destination the operand size.\<close>

definition dec_movx :: "WGOpcode \<Rightarrow> nat \<Rightarrow> decoder" where
  "dec_movx opc src_sz c i = do {
     (rm, rg, c) \<leftarrow> decode_modrm c src_sz;
     Some (i\<lparr>opcode := opc, operand0 := rg\<lparr>op_bytes := op_size i\<rparr>, operand1 := rm,
             num_operands := 2\<rparr>, c)
   }"

definition dec_bswap :: "u8 \<Rightarrow> decoder" where
  "dec_bswap b c i =
     Some (i\<lparr>opcode := WG_OP_BSWAP, operand0 := op_reg (ext_reg (b - 0xC8) (rex_b c)) (op_size i),
             num_operands := 1\<rparr>, c)"

definition dec_nop_modrm :: decoder where
  "dec_nop_modrm c i = do {
     (rm, rg, c) \<leftarrow> decode_modrm c (op_size i);
     Some (i\<lparr>opcode := WG_OP_NOP, operand0 := rm, num_operands := 0\<rparr>, c)
   }"

definition decode_0F :: decoder where
  "decode_0F c i =
     (let (b, c) = fetch8 c
      in if 0x80 \<le> b \<and> b \<le> 0x8F then dec_jcc_near b c i
         else if 0x90 \<le> b \<and> b \<le> 0x9F then dec_setcc b c i
         else if 0x40 \<le> b \<and> b \<le> 0x4F then dec_cmovcc b c i
         else if b = 0xB6 then dec_movx WG_OP_MOVZX 1 c i
         else if b = 0xB7 then dec_movx WG_OP_MOVZX 2 c i
         else if b = 0xBE then dec_movx WG_OP_MOVSX 1 c i
         else if b = 0xBF then dec_movx WG_OP_MOVSX 2 c i
         else if b = 0xAF then dec_r_rm WG_OP_IMUL (op_size i) c i
         else if b = 0xA2 then dec_plain WG_OP_CPUID c i
         else if b = 0x31 then dec_plain WG_OP_RDTSC c i
         else if b = 0x05 then dec_plain WG_OP_SYSCALL c i
         else if b = 0xBC then dec_r_rm WG_OP_BSF (op_size i) c i
         else if b = 0xBD then dec_r_rm WG_OP_BSR (op_size i) c i
         else if 0xC8 \<le> b \<and> b \<le> 0xCF then dec_bswap b c i
         else if b = 0x1F then dec_nop_modrm c i
         else if b = 0x10 then dec_r_rm WG_OP_MOVUPS 16 c i
         else if b = 0x11 then dec_rm_r WG_OP_MOVUPS 16 c i
         else if b = 0x28 then dec_r_rm WG_OP_MOVAPS 16 c i
         else if b = 0x29 then dec_rm_r WG_OP_MOVAPS 16 c i
         else if b = 0x57 then dec_r_rm WG_OP_XORPS 16 c i
         else dec_plain WG_OP_UNKNOWN c i)"

section \<open>The decoder\<close>

text \<open>The \<open>switch\<close> on the opcode byte.\<close>

definition decode_opcode :: "u8 \<Rightarrow> decoder" where
  "decode_opcode b c i =
     (if b = 0x90 then dec_nop c i
      else if b = 0x88 \<or> b = 0x89 then dec_rm_r WG_OP_MOV (if b = 0x88 then 1 else op_size i) c i
      else if b = 0x8A \<or> b = 0x8B then dec_r_rm WG_OP_MOV (if b = 0x8A then 1 else op_size i) c i
      else if 0xB0 \<le> b \<and> b \<le> 0xB7 then dec_mov_r8_imm b c i
      else if 0xB8 \<le> b \<and> b \<le> 0xBF then dec_mov_r_imm b c i
      else if b = 0xC6 \<or> b = 0xC7 then dec_mov_rm_imm b c i
      else if 0x80 \<le> b \<and> b \<le> 0x83 then dec_group_80 b c i
      else if b \<le> 0x3D \<and> b AND 7 \<le> 5 then dec_alu b c i
      else if b = 0x84 \<or> b = 0x85 then dec_rm_r WG_OP_TEST (if b = 0x84 then 1 else op_size i) c i
      else if b = 0xA8 \<or> b = 0xA9 then dec_test_imm b c i
      else if 0x50 \<le> b \<and> b \<le> 0x5F then dec_push_pop b c i
      else if b = 0x6A \<or> b = 0x68 then dec_push_imm b c i
      else if b = 0x8D then dec_r_rm WG_OP_LEA (op_size i) c i
      else if 0x70 \<le> b \<and> b \<le> 0x7F then dec_jcc_short b c i
      else if b = 0xEB then dec_jmp8 c i
      else if b = 0xE9 then dec_branch32 WG_OP_JMP c i
      else if b = 0xE8 then dec_branch32 WG_OP_CALL c i
      else if b = 0xC3 \<or> b = 0xC2 then dec_ret b c i
      else if b = 0xC9 then dec_plain WG_OP_LEAVE c i
      else if b = 0xFF then dec_group_FF c i
      else if b = 0xF6 \<or> b = 0xF7 then dec_group_F6 b c i
      else if b = 0xC0 \<or> b = 0xC1 \<or> 0xD0 \<le> b \<and> b \<le> 0xD3 then dec_shift b c i
      else if 0x91 \<le> b \<and> b \<le> 0x97 then dec_xchg_rax b c i
      else if b = 0x98 \<or> b = 0x99 then dec_convert b c i
      else if b = 0xCD \<or> b = 0xCC then dec_int b c i
      else if b = 0xF4 then dec_plain WG_OP_HLT c i
      else if b = 0xF8 then dec_plain WG_OP_CLC c i
      else if b = 0xF9 then dec_plain WG_OP_STC c i
      else if b = 0xF5 then dec_plain WG_OP_CMC c i
      else if b = 0xFC then dec_plain WG_OP_CLD c i
      else if b = 0xFD then dec_plain WG_OP_STD c i
      else if b = 0xA4 \<or> b = 0xA5 \<or> b = 0xAA \<or> b = 0xAB then dec_string b c i
      else if b = 0x69 \<or> b = 0x6B then dec_imul3 b c i
      else if b = 0x0F then decode_0F c i
      else dec_plain WG_OP_UNKNOWN c i)"

text \<open>The fields of the instruction that the prefixes determine.\<close>

definition prefix_insn :: "dctx \<Rightarrow> instruction" where
  "prefix_insn c = blank_insn\<lparr>has_lock := cx_lock c, has_rep := has_f3 c, has_repne := has_f2 c,
     segment_override := cx_seg c, addr_size := (if has_67 c then 4 else 8)\<rparr>"

text \<open>The return value (0 on failure) and \<open>*out\<close>.\<close>

definition wg_x86_decode :: "u8 list \<Rightarrow> u64 \<Rightarrow> (nat \<times> instruction) ub" where
  "wg_x86_decode bs rip =
     (if bs = [] then Some (0, blank_insn)
      else let c = parse_prefixes bs (init_ctx bs rip);
               i = prefix_insn c
           in if length bs \<le> ptr c then Some (0, i)
              else do {
                let i = i\<lparr>op_size := effective_op_size c\<rparr>;
                let (b, c) = fetch8 c;
                (i, c) \<leftarrow> decode_opcode b c i;
                Some (ptr c, i\<lparr>ilength := ptr c\<rparr>)
              })"

end
