(* ===== verification/X86DecodeOk.thy ===== *)
theory X86DecodeOk
  imports X86Decode
begin

text \<open>
  What the instruction decoder guarantees: every decoder of an opcode group advances the
  stream without passing its end, leaves the prefix state alone, and fills the operands with
  register numbers below 16, the sentinels -1 and -2 or a base register, and one of the operand
  widths of the source. \<open>dec_ok\<close> states this of one group and \<open>dec_total\<close> that the group is
  free of undefined behaviour when a byte is left; both are combined over the opcode switch.
\<close>

section \<open>Advancing the stream\<close>


definition adv :: "dctx \<Rightarrow> dctx \<Rightarrow> bool" where
  "adv c c' \<longleftrightarrow> c' = c\<lparr>ptr := ptr c'\<rparr> \<and> ptr c \<le> ptr c' \<and>
     (ptr c \<le> length (code c) \<longrightarrow> ptr c' \<le> length (code c))"

lemma adv_refl [simp]: "adv c c"
  by (simp add: adv_def)

lemma adv_trans [trans]:
  assumes "adv c c'" and "adv c' c''" shows "adv c c''"
proof -
  have c': "c' = c\<lparr>ptr := ptr c'\<rparr>" and c'': "c'' = c'\<lparr>ptr := ptr c''\<rparr>"
    using assms unfolding adv_def by blast+
  have "c'' = c\<lparr>ptr := ptr c''\<rparr>" 
    by (subst c'', subst c') simp
  moreover have "code c' = code c" by (subst c') simp
  ultimately show ?thesis using assms unfolding adv_def by auto
qed

lemma advD:
  assumes "adv c c'"
  shows "code c' = code c" "cx_rip c' = cx_rip c" "rex_w c' = rex_w c" "rex_r c' = rex_r c"
    "rex_x c' = rex_x c" "rex_b c' = rex_b c" "has_66 c' = has_66 c" "cx_seg c' = cx_seg c"
    "rex_present c' = rex_present c" "ptr c \<le> ptr c'"
proof -
  have c': "c' = c\<lparr>ptr := ptr c'\<rparr>" and "ptr c \<le> ptr c'" using assms unfolding adv_def by blast+
  show "code c' = code c" "cx_rip c' = cx_rip c" "rex_w c' = rex_w c" "rex_r c' = rex_r c"
    "rex_x c' = rex_x c" "rex_b c' = rex_b c" "has_66 c' = has_66 c" "cx_seg c' = cx_seg c"
    "rex_present c' = rex_present c"
    by (subst c', simp)+
  show "ptr c \<le> ptr c'" by fact
qed

lemma adv_fetch_n: "fetch_n n c = (v, c') \<Longrightarrow> adv c c'"
  by (auto simp: fetch_n_def adv_def split: if_splits)

lemma adv_fetch8: "fetch8 c = (v, c') \<Longrightarrow> adv c c'"
  by (auto simp: fetch8_def adv_def split: if_splits)

lemma adv_fetch16: "fetch16 c = (v, c') \<Longrightarrow> adv c c'"
  by (auto simp: fetch16_def intro: adv_fetch_n)

lemma adv_fetch32: "fetch32 c = (v, c') \<Longrightarrow> adv c c'"
  by (auto simp: fetch32_def intro: adv_fetch_n)

lemma adv_fetch64: "fetch64 c = (v, c') \<Longrightarrow> adv c c'"
  by (auto simp: fetch64_def split: prod.splits intro: adv_trans dest!: adv_fetch32)

lemma adv_simm32: "fetch_simm32 c = (v, c') \<Longrightarrow> adv c c'"
  by (auto simp: fetch_simm32_def split: prod.splits dest!: adv_fetch32)

lemma adv_simm8: "fetch_simm8 c = (v, c') \<Longrightarrow> adv c c'"
  and adv_uimm8: "fetch_uimm8 c = (v, c') \<Longrightarrow> adv c c'"
  by (auto simp: fetch_simm8_def fetch_uimm8_def split: prod.splits dest!: adv_fetch8)

lemmas adv_fetches = adv_fetch8 adv_fetch16 adv_fetch32 adv_fetch64 adv_simm32 adv_simm8 adv_uimm8

definition rex_ok :: "dctx \<Rightarrow> bool" where
  "rex_ok c \<longleftrightarrow> rex_w c \<le> 1 \<and> rex_r c \<le> 1 \<and> rex_x c \<le> 1 \<and> rex_b c \<le> 1"


lemma word3_cases: "f \<le> (7 :: u8) \<Longrightarrow> f = 0 \<or> f = 1 \<or> f = 2 \<or> f = 3 \<or> f = 4 \<or> f = 5 \<or> f = 6 \<or> f = 7"
proof -
  assume "f \<le> 7"
  then have "unat f \<le> 7" by (simp add: word_le_nat_alt)
  then have "unat f = 0 \<or> unat f = 1 \<or> unat f = 2 \<or> unat f = 3 \<or> unat f = 4 \<or> unat f = 5
      \<or> unat f = 6 \<or> unat f = 7" by linarith
  then show ?thesis
    by (auto simp: word_unat_eq_iff)
qed

lemma ext_reg_eq: "f \<le> 7 \<Longrightarrow> rex \<le> 1 \<Longrightarrow> ext_reg f rex = unat f + 8 * unat rex"
proof -
  assume f: "f \<le> 7" and r: "rex \<le> 1"
  have "rex = 0 \<or> rex = 1" using r by unat_arith
  then show ?thesis
    using word3_cases [OF f] by (elim disjE) (simp_all add: ext_reg_def)
qed
lemma ext_reg_bound: "f \<le> 7 \<Longrightarrow> rex \<le> 1 \<Longrightarrow> ext_reg f rex < 16"
  by (simp add: ext_reg_eq word_le_nat_alt)

lemma field_le_7 [simp]: "MODRM_REG b \<le> 7" "MODRM_RM b \<le> 7" "SIB_INDEX b \<le> 7" "SIB_BASE b \<le> 7"
  unfolding MODRM_REG_def MODRM_RM_def SIB_INDEX_def SIB_BASE_def by (rule word_and_le1)+

lemma field_le_3 [simp]: "MODRM_MOD b \<le> 3" "SIB_SCALE b \<le> 3"
  unfolding MODRM_MOD_def SIB_SCALE_def by (rule word_and_le1)+

text \<open>Opcode ranges of eight: the low three bits.\<close>

lemma opcode_low: "lo \<le> b \<Longrightarrow> b \<le> lo + 7 \<Longrightarrow> lo \<le> 0xF8 \<Longrightarrow> b - lo \<le> (7 :: u8)"
  by unat_arith

definition width_ok :: "nat \<Rightarrow> bool" where
  "width_ok n \<longleftrightarrow> n \<in> {0, 1, 2, 4, 8, 16}"

lemma width_ok_simps [simp]: "width_ok 0" "width_ok (Suc 0)" "width_ok 2" "width_ok 4" "width_ok 8"
    "width_ok 16"
  by (simp_all add: width_ok_def)

section \<open>Well-formed operands and instructions\<close>

definition operand_ok :: "operand \<Rightarrow> bool" where
  "operand_ok op \<longleftrightarrow> reg_index op < 16 \<and> - 2 \<le> mem_base op \<and> mem_base op < 16 \<and>
     - 1 \<le> mem_index op \<and> mem_index op < 16 \<and> width_ok (op_bytes op)"

definition insn_ok :: "instruction \<Rightarrow> bool" where
  "insn_ok i \<longleftrightarrow> operand_ok (operand0 i) \<and> operand_ok (operand1 i) \<and> operand_ok (operand2 i) \<and>
     num_operands i \<le> 3 \<and> op_size i \<in> {2, 4, 8} \<and> condition i < 16"

lemma operand_ok_none [simp]: "operand_ok op_none"
  by (simp add: operand_ok_def op_none_def)

lemma operand_ok_reg [simp]: "operand_ok (op_reg r n) \<longleftrightarrow> r < 16 \<and> width_ok n"
  by (simp add: operand_ok_def op_none_def op_reg_def)

lemma operand_ok_imm [simp]: "operand_ok (op_imm v n) \<longleftrightarrow> width_ok n"
  by (simp add: operand_ok_def op_none_def op_imm_def)

lemma operand_ok_rel [simp]: "operand_ok (op_rel v)"
  by (simp add: operand_ok_def op_none_def op_rel_def)

lemma operand_ok_bytes: "operand_ok op \<Longrightarrow> width_ok n \<Longrightarrow> operand_ok (op\<lparr>op_bytes := n\<rparr>)"
  by (simp add: operand_ok_def)

lemma insn_ok_upd [simp]:
  "insn_ok (i\<lparr>opcode := x\<rparr>) \<longleftrightarrow> insn_ok i"
  "insn_ok (i\<lparr>ilength := n\<rparr>) \<longleftrightarrow> insn_ok i"
  "insn_ok i \<Longrightarrow> operand_ok p \<Longrightarrow> insn_ok (i\<lparr>operand0 := p\<rparr>)"
  "insn_ok i \<Longrightarrow> operand_ok p \<Longrightarrow> insn_ok (i\<lparr>operand1 := p\<rparr>)"
  "insn_ok i \<Longrightarrow> operand_ok p \<Longrightarrow> insn_ok (i\<lparr>operand2 := p\<rparr>)"
  "insn_ok i \<Longrightarrow> n \<le> 3 \<Longrightarrow> insn_ok (i\<lparr>num_operands := n\<rparr>)"
  "insn_ok i \<Longrightarrow> cc < 16 \<Longrightarrow> insn_ok (i\<lparr>condition := cc\<rparr>)"
  by (simp_all add: insn_ok_def)

lemma op_size_ok [simp]: "insn_ok i \<Longrightarrow> width_ok (op_size i)"
  by (auto simp: insn_ok_def)

lemma decode_sib_ok:
  assumes "decode_sib c md op = (op', c')" and "operand_ok op" and "rex_ok c"
  shows "adv c c'" and "operand_ok op'"
proof -
  obtain sib c1 where f: "fetch8 c = (sib, c1)" by fastforce
  note a = adv_fetch8 [OF f]
  have "rex_ok c1" using assms(3) advD [OF a] by (simp add: rex_ok_def)
  then have b: "ext_reg (SIB_BASE sib) (rex_b c1) < 16" "ext_reg (SIB_INDEX sib) (rex_x c1) < 16"
    by (auto intro: ext_reg_bound simp: rex_ok_def)
  show "adv c c'"
    using assms(1) a unfolding decode_sib_def f
    by (auto simp: Let_def split: prod.splits if_splits dest: adv_simm32 intro: adv_trans)
  show "operand_ok op'"
    using assms(1,2) b unfolding decode_sib_def f operand_ok_def
    by (auto simp: Let_def split: prod.splits if_splits)
qed


lemma decode_base_ok:
  assumes d: "decode_base c m op = Some (op', c')" and ok: "operand_ok op" and r: "rex_ok c"
  shows "adv c c' \<and> operand_ok op'"
proof (cases "MODRM_RM m = 4")
  case True
  then have "decode_sib c (MODRM_MOD m) op = (op', c')" using d by (simp add: decode_base_def)
  from decode_sib_ok [OF this ok r] show ?thesis by simp
next
  case False
  have "ext_reg (MODRM_RM m) (rex_b c) < 16"
    using r by (auto intro: ext_reg_bound simp: rex_ok_def)
  with False d ok show ?thesis
    unfolding decode_base_def operand_ok_def
    by (auto split: prod.splits if_splits bind_splits dest: adv_simm32)
qed

lemma decode_disp_ok:
  assumes "decode_disp c md op = (op', c')" and "operand_ok op"
  shows "adv c c' \<and> operand_ok op'"
  using assms unfolding decode_disp_def
  by (auto simp: operand_ok_def split: prod.splits if_splits dest: adv_fetches)

lemma decode_modrm_mem_ok:
  assumes d: "decode_modrm_mem c op = Some (op', c')" and ok: "operand_ok op" and r: "rex_ok c"
  shows "adv c c' \<and> operand_ok op'"
proof -
  obtain m c1 where f: "fetch8 c = (m, c1)" by fastforce
  note a = adv_fetch8 [OF f]
  have r1: "rex_ok c1" using r advD [OF a] by (simp add: rex_ok_def)
  have b: "ext_reg (MODRM_RM m) (rex_b c1) < 16"
    using r1 by (auto intro: ext_reg_bound simp: rex_ok_def)
  show ?thesis
  proof (cases "MODRM_MOD m = 3")
    case True
    with d a b ok show ?thesis by (auto simp: decode_modrm_mem_def f operand_ok_def)
  next
    case False
    define op1 where "op1 = op\<lparr>op_type := WG_OPERAND_MEM, mem_base := - 1, mem_index := - 1,
        mem_scale := 1, mem_disp := 0, mem_seg := cx_seg c1\<rparr>"
    have op1: "operand_ok op1" using ok by (simp add: op1_def operand_ok_def)
    from False d obtain op2 c2 where b2: "decode_base c1 m op1 = Some (op2, c2)"
      and d2: "decode_disp c2 (MODRM_MOD m) op2 = (op', c')"
      by (auto simp: decode_modrm_mem_def f op1_def [symmetric] split: bind_splits)
    from decode_base_ok [OF b2 op1 r1] have "adv c1 c2" "operand_ok op2" by simp_all
    with decode_disp_ok [OF d2] a show ?thesis by (blast intro: adv_trans)
  qed
qed

lemma decode_modrm_ok:
  assumes d: "decode_modrm c n = Some (rm, rg, c')" and r: "rex_ok c" and n: "width_ok n"
  shows "adv c c' \<and> operand_ok rm \<and> operand_ok rg"
proof -
  have "operand_ok (op_none\<lparr>op_bytes := n\<rparr>)" using n by (simp add: operand_ok_def op_none_def)
  moreover have "ext_reg (MODRM_REG (code c ! ptr c)) (rex_r c) < 16"
    using r by (auto intro: ext_reg_bound simp: rex_ok_def)
  ultimately show ?thesis
    using d n by (auto simp: decode_modrm_def split: bind_splits if_splits dest!: decode_modrm_mem_ok [OF _ _ r])
qed

section \<open>What every opcode group keeps\<close>

definition dec_ok :: "decoder \<Rightarrow> bool" where
  "dec_ok d \<longleftrightarrow> (\<forall>c i i' c'. rex_ok c \<longrightarrow> insn_ok i \<longrightarrow> d c i = Some (i', c') \<longrightarrow>
     adv c c' \<and> insn_ok i' \<and> op_size i' = op_size i)"

lemma dec_okI:
  "(\<And>c i i' c'. rex_ok c \<Longrightarrow> insn_ok i \<Longrightarrow> d c i = Some (i', c') \<Longrightarrow>
     adv c c' \<and> insn_ok i' \<and> op_size i' = op_size i) \<Longrightarrow> dec_ok d"
  unfolding dec_ok_def by blast

lemma dec_okD:
  "dec_ok d \<Longrightarrow> d c i = Some (i', c') \<Longrightarrow> rex_ok c \<Longrightarrow> insn_ok i \<Longrightarrow>
     adv c c' \<and> insn_ok i' \<and> op_size i' = op_size i"
  unfolding dec_ok_def by blast

lemma modrm_bindE:
  assumes "Option.bind (decode_modrm c n) f = Some r" and "rex_ok c" and "width_ok n"
    and "\<And>rm rg c'. adv c c' \<Longrightarrow> operand_ok rm \<Longrightarrow> operand_ok rg \<Longrightarrow> f (rm, rg, c') = Some r \<Longrightarrow> P"
  shows P
proof -
  obtain rm rg c1 where d: "decode_modrm c n = Some (rm, rg, c1)" and f: "f (rm, rg, c1) = Some r"
    using assms(1) by (auto simp: bind_eq_Some_conv)
  from decode_modrm_ok [OF d assms(2,3)] f show P by (blast intro: assms(4))
qed

text \<open>A fetched value or immediate operand, taken apart once for all the groups.\<close>

lemma let_pairE:
  assumes "(case p of (x, y) \<Rightarrow> f x y) = r" and "\<And>x y. p = (x, y) \<Longrightarrow> f x y = r \<Longrightarrow> P"
  shows P
  using assms by (cases p) simp

lemma imm_ok:
  "imm_s8 n c = (im, c') \<Longrightarrow> adv c c' \<and> (width_ok n \<longrightarrow> operand_ok im)"
  "imm_u8 n c = (im, c') \<Longrightarrow> adv c c' \<and> (width_ok n \<longrightarrow> operand_ok im)"
  "imm_s32 n c = (im, c') \<Longrightarrow> adv c c' \<and> (width_ok n \<longrightarrow> operand_ok im)"
  by (auto simp: imm_s8_def imm_u8_def imm_s32_def split: prod.splits dest: adv_fetches)

lemma imm_pick_ok:
  "(if p then imm_s8 n c else imm_s32 m c) = (im, c') \<Longrightarrow> width_ok n \<Longrightarrow> width_ok m \<Longrightarrow>
     adv c c' \<and> operand_ok im"
  "(if p then imm_u8 n c else imm_s32 m c) = (im, c') \<Longrightarrow> width_ok n \<Longrightarrow> width_ok m \<Longrightarrow>
     adv c c' \<and> operand_ok im"
  "(if q then imm_s8 k c else if p then imm_s8 n c else imm_s32 m c) = (im, c') \<Longrightarrow>
     width_ok k \<Longrightarrow> width_ok n \<Longrightarrow> width_ok m \<Longrightarrow> adv c c' \<and> operand_ok im"
  "(if p then imm_u8 n c else if q then (op_imm v m, c) else (op_reg 1 k, c)) = (im, c') \<Longrightarrow>
     width_ok n \<Longrightarrow> width_ok m \<Longrightarrow> width_ok k \<Longrightarrow> adv c c' \<and> operand_ok im"
  by (auto split: if_splits dest: imm_ok)

lemma dec_ok_rm_r: "width_ok n \<Longrightarrow> dec_ok (dec_rm_r opc n)"
  unfolding dec_rm_r_def by (rule dec_okI, erule modrm_bindE, assumption, assumption) auto

lemma dec_ok_r_rm: "width_ok n \<Longrightarrow> dec_ok (dec_r_rm opc n)"
  unfolding dec_r_rm_def by (rule dec_okI, erule modrm_bindE, assumption, assumption) auto

lemma dec_ok_nop: "dec_ok dec_nop"
proof (rule dec_okI)
  fix c i i' c' assume r: "rex_ok c" and i: "insn_ok i" and d: "dec_nop c i = Some (i', c')"
  have "unat (0 OR rex_b c) < 16" using r by (simp add: rex_ok_def word_le_nat_alt)
  then show "adv c c' \<and> insn_ok i' \<and> op_size i' = op_size i"
    using d i by (auto simp: dec_nop_def split: if_splits)
qed

lemma ext_reg_low:
  "rex_ok c \<Longrightarrow> lo \<le> b \<Longrightarrow> b \<le> lo + 7 \<Longrightarrow> lo \<le> 0xF8 \<Longrightarrow> ext_reg (b - lo) (rex_b c) < 16"
  by (intro ext_reg_bound opcode_low) (auto simp: rex_ok_def)

lemma cond_bound: "lo \<le> b \<Longrightarrow> b \<le> lo + 15 \<Longrightarrow> lo \<le> 0xF0 \<Longrightarrow> b - lo < (16 :: u8)"
  by unat_arith

lemma dec_ok_mov_r8: "0xB0 \<le> b \<Longrightarrow> b \<le> 0xB7 \<Longrightarrow> dec_ok (dec_mov_r8_imm b)"
  by (auto intro!: dec_okI simp: dec_mov_r8_imm_def ext_reg_low dest!: adv_fetches split: prod.splits)

lemma dec_ok_mov_r_imm: "0xB8 \<le> b \<Longrightarrow> b \<le> 0xBF \<Longrightarrow> dec_ok (dec_mov_r_imm b)"
proof (rule dec_okI)
  fix c i i' c' assume b: "0xB8 \<le> b" "b \<le> 0xBF" and r: "rex_ok c" and i: "insn_ok i"
    and d: "dec_mov_r_imm b c i = Some (i', c')"
  have "ext_reg (b - 0xB8) (rex_b c) < 16" using ext_reg_low [OF r b(1)] b(2) by simp
  then show "adv c c' \<and> insn_ok i' \<and> op_size i' = op_size i"
    using d i unfolding dec_mov_r_imm_def Let_def
    by (cases "fetch64 c"; cases "fetch32 c") (auto split: if_splits dest: adv_fetches)
qed

lemma dec_ok_plain: "dec_ok (dec_plain opc)"
  by (auto intro!: dec_okI simp: dec_plain_def)

lemma dec_ok_mov_rm_imm: "dec_ok (dec_mov_rm_imm b)"
  unfolding dec_mov_rm_imm_def Let_def
  by (rule dec_okI, erule modrm_bindE, assumption, simp)
    (auto elim!: let_pairE dest!: imm_pick_ok intro: adv_trans)

lemma dec_ok_group_80: "dec_ok (dec_group_80 b)"
  unfolding dec_group_80_def Let_def
  by (rule dec_okI, erule modrm_bindE, assumption, simp)
    (auto elim!: let_pairE dest!: imm_pick_ok intro: adv_trans)

lemma dec_ok_test_imm: "dec_ok (dec_test_imm b)"
  by (auto intro!: dec_okI simp: dec_test_imm_def dest!: adv_fetches split: prod.splits if_splits)

lemma dec_ok_push_pop: "0x50 \<le> b \<Longrightarrow> b \<le> 0x5F \<Longrightarrow> dec_ok (dec_push_pop b)"
proof (rule dec_okI)
  fix c i i' c' assume b: "0x50 \<le> b" "b \<le> 0x5F" and r: "rex_ok c" and i: "insn_ok i"
    and d: "dec_push_pop b c i = Some (i', c')"
  have "ext_reg (b - 0x50) (rex_b c) < 16" if "b \<le> 0x57" using ext_reg_low [OF r b(1)] that by simp
  moreover have "ext_reg (b - 0x58) (rex_b c) < 16" if "\<not> b \<le> 0x57"
  proof -
    have "0x58 \<le> b" using that by unat_arith
    from ext_reg_low [OF r this] b(2) show ?thesis by simp
  qed
  ultimately show "adv c c' \<and> insn_ok i' \<and> op_size i' = op_size i"
    using d i by (auto simp: dec_push_pop_def split: if_splits)
qed

lemma dec_ok_push_imm: "dec_ok (dec_push_imm b)"
  by (auto intro!: dec_okI simp: dec_push_imm_def dest!: adv_fetches split: prod.splits if_splits)

lemma dec_ok_jcc_short: "0x70 \<le> b \<Longrightarrow> b \<le> 0x7F \<Longrightarrow> dec_ok (dec_jcc_short b)"
  using cond_bound [of "0x70" b]
  by (auto intro!: dec_okI simp: dec_jcc_short_def dest!: adv_fetches split: prod.splits)

lemma dec_ok_jcc_near: "0x80 \<le> b \<Longrightarrow> b \<le> 0x8F \<Longrightarrow> dec_ok (dec_jcc_near b)"
  using cond_bound [of "0x80" b]
  by (auto intro!: dec_okI simp: dec_jcc_near_def dest!: adv_fetches split: prod.splits)

lemma dec_ok_jmp8: "dec_ok dec_jmp8"
  by (auto intro!: dec_okI simp: dec_jmp8_def dest!: adv_fetches split: prod.splits)

lemma dec_ok_branch32: "dec_ok (dec_branch32 opc)"
  by (auto intro!: dec_okI simp: dec_branch32_def dest!: adv_fetches split: prod.splits)

lemma dec_ok_ret: "dec_ok (dec_ret b)"
  by (auto intro!: dec_okI simp: dec_ret_def dest!: adv_fetches split: prod.splits if_splits)

lemma dec_ok_group_FF: "dec_ok dec_group_FF"
  unfolding dec_group_FF_def Let_def
  by (rule dec_okI, erule modrm_bindE, assumption, simp)
    (auto simp: operand_ok_bytes split: if_splits)

lemma F6_test_ok:
  assumes "(let (im, c) = (if p then imm_u8 1 c else imm_s32 n c)
      in Some (i\<lparr>operand0 := rm, opcode := opc, operand1 := im, num_operands := 2\<rparr>, c)) = Some (i', c')"
    and "width_ok n" and "insn_ok i" and "operand_ok rm"
  shows "adv c c' \<and> insn_ok i' \<and> op_size i' = op_size i"
proof -
  obtain im c1 where p: "(if p then imm_u8 1 c else imm_s32 n c) = (im, c1)" by fastforce
  from imm_pick_ok(2) [OF p] assms(2) have "adv c c1" "operand_ok im" by simp_all
  with assms show ?thesis unfolding p by auto
qed

lemma dec_ok_group_F6: "dec_ok (dec_group_F6 b)"
proof (rule dec_okI)
  fix c i i' c' assume r: "rex_ok c" and i: "insn_ok i" and d: "dec_group_F6 b c i = Some (i', c')"
  define sz where "sz = (if b = 0xF6 then 1 else op_size i)"
  have w: "width_ok sz" using i by (simp add: sz_def)
  show "adv c c' \<and> insn_ok i' \<and> op_size i' = op_size i"
    using d unfolding dec_group_F6_def Let_def sz_def [symmetric]
  proof (rule modrm_bindE [OF _ r w])
    fix rm rg c1 assume a: "adv c c1" and ok: "operand_ok rm"
      and e: "(case (rm, rg, c1) of (rm, rg, c) \<Rightarrow>
         if reg_index rg mod 8 = 0 \<or> reg_index rg mod 8 = 1 then
           case if sz = 1 then imm_u8 1 c else imm_s32 sz c of (im, c) \<Rightarrow>
             Some (i\<lparr>operand0 := rm, opcode := WG_OP_TEST, operand1 := im, num_operands := 2\<rparr>, c)
         else Some (i\<lparr>operand0 := rm, num_operands := 1, opcode :=
           (if reg_index rg mod 8 = 2 then WG_OP_NOT else if reg_index rg mod 8 = 3 then WG_OP_NEG
            else if reg_index rg mod 8 = 4 then WG_OP_MUL else if reg_index rg mod 8 = 5 then WG_OP_IMUL
            else if reg_index rg mod 8 = 6 then WG_OP_DIV else WG_OP_IDIV)\<rparr>, c)) = Some (i', c')"
    show ?thesis
    proof (cases "reg_index rg mod 8 = 0 \<or> reg_index rg mod 8 = 1")
      case True
      with e have "(let (im, c) = (if sz = 1 then imm_u8 1 c1 else imm_s32 sz c1)
        in Some (i\<lparr>operand0 := rm, opcode := WG_OP_TEST, operand1 := im, num_operands := 2\<rparr>, c)) =
        Some (i', c')" by (simp only: Let_def prod.case if_True)
      from F6_test_ok [OF this w i ok] a show ?thesis by (blast intro: adv_trans)
    next
      case False
      with e obtain opc where "i' = i\<lparr>operand0 := rm, num_operands := 1, opcode := opc\<rparr>" "c' = c1"
        by (simp only: prod.case if_False) blast
      with a i ok show ?thesis by simp
    qed
  qed
qed

lemma dec_ok_shift: "dec_ok (dec_shift b)"
proof (rule dec_okI)
  fix c i i' c' assume r: "rex_ok c" and i: "insn_ok i" and d: "dec_shift b c i = Some (i', c')"
  show "adv c c' \<and> insn_ok i' \<and> op_size i' = op_size i"
    using d unfolding dec_shift_def Let_def
  proof (rule modrm_bindE [OF _ r])
    show "width_ok (if b = 0xC0 \<or> b = 0xD0 \<or> b = 0xD2 then 1 else op_size i)" using i by simp
  next
    fix rm rg c1 assume a: "adv c c1" and ok: "operand_ok rm"
      and e: "(case (rm, rg, c1) of (rm, rg, c) \<Rightarrow>
         case if b = 0xC0 \<or> b = 0xC1 then imm_u8 1 c
              else if b = 0xD0 \<or> b = 0xD1 then (op_imm 1 1, c) else (op_reg 1 1, c) of
         (cnt, c) \<Rightarrow> Some (i\<lparr>opcode := shift_ops ! (reg_index rg mod 8), operand0 := rm,
           operand1 := cnt, num_operands := 2\<rparr>, c)) = Some (i', c')"
    obtain cnt c2 where p: "(if b = 0xC0 \<or> b = 0xC1 then imm_u8 1 c1
        else if b = 0xD0 \<or> b = 0xD1 then (op_imm 1 1, c1) else (op_reg 1 1, c1)) = (cnt, c2)"
      by fastforce
    have "adv c1 c2 \<and> operand_ok cnt" using imm_pick_ok(4) [OF p] by simp
    with a have "adv c c2" and "operand_ok cnt" by (blast intro: adv_trans)+
    moreover from e p have "i' = i\<lparr>opcode := shift_ops ! (reg_index rg mod 8), operand0 := rm,
           operand1 := cnt, num_operands := 2\<rparr>" and "c' = c2" by simp_all
    ultimately show ?thesis using i ok by simp
  qed
qed

lemma dec_ok_xchg_rax: "0x91 \<le> b \<Longrightarrow> b \<le> 0x97 \<Longrightarrow> dec_ok (dec_xchg_rax b)"
proof (rule dec_okI)
  fix c i i' c' assume b: "0x91 \<le> b" "b \<le> 0x97" and r: "rex_ok c" and i: "insn_ok i"
    and d: "dec_xchg_rax b c i = Some (i', c')"
  have "0x90 \<le> b" using b(1) by unat_arith
  from ext_reg_low [OF r this] b(2) have "ext_reg (b - 0x90) (rex_b c) < 16" by simp
  then show "adv c c' \<and> insn_ok i' \<and> op_size i' = op_size i"
    using d i by (auto simp: dec_xchg_rax_def)
qed

lemma dec_ok_convert: "dec_ok (dec_convert b)"
  and dec_ok_string: "dec_ok (dec_string b)"
  by (auto intro!: dec_okI simp: dec_convert_def dec_string_def)

lemma dec_ok_int: "dec_ok (dec_int b)"
  by (auto intro!: dec_okI simp: dec_int_def dest!: adv_fetches split: prod.splits if_splits)

lemma dec_ok_imul3: "dec_ok (dec_imul3 b)"
  unfolding dec_imul3_def
  by (rule dec_okI, erule modrm_bindE, assumption, simp)
    (auto split: prod.splits if_splits dest!: adv_fetches intro: adv_trans)

lemma dec_ok_setcc: "0x90 \<le> b \<Longrightarrow> b \<le> 0x9F \<Longrightarrow> dec_ok (dec_setcc b)"
  unfolding dec_setcc_def using cond_bound [of "0x90" b]
  by (intro dec_okI) (erule modrm_bindE, assumption, auto)

lemma dec_ok_movx: "width_ok n \<Longrightarrow> dec_ok (dec_movx opc n)"
  unfolding dec_movx_def
  by (rule dec_okI, erule modrm_bindE, assumption) (auto simp: operand_ok_bytes)

lemma dec_ok_bswap: "0xC8 \<le> b \<Longrightarrow> b \<le> 0xCF \<Longrightarrow> dec_ok (dec_bswap b)"
  by (auto intro!: dec_okI simp: dec_bswap_def ext_reg_low)

lemma dec_ok_nop_modrm: "dec_ok dec_nop_modrm"
  unfolding dec_nop_modrm_def
  by (rule dec_okI, erule modrm_bindE, assumption, simp) auto

lemma dec_ok_cmovcc: "0x40 \<le> b \<Longrightarrow> b \<le> 0x4F \<Longrightarrow> dec_ok (dec_cmovcc b)"
proof (rule dec_okI)
  fix c i i' c' assume b: "0x40 \<le> b" "b \<le> 0x4F" and r: "rex_ok c" and i: "insn_ok i"
    and d: "dec_cmovcc b c i = Some (i', c')"
  from d obtain i1 where d1: "dec_r_rm WG_OP_CMOVCC (op_size i) c i = Some (i1, c')"
    and i': "i' = i1\<lparr>condition := b - 0x40\<rparr>"
    by (auto simp: dec_cmovcc_def split: bind_splits)
  have "b - 0x40 < 16" using b by (auto intro: cond_bound)
  with dec_okD [OF dec_ok_r_rm [OF op_size_ok [OF i]] d1 r i] i'
  show "adv c c' \<and> insn_ok i' \<and> op_size i' = op_size i" by simp
qed

lemma dec_ok_alu: "dec_ok (dec_alu b)"
proof (rule dec_okI)
  fix c i i' c' assume r: "rex_ok c" and i: "insn_ok i" and d: "dec_alu b c i = Some (i', c')"
  have rm_r: "adv c c' \<and> insn_ok i' \<and> op_size i' = op_size i"
    if "dec_rm_r opc n c i = Some (i', c')" "width_ok n" for opc n
    by (rule dec_okD [OF dec_ok_rm_r [OF that(2)] that(1) r i])
  have r_rm: "adv c c' \<and> insn_ok i' \<and> op_size i' = op_size i"
    if "dec_r_rm opc n c i = Some (i', c')" "width_ok n" for opc n
    by (rule dec_okD [OF dec_ok_r_rm [OF that(2)] that(1) r i])
  show "adv c c' \<and> insn_ok i' \<and> op_size i' = op_size i"
  proof (cases "b AND 7 \<le> 3")
    case True
    with d i show ?thesis unfolding dec_alu_def Let_def
      by (auto split: if_split_asm dest!: rm_r r_rm)
  next
    case False
    then have "\<not> b AND 7 \<le> 1" by unat_arith
    with False d i show ?thesis unfolding dec_alu_def Let_def
      by (auto elim!: let_pairE split: if_split_asm dest: adv_fetches)
  qed
qed


section \<open>The opcode switch\<close>

lemma dec_ok_if: "(p \<Longrightarrow> dec_ok d) \<Longrightarrow> (\<not> p \<Longrightarrow> dec_ok e) \<Longrightarrow> dec_ok (\<lambda>c i. if p then d c i else e c i)"
  by (cases p) simp_all

lemma dec_ok_sized:
  "dec_ok (\<lambda>c i. dec_rm_r opc (op_size i) c i)"
  "dec_ok (\<lambda>c i. dec_r_rm opc (op_size i) c i)"
  "dec_ok (\<lambda>c i. dec_rm_r opc (if p then 1 else op_size i) c i)"
  "dec_ok (\<lambda>c i. dec_r_rm opc (if p then 1 else op_size i) c i)"
  by (auto intro!: dec_okI dest: dec_okD [OF dec_ok_rm_r, rotated 1] dec_okD [OF dec_ok_r_rm, rotated 1])

lemma dec_ok_fetch8:
  assumes "\<And>b. dec_ok (d b)" shows "dec_ok (\<lambda>c i. let (b, c) = fetch8 c in d b c i)"
proof (rule dec_okI)
  fix c i i' c' assume r: "rex_ok c" and i: "insn_ok i"
    and d: "(let (b, c) = fetch8 c in d b c i) = Some (i', c')"
  obtain b c1 where f: "fetch8 c = (b, c1)" by fastforce
  note a = adv_fetch8 [OF f]
  have r1: "rex_ok c1" using r advD [OF a] by (simp add: rex_ok_def)
  from d have "d b c1 i = Some (i', c')" by (simp add: f)
  from dec_okD [OF assms this r1 i] a show "adv c c' \<and> insn_ok i' \<and> op_size i' = op_size i"
    by (blast intro: adv_trans)
qed

lemma dec_ok_0F: "dec_ok decode_0F"
  unfolding decode_0F_def
  by (rule dec_ok_fetch8)
    (intro dec_ok_if dec_ok_jcc_near dec_ok_setcc dec_ok_cmovcc dec_ok_movx dec_ok_plain dec_ok_bswap
      dec_ok_nop_modrm dec_ok_rm_r dec_ok_r_rm dec_ok_sized; simp)

lemma dec_ok_opcode: "dec_ok (decode_opcode b)"
  unfolding decode_opcode_def
  by (intro dec_ok_if dec_ok_nop dec_ok_sized dec_ok_rm_r dec_ok_r_rm dec_ok_mov_r8 dec_ok_mov_r_imm
      dec_ok_mov_rm_imm dec_ok_group_80 dec_ok_alu dec_ok_test_imm dec_ok_push_pop dec_ok_push_imm
      dec_ok_jcc_short dec_ok_jmp8 dec_ok_branch32 dec_ok_ret dec_ok_plain dec_ok_group_FF
      dec_ok_group_F6 dec_ok_shift dec_ok_xchg_rax dec_ok_convert dec_ok_int dec_ok_string
      dec_ok_imul3 dec_ok_0F; simp)

section \<open>No undefined behaviour while a byte is left\<close>

definition low :: "dctx \<Rightarrow> bool" where
  "low c \<longleftrightarrow> uint (cx_rip c) + int (length (code c)) < 2 ^ 63 - 2 ^ 31"

lemma adv_low: "adv c c' \<Longrightarrow> low c' = low c"
  using advD [of c c'] by (simp add: low_def)

lemma adv_bound: "adv c c' \<Longrightarrow> ptr c \<le> length (code c) \<Longrightarrow> ptr c' \<le> length (code c')"
  using advD(1) [of c c'] by (simp add: adv_def)

lemma simm32_range:
  assumes "fetch_simm32 c = (d, c')" shows "- (2 ^ 31) \<le> sint d" and "sint d < 2 ^ 31"
proof -
  obtain v :: u32 where d: "d = scast v" using assms by (auto simp: fetch_simm32_def split: prod.splits)
  have "- (2 ^ 31) \<le> sint v" "sint v < 2 ^ 31" using sint_ge [of v] sint_lt [of v] by simp_all
  moreover have "sint d = sint v" unfolding d by (rule sint_up_scast) (simp add: is_up)
  ultimately show "- (2 ^ 31) \<le> sint d" "sint d < 2 ^ 31" by simp_all
qed

lemma pows: "(2 :: int) ^ 63 = 9223372036854775808" "(2 :: int) ^ 31 = 2147483648"
  by simp_all

lemma sint_small: "uint (w :: u64) < 2 ^ 63 \<Longrightarrow> sint w = uint w"
proof -
  assume "uint w < 2 ^ 63"
  moreover have "- (2 ^ 63) \<le> uint w" using uint_ge_0 [of w] pows by linarith
  ultimately show ?thesis by (simp only: sint_uint) (simp add: signed_take_bit_int_eq_self)
qed

lemma uint_add_of_nat:
  assumes "uint (r :: u64) + int n < 2 ^ 64" shows "uint (r + of_nat n) = uint r + int n"
proof -
  have "uint (r + of_nat n) = (uint r + int n mod 2 ^ 64) mod 2 ^ 64"
    by (simp add: uint_word_ariths unsigned_of_nat zmod_int take_bit_eq_mod)
  also have "\<dots> = (uint r + int n) mod 2 ^ 64" by (rule mod_add_right_eq)
  also have "\<dots> = uint r + int n"
    using assms uint_ge_0 [of r] by (intro mod_pos_pos_trivial) linarith+
  finally show ?thesis .
qed

lemma decode_base_total:
  assumes "low c" and "ptr c \<le> length (code c)"
  shows "decode_base c m op \<noteq> None"
proof -
  obtain d c1 where f: "fetch_simm32 c = (d, c1)" by fastforce
  note a = adv_simm32 [OF f]
  have "ptr c1 \<le> length (code c)" using adv_bound [OF a assms(2)] advD(1) [OF a] by simp
  then have r: "uint (cx_rip c) + int (ptr c1) < 2 ^ 63 - 2 ^ 31"
    using assms(1) by (simp add: low_def)
  then have "sint (cx_rip c1 + of_nat (ptr c1)) = uint (cx_rip c) + int (ptr c1)"
    using uint_add_of_nat [of "cx_rip c" "ptr c1"] sint_small [of "cx_rip c + of_nat (ptr c1)"]
      advD(2) [OF a] by simp
  moreover have "- (2 ^ 63) \<le> uint (cx_rip c) + int (ptr c1) + sint d"
    using simm32_range [OF f] uint_ge_0 [of "cx_rip c"] pows by linarith
  moreover have "uint (cx_rip c) + int (ptr c1) + sint d < 2 ^ 63"
    using simm32_range [OF f] r by linarith
  ultimately have "sadd64 (cx_rip c1 + of_nat (ptr c1)) d \<noteq> None" by (simp add: sadd64_def)
  then show ?thesis by (auto simp: decode_base_def f)
qed

lemma decode_modrm_total:
  assumes "low c" and "ptr c < length (code c)"
  shows "\<exists>rm rg c'. decode_modrm c n = Some (rm, rg, c')"
proof -
  obtain m c1 where f: "fetch8 c = (m, c1)" by fastforce
  note a = adv_fetch8 [OF f]
  have "\<exists>op' c'. decode_base c1 m op = Some (op', c')" for op
    using decode_base_total [of c1 m op] adv_low [OF a] adv_bound [OF a] assms by auto
  then have "Option.bind (decode_base c1 m op) (\<lambda>(op, c). Some (decode_disp c (MODRM_MOD m) op)) \<noteq> None"
    for op by (metis bind.bind_lunit case_prod_conv option.distinct(1))
  then have "decode_modrm_mem c op \<noteq> None" for op
    unfolding decode_modrm_mem_def f Let_def prod.case by (simp only: split: if_split) simp
  then have "\<exists>op' c'. decode_modrm_mem c op = Some (op', c')" for op by fast
  then obtain op' c' where "decode_modrm_mem c (op_none\<lparr>op_bytes := n\<rparr>) = Some (op', c')" by blast
  then show ?thesis using assms(2) by (simp add: decode_modrm_def guard_def)
qed

definition dec_total :: "decoder \<Rightarrow> bool" where
  "dec_total d \<longleftrightarrow> (\<forall>c i. low c \<longrightarrow> ptr c < length (code c) \<longrightarrow> d c i \<noteq> None)"

lemma dec_total_if: "dec_total d \<Longrightarrow> dec_total e \<Longrightarrow> dec_total (\<lambda>c i. if p then d c i else e c i)"
  by (simp add: dec_total_def)

lemma modrm_bind_total:
  "low c \<Longrightarrow> ptr c < length (code c) \<Longrightarrow> (\<And>rm rg c'. f (rm, rg, c') \<noteq> None) \<Longrightarrow>
     Option.bind (decode_modrm c n) f \<noteq> None"
  using decode_modrm_total [of c n] by auto

lemma dec_total_modrm:
  "dec_total (dec_rm_r opc n)" "dec_total (dec_r_rm opc n)" 
  "dec_total (\<lambda>c i. dec_rm_r opc (op_size i) c i)"  "dec_total (\<lambda>c i. dec_r_rm opc (op_size i) c i)"
  "dec_total (\<lambda>c i. dec_rm_r opc (if p then 1 else op_size i) c i)"
  "dec_total (\<lambda>c i. dec_r_rm opc (if p then 1 else op_size i) c i)"
  "dec_total (dec_mov_rm_imm b)" "dec_total (dec_group_80 b)" "dec_total dec_group_FF"
  "dec_total (dec_group_F6 b)" "dec_total (dec_shift b)" "dec_total (dec_imul3 b)"
  "dec_total (dec_setcc b)" "dec_total (dec_movx opc n)" "dec_total dec_nop_modrm"
  unfolding dec_total_def dec_rm_r_def dec_r_rm_def dec_mov_rm_imm_def dec_group_80_def
    dec_group_FF_def dec_group_F6_def dec_shift_def dec_imul3_def dec_setcc_def dec_movx_def
    dec_nop_modrm_def Let_def
  by (intro allI impI modrm_bind_total; simp split: prod.splits)+

lemma dec_total_cmovcc: "dec_total (dec_cmovcc b)"
  using dec_total_modrm(4) [of WG_OP_CMOVCC]
  by (auto simp: dec_total_def dec_cmovcc_def split: bind_splits)

lemma dec_total_alu: "dec_total (dec_alu b)"
  using dec_total_modrm(1,2)
  by (auto simp: dec_total_def dec_alu_def Let_def split: prod.splits)

lemma dec_total_rest:
  "dec_total (dec_plain opc)" "dec_total dec_nop" "dec_total (dec_mov_r8_imm b)"
  "dec_total (dec_mov_r_imm b)" "dec_total (dec_test_imm b)" "dec_total (dec_push_pop b)"
  "dec_total (dec_push_imm b)" "dec_total (dec_jcc_short b)" "dec_total dec_jmp8"
  "dec_total (dec_branch32 opc)" "dec_total (dec_ret b)" "dec_total (dec_xchg_rax b)"
  "dec_total (dec_convert b)" "dec_total (dec_int b)" "dec_total (dec_string b)"
  "dec_total (dec_jcc_near b)" "dec_total (dec_bswap b)"
  unfolding dec_total_def dec_plain_def dec_nop_def dec_mov_r8_imm_def dec_mov_r_imm_def
    dec_test_imm_def dec_push_pop_def dec_push_imm_def dec_jcc_short_def dec_jmp8_def
    dec_branch32_def dec_ret_def dec_xchg_rax_def dec_convert_def dec_int_def dec_string_def
    dec_jcc_near_def dec_bswap_def
  by (simp_all split: prod.splits)

text \<open>The two-byte opcodes need a byte for the second opcode byte and one for the ModR/M.\<close>

lemma decode_0F_total:
  assumes "low c" and "ptr c + 1 < length (code c)"
  shows "decode_0F c i \<noteq> None"
proof -
  have f: "fetch8 c = (code c ! ptr c, c\<lparr>ptr := ptr c + 1\<rparr>)" using assms(2) by (simp add: fetch8_def)
  have t: "d (c\<lparr>ptr := ptr c + 1\<rparr>) i \<noteq> None" if "dec_total d" for d
    using that assms by (simp add: dec_total_def low_def)
  show ?thesis unfolding decode_0F_def f Let_def prod.case
    by (rule t, intro dec_total_if dec_total_modrm dec_total_cmovcc dec_total_rest)
qed

lemma decode_opcode_total:
  assumes "low c" and "ptr c + 1 < length (code c)"
  shows "decode_opcode b c i \<noteq> None"
proof (cases "b = 0x0F")
  case True
  have "decode_opcode 0x0F c i = decode_0F c i" by (simp add: decode_opcode_def)
  with True decode_0F_total [OF assms] show ?thesis by simp
next
  case False
  have t: "d c i \<noteq> None" if "dec_total d" for d
    using that assms by (simp add: dec_total_def)
  show ?thesis using False unfolding decode_opcode_def
    by (simp only: if_False) (rule t, intro dec_total_if dec_total_modrm dec_total_alu dec_total_rest)
qed

section \<open>The whole decoder\<close>

lemma prefix_step_ptr: "prefix_step b c = Some c' \<Longrightarrow> ptr c' = ptr c \<and> code c' = code c \<and> cx_rip c' = cx_rip c"
  by (auto simp: prefix_step_def split: if_splits)

lemma bit_field_le_1: "(x :: u8) AND 1 \<le> 1" by (rule word_and_le1)

lemma prefix_step_rex: "prefix_step b c = Some c' \<Longrightarrow> rex_ok c \<Longrightarrow> rex_ok c'"
  unfolding prefix_step_def rex_ok_def by (auto split: if_splits simp: bit_field_le_1)

lemma parse_prefixes_ok:
  "rex_ok c \<Longrightarrow> c' = parse_prefixes bs c \<Longrightarrow>
     rex_ok c' \<and> code c' = code c \<and> cx_rip c' = cx_rip c \<and> ptr c \<le> ptr c' \<and> ptr c' \<le> ptr c + length bs"
proof (induction bs c arbitrary: c' rule: parse_prefixes.induct)
  case (2 b bs c)
  show ?case
  proof (cases "prefix_step b c")
    case None with 2 show ?thesis by simp
  next
    case (Some c1)
    have "rex_ok (c1\<lparr>ptr := ptr c1 + 1\<rparr>)"
      using prefix_step_rex [OF Some 2(2)] by (simp add: rex_ok_def)
    from 2(1) [OF Some this, of c'] 2(3) prefix_step_ptr [OF Some] Some show ?thesis by simp
  qed
qed simp


lemma init_rex: "rex_ok (init_ctx bs rip)"
  by (simp add: rex_ok_def init_ctx_def)

definition prefix_end :: "u8 list \<Rightarrow> u64 \<Rightarrow> nat" where
  "prefix_end bs rip = ptr (parse_prefixes bs (init_ctx bs rip))"

lemma start_insn_ok: "insn_ok (prefix_insn c\<lparr>op_size := effective_op_size c\<rparr>)"
  by (simp add: insn_ok_def prefix_insn_def blank_insn_def effective_op_size_def)

lemma decode_cases:
  assumes "bs \<noteq> []"
  obtains c where "c = parse_prefixes bs (init_ctx bs rip)" "rex_ok c" "code c = bs" "cx_rip c = rip"
    "ptr c = prefix_end bs rip" "prefix_end bs rip \<le> length bs"
  using parse_prefixes_ok [OF init_rex [of bs rip] refl] by (simp add: prefix_end_def init_ctx_def)

lemma decode_step:
  assumes "bs \<noteq> []" and c: "c = parse_prefixes bs (init_ctx bs rip)" and "ptr c < length bs" "code c = bs"
  shows "wg_x86_decode bs rip =
    Option.bind (decode_opcode (bs ! ptr c) (c\<lparr>ptr := ptr c + 1\<rparr>)
        (prefix_insn c\<lparr>op_size := effective_op_size c\<rparr>))
      (\<lambda>(i, c). Some (ptr c, i\<lparr>ilength := ptr c\<rparr>))"
  using assms(1,3,4) unfolding wg_x86_decode_def c [symmetric] by (simp add: Let_def fetch8_def)

text \<open>C22: A successful decode consumes at least one byte after the prefixes and never more than the buffer, reports that length in the instruction, and the instruction has register numbers below 16 and legal operand widths.\<close>

lemma decode_shape:
  assumes "wg_x86_decode bs rip = Some (n, i)" and "n \<noteq> 0"
  shows "prefix_end bs rip < n \<and> n \<le> length bs \<and> ilength i = n \<and> insn_ok i"
proof -
  have bs: "bs \<noteq> []" using assms by (auto simp: wg_x86_decode_def)
  from bs obtain c where c: "c = parse_prefixes bs (init_ctx bs rip)" "rex_ok c" "code c = bs"
    "cx_rip c = rip" "ptr c = prefix_end bs rip" "prefix_end bs rip \<le> length bs"
    by (rule decode_cases)
  have lt: "ptr c < length bs" using assms bs
    by (auto simp: wg_x86_decode_def c(1) [symmetric] Let_def split: if_splits)
  let ?c = "c\<lparr>ptr := ptr c + 1\<rparr>" and ?i = "prefix_insn c\<lparr>op_size := effective_op_size c\<rparr>"
  from decode_step [OF bs c(1) lt c(3)] assms(1)
  obtain i1 c1 where d: "decode_opcode (bs ! ptr c) ?c ?i = Some (i1, c1)"
    and n: "n = ptr c1" "i = i1\<lparr>ilength := ptr c1\<rparr>" by (auto split: bind_splits)
  have "rex_ok ?c" using c(2) by (simp add: rex_ok_def)
  from dec_okD [OF dec_ok_opcode d this start_insn_ok] have "adv ?c c1" "insn_ok i1" by simp_all
  moreover have "ptr c1 \<le> length bs"
    using adv_bound [OF \<open>adv ?c c1\<close>] advD(1) [OF \<open>adv ?c c1\<close>] lt c(3) by simp
  ultimately show ?thesis using n c(5) advD(10) [of ?c c1] by simp
qed

text \<open>C23: When at least three bytes follow the prefixes and the code is not at the very end of the address space, decoding is free of undefined behaviour and always yields an instruction, whatever the bytes are.\<close>

lemma decode_succeeds:
  assumes "prefix_end bs rip + 2 < length bs" and "uint rip + int (length bs) < 2 ^ 63 - 2 ^ 31"
  shows "\<exists>n i. wg_x86_decode bs rip = Some (n, i) \<and> n \<noteq> 0"
proof -
  have bs: "bs \<noteq> []" using assms by auto
  from bs obtain c where c: "c = parse_prefixes bs (init_ctx bs rip)" "rex_ok c" "code c = bs"
    "cx_rip c = rip" "ptr c = prefix_end bs rip" "prefix_end bs rip \<le> length bs"
    by (rule decode_cases)
  let ?c = "c\<lparr>ptr := ptr c + 1\<rparr>" and ?i = "prefix_insn c\<lparr>op_size := effective_op_size c\<rparr>"
  have "low ?c" "ptr ?c + 1 < length (code ?c)" using assms c(3,4,5) by (simp_all add: low_def)
  from decode_opcode_total [OF this, of "bs ! ptr c" ?i]
  obtain i1 c1 where d: "decode_opcode (bs ! ptr c) ?c ?i = Some (i1, c1)" by auto
  have "rex_ok ?c" using c(2) by (simp add: rex_ok_def)
  from dec_okD [OF dec_ok_opcode d this start_insn_ok] have "adv ?c c1" by simp
  then have "ptr c1 \<noteq> 0" using advD(10) by fastforce
  moreover have "wg_x86_decode bs rip = Some (ptr c1, i1\<lparr>ilength := ptr c1\<rparr>)"
    using decode_step [OF bs c(1) _ c(3)] assms(1) c(5) d by simp
  ultimately show ?thesis by blast
qed

end
