(* ===== verification/X86Interp.thy ===== *)
theory X86Interp
  imports X86State GuestMemory X86DecodeOk
begin

text \<open>
  The interpreter of \<open>Sources/CPU/wg_x86_interp.{h,c}\<close>: operand access, effective addresses,
  the condition codes, the stack, one definition per \<open>case\<close> of \<open>wg_x86_exec_one\<close> and the
  block loop. Undefined behaviour of the source (an index past \<open>gpr[16]\<close> or \<open>xmm[16]\<close>, a
  shift by the width or more, a signed multiplication that overflows, a host access past the
  end of a region) is \<open>undef\<close>. Log messages are left out.
\<close>

datatype WGInterpResult = WG_INTERP_OK | WG_INTERP_HALT | WG_INTERP_SYSCALL | WG_INTERP_ERROR

section \<open>Registers, operands, addresses\<close>

definition get_gpr :: "cpu \<Rightarrow> nat \<Rightarrow> u64 ub" where
  "get_gpr s r = (if r < 16 then Some (gpr s r) else undef)"

definition put_gpr :: "cpu \<Rightarrow> nat \<Rightarrow> u64 \<Rightarrow> cpu ub" where
  "put_gpr s r v = (if r < 16 then Some (s\<lparr>gpr := (gpr s)(r := v)\<rparr>) else undef)"

definition mask_for :: "nat \<Rightarrow> u64" where
  "mask_for bytes = (if 8 \<le> bytes then NOT 0 else push_bit (bytes * 8) 1 - 1)"

text \<open>For 8 bytes the mask \<open>(1ULL << 64) - 1\<close> is computed only when the sign bit is set.\<close>

definition sign_extend :: "u64 \<Rightarrow> nat \<Rightarrow> u64 ub" where
  "sign_extend val bytes = do {
     guard (1 \<le> bytes \<and> bytes \<le> 8);
     let bits = bytes * 8;
     let sign = push_bit (bits - 1) 1;
     if val AND sign \<noteq> 0 then do {
       guard (bits < 64);
       Some (val OR NOT (push_bit bits 1 - 1))
     } else Some val
   }"

text \<open>The address of a memory operand, as \<open>read_operand\<close>, \<open>write_operand\<close> and \<open>compute_ea\<close>
  all compute it.\<close>

definition effective_address :: "cpu \<Rightarrow> operand \<Rightarrow> u64 ub" where
  "effective_address s op =
     (if mem_base op = - 2 then Some (mem_disp op)
      else do {
        b \<leftarrow> (if 0 \<le> mem_base op then get_gpr s (nat (mem_base op)) else Some 0);
        x \<leftarrow> (if 0 \<le> mem_index op
              then map_option (\<lambda>v. v * mem_scale op) (get_gpr s (nat (mem_index op))) else Some 0);
        Some (b + x + mem_disp op)
      })"

definition read_operand :: "cpu \<Rightarrow> mem_space \<Rightarrow> operand \<Rightarrow> u64 ub" where
  "read_operand s mem op =
     (let m = mask_for (op_bytes op)
      in case op_type op of
           WG_OPERAND_REG \<Rightarrow> map_option (\<lambda>v. v AND m) (get_gpr s (reg_index op))
         | WG_OPERAND_IMM \<Rightarrow> Some (imm op AND m)
         | WG_OPERAND_REL \<Rightarrow> Some (imm op AND m)
         | WG_OPERAND_MEM \<Rightarrow> do {
             a \<leftarrow> effective_address s op;
             if op_bytes op = 1 then map_option ucast (wg_memory_read_u8 mem a)
             else if op_bytes op = 2 then map_option ucast (wg_memory_read_u16 mem a)
             else if op_bytes op = 4 then map_option ucast (wg_memory_read_u32 mem a)
             else if op_bytes op = 8 then wg_memory_read_u64 mem a
             else Some 0
           }
         | WG_OPERAND_NONE \<Rightarrow> Some 0)"

definition write_operand :: "cpu \<Rightarrow> mem_space \<Rightarrow> operand \<Rightarrow> u64 \<Rightarrow> (cpu \<times> mem_space) ub" where
  "write_operand s mem op val =
     (let m = mask_for (op_bytes op)
      in case op_type op of
           WG_OPERAND_REG \<Rightarrow> do {
             old \<leftarrow> get_gpr s (reg_index op);
             s \<leftarrow> put_gpr s (reg_index op)
                   (if op_bytes op = 4 then val AND 0xFFFFFFFF
                    else if op_bytes op < 4 then (old AND NOT m) OR (val AND m)
                    else val);
             Some (s, mem)
           }
         | WG_OPERAND_MEM \<Rightarrow> do {
             a \<leftarrow> effective_address s op;
             mem \<leftarrow> (if op_bytes op = 1 then wg_memory_write_u8 mem a (ucast val)
                    else if op_bytes op = 2 then wg_memory_write_u16 mem a (ucast val)
                    else if op_bytes op = 4 then wg_memory_write_u32 mem a (ucast val)
                    else if op_bytes op = 8 then wg_memory_write_u64 mem a val
                    else Some mem);
             Some (s, mem)
           }
         | _ \<Rightarrow> Some (s, mem))"

definition compute_ea :: "cpu \<Rightarrow> operand \<Rightarrow> u64 ub" where
  "compute_ea s op = (if op_type op \<noteq> WG_OPERAND_MEM then Some 0 else effective_address s op)"

definition eval_condition :: "cpu \<Rightarrow> u8 \<Rightarrow> bool" where
  "eval_condition s cc =
     (let cf = wg_x86_get_flag s WG_FLAG_CF;
          zf = wg_x86_get_flag s WG_FLAG_ZF;
          sf = wg_x86_get_flag s WG_FLAG_SF;
          ovf = wg_x86_get_flag s WG_FLAG_OF;
          pf = wg_x86_get_flag s WG_FLAG_PF;
          c = cc AND 0xF
      in if c = 0x0 then ovf else if c = 0x1 then \<not> ovf
         else if c = 0x2 then cf else if c = 0x3 then \<not> cf
         else if c = 0x4 then zf else if c = 0x5 then \<not> zf
         else if c = 0x6 then cf \<or> zf else if c = 0x7 then \<not> cf \<and> \<not> zf
         else if c = 0x8 then sf else if c = 0x9 then \<not> sf
         else if c = 0xA then pf else if c = 0xB then \<not> pf
         else if c = 0xC then sf \<noteq> ovf else if c = 0xD then sf = ovf
         else if c = 0xE then zf \<or> sf \<noteq> ovf else \<not> zf \<and> sf = ovf)"

definition push64 :: "cpu \<Rightarrow> mem_space \<Rightarrow> u64 \<Rightarrow> (cpu \<times> mem_space) ub" where
  "push64 s mem val = do {
     let s = s\<lparr>gpr := (gpr s)(WG_REG_RSP := gpr s WG_REG_RSP - 8)\<rparr>;
     mem \<leftarrow> wg_memory_write_u64 mem (gpr s WG_REG_RSP) val;
     Some (s, mem)
   }"

definition pop64 :: "cpu \<Rightarrow> mem_space \<Rightarrow> (u64 \<times> cpu) ub" where
  "pop64 s mem = do {
     val \<leftarrow> wg_memory_read_u64 mem (gpr s WG_REG_RSP);
     Some (val, s\<lparr>gpr := (gpr s)(WG_REG_RSP := gpr s WG_REG_RSP + 8)\<rparr>)
   }"

section \<open>Moves\<close>

type_synonym handler = "cpu \<Rightarrow> mem_space \<Rightarrow> instruction \<Rightarrow> (cpu \<times> mem_space) ub"

definition exec_mov :: handler where
  "exec_mov s mem i = do {
     val \<leftarrow> read_operand s mem (operand1 i);
     write_operand s mem (operand0 i) val
   }"

definition exec_movzx :: handler where
  "exec_movzx s mem i = do {
     val \<leftarrow> read_operand s mem (operand1 i);
     write_operand s mem (operand0 i) val
   }"

definition exec_movsx :: handler where
  "exec_movsx s mem i = do {
     val \<leftarrow> read_operand s mem (operand1 i);
     sval \<leftarrow> sign_extend val (op_bytes (operand1 i));
     write_operand s mem (operand0 i) sval
   }"

definition exec_lea :: handler where
  "exec_lea s mem i = do {
     ea \<leftarrow> compute_ea s (operand1 i);
     write_operand s mem (operand0 i) ea
   }"

definition exec_xchg :: handler where
  "exec_xchg s mem i = do {
     a \<leftarrow> read_operand s mem (operand0 i);
     b \<leftarrow> read_operand s mem (operand1 i);
     (s, mem) \<leftarrow> write_operand s mem (operand0 i) b;
     write_operand s mem (operand1 i) a
   }"

definition exec_push :: handler where
  "exec_push s mem i = do {
     val \<leftarrow> read_operand s mem (operand0 i);
     push64 s mem val
   }"

definition exec_pop :: handler where
  "exec_pop s mem i = do {
     (val, s) \<leftarrow> pop64 s mem;
     write_operand s mem (operand0 i) val
   }"

section \<open>Arithmetic and logic\<close>

text \<open>The operands of a binary operation: a narrower second operand is sign extended.\<close>

definition alu_operands :: "cpu \<Rightarrow> mem_space \<Rightarrow> instruction \<Rightarrow> (u64 \<times> u64) ub" where
  "alu_operands s mem i = do {
     a \<leftarrow> read_operand s mem (operand0 i);
     b \<leftarrow> read_operand s mem (operand1 i);
     b \<leftarrow> (if op_bytes (operand1 i) < op_bytes (operand0 i)
           then sign_extend b (op_bytes (operand1 i)) else Some b);
     Some (a, b)
   }"

definition exec_add :: handler where
  "exec_add s mem i = do {
     (a, b) \<leftarrow> alu_operands s mem i;
     let r = a + b;
     (s, mem) \<leftarrow> write_operand s mem (operand0 i) r;
     Some (wg_x86_update_flags_add s a b r (op_size i * 8), mem)
   }"

definition exec_sub :: handler where
  "exec_sub s mem i = do {
     (a, b) \<leftarrow> alu_operands s mem i;
     let r = a - b;
     (s, mem) \<leftarrow> write_operand s mem (operand0 i) r;
     Some (wg_x86_update_flags_sub s a b r (op_size i * 8), mem)
   }"

definition exec_cmp :: handler where
  "exec_cmp s mem i = do {
     (a, b) \<leftarrow> alu_operands s mem i;
     let r = a - b;
     Some (wg_x86_update_flags_sub s a b r (op_size i * 8), mem)
   }"

definition exec_and :: handler where
  "exec_and s mem i = do {
     (a, b) \<leftarrow> alu_operands s mem i;
     let r = a AND b;
     (s, mem) \<leftarrow> write_operand s mem (operand0 i) r;
     Some (wg_x86_update_flags_logic s r (op_size i * 8), mem)
   }"

definition exec_or :: handler where
  "exec_or s mem i = do {
     (a, b) \<leftarrow> alu_operands s mem i;
     let r = a OR b;
     (s, mem) \<leftarrow> write_operand s mem (operand0 i) r;
     Some (wg_x86_update_flags_logic s r (op_size i * 8), mem)
   }"

definition exec_xor :: handler where
  "exec_xor s mem i = do {
     (a, b) \<leftarrow> alu_operands s mem i;
     let r = a XOR b;
     (s, mem) \<leftarrow> write_operand s mem (operand0 i) r;
     Some (wg_x86_update_flags_logic s r (op_size i * 8), mem)
   }"

definition exec_not :: handler where
  "exec_not s mem i = do {
     val \<leftarrow> read_operand s mem (operand0 i);
     write_operand s mem (operand0 i) (NOT val)
   }"

definition exec_neg :: handler where
  "exec_neg s mem i = do {
     val \<leftarrow> read_operand s mem (operand0 i);
     let r = NOT val + 1;
     (s, mem) \<leftarrow> write_operand s mem (operand0 i) r;
     Some (wg_x86_update_flags_sub s 0 val r (op_size i * 8), mem)
   }"

definition exec_inc :: handler where
  "exec_inc s mem i = do {
     val \<leftarrow> read_operand s mem (operand0 i);
     let r = val + 1;
     (s, mem) \<leftarrow> write_operand s mem (operand0 i) r;
     let old_cf = wg_x86_get_flag s WG_FLAG_CF;
     let s = wg_x86_update_flags_add s val 1 r (op_size i * 8);
     Some (wg_x86_set_flag s WG_FLAG_CF old_cf, mem)
   }"

definition exec_dec :: handler where
  "exec_dec s mem i = do {
     val \<leftarrow> read_operand s mem (operand0 i);
     let r = val - 1;
     (s, mem) \<leftarrow> write_operand s mem (operand0 i) r;
     let old_cf = wg_x86_get_flag s WG_FLAG_CF;
     let s = wg_x86_update_flags_sub s val 1 r (op_size i * 8);
     Some (wg_x86_set_flag s WG_FLAG_CF old_cf, mem)
   }"

definition exec_test :: handler where
  "exec_test s mem i = do {
     a \<leftarrow> read_operand s mem (operand0 i);
     b \<leftarrow> read_operand s mem (operand1 i);
     let r = a AND b;
     Some (wg_x86_update_flags_logic s r (op_size i * 8), mem)
   }"

section \<open>Shifts\<close>

text \<open>\<open>val >> (bits - count)\<close>: the difference is an unsigned 64-bit number, so a count above
  \<open>bits\<close> shifts by far more than the width.\<close>

definition exec_shl :: handler where
  "exec_shl s mem i = do {
     val \<leftarrow> read_operand s mem (operand0 i);
     c \<leftarrow> read_operand s mem (operand1 i);
     let count = unat (c AND 0x3F);
     if count > 0 then do {
       let r = push_bit count val;
       (s, mem) \<leftarrow> write_operand s mem (operand0 i) r;
       let s = wg_x86_update_flags_logic s r (op_size i * 8);
       let bits = op_size i * 8;
       guard (count \<le> bits);
       Some (wg_x86_set_flag s WG_FLAG_CF (drop_bit (bits - count) val AND 1 \<noteq> 0), mem)
     } else Some (s, mem)
   }"

definition exec_shr :: handler where
  "exec_shr s mem i = do {
     val \<leftarrow> read_operand s mem (operand0 i);
     c \<leftarrow> read_operand s mem (operand1 i);
     let count = unat (c AND 0x3F);
     if count > 0 then do {
       let m = mask_for (op_size i);
       let r = drop_bit count (val AND m);
       (s, mem) \<leftarrow> write_operand s mem (operand0 i) r;
       let s = wg_x86_update_flags_logic s r (op_size i * 8);
       Some (wg_x86_set_flag s WG_FLAG_CF (drop_bit (count - 1) val AND 1 \<noteq> 0), mem)
     } else Some (s, mem)
   }"

definition exec_sar :: handler where
  "exec_sar s mem i = do {
     val \<leftarrow> read_operand s mem (operand0 i);
     c \<leftarrow> read_operand s mem (operand1 i);
     let count = unat (c AND 0x3F);
     if count > 0 then do {
       sval \<leftarrow> sign_extend val (op_size i);
       let r = signed_drop_bit count sval;
       (s, mem) \<leftarrow> write_operand s mem (operand0 i) r;
       let s = wg_x86_update_flags_logic s r (op_size i * 8);
       Some (wg_x86_set_flag s WG_FLAG_CF (drop_bit (count - 1) val AND 1 \<noteq> 0), mem)
     } else Some (s, mem)
   }"

section \<open>Multiplication\<close>

definition smul64 :: "u64 \<Rightarrow> u64 \<Rightarrow> u64 ub" where
  "smul64 a b = (if - (2 ^ 63) \<le> sint a * sint b \<and> sint a * sint b < 2 ^ 63
     then Some (a * b) else undef)"

text \<open>One operand: the 128-bit product is split over RAX and RDX.\<close>

definition exec_imul :: handler where
  "exec_imul s mem i =
     (if num_operands i = 1 then do {
        a \<leftarrow> sign_extend (gpr s WG_REG_RAX) (op_size i);
        v \<leftarrow> read_operand s mem (operand0 i);
        b \<leftarrow> sign_extend v (op_size i);
        let r = sint a * sint b;
        let s = s\<lparr>gpr := (gpr s)(WG_REG_RAX := word_of_int r AND mask_for (op_size i))\<rparr>;
        Some (s\<lparr>gpr := (gpr s)(WG_REG_RDX :=
          word_of_int (r div 2 ^ (op_size i * 8)) AND mask_for (op_size i))\<rparr>, mem)
      }
      else if num_operands i = 2 then do {
        x \<leftarrow> read_operand s mem (operand0 i);
        a \<leftarrow> sign_extend x (op_size i);
        y \<leftarrow> read_operand s mem (operand1 i);
        b \<leftarrow> sign_extend y (op_size i);
        r \<leftarrow> smul64 a b;
        write_operand s mem (operand0 i) r
      }
      else do {
        y \<leftarrow> read_operand s mem (operand1 i);
        b \<leftarrow> sign_extend y (op_size i);
        z \<leftarrow> read_operand s mem (operand2 i);
        im \<leftarrow> sign_extend z (op_size i);
        r \<leftarrow> smul64 b im;
        write_operand s mem (operand0 i) r
      })"

section \<open>The remaining straight-line instructions\<close>

definition exec_leave :: handler where
  "exec_leave s mem i = do {
     let s = s\<lparr>gpr := (gpr s)(WG_REG_RSP := gpr s WG_REG_RBP)\<rparr>;
     (val, s) \<leftarrow> pop64 s mem;
     Some (s\<lparr>gpr := (gpr s)(WG_REG_RBP := val)\<rparr>, mem)
   }"

definition exec_cmovcc :: handler where
  "exec_cmovcc s mem i =
     (if eval_condition s (condition i) then do {
        val \<leftarrow> read_operand s mem (operand1 i);
        write_operand s mem (operand0 i) val
      } else Some (s, mem))"

definition exec_setcc :: handler where
  "exec_setcc s mem i =
     write_operand s mem (operand0 i) (if eval_condition s (condition i) then 1 else 0)"

definition exec_cdq :: handler where
  "exec_cdq s mem i =
     (if sint (ucast (gpr s WG_REG_RAX) :: u32) < 0
      then Some (s\<lparr>gpr := (gpr s)(WG_REG_RDX :=
             (gpr s WG_REG_RDX AND NOT 0xFFFFFFFF) OR 0xFFFFFFFF)\<rparr>, mem)
      else Some (s\<lparr>gpr := (gpr s)(WG_REG_RDX := gpr s WG_REG_RDX AND NOT 0xFFFFFFFF)\<rparr>, mem))"

definition exec_cqo :: handler where
  "exec_cqo s mem i =
     Some (s\<lparr>gpr := (gpr s)(WG_REG_RDX := (if sint (gpr s WG_REG_RAX) < 0 then NOT 0 else 0))\<rparr>, mem)"

definition exec_cdqe :: handler where
  "exec_cdqe s mem i =
     Some (s\<lparr>gpr := (gpr s)(WG_REG_RAX :=
       scast (ucast (gpr s WG_REG_RAX AND 0xFFFFFFFF) :: u32))\<rparr>, mem)"

definition exec_cwde :: handler where
  "exec_cwde s mem i =
     Some (s\<lparr>gpr := (gpr s)(WG_REG_RAX := (gpr s WG_REG_RAX AND NOT 0xFFFFFFFF) OR
       ucast (scast (ucast (gpr s WG_REG_RAX AND 0xFFFF) :: u16) :: u32))\<rparr>, mem)"

text \<open>\<open>__builtin_bswap32\<close> and \<open>__builtin_bswap64\<close>: the bytes in reverse order.\<close>

definition bswap :: "nat \<Rightarrow> u64 \<Rightarrow> u64" where
  "bswap n v = le_word (rev (le_bytes n v))"

definition exec_bswap :: handler where
  "exec_bswap s mem i = do {
     val \<leftarrow> get_gpr s (reg_index (operand0 i));
     s \<leftarrow> put_gpr s (reg_index (operand0 i)) (if op_size i = 8 then bswap 8 val else bswap 4 val);
     Some (s, mem)
   }"

definition set_abcd :: "cpu \<Rightarrow> u64 \<Rightarrow> u64 \<Rightarrow> u64 \<Rightarrow> u64 \<Rightarrow> cpu" where
  "set_abcd s a b c d = s\<lparr>gpr := (gpr s)(WG_REG_RAX := a, WG_REG_RBX := b, WG_REG_RCX := c,
     WG_REG_RDX := d)\<rparr>"

definition exec_cpuid :: handler where
  "exec_cpuid s mem i =
     (let leaf = (ucast (gpr s WG_REG_RAX) :: u32)
      in Some (if leaf = 0 then set_abcd s 0x16 0x656E6957 0x00007373 0x73616C47
               else if leaf = 1 then set_abcd s 0x000906EA 0x00100800 0x7FFAFBBF 0xBFEBFBFF
               else set_abcd s 0 0 0 0, mem))"

definition exec_xorps :: handler where
  "exec_xorps s mem i =
     (if op_type (operand1 i) = WG_OPERAND_REG then do {
        let dst = reg_index (operand0 i);
        let src = reg_index (operand1 i);
        guard (dst < 16 \<and> src < 16);
        let s = s\<lparr>xmm := (xmm s)(dst := (fst (xmm s dst) XOR fst (xmm s src), snd (xmm s dst)))\<rparr>;
        Some (s\<lparr>xmm := (xmm s)(dst := (fst (xmm s dst), snd (xmm s dst) XOR snd (xmm s src)))\<rparr>, mem)
      } else Some (s, mem))"

definition exec_cmc :: handler where
  "exec_cmc s mem i = Some (wg_x86_set_flag s WG_FLAG_CF (\<not> wg_x86_get_flag s WG_FLAG_CF), mem)"

text \<open>The \<open>case\<close>s that only change registers, flags and memory and fall out of the switch with
  \<open>next_rip\<close> unchanged. The last line is the \<open>default\<close>: the opcodes that the interpreter
  does not implement are logged and skipped.\<close>

definition exec_simple :: handler where
  "exec_simple s mem i =
     (let opc = opcode i
      in if opc = WG_OP_NOP then Some (s, mem)
         else if opc = WG_OP_MOV then exec_mov s mem i
         else if opc = WG_OP_MOVZX then exec_movzx s mem i
         else if opc = WG_OP_MOVSX then exec_movsx s mem i
         else if opc = WG_OP_LEA then exec_lea s mem i
         else if opc = WG_OP_XCHG then exec_xchg s mem i
         else if opc = WG_OP_PUSH then exec_push s mem i
         else if opc = WG_OP_POP then exec_pop s mem i
         else if opc = WG_OP_ADD then exec_add s mem i
         else if opc = WG_OP_SUB then exec_sub s mem i
         else if opc = WG_OP_CMP then exec_cmp s mem i
         else if opc = WG_OP_AND then exec_and s mem i
         else if opc = WG_OP_OR then exec_or s mem i
         else if opc = WG_OP_XOR then exec_xor s mem i
         else if opc = WG_OP_NOT then exec_not s mem i
         else if opc = WG_OP_NEG then exec_neg s mem i
         else if opc = WG_OP_INC then exec_inc s mem i
         else if opc = WG_OP_DEC then exec_dec s mem i
         else if opc = WG_OP_TEST then exec_test s mem i
         else if opc = WG_OP_SHL then exec_shl s mem i
         else if opc = WG_OP_SHR then exec_shr s mem i
         else if opc = WG_OP_SAR then exec_sar s mem i
         else if opc = WG_OP_IMUL then exec_imul s mem i
         else if opc = WG_OP_LEAVE then exec_leave s mem i
         else if opc = WG_OP_CMOVCC then exec_cmovcc s mem i
         else if opc = WG_OP_SETCC then exec_setcc s mem i
         else if opc = WG_OP_CDQ then exec_cdq s mem i
         else if opc = WG_OP_CQO then exec_cqo s mem i
         else if opc = WG_OP_CDQE then exec_cdqe s mem i
         else if opc = WG_OP_CWDE then exec_cwde s mem i
         else if opc = WG_OP_BSWAP then exec_bswap s mem i
         else if opc = WG_OP_CPUID then exec_cpuid s mem i
         else if opc = WG_OP_XORPS then exec_xorps s mem i
         else if opc = WG_OP_CLC then Some (wg_x86_set_flag s WG_FLAG_CF False, mem)
         else if opc = WG_OP_STC then Some (wg_x86_set_flag s WG_FLAG_CF True, mem)
         else if opc = WG_OP_CMC then exec_cmc s mem i
         else if opc = WG_OP_CLD then Some (wg_x86_set_flag s WG_FLAG_DF False, mem)
         else if opc = WG_OP_STD then Some (wg_x86_set_flag s WG_FLAG_DF True, mem)
         else Some (s, mem))"

section \<open>Control flow\<close>

type_synonym outcome = "(WGInterpResult \<times> cpu \<times> mem_space) ub"

text \<open>\<open>cpu->rip = next_rip; return r;\<close>\<close>

definition finish :: "WGInterpResult \<Rightarrow> u64 \<Rightarrow> cpu \<Rightarrow> mem_space \<Rightarrow> outcome" where
  "finish r next s mem = Some (r, s\<lparr>rip := next\<rparr>, mem)"

definition branch_target :: "cpu \<Rightarrow> mem_space \<Rightarrow> instruction \<Rightarrow> u64 ub" where
  "branch_target s mem i =
     (if op_type (operand0 i) = WG_OPERAND_REL then Some (imm (operand0 i))
      else read_operand s mem (operand0 i))"

definition exec_jmp :: "cpu \<Rightarrow> mem_space \<Rightarrow> instruction \<Rightarrow> outcome" where
  "exec_jmp s mem i = do {
     next \<leftarrow> branch_target s mem i;
     finish WG_INTERP_OK next s mem
   }"

definition exec_jcc :: "u64 \<Rightarrow> cpu \<Rightarrow> mem_space \<Rightarrow> instruction \<Rightarrow> outcome" where
  "exec_jcc next s mem i =
     finish WG_INTERP_OK (if eval_condition s (condition i) then imm (operand0 i) else next) s mem"

definition in_thunk_range :: "u64 \<Rightarrow> bool" where
  "in_thunk_range a \<longleftrightarrow> 0xDEAD0000 \<le> a \<and> a < 0xDEAF0000"

definition exec_call :: "u64 \<Rightarrow> cpu \<Rightarrow> mem_space \<Rightarrow> instruction \<Rightarrow> outcome" where
  "exec_call next s mem i = do {
     (s, mem) \<leftarrow> push64 s mem next;
     target \<leftarrow> branch_target s mem i;
     if in_thunk_range target then do {
       (ret, s) \<leftarrow> pop64 s mem;
       finish WG_INTERP_SYSCALL ret s mem
     } else finish WG_INTERP_OK target s mem
   }"

definition exec_ret :: "cpu \<Rightarrow> mem_space \<Rightarrow> instruction \<Rightarrow> outcome" where
  "exec_ret s mem i = do {
     (next, s) \<leftarrow> pop64 s mem;
     let s = (if num_operands i > 0
              then s\<lparr>gpr := (gpr s)(WG_REG_RSP := gpr s WG_REG_RSP + imm (operand0 i))\<rparr> else s);
     finish (if next = 0 then WG_INTERP_HALT else WG_INTERP_OK) next s mem
   }"

section \<open>One instruction and blocks\<close>

text \<open>The \<open>switch\<close> of \<open>wg_x86_exec_one\<close>.\<close>

definition exec_insn :: "u64 \<Rightarrow> cpu \<Rightarrow> mem_space \<Rightarrow> instruction \<Rightarrow> outcome" where
  "exec_insn next s mem i =
     (let opc = opcode i
      in if opc = WG_OP_JMP then exec_jmp s mem i
         else if opc = WG_OP_JCC then exec_jcc next s mem i
         else if opc = WG_OP_CALL then exec_call next s mem i
         else if opc = WG_OP_RET then exec_ret s mem i
         else if opc = WG_OP_HLT then finish WG_INTERP_HALT next s mem
         else if opc = WG_OP_SYSCALL then finish WG_INTERP_SYSCALL next s mem
         else if opc = WG_OP_INT then finish WG_INTERP_SYSCALL next s mem
         else if opc = WG_OP_UNKNOWN then Some (WG_INTERP_ERROR, s, mem)
         else do {
           (s, mem) \<leftarrow> exec_simple s mem i;
           finish WG_INTERP_OK next s mem
         })"

text \<open>The loop that fills \<open>buf\<close>: \<open>n\<close> bytes from address \<open>a\<close>.\<close>

fun fetch_code :: "mem_space \<Rightarrow> u64 \<Rightarrow> nat \<Rightarrow> u8 list ub" where
  "fetch_code mem a 0 = Some []"
| "fetch_code mem a (Suc n) = do {
     b \<leftarrow> wg_memory_read_u8 mem a;
     bs \<leftarrow> fetch_code mem (a + 1) n;
     Some (b # bs)
   }"

definition wg_x86_exec_one :: "cpu \<Rightarrow> mem_space \<Rightarrow> outcome" where
  "wg_x86_exec_one s mem = do {
     buf \<leftarrow> fetch_code mem (rip s) 16;
     (len, i) \<leftarrow> wg_x86_decode buf (rip s);
     if len = 0 then Some (WG_INTERP_ERROR, s, mem)
     else exec_insn (rip s + of_nat len)
            (s\<lparr>instruction_count := instruction_count s + 1\<rparr>) mem i
   }"

fun wg_x86_exec_block :: "cpu \<Rightarrow> mem_space \<Rightarrow> nat \<Rightarrow> outcome" where
  "wg_x86_exec_block s mem 0 = Some (WG_INTERP_OK, s, mem)"
| "wg_x86_exec_block s mem (Suc n) = do {
     (r, s, mem) \<leftarrow> wg_x86_exec_one s mem;
     if r \<noteq> WG_INTERP_OK then Some (r, s, mem) else wg_x86_exec_block s mem n
   }"

end
