(* ===== verification/X86Stack.thy ===== *)
theory X86Stack
  imports X86Interp
begin

text \<open>
  The guest stack of the interpreter. \<open>stack_top\<close> reads the topmost 64-bit words above RSP;
  \<open>push64\<close> and \<open>pop64\<close> are a last-in first-out store for them as long as the slots below RSP are
  mapped, which is the interpretation of the locale \<open>lifo\<close>. From it follow the pairing of
  CALL with RET and the behaviour of calls into the Win32 thunk range.
\<close>

section \<open>The guest stack\<close>

fun stack_words :: "mem_space \<Rightarrow> u64 \<Rightarrow> nat \<Rightarrow> u64 list option" where
  "stack_words mem a 0 = Some []"
| "stack_words mem a (Suc n) = do {
     v \<leftarrow> wg_memory_read_u64 mem a;
     vs \<leftarrow> stack_words mem (a + 8) n;
     Some (v # vs)
   }"

lemma stack_words_nth:
  "stack_words mem a n = Some ws \<longleftrightarrow>
     length ws = n \<and> (\<forall>k < n. wg_memory_read_u64 mem (a + 8 * of_nat k) = Some (ws ! k))"
proof (induction n arbitrary: a ws)
  case 0
  then show ?case by auto
next
  case (Suc n)
  have e: "a + 8 + 8 * of_nat k = a + 8 * of_nat (Suc k)" for k by (simp add: algebra_simps)
  show ?case
  proof
    assume "stack_words mem a (Suc n) = Some ws"
    then obtain v vs where "wg_memory_read_u64 mem a = Some v" "stack_words mem (a + 8) n = Some vs" "ws = v # vs"
      by (auto split: bind_splits)
    with Suc.IH [of "a + 8" vs] show "length ws = Suc n \<and>
        (\<forall>k < Suc n. wg_memory_read_u64 mem (a + 8 * of_nat k) = Some (ws ! k))"
      unfolding e by (auto simp: less_Suc_eq_0_disj)
  next
    assume r: "length ws = Suc n \<and> (\<forall>k < Suc n. wg_memory_read_u64 mem (a + 8 * of_nat k) = Some (ws ! k))"
    then obtain v vs where ws: "ws = v # vs" "length vs = n" by (cases ws) auto
    from r have "wg_memory_read_u64 mem a = Some v" using ws by force
    moreover have "wg_memory_read_u64 mem (a + 8 * of_nat (Suc k)) = Some (vs ! k)" if "k < n" for k
      using r that ws by (metis Suc_less_eq nth_Cons_Suc)
    then have "stack_words mem (a + 8) n = Some vs" using Suc.IH [of "a + 8" vs] ws unfolding e by blast
    ultimately show "stack_words mem a (Suc n) = Some ws" using ws by simp
  qed
qed

definition stack_room :: "cpu \<times> mem_space \<Rightarrow> nat \<Rightarrow> nat \<Rightarrow> bool" where
  "stack_room st k n \<longleftrightarrow> wf_mem (snd st) \<and> 8 * (k + n) \<le> 2 ^ 64 \<and>
     (\<forall>j < k. mapped (snd st) (gpr (fst st) WG_REG_RSP - 8 * of_nat (Suc j)))"

definition stack_push :: "u64 \<Rightarrow> cpu \<times> mem_space \<Rightarrow> (cpu \<times> mem_space) option" where
  "stack_push v st = push64 (fst st) (snd st) v"

definition stack_pop :: "cpu \<times> mem_space \<Rightarrow> (u64 \<times> cpu \<times> mem_space) option" where
  "stack_pop st = map_option (\<lambda>(v, s). (v, s, snd st)) (pop64 (fst st) (snd st))"

definition stack_top :: "cpu \<times> mem_space \<Rightarrow> nat \<Rightarrow> u64 list option" where
  "stack_top st n = stack_words (snd st) (gpr (fst st) WG_REG_RSP) n"

lemma push64_SomeD:
  assumes "push64 s mem v = Some (s', mem')"
  shows "s' = s\<lparr>gpr := (gpr s)(WG_REG_RSP := gpr s WG_REG_RSP - 8)\<rparr>"
    and "wg_memory_write_u64 mem (gpr s WG_REG_RSP - 8) v = Some mem'"
  using assms by (auto simp: push64_def split: bind_splits)

lemma slot_apart:
  assumes "8 * Suc (Suc k) \<le> 2 ^ 64"
  shows "apart a 8 (a + 8 * of_nat (Suc k)) 8"
proof -
  obtain m where m: "m = 8 * Suc k" by blast
  have w: "8 * of_nat (Suc k) = (of_nat m :: u64)" unfolding m by simp
  have lt: "m < 2 ^ 64" and le: "m + 8 \<le> 2 ^ 64" and pos: "8 \<le> m" using assms m by simp_all
  have u: "unat (of_nat m :: u64) = m" using lt by (simp add: unat_of_nat take_bit_nat_eq_self)
  have "unat (0 - of_nat m :: u64) = 2 ^ 64 - m"
    using u pos unfolding unat_diff_cases by simp
  then show ?thesis using u le pos unfolding apart_def w by simp
qed

interpretation stk: lifo stack_push stack_pop stack_top stack_room
proof (unfold_locales, goal_cases)
  case (1 st k n v st' ws)
  obtain s mem s' mem' where st: "st = (s, mem)" "st' = (s', mem')" by fastforce
  from 1(2) have p: "push64 s mem v = Some (s', mem')" by (simp add: stack_push_def st)
  note d = push64_SomeD [OF p]
  have r: "wf_mem mem" "8 * (Suc k + n) \<le> 2 ^ 64" "mapped mem (gpr s WG_REG_RSP - 8)"
    using 1(1) by (auto simp: stack_room_def st)
  let ?a = "gpr s WG_REG_RSP - 8"
  have ap: "wg_memory_read_u64 mem' (?a + 8 * of_nat (Suc j)) = wg_memory_read_u64 mem (?a + 8 * of_nat (Suc j))"
    if "j < n" for j
    by (rule read_u64_apart [OF r(1) d(2) slot_apart [OF order_trans [OF _ r(2)]]]) (use that in simp)
  have "stack_words mem (?a + 8) n = Some ws" using 1(3) by (simp add: stack_top_def st)
  then have ws: "length ws = n" "\<And>j. j < n \<Longrightarrow> wg_memory_read_u64 mem (?a + 8 * of_nat (Suc j)) = Some (ws ! j)"
    unfolding stack_words_nth by (auto simp: algebra_simps)
  have "stack_words mem' (?a + 8) n = Some ws"
    unfolding stack_words_nth using ws ap by (simp add: algebra_simps)
  with read_write_u64 [OF r(1,3) d(2)] show ?case by (simp add: stack_top_def st d(1))
next
  case (2 st k n v st')
  obtain s mem s' mem' where st: "st = (s, mem)" "st' = (s', mem')" by fastforce
  from 2(2) have p: "push64 s mem v = Some (s', mem')" by (simp add: stack_push_def st)
  note d = push64_SomeD [OF p]
  have "mapped mem (gpr s WG_REG_RSP - 8 - 8 * of_nat (Suc j))" if "j < k" for j
    using 2(1) that by (auto simp: stack_room_def st algebra_simps dest!: spec [of _ "Suc j"])
  moreover have "wf_mem mem" using 2(1) by (simp add: stack_room_def st)
  ultimately show ?case using 2(1) wf_mem_write_u64 [OF _ d(2)]
    by (simp add: stack_room_def st d(1) write_u64_mapped [OF d(2)])
next
  case (3 st n v ws)
  then show ?case by (cases st) (auto simp: stack_top_def stack_pop_def pop64_def split: bind_splits)
qed (simp_all add: stack_top_def stack_words_nth)

end
