(* ===== verification/X86Encode.thy ===== *)
theory X86Encode
  imports X86DecodeOk
begin

text \<open>
  Reference encodings of three instruction forms that the Windows binaries are full of, and the
  lemmas that the decoder inverts them, whatever bytes follow and wherever the code lies: the
  eight ALU operations between 64-bit registers, the load of a 64-bit constant and the load from
  a base register with a 32-bit displacement. The ModR/M and REX bytes are built from register
  numbers, as an assembler does.
\<close>

definition rex_byte :: "nat \<Rightarrow> nat \<Rightarrow> u8" where
  "rex_byte r b = 0x48 + (if 8 \<le> r then 4 else 0) + (if 8 \<le> b then 1 else 0)"

definition modrm_byte :: "u8 \<Rightarrow> nat \<Rightarrow> nat \<Rightarrow> u8" where
  "modrm_byte md r b = push_bit 6 md + of_nat (8 * (r mod 8) + b mod 8)"

definition enc_mov_r64_imm64 :: "nat \<Rightarrow> u64 \<Rightarrow> u8 list" where
  "enc_mov_r64_imm64 r v = [rex_byte 0 r, 0xB8 + of_nat (r mod 8)] @ le_bytes 8 v"

text \<open>\<open>op r64, r64\<close> for the eight ALU operations, \<open>k\<close> the number of the operation.\<close>

definition enc_alu_rr :: "nat \<Rightarrow> nat \<Rightarrow> nat \<Rightarrow> u8 list" where
  "enc_alu_rr k d s = [rex_byte s d, of_nat (8 * k) + 1, modrm_byte 3 s d]"

lemma nat8: "(k :: nat) < 8 \<Longrightarrow> k = 0 \<or> k = 1 \<or> k = 2 \<or> k = 3 \<or> k = 4 \<or> k = 5 \<or> k = 6 \<or> k = 7"
  by linarith

lemma modrm_fields:
  assumes "md \<le> (3 :: u8)"
  shows "MODRM_MOD (modrm_byte md r b) = md" "MODRM_REG (modrm_byte md r b) = of_nat (r mod 8)"
    "MODRM_RM (modrm_byte md r b) = of_nat (b mod 8)"
proof -
  have m: "md = 0 \<or> md = 1 \<or> md = 2 \<or> md = 3" using assms by (auto simp: word_le_nat_alt word_unat_eq_iff)
  note r = nat8 [of "r mod 8", simplified] and b = nat8 [of "b mod 8", simplified]
  show "MODRM_MOD (modrm_byte md r b) = md" "MODRM_REG (modrm_byte md r b) = of_nat (r mod 8)"
    "MODRM_RM (modrm_byte md r b) = of_nat (b mod 8)"
    unfolding modrm_byte_def MODRM_MOD_def MODRM_REG_def MODRM_RM_def
    using m r b by (elim disjE; simp)+
qed

definition rex_ctx :: "nat \<Rightarrow> nat \<Rightarrow> u8 list \<Rightarrow> u64 \<Rightarrow> dctx" where
  "rex_ctx r b bs rip = (init_ctx bs rip)\<lparr>ptr := 1, rex_present := True, rex_w := 1,
     rex_r := (if 8 \<le> r then 1 else 0), rex_b := (if 8 \<le> b then 1 else 0)\<rparr>"

lemma prefixes_rex:
  assumes "prefix_step x (rex_ctx r b (rex_byte r b # x # bs) rip) = None"
  shows "parse_prefixes (rex_byte r b # x # bs) (init_ctx (rex_byte r b # x # bs) rip) =
     rex_ctx r b (rex_byte r b # x # bs) rip"
  using assms by (auto simp: prefix_step_def rex_byte_def rex_ctx_def init_ctx_def)

lemma ext_reg_rex: "r < 16 \<Longrightarrow> ext_reg (of_nat (r mod 8)) (if 8 \<le> r then 1 else 0) = r"
proof -
  assume r: "r < 16"
  have "unat (of_nat (r mod 8) :: u8) = r mod 8" by (simp add: unat_of_nat take_bit_nat_def)
  then have "ext_reg (of_nat (r mod 8)) (if 8 \<le> r then 1 else 0) = r mod 8 + (if 8 \<le> r then 8 else 0)"
    by (subst ext_reg_eq) (auto simp: word_le_nat_alt)
  then show ?thesis using r by (auto simp: mod_if)
qed

text \<open>After a REX.W prefix the decoder sees the opcode byte with 64-bit operands.\<close>

lemma decode_rex:
  assumes "prefix_step x (rex_ctx r b (rex_byte r b # x # bs) rip) = None"
  shows "wg_x86_decode (rex_byte r b # x # bs) rip =
    Option.bind (decode_opcode x ((rex_ctx r b (rex_byte r b # x # bs) rip)\<lparr>ptr := 2\<rparr>)
        (blank_insn\<lparr>addr_size := 8, op_size := 8\<rparr>))
      (\<lambda>(i, c). Some (ptr c, i\<lparr>ilength := ptr c\<rparr>))"
proof -
  let ?c = "rex_ctx r b (rex_byte r b # x # bs) rip"
  have p: "ptr ?c = 1" "code ?c = rex_byte r b # x # bs" by (simp_all add: rex_ctx_def init_ctx_def)
  have i: "prefix_insn ?c\<lparr>op_size := effective_op_size ?c\<rparr> = blank_insn\<lparr>addr_size := 8, op_size := 8\<rparr>"
    by (simp add: rex_ctx_def init_ctx_def prefix_insn_def effective_op_size_def blank_insn_def)
  show ?thesis
    using decode_step [OF _ prefixes_rex [OF assms, symmetric] _ p(2)] p i by (simp add: numeral_2_eq_2)
qed

lemma modrm_rr:
  assumes "code c ! ptr c = modrm_byte 3 s d" "ptr c < length (code c)"
    and "rex_r c = (if 8 \<le> s then 1 else 0)" and "rex_b c = (if 8 \<le> d then 1 else 0)" and "s < 16" and "d < 16"
  shows "decode_modrm c n = Some (op_reg d n, op_reg s n, c\<lparr>ptr := ptr c + 1\<rparr>)"
  using assms
  by (simp add: decode_modrm_def guard_def decode_modrm_mem_def fetch8_def modrm_fields ext_reg_rex
      op_reg_def op_none_def Let_def)

lemma decode_alu_rr:
  assumes "k < 8" and "d < 16" and "s < 16"
  shows "wg_x86_decode (enc_alu_rr k d s @ rest) rip =
    Some (3, blank_insn\<lparr>opcode := alu_ops ! k, ilength := 3, operand0 := op_reg d 8,
      operand1 := op_reg s 8, num_operands := 2, op_size := 8, addr_size := 8\<rparr>)"
proof -
  note k = nat8 [OF assms(1)]
  let ?x = "of_nat (8 * k) + 1 :: u8"
  let ?bs = "rex_byte s d # ?x # modrm_byte 3 s d # rest"
  let ?c = "(rex_ctx s d ?bs rip)\<lparr>ptr := 2\<rparr>"
  have p: "prefix_step ?x c = None" for c using k by (elim disjE) (simp_all add: prefix_step_def word_le_nat_alt)
  have m: "decode_modrm ?c 8 = Some (op_reg d 8, op_reg s 8, ?c\<lparr>ptr := ptr ?c + 1\<rparr>)"
    by (rule modrm_rr) (use assms in \<open>simp_all add: rex_ctx_def init_ctx_def numeral_2_eq_2\<close>)
  have "decode_opcode ?x ?c i = dec_alu ?x ?c i" for i
    using k by (elim disjE) (simp_all add: decode_opcode_def word_le_nat_alt)
  moreover have "dec_alu ?x ?c (blank_insn\<lparr>addr_size := 8, op_size := 8\<rparr>) = 
    dec_rm_r (alu_ops ! k) 8 ?c (blank_insn\<lparr>addr_size := 8, op_size := 8\<rparr>)"
    using k by (elim disjE) (simp_all add: dec_alu_def word_le_nat_alt)
  ultimately have "wg_x86_decode ?bs rip = Option.bind (dec_rm_r (alu_ops ! k) 8 ?c (blank_insn\<lparr>addr_size := 8, op_size := 8\<rparr>))
    (\<lambda>(i, c). Some (ptr c, i\<lparr>ilength := ptr c\<rparr>))"
    using decode_rex [OF p] by simp
  then show ?thesis using m
    by (simp add: enc_alu_rr_def dec_rm_r_def blank_insn_def)
qed

lemma le_word_window:
  assumes "k + n \<le> m" and "LENGTH('b) = 8 * n"
  shows "le_word (take n (drop k (le_bytes m (v :: u64) @ rest))) = (ucast (drop_bit (8 * k) v) :: 'b::len word)"
proof (rule bit_word_eqI)
  fix i assume i: "i < LENGTH('b)"
  then have "i div 8 < n" using assms by auto
  moreover from this have "k + i div 8 < m" using assms(1) by linarith
  ultimately have "take n (drop k (le_bytes m v @ rest)) ! (i div 8) = ucast (drop_bit (8 * (k + i div 8)) v)"
    using assms(1) by (simp add: nth_append)
  moreover have "bit (ucast w :: u8) (i mod 8) = bit w (i mod 8)" for w :: u64
  proof -
    have "i mod 8 < LENGTH(8)" by simp
    then show ?thesis by (auto simp only: bit_ucast_iff dest: bit_imp_le_length)
  qed
  moreover have "8 * (k + i div 8) + i mod 8 = 8 * k + i" by simp
  ultimately have "bit (take n (drop k (le_bytes m v @ rest)) ! (i div 8)) (i mod 8) = bit v (8 * k + i)"
    by (simp only: bit_drop_bit_eq o_def)
  then show "bit (le_word (take n (drop k (le_bytes m v @ rest))) :: 'b word) i
      \<longleftrightarrow> bit (ucast (drop_bit (8 * k) v) :: 'b word) i"
    using i assms by (simp add: bit_le_word bit_ucast_iff bit_drop_bit_eq)
qed

lemma fetch64_bytes:
  assumes "code c = pre @ le_bytes 8 v @ rest" and "ptr c = length pre"
  shows "fetch64 c = (v, c\<lparr>ptr := ptr c + 8\<rparr>)"
proof -
  have lo: "fetch32 c = (ucast v, c\<lparr>ptr := ptr c + 4\<rparr>)"
    using assms le_word_window [where 'b = 32, of 0 4 8 v rest] by (simp add: fetch32_def fetch_n_def)
  have hi: "fetch32 (c\<lparr>ptr := ptr c + 4\<rparr>) = (ucast (drop_bit 32 v), c\<lparr>ptr := ptr c + 8\<rparr>)"
    using assms le_word_window [where 'b = 32, of 4 4 8 v rest] by (simp add: fetch32_def fetch_n_def)
  have "(ucast (ucast v :: u32) OR push_bit 32 (ucast (ucast (drop_bit 32 v) :: u32))) = v"
    by (rule bit_word_eqI) (auto simp: bit_simps)
  then show ?thesis by (simp add: fetch64_def lo hi)
qed

lemma decode_mov_r64_imm64:
  assumes "r < 16"
  shows "wg_x86_decode (enc_mov_r64_imm64 r v @ rest) rip =
    Some (10, blank_insn\<lparr>opcode := WG_OP_MOV, ilength := 10, operand0 := op_reg r 8,
      operand1 := op_imm v 8, num_operands := 2, op_size := 8, addr_size := 8\<rparr>)"
proof -
  note k = nat8 [of "r mod 8", simplified]
  let ?x = "0xB8 + of_nat (r mod 8) :: u8"
  let ?bs = "rex_byte 0 r # ?x # (le_bytes 8 v @ rest)"
  let ?c = "(rex_ctx 0 r ?bs rip)\<lparr>ptr := 2\<rparr>"
  have p: "prefix_step ?x c = None" for c using k by (elim disjE) (simp_all add: prefix_step_def)
  have f: "fetch64 ?c = (v, ?c\<lparr>ptr := ptr ?c + 8\<rparr>)"
    by (rule fetch64_bytes [where pre = "[rex_byte 0 r, ?x]"]) (simp_all add: rex_ctx_def init_ctx_def)
  have "decode_opcode ?x ?c i = dec_mov_r_imm ?x ?c i" for i
    using k by (elim disjE) (simp_all add: decode_opcode_def)
  moreover have "?x - 0xB8 = of_nat (r mod 8)" by simp
  ultimately show ?thesis
    using decode_rex [OF p] f assms ext_reg_rex [OF assms]
    by (simp add: dec_mov_r_imm_def enc_mov_r64_imm64_def rex_ctx_def init_ctx_def blank_insn_def)
qed

text \<open>\<open>mov r64, [base + disp32]\<close>, for a base register that needs no SIB byte.\<close>

definition enc_mov_load :: "nat \<Rightarrow> nat \<Rightarrow> u32 \<Rightarrow> u8 list" where
  "enc_mov_load r b d = [rex_byte r b, 0x8B, modrm_byte 2 r b] @ le_bytes 4 d"

definition op_base_disp :: "nat \<Rightarrow> u64 \<Rightarrow> nat \<Rightarrow> operand" where
  "op_base_disp b d n = op_none\<lparr>op_type := WG_OPERAND_MEM, op_bytes := n, mem_base := int b,
     mem_index := - 1, mem_scale := 1, mem_disp := d, mem_seg := - 1\<rparr>"

lemma simm32_bytes:
  assumes "code c = pre @ le_bytes 4 (d :: u32) @ rest" and "ptr c = length pre"
  shows "fetch_simm32 c = (scast d, c\<lparr>ptr := ptr c + 4\<rparr>)"
  using assms by (simp add: fetch_simm32_def fetch32_def fetch_n_def le_word_le_bytes_full)

lemma rm_not_sib: "b mod 8 \<noteq> 4 \<Longrightarrow> (of_nat (b mod 8) :: u8) \<noteq> 4"
  using nat8 [of "b mod 8", simplified] by (elim disjE) simp_all

lemma decode_mov_load:
  assumes "r < 16" and "b < 16" and "b mod 8 \<noteq> 4"
  shows "wg_x86_decode (enc_mov_load r b d @ rest) rip =
    Some (7, blank_insn\<lparr>opcode := WG_OP_MOV, ilength := 7, operand0 := op_reg r 8,
      operand1 := op_base_disp b (scast d) 8, num_operands := 2, op_size := 8, addr_size := 8\<rparr>)"
proof -
  let ?m = "modrm_byte 2 r b"
  let ?bs = "rex_byte r b # 0x8B # (?m # le_bytes 4 d @ rest)"
  let ?c = "(rex_ctx r b ?bs rip)\<lparr>ptr := 2\<rparr>"
  have p: "prefix_step 0x8B c = None" for c by (simp add: prefix_step_def)
  have c: "code ?c = ?bs" "ptr ?c = 2" "rex_r ?c = (if 8 \<le> r then 1 else 0)"
    "rex_b ?c = (if 8 \<le> b then 1 else 0)" "cx_seg ?c = - 1" by (simp_all add: rex_ctx_def init_ctx_def)
  have f: "fetch8 ?c = (?m, ?c\<lparr>ptr := 3\<rparr>)" using c by (simp add: fetch8_def)
  have s: "fetch_simm32 (?c\<lparr>ptr := 3\<rparr>) = (scast d, ?c\<lparr>ptr := 7\<rparr>)"
    using simm32_bytes [of "?c\<lparr>ptr := 3\<rparr>" "[rex_byte r b, 0x8B, ?m]" d rest] c by simp
  have "decode_base (?c\<lparr>ptr := 3\<rparr>) ?m op = Some (op\<lparr>mem_base := int b\<rparr>, ?c\<lparr>ptr := 3\<rparr>)" for op
    using rm_not_sib [OF assms(3)] c by (simp add: decode_base_def modrm_fields ext_reg_rex [OF assms(2)])
  then have "decode_modrm ?c 8 = Some (op_base_disp b (scast d) 8, op_reg r 8, ?c\<lparr>ptr := 7\<rparr>)"
    using c s by (simp add: decode_modrm_def guard_def decode_modrm_mem_def f modrm_fields decode_disp_def
        ext_reg_rex [OF assms(1)] op_base_disp_def op_none_def)
  moreover have "decode_opcode 0x8B ?c i = dec_r_rm WG_OP_MOV (op_size i) ?c i" for i
    by (simp add: decode_opcode_def)
  ultimately show ?thesis
    using decode_rex [OF p, of r b "?m # le_bytes 4 d @ rest" rip]
    by (simp add: enc_mov_load_def dec_r_rm_def blank_insn_def)
qed

end
