(* ===== verification/X86Exec.thy ===== *)
theory X86Exec
  imports X86Stack X86Encode
begin

text \<open>
  What the interpreter does with a whole instruction. \<open>keeps\<close> is what every handler preserves
  (the instruction count, the layout and well-formedness of the guest memory); the later sections
  read operands back, relate the condition codes after CMP to comparisons of the operands, and
  run encoded instructions from guest memory.
\<close>

section \<open>What every instruction keeps\<close>

definition keeps :: "cpu \<times> mem_space \<Rightarrow> cpu \<times> mem_space \<Rightarrow> bool" where
  "keeps st st' \<longleftrightarrow> instruction_count (fst st') = instruction_count (fst st) \<and>
     layout (snd st') = layout (snd st) \<and> (wf_mem (snd st) \<longrightarrow> wf_mem (snd st'))"

lemma keeps_refl [simp]: "keeps st st"
  by (simp add: keeps_def)

lemma keeps_trans [trans]: "keeps st st' \<Longrightarrow> keeps st' st'' \<Longrightarrow> keeps st st''"
  by (simp add: keeps_def)

lemma keeps_cpu: "instruction_count s' = instruction_count s \<Longrightarrow> keeps (s, mem) (s', mem)"
  by (simp add: keeps_def)

lemma set_flag_count [simp]: "instruction_count (wg_x86_set_flag s f v) = instruction_count s"
  by (simp add: wg_x86_set_flag_def)

lemma update_flags_count [simp]:
  "instruction_count (wg_x86_update_flags_add s a b r n) = instruction_count s"
  "instruction_count (wg_x86_update_flags_sub s a b r n) = instruction_count s"
  "instruction_count (wg_x86_update_flags_logic s r n) = instruction_count s"
  by (simp_all add: wg_x86_update_flags_add_def wg_x86_update_flags_sub_def
      wg_x86_update_flags_logic_def Let_def)

lemma keeps_flags:
  "keeps st (s, mem) \<Longrightarrow> instruction_count s' = instruction_count s \<Longrightarrow> keeps st (s', mem)"
  by (simp add: keeps_def)

lemma layout_writes:
  "wg_memory_write_u8 mem a v = Some mem' \<Longrightarrow> layout mem' = layout mem"
  "wg_memory_write_u16 mem a w = Some mem' \<Longrightarrow> layout mem' = layout mem"
  "wg_memory_write_u32 mem a x = Some mem' \<Longrightarrow> layout mem' = layout mem"
  "wg_memory_write_u64 mem a y = Some mem' \<Longrightarrow> layout mem' = layout mem"
  by (auto simp: wg_memory_write_u64_def wg_memory_write_u32_def wg_memory_write_u16_def
      wg_memory_write_u8_def simp del: memcpy_to.simps split: option.splits intro: layout_memcpy_to)

lemma put_gpr_SomeD: "put_gpr s r v = Some s' \<Longrightarrow> r < 16 \<and> s' = s\<lparr>gpr := (gpr s)(r := v)\<rparr>"
  by (simp add: put_gpr_def split: if_splits)

lemma keeps_write_operand: "write_operand s mem op v = Some (s', mem') \<Longrightarrow> keeps (s, mem) (s', mem')"
  unfolding write_operand_def Let_def
  by (auto simp: keeps_def split: WGOperandType.split_asm bind_splits if_split_asm
      dest: layout_writes wf_mem_writes dest!: put_gpr_SomeD)

lemma keeps_push64: "push64 s mem v = Some (s', mem') \<Longrightarrow> keeps (s, mem) (s', mem')"
  by (frule push64_SomeD(1), drule push64_SomeD(2)) (auto simp: keeps_def dest: layout_writes wf_mem_writes)

lemma keeps_pop64: "pop64 s mem = Some (v, s') \<Longrightarrow> keeps (s, mem) (s', mem)"
  by (auto simp: keeps_def pop64_def split: bind_splits)

text \<open>A handler is well behaved when it keeps the instruction count and the memory layout.\<close>

definition tame :: "handler \<Rightarrow> bool" where
  "tame h \<longleftrightarrow> (\<forall>s mem i s' mem'. h s mem i = Some (s', mem') \<longrightarrow> keeps (s, mem) (s', mem'))"

lemma tameI: "(\<And>s mem i s' mem'. h s mem i = Some (s', mem') \<Longrightarrow> keeps (s, mem) (s', mem')) \<Longrightarrow> tame h"
  unfolding tame_def by blast

lemma tameD: "tame h \<Longrightarrow> h s mem i = Some (s', mem') \<Longrightarrow> keeps (s, mem) (s', mem')"
  unfolding tame_def by blast

lemmas keeps_ops = keeps_write_operand keeps_push64 keeps_pop64

lemma tame_moves:
  "tame exec_mov" "tame exec_movzx" "tame exec_movsx" "tame exec_lea" "tame exec_xchg"
  "tame exec_push" "tame exec_pop"
  unfolding exec_mov_def exec_movzx_def exec_movsx_def exec_lea_def exec_xchg_def exec_push_def
    exec_pop_def
  by (rule tameI, auto split: bind_splits dest!: keeps_ops intro: keeps_trans)+

lemma tame_arith:
  "tame exec_add" "tame exec_sub" "tame exec_cmp" "tame exec_and" "tame exec_or" "tame exec_xor"
  "tame exec_not" "tame exec_neg" "tame exec_inc" "tame exec_dec" "tame exec_test"
  unfolding exec_add_def exec_sub_def exec_cmp_def exec_and_def exec_or_def exec_xor_def
    exec_not_def exec_neg_def exec_inc_def exec_dec_def exec_test_def Let_def
  by (rule tameI, auto split: bind_splits dest!: keeps_ops simp: keeps_def)+

lemma tame_shifts: "tame exec_shl" "tame exec_shr" "tame exec_sar"
  unfolding exec_shl_def exec_shr_def exec_sar_def Let_def
  by (rule tameI, auto split: bind_splits if_split_asm dest!: keeps_ops simp: keeps_def)+

lemma tame_imul: "tame exec_imul"
  unfolding exec_imul_def Let_def
  by (rule tameI) (auto split: bind_splits if_split_asm dest!: keeps_ops simp: keeps_def)

lemma tame_rest:
  "tame exec_leave" "tame exec_cmovcc" "tame exec_setcc" "tame exec_cdq" "tame exec_cqo"
  "tame exec_cdqe" "tame exec_cwde" "tame exec_bswap" "tame exec_cpuid" "tame exec_xorps"
  "tame exec_cmc"
  unfolding exec_leave_def exec_cmovcc_def exec_setcc_def exec_cdq_def exec_cqo_def exec_cdqe_def
    exec_cwde_def exec_bswap_def exec_cpuid_def exec_xorps_def exec_cmc_def Let_def set_abcd_def
  by (rule tameI, auto split: bind_splits if_split_asm dest!: keeps_ops put_gpr_SomeD
      simp: keeps_def)+

lemma tame_if: "tame f \<Longrightarrow> tame g \<Longrightarrow> tame (\<lambda>s mem i. if p i then f s mem i else g s mem i)"
  by (simp add: tame_def)

lemma tame_cpu: "(\<And>s. instruction_count (f s) = instruction_count s) \<Longrightarrow> tame (\<lambda>s mem i. Some (f s, mem))"
  by (simp add: tame_def keeps_def)

lemma tame_simple: "tame exec_simple"
  unfolding exec_simple_def Let_def
  by (intro tame_if tame_moves tame_arith tame_shifts tame_imul tame_rest tame_cpu; simp)

lemma keeps_insn:
  "exec_insn next s mem i = Some (r, s', mem') \<Longrightarrow> keeps (s, mem) (s', mem')"
  unfolding exec_insn_def Let_def
  by (auto simp: exec_jmp_def exec_jcc_def exec_call_def exec_ret_def finish_def Let_def keeps_def
      split: if_split_asm bind_splits dest!: keeps_ops tameD [OF tame_simple])

lemma exec_one_keeps:
  assumes "wg_x86_exec_one s mem = Some (r, s', mem')"
  shows "layout mem' = layout mem" and "wf_mem mem \<Longrightarrow> wf_mem mem'"
    and "instruction_count s' = instruction_count s + 1 \<or> r = WG_INTERP_ERROR \<and> s' = s \<and> mem' = mem"
  using assms unfolding wg_x86_exec_one_def
  by (auto simp: keeps_def split: bind_splits if_split_asm dest!: keeps_insn)

lemma exec_block_keeps:
  "wg_x86_exec_block s mem n = Some (r, s', mem') \<Longrightarrow>
     layout mem' = layout mem \<and> (wf_mem mem \<longrightarrow> wf_mem mem') \<and>
     (\<exists>k \<le> n. instruction_count s' = instruction_count s + of_nat k \<and> (r = WG_INTERP_OK \<longrightarrow> k = n))"
proof (induction n arbitrary: s mem)
  case 0
  then show ?case by simp
next
  case (Suc n)
  from Suc.prems obtain r1 s1 mem1 where one: "wg_x86_exec_one s mem = Some (r1, s1, mem1)"
    and rest: "(if r1 \<noteq> WG_INTERP_OK then Some (r1, s1, mem1) else wg_x86_exec_block s1 mem1 n)
       = Some (r, s', mem')" by (auto split: bind_splits)
  note k = exec_one_keeps [OF one]
  show ?case
  proof (cases "r1 = WG_INTERP_OK")
    case True
    with rest have "wg_x86_exec_block s1 mem1 n = Some (r, s', mem')" by simp
    from Suc.IH [OF this] obtain j where "layout mem' = layout mem1" "wf_mem mem1 \<longrightarrow> wf_mem mem'" "j \<le> n"
      "instruction_count s' = instruction_count s1 + of_nat j" "r = WG_INTERP_OK \<longrightarrow> j = n" by blast
    with k True show ?thesis by (intro conjI exI [of _ "Suc j"]) (auto simp: algebra_simps)
  next
    case False
    with rest have "r = r1" "s' = s1" "mem' = mem1" by simp_all
    moreover from k(3) have "\<exists>j \<le> Suc n. instruction_count s1 = instruction_count s + of_nat j"
      by (elim disjE) (intro exI [of _ 1], simp, intro exI [of _ 0], simp)
    ultimately show ?thesis using k(1,2) False by auto
  qed
qed

lemma exec_block_split:
  "wg_x86_exec_block s mem (m + n) = do {
     (r, s, mem) \<leftarrow> wg_x86_exec_block s mem m;
     if r \<noteq> WG_INTERP_OK then Some (r, s, mem) else wg_x86_exec_block s mem n
   }"
proof (induction m arbitrary: s mem)
  case 0
  then show ?case by simp
next
  case (Suc m)
  show ?case
    by (cases "wg_x86_exec_one s mem") (auto simp: Suc)
qed

section \<open>Operands\<close>

lemma mask_for_eq: "n \<le> 8 \<Longrightarrow> mask_for n = mask (8 * n)"
  by (auto simp: mask_for_def mask_eq_exp_minus_1 mult.commute simp flip: mask_eq_exp_minus_1)
    (simp add: mask_eq_exp_minus_1)

lemma fits_mask: "n \<le> 64 \<Longrightarrow> fits n (v AND mask n)"
proof -
  assume n: "n \<le> 64"
  have "uint (v AND mask n) \<le> uint (mask n :: u64)"
    using word_and_le1 [of v "mask n"] by (simp add: word_le_def)
  then show ?thesis using uint_mask64 [OF n] by (simp add: fits_def)
qed

lemma fits_ucast: "LENGTH('a::len) \<le> 64 \<Longrightarrow> fits (LENGTH('a)) (ucast (v :: 'a word))"
  using uint_lt2p [of v] by (simp add: fits_def uint_up_ucast is_up)

lemma read_operand_fits:
  assumes "read_operand s mem op = Some v" and "op_bytes op \<in> {1, 2, 4, 8}"
  shows "fits (8 * op_bytes op) v"
proof -
  have m: "fits (8 * op_bytes op) (w AND mask_for (op_bytes op))" for w
    using assms(2) fits_mask [of "8 * op_bytes op" w] mask_for_eq [of "op_bytes op"] by auto
  have z: "fits n 0" for n by (simp add: fits_def)
  show ?thesis
  proof (cases "op_type op")
    case WG_OPERAND_MEM
    with assms show ?thesis
      using fits_ucast [where 'a = 8] fits_ucast [where 'a = 16] fits_ucast [where 'a = 32]
        uint_lt2p [of v]
      by (auto simp: read_operand_def Let_def split: bind_splits if_split_asm) (simp add: fits_def)
  qed (use assms m z in \<open>auto simp: read_operand_def Let_def\<close>)
qed

lemma alu_operands_fit:
  assumes "alu_operands s mem i = Some (a, b)" and "op_bytes (operand0 i) = n" and "op_bytes (operand1 i) = n"
    and "n \<in> {1, 2, 4, 8}"
  shows "read_operand s mem (operand0 i) = Some a" "read_operand s mem (operand1 i) = Some b"
    "fits (8 * n) a" "fits (8 * n) b"
proof -
  show r: "read_operand s mem (operand0 i) = Some a" "read_operand s mem (operand1 i) = Some b"
    using assms(1-3) by (auto simp: alu_operands_def split: bind_splits)
  show "fits (8 * n) a" "fits (8 * n) b"
    using read_operand_fits [OF r(1)] read_operand_fits [OF r(2)] assms(2-4) by simp_all
qed

lemma sval_inj:
  assumes "0 < n" and "n \<le> 64" and "fits n a" and "fits n b" and "sval n a = sval n b"
  shows "a = b"
proof -
  have H: "(2 :: int) ^ n = 2 * 2 ^ (n - 1)" using assms(1) by (cases n) auto
  note b = bit_fits_sign [OF assms(1,2)]
  have "uint a < 2 ^ n" "uint b < 2 ^ n" using assms(3,4) by (simp_all add: fits_def)
  then have "uint a = uint b"
    using assms(5) b [OF assms(3)] b [OF assms(4)] H unfolding sval_def
    by (auto split: if_split_asm) (use uint_ge_0 [of a] uint_ge_0 [of b] in linarith)+
  then show ?thesis by (simp add: word_uint_eq_iff)
qed

text \<open>A CMP followed by a conditional jump, move or set compares the operands.\<close>

text \<open>C2: After CMP at 16, 32 or 64 bits the conditions B, AE, E, NE, BE, A compare the two operands as unsigned numbers and L, GE, LE, G as two's complement numbers.\<close>

theorem cmp_conditions:
  assumes "exec_cmp s mem i = Some (s', mem')" and "op_size i \<in> {2, 4, 8}"
    and "op_bytes (operand0 i) = op_size i" and "op_bytes (operand1 i) = op_size i"
  shows "\<exists>a b. read_operand s mem (operand0 i) = Some a \<and> read_operand s mem (operand1 i) = Some b \<and>
    (eval_condition s' 0x2 \<longleftrightarrow> unat a < unat b) \<and> (eval_condition s' 0x3 \<longleftrightarrow> unat b \<le> unat a) \<and>
    (eval_condition s' 0x4 \<longleftrightarrow> a = b) \<and> (eval_condition s' 0x5 \<longleftrightarrow> a \<noteq> b) \<and>
    (eval_condition s' 0x6 \<longleftrightarrow> unat a \<le> unat b) \<and> (eval_condition s' 0x7 \<longleftrightarrow> unat b < unat a) \<and>
    (eval_condition s' 0xC \<longleftrightarrow> sval (8 * op_size i) a < sval (8 * op_size i) b) \<and>
    (eval_condition s' 0xD \<longleftrightarrow> sval (8 * op_size i) b \<le> sval (8 * op_size i) a) \<and>
    (eval_condition s' 0xE \<longleftrightarrow> sval (8 * op_size i) a \<le> sval (8 * op_size i) b) \<and>
    (eval_condition s' 0xF \<longleftrightarrow> sval (8 * op_size i) b < sval (8 * op_size i) a)"
proof -
  define n where "n = 8 * op_size i"
  from assms(1) obtain a b where ab: "alu_operands s mem i = Some (a, b)"
    and s': "s' = wg_x86_update_flags_sub s a b (a - b) n"
    by (auto simp: exec_cmp_def Let_def n_def mult.commute split: bind_splits)
  have "op_size i \<in> {1, 2, 4, 8}" using assms(2) by auto
  note f = alu_operands_fit [OF ab assms(3,4) this]
  have n: "0 < n" "n \<le> 64" using assms(2) by (auto simp: n_def)
  note c = sub_flags_arith [OF n, of a b s, folded s'] 
  have fl: "wg_x86_get_flag s' WG_FLAG_CF \<longleftrightarrow> unat a < unat b" "wg_x86_get_flag s' WG_FLAG_ZF \<longleftrightarrow> a = b"
    "wg_x86_get_flag s' WG_FLAG_SF \<noteq> wg_x86_get_flag s' WG_FLAG_OF \<longleftrightarrow> sval n a < sval n b"
    using c f(3,4) by (simp_all add: n_def)
  have eq: "a = b \<longleftrightarrow> sval n a = sval n b"
    using sval_inj [OF n] f(3,4) by (auto simp: n_def)
  have un: "a = b \<longleftrightarrow> unat a = unat b" by (simp add: word_unat_eq_iff)
  have ev: "eval_condition s' 0x2 \<longleftrightarrow> wg_x86_get_flag s' WG_FLAG_CF"
    "eval_condition s' 0x3 \<longleftrightarrow> \<not> wg_x86_get_flag s' WG_FLAG_CF"
    "eval_condition s' 0x4 \<longleftrightarrow> wg_x86_get_flag s' WG_FLAG_ZF"
    "eval_condition s' 0x5 \<longleftrightarrow> \<not> wg_x86_get_flag s' WG_FLAG_ZF"
    "eval_condition s' 0x6 \<longleftrightarrow> wg_x86_get_flag s' WG_FLAG_CF \<or> wg_x86_get_flag s' WG_FLAG_ZF"
    "eval_condition s' 0x7 \<longleftrightarrow> \<not> (wg_x86_get_flag s' WG_FLAG_CF \<or> wg_x86_get_flag s' WG_FLAG_ZF)"
    "eval_condition s' 0xC \<longleftrightarrow> wg_x86_get_flag s' WG_FLAG_SF \<noteq> wg_x86_get_flag s' WG_FLAG_OF"
    "eval_condition s' 0xD \<longleftrightarrow> \<not> (wg_x86_get_flag s' WG_FLAG_SF \<noteq> wg_x86_get_flag s' WG_FLAG_OF)"
    "eval_condition s' 0xE \<longleftrightarrow> wg_x86_get_flag s' WG_FLAG_ZF \<or>
       wg_x86_get_flag s' WG_FLAG_SF \<noteq> wg_x86_get_flag s' WG_FLAG_OF"
    "eval_condition s' 0xF \<longleftrightarrow> \<not> (wg_x86_get_flag s' WG_FLAG_ZF \<or>
       wg_x86_get_flag s' WG_FLAG_SF \<noteq> wg_x86_get_flag s' WG_FLAG_OF)"
    by (simp_all add: eval_condition_def Let_def)
  have u: "eval_condition s' 0x2 \<longleftrightarrow> unat a < unat b" "eval_condition s' 0x3 \<longleftrightarrow> unat b \<le> unat a"
    "eval_condition s' 0x4 \<longleftrightarrow> a = b" "eval_condition s' 0x5 \<longleftrightarrow> a \<noteq> b"
    "eval_condition s' 0x6 \<longleftrightarrow> unat a \<le> unat b" "eval_condition s' 0x7 \<longleftrightarrow> unat b < unat a"
    unfolding ev fl un by linarith+
  have v: "eval_condition s' 0xC \<longleftrightarrow> sval n a < sval n b" "eval_condition s' 0xD \<longleftrightarrow> sval n b \<le> sval n a"
    "eval_condition s' 0xE \<longleftrightarrow> sval n a \<le> sval n b" "eval_condition s' 0xF \<longleftrightarrow> sval n b < sval n a"
    unfolding ev fl eq by linarith+
  show ?thesis unfolding n_def [symmetric] using f(1,2) u v by blast
qed

section \<open>Running encoded instructions\<close>

definition code_at :: "mem_space \<Rightarrow> u64 \<Rightarrow> u8 list \<Rightarrow> bool" where
  "code_at mem a bs \<longleftrightarrow> (\<forall>k < length bs. mem_view mem (a + of_nat k) = Some (bs ! k))"

lemma fetch_code_eq:
  "wf_mem mem \<Longrightarrow> fetch_code mem a n =
     Some (map (\<lambda>k. case mem_view mem (a + of_nat k) of None \<Rightarrow> 0 | Some b \<Rightarrow> b) [0..<n])"
proof (induction n arbitrary: a)
  case 0
  then show ?case by simp
next
  case (Suc n)
  have e: "a + 1 + of_nat k = a + of_nat (Suc k)" for k by simp
  show ?case using Suc.IH [OF Suc.prems, of "a + 1"] Suc.prems
    unfolding e by (simp add: read_u8_view map_upt_Suc del: upt_Suc of_nat_Suc)
qed

lemma fetch_code_at:
  assumes "wf_mem mem" and "code_at mem a bs" and "length bs \<le> n"
  shows "\<exists>rest. fetch_code mem a n = Some (bs @ rest)"
proof -
  let ?f = "\<lambda>k. case mem_view mem (a + of_nat k) of None \<Rightarrow> 0 | Some b \<Rightarrow> b"
  have "map ?f [0..<length bs] = bs"
    by (rule nth_equalityI) (use assms(2) in \<open>simp_all add: code_at_def\<close>)
  moreover have "[0..<n] = [0..<length bs] @ [length bs..<n]"
    using assms(3) upt_add_eq_append [of 0 "length bs" "n - length bs"] by simp
  ultimately show ?thesis using fetch_code_eq [OF assms(1), of a n] by simp
qed

text \<open>One step over an instruction that the decoder inverts.\<close>

lemma exec_one_encoded:
  assumes "wf_mem mem" and "code_at mem (rip s) bs" and "length bs \<le> 16"
    and "\<And>rest. wg_x86_decode (bs @ rest) (rip s) = Some (length bs, i)" and "bs \<noteq> []"
  shows "wg_x86_exec_one s mem =
    exec_insn (rip s + of_nat (length bs)) (s\<lparr>instruction_count := instruction_count s + 1\<rparr>) mem i"
proof -
  obtain rest where "fetch_code mem (rip s) 16 = Some (bs @ rest)"
    using fetch_code_at [OF assms(1-3)] by blast
  then show ?thesis using assms(4,5) by (simp add: wg_x86_exec_one_def)
qed

text \<open>The result of the ALU operations that the interpreter implements, by number.\<close>

definition alu_result :: "nat \<Rightarrow> u64 \<Rightarrow> u64 \<Rightarrow> u64" where
  "alu_result k a b = (if k = 0 then a + b else if k = 1 then a OR b else if k = 4 then a AND b
     else if k = 5 then a - b else if k = 6 then a XOR b else a)"

lemma read_reg8: "r < 16 \<Longrightarrow> read_operand s mem (op_reg r 8) = Some (gpr s r)"
  by (simp add: read_operand_def op_reg_def get_gpr_def mask_for_def)

lemma write_reg8: "r < 16 \<Longrightarrow> write_operand s mem (op_reg r 8) v = Some (s\<lparr>gpr := (gpr s)(r := v)\<rparr>, mem)"
  by (simp add: write_operand_def op_reg_def get_gpr_def put_gpr_def)

lemma alu_operands_rr:
  "d < 16 \<Longrightarrow> t < 16 \<Longrightarrow> operand0 i = op_reg d 8 \<Longrightarrow> operand1 i = op_reg t 8 \<Longrightarrow>
     alu_operands s mem i = Some (gpr s d, gpr s t)"
  by (simp add: alu_operands_def read_reg8) (simp add: op_reg_def)

definition alu_insn :: "nat \<Rightarrow> nat \<Rightarrow> nat \<Rightarrow> instruction" where
  "alu_insn k d t = blank_insn\<lparr>opcode := alu_ops ! k, ilength := 3, operand0 := op_reg d 8,
      operand1 := op_reg t 8, num_operands := 2, op_size := 8, addr_size := 8\<rparr>"

lemma alu_insn_fields [simp]:
  "opcode (alu_insn k d t) = alu_ops ! k" "operand0 (alu_insn k d t) = op_reg d 8"
  "operand1 (alu_insn k d t) = op_reg t 8" "op_size (alu_insn k d t) = 8"
  by (simp_all add: alu_insn_def)

lemma zf_64:
  "wg_x86_get_flag (wg_x86_update_flags_add s a b r 64) WG_FLAG_ZF \<longleftrightarrow> r = 0"
  "wg_x86_get_flag (wg_x86_update_flags_sub s a b r 64) WG_FLAG_ZF \<longleftrightarrow> r = 0"
  "wg_x86_get_flag (wg_x86_update_flags_logic s r 64) WG_FLAG_ZF \<longleftrightarrow> r = 0"
  by (simp_all add: flags_of_add flags_of_sub flags_of_logic mask_for_bits_def)

lemma flag_rip [simp]: "wg_x86_get_flag (s\<lparr>rip := a\<rparr>) f = wg_x86_get_flag s f"
  by (simp add: wg_x86_get_flag_def)

lemma exec_alu_insn:
  assumes "k < 8" and "d < 16" and "t < 16"
  shows "\<exists>s'. exec_insn next s mem (alu_insn k d t) = Some (WG_INTERP_OK, s', mem) \<and> rip s' = next \<and>
    gpr s' = (gpr s)(d := alu_result k (gpr s d) (gpr s t)) \<and>
    instruction_count s' = instruction_count s \<and>
    (k \<in> {0, 1, 4, 5, 6} \<longrightarrow> (wg_x86_get_flag s' WG_FLAG_ZF \<longleftrightarrow> gpr s' d = 0)) \<and>
    (k = 7 \<longrightarrow> (wg_x86_get_flag s' WG_FLAG_ZF \<longleftrightarrow> gpr s d = gpr s t)) \<and>
    (k \<in> {2, 3} \<longrightarrow> rflags s' = rflags s)"
  using nat8 [OF assms(1)]
  by (elim disjE)
    (simp_all add: exec_insn_def alu_ops_def exec_simple_def exec_add_def exec_or_def exec_and_def
      exec_sub_def exec_xor_def exec_cmp_def alu_operands_rr [OF assms(2,3)] write_reg8 [OF assms(2)]
      finish_def alu_result_def zf_64 Let_def)

text \<open>C1: An encoded 64-bit ADD, OR, AND, SUB or XOR of two registers at RIP is fetched, decoded and run: the destination gets the result and ZF says whether it is 0. CMP only sets flags, ZF when the operands are equal; ADC and SBB, which the interpreter lacks, leave registers and flags. Memory is unchanged in all cases, RIP moves past the three bytes and one instruction is counted.\<close>

theorem run_alu_rr:
  assumes "wf_mem mem" and "code_at mem (rip s) (enc_alu_rr k d t)" and "d < 16" and "t < 16"
    and "k < 8"
  shows "\<exists>s'. wg_x86_exec_one s mem = Some (WG_INTERP_OK, s', mem) \<and> rip s' = rip s + 3 \<and>
    gpr s' = (gpr s)(d := alu_result k (gpr s d) (gpr s t)) \<and>
    instruction_count s' = instruction_count s + 1 \<and>
    (k \<in> {0, 1, 4, 5, 6} \<longrightarrow> (wg_x86_get_flag s' WG_FLAG_ZF \<longleftrightarrow> gpr s' d = 0)) \<and>
    (k = 7 \<longrightarrow> (wg_x86_get_flag s' WG_FLAG_ZF \<longleftrightarrow> gpr s d = gpr s t)) \<and>
    (k \<in> {2, 3} \<longrightarrow> rflags s' = rflags s)"
proof -
  have "wg_x86_exec_one s mem = exec_insn (rip s + of_nat (length (enc_alu_rr k d t)))
      (s\<lparr>instruction_count := instruction_count s + 1\<rparr>) mem (alu_insn k d t)"
    by (rule exec_one_encoded [OF assms(1,2)])
      (use decode_alu_rr [OF assms(5,3,4)] in \<open>simp_all add: enc_alu_rr_def alu_insn_def\<close>)
  moreover have "length (enc_alu_rr k d t) = 3" by (simp add: enc_alu_rr_def)
  ultimately show ?thesis
    using exec_alu_insn [OF assms(5,3,4), of "rip s + 3" "s\<lparr>instruction_count := instruction_count s + 1\<rparr>" mem]
    by simp
qed

theorem run_mov_imm64:
  assumes "wf_mem mem" and "code_at mem (rip s) (enc_mov_r64_imm64 r v)" and "r < 16"
  shows "\<exists>s'. wg_x86_exec_one s mem = Some (WG_INTERP_OK, s', mem) \<and> rip s' = rip s + 10 \<and>
    gpr s' = (gpr s)(r := v)"
proof -
  define i where "i = blank_insn\<lparr>opcode := WG_OP_MOV, ilength := 10, operand0 := op_reg r 8,
      operand1 := op_imm v 8, num_operands := 2, op_size := 8, addr_size := 8\<rparr>"
  have l: "length (enc_mov_r64_imm64 r v) = 10" by (simp add: enc_mov_r64_imm64_def)
  have "wg_x86_exec_one s mem = exec_insn (rip s + of_nat (length (enc_mov_r64_imm64 r v)))
      (s\<lparr>instruction_count := instruction_count s + 1\<rparr>) mem i"
    by (rule exec_one_encoded [OF assms(1,2)])
      (use decode_mov_r64_imm64 [OF assms(3)] l in \<open>auto simp: i_def\<close>)
  then show ?thesis using assms(3) l
    by (simp add: exec_insn_def exec_simple_def i_def exec_mov_def write_reg8 finish_def
        read_operand_def op_imm_def mask_for_def)
qed

theorem run_mov_load:
  assumes "wf_mem mem" and "code_at mem (rip s) (enc_mov_load r b d)" and "r < 16" and "b < 16"
    and "b mod 8 \<noteq> 4" and "wg_memory_read_u64 mem (gpr s b + scast d) = Some v"
  shows "\<exists>s'. wg_x86_exec_one s mem = Some (WG_INTERP_OK, s', mem) \<and> rip s' = rip s + 7 \<and>
    gpr s' = (gpr s)(r := v)"
proof -
  define i where "i = blank_insn\<lparr>opcode := WG_OP_MOV, ilength := 7, operand0 := op_reg r 8,
      operand1 := op_base_disp b (scast d) 8, num_operands := 2, op_size := 8, addr_size := 8\<rparr>"
  have l: "length (enc_mov_load r b d) = 7" by (simp add: enc_mov_load_def)
  have "wg_x86_exec_one s mem = exec_insn (rip s + of_nat (length (enc_mov_load r b d)))
      (s\<lparr>instruction_count := instruction_count s + 1\<rparr>) mem i"
    by (rule exec_one_encoded [OF assms(1,2)])
      (use decode_mov_load [OF assms(3-5)] l in \<open>auto simp: i_def\<close>)
  then show ?thesis using assms(3,4,6) l
    by (simp add: exec_insn_def exec_simple_def i_def exec_mov_def write_reg8 finish_def
        read_operand_def op_base_disp_def effective_address_def get_gpr_def)
qed

section \<open>Calls and returns\<close>

theorem call_ret_pair:
  assumes "wf_mem mem" and "mapped mem (gpr s WG_REG_RSP - 8)" and "access_ok mem (gpr s WG_REG_RSP - 8) 8"
    and "op_type (operand0 i) = WG_OPERAND_REL" and "\<not> in_thunk_range (imm (operand0 i))"
    and "num_operands j = 0"
  shows "\<exists>s1 mem1. exec_call next s mem i = Some (WG_INTERP_OK, s1, mem1) \<and>
    rip s1 = imm (operand0 i) \<and> gpr s1 WG_REG_RSP = gpr s WG_REG_RSP - 8 \<and>
    (\<forall>s2 mem2. gpr s2 WG_REG_RSP = gpr s1 WG_REG_RSP \<longrightarrow>
       wg_memory_read_u64 mem2 (gpr s1 WG_REG_RSP) = wg_memory_read_u64 mem1 (gpr s1 WG_REG_RSP) \<longrightarrow>
       exec_ret s2 mem2 j = Some (if next = 0 then WG_INTERP_HALT else WG_INTERP_OK,
         s2\<lparr>gpr := (gpr s2)(WG_REG_RSP := gpr s WG_REG_RSP), rip := next\<rparr>, mem2))"
proof -
  let ?a = "gpr s WG_REG_RSP - 8"
  obtain mem1 where w: "wg_memory_write_u64 mem ?a next = Some mem1"
    using write_defined_iff(3) [of mem ?a "next"] assms(3) by auto
  have p: "push64 s mem next = Some (s\<lparr>gpr := (gpr s)(WG_REG_RSP := ?a)\<rparr>, mem1)"
    using w by (simp add: push64_def Let_def)
  have r: "wg_memory_read_u64 mem1 ?a = Some next" by (rule read_write_u64 [OF assms(1,2) w])
  show ?thesis
    using p r assms(4-6)
    by (auto simp: exec_call_def branch_target_def finish_def exec_ret_def pop64_def)
qed

theorem thunk_call_is_syscall:
  assumes "wf_mem mem" and "mapped mem (gpr s WG_REG_RSP - 8)"
    and "push64 s mem next = Some (s1, mem1)" and "branch_target s1 mem1 i = Some t"
    and "in_thunk_range t"
  shows "exec_call next s mem i = Some (WG_INTERP_SYSCALL, s\<lparr>rip := next\<rparr>, mem1)"
proof -
  note d = push64_SomeD [OF assms(3)]
  have "wg_memory_read_u64 mem1 (gpr s WG_REG_RSP - 8) = Some next"
    by (rule read_write_u64 [OF assms(1,2) d(2)])
  then have "pop64 s1 mem1 = Some (next, s)" by (simp add: pop64_def d(1))
  with assms(3-5) show ?thesis by (simp add: exec_call_def finish_def)
qed

section \<open>Register writes, and the limits of the interpreter\<close>

theorem write_read_reg:
  assumes "op_type op = WG_OPERAND_REG" and "reg_index op < 16" and "op_bytes op \<in> {1, 2, 4, 8}"
  shows "\<exists>s'. write_operand s mem op v = Some (s', mem) \<and>
    read_operand s' mem op = Some (v AND mask (8 * op_bytes op)) \<and>
    (\<forall>r. r \<noteq> reg_index op \<longrightarrow> gpr s' r = gpr s r) \<and>
    (op_bytes op = 4 \<longrightarrow> gpr s' (reg_index op) = v AND mask 32) \<and>
    (op_bytes op < 4 \<longrightarrow> gpr s' (reg_index op) AND NOT (mask (8 * op_bytes op)) =
       gpr s (reg_index op) AND NOT (mask (8 * op_bytes op)))"
proof -
  have m: "mask_for (op_bytes op) = mask (8 * op_bytes op)" using assms(3) mask_for_eq by auto
  have m32: "(0xFFFFFFFF :: u64) = mask 32" by (simp add: mask_eq_exp_minus_1)
  have keep: "((old AND NOT (mask k)) OR (v AND mask k)) AND mask k = v AND mask k"
    "((old AND NOT (mask k)) OR (v AND mask k)) AND NOT (mask k) = old AND NOT (mask k)"
    for old :: u64 and k by (rule bit_word_eqI; auto simp: bit_simps)+
  have full: "v AND mask 64 = v" by (rule bit_word_eqI) (auto simp: bit_simps)
  show ?thesis
    unfolding write_operand_def read_operand_def Let_def m get_gpr_def put_gpr_def m32
    using assms full by (auto simp: keep and.assoc)
qed

theorem add64_no_carry: "\<not> wg_x86_get_flag (wg_x86_update_flags_add s a b r 64) WG_FLAG_CF"
  by (simp add: flags_of_add mask_for_bits_def not_less)

theorem sar64_negative:
  assumes "op_size i = 8" and "read_operand s mem (operand0 i) = Some v" and "bit v 63"
    and "read_operand s mem (operand1 i) = Some c" and "c AND 0x3F \<noteq> 0"
  shows "exec_sar s mem i = undef"
proof -
  have "unat (c AND 0x3F) > 0" using assms(5) by (simp add: unat_gt_0)
  moreover have "sign_extend v 8 = undef"
    using assms(3) and_push_bit_1 [of v 63] by (simp add: sign_extend_def Let_def del: push_bit_of_1)
  ultimately show ?thesis using assms(1,2,4) by (simp add: exec_sar_def Let_def)
qed

theorem adc_sbb_skipped:
  assumes "opcode i \<in> {WG_OP_ADC, WG_OP_SBB, WG_OP_MUL, WG_OP_DIV, WG_OP_IDIV, WG_OP_ROL, WG_OP_ROR,
    WG_OP_MOVSB, WG_OP_STOSB, WG_OP_BSF, WG_OP_BSR, WG_OP_MOVUPS, WG_OP_MOVAPS, WG_OP_RDTSC}"
  shows "exec_insn after s mem i = Some (WG_INTERP_OK, s\<lparr>rip := after\<rparr>, mem)"
  using assms by (auto simp: exec_insn_def exec_simple_def finish_def)

end
