(* ===== verification/Blink.thy ===== *)
theory Blink
  imports Interfaces
begin

text \<open>
  The register file of the blink virtual machine as \<open>Vendor/blink/wg_blink_impl.c\<close> and
  \<open>Sources/Core/wg_blink_bridge.c\<close> expose it, their memory operations, and the loop that runs
  instructions. Blink's own routines are not part of the sources: \<open>ReserveVirtual\<close>, \<open>CopyToUser\<close>,
  \<open>CopyFromUser\<close>, one instruction (\<open>LoadInstruction\<close> and \<open>ExecuteInstruction\<close>, with the code of the
  jump to \<open>onhalt\<close>, 0 without one) and a new machine are the functions of a \<open>guest_api\<close>, arguments of
  the definitions that use them. \<open>inst\<close> or \<open>inst->vm\<close> being NULL is \<open>None\<close>.
\<close>

record 'm vm =
  weg :: "nat \<Rightarrow> u64"
  ip :: u64
  fs_base :: u64
  gs_base :: u64
  legacy32 :: bool   \<comment> \<open>\<open>mode\<close> is the 32-bit one\<close>
  last_stop :: int
  faultaddr :: u64
  gmem :: 'm

type_synonym 'm blink = "'m vm option"

record 'm guest_api =
  reserve_virtual :: "'m \<Rightarrow> u64 \<Rightarrow> u64 \<Rightarrow> 'm option"
  copy_to_user :: "'m \<Rightarrow> u64 \<Rightarrow> u8 list \<Rightarrow> 'm"
  copy_from_user :: "'m \<Rightarrow> u64 \<Rightarrow> nat \<Rightarrow> u8 list"
  execute :: "'m vm \<Rightarrow> 'm vm \<times> int"
  new_vm :: "'m vm option"

section \<open>Registers\<close>

definition WGBlinkVM_GetReg :: "'m vm \<Rightarrow> int \<Rightarrow> u64" where
  "WGBlinkVM_GetReg v idx = (if idx < 0 \<or> 16 \<le> idx then 0 else weg v (nat idx))"

definition WGBlinkVM_SetReg :: "'m vm \<Rightarrow> int \<Rightarrow> u64 \<Rightarrow> 'm vm" where
  "WGBlinkVM_SetReg v idx val =
     (if idx < 0 \<or> 16 \<le> idx then v else v\<lparr>weg := (weg v)(nat idx := val)\<rparr>)"

definition wg_blink_get_reg :: "'m blink \<Rightarrow> int \<Rightarrow> u64" where
  "wg_blink_get_reg b idx = (case b of None \<Rightarrow> 0 | Some v \<Rightarrow> WGBlinkVM_GetReg v idx)"

definition wg_blink_set_reg :: "'m blink \<Rightarrow> int \<Rightarrow> u64 \<Rightarrow> 'm blink" where
  "wg_blink_set_reg b idx val = map_option (\<lambda>v. WGBlinkVM_SetReg v idx val) b"

definition wg_blink_get_rip :: "'m blink \<Rightarrow> u64" where
  "wg_blink_get_rip b = (case b of None \<Rightarrow> 0 | Some v \<Rightarrow> ip v)"

definition wg_blink_set_rip :: "'m blink \<Rightarrow> u64 \<Rightarrow> 'm blink" where
  "wg_blink_set_rip b a = map_option (\<lambda>v. v\<lparr>ip := a\<rparr>) b"

definition wg_blink_set_fs_base :: "'m blink \<Rightarrow> u64 \<Rightarrow> 'm blink" where
  "wg_blink_set_fs_base b a = map_option (\<lambda>v. v\<lparr>fs_base := a\<rparr>) b"

definition wg_blink_set_gs_base :: "'m blink \<Rightarrow> u64 \<Rightarrow> 'm blink" where
  "wg_blink_set_gs_base b a = map_option (\<lambda>v. v\<lparr>gs_base := a\<rparr>) b"

section \<open>Memory\<close>

text \<open>\<open>page_addr\<close> and \<open>page_size\<close>: the pages that cover the block.\<close>

definition page_range :: "u64 \<Rightarrow> u32 \<Rightarrow> u64 \<times> u64" where
  "page_range addr sz =
     (let page_addr = addr AND - 4096
      in (page_addr, ((addr + ucast sz + 4095) AND - 4096) - page_addr))"

definition WGBlinkVM_LoadCode ::
    "'m guest_api \<Rightarrow> 'm vm \<Rightarrow> u64 \<Rightarrow> u8 list \<Rightarrow> u32 \<Rightarrow> u64 \<Rightarrow> bool \<times> 'm vm" where
  "WGBlinkVM_LoadCode api v addr bs sz entry_rip =
     (let (page_addr, page_size) = page_range addr sz
      in case reserve_virtual api (gmem v) page_addr page_size of
           None \<Rightarrow> (False, v)
         | Some m \<Rightarrow>
             let v = v\<lparr>gmem := copy_to_user api m addr bs\<rparr>
             in (True, if entry_rip \<noteq> 0 then v\<lparr>ip := entry_rip\<rparr> else v))"

text \<open>\<open>aborted\<close>: blink's \<open>Abort\<close> jumped back to the recovery point.\<close>

definition wg_blink_load_code ::
    "'m guest_api \<Rightarrow> bool \<Rightarrow> 'm blink \<Rightarrow> u64 \<Rightarrow> u8 list \<Rightarrow> u32 \<Rightarrow> u64 \<Rightarrow> bool \<times> 'm blink" where
  "wg_blink_load_code api aborted b addr bs sz entry_rip =
     (case b of
        None \<Rightarrow> (False, None)
      | Some v \<Rightarrow> if aborted then (False, Some v)
                  else map_prod id Some (WGBlinkVM_LoadCode api v addr bs sz entry_rip))"

definition WGBlinkVM_WriteMem :: "'m guest_api \<Rightarrow> 'm vm \<Rightarrow> u64 \<Rightarrow> u8 list \<Rightarrow> bool \<times> 'm vm" where
  "WGBlinkVM_WriteMem api v addr bs = (True, v\<lparr>gmem := copy_to_user api (gmem v) addr bs\<rparr>)"

definition wg_blink_write_mem :: "'m guest_api \<Rightarrow> 'm blink \<Rightarrow> u64 \<Rightarrow> u8 list \<Rightarrow> bool \<times> 'm blink" where
  "wg_blink_write_mem api b addr bs =
     (case b of None \<Rightarrow> (False, None) | Some v \<Rightarrow> map_prod id Some (WGBlinkVM_WriteMem api v addr bs))"

text \<open>\<open>copy_from_user\<close> gives the bytes that arrive in the buffer; when it stops at a fault, the rest
  of the buffer keeps its bytes.\<close>

definition WGBlinkVM_ReadMem :: "'m guest_api \<Rightarrow> 'm vm \<Rightarrow> u64 \<Rightarrow> u8 list \<Rightarrow> nat \<Rightarrow> bool \<times> u8 list" where
  "WGBlinkVM_ReadMem api v addr buf len =
     (let bs = take len (copy_from_user api (gmem v) addr len) in (True, bs @ drop (length bs) buf))"

definition wg_blink_read_mem :: "'m guest_api \<Rightarrow> 'm blink \<Rightarrow> u64 \<Rightarrow> u8 list \<Rightarrow> nat \<Rightarrow> bool \<times> u8 list" where
  "wg_blink_read_mem api b addr buf len =
     (case b of None \<Rightarrow> (False, buf) | Some v \<Rightarrow> WGBlinkVM_ReadMem api v addr buf len)"

lemma length_read_mem:
  "len \<le> length buf \<Longrightarrow> length (snd (wg_blink_read_mem api b addr buf len)) = length buf"
  by (auto simp: wg_blink_read_mem_def WGBlinkVM_ReadMem_def Let_def split: option.split)

section \<open>Results of a run\<close>

datatype WGBlinkResult = WG_BLINK_OK | WG_BLINK_HALT | WG_BLINK_ERROR

text \<open>The \<open>switch\<close> at the end of \<open>wg_blink_step\<close> and \<open>wg_blink_run\<close>.\<close>

definition blink_result :: "int \<Rightarrow> WGBlinkResult" where
  "blink_result r = (if r = 0 then WG_BLINK_OK else if r = 1 then WG_BLINK_HALT else WG_BLINK_ERROR)"

section \<open>A machine and its runs\<close>

text \<open>\<open>wg_blink_create\<close> and \<open>wg_blink_create32\<close>: both machines start in long mode.\<close>

definition wg_blink_create :: "'m guest_api \<Rightarrow> bool \<Rightarrow> 'm blink" where
  "wg_blink_create api aborted = (if aborted then None else new_vm api)"

definition WGBlinkVM_SwitchTo32 :: "'m vm \<Rightarrow> 'm vm" where
  "WGBlinkVM_SwitchTo32 v = v\<lparr>legacy32 := True\<rparr>"

definition wg_blink_switch_to_32bit :: "'m blink \<Rightarrow> 'm blink" where
  "wg_blink_switch_to_32bit b = map_option WGBlinkVM_SwitchTo32 b"

text \<open>\<open>Put32\<close> on a register keeps its upper half.\<close>

definition put32 :: "'m vm \<Rightarrow> nat \<Rightarrow> u32 \<Rightarrow> 'm vm" where
  "put32 v i x = v\<lparr>weg := (weg v)(i := (weg v i AND NOT (mask 32)) OR ucast x)\<rparr>"

definition WGBlinkVM_SetupStack :: "'m guest_api \<Rightarrow> 'm vm \<Rightarrow> u64 \<Rightarrow> bool \<times> 'm vm" where
  "WGBlinkVM_SetupStack api v entry_rip =
     (case reserve_virtual api (gmem v) (0x7FFF0000 - 0x100000) 0x100000 of
        None \<Rightarrow> (False, v)
      | Some m \<Rightarrow>
          if legacy32 v
          then let sp = 0x7FFF0000 - 0x100 - 4;
                   v = v\<lparr>gmem := copy_to_user api m (ucast sp) (replicate 4 0)\<rparr>
               in (True, (put32 (put32 v 4 sp) 5 (sp + 4))\<lparr>ip := entry_rip\<rparr>)
          else let sp = 0x7FFF0000 - 0x100 - 8;
                   v = v\<lparr>gmem := copy_to_user api m sp (replicate 8 0)\<rparr>
               in (True, v\<lparr>weg := (weg v)(4 := sp, 5 := sp + 8), ip := entry_rip\<rparr>))"

definition wg_blink_setup_stack :: "'m guest_api \<Rightarrow> bool \<Rightarrow> 'm blink \<Rightarrow> u64 \<Rightarrow> bool \<times> 'm blink" where
  "wg_blink_setup_stack api aborted b entry_rip =
     (case b of
        None \<Rightarrow> (False, None)
      | Some v \<Rightarrow> if aborted then (False, Some v) else map_prod id Some (WGBlinkVM_SetupStack api v entry_rip))"

definition WGBlinkVM_Step :: "'m guest_api \<Rightarrow> 'm vm \<Rightarrow> int \<times> 'm vm" where
  "WGBlinkVM_Step api v =
     (let (v, rc) = execute api v
      in if rc \<noteq> 0 then (1, v\<lparr>last_stop := rc\<rparr>)
         else (if ip v = 0 then 1 else 0, v\<lparr>last_stop := 0\<rparr>))"

fun WGBlinkVM_Run :: "'m guest_api \<Rightarrow> nat \<Rightarrow> 'm vm \<Rightarrow> int \<times> 'm vm" where
  "WGBlinkVM_Run api 0 v = (0, v\<lparr>last_stop := 0\<rparr>)"
| "WGBlinkVM_Run api (Suc n) v =
     (if ip v = 0 then (1, v\<lparr>last_stop := 0\<rparr>)
      else let (v, rc) = execute api v
           in if rc \<noteq> 0 then (1, v\<lparr>last_stop := rc\<rparr>) else WGBlinkVM_Run api n v)"

definition wg_blink_step :: "'m guest_api \<Rightarrow> 'm blink \<Rightarrow> WGBlinkResult \<times> 'm blink" where
  "wg_blink_step api b =
     (case b of None \<Rightarrow> (WG_BLINK_ERROR, None) | Some v \<Rightarrow> map_prod blink_result Some (WGBlinkVM_Step api v))"

text \<open>\<open>aborted\<close> is the machine that blink's \<open>Abort\<close> leaves, when it jumps back to the recovery point.\<close>

definition wg_blink_run :: "'m guest_api \<Rightarrow> 'm vm option \<Rightarrow> 'm blink \<Rightarrow> nat \<Rightarrow> WGBlinkResult \<times> 'm blink" where
  "wg_blink_run api aborted b n =
     (case b of
        None \<Rightarrow> (WG_BLINK_ERROR, None)
      | Some v \<Rightarrow> (case aborted of
            Some v' \<Rightarrow> (WG_BLINK_ERROR, Some v')
          | None \<Rightarrow> map_prod blink_result Some (WGBlinkVM_Run api n v)))"

definition wg_blink_get_stop_reason :: "'m blink \<Rightarrow> int" where
  "wg_blink_get_stop_reason b = (case b of None \<Rightarrow> 0 | Some v \<Rightarrow> last_stop v)"

definition wg_blink_get_fault_addr :: "'m blink \<Rightarrow> u64" where
  "wg_blink_get_fault_addr b = (case b of None \<Rightarrow> 0 | Some v \<Rightarrow> faultaddr v)"

section \<open>The interface\<close>

text \<open>A register that was set reads back, and the others are unchanged.\<close>

lemma blink_reg_same: "0 \<le> i \<Longrightarrow> i < 16 \<Longrightarrow> wg_blink_get_reg (wg_blink_set_reg (Some v) i x) i = x"
  by (simp add: wg_blink_get_reg_def wg_blink_set_reg_def WGBlinkVM_GetReg_def WGBlinkVM_SetReg_def)

lemma blink_reg_other: "i \<noteq> j \<Longrightarrow> wg_blink_get_reg (wg_blink_set_reg b i x) j = wg_blink_get_reg b j"
  by (auto simp: wg_blink_get_reg_def wg_blink_set_reg_def WGBlinkVM_GetReg_def WGBlinkVM_SetReg_def
      split: option.splits)

text \<open>Loading code at entry 0 leaves the registers alone.\<close>

lemma load_code_regs:
  assumes "wg_blink_load_code api ab b a bs n 0 = (ok, b')"
  shows "wg_blink_get_reg b' i = wg_blink_get_reg b i" and "wg_blink_get_rip b' = wg_blink_get_rip b"
  using assms
  by (auto simp: wg_blink_load_code_def WGBlinkVM_LoadCode_def page_range_def Let_def wg_blink_get_reg_def
      WGBlinkVM_GetReg_def wg_blink_get_rip_def split: option.splits if_splits)

lemma write_mem_regs:
  "wg_blink_get_reg (snd (wg_blink_write_mem api b a bs)) i = wg_blink_get_reg b i"
  "wg_blink_get_rip (snd (wg_blink_write_mem api b a bs)) = wg_blink_get_rip b"
  by (auto simp: wg_blink_write_mem_def WGBlinkVM_WriteMem_def wg_blink_get_reg_def
      WGBlinkVM_GetReg_def wg_blink_get_rip_def split: option.splits)

end
