(* ===== verification/Threads.thy ===== *)
theory Threads
  imports Blink
begin

text \<open>
  The cooperative thread scheduler of \<open>Sources/Win32/wg_threading.{h,c}\<close>: a table of 32 thread
  slots with saved 32-bit register state, round-robin switching over the blink machine, waiting
  and waking, and thread exit. \<open>current\<close> is \<open>None\<close> for the source's \<open>-1\<close>. The two calls of the
  engine that combine these operations (registering the main thread, and a worker that returns
  from its start function) are at the end.
\<close>

definition WG_MAX_THREADS :: nat where "WG_MAX_THREADS = 32"
definition WG_THREAD_STACK :: u32 where "WG_THREAD_STACK = 1024 * 1024"

datatype WGThreadState = WG_THREAD_FREE | WG_THREAD_RUNNING | WG_THREAD_READY | WG_THREAD_WAITING
  | WG_THREAD_SUSPENDED | WG_THREAD_EXITED

record thread_regs =
  tgpr :: "u32 list"
  trip :: u32
  tfs_base :: u32

record thread =
  state :: WGThreadState
  tid :: u32
  thandle :: u32
  stack_base :: u32
  stack_size :: u32
  teb :: u32
  start_addr :: u32
  param :: u32
  exit_code :: u32
  wait_handle :: u32
  wait_timeout :: u32
  regs :: thread_regs

record scheduler =
  threads :: "thread list"
  current :: "nat option"
  thread_count :: int
  next_id :: u32
  next_handle :: u32
  next_stack_addr :: u32

definition zero_regs :: thread_regs where
  "zero_regs = \<lparr>tgpr = replicate 8 0, trip = 0, tfs_base = 0\<rparr>"

definition zero_thread :: thread where
  "zero_thread = \<lparr>state = WG_THREAD_FREE, tid = 0, thandle = 0, stack_base = 0, stack_size = 0,
     teb = 0, start_addr = 0, param = 0, exit_code = 0, wait_handle = 0, wait_timeout = 0,
     regs = zero_regs\<rparr>"

text \<open>\<open>wg_sched_create\<close> when \<open>calloc\<close> succeeds.\<close>

definition wg_sched_create :: scheduler where
  "wg_sched_create = \<lparr>threads = replicate WG_MAX_THREADS zero_thread, current = None,
     thread_count = 0, next_id = 0x1000, next_handle = 0x7100, next_stack_addr = 0x30000000\<rparr>"

section \<open>Saving and restoring\<close>

definition save_regs :: "thread_regs \<Rightarrow> 'm blink \<Rightarrow> thread_regs" where
  "save_regs r b = r\<lparr>tgpr := map (\<lambda>i. ucast (wg_blink_get_reg b (int i))) [0..<8],
     trip := ucast (wg_blink_get_rip b)\<rparr>"

text \<open>The loop of \<open>restore_regs\<close>: register \<open>i\<close> and the following ones.\<close>

fun restore_gprs :: "u32 list \<Rightarrow> nat \<Rightarrow> 'm blink \<Rightarrow> 'm blink" where
  "restore_gprs [] i b = b"
| "restore_gprs (v # vs) i b = restore_gprs vs (i + 1) (wg_blink_set_reg b (int i) (ucast v))"

definition restore_regs :: "thread_regs \<Rightarrow> 'm blink \<Rightarrow> 'm blink" where
  "restore_regs r b =
     wg_blink_set_fs_base (wg_blink_set_rip (restore_gprs (tgpr r) 0 b) (ucast (trip r)))
       (ucast (tfs_base r))"

section \<open>Creating a thread\<close>

text \<open>Map the stack and write the fake return address and the parameter. \<open>zeroed\<close> says whether
  \<open>calloc\<close> succeeds, \<open>aborted\<close> whether blink aborts while the stack is mapped.\<close>

definition setup_thread_stack ::
    "'m guest_api \<Rightarrow> bool \<Rightarrow> bool \<Rightarrow> 'm blink \<Rightarrow> u32 \<Rightarrow> u32 \<Rightarrow> u32 \<Rightarrow> u32 \<Rightarrow> 'm blink" where
  "setup_thread_stack api zeroed aborted b base_addr sz sp prm =
     (let b = (if zeroed
               then snd (wg_blink_load_code api aborted b (ucast base_addr) (replicate (unat sz) 0) sz 0)
               else b);
          b = snd (wg_blink_write_mem api b (ucast sp) (le_bytes 4 (0 :: u32)))
      in snd (wg_blink_write_mem api b (ucast (sp + 4)) (le_bytes 4 prm)))"

text \<open>The new thread's record; \<open>fs\<close> is the FS base of the running thread, read after the slot
  was cleared.\<close>

definition fresh_thread :: "scheduler \<Rightarrow> nat \<Rightarrow> u32 \<Rightarrow> u32 \<Rightarrow> u32 \<Rightarrow> thread" where
  "fresh_thread s slot start prm flags =
     (let sp = next_stack_addr s + WG_THREAD_STACK - 0x100;
          fs = (case current s of None \<Rightarrow> 0
                | Some c \<Rightarrow> if c = slot then 0 else tfs_base (regs (threads s ! c)))
      in zero_thread\<lparr>tid := next_id s, thandle := next_handle s, start_addr := start, param := prm,
           exit_code := 259, stack_base := next_stack_addr s, stack_size := WG_THREAD_STACK,
           regs := \<lparr>tgpr = [0, 0, 0, 0, sp, sp, 0, 0], trip = start, tfs_base = fs\<rparr>, teb := fs,
           state := (if flags AND 0x4 \<noteq> 0 then WG_THREAD_SUSPENDED else WG_THREAD_READY)\<rparr>)"

text \<open>The result is the handle and the thread id (\<open>None\<close>: 0 is returned), the scheduler and the
  machine.\<close>

definition wg_sched_create_thread ::
    "'m guest_api \<Rightarrow> bool \<Rightarrow> bool \<Rightarrow> scheduler \<Rightarrow> 'm blink \<Rightarrow> u32 \<Rightarrow> u32 \<Rightarrow> u32 \<Rightarrow>
     (u32 \<times> u32) option \<times> scheduler \<times> 'm blink" where
  "wg_sched_create_thread api zeroed aborted s b start prm flags =
     (case find_index (\<lambda>t. state t = WG_THREAD_FREE) (threads s) of
        None \<Rightarrow> (None, s, b)
      | Some slot \<Rightarrow>
          let t = fresh_thread s slot start prm flags;
              b = setup_thread_stack api zeroed aborted b (stack_base t) (stack_size t)
                    (next_stack_addr s + WG_THREAD_STACK - 0x100) prm;
              s = s\<lparr>next_id := next_id s + 1, next_handle := next_handle s + 1,
                    next_stack_addr := next_stack_addr s + (WG_THREAD_STACK + 0x1000),
                    threads := (threads s)[slot := t], thread_count := thread_count s + 1\<rparr>
          in (Some (thandle t, tid t), s, b))"

section \<open>Switching\<close>

definition update_thread :: "scheduler \<Rightarrow> nat \<Rightarrow> (thread \<Rightarrow> thread) \<Rightarrow> scheduler" where
  "update_thread s i f = s\<lparr>threads := (threads s)[i := f (threads s ! i)]\<rparr>"

definition wg_sched_save_current :: "scheduler \<Rightarrow> 'm blink \<Rightarrow> WGThreadState \<Rightarrow> scheduler" where
  "wg_sched_save_current s b new_state =
     (case current s of
        None \<Rightarrow> s
      | Some c \<Rightarrow> update_thread s c (\<lambda>t. t\<lparr>regs := save_regs (regs t) b, state := new_state\<rparr>))"

text \<open>The first index in \<open>start, start + 1, ...\<close> modulo the table size whose thread is ready.\<close>

definition next_ready :: "scheduler \<Rightarrow> nat option" where
  "next_ready s =
     (let start = (case current s of None \<Rightarrow> 0 | Some c \<Rightarrow> c + 1)
      in map_option (\<lambda>i. (start + i) mod WG_MAX_THREADS)
           (find_index (\<lambda>i. state (threads s ! ((start + i) mod WG_MAX_THREADS)) = WG_THREAD_READY)
              [0..<WG_MAX_THREADS]))"

definition wg_sched_switch_next :: "scheduler \<Rightarrow> 'm blink \<Rightarrow> bool \<times> scheduler \<times> 'm blink" where
  "wg_sched_switch_next s b =
     (case next_ready s of
        None \<Rightarrow> (False, s, b)
      | Some idx \<Rightarrow>
          let s = update_thread (s\<lparr>current := Some idx\<rparr>) idx (\<lambda>t. t\<lparr>state := WG_THREAD_RUNNING\<rparr>)
          in (True, s, restore_regs (regs (threads s ! idx)) b))"

definition wg_sched_yield ::
    "scheduler \<Rightarrow> 'm blink \<Rightarrow> WGThreadState \<Rightarrow> bool \<times> scheduler \<times> 'm blink" where
  "wg_sched_yield s b block_reason =
     (let s = wg_sched_save_current s b block_reason;
          (switched, s, b) = wg_sched_switch_next s b
      in if switched then (True, s, b)
         else case current s of
             None \<Rightarrow> (False, s, b)
           | Some c \<Rightarrow>
               let s = update_thread s c (\<lambda>t. t\<lparr>state := WG_THREAD_RUNNING\<rparr>)
               in (False, s, restore_regs (regs (threads s ! c)) b))"

definition wake_thread :: "u32 \<Rightarrow> thread \<Rightarrow> thread" where
  "wake_thread h t =
     (if state t = WG_THREAD_WAITING \<and> wait_handle t = h
      then t\<lparr>state := WG_THREAD_READY, wait_handle := 0\<rparr> else t)"

definition wg_sched_wake :: "scheduler \<Rightarrow> u32 \<Rightarrow> scheduler" where
  "wg_sched_wake s h = s\<lparr>threads := map (wake_thread h) (threads s)\<rparr>"

definition wg_sched_exit_thread :: "scheduler \<Rightarrow> 'm blink \<Rightarrow> u32 \<Rightarrow> scheduler \<times> 'm blink" where
  "wg_sched_exit_thread s b code =
     (case current s of
        None \<Rightarrow> (s, b)
      | Some c \<Rightarrow>
          let s = update_thread s c (\<lambda>t. t\<lparr>state := WG_THREAD_EXITED, exit_code := code\<rparr>)
          in snd (wg_sched_switch_next (s\<lparr>current := None\<rparr>) b))"

section \<open>Lookup\<close>

definition wg_sched_find :: "scheduler \<Rightarrow> u32 \<Rightarrow> nat option" where
  "wg_sched_find s h = find_index (\<lambda>t. thandle t = h \<and> state t \<noteq> WG_THREAD_FREE) (threads s)"

definition wg_sched_current :: "scheduler \<Rightarrow> thread option" where
  "wg_sched_current s = map_option (\<lambda>c. threads s ! c) (current s)"

definition wg_sched_current_tid :: "scheduler \<Rightarrow> u32" where
  "wg_sched_current_tid s = (case current s of None \<Rightarrow> 0 | Some c \<Rightarrow> tid (threads s ! c))"

section \<open>The engine's use of the scheduler\<close>

text \<open>\<open>wg_engine_load_pe\<close>: the main thread takes slot 0; \<open>main_teb\<close> is \<open>s_main_teb\<close>.\<close>

definition register_main_thread :: "scheduler \<Rightarrow> u32 \<Rightarrow> scheduler" where
  "register_main_thread s main_teb =
     s\<lparr>threads := (threads s)[0 := zero_thread\<lparr>state := WG_THREAD_RUNNING, tid := 1, thandle := 0x7000,
           exit_code := 259, regs := zero_regs\<lparr>tfs_base := main_teb\<rparr>, teb := main_teb\<rparr>],
       current := Some 0, thread_count := 1\<rparr>"

text \<open>\<open>wg_engine_tick\<close>, RIP 0 in a worker: exit it, wake its waiters, then switch (again). The
  boolean is the result of the last switch.\<close>

definition worker_return :: "scheduler \<Rightarrow> 'm blink \<Rightarrow> bool \<times> scheduler \<times> 'm blink" where
  "worker_return s b =
     (case current s of
        None \<Rightarrow> (False, s, b)
      | Some c \<Rightarrow>
          if tid (threads s ! c) = 1 then (False, s, b)
          else let eax = ucast (wg_blink_get_reg b 0);
                   (s1, b1) = wg_sched_exit_thread s b eax;
                   s1 = wg_sched_wake s1 (thandle (threads s1 ! c))
               in wg_sched_switch_next s1 b1)"

text \<open>\<open>ResumeThread\<close>.\<close>

definition resume_thread :: "scheduler \<Rightarrow> u32 \<Rightarrow> u32 \<times> scheduler" where
  "resume_thread s h =
     (case wg_sched_find s h of
        Some i \<Rightarrow> if state (threads s ! i) = WG_THREAD_SUSPENDED
                  then (1, update_thread s i (\<lambda>t. t\<lparr>state := WG_THREAD_READY\<rparr>)) else (- 1, s)
      | None \<Rightarrow> (- 1, s))"

end
