(* ===== verification/ThreadsOk.thy ===== *)
theory ThreadsOk
  imports Threads
begin

text \<open>
  The scheduler's guarantees: a context switch saves and restores the 32-bit registers; exactly
  the current thread is marked as running (\<open>sched_inv\<close>), which creation, yield, wake, resume and
  exit preserve; yielding is round-robin, so that a ready thread runs within 32 yields; thread
  handles are unique (the interpretation of \<open>handle_table\<close>) and the stacks are disjoint. The last
  section shows how the engine's handling of a returning worker breaks the invariant.
\<close>

section \<open>Context switches\<close>

lemma length_save_regs [simp]: "length (tgpr (save_regs r b)) = 8"
  by (simp add: save_regs_def)

lemma restore_gprs_get:
  "wg_blink_get_reg (restore_gprs vs k (Some v)) (int i) =
     (if i < 16 \<and> k \<le> i \<and> i < k + length vs then ucast (vs ! (i - k)) else wg_blink_get_reg (Some v) (int i))"
proof (induction vs arbitrary: k v)
  case Nil
  then show ?case by auto
next
  case (Cons x vs)
  obtain v' where v': "wg_blink_set_reg (Some v) (int k) (ucast x) = Some v'"
    by (simp add: wg_blink_set_reg_def)
  have g: "wg_blink_get_reg (Some v') (int i) = (if i = k \<and> i < 16 then ucast x else wg_blink_get_reg (Some v) (int i))"
    unfolding v' [symmetric]
    by (auto simp: wg_blink_get_reg_def wg_blink_set_reg_def WGBlinkVM_GetReg_def WGBlinkVM_SetReg_def)
  have "i - k = Suc (i - Suc k)" if "Suc k \<le> i" using that by simp
  then show ?case
    using Cons.IH [of "k + 1" v'] g by (auto simp: v' nth_Cons')
qed

lemma restore_gprs_Some: "\<exists>v'. restore_gprs vs k (Some v) = Some v' \<and> ip v' = ip v \<and> gmem v' = gmem v"
proof (induction vs arbitrary: k v)
  case Nil
  then show ?case by simp
next
  case (Cons x vs)
  show ?case using Cons.IH [of "k + 1" "WGBlinkVM_SetReg v (int k) (ucast x)"]
    by (auto simp: wg_blink_set_reg_def WGBlinkVM_SetReg_def)
qed

lemma set_rip_fs_regs [simp]:
  "wg_blink_get_reg (wg_blink_set_rip b a) i = wg_blink_get_reg b i"
  "wg_blink_get_reg (wg_blink_set_fs_base b a) i = wg_blink_get_reg b i"
  "wg_blink_get_rip (wg_blink_set_fs_base b a) = wg_blink_get_rip b"
  by (auto simp: wg_blink_get_reg_def wg_blink_set_rip_def wg_blink_set_fs_base_def WGBlinkVM_GetReg_def
      wg_blink_get_rip_def split: option.splits)

lemma restore_regs_view:
  assumes "length (tgpr r) = 8"
  shows "i < 8 \<Longrightarrow> wg_blink_get_reg (restore_regs r (Some v)) (int i) = ucast (tgpr r ! i)"
    and "8 \<le> i \<Longrightarrow> wg_blink_get_reg (restore_regs r (Some v)) (int i) = wg_blink_get_reg (Some v) (int i)"
    and "wg_blink_get_rip (restore_regs r (Some v)) = ucast (trip r)"
    and "map_option fs_base (restore_regs r (Some v)) = Some (ucast (tfs_base r))"
proof -
  show "i < 8 \<Longrightarrow> wg_blink_get_reg (restore_regs r (Some v)) (int i) = ucast (tgpr r ! i)"
    and "8 \<le> i \<Longrightarrow> wg_blink_get_reg (restore_regs r (Some v)) (int i) = wg_blink_get_reg (Some v) (int i)"
    using assms by (simp_all add: restore_regs_def restore_gprs_get)
  show "wg_blink_get_rip (restore_regs r (Some v)) = ucast (trip r)"
    and "map_option fs_base (restore_regs r (Some v)) = Some (ucast (tfs_base r))"
    using restore_gprs_Some [of "tgpr r" 0 v]
    by (auto simp: restore_regs_def wg_blink_get_rip_def wg_blink_set_rip_def wg_blink_set_fs_base_def)
qed

lemma ucast_32_mask: "ucast (ucast (w :: u64) :: u32) = w AND mask 32"
  by (rule bit_word_eqI) (auto simp: bit_simps)

theorem context_roundtrip:
  assumes "i < 8"
  shows "wg_blink_get_reg (restore_regs (save_regs r b) (Some v)) (int i) = wg_blink_get_reg b (int i) AND mask 32 \<and>
    wg_blink_get_rip (restore_regs (save_regs r b) (Some v)) = wg_blink_get_rip b AND mask 32 \<and>
    map_option fs_base (restore_regs (save_regs r b) (Some v)) = Some (ucast (tfs_base r))"
  using restore_regs_view(1) [of "save_regs r b" i v] restore_regs_view(3,4) [of "save_regs r b" v] assms
  by (simp_all add: save_regs_def ucast_32_mask)

section \<open>The scheduler invariant\<close>

definition sched_inv :: "scheduler \<Rightarrow> bool" where
  "sched_inv s \<longleftrightarrow> length (threads s) = WG_MAX_THREADS \<and>
     (\<forall>c. current s = Some c \<longrightarrow> c < WG_MAX_THREADS \<and> state (threads s ! c) = WG_THREAD_RUNNING) \<and>
     (\<forall>i < WG_MAX_THREADS. state (threads s ! i) = WG_THREAD_RUNNING \<longrightarrow> current s = Some i)"

lemma length_update_thread [simp]: "length (threads (update_thread s i f)) = length (threads s)"
  by (simp add: update_thread_def)

lemma current_update_thread [simp]: "current (update_thread s i f) = current s"
  by (simp add: update_thread_def)

lemma nth_update_thread:
  "j < length (threads s) \<Longrightarrow> threads (update_thread s i f) ! j = (if j = i then f (threads s ! j) else threads s ! j)"
  by (simp add: update_thread_def nth_list_update)

lemma sched_invI:
  assumes "length (threads s) = WG_MAX_THREADS"
    and "\<And>c. current s = Some c \<Longrightarrow> c < WG_MAX_THREADS \<and> state (threads s ! c) = WG_THREAD_RUNNING"
    and "\<And>i. i < WG_MAX_THREADS \<Longrightarrow> state (threads s ! i) = WG_THREAD_RUNNING \<Longrightarrow> current s = Some i"
  shows "sched_inv s"
  using assms unfolding sched_inv_def by blast

lemma sched_invD:
  assumes "sched_inv s"
  shows "length (threads s) = WG_MAX_THREADS"
    and "current s = Some c \<Longrightarrow> c < WG_MAX_THREADS"
    and "current s = Some c \<Longrightarrow> state (threads s ! c) = WG_THREAD_RUNNING"
    and "i < WG_MAX_THREADS \<Longrightarrow> state (threads s ! i) = WG_THREAD_RUNNING \<Longrightarrow> current s = Some i"
  using assms unfolding sched_inv_def by blast+

text \<open>Between saving and switching the current thread is no longer marked as running.\<close>

definition parked :: "scheduler \<Rightarrow> bool" where
  "parked s \<longleftrightarrow> length (threads s) = WG_MAX_THREADS \<and> (\<forall>c. current s = Some c \<longrightarrow> c < WG_MAX_THREADS) \<and>
     (\<forall>i < WG_MAX_THREADS. state (threads s ! i) \<noteq> WG_THREAD_RUNNING)"

lemma parkedI:
  assumes "length (threads s) = WG_MAX_THREADS" and "\<And>c. current s = Some c \<Longrightarrow> c < WG_MAX_THREADS"
    and "\<And>i. i < WG_MAX_THREADS \<Longrightarrow> state (threads s ! i) \<noteq> WG_THREAD_RUNNING"
  shows "parked s"
  using assms unfolding parked_def by blast

lemma parkedD:
  assumes "parked s"
  shows "length (threads s) = WG_MAX_THREADS" and "current s = Some c \<Longrightarrow> c < WG_MAX_THREADS"
    and "i < WG_MAX_THREADS \<Longrightarrow> state (threads s ! i) \<noteq> WG_THREAD_RUNNING"
  using assms unfolding parked_def by blast+

lemma next_readyD:
  assumes "next_ready s = Some j"
  shows "j < WG_MAX_THREADS" and "state (threads s ! j) = WG_THREAD_READY"
proof -
  let ?n = "case current s of None \<Rightarrow> 0 | Some c \<Rightarrow> c + 1"
  from assms obtain i where
    i: "find_index (\<lambda>i. state (threads s ! ((?n + i) mod WG_MAX_THREADS)) = WG_THREAD_READY)
          [0..<WG_MAX_THREADS] = Some i" and j: "j = (?n + i) mod WG_MAX_THREADS"
    by (auto simp: next_ready_def Let_def)
  show "j < WG_MAX_THREADS" by (simp add: j WG_MAX_THREADS_def)
  show "state (threads s ! j) = WG_THREAD_READY" using find_index_SomeD [OF i] by (simp add: j)
qed

lemma switch_next_cases:
  assumes "wg_sched_switch_next s b = (ok, s', b')"
  obtains (stuck) "next_ready s = None" "\<not> ok" "s' = s" "b' = b"
  | (switched) j where "next_ready s = Some j" "ok"
      "s' = update_thread (s\<lparr>current := Some j\<rparr>) j (\<lambda>t. t\<lparr>state := WG_THREAD_RUNNING\<rparr>)"
      "b' = restore_regs (regs (threads s' ! j)) b"
  using assms by (auto simp: wg_sched_switch_next_def Let_def split: option.splits)

text \<open>Marking one thread of a parked table as running and current.\<close>

lemma run_parked:
  assumes p: "parked s" and j: "j < WG_MAX_THREADS"
  shows "sched_inv (update_thread (s\<lparr>current := Some j\<rparr>) j (\<lambda>t. t\<lparr>state := WG_THREAD_RUNNING\<rparr>))"
proof (rule sched_invI, goal_cases)
  case 1
  then show ?case by (simp add: parkedD(1) [OF p])
next
  case (2 c)
  then show ?case using j parkedD(1) [OF p] by (simp add: nth_update_thread)
next
  case (3 i)
  then show ?case using parkedD(1) [OF p] parkedD(3) [OF p, of i]
    by (simp add: nth_update_thread split: if_splits)
qed

lemma switch_next_inv:
  assumes "parked s" and "wg_sched_switch_next s b = (True, s', b')"
  shows "sched_inv s'"
  using assms(2)
proof (cases rule: switch_next_cases)
  case (switched j)
  show ?thesis unfolding switched(3) by (rule run_parked [OF assms(1) next_readyD(1) [OF switched(1)]])
qed simp

lemma save_current_current [simp]: "current (wg_sched_save_current s b r) = current s"
  by (simp add: wg_sched_save_current_def split: option.splits)

lemma save_current_parked:
  assumes inv: "sched_inv s" and r: "r \<noteq> WG_THREAD_RUNNING"
  shows "parked (wg_sched_save_current s b r)"
proof (cases "current s")
  case None
  show ?thesis
  proof (rule parkedI, goal_cases)
    case (3 i)
    then show ?case using sched_invD(4) [OF inv 3] None by (auto simp: wg_sched_save_current_def)
  qed (simp_all add: None wg_sched_save_current_def sched_invD(1) [OF inv])
next
  case (Some c)
  show ?thesis
  proof (rule parkedI, goal_cases)
    case (3 i)
    then show ?case using sched_invD(4) [OF inv 3] Some r sched_invD(1) [OF inv]
      by (auto simp: wg_sched_save_current_def nth_update_thread)
  qed (simp_all add: Some wg_sched_save_current_def sched_invD(1,2) [OF inv])
qed

text \<open>A yield saves the registers and either switches to the next ready thread or, when there is
  none, runs the current thread again.\<close>

lemma yield_cases:
  assumes "wg_sched_yield s b r = (ok, s', b')"
  obtains (switched) j where "next_ready (wg_sched_save_current s b r) = Some j" "ok"
      "s' = update_thread ((wg_sched_save_current s b r)\<lparr>current := Some j\<rparr>) j
              (\<lambda>t. t\<lparr>state := WG_THREAD_RUNNING\<rparr>)"
      "b' = restore_regs (regs (threads s' ! j)) b"
  | (alone) c where "next_ready (wg_sched_save_current s b r) = None" "\<not> ok" "current s = Some c"
      "s' = update_thread (wg_sched_save_current s b r) c (\<lambda>t. t\<lparr>state := WG_THREAD_RUNNING\<rparr>)"
      "b' = restore_regs (regs (threads s' ! c)) b"
  | (idle) "next_ready (wg_sched_save_current s b r) = None" "\<not> ok" "current s = None"
      "s' = wg_sched_save_current s b r" "b' = b"
proof -
  obtain ok1 s1 b1 where sw: "wg_sched_switch_next (wg_sched_save_current s b r) b = (ok1, s1, b1)"
    by (metis prod_cases3)
  from sw show ?thesis
  proof (cases rule: switch_next_cases)
    case stuck
    show ?thesis
    proof (cases "current s")
      case None
      have "wg_sched_yield s b r = (False, wg_sched_save_current s b r, b)"
        using stuck None sw by (simp add: wg_sched_yield_def)
      then show ?thesis using assms stuck None by (intro idle) simp_all
    next
      case (Some c)
      let ?s = "update_thread (wg_sched_save_current s b r) c (\<lambda>t. t\<lparr>state := WG_THREAD_RUNNING\<rparr>)"
      have "wg_sched_yield s b r = (False, ?s, restore_regs (regs (threads ?s ! c)) b)"
        using stuck Some sw by (simp add: wg_sched_yield_def Let_def)
      then show ?thesis using assms stuck Some by (intro alone [of c]) simp_all
    qed
  next
    case (switched j)
    have "wg_sched_yield s b r = (True, s1, b1)" using switched(2) sw by (simp add: wg_sched_yield_def)
    with assms have "ok" "s' = s1" "b' = b1" by simp_all
    with switched that(1) [of j] show ?thesis by blast
  qed
qed

lemma parked_current_None: "parked s \<Longrightarrow> current s = None \<Longrightarrow> sched_inv s"
  by (rule sched_invI) (simp_all add: parkedD)

lemma update_same_current: "current s = Some c \<Longrightarrow> update_thread s c f = update_thread (s\<lparr>current := Some c\<rparr>) c f"
  by (cases s) simp

lemma yield_inv:
  assumes inv: "sched_inv s" and r: "r \<noteq> WG_THREAD_RUNNING" and y: "wg_sched_yield s b r = (ok, s', b')"
  shows "sched_inv s'"
proof -
  note p = save_current_parked [OF inv r, of b]
  from y show ?thesis
  proof (cases rule: yield_cases)
    case (switched j)
    show ?thesis unfolding switched(3) by (rule run_parked [OF p next_readyD(1) [OF switched(1)]])
  next
    case (alone c)
    have c: "current (wg_sched_save_current s b r) = Some c" using alone by simp
    show ?thesis unfolding alone(4) update_same_current [OF c]
      by (rule run_parked [OF p]) (rule sched_invD(2) [OF inv alone(3)])
  next
    case idle
    then show ?thesis using parked_current_None [OF p] by simp
  qed
qed

lemma create_inv: "sched_inv wg_sched_create"
  by (rule sched_invI) (simp_all add: wg_sched_create_def zero_thread_def)

lemma create_thread_cases:
  assumes "wg_sched_create_thread api z a s b st prm fl = (r, s', b')"
  obtains (full) "find_index (\<lambda>t. state t = WG_THREAD_FREE) (threads s) = None" "r = None" "s' = s" "b' = b"
  | (created) slot where "find_index (\<lambda>t. state t = WG_THREAD_FREE) (threads s) = Some slot"
      "r = Some (next_handle s, next_id s)"
      "s' = s\<lparr>next_id := next_id s + 1, next_handle := next_handle s + 1,
              next_stack_addr := next_stack_addr s + (WG_THREAD_STACK + 0x1000),
              threads := (threads s)[slot := fresh_thread s slot st prm fl],
              thread_count := thread_count s + 1\<rparr>"
  using assms
  by (cases "find_index (\<lambda>t. state t = WG_THREAD_FREE) (threads s)")
    (auto simp: wg_sched_create_thread_def Let_def fresh_thread_def simp del: find_index_None)

lemma fresh_thread_state: "state (fresh_thread s slot st prm fl) \<in> {WG_THREAD_SUSPENDED, WG_THREAD_READY}"
  by (simp add: fresh_thread_def Let_def)

lemma create_thread_inv:
  assumes inv: "sched_inv s" and c: "wg_sched_create_thread api z a s b st prm fl = (r, s', b')"
  shows "sched_inv s'"
  using c
proof (cases rule: create_thread_cases)
  case full
  then show ?thesis using inv by simp
next
  case (created slot)
  note f = find_index_SomeD [OF created(1)]
  have th: "threads s' ! i = (if i = slot then fresh_thread s slot st prm fl else threads s ! i)"
    if "i < WG_MAX_THREADS" for i using that created(3) sched_invD(1) [OF inv] f(1) by simp
  show ?thesis
  proof (rule sched_invI, goal_cases)
    case 1
    then show ?case using created(3) sched_invD(1) [OF inv] by simp
  next
    case (2 c)
    then have c: "current s = Some c" using created(3) by simp
    with sched_invD(3) [OF inv c] f(2) have "c \<noteq> slot" by auto
    then show ?case using th [of c] sched_invD(2,3) [OF inv c] by simp
  next
    case (3 i)
    then have "i \<noteq> slot" using th [of i] fresh_thread_state [of s slot st prm fl] by auto
    then show ?case using 3 th [of i] sched_invD(4) [OF inv, of i] created(3) by simp
  qed
qed

lemma wake_thread_running: "state (wake_thread h t) = WG_THREAD_RUNNING \<longleftrightarrow> state t = WG_THREAD_RUNNING"
  by (simp add: wake_thread_def)

lemma wake_inv:
  assumes inv: "sched_inv s" shows "sched_inv (wg_sched_wake s h)"
proof (rule sched_invI, goal_cases)
  case 1
  then show ?case using sched_invD(1) [OF inv] by (simp add: wg_sched_wake_def)
next
  case (2 c)
  then show ?case using sched_invD(1) [OF inv] sched_invD(2,3) [OF inv, of c] by (simp add: wg_sched_wake_def wake_thread_running)
next
  case (3 i)
  then show ?case using sched_invD(1) [OF inv] sched_invD(4) [OF inv, of i]
    by (simp add: wg_sched_wake_def wake_thread_running)
qed

definition exited :: "scheduler \<Rightarrow> nat \<Rightarrow> u32 \<Rightarrow> scheduler" where
  "exited s c code = (update_thread s c (\<lambda>t. t\<lparr>state := WG_THREAD_EXITED, exit_code := code\<rparr>))\<lparr>current := None\<rparr>"

lemma exit_eq:
  "current s = Some c \<Longrightarrow> wg_sched_exit_thread s b code = snd (wg_sched_switch_next (exited s c code) b)"
  by (simp add: wg_sched_exit_thread_def exited_def)

lemma exited_parked:
  assumes inv: "sched_inv s" and c: "current s = Some c"
  shows "parked (exited s c code)"
proof (rule parkedI, goal_cases)
  case (3 i)
  then show ?case using sched_invD(1) [OF inv] sched_invD(4) [OF inv, of i] c
    by (auto simp: exited_def nth_update_thread)
qed (simp_all add: exited_def sched_invD(1) [OF inv])

lemma exit_inv:
  assumes inv: "sched_inv s" and e: "wg_sched_exit_thread s b code = (s', b')"
  shows "sched_inv s'"
proof (cases "current s")
  case None
  then show ?thesis using assms by (simp add: wg_sched_exit_thread_def)
next
  case (Some c)
  obtain ok s1 b1 where sw: "wg_sched_switch_next (exited s c code) b = (ok, s1, b1)" by (metis prod_cases3)
  then have s': "s' = s1" using e by (simp add: exit_eq [OF Some])
  note p = exited_parked [OF inv Some]
  from sw show ?thesis
  proof (cases rule: switch_next_cases)
    case stuck
    then show ?thesis using parked_current_None [OF p] s' by (simp add: exited_def)
  next
    case (switched j)
    then show ?thesis using switch_next_inv [OF p] sw s' by simp
  qed
qed

lemma resume_inv:
  assumes inv: "sched_inv s" shows "sched_inv (snd (resume_thread s h))"
proof (cases "snd (resume_thread s h) = s")
  case True
  then show ?thesis using inv by simp
next
  case False
  then obtain i where i: "wg_sched_find s h = Some i" "state (threads s ! i) = WG_THREAD_SUSPENDED"
    and r: "snd (resume_thread s h) = update_thread s i (\<lambda>t. t\<lparr>state := WG_THREAD_READY\<rparr>)"
    by (auto simp: resume_thread_def split: option.splits if_splits)
  show ?thesis unfolding r
  proof (rule sched_invI, goal_cases)
    case 1
    then show ?case using sched_invD(1) [OF inv] by simp
  next
    case (2 c)
    then have c: "current s = Some c" by simp
    show ?case using i(2) sched_invD(1) [OF inv] sched_invD(2,3) [OF inv c]
      by (auto simp: nth_update_thread)
  next
    case (3 k)
    then show ?case using sched_invD(1) [OF inv] sched_invD(4) [OF inv, of k]
      by (simp add: nth_update_thread split: if_splits)
  qed
qed

lemma register_main_inv: "sched_inv (register_main_thread wg_sched_create tb)"
proof (rule sched_invI, goal_cases)
  case (3 i)
  then show ?case
    by (cases "i = 0") (simp_all add: register_main_thread_def wg_sched_create_def zero_thread_def)
qed (simp_all add: register_main_thread_def wg_sched_create_def WG_MAX_THREADS_def)

section \<open>Round robin\<close>

fun yields :: "scheduler \<Rightarrow> 'm blink \<Rightarrow> WGThreadState list \<Rightarrow> scheduler \<times> 'm blink" where
  "yields s b [] = (s, b)"
| "yields s b (r # rs) = (let (_, s, b) = wg_sched_yield s b r in yields s b rs)"

lemma yields_current_0: "yields s b (take 0 rs) = (s, b)" by simp

lemma save_current_nth:
  "sched_inv s \<Longrightarrow> i < WG_MAX_THREADS \<Longrightarrow> current s \<noteq> Some i \<Longrightarrow>
     threads (wg_sched_save_current s b r) ! i = threads s ! i"
  using sched_invD(1) [of s]
  by (auto simp: wg_sched_save_current_def nth_update_thread split: option.splits)

lemma next_ready_first:
  assumes c: "current s = Some c" and m: "m < WG_MAX_THREADS"
    and r: "state (threads s ! ((c + 1 + m) mod WG_MAX_THREADS)) = WG_THREAD_READY"
  shows "\<exists>i \<le> m. next_ready s = Some ((c + 1 + i) mod WG_MAX_THREADS)"
proof -
  let ?P = "\<lambda>i. state (threads s ! ((c + 1 + i) mod WG_MAX_THREADS)) = WG_THREAD_READY"
  have ne: "find_index ?P [0..<WG_MAX_THREADS] \<noteq> None" using m r by auto
  then obtain i where i: "find_index ?P [0..<WG_MAX_THREADS] = Some i" by (auto simp del: find_index_None)
  have "i \<le> m"
  proof (rule ccontr)
    assume "\<not> i \<le> m"
    then have "m < i" by simp
    with i have "\<not> ?P ([0..<WG_MAX_THREADS] ! m)" unfolding find_index_Some by blast
    with m r show False by simp
  qed
  moreover have "next_ready s = Some ((c + 1 + i) mod WG_MAX_THREADS)"
    unfolding next_ready_def c Let_def using i by simp
  ultimately show ?thesis by blast
qed

lemma yield_towards:
  assumes inv: "sched_inv s" and c: "current s = Some c" and m: "m < WG_MAX_THREADS"
    and j: "j = (c + 1 + m) mod WG_MAX_THREADS" and jc: "j \<noteq> c"
    and rdy: "state (threads s ! j) = WG_THREAD_READY"
    and y: "wg_sched_yield s b r = (ok, s', b')"
  shows "current s' = Some j \<or>
    (\<exists>c' m'. current s' = Some c' \<and> m' < m \<and> j = (c' + 1 + m') mod WG_MAX_THREADS \<and> j \<noteq> c' \<and>
       state (threads s' ! j) = WG_THREAD_READY)"
proof -
  let ?s = "wg_sched_save_current s b r"
  have j32: "j < WG_MAX_THREADS" using j by (simp add: WG_MAX_THREADS_def)
  have same: "threads ?s ! j = threads s ! j" by (rule save_current_nth [OF inv j32]) (use c jc in auto)
  have cs: "current ?s = Some c" using c by simp
  from next_ready_first [OF cs m] j rdy same obtain i where
    i: "i \<le> m" "next_ready ?s = Some ((c + 1 + i) mod WG_MAX_THREADS)" by auto
  let ?k = "(c + 1 + i) mod WG_MAX_THREADS"
  have s': "s' = update_thread (?s\<lparr>current := Some ?k\<rparr>) ?k (\<lambda>t. t\<lparr>state := WG_THREAD_RUNNING\<rparr>)"
    using y i(2) by (cases rule: yield_cases) auto
  show ?thesis
  proof (cases "?k = j")
    case True
    then show ?thesis using s' by simp
  next
    case False
    then have "i < m" using i(1) j by (cases "i = m") auto
    have "length (threads ?s) = WG_MAX_THREADS"
      using sched_invD(1) [OF inv] by (simp add: wg_sched_save_current_def split: option.splits)
    then have "state (threads s' ! j) = WG_THREAD_READY"
      using s' j32 same rdy False by (simp add: nth_update_thread)
    moreover have "j = (?k + 1 + (m - i - 1)) mod WG_MAX_THREADS"
    proof -
      have "(?k + 1 + (m - i - 1)) mod WG_MAX_THREADS = (c + 1 + i + (1 + (m - i - 1))) mod WG_MAX_THREADS"
        by (metis add.assoc mod_add_left_eq)
      also have "c + 1 + i + (1 + (m - i - 1)) = c + 1 + m" using \<open>i < m\<close> by simp
      finally show ?thesis using j by simp
    qed
    moreover have "m - i - 1 < m" using \<open>i < m\<close> by simp
    ultimately show ?thesis using s' False by (intro disjI2 exI [of _ ?k] exI [of _ "m - i - 1"]) auto
  qed
qed

lemma reaches:
  "\<lbrakk>sched_inv s; current s = Some c; m < WG_MAX_THREADS; j = (c + 1 + m) mod WG_MAX_THREADS; j \<noteq> c;
    state (threads s ! j) = WG_THREAD_READY; m < length rs; WG_THREAD_RUNNING \<notin> set rs\<rbrakk> \<Longrightarrow>
   \<exists>k \<le> m + 1. current (fst (yields s b (take k rs))) = Some j"
proof (induction m arbitrary: s c b rs rule: less_induct)
  case (less m)
  then obtain r rs' where rs: "rs = r # rs'" by (cases rs) auto
  obtain ok s1 b1 where y: "wg_sched_yield s b r = (ok, s1, b1)" by (metis prod_cases3)
  have inv1: "sched_inv s1" using yield_inv [OF less.prems(1) _ y] less.prems(8) rs by auto
  from yield_towards [OF less.prems(1-6) y] show ?case
  proof (elim disjE exE conjE)
    assume "current s1 = Some j"
    then show ?thesis using y rs by (intro exI [of _ 1]) simp
  next
    fix c' m' assume c': "current s1 = Some c'" and m': "m' < m" "j = (c' + 1 + m') mod WG_MAX_THREADS"
      and "j \<noteq> c'" "state (threads s1 ! j) = WG_THREAD_READY"
    have "m' < WG_MAX_THREADS" "m' < length rs'" "WG_THREAD_RUNNING \<notin> set rs'"
      using m' less.prems(3,7,8) rs by auto
    from less.IH [OF m'(1) inv1 c' this(1) m'(2) \<open>j \<noteq> c'\<close> \<open>state (threads s1 ! j) = WG_THREAD_READY\<close> this(2,3)]
    obtain k where "k \<le> m' + 1" "current (fst (yields s1 b1 (take k rs'))) = Some j" by blast
    with m'(1) show ?thesis using y rs by (intro exI [of _ "Suc k"]) simp
  qed
qed

text \<open>C27: Yielding is fair: whatever states the yielding threads take, a ready thread becomes current within as many yields as there are thread slots.\<close>

theorem round_robin_fair:
  assumes "sched_inv s" and "current s = Some c" and "j < WG_MAX_THREADS"
    and "state (threads s ! j) = WG_THREAD_READY" and "length rs = WG_MAX_THREADS"
    and "WG_THREAD_RUNNING \<notin> set rs"
  shows "\<exists>k \<le> WG_MAX_THREADS. current (fst (yields s b (take k rs))) = Some j"
proof -
  have c: "c < WG_MAX_THREADS" "state (threads s ! c) = WG_THREAD_RUNNING"
    using sched_invD(2,3) [OF assms(1,2)] by simp_all
  then have "j \<noteq> c" using assms(4) by auto
  obtain m where m: "m < WG_MAX_THREADS" "j = (c + 1 + m) mod WG_MAX_THREADS"
  proof
    let ?m = "(j + WG_MAX_THREADS - c - 1) mod WG_MAX_THREADS"
    show "?m < WG_MAX_THREADS" by (simp add: WG_MAX_THREADS_def)
    have "(c + 1 + ?m) mod WG_MAX_THREADS = (c + 1 + (j + WG_MAX_THREADS - c - 1)) mod WG_MAX_THREADS"
      by (rule mod_add_right_eq)
    also have "c + 1 + (j + WG_MAX_THREADS - c - 1) = j + WG_MAX_THREADS" using c(1) by simp
    finally show "j = (c + 1 + ?m) mod WG_MAX_THREADS" using assms(3) by simp
  qed
  have "m < length rs" using m(1) assms(5) by simp
  from reaches [OF assms(1,2) m \<open>j \<noteq> c\<close> assms(4) this assms(6)] obtain k where
    "k \<le> m + 1" "current (fst (yields s b (take k rs))) = Some j" by blast
  with m(1) show ?thesis by (intro exI [of _ k]) simp
qed

section \<open>Thread handles\<close>

definition create_args ::
  "'m guest_api \<times> bool \<times> bool \<times> 'm blink \<times> u32 \<times> u32 \<times> u32 \<Rightarrow> scheduler \<Rightarrow> u32 option \<times> scheduler" where
  "create_args a s = (case a of (api, z, ab, b, st, prm, fl) \<Rightarrow>
     let (r, s', b') = wg_sched_create_thread api z ab s b st prm fl in (map_option fst r, s'))"

lemma create_args_cases:
  assumes "create_args a s = (r, s')"
  obtains (full) "r = None" "s' = s"
  | (created) slot st prm fl where "find_index (\<lambda>t. state t = WG_THREAD_FREE) (threads s) = Some slot"
      "r = Some (next_handle s)" "next_handle s' = next_handle s + 1" "next_stack_addr s' = next_stack_addr s + (WG_THREAD_STACK + 0x1000)"
      "threads s' = (threads s)[slot := fresh_thread s slot st prm fl]"
proof -
  obtain api z ab b st prm fl where a: "a = (api, z, ab, b, st, prm, fl)" by (cases a)
  obtain q s1 b1 where cr: "wg_sched_create_thread api z ab s b st prm fl = (q, s1, b1)" by (metis prod_cases3)
  have e: "r = map_option fst q" "s' = s1" using assms by (simp_all add: create_args_def a cr)
  from cr show ?thesis
    by (cases rule: create_thread_cases) (use e full created in auto)
qed

lemma fresh_thread_handle: "thandle (fresh_thread s slot st prm fl) = next_handle s"
  by (simp add: fresh_thread_def Let_def)

lemma fresh_thread_live: "state (fresh_thread s slot st prm fl) \<noteq> WG_THREAD_FREE"
  by (simp add: fresh_thread_def Let_def)

interpretation thr: handle_table "\<lambda>t. state t \<noteq> WG_THREAD_FREE" thandle threads next_handle
    "\<lambda>s. length (threads s) = WG_MAX_THREADS"
    "create_args :: 'm guest_api \<times> bool \<times> bool \<times> 'm blink \<times> u32 \<times> u32 \<times> u32 \<Rightarrow> scheduler \<Rightarrow> u32 option \<times> scheduler"
proof (unfold_locales, goal_cases)
  case (1 s a h s')
  from 1(2) show ?case
  proof (cases rule: create_args_cases)
    case (created slot st prm fl)
    note f = find_index_SomeD [OF created(1)]
    show ?thesis
      using created(2-5) f fresh_thread_handle [of s slot st prm fl] fresh_thread_live [of s slot st prm fl]
      by (intro conjI exI [of _ slot] exI [of _ "fresh_thread s slot st prm fl"]) simp_all
  qed simp
next
  case (2 s a s')
  from 2(2) show ?case by (cases rule: create_args_cases) simp_all
next
  case (3 s a)
  obtain r s' where c: "create_args a s = (r, s')" by fastforce
  from c show ?case by (cases rule: create_args_cases) (use c 3 in simp_all)
qed

lemma find_owner: "wg_sched_find s h = thr.owner s h"
  unfolding wg_sched_find_def thr.owner_def by (rule arg_cong [where f = "\<lambda>P. find_index P (threads s)"]) auto

text \<open>The table invariant of the interface, written out.\<close>

definition handles_ok :: "scheduler \<Rightarrow> bool" where
  "handles_ok s \<longleftrightarrow> length (threads s) = WG_MAX_THREADS \<and>
     (\<forall>t \<in> set (threads s). state t \<noteq> WG_THREAD_FREE \<longrightarrow> thandle t < next_handle s) \<and>
     (\<forall>i < length (threads s). \<forall>j < length (threads s).
        state (threads s ! i) \<noteq> WG_THREAD_FREE \<and> state (threads s ! j) \<noteq> WG_THREAD_FREE \<and>
        thandle (threads s ! i) = thandle (threads s ! j) \<longrightarrow> i = j)"

lemma handles_ok_inv: "handles_ok s = thr.table_inv s"
  by (simp add: handles_ok_def thr.table_inv_def thr.issued_below_def thr.handles_unique_def)

theorem create_thread_find:
  assumes "handles_ok s" and "wg_sched_create_thread api z ab s b st prm fl = (Some (h, t), s', b')"
    and "next_handle s \<noteq> - 1"
  shows "handles_ok s' \<and> wg_sched_find s h = None \<and>
    (\<exists>i. wg_sched_find s' h = Some i \<and> state (threads s ! i) = WG_THREAD_FREE \<and>
       start_addr (threads s' ! i) = st) \<and>
    (\<forall>k. k \<noteq> h \<longrightarrow> wg_sched_find s' k = wg_sched_find s k)"
proof -
  note inv = assms(1) [unfolded handles_ok_inv]
  have al: "create_args (api, z, ab, b, st, prm, fl) s = (Some h, s')"
    using assms(2) by (simp add: create_args_def)
  from thr.alloc_owner [OF inv al] obtain i where i: "wg_sched_find s' h = Some i"
    "i < length (threads s)" "\<not> state (threads s ! i) \<noteq> WG_THREAD_FREE" unfolding find_owner by blast
  have "wg_sched_create_thread api z ab s b st prm fl = (Some (h, t), s', b')" by (rule assms(2))
  then have "start_addr (threads s' ! i) = st"
  proof (cases rule: create_thread_cases)
    case (created slot)
    have "state (threads s' ! i) \<noteq> WG_THREAD_FREE"
      using find_index_SomeD(2) [OF i(1) [unfolded wg_sched_find_def]] by simp
    then have "i = slot" using created(3) i(2,3) by (cases "i = slot") simp_all
    then show ?thesis using created(3) i(2) by (simp add: fresh_thread_def Let_def)
  qed simp
  with i thr.alloc_handle_fresh [OF inv al] thr.alloc_inv [OF inv al assms(3)]
    thr.alloc_owner_other [OF inv al] show ?thesis by (simp add: find_owner handles_ok_inv)
qed

section \<open>Thread stacks\<close>

definition created_slots :: "scheduler \<Rightarrow> nat set" where
  "created_slots s = {i. i < WG_MAX_THREADS \<and> stack_size (threads s ! i) \<noteq> 0}"

definition stacks_ok :: "scheduler \<Rightarrow> bool" where
  "stacks_ok s \<longleftrightarrow> length (threads s) = WG_MAX_THREADS \<and>
     uint (next_stack_addr s) = 0x30000000 + 0x101000 * int (card (created_slots s)) \<and>
     (\<forall>i < WG_MAX_THREADS. state (threads s ! i) = WG_THREAD_FREE \<longrightarrow> i \<notin> created_slots s) \<and>
     (\<forall>i \<in> created_slots s. stack_size (threads s ! i) = WG_THREAD_STACK \<and>
        0x30000000 \<le> uint (stack_base (threads s ! i)) \<and>
        uint (stack_base (threads s ! i)) + 0x101000 \<le> uint (next_stack_addr s)) \<and>
     (\<forall>i \<in> created_slots s. \<forall>j \<in> created_slots s. i \<noteq> j \<longrightarrow>
        uint (stack_base (threads s ! i)) + 0x101000 \<le> uint (stack_base (threads s ! j)) \<or>
        uint (stack_base (threads s ! j)) + 0x101000 \<le> uint (stack_base (threads s ! i)))"

lemma stacks_okD:
  assumes "stacks_ok s"
  shows "length (threads s) = WG_MAX_THREADS"
    and "uint (next_stack_addr s) = 0x30000000 + 0x101000 * int (card (created_slots s))"
    and "i < WG_MAX_THREADS \<Longrightarrow> state (threads s ! i) = WG_THREAD_FREE \<Longrightarrow> i \<notin> created_slots s"
    and "i \<in> created_slots s \<Longrightarrow> stack_size (threads s ! i) = WG_THREAD_STACK"
    and "i \<in> created_slots s \<Longrightarrow> 0x30000000 \<le> uint (stack_base (threads s ! i))"
    and "i \<in> created_slots s \<Longrightarrow> uint (stack_base (threads s ! i)) + 0x101000 \<le> uint (next_stack_addr s)"
    and "i \<in> created_slots s \<Longrightarrow> j \<in> created_slots s \<Longrightarrow> i \<noteq> j \<Longrightarrow>
        uint (stack_base (threads s ! i)) + 0x101000 \<le> uint (stack_base (threads s ! j)) \<or>
        uint (stack_base (threads s ! j)) + 0x101000 \<le> uint (stack_base (threads s ! i))"
  using assms unfolding stacks_ok_def by blast+

lemma stacks_ok_create: "stacks_ok wg_sched_create"
proof -
  have "created_slots wg_sched_create = {}"
    by (auto simp: created_slots_def wg_sched_create_def zero_thread_def)
  then show ?thesis by (simp add: stacks_ok_def wg_sched_create_def)
qed

theorem create_thread_stack:
  assumes ok: "stacks_ok s" and cr: "wg_sched_create_thread api z ab s b st prm fl = (r, s', b')"
  shows "stacks_ok s'"
  using cr
proof (cases rule: create_thread_cases)
  case full
  then show ?thesis using ok by simp
next
  case (created slot)
  let ?t = "fresh_thread s slot st prm fl"
  note f = find_index_SomeD [OF created(1)]
  have len: "length (threads s) = WG_MAX_THREADS" by (rule stacks_okD(1) [OF ok])
  have slot: "slot < WG_MAX_THREADS" using f(1) len by simp
  have free: "slot \<notin> created_slots s" by (rule stacks_okD(3) [OF ok slot f(2)])
  have th: "threads s' ! i = (if i = slot then ?t else threads s ! i)" if "i < WG_MAX_THREADS" for i
    using that created(3) len by simp
  have t: "stack_base ?t = next_stack_addr s" "stack_size ?t = WG_THREAD_STACK" "state ?t \<noteq> WG_THREAD_FREE"
    by (simp_all add: fresh_thread_def Let_def)
  have new: "created_slots s' = insert slot (created_slots s)"
  proof (intro set_eqI)
    fix i show "i \<in> created_slots s' \<longleftrightarrow> i \<in> insert slot (created_slots s)"
      using slot th [of i] t(2) by (cases "i = slot") (auto simp: created_slots_def WG_THREAD_STACK_def)
  qed
  have fin: "finite (created_slots s)" by (simp add: created_slots_def)
  have "created_slots s' \<subseteq> {..<WG_MAX_THREADS}" by (auto simp: created_slots_def)
  then have "card (created_slots s') \<le> WG_MAX_THREADS" by (metis card_lessThan card_mono finite_lessThan)
  then have c: "card (created_slots s) + 1 \<le> 32" using free fin by (simp add: new WG_MAX_THREADS_def)
  have "uint (next_stack_addr s + 0x101000) = uint (next_stack_addr s) + 0x101000"
    using stacks_okD(2) [OF ok] c by (simp add: uint_word_ariths)
  then have nx: "uint (next_stack_addr s') = uint (next_stack_addr s) + 0x101000"
    using created(3) by (simp add: WG_THREAD_STACK_def)
  have mem: "i \<in> created_slots s \<Longrightarrow> i \<noteq> slot \<and> i < WG_MAX_THREADS" for i
    using free by (auto simp: created_slots_def)
  show ?thesis
    unfolding stacks_ok_def
  proof (intro conjI ballI allI impI)
    show "length (threads s') = WG_MAX_THREADS" using created(3) len by simp
    show "uint (next_stack_addr s') = 0x30000000 + 0x101000 * int (card (created_slots s'))"
      using stacks_okD(2) [OF ok] free fin by (simp add: nx new algebra_simps)
  next
    fix i assume i: "i < WG_MAX_THREADS" "state (threads s' ! i) = WG_THREAD_FREE"
    then have "i \<noteq> slot" using th [OF i(1)] t(3) by auto
    then show "i \<notin> created_slots s'" using i th [OF i(1)] stacks_okD(3) [OF ok i(1)] by (simp add: new)
  next
    fix i assume i: "i \<in> created_slots s'"
    have b0: "0x30000000 \<le> uint (next_stack_addr s)" using stacks_okD(2) [OF ok] by simp
    show "stack_size (threads s' ! i) = WG_THREAD_STACK"
      using i mem [of i] th [of i] t stacks_okD(4) [OF ok, of i] slot by (auto simp: new)
    show "0x30000000 \<le> uint (stack_base (threads s' ! i))"
      using i mem [of i] th [of i] t stacks_okD(5) [OF ok, of i] slot b0 by (auto simp: new)
    show "uint (stack_base (threads s' ! i)) + 0x101000 \<le> uint (next_stack_addr s')"
      using i mem [of i] th [of i] t stacks_okD(6) [OF ok, of i] slot by (auto simp: new nx)
    fix j assume j: "j \<in> created_slots s'" "i \<noteq> j"
    show "uint (stack_base (threads s' ! i)) + 0x101000 \<le> uint (stack_base (threads s' ! j)) \<or>
        uint (stack_base (threads s' ! j)) + 0x101000 \<le> uint (stack_base (threads s' ! i))"
      using i j mem [of i] mem [of j] th [of i] th [of j] t slot stacks_okD(6) [OF ok, of i]
        stacks_okD(6) [OF ok, of j] stacks_okD(7) [OF ok, of i j] by (auto simp: new)
  qed
qed

section \<open>A worker that returns\<close>

theorem worker_return_loses_thread:
  assumes inv: "sched_inv s" and c: "current s = Some c" and w: "tid (threads s ! c) \<noteq> 1"
    and e: "wg_sched_exit_thread s b (ucast (wg_blink_get_reg b 0)) = (s1, b1)"
    and j: "current s1 = Some j"
    and r: "worker_return s b = (True, s', b')"
  shows "state (threads s' ! j) = WG_THREAD_RUNNING \<and> current s' \<noteq> Some j \<and> \<not> sched_inv s'"
proof -
  have inv1: "sched_inv s1" by (rule exit_inv [OF inv e])
  let ?s2 = "wg_sched_wake s1 (thandle (threads s1 ! c))"
  have inv2: "sched_inv ?s2" by (rule wake_inv [OF inv1])
  have c2: "current ?s2 = Some j" using j by (simp add: wg_sched_wake_def)
  have run: "state (threads ?s2 ! j) = WG_THREAD_RUNNING" by (rule sched_invD(3) [OF inv2 c2])
  have sw: "wg_sched_switch_next ?s2 b1 = (True, s', b')"
    using r c w e by (simp add: worker_return_def Let_def)
  from sw show ?thesis
  proof (cases rule: switch_next_cases)
    case (switched k)
    have "k \<noteq> j" using next_readyD(2) [OF switched(1)] run by auto
    moreover have "j < WG_MAX_THREADS" by (rule sched_invD(2) [OF inv2 c2])
    ultimately have st: "state (threads s' ! j) = WG_THREAD_RUNNING" "current s' = Some k"
      using switched(3) run sched_invD(1) [OF inv2] by (simp_all add: nth_update_thread)
    then show ?thesis using \<open>k \<noteq> j\<close> \<open>j < WG_MAX_THREADS\<close> sched_invD(4) [of s' j] by auto
  qed simp
qed

end
