(* ===== verification/Demo.thy ===== *)
theory Demo
  imports X86State ThreadsOk
begin

text \<open>
  The small machines on which the properties are applied to concrete inputs: a processor, a blink
  machine without memory, and a scheduler with the main thread and one ready thread.
\<close>

definition demo_cpu :: cpu where
  "demo_cpu =
     \<lparr>gpr = (\<lambda>r. if r = 4 then 0x8020 else of_nat r), rip = 0x1000, rflags = 0x202, xmm = (\<lambda>_. (0, 0)),
      mxcsr = 0x1F80, seg_cs = 0x33, seg_ds = 0x2B, seg_es = 0x2B, seg_fs = 0, seg_gs = 0, seg_ss = 0x2B,
      fpu_control = 0x037F, fpu_status = 0, fpu_top = 0, halted = False,
      interrupt_pending = False, interrupt_vector = 0, instruction_count = 0\<rparr>"

definition no_api :: "unit guest_api" where
  "no_api = \<lparr>reserve_virtual = (\<lambda>m a n. Some m), copy_to_user = (\<lambda>m a bs. m),
     copy_from_user = (\<lambda>m a n. replicate n 0), execute = (\<lambda>v. (v, - 1)), new_vm = None\<rparr>"

definition demo_sched :: scheduler where
  "demo_sched = (register_main_thread wg_sched_create 0)
     \<lparr>threads := (threads (register_main_thread wg_sched_create 0))
       [5 := zero_thread\<lparr>state := WG_THREAD_READY, tid := 0x0FF0, thandle := 0x70F0\<rparr>]\<rparr>"

lemma demo_threads:
  "threads demo_sched = zero_thread\<lparr>state := WG_THREAD_RUNNING, tid := 1, thandle := 0x7000,
       exit_code := 259, regs := zero_regs\<lparr>tfs_base := 0\<rparr>, teb := 0\<rparr> # replicate 4 zero_thread @
     zero_thread\<lparr>state := WG_THREAD_READY, tid := 0x0FF0, thandle := 0x70F0\<rparr> # replicate 26 zero_thread"
  by code_simp

lemma demo_len: "length (threads demo_sched) = 32"
  by (simp add: demo_threads)

lemma demo_states:
  "i < 32 \<Longrightarrow> state (threads demo_sched ! i) =
     (if i = 0 then WG_THREAD_RUNNING else if i = 5 then WG_THREAD_READY else WG_THREAD_FREE)"
  unfolding demo_threads by (auto simp: nth_Cons' nth_append zero_thread_def)

lemma demo_current: "current demo_sched = Some 0"
  by (simp add: demo_sched_def register_main_thread_def)

lemma demo_sched_inv: "sched_inv demo_sched"
proof (rule sched_invI)
  show "length (threads demo_sched) = WG_MAX_THREADS" by (simp add: demo_threads WG_MAX_THREADS_def)
qed (auto simp: demo_current demo_states WG_MAX_THREADS_def split: if_splits)

definition demo_vm :: "nat \<Rightarrow> unit vm" where
  "demo_vm k = \<lparr>weg = (\<lambda>i. of_nat (k + i)), ip = 0x401000, fs_base = 0, gs_base = 0, legacy32 = True, last_stop = 0, faultaddr = 0, gmem = ()\<rparr>"

end
