(* ===== verification/X86Properties.thy ===== *)
theory X86Properties
  imports X86Exec X86DecodeOk Demo
begin

text \<open>
  What the processor and the guest memory promise, stated over whole operations: an encoded
  instruction in guest memory executes as its encoding says, the stack is a last-in first-out
  store, memory reads what was written. Every property with hypotheses is applied to the small
  machine below: 16 bytes of code at \<open>0x1000\<close>, 64 bytes of stack at \<open>0x8000\<close>.
\<close>

definition demo_mem :: "u8 list \<Rightarrow> mem_space" where
  "demo_mem prog = \<lparr>regions =
     [\<lparr>base = 0x1000, rsize = 16, prot = 5, data = take 16 (prog @ replicate 16 0x90)\<rparr>,
      \<lparr>base = 0x8000, rsize = 64, prot = 3, data = replicate 64 7\<rparr>], total_size = 0x10000\<rparr>"

lemma wf_demo: "wf_mem (demo_mem prog)"
  by (simp add: wf_mem_def demo_mem_def WG_MAX_REGIONS_def)

lemma demo_view: "mem_view (demo_mem prog) (0x1000 + of_nat k) = Some ((prog @ replicate 16 0x90) ! k)"
  if k: "k < 16"
proof -
  have u: "unat (of_nat k :: u64) = k" using k by (simp add: unat_of_nat take_bit_nat_eq_self)
  have "in_region (0x1000 + of_nat k) \<lparr>base = 0x1000, rsize = 16, prot = 5, data = d\<rparr>" for d
    using k u by (simp add: in_region_def word_le_nat_alt word_less_nat_alt unat_word_ariths)
  then show ?thesis
    using k u by (simp add: mem_view_def load_at_def resolve_def find_region_def demo_mem_def nth_append min_def)
qed

lemma demo_code_at: "length prog \<le> 16 \<Longrightarrow> code_at (demo_mem prog) 0x1000 prog"
  by (simp add: code_at_def demo_view nth_append)

section \<open>Instructions\<close>

theorem run_alu_rr_witness:
  "\<exists>s'. wg_x86_exec_one demo_cpu (demo_mem (enc_alu_rr 5 9 3)) = Some (WG_INTERP_OK, s', demo_mem (enc_alu_rr 5 9 3)) \<and>
    rip s' = 0x1003 \<and> gpr s' 9 = 6"
proof -
  have "length (enc_alu_rr 5 9 3) \<le> 16" by (simp add: enc_alu_rr_def)
  from demo_code_at [OF this]
  have "code_at (demo_mem (enc_alu_rr 5 9 3)) (rip demo_cpu) (enc_alu_rr 5 9 3)" by (simp add: demo_cpu_def)
  from run_alu_rr [OF wf_demo this] show ?thesis by (auto simp: demo_cpu_def alu_result_def)
qed

theorem run_mov_load_witness:
  "\<exists>s'. wg_x86_exec_one demo_cpu (demo_mem (enc_mov_load 2 5 0x7FFB)) =
      Some (WG_INTERP_OK, s', demo_mem (enc_mov_load 2 5 0x7FFB)) \<and> gpr s' 2 = 0x0707070707070707"
proof -
  have "length (enc_mov_load 2 5 0x7FFB) \<le> 16" by (simp add: enc_mov_load_def)
  from demo_code_at [OF this]
  have c: "code_at (demo_mem (enc_mov_load 2 5 0x7FFB)) (rip demo_cpu) (enc_mov_load 2 5 0x7FFB)" by (simp add: demo_cpu_def)
  have "wg_memory_read_u64 (demo_mem (enc_mov_load 2 5 0x7FFB)) (gpr demo_cpu 5 + scast (0x7FFB :: u32)) = Some 0x0707070707070707"
    by code_simp
  from run_mov_load [OF wf_demo c _ _ _ this] show ?thesis by auto
qed

definition demo_cmp :: instruction where
  "demo_cmp = blank_insn\<lparr>opcode := WG_OP_CMP, operand0 := op_reg 3 4, operand1 := op_imm 0xFFFFFFFF 4,
     num_operands := 2, op_size := 4\<rparr>"

theorem cmp_conditions_witness:
  "\<exists>s'. exec_cmp demo_cpu (demo_mem []) demo_cmp = Some (s', demo_mem []) \<and>
     eval_condition s' 0x2 \<and> \<not> eval_condition s' 0xC"
proof -
  obtain s' where e: "exec_cmp demo_cpu (demo_mem []) demo_cmp = Some (s', demo_mem [])"
    by (simp add: exec_cmp_def alu_operands_def read_operand_def demo_cmp_def op_reg_def op_imm_def
        get_gpr_def)
  have r: "read_operand demo_cpu (demo_mem []) (operand0 demo_cmp) = Some 3"
    "read_operand demo_cpu (demo_mem []) (operand1 demo_cmp) = Some 0xFFFFFFFF"
    by code_simp+
  have "op_size demo_cmp \<in> {2, 4, 8}" "op_bytes (operand0 demo_cmp) = op_size demo_cmp"
    "op_bytes (operand1 demo_cmp) = op_size demo_cmp"
    by (simp_all add: demo_cmp_def op_reg_def op_imm_def)
  from cmp_conditions [OF e this] e r show ?thesis
    by (auto simp: sval_def demo_cmp_def)
qed

theorem write_read_reg_witness:
  "\<exists>s'. write_operand demo_cpu (demo_mem []) (op_reg 3 1) 0x1FF = Some (s', demo_mem []) \<and>
    read_operand s' (demo_mem []) (op_reg 3 1) = Some 0xFF"
  using write_read_reg [of "op_reg 3 1" demo_cpu "demo_mem []" "0x1FF"]
  by (auto simp: op_reg_def mask_eq_exp_minus_1)

theorem call_ret_pair_witness:
  "\<exists>s1 mem1. exec_call 0x1005 demo_cpu (demo_mem []) (blank_insn\<lparr>operand0 := op_rel 0x1008, num_operands := 1\<rparr>)
       = Some (WG_INTERP_OK, s1, mem1) \<and> rip s1 = 0x1008 \<and>
     exec_ret s1 mem1 blank_insn = Some (WG_INTERP_OK,
       s1\<lparr>gpr := (gpr s1)(WG_REG_RSP := 0x8020), rip := 0x1005\<rparr>, mem1)"
proof -
  let ?i = "blank_insn\<lparr>operand0 := op_rel 0x1008, num_operands := 1\<rparr>"
  have m: "mapped (demo_mem []) (gpr demo_cpu WG_REG_RSP - 8)" by code_simp
  have a: "access_ok (demo_mem []) (gpr demo_cpu WG_REG_RSP - 8) 8" by code_simp
  have t: "op_type (operand0 ?i) = WG_OPERAND_REL" "\<not> in_thunk_range (imm (operand0 ?i))"
    "num_operands blank_insn = 0"
    by (simp_all add: op_rel_def in_thunk_range_def blank_insn_def)
  from call_ret_pair [OF wf_demo m a t, of "0x1005"] show ?thesis
    by (auto simp: op_rel_def demo_cpu_def WG_REG_RSP_def)
qed

theorem exec_block_keeps_witness:
  "\<exists>r s' mem'. wg_x86_exec_block demo_cpu (demo_mem []) 2 = Some (r, s', mem') \<and>
     layout mem' = layout (demo_mem []) \<and> wf_mem mem'"
proof -
  have "wg_x86_exec_block demo_cpu (demo_mem []) 2 \<noteq> None" by code_simp
  then obtain r s' mem' where e: "wg_x86_exec_block demo_cpu (demo_mem []) 2 = Some (r, s', mem')" by auto
  from exec_block_keeps [OF this] e wf_demo [of "[]"] show ?thesis by auto
qed

section \<open>The stack\<close>

theorem pushes_pop_back:
  assumes "push_list stack_push vs st = Some st'" and "stack_room st (length vs) n"
    and "stack_top st n = Some ws"
  shows "\<exists>st''. pop_list stack_pop (length vs) st' = Some (rev vs, st'') \<and> stack_top st'' n = Some ws"
  using assms by (rule stk.push_pop_list)

theorem pushes_pop_back_witness:
  "\<exists>st' st''. push_list stack_push [1, 2] (demo_cpu, demo_mem []) = Some st' \<and>
     pop_list stack_pop 2 st' = Some ([2, 1], st'') \<and> stack_top st'' 1 = Some [0x0707070707070707]"
proof -
  have "push_list stack_push [1, 2] (demo_cpu, demo_mem []) \<noteq> None" by code_simp
  then obtain st' where p: "push_list stack_push [1, 2] (demo_cpu, demo_mem []) = Some st'" by auto
  have "mapped (demo_mem []) (gpr demo_cpu WG_REG_RSP - 8 * of_nat (Suc 0))"
    "mapped (demo_mem []) (gpr demo_cpu WG_REG_RSP - 8 * of_nat (Suc 1))" by code_simp+
  then have r: "stack_room (demo_cpu, demo_mem []) (length [1, 2 :: u64]) 1"
    by (simp add: stack_room_def wf_demo less_Suc_eq)
  have t: "stack_top (demo_cpu, demo_mem []) 1 = Some [0x0707070707070707]" by code_simp
  have len: "length [1, 2 :: u64] = 2" and rv: "rev [1, 2 :: u64] = [2, 1]" by simp_all
  from pushes_pop_back [OF p r t] p show ?thesis unfolding len rv by blast
qed

section \<open>Guest memory\<close>

theorem write_then_read:
  assumes "wf_mem mem" and "mapped mem a" and "wg_memory_write_u64 mem a v = Some mem'"
  shows "wg_memory_read_u64 mem' a = Some v \<and>
    (\<forall>b. apart a 8 b 8 \<longrightarrow> wg_memory_read_u64 mem' b = wg_memory_read_u64 mem b)"
  using read_write_u64 [OF assms] read_u64_apart [OF assms(1,3)] by blast

theorem write_then_read_witness:
  "\<exists>mem'. wg_memory_write_u64 (demo_mem []) 0x8010 0xCAFE = Some mem' \<and>
     wg_memory_read_u64 mem' 0x8010 = Some 0xCAFE \<and>
     wg_memory_read_u64 mem' 0x8018 = Some 0x0707070707070707"
proof -
  have "wg_memory_write_u64 (demo_mem []) 0x8010 0xCAFE \<noteq> None" by code_simp
  then obtain mem' where w: "wg_memory_write_u64 (demo_mem []) 0x8010 0xCAFE = Some mem'" by auto
  have m: "mapped (demo_mem []) 0x8010" by code_simp
  note r = write_then_read [OF wf_demo m w]
  have "apart 0x8010 8 0x8018 8" unfolding apart_def unat_diff_cases by simp
  then have "wg_memory_read_u64 mem' 0x8018 = wg_memory_read_u64 (demo_mem []) 0x8018"
    using r [THEN conjunct2] by blast
  also have "\<dots> = Some 0x0707070707070707" by code_simp
  finally show ?thesis using w r [THEN conjunct1] by blast
qed

theorem map_view_witness:
  "\<exists>mem'. wg_memory_map True (demo_mem []) 0x20000 100 3 = (True, mem') \<and> mem_view mem' 0x20FFF = Some 0"
proof -
  obtain mem' where m: "wg_memory_map True (demo_mem []) 0x20000 100 3 = (True, mem')"
    by (simp add: wg_memory_map_def demo_mem_def WG_MAX_REGIONS_def Let_def)
  have "mem_view (demo_mem []) 0x20FFF = None" "block 0x20000 (align_page 100) 0x20FFF = Some 0"
    by code_simp+
  with map_view [OF wf_demo m] m show ?thesis by (simp add: map_add_def)
qed

lemma disjoint_demo: "disjoint_regions (demo_mem prog)"
  unfolding disjoint_regions_def
proof (intro allI impI)
  fix i j a assume "i < length (regions (demo_mem prog))" "j < length (regions (demo_mem prog))"
    and a: "in_region a (regions (demo_mem prog) ! i) \<and> in_region a (regions (demo_mem prog) ! j)"
  then have ij: "i = 0 \<or> i = 1" "j = 0 \<or> j = 1" by (auto simp: demo_mem_def)
  have ne: "\<not> (a < 0x1010 \<and> 0x8000 \<le> a)" by (auto simp: word_less_nat_alt word_le_nat_alt)
  show "i = j" using ij a ne by (auto simp: demo_mem_def in_region_def)
qed

theorem unmap_view_witness:
  "\<exists>mem'. wg_memory_unmap (demo_mem []) 0x1000 = (True, mem') \<and> mem_view mem' 0x1003 = None \<and>
     mem_view mem' 0x8003 = Some 7"
proof -
  obtain mem' where u: "wg_memory_unmap (demo_mem []) 0x1000 = (True, mem')"
    by (simp add: wg_memory_unmap_def demo_mem_def)
  have "mem_view (demo_mem []) 0x8003 = Some 7" by code_simp
  with unmap_view [OF disjoint_demo u] u show ?thesis
    by (auto simp: demo_mem_def restrict_map_def in_region_def)
qed

section \<open>The decoder\<close>

theorem decode_shape_witness:
  "\<exists>i. wg_x86_decode [0x48, 0x89, 0xD8] 0x1000 = Some (3, i) \<and> ilength i = 3 \<and> insn_ok i"
proof -
  have "map_option fst (wg_x86_decode [0x48, 0x89, 0xD8] 0x1000) = Some 3" by code_simp
  then obtain i where d: "wg_x86_decode [0x48, 0x89, 0xD8] 0x1000 = Some (3, i)" by auto
  from decode_shape [OF d] d show ?thesis by simp
qed

theorem decode_succeeds_witness:
  "\<exists>n i. wg_x86_decode (0x66 # replicate 15 0x90) 0x1000 = Some (n, i) \<and> n \<noteq> 0"
proof -
  have "prefix_end (0x66 # replicate 15 0x90) 0x1000 + 2 < length (0x66 # replicate 15 (0x90 :: u8))" by code_simp
  moreover have "uint (0x1000 :: u64) + int (length (0x66 # replicate 15 (0x90 :: u8))) < 2 ^ 63 - 2 ^ 31" by simp
  ultimately show ?thesis using decode_succeeds by blast
qed

theorem alu_rr_roundtrip:
  assumes "k < 8" and "d < 16" and "s < 16"
  shows "wg_x86_decode (enc_alu_rr k d s @ rest) addr =
    Some (3, blank_insn\<lparr>opcode := alu_ops ! k, ilength := 3, operand0 := op_reg d 8,
      operand1 := op_reg s 8, num_operands := 2, op_size := 8, addr_size := 8\<rparr>)"
  using assms by (rule decode_alu_rr)

theorem alu_rr_roundtrip_witness:
  "wg_x86_decode (enc_alu_rr 7 12 5 @ [0x90]) 0 =
    Some (3, blank_insn\<lparr>opcode := WG_OP_CMP, ilength := 3, operand0 := op_reg 12 8,
      operand1 := op_reg 5 8, num_operands := 2, op_size := 8, addr_size := 8\<rparr>)"
proof -
  have "alu_ops ! 7 = WG_OP_CMP" by code_simp
  with alu_rr_roundtrip [of 7 12 5 "[0x90]" 0] show ?thesis by simp
qed

theorem mov_load_roundtrip:
  assumes "r < 16" and "b < 16" and "b mod 8 \<noteq> 4"
  shows "wg_x86_decode (enc_mov_load r b d @ rest) addr =
    Some (7, blank_insn\<lparr>opcode := WG_OP_MOV, ilength := 7, operand0 := op_reg r 8,
      operand1 := op_base_disp b (scast d) 8, num_operands := 2, op_size := 8, addr_size := 8\<rparr>)"
  using assms by (rule decode_mov_load)

theorem mov_load_roundtrip_witness:
  "map_option fst (wg_x86_decode (enc_mov_load 9 13 0xFFFFFFF0 @ []) 7) = Some 7"
  using mov_load_roundtrip [of 9 13 "0xFFFFFFF0" "[]" 7] by simp

section \<open>Where the interpreter and the processor differ\<close>

theorem sar64_negative_witness:
  "exec_sar (demo_cpu\<lparr>gpr := (gpr demo_cpu)(0 := - 16)\<rparr>) (demo_mem [])
     (blank_insn\<lparr>operand0 := op_reg 0 8, operand1 := op_imm 2 1, op_size := 8\<rparr>) = undef"
  by (rule sar64_negative [of _ _ _ "- 16" 2])
    (simp_all add: read_operand_def op_reg_def op_imm_def get_gpr_def mask_for_def bit_simps)

theorem adc_sbb_skipped_witness:
  "exec_insn 0x1003 demo_cpu (demo_mem []) (blank_insn\<lparr>opcode := WG_OP_ADC\<rparr>) =
     Some (WG_INTERP_OK, demo_cpu\<lparr>rip := 0x1003\<rparr>, demo_mem [])"
  by (rule adc_sbb_skipped) simp

theorem thunk_call_is_syscall_witness:
  "\<exists>mem'. exec_call 0x1005 demo_cpu (demo_mem [])
      (blank_insn\<lparr>operand0 := op_rel 0xDEAD0010, num_operands := 1\<rparr>) =
    Some (WG_INTERP_SYSCALL, demo_cpu\<lparr>rip := 0x1005\<rparr>, mem')"
proof -
  let ?i = "blank_insn\<lparr>operand0 := op_rel 0xDEAD0010, num_operands := 1\<rparr>"
  have m: "mapped (demo_mem []) (gpr demo_cpu WG_REG_RSP - 8)" by code_simp
  have "push64 demo_cpu (demo_mem []) 0x1005 \<noteq> None" by code_simp
  then obtain s1 mem1 where p: "push64 demo_cpu (demo_mem []) 0x1005 = Some (s1, mem1)" by auto
  have "branch_target s1 mem1 ?i = Some 0xDEAD0010" by (simp add: branch_target_def op_rel_def)
  from thunk_call_is_syscall [OF wf_demo m p this] show ?thesis by (simp add: in_thunk_range_def)
qed

end
