(* ===== verification/PELoader.thy ===== *)
theory PELoader
  imports Base
begin

text \<open>
  The PE loader of \<open>Sources/PE/wg_pe_loader.{h,c}\<close>. The file is the list of its bytes; a host
  pointer into \<open>data\<close> or into its copy \<open>raw_data\<close> is an offset. Every read through a pointer is
  \<open>rd\<close>, which is undefined past the end of the buffer: the source compares only the DOS header,
  the offset of the PE signature and the sections' raw data with the file size. C strings are
  the bytes before the NUL. The outer option of \<open>wg_pe_load_memory\<close> is undefined behaviour, the
  inner one the NULL result. Log messages are left out, except that their arguments are read.
\<close>

section \<open>The data\<close>

record pe_section =
  sec_name :: "u8 list"
  virtual_size :: u32
  virtual_address :: u32
  raw_size :: u32
  raw_offset :: u32
  characteristics :: u32
  sec_data :: "nat option"   \<comment> \<open>\<open>data\<close>: offset into \<open>raw_data\<close>, or NULL\<close>

record import_func =
  fn_name :: "u8 list"
  ordinal :: u16
  fn_iat_rva :: u32

record import_dll =
  dll_name :: "u8 list"
  dll_functions :: "import_func list"   \<comment> \<open>\<open>functions\<close>, of length \<open>num_functions\<close>\<close>

record pe_image =
  image_base :: u64
  entry_point :: u32
  size_of_image :: u32
  size_of_headers :: u32
  subsystem :: u16
  dll_characteristics :: u16
  machine :: u16
  is_64bit :: bool
  sections :: "pe_section list"
  import_dlls :: "import_dll list"   \<comment> \<open>\<open>imports\<close>, of length \<open>num_imports\<close>\<close>
  export_rva :: u32
  export_size :: u32
  reloc_rva :: u32
  reloc_size :: u32
  tls_rva :: u32
  tls_size :: u32
  raw_data :: "u8 list"

definition PE_MAX_SECTIONS :: nat where "PE_MAX_SECTIONS = 96"
definition PE_MAX_IMPORTS :: nat where "PE_MAX_IMPORTS = 256"
definition PE_MAX_IMPORT_FUNCS :: nat where "PE_MAX_IMPORT_FUNCS = 4096"

definition IMAGE_DOS_SIGNATURE :: u16 where "IMAGE_DOS_SIGNATURE = 0x5A4D"
definition IMAGE_NT_SIGNATURE :: u32 where "IMAGE_NT_SIGNATURE = 0x00004550"
definition IMAGE_NT_OPTIONAL_HDR32_MAGIC :: u16 where "IMAGE_NT_OPTIONAL_HDR32_MAGIC = 0x10B"
definition IMAGE_NT_OPTIONAL_HDR64_MAGIC :: u16 where "IMAGE_NT_OPTIONAL_HDR64_MAGIC = 0x20B"

text \<open>The sizes of the packed structures.\<close>

definition sizeof_DOSHeader :: nat where "sizeof_DOSHeader = 64"
definition sizeof_COFFHeader :: nat where "sizeof_COFFHeader = 20"
definition sizeof_OptionalHeader64 :: nat where "sizeof_OptionalHeader64 = 112"
definition sizeof_OptionalHeader32 :: nat where "sizeof_OptionalHeader32 = 96"
definition sizeof_SectionHeader :: nat where "sizeof_SectionHeader = 40"
definition sizeof_ImportDescriptor :: nat where "sizeof_ImportDescriptor = 20"

lemmas pe_consts = PE_MAX_SECTIONS_def PE_MAX_IMPORTS_def PE_MAX_IMPORT_FUNCS_def
  IMAGE_DOS_SIGNATURE_def IMAGE_NT_SIGNATURE_def IMAGE_NT_OPTIONAL_HDR32_MAGIC_def
  IMAGE_NT_OPTIONAL_HDR64_MAGIC_def sizeof_DOSHeader_def sizeof_COFFHeader_def
  sizeof_OptionalHeader64_def sizeof_OptionalHeader32_def sizeof_SectionHeader_def
  sizeof_ImportDescriptor_def

section \<open>Reading through a pointer\<close>

text \<open>A little-endian field of \<open>n\<close> bytes at offset \<open>off\<close>.\<close>

definition rd :: "nat \<Rightarrow> u8 list \<Rightarrow> nat \<Rightarrow> 'a::len word ub" where
  "rd n raw off = (if off + n \<le> length raw then Some (le_word (take n (drop off raw))) else undef)"

definition rd16 :: "u8 list \<Rightarrow> nat \<Rightarrow> u16 ub" where "rd16 = rd 2"
definition rd32 :: "u8 list \<Rightarrow> nat \<Rightarrow> u32 ub" where "rd32 = rd 4"
definition rd64 :: "u8 list \<Rightarrow> nat \<Rightarrow> u64 ub" where "rd64 = rd 8"

text \<open>\<open>strncpy(dst, src, n)\<close> into a zeroed buffer longer than \<open>n\<close>: the bytes before the NUL, at
  most \<open>n\<close>.\<close>

fun strncpy :: "u8 list \<Rightarrow> nat \<Rightarrow> nat \<Rightarrow> u8 list ub" where
  "strncpy raw src 0 = Some []"
| "strncpy raw src (Suc n) =
     (if src < length raw
      then if raw ! src = 0 then Some [] else map_option (Cons (raw ! src)) (strncpy raw (src + 1) n)
      else undef)"

definition rva_to_ptr :: "pe_image \<Rightarrow> u32 \<Rightarrow> nat option" where
  "rva_to_ptr img rva =
     (case find_index (\<lambda>s. virtual_address s \<le> rva \<and> rva < virtual_address s + raw_size s \<and>
              sec_data s \<noteq> None \<and> rva - virtual_address s < raw_size s) (sections img) of
        None \<Rightarrow> None
      | Some i \<Rightarrow> let s = sections img ! i
                 in Some (the (sec_data s) + unat (rva - virtual_address s)))"

section \<open>Imports\<close>

text \<open>\<open>snprintf(..., "Ordinal_%u", ordinal)\<close>.\<close>

fun dec_digits :: "nat \<Rightarrow> u8 list" where
  "dec_digits n = (if n < 10 then [of_nat (48 + n)] else dec_digits (n div 10) @ [of_nat (48 + n mod 10)])"

declare dec_digits.simps [simp del]

definition ordinal_name :: "u16 \<Rightarrow> u8 list" where
  "ordinal_name o16 = map of_char ''Ordinal_'' @ dec_digits (unat o16)"

text \<open>The import by name: the hint and the name; a zeroed entry when the pointer is NULL.\<close>

definition import_by_name :: "pe_image \<Rightarrow> u32 \<Rightarrow> u32 \<Rightarrow> import_func ub" where
  "import_by_name img hint_rva iat =
     (case rva_to_ptr img hint_rva of
        None \<Rightarrow> Some \<lparr>fn_name = [], ordinal = 0, fn_iat_rva = iat\<rparr>
      | Some p \<Rightarrow> do {
          hint \<leftarrow> rd16 (raw_data img) p;
          name \<leftarrow> strncpy (raw_data img) (p + 2) 255;
          Some \<lparr>fn_name = name, ordinal = hint, fn_iat_rva = iat\<rparr>
        })"

definition import_by_ordinal :: "u16 \<Rightarrow> u32 \<Rightarrow> import_func" where
  "import_by_ordinal o16 iat = \<lparr>fn_name = ordinal_name o16, ordinal = o16, fn_iat_rva = iat\<rparr>"

definition thunk_func64 :: "pe_image \<Rightarrow> u64 \<Rightarrow> u32 \<Rightarrow> import_func ub" where
  "thunk_func64 img thunk iat =
     (if thunk AND 0x8000000000000000 \<noteq> 0
      then Some (import_by_ordinal (ucast (thunk AND 0xFFFF)) iat)
      else import_by_name img (ucast (thunk AND 0x7FFFFFFF)) iat)"

definition thunk_func32 :: "pe_image \<Rightarrow> u32 \<Rightarrow> u32 \<Rightarrow> import_func ub" where
  "thunk_func32 img thunk iat =
     (if thunk AND 0x80000000 \<noteq> 0
      then Some (import_by_ordinal (ucast (thunk AND 0xFFFF)) iat)
      else import_by_name img (thunk AND 0x7FFFFFFF) iat)"

text \<open>The thunk loops: \<open>k\<close> is \<open>num_functions\<close>, \<open>p\<close> the pointer \<open>thunk\<close>. The thunk is read before
  the count is compared, as in \<open>while (*thunk && ...)\<close>. The first argument is the number of
  functions that still fit.\<close>

fun thunks64 :: "nat \<Rightarrow> pe_image \<Rightarrow> u32 \<Rightarrow> nat \<Rightarrow> nat \<Rightarrow> import_func list ub" where
  "thunks64 0 img iat_rva k p = do { t \<leftarrow> rd64 (raw_data img) p; Some [] }"
| "thunks64 (Suc left) img iat_rva k p = do {
     t \<leftarrow> rd64 (raw_data img) p;
     if t = 0 then Some [] else do {
       f \<leftarrow> thunk_func64 img t (iat_rva + of_nat (k * 8));
       fs \<leftarrow> thunks64 left img iat_rva (k + 1) (p + 8);
       Some (f # fs)
     }
   }"

fun thunks32 :: "nat \<Rightarrow> pe_image \<Rightarrow> u32 \<Rightarrow> nat \<Rightarrow> nat \<Rightarrow> import_func list ub" where
  "thunks32 0 img iat_rva k p = do { t \<leftarrow> rd32 (raw_data img) p; Some [] }"
| "thunks32 (Suc left) img iat_rva k p = do {
     t \<leftarrow> rd32 (raw_data img) p;
     if t = 0 then Some [] else do {
       f \<leftarrow> thunk_func32 img t (iat_rva + of_nat (k * 4));
       fs \<leftarrow> thunks32 left img iat_rva (k + 1) (p + 4);
       Some (f # fs)
     }
   }"

definition thunk_list :: "pe_image \<Rightarrow> u32 \<Rightarrow> nat \<Rightarrow> import_func list ub" where
  "thunk_list img iat_rva p =
     (if is_64bit img then thunks64 PE_MAX_IMPORT_FUNCS img iat_rva 0 p
      else thunks32 PE_MAX_IMPORT_FUNCS img iat_rva 0 p)"

text \<open>
  The descriptor loop from offset \<open>p\<close>, with \<open>left\<close> import slots left. A descriptor whose thunk
  table is not found is skipped by \<open>desc++; continue;\<close> without using up a slot; the loop ends
  because it advances through the file by 20 bytes each time.
\<close>

function (sequential) descriptors :: "nat \<Rightarrow> pe_image \<Rightarrow> nat \<Rightarrow> import_dll list ub" where
  "descriptors left img p =
     (if length (raw_data img) < p + 16 then undef
      else do {
        name_rva \<leftarrow> rd32 (raw_data img) (p + 12);
        if name_rva = 0 \<or> left = 0 then Some []
        else case rva_to_ptr img name_rva of
            None \<Rightarrow> Some []
          | Some np \<Rightarrow> do {
              name \<leftarrow> strncpy (raw_data img) np 255;
              oft \<leftarrow> rd32 (raw_data img) p;
              iat_rva \<leftarrow> rd32 (raw_data img) (p + 16);
              case rva_to_ptr img (if oft \<noteq> 0 then oft else iat_rva) of
                None \<Rightarrow> descriptors left img (p + sizeof_ImportDescriptor)
              | Some tp \<Rightarrow> do {
                  fs \<leftarrow> thunk_list img iat_rva tp;
                  rest \<leftarrow> descriptors (left - 1) img (p + sizeof_ImportDescriptor);
                  Some (\<lparr>dll_name = name, dll_functions = fs\<rparr> # rest)
                }
            }
      })"
  by pat_completeness auto

termination
  by (relation "measure (\<lambda>(left, img, p). length (raw_data img) + 1 - p)")
    (auto simp: sizeof_ImportDescriptor_def)

declare descriptors.simps [simp del]

definition parse_imports :: "pe_image \<Rightarrow> u32 \<Rightarrow> u32 \<Rightarrow> pe_image ub" where
  "parse_imports img import_rva import_size =
     (if import_rva = 0 \<or> import_size = 0 then Some img
      else case rva_to_ptr img import_rva of
          None \<Rightarrow> Some img
        | Some p \<Rightarrow> map_option (\<lambda>ds. img\<lparr>import_dlls := ds\<rparr>) (descriptors PE_MAX_IMPORTS img p))"

section \<open>Headers\<close>

definition empty_image :: "u8 list \<Rightarrow> pe_image" where
  "empty_image raw = \<lparr>image_base = 0, entry_point = 0, size_of_image = 0, size_of_headers = 0,
     subsystem = 0, dll_characteristics = 0, machine = 0, is_64bit = False, sections = [],
     import_dlls = [], export_rva = 0, export_size = 0, reloc_rva = 0, reloc_size = 0, tls_rva = 0,
     tls_size = 0, raw_data = raw\<rparr>"

text \<open>The optional header at offset \<open>opt\<close>: the image, \<open>num_directories\<close> and the offset of
  \<open>directories\<close>; the inner \<open>None\<close> is the unknown magic.\<close>

definition read_optional :: "pe_image \<Rightarrow> u8 list \<Rightarrow> nat \<Rightarrow> ((pe_image \<times> u32 \<times> nat) option) ub" where
  "read_optional img d opt = do {
     magic \<leftarrow> rd16 d opt;
     if magic = IMAGE_NT_OPTIONAL_HDR64_MAGIC then do {
       ep \<leftarrow> rd32 d (opt + 16);
       ib \<leftarrow> rd64 d (opt + 24);
       soi \<leftarrow> rd32 d (opt + 56);
       soh \<leftarrow> rd32 d (opt + 60);
       ss \<leftarrow> rd16 d (opt + 68);
       dc \<leftarrow> rd16 d (opt + 70);
       n \<leftarrow> rd32 d (opt + 108);
       Some (Some (img\<lparr>is_64bit := True, entry_point := ep, image_base := ib, size_of_image := soi,
         size_of_headers := soh, subsystem := ss, dll_characteristics := dc\<rparr>,
         n, opt + sizeof_OptionalHeader64))
     }
     else if magic = IMAGE_NT_OPTIONAL_HDR32_MAGIC then do {
       ep \<leftarrow> rd32 d (opt + 16);
       ib \<leftarrow> rd32 d (opt + 28);
       soi \<leftarrow> rd32 d (opt + 56);
       soh \<leftarrow> rd32 d (opt + 60);
       ss \<leftarrow> rd16 d (opt + 68);
       dc \<leftarrow> rd16 d (opt + 70);
       n \<leftarrow> rd32 d (opt + 92);
       Some (Some (img\<lparr>is_64bit := False, entry_point := ep, image_base := ucast ib,
         size_of_image := soi, size_of_headers := soh, subsystem := ss, dll_characteristics := dc\<rparr>,
         n, opt + sizeof_OptionalHeader32))
     }
     else Some None
   }"

text \<open>The section table. The sum of the raw offset and size is a 32-bit sum that wraps.\<close>

definition read_section :: "u8 list \<Rightarrow> nat \<Rightarrow> pe_section ub" where
  "read_section d p = do {
     guard (p + 8 \<le> length d);
     vs \<leftarrow> rd32 d (p + 8);
     va \<leftarrow> rd32 d (p + 12);
     rs \<leftarrow> rd32 d (p + 16);
     ro \<leftarrow> rd32 d (p + 20);
     ch \<leftarrow> rd32 d (p + 36);
     Some \<lparr>sec_name = takeWhile (\<lambda>b. b \<noteq> 0) (take 8 (drop p d)), virtual_size = vs,
       virtual_address = va, raw_size = rs, raw_offset = ro, characteristics = ch,
       sec_data = (if 0 < ro \<and> 0 < rs \<and> unat (ro + rs) \<le> length d then Some (unat ro) else None)\<rparr>
   }"

fun read_sections :: "u8 list \<Rightarrow> nat \<Rightarrow> nat \<Rightarrow> pe_section list ub" where
  "read_sections d p 0 = Some []"
| "read_sections d p (Suc n) = do {
     s \<leftarrow> read_section d p;
     ss \<leftarrow> read_sections d (p + sizeof_SectionHeader) n;
     Some (s # ss)
   }"

text \<open>The directory entry \<open>k\<close>: its address and size.\<close>

definition read_directory :: "u8 list \<Rightarrow> nat \<Rightarrow> nat \<Rightarrow> (u32 \<times> u32) ub" where
  "read_directory d dirs k = do {
     a \<leftarrow> rd32 d (dirs + 8 * k);
     n \<leftarrow> rd32 d (dirs + 8 * k + 4);
     Some (a, n)
   }"

definition read_directories :: "pe_image \<Rightarrow> u8 list \<Rightarrow> u32 \<Rightarrow> nat \<Rightarrow> pe_image ub" where
  "read_directories img d n dirs = do {
     img \<leftarrow> (if 1 < n then do {
              (a, sz) \<leftarrow> read_directory d dirs 1;
              parse_imports img a sz
            } else Some img);
     img \<leftarrow> (if 0 < n then do {
              (a, sz) \<leftarrow> read_directory d dirs 0;
              Some (img\<lparr>export_rva := a, export_size := sz\<rparr>)
            } else Some img);
     img \<leftarrow> (if 5 < n then do {
              (a, sz) \<leftarrow> read_directory d dirs 5;
              Some (img\<lparr>reloc_rva := a, reloc_size := sz\<rparr>)
            } else Some img);
     (if 9 < n then do {
        (a, sz) \<leftarrow> read_directory d dirs 9;
        Some (img\<lparr>tls_rva := a, tls_size := sz\<rparr>)
      } else Some img)
   }"

text \<open>\<open>alloc_img\<close> and \<open>alloc_raw\<close> say whether the two allocations succeed. \<open>pe_offset + 4\<close> is a
  32-bit sum.\<close>

definition wg_pe_load_memory :: "bool \<Rightarrow> bool \<Rightarrow> u8 list \<Rightarrow> (pe_image option) ub" where
  "wg_pe_load_memory alloc_img alloc_raw d =
     (if length d < sizeof_DOSHeader then Some None
      else do {
        e_magic \<leftarrow> rd16 d 0;
        if e_magic \<noteq> IMAGE_DOS_SIGNATURE then Some None else do {
          pe_offset \<leftarrow> rd32 d 60;
          if length d < unat (pe_offset + 4) then Some None else do {
            pe_sig \<leftarrow> rd32 d (unat pe_offset);
            if pe_sig \<noteq> IMAGE_NT_SIGNATURE then Some None else do {
              let coff = unat pe_offset + 4;
              mach \<leftarrow> rd16 d coff;
              nsec \<leftarrow> rd16 d (coff + 2);
              if \<not> alloc_img \<or> \<not> alloc_raw then Some None else do {
                let opt = coff + sizeof_COFFHeader;
                r \<leftarrow> read_optional ((empty_image d)\<lparr>machine := mach\<rparr>) d opt;
                case r of
                  None \<Rightarrow> Some None
                | Some (img, n, dirs) \<Rightarrow> do {
                    osz \<leftarrow> rd16 d (coff + 16);
                    secs \<leftarrow> read_sections d (opt + unat osz) (min (unat nsec) PE_MAX_SECTIONS);
                    map_option Some (read_directories (img\<lparr>sections := secs\<rparr>) d n dirs)
                  }
              }
            }
          }
        }
      })"

text \<open>\<open>file\<close> is the content of the file, or \<open>None\<close> when \<open>fopen\<close> fails; \<open>nread\<close> what \<open>fread\<close>
  returns.\<close>

definition wg_pe_load_file :: "u8 list option \<Rightarrow> bool \<Rightarrow> nat \<Rightarrow> bool \<Rightarrow> bool \<Rightarrow> (pe_image option) ub" where
  "wg_pe_load_file file malloc_ok nread alloc_img alloc_raw =
     (case file of
        None \<Rightarrow> Some None
      | Some d \<Rightarrow>
          if length d = 0 \<or> 512 * 1024 * 1024 < length d then Some None
          else if \<not> malloc_ok then Some None
          else if nread \<noteq> length d then Some None
          else wg_pe_load_memory alloc_img alloc_raw d)"

section \<open>Names\<close>

definition wg_pe_machine_name :: "u16 \<Rightarrow> string" where
  "wg_pe_machine_name m = (if m = 0x8664 then ''x86-64'' else if m = 0x014C then ''x86''
     else if m = 0xAA64 then ''ARM64'' else ''Unknown'')"

definition wg_pe_subsystem_name :: "u16 \<Rightarrow> string" where
  "wg_pe_subsystem_name s = (if s = 1 then ''Native'' else if s = 2 then ''Windows GUI''
     else if s = 3 then ''Windows Console'' else if s = 5 then ''OS/2 Console''
     else if s = 7 then ''POSIX Console'' else if s = 9 then ''Windows CE''
     else if s = 10 then ''EFI Application'' else ''Unknown'')"

end
