(* ===== verification/PELoaderOk.thy ===== *)
theory PELoaderOk
  imports PELoader
begin

text \<open>
  What the PE loader guarantees: an image is returned only for a file with the DOS and PE
  signatures and a known optional header, its tables have at most the sizes of the source's
  arrays, and an RVA that resolves lies inside the raw data of a section (as long as no section's
  raw range wraps around 32 bits, which the loader accepts). The thunk loops return exactly the
  functions of the import lookup table, and a file laid out from headers and sections loads to
  these headers and sections.
\<close>

section \<open>Reading what was laid out\<close>

lemma rd_at:
  assumes "length pre = off" and "LENGTH('a::len) = 8 * n"
  shows "rd n (pre @ le_bytes n (v :: 'a word) @ post) off = Some v"
  using assms by (simp add: rd_def le_word_le_bytes_full)

lemma rd_bytes:
  "rd n d off = Some (v :: 'a::len word) \<Longrightarrow> LENGTH('a) = 8 * n \<Longrightarrow> take n (drop off d) = le_bytes n v"
  by (auto simp: rd_def le_bytes_le_word split: if_splits)

lemma rd_SomeD: "rd n d off = Some v \<Longrightarrow> off + n \<le> length d"
  by (simp add: rd_def split: if_splits)

section \<open>Addresses inside sections\<close>

lemma rva_to_ptr_SomeD:
  assumes "rva_to_ptr img rva = Some p"
  shows "\<exists>s \<in> set (sections img). \<exists>q. sec_data s = Some q \<and> virtual_address s \<le> rva \<and>
    rva - virtual_address s < raw_size s \<and> p = q + unat (rva - virtual_address s)"
proof -
  let ?P = "\<lambda>s. virtual_address s \<le> rva \<and> rva < virtual_address s + raw_size s \<and>
              sec_data s \<noteq> None \<and> rva - virtual_address s < raw_size s"
  from assms obtain i where i: "find_index ?P (sections img) = Some i"
    and p: "p = the (sec_data (sections img ! i)) + unat (rva - virtual_address (sections img ! i))"
    unfolding rva_to_ptr_def by (auto simp: Let_def split: option.splits)
  note f = find_index_SomeD [OF i]
  have "sections img ! i \<in> set (sections img)" using f(1) by simp
  with f(2) p show ?thesis by (intro bexI [of _ "sections img ! i"]) auto
qed

definition section_ok :: "nat \<Rightarrow> pe_section \<Rightarrow> bool" where
  "section_ok n s \<longleftrightarrow> (\<forall>q. sec_data s = Some q \<longrightarrow> q = unat (raw_offset s) \<and> 0 < q \<and>
     0 < raw_size s \<and> unat (raw_offset s + raw_size s) \<le> n)"

lemma read_section_ok: "read_section d p = Some s \<Longrightarrow> section_ok (length d) s"
  unfolding read_section_def
  by (auto simp: section_ok_def word_less_nat_alt split: bind_splits if_split_asm)

lemma read_sections_ok:
  "read_sections d p n = Some ss \<Longrightarrow> length ss = n \<and> (\<forall>s \<in> set ss. section_ok (length d) s)"
  by (induction n arbitrary: p ss) (auto split: bind_splits dest: read_section_ok)

section \<open>Import tables\<close>

lemma thunks64_spec:
  "thunks64 left img iat k p = Some fs \<Longrightarrow> length fs \<le> left \<and>
     (\<forall>j < length fs. \<exists>t. rd64 (raw_data img) (p + 8 * j) = Some t \<and> t \<noteq> 0 \<and>
        thunk_func64 img t (iat + of_nat ((k + j) * 8)) = Some (fs ! j)) \<and>
     (length fs < left \<longrightarrow> rd64 (raw_data img) (p + 8 * length fs) = Some 0)"
proof (induction left arbitrary: k p fs)
  case 0
  then show ?case by (auto split: bind_splits)
next
  case (Suc left)
  from Suc.prems obtain t where t: "rd64 (raw_data img) p = Some t"
    and r: "(if t = 0 then Some [] else do {
       f \<leftarrow> thunk_func64 img t (iat + of_nat (k * 8));
       fs \<leftarrow> thunks64 left img iat (k + 1) (p + 8);
       Some (f # fs)}) = Some fs" by (auto split: bind_splits)
  show ?case
  proof (cases "t = 0")
    case True
    with r t show ?thesis by simp
  next
    case False
    with r obtain f fs' where f: "thunk_func64 img t (iat + of_nat (k * 8)) = Some f"
      and fs': "thunks64 left img iat (k + 1) (p + 8) = Some fs'" and fs: "fs = f # fs'"
      by (auto split: bind_splits)
    note IH = Suc.IH [OF fs']
    have "\<exists>u. rd64 (raw_data img) (p + 8 * j) = Some u \<and> u \<noteq> 0 \<and>
        thunk_func64 img u (iat + of_nat ((k + j) * 8)) = Some (fs ! j)" if j: "j < length fs" for j
    proof (cases j)
      case 0
      with t f False fs show ?thesis by simp
    next
      case (Suc m)
      have "p + 8 * j = p + 8 + 8 * m" "(k + j) * 8 = (k + 1 + m) * 8" using Suc by simp_all
      with IH Suc j fs show ?thesis by (simp only: nth_Cons_Suc) auto
    qed
    with IH fs show ?thesis by (auto simp: add.assoc)
  qed
qed

lemma thunks32_spec:
  "thunks32 left img iat k p = Some fs \<Longrightarrow> length fs \<le> left \<and>
     (\<forall>j < length fs. \<exists>t. rd32 (raw_data img) (p + 4 * j) = Some t \<and> t \<noteq> 0 \<and>
        thunk_func32 img t (iat + of_nat ((k + j) * 4)) = Some (fs ! j)) \<and>
     (length fs < left \<longrightarrow> rd32 (raw_data img) (p + 4 * length fs) = Some 0)"
proof (induction left arbitrary: k p fs)
  case 0
  then show ?case by (auto split: bind_splits)
next
  case (Suc left)
  from Suc.prems obtain t where t: "rd32 (raw_data img) p = Some t"
    and r: "(if t = 0 then Some [] else do {
       f \<leftarrow> thunk_func32 img t (iat + of_nat (k * 4));
       fs \<leftarrow> thunks32 left img iat (k + 1) (p + 4);
       Some (f # fs)}) = Some fs" by (auto split: bind_splits)
  show ?case
  proof (cases "t = 0")
    case True
    with r t show ?thesis by simp
  next
    case False
    with r obtain f fs' where f: "thunk_func32 img t (iat + of_nat (k * 4)) = Some f"
      and fs': "thunks32 left img iat (k + 1) (p + 4) = Some fs'" and fs: "fs = f # fs'"
      by (auto split: bind_splits)
    note IH = Suc.IH [OF fs']
    have "\<exists>u. rd32 (raw_data img) (p + 4 * j) = Some u \<and> u \<noteq> 0 \<and>
        thunk_func32 img u (iat + of_nat ((k + j) * 4)) = Some (fs ! j)" if j: "j < length fs" for j
    proof (cases j)
      case 0
      with t f False fs show ?thesis by simp
    next
      case (Suc m)
      have "p + 4 * j = p + 4 + 4 * m" "(k + j) * 4 = (k + 1 + m) * 4" using Suc by simp_all
      with IH Suc j fs show ?thesis by (simp only: nth_Cons_Suc) auto
    qed
    with IH fs show ?thesis by (auto simp: add.assoc)
  qed
qed

lemma strncpy_length: "strncpy raw p n = Some cs \<Longrightarrow> length cs \<le> n \<and> 0 \<notin> set cs"
  by (induction raw p n arbitrary: cs rule: strncpy.induct) (auto split: if_splits)

definition dll_ok :: "import_dll \<Rightarrow> bool" where
  "dll_ok d \<longleftrightarrow> length (dll_name d) < 256 \<and> length (dll_functions d) \<le> PE_MAX_IMPORT_FUNCS"

lemma thunk_list_length: "thunk_list img iat p = Some fs \<Longrightarrow> length fs \<le> PE_MAX_IMPORT_FUNCS"
  unfolding thunk_list_def by (auto split: if_splits dest: thunks64_spec thunks32_spec)

lemma bind_SomeE: "Option.bind x f = Some y \<Longrightarrow> (\<And>z. x = Some z \<Longrightarrow> f z = Some y \<Longrightarrow> P) \<Longrightarrow> P"
  by (cases x) simp_all

text \<open>One round of the descriptor loop.\<close>

lemma descriptors_cases:
  assumes d: "descriptors left img p = Some ds"
  obtains (stop) "ds = []"
  | (skip) "0 < left" "p + 16 \<le> length (raw_data img)"
      "descriptors left img (p + sizeof_ImportDescriptor) = Some ds"
  | (more) name_rva np name iat tp fs rest where "0 < left" "p + 16 \<le> length (raw_data img)"
      "rd32 (raw_data img) (p + 12) = Some name_rva" "name_rva \<noteq> 0"
      "rva_to_ptr img name_rva = Some np" "strncpy (raw_data img) np 255 = Some name"
      "rd32 (raw_data img) (p + 16) = Some iat" "thunk_list img iat tp = Some fs"
      "descriptors (left - 1) img (p + sizeof_ImportDescriptor) = Some rest"
      "ds = \<lparr>dll_name = name, dll_functions = fs\<rparr> # rest"
proof -
  have le: "p + 16 \<le> length (raw_data img)"
    using d by (subst (asm) descriptors.simps) (simp split: if_split_asm)
  obtain name_rva where n: "rd32 (raw_data img) (p + 12) = Some name_rva"
    using le by (auto simp: rd32_def rd_def)
  show ?thesis
  proof (cases "name_rva = 0 \<or> left = 0 \<or> rva_to_ptr img name_rva = None")
    case True
    then have "ds = []" using d le n by (subst (asm) descriptors.simps) (auto split: if_split_asm)
    then show ?thesis by (rule stop)
  next
    case False
    then obtain np where np: "rva_to_ptr img name_rva = Some np" and nz: "name_rva \<noteq> 0" "0 < left" by auto
    from d le n np nz obtain name oft iat where
      f: "strncpy (raw_data img) np 255 = Some name" "rd32 (raw_data img) p = Some oft"
        "rd32 (raw_data img) (p + 16) = Some iat"
      by (subst (asm) descriptors.simps) (simp, elim bind_SomeE, blast)
    show ?thesis
    proof (cases "rva_to_ptr img (if oft \<noteq> 0 then oft else iat)")
      case None
      then show ?thesis using d le n np nz f
        by (intro skip) (subst (asm) descriptors.simps, simp)+
    next
      case (Some tp)
      with d le n np nz f obtain fs rest where "thunk_list img iat tp = Some fs"
        "descriptors (left - 1) img (p + sizeof_ImportDescriptor) = Some rest"
        "ds = \<lparr>dll_name = name, dll_functions = fs\<rparr> # rest"
        by (subst (asm) descriptors.simps) (simp, elim bind_SomeE, simp)
      then show ?thesis using more le n np nz f by blast
    qed
  qed
qed

lemma descriptors_ok:
  "descriptors left img p = Some ds \<Longrightarrow> length ds \<le> left \<and> (\<forall>d \<in> set ds. dll_ok d)"
proof (induction "length (raw_data img) + 1 - p" arbitrary: left p ds rule: less_induct)
  case less
  have dec: "length (raw_data img) + 1 - (p + sizeof_ImportDescriptor) < length (raw_data img) + 1 - p"
    if "p + 16 \<le> length (raw_data img)" using that by (simp add: sizeof_ImportDescriptor_def)
  from less.prems show ?case
  proof (cases rule: descriptors_cases)
    case stop
    then show ?thesis by simp
  next
    case skip
    then show ?thesis using less.hyps [OF dec] by blast
  next
    case (more name_rva np name iat tp fs rest)
    have "dll_ok \<lparr>dll_name = name, dll_functions = fs\<rparr>"
      using strncpy_length [OF more(6)] thunk_list_length [OF more(8)] by (simp add: dll_ok_def)
    with less.hyps [OF dec [OF more(2)] more(9)] more(1,10) show ?thesis by auto
  qed
qed

section \<open>What a successful load says of the file\<close>

lemma read_optional_raw:
  "read_optional img d opt = Some (Some (img', n, dirs)) \<Longrightarrow>
     raw_data img' = raw_data img \<and> sections img' = sections img \<and> import_dlls img' = import_dlls img \<and>
     (rd16 d opt = Some IMAGE_NT_OPTIONAL_HDR64_MAGIC \<and> is_64bit img' \<or>
      rd16 d opt = Some IMAGE_NT_OPTIONAL_HDR32_MAGIC \<and> \<not> is_64bit img')"
  unfolding read_optional_def by (auto split: if_split_asm bind_splits)

lemma parse_imports_keeps:
  "parse_imports img a n = Some img' \<Longrightarrow> raw_data img' = raw_data img \<and> sections img' = sections img \<and>
     is_64bit img' = is_64bit img \<and> (import_dlls img' = import_dlls img \<or>
       length (import_dlls img') \<le> PE_MAX_IMPORTS \<and> (\<forall>d \<in> set (import_dlls img'). dll_ok d))"
  unfolding parse_imports_def
  by (auto split: if_split_asm option.splits dest: descriptors_ok)

lemma read_directories_keeps:
  assumes "read_directories img d n dirs = Some img'"
  shows "raw_data img' = raw_data img \<and> sections img' = sections img \<and>
     is_64bit img' = is_64bit img \<and> (import_dlls img' = import_dlls img \<or>
       length (import_dlls img') \<le> PE_MAX_IMPORTS \<and> (\<forall>d \<in> set (import_dlls img'). dll_ok d))"
proof -
  from assms obtain i1 where i1: "(if 1 < n then do {
              (a, sz) \<leftarrow> read_directory d dirs 1;
              parse_imports img a sz
            } else Some img) = Some i1"
    and rest: "raw_data img' = raw_data i1 \<and> sections img' = sections i1 \<and> is_64bit img' = is_64bit i1 \<and>
      import_dlls img' = import_dlls i1"
    unfolding read_directories_def
    by (elim bind_SomeE) (auto split: if_split_asm bind_splits)
  from i1 have "raw_data i1 = raw_data img \<and> sections i1 = sections img \<and>
     is_64bit i1 = is_64bit img \<and> (import_dlls i1 = import_dlls img \<or>
       length (import_dlls i1) \<le> PE_MAX_IMPORTS \<and> (\<forall>d \<in> set (import_dlls i1). dll_ok d))"
    by (auto split: if_split_asm bind_splits dest: parse_imports_keeps)
  with rest show ?thesis by simp
qed

lemma load_memory_cases:
  assumes "wg_pe_load_memory ai ar d = Some (Some img)"
  obtains pe mach nsec osz img0 n dirs secs where
    "64 \<le> length d" "rd16 d 0 = Some IMAGE_DOS_SIGNATURE" "rd32 d 60 = Some pe"
    "unat (pe + 4) \<le> length d" "rd32 d (unat pe) = Some IMAGE_NT_SIGNATURE"
    "rd16 d (unat pe + 4) = Some mach" "rd16 d (unat pe + 6) = Some nsec"
    "read_optional ((empty_image d)\<lparr>machine := mach\<rparr>) d (unat pe + 24) = Some (Some (img0, n, dirs))"
    "rd16 d (unat pe + 20) = Some osz"
    "read_sections d (unat pe + 24 + unat osz) (min (unat nsec) PE_MAX_SECTIONS) = Some secs"
    "read_directories (img0\<lparr>sections := secs\<rparr>) d n dirs = Some img"
  using assms unfolding wg_pe_load_memory_def Let_def
  by (auto simp: sizeof_DOSHeader_def sizeof_COFFHeader_def numeral_eq_Suc
      split: if_split_asm bind_splits option.splits)

theorem load_memory_sound:
  assumes "wg_pe_load_memory ai ar d = Some (Some img)"
  shows "raw_data img = d \<and> take 2 d = map of_char ''MZ'' \<and>
    (\<exists>pe. rd32 d 60 = Some pe \<and> take 4 (drop (unat pe) d) = map of_char ''PE'' @ [0, 0] \<and>
       rd16 d (unat pe + 24) = Some (if is_64bit img then 0x20B else 0x10B) \<and>
       (\<exists>nsec. rd16 d (unat pe + 6) = Some nsec \<and>
          length (sections img) = min (unat nsec) PE_MAX_SECTIONS)) \<and>
    (\<forall>s \<in> set (sections img). section_ok (length d) s) \<and>
    length (import_dlls img) \<le> PE_MAX_IMPORTS \<and> (\<forall>dll \<in> set (import_dlls img). dll_ok dll)"
  using assms
proof (cases rule: load_memory_cases)
  case (1 pe mach nsec osz img0 n dirs secs)
  note opt = read_optional_raw [OF 1(8)] and dirs = read_directories_keeps [OF 1(11)]
  have e: "import_dlls img0 = []" "raw_data img0 = d" using opt by (simp_all add: empty_image_def)
  have mz: "take 2 d = le_bytes 2 IMAGE_DOS_SIGNATURE"
    using rd_bytes [of 2 d 0 IMAGE_DOS_SIGNATURE] 1(2) by (simp add: rd16_def)
  have pesig: "take 4 (drop (unat pe) d) = le_bytes 4 IMAGE_NT_SIGNATURE"
    using rd_bytes [of 4 d "unat pe" IMAGE_NT_SIGNATURE] 1(5) by (simp add: rd32_def)
  have b: "le_bytes 2 IMAGE_DOS_SIGNATURE = map of_char ''MZ''"
    "le_bytes 4 IMAGE_NT_SIGNATURE = map of_char ''PE'' @ [0, 0]" by (code_simp)+
  have m: "rd16 d (unat pe + 24) = Some (if is_64bit img then 0x20B else 0x10B)"
    using opt dirs by (auto simp: IMAGE_NT_OPTIONAL_HDR64_MAGIC_def IMAGE_NT_OPTIONAL_HDR32_MAGIC_def)
  have s: "sections img = secs" "raw_data img = d" using dirs e by simp_all
  show ?thesis
    using mz pesig m s 1(3,7) read_sections_ok [OF 1(10)] dirs e b by auto
qed

theorem rva_in_bounds:
  assumes "wg_pe_load_memory ai ar d = Some (Some img)" and "rva_to_ptr img rva = Some p"
    and "\<forall>s \<in> set (sections img). unat (raw_offset s) + unat (raw_size s) < 2 ^ 32"
  shows "p < length d \<and> (\<exists>s \<in> set (sections img). virtual_address s \<le> rva \<and>
    rva - virtual_address s < raw_size s \<and> p = unat (raw_offset s) + unat (rva - virtual_address s))"
proof -
  from rva_to_ptr_SomeD [OF assms(2)] obtain s q where s: "s \<in> set (sections img)" "sec_data s = Some q"
    "virtual_address s \<le> rva" "rva - virtual_address s < raw_size s"
    "p = q + unat (rva - virtual_address s)" by blast
  have ok: "section_ok (length d) s" using load_memory_sound [OF assms(1)] s(1) by blast
  have nw: "unat (raw_offset s + raw_size s) = unat (raw_offset s) + unat (raw_size s)"
    using assms(3) s(1) by (intro unat_add_lem [THEN iffD1]) auto
  have "unat (rva - virtual_address s) < unat (raw_size s)" using s(4) by (simp add: word_less_nat_alt)
  with ok nw s show ?thesis by (auto simp: section_ok_def)
qed

text \<open>The section check wraps: raw data that is far outside a 40-byte file is accepted.\<close>

definition wrap_header :: "u8 list" where
  "wrap_header = replicate 16 0 @ le_bytes 4 (0x20 :: u32) @ le_bytes 4 (0xFFFFFFF0 :: u32) @ replicate 16 0"

theorem section_wraps:
  "\<exists>s. read_section wrap_header 0 = Some s \<and> length wrap_header = 40 \<and> sec_data s = Some 4294967280"
proof -
  have "length wrap_header = 40" "rd32 wrap_header 8 = Some 0" "rd32 wrap_header 12 = Some 0"
    "rd32 wrap_header 16 = Some 0x20" "rd32 wrap_header 20 = Some 0xFFFFFFF0"
    "rd32 wrap_header 36 = Some 0" by code_simp+
  then show ?thesis by (simp add: read_section_def)
qed

section \<open>Ordinal names\<close>

definition digits_value :: "u8 list \<Rightarrow> nat" where
  "digits_value ds = foldl (\<lambda>v b. 10 * v + (unat b - 48)) 0 ds"

lemma digits_value_snoc: "digits_value (ds @ [b]) = 10 * digits_value ds + (unat b - 48)"
  by (simp add: digits_value_def)

lemma digit_byte: "k < 10 \<Longrightarrow> unat (of_nat (48 + k) :: u8) = 48 + k"
  by (simp add: unat_of_nat take_bit_nat_eq_self del: of_nat_add)

theorem dec_digits_value: "digits_value (dec_digits n) = n"
proof (induction n rule: dec_digits.induct)
  case (1 n)
  show ?case
  proof (cases "n < 10")
    case True
    then show ?thesis by (subst dec_digits.simps) (simp add: digits_value_def digit_byte del: of_nat_add)
  next
    case False
    then show ?thesis using 1 digit_byte [of "n mod 10"]
      by (subst dec_digits.simps) (simp add: digits_value_snoc del: of_nat_add)
  qed
qed

section \<open>Loading what was built\<close>

text \<open>A run of little-endian fields, each a size and a value.\<close>

fun ser :: "(nat \<times> u64) list \<Rightarrow> u8 list" where
  "ser [] = []"
| "ser ((n, v) # fs) = le_bytes n v @ ser fs"

fun field_at :: "(nat \<times> u64) list \<Rightarrow> nat \<Rightarrow> (nat \<times> u64) option" where
  "field_at [] off = None"
| "field_at ((n, v) # fs) off = (if off = 0 then Some (n, v) else if off < n then None else field_at fs (off - n))"

lemma length_ser: "length (ser fs) = sum_list (map fst fs)"
  by (induction fs rule: ser.induct) simp_all

lemma le_word_bytes_ucast:
  assumes "LENGTH('a::len) = 8 * n" and "n \<le> 8"
  shows "le_word (le_bytes n (v :: u64)) = (ucast v :: 'a word)"
proof (rule bit_word_eqI)
  fix i assume i: "i < LENGTH('a)"
  have m: "i mod 8 < LENGTH(8)" by simp
  have "i div 8 < n" using i assms(1) by auto
  then have "bit (le_bytes n v ! (i div 8)) (i mod 8) = bit v (8 * (i div 8) + i mod 8)"
    using m by (auto simp only: nth_le_bytes bit_ucast_iff bit_drop_bit_eq o_def dest: bit_imp_le_length)
  then show "bit (le_word (le_bytes n v) :: 'a word) i = bit (ucast v :: 'a word) i"
    using i assms by (simp add: bit_le_word bit_ucast_iff)
qed

lemma rd_ser:
  assumes "field_at fs k = Some (n, v)" and "LENGTH('a::len) = 8 * n" and "n \<le> 8" and "length pre + k = off"
  shows "rd n (pre @ ser fs @ post) off = Some (ucast v :: 'a word)"
  using assms
proof (induction fs k arbitrary: pre rule: field_at.induct)
  case (1 k)
  then show ?case by simp
next
  case (2 m w fs k)
  show ?case
  proof (cases "k = 0")
    case True
    with 2 show ?thesis by (simp add: rd_def le_word_bytes_ucast)
  next
    case False
    with 2 have "\<not> k < m" by (simp split: if_split_asm)
    with False 2(1) [of "pre @ le_bytes m w"] 2(2-5) show ?thesis by simp
  qed
qed

text \<open>The headers of a 64-bit file, its sections and the bytes that follow.\<close>

record pe_spec =
  ps_machine :: u16
  ps_entry :: u32
  ps_base :: u64
  ps_image_size :: u32
  ps_headers_size :: u32
  ps_subsystem :: u16
  ps_dll_chars :: u16

definition dos_fields :: "(nat \<times> u64) list" where
  "dos_fields = (2, 0x5A4D) # replicate 29 (2, 0) @ [(4, 64)]"

definition coff_fields :: "pe_spec \<Rightarrow> nat \<Rightarrow> (nat \<times> u64) list" where
  "coff_fields h nsec = [(4, 0x4550), (2, ucast (ps_machine h)), (2, of_nat nsec), (4, 0), (4, 0),
     (4, 0), (2, 112), (2, 0)]"

definition opt_fields :: "pe_spec \<Rightarrow> (nat \<times> u64) list" where
  "opt_fields h = [(2, 0x20B), (1, 0), (1, 0), (4, 0), (4, 0), (4, 0), (4, ucast (ps_entry h)), (4, 0),
     (8, ps_base h), (4, 0), (4, 0), (2, 0), (2, 0), (2, 0), (2, 0), (2, 0), (2, 0), (4, 0),
     (4, ucast (ps_image_size h)), (4, ucast (ps_headers_size h)), (4, 0), (2, ucast (ps_subsystem h)),
     (2, ucast (ps_dll_chars h)), (8, 0), (8, 0), (8, 0), (8, 0), (4, 0), (4, 0)]"

text \<open>A section: its name of 8 bytes and the four numbers and flags.\<close>

type_synonym sec_spec = "u8 list \<times> u32 \<times> u32 \<times> u32 \<times> u32 \<times> u32"

fun sec_bytes :: "sec_spec \<Rightarrow> u8 list" where
  "sec_bytes (nm, vs, va, rs, ro, ch) = nm @ ser [(4, ucast vs), (4, ucast va), (4, ucast rs),
     (4, ucast ro), (4, 0), (4, 0), (2, 0), (2, 0), (4, ucast ch)]"

fun sec_image :: "nat \<Rightarrow> sec_spec \<Rightarrow> pe_section" where
  "sec_image len (nm, vs, va, rs, ro, ch) = \<lparr>sec_name = takeWhile (\<lambda>b. b \<noteq> 0) nm, virtual_size = vs,
     virtual_address = va, raw_size = rs, raw_offset = ro, characteristics = ch,
     sec_data = (if 0 < ro \<and> 0 < rs \<and> unat (ro + rs) \<le> len then Some (unat ro) else None)\<rparr>"

definition build_pe :: "pe_spec \<Rightarrow> sec_spec list \<Rightarrow> u8 list \<Rightarrow> u8 list" where
  "build_pe h secs body = ser dos_fields @ ser (coff_fields h (length secs)) @ ser (opt_fields h) @
     concat (map sec_bytes secs) @ body"

definition spec_image :: "pe_spec \<Rightarrow> sec_spec list \<Rightarrow> u8 list \<Rightarrow> pe_image" where
  "spec_image h secs d = (empty_image d)\<lparr>machine := ps_machine h, is_64bit := True,
     entry_point := ps_entry h, image_base := ps_base h, size_of_image := ps_image_size h,
     size_of_headers := ps_headers_size h, subsystem := ps_subsystem h,
     dll_characteristics := ps_dll_chars h, sections := map (sec_image (length d)) secs\<rparr>"

lemma read_section_built:
  assumes d: "d = pre @ sec_bytes s @ post" and "length (fst s) = 8" and p: "length pre = p"
  shows "read_section d p = Some (sec_image (length d) s)"
proof -
  obtain nm vs va rs ro ch where s: "s = (nm, vs, va, rs, ro, ch)" by (cases s)
  have nm: "length nm = 8" using assms(2) s by simp
  let ?fs = "[(4, ucast vs), (4, ucast va), (4, ucast rs), (4, ucast ro), (4, 0), (4, 0), (2, 0), (2, 0),
    (4, ucast ch)] :: (nat \<times> u64) list"
  have d': "d = (pre @ nm) @ ser ?fs @ post" using d s by simp
  have r: "rd32 d (p + 8 + k) = Some (ucast v)" if "field_at ?fs k = Some (4, v)" for k v
    unfolding rd32_def d' by (rule rd_ser [OF that]) (use nm p in simp_all)
  have uu: "ucast (ucast v :: u64) = v" for v :: u32 by (rule bit_word_eqI) (auto simp: bit_simps)
  have "rd32 d (p + 8) = Some vs" "rd32 d (p + 12) = Some va" "rd32 d (p + 16) = Some rs"
    "rd32 d (p + 20) = Some ro" "rd32 d (p + 36) = Some ch"
    using r [of 0 "ucast vs"] r [of 4 "ucast va"] r [of 8 "ucast rs"] r [of 12 "ucast ro"]
      r [of 28 "ucast ch"] by (simp_all add: uu ac_simps)
  moreover have "p + 8 \<le> length d" "take 8 (drop p d) = nm" using d' nm p by simp_all
  ultimately show ?thesis by (simp add: read_section_def s)
qed

lemma length_sec_bytes: "length (fst s) = 8 \<Longrightarrow> length (sec_bytes s) = 40"
  by (cases s) simp

lemma read_sections_built:
  "\<lbrakk>d = pre @ concat (map sec_bytes ss) @ post; \<forall>s \<in> set ss. length (fst s) = 8; length pre = p\<rbrakk> \<Longrightarrow>
     read_sections d p (length ss) = Some (map (sec_image (length d)) ss)"
proof (induction ss arbitrary: pre p)
  case Nil
  then show ?case by simp
next
  case (Cons s ss)
  have l: "length (fst s) = 8" using Cons.prems(2) by simp
  have "d = pre @ sec_bytes s @ (concat (map sec_bytes ss) @ post)" using Cons.prems(1) by simp
  from read_section_built [OF this l Cons.prems(3)] have "read_section d p = Some (sec_image (length d) s)" .
  moreover have "read_sections d (p + 40) (length ss) = Some (map (sec_image (length d)) ss)"
    by (rule Cons.IH [of "pre @ sec_bytes s"])
      (use Cons.prems length_sec_bytes [OF l] in simp_all)
  ultimately show ?case by (simp add: sizeof_SectionHeader_def)
qed

theorem load_built_pe:
  assumes "length secs \<le> PE_MAX_SECTIONS" and "\<forall>s \<in> set secs. length (fst s) = 8"
  shows "wg_pe_load_memory True True (build_pe h secs body) =
    Some (Some (spec_image h secs (build_pe h secs body)))"
proof -
  define d where "d = build_pe h secs body"
  let ?n = "length secs"
  let ?rest = "concat (map sec_bytes secs) @ body"
  have ld: "length (ser dos_fields) = 64" "length (ser (coff_fields h ?n)) = 24"
    "length (ser (opt_fields h)) = 112"
    by (simp_all add: length_ser dos_fields_def coff_fields_def opt_fields_def sum_list_replicate)
  have d1: "d = [] @ ser dos_fields @ (ser (coff_fields h ?n) @ ser (opt_fields h) @ ?rest)"
    and d2: "d = ser dos_fields @ ser (coff_fields h ?n) @ (ser (opt_fields h) @ ?rest)"
    and d3: "d = (ser dos_fields @ ser (coff_fields h ?n)) @ ser (opt_fields h) @ ?rest"
    and d4: "d = (ser dos_fields @ ser (coff_fields h ?n) @ ser (opt_fields h)) @ ?rest"
    by (simp_all add: d_def build_pe_def)
  have dos16: "rd16 d 0 = Some 0x5A4D" unfolding rd16_def d1
    by (subst rd_ser [where k = 0 and n = 2 and v = "0x5A4D"]) (simp_all add: dos_fields_def)
  have f60: "field_at dos_fields 60 = Some (4, 64)" by code_simp
  have dos32: "rd32 d 60 = Some 64" unfolding rd32_def d1
    by (subst rd_ser [OF f60]) simp_all
  have c16: "rd16 d (64 + k) = Some (ucast v)" if "field_at (coff_fields h ?n) k = Some (2, v)" for k v
    unfolding rd16_def d2 by (rule rd_ser [OF that]) (use ld in simp_all)
  have c32: "rd32 d (64 + k) = Some (ucast v)" if "field_at (coff_fields h ?n) k = Some (4, v)" for k v
    unfolding rd32_def d2 by (rule rd_ser [OF that]) (use ld in simp_all)
  have o16: "rd16 d (88 + k) = Some (ucast v)" if "field_at (opt_fields h) k = Some (2, v)" for k v
    unfolding rd16_def d3 by (rule rd_ser [OF that]) (use ld in simp_all)
  have o32: "rd32 d (88 + k) = Some (ucast v)" if "field_at (opt_fields h) k = Some (4, v)" for k v
    unfolding rd32_def d3 by (rule rd_ser [OF that]) (use ld in simp_all)
  have o64: "rd64 d (88 + k) = Some (ucast v)" if "field_at (opt_fields h) k = Some (8, v)" for k v
    unfolding rd64_def d3 by (rule rd_ser [OF that]) (use ld in simp_all)
  have u16: "ucast (ucast v :: u64) = v" for v :: u16 by (rule bit_word_eqI) (auto simp: bit_simps)
  have u32: "ucast (ucast v :: u64) = v" for v :: u32 by (rule bit_word_eqI) (auto simp: bit_simps)
  have n: "?n < 2 ^ 16" using assms(1) by (simp add: PE_MAX_SECTIONS_def)
  have un: "unat (ucast (of_nat ?n :: u64) :: u16) = ?n"
  proof -
    have "(ucast (of_nat ?n :: u64) :: u16) = of_nat ?n"
      by (rule bit_word_eqI) (auto simp: bit_simps)
    then show ?thesis using n by (simp add: unat_of_nat take_bit_nat_eq_self)
  qed
  have coff: "rd32 d 64 = Some 0x4550" "rd16 d 68 = Some (ps_machine h)"
    "rd16 d 70 = Some (ucast (of_nat ?n :: u64))" "rd16 d 84 = Some 112"
    using c32 [of 0 "0x4550"] c16 [of 4 "ucast (ps_machine h)"] c16 [of 6 "of_nat ?n"] c16 [of 20 112]
    by (simp_all add: coff_fields_def u16)
  have opt: "rd16 d 88 = Some 0x20B" "rd32 d 104 = Some (ps_entry h)" "rd64 d 112 = Some (ps_base h)"
    "rd32 d 144 = Some (ps_image_size h)" "rd32 d 148 = Some (ps_headers_size h)"
    "rd16 d 156 = Some (ps_subsystem h)" "rd16 d 158 = Some (ps_dll_chars h)" "rd32 d 196 = Some 0"
    using o16 [of 0 "0x20B"] o32 [of 16 "ucast (ps_entry h)"] o64 [of 24 "ps_base h"]
      o32 [of 56 "ucast (ps_image_size h)"] o32 [of 60 "ucast (ps_headers_size h)"]
      o16 [of 68 "ucast (ps_subsystem h)"] o16 [of 70 "ucast (ps_dll_chars h)"] o32 [of 108 0]
    by (simp_all add: opt_fields_def u16 u32)
  have secs: "read_sections d 200 ?n = Some (map (sec_image (length d)) secs)"
    by (rule read_sections_built [OF d4 assms(2)]) (simp add: ld)
  have len: "200 \<le> length d" using d4 ld by simp
  show ?thesis
    unfolding d_def [symmetric] wg_pe_load_memory_def Let_def
    using len dos16 dos32 coff opt secs un assms(1)
    by (simp add: sizeof_DOSHeader_def sizeof_COFFHeader_def IMAGE_DOS_SIGNATURE_def
        IMAGE_NT_SIGNATURE_def read_optional_def IMAGE_NT_OPTIONAL_HDR64_MAGIC_def min_def
        read_directories_def spec_image_def)
qed

end
