(* ===== verification/Windows.thy ===== *)
theory Windows
  imports Interfaces
begin

text \<open>
  The window manager of \<open>Sources/Win32/wg_win32_windows.{h,c}\<close>: the static table of 64 windows,
  their creation with the defaults for missing sizes, lookup by handle, visibility, destruction,
  titles and the lazily allocated client framebuffer. A title argument is the list of the UTF-16
  units before the terminator, \<open>None\<close> the NULL pointer. \<open>alloc_ok\<close> says whether \<open>malloc\<close>
  succeeds.
\<close>

definition WG_MAX_WINDOWS :: nat where "WG_MAX_WINDOWS = 64"
definition WG_HWND_BASE :: u32 where "WG_HWND_BASE = 0x00010000"
definition WG_TITLEBAR_H :: int where "WG_TITLEBAR_H = 32"

record window =
  whandle :: u32
  wx :: int
  wy :: int
  ww :: int
  wh :: int
  title :: "u16 list"
  visible :: bool
  alive :: bool
  style :: u32
  ex_style :: u32
  bg_color :: u32
  parent :: u32
  class_atom :: u32
  needs_paint :: bool
  wndproc :: u32
  client :: "u32 list option"
  client_w :: int
  client_h :: int
  client_dirty :: bool

record wm =
  windows :: "window list"
  wcount :: nat
  wnext :: u32
  dirty :: bool

definition zero_window :: window where
  "zero_window = \<lparr>whandle = 0, wx = 0, wy = 0, ww = 0, wh = 0, title = [], visible = False,
     alive = False, style = 0, ex_style = 0, bg_color = 0, parent = 0, class_atom = 0,
     needs_paint = False, wndproc = 0, client = None, client_w = 0, client_h = 0,
     client_dirty = False\<rparr>"

text \<open>\<open>static WGWindowManager s_wm = {0}\<close>.\<close>

definition zero_wm :: wm where
  "zero_wm = \<lparr>windows = replicate WG_MAX_WINDOWS zero_window, wcount = 0, wnext = 0, dirty = False\<rparr>"

definition wg_wm_get :: "wm \<Rightarrow> wm" where
  "wg_wm_get m = (if wnext m = 0 then m\<lparr>wnext := WG_HWND_BASE\<rparr> else m)"

definition CW_USEDEFAULT :: int where "CW_USEDEFAULT = - (2 ^ 31)"

text \<open>The defaults for position and size.\<close>

definition default_pos :: "int \<Rightarrow> int" where
  "default_pos p = (if p = CW_USEDEFAULT then 100 else p)"

definition default_size :: "int \<Rightarrow> int \<Rightarrow> int" where
  "default_size d n =
     (let n = (if n = CW_USEDEFAULT then d else n) in if n \<le> 0 then d else n)"

text \<open>At most 255 units of a title are kept.\<close>

definition clip_title :: "u16 list \<Rightarrow> u16 list" where
  "clip_title t = take 255 t"

record window_args =
  a_ex_style :: u32
  a_class_atom :: u32
  a_title :: "u16 list option"
  a_style :: u32
  a_x :: int
  a_y :: int
  a_w :: int
  a_h :: int
  a_parent :: u32

definition new_window :: "u32 \<Rightarrow> window_args \<Rightarrow> window" where
  "new_window h a = zero_window\<lparr>whandle := h, wx := default_pos (a_x a), wy := default_pos (a_y a),
     ww := default_size 640 (a_w a), wh := default_size 480 (a_h a), style := a_style a,
     ex_style := a_ex_style a, parent := a_parent a, class_atom := a_class_atom a, alive := True,
     visible := (a_style a AND 0x10000000 \<noteq> 0), bg_color := 0x2D2D2D, needs_paint := True,
     title := (case a_title a of None \<Rightarrow> [] | Some t \<Rightarrow> clip_title t)\<rparr>"

text \<open>\<open>None\<close> is the returned 0.\<close>

definition wg_wm_create_window :: "window_args \<Rightarrow> wm \<Rightarrow> u32 option \<times> wm" where
  "wg_wm_create_window a m =
     (let m = wg_wm_get m
      in if WG_MAX_WINDOWS \<le> wcount m then (None, m)
         else let h = wnext m
              in (Some h, m\<lparr>windows := (windows m)[wcount m := new_window h a],
                    wcount := wcount m + 1, wnext := wnext m + 1, dirty := True\<rparr>))"

definition wm_find :: "wm \<Rightarrow> u32 \<Rightarrow> nat option" where
  "wm_find m hwnd = find_index (\<lambda>w. whandle w = hwnd \<and> alive w) (take (wcount m) (windows m))"

text \<open>\<open>wg_wm_find\<close>: the call of \<open>wg_wm_get\<close> sets the counter, then the loop.\<close>

definition wg_wm_find :: "u32 \<Rightarrow> wm \<Rightarrow> nat option \<times> wm" where
  "wg_wm_find hwnd m = (let m = wg_wm_get m in (wm_find m hwnd, m))"

definition upd_window :: "wm \<Rightarrow> nat \<Rightarrow> (window \<Rightarrow> window) \<Rightarrow> wm" where
  "upd_window m i f = m\<lparr>windows := (windows m)[i := f (windows m ! i)]\<rparr>"

definition wg_wm_show :: "u32 \<Rightarrow> int \<Rightarrow> wm \<Rightarrow> wm" where
  "wg_wm_show hwnd cmd m =
     (let (r, m) = wg_wm_find hwnd m
      in case r of
           None \<Rightarrow> m
         | Some i \<Rightarrow>
             let was_visible = visible (windows m ! i);
                 m = upd_window m i (\<lambda>w. w\<lparr>visible := (cmd \<noteq> 0)\<rparr>)
             in if visible (windows m ! i) \<noteq> was_visible then m\<lparr>dirty := True\<rparr> else m)"

definition wg_wm_destroy :: "u32 \<Rightarrow> wm \<Rightarrow> wm" where
  "wg_wm_destroy hwnd m =
     (let (r, m) = wg_wm_find hwnd m
      in case r of
           None \<Rightarrow> m
         | Some i \<Rightarrow> (upd_window m i (\<lambda>w. w\<lparr>alive := False, visible := False\<rparr>))\<lparr>dirty := True\<rparr>)"

definition wg_wm_reset :: "wm \<Rightarrow> wm" where
  "wg_wm_reset m = \<lparr>windows = replicate WG_MAX_WINDOWS zero_window, wcount = 0, wnext = WG_HWND_BASE,
     dirty = True\<rparr>"

text \<open>The client size; the pixel loop runs to the \<open>int\<close> product \<open>cw * ch\<close>, whose overflow is
  undefined.\<close>

definition client_size :: "window \<Rightarrow> int \<times> int" where
  "client_size w =
     (let ch = wh w - (if parent w = 0 then WG_TITLEBAR_H else 0)
      in (if ww w < 1 then 1 else ww w, if ch < 1 then 1 else ch))"

text \<open>The index of the window whose framebuffer is returned, \<open>None\<close> for NULL.\<close>

definition wg_wm_get_client :: "bool \<Rightarrow> u32 \<Rightarrow> wm \<Rightarrow> (nat option \<times> wm) ub" where
  "wg_wm_get_client alloc_ok hwnd m =
     (let (r, m) = wg_wm_find hwnd m
      in case r of
           None \<Rightarrow> Some (None, m)
         | Some i \<Rightarrow>
             if client (windows m ! i) = None then
               (let (cw, ch) = client_size (windows m ! i)
                in if \<not> alloc_ok then Some (None, m)
                   else do {
                     guard (cw * ch < 2 ^ 31);
                     Some (Some i, upd_window m i (\<lambda>w. w\<lparr>client := Some (replicate (nat (cw * ch)) 0xFFF0F0F0),
                       client_w := cw, client_h := ch, client_dirty := True\<rparr>))
                   })
             else Some (Some i, m))"

definition wg_wm_set_text :: "u32 \<Rightarrow> u16 list option \<Rightarrow> wm \<Rightarrow> wm" where
  "wg_wm_set_text hwnd text m =
     (let (r, m) = wg_wm_find hwnd m
      in case r of
           None \<Rightarrow> m
         | Some i \<Rightarrow>
             let m = (case text of
                        None \<Rightarrow> m
                      | Some t \<Rightarrow> upd_window m i (\<lambda>w. w\<lparr>title := clip_title t\<rparr>))
             in m\<lparr>dirty := True\<rparr>)"

definition wg_wm_visible_count :: "wm \<Rightarrow> nat \<times> wm" where
  "wg_wm_visible_count m =
     (let m = wg_wm_get m
      in (length (filter (\<lambda>w. alive w \<and> visible w) (take (wcount m) (windows m))), m))"

section \<open>Well-formed window tables\<close>

text \<open>The windows are created in the order of their handles and never reuse a slot; a framebuffer
  has exactly the pixels of the client size.\<close>

definition window_ok :: "window \<Rightarrow> bool" where
  "window_ok w \<longleftrightarrow> length (title w) \<le> 255 \<and>
     (\<forall>px. client w = Some px \<longrightarrow> 1 \<le> client_w w \<and> 1 \<le> client_h w \<and>
        client_w w * client_h w < 2 ^ 31 \<and> length px = nat (client_w w * client_h w))"

definition wf_wm :: "wm \<Rightarrow> bool" where
  "wf_wm m \<longleftrightarrow> length (windows m) = WG_MAX_WINDOWS \<and> wcount m \<le> WG_MAX_WINDOWS \<and>
     wnext (wg_wm_get m) = WG_HWND_BASE + of_nat (wcount m) \<and>
     (\<forall>i < WG_MAX_WINDOWS. alive (windows m ! i) \<longrightarrow>
        i < wcount m \<and> whandle (windows m ! i) = WG_HWND_BASE + of_nat i) \<and>
     (\<forall>w \<in> set (windows m). window_ok w)"

lemma wf_wmD:
  assumes "wf_wm m"
  shows "length (windows m) = WG_MAX_WINDOWS" and "wcount m \<le> WG_MAX_WINDOWS"
    and "wnext (wg_wm_get m) = WG_HWND_BASE + of_nat (wcount m)"
    and "i < WG_MAX_WINDOWS \<Longrightarrow> alive (windows m ! i) \<Longrightarrow> i < wcount m"
    and "i < WG_MAX_WINDOWS \<Longrightarrow> alive (windows m ! i) \<Longrightarrow> whandle (windows m ! i) = WG_HWND_BASE + of_nat i"
    and "i < WG_MAX_WINDOWS \<Longrightarrow> window_ok (windows m ! i)"
proof -
  show len: "length (windows m) = WG_MAX_WINDOWS" using assms by (simp add: wf_wm_def)
  show "i < WG_MAX_WINDOWS \<Longrightarrow> window_ok (windows m ! i)"
    using assms len by (simp add: wf_wm_def)
qed (use assms in \<open>unfold wf_wm_def, blast+\<close>)

lemma get_windows [simp]: "windows (wg_wm_get m) = windows m" "wcount (wg_wm_get m) = wcount m"
  by (simp_all add: wg_wm_get_def)

lemma hwnd_nonzero: "n \<le> WG_MAX_WINDOWS \<Longrightarrow> WG_HWND_BASE + of_nat n \<noteq> 0"
proof -
  assume "n \<le> WG_MAX_WINDOWS"
  then have "unat (WG_HWND_BASE + of_nat n) = 0x10000 + n"
    by (simp add: WG_HWND_BASE_def WG_MAX_WINDOWS_def unat_word_ariths unat_of_nat take_bit_nat_eq_self)
  then show ?thesis by (metis add_is_0 unsigned_0 zero_neq_numeral)
qed

lemma get_idem [simp]: "wg_wm_get (wg_wm_get m) = wg_wm_get m"
  by (simp add: wg_wm_get_def WG_HWND_BASE_def)

lemma wf_get: "wf_wm m \<Longrightarrow> wf_wm (wg_wm_get m)"
  by (simp add: wf_wm_def)

lemma window_ok_zero: "window_ok zero_window"
  by (simp add: window_ok_def zero_window_def)

lemma window_ok_new: "window_ok (new_window h a)"
  by (simp add: window_ok_def new_window_def zero_window_def clip_title_def split: option.splits)

lemma wf_zero: "wf_wm zero_wm" and wf_reset: "wf_wm (wg_wm_reset m)"
  by (auto simp: wf_wm_def zero_wm_def wg_wm_reset_def wg_wm_get_def window_ok_zero WG_HWND_BASE_def)
    (simp_all add: zero_window_def)

text \<open>An update of one window that keeps its handle and does not revive it.\<close>

lemma wf_upd:
  assumes wf: "wf_wm m" and i: "i < WG_MAX_WINDOWS" and h: "whandle (f (windows m ! i)) = whandle (windows m ! i)"
    and a: "alive (f (windows m ! i)) \<Longrightarrow> alive (windows m ! i)" and ok: "window_ok (f (windows m ! i))"
  shows "wf_wm (upd_window m i f)"
proof -
  have len: "length (windows m) = WG_MAX_WINDOWS" by (rule wf_wmD(1) [OF wf])
  have nth: "windows (upd_window m i f) ! j = (if j = i then f (windows m ! i) else windows m ! j)"
    if "j < WG_MAX_WINDOWS" for j using that len by (simp add: upd_window_def nth_list_update)
  have g: "wnext (wg_wm_get (upd_window m i f)) = wnext (wg_wm_get m)"
    by (simp add: upd_window_def wg_wm_get_def)
  have "window_ok w" if "w \<in> set (windows (upd_window m i f))" for w
  proof -
    from that obtain j where j: "j < WG_MAX_WINDOWS" "w = windows (upd_window m i f) ! j"
      using len by (auto simp: in_set_conv_nth upd_window_def)
    then show ?thesis using nth [OF j(1)] ok wf_wmD(6) [OF wf j(1)] by simp
  qed
  moreover have "j < wcount m \<and> whandle (windows (upd_window m i f) ! j) = WG_HWND_BASE + of_nat j"
    if "j < WG_MAX_WINDOWS" "alive (windows (upd_window m i f) ! j)" for j
    using that nth [OF that(1)] a h wf_wmD(4,5) [OF wf that(1)] by (cases "j = i") simp_all
  ultimately show ?thesis
    using len g wf_wmD(2,3) [OF wf] by (simp add: wf_wm_def upd_window_def)
qed

lemma wf_dirty: "wf_wm (m\<lparr>dirty := b\<rparr>) = wf_wm m"
  by (simp add: wf_wm_def wg_wm_get_def)

lemma wm_find_SomeD:
  assumes "wf_wm m" and "wm_find m hwnd = Some i"
  shows "i < WG_MAX_WINDOWS" and "i < wcount m" and "whandle (windows m ! i) = hwnd" and "alive (windows m ! i)"
  using find_index_SomeD [OF assms(2) [unfolded wm_find_def]] wf_wmD(1,2) [OF assms(1)] by simp_all

text \<open>Searching the first \<open>count\<close> windows is searching all of them.\<close>

lemma wm_find_all:
  assumes "wf_wm m"
  shows "wm_find m hwnd = find_index (\<lambda>w. alive w \<and> whandle w = hwnd) (windows m)"
proof (cases "find_index (\<lambda>w. alive w \<and> whandle w = hwnd) (windows m)")
  case None
  then have "wm_find m hwnd = None" by (auto simp: wm_find_def dest: in_set_takeD)
  with None show ?thesis by (simp only:)
next
  case (Some i)
  note f = find_index_SomeD [OF Some]
  have "i < wcount m" using f wf_wmD(1,4) [OF assms] by simp
  then have "wm_find m hwnd = Some i"
    using Some unfolding wm_find_def find_index_Some by auto
  with Some show ?thesis by simp
qed

lemma wf_create: "wf_wm m \<Longrightarrow> wf_wm (snd (wg_wm_create_window a m))"
proof -
  assume wf: "wf_wm m"
  show ?thesis
  proof (cases "WG_MAX_WINDOWS \<le> wcount m")
    case True
    then show ?thesis using wf_get [OF wf] by (simp add: wg_wm_create_window_def Let_def)
  next
    case False
    let ?m = "snd (wg_wm_create_window a m)" and ?h = "WG_HWND_BASE + of_nat (wcount m)"
    have len: "length (windows m) = WG_MAX_WINDOWS" by (rule wf_wmD(1) [OF wf])
    have m: "windows ?m = (windows m)[wcount m := new_window ?h a]" "wcount ?m = wcount m + 1"
      "wnext ?m = WG_HWND_BASE + of_nat (wcount m + 1)"
      using False wf_wmD(3) [OF wf] by (simp_all add: wg_wm_create_window_def Let_def)
    have nz: "wnext ?m \<noteq> 0" unfolding m(3) by (rule hwnd_nonzero) (use False in simp)
    have nth: "windows ?m ! j = (if j = wcount m then new_window ?h a else windows m ! j)"
      if "j < WG_MAX_WINDOWS" for j using that len m(1) by (simp add: nth_list_update)
    have "window_ok w" if w: "w \<in> set (windows ?m)" for w
    proof -
      from w obtain j where j: "j < WG_MAX_WINDOWS" "w = windows ?m ! j"
        using len m(1) by (metis in_set_conv_nth length_list_update)
      then show ?thesis using nth [OF j(1)] window_ok_new wf_wmD(6) [OF wf j(1)] by simp
    qed
    moreover have "j < wcount ?m \<and> whandle (windows ?m ! j) = WG_HWND_BASE + of_nat j"
      if j: "j < WG_MAX_WINDOWS" "alive (windows ?m ! j)" for j
    proof (cases "j = wcount m")
      case True
      then show ?thesis using nth [OF j(1)] m(2) by (simp add: new_window_def)
    next
      case False
      then have "alive (windows m ! j)" using j nth [OF j(1)] by simp
      then show ?thesis using False nth [OF j(1)] wf_wmD(4,5) [OF wf j(1)] m(2) by simp
    qed
    moreover have "wg_wm_get ?m = ?m" using nz by (simp add: wg_wm_get_def)
    ultimately show ?thesis using len m False by (simp add: wf_wm_def)
  qed
qed

section \<open>The handle table of windows\<close>

lemma destroy_counter: "wnext (wg_wm_get (wg_wm_destroy h m)) = wnext (wg_wm_get m)"
proof -
  have "wnext (wg_wm_destroy h m) = wnext (wg_wm_get m)"
    by (simp add: wg_wm_destroy_def wg_wm_find_def upd_window_def Let_def split: option.split)
  moreover have "wnext (wg_wm_get m) \<noteq> 0" by (simp add: wg_wm_get_def WG_HWND_BASE_def)
  ultimately show ?thesis by (simp add: wg_wm_get_def [of "wg_wm_destroy h m"])
qed

interpretation win: handle_table_free alive whandle windows "\<lambda>m. wnext (wg_wm_get m)" wf_wm
    wg_wm_create_window wg_wm_destroy
proof (unfold_locales, goal_cases)
  case (1 m a h m')
  have c: "\<not> WG_MAX_WINDOWS \<le> wcount m"
    using 1(2) by (auto simp: wg_wm_create_window_def Let_def split: if_splits)
  then have h: "h = WG_HWND_BASE + of_nat (wcount m)" and m': "m' = snd (wg_wm_create_window a m)"
    and ws: "windows m' = (windows m)[wcount m := new_window h a]" and cm: "wcount m' = wcount m + 1"
    using 1 wf_wmD(3) [OF 1(1)] by (auto simp: wg_wm_create_window_def Let_def)
  have "wf_wm m'" using wf_create [OF 1(1)] m' by simp
  from wf_wmD(3) [OF this] have "wnext (wg_wm_get m') = wnext (wg_wm_get m) + 1"
    using cm wf_wmD(3) [OF 1(1)] by simp
  moreover have "\<not> alive (windows m ! wcount m)" using c wf_wmD(4) [OF 1(1), of "wcount m"] by auto
  moreover have "alive (new_window h a)" "whandle (new_window h a) = h" by (simp_all add: new_window_def)
  ultimately show ?case
    using c h ws wf_wmD(1,3) [OF 1(1)]
    by (intro conjI exI [of _ "wcount m"] exI [of _ "new_window h a"]) simp_all
next
  case (2 m a m')
  then show ?case by (auto simp: wg_wm_create_window_def Let_def split: if_splits)
next
  case (3 m a)
  then show ?case by (rule wf_create)
next
  case (4 m h)
  then have "wm_find (wg_wm_get m) h = None" using wm_find_all [OF wf_get [OF 4(1)], of h] by simp
  then show ?case by (simp add: wg_wm_destroy_def wg_wm_find_def)
next
  case (5 m h i)
  then have "wm_find (wg_wm_get m) h = Some i" using wm_find_all [OF wf_get [OF 5(1)], of h] by simp
  then show ?case
    by (intro exI [of _ "(windows m ! i)\<lparr>alive := False, visible := False\<rparr>"])
      (simp add: wg_wm_destroy_def wg_wm_find_def upd_window_def)
next
  case (6 m h)
  show ?case by (rule destroy_counter)
next
  case (7 m h)
  note wf = wf_get [OF 7]
  show ?case
  proof (cases "wm_find (wg_wm_get m) h")
    case None
    then show ?thesis using wf by (simp add: wg_wm_destroy_def wg_wm_find_def)
  next
    case (Some i)
    note f = wm_find_SomeD [OF wf Some]
    have "wf_wm (upd_window (wg_wm_get m) i (\<lambda>w. w\<lparr>alive := False, visible := False\<rparr>))"
      by (rule wf_upd [OF wf f(1)]) (use wf_wmD(6) [OF wf f(1)] in \<open>simp_all add: window_ok_def\<close>)
    then show ?thesis using Some by (simp add: wg_wm_destroy_def wg_wm_find_def wf_dirty)
  qed
qed

lemma wm_owner: "wf_wm m \<Longrightarrow> wm_find m h = win.owner m h"
  by (simp add: wm_find_all win.owner_def)

lemma table_inv_wf:
  assumes "wf_wm m"
  shows "win.table_inv m"
proof -
  have c: "wcount m \<le> WG_MAX_WINDOWS" and n: "wnext (wg_wm_get m) = WG_HWND_BASE + of_nat (wcount m)"
    using wf_wmD(2,3) [OF assms] .
  have un: "unat (WG_HWND_BASE + of_nat k) = 0x10000 + k" if "k \<le> WG_MAX_WINDOWS" for k
    using that by (simp add: WG_HWND_BASE_def WG_MAX_WINDOWS_def unat_word_ariths unat_of_nat
        take_bit_nat_eq_self)
  have "whandle w < wnext (wg_wm_get m)" if w: "w \<in> set (windows m)" "alive w" for w
  proof -
    from w(1) obtain i where i: "i < WG_MAX_WINDOWS" "w = windows m ! i"
      using wf_wmD(1) [OF assms] by (metis in_set_conv_nth)
    with w(2) have "i < wcount m" "whandle w = WG_HWND_BASE + of_nat i"
      using wf_wmD(4,5) [OF assms i(1)] by simp_all
    then show ?thesis using n c un [of i] un [of "wcount m"] by (simp add: word_less_nat_alt)
  qed
  moreover have "i = j"
    if "i < WG_MAX_WINDOWS" "j < WG_MAX_WINDOWS" "alive (windows m ! i)" "alive (windows m ! j)"
      "whandle (windows m ! i) = whandle (windows m ! j)" for i j
  proof -
    have "WG_HWND_BASE + of_nat i = WG_HWND_BASE + of_nat j"
      using wf_wmD(5) [OF assms that(1,3)] wf_wmD(5) [OF assms that(2,4)] that(5) by (simp only:)
    with un [of i] un [of j] that(1,2) show "i = j" by (metis add_left_cancel less_imp_le)
  qed
  ultimately show ?thesis
    using wf_wmD(1) [OF assms] assms
    by (simp add: win.table_inv_def win.issued_below_def win.handles_unique_def)
qed

lemma table_invD':
  assumes "wf_wm m"
  shows "\<lbrakk>i < WG_MAX_WINDOWS; j < WG_MAX_WINDOWS; alive (windows m ! i); alive (windows m ! j);
    whandle (windows m ! i) = whandle (windows m ! j)\<rbrakk> \<Longrightarrow> i = j"
  using table_inv_wf [OF assms] wf_wmD(1) [OF assms]
  by (simp add: win.table_inv_def win.handles_unique_def)

section \<open>What the window manager promises\<close>

lemma wm_find_get: "wm_find (wg_wm_get m) h = wm_find m h"
  by (simp add: wm_find_def)

text \<open>A new window is found under its handle, which no live window had.\<close>

lemma create_then_find:
  assumes wf: "wf_wm m" and c: "wg_wm_create_window a m = (Some h, m')"
  shows "wm_find m h = None \<and> wm_find m' h = Some (wcount m) \<and> windows m' ! wcount m = new_window h a \<and>
    (\<forall>k. k \<noteq> h \<longrightarrow> wm_find m' k = wm_find m k)"
proof (intro conjI allI impI)
  note inv = table_inv_wf [OF wf]
  have wf': "wf_wm m'" using wf_create [OF wf, of a] c by simp
  have ws: "windows m' = (windows m)[wcount m := new_window h a]" and room: "wcount m < WG_MAX_WINDOWS"
    using c by (auto simp: wg_wm_create_window_def Let_def split: if_splits)
  show "wm_find m h = None" using win.alloc_handle_fresh [OF inv c] wm_owner [OF wf] by (simp only:)
  show at: "windows m' ! wcount m = new_window h a"
    using ws room wf_wmD(1) [OF wf] by simp
  obtain i where o: "win.owner m' h = Some i" using win.alloc_owner [OF inv c] by blast
  then have f: "wm_find m' h = Some i" using wm_owner [OF wf'] by simp
  note fi = wm_find_SomeD [OF wf' f]
  have "i = wcount m"
  proof (rule ccontr)
    assume ne: "i \<noteq> wcount m"
    with ws have "windows m' ! i = windows m ! i" by simp
    then have "alive (windows m ! i)" "whandle (windows m ! i) = h" using fi by simp_all
    then have "win.owner m h \<noteq> None"
      using fi(1) wf_wmD(1) [OF wf] by (auto simp: win.owner_def simp del: not_None_eq)
    then show False using win.alloc_handle_fresh [OF inv c] by simp
  qed
  with f show "wm_find m' h = Some (wcount m)" by simp
  show "wm_find m' k = wm_find m k" if "k \<noteq> h" for k
    using win.alloc_owner_other [OF inv c that] wm_owner [OF wf] wm_owner [OF wf'] by simp
qed

text \<open>A destroyed window is not found any more, the other windows are.\<close>

lemma destroy_then_find:
  assumes wf: "wf_wm m"
  shows "wm_find (wg_wm_destroy h m) k = (if k = h then None else wm_find m k)"
proof -
  note inv = table_inv_wf [OF wf]
  have o: "wm_find (wg_wm_destroy h m) k = win.owner (wg_wm_destroy h m) k"
    by (rule wm_owner) (rule win.wf_release [OF wf])
  show ?thesis
    using win.release_owner [OF inv, of h] win.release_owner_other [OF inv, of k h] wm_owner [OF wf, of k] o
    by simp
qed

lemma wf_show: "wf_wm m \<Longrightarrow> wf_wm (wg_wm_show h cmd m)"
proof -
  assume "wf_wm m"
  note wf = wf_get [OF this]
  show ?thesis
  proof (cases "wm_find (wg_wm_get m) h")
    case None
    then show ?thesis using wf by (simp add: wg_wm_show_def wg_wm_find_def)
  next
    case (Some i)
    note f = wm_find_SomeD [OF wf Some]
    have "wf_wm (upd_window (wg_wm_get m) i (\<lambda>w. w\<lparr>visible := (cmd \<noteq> 0)\<rparr>))"
      by (rule wf_upd [OF wf f(1)]) (use wf_wmD(6) [OF wf f(1)] in \<open>simp_all add: window_ok_def\<close>)
    then show ?thesis using Some by (simp add: wg_wm_show_def wg_wm_find_def Let_def wf_dirty)
  qed
qed

lemma wf_set_text: "wf_wm m \<Longrightarrow> wf_wm (wg_wm_set_text h t m)"
proof -
  assume "wf_wm m"
  note wf = wf_get [OF this]
  show ?thesis
  proof (cases "wm_find (wg_wm_get m) h")
    case None
    then show ?thesis using wf by (simp add: wg_wm_set_text_def wg_wm_find_def)
  next
    case (Some i)
    note f = wm_find_SomeD [OF wf Some]
    have "wf_wm (upd_window (wg_wm_get m) i (\<lambda>w. w\<lparr>title := clip_title s\<rparr>))" for s
      by (rule wf_upd [OF wf f(1)])
        (use wf_wmD(6) [OF wf f(1)] in \<open>simp_all add: window_ok_def clip_title_def\<close>)
    then show ?thesis using Some wf
      by (simp add: wg_wm_set_text_def wg_wm_find_def Let_def wf_dirty split: option.split)
  qed
qed

lemma client_size_pos: "client_size w = (cw, ch) \<Longrightarrow> 1 \<le> cw \<and> 1 \<le> ch"
  by (auto simp: client_size_def Let_def)

lemma wf_get_client:
  assumes "wf_wm m" and r: "wg_wm_get_client ok h m = Some (r, m')"
  shows "wf_wm m'"
proof -
  note wf = wf_get [OF assms(1)]
  show ?thesis
  proof (cases "wm_find (wg_wm_get m) h")
    case None
    then show ?thesis using wf r by (simp add: wg_wm_get_client_def wg_wm_find_def)
  next
    case (Some i)
    note f = wm_find_SomeD [OF wf Some]
    obtain cw ch where cs: "client_size (windows m ! i) = (cw, ch)" by fastforce
    note pos = client_size_pos [OF cs]
    have "wf_wm (upd_window (wg_wm_get m) i (\<lambda>w. w\<lparr>client := Some (replicate (nat (cw * ch)) 0xFFF0F0F0),
        client_w := cw, client_h := ch, client_dirty := True\<rparr>))" if "cw * ch < 2 ^ 31"
      by (rule wf_upd [OF wf f(1)]) (use wf_wmD(6) [OF wf f(1)] that pos in \<open>simp_all add: window_ok_def\<close>)
    then show ?thesis using Some wf r cs
      by (auto simp: wg_wm_get_client_def wg_wm_find_def split: if_splits)
  qed
qed

lemma client_buffer_facts:
  assumes "wf_wm m" and r: "wg_wm_get_client ok h m = Some (Some i, m')"
  shows "i < WG_MAX_WINDOWS \<and> (\<exists>px. client (windows m' ! i) = Some px) \<and> whandle (windows m' ! i) = h \<and>
    wg_wm_get_client ok' h m' = Some (Some i, m')"
proof -
  note wf' = wf_get_client [OF assms]
  note wf = wf_get [OF assms(1)]
  have fi: "wm_find (wg_wm_get m) h = Some i"
    using r by (auto simp: wg_wm_get_client_def wg_wm_find_def Let_def
        split: option.splits if_splits prod.splits)
  note f = wm_find_SomeD [OF wf fi]
  have len: "i < length (windows m)" using f(1) wf_wmD(1) [OF assms(1)] by simp
  have nz: "wnext (wg_wm_get m) \<noteq> 0" by (simp add: wg_wm_get_def WG_HWND_BASE_def)
  have m': "(m' = wg_wm_get m \<and> client (windows m ! i) \<noteq> None) \<or>
     (\<exists>px cw ch. m' = upd_window (wg_wm_get m) i (\<lambda>w. w\<lparr>client := Some px,
       client_w := cw, client_h := ch, client_dirty := True\<rparr>))"
    using r fi by (auto simp: wg_wm_get_client_def wg_wm_find_def
        split: if_splits prod.splits)
  then have c: "client (windows m' ! i) \<noteq> None" and h: "whandle (windows m' ! i) = h"
    and al: "alive (windows m' ! i)" and g: "wg_wm_get m' = m'" and cnt: "i < wcount m'"
    using f len nz by (auto simp: upd_window_def wg_wm_get_def)
  have "wm_find m' h = Some i"
  proof -
    from cnt al h have "win.owner m' h \<noteq> None"
      using f(1) wf_wmD(1) [OF wf'] by (auto simp: win.owner_def simp del: not_None_eq)
    then obtain j where j: "wm_find m' h = Some j" using wm_owner [OF wf'] by auto
    note fj = wm_find_SomeD [OF wf' j]
    have "j = i"
      using table_invD' [OF wf'] fj f(1) al h by simp
    with j show ?thesis by simp
  qed
  then have "wg_wm_get_client ok' h m' = Some (Some i, m')"
    using c g by (auto simp add: wg_wm_get_client_def wg_wm_find_def)
  with c h f(1) show ?thesis by auto
qed

text \<open>The framebuffer: when one is returned it has exactly the pixels of the client area, and asking
  again returns the same buffer and changes nothing.\<close>

theorem get_client_buffer:
  assumes "wf_wm m" and "wg_wm_get_client ok h m = Some (Some i, m')"
  shows "\<exists>px. client (windows m' ! i) = Some px \<and> whandle (windows m' ! i) = h \<and>
    length px = nat (client_w (windows m' ! i) * client_h (windows m' ! i)) \<and>
    wg_wm_get_client ok' h m' = Some (Some i, m')"
proof -
  note b = client_buffer_facts [OF assms, of ok']
  then obtain px where px: "client (windows m' ! i) = Some px" by blast
  have "window_ok (windows m' ! i)" using wf_wmD(6) [OF wf_get_client [OF assms]] b by blast
  with px have "length px = nat (client_w (windows m' ! i) * client_h (windows m' ! i))"
    by (simp add: window_ok_def)
  with b px show ?thesis by blast
qed

end
