(* ===== verification/Bitmap.thy ===== *)
theory Bitmap
  imports Interfaces
begin

text \<open>
  The bitmap objects of \<open>Sources/Win32/wg_win32_bitmap.{h,c}\<close>: the table of 64 slots with
  their pixel buffers and the decoder of uncompressed device-independent bitmaps (8, 24 and 32
  bits per pixel, bottom-up or top-down). A pointer into source memory is an offset into a list of
  bytes, a read past its end is undefined. \<open>calloc_ok\<close> and \<open>malloc_ok\<close> say whether
  the allocations succeed. The theorems: every slot in use holds exactly \<open>w * h\<close> pixels, the
  decoder puts every source pixel where the format says, and it stays inside a \<open>.bmp\<close> file
  whenever the image has no palette.
\<close>

definition MAX_BITMAPS :: nat where "MAX_BITMAPS = 64"
definition WG_HBITMAP_BASE :: u32 where "WG_HBITMAP_BASE = 0x0B170000"

record bitmap =
  bm_used :: bool
  bm_handle :: u32
  bm_w :: int
  bm_h :: int
  bm_px :: "u32 list"

record bitmaps =
  bmps :: "bitmap list"
  bm_next :: u32

definition zero_bitmap :: bitmap where
  "zero_bitmap = \<lparr>bm_used = False, bm_handle = 0, bm_w = 0, bm_h = 0, bm_px = []\<rparr>"

definition initial_bitmaps :: bitmaps where
  "initial_bitmaps = \<lparr>bmps = replicate MAX_BITMAPS zero_bitmap, bm_next = WG_HBITMAP_BASE\<rparr>"

definition bm_find :: "u32 \<Rightarrow> bitmaps \<Rightarrow> nat option" where
  "bm_find h t = find_index (\<lambda>b. bm_used b \<and> bm_handle b = h) (bmps t)"

text \<open>The slot is an index, \<open>None\<close> the NULL pointer. \<open>calloc\<close> clears the pixels.\<close>

definition alloc_slot :: "bool \<Rightarrow> int \<Rightarrow> int \<Rightarrow> bitmaps \<Rightarrow> nat option \<times> bitmaps" where
  "alloc_slot calloc_ok w h t =
     (if w \<le> 0 \<or> h \<le> 0 \<or> 16384 < w \<or> 16384 < h then (None, t)
      else case find_index (\<lambda>b. \<not> bm_used b) (bmps t) of
             None \<Rightarrow> (None, t)
           | Some i \<Rightarrow>
               if \<not> calloc_ok then (None, t\<lparr>bmps := (bmps t)[i := (bmps t ! i)\<lparr>bm_px := []\<rparr>]\<rparr>)
               else (Some i, t\<lparr>bmps := (bmps t)[i := \<lparr>bm_used = True, bm_handle = bm_next t,
                        bm_w = w, bm_h = h, bm_px = replicate (nat (w * h)) 0\<rparr>],
                      bm_next := bm_next t + 1\<rparr>))"

section \<open>The decoder\<close>

definition byte_at :: "u8 list \<Rightarrow> nat \<Rightarrow> u8 ub" where
  "byte_at mem p = (if p < length mem then Some (mem ! p) else undef)"

definition bmp_rd32 :: "u8 list \<Rightarrow> nat \<Rightarrow> u32 ub" where
  "bmp_rd32 mem p = do {
     b0 \<leftarrow> byte_at mem p; b1 \<leftarrow> byte_at mem (p + 1);
     b2 \<leftarrow> byte_at mem (p + 2); b3 \<leftarrow> byte_at mem (p + 3);
     Some (ucast b0 OR push_bit 8 (ucast b1) OR push_bit 16 (ucast b2) OR push_bit 24 (ucast b3)) }"

definition bmp_rd16 :: "u8 list \<Rightarrow> nat \<Rightarrow> u16 ub" where
  "bmp_rd16 mem p = do {
     b0 \<leftarrow> byte_at mem p; b1 \<leftarrow> byte_at mem (p + 1);
     Some (ucast b0 OR push_bit 8 (ucast b1)) }"

definition pack :: "u8 \<Rightarrow> u8 \<Rightarrow> u8 \<Rightarrow> u8 \<Rightarrow> u32" where
  "pack r g b a = ucast r OR push_bit 8 (ucast g) OR push_bit 16 (ucast b) OR push_bit 24 (ucast a)"

text \<open>The body of the inner loop: the pixel \<open>x\<close> of the row that starts at \<open>row\<close>.\<close>

definition dib_pixel :: "u8 list \<Rightarrow> nat \<Rightarrow> u32 \<Rightarrow> nat \<Rightarrow> nat \<Rightarrow> nat \<Rightarrow> u32 ub" where
  "dib_pixel mem pal pal_n bpp row x =
     (if bpp = 8 then do {
        idx \<leftarrow> byte_at mem (row + x);
        if ucast idx < pal_n then do {
          b \<leftarrow> byte_at mem (pal + unat idx * 4);
          g \<leftarrow> byte_at mem (pal + unat idx * 4 + 1);
          r \<leftarrow> byte_at mem (pal + unat idx * 4 + 2);
          Some (pack r g b 0xFF) }
        else Some (pack idx idx idx 0xFF) }
      else if bpp = 24 then do {
        b \<leftarrow> byte_at mem (row + x * 3);
        g \<leftarrow> byte_at mem (row + x * 3 + 1);
        r \<leftarrow> byte_at mem (row + x * 3 + 2);
        Some (pack r g b 0xFF) }
      else do {
        b \<leftarrow> byte_at mem (row + x * 4);
        g \<leftarrow> byte_at mem (row + x * 4 + 1);
        r \<leftarrow> byte_at mem (row + x * 4 + 2);
        a \<leftarrow> byte_at mem (row + x * 4 + 3);
        Some (pack r g b (if a \<noteq> 0 then a else 0xFF)) })"

text \<open>The two loops: \<open>x\<close> and \<open>y\<close> count up, the first argument is what is left, so that in
  the body of the outer loop \<open>n\<close> is \<open>H - 1 - y\<close>, the row of a bottom-up image.\<close>

fun decode_row :: "nat \<Rightarrow> (nat \<Rightarrow> u32 ub) \<Rightarrow> nat \<Rightarrow> nat \<Rightarrow> u32 list \<Rightarrow> u32 list ub" where
  "decode_row 0 pixel dst x px = Some px"
| "decode_row (Suc n) pixel dst x px = do {
     v \<leftarrow> pixel x;
     guard (dst + x < length px);
     decode_row n pixel dst (x + 1) (px[dst + x := v]) }"

fun decode_rows :: "nat \<Rightarrow> (nat \<Rightarrow> nat \<Rightarrow> u32 ub) \<Rightarrow> bool \<Rightarrow> nat \<Rightarrow> nat \<Rightarrow> nat \<Rightarrow> nat
    \<Rightarrow> u32 list \<Rightarrow> u32 list ub" where
  "decode_rows 0 pixel top_down bits stride W y px = Some px"
| "decode_rows (Suc n) pixel top_down bits stride W y px = do {
     px \<leftarrow> decode_row W (pixel (bits + y * stride)) ((if top_down then y else n) * W) 0 px;
     decode_rows n pixel top_down bits stride W (y + 1) px }"

text \<open>Rows are padded to four bytes.\<close>

definition dib_stride :: "nat \<Rightarrow> nat \<Rightarrow> nat" where
  "dib_stride W bytespp = (W * bytespp + 3) div 4 * 4"

text \<open>\<open>cap = 0\<close> is the unbounded read. The result 0 says that no bitmap was made.\<close>

definition decode_dib :: "bool \<Rightarrow> u8 list \<Rightarrow> nat \<Rightarrow> nat \<Rightarrow> nat \<Rightarrow> bitmaps \<Rightarrow> (u32 \<times> bitmaps) ub" where
  "decode_dib calloc_ok mem bih bits cap t = do {
     biSize \<leftarrow> bmp_rd32 mem bih;
     w \<leftarrow> bmp_rd32 mem (bih + 4);
     h \<leftarrow> bmp_rd32 mem (bih + 8);
     biBpp \<leftarrow> bmp_rd16 mem (bih + 14);
     biComp \<leftarrow> bmp_rd32 mem (bih + 16);
     biClrUsed \<leftarrow> bmp_rd32 mem (bih + 32);
     if biSize < 40 then Some (0, t)
     else if biComp \<noteq> 0 then Some (0, t)
     else do {
       let top_down = sint h < 0;
       let W = sint w;
       guard (sint h \<noteq> - (2 ^ 31));
       let H = (if top_down then - sint h else sint h);
       if W \<le> 0 \<or> H \<le> 0 \<or> 16384 < W \<or> 16384 < H then Some (0, t)
       else if biBpp \<noteq> 8 \<and> biBpp \<noteq> 24 \<and> biBpp \<noteq> 32 then Some (0, t)
       else do {
         let pal = bih + unat biSize;
         let pal_n = (if biClrUsed \<noteq> 0 then biClrUsed else if biBpp \<le> 8 then push_bit (unat biBpp) 1 else 0);
         case alloc_slot calloc_ok W H t of
           (None, t) \<Rightarrow> Some (0, t)
         | (Some i, t) \<Rightarrow> do {
             let stride = dib_stride (nat W) (unat biBpp div 8);
             if cap \<noteq> 0 \<and> cap < stride * nat H then Some (bm_handle (bmps t ! i), t)
             else do {
               px \<leftarrow> decode_rows (nat H) (dib_pixel mem pal pal_n (unat biBpp)) top_down bits stride
                      (nat W) 0 (bm_px (bmps t ! i));
               let t = t\<lparr>bmps := (bmps t)[i := (bmps t ! i)\<lparr>bm_px := px\<rparr>]\<rparr>;
               Some (bm_handle (bmps t ! i), t)
             }
           }
       }
     }
   }"

text \<open>\<open>data\<close> is the buffer of \<open>len\<close> bytes, \<open>None\<close> the NULL pointer.\<close>

definition wg_bitmap_from_bmp_memory :: "bool \<Rightarrow> u8 list option \<Rightarrow> bitmaps \<Rightarrow> (u32 \<times> bitmaps) ub" where
  "wg_bitmap_from_bmp_memory calloc_ok data t =
     (case data of
        None \<Rightarrow> Some (0, t)
      | Some d \<Rightarrow>
          if length d < 54 \<or> d ! 0 \<noteq> 0x42 \<or> d ! 1 \<noteq> 0x4D then Some (0, t)
          else do {
            off_bits \<leftarrow> bmp_rd32 d 10;
            if length d \<le> unat off_bits then Some (0, t)
            else decode_dib calloc_ok d 14 (unat off_bits) (length d - unat off_bits) t
          })"

definition wg_bitmap_from_dib :: "bool \<Rightarrow> u8 list \<Rightarrow> nat \<Rightarrow> nat \<Rightarrow> bitmaps \<Rightarrow> (u32 \<times> bitmaps) ub" where
  "wg_bitmap_from_dib calloc_ok mem bih bits t = decode_dib calloc_ok mem bih bits 0 t"

text \<open>The file system gives the content of a path, \<open>None\<close> when it cannot be opened;
  \<open>fread_ok\<close> says that \<open>fread\<close> delivers all of it.\<close>

definition wg_bitmap_load_file :: "bool \<Rightarrow> bool \<Rightarrow> bool \<Rightarrow> (string \<Rightarrow> u8 list option) \<Rightarrow> string option
    \<Rightarrow> bitmaps \<Rightarrow> (u32 \<times> bitmaps) ub" where
  "wg_bitmap_load_file malloc_ok fread_ok calloc_ok fs path t =
     (case path of
        None \<Rightarrow> Some (0, t)
      | Some p \<Rightarrow>
          (case fs p of
             None \<Rightarrow> Some (0, t)
           | Some d \<Rightarrow>
               if length d < 54 \<or> 64 * 1024 * 1024 < length d then Some (0, t)
               else if \<not> malloc_ok then Some (0, t)
               else if fread_ok then wg_bitmap_from_bmp_memory calloc_ok (Some d) t
               else Some (0, t)))"

section \<open>The other operations\<close>

definition wg_bitmap_create :: "bool \<Rightarrow> int \<Rightarrow> int \<Rightarrow> bitmaps \<Rightarrow> u32 \<times> bitmaps" where
  "wg_bitmap_create calloc_ok w h t =
     (case alloc_slot calloc_ok w h t of
        (None, t) \<Rightarrow> (0, t)
      | (Some i, t) \<Rightarrow> (bm_handle (bmps t ! i), t))"

text \<open>The slot whose pixels are returned, with the size.\<close>

definition wg_bitmap_pixels :: "u32 \<Rightarrow> bitmaps \<Rightarrow> (nat \<times> int \<times> int) option" where
  "wg_bitmap_pixels hbitmap t =
     (case bm_find hbitmap t of
        None \<Rightarrow> None
      | Some i \<Rightarrow> Some (i, bm_w (bmps t ! i), bm_h (bmps t ! i)))"

definition wg_bitmap_is :: "u32 \<Rightarrow> bitmaps \<Rightarrow> bool" where
  "wg_bitmap_is handle t \<longleftrightarrow> bm_find handle t \<noteq> None"

definition wg_bitmap_delete :: "u32 \<Rightarrow> bitmaps \<Rightarrow> bitmaps" where
  "wg_bitmap_delete hbitmap t =
     (case bm_find hbitmap t of
        None \<Rightarrow> t
      | Some i \<Rightarrow> t\<lparr>bmps := (bmps t)[i := (bmps t ! i)\<lparr>bm_px := [], bm_used := False\<rparr>]\<rparr>)"

definition wg_bitmap_reset_all :: "bitmaps \<Rightarrow> bitmaps" where
  "wg_bitmap_reset_all t =
     t\<lparr>bmps := map (\<lambda>b. if bm_used b then b\<lparr>bm_px := [], bm_used := False\<rparr> else b) (bmps t),
       bm_next := WG_HBITMAP_BASE\<rparr>"

section \<open>Well-formed tables\<close>

definition bitmap_ok :: "bitmap \<Rightarrow> bool" where
  "bitmap_ok b \<longleftrightarrow> (if bm_used b then 0 < bm_w b \<and> bm_w b \<le> 16384 \<and> 0 < bm_h b \<and> bm_h b \<le> 16384 \<and>
       length (bm_px b) = nat (bm_w b * bm_h b)
     else bm_px b = [])"

definition wf_bitmaps :: "bitmaps \<Rightarrow> bool" where
  "wf_bitmaps t \<longleftrightarrow> length (bmps t) = MAX_BITMAPS \<and> (\<forall>b \<in> set (bmps t). bitmap_ok b)"

lemma wf_bitmapsD:
  assumes "wf_bitmaps t"
  shows "length (bmps t) = MAX_BITMAPS" and "i < MAX_BITMAPS \<Longrightarrow> bitmap_ok (bmps t ! i)"
  using assms by (simp_all add: wf_bitmaps_def)

lemma wf_set_slot:
  assumes "wf_bitmaps t" and "bitmap_ok b"
  shows "wf_bitmaps (t\<lparr>bmps := (bmps t)[i := b]\<rparr>)"
  using assms set_update_subset_insert [of "bmps t" i b] by (auto simp: wf_bitmaps_def)

lemma wf_set_next: "wf_bitmaps (t\<lparr>bm_next := n\<rparr>) = wf_bitmaps t"
  by (simp add: wf_bitmaps_def)

lemma wf_initial: "wf_bitmaps initial_bitmaps"
  by (simp add: wf_bitmaps_def initial_bitmaps_def bitmap_ok_def zero_bitmap_def)

lemma alloc_slot_SomeD:
  assumes "alloc_slot ok w h t = (Some i, t')"
  shows "find_index (\<lambda>b. \<not> bm_used b) (bmps t) = Some i" and "0 < w \<and> w \<le> 16384 \<and> 0 < h \<and> h \<le> 16384"
    and "t' = t\<lparr>bmps := (bmps t)[i := \<lparr>bm_used = True, bm_handle = bm_next t,
                        bm_w = w, bm_h = h, bm_px = replicate (nat (w * h)) 0\<rparr>],
                      bm_next := bm_next t + 1\<rparr>"
  using assms by (auto simp: alloc_slot_def split: if_splits option.splits)

lemma alloc_slot_NoneD:
  assumes wf: "wf_bitmaps t" and "alloc_slot ok w h t = (None, t')"
  shows "t' = t"
proof (cases "find_index (\<lambda>b. \<not> bm_used b) (bmps t)")
  case None
  then show ?thesis using assms by (auto simp: alloc_slot_def simp del: find_index_None split: if_splits)
next
  case (Some i)
  note f = find_index_SomeD [OF Some]
  have "bitmap_ok (bmps t ! i)" using wf f(1) by (simp add: wf_bitmaps_def)
  then have "(bmps t ! i)\<lparr>bm_px := []\<rparr> = bmps t ! i" using f(2) by (simp add: bitmap_ok_def)
  then show ?thesis using assms Some by (auto simp: alloc_slot_def list_update_id split: if_splits)
qed

lemma wf_alloc_slot: "wf_bitmaps t \<Longrightarrow> wf_bitmaps (snd (alloc_slot ok w h t))"
proof -
  assume wf: "wf_bitmaps t"
  obtain r t' where a: "alloc_slot ok w h t = (r, t')" by fastforce
  show ?thesis
  proof (cases r)
    case None
    then show ?thesis using alloc_slot_NoneD [OF wf, of ok w h t'] a wf by simp
  next
    case (Some i)
    note d = alloc_slot_SomeD [OF a [unfolded Some]]
    have "bitmap_ok \<lparr>bm_used = True, bm_handle = bm_next t, bm_w = w, bm_h = h,
      bm_px = replicate (nat (w * h)) 0\<rparr>" using d(2) by (simp add: bitmap_ok_def)
    from wf_set_slot [OF wf this] show ?thesis using a d(3) by (simp add: wf_set_next)
  qed
qed

lemma wf_delete: "wf_bitmaps t \<Longrightarrow> wf_bitmaps (wg_bitmap_delete h t)"
  by (auto simp: wg_bitmap_delete_def bitmap_ok_def intro: wf_set_slot split: option.split)

lemma wf_reset_all: "wf_bitmaps t \<Longrightarrow> wf_bitmaps (wg_bitmap_reset_all t)"
  by (auto simp: wg_bitmap_reset_all_def wf_bitmaps_def bitmap_ok_def)

text \<open>The allocation seen by a client: the handle, \<open>None\<close> on failure.\<close>

definition bm_alloc :: "bool \<times> int \<times> int \<Rightarrow> bitmaps \<Rightarrow> u32 option \<times> bitmaps" where
  "bm_alloc a t = (case a of (ok, w, h) \<Rightarrow>
     (case alloc_slot ok w h t of
        (None, t) \<Rightarrow> (None, t)
      | (Some i, t) \<Rightarrow> (Some (bm_handle (bmps t ! i)), t)))"

interpretation bmt: handle_table_free bm_used bm_handle bmps bm_next wf_bitmaps bm_alloc wg_bitmap_delete
proof (unfold_locales, goal_cases)
  case (1 t a h t')
  obtain ok w hh where a: "a = (ok, w, hh)" by (cases a)
  obtain i where al: "alloc_slot ok w hh t = (Some i, t')" and h: "h = bm_handle (bmps t' ! i)"
    using 1 a by (auto simp: bm_alloc_def split: option.splits prod.splits)
  note d = alloc_slot_SomeD [OF al]
  note f = find_index_SomeD [OF d(1)]
  show ?case using f h d(3)
    by (intro conjI exI [of _ i] exI [of _ "bmps t' ! i"]) simp_all
next
  case (2 t a t')
  then show ?case
    by (auto simp: bm_alloc_def split: option.splits prod.splits dest: alloc_slot_NoneD)
next
  case (3 t a)
  obtain ok w h where a: "a = (ok, w, h)" by (cases a)
  show ?case using wf_alloc_slot [OF 3, of ok w h]
    by (auto simp: bm_alloc_def a split: option.split prod.split)
next
  case (4 t h)
  then have "bm_find h t = None" by (simp add: bm_find_def)
  then show ?case by (simp add: wg_bitmap_delete_def)
next
  case (5 t h i)
  then have "bm_find h t = Some i" by (simp add: bm_find_def)
  then show ?case
    by (intro exI [of _ "(bmps t ! i)\<lparr>bm_px := [], bm_used := False\<rparr>"]) (simp add: wg_bitmap_delete_def)
next
  case (6 t h)
  show ?case by (simp add: wg_bitmap_delete_def split: option.split)
next
  case (7 t h)
  then show ?case by (rule wf_delete)
qed

lemma bm_owner: "bm_find h t = bmt.owner t h"
  by (simp add: bm_find_def bmt.owner_def)

section \<open>The decoder puts every pixel in its place\<close>

lemma row_index: "x < W \<Longrightarrow> x' < W \<Longrightarrow> d * W + x = d' * W + x' \<longleftrightarrow> d = d' \<and> x = (x' :: nat)"
proof -
  assume x: "x < W" "x' < W"
  have "d = (d * W + x) div W" "d' = (d' * W + x') div W" using x by simp_all
  then show "d * W + x = d' * W + x' \<longleftrightarrow> d = d' \<and> x = x'" by (metis add_left_cancel)
qed

lemma decode_row_nth:
  assumes "decode_row n pixel dst x px = Some px'"
  shows "length px' = length px \<and>
    (\<forall>k < length px. if dst + x \<le> k \<and> k < dst + x + n then pixel (k - dst) = Some (px' ! k)
       else px' ! k = px ! k)"
  using assms
proof (induction n arbitrary: x px)
  case 0
  then show ?case by auto
next
  case (Suc n)
  then obtain v where v: "pixel x = Some v" and b: "dst + x < length px"
    and r: "decode_row n pixel dst (x + 1) (px[dst + x := v]) = Some px'"
    by (auto split: bind_splits if_splits)
  note ih = Suc.IH [OF r]
  show ?case
  proof (intro conjI allI impI)
    show "length px' = length px" using ih by simp
    fix k assume k: "k < length px"
    consider "k = dst + x" | "dst + x < k" | "k < dst + x" by linarith
    then show "if dst + x \<le> k \<and> k < dst + x + Suc n then pixel (k - dst) = Some (px' ! k)
        else px' ! k = px ! k"
      using ih k v by cases auto
  qed
qed

lemma decode_row_defined:
  assumes "\<And>j. x \<le> j \<Longrightarrow> j < x + n \<Longrightarrow> pixel j \<noteq> None" and "dst + x + n \<le> length px"
  shows "decode_row n pixel dst x px \<noteq> None"
  using assms
proof (induction n arbitrary: x px)
  case 0
  then show ?case by simp
next
  case (Suc n)
  from Suc.prems(1) [of x] obtain v where "pixel x = Some v" by auto
  moreover have "decode_row n pixel dst (x + 1) (px[dst + x := v]) \<noteq> None"
    by (rule Suc.IH) (use Suc.prems in auto)
  ultimately show ?case using Suc.prems(2) by simp
qed

lemma row_pixels:
  assumes "decode_row W pixel (dy * W) 0 px = Some px'" and "x < W" and "d * W + x < length px"
  shows "if d = dy then pixel x = Some (px' ! (d * W + x)) else px' ! (d * W + x) = px ! (d * W + x)"
proof -
  have "dy * W \<le> d * W + x \<and> d * W + x < dy * W + W \<longleftrightarrow> d = dy"
  proof
    assume "dy * W \<le> d * W + x \<and> d * W + x < dy * W + W"
    then obtain e where "d * W + x = dy * W + e" "e < W"
      by (metis le_add_diff_inverse nat_add_left_cancel_less)
    then show "d = dy" using row_index [OF assms(2), of e d dy] by simp
  qed (use assms(2) in simp)
  with decode_row_nth [OF assms(1)] assms(3) show ?thesis by auto
qed

lemma decode_rows_length:
  "decode_rows n pixel td bits stride W y px = Some px' \<Longrightarrow> length px' = length px"
proof (induction n arbitrary: y px)
  case (Suc n)
  then show ?case by (auto split: bind_splits dest!: decode_row_nth)
qed simp

lemma decode_rows_pixels:
  assumes "decode_rows n pixel td bits stride W y px = Some px'" and "x < W" and "d * W + x < length px"
  shows "if (if td then y \<le> d \<and> d < y + n else d < n)
    then pixel (bits + (if td then d else y + n - 1 - d) * stride) x = Some (px' ! (d * W + x))
    else px' ! (d * W + x) = px ! (d * W + x)"
  using assms(1,3)
proof (induction n arbitrary: y px)
  case 0
  then show ?case by auto
next
  case (Suc n)
  then obtain px1 where r1: "decode_row W (pixel (bits + y * stride)) ((if td then y else n) * W) 0 px = Some px1"
    and rs: "decode_rows n pixel td bits stride W (y + 1) px1 = Some px'"
    by (auto split: bind_splits)
  have len: "d * W + x < length px1" using decode_row_nth [OF r1] Suc.prems(2) by simp
  note here = row_pixels [OF r1 assms(2) Suc.prems(2)]
  note ih = Suc.IH [OF rs len]
  show ?case
  proof (cases td)
    case True
    then show ?thesis using here ih by (cases "d = y") auto
  next
    case False
    then show ?thesis using here ih by (cases "d = n") (auto simp: less_Suc_eq)
  qed
qed

lemma decode_rows_defined:
  assumes "\<And>s x. y \<le> s \<Longrightarrow> s < y + n \<Longrightarrow> x < W \<Longrightarrow> pixel (bits + s * stride) x \<noteq> None"
    and "(y + n) * W \<le> length px"
  shows "decode_rows n pixel td bits stride W y px \<noteq> None"
  using assms
proof (induction n arbitrary: y px)
  case 0
  then show ?case by simp
next
  case (Suc n)
  let ?dy = "if td then y else n"
  have "?dy * W + W \<le> (y + Suc n) * W"
    using mult_le_mono1 [of "Suc ?dy" "y + Suc n" W] by (cases td) simp_all
  then have "decode_row W (pixel (bits + y * stride)) (?dy * W) 0 px \<noteq> None"
  proof (intro decode_row_defined)
    show "?dy * W + 0 + W \<le> length px" using \<open>?dy * W + W \<le> (y + Suc n) * W\<close> Suc.prems(2) by linarith
  qed (use Suc.prems in auto)
  then obtain px1 where r1: "decode_row W (pixel (bits + y * stride)) (?dy * W) 0 px = Some px1" by auto
  have "decode_rows n pixel td bits stride W (y + 1) px1 \<noteq> None"
    by (rule Suc.IH) (use Suc.prems decode_row_nth [OF r1] in auto)
  with r1 show ?case by simp
qed

text \<open>The fields of the header, and the source pixel of column \<open>x\<close> of the row \<open>y\<close> from the
  top.\<close>

definition dib_field :: "u8 list \<Rightarrow> nat \<Rightarrow> nat \<Rightarrow> u32" where
  "dib_field mem bih k = the (bmp_rd32 mem (bih + k))"

definition dib_bpp :: "u8 list \<Rightarrow> nat \<Rightarrow> nat" where
  "dib_bpp mem bih = unat (the (bmp_rd16 mem (bih + 14)))"

definition dib_w :: "u8 list \<Rightarrow> nat \<Rightarrow> int" where
  "dib_w mem bih = sint (dib_field mem bih 4)"

definition dib_h :: "u8 list \<Rightarrow> nat \<Rightarrow> int" where
  "dib_h mem bih = \<bar>sint (dib_field mem bih 8)\<bar>"

definition dib_colors :: "u8 list \<Rightarrow> nat \<Rightarrow> u32" where
  "dib_colors mem bih = (if dib_field mem bih 32 \<noteq> 0 then dib_field mem bih 32
     else if dib_bpp mem bih \<le> 8 then push_bit (dib_bpp mem bih) 1 else 0)"

definition source_pixel :: "u8 list \<Rightarrow> nat \<Rightarrow> nat \<Rightarrow> nat \<Rightarrow> nat \<Rightarrow> u32 ub" where
  "source_pixel mem bih bits y x =
     dib_pixel mem (bih + unat (dib_field mem bih 0)) (dib_colors mem bih) (dib_bpp mem bih)
       (bits + (if sint (dib_field mem bih 8) < 0 then y else nat (dib_h mem bih) - 1 - y) *
         dib_stride (nat (dib_w mem bih)) (dib_bpp mem bih div 8)) x"

lemma word_le_8: "(b :: u16) \<le> 8 \<longleftrightarrow> unat b \<le> 8"
  by (simp add: word_le_nat_alt)

lemma if_fail: "\<not> (h = z \<and> t' = t) \<Longrightarrow> (if b then Some (z, t) else X) = Some (h, t') \<Longrightarrow>
    (X = Some (h, t') \<Longrightarrow> P) \<Longrightarrow> P"
  by (auto split: if_splits)

lemma if_defined: "(if b then X else None) = Some r \<Longrightarrow> (X = Some r \<Longrightarrow> P) \<Longrightarrow> P"
  by (simp split: if_splits)

lemma decode_dib_cases:
  assumes "decode_dib ok mem bih bits cap t = Some (h, t')" and "wf_bitmaps t"
  shows "(h = 0 \<and> t' = t) \<or>
    (\<exists>i t1 px. alloc_slot ok (dib_w mem bih) (dib_h mem bih) t = (Some i, t1) \<and> h = bm_next t \<and>
       t' = t1\<lparr>bmps := (bmps t1)[i := (bmps t1 ! i)\<lparr>bm_px := px\<rparr>]\<rparr> \<and>
       (if cap \<noteq> 0 \<and> cap < dib_stride (nat (dib_w mem bih)) (dib_bpp mem bih div 8) * nat (dib_h mem bih)
        then px = bm_px (bmps t1 ! i)
        else decode_rows (nat (dib_h mem bih))
          (dib_pixel mem (bih + unat (dib_field mem bih 0)) (dib_colors mem bih) (dib_bpp mem bih))
          (sint (dib_field mem bih 8) < 0) bits
          (dib_stride (nat (dib_w mem bih)) (dib_bpp mem bih div 8)) (nat (dib_w mem bih)) 0
          (bm_px (bmps t1 ! i)) = Some px))"
proof (cases "h = 0 \<and> t' = t")
  case False
  obtain biSize w hh biBpp biComp clr where f: "bmp_rd32 mem bih = Some biSize" "bmp_rd32 mem (bih + 4) = Some w"
    "bmp_rd32 mem (bih + 8) = Some hh" "bmp_rd16 mem (bih + 14) = Some biBpp"
    "bmp_rd32 mem (bih + 16) = Some biComp" "bmp_rd32 mem (bih + 32) = Some clr"
    using assms(1) unfolding decode_dib_def by (auto split: bind_splits simp del: bind_assoc)
  have c: "dib_field mem bih 0 = biSize" "dib_w mem bih = sint w" "dib_bpp mem bih = unat biBpp"
    "dib_field mem bih 8 = hh" "dib_field mem bih 32 = clr"
    using f by (simp_all add: dib_field_def dib_w_def dib_bpp_def)
  have dh: "(if sint hh < 0 then - sint hh else sint hh) = dib_h mem bih"
    by (simp add: dib_h_def c)
  have dc: "(if clr \<noteq> 0 then clr else if biBpp \<le> 8 then push_bit (unat biBpp) 1 else 0) = dib_colors mem bih"
    by (simp add: dib_colors_def c word_le_8)
  let ?a = "alloc_slot ok (dib_w mem bih) (dib_h mem bih) t"
  obtain r t1 where a: "?a = (r, t1)" by fastforce
  note d = assms(1) [unfolded decode_dib_def f Option.bind.simps Let_def dh dc, folded c(2)]
  have "r \<noteq> None"
  proof
    assume r: "r = None"
    have "t1 = t" by (rule alloc_slot_NoneD [OF assms(2) a [unfolded r]])
    with d a r have "h = 0 \<and> t' = t" by (simp split: if_split_asm)
    with False show False by simp
  qed
  then obtain i where i: "r = Some i" by auto
  note sl = alloc_slot_SomeD [OF a [unfolded i]]
  have hd: "bm_handle (bmps t1 ! i) = bm_next t"
    using find_index_SomeD(1) [OF sl(1)] sl(3) by simp
  have len: "i < length (bmps t1)" using find_index_SomeD(1) [OF sl(1)] sl(3) by simp
  have self: "t1 = t1\<lparr>bmps := (bmps t1)[i := (bmps t1 ! i)\<lparr>bm_px := bm_px (bmps t1 ! i)\<rparr>]\<rparr>"
    by simp
  let ?need = "dib_stride (nat (dib_w mem bih)) (dib_bpp mem bih div 8) * nat (dib_h mem bih)"
  let ?rows = "decode_rows (nat (dib_h mem bih))
          (dib_pixel mem (bih + unat biSize) (dib_colors mem bih) (dib_bpp mem bih))
          (sint hh < 0) bits (dib_stride (nat (dib_w mem bih)) (dib_bpp mem bih div 8))
          (nat (dib_w mem bih)) 0 (bm_px (bmps t1 ! i))"
  let ?put = "\<lambda>px. t1\<lparr>bmps := (bmps t1)[i := (bmps t1 ! i)\<lparr>bm_px := px\<rparr>]\<rparr>"
  have res: "(if cap \<noteq> 0 \<and> cap < ?need then Some (bm_handle (bmps t1 ! i), t1)
      else Option.bind ?rows (\<lambda>px. Some (bm_handle (bmps (?put px) ! i), ?put px))) = Some (h, t')"
    using d [folded c(3)] unfolding a i option.case prod.case guard_bind
    by (elim if_fail [OF False] if_defined)
  show ?thesis
  proof (cases "cap \<noteq> 0 \<and> cap < ?need")
    case True
    then have "h = bm_next t \<and> t' = t1" using res hd by simp
    then show ?thesis using True a i self by auto
  next
    case no: False
    from res no have "Option.bind ?rows (\<lambda>px. Some (bm_handle (bmps (?put px) ! i), ?put px)) = Some (h, t')"
      by (simp only: if_False)
    then obtain px where "?rows = Some px" "h = bm_next t" "t' = ?put px"
      using len hd by (auto simp: bind_eq_Some_conv)
    then show ?thesis using no a i unfolding c(1,4) by auto
  qed
qed simp

text \<open>The decoder: nothing happens and 0 is returned, or a fresh slot holds the picture, blank when the
  data is too short and with every pixel of the source otherwise.\<close>

lemma decode_dib_pixels:
  assumes "wf_bitmaps t" and "decode_dib ok mem bih bits cap t = Some (h, t')"
  shows "(h = 0 \<and> t' = t) \<or>
    (\<exists>i px W H. i < MAX_BITMAPS \<and> \<not> bm_used (bmps t ! i) \<and> h = bm_next t \<and>
       W = dib_w mem bih \<and> H = dib_h mem bih \<and> 0 < W \<and> W \<le> 16384 \<and> 0 < H \<and> H \<le> 16384 \<and>
       bmps t' = (bmps t)[i := \<lparr>bm_used = True, bm_handle = h, bm_w = W, bm_h = H, bm_px = px\<rparr>] \<and>
       bm_next t' = bm_next t + 1 \<and> length px = nat (W * H) \<and>
       (if cap \<noteq> 0 \<and> cap < dib_stride (nat W) (dib_bpp mem bih div 8) * nat H
        then px = replicate (nat (W * H)) 0
        else \<forall>y < nat H. \<forall>x < nat W. source_pixel mem bih bits y x = Some (px ! (y * nat W + x))))"
  using decode_dib_cases [OF assms(2,1)]
proof (elim disjE exE conjE)
  fix i t1 px
  let ?W = "dib_w mem bih" and ?H = "dib_h mem bih"
  let ?short = "cap \<noteq> 0 \<and> cap < dib_stride (nat ?W) (dib_bpp mem bih div 8) * nat ?H"
  let ?rows = "\<lambda>px0. decode_rows (nat ?H)
          (dib_pixel mem (bih + unat (dib_field mem bih 0)) (dib_colors mem bih) (dib_bpp mem bih))
          (sint (dib_field mem bih 8) < 0) bits (dib_stride (nat ?W) (dib_bpp mem bih div 8)) (nat ?W) 0 px0"
  assume a: "alloc_slot ok ?W ?H t = (Some i, t1)" and h: "h = bm_next t"
    and t': "t' = t1\<lparr>bmps := (bmps t1)[i := (bmps t1 ! i)\<lparr>bm_px := px\<rparr>]\<rparr>"
    and px: "if ?short then px = bm_px (bmps t1 ! i) else ?rows (bm_px (bmps t1 ! i)) = Some px"
  note d = alloc_slot_SomeD [OF a]
  note f = find_index_SomeD [OF d(1)]
  have b1: "bmps t1 ! i = \<lparr>bm_used = True, bm_handle = bm_next t, bm_w = ?W, bm_h = ?H,
      bm_px = replicate (nat (?W * ?H)) 0\<rparr>" using d(3) f(1) by simp
  have bs: "bmps t' = (bmps t)[i := \<lparr>bm_used = True, bm_handle = h, bm_w = ?W, bm_h = ?H, bm_px = px\<rparr>]"
    unfolding t' using b1 d(3) h by simp
  have nm: "nat (?W * ?H) = nat ?H * nat ?W" using d(2) by (simp add: nat_mult_distrib mult.commute)
  have "length px = nat (?W * ?H) \<and>
       (if ?short then px = replicate (nat (?W * ?H)) 0
        else \<forall>y < nat ?H. \<forall>x < nat ?W. source_pixel mem bih bits y x = Some (px ! (y * nat ?W + x)))"
  proof (cases ?short)
    case True
    then show ?thesis using px b1 by simp
  next
    case False
    have r: "?rows (replicate (nat (?W * ?H)) 0) = Some px"
      using px unfolding if_not_P [OF False] b1 by simp
    have "source_pixel mem bih bits y x = Some (px ! (y * nat ?W + x))"
      if y: "y < nat ?H" and x: "x < nat ?W" for y x
    proof -
      have "y * nat ?W + x < Suc y * nat ?W" using x by simp
      also have "\<dots> \<le> nat ?H * nat ?W" using y by (intro mult_le_mono1) simp
      finally show ?thesis
        using decode_rows_pixels [OF r x, of y] y nm unfolding source_pixel_def
        by (simp split: if_splits)
    qed
    moreover have "length px = nat (?W * ?H)" using decode_rows_length [OF r] by simp
    ultimately show ?thesis unfolding if_not_P [OF False] by blast
  qed
  then show ?thesis
    using f d h bs t' wf_bitmapsD(1) [OF assms(1)]
    by (intro disjI2 exI [of _ i] exI [of _ px] exI [of _ ?W] exI [of _ ?H]) simp
qed simp

lemma wf_decode_dib:
  assumes "wf_bitmaps t" and "decode_dib ok mem bih bits cap t = Some (h, t')"
  shows "wf_bitmaps t'"
  using decode_dib_pixels [OF assms]
proof (elim disjE exE conjE)
  fix i px W H
  assume w: "0 < W" "W \<le> 16384" "0 < H" "H \<le> 16384" "length px = nat (W * H)"
    and b: "bmps t' = (bmps t)[i := \<lparr>bm_used = True, bm_handle = h, bm_w = W, bm_h = H, bm_px = px\<rparr>]"
  have "bitmap_ok \<lparr>bm_used = True, bm_handle = h, bm_w = W, bm_h = H, bm_px = px\<rparr>"
    using w by (simp add: bitmap_ok_def)
  from wf_set_slot [OF assms(1) this] show ?thesis using b by (simp add: wf_bitmaps_def)
qed (use assms(1) in simp)

section \<open>Reading a file in memory\<close>

lemma byte_at_defined [simp]: "p < length mem \<Longrightarrow> byte_at mem p = Some (mem ! p)"
  by (simp add: byte_at_def)

lemma bmp_rd32_defined: "p + 4 \<le> length mem \<Longrightarrow> \<exists>v. bmp_rd32 mem p = Some v"
  and bmp_rd16_defined: "p + 2 \<le> length mem \<Longrightarrow> \<exists>v. bmp_rd16 mem p = Some v"
  by (simp_all add: bmp_rd32_def bmp_rd16_def)

lemma row_fits:
  assumes "s < H" and "x < W" and "0 < n" and "dib_stride W n * H \<le> cap"
  shows "s * dib_stride W n + x * n + (n - 1) < cap"
proof -
  have "W * n \<le> dib_stride W n" by (simp add: dib_stride_def)
  moreover have "Suc x * n \<le> W * n" using assms(2) by (intro mult_le_mono1) simp
  moreover have "Suc s * dib_stride W n \<le> H * dib_stride W n" using assms(1) by (intro mult_le_mono1) simp
  ultimately show ?thesis using assms(3,4) by (simp add: mult.commute)
qed

text \<open>The pixel loop of a 24- or 32-bit image stays inside \<open>cap\<close> bytes.\<close>

lemma true_color_defined:
  assumes "bpp = 24 \<or> bpp = 32" and "bits + cap \<le> length mem" and "dib_stride W (bpp div 8) * H \<le> cap"
    and "s < H" and "x < W"
  shows "dib_pixel mem pal n bpp (bits + s * dib_stride W (bpp div 8)) x \<noteq> None"
  using assms(1)
proof
  assume b: "bpp = 24"
  then have "s * dib_stride W 3 + x * 3 + 2 < cap"
    using row_fits [OF assms(4,5), of 3 cap] assms(3) by simp
  then show ?thesis using assms(2) b by (simp add: dib_pixel_def)
next
  assume b: "bpp = 32"
  then have "s * dib_stride W 4 + x * 4 + 3 < cap"
    using row_fits [OF assms(4,5), of 4 cap] assms(3) by simp
  then show ?thesis using assms(2) b by (simp add: dib_pixel_def)
qed

lemma if_some: "(\<not> b \<Longrightarrow> X \<noteq> None) \<Longrightarrow> (if b then Some r else X) \<noteq> None"
  and if_holds: "b \<Longrightarrow> X \<noteq> None \<Longrightarrow> (if b then X else None) \<noteq> None"
  by simp_all

lemma decode_dib_defined:
  assumes wf: "wf_bitmaps t" and len: "bih + 40 \<le> length mem" "bits + cap \<le> length mem" "0 < cap"
    and bpp: "dib_bpp mem bih = 24 \<or> dib_bpp mem bih = 32" and h: "sint (dib_field mem bih 8) \<noteq> - (2 ^ 31)"
  shows "decode_dib ok mem bih bits cap t \<noteq> None"
proof -
  obtain biSize w hh biBpp biComp clr where f: "bmp_rd32 mem bih = Some biSize" "bmp_rd32 mem (bih + 4) = Some w"
    "bmp_rd32 mem (bih + 8) = Some hh" "bmp_rd16 mem (bih + 14) = Some biBpp"
    "bmp_rd32 mem (bih + 16) = Some biComp" "bmp_rd32 mem (bih + 32) = Some clr"
    using bmp_rd32_defined [of bih mem] bmp_rd32_defined [of "bih + 4" mem] bmp_rd32_defined [of "bih + 8" mem]
      bmp_rd32_defined [of "bih + 16" mem] bmp_rd32_defined [of "bih + 32" mem]
      bmp_rd16_defined [of "bih + 14" mem] len(1) by auto
  have c: "dib_bpp mem bih = unat biBpp" "dib_field mem bih 8 = hh"
    using f by (simp_all add: dib_field_def dib_bpp_def)
  define H where "H = (if sint hh < 0 then - sint hh else sint hh)"
  have rows: "decode_rows (nat H) (dib_pixel mem pal n (unat biBpp)) td bits
      (dib_stride (nat (sint w)) (unat biBpp div 8)) (nat (sint w)) 0 (bm_px (bmps t1 ! i)) \<noteq> None"
    if a: "alloc_slot ok (sint w) H t = (Some i, t1)"
      and need: "\<not> cap < dib_stride (nat (sint w)) (unat biBpp div 8) * nat H" for i t1 pal n td
  proof (rule decode_rows_defined)
    note d = alloc_slot_SomeD [OF a]
    show "(0 + nat H) * nat (sint w) \<le> length (bm_px (bmps t1 ! i))"
      using d(2,3) find_index_SomeD(1) [OF d(1)] by (simp add: nat_mult_distrib)
    fix s x assume "s < 0 + nat H" "x < nat (sint w)"
    then show "dib_pixel mem pal n (unat biBpp) (bits + s * dib_stride (nat (sint w)) (unat biBpp div 8)) x \<noteq> None"
      using bpp need len(2) by (intro true_color_defined) (simp_all add: c not_less)
  qed
  obtain r t1 where a: "alloc_slot ok (sint w) H t = (r, t1)" by fastforce
  have h': "sint hh \<noteq> - (2 ^ 31)" using h c(2) by simp
  show ?thesis
  proof (cases r)
    case None
    show ?thesis
      unfolding decode_dib_def f Option.bind.simps Let_def H_def [symmetric] a None prod.case option.case guard_bind
      by (intro if_some if_holds h') simp
  next
    case (Some i)
    note rows' = rows [OF a [unfolded Some]]
    show ?thesis
      unfolding decode_dib_def f Option.bind.simps Let_def H_def [symmetric] a Some prod.case option.case guard_bind
    proof (intro if_some if_holds h')
      assume n: "\<not> (cap \<noteq> 0 \<and> cap < dib_stride (nat (sint w)) (unat biBpp div 8) * nat H)"
      then have "\<not> cap < dib_stride (nat (sint w)) (unat biBpp div 8) * nat H" using len(3) by simp
      from rows' [OF this] show "Option.bind (decode_rows (nat H)
          (dib_pixel mem (bih + unat biSize)
             (if clr \<noteq> 0 then clr else if biBpp \<le> 8 then push_bit (unat biBpp) 1 else 0) (unat biBpp))
          (sint hh < 0) bits (dib_stride (nat (sint w)) (unat biBpp div 8)) (nat (sint w)) 0 (bm_px (bmps t1 ! i)))
        (\<lambda>px. Some (bm_handle (bmps (t1\<lparr>bmps := (bmps t1)[i := (bmps t1 ! i)\<lparr>bm_px := px\<rparr>]\<rparr>) ! i),
              t1\<lparr>bmps := (bmps t1)[i := (bmps t1 ! i)\<lparr>bm_px := px\<rparr>]\<rparr>)) \<noteq> None"
        by (simp add: bind_eq_None_conv)
    qed
  qed
qed

text \<open>Decoding a true-color \<open>.bmp\<close> file never reads outside the file, whatever its bytes are.\<close>

lemma from_bmp_memory_safe:
  assumes "wf_bitmaps t" and "dib_bpp d 14 = 24 \<or> dib_bpp d 14 = 32" and "sint (dib_field d 14 8) \<noteq> - (2 ^ 31)"
  shows "wg_bitmap_from_bmp_memory ok (Some d) t \<noteq> None"
proof (cases "length d < 54 \<or> d ! 0 \<noteq> 0x42 \<or> d ! 1 \<noteq> 0x4D")
  case True
  then show ?thesis by (simp add: wg_bitmap_from_bmp_memory_def)
next
  case False
  then obtain off where off: "bmp_rd32 d 10 = Some off" using bmp_rd32_defined [of 10 d] by auto
  have "decode_dib ok d 14 (unat off) (length d - unat off) t \<noteq> None" if "unat off < length d"
    by (rule decode_dib_defined) (use False that assms in auto)
  with False off show ?thesis by (simp add: wg_bitmap_from_bmp_memory_def)
qed

text \<open>With a palette it can: the palette entry of the only pixel of this file lies behind its end.\<close>

definition palette_bmp :: "u8 list" where
  "palette_bmp = [0x42, 0x4D] @ replicate 8 0 @ [54, 0, 0, 0] @
     [40, 0, 0, 0] @ [1, 0, 0, 0] @ [1, 0, 0, 0] @ [1, 0, 8, 0] @ replicate 24 0 @ [255, 0, 0, 0]"

lemma palette_overrun:
  "length palette_bmp = 58 \<and> wg_bitmap_from_bmp_memory True (Some palette_bmp) initial_bitmaps = None"
  by code_simp

end
