(* ===== verification/SystemProperties.thy ===== *)
theory SystemProperties
  imports PELoaderOk Demo Windows Bitmap
begin

text \<open>
  The properties of the loader, the scheduler, the windows and the bitmaps that other proofs also
  rest on, and the concrete inputs that show each property with hypotheses at work. The scheduler is
  driven by the step relation \<open>sched_step\<close>, whose reachable states keep the scheduler's invariant.
\<close>

section \<open>The loader\<close>

text \<open>C26: A file that loads has the MZ and PE signatures and the optional header magic of its class, at most 96 sections whose data pointers lie at their raw offset, and bounded import tables.\<close>

theorem loaded_image_sound:
  assumes "wg_pe_load_memory ai ar d = Some (Some img)"
  shows "raw_data img = d \<and> take 2 d = map of_char ''MZ'' \<and>
    (\<exists>pe. rd32 d 60 = Some pe \<and> take 4 (drop (unat pe) d) = map of_char ''PE'' @ [0, 0] \<and>
       rd16 d (unat pe + 24) = Some (if is_64bit img then 0x20B else 0x10B) \<and>
       (\<exists>nsec. rd16 d (unat pe + 6) = Some nsec \<and>
          length (sections img) = min (unat nsec) PE_MAX_SECTIONS)) \<and>
    (\<forall>s \<in> set (sections img). section_ok (length d) s) \<and>
    length (import_dlls img) \<le> PE_MAX_IMPORTS \<and> (\<forall>dll \<in> set (import_dlls img). dll_ok dll)"
  using assms by (rule load_memory_sound)

text \<open>C25: A 64-bit PE file built from header fields and sections loads without undefined behaviour to an image with exactly those fields and sections.\<close>

theorem built_pe_roundtrip:
  assumes "length secs \<le> PE_MAX_SECTIONS" and "\<forall>s \<in> set secs. length (fst s) = 8"
  shows "wg_pe_load_memory True True (build_pe h secs body) =
    Some (Some (spec_image h secs (build_pe h secs body)))"
  using assms by (rule load_built_pe)

text \<open>A file with one section of 16 bytes at file offset 240, loaded at RVA \<open>0x1000\<close>.\<close>

definition demo_spec :: pe_spec where
  "demo_spec = \<lparr>ps_machine = 0x8664, ps_entry = 0x1000, ps_base = 0x140000000, ps_image_size = 0x2000,
     ps_headers_size = 0x200, ps_subsystem = 3, ps_dll_chars = 0\<rparr>"

definition demo_secs :: "sec_spec list" where
  "demo_secs = [([46, 116, 101, 120, 116, 0, 0, 0], 16, 0x1000, 16, 240, 0x60000020)]"

lemma demo_secs_ok: "length demo_secs \<le> PE_MAX_SECTIONS" "\<forall>s \<in> set demo_secs. length (fst s) = 8"
  by (simp_all add: demo_secs_def PE_MAX_SECTIONS_def)

lemmas demo_loads = load_built_pe [OF demo_secs_ok, of demo_spec "replicate 16 0x90"]

theorem built_pe_roundtrip_witness:
  "\<exists>img. wg_pe_load_memory True True (build_pe demo_spec demo_secs (replicate 16 0x90)) = Some (Some img) \<and>
     entry_point img = 0x1000 \<and> map sec_name (sections img) = [map of_char ''.text'']"
  using built_pe_roundtrip [OF demo_secs_ok, of demo_spec "replicate 16 0x90"]
  by (simp add: spec_image_def demo_secs_def demo_spec_def)

theorem loaded_image_sound_witness:
  "take 2 (build_pe demo_spec demo_secs (replicate 16 0x90)) = map of_char ''MZ''"
  using loaded_image_sound [OF demo_loads] by blast

theorem rva_in_bounds_witness:
  "\<exists>img. wg_pe_load_memory True True (build_pe demo_spec demo_secs (replicate 16 0x90)) = Some (Some img) \<and>
     rva_to_ptr img 0x1004 = Some 244 \<and> 244 < length (build_pe demo_spec demo_secs (replicate 16 0x90))"
proof -
  let ?d = "build_pe demo_spec demo_secs (replicate 16 0x90)"
  let ?img = "spec_image demo_spec demo_secs ?d"
  have len: "length ?d = 256" by code_simp
  then have secs: "sections ?img = [\<lparr>sec_name = map of_char ''.text'', virtual_size = 16, virtual_address = 0x1000,
      raw_size = 16, raw_offset = 240, characteristics = 0x60000020, sec_data = Some 240\<rparr>]"
    by (simp add: spec_image_def demo_secs_def)
  then have p: "rva_to_ptr ?img 0x1004 = Some 244" by (simp add: rva_to_ptr_def)
  have "\<forall>s \<in> set (sections ?img). unat (raw_offset s) + unat (raw_size s) < 2 ^ 32" by (simp add: secs)
  from rva_in_bounds [OF demo_loads p this] demo_loads p show ?thesis by blast
qed

section \<open>The scheduler\<close>

text \<open>One operation of the scheduler, with the machine beside it; the guest may change its registers
  between two operations.\<close>

inductive sched_step :: "'m guest_api \<Rightarrow> scheduler \<times> 'm blink \<Rightarrow> scheduler \<times> 'm blink \<Rightarrow> bool"
  for api :: "'m guest_api" where
  guest: "sched_step api (s, b) (s, b')"
| create: "wg_sched_create_thread api z ab s b st prm fl = (r, s', b') \<Longrightarrow> sched_step api (s, b) (s', b')"
| yield: "why \<noteq> WG_THREAD_RUNNING \<Longrightarrow> wg_sched_yield s b why = (ok, s', b') \<Longrightarrow> sched_step api (s, b) (s', b')"
| wake: "sched_step api (s, b) (wg_sched_wake s h, b)"
| resume: "sched_step api (s, b) (snd (resume_thread s h), b)"
| exit: "wg_sched_exit_thread s b rc = (s', b') \<Longrightarrow> sched_step api (s, b) (s', b')"

inductive sched_run :: "'m guest_api \<Rightarrow> scheduler \<times> 'm blink \<Rightarrow> bool"
  for api :: "'m guest_api" where
  start: "sched_run api (register_main_thread wg_sched_create tb, b)"
| step: "sched_run api p \<Longrightarrow> sched_step api p q \<Longrightarrow> sched_run api q"

inductive_cases sched_stepE: "sched_step api p q"

lemma sched_step_inv: "sched_step api p q \<Longrightarrow> sched_inv (fst p) \<Longrightarrow> sched_inv (fst q)"
  by (cases rule: sched_step.cases)
    (auto intro: create_thread_inv yield_inv wake_inv resume_inv exit_inv)

lemma sched_run_inv: "sched_run api p \<Longrightarrow> sched_inv (fst p)"
  by (induction rule: sched_run.induct) (auto simp: register_main_inv sched_step_inv)

text \<open>In every reachable state exactly the current thread is running.\<close>

text \<open>C28: In every state reachable by creating, yielding, waking, resuming and exiting threads, exactly the current thread is marked as running.\<close>

theorem running_is_current:
  assumes "sched_run api (s, b)" and "i < WG_MAX_THREADS"
  shows "state (threads s ! i) = WG_THREAD_RUNNING \<longleftrightarrow> current s = Some i"
  using sched_invD(3) [of s i] sched_invD(4) [of s i] sched_run_inv [OF assms(1)] assms(2) by auto

theorem running_is_current_witness:
  "current (snd (resume_thread (register_main_thread wg_sched_create 0) 7)) = Some 0 \<longleftrightarrow>
     state (threads (snd (resume_thread (register_main_thread wg_sched_create 0) 7)) ! 0) = WG_THREAD_RUNNING"
proof -
  have r: "sched_run no_api (snd (resume_thread (register_main_thread wg_sched_create 0) 7), None)"
    by (rule sched_run.step [OF sched_run.start sched_step.resume])
  have "0 < WG_MAX_THREADS" by (simp add: WG_MAX_THREADS_def)
  from running_is_current [OF r this] show ?thesis by blast
qed

theorem round_robin_fair_witness:
  "\<exists>k \<le> WG_MAX_THREADS. current (fst (yields demo_sched (None :: unit blink)
     (take k (replicate WG_MAX_THREADS WG_THREAD_READY)))) = Some 5"
  by (rule round_robin_fair [OF demo_sched_inv demo_current])
    (simp_all add: demo_states WG_MAX_THREADS_def)

theorem context_roundtrip_witness:
  "wg_blink_get_reg (restore_regs (save_regs zero_regs (Some (demo_vm 100))) (Some (demo_vm 0))) 3 = 103"
  using context_roundtrip [of 3 zero_regs "Some (demo_vm 100)" "demo_vm 0"]
  by (simp add: wg_blink_get_reg_def WGBlinkVM_GetReg_def demo_vm_def mask_eq_exp_minus_1)

lemma demo_handles: "handles_ok demo_sched"
  unfolding handles_ok_def
proof (intro conjI allI impI ballI)
  show "length (threads demo_sched) = WG_MAX_THREADS" by (simp add: demo_threads WG_MAX_THREADS_def)
  have nh: "next_handle demo_sched = 0x7100"
    by (simp add: demo_sched_def register_main_thread_def wg_sched_create_def)
  fix t assume "t \<in> set (threads demo_sched)" "state t \<noteq> WG_THREAD_FREE"
  then show "thandle t < next_handle demo_sched" unfolding nh by (auto simp: demo_threads zero_thread_def)
next
  fix i j assume l: "i < length (threads demo_sched)" "j < length (threads demo_sched)"
    and a: "state (threads demo_sched ! i) \<noteq> WG_THREAD_FREE \<and> state (threads demo_sched ! j) \<noteq> WG_THREAD_FREE \<and>
      thandle (threads demo_sched ! i) = thandle (threads demo_sched ! j)"
  have "i = 0 \<or> i = 5" "j = 0 \<or> j = 5" using l a demo_len by (auto simp: demo_states split: if_splits)
  then show "i = j" using a by (auto simp: demo_threads nth_append zero_thread_def)
qed

lemma demo_next_handle: "next_handle demo_sched \<noteq> - 1"
  by (simp add: demo_sched_def register_main_thread_def wg_sched_create_def)

lemma demo_create: "\<exists>h t s' b'. wg_sched_create_thread no_api True False demo_sched (None :: unit blink) 0x401000 7 0
    = (Some (h, t), s', b') \<and> h = 0x7100"
proof -
  have "find_index (\<lambda>t. state t = WG_THREAD_FREE) (threads demo_sched) = Some 1"
    unfolding find_index_Some by (simp add: demo_states demo_len)
  then show ?thesis
    by (simp add: wg_sched_create_thread_def Let_def fresh_thread_def zero_thread_def demo_sched_def
        register_main_thread_def wg_sched_create_def)
qed

theorem create_thread_find_witness:
  "\<exists>h t s' b'. wg_sched_create_thread no_api True False demo_sched (None :: unit blink) 0x401000 7 0
      = (Some (h, t), s', b') \<and> wg_sched_find demo_sched h = None \<and> wg_sched_find s' h \<noteq> None"
proof -
  obtain h t s' b' where c: "wg_sched_create_thread no_api True False demo_sched (None :: unit blink) 0x401000 7 0
      = (Some (h, t), s', b')" using demo_create by blast
  from create_thread_find [OF demo_handles c demo_next_handle] c show ?thesis by auto
qed

lemma created_none: "created_slots demo_sched = {}"
proof -
  have "stack_size (threads demo_sched ! i) = 0" if "i < 32" for i
  proof -
    have "i < length (threads demo_sched)" using that by (simp add: demo_threads)
    then have "threads demo_sched ! i \<in> set (threads demo_sched)" by (rule nth_mem)
    moreover have "\<forall>t \<in> set (threads demo_sched). stack_size t = 0" by (simp add: demo_threads zero_thread_def)
    ultimately show ?thesis by blast
  qed
  then show ?thesis by (auto simp: created_slots_def WG_MAX_THREADS_def)
qed

theorem create_thread_stack_witness:
  "\<exists>r s' b'. wg_sched_create_thread no_api True False demo_sched (None :: unit blink) 0x401000 7 0 = (r, s', b') \<and>
     stacks_ok s'"
proof -
  obtain r s' b' where c: "wg_sched_create_thread no_api True False demo_sched (None :: unit blink) 0x401000 7 0
      = (r, s', b')" using demo_create by blast
  have n: "next_stack_addr demo_sched = 0x30000000"
    by (simp add: demo_sched_def register_main_thread_def wg_sched_create_def)
  have len: "length (threads demo_sched) = WG_MAX_THREADS" by (simp add: demo_threads WG_MAX_THREADS_def)
  have "stacks_ok demo_sched" unfolding stacks_ok_def created_none len n by simp
  from create_thread_stack [OF this c] c show ?thesis by blast
qed

text \<open>A worker in slot 5 runs, the main thread and the thread in slot 3 are ready.\<close>

definition worker_sched :: scheduler where
  "worker_sched = wg_sched_create\<lparr>current := Some 5,
     threads := ((replicate 32 zero_thread)[0 := zero_thread\<lparr>state := WG_THREAD_READY, tid := 1\<rparr>,
       3 := zero_thread\<lparr>state := WG_THREAD_READY, tid := 0xFF1, thandle := 0x70F1\<rparr>])
       [5 := zero_thread\<lparr>state := WG_THREAD_RUNNING, tid := 0xFF0, thandle := 0x70F0\<rparr>]\<rparr>"

theorem worker_return_loses_thread_witness:
  "\<exists>s'. fst (snd (worker_return worker_sched (None :: unit blink))) = s' \<and>
     state (threads s' ! 0) = WG_THREAD_RUNNING \<and> current s' = Some 3"
proof -
  have th: "threads worker_sched = zero_thread\<lparr>state := WG_THREAD_READY, tid := 1\<rparr> # zero_thread # zero_thread #
      zero_thread\<lparr>state := WG_THREAD_READY, tid := 0xFF1, thandle := 0x70F1\<rparr> # zero_thread #
      zero_thread\<lparr>state := WG_THREAD_RUNNING, tid := 0xFF0, thandle := 0x70F0\<rparr> # replicate 26 zero_thread"
    by code_simp
  have st: "i < 32 \<Longrightarrow> state (threads worker_sched ! i) =
      (if i = 0 \<or> i = 3 then WG_THREAD_READY else if i = 5 then WG_THREAD_RUNNING else WG_THREAD_FREE)" for i
    unfolding th by (auto simp: nth_Cons' zero_thread_def)
  have c: "current worker_sched = Some 5" by (simp add: worker_sched_def)
  have len: "length (threads worker_sched) = WG_MAX_THREADS" by (simp add: th WG_MAX_THREADS_def)
  have inv: "sched_inv worker_sched"
    by (rule sched_invI) (auto simp: len c st WG_MAX_THREADS_def split: if_splits)
  have w: "tid (threads worker_sched ! 5) \<noteq> 1" by (simp add: th)
  obtain s1 b1 where e: "wg_sched_exit_thread worker_sched (None :: unit blink) (ucast (wg_blink_get_reg (None :: unit blink) 0)) = (s1, b1)"
    by fastforce
  have j: "current s1 = Some 0"
  proof -
    have "current (fst (wg_sched_exit_thread worker_sched (None :: unit blink) (ucast (wg_blink_get_reg (None :: unit blink) 0)))) = Some 0"
      by code_simp
    then show ?thesis by (simp add: e)
  qed
  obtain ok s' b' where r: "worker_return worker_sched (None :: unit blink) = (ok, s', b')" by (metis prod_cases3)
  have "fst (worker_return worker_sched (None :: unit blink)) = True" by code_simp
  then have ok: "ok = True" using r by simp
  have "current (fst (snd (worker_return worker_sched (None :: unit blink)))) = Some 3" by code_simp
  with worker_return_loses_thread [OF inv c w e j r [unfolded ok]] r show ?thesis by simp
qed

section \<open>Windows\<close>

definition demo_window :: window_args where
  "demo_window = \<lparr>a_ex_style = 0, a_class_atom = 0xC001, a_title = Some [0x48, 0x69], a_style = 0x10000000,
     a_x = CW_USEDEFAULT, a_y = 5, a_w = 40, a_h = 50, a_parent = 0\<rparr>"

theorem create_then_find_witness:
  "\<exists>h m'. wg_wm_create_window demo_window zero_wm = (Some h, m') \<and> wm_find m' h = Some 0 \<and>
     wx (windows m' ! 0) = 100"
proof -
  obtain h m' where c: "wg_wm_create_window demo_window zero_wm = (Some h, m')"
    by (simp add: wg_wm_create_window_def Let_def zero_wm_def WG_MAX_WINDOWS_def)
  from create_then_find [OF wf_zero c] c show ?thesis
    by (simp add: zero_wm_def new_window_def zero_window_def default_pos_def demo_window_def)
qed

definition one_window :: wm where
  "one_window = snd (wg_wm_create_window demo_window zero_wm)"

lemma wf_one: "wf_wm one_window"
  unfolding one_window_def by (rule wf_create [OF wf_zero])

theorem destroy_then_find_witness:
  "wm_find one_window WG_HWND_BASE = Some 0 \<and> wm_find (wg_wm_destroy WG_HWND_BASE one_window) WG_HWND_BASE = None"
proof -
  have "wm_find one_window WG_HWND_BASE = Some 0" by code_simp
  with destroy_then_find [OF wf_one, of WG_HWND_BASE WG_HWND_BASE] show ?thesis by simp
qed

theorem get_client_buffer_witness:
  "\<exists>m' px. wg_wm_get_client True WG_HWND_BASE one_window = Some (Some 0, m') \<and>
     client (windows m' ! 0) = Some px \<and> length px = nat (client_w (windows m' ! 0) * client_h (windows m' ! 0)) \<and>
     wg_wm_get_client False WG_HWND_BASE m' = Some (Some 0, m')"
proof -
  have f: "wm_find one_window WG_HWND_BASE = Some 0" and g: "wg_wm_get one_window = one_window"
    and c: "client (windows one_window ! 0) = None" "client_size (windows one_window ! 0) = (40, 18)"
    by (code_simp, simp add: wg_wm_get_def one_window_def wg_wm_create_window_def Let_def zero_wm_def
        WG_HWND_BASE_def WG_MAX_WINDOWS_def, code_simp, code_simp)
  obtain m' where r: "wg_wm_get_client True WG_HWND_BASE one_window = Some (Some 0, m')"
    using f c by (simp add: wg_wm_get_client_def wg_wm_find_def g)
  from get_client_buffer [OF wf_one r, of False] r show ?thesis by auto
qed

section \<open>Bitmaps\<close>

text \<open>Decoding a DIB: see \<open>decode_dib_pixels\<close>.\<close>

text \<open>C29: Decoding a DIB either fails without a trace or fills a fresh slot with a picture of the header's size that is blank when the data is too short and otherwise has every pixel of the source in its place, bottom-up images flipped.\<close>

theorem dib_decoded:
  assumes "wf_bitmaps t" and "decode_dib ok mem bih bits cap t = Some (h, t')"
  shows "(h = 0 \<and> t' = t) \<or>
    (\<exists>i px W H. i < MAX_BITMAPS \<and> \<not> bm_used (bmps t ! i) \<and> h = bm_next t \<and>
       W = dib_w mem bih \<and> H = dib_h mem bih \<and> 0 < W \<and> W \<le> 16384 \<and> 0 < H \<and> H \<le> 16384 \<and>
       bmps t' = (bmps t)[i := \<lparr>bm_used = True, bm_handle = h, bm_w = W, bm_h = H, bm_px = px\<rparr>] \<and>
       bm_next t' = bm_next t + 1 \<and> length px = nat (W * H) \<and>
       (if cap \<noteq> 0 \<and> cap < dib_stride (nat W) (dib_bpp mem bih div 8) * nat H
        then px = replicate (nat (W * H)) 0
        else \<forall>y < nat H. \<forall>x < nat W. source_pixel mem bih bits y x = Some (px ! (y * nat W + x))))"
  using assms by (rule decode_dib_pixels)

text \<open>A 24-bit image of one column and two rows, bottom-up: the file holds the lower row first.\<close>

definition demo_bmp :: "u8 list" where
  "demo_bmp = [0x42, 0x4D] @ replicate 8 0 @ [54, 0, 0, 0] @
     [40, 0, 0, 0] @ [1, 0, 0, 0] @ [2, 0, 0, 0] @ [1, 0, 24, 0] @ replicate 24 0 @
     [0x11, 0x22, 0x33, 0] @ [0x44, 0x55, 0x66, 0]"

theorem from_bmp_memory_safe_witness:
  "wg_bitmap_from_bmp_memory True (Some demo_bmp) initial_bitmaps \<noteq> None"
proof -
  have "dib_bpp demo_bmp 14 = 24 \<or> dib_bpp demo_bmp 14 = 32" by code_simp
  moreover have "dib_field demo_bmp 14 8 = 2" by code_simp
  then have "sint (dib_field demo_bmp 14 8) \<noteq> - (2 ^ 31)" by simp
  ultimately show ?thesis by (rule from_bmp_memory_safe [OF wf_initial])
qed

theorem dib_decoded_witness:
  "\<exists>h t' i px. decode_dib True demo_bmp 14 54 8 initial_bitmaps = Some (h, t') \<and> i < MAX_BITMAPS \<and>
     bmps t' ! i = \<lparr>bm_used = True, bm_handle = h, bm_w = 1, bm_h = 2, bm_px = px\<rparr> \<and>
     px ! 0 = 0xFF445566 \<and> px ! 1 = 0xFF112233"
proof -
  have "map_option fst (decode_dib True demo_bmp 14 54 8 initial_bitmaps) = Some 0x0B170000" by code_simp
  then obtain t' where d: "decode_dib True demo_bmp 14 54 8 initial_bitmaps = Some (0x0B170000, t')" by auto
  have W: "dib_w demo_bmp 14 = 1" and H: "dib_h demo_bmp 14 = 2" by code_simp+
  have bpp: "dib_bpp demo_bmp 14 = 24" by code_simp
  have px: "source_pixel demo_bmp 14 54 0 0 = Some 0xFF445566" "source_pixel demo_bmp 14 54 1 0 = Some 0xFF112233"
    by code_simp+
  from dib_decoded [OF wf_initial d] obtain i px where i: "i < MAX_BITMAPS"
    and b: "bmps t' = (bmps initial_bitmaps)[i := \<lparr>bm_used = True, bm_handle = 0x0B170000, bm_w = 1, bm_h = 2, bm_px = px\<rparr>]"
    and p: "\<forall>y < 2. source_pixel demo_bmp 14 54 y 0 = Some (px ! y)"
    unfolding W H by (auto simp: bpp dib_stride_def)
  have "px ! 0 = 0xFF445566" using p px(1) by (auto dest: spec [of _ 0])
  moreover have "px ! 1 = 0xFF112233" using p px(2) by (auto dest: spec [of _ 1])
  moreover have "bmps t' ! i = \<lparr>bm_used = True, bm_handle = 0x0B170000, bm_w = 1, bm_h = 2, bm_px = px\<rparr>"
    using b i wf_bitmapsD(1) [OF wf_initial] by simp
  ultimately show ?thesis using d i by blast
qed

end
