(* ===== verification/CString.thy ===== *)
theory CString
  imports Base
begin

text \<open>
  The string functions of the C library that the components call. A C string is the list of its
  characters without the terminating NUL. A copy with \<open>strncpy\<close> into a zeroed buffer of \<open>n + 1\<close>
  bytes, or with \<open>snprintf\<close> into a buffer of \<open>n + 1\<close> bytes, keeps \<open>take n\<close> of the string.
\<close>

definition tolower :: "char \<Rightarrow> char" where
  "tolower c = (let n = (of_char c :: nat) in if 65 \<le> n \<and> n \<le> 90 then char_of (n + 32) else c)"

text \<open>\<open>strcasecmp(a, b) == 0\<close> and \<open>strncasecmp(s, p, strlen(p)) == 0\<close>.\<close>

definition strcaseeq :: "string \<Rightarrow> string \<Rightarrow> bool" where
  "strcaseeq a b \<longleftrightarrow> map tolower a = map tolower b"

definition caseprefix :: "string \<Rightarrow> string \<Rightarrow> bool" where
  "caseprefix p s \<longleftrightarrow> length p \<le> length s \<and> strcaseeq (take (length p) s) p"

text \<open>\<open>strstr(s, pat) != NULL\<close> and \<open>strcasestr(s, pat) != NULL\<close>.\<close>

fun strstr :: "string \<Rightarrow> string \<Rightarrow> bool" where
  "strstr [] pat = (pat = [])"
| "strstr (c # cs) pat = (take (length pat) (c # cs) = pat \<or> strstr cs pat)"

definition strcasestr :: "string \<Rightarrow> string \<Rightarrow> bool" where
  "strcasestr s pat = strstr (map tolower s) (map tolower pat)"

text \<open>The index of the last occurrence.\<close>

fun strrchr :: "char \<Rightarrow> string \<Rightarrow> nat option" where
  "strrchr c [] = None"
| "strrchr c (x # xs) =
     (case strrchr c xs of Some i \<Rightarrow> Some (Suc i) | None \<Rightarrow> if x = c then Some 0 else None)"

lemma strcaseeq_refl [simp]: "strcaseeq a a"
  by (simp add: strcaseeq_def)

lemma strcaseeq_sym: "strcaseeq a b \<Longrightarrow> strcaseeq b a"
  by (simp add: strcaseeq_def)

lemma strcaseeq_trans: "strcaseeq a b \<Longrightarrow> strcaseeq b c \<Longrightarrow> strcaseeq a c"
  by (simp add: strcaseeq_def)

lemma strcaseeq_length: "strcaseeq a b \<Longrightarrow> length a = length b"
  unfolding strcaseeq_def by (metis length_map)

lemma strrchr_None [simp]: "strrchr c s = None \<longleftrightarrow> c \<notin> set s"
  by (induction s) (auto split: option.split)

lemma strrchr_Some:
  "strrchr c s = Some i \<longleftrightarrow> i < length s \<and> s ! i = c \<and> c \<notin> set (drop (Suc i) s)"
proof (induction s arbitrary: i)
  case Nil
  then show ?case by simp
next
  case (Cons x xs)
  show ?case
  proof (cases "strrchr c xs")
    case None
    then have c: "c \<notin> set xs" by simp
    have "\<not> (i < length xs \<and> xs ! i = c)" for i using c nth_mem [of i xs] by blast
    then show ?thesis using c by (cases i) (auto simp del: strrchr_None simp: None)
  next
    case (Some k)
    then have c: "k < length xs" "xs ! k = c" "c \<in> set xs" using Cons.IH [of k] by auto
    show ?thesis
    proof (cases i)
      case 0
      then show ?thesis using Some c by simp
    next
      case (Suc j)
      then show ?thesis using Some Cons.IH [of j] by simp
    qed
  qed
qed

end
