(* ===== verification/Gdi.thy ===== *)
theory Gdi
  imports CString Windows Bitmap
begin

text \<open>
  The drawing layer of \<open>Sources/Win32/wg_win32_gdi.{h,c}\<close>: the table of 32 device contexts, the 64
  brushes, and the operations that draw into a window's client framebuffer or the bitmap selected
  into a memory context: rectangles, lines, stretched blits. One record holds the static tables
  together with those of the window manager and the bitmaps. The functions that call Core Text
  (\<open>wg_gdi_text_out\<close>, \<open>wg_gdi_text_width\<close>, \<open>wg_gdi_line_height\<close>, \<open>wg_gdi_text_box\<close>) are not
  modelled beyond the text that they are given. \<open>ok\<close> says whether \<open>malloc\<close> succeeds.
\<close>

definition MAX_DCS :: nat where "MAX_DCS = 32"
definition MAX_BRUSHES :: nat where "MAX_BRUSHES = 64"
definition WG_DC_BASE :: u32 where "WG_DC_BASE = 0x00DC0000"
definition s_next_brush :: u32 where "s_next_brush = 0x00B0000"

record dc =
  dc_used :: bool
  dc_handle :: u32
  dc_hwnd :: u32
  is_memdc :: bool
  sel_bitmap :: u32
  text_color :: u32
  bk_color :: u32
  bk_mode :: int
  cur_x :: int
  cur_y :: int
  font_px :: int
  font_bold :: bool
  font_name :: string

record gdi =
  dcs :: "dc list"
  next_dc :: u32
  brush_colors :: "u32 list"
  brush_used :: "bool list"
  wins :: wm
  bits :: bitmaps

definition zero_dc :: dc where
  "zero_dc = \<lparr>dc_used = False, dc_handle = 0, dc_hwnd = 0, is_memdc = False, sel_bitmap = 0,
     text_color = 0, bk_color = 0, bk_mode = 0, cur_x = 0, cur_y = 0, font_px = 0,
     font_bold = False, font_name = []\<rparr>"

definition initial_gdi :: gdi where
  "initial_gdi = \<lparr>dcs = replicate MAX_DCS zero_dc, next_dc = WG_DC_BASE,
     brush_colors = replicate MAX_BRUSHES 0, brush_used = replicate MAX_BRUSHES False,
     wins = zero_wm, bits = initial_bitmaps\<rparr>"

definition colorref_to_rgba :: "u32 \<Rightarrow> u32" where
  "colorref_to_rgba cr =
     (let r = cr AND 0xFF; g = drop_bit 8 cr AND 0xFF; b = drop_bit 16 cr AND 0xFF
      in r OR push_bit 8 g OR push_bit 16 b OR push_bit 24 0xFF)"

section \<open>Device contexts\<close>

definition find_dc :: "u32 \<Rightarrow> gdi \<Rightarrow> nat option" where
  "find_dc hdc g = find_index (\<lambda>d. dc_used d \<and> dc_handle d = hdc) (dcs g)"

definition upd_dc :: "u32 \<Rightarrow> (dc \<Rightarrow> dc) \<Rightarrow> gdi \<Rightarrow> gdi" where
  "upd_dc hdc f g = (case find_dc hdc g of None \<Rightarrow> g | Some i \<Rightarrow> g\<lparr>dcs := (dcs g)[i := f (dcs g ! i)]\<rparr>)"

text \<open>The fields that \<open>wg_gdi_get_dc\<close> sets; it does not touch \<open>is_memdc\<close> and \<open>sel_bitmap\<close>. The
  font name keeps its array, only its first byte is cleared.\<close>

definition window_dc :: "u32 \<Rightarrow> u32 \<Rightarrow> dc \<Rightarrow> dc" where
  "window_dc h hwnd d = d\<lparr>dc_used := True, dc_handle := h, dc_hwnd := hwnd, text_color := 0,
     bk_color := 0x00FFFFFF, bk_mode := 2, cur_x := 0, cur_y := 0, font_px := 13,
     font_bold := False, font_name := []\<rparr>"

definition memory_dc :: "u32 \<Rightarrow> dc" where
  "memory_dc h = zero_dc\<lparr>dc_used := True, dc_handle := h, is_memdc := True,
     bk_color := 0x00FFFFFF, bk_mode := 2\<rparr>"

text \<open>\<open>None\<close> is the returned 0.\<close>

definition new_dc :: "(u32 \<Rightarrow> dc \<Rightarrow> dc) \<Rightarrow> gdi \<Rightarrow> u32 option \<times> gdi" where
  "new_dc mk g =
     (case find_index (\<lambda>d. \<not> dc_used d) (dcs g) of
        None \<Rightarrow> (None, g)
      | Some i \<Rightarrow> (Some (next_dc g),
          g\<lparr>dcs := (dcs g)[i := mk (next_dc g) (dcs g ! i)], next_dc := next_dc g + 1\<rparr>))"

definition wg_gdi_get_dc :: "u32 \<Rightarrow> gdi \<Rightarrow> u32 option \<times> gdi" where
  "wg_gdi_get_dc hwnd = new_dc (\<lambda>h. window_dc h hwnd)"

definition wg_gdi_create_memory_dc :: "gdi \<Rightarrow> u32 option \<times> gdi" where
  "wg_gdi_create_memory_dc = new_dc (\<lambda>h d. memory_dc h)"

definition wg_gdi_release_dc :: "u32 \<Rightarrow> gdi \<Rightarrow> gdi" where
  "wg_gdi_release_dc hdc = upd_dc hdc (\<lambda>d. d\<lparr>dc_used := False\<rparr>)"

definition wg_gdi_delete_dc :: "u32 \<Rightarrow> gdi \<Rightarrow> gdi" where
  "wg_gdi_delete_dc hdc = upd_dc hdc (\<lambda>d. d\<lparr>dc_used := False\<rparr>)"

definition wg_gdi_set_text_color :: "u32 \<Rightarrow> u32 \<Rightarrow> gdi \<Rightarrow> gdi" where
  "wg_gdi_set_text_color hdc cr = upd_dc hdc (\<lambda>d. d\<lparr>text_color := cr\<rparr>)"

definition wg_gdi_set_bk_mode :: "u32 \<Rightarrow> int \<Rightarrow> gdi \<Rightarrow> gdi" where
  "wg_gdi_set_bk_mode hdc m = upd_dc hdc (\<lambda>d. d\<lparr>bk_mode := m\<rparr>)"

definition wg_gdi_set_bk_color :: "u32 \<Rightarrow> u32 \<Rightarrow> gdi \<Rightarrow> gdi" where
  "wg_gdi_set_bk_color hdc cr = upd_dc hdc (\<lambda>d. d\<lparr>bk_color := cr\<rparr>)"

definition wg_gdi_move_to :: "u32 \<Rightarrow> int \<Rightarrow> int \<Rightarrow> gdi \<Rightarrow> gdi" where
  "wg_gdi_move_to hdc x y = upd_dc hdc (\<lambda>d. d\<lparr>cur_x := x, cur_y := y\<rparr>)"

text \<open>\<open>name\<close> is \<open>None\<close> for NULL.\<close>

definition wg_gdi_select_font :: "u32 \<Rightarrow> int \<Rightarrow> bool \<Rightarrow> string option \<Rightarrow> gdi \<Rightarrow> gdi" where
  "wg_gdi_select_font hdc px bold nm = upd_dc hdc (\<lambda>d.
     let d = (if 0 < px then d\<lparr>font_px := px\<rparr> else d);
         d = d\<lparr>font_bold := bold\<rparr>
     in case nm of None \<Rightarrow> d\<lparr>font_name := []\<rparr> | Some n \<Rightarrow> d\<lparr>font_name := take 63 n\<rparr>)"

definition wg_gdi_select_bitmap :: "u32 \<Rightarrow> u32 \<Rightarrow> gdi \<Rightarrow> u32 \<times> gdi" where
  "wg_gdi_select_bitmap hdc hbitmap g =
     (case find_dc hdc g of
        None \<Rightarrow> (0, g)
      | Some i \<Rightarrow> (sel_bitmap (dcs g ! i), upd_dc hdc (\<lambda>d. d\<lparr>sel_bitmap := hbitmap\<rparr>) g))"

definition wg_gdi_selected_bitmap :: "u32 \<Rightarrow> gdi \<Rightarrow> u32" where
  "wg_gdi_selected_bitmap hdc g = (case find_dc hdc g of None \<Rightarrow> 0 | Some i \<Rightarrow> sel_bitmap (dcs g ! i))"

section \<open>Brushes\<close>

definition wg_gdi_create_solid_brush :: "u32 \<Rightarrow> gdi \<Rightarrow> u32 \<times> gdi" where
  "wg_gdi_create_solid_brush cr g =
     (case find_index Not (brush_used g) of
        None \<Rightarrow> (s_next_brush, g)
      | Some i \<Rightarrow> (s_next_brush + of_nat i,
          g\<lparr>brush_used := (brush_used g)[i := True], brush_colors := (brush_colors g)[i := cr]\<rparr>))"

text \<open>The colour and \<open>*found\<close>; the difference is converted to \<open>int\<close>.\<close>

definition wg_gdi_brush_color :: "u32 \<Rightarrow> gdi \<Rightarrow> u32 \<times> bool" where
  "wg_gdi_brush_color hbrush g =
     (let idx = sint (hbrush - s_next_brush)
      in if 0 \<le> idx \<and> idx < int MAX_BRUSHES \<and> brush_used g ! nat idx
         then (brush_colors g ! nat idx, True) else (0x00FFFFFF, False))"

section \<open>Drawing targets\<close>

text \<open>A pixel buffer: the framebuffer of a window or the pixels of a bitmap slot, with checked
  access.\<close>

datatype target = TWindow nat | TBitmap nat

fun target_px :: "gdi \<Rightarrow> target \<Rightarrow> u32 list ub" where
  "target_px g (TWindow i) = client (windows (wins g) ! i)"
| "target_px g (TBitmap i) = Some (bm_px (bmps (bits g) ! i))"

fun set_px :: "gdi \<Rightarrow> target \<Rightarrow> u32 list \<Rightarrow> gdi" where
  "set_px g (TWindow i) px = g\<lparr>wins := upd_window (wins g) i (\<lambda>w. w\<lparr>client := Some px\<rparr>)\<rparr>"
| "set_px g (TBitmap i) px = g\<lparr>bits := (bits g)\<lparr>bmps := (bmps (bits g))[i := (bmps (bits g) ! i)\<lparr>bm_px := px\<rparr>]\<rparr>\<rparr>"

definition load_px :: "target \<Rightarrow> int \<Rightarrow> gdi \<Rightarrow> u32 ub" where
  "load_px t k g = do {
     px \<leftarrow> target_px g t;
     guard (0 \<le> k \<and> k < int (length px));
     Some (px ! nat k) }"

definition store_px :: "target \<Rightarrow> int \<Rightarrow> u32 \<Rightarrow> gdi \<Rightarrow> gdi ub" where
  "store_px t k v g = do {
     px \<leftarrow> target_px g t;
     guard (0 \<le> k \<and> k < int (length px));
     Some (set_px g t (px[nat k := v])) }"

text \<open>\<open>wg_wm_get_client\<close> and \<open>wg_wm_find\<close> on the window manager's part of the state.\<close>

definition client_of :: "bool \<Rightarrow> u32 \<Rightarrow> gdi \<Rightarrow> (nat option \<times> gdi) ub" where
  "client_of ok hwnd g = map_option (\<lambda>(r, m). (r, g\<lparr>wins := m\<rparr>)) (wg_wm_get_client ok hwnd (wins g))"

definition mark_dirty :: "u32 \<Rightarrow> gdi \<Rightarrow> gdi" where
  "mark_dirty hwnd g =
     (let (r, m) = wg_wm_find hwnd (wins g)
      in case r of
           None \<Rightarrow> g\<lparr>wins := m\<rparr>
         | Some i \<Rightarrow> g\<lparr>wins := upd_window m i (\<lambda>w. w\<lparr>client_dirty := True\<rparr>)\<rparr>)"

text \<open>The frame of the window operations: nothing happens without the context or the framebuffer;
  otherwise the body draws into window \<open>i\<close> of size \<open>w\<close> times \<open>h\<close>, which is marked dirty.\<close>

definition on_window ::
    "bool \<Rightarrow> u32 \<Rightarrow> (dc \<Rightarrow> nat \<Rightarrow> int \<Rightarrow> int \<Rightarrow> gdi \<Rightarrow> gdi ub) \<Rightarrow> gdi \<Rightarrow> gdi ub" where
  "on_window ok hdc body g =
     (case find_dc hdc g of
        None \<Rightarrow> Some g
      | Some d \<Rightarrow> do {
          let c = dcs g ! d;
          (fb, g) \<leftarrow> client_of ok (dc_hwnd c) g;
          case fb of
            None \<Rightarrow> Some g
          | Some i \<Rightarrow> do {
              g \<leftarrow> body c i (client_w (windows (wins g) ! i)) (client_h (windows (wins g) ! i)) g;
              Some (mark_dirty (dc_hwnd c) g)
            }
        })"

section \<open>Rectangles and lines\<close>

definition fill_loops :: "target \<Rightarrow> int \<Rightarrow> u32 \<Rightarrow> int list \<Rightarrow> int list \<Rightarrow> gdi \<Rightarrow> gdi ub" where
  "fill_loops t w v xs = each (\<lambda>y. each (\<lambda>x g. do { k \<leftarrow> c_int (y * w + x); store_px t k v g }) xs)"

definition wg_gdi_fill_rect ::
    "bool \<Rightarrow> u32 \<Rightarrow> int \<Rightarrow> int \<Rightarrow> int \<Rightarrow> int \<Rightarrow> u32 \<Rightarrow> gdi \<Rightarrow> gdi ub" where
  "wg_gdi_fill_rect ok hdc l t r b cr =
     on_window ok hdc (\<lambda>c i w h.
       let l = (if l < 0 then 0 else l); t = (if t < 0 then 0 else t);
           r = (if w < r then w else r); b = (if h < b then h else b)
       in fill_loops (TWindow i) w (colorref_to_rgba cr) [l..r - 1] [t..b - 1])"

definition put_px :: "target \<Rightarrow> int \<Rightarrow> int \<Rightarrow> u32 \<Rightarrow> int \<Rightarrow> int \<Rightarrow> gdi \<Rightarrow> gdi ub" where
  "put_px t w h rgba x y g =
     (if x < 0 \<or> y < 0 \<or> w \<le> x \<or> h \<le> y then Some g
      else do { k \<leftarrow> c_int (y * w + x); store_px t k rgba g })"

text \<open>The steps of the loop: the error term and the two coordinates. Every sum is an \<open>int\<close> of C.\<close>

definition step_x :: "int \<Rightarrow> int \<Rightarrow> int \<Rightarrow> int \<Rightarrow> int \<Rightarrow> int \<Rightarrow> (int \<times> int) ub" where
  "step_x adx ady sx e2 err x =
     (if - adx < e2 then do { err \<leftarrow> c_int (err - ady); x \<leftarrow> c_int (x + sx); Some (err, x) }
      else Some (err, x))"

definition step_y :: "int \<Rightarrow> int \<Rightarrow> int \<Rightarrow> int \<Rightarrow> int \<Rightarrow> int \<Rightarrow> (int \<times> int) ub" where
  "step_y adx ady sy e2 err y =
     (if e2 < ady then do { err \<leftarrow> c_int (err + adx); y \<leftarrow> c_int (y + sy); Some (err, y) }
      else Some (err, y))"

text \<open>\<open>for (;;)\<close> with fuel: running out of it is \<open>None\<close>.\<close>

fun bresenham :: "nat \<Rightarrow> (int \<Rightarrow> int \<Rightarrow> 's \<Rightarrow> 's ub) \<Rightarrow> int \<Rightarrow> int \<Rightarrow> int \<Rightarrow> int \<Rightarrow> int \<Rightarrow> int \<Rightarrow> int
    \<Rightarrow> int \<Rightarrow> int \<Rightarrow> 's \<Rightarrow> 's ub" where
  "bresenham 0 put adx ady sx sy x1 y1 err x0 y0 g = None"
| "bresenham (Suc n) put adx ady sx sy x1 y1 err x0 y0 g = do {
     g \<leftarrow> put x0 y0 g;
     if x0 = x1 \<and> y0 = y1 then Some g
     else do {
       (err', x0) \<leftarrow> step_x adx ady sx err err x0;
       (err', y0) \<leftarrow> step_y adx ady sy err err' y0;
       bresenham n put adx ady sx sy x1 y1 err' x0 y0 g
     }
   }"

text \<open>The division truncates toward 0.\<close>

definition line_err :: "int \<Rightarrow> int \<Rightarrow> int" where
  "line_err adx ady = (if ady < adx then adx div 2 else - (ady div 2))"

definition draw_line :: "nat \<Rightarrow> (int \<Rightarrow> int \<Rightarrow> 's \<Rightarrow> 's ub) \<Rightarrow> int \<Rightarrow> int \<Rightarrow> int \<Rightarrow> int \<Rightarrow> 's \<Rightarrow> 's ub" where
  "draw_line n put x0 y0 x1 y1 g = do {
     dx \<leftarrow> c_int (x1 - x0);
     dy \<leftarrow> c_int (y1 - y0);
     adx \<leftarrow> c_int (if dx < 0 then - dx else dx);
     ady \<leftarrow> c_int (if dy < 0 then - dy else dy);
     bresenham n put adx ady (if dx < 0 then - 1 else 1) (if dy < 0 then - 1 else 1) x1 y1
       (line_err adx ady) x0 y0 g
   }"

definition wg_gdi_line_to :: "nat \<Rightarrow> bool \<Rightarrow> u32 \<Rightarrow> int \<Rightarrow> int \<Rightarrow> gdi \<Rightarrow> gdi ub" where
  "wg_gdi_line_to n ok hdc x y =
     on_window ok hdc (\<lambda>c i w h g. do {
       g \<leftarrow> draw_line n (put_px (TWindow i) w h (colorref_to_rgba (text_color c))) (cur_x c) (cur_y c) x y g;
       Some (wg_gdi_move_to hdc x y g)
     })"

section \<open>Blits\<close>

text \<open>The buffer of a context, its size, and the window to mark dirty (0 for a bitmap).\<close>

definition dc_target :: "bool \<Rightarrow> u32 \<Rightarrow> gdi \<Rightarrow> ((target \<times> int \<times> int \<times> u32) option \<times> gdi) ub" where
  "dc_target ok hdc g =
     (case find_dc hdc g of
        None \<Rightarrow> Some (None, g)
      | Some d \<Rightarrow>
          let c = dcs g ! d
          in if is_memdc c then
               Some (map_option (\<lambda>(i, w, h). (TBitmap i, w, h, 0)) (wg_bitmap_pixels (sel_bitmap c) (bits g)), g)
             else do {
               (fb, g) \<leftarrow> client_of ok (dc_hwnd c) g;
               case fb of
                 None \<Rightarrow> Some (None, g)
               | Some i \<Rightarrow> Some (Some (TWindow i, client_w (windows (wins g) ! i),
                   client_h (windows (wins g) ! i), dc_hwnd c), g)
             })"

definition mix :: "u32 \<Rightarrow> u32 \<Rightarrow> u32 \<Rightarrow> u32" where
  "mix a s d = (s * a + d * (255 - a)) div 255"

definition blend :: "u32 \<Rightarrow> u32 \<Rightarrow> u32" where
  "blend s d =
     (let a = drop_bit 24 s AND 0xFF;
          r = mix a (s AND 0xFF) (d AND 0xFF);
          g = mix a (drop_bit 8 s AND 0xFF) (drop_bit 8 d AND 0xFF);
          b = mix a (drop_bit 16 s AND 0xFF) (drop_bit 16 d AND 0xFF)
      in r OR push_bit 8 g OR push_bit 16 b OR push_bit 24 0xFF)"

text \<open>One pixel: \<open>p\<close> in the source, \<open>k\<close> in the target.\<close>

definition blit_px :: "target \<Rightarrow> target \<Rightarrow> int \<Rightarrow> int \<Rightarrow> gdi \<Rightarrow> gdi ub" where
  "blit_px src t p k g = do {
     s \<leftarrow> load_px src p g;
     let a = drop_bit 24 s AND 0xFF;
     if a = 0xFF then store_px t k s g
     else if a \<noteq> 0 then do { d \<leftarrow> load_px t k g; store_px t k (blend s d) g }
     else Some g
   }"

definition blit_row :: "target \<Rightarrow> target \<Rightarrow> int \<Rightarrow> int \<Rightarrow> int \<Rightarrow> int \<Rightarrow> int \<Rightarrow> int \<Rightarrow> int \<Rightarrow> int \<Rightarrow> gdi \<Rightarrow> gdi ub" where
  "blit_row src t tw src_w ddy ssy dx dw sx sw = each (\<lambda>i g. do {
       ddx \<leftarrow> c_int (dx + i);
       if ddx < 0 \<or> tw \<le> ddx then Some g
       else do {
         q \<leftarrow> c_int (i * sw);
         ssx \<leftarrow> c_int (sx + q div dw);
         if ssx < 0 \<or> src_w \<le> ssx then Some g
         else blit_px src t (ssy * src_w + ssx) (ddy * tw + ddx) g
       }
     }) [0..dw - 1]"

definition blit_rows :: "target \<Rightarrow> target \<Rightarrow> int \<Rightarrow> int \<Rightarrow> int \<Rightarrow> int \<Rightarrow> int \<Rightarrow> int \<Rightarrow> int \<Rightarrow> int
    \<Rightarrow> int \<Rightarrow> int \<Rightarrow> int \<Rightarrow> int \<Rightarrow> gdi \<Rightarrow> gdi ub" where
  "blit_rows src t tw th src_w src_h dx dy dw dh sx sy sw sh = each (\<lambda>j g. do {
       ddy \<leftarrow> c_int (dy + j);
       if ddy < 0 \<or> th \<le> ddy then Some g
       else do {
         q \<leftarrow> c_int (j * sh);
         ssy \<leftarrow> c_int (sy + q div dh);
         if ssy < 0 \<or> src_h \<le> ssy then Some g
         else blit_row src t tw src_w ddy ssy dx dw sx sw g
       }
     }) [0..dh - 1]"

definition blit_pixels :: "bool \<Rightarrow> u32 \<Rightarrow> int \<Rightarrow> int \<Rightarrow> int \<Rightarrow> int \<Rightarrow> target \<Rightarrow> int \<Rightarrow> int
    \<Rightarrow> int \<Rightarrow> int \<Rightarrow> int \<Rightarrow> int \<Rightarrow> gdi \<Rightarrow> gdi ub" where
  "blit_pixels ok hdc dx dy dw dh src src_w src_h sx sy sw sh g =
     (if dw \<le> 0 \<or> dh \<le> 0 \<or> sw \<le> 0 \<or> sh \<le> 0 then Some g
      else do {
        (dst, g) \<leftarrow> dc_target ok hdc g;
        case dst of
          None \<Rightarrow> Some g
        | Some (t, tw, th, win) \<Rightarrow> do {
            g \<leftarrow> blit_rows src t tw th src_w src_h dx dy dw dh sx sy sw sh g;
            Some (if win \<noteq> 0 then mark_dirty win g else g)
          }
      })"

definition wg_gdi_draw_bitmap :: "bool \<Rightarrow> u32 \<Rightarrow> int \<Rightarrow> int \<Rightarrow> int \<Rightarrow> int \<Rightarrow> u32 \<Rightarrow> int \<Rightarrow> int \<Rightarrow> int \<Rightarrow> int
    \<Rightarrow> gdi \<Rightarrow> gdi ub" where
  "wg_gdi_draw_bitmap ok hdc dx dy dw dh hbitmap sx sy sw sh g =
     (case wg_bitmap_pixels hbitmap (bits g) of
        None \<Rightarrow> Some g
      | Some (i, bw, bh) \<Rightarrow>
          let sw = (if sw \<le> 0 then bw else sw); sh = (if sh \<le> 0 then bh else sh);
              dw = (if dw \<le> 0 then sw else dw); dh = (if dh \<le> 0 then sh else dh)
          in blit_pixels ok hdc dx dy dw dh (TBitmap i) bw bh sx sy sw sh g)"

definition wg_gdi_blit :: "bool \<Rightarrow> u32 \<Rightarrow> int \<Rightarrow> int \<Rightarrow> int \<Rightarrow> int \<Rightarrow> u32 \<Rightarrow> int \<Rightarrow> int \<Rightarrow> int \<Rightarrow> int
    \<Rightarrow> gdi \<Rightarrow> gdi ub" where
  "wg_gdi_blit ok hdc dx dy dw dh hdc_src sx sy sw sh g =
     (let hbmp = wg_gdi_selected_bitmap hdc_src g
      in if hbmp = 0 then Some g else wg_gdi_draw_bitmap ok hdc dx dy dw dh hbmp sx sy sw sh g)"

section \<open>Text\<close>

definition map_font_name :: "string option \<Rightarrow> bool \<Rightarrow> string" where
  "map_font_name nm bold =
     (let low = (case nm of None \<Rightarrow> [] | Some n \<Rightarrow> map tolower (take 63 n))
      in if strstr low ''courier'' \<or> strstr low ''consol'' \<or> strstr low ''mono''
         then (if bold then ''CourierNewPS-BoldMT'' else ''CourierNewPSMT'')
         else if strstr low ''times'' \<or> strstr low ''serif''
         then (if bold then ''TimesNewRomanPS-BoldMT'' else ''TimesNewRomanPSMT'')
         else if strstr low ''arial'' then (if bold then ''Arial-BoldMT'' else ''ArialMT'')
         else if strstr low ''trebuchet'' then (if bold then ''TrebuchetMS-Bold'' else ''TrebuchetMS'')
         else if strstr low ''georgia'' then (if bold then ''Georgia-Bold'' else ''Georgia'')
         else (if bold then ''Verdana-Bold'' else ''Verdana''))"

text \<open>The text that \<open>wg_gdi_text_out_caption\<close> (\<open>n = 255\<close>) and \<open>wg_gdi_text_box\<close> (\<open>n = 511\<close>) draw:
  mnemonic markers are dropped, a doubled one is a literal ampersand.\<close>

fun strip_mnemonics :: "nat \<Rightarrow> u16 list \<Rightarrow> u16 list" where
  "strip_mnemonics 0 cs = []"
| "strip_mnemonics (Suc n) [] = []"
| "strip_mnemonics (Suc n) (c # cs) =
     (if c = 0x26 then
        (case cs of
           [] \<Rightarrow> []
         | d # ds \<Rightarrow> if d = 0x26 then 0x26 # strip_mnemonics n ds else strip_mnemonics (Suc n) cs)
      else c # strip_mnemonics n cs)"

end
