(* ===== verification/GdiOk.thy ===== *)
theory GdiOk
  imports Gdi
begin

text \<open>
  What rectangles and lines draw: a filled rectangle is exactly the clipped rectangle, a line is connected,
  ends where it should and is never more than half a pixel away from the ideal line. The loops are followed at the level of
  the one pixel buffer they change: \<open>drawn g t n g'\<close> says that \<open>g'\<close> is \<open>g\<close> with \<open>n\<close> other pixels
  in the buffer \<open>t\<close>.
\<close>

section \<open>Pixel buffers\<close>

fun valid_target :: "gdi \<Rightarrow> target \<Rightarrow> bool" where
  "valid_target g (TWindow i) = (i < length (windows (wins g)))"
| "valid_target g (TBitmap i) = (i < length (bmps (bits g)))"

lemma target_set_px [simp]: "valid_target g t \<Longrightarrow> target_px (set_px g t px) t = Some px"
  by (cases t) (simp_all add: upd_window_def)

lemma target_set_other [simp]: "s \<noteq> t \<Longrightarrow> target_px (set_px g t px) s = target_px g s"
  by (cases t; cases s) (auto simp: upd_window_def)

lemma set_set_px [simp]: "valid_target g t \<Longrightarrow> set_px (set_px g t px) t px' = set_px g t px'"
  by (cases t) (simp_all add: upd_window_def)

lemma valid_set_px [simp]: "valid_target (set_px g t px) s = valid_target g s"
  by (cases t; cases s) (simp_all add: upd_window_def)

lemma client_same: "client w = Some px \<Longrightarrow> w\<lparr>client := Some px\<rparr> = w"
  by (cases w) simp

lemma set_px_same [simp]: "target_px g t = Some px \<Longrightarrow> set_px g t px = g"
  by (cases t) (auto simp: upd_window_def client_same)

definition drawn :: "gdi \<Rightarrow> target \<Rightarrow> nat \<Rightarrow> gdi \<Rightarrow> bool" where
  "drawn g t n g' \<longleftrightarrow> (\<exists>px. g' = set_px g t px \<and> length px = n)"

lemma store_drawn:
  assumes v: "valid_target g t" and d: "drawn g t n g1" and k: "0 \<le> k" "k < int n"
  shows "\<exists>g2 px. store_px t k c g1 = Some g2 \<and> drawn g t n g2 \<and> target_px g1 t = Some px \<and>
    length px = n \<and> target_px g2 t = Some (px[nat k := c])"
proof -
  obtain px where px: "g1 = set_px g t px" "length px = n" using d by (auto simp: drawn_def)
  then have "store_px t k c g1 = Some (set_px g t (px[nat k := c]))"
    using v k by (simp add: store_px_def)
  then show ?thesis using px v by (auto simp: drawn_def)
qed

text \<open>The value of one pixel.\<close>

definition pixel :: "target \<Rightarrow> nat \<Rightarrow> gdi \<Rightarrow> u32" where
  "pixel t k g = the (target_px g t) ! k"

lemma store_pixel:
  assumes "valid_target g t" and "drawn g t n g1" and "0 \<le> k" "k < int n" and "store_px t k c g1 = Some g2"
    and "j < n"
  shows "pixel t j g2 = (if j = nat k then c else pixel t j g1)"
  using store_drawn [OF assms(1-4), of c] assms(5,6) by (auto simp: pixel_def)

lemma cell_bounds:
  assumes "0 \<le> x" "x < w" "0 \<le> y" "y < h"
  shows "0 \<le> y * w + x" and "y * w + x < w * (h :: int)"
proof -
  show "0 \<le> y * w + x" using assms by simp
  have "(y + 1) * w \<le> h * w" using assms by (intro mult_right_mono) auto
  then show "y * w + x < w * h" using assms by (simp add: algebra_simps)
qed

lemma cell_inj:
  assumes "0 \<le> x" "x < w" "0 \<le> x'" "x' < w" "0 \<le> y" "0 \<le> y'" and "nat (y * w + x) = nat (y' * w + x')"
  shows "x = x' \<and> y = (y' :: int)"
proof -
  have "0 \<le> y * w + x" "0 \<le> y' * w + x'" using assms by simp_all
  with assms(7) have e: "y * w + x = y' * w + x'" by (simp add: nat_eq_iff)
  have "(y * w + x) div w = y" "(y' * w + x') div w = y'" using assms by simp_all
  with e show ?thesis by simp
qed

section \<open>Filled rectangles\<close>

lemma fill_row_drawn:
  assumes v: "valid_target g t" and d: "drawn g t (nat (w * h)) g1" and y: "0 \<le> y" "y < h" and wh: "w * h < 2 ^ 31"
    and xs: "\<forall>x \<in> set xs. 0 \<le> x \<and> x < w"
  shows "\<exists>g2. each (\<lambda>x g. do { k \<leftarrow> c_int (y * w + x); store_px t k c g }) xs g1 = Some g2 \<and>
    drawn g t (nat (w * h)) g2"
proof (rule each_defined [where P = "drawn g t (nat (w * h))", OF d])
  fix x g1 assume x: "x \<in> set xs" and d: "drawn g t (nat (w * h)) g1"
  have k: "0 \<le> y * w + x" "y * w + x < w * h" using cell_bounds [of x w y h] x xs y by auto
  then show "\<exists>g2. Option.bind (c_int (y * w + x)) (\<lambda>k. store_px t k c g1) = Some g2 \<and> drawn g t (nat (w * h)) g2"
    using store_drawn [OF v d, of "y * w + x" c] wh by auto
qed

lemma fill_row_pixel:
  assumes v: "valid_target g t" and d: "drawn g t (nat (w * h)) g1" and y: "0 \<le> y" "y < h" and wh: "w * h < 2 ^ 31"
    and xs: "\<forall>x \<in> set xs. 0 \<le> x \<and> x < w"
    and r: "each (\<lambda>x g. do { k \<leftarrow> c_int (y * w + x); store_px t k c g }) xs g1 = Some g2"
    and j: "0 \<le> X" "X < w" "0 \<le> Y" "Y < h"
  shows "pixel t (nat (Y * w + X)) g2 =
    (if Y = y \<and> X \<in> set xs then c else pixel t (nat (Y * w + X)) g1)"
  using d xs r
proof (induction xs arbitrary: g1)
  case Nil
  then show ?case by simp
next
  case (Cons x xs)
  have k: "0 \<le> y * w + x" "y * w + x < w * h" using cell_bounds [of x w y h] Cons.prems(2) y by auto
  have kn: "y * w + x < int (nat (w * h))" using k by simp
  obtain g3 where s: "store_px t (y * w + x) c g1 = Some g3" and d3: "drawn g t (nat (w * h)) g3"
    using store_drawn [OF v Cons.prems(1) k(1) kn, of c] by blast
  have r': "each (\<lambda>x g. do { k \<leftarrow> c_int (y * w + x); store_px t k c g }) xs g3 = Some g2"
    using Cons.prems(3) s k wh by simp
  have c: "nat (Y * w + X) < nat (w * h)" using cell_bounds [OF j] by simp
  have "pixel t (nat (Y * w + X)) g3 = (if nat (Y * w + X) = nat (y * w + x) then c else pixel t (nat (Y * w + X)) g1)"
    by (rule store_pixel [OF v Cons.prems(1) k(1) kn s c])
  moreover have "nat (Y * w + X) = nat (y * w + x) \<longleftrightarrow> Y = y \<and> X = x"
    using cell_inj [of X w x Y y] j y Cons.prems(2) by auto
  ultimately show ?case using Cons.IH [OF d3 _ r'] Cons.prems(2) by auto
qed

lemma fill_loops_spec:
  assumes v: "valid_target g t" and d: "drawn g t (nat (w * h)) g1" and wh: "w * h < 2 ^ 31"
    and xs: "\<forall>x \<in> set xs. 0 \<le> x \<and> x < w" and ys: "\<forall>y \<in> set ys. 0 \<le> y \<and> y < h"
  shows "\<exists>g2. fill_loops t w c xs ys g1 = Some g2 \<and> drawn g t (nat (w * h)) g2 \<and>
    (\<forall>X Y. 0 \<le> X \<and> X < w \<and> 0 \<le> Y \<and> Y < h \<longrightarrow> pixel t (nat (Y * w + X)) g2 =
      (if X \<in> set xs \<and> Y \<in> set ys then c else pixel t (nat (Y * w + X)) g1))"
  using d ys
proof (induction ys arbitrary: g1)
  case Nil
  then show ?case by (simp add: fill_loops_def)
next
  case (Cons y ys)
  have y: "0 \<le> y" "y < h" using Cons.prems(2) by auto
  obtain g3 where r: "each (\<lambda>x g. do { k \<leftarrow> c_int (y * w + x); store_px t k c g }) xs g1 = Some g3"
    and d3: "drawn g t (nat (w * h)) g3"
    using fill_row_drawn [OF v Cons.prems(1) y wh xs] by blast
  note px = fill_row_pixel [OF v Cons.prems(1) y wh xs r]
  have "\<forall>y \<in> set ys. 0 \<le> y \<and> y < h" using Cons.prems(2) by simp
  from Cons.IH [OF d3 this] obtain g2 where g2: "fill_loops t w c xs ys g3 = Some g2" "drawn g t (nat (w * h)) g2"
    "\<forall>X Y. 0 \<le> X \<and> X < w \<and> 0 \<le> Y \<and> Y < h \<longrightarrow> pixel t (nat (Y * w + X)) g2 =
      (if X \<in> set xs \<and> Y \<in> set ys then c else pixel t (nat (Y * w + X)) g3)" by blast
  have "fill_loops t w c xs (y # ys) g1 = Some g2"
    using r g2(1) by (simp add: fill_loops_def)
  then show ?case using g2(2,3) px by auto
qed

lemma client_of_SomeD:
  assumes wf: "wf_wm (wins g)" and c: "client_of ok hwnd g = Some (Some i, g1)"
  shows "wf_wm (wins g1)" and "valid_target g1 (TWindow i)" and "dcs g1 = dcs g" and "bits g1 = bits g"
    and "\<exists>px. client (windows (wins g1) ! i) = Some px \<and>
      length px = nat (client_w (windows (wins g1) ! i) * client_h (windows (wins g1) ! i))"
    and "client_w (windows (wins g1) ! i) * client_h (windows (wins g1) ! i) < 2 ^ 31"
    and "1 \<le> client_w (windows (wins g1) ! i)" and "1 \<le> client_h (windows (wins g1) ! i)"
proof -
  obtain m where m: "wg_wm_get_client ok hwnd (wins g) = Some (Some i, m)" and g1: "g1 = g\<lparr>wins := m\<rparr>"
    using c by (auto simp: client_of_def)
  show wf1: "wf_wm (wins g1)" using wf_get_client [OF wf m] g1 by simp
  from client_buffer_facts [OF wf m] obtain px where i: "i < WG_MAX_WINDOWS"
    and px: "client (windows m ! i) = Some px" by blast
  show "valid_target g1 (TWindow i)" using i wf_wmD(1) [OF wf1] by simp
  show "dcs g1 = dcs g" "bits g1 = bits g" using g1 by simp_all
  have "window_ok (windows (wins g1) ! i)" by (rule wf_wmD(6) [OF wf1 i])
  with px g1 show "\<exists>px. client (windows (wins g1) ! i) = Some px \<and>
      length px = nat (client_w (windows (wins g1) ! i) * client_h (windows (wins g1) ! i))"
    and "client_w (windows (wins g1) ! i) * client_h (windows (wins g1) ! i) < 2 ^ 31"
    and "1 \<le> client_w (windows (wins g1) ! i)" and "1 \<le> client_h (windows (wins g1) ! i)"
    by (auto simp: window_ok_def)
qed

lemma drawn_refl: "target_px g t = Some px \<Longrightarrow> drawn g t (length px) g"
  unfolding drawn_def by (rule exI [of _ px]) simp

text \<open>The rectangle that is filled is the intersection with the window's client area; its pixels get
  the colour, every other pixel and every other part of the state is unchanged.\<close>

text \<open>C30: FillRect paints exactly the part of the rectangle that lies in the client area, whatever the coordinates are, and changes nothing else but the dirty flag.\<close>

lemma fill_rect_exact:
  assumes wf: "wf_wm (wins g)" and d: "find_dc hdc g = Some d"
    and c: "client_of ok (dc_hwnd (dcs g ! d)) g = Some (Some i, g1)"
    and W: "W = client_w (windows (wins g1) ! i)" and H: "H = client_h (windows (wins g1) ! i)"
  shows "\<exists>px px'. client (windows (wins g1) ! i) = Some px \<and> length px' = length px \<and>
    wg_gdi_fill_rect ok hdc l t r b cr g =
      Some (mark_dirty (dc_hwnd (dcs g ! d)) (set_px g1 (TWindow i) px')) \<and>
    (\<forall>x y. 0 \<le> x \<and> x < W \<and> 0 \<le> y \<and> y < H \<longrightarrow> px' ! nat (y * W + x) =
      (if l \<le> x \<and> x < r \<and> t \<le> y \<and> y < b then colorref_to_rgba cr else px ! nat (y * W + x)))"
proof -
  note cl = client_of_SomeD [OF wf c]
  from cl(5) obtain px where px: "client (windows (wins g1) ! i) = Some px" "length px = nat (W * H)"
    unfolding W H by blast
  let ?xs = "[(if l < 0 then 0 else l)..(if W < r then W else r) - 1]"
  let ?ys = "[(if t < 0 then 0 else t)..(if H < b then H else b) - 1]"
  have d1: "drawn g1 (TWindow i) (nat (W * H)) g1" using drawn_refl [of g1 "TWindow i" px] px by simp
  have b1: "\<forall>x \<in> set ?xs. 0 \<le> x \<and> x < W" "\<forall>y \<in> set ?ys. 0 \<le> y \<and> y < H" by auto
  have wh: "W * H < 2 ^ 31" using cl(6) W H by simp
  from fill_loops_spec [OF cl(2) d1 wh b1, of "colorref_to_rgba cr"] obtain g2 where
    g2: "fill_loops (TWindow i) W (colorref_to_rgba cr) ?xs ?ys g1 = Some g2" "drawn g1 (TWindow i) (nat (W * H)) g2"
    and pix: "\<And>X Y. 0 \<le> X \<Longrightarrow> X < W \<Longrightarrow> 0 \<le> Y \<Longrightarrow> Y < H \<Longrightarrow> pixel (TWindow i) (nat (Y * W + X)) g2 =
      (if X \<in> set ?xs \<and> Y \<in> set ?ys then colorref_to_rgba cr else pixel (TWindow i) (nat (Y * W + X)) g1)"
    by blast
  from g2(2) obtain px' where px': "g2 = set_px g1 (TWindow i) px'" "length px' = nat (W * H)"
    by (auto simp: drawn_def)
  have t2: "target_px g2 (TWindow i) = Some px'" unfolding px'(1) by (rule target_set_px [OF cl(2)])
  have "px' ! nat (y * W + x) =
      (if l \<le> x \<and> x < r \<and> t \<le> y \<and> y < b then colorref_to_rgba cr else px ! nat (y * W + x))"
    if "0 \<le> x" "x < W" "0 \<le> y" "y < H" for x y
    using pix [OF that] that t2 px(1) by (auto simp: pixel_def)
  moreover have "wg_gdi_fill_rect ok hdc l t r b cr g =
      Some (mark_dirty (dc_hwnd (dcs g ! d)) (set_px g1 (TWindow i) px'))"
    using g2(1) by (simp add: wg_gdi_fill_rect_def on_window_def d c Let_def W [symmetric] H [symmetric] px'(1) cong: if_cong split del: if_split)
  ultimately show ?thesis using px px'(2) by auto
qed

section \<open>Lines\<close>

text \<open>The points of a line, in the order they are drawn.\<close>

definition collect :: "int \<Rightarrow> int \<Rightarrow> (int \<times> int) list \<Rightarrow> (int \<times> int) list ub" where
  "collect x y ps = Some (ps @ [(x, y)])"

definition line_points :: "nat \<Rightarrow> int \<Rightarrow> int \<Rightarrow> int \<Rightarrow> int \<Rightarrow> (int \<times> int) list ub" where
  "line_points n x0 y0 x1 y1 = draw_line n collect x0 y0 x1 y1 []"

text \<open>Drawing is putting a pixel on each of them.\<close>

lemma bresenham_collect_prefix:
  "bresenham n collect adx ady sx sy x1 y1 err x0 y0 ps = Some rs \<Longrightarrow> \<exists>qs. rs = ps @ qs"
proof (induction n arbitrary: err x0 y0 ps)
  case (Suc n)
  show ?case
  proof (cases "x0 = x1 \<and> y0 = y1")
    case True
    then show ?thesis using Suc.prems by (auto simp: collect_def)
  next
    case False
    from Suc.prems False obtain e1 x e2 y ps1 where "step_x adx ady sx err err x0 = Some (e1, x)"
      "step_y adx ady sy err e1 y0 = Some (e2, y)" and c: "collect x0 y0 ps = Some ps1"
      and r: "bresenham n collect adx ady sx sy x1 y1 e2 x y ps1 = Some rs"
      by (auto split: bind_splits)
    from Suc.IH [OF r] c show ?thesis by (auto simp: collect_def [of x0 y0 ps])
  qed
qed simp

lemma bresenham_each:
  "bresenham n collect adx ady sx sy x1 y1 err x0 y0 ps = Some (ps @ qs) \<Longrightarrow>
   bresenham n put adx ady sx sy x1 y1 err x0 y0 g = each (\<lambda>(x, y). put x y) qs g"
proof (induction n arbitrary: err x0 y0 ps qs g)
  case 0
  then show ?case by simp
next
  case (Suc n)
  show ?case
  proof (cases "x0 = x1 \<and> y0 = y1")
    case True
    then have "qs = [(x0, y0)]" using Suc.prems by (simp add: collect_def)
    then show ?thesis using True by (cases "put x0 y0 g") simp_all
  next
    case False
    from Suc.prems False obtain e1 x e2 y ps1 where s: "step_x adx ady sx err err x0 = Some (e1, x)"
      "step_y adx ady sy err e1 y0 = Some (e2, y)" and c: "collect x0 y0 ps = Some ps1"
      and r1: "bresenham n collect adx ady sx sy x1 y1 e2 x y ps1 = Some (ps @ qs)"
      by (auto split: bind_splits)
    from c r1 have r: "bresenham n collect adx ady sx sy x1 y1 e2 x y (ps @ [(x0, y0)]) = Some (ps @ qs)"
      by (simp add: collect_def [of x0 y0 ps])
    have "\<exists>qs'. ps @ qs = (ps @ [(x0, y0)]) @ qs'"
      using bresenham_collect_prefix [OF r] by blast
    then obtain qs' where qs: "qs = (x0, y0) # qs'" by auto
    have r': "bresenham n collect adx ady sx sy x1 y1 e2 x y (ps @ [(x0, y0)]) = Some ((ps @ [(x0, y0)]) @ qs')"
      using r qs by simp
    show ?thesis using False s Suc.IH [OF r'] qs by (cases "put x0 y0 g") auto
  qed
qed

text \<open>The steep and the flat case. \<open>a\<close> and \<open>b\<close> are the distances in x and y, \<open>i\<close> and \<open>j\<close> the
  steps made so far in x and y, and the error term is \<open>line_err a b - i * b + j * a\<close>: in the flat
  case it stays in \<open>[0, a)\<close>, in the steep case in \<open>(- b, 0]\<close>.\<close>

definition flat_ok :: "int \<Rightarrow> int \<Rightarrow> int \<Rightarrow> int \<Rightarrow> bool" where
  "flat_ok a b i j \<longleftrightarrow> 0 \<le> a div 2 - i * b + j * a \<and> a div 2 - i * b + j * a < a"

definition steep_ok :: "int \<Rightarrow> int \<Rightarrow> int \<Rightarrow> int \<Rightarrow> bool" where
  "steep_ok a b i j \<longleftrightarrow> - b < - (b div 2) - i * b + j * a \<and> - (b div 2) - i * b + j * a \<le> 0"

lemma flat_bounds:
  assumes "flat_ok a b i j" and "0 \<le> b" "b < a" "0 \<le> i" "i \<le> a"
  shows "0 \<le> j" and "j \<le> b" and "i = a \<Longrightarrow> j = b"
proof -
  have f: "0 \<le> a div 2 - i * b + j * a" "a div 2 - i * b + j * a < a"
    using assms(1) by (simp_all add: flat_ok_def)
  have ib: "0 \<le> i * b" "i * b \<le> a * b" using assms by (simp_all add: mult_right_mono)
  have h: "0 \<le> a div 2" "a div 2 < a" using assms by auto
  have "- a < j * a" using f(1) ib h by linarith
  then have "- 1 < j" using assms by (metis mult_less_cancel_right mult_minus1 less_le_trans not_less)
  then show "0 \<le> j" by simp
  have "j * a < (b + 1) * a" using f(2) ib h by (simp add: algebra_simps)
  then have "j < b + 1" using assms by (simp add: mult_less_cancel_right)
  then show "j \<le> b" by simp
  show "j = b" if "i = a"
  proof -
    have "a div 2 + (j - b) * a < a" "0 \<le> a div 2 + (j - b) * a"
      using f that by (simp_all add: algebra_simps)
    then have "(j - b) * a < 1 * a" "- 1 * a < (j - b) * a" using h by linarith+
    then have "j - b < 1" "- 1 < j - b" using assms by (simp_all only: mult_less_cancel_right)
    then show ?thesis by simp
  qed
qed

lemma steep_bounds:
  assumes "steep_ok a b i j" and "0 \<le> a" "a \<le> b" "0 < b" "0 \<le> j" "j \<le> b"
  shows "0 \<le> i" and "i \<le> a" and "j = b \<Longrightarrow> i = a"
proof -
  have f: "- b < - (b div 2) - i * b + j * a" "- (b div 2) - i * b + j * a \<le> 0"
    using assms(1) by (simp_all add: steep_ok_def)
  have ja: "0 \<le> j * a" "j * a \<le> b * a" using assms by (simp_all add: mult_right_mono)
  have h: "0 \<le> b div 2" "b div 2 < b" using assms by auto
  have "- 1 * b < i * b" using f(2) ja h by linarith
  then have "- 1 < i" using assms by (simp only: mult_less_cancel_right)
  then show "0 \<le> i" by simp
  have "i * b < (a + 1) * b" using f(1) ja h by (simp add: algebra_simps)
  then have "i < a + 1" using assms by (simp only: mult_less_cancel_right)
  then show "i \<le> a" by simp
  show "i = a" if "j = b"
  proof -
    have "- b < - (b div 2) + (a - i) * b" "- (b div 2) + (a - i) * b \<le> 0"
      using f that by (simp_all add: algebra_simps)
    then have "(a - i) * b < 1 * b" "- 1 * b < (a - i) * b" using h by linarith+
    then have "a - i < 1" "- 1 < a - i" using assms by (simp_all only: mult_less_cancel_right)
    then show ?thesis by simp
  qed
qed

definition small :: "int \<Rightarrow> bool" where
  "small c \<longleftrightarrow> \<bar>c\<bar> \<le> 2 ^ 28"

lemma c_coord:
  assumes "small X" and "0 \<le> k" "k \<le> 2 ^ 29" and "s = 1 \<or> s = - 1"
  shows "c_int (X + s * k) = Some (X + s * k)"
proof -
  have "- (2 ^ 31) \<le> X + s * k \<and> X + s * k < 2 ^ 31"
    using assms by (auto simp: small_def abs_le_iff)
  then show ?thesis by simp
qed

lemma flat_start:
  assumes "flat_ok a b 0 j" "0 < a"
  shows "j = 0"
proof -
  have h: "0 \<le> a div 2" "a div 2 < a" using assms(2) by simp_all
  have f: "0 \<le> a div 2 + j * a" "a div 2 + j * a < a" using assms(1) by (simp_all add: flat_ok_def)
  from f h have "- 1 * a < j * a" "j * a < 1 * a" by linarith+
  then have "- 1 < j" "j < 1" using assms(2) by (simp_all only: mult_less_cancel_right)
  then show ?thesis by simp
qed

lemma steep_start:
  assumes "steep_ok a b i 0" "0 < b"
  shows "i = 0"
proof -
  have h: "0 \<le> b div 2" "b div 2 < b" using assms(2) by simp_all
  have f: "- b < - (b div 2) - i * b" "- (b div 2) - i * b \<le> 0" using assms(1) by (simp_all add: steep_ok_def)
  from f h have "- 1 * b < i * b" "i * b < 1 * b" by linarith+
  then have "- 1 < i" "i < 1" using assms(2) by (simp_all only: mult_less_cancel_right)
  then show ?thesis by simp
qed

lemma flat_step:
  assumes ok: "flat_ok a b i j" and ab: "0 \<le> b" "b < a" "a \<le> 2 ^ 29" and i: "0 \<le> i" "i < a"
    and s: "sx = 1 \<or> sx = - 1" "sy = 1 \<or> sy = - 1" and X: "small X" "small Y"
    and e: "e = a div 2 - i * b + j * a"
  shows "\<exists>e1 e2 j'. step_x a b sx e e (X + sx * i) = Some (e1, X + sx * (i + 1)) \<and>
    step_y a b sy e e1 (Y + sy * j) = Some (e2, Y + sy * j') \<and>
    e2 = a div 2 - (i + 1) * b + j' * a \<and> flat_ok a b (i + 1) j'"
proof -
  have er: "0 \<le> e" "e < a" using ok e by (simp_all add: flat_ok_def)
  have cx: "c_int (X + sx * (i + 1)) = Some (X + sx * (i + 1))" by (rule c_coord) (use X s i ab in auto)
  have x: "step_x a b sx e e (X + sx * i) = Some (e - b, X + sx * (i + 1))"
    using er ab cx by (simp add: step_x_def algebra_simps)
  show ?thesis
  proof (cases "e < b")
    case True
    have ok': "flat_ok a b (i + 1) (j + 1)" using er e ab True by (simp add: flat_ok_def algebra_simps)
    note bd = flat_bounds [OF ok' ab(1,2)]
    have cy: "c_int (Y + sy * (j + 1)) = Some (Y + sy * (j + 1))"
      by (rule c_coord) (use X s i ab bd(1,2) in auto)
    have "step_y a b sy e (e - b) (Y + sy * j) = Some (e - b + a, Y + sy * (j + 1))"
      using True er ab cy by (simp add: step_y_def algebra_simps)
    moreover have "e - b + a = a div 2 - (i + 1) * b + (j + 1) * a" using e by (simp add: algebra_simps)
    ultimately show ?thesis using x ok' by blast
  next
    case False
    then have "flat_ok a b (i + 1) j" using er e ab by (simp add: flat_ok_def algebra_simps)
    moreover have "step_y a b sy e (e - b) (Y + sy * j) = Some (e - b, Y + sy * j)"
      using False by (simp add: step_y_def)
    moreover have "e - b = a div 2 - (i + 1) * b + j * a" using e by (simp add: algebra_simps)
    ultimately show ?thesis using x by blast
  qed
qed

lemma flat_loop:
  assumes ab: "0 \<le> b" "b < a" "a \<le> 2 ^ 29" and s: "sx = 1 \<or> sx = - 1" "sy = 1 \<or> sy = - 1"
    and X: "small X" "small Y"
  shows "\<lbrakk>flat_ok a b i j; 0 \<le> i; i + int m = a; m < n; e = a div 2 - i * b + j * a\<rbrakk> \<Longrightarrow>
    \<exists>qs. bresenham n collect a b sx sy (X + sx * a) (Y + sy * b) e (X + sx * i) (Y + sy * j) ps = Some (ps @ qs) \<and>
      length qs = Suc m \<and>
      (\<forall>k \<le> m. \<exists>j'. qs ! k = (X + sx * (i + int k), Y + sy * j') \<and> flat_ok a b (i + int k) j')"
proof (induction m arbitrary: i j n e ps)
  case 0
  then obtain n' where n: "n = Suc n'" by (cases n) auto
  have "j = b" by (rule flat_bounds(3) [OF 0(1) ab(1,2)]) (use 0 ab in auto)
  then show ?case using 0 n by (auto simp: collect_def)
next
  case (Suc m)
  then obtain n' where n: "n = Suc n'" "m < n'" by (cases n) auto
  have i: "i < a" using Suc.prems(3) by simp
  obtain e1 e2 j' where st: "step_x a b sx e e (X + sx * i) = Some (e1, X + sx * (i + 1))"
    "step_y a b sy e e1 (Y + sy * j) = Some (e2, Y + sy * j')"
    and e2: "e2 = a div 2 - (i + 1) * b + j' * a" and ok: "flat_ok a b (i + 1) j'"
    using flat_step [OF Suc.prems(1) ab Suc.prems(2) i s X Suc.prems(5)] by blast
  have m: "i + 1 + int m = a" using Suc.prems(3) by simp
  obtain qs where qs: "bresenham n' collect a b sx sy (X + sx * a) (Y + sy * b) e2 (X + sx * (i + 1)) (Y + sy * j')
      (ps @ [(X + sx * i, Y + sy * j)]) = Some ((ps @ [(X + sx * i, Y + sy * j)]) @ qs)" "length qs = Suc m"
    and pts: "\<And>k. k \<le> m \<Longrightarrow> \<exists>j''. qs ! k = (X + sx * (i + 1 + int k), Y + sy * j'') \<and> flat_ok a b (i + 1 + int k) j''"
    using Suc.IH [OF ok _ m n(2) e2] Suc.prems(2) by fastforce
  have ne: "X + sx * i \<noteq> X + sx * a" using s i by auto
  have "bresenham n collect a b sx sy (X + sx * a) (Y + sy * b) e (X + sx * i) (Y + sy * j) ps =
      Some (ps @ (X + sx * i, Y + sy * j) # qs)"
    using ne st qs(1) n(1) by (simp add: collect_def [of "X + sx * i" "Y + sy * j" ps])
  moreover have "\<exists>j''. ((X + sx * i, Y + sy * j) # qs) ! k = (X + sx * (i + int k), Y + sy * j'') \<and> flat_ok a b (i + int k) j''"
    if "k \<le> Suc m" for k
    using that pts [of "k - 1"] Suc.prems(1) by (cases k) (auto simp: algebra_simps)
  ultimately show ?case using qs(2) by (intro exI [of _ "(X + sx * i, Y + sy * j) # qs"]) simp
qed

lemma steep_step:
  assumes ok: "steep_ok a b i j" and ab: "0 \<le> a" "a \<le> b" "0 < b" "b \<le> 2 ^ 29" and j: "0 \<le> j" "j < b"
    and s: "sx = 1 \<or> sx = - 1" "sy = 1 \<or> sy = - 1" and X: "small X" "small Y"
    and e: "e = - (b div 2) - i * b + j * a"
  shows "\<exists>e1 e2 i'. step_x a b sx e e (X + sx * i) = Some (e1, X + sx * i') \<and>
    step_y a b sy e e1 (Y + sy * j) = Some (e2, Y + sy * (j + 1)) \<and>
    e2 = - (b div 2) - i' * b + (j + 1) * a \<and> steep_ok a b i' (j + 1)"
proof -
  have er: "- b < e" "e \<le> 0" using ok e by (simp_all add: steep_ok_def)
  have cy: "c_int (Y + sy * (j + 1)) = Some (Y + sy * (j + 1))" by (rule c_coord) (use X s j ab in auto)
  have y: "step_y a b sy e e1 (Y + sy * j) = Some (e1 + a, Y + sy * (j + 1))" if "- b - b \<le> e1" "e1 \<le> 0" for e1
    using er ab cy that by (simp add: step_y_def algebra_simps)
  show ?thesis
  proof (cases "- a < e")
    case True
    have ok': "steep_ok a b (i + 1) (j + 1)" using er e ab True by (simp add: steep_ok_def algebra_simps)
    note bd = steep_bounds [OF ok' ab(1-3)]
    have cx: "c_int (X + sx * (i + 1)) = Some (X + sx * (i + 1))"
      by (rule c_coord) (use X s j ab bd(1,2) in auto)
    have "step_x a b sx e e (X + sx * i) = Some (e - b, X + sx * (i + 1))"
      using True er ab cx by (simp add: step_x_def algebra_simps)
    moreover have "step_y a b sy e (e - b) (Y + sy * j) = Some (e - b + a, Y + sy * (j + 1))"
      by (rule y) (use er ab in auto)
    moreover have "e - b + a = - (b div 2) - (i + 1) * b + (j + 1) * a" using e by (simp add: algebra_simps)
    ultimately show ?thesis using ok' by blast
  next
    case False
    then have "steep_ok a b i (j + 1)" using er e ab by (simp add: steep_ok_def algebra_simps)
    moreover have "step_x a b sx e e (X + sx * i) = Some (e, X + sx * i)"
      using False by (simp add: step_x_def)
    moreover have "step_y a b sy e e (Y + sy * j) = Some (e + a, Y + sy * (j + 1))"
      by (rule y) (use er ab in auto)
    moreover have "e + a = - (b div 2) - i * b + (j + 1) * a" using e by (simp add: algebra_simps)
    ultimately show ?thesis by blast
  qed
qed

lemma steep_loop:
  assumes ab: "0 \<le> a" "a \<le> b" "0 < b" "b \<le> 2 ^ 29" and s: "sx = 1 \<or> sx = - 1" "sy = 1 \<or> sy = - 1"
    and X: "small X" "small Y"
  shows "\<lbrakk>steep_ok a b i j; 0 \<le> j; j + int m = b; m < n; e = - (b div 2) - i * b + j * a\<rbrakk> \<Longrightarrow>
    \<exists>qs. bresenham n collect a b sx sy (X + sx * a) (Y + sy * b) e (X + sx * i) (Y + sy * j) ps = Some (ps @ qs) \<and>
      length qs = Suc m \<and>
      (\<forall>k \<le> m. \<exists>i'. qs ! k = (X + sx * i', Y + sy * (j + int k)) \<and> steep_ok a b i' (j + int k))"
proof (induction m arbitrary: i j n e ps)
  case 0
  then obtain n' where n: "n = Suc n'" by (cases n) auto
  have "i = a" by (rule steep_bounds(3) [OF 0(1) ab(1-3)]) (use 0 ab in auto)
  then show ?case using 0 n by (auto simp: collect_def)
next
  case (Suc m)
  then obtain n' where n: "n = Suc n'" "m < n'" by (cases n) auto
  have j: "j < b" using Suc.prems(3) by simp
  obtain e1 e2 i' where st: "step_x a b sx e e (X + sx * i) = Some (e1, X + sx * i')"
    "step_y a b sy e e1 (Y + sy * j) = Some (e2, Y + sy * (j + 1))"
    and e2: "e2 = - (b div 2) - i' * b + (j + 1) * a" and ok: "steep_ok a b i' (j + 1)"
    using steep_step [OF Suc.prems(1) ab Suc.prems(2) j s X Suc.prems(5)] by blast
  have m: "j + 1 + int m = b" using Suc.prems(3) by simp
  obtain qs where qs: "bresenham n' collect a b sx sy (X + sx * a) (Y + sy * b) e2 (X + sx * i') (Y + sy * (j + 1))
      (ps @ [(X + sx * i, Y + sy * j)]) = Some ((ps @ [(X + sx * i, Y + sy * j)]) @ qs)" "length qs = Suc m"
    and pts: "\<And>k. k \<le> m \<Longrightarrow> \<exists>i''. qs ! k = (X + sx * i'', Y + sy * (j + 1 + int k)) \<and> steep_ok a b i'' (j + 1 + int k)"
    using Suc.IH [OF ok _ m n(2) e2] Suc.prems(2) by fastforce
  have ne: "Y + sy * j \<noteq> Y + sy * b" using s j by auto
  have "bresenham n collect a b sx sy (X + sx * a) (Y + sy * b) e (X + sx * i) (Y + sy * j) ps =
      Some (ps @ (X + sx * i, Y + sy * j) # qs)"
    using ne st qs(1) n(1) by (simp add: collect_def [of "X + sx * i" "Y + sy * j" ps])
  moreover have "\<exists>i''. ((X + sx * i, Y + sy * j) # qs) ! k = (X + sx * i'', Y + sy * (j + int k)) \<and> steep_ok a b i'' (j + int k)"
    if "k \<le> Suc m" for k
    using that pts [of "k - 1"] Suc.prems(1) by (cases k) (auto simp: algebra_simps)
  ultimately show ?case using qs(2) by (intro exI [of _ "(X + sx * i, Y + sy * j) # qs"]) simp
qed

lemma flat_near: "flat_ok a b i j \<Longrightarrow> 2 * \<bar>j * a - i * b\<bar> \<le> a"
proof -
  assume "flat_ok a b i j"
  then have "0 \<le> a div 2 + (j * a - i * b)" "a div 2 + (j * a - i * b) < a"
    unfolding flat_ok_def by linarith+
  moreover have "2 * (a div 2) \<le> a" "a \<le> 2 * (a div 2) + 1" by linarith+
  ultimately show ?thesis by (simp add: abs_le_iff abs_if)
qed

lemma steep_near: "steep_ok a b i j \<Longrightarrow> 2 * \<bar>j * a - i * b\<bar> \<le> b"
proof -
  assume "steep_ok a b i j"
  then have "- b < - (b div 2) + (j * a - i * b)" "- (b div 2) + (j * a - i * b) \<le> 0"
    unfolding steep_ok_def by linarith+
  moreover have "2 * (b div 2) \<le> b" "b \<le> 2 * (b div 2) + 1" by linarith+
  ultimately show ?thesis by (simp add: abs_le_iff abs_if)
qed

text \<open>The line: as many points as the larger distance plus one, one per step along that axis, the
  first and the last are the ends, and twice the distance from the ideal line along the other axis,
  scaled by the larger distance, is at most that distance: half a pixel.\<close>

lemma line_points_spec:
  assumes X: "small x0" "small y0" "small x1" "small y1" and n: "nat (max \<bar>x1 - x0\<bar> \<bar>y1 - y0\<bar>) < n"
  shows "\<exists>ps. line_points n x0 y0 x1 y1 = Some ps \<and> length ps = Suc (nat (max \<bar>x1 - x0\<bar> \<bar>y1 - y0\<bar>)) \<and>
    hd ps = (x0, y0) \<and> last ps = (x1, y1) \<and>
    (\<forall>k < length ps. case ps ! k of (x, y) \<Rightarrow>
       (if \<bar>y1 - y0\<bar> < \<bar>x1 - x0\<bar> then \<bar>x - x0\<bar> = int k else \<bar>y - y0\<bar> = int k) \<and>
       2 * \<bar>(y - y0) * (x1 - x0) - (x - x0) * (y1 - y0)\<bar> \<le> max \<bar>x1 - x0\<bar> \<bar>y1 - y0\<bar>)"
proof -
  define a b sx sy where d: "a = \<bar>x1 - x0\<bar>" "b = \<bar>y1 - y0\<bar>"
    "sx = (if x1 - x0 < 0 then - 1 else 1 :: int)" "sy = (if y1 - y0 < 0 then - 1 else 1 :: int)"
  have bd: "0 \<le> a" "a \<le> 2 ^ 29" "0 \<le> b" "b \<le> 2 ^ 29"
    using X unfolding d small_def by auto
  have s: "sx = 1 \<or> sx = - 1" "sy = 1 \<or> sy = - 1" by (simp_all add: d)
  have ends: "x1 = x0 + sx * a" "y1 = y0 + sy * b" by (simp_all add: d)
  have start: "line_points n x0 y0 x1 y1 =
      bresenham n collect a b sx sy (x0 + sx * a) (y0 + sy * b) (line_err a b) x0 y0 []"
  proof -
    have "c_int (x1 - x0) = Some (x1 - x0)" "c_int (y1 - y0) = Some (y1 - y0)"
      "c_int a = Some a" "c_int b = Some b"
      using X bd unfolding small_def by auto
    moreover have "(if x1 - x0 < 0 then - (x1 - x0) else x1 - x0) = a"
      "(if y1 - y0 < 0 then - (y1 - y0) else y1 - y0) = b" by (simp_all add: d)
    ultimately show ?thesis unfolding line_points_def draw_line_def Option.bind.simps
      by (simp only: Option.bind.simps ends(1)[symmetric] ends(2)[symmetric] d(3,4)[symmetric])
  qed
  have dev: "\<bar>(y0 + sy * j - y0) * (x1 - x0) - (x0 + sx * i - x0) * (y1 - y0)\<bar> = \<bar>j * a - i * b\<bar>" for i j
    unfolding ends using s by (auto simp: abs_if algebra_simps)
  have len: "0 \<le> i \<Longrightarrow> \<bar>x0 + sx * i - x0\<bar> = i" "0 \<le> i \<Longrightarrow> \<bar>y0 + sy * i - y0\<bar> = i" for i using s by auto
  show ?thesis
  proof (cases "b < a")
    case True
    have ok: "flat_ok a b 0 0" using True bd by (auto simp: flat_ok_def)
    have e: "line_err a b = a div 2 - 0 * b + 0 * a" using True by (simp add: line_err_def)
    have m: "0 + int (nat a) = a" "nat a < n" using bd n True d by simp_all
    from flat_loop [OF bd(3) True bd(2) s X(1,2) ok _ m e, of "[]"] obtain qs where
      qs: "line_points n x0 y0 x1 y1 = Some qs" "length qs = Suc (nat a)"
      and pt: "\<And>k. k \<le> nat a \<Longrightarrow> \<exists>j'. qs ! k = (x0 + sx * int k, y0 + sy * j') \<and> flat_ok a b (int k) j'"
      unfolding start by auto
    have h: "qs ! 0 = (x0, y0)"
      using pt [of 0] flat_start True bd by fastforce
    have l: "qs ! nat a = (x1, y1)"
      using pt [of "nat a"] flat_bounds(3) [of a b "int (nat a)"] True bd ends by fastforce
    have "case qs ! k of (x, y) \<Rightarrow> \<bar>x - x0\<bar> = int k \<and> 2 * \<bar>(y - y0) * (x1 - x0) - (x - x0) * (y1 - y0)\<bar> \<le> a"
      if k: "k < Suc (nat a)" for k
    proof -
      obtain j' where q: "qs ! k = (x0 + sx * int k, y0 + sy * j')" "flat_ok a b (int k) j'" using pt [of k] k by auto
      have "2 * \<bar>j' * a - int k * b\<bar> \<le> a" by (rule flat_near [OF q(2)])
      then show ?thesis using q(1) dev [of j' "int k"] len by simp
    qed
    moreover have "qs \<noteq> []" using qs(2) by auto
    ultimately show ?thesis using qs h l True d(1,2) by (auto simp: hd_conv_nth last_conv_nth max_def)
  next
    case False
    show ?thesis
    proof (cases "b = 0")
      case True
      then have "a = 0" "x1 = x0" "y1 = y0" using False bd ends by simp_all
      moreover obtain n' where "n = Suc n'" using n by (cases n) auto
      ultimately show ?thesis unfolding start using True by (auto simp: collect_def)
    next
      case nz: False
      have bp: "0 < b" "a \<le> b" using nz False bd by simp_all
      have "b div 2 < b" using bp by simp
      then have ok: "steep_ok a b 0 0" using bp by (simp add: steep_ok_def)
      have e: "line_err a b = - (b div 2) - 0 * b + 0 * a" using False bp by (simp add: line_err_def)
      have m: "0 + int (nat b) = b" "nat b < n" using bd n False d by simp_all
      from steep_loop [OF bd(1) bp(2,1) bd(4) s X(1,2) ok _ m e, of "[]"] obtain qs where
        qs: "line_points n x0 y0 x1 y1 = Some qs" "length qs = Suc (nat b)"
        and pt: "\<And>k. k \<le> nat b \<Longrightarrow> \<exists>i'. qs ! k = (x0 + sx * i', y0 + sy * int k) \<and> steep_ok a b i' (int k)"
        unfolding start by auto
      have h: "qs ! 0 = (x0, y0)" using pt [of 0] steep_start bp by fastforce
      have l: "qs ! nat b = (x1, y1)"
        using pt [of "nat b"] steep_bounds(3) [of a b _ "int (nat b)"] bp bd ends by fastforce
      have "case qs ! k of (x, y) \<Rightarrow> \<bar>y - y0\<bar> = int k \<and> 2 * \<bar>(y - y0) * (x1 - x0) - (x - x0) * (y1 - y0)\<bar> \<le> b"
        if k: "k < Suc (nat b)" for k
      proof -
        obtain i' where q: "qs ! k = (x0 + sx * i', y0 + sy * int k)" "steep_ok a b i' (int k)" using pt [of k] k by auto
        show ?thesis using q(1) steep_near [OF q(2)] dev [of "int k" i'] len by simp
      qed
      moreover have "qs \<noteq> []" using qs(2) by auto
      ultimately show ?thesis using qs h l False d(1,2) by (auto simp: hd_conv_nth last_conv_nth max_def)
    qed
  qed
qed

text \<open>Putting a pixel on each point of a list, those outside the buffer left out.\<close>

lemma put_points_spec:
  assumes v: "valid_target g t" and d: "drawn g t (nat (w * h)) g1" and wh: "w * h < 2 ^ 31"
  shows "\<exists>g2. each (\<lambda>(x, y). put_px t w h c x y) ps g1 = Some g2 \<and> drawn g t (nat (w * h)) g2 \<and>
    (\<forall>X Y. 0 \<le> X \<and> X < w \<and> 0 \<le> Y \<and> Y < h \<longrightarrow> pixel t (nat (Y * w + X)) g2 =
      (if (X, Y) \<in> set ps then c else pixel t (nat (Y * w + X)) g1))"
  using d
proof (induction ps arbitrary: g1)
  case Nil
  then show ?case by simp
next
  case (Cons p ps)
  obtain x y where p: "p = (x, y)" by (cases p)
  show ?case
  proof (cases "x < 0 \<or> y < 0 \<or> w \<le> x \<or> h \<le> y")
    case True
    then have "put_px t w h c x y g1 = Some g1" by (simp add: put_px_def)
    then show ?thesis using Cons.IH [OF Cons.prems] True p by auto
  next
    case False
    then have b: "0 \<le> x" "x < w" "0 \<le> y" "y < h" by auto
    have k: "0 \<le> y * w + x" "y * w + x < w * h" using cell_bounds [OF b] by auto
    then have kn: "y * w + x < int (nat (w * h))" by simp
    obtain g3 where s: "store_px t (y * w + x) c g1 = Some g3" and d3: "drawn g t (nat (w * h)) g3"
      using store_drawn [OF v Cons.prems k(1) kn, of c] by blast
    have "c_int (y * w + x) = Some (y * w + x)" by (rule c_int_Some) (use k wh in linarith)+
    then have put: "put_px t w h c x y g1 = Some g3" using b s by (simp add: put_px_def)
    from Cons.IH [OF d3] obtain g2 where g2: "each (\<lambda>(x, y). put_px t w h c x y) ps g3 = Some g2"
      "drawn g t (nat (w * h)) g2"
      and px: "\<And>X Y. 0 \<le> X \<Longrightarrow> X < w \<Longrightarrow> 0 \<le> Y \<Longrightarrow> Y < h \<Longrightarrow> pixel t (nat (Y * w + X)) g2 =
        (if (X, Y) \<in> set ps then c else pixel t (nat (Y * w + X)) g3)" by blast
    have "pixel t (nat (Y * w + X)) g2 = (if (X, Y) \<in> set (p # ps) then c else pixel t (nat (Y * w + X)) g1)"
      if j: "0 \<le> X" "X < w" "0 \<le> Y" "Y < h" for X Y
    proof -
      have cc: "nat (Y * w + X) < nat (w * h)" using cell_bounds [OF j] by simp
      have "pixel t (nat (Y * w + X)) g3 = (if nat (Y * w + X) = nat (y * w + x) then c else pixel t (nat (Y * w + X)) g1)"
        by (rule store_pixel [OF v Cons.prems k(1) kn s cc])
      moreover have "nat (Y * w + X) = nat (y * w + x) \<longleftrightarrow> Y = y \<and> X = x"
        using cell_inj [of X w x Y y] j b by auto
      ultimately show ?thesis using px [OF j] p by auto
    qed
    then show ?thesis using g2 put p by auto
  qed
qed

lemma draw_line_each:
  assumes "line_points n x0 y0 x1 y1 = Some ps"
  shows "draw_line n put x0 y0 x1 y1 g = each (\<lambda>(x, y). put x y) ps g"
proof -
  from assms obtain dx dy adx ady where c: "c_int (x1 - x0) = Some dx" "c_int (y1 - y0) = Some dy"
    "c_int (if dx < 0 then - dx else dx) = Some adx" "c_int (if dy < 0 then - dy else dy) = Some ady"
    and b: "bresenham n collect adx ady (if dx < 0 then - 1 else 1) (if dy < 0 then - 1 else 1) x1 y1
       (line_err adx ady) x0 y0 [] = Some ([] @ ps)"
    by (auto simp: line_points_def draw_line_def split: bind_splits simp del: if_split)
  show ?thesis using bresenham_each [OF b, of put g] by (simp add: draw_line_def c del: if_split)
qed

text \<open>\<open>LineTo\<close> ends, and paints exactly the points of the line that lie in the client area.\<close>

lemma line_to_paints:
  assumes wf: "wf_wm (wins g)" and d: "find_dc hdc g = Some d"
    and c: "client_of ok (dc_hwnd (dcs g ! d)) g = Some (Some i, g1)"
    and W: "W = client_w (windows (wins g1) ! i)" and H: "H = client_h (windows (wins g1) ! i)"
    and ps: "line_points n (cur_x (dcs g ! d)) (cur_y (dcs g ! d)) x y = Some ps"
  shows "\<exists>px px'. client (windows (wins g1) ! i) = Some px \<and> length px' = length px \<and>
    wg_gdi_line_to n ok hdc x y g =
      Some (mark_dirty (dc_hwnd (dcs g ! d)) (wg_gdi_move_to hdc x y (set_px g1 (TWindow i) px'))) \<and>
    (\<forall>X Y. 0 \<le> X \<and> X < W \<and> 0 \<le> Y \<and> Y < H \<longrightarrow> px' ! nat (Y * W + X) =
      (if (X, Y) \<in> set ps then colorref_to_rgba (text_color (dcs g ! d)) else px ! nat (Y * W + X)))"
proof -
  note cl = client_of_SomeD [OF wf c]
  from cl(5) obtain px where px: "client (windows (wins g1) ! i) = Some px" "length px = nat (W * H)"
    unfolding W H by blast
  have d1: "drawn g1 (TWindow i) (nat (W * H)) g1" using drawn_refl [of g1 "TWindow i" px] px by simp
  have wh: "W * H < 2 ^ 31" using cl(6) W H by simp
  let ?c = "colorref_to_rgba (text_color (dcs g ! d))"
  from put_points_spec [OF cl(2) d1 wh, of ?c ps] obtain g2 where
    g2: "each (\<lambda>(x, y). put_px (TWindow i) W H ?c x y) ps g1 = Some g2" "drawn g1 (TWindow i) (nat (W * H)) g2"
    and pix: "\<And>X Y. 0 \<le> X \<Longrightarrow> X < W \<Longrightarrow> 0 \<le> Y \<Longrightarrow> Y < H \<Longrightarrow> pixel (TWindow i) (nat (Y * W + X)) g2 =
      (if (X, Y) \<in> set ps then ?c else pixel (TWindow i) (nat (Y * W + X)) g1)" by blast
  from g2(2) obtain px' where px': "g2 = set_px g1 (TWindow i) px'" "length px' = nat (W * H)"
    by (auto simp: drawn_def)
  have t2: "target_px g2 (TWindow i) = Some px'" unfolding px'(1) by (rule target_set_px [OF cl(2)])
  have draw: "draw_line n (put_px (TWindow i) W H ?c) (cur_x (dcs g ! d)) (cur_y (dcs g ! d)) x y g1 = Some g2"
    unfolding draw_line_each [OF ps] by (rule g2(1))
  have "px' ! nat (Y * W + X) = (if (X, Y) \<in> set ps then ?c else px ! nat (Y * W + X))"
    if "0 \<le> X" "X < W" "0 \<le> Y" "Y < H" for X Y
    using pix [OF that] t2 px(1) by (simp add: pixel_def)
  moreover have "wg_gdi_line_to n ok hdc x y g =
      Some (mark_dirty (dc_hwnd (dcs g ! d)) (wg_gdi_move_to hdc x y (set_px g1 (TWindow i) px')))"
    using draw by (simp add: wg_gdi_line_to_def on_window_def d c Let_def W [symmetric] H [symmetric] px'(1))
  ultimately show ?thesis using px px'(2) by auto
qed

text \<open>C31: LineTo ends for all coordinates up to 2^28 in size; it visits one point per step of the longer axis, from the current position to the given one, each at most half a pixel off the ideal line, and paints exactly those in the client area.\<close>

lemma line_to_exact:
  assumes wf: "wf_wm (wins g)" and d: "find_dc hdc g = Some d"
    and c: "client_of ok (dc_hwnd (dcs g ! d)) g = Some (Some i, g1)"
    and W: "W = client_w (windows (wins g1) ! i)" and H: "H = client_h (windows (wins g1) ! i)"
    and p: "x0 = cur_x (dcs g ! d)" "y0 = cur_y (dcs g ! d)"
    and X: "small x0" "small y0" "small x1" "small y1" and n: "nat (max \<bar>x1 - x0\<bar> \<bar>y1 - y0\<bar>) < n"
  shows "\<exists>ps px px'. length ps = Suc (nat (max \<bar>x1 - x0\<bar> \<bar>y1 - y0\<bar>)) \<and> hd ps = (x0, y0) \<and> last ps = (x1, y1) \<and>
    (\<forall>k < length ps. case ps ! k of (x, y) \<Rightarrow>
       (if \<bar>y1 - y0\<bar> < \<bar>x1 - x0\<bar> then \<bar>x - x0\<bar> = int k else \<bar>y - y0\<bar> = int k) \<and>
       2 * \<bar>(y - y0) * (x1 - x0) - (x - x0) * (y1 - y0)\<bar> \<le> max \<bar>x1 - x0\<bar> \<bar>y1 - y0\<bar>) \<and>
    client (windows (wins g1) ! i) = Some px \<and> length px' = length px \<and>
    wg_gdi_line_to n ok hdc x1 y1 g =
      Some (mark_dirty (dc_hwnd (dcs g ! d)) (wg_gdi_move_to hdc x1 y1 (set_px g1 (TWindow i) px'))) \<and>
    (\<forall>X Y. 0 \<le> X \<and> X < W \<and> 0 \<le> Y \<and> Y < H \<longrightarrow> px' ! nat (Y * W + X) =
      (if (X, Y) \<in> set ps then colorref_to_rgba (text_color (dcs g ! d)) else px ! nat (Y * W + X)))"
proof -
  obtain ps where ps: "line_points n x0 y0 x1 y1 = Some ps" and sp: "length ps = Suc (nat (max \<bar>x1 - x0\<bar> \<bar>y1 - y0\<bar>))"
    "hd ps = (x0, y0)" "last ps = (x1, y1)" "\<forall>k < length ps. case ps ! k of (x, y) \<Rightarrow>
       (if \<bar>y1 - y0\<bar> < \<bar>x1 - x0\<bar> then \<bar>x - x0\<bar> = int k else \<bar>y - y0\<bar> = int k) \<and>
       2 * \<bar>(y - y0) * (x1 - x0) - (x - x0) * (y1 - y0)\<bar> \<le> max \<bar>x1 - x0\<bar> \<bar>y1 - y0\<bar>"
    using line_points_spec [OF X n] by blast
  show ?thesis
    using line_to_paints [OF wf d c W H ps [unfolded p]] sp by blast
qed

end
