(* ===== verification/GdiBlit.thy ===== *)
theory GdiBlit
  imports GdiOk
begin

text \<open>
  Stretched blits (\<open>blit_pixels\<close> of \<open>Sources/Win32/wg_win32_gdi.c\<close>): every pixel of the target
  rectangle with a source pixel is composed with the nearest one. The two nested loops are followed
  with \<open>each_point\<close>, one pixel of the target at a time.
\<close>

text \<open>The composition of a source pixel over a target pixel.\<close>

definition compose :: "u32 \<Rightarrow> u32 \<Rightarrow> u32" where
  "compose s d = (let a = drop_bit 24 s AND 0xFF in if a = 0xFF then s else if a \<noteq> 0 then blend s d else d)"

lemma drawn_other: "drawn g t n g1 \<Longrightarrow> src \<noteq> t \<Longrightarrow> target_px g1 src = target_px g src"
  by (auto simp: drawn_def)

lemma drawn_target: "drawn g t n g1 \<Longrightarrow> valid_target g t \<Longrightarrow> \<exists>px. target_px g1 t = Some px \<and> length px = n"
  by (auto simp: drawn_def)

lemma blit_px_spec:
  assumes v: "valid_target g t" and ne: "src \<noteq> t" and d: "drawn g t n g1" and k: "0 \<le> k" "k < int n"
    and s: "target_px g src = Some sp" and p: "0 \<le> p" "p < int (length sp)" and j: "j < n"
  shows "\<exists>g2. blit_px src t p k g1 = Some g2 \<and> drawn g t n g2 \<and>
    pixel t j g2 = (if j = nat k then compose (sp ! nat p) (pixel t j g1) else pixel t j g1)"
proof -
  have ld: "load_px src p g1 = Some (sp ! nat p)"
    using drawn_other [OF d ne] s p by (simp add: load_px_def)
  obtain px where px: "target_px g1 t = Some px" "length px = n" using drawn_target [OF d v] by blast
  have lk: "load_px t k g1 = Some (pixel t (nat k) g1)" using px k by (simp add: load_px_def pixel_def)
  have st: "\<exists>g2. store_px t k c g1 = Some g2 \<and> drawn g t n g2 \<and>
    pixel t j g2 = (if j = nat k then c else pixel t j g1)" for c
    using store_drawn [OF v d k, of c] store_pixel [OF v d k _ j, of c] by blast
  consider "drop_bit 24 (sp ! nat p) AND 0xFF = 0xFF" | "drop_bit 24 (sp ! nat p) AND 0xFF = 0"
    | "drop_bit 24 (sp ! nat p) AND 0xFF \<noteq> 0xFF" "drop_bit 24 (sp ! nat p) AND 0xFF \<noteq> 0" by blast
  then show ?thesis
  proof cases
    case 1
    then show ?thesis using st [of "sp ! nat p"] by (auto simp: blit_px_def ld compose_def)
  next
    case 2
    then show ?thesis using d by (auto simp: blit_px_def ld compose_def)
  next
    case 3
    then show ?thesis using st [of "blend (sp ! nat p) (pixel t (nat k) g1)"]
      by (auto simp: blit_px_def ld lk compose_def)
  qed
qed

text \<open>The nearest source coordinate of the target coordinate \<open>c\<close>.\<close>

definition nearest :: "int \<Rightarrow> int \<Rightarrow> int \<Rightarrow> int \<Rightarrow> int \<Rightarrow> int" where
  "nearest d dn s sn c = s + (c - d) * sn div dn"

text \<open>The coordinates of one axis stay in the range of \<open>int\<close>.\<close>

definition axis_ok :: "int \<Rightarrow> int \<Rightarrow> int \<Rightarrow> int \<Rightarrow> bool" where
  "axis_ok d dn s sn \<longleftrightarrow> 0 < dn \<and> 0 < sn \<and> - (2 ^ 31) \<le> d \<and> d + dn \<le> 2 ^ 31 \<and>
     - (2 ^ 31) \<le> s \<and> s + sn \<le> 2 ^ 31 \<and> dn * sn \<le> 2 ^ 31"

lemma axis_steps:
  assumes "axis_ok d dn s sn" and i: "0 \<le> i" "i < dn"
  shows "c_int (d + i) = Some (d + i)" and "c_int (i * sn) = Some (i * sn)"
    and "c_int (s + i * sn div dn) = Some (nearest d dn s sn (d + i))"
proof -
  have a: "0 < dn" "0 < sn" "- (2 ^ 31) \<le> d" "d + dn \<le> 2 ^ 31" "- (2 ^ 31) \<le> s" "s + sn \<le> 2 ^ 31" "dn * sn \<le> 2 ^ 31"
    using assms(1) unfolding axis_ok_def by blast+
  show "c_int (d + i) = Some (d + i)" by (rule c_int_Some) (use a i in linarith)+
  have m: "0 \<le> i * sn" "i * sn < dn * sn" using a i by simp_all
  show "c_int (i * sn) = Some (i * sn)" by (rule c_int_Some) (use a m in linarith)+
  have "0 \<le> i * sn div dn" using m a by (simp add: pos_imp_zdiv_nonneg_iff)
  moreover have "i * sn div dn < sn"
  proof -
    have "i * sn div dn * dn + i * sn mod dn = i * sn" "0 \<le> i * sn mod dn"
      using a by (simp_all add: div_mult_mod_eq)
    then have "i * sn div dn * dn < sn * dn" using m(2) mult.commute [of dn sn] by linarith
    then show ?thesis using a by (simp only: mult_less_cancel_right)
  qed
  ultimately have "c_int (s + i * sn div dn) = Some (s + i * sn div dn)"
    by (intro c_int_Some) (use a in linarith)+
  then show "c_int (s + i * sn div dn) = Some (nearest d dn s sn (d + i))" by (simp add: nearest_def)
qed

lemma find_offset:
  "List.find (\<lambda>i. d + i = X) [0..n - 1] = (if d \<le> X \<and> X < d + n then Some (X - d) else None)"
proof (cases "d \<le> X \<and> X < d + n")
  case True
  have "X - d \<in> set [0..n - 1]" "d + (X - d) = X" using True by auto
  then have "List.find (\<lambda>i. d + i = X) [0..n - 1] \<noteq> None" unfolding find_None_iff by blast
  then show ?thesis using True by (auto simp: find_Some_iff)
next
  case False
  have "List.find (\<lambda>i. d + i = X) [0..n - 1] = None"
    unfolding find_None_iff using False by auto
  then show ?thesis using False by simp
qed

lemma blit_row_spec:
  assumes v: "valid_target g t" and ne: "src \<noteq> t" and d: "drawn g t (nat (tw * th)) g1"
    and s: "target_px g src = Some sp" "length sp = nat (src_w * src_h)"
    and ax: "axis_ok dx dw sx sw" and r: "0 \<le> ddy" "ddy < th" "0 \<le> ssy" "ssy < src_h"
    and XY: "0 \<le> X" "X < tw" "0 \<le> Y" "Y < th"
  shows "\<exists>g2. blit_row src t tw src_w ddy ssy dx dw sx sw g1 = Some g2 \<and> drawn g t (nat (tw * th)) g2 \<and>
    pixel t (nat (Y * tw + X)) g2 =
      (let x = nearest dx dw sx sw X; old = pixel t (nat (Y * tw + X)) g1
       in if ddy = Y \<and> dx \<le> X \<and> X < dx + dw \<and> 0 \<le> x \<and> x < src_w
          then compose (sp ! nat (ssy * src_w + x)) old else old)"
proof -
  let ?v = "pixel t (nat (Y * tw + X))"
  let ?g = "\<lambda>i old. let x = nearest dx dw sx sw (dx + i) in
    if ddy = Y \<and> 0 \<le> x \<and> x < src_w then compose (sp ! nat (ssy * src_w + x)) old else old"
  have J: "nat (Y * tw + X) < nat (tw * th)" using cell_bounds [OF XY] by simp
  have "\<exists>g2. blit_row src t tw src_w ddy ssy dx dw sx sw g1 = Some g2 \<and> drawn g t (nat (tw * th)) g2 \<and>
    ?v g2 = (case List.find (\<lambda>i. dx + i = X) [0..dw - 1] of None \<Rightarrow> ?v g1 | Some i \<Rightarrow> ?g i (?v g1))"
    unfolding blit_row_def
  proof (rule each_point [where P = "drawn g t (nat (tw * th))", OF d])
    fix i g1 assume i: "i \<in> set [0..dw - 1]" and d: "drawn g t (nat (tw * th)) g1"
    then have "0 \<le> i" "i < dw" by auto
    note st = axis_steps [OF ax this]
    let ?x = "nearest dx dw sx sw (dx + i)"
    show "\<exists>g2. Option.bind (c_int (dx + i)) (\<lambda>ddx. if ddx < 0 \<or> tw \<le> ddx then Some g1
        else Option.bind (c_int (i * sw)) (\<lambda>q. Option.bind (c_int (sx + q div dw)) (\<lambda>ssx.
          if ssx < 0 \<or> src_w \<le> ssx then Some g1 else blit_px src t (ssy * src_w + ssx) (ddy * tw + ddx) g1))) = Some g2 \<and>
      drawn g t (nat (tw * th)) g2 \<and> ?v g2 = (if dx + i = X then ?g i (?v g1) else ?v g1)"
    proof (cases "dx + i < 0 \<or> tw \<le> dx + i \<or> ?x < 0 \<or> src_w \<le> ?x")
      case True
      then show ?thesis using st d XY by auto
    next
      case False
      then have b: "0 \<le> dx + i" "dx + i < tw" "0 \<le> ?x" "?x < src_w" by auto
      have k: "0 \<le> ddy * tw + (dx + i)" "ddy * tw + (dx + i) < int (nat (tw * th))"
        using cell_bounds [OF b(1,2) r(1,2)] by auto
      have p: "0 \<le> ssy * src_w + ?x" "ssy * src_w + ?x < int (length sp)"
        using cell_bounds [OF b(3,4) r(3,4)] s(2) by auto
      have eq: "nat (Y * tw + X) = nat (ddy * tw + (dx + i)) \<longleftrightarrow> ddy = Y \<and> dx + i = X"
        using cell_inj [of X tw "dx + i" Y ddy] XY b r by auto
      show ?thesis
        using blit_px_spec [OF v ne d k s(1) p J] b unfolding eq by (auto simp: st Let_def)
    qed
  qed auto
  then show ?thesis unfolding find_offset by (auto simp: Let_def)
qed


lemma blit_rows_spec:
  assumes v: "valid_target g t" and ne: "src \<noteq> t" and d: "drawn g t (nat (tw * th)) g1"
    and s: "target_px g src = Some sp" "length sp = nat (src_w * src_h)"
    and ax: "axis_ok dx dw sx sw" "axis_ok dy dh sy sh"
    and XY: "0 \<le> X" "X < tw" "0 \<le> Y" "Y < th"
  shows "\<exists>g2. blit_rows src t tw th src_w src_h dx dy dw dh sx sy sw sh g1 = Some g2 \<and>
    drawn g t (nat (tw * th)) g2 \<and>
    pixel t (nat (Y * tw + X)) g2 =
      (let x = nearest dx dw sx sw X; y = nearest dy dh sy sh Y; old = pixel t (nat (Y * tw + X)) g1
       in if dx \<le> X \<and> X < dx + dw \<and> 0 \<le> x \<and> x < src_w \<and> dy \<le> Y \<and> Y < dy + dh \<and> 0 \<le> y \<and> y < src_h
          then compose (sp ! nat (y * src_w + x)) old else old)"
proof -
  let ?v = "pixel t (nat (Y * tw + X))"
  let ?x = "nearest dx dw sx sw X"
  let ?g = "\<lambda>j old. let y = nearest dy dh sy sh (dy + j) in
    if 0 \<le> y \<and> y < src_h \<and> dx \<le> X \<and> X < dx + dw \<and> 0 \<le> ?x \<and> ?x < src_w
    then compose (sp ! nat (y * src_w + ?x)) old else old"
  have "\<exists>g2. blit_rows src t tw th src_w src_h dx dy dw dh sx sy sw sh g1 = Some g2 \<and>
    drawn g t (nat (tw * th)) g2 \<and>
    ?v g2 = (case List.find (\<lambda>j. dy + j = Y) [0..dh - 1] of None \<Rightarrow> ?v g1 | Some j \<Rightarrow> ?g j (?v g1))"
    unfolding blit_rows_def
  proof (rule each_point [where P = "drawn g t (nat (tw * th))", OF d])
    fix j g1 assume j: "j \<in> set [0..dh - 1]" and d: "drawn g t (nat (tw * th)) g1"
    then have "0 \<le> j" "j < dh" by auto
    note st = axis_steps [OF ax(2) this]
    let ?y = "nearest dy dh sy sh (dy + j)"
    show "\<exists>g2. Option.bind (c_int (dy + j)) (\<lambda>ddy. if ddy < 0 \<or> th \<le> ddy then Some g1
        else Option.bind (c_int (j * sh)) (\<lambda>q. Option.bind (c_int (sy + q div dh)) (\<lambda>ssy.
          if ssy < 0 \<or> src_h \<le> ssy then Some g1 else blit_row src t tw src_w ddy ssy dx dw sx sw g1))) = Some g2 \<and>
      drawn g t (nat (tw * th)) g2 \<and> ?v g2 = (if dy + j = Y then ?g j (?v g1) else ?v g1)"
    proof (cases "dy + j < 0 \<or> th \<le> dy + j \<or> ?y < 0 \<or> src_h \<le> ?y")
      case True
      then show ?thesis using st d XY by auto
    next
      case False
      then have b: "0 \<le> dy + j" "dy + j < th" "0 \<le> ?y" "?y < src_h" by auto
      show ?thesis
        using blit_row_spec [OF v ne d s ax(1) b XY] b by (auto simp: st Let_def)
    qed
  qed auto
  then show ?thesis unfolding find_offset by (auto simp: Let_def)
qed

text \<open>Drawing a bitmap: the pixels of the target rectangle that have a source pixel are composed
  with the nearest one, everything else stays.\<close>

lemma dc_target_facts:
  assumes wf: "wf_wm (wins g)" "wf_bitmaps (bits g)" and t: "dc_target ok hdc g = Some (Some (t, tw, th, win), g1)"
  shows "valid_target g1 t" and "bits g1 = bits g" and "dcs g1 = dcs g" and "\<exists>px. target_px g1 t = Some px \<and> length px = nat (tw * th)"
    and "0 < tw" and "0 < th"
proof -
  obtain d where d: "find_dc hdc g = Some d" using t by (auto simp: dc_target_def split: option.splits)
  have "valid_target g1 t \<and> bits g1 = bits g \<and> dcs g1 = dcs g \<and> (\<exists>px. target_px g1 t = Some px \<and> length px = nat (tw * th)) \<and> 0 < tw \<and> 0 < th"
  proof (cases "is_memdc (dcs g ! d)")
    case True
    have eq: "dc_target ok hdc g =
        Some (map_option (\<lambda>(i, w, h). (TBitmap i, w, h, 0)) (wg_bitmap_pixels (sel_bitmap (dcs g ! d)) (bits g)), g)"
      by (simp add: dc_target_def d True)
    from t have "map_option (\<lambda>(i, w, h). (TBitmap i, w, h, 0)) (wg_bitmap_pixels (sel_bitmap (dcs g ! d)) (bits g)) =
        Some (t, tw, th, win)" and "g1 = g"
      unfolding eq option.inject prod.inject by blast+
    then obtain i where i: "wg_bitmap_pixels (sel_bitmap (dcs g ! d)) (bits g) = Some (i, tw, th)"
      and e: "t = TBitmap i" "g1 = g" by (auto simp: map_option_case split: option.splits)
    then have f: "bm_find (sel_bitmap (dcs g ! d)) (bits g) = Some i" "tw = bm_w (bmps (bits g) ! i)"
      "th = bm_h (bmps (bits g) ! i)" by (auto simp: wg_bitmap_pixels_def split: option.splits)
    then have "i < length (bmps (bits g))" "bm_used (bmps (bits g) ! i)"
      using find_index_SomeD [OF f(1) [unfolded bm_find_def]] by auto
    then show ?thesis using wf_bitmapsD [OF wf(2)] e f by (auto simp: bitmap_ok_def)
  next
    case False
    define c where "c = dcs g ! d"
    have "dc_target ok hdc g = Option.bind (client_of ok (dc_hwnd (dcs g ! d)) g) (\<lambda>(fb, g).
        case fb of None \<Rightarrow> Some (None, g)
        | Some i \<Rightarrow> Some (Some (TWindow i, client_w (windows (wins g) ! i),
            client_h (windows (wins g) ! i), dc_hwnd c), g))"
      unfolding dc_target_def d c_def using False by (simp only: option.case Let_def if_False)
    with t obtain i where c: "client_of ok (dc_hwnd (dcs g ! d)) g = Some (Some i, g1)"
      and e: "t = TWindow i" "tw = client_w (windows (wins g1) ! i)" "th = client_h (windows (wins g1) ! i)"
      by (auto split: bind_splits option.splits)
    then show ?thesis using client_of_SomeD [OF wf(1) c] by auto
  qed
  then show "valid_target g1 t" "bits g1 = bits g" "dcs g1 = dcs g" "\<exists>px. target_px g1 t = Some px \<and> length px = nat (tw * th)"
    "0 < tw" "0 < th" by blast+
qed

text \<open>C32: Drawing a bitmap composes every pixel of the clipped target rectangle that has a source pixel with the nearest one, by its alpha, and leaves all other pixels alone.\<close>

lemma draw_bitmap_composes:
  assumes wf: "wf_wm (wins g)" "wf_bitmaps (bits g)"
    and b: "wg_bitmap_pixels hbm (bits g) = Some (i, bw, bh)"
    and t: "dc_target ok hdc g = Some (Some (t, tw, th, win), g1)" and ne: "t \<noteq> TBitmap i"
    and ax: "axis_ok dx dw sx sw" "axis_ok dy dh sy sh"
  shows "\<exists>px px'. target_px g1 t = Some px \<and> length px' = length px \<and>
    wg_gdi_draw_bitmap ok hdc dx dy dw dh hbm sx sy sw sh g =
      Some (if win \<noteq> 0 then mark_dirty win (set_px g1 t px') else set_px g1 t px') \<and>
    (\<forall>X Y. 0 \<le> X \<and> X < tw \<and> 0 \<le> Y \<and> Y < th \<longrightarrow> px' ! nat (Y * tw + X) =
      (let x = nearest dx dw sx sw X; y = nearest dy dh sy sh Y; old = px ! nat (Y * tw + X)
       in if dx \<le> X \<and> X < dx + dw \<and> 0 \<le> x \<and> x < bw \<and> dy \<le> Y \<and> Y < dy + dh \<and> 0 \<le> y \<and> y < bh
          then compose (bm_px (bmps (bits g) ! i) ! nat (y * bw + x)) old else old))"
proof -
  note f = dc_target_facts [OF wf t]
  obtain px where px: "target_px g1 t = Some px" "length px = nat (tw * th)" using f(4) by blast
  have d1: "drawn g1 t (nat (tw * th)) g1" using drawn_refl [OF px(1)] px(2) by simp
  have bi: "bm_find hbm (bits g) = Some i" "bw = bm_w (bmps (bits g) ! i)" "bh = bm_h (bmps (bits g) ! i)"
    using b by (auto simp: wg_bitmap_pixels_def split: option.splits)
  then have "i < length (bmps (bits g))" "bm_used (bmps (bits g) ! i)"
    using find_index_SomeD [OF bi(1) [unfolded bm_find_def]] by auto
  then have "length (bm_px (bmps (bits g) ! i)) = nat (bw * bh)"
    using wf_bitmapsD [OF wf(2)] bi by (auto simp: bitmap_ok_def)
  then have sp: "target_px g1 (TBitmap i) = Some (bm_px (bmps (bits g) ! i))" "length (bm_px (bmps (bits g) ! i)) = nat (bw * bh)"
    using f(2) by simp_all
  note rows = blit_rows_spec [OF f(1) ne [symmetric] d1 sp ax]
  obtain g2 where g2: "blit_rows (TBitmap i) t tw th bw bh dx dy dw dh sx sy sw sh g1 = Some g2"
    and d2: "drawn g1 t (nat (tw * th)) g2" using rows [of 0 0] f(5,6) by auto
  from d2 obtain px' where px': "g2 = set_px g1 t px'" "length px' = nat (tw * th)" by (auto simp: drawn_def)
  have t2: "target_px g2 t = Some px'" unfolding px'(1) by (rule target_set_px [OF f(1)])
  have pos: "0 < dw" "0 < sw" "0 < dh" "0 < sh" using ax by (simp_all add: axis_ok_def)
  have "wg_gdi_draw_bitmap ok hdc dx dy dw dh hbm sx sy sw sh g =
      Some (if win \<noteq> 0 then mark_dirty win (set_px g1 t px') else set_px g1 t px')"
    using pos g2 by (simp add: wg_gdi_draw_bitmap_def b blit_pixels_def t px'(1))
  moreover have "px' ! nat (Y * tw + X) = (let x = nearest dx dw sx sw X; y = nearest dy dh sy sh Y; old = px ! nat (Y * tw + X)
       in if dx \<le> X \<and> X < dx + dw \<and> 0 \<le> x \<and> x < bw \<and> dy \<le> Y \<and> Y < dy + dh \<and> 0 \<le> y \<and> y < bh
          then compose (bm_px (bmps (bits g) ! i) ! nat (y * bw + x)) old else old)"
    if "0 \<le> X" "X < tw" "0 \<le> Y" "Y < th" for X Y
    using rows [OF that] g2 t2 px(1) by (simp add: pixel_def)
  ultimately show ?thesis using px px'(2) by auto
qed

end
