(* ===== verification/GdiTables.thy ===== *)
theory GdiTables
  imports Gdi
begin

text \<open>
  The tables of the drawing layer: device contexts (the interpretation of
  \<open>handle_table_free\<close>), brushes, the channels of a blended pixel, and the text with mnemonic markers.
\<close>

section \<open>Device contexts\<close>

definition dc_alloc :: "u32 option \<Rightarrow> gdi \<Rightarrow> u32 option \<times> gdi" where
  "dc_alloc a = (case a of None \<Rightarrow> wg_gdi_create_memory_dc | Some hwnd \<Rightarrow> wg_gdi_get_dc hwnd)"

definition wf_dcs :: "gdi \<Rightarrow> bool" where
  "wf_dcs g \<longleftrightarrow> length (dcs g) = MAX_DCS"

lemma new_dc_Some:
  assumes "new_dc mk g = (Some h, g')"
  obtains i where "find_index (\<lambda>d. \<not> dc_used d) (dcs g) = Some i" and "i < length (dcs g)"
    and "\<not> dc_used (dcs g ! i)" and "h = next_dc g" and "next_dc g' = next_dc g + 1"
    and "dcs g' = (dcs g)[i := mk h (dcs g ! i)]" and "bits g' = bits g" and "wins g' = wins g"
proof -
  obtain i where i: "find_index (\<lambda>d. \<not> dc_used d) (dcs g) = Some i"
    using assms by (auto simp: new_dc_def split: option.splits)
  with assms find_index_SomeD [OF i] show ?thesis
    by (intro that [of i]) (auto simp: new_dc_def)
qed

lemma new_dc_None: "new_dc mk g = (None, g') \<Longrightarrow> g' = g"
  by (simp add: new_dc_def split: option.splits)

lemma new_dc_wf: "wf_dcs g \<Longrightarrow> wf_dcs (snd (new_dc mk g))"
  by (simp add: new_dc_def wf_dcs_def split: option.split)

lemma new_dc_rest [simp]: "wins (snd (new_dc mk g)) = wins g" "bits (snd (new_dc mk g)) = bits g"
  by (simp_all add: new_dc_def split: option.split)

lemma made_dc [simp]: "dc_used (window_dc h w d)" "dc_handle (window_dc h w d) = h"
  "dc_used (memory_dc h)" "dc_handle (memory_dc h) = h"
  by (simp_all add: window_dc_def memory_dc_def)

lemma dc_alloc_new: "dc_alloc a = new_dc (case a of None \<Rightarrow> (\<lambda>h d. memory_dc h) | Some w \<Rightarrow> (\<lambda>h. window_dc h w))"
  by (simp add: dc_alloc_def wg_gdi_create_memory_dc_def wg_gdi_get_dc_def split: option.split)

interpretation dct: handle_table_free dc_used dc_handle dcs next_dc wf_dcs dc_alloc wg_gdi_release_dc
proof (unfold_locales, goal_cases)
  case (1 g a h g')
  then obtain i where i: "i < length (dcs g)" "\<not> dc_used (dcs g ! i)" "h = next_dc g" "next_dc g' = next_dc g + 1"
    "dcs g' = (dcs g)[i := (case a of None \<Rightarrow> (\<lambda>h d. memory_dc h) | Some w \<Rightarrow> (\<lambda>h. window_dc h w)) h (dcs g ! i)]"
    unfolding dc_alloc_new by (elim new_dc_Some)
  then show ?case
    by (intro conjI exI [of _ i] exI [of _ "(case a of None \<Rightarrow> (\<lambda>h d. memory_dc h) | Some w \<Rightarrow> (\<lambda>h. window_dc h w)) h (dcs g ! i)"])
      (simp_all split: option.split)
next
  case (2 g a g')
  then show ?case unfolding dc_alloc_new by (auto dest: new_dc_None)
next
  case (3 g a)
  then show ?case unfolding dc_alloc_new by (rule new_dc_wf)
next
  case (4 g h)
  then have "find_dc h g = None" by (simp add: find_dc_def)
  then show ?case by (simp add: wg_gdi_release_dc_def upd_dc_def)
next
  case (5 g h i)
  then have "find_dc h g = Some i" by (simp add: find_dc_def)
  then show ?case
    by (intro exI [of _ "(dcs g ! i)\<lparr>dc_used := False\<rparr>"]) (simp add: wg_gdi_release_dc_def upd_dc_def)
next
  case (6 g h)
  show ?case by (simp add: wg_gdi_release_dc_def upd_dc_def split: option.split)
next
  case (7 g h)
  then show ?case by (simp add: wg_gdi_release_dc_def upd_dc_def wf_dcs_def split: option.split)
qed

lemma dc_owner: "find_dc h g = dct.owner g h"
  by (simp add: find_dc_def dct.owner_def)

lemma dcs_initial: "dct.table_inv initial_gdi"
  by (rule dct.empty_inv) (simp_all add: wf_dcs_def initial_gdi_def zero_dc_def)

lemma get_dc_slot:
  assumes inv: "dct.table_inv g" and c: "wg_gdi_get_dc hwnd g = (Some h, g')" and room: "next_dc g \<noteq> - 1"
  shows "\<exists>i. find_index (\<lambda>d. \<not> dc_used d) (dcs g) = Some i \<and> find_dc h g' = Some i \<and>
    dcs g' ! i = window_dc h hwnd (dcs g ! i) \<and> bits g' = bits g"
proof -
  from c obtain i where i: "i < length (dcs g)" "dcs g' = (dcs g)[i := window_dc h hwnd (dcs g ! i)]"
    "find_index (\<lambda>d. \<not> dc_used d) (dcs g) = Some i" "bits g' = bits g"
    unfolding wg_gdi_get_dc_def by (elim new_dc_Some)
  have al: "dc_alloc (Some hwnd) g = (Some h, g')" using c by (simp add: dc_alloc_def)
  obtain k where k: "find_dc h g' = Some k" using dct.alloc_owner [OF inv al] by (auto simp: dc_owner)
  have "k < length (dcs g')" "dc_used (dcs g' ! k)" "dc_handle (dcs g' ! k) = h"
    using find_index_SomeD [OF k [unfolded find_dc_def]] by auto
  moreover have "i < length (dcs g')" "dc_used (dcs g' ! i)" "dc_handle (dcs g' ! i) = h"
    using i by simp_all
  ultimately have "k = i"
    using dct.table_invD(3) [OF dct.alloc_inv [OF inv al room]] unfolding dct.handles_unique_def by blast
  with i k show ?thesis by simp
qed

text \<open>A context that is created is found under its handle, which no live context had, the other
  handles find what they found; after its release the handle finds nothing.\<close>

lemma dc_lifecycle:
  assumes "dct.table_inv g" and "wg_gdi_get_dc hwnd g = (Some h, g')" and "next_dc g \<noteq> - 1"
  shows "find_dc h g = None \<and> find_dc h (wg_gdi_release_dc h g') = None \<and>
    (\<exists>i. find_dc h g' = Some i \<and> dc_hwnd (dcs g' ! i) = hwnd \<and> text_color (dcs g' ! i) = 0 \<and>
       bk_color (dcs g' ! i) = 0x00FFFFFF \<and> bk_mode (dcs g' ! i) = 2) \<and>
    (\<forall>k. k \<noteq> h \<longrightarrow> find_dc k g' = find_dc k g \<and> find_dc k (wg_gdi_release_dc h g') = find_dc k g)"
proof -
  have al: "dc_alloc (Some hwnd) g = (Some h, g')" using assms(2) by (simp add: dc_alloc_def)
  note inv' = dct.alloc_inv [OF assms(1) al assms(3)]
  have fresh: "find_dc h g = None" unfolding dc_owner by (rule dct.alloc_handle_fresh [OF assms(1) al])
  have gone: "find_dc h (wg_gdi_release_dc h g') = None"
    unfolding dc_owner by (rule dct.release_owner [OF inv'])
  have oth: "\<forall>k. k \<noteq> h \<longrightarrow> find_dc k g' = find_dc k g \<and> find_dc k (wg_gdi_release_dc h g') = find_dc k g"
    using dct.alloc_owner_other [OF assms(1) al] dct.release_owner_other [OF inv'] by (simp add: dc_owner)
  obtain i where i: "find_dc h g' = Some i" "dcs g' ! i = window_dc h hwnd (dcs g ! i)"
    using get_dc_slot [OF assms] by blast
  then have "\<exists>i. find_dc h g' = Some i \<and> dc_hwnd (dcs g' ! i) = hwnd \<and> text_color (dcs g' ! i) = 0 \<and>
      bk_color (dcs g' ! i) = 0x00FFFFFF \<and> bk_mode (dcs g' ! i) = 2"
    by (simp add: window_dc_def)
  with fresh gone oth show ?thesis by blast
qed

text \<open>\<open>wg_gdi_get_dc\<close> does not clear \<open>is_memdc\<close>: in a slot that a memory context has left, the
  window's context draws into the bitmap that was selected there.\<close>

lemma window_dc_stale:
  assumes inv: "dct.table_inv g" and c: "wg_gdi_get_dc hwnd g = (Some h, g')" and room: "next_dc g \<noteq> - 1"
    and f: "find_index (\<lambda>d. \<not> dc_used d) (dcs g) = Some i" and m: "is_memdc (dcs g ! i)"
  shows "dc_target ok h g' =
    Some (map_option (\<lambda>(j, w, h). (TBitmap j, w, h, 0)) (wg_bitmap_pixels (sel_bitmap (dcs g ! i)) (bits g)), g')"
proof -
  have k: "find_dc h g' = Some i" "dcs g' ! i = window_dc h hwnd (dcs g ! i)" "bits g' = bits g"
    using get_dc_slot [OF inv c room] f by auto
  then have "is_memdc (dcs g' ! i)" "sel_bitmap (dcs g' ! i) = sel_bitmap (dcs g ! i)"
    using m by (simp_all add: window_dc_def)
  then show ?thesis using k by (simp add: dc_target_def)
qed

section \<open>Brushes\<close>

lemma brush_color_created:
  assumes "length (brush_used g) = MAX_BRUSHES" "length (brush_colors g) = MAX_BRUSHES"
    and f: "find_index Not (brush_used g) = Some i" and c: "wg_gdi_create_solid_brush cr g = (h, g')"
  shows "wg_gdi_brush_color h g' = (cr, True) \<and>
    (\<forall>k. k \<noteq> h \<longrightarrow> wg_gdi_brush_color k g' = wg_gdi_brush_color k g)"
proof (intro conjI)
  have i: "i < 64" using find_index_SomeD [OF f] assms(1) by (simp add: MAX_BRUSHES_def)
  have h: "h = s_next_brush + of_nat i"
    and g': "brush_used g' = (brush_used g)[i := True]" "brush_colors g' = (brush_colors g)[i := cr]"
    using c f by (auto simp: wg_gdi_create_solid_brush_def)
  have "sint (of_nat i :: u32) = int i" using i by (simp add: signed_of_nat signed_take_bit_int_eq_self)
  then have "sint (h - s_next_brush) = int i" by (simp add: h)
  then show "wg_gdi_brush_color h g' = (cr, True)"
    using i assms(1,2) by (simp add: wg_gdi_brush_color_def g' MAX_BRUSHES_def)
  show "\<forall>k. k \<noteq> h \<longrightarrow> wg_gdi_brush_color k g' = wg_gdi_brush_color k g"
  proof (intro allI impI)
    fix k assume k: "k \<noteq> h"
    have ne: "nat (sint (k - s_next_brush)) \<noteq> i" if "0 \<le> sint (k - s_next_brush)"
    proof
      assume "nat (sint (k - s_next_brush)) = i"
      then have "sint (k - s_next_brush) = sint (of_nat i :: u32)"
        using that \<open>sint (of_nat i :: u32) = int i\<close> by simp
      then have "k - s_next_brush = of_nat i" by (rule signed_word_eqI)
      then show False using k h by (simp add: diff_eq_eq add.commute)
    qed
    show "wg_gdi_brush_color k g' = wg_gdi_brush_color k g"
    proof (cases "0 \<le> sint (k - s_next_brush)")
      case True
      then show ?thesis using ne [OF True] by (simp add: wg_gdi_brush_color_def g' Let_def)
    next
      case False
      then show ?thesis by (simp add: wg_gdi_brush_color_def Let_def)
    qed
  qed
qed

section \<open>Mnemonics\<close>

text \<open>Doubling the ampersands of a text protects it.\<close>

definition double_amp :: "u16 list \<Rightarrow> u16 list" where
  "double_amp cs = concat (map (\<lambda>c. if c = 0x26 then [c, c] else [c]) cs)"

lemma strip_double_amp: "strip_mnemonics n (double_amp cs) = take n cs"
proof (induction cs arbitrary: n)
  case Nil
  show ?case by (cases n) (simp_all add: double_amp_def)
next
  case (Cons c cs)
  have d: "double_amp (c # cs) = (if c = 0x26 then c # c # double_amp cs else c # double_amp cs)"
    by (simp add: double_amp_def)
  show ?case by (cases n) (simp_all add: d Cons.IH)
qed

lemma strip_no_amp: "0x26 \<notin> set cs \<Longrightarrow> strip_mnemonics n cs = take n cs"
  by (induction n cs rule: strip_mnemonics.induct) auto

lemma strip_marker:
  "0x26 \<notin> set cs \<Longrightarrow> 0x26 \<notin> set ds \<Longrightarrow> strip_mnemonics n (cs @ 0x26 # ds) = take n (cs @ ds)"
proof (induction cs arbitrary: n)
  case Nil
  then show ?case by (cases n; cases ds) (auto simp: strip_no_amp)
next
  case (Cons c cs)
  then show ?case by (cases n) auto
qed

section \<open>Blended channels\<close>

text \<open>A blended channel lies between those of the source and the target.\<close>

lemma mix_between:
  assumes "unat a \<le> 255" "unat s \<le> 255" "unat d \<le> 255"
  shows "unat (mix a s d) = (unat s * unat a + unat d * (255 - unat a)) div 255"
    and "min (unat s) (unat d) \<le> unat (mix a s d)" and "unat (mix a s d) \<le> max (unat s) (unat d)"
proof -
  have sa: "unat s * unat a \<le> 255 * 255" and da: "unat d * (255 - unat a) \<le> 255 * 255"
    using assms mult_le_mono [of "unat s" 255 "unat a" 255] mult_le_mono [of "unat d" 255 "255 - unat a" 255] by simp_all
  have ua: "unat (255 - a) = 255 - unat a"
    using assms by (subst unat_sub) (simp_all add: word_le_nat_alt)
  have m1: "unat (s * a) = unat s * unat a" using sa by (simp add: unat_mult_lem [THEN iffD1])
  have m2: "unat (d * (255 - a)) = unat d * (255 - unat a)"
    using da ua by (simp add: unat_mult_lem [THEN iffD1])
  have "unat (s * a + d * (255 - a)) = unat s * unat a + unat d * (255 - unat a)"
    using sa da m1 m2 by (subst unat_add_lem [THEN iffD1]) simp_all
  then show eq: "unat (mix a s d) = (unat s * unat a + unat d * (255 - unat a)) div 255"
    by (simp add: mix_def unat_div)
  let ?lo = "min (unat s) (unat d)" and ?hi = "max (unat s) (unat d)"
  have "?lo * unat a + ?lo * (255 - unat a) = ?lo * 255" "?hi * unat a + ?hi * (255 - unat a) = ?hi * 255"
    using assms(1) by (simp_all add: add_mult_distrib2 [symmetric])
  moreover have "?lo * unat a \<le> unat s * unat a" "?lo * (255 - unat a) \<le> unat d * (255 - unat a)"
    "unat s * unat a \<le> ?hi * unat a" "unat d * (255 - unat a) \<le> ?hi * (255 - unat a)"
    by simp_all
  ultimately have "?lo * 255 \<le> unat s * unat a + unat d * (255 - unat a)"
    "unat s * unat a + unat d * (255 - unat a) \<le> ?hi * 255" by linarith+
  then show "?lo \<le> unat (mix a s d)" "unat (mix a s d) \<le> ?hi"
    unfolding eq using div_le_mono [of "?lo * 255" _ 255] div_le_mono [of _ "?hi * 255" 255] by simp_all
qed

end
