(* ===== verification/GdiProperties.thy ===== *)
theory GdiProperties
  imports GdiBlit GdiTables
begin

text \<open>
  The properties of the drawing layer at concrete inputs: a window whose client area has three by
  two pixels, a context for it, and a bitmap of two by one pixels.
\<close>

definition tiny_window :: window_args where
  "tiny_window = \<lparr>a_ex_style = 0, a_class_atom = 0xC001, a_title = None, a_style = 0x10000000,
     a_x = 0, a_y = 0, a_w = 3, a_h = 34, a_parent = 0\<rparr>"

definition demo_gdi :: gdi where
  "demo_gdi = snd (wg_gdi_get_dc WG_HWND_BASE (initial_gdi\<lparr>
     wins := snd (wg_wm_create_window tiny_window zero_wm),
     bits := snd (alloc_slot True 2 1 initial_bitmaps)\<rparr>))"

lemma demo_gdi_wf: "wf_wm (wins demo_gdi)" "wf_bitmaps (bits demo_gdi)"
  by (simp_all add: demo_gdi_def wg_gdi_get_dc_def wf_create [OF wf_zero] wf_alloc_slot [OF wf_initial])

lemma demo_gdi_dc: "find_dc WG_DC_BASE demo_gdi = Some 0"
  by code_simp

lemma demo_gdi_client:
  "\<exists>g1. client_of True (dc_hwnd (dcs demo_gdi ! 0)) demo_gdi = Some (Some 0, g1) \<and>
     client_w (windows (wins g1) ! 0) = 3 \<and> client_h (windows (wins g1) ! 0) = 2"
proof -
  have "map_option (\<lambda>(r, g1). (r, client_w (windows (wins g1) ! 0), client_h (windows (wins g1) ! 0)))
      (client_of True (dc_hwnd (dcs demo_gdi ! 0)) demo_gdi) = Some (Some 0, 3, 2)"
    by code_simp
  then show ?thesis by (auto simp: map_option_case split: option.splits prod.splits)
qed

theorem fill_rect_exact_witness:
  "\<exists>g1 px px'. client (windows (wins g1) ! 0) = Some px \<and>
     wg_gdi_fill_rect True WG_DC_BASE 1 (- 5) 9 1 0x0000FF demo_gdi =
       Some (mark_dirty WG_HWND_BASE (set_px g1 (TWindow 0) px')) \<and>
     px' ! 0 = px ! 0 \<and> px' ! 1 = 0xFF0000FF \<and> px' ! 4 = px ! 4"
proof -
  obtain g1 where c: "client_of True (dc_hwnd (dcs demo_gdi ! 0)) demo_gdi = Some (Some 0, g1)"
    and W: "3 = client_w (windows (wins g1) ! 0)" and H: "2 = client_h (windows (wins g1) ! 0)"
    using demo_gdi_client by auto
  have hw: "dc_hwnd (dcs demo_gdi ! 0) = WG_HWND_BASE" by code_simp
  have col: "colorref_to_rgba 0x0000FF = 0xFF0000FF" by code_simp
  from fill_rect_exact [OF demo_gdi_wf(1) demo_gdi_dc c W H, of 1 "- 5" 9 1 "0x0000FF"]
  obtain px px' where f: "client (windows (wins g1) ! 0) = Some px"
    "wg_gdi_fill_rect True WG_DC_BASE 1 (- 5) 9 1 0x0000FF demo_gdi = Some (mark_dirty WG_HWND_BASE (set_px g1 (TWindow 0) px'))"
    and p: "\<forall>x y. 0 \<le> x \<and> x < 3 \<and> 0 \<le> y \<and> y < 2 \<longrightarrow> px' ! nat (y * 3 + x) =
      (if 1 \<le> x \<and> x < 9 \<and> - 5 \<le> y \<and> y < 1 then 0xFF0000FF else px ! nat (y * 3 + x))"
    unfolding hw col by blast
  from p [rule_format, of 0 0] p [rule_format, of 1 0] p [rule_format, of 1 1] f show ?thesis by auto
qed

theorem line_to_exact_witness:
  "\<exists>g1 ps px px'. length ps = 3 \<and> hd ps = (0 :: int, 0 :: int) \<and> last ps = (2, 1) \<and>
     wg_gdi_line_to 9 True WG_DC_BASE 2 1 demo_gdi =
       Some (mark_dirty WG_HWND_BASE (wg_gdi_move_to WG_DC_BASE 2 1 (set_px g1 (TWindow 0) px'))) \<and>
     px' ! 0 = 0xFF000000 \<and> px' ! 3 = px ! 3"
proof -
  obtain g1 where c: "client_of True (dc_hwnd (dcs demo_gdi ! 0)) demo_gdi = Some (Some 0, g1)"
    and W: "3 = client_w (windows (wins g1) ! 0)" and H: "2 = client_h (windows (wins g1) ! 0)"
    using demo_gdi_client by auto
  have hw: "dc_hwnd (dcs demo_gdi ! 0) = WG_HWND_BASE" by code_simp
  have p: "0 = cur_x (dcs demo_gdi ! 0)" "0 = cur_y (dcs demo_gdi ! 0)" by code_simp+
  have col: "colorref_to_rgba (text_color (dcs demo_gdi ! 0)) = 0xFF000000" by code_simp
  have sm: "small 0" "small 0" "small 2" "small 1" "nat (max \<bar>2 - 0\<bar> \<bar>1 - 0\<bar>) < 9" by (simp_all add: small_def)
  from line_to_exact [OF demo_gdi_wf(1) demo_gdi_dc c W H p sm]
  obtain ps px px' where l: "length ps = Suc (nat (max \<bar>2 - 0\<bar> \<bar>1 - 0 :: int\<bar>))" "hd ps = (0, 0)" "last ps = (2, 1)"
    and near: "\<forall>k < length ps. case ps ! k of (x, y) \<Rightarrow>
      (if \<bar>1 - 0 :: int\<bar> < \<bar>2 - 0\<bar> then \<bar>x - 0\<bar> = int k else \<bar>y - 0\<bar> = int k) \<and>
      2 * \<bar>(y - 0) * (2 - 0) - (x - 0) * (1 - 0)\<bar> \<le> max \<bar>2 - 0\<bar> \<bar>1 - 0\<bar>"
    and r: "wg_gdi_line_to 9 True WG_DC_BASE 2 1 demo_gdi =
      Some (mark_dirty WG_HWND_BASE (wg_gdi_move_to WG_DC_BASE 2 1 (set_px g1 (TWindow 0) px')))"
    and q: "\<forall>X Y. 0 \<le> X \<and> X < 3 \<and> 0 \<le> Y \<and> Y < 2 \<longrightarrow> px' ! nat (Y * 3 + X) =
      (if (X, Y) \<in> set ps then 0xFF000000 else px ! nat (Y * 3 + X))"
    unfolding hw col by blast
  have l3: "length ps = 3" using l(1) by simp
  have "(0, 0) \<in> set ps" using l(2) l3 by (metis hd_in_set length_0_conv zero_neq_numeral)
  moreover have "(0, 1) \<notin> set ps"
  proof
    assume "(0, 1) \<in> set ps"
    then obtain k where "k < length ps" "ps ! k = (0, 1)" by (auto simp: in_set_conv_nth)
    then show False using near by force
  qed
  ultimately show ?thesis using l(2,3) l3 r q [rule_format, of 0 0] q [rule_format, of 0 1]
    by (intro exI [of _ g1] exI [of _ ps] exI [of _ px] exI [of _ px']) simp
qed

text \<open>A half transparent white pixel over a black one.\<close>

definition demo_blit :: gdi where
  "demo_blit = demo_gdi\<lparr>bits := (bits demo_gdi)\<lparr>bmps := (bmps (bits demo_gdi))[0 :=
     (bmps (bits demo_gdi) ! 0)\<lparr>bm_px := [0x80FFFFFF, 0xFF112233]\<rparr>]\<rparr>\<rparr>"

theorem draw_bitmap_composes_witness:
  "\<exists>g1 px px'. target_px g1 (TWindow 0) = Some px \<and>
     wg_gdi_draw_bitmap True WG_DC_BASE 1 0 4 1 WG_HBITMAP_BASE 0 0 2 1 demo_blit =
       Some (mark_dirty WG_HWND_BASE (set_px g1 (TWindow 0) px')) \<and>
     px' ! 0 = px ! 0 \<and> px' ! 1 = compose 0x80FFFFFF (px ! 1) \<and> px' ! 2 = compose 0x80FFFFFF (px ! 2)"
proof -
  have wf: "wf_wm (wins demo_blit)" using demo_gdi_wf by (simp add: demo_blit_def)
  have b0: "bmps (bits demo_gdi) ! 0 = \<lparr>bm_used = True, bm_handle = WG_HBITMAP_BASE, bm_w = 2, bm_h = 1, bm_px = [0, 0]\<rparr>"
    by code_simp
  have wb: "wf_bitmaps (bits demo_blit)"
    unfolding demo_blit_def using wf_set_slot [OF demo_gdi_wf(2)] by (simp add: b0 bitmap_ok_def)
  have bp: "wg_bitmap_pixels WG_HBITMAP_BASE (bits demo_blit) = Some (0, 2, 1)" by code_simp
  have "map_option (\<lambda>(r, g1). (r, bm_px (bmps (bits g1) ! 0)))
      (dc_target True WG_DC_BASE demo_blit) = Some (Some (TWindow 0, 3, 2, WG_HWND_BASE), [0x80FFFFFF, 0xFF112233])"
    by code_simp
  then obtain g1 where t: "dc_target True WG_DC_BASE demo_blit = Some (Some (TWindow 0, 3, 2, WG_HWND_BASE), g1)"
    by (auto simp: map_option_case split: option.splits prod.splits)
  have ax: "axis_ok 1 4 0 2" "axis_ok 0 1 0 1" by (simp_all add: axis_ok_def)
  have sp: "bm_px (bmps (bits demo_blit) ! 0) = [0x80FFFFFF, 0xFF112233]" by code_simp
  have win: "(WG_HWND_BASE \<noteq> 0) = True" by code_simp
  from draw_bitmap_composes [OF wf wb bp t _ ax]
  obtain px px' where r: "target_px g1 (TWindow 0) = Some px"
    "wg_gdi_draw_bitmap True WG_DC_BASE 1 0 4 1 WG_HBITMAP_BASE 0 0 2 1 demo_blit =
       Some (mark_dirty WG_HWND_BASE (set_px g1 (TWindow 0) px'))"
    and q: "\<forall>X Y. 0 \<le> X \<and> X < 3 \<and> 0 \<le> Y \<and> Y < 2 \<longrightarrow> px' ! nat (Y * 3 + X) =
      (let x = nearest 1 4 0 2 X; y = nearest 0 1 0 1 Y; old = px ! nat (Y * 3 + X)
       in if 1 \<le> X \<and> X < 1 + 4 \<and> 0 \<le> x \<and> x < 2 \<and> 0 \<le> Y \<and> Y < 0 + 1 \<and> 0 \<le> y \<and> y < 1
          then compose ([0x80FFFFFF, 0xFF112233] ! nat (y * 2 + x)) old else old)"
    unfolding sp win by auto
  from q [rule_format, of 0 0] q [rule_format, of 1 0] q [rule_format, of 2 0] r show ?thesis
    by (auto simp: nearest_def)
qed

theorem dc_lifecycle_witness:
  "\<exists>h g'. wg_gdi_get_dc 0x10001 initial_gdi = (Some h, g') \<and> find_dc h g' \<noteq> None \<and>
     find_dc h (wg_gdi_release_dc h g') = None"
proof -
  have "fst (wg_gdi_get_dc 0x10001 initial_gdi) = Some WG_DC_BASE" by code_simp
  then obtain g' where c: "wg_gdi_get_dc 0x10001 initial_gdi = (Some WG_DC_BASE, g')" by (cases "wg_gdi_get_dc 0x10001 initial_gdi") auto
  have "next_dc initial_gdi \<noteq> - 1" by (simp add: initial_gdi_def WG_DC_BASE_def)
  from dc_lifecycle [OF dcs_initial c this] c show ?thesis by auto
qed

text \<open>A memory context is created, gets a bitmap, is deleted; the window's context takes its slot.\<close>

definition stale_gdi :: gdi where
  "stale_gdi = wg_gdi_delete_dc WG_DC_BASE (snd (wg_gdi_select_bitmap WG_DC_BASE WG_HBITMAP_BASE
     (snd (wg_gdi_create_memory_dc (initial_gdi\<lparr>bits := snd (alloc_slot True 2 1 initial_bitmaps)\<rparr>)))))"

theorem window_dc_stale_witness:
  "\<exists>h g'. wg_gdi_get_dc WG_HWND_BASE stale_gdi = (Some h, g') \<and>
     dc_target True h g' = Some (Some (TBitmap 0, 2, 1, 0), g')"
proof -
  have "fst (wg_gdi_get_dc WG_HWND_BASE stale_gdi) = Some (WG_DC_BASE + 1)" by code_simp
  then obtain g' where c: "wg_gdi_get_dc WG_HWND_BASE stale_gdi = (Some (WG_DC_BASE + 1), g')"
    by (cases "wg_gdi_get_dc WG_HWND_BASE stale_gdi") auto
  have free: "find_index (\<lambda>d. \<not> dc_used d) (dcs stale_gdi) = Some 0" by code_simp
  have "length (dcs stale_gdi) = MAX_DCS" "list_all (\<lambda>d. \<not> dc_used d) (dcs stale_gdi)" by code_simp+
  then have inv: "dct.table_inv stale_gdi"
    by (intro dct.empty_inv) (simp_all add: wf_dcs_def list_all_iff)
  have m: "is_memdc (dcs stale_gdi ! 0)" "next_dc stale_gdi \<noteq> - 1" by code_simp+
  have "wg_bitmap_pixels (sel_bitmap (dcs stale_gdi ! 0)) (bits stale_gdi) = Some (0, 2, 1)" by code_simp
  with window_dc_stale [OF inv c m(2) free m(1), of True] c show ?thesis by auto
qed

theorem brush_color_created_witness:
  "\<exists>h g'. wg_gdi_create_solid_brush 0x123456 initial_gdi = (h, g') \<and> wg_gdi_brush_color h g' = (0x123456, True)"
proof -
  have l: "length (brush_used initial_gdi) = MAX_BRUSHES" "length (brush_colors initial_gdi) = MAX_BRUSHES"
    by (simp_all add: initial_gdi_def)
  have f: "find_index Not (brush_used initial_gdi) = Some 0" by code_simp
  obtain h g' where c: "wg_gdi_create_solid_brush 0x123456 initial_gdi = (h, g')" by fastforce
  from brush_color_created [OF l f c] c show ?thesis by auto
qed

theorem mix_between_witness: "unat (mix 128 255 0 :: u32) = 128"
  using mix_between(1) [of 128 255 0] by simp

end
