(* ===== verification/Files.thy ===== *)
theory Files
  imports CString Interfaces
begin

text \<open>
  The file layer of \<open>Sources/Win32/wg_win32_files.{h,c}\<close>: the bottle (the directory that holds the
  guest's drive C:), the mapping of Windows paths into it, and the table of 64 open files.

  The C library's files are a map from paths to contents and a set of directories; a stream is a
  path, a position and what its mode allows. Streams are unbuffered here. Absent strings (an empty
  static buffer) are \<open>[]\<close>. The functions that walk directories (\<open>rm_rf\<close>, \<open>wg_files_reset_temp\<close>,
  \<open>find_in_bottle\<close>) are not modelled; what \<open>find_in_bottle\<close> finds is an argument.
\<close>

section \<open>Streams\<close>

record disk =
  contents :: "string \<Rightarrow> u8 list option"
  dirs :: "string set"

record stream =
  st_path :: string
  st_pos :: nat
  can_read :: bool
  can_write :: bool
  appends :: bool

datatype fmode = RB | RBp | WB | WBp | ABp

definition parent :: "string \<Rightarrow> string" where
  "parent p = (case strrchr (CHR ''/'') p of None \<Rightarrow> ''.'' | Some i \<Rightarrow> take i p)"

definition may_create :: "disk \<Rightarrow> string \<Rightarrow> bool" where
  "may_create d p \<longleftrightarrow> parent p \<in> dirs d \<and> p \<notin> dirs d"

text \<open>A stream that appends starts at the end, where \<open>fopen\<close> of the target's C library puts it.\<close>

definition mk_stream :: "fmode \<Rightarrow> string \<Rightarrow> nat \<Rightarrow> stream" where
  "mk_stream m p n = \<lparr>st_path = p, st_pos = (if m = ABp then n else 0), can_read = (m \<noteq> WB), can_write = (m \<noteq> RB), appends = (m = ABp)\<rparr>"

definition fopen :: "disk \<Rightarrow> string \<Rightarrow> fmode \<Rightarrow> stream option \<times> disk" where
  "fopen d p m =
     (case contents d p of
        None \<Rightarrow>
          if m = RB \<or> m = RBp \<or> \<not> may_create d p then (None, d)
          else (Some (mk_stream m p 0), d\<lparr>contents := (contents d)(p := Some [])\<rparr>)
      | Some old \<Rightarrow>
          (Some (mk_stream m p (length old)),
           if m = WB \<or> m = WBp then d\<lparr>contents := (contents d)(p := Some [])\<rparr> else d))"

definition file_data :: "disk \<Rightarrow> stream \<Rightarrow> u8 list" where
  "file_data d f = (case contents d (st_path f) of None \<Rightarrow> [] | Some bs \<Rightarrow> bs)"

definition fread :: "disk \<Rightarrow> stream \<Rightarrow> nat \<Rightarrow> u8 list \<times> stream" where
  "fread d f n =
     (if can_read f then
        let bs = take n (drop (st_pos f) (file_data d f)) in (bs, f\<lparr>st_pos := st_pos f + length bs\<rparr>)
      else ([], f))"

text \<open>Bytes written at a position; a gap after the end reads as zeros.\<close>

definition put_bytes :: "nat \<Rightarrow> u8 list \<Rightarrow> u8 list \<Rightarrow> u8 list" where
  "put_bytes k bs old = take k old @ replicate (k - length old) 0 @ bs @ drop (k + length bs) old"

definition fwrite :: "disk \<Rightarrow> stream \<Rightarrow> u8 list \<Rightarrow> nat \<times> stream \<times> disk" where
  "fwrite d f bs =
     (if can_write f \<and> bs \<noteq> [] then
        let k = (if appends f then length (file_data d f) else st_pos f)
        in (length bs, f\<lparr>st_pos := k + length bs\<rparr>,
            d\<lparr>contents := (contents d)(st_path f := Some (put_bytes k bs (file_data d f)))\<rparr>)
      else (0, f, d))"

datatype whence = SEEK_SET | SEEK_CUR | SEEK_END

text \<open>A seek to a negative position fails and leaves the position alone.\<close>

definition fseek :: "disk \<Rightarrow> stream \<Rightarrow> int \<Rightarrow> whence \<Rightarrow> stream" where
  "fseek d f off w =
     (let base = (case w of SEEK_SET \<Rightarrow> 0 | SEEK_CUR \<Rightarrow> int (st_pos f) | SEEK_END \<Rightarrow> int (length (file_data d f)))
      in if 0 \<le> base + off then f\<lparr>st_pos := nat (base + off)\<rparr> else f)"

definition mkdir :: "disk \<Rightarrow> string \<Rightarrow> disk" where
  "mkdir d p = (if contents d p = None \<and> parent p \<in> dirs d then d\<lparr>dirs := insert p (dirs d)\<rparr> else d)"

section \<open>State\<close>

definition WG_MAX_FILE_HANDLES :: nat where "WG_MAX_FILE_HANDLES = 64"
definition WG_FILE_HANDLE_BASE :: u32 where "WG_FILE_HANDLE_BASE = 0x100"

text \<open>\<open>fp = None\<close> is the null stream of \<open>wg_files_create_null\<close>.\<close>

record file_entry =
  fp :: "stream option"
  fhandle :: u32
  in_use :: bool
  fpath :: string

record files =
  exe_path :: string
  exe_dir :: string
  wizard_bmp :: string
  cwd_win :: string
  drive_c :: string
  win_cached :: bool
  win_path :: string
  ftab :: "file_entry list"
  next_fhandle :: u32
  disk :: disk

definition zero_file :: file_entry where
  "zero_file = \<lparr>fp = None, fhandle = 0, in_use = False, fpath = []\<rparr>"

definition initial_files :: "disk \<Rightarrow> files" where
  "initial_files d = \<lparr>exe_path = [], exe_dir = [], wizard_bmp = [], cwd_win = [], drive_c = [],
     win_cached = False, win_path = [], ftab = replicate WG_MAX_FILE_HANDLES zero_file,
     next_fhandle = WG_FILE_HANDLE_BASE, disk = d\<rparr>"

definition wg_files_wizard_bmp :: "files \<Rightarrow> string option" where
  "wg_files_wizard_bmp s = (if wizard_bmp s = [] then None else Some (wizard_bmp s))"

definition wg_files_set_cwd :: "string option \<Rightarrow> files \<Rightarrow> files" where
  "wg_files_set_cwd p s = s\<lparr>cwd_win := (case p of None \<Rightarrow> [] | Some w \<Rightarrow> take 1023 w)\<rparr>"

definition wg_files_get_cwd :: "files \<Rightarrow> string option" where
  "wg_files_get_cwd s = (if cwd_win s = [] then None else Some (cwd_win s))"

section \<open>The bottle\<close>

text \<open>The loop of \<open>mkdir_p\<close>: a directory is made for every prefix that ends before a slash, from the
  second character on; \<open>pre\<close> is what has been passed.\<close>

fun mkdir_prefixes :: "string \<Rightarrow> string \<Rightarrow> disk \<Rightarrow> disk" where
  "mkdir_prefixes pre [] d = d"
| "mkdir_prefixes pre (c # cs) d =
     mkdir_prefixes (pre @ [c]) cs (if c = CHR ''/'' then mkdir d pre else d)"

definition mkdir_p :: "string \<Rightarrow> disk \<Rightarrow> disk" where
  "mkdir_p path d =
     (case take 1023 path of
        [] \<Rightarrow> d
      | c # cs \<Rightarrow> mkdir (mkdir_prefixes [c] cs d) (c # cs))"

definition wg_files_ensure_parents :: "string \<Rightarrow> disk \<Rightarrow> disk" where
  "wg_files_ensure_parents path d =
     (if path = [] then d
      else case strrchr (CHR ''/'') (take 1023 path) of
             None \<Rightarrow> d
           | Some i \<Rightarrow> mkdir_p (take i (take 1023 path)) d)"

definition bottle_dirs :: "string list" where
  "bottle_dirs = [''Temp'', ''Program Files'', ''Program Files (x86)'', ''windows'']"

definition ensure_bottle :: "files \<Rightarrow> files" where
  "ensure_bottle s =
     (if drive_c s \<noteq> [] \<or> exe_dir s = [] then s
      else let dc = take 1023 (exe_dir s @ ''Bottle/drive_c'')
           in s\<lparr>drive_c := dc,
                disk := fold (\<lambda>sub d. mkdir d (take 1023 (dc @ ''/'' @ sub))) bottle_dirs (mkdir_p dc (disk s))\<rparr>)"

definition wg_files_drive_c :: "files \<Rightarrow> string \<times> files" where
  "wg_files_drive_c s = (let s = ensure_bottle s in (drive_c s, s))"

definition wg_files_set_exe_path :: "string \<Rightarrow> files \<Rightarrow> files" where
  "wg_files_set_exe_path path s =
     (let p = take 1023 path;
          dir = (case strrchr (CHR ''/'') p of None \<Rightarrow> p | Some i \<Rightarrow> take (Suc i) p)
      in ensure_bottle (s\<lparr>exe_path := p, exe_dir := dir, drive_c := [], win_cached := False\<rparr>))"

definition to_backslash :: "string \<Rightarrow> string" where
  "to_backslash = map (\<lambda>c. if c = CHR ''/'' then CHR 0x5C else c)"

text \<open>The Windows path of a file of the bottle, given what follows \<open>drive_c\<close> in its path.\<close>

definition bottle_win :: "string \<Rightarrow> string" where
  "bottle_win rel = to_backslash (take 1023 ([CHR ''C'', CHR '':'', CHR 0x5C] @ dropWhile (\<lambda>c. c = CHR ''/'') rel))"

definition base_name :: "string \<Rightarrow> string" where
  "base_name p = (case strrchr (CHR ''/'') p of None \<Rightarrow> p | Some i \<Rightarrow> drop (Suc i) p)"

text \<open>\<open>lookup dc name\<close> is what \<open>find_in_bottle\<close> finds.\<close>

definition wg_files_exe_win_path :: "(string \<Rightarrow> string \<Rightarrow> string option) \<Rightarrow> files \<Rightarrow> string \<times> files" where
  "wg_files_exe_win_path lookup s =
     (if win_cached s then (win_path s, s)
      else
        let s = ensure_bottle s; dc = drive_c s;
            w = (if dc \<noteq> [] \<and> take (length dc) (exe_path s) = dc
                 then bottle_win (drop (length dc) (exe_path s))
                 else case (if dc \<noteq> [] then lookup dc (base_name (exe_path s)) else None) of
                        Some found \<Rightarrow> bottle_win (drop (length dc) found)
                      | None \<Rightarrow> [CHR ''C'', CHR '':'', CHR 0x5C] @ ''a.exe'')
        in (w, s\<lparr>win_path := w, win_cached := True\<rparr>))"

definition wg_files_reset_win_path_cache :: "files \<Rightarrow> files" where
  "wg_files_reset_win_path_cache s = s\<lparr>win_cached := False\<rparr>"

section \<open>Paths\<close>

abbreviation backslash :: char where
  "backslash \<equiv> CHR 0x5C"

definition is_sep :: "char \<Rightarrow> bool" where
  "is_sep c \<longleftrightarrow> c = backslash \<or> c = CHR ''/''"

definition fix_separators :: "string \<Rightarrow> string" where
  "fix_separators = map (\<lambda>c. if c = backslash then CHR ''/'' else c)"

text \<open>The prefix of long paths and what follows it.\<close>

fun strip_long :: "string \<Rightarrow> string" where
  "strip_long (a # b # c # d # rest) =
     (if is_sep a \<and> is_sep b \<and> c = CHR ''?'' \<and> is_sep d
      then (if caseprefix (''UNC'' @ [backslash]) rest \<or> caseprefix ''UNC/'' rest then drop 4 rest else rest)
      else a # b # c # d # rest)"
| "strip_long p = p"

definition is_absolute :: "string \<Rightarrow> bool" where
  "is_absolute p \<longleftrightarrow>
     (case p of [] \<Rightarrow> False | a # r \<Rightarrow> is_sep a \<or> (case r of [] \<Rightarrow> False | b # _ \<Rightarrow> b = CHR '':''))"

fun skip_drive :: "string \<Rightarrow> string" where
  "skip_drive (a # b # r) = (if b = CHR '':'' then r else a # b # r)"
| "skip_drive p = p"

definition skip_root :: "string \<Rightarrow> string" where
  "skip_root p = dropWhile is_sep (skip_drive p)"

definition wg_files_map_path :: "string \<Rightarrow> files \<Rightarrow> string \<times> files" where
  "wg_files_map_path buf s =
     (let s = ensure_bottle s; src = strip_long buf
      in if strcaseeq src ([CHR ''C'', CHR '':'', backslash] @ ''a.exe'') \<or> strcaseeq src ''C:/a.exe''
         then (exe_path s, s)
         else
           let src = (if \<not> is_absolute src \<and> cwd_win s \<noteq> [] then take 1023 (cwd_win s @ [backslash] @ src) else src);
               p = skip_root src
           in (fix_separators (take 1023 (if p \<noteq> [] then drive_c s @ ''/'' @ p else drive_c s)), s))"

section \<open>Open files\<close>

definition open_mode :: "u32 \<Rightarrow> u32 \<Rightarrow> fmode" where
  "open_mode acc creation =
     (let wants_write = (acc AND 0x40000000 \<noteq> 0)
      in if creation = 1 then (if wants_write then WBp else RB)
         else if creation = 2 then WBp
         else if creation = 3 then (if wants_write then RBp else RB)
         else if creation = 4 then (if wants_write then ABp else RB)
         else if creation = 5 then WB
         else (if wants_write then WBp else RB))"

definition is_wizard :: "string \<Rightarrow> bool" where
  "is_wizard p \<longleftrightarrow> strcasestr p ''wizard'' \<and> strcasestr p ''.bmp''"

definition find_file :: "u32 \<Rightarrow> files \<Rightarrow> nat option" where
  "find_file h s = find_index (\<lambda>e. in_use e \<and> fhandle e = h) (ftab s)"

definition set_file :: "nat \<Rightarrow> file_entry \<Rightarrow> files \<Rightarrow> files" where
  "set_file i e s = s\<lparr>ftab := (ftab s)[i := e]\<rparr>"

text \<open>The free slot; \<open>None\<close> for \<open>INVALID_HANDLE_VALUE\<close>.\<close>

definition new_file :: "stream option \<Rightarrow> string \<Rightarrow> files \<Rightarrow> u32 option \<times> files" where
  "new_file f p s =
     (case find_index (\<lambda>e. \<not> in_use e) (ftab s) of
        None \<Rightarrow> (None, s)
      | Some i \<Rightarrow> (Some (next_fhandle s),
          (set_file i \<lparr>fp = f, fhandle = next_fhandle s, in_use = True, fpath = take 511 p\<rparr> s)
            \<lparr>next_fhandle := next_fhandle s + 1\<rparr>))"

definition wg_files_create :: "string \<Rightarrow> u32 \<Rightarrow> u32 \<Rightarrow> files \<Rightarrow> u32 option \<times> files" where
  "wg_files_create path acc creation s =
     (if path = [] then (None, s)
      else
        let m = open_mode acc creation;
            (f, d) = fopen (disk s) path m;
            (f, d) = (if f = None \<and> (creation = 2 \<or> creation = 4)
                      then fopen (wg_files_ensure_parents path d) path m else (f, d));
            s = s\<lparr>disk := d\<rparr>
        in case f of
             None \<Rightarrow> (None, s)
           | Some _ \<Rightarrow>
               let (h, s') = new_file f path s
               in (h, if h \<noteq> None \<and> is_wizard path then s'\<lparr>wizard_bmp := take 1023 path\<rparr> else s'))"

definition wg_files_create_null :: "files \<Rightarrow> u32 option \<times> files" where
  "wg_files_create_null = new_file None ''/dev/null''"

text \<open>\<open>None\<close>: no such handle.\<close>

definition wg_files_read :: "u32 \<Rightarrow> nat \<Rightarrow> files \<Rightarrow> u8 list option \<times> files" where
  "wg_files_read h n s =
     (case find_file h s of
        None \<Rightarrow> (None, s)
      | Some i \<Rightarrow>
          (case fp (ftab s ! i) of
             None \<Rightarrow> (Some (replicate n 0), s)
           | Some f \<Rightarrow>
               let (bs, f') = fread (disk s) f n
               in (Some bs, set_file i ((ftab s ! i)\<lparr>fp := Some f'\<rparr>) s)))"

definition wg_files_write :: "u32 \<Rightarrow> u8 list \<Rightarrow> files \<Rightarrow> nat option \<times> files" where
  "wg_files_write h bs s =
     (case find_file h s of
        None \<Rightarrow> (None, s)
      | Some i \<Rightarrow>
          (case fp (ftab s ! i) of
             None \<Rightarrow> (Some (length bs), s)
           | Some f \<Rightarrow>
               let (n, f', d) = fwrite (disk s) f bs
               in (Some n, (set_file i ((ftab s ! i)\<lparr>fp := Some f'\<rparr>) s)\<lparr>disk := d\<rparr>)))"

text \<open>The two seeks there and back leave the position alone.\<close>

definition wg_files_get_size :: "u32 \<Rightarrow> files \<Rightarrow> u32" where
  "wg_files_get_size h s =
     (case find_file h s of
        None \<Rightarrow> 0xFFFFFFFF
      | Some i \<Rightarrow>
          (case fp (ftab s ! i) of
             None \<Rightarrow> 0
           | Some f \<Rightarrow> of_nat (st_pos (fseek (disk s) f 0 SEEK_END))))"

definition seek_whence :: "u32 \<Rightarrow> whence" where
  "seek_whence m = (if m = 1 then SEEK_CUR else if m = 2 then SEEK_END else SEEK_SET)"

text \<open>A null stream is passed to \<open>fseek\<close>, which is undefined.\<close>

definition wg_files_set_pointer :: "u32 \<Rightarrow> int \<Rightarrow> u32 \<Rightarrow> files \<Rightarrow> (u32 \<times> files) ub" where
  "wg_files_set_pointer h dist m s =
     (case find_file h s of
        None \<Rightarrow> Some (0xFFFFFFFF, s)
      | Some i \<Rightarrow> do {
          f \<leftarrow> fp (ftab s ! i);
          let f' = fseek (disk s) f dist (seek_whence m);
          Some (of_nat (st_pos f'), set_file i ((ftab s ! i)\<lparr>fp := Some f'\<rparr>) s)
        })"

text \<open>The copy of the wizard's picture.\<close>

definition wg_cache_wizard_bmp :: "string \<Rightarrow> files \<Rightarrow> files" where
  "wg_cache_wizard_bmp src s =
     (let (dc, s) = wg_files_drive_c s
      in if dc = [] then s
         else
           let dst = take 1023 (dc @ ''/wg_wizard_cache.bmp'');
               (fi, d) = fopen (disk s) src RB
           in case fi of
                None \<Rightarrow> s\<lparr>disk := d\<rparr>
              | Some fi \<Rightarrow>
                  (case fopen d dst WB of
                     (None, d) \<Rightarrow> s\<lparr>disk := d\<rparr>
                   | (Some fo, d) \<Rightarrow>
                       let (n, fo', d) = fwrite d fo (file_data d fi)
                       in s\<lparr>disk := d, wizard_bmp := take 1023 dst\<rparr>))"

definition wg_files_close :: "u32 \<Rightarrow> files \<Rightarrow> (bool \<times> files) ub" where
  "wg_files_close h s =
     (case find_file h s of
        None \<Rightarrow> Some (False, s)
      | Some i \<Rightarrow> do {
          f \<leftarrow> fp (ftab s ! i);
          let s = (if is_wizard (fpath (ftab s ! i)) then wg_cache_wizard_bmp (fpath (ftab s ! i)) s else s);
          Some (True, set_file i ((ftab s ! i)\<lparr>in_use := False\<rparr>) s)
        })"

section \<open>NSIS data\<close>

definition nullsoft :: "u8 list" where
  "nullsoft = map (\<lambda>c. of_nat (of_char c)) ''NullsoftInst''"

definition marker_at :: "u8 list \<Rightarrow> nat \<Rightarrow> bool" where
  "marker_at exe i \<longleftrightarrow> take 12 (drop i exe) = nullsoft"

definition find_marker :: "u8 list \<Rightarrow> nat option" where
  "find_marker exe = find_index (marker_at exe) [0..<length exe - 16]"

text \<open>A little-endian word of the file; reading past its end is undefined.\<close>

definition exe_u32 :: "u8 list \<Rightarrow> nat \<Rightarrow> u32 ub" where
  "exe_u32 exe i = (if i + 4 \<le> length exe then Some (le_word (take 4 (drop i exe))) else undef)"

text \<open>\<open>exe\<close> is the content that was read. \<open>archive_size - header_len\<close> is a 32-bit difference.\<close>

definition nsis_data :: "u8 list \<Rightarrow> u8 list option ub" where
  "nsis_data exe =
     (case find_marker exe of
        None \<Rightarrow> Some None
      | Some i \<Rightarrow> do {
          header_len \<leftarrow> exe_u32 exe (i + 12);
          archive_size \<leftarrow> exe_u32 exe (i + 16);
          let start = i + 20 + unat header_len;
          let size = unat (archive_size - header_len);
          if length exe \<le> start \<or> size = 0 then Some None
          else Some (Some (take size (drop start exe)))
        })"

definition wg_files_prepopulate_nsis_data :: "bool \<Rightarrow> string \<Rightarrow> string \<Rightarrow> disk \<Rightarrow> disk ub" where
  "wg_files_prepopulate_nsis_data ok exe tmp d =
     (case fopen d exe RB of
        (None, d) \<Rightarrow> Some d
      | (Some f, d) \<Rightarrow>
          if \<not> ok then Some d
          else do {
            r \<leftarrow> nsis_data (file_data d f);
            case r of
              None \<Rightarrow> Some d
            | Some bs \<Rightarrow>
                (case fopen d tmp WB of
                   (None, d) \<Rightarrow> Some d
                 | (Some g, d) \<Rightarrow> Some (snd (snd (fwrite d g bs))))
          })"

end
