(* ===== verification/FilesOk.thy ===== *)
theory FilesOk
  imports Files
begin

text \<open>
  What the file layer guarantees: handles of open files are unique (the interpretation of
  \<open>handle_table\<close>), what is written through a handle reads back and nothing else changes, mapped
  paths keep the components of the guest's path, and where the code departs from the Win32 calls
  it serves.
\<close>

section \<open>Handles\<close>

definition file_alloc :: "(string \<times> u32 \<times> u32) option \<Rightarrow> files \<Rightarrow> u32 option \<times> files" where
  "file_alloc a = (case a of None \<Rightarrow> wg_files_create_null | Some (p, acc, cr) \<Rightarrow> wg_files_create p acc cr)"

definition wf_files :: "files \<Rightarrow> bool" where
  "wf_files s \<longleftrightarrow> length (ftab s) = WG_MAX_FILE_HANDLES"

lemma new_file_Some:
  assumes "new_file f p s = (Some h, s')"
  obtains i where "find_index (\<lambda>e. \<not> in_use e) (ftab s) = Some i" "i < length (ftab s)" "\<not> in_use (ftab s ! i)"
    "h = next_fhandle s" "s' = s\<lparr>ftab := (ftab s)[i := \<lparr>fp = f, fhandle = h, in_use = True, fpath = take 511 p\<rparr>],
       next_fhandle := next_fhandle s + 1\<rparr>"
proof -
  obtain i where i: "find_index (\<lambda>e. \<not> in_use e) (ftab s) = Some i"
    using assms by (auto simp: new_file_def split: option.splits)
  with assms find_index_SomeD [OF i] show ?thesis
    by (intro that [of i]) (auto simp: new_file_def set_file_def)
qed

lemma new_file_None: "new_file f p s = (None, s') \<Longrightarrow> s' = s"
  by (simp add: new_file_def split: option.splits)

text \<open>Opening is opening the stream and taking a slot; a failure only touches the disk.\<close>

lemma create_Some:
  assumes "wg_files_create p acc cr s = (Some h, s')"
  obtains f d s1 where "new_file (Some f) p (s\<lparr>disk := d\<rparr>) = (Some h, s1)"
    "s' = (if is_wizard p then s1\<lparr>wizard_bmp := take 1023 p\<rparr> else s1)"
    "fopen (disk s) p (open_mode acc cr) = (Some f, d) \<or>
     (cr = 2 \<or> cr = 4) \<and> fopen (wg_files_ensure_parents p (snd (fopen (disk s) p (open_mode acc cr)))) p (open_mode acc cr) = (Some f, d)"
proof -
  let ?m = "open_mode acc cr"
  obtain f0 d0 where o: "fopen (disk s) p ?m = (f0, d0)" by fastforce
  obtain f1 d1 where o1: "(if f0 = None \<and> (cr = 2 \<or> cr = 4) then fopen (wg_files_ensure_parents p d0) p ?m else (f0, d0)) = (f1, d1)"
    by fastforce
  have p: "p \<noteq> []" using assms by (auto simp: wg_files_create_def)
  obtain f where f: "f1 = Some f"
    using assms p by (cases f1) (simp_all add: wg_files_create_def Let_def o o1 del: if_split)
  obtain r s1 where n: "new_file (Some f) p (s\<lparr>disk := d1\<rparr>) = (r, s1)" by fastforce
  have e: "wg_files_create p acc cr s = (r, if r \<noteq> None \<and> is_wizard p then s1\<lparr>wizard_bmp := take 1023 p\<rparr> else s1)"
    using p f n by (simp add: wg_files_create_def Let_def o o1 del: if_split)
  have "fopen (disk s) p ?m = (Some f, d1) \<or> (cr = 2 \<or> cr = 4) \<and> fopen (wg_files_ensure_parents p (snd (fopen (disk s) p ?m))) p ?m = (Some f, d1)"
    using o o1 f by (auto split: if_splits)
  then show ?thesis using e assms n by (intro that [of f d1 s1]) auto
qed

lemma create_None: "wg_files_create p acc cr s = (None, s') \<Longrightarrow> ftab s' = ftab s \<and> next_fhandle s' = next_fhandle s"
  by (auto simp: wg_files_create_def Let_def split: prod.splits option.splits if_splits dest!: new_file_None)

interpretation fht: handle_table in_use fhandle ftab next_fhandle wf_files file_alloc
proof (unfold_locales, goal_cases)
  case (1 s a h s')
  have "\<exists>i e. i < length (ftab s) \<and> \<not> in_use (ftab s ! i) \<and> in_use e \<and> fhandle e = h \<and> h = next_fhandle s \<and>
      ftab s' = (ftab s)[i := e] \<and> next_fhandle s' = next_fhandle s + 1"
  proof (cases a)
    case None
    then have "new_file None ''/dev/null'' s = (Some h, s')" using 1 by (simp add: file_alloc_def wg_files_create_null_def)
    then show ?thesis by (elim new_file_Some) force
  next
    case (Some q)
    then obtain p acc cr where "wg_files_create p acc cr s = (Some h, s')" using 1 by (cases q) (auto simp: file_alloc_def)
    then obtain f d s1 where "new_file (Some f) p (s\<lparr>disk := d\<rparr>) = (Some h, s1)"
      "s' = (if is_wizard p then s1\<lparr>wizard_bmp := take 1023 p\<rparr> else s1)" by (elim create_Some)
    then show ?thesis by (elim new_file_Some) force
  qed
  then show ?case by blast
next
  case (2 s a s')
  then show ?case
    by (auto simp: file_alloc_def wg_files_create_null_def split: option.splits prod.splits dest: new_file_None create_None)
next
  case (3 s a)
  obtain r s' where al: "file_alloc a s = (r, s')" by fastforce
  have "length (ftab s') = length (ftab s)"
  proof (cases r)
    case None
    then show ?thesis using al
      by (auto simp: file_alloc_def wg_files_create_null_def split: option.splits prod.splits dest: new_file_None create_None)
  next
    case (Some h)
    then show ?thesis using al
      by (auto simp: file_alloc_def wg_files_create_null_def split: option.splits prod.splits
          elim!: new_file_Some create_Some)
  qed
  then show ?case using 3 al by (simp add: wf_files_def)
qed

lemma file_owner: "find_file h s = fht.owner s h"
  by (simp add: find_file_def fht.owner_def)

lemma files_initial: "fht.table_inv (initial_files d)"
  by (rule fht.empty_inv) (simp_all add: wf_files_def initial_files_def zero_file_def)

lemma fopen_path: "fopen d p m = (Some f, d') \<Longrightarrow>
    st_path f = p \<and> can_read f = (m \<noteq> WB) \<and> can_write f = (m \<noteq> RB) \<and> appends f = (m = ABp)"
  by (auto simp: fopen_def mk_stream_def split: option.splits if_splits)

lemma opened_file:
  assumes inv: "fht.table_inv s" and c: "wg_files_create p acc cr s = (Some h, s')" and room: "next_fhandle s \<noteq> - 1"
  shows "find_file h s = None \<and> (\<exists>i f. find_file h s' = Some i \<and> fp (ftab s' ! i) = Some f \<and> st_path f = p \<and>
      can_read f = (open_mode acc cr \<noteq> WB) \<and> can_write f = (open_mode acc cr \<noteq> RB) \<and> appends f = (open_mode acc cr = ABp)) \<and>
    (\<forall>k. k \<noteq> h \<longrightarrow> find_file k s' = find_file k s)"
proof -
  have al: "file_alloc (Some (p, acc, cr)) s = (Some h, s')" using c by (simp add: file_alloc_def)
  have fresh: "find_file h s = None" unfolding file_owner by (rule fht.alloc_handle_fresh [OF inv al])
  have oth: "\<forall>k. k \<noteq> h \<longrightarrow> find_file k s' = find_file k s"
    using fht.alloc_owner_other [OF inv al] by (simp add: file_owner)
  obtain k where k: "find_file h s' = Some k" using fht.alloc_owner [OF inv al] by (auto simp: file_owner)
  from c obtain f d s1 where n: "new_file (Some f) p (s\<lparr>disk := d\<rparr>) = (Some h, s1)"
    and s': "s' = (if is_wizard p then s1\<lparr>wizard_bmp := take 1023 p\<rparr> else s1)"
    and o: "fopen (disk s) p (open_mode acc cr) = (Some f, d) \<or>
      (cr = 2 \<or> cr = 4) \<and> fopen (wg_files_ensure_parents p (snd (fopen (disk s) p (open_mode acc cr)))) p (open_mode acc cr) = (Some f, d)"
    by (elim create_Some)
  from n obtain i where i: "i < length (ftab s)" "ftab s1 = (ftab s)[i := \<lparr>fp = Some f, fhandle = h, in_use = True, fpath = take 511 p\<rparr>]"
    by (elim new_file_Some) auto
  have t: "ftab s' = ftab s1" using s' by simp
  have "k < length (ftab s')" "in_use (ftab s' ! k)" "fhandle (ftab s' ! k) = h"
    using find_index_SomeD [OF k [unfolded find_file_def]] by auto
  moreover have "i < length (ftab s')" "in_use (ftab s' ! i)" "fhandle (ftab s' ! i) = h" using i t by simp_all
  ultimately have "k = i"
    using fht.table_invD(3) [OF fht.alloc_inv [OF inv al room]] unfolding fht.handles_unique_def by blast
  then have "fp (ftab s' ! k) = Some f" using i t by simp
  moreover have "st_path f = p \<and> can_read f = (open_mode acc cr \<noteq> WB) \<and> can_write f = (open_mode acc cr \<noteq> RB) \<and> appends f = (open_mode acc cr = ABp)"
    using o fopen_path by blast
  ultimately show ?thesis using fresh oth k by blast
qed

lemma open_then_find:
  assumes inv: "fht.table_inv s" and c: "wg_files_create p acc cr s = (Some h, s')" and room: "next_fhandle s \<noteq> - 1"
  shows "find_file h s = None \<and> (\<exists>i f. find_file h s' = Some i \<and> fp (ftab s' ! i) = Some f \<and> st_path f = p \<and>
      can_read f = (open_mode acc cr \<noteq> WB) \<and> can_write f = (open_mode acc cr \<noteq> RB) \<and> appends f = (open_mode acc cr = ABp)) \<and>
    (\<forall>k. k \<noteq> h \<longrightarrow> find_file k s' = find_file k s)"
  using assms by (rule opened_file)

section \<open>Contents\<close>

lemma find_file_set:
  assumes "find_file h s = Some i" and "in_use e" "fhandle e = h"
  shows "find_file k (set_file i e s) = find_file k s"
proof -
  have i: "i < length (ftab s)" "in_use (ftab s ! i)" "fhandle (ftab s ! i) = h"
    using find_index_SomeD [OF assms(1) [unfolded find_file_def]] by auto
  have "find_index (\<lambda>e. in_use e \<and> fhandle e = k) (ftab s) = find_index (\<lambda>e. in_use e \<and> fhandle e = k) ((ftab s)[i := e])"
    using i assms(2,3) by (intro find_index_cong_nth) (auto simp: nth_list_update)
  then show ?thesis by (simp add: find_file_def set_file_def)
qed

lemma find_file_disk [simp]: "find_file k (s\<lparr>disk := d\<rparr>) = find_file k s"
  by (simp add: find_file_def)

lemma find_file_stream:
  assumes "find_file h s = Some i"
  shows "find_file k (set_file i ((ftab s ! i)\<lparr>fp := f\<rparr>) s) = find_file k s"
    and "ftab (set_file i ((ftab s ! i)\<lparr>fp := f\<rparr>) s) ! i = (ftab s ! i)\<lparr>fp := f\<rparr>"
    and "j \<noteq> i \<Longrightarrow> ftab (set_file i ((ftab s ! i)\<lparr>fp := f\<rparr>) s) ! j = ftab s ! j"
    and "disk (set_file i ((ftab s ! i)\<lparr>fp := f\<rparr>) s) = disk s"
  using find_index_SomeD [OF assms [unfolded find_file_def]] find_file_set [OF assms]
  by (auto simp: set_file_def)

lemma length_put [simp]: "length (put_bytes k bs old) = max (k + length bs) (length old)"
  by (auto simp: put_bytes_def)

lemma take_put: "take (length bs) (drop k (put_bytes k bs old)) = bs"
proof -
  have "drop k (take k old @ replicate (k - length old) 0 @ bs @ drop (k + length bs) old) = bs @ drop (k + length bs) old"
    by (cases "k \<le> length old") (simp_all add: min_def)
  then show ?thesis by (simp add: put_bytes_def)
qed

lemma nth_put_outside:
  assumes "j < length old" and "j < k \<or> k + length bs \<le> j"
  shows "put_bytes k bs old ! j = old ! j"
proof (cases "j < k")
  case True
  then show ?thesis using assms(1) by (simp add: put_bytes_def nth_append)
next
  case False
  then have j: "k + length bs \<le> j" using assms(2) by simp
  then have k: "k \<le> length old" "\<not> j < k" "\<not> j - k < length bs" using assms(1) by simp_all
  then show ?thesis using j assms(1) by (simp only: put_bytes_def nth_append length_take length_replicate length_append)
      (simp add: min_absorb2)
qed

lemma put_end: "put_bytes (length old) bs old = old @ bs"
  by (simp add: put_bytes_def)

text \<open>What a write does: the bytes appear at the position (or at the end of a file that is opened to
  append), the position moves behind them, and other bytes, other files and other handles stay.\<close>

lemma write_spec:
  assumes h: "find_file h s = Some i" and f: "fp (ftab s ! i) = Some f" and w: "can_write f" and bs: "bs \<noteq> []"
    and k: "k = (if appends f then length (file_data (disk s) f) else st_pos f)"
  shows "wg_files_write h bs s = (Some (length bs),
    (set_file i ((ftab s ! i)\<lparr>fp := Some (f\<lparr>st_pos := k + length bs\<rparr>)\<rparr>) s)
      \<lparr>disk := (disk s)\<lparr>contents := (contents (disk s))(st_path f := Some (put_bytes k bs (file_data (disk s) f)))\<rparr>\<rparr>)"
  using h f w bs k by (simp add: wg_files_write_def fwrite_def Let_def)

lemma set_pointer_spec:
  assumes h: "find_file h s = Some i" and f: "fp (ftab s ! i) = Some f"
  shows "wg_files_set_pointer h d m s = Some (of_nat (st_pos (fseek (disk s) f d (seek_whence m))),
    set_file i ((ftab s ! i)\<lparr>fp := Some (fseek (disk s) f d (seek_whence m))\<rparr>) s)"
  using h f by (simp add: wg_files_set_pointer_def Let_def)

text \<open>A seek by 0 from the current position tells the position.\<close>

lemma ask_position:
  assumes "find_file h s = Some i" and "fp (ftab s ! i) = Some f"
  shows "wg_files_set_pointer h 0 1 s = Some (of_nat (st_pos f), s)"
proof -
  have "(ftab s ! i)\<lparr>fp := Some f\<rparr> = ftab s ! i" using assms(2) by (cases "ftab s ! i") simp
  then have "set_file i ((ftab s ! i)\<lparr>fp := Some f\<rparr>) s = s" by (simp add: set_file_def)
  moreover have "fseek (disk s) f 0 (seek_whence 1) = f" by (simp add: fseek_def seek_whence_def)
  ultimately show ?thesis using set_pointer_spec [OF assms, of 0 1] by simp
qed

lemma write_seek_read:
  assumes h: "find_file h s = Some i" and f: "fp (ftab s ! i) = Some f" and w: "can_write f" "can_read f" "\<not> appends f"
    and bs: "bs \<noteq> []"
  shows "\<exists>s1 s2 s3 p. wg_files_write h bs s = (Some (length bs), s1) \<and>
    wg_files_set_pointer h (int (st_pos f)) 0 s1 = Some (p, s2) \<and>
    p = of_nat (st_pos f) \<and> wg_files_set_pointer h 0 1 s2 = Some (p, s2) \<and>
    wg_files_read h (length bs) s2 = (Some bs, s3) \<and>
    (\<forall>j. j < length (file_data (disk s) f) \<and> (j < st_pos f \<or> st_pos f + length bs \<le> j) \<longrightarrow>
       file_data (disk s3) f ! j = file_data (disk s) f ! j) \<and>
    (\<forall>q. q \<noteq> st_path f \<longrightarrow> contents (disk s3) q = contents (disk s) q) \<and>
    (\<forall>k. k \<noteq> h \<longrightarrow> find_file k s3 = find_file k s) \<and> (\<forall>j. j \<noteq> i \<longrightarrow> ftab s3 ! j = ftab s ! j)"
proof -
  let ?k = "st_pos f"
  let ?d1 = "(disk s)\<lparr>contents := (contents (disk s))(st_path f := Some (put_bytes ?k bs (file_data (disk s) f)))\<rparr>"
  let ?f1 = "f\<lparr>st_pos := ?k + length bs\<rparr>"
  let ?s1 = "(set_file i ((ftab s ! i)\<lparr>fp := Some ?f1\<rparr>) s)\<lparr>disk := ?d1\<rparr>"
  note e0 = find_file_stream [OF h]
  have "?k = (if appends f then length (file_data (disk s) f) else st_pos f)" using w(3) by simp
  from write_spec [OF h f w(1) bs this] have w1: "wg_files_write h bs s = (Some (length bs), ?s1)" .
  have h1: "find_file h ?s1 = Some i" using h e0(1) by simp
  have f1: "fp (ftab ?s1 ! i) = Some ?f1" using e0(2) by simp
  let ?f2 = "?f1\<lparr>st_pos := ?k\<rparr>"
  have sk: "fseek (disk ?s1) ?f1 (int ?k) (seek_whence 0) = ?f2" by (simp add: fseek_def seek_whence_def)
  let ?s2 = "set_file i ((ftab ?s1 ! i)\<lparr>fp := Some ?f2\<rparr>) ?s1"
  have p1: "wg_files_set_pointer h (int ?k) 0 ?s1 = Some (of_nat ?k, ?s2)"
    using set_pointer_spec [OF h1 f1, of "int ?k" 0] unfolding sk by simp
  note e1 = find_file_stream [OF h1]
  have h2: "find_file h ?s2 = Some i" using h1 e1(1) by simp
  have f2: "fp (ftab ?s2 ! i) = Some ?f2" using e1(2) by simp
  have d2: "disk ?s2 = ?d1" using e1(4) by simp
  have q1: "wg_files_set_pointer h 0 1 ?s2 = Some (of_nat ?k, ?s2)" using ask_position [OF h2 f2] by simp
  have dat: "file_data ?d1 ?f2 = put_bytes ?k bs (file_data (disk s) f)" "file_data ?d1 f = put_bytes ?k bs (file_data (disk s) f)"
    by (simp_all add: file_data_def)
  have rd: "fread ?d1 ?f2 (length bs) = (bs, ?f2\<lparr>st_pos := ?k + length bs\<rparr>)"
    using w(2) by (simp add: fread_def dat take_put)
  let ?s3 = "set_file i ((ftab ?s2 ! i)\<lparr>fp := Some (?f2\<lparr>st_pos := ?k + length bs\<rparr>)\<rparr>) ?s2"
  have r1: "wg_files_read h (length bs) ?s2 = (Some bs, ?s3)"
    using h2 f2 rd d2 by (simp add: wg_files_read_def)
  note e2 = find_file_stream [OF h2]
  have d3: "disk ?s3 = ?d1" using e2(4) d2 by simp
  have "\<forall>k. find_file k ?s3 = find_file k s" unfolding e2(1) e1(1) by (simp add: e0(1))
  moreover have "\<forall>j. j \<noteq> i \<longrightarrow> ftab ?s3 ! j = ftab s ! j" using e2(3) e1(3) e0(3) by simp
  moreover have "\<forall>j. j < length (file_data (disk s) f) \<and> (j < ?k \<or> ?k + length bs \<le> j) \<longrightarrow>
      file_data (disk ?s3) f ! j = file_data (disk s) f ! j"
    unfolding d3 dat using nth_put_outside by blast
  moreover have "\<forall>q. q \<noteq> st_path f \<longrightarrow> contents (disk ?s3) q = contents (disk s) q" unfolding d3 by simp
  ultimately show ?thesis using w1 p1 q1 r1 by blast
qed

text \<open>A file that is opened with OPEN_ALWAYS for writing only ever grows at its end: the file pointer
  has no say in where a write goes.\<close>

lemma open_always_appends:
  assumes inv: "fht.table_inv s" and c: "wg_files_create p 0x40000000 4 s = (Some h, s')" and room: "next_fhandle s \<noteq> - 1"
    and sk: "wg_files_set_pointer h d m s' = Some (r, s1)" and bs: "bs \<noteq> []"
    and old: "contents (disk s') p = Some old"
  shows "\<exists>s2. wg_files_write h bs s1 = (Some (length bs), s2) \<and> contents (disk s2) p = Some (old @ bs)"
proof -
  have "open_mode 0x40000000 4 = ABp" by (simp add: open_mode_def)
  with opened_file [OF inv c room] obtain i f where h: "find_file h s' = Some i" and f: "fp (ftab s' ! i) = Some f"
    and p: "st_path f = p" "can_write f" "appends f" by auto
  let ?f = "fseek (disk s') f d (seek_whence m)"
  have k: "st_path ?f = p" "can_write ?f" "appends ?f" using p by (simp_all add: fseek_def Let_def)
  have s1: "s1 = set_file i ((ftab s' ! i)\<lparr>fp := Some ?f\<rparr>) s'" using sk set_pointer_spec [OF h f, of d m] by simp
  note e = find_file_stream [OF h]
  have h1: "find_file h s1 = Some i" and f1: "fp (ftab s1 ! i) = Some ?f" and d1: "disk s1 = disk s'"
    using e h unfolding s1 by auto
  have "file_data (disk s1) ?f = old" using old d1 k by (simp add: file_data_def)
  then show ?thesis using write_spec [OF h1 f1 k(2) bs refl] k by (simp add: put_end)
qed

text \<open>CREATE_NEW on a file that exists empties it instead of failing, and a file is emptied even when
  no handle is left for it.\<close>

lemma create_truncates:
  assumes "p \<noteq> []" and "contents (disk s) p = Some old" and m: "open_mode acc cr = WBp"
  shows "contents (disk (snd (wg_files_create p acc cr s))) p = Some [] \<and>
    (fst (wg_files_create p acc cr s) = None \<longleftrightarrow> (\<forall>e \<in> set (ftab s). in_use e))"
proof -
  have "fopen (disk s) p WBp = (Some (mk_stream WBp p (length old)), (disk s)\<lparr>contents := (contents (disk s))(p := Some [])\<rparr>)"
    using assms(2) by (simp add: fopen_def)
  then have o: "fopen (disk s) p (open_mode acc cr) =
      (Some (mk_stream WBp p (length old)), (disk s)\<lparr>contents := (contents (disk s))(p := Some [])\<rparr>)" by (simp add: m)
  show ?thesis
  proof (cases "find_index (\<lambda>e. \<not> in_use e) (ftab s)")
    case None
    then have "\<forall>e \<in> set (ftab s). in_use e" by simp
    moreover have "wg_files_create p acc cr s = (None, s\<lparr>disk := (disk s)\<lparr>contents := (contents (disk s))(p := Some [])\<rparr>\<rparr>)"
      using assms(1) by (simp add: wg_files_create_def o new_file_def None del: find_index_None)
    ultimately show ?thesis by simp
  next
    case (Some i)
    have "\<not> (\<forall>e \<in> set (ftab s). in_use e)" using find_index_SomeD [OF Some] nth_mem by blast
    then show ?thesis using assms(1) Some by (simp add: wg_files_create_def o new_file_def set_file_def Let_def)
  qed
qed

section \<open>Paths\<close>

text \<open>The components of a path, between separators of either kind.\<close>

fun comps :: "string \<Rightarrow> string \<Rightarrow> string list" where
  "comps cur [] = (if cur = [] then [] else [cur])"
| "comps cur (c # cs) =
     (if is_sep c then (if cur = [] then comps [] cs else cur # comps [] cs) else comps (cur @ [c]) cs)"

definition components :: "string \<Rightarrow> string list" where
  "components p = comps [] p"

lemma comps_append: "is_sep c \<Longrightarrow> comps cur (a @ c # b) = comps cur a @ comps [] b"
  by (induction a arbitrary: cur) auto

lemma comps_fix: "comps cur (fix_separators p) = comps cur p"
  by (induction p arbitrary: cur) (auto simp: fix_separators_def is_sep_def)

lemma comps_skip: "comps [] (dropWhile is_sep p) = comps [] p"
  by (induction p) auto

lemma lower_facts: "tolower CHR '':'' = CHR '':''" "tolower CHR ''N'' = CHR ''n''"
  by code_simp+

text \<open>A path on a drive, with or without the long-path prefix, is mapped to the bottle followed by the
  components of the path, whatever they are: the drive letter is ignored and \<open>..\<close> is kept.\<close>

lemma map_path_components:
  assumes dc: "drive_c s \<noteq> []" and d: "\<not> is_sep d" and pre: "pre = [] \<or> pre = [backslash, backslash, CHR ''?'', backslash]"
    and na: "\<not> strcaseeq (d # CHR '':'' # p) ([CHR ''C'', CHR '':'', backslash] @ ''a.exe'')"
      "\<not> strcaseeq (d # CHR '':'' # p) ''C:/a.exe''"
    and len: "length (drive_c s) + length p < 1022"
  shows "snd (wg_files_map_path (pre @ d # CHR '':'' # p) s) = s \<and>
    components (fst (wg_files_map_path (pre @ d # CHR '':'' # p) s)) = components (drive_c s) @ components p \<and>
    backslash \<notin> set (fst (wg_files_map_path (pre @ d # CHR '':'' # p) s))"
proof -
  have eb: "ensure_bottle s = s" using dc by (simp add: ensure_bottle_def)
  have nounc: "\<not> caseprefix (''UNC'' @ [backslash]) (d # CHR '':'' # p)" "\<not> caseprefix ''UNC/'' (d # CHR '':'' # p)"
    by (simp_all add: caseprefix_def strcaseeq_def lower_facts)
  have st: "strip_long (pre @ d # CHR '':'' # p) = d # CHR '':'' # p"
  proof (cases "pre = []")
    case True
    then show ?thesis using d by (cases p; cases "tl p") (simp_all)
  next
    case False
    then have "pre = [backslash, backslash, CHR ''?'', backslash]" using pre by simp
    then show ?thesis using nounc by (simp add: is_sep_def)
  qed
  have ab: "is_absolute (d # CHR '':'' # p)" by (simp add: is_absolute_def)
  let ?q = "dropWhile is_sep p"
  have q: "skip_root (d # CHR '':'' # p) = ?q" by (simp add: skip_root_def)
  have lq: "length ?q \<le> length p" by (rule length_dropWhile_le)
  have m: "wg_files_map_path (pre @ d # CHR '':'' # p) s =
      (fix_separators (if ?q \<noteq> [] then drive_c s @ ''/'' @ ?q else drive_c s), s)"
    using na len lq by (simp add: wg_files_map_path_def eb st ab q Let_def)
  have "components (fix_separators (if ?q \<noteq> [] then drive_c s @ ''/'' @ ?q else drive_c s)) = components (drive_c s) @ components p"
  proof (cases "?q = []")
    case True
    have "comps [] ?q = []" unfolding True by simp
    then have "components p = []" by (simp only: comps_skip components_def)
    then show ?thesis using True by (simp add: components_def comps_fix)
  next
    case False
    have "is_sep (CHR ''/'')" by (simp add: is_sep_def)
    then show ?thesis using False comps_append [of "CHR ''/''" "[]" "drive_c s" ?q]
      by (simp add: components_def comps_fix comps_skip)
  qed
  moreover have "backslash \<notin> set (fix_separators x)" for x by (auto simp: fix_separators_def)
  ultimately show ?thesis unfolding m by simp
qed

section \<open>NSIS data\<close>

text \<open>The header behind the marker is read without a bounds check: this is undefined exactly when it
  does not fit the file. Otherwise the data is a non-empty piece of the file behind the header.\<close>

lemma exe_u32_Some: "i + 4 \<le> length exe \<Longrightarrow> exe_u32 exe i = Some (le_word (take 4 (drop i exe)))"
  by (simp add: exe_u32_def)

lemma nsis_data_spec:
  "(nsis_data exe = None \<longleftrightarrow> (\<exists>i. find_marker exe = Some i \<and> length exe < i + 20)) \<and>
   (\<forall>bs. nsis_data exe = Some (Some bs) \<longrightarrow> bs \<noteq> [] \<and> (\<exists>i k n. find_marker exe = Some i \<and> i + 20 \<le> k \<and> bs = take n (drop k exe)))"
proof (cases "find_marker exe")
  case None
  then show ?thesis by (simp add: nsis_data_def)
next
  case (Some i)
  let ?h = "le_word (take 4 (drop (i + 12) exe)) :: u32" and ?a = "le_word (take 4 (drop (i + 16) exe)) :: u32"
  have "i < length exe - 16" using find_index_SomeD [OF Some [unfolded find_marker_def]] by simp
  then have h: "exe_u32 exe (i + 12) = Some ?h" by (intro exe_u32_Some) simp
  show ?thesis
  proof (cases "i + 20 \<le> length exe")
    case True
    then have a: "exe_u32 exe (i + 16) = Some ?a" by (intro exe_u32_Some) simp
    have e: "nsis_data exe = (if length exe \<le> i + 20 + unat ?h \<or> unat (?a - ?h) = 0 then Some None
        else Some (Some (take (unat (?a - ?h)) (drop (i + 20 + unat ?h) exe))))"
      by (simp add: nsis_data_def Some h a)
    show ?thesis
    proof (intro conjI allI impI)
      show "nsis_data exe = None \<longleftrightarrow> (\<exists>i. find_marker exe = Some i \<and> length exe < i + 20)"
        using True Some by (simp add: e)
      fix bs assume r: "nsis_data exe = Some (Some bs)"
      then have b: "bs = take (unat (?a - ?h)) (drop (i + 20 + unat ?h) exe)" "i + 20 + unat ?h < length exe" "0 < unat (?a - ?h)"
        by (auto simp: e split: if_splits)
      then show "bs \<noteq> []" by simp
      show "\<exists>i k n. find_marker exe = Some i \<and> i + 20 \<le> k \<and> bs = take n (drop k exe)"
        using Some b(1) by (intro exI [of _ i] exI [of _ "i + 20 + unat ?h"] exI [of _ "unat (?a - ?h)"]) simp
    qed
  next
    case False
    then have "nsis_data exe = None" by (simp add: nsis_data_def Some h exe_u32_def)
    then show ?thesis using False Some by simp
  qed
qed

section \<open>Concrete inputs\<close>

text \<open>A directory with one file of three bytes; the file is open as \<open>rb+\<close>.\<close>

definition demo_disk :: disk where
  "demo_disk = \<lparr>contents = (\<lambda>_. None)(''/d/f'' := Some [1, 2, 3]), dirs = {''/d''}\<rparr>"

definition demo_files :: files where
  "demo_files = snd (wg_files_create ''/d/f'' 0xC0000000 3 (initial_files demo_disk))"

lemma demo_open:
  "wg_files_create ''/d/f'' 0xC0000000 3 (initial_files demo_disk) = (Some 0x100, demo_files)"
proof -
  have "fst (wg_files_create ''/d/f'' 0xC0000000 3 (initial_files demo_disk)) = Some 0x100" by code_simp
  then show ?thesis by (simp add: demo_files_def prod_eq_iff)
qed

lemma initial_files_room: "next_fhandle (initial_files d) \<noteq> - 1"
  by (simp add: initial_files_def WG_FILE_HANDLE_BASE_def)

theorem open_then_find_witness:
  "\<exists>i f. find_file 0x100 demo_files = Some i \<and> fp (ftab demo_files ! i) = Some f \<and> can_write f"
  using open_then_find [OF files_initial demo_open initial_files_room] by (auto simp: open_mode_def)

theorem write_seek_read_witness:
  "\<exists>s1 s2 s3 p. wg_files_write 0x100 [9, 8] demo_files = (Some 2, s1) \<and>
     wg_files_set_pointer 0x100 0 0 s1 = Some (p, s2) \<and> wg_files_read 0x100 2 s2 = (Some [9, 8], s3)"
proof -
  have h: "find_file 0x100 demo_files = Some 0" by code_simp
  have f: "fp (ftab demo_files ! 0) = Some \<lparr>st_path = ''/d/f'', st_pos = 0, can_read = True, can_write = True, appends = False\<rparr>"
    by code_simp
  have n: "length [9, 8 :: u8] = 2" by simp
  from write_seek_read [OF h f, of "[9, 8]"] show ?thesis unfolding n by auto
qed

theorem open_always_appends_witness:
  "\<exists>s' s1 s2 r. wg_files_create ''/d/f'' 0x40000000 4 (initial_files demo_disk) = (Some 0x100, s') \<and>
     wg_files_set_pointer 0x100 0 0 s' = Some (r, s1) \<and>
     wg_files_write 0x100 [9] s1 = (Some 1, s2) \<and> contents (disk s2) ''/d/f'' = Some [1, 2, 3, 9]"
proof -
  let ?c = "wg_files_create ''/d/f'' 0x40000000 4 (initial_files demo_disk)"
  have "fst ?c = Some 0x100" by code_simp
  then obtain s' where c: "?c = (Some 0x100, s')" by (cases ?c) auto
  have "contents (disk (snd ?c)) ''/d/f'' = Some [1, 2, 3]" by code_simp
  then have old: "contents (disk s') ''/d/f'' = Some [1, 2, 3]" by (simp add: c)
  have "map_option fst (wg_files_set_pointer 0x100 0 0 (snd ?c)) = Some 0" by code_simp
  then obtain s1 where sk: "wg_files_set_pointer 0x100 0 0 s' = Some (0, s1)" by (auto simp: c)
  from open_always_appends [OF files_initial c initial_files_room sk _ old, of "[9]"] c sk show ?thesis by auto
qed

theorem create_truncates_witness:
  "contents (disk (snd (wg_files_create ''/d/f'' 0x40000000 1 (initial_files demo_disk)))) ''/d/f'' = Some []"
  using create_truncates [of "''/d/f''" "initial_files demo_disk" "[1, 2, 3]" "0x40000000" 1]
  by (simp add: initial_files_def demo_disk_def open_mode_def)

theorem map_path_components_witness:
  "components (fst (wg_files_map_path ([CHR ''D'', CHR '':'', backslash] @ ''..'' @ [backslash] @ ''x'')
     ((initial_files demo_disk)\<lparr>drive_c := ''/b/drive_c''\<rparr>))) = [''b'', ''drive_c'', ''..'', ''x'']"
proof -
  let ?s = "(initial_files demo_disk)\<lparr>drive_c := ''/b/drive_c''\<rparr>" and ?p = "[backslash] @ ''..'' @ [backslash] @ ''x''"
  have "\<not> is_sep (CHR ''D'')" "\<not> strcaseeq (CHR ''D'' # CHR '':'' # ?p) ([CHR ''C'', CHR '':'', backslash] @ ''a.exe'')"
    "\<not> strcaseeq (CHR ''D'' # CHR '':'' # ?p) ''C:/a.exe''" by code_simp+
  moreover have "components ''/b/drive_c'' @ components ?p = [''b'', ''drive_c'', ''..'', ''x'']" by code_simp
  ultimately show ?thesis
    using map_path_components [of ?s "CHR ''D''" "[]" ?p] by simp
qed

text \<open>The header reaches one byte behind the end of the file.\<close>

theorem nsis_data_spec_witness:
  "nsis_data (nullsoft @ replicate 7 0) = None \<and>
     nsis_data (nullsoft @ [1, 0, 0, 0, 3, 0, 0, 0, 7, 8, 9]) = Some (Some [8, 9])"
proof -
  have "find_marker (nullsoft @ replicate 7 0) = Some 0" by code_simp
  moreover have "length (nullsoft @ replicate 7 0 :: u8 list) < 20" by code_simp
  moreover have "nsis_data (nullsoft @ [1, 0, 0, 0, 3, 0, 0, 0, 7, 8, 9]) = Some (Some [8, 9])" by code_simp
  ultimately show ?thesis using nsis_data_spec [of "nullsoft @ replicate 7 0"] by auto
qed

end
