(* ===== verification/DllMapper.thy ===== *)
theory DllMapper
  imports CString DllTable X86Interp "HOL-Library.Signed_Division"
begin

text \<open>
  The table of Win32 stubs of \<open>Sources/Win32/wg_dll_mapper.{h,c}\<close>: every registered function has
  a thunk address, 8 bytes apart from \<open>WG_THUNK_BASE\<close> on, which the guest calls; names that are
  not registered get a stub of their own when they are resolved.
\<close>

section \<open>The stubs\<close>

text \<open>\<open>p\<close> is the address that \<open>calloc\<close> returns, \<open>cmdline\<close> that of the static command line.\<close>

fun run_stub :: "u64 \<Rightarrow> u64 \<Rightarrow> WGWin32StubFunc \<Rightarrow> cpu \<Rightarrow> cpu" where
  "run_stub p cmdline stub_default c = c\<lparr>gpr := (gpr c)(WG_REG_RAX := 0)\<rparr>"
| "run_stub p cmdline stub_return_1 c = c\<lparr>gpr := (gpr c)(WG_REG_RAX := 1)\<rparr>"
| "run_stub p cmdline stub_return_neg1 c = c\<lparr>gpr := (gpr c)(WG_REG_RAX := - 1)\<rparr>"
| "run_stub p cmdline stub_ExitProcess c = c\<lparr>halted := True\<rparr>"
| "run_stub p cmdline stub_GetModuleHandleA c = c\<lparr>gpr := (gpr c)(WG_REG_RAX := 0x00400000)\<rparr>"
| "run_stub p cmdline stub_GetModuleHandleW c = c\<lparr>gpr := (gpr c)(WG_REG_RAX := 0x00400000)\<rparr>"
| "run_stub p cmdline stub_GetCurrentProcess c = c\<lparr>gpr := (gpr c)(WG_REG_RAX := - 1)\<rparr>"
| "run_stub p cmdline stub_GetVersion c = c\<lparr>gpr := (gpr c)(WG_REG_RAX := 0x00000A00)\<rparr>"
| "run_stub p cmdline stub_GetTickCount c = c\<lparr>gpr := (gpr c)(WG_REG_RAX := 10000)\<rparr>"
| "run_stub p cmdline stub_GetDeviceCaps c = c\<lparr>gpr := (gpr c)(WG_REG_RAX := 96)\<rparr>"
| "run_stub p cmdline stub_GetSysColor c = c\<lparr>gpr := (gpr c)(WG_REG_RAX := 0x00FFFFFF)\<rparr>"
| "run_stub p cmdline stub_RegisterClassW c = c\<lparr>gpr := (gpr c)(WG_REG_RAX := 0xC001)\<rparr>"
| "run_stub p cmdline stub_CreateWindowExW c = c\<lparr>gpr := (gpr c)(WG_REG_RAX := 0x00010001)\<rparr>"
| "run_stub p cmdline stub_MessageBoxIndirectW c = c\<lparr>gpr := (gpr c)(WG_REG_RAX := 1)\<rparr>"
| "run_stub p cmdline stub_ShellExecuteW c = c\<lparr>gpr := (gpr c)(WG_REG_RAX := 33)\<rparr>"
| "run_stub p cmdline stub_RegOpenKeyExW c = c\<lparr>gpr := (gpr c)(WG_REG_RAX := 2)\<rparr>"
| "run_stub p cmdline stub_RegQueryValueExW c = c\<lparr>gpr := (gpr c)(WG_REG_RAX := 2)\<rparr>"
| "run_stub p cmdline stub_RegEnumValueW c = c\<lparr>gpr := (gpr c)(WG_REG_RAX := 259)\<rparr>"
| "run_stub p cmdline stub_RegEnumKeyW c = c\<lparr>gpr := (gpr c)(WG_REG_RAX := 259)\<rparr>"
| "run_stub p cmdline stub_CoCreateInstance c = c\<lparr>gpr := (gpr c)(WG_REG_RAX := 0x80004002)\<rparr>"
| "run_stub p cmdline stub_SHGetSpecialFolderLocation c = c\<lparr>gpr := (gpr c)(WG_REG_RAX := 0x80004005)\<rparr>"
| "run_stub p cmdline stub_CreateFileW c = c\<lparr>gpr := (gpr c)(WG_REG_RAX := - 1)\<rparr>"
| "run_stub p cmdline stub_FindFirstFileW c = c\<lparr>gpr := (gpr c)(WG_REG_RAX := - 1)\<rparr>"
| "run_stub p cmdline stub_GetFileAttributesW c = c\<lparr>gpr := (gpr c)(WG_REG_RAX := 0xFFFFFFFF)\<rparr>"
| "run_stub p cmdline stub_GlobalAlloc c = c\<lparr>gpr := (gpr c)(WG_REG_RAX := p)\<rparr>"
| "run_stub p cmdline stub_GlobalLock c = c\<lparr>gpr := (gpr c)(WG_REG_RAX := gpr c WG_REG_RCX)\<rparr>"
| "run_stub p cmdline stub_GlobalFree c = c\<lparr>gpr := (gpr c)(WG_REG_RAX := 0)\<rparr>"
| "run_stub p cmdline stub_MulDiv c =
     (let a = sint (ucast (gpr c WG_REG_RCX) :: u32); b = sint (ucast (gpr c WG_REG_RDX) :: u32);
          d = sint (ucast (gpr c 8) :: u32)
      in c\<lparr>gpr := (gpr c)(WG_REG_RAX := if d = 0 then - 1 else of_int (a * b sdiv d))\<rparr>)"
| "run_stub p cmdline stub_GetDiskFreeSpaceW c = c\<lparr>gpr := (gpr c)(WG_REG_RAX := 1)\<rparr>"
| "run_stub p cmdline stub_PeekMessageW c = c\<lparr>gpr := (gpr c)(WG_REG_RAX := 0)\<rparr>"
| "run_stub p cmdline stub_GetCommandLineW c = c\<lparr>gpr := (gpr c)(WG_REG_RAX := cmdline)\<rparr>"

section \<open>The mapper\<close>

definition WG_THUNK_BASE :: u64 where "WG_THUNK_BASE = 0xDEAD0000"

record dll_entry =
  dll_name :: string
  func_name :: string
  thunk_addr :: u64
  handler :: WGWin32StubFunc
  num_args :: int
  default_ret :: int

text \<open>\<open>count\<close> is the length of the list.\<close>

record mapper =
  dlls :: "dll_entry list"
  capacity :: nat
  next_thunk :: u64

definition wg_dll_mapper_create :: mapper where
  "wg_dll_mapper_create = \<lparr>dlls = [], capacity = 4096, next_thunk = WG_THUNK_BASE\<rparr>"

definition stub_ret :: "WGWin32StubFunc \<Rightarrow> int" where
  "stub_ret h = (if h = stub_return_1 then 1
     else if h = stub_return_neg1 then - 1
     else if h = stub_GetCurrentProcess then - 1 else 0)"

definition new_stub :: "u64 \<Rightarrow> string \<Rightarrow> string \<Rightarrow> WGWin32StubFunc option \<Rightarrow> int \<Rightarrow> dll_entry" where
  "new_stub a dll func h n = \<lparr>dll_name = take 63 dll, func_name = take 127 func, thunk_addr = a,
     handler = (case h of Some f \<Rightarrow> f | None \<Rightarrow> stub_default), num_args = n,
     default_ret = (case h of Some f \<Rightarrow> stub_ret f | None \<Rightarrow> 0)\<rparr>"

definition wg_dll_mapper_register ::
    "mapper \<Rightarrow> string \<Rightarrow> string \<Rightarrow> WGWin32StubFunc option \<Rightarrow> int \<Rightarrow> u64 \<times> mapper" where
  "wg_dll_mapper_register m dll func h n =
     (if capacity m \<le> length (dlls m) then (0, m)
      else (next_thunk m, m\<lparr>dlls := dlls m @ [new_stub (next_thunk m) dll func h n],
              next_thunk := next_thunk m + 8\<rparr>))"

definition strip_ext :: "string \<Rightarrow> string" where
  "strip_ext s = (case strrchr (CHR ''.'') s of None \<Rightarrow> s | Some i \<Rightarrow> take i s)"

text \<open>\<open>dll_stripped\<close> and \<open>entry_stripped\<close> are not initialised: a copy of 63 characters has no
  terminating NUL.\<close>

fun find_stripped :: "string \<Rightarrow> string \<Rightarrow> dll_entry list \<Rightarrow> u64 option ub" where
  "find_stripped dll func [] = Some None"
| "find_stripped dll func (e # es) = do {
     guard (length (dll_name e) < 63);
     if strcaseeq (strip_ext (dll_name e)) dll \<and> func_name e = func then Some (Some (thunk_addr e))
     else find_stripped dll func es
   }"

definition wg_dll_mapper_resolve :: "mapper \<Rightarrow> string \<Rightarrow> string \<Rightarrow> (u64 \<times> mapper) ub" where
  "wg_dll_mapper_resolve m dll func =
     (case List.find (\<lambda>e. strcaseeq (dll_name e) dll \<and> func_name e = func) (dlls m) of
        Some e \<Rightarrow> Some (thunk_addr e, m)
      | None \<Rightarrow> do {
          guard (length dll < 63);
          r \<leftarrow> find_stripped (strip_ext dll) func (dlls m);
          case r of
            Some a \<Rightarrow> Some (a, m)
          | None \<Rightarrow> Some (wg_dll_mapper_register m dll func (Some stub_default) 0)
        })"

definition wg_dll_mapper_find_any :: "mapper \<Rightarrow> string \<Rightarrow> u64" where
  "wg_dll_mapper_find_any m func =
     (case List.find (\<lambda>e. func_name e = func) (dlls m) of None \<Rightarrow> 0 | Some e \<Rightarrow> thunk_addr e)"

definition wg_dll_mapper_get_handler :: "mapper \<Rightarrow> u64 \<Rightarrow> WGWin32StubFunc option" where
  "wg_dll_mapper_get_handler m a = map_option handler (List.find (\<lambda>e. thunk_addr e = a) (dlls m))"

definition register_one :: "registration \<Rightarrow> mapper \<Rightarrow> mapper" where
  "register_one r m = (case r of (dll, func, h, n) \<Rightarrow> snd (wg_dll_mapper_register m dll func (Some h) n))"

definition wg_dll_mapper_register_defaults :: "mapper \<Rightarrow> mapper" where
  "wg_dll_mapper_register_defaults m = fold register_one default_stubs m"

section \<open>Invariant\<close>

text \<open>Thunk \<open>i\<close> is at \<open>WG_THUNK_BASE + 8 i\<close>, so the at most 4096 thunks stay in the range that the
  interpreter recognises.\<close>

definition mapper_ok :: "mapper \<Rightarrow> bool" where
  "mapper_ok m \<longleftrightarrow> capacity m = 4096 \<and> length (dlls m) \<le> 4096 \<and>
     next_thunk m = WG_THUNK_BASE + 8 * of_nat (length (dlls m)) \<and>
     (\<forall>i < length (dlls m). thunk_addr (dlls m ! i) = WG_THUNK_BASE + 8 * of_nat i \<and>
        length (dll_name (dlls m ! i)) \<le> 63 \<and> length (func_name (dlls m ! i)) \<le> 127)"

lemma mapper_okD:
  assumes "mapper_ok m"
  shows "capacity m = 4096" and "length (dlls m) \<le> 4096"
    and "next_thunk m = WG_THUNK_BASE + 8 * of_nat (length (dlls m))"
    and "i < length (dlls m) \<Longrightarrow> thunk_addr (dlls m ! i) = WG_THUNK_BASE + 8 * of_nat i"
    and "i < length (dlls m) \<Longrightarrow> length (func_name (dlls m ! i)) \<le> 127"
  using assms by (simp_all add: mapper_ok_def)

lemma ok_create: "mapper_ok wg_dll_mapper_create"
  by (simp add: mapper_ok_def wg_dll_mapper_create_def)

lemma ok_register: "mapper_ok m \<Longrightarrow> mapper_ok (snd (wg_dll_mapper_register m dll func h n))"
  by (auto simp: mapper_ok_def wg_dll_mapper_register_def new_stub_def nth_append less_Suc_eq algebra_simps)

lemma ok_register_one: "mapper_ok m \<Longrightarrow> mapper_ok (register_one r m)"
  by (simp add: register_one_def ok_register split: prod.split)

lemma ok_fold: "mapper_ok m \<Longrightarrow> mapper_ok (fold register_one rs m)"
  by (induction rs arbitrary: m) (simp_all add: ok_register_one)

lemma thunk_unat:
  assumes "i \<le> 4096"
  shows "unat (WG_THUNK_BASE + 8 * of_nat i) = 0xDEAD0000 + 8 * i"
proof -
  have "WG_THUNK_BASE + 8 * of_nat i = (of_nat (0xDEAD0000 + 8 * i) :: u64)" by (simp add: WG_THUNK_BASE_def)
  moreover have "unat (of_nat (0xDEAD0000 + 8 * i) :: u64) = 0xDEAD0000 + 8 * i"
    using assms by (simp add: unsigned_of_nat take_bit_nat_eq_self del: of_nat_add of_nat_mult)
  ultimately show ?thesis by (simp only:)
qed

lemma thunk_in_range: "i < 4096 \<Longrightarrow> in_thunk_range (WG_THUNK_BASE + 8 * of_nat i)"
  using thunk_unat [of i] by (simp add: in_thunk_range_def word_le_nat_alt word_less_nat_alt)

lemma thunk_inj:
  assumes "i \<le> 4096" "j \<le> 4096" "WG_THUNK_BASE + 8 * of_nat i = WG_THUNK_BASE + 8 * of_nat j"
  shows "i = j"
proof -
  have "0xDEAD0000 + 8 * i = 0xDEAD0000 + 8 * j"
    using thunk_unat [OF assms(1)] unfolding assms(3) thunk_unat [OF assms(2)] by (rule sym)
  then show ?thesis by simp
qed

lemma find_thunk:
  assumes ok: "mapper_ok m" and i: "i < length (dlls m)"
  shows "List.find (\<lambda>e. thunk_addr e = thunk_addr (dlls m ! i)) (dlls m) = Some (dlls m ! i)"
proof -
  have "thunk_addr (dlls m ! j) \<noteq> thunk_addr (dlls m ! i)" if "j < i" for j
    using thunk_inj [of j i] that i mapper_okD(2,4) [OF ok] by auto
  then show ?thesis using i unfolding find_Some_iff by auto
qed

lemma handler_at: "mapper_ok m \<Longrightarrow> i < length (dlls m) \<Longrightarrow>
    wg_dll_mapper_get_handler m (thunk_addr (dlls m ! i)) = Some (handler (dlls m ! i))"
  by (simp add: wg_dll_mapper_get_handler_def find_thunk)

section \<open>Resolving\<close>

lemma find_stripped_SomeD:
  "find_stripped d f es = Some (Some a) \<Longrightarrow> \<exists>e \<in> set es. thunk_addr e = a \<and> func_name e = f"
  by (induction d f es rule: find_stripped.induct) (auto split: if_splits)

lemma find_stripped_long:
  "\<forall>e \<in> set es. length (dll_name e) < 63 \<and> func_name e \<noteq> f \<Longrightarrow> find_stripped d f es = Some None"
  by (induction d f es rule: find_stripped.induct) auto

text \<open>The three ways to resolve: an entry of the table, a new one, a full table.\<close>

lemma resolve_cases:
  assumes "mapper_ok m" and "wg_dll_mapper_resolve m dll func = Some (a, m')"
  obtains (found) i where "m' = m" "i < length (dlls m)" "thunk_addr (dlls m ! i) = a" "func_name (dlls m ! i) = func"
  | (new) "List.find (\<lambda>e. strcaseeq (dll_name e) dll \<and> func_name e = func) (dlls m) = None"
      "length (dlls m) < 4096" "a = next_thunk m" "length dll < 63"
      "m' = m\<lparr>dlls := dlls m @ [new_stub a dll func (Some stub_default) 0], next_thunk := next_thunk m + 8\<rparr>"
  | (full) "length (dlls m) = 4096" "a = 0" "m' = m"
proof (cases "List.find (\<lambda>e. strcaseeq (dll_name e) dll \<and> func_name e = func) (dlls m)")
  case (Some e)
  then obtain i where "i < length (dlls m)" "e = dlls m ! i" "func_name e = func" by (auto simp: find_Some_iff)
  moreover have "thunk_addr e = a \<and> m' = m" using assms(2) Some by (auto simp: wg_dll_mapper_resolve_def)
  ultimately show ?thesis by (intro found [of i]) simp_all
next
  case None
  then obtain r where l: "length dll < 63" and r: "find_stripped (strip_ext dll) func (dlls m) = Some r"
    and c: "(case r of Some a \<Rightarrow> Some (a, m) | None \<Rightarrow> Some (wg_dll_mapper_register m dll func (Some stub_default) 0)) = Some (a, m')"
    using assms(2) by (auto simp: wg_dll_mapper_resolve_def guard_def split: bind_splits if_splits simp del: find_None_iff)
  show ?thesis
  proof (cases r)
    case (Some b)
    then obtain i where "i < length (dlls m)" "thunk_addr (dlls m ! i) = b" "func_name (dlls m ! i) = func"
      using find_stripped_SomeD r by (metis in_set_conv_nth)
    then show ?thesis using c Some by (intro found [of i]) simp_all
  next
    case rn: None
    show ?thesis
    proof (cases "length (dlls m) < 4096")
      case True
      then show ?thesis using c rn mapper_okD(1) [OF assms(1)] None l
        by (intro new) (auto simp: wg_dll_mapper_register_def)
    next
      case False
      then show ?thesis using c rn mapper_okD(1,2) [OF assms(1)]
        by (intro full) (auto simp: wg_dll_mapper_register_def)
    qed
  qed
qed

lemma resolve_is_thunk_ok:
  assumes "mapper_ok m" and "wg_dll_mapper_resolve m dll func = Some (a, m')"
  shows "mapper_ok m'"
  using assms
proof (cases rule: resolve_cases)
  case new
  then show ?thesis
    using ok_register [OF assms(1), of dll func "Some stub_default" 0] mapper_okD(1) [OF assms(1)]
    by (simp add: wg_dll_mapper_register_def)
qed (use assms in simp_all)

text \<open>What is resolved is a thunk that the interpreter traps, with a handler, for a function of that
  name; only a full table gives 0.\<close>

lemma resolve_is_thunk:
  assumes ok: "mapper_ok m" and r: "wg_dll_mapper_resolve m dll func = Some (a, m')"
  shows "mapper_ok m' \<and>
    (if a = 0 then m' = m \<and> length (dlls m) = 4096
     else in_thunk_range a \<and> (\<exists>e \<in> set (dlls m'). thunk_addr e = a \<and> func_name e = take 127 func \<and>
       wg_dll_mapper_get_handler m' a = Some (handler e)))"
proof -
  have nz: "WG_THUNK_BASE + 8 * of_nat i \<noteq> 0" if "i < 4096" for i
    using thunk_in_range [OF that] by (auto simp: in_thunk_range_def)
  from ok r show ?thesis
  proof (cases rule: resolve_cases)
    case (found i)
    have i: "i < 4096" "a = WG_THUNK_BASE + 8 * of_nat i"
      using found(2,3) mapper_okD(2,4) [OF ok] by auto
    have "func_name (dlls m ! i) = take 127 func"
      using mapper_okD(5) [OF ok found(2)] found(4) by simp
    then have "\<exists>e \<in> set (dlls m'). thunk_addr e = a \<and> func_name e = take 127 func \<and>
        wg_dll_mapper_get_handler m' a = Some (handler e)"
      using found handler_at [OF ok found(2)] by (intro bexI [of _ "dlls m ! i"]) auto
    then show ?thesis using ok found(1) i nz [OF i(1)] thunk_in_range [OF i(1)] by simp
  next
    case new
    have a: "a = WG_THUNK_BASE + 8 * of_nat (length (dlls m))" using new(3) mapper_okD(3) [OF ok] by simp
    have ok': "mapper_ok m'"
      using ok_register [OF ok, of dll func "Some stub_default" 0] new mapper_okD(1) [OF ok]
      by (simp add: wg_dll_mapper_register_def)
    let ?e = "new_stub a dll func (Some stub_default) 0"
    have e: "length (dlls m) < length (dlls m')" "dlls m' ! length (dlls m) = ?e" using new(5) by simp_all
    have "wg_dll_mapper_get_handler m' a = Some (handler ?e)"
      using handler_at [OF ok' e(1)] unfolding e(2) by (simp add: new_stub_def)
    then have "\<exists>e \<in> set (dlls m'). thunk_addr e = a \<and> func_name e = take 127 func \<and>
        wg_dll_mapper_get_handler m' a = Some (handler e)"
      using new(5) by (intro bexI [of _ ?e]) (simp_all add: new_stub_def)
    then show ?thesis using ok' nz [OF new(2)] thunk_in_range [OF new(2)] a by simp
  next
    case full
    then show ?thesis using ok by simp
  qed
qed

text \<open>Resolving again gives the same address, as long as the names fit the entry.\<close>

lemma resolve_stable:
  assumes ok: "mapper_ok m" and r: "wg_dll_mapper_resolve m dll func = Some (a, m')"
    and "length func \<le> 127"
  shows "wg_dll_mapper_resolve m' dll func = Some (a, m')"
  using ok r
proof (cases rule: resolve_cases)
  case new
  let ?e = "new_stub a dll func (Some stub_default) 0"
  have e: "dll_name ?e = dll" "func_name ?e = func" "thunk_addr ?e = a"
    using new(4) assms(3) by (simp_all add: new_stub_def)
  have "List.find (\<lambda>e. strcaseeq (dll_name e) dll \<and> func_name e = func) (dlls m @ [?e]) = Some ?e"
    using new(1) e unfolding find_None_iff find_Some_iff
    by (intro exI [of _ "length (dlls m)"]) (auto simp: nth_append)
  then show ?thesis using e(3) by (simp add: wg_dll_mapper_resolve_def new(5))
qed (use r in simp_all)

text \<open>A longer name never matches its own entry: every time it is resolved, it gets another stub.\<close>

lemma long_name_restubbed:
  assumes ok: "mapper_ok m" and "127 < length func" and "length dll < 63"
    and "\<forall>e \<in> set (dlls m). length (dll_name e) < 63" and "length (dlls m) < 4096"
  shows "\<exists>m'. wg_dll_mapper_resolve m dll func = Some (next_thunk m, m') \<and> length (dlls m') = Suc (length (dlls m)) \<and>
    (\<forall>e \<in> set (dlls m'). length (dll_name e) < 63)"
proof -
  have ne: "func_name e \<noteq> func" if "e \<in> set (dlls m)" for e
    using that mapper_okD(5) [OF ok] assms(2) by (metis in_set_conv_nth not_less)
  then have "List.find (\<lambda>e. strcaseeq (dll_name e) dll \<and> func_name e = func) (dlls m) = None"
    by (auto simp: find_None_iff)
  moreover have "find_stripped (strip_ext dll) func (dlls m) = Some None"
    using find_stripped_long ne assms(4) by blast
  ultimately show ?thesis
    using assms mapper_okD(1) [OF ok]
    by (auto simp: wg_dll_mapper_resolve_def wg_dll_mapper_register_def new_stub_def)
qed

section \<open>The default table\<close>

definition default_mapper :: mapper where
  "default_mapper = wg_dll_mapper_register_defaults wg_dll_mapper_create"

lemma ok_default: "mapper_ok default_mapper"
  unfolding default_mapper_def wg_dll_mapper_register_defaults_def by (rule ok_fold [OF ok_create])

definition stub_at :: "nat \<Rightarrow> registration \<Rightarrow> dll_entry" where
  "stub_at i r = (case r of (dll, func, h, n) \<Rightarrow> new_stub (WG_THUNK_BASE + 8 * of_nat i) dll func (Some h) n)"

lemma fold_register:
  "mapper_ok m \<Longrightarrow> length (dlls m) + length rs \<le> 4096 \<Longrightarrow>
   dlls (fold register_one rs m) = dlls m @ map2 stub_at [length (dlls m)..<length (dlls m) + length rs] rs"
proof (induction rs arbitrary: m)
  case Nil
  then show ?case by simp
next
  case (Cons r rs)
  let ?m = "register_one r m"
  have d: "dlls ?m = dlls m @ [stub_at (length (dlls m)) r]"
    using Cons.prems mapper_okD(1,3) [OF Cons.prems(1)]
    by (simp add: register_one_def wg_dll_mapper_register_def stub_at_def split: prod.split)
  have "dlls (fold register_one rs ?m) = dlls ?m @ map2 stub_at [length (dlls ?m)..<length (dlls ?m) + length rs] rs"
    by (rule Cons.IH [OF ok_register_one [OF Cons.prems(1)]]) (use Cons.prems(2) d in simp)
  moreover have "[length (dlls m)..<length (dlls m) + length (r # rs)] =
      length (dlls m) # [length (dlls ?m)..<length (dlls ?m) + length rs]"
    by (simp add: d upt_conv_Cons del: upt_Suc)
  ultimately show ?case by (simp only: fold_simps d zip_Cons_Cons list.map case_prod_conv append_assoc append_Cons append_Nil)
qed

lemma length_default: "length default_stubs = 672"
  by (simp add: default_stubs_def kernel32_defaults_def crt_defaults_def process_defaults_def net_defaults_def
      user32_defaults_def gdi_defaults_def winsock_defaults_def)

lemma default_entry:
  assumes "i < 672"
  shows "length (dlls default_mapper) = 672" and "dlls default_mapper ! i = stub_at i (default_stubs ! i)"
proof -
  have d: "dlls default_mapper = map2 stub_at [0..<672] default_stubs"
    using fold_register [OF ok_create, of default_stubs]
    by (simp add: default_mapper_def wg_dll_mapper_register_defaults_def wg_dll_mapper_create_def length_default)
  then show "length (dlls default_mapper) = 672" by (simp add: length_default)
  show "dlls default_mapper ! i = stub_at i (default_stubs ! i)" using assms by (simp add: d length_default)
qed

text \<open>Every function of the table resolves to the first stub that was registered for it (the names
  are those that fit the entries).\<close>

lemma default_resolves:
  assumes m: "(dll, func, h, n) \<in> set default_stubs" and l: "length dll \<le> 63" "length func \<le> 127"
  shows "\<exists>i d f h' n'. i < 672 \<and> default_stubs ! i = (d, f, h', n') \<and> strcaseeq (take 63 d) dll \<and> take 127 f = func \<and>
    (\<forall>j < i. case default_stubs ! j of (d, f, _, _) \<Rightarrow> \<not> (strcaseeq (take 63 d) dll \<and> take 127 f = func)) \<and>
    wg_dll_mapper_resolve default_mapper dll func = Some (WG_THUNK_BASE + 8 * of_nat i, default_mapper) \<and>
    wg_dll_mapper_get_handler default_mapper (WG_THUNK_BASE + 8 * of_nat i) = Some h'"
proof -
  let ?P = "\<lambda>e. strcaseeq (dll_name e) dll \<and> func_name e = func"
  have nm: "dll_name (stub_at i (d, f, h, n)) = take 63 d" "func_name (stub_at i (d, f, h, n)) = take 127 f"
    "handler (stub_at i (d, f, h, n)) = h" for i d f h n
    by (auto simp: stub_at_def new_stub_def)
  obtain k where k: "k < 672" "default_stubs ! k = (dll, func, h, n)"
    using m by (auto simp: in_set_conv_nth length_default)
  note len = default_entry(1) [OF k(1)]
  have "?P (dlls default_mapper ! k)" using default_entry(2) [OF k(1)] k(2) nm l by simp
  then have "List.find ?P (dlls default_mapper) \<noteq> None"
    unfolding find_None_iff using len k(1) by (metis nth_mem)
  then obtain i where i: "i < 672" "?P (dlls default_mapper ! i)" and first: "\<And>j. j < i \<Longrightarrow> \<not> ?P (dlls default_mapper ! j)"
    and f: "List.find ?P (dlls default_mapper) = Some (dlls default_mapper ! i)"
    using len by (auto simp: find_Some_iff)
  obtain d f h' n' where r: "default_stubs ! i = (d, f, h', n')" by (cases "default_stubs ! i") auto
  note e = default_entry(2) [OF i(1), unfolded r]
  have "case default_stubs ! j of (d, f, _, _) \<Rightarrow> \<not> (strcaseeq (take 63 d) dll \<and> take 127 f = func)" if j: "j < i" for j
  proof -
    obtain d f h n where rj: "default_stubs ! j = (d, f, h, n)" by (cases "default_stubs ! j") auto
    have j6: "j < 672" using j i(1) by simp
    show ?thesis using first [OF j] unfolding default_entry(2) [OF j6] rj nm by simp
  qed
  moreover have a: "thunk_addr (dlls default_mapper ! i) = WG_THUNK_BASE + 8 * of_nat i"
    using mapper_okD(4) [OF ok_default] i(1) len by simp
  moreover have "wg_dll_mapper_get_handler default_mapper (WG_THUNK_BASE + 8 * of_nat i) = Some h'"
  proof -
    have "i < length (dlls default_mapper)" using i(1) len by simp
    from handler_at [OF ok_default this] show ?thesis unfolding a unfolding e nm .
  qed
  ultimately show ?thesis
    using i r f unfolding wg_dll_mapper_resolve_def e nm
    by (intro exI [of _ i] exI [of _ d] exI [of _ f] exI [of _ h'] exI [of _ n']) simp
qed

section \<open>Concrete inputs\<close>

theorem default_resolves_witness:
  "\<exists>i d f h' n'. i < 672 \<and> default_stubs ! i = (d, f, h', n') \<and>
     wg_dll_mapper_resolve default_mapper ''KERNEL32.dll'' ''Sleep'' = Some (WG_THUNK_BASE + 8 * of_nat i, default_mapper)"
proof -
  have "kernel32_defaults ! 5 = (''KERNEL32.dll'', ''Sleep'', stub_default, 1)" "5 < length kernel32_defaults"
    by (simp_all add: kernel32_defaults_def RS_def)
  then have "(''KERNEL32.dll'', ''Sleep'', stub_default, 1) \<in> set default_stubs"
    unfolding default_stubs_def by (metis UnCI nth_mem set_append)
  from default_resolves [OF this] show ?thesis by auto
qed

theorem resolve_is_thunk_witness:
  "\<exists>a m'. wg_dll_mapper_resolve wg_dll_mapper_create ''a.dll'' ''f'' = Some (a, m') \<and> in_thunk_range a"
proof -
  have "map_option fst (wg_dll_mapper_resolve wg_dll_mapper_create ''a.dll'' ''f'') = Some 0xDEAD0000" by code_simp
  then obtain m' where r: "wg_dll_mapper_resolve wg_dll_mapper_create ''a.dll'' ''f'' = Some (0xDEAD0000, m')" by auto
  from resolve_is_thunk [OF ok_create r] r show ?thesis by auto
qed

theorem resolve_stable_witness:
  "\<exists>m'. wg_dll_mapper_resolve wg_dll_mapper_create ''a.dll'' ''f'' = Some (0xDEAD0000, m') \<and>
     wg_dll_mapper_resolve m' ''a.dll'' ''f'' = Some (0xDEAD0000, m')"
proof -
  have "map_option fst (wg_dll_mapper_resolve wg_dll_mapper_create ''a.dll'' ''f'') = Some 0xDEAD0000" by code_simp
  then obtain m' where r: "wg_dll_mapper_resolve wg_dll_mapper_create ''a.dll'' ''f'' = Some (0xDEAD0000, m')" by auto
  from resolve_stable [OF ok_create r] r show ?thesis by auto
qed

theorem long_name_restubbed_witness:
  "\<exists>m' m''. wg_dll_mapper_resolve wg_dll_mapper_create ''a.dll'' (replicate 128 CHR ''x'') = Some (0xDEAD0000, m') \<and>
     wg_dll_mapper_resolve m' ''a.dll'' (replicate 128 CHR ''x'') = Some (0xDEAD0008, m'')"
proof -
  let ?f = "replicate 128 CHR ''x''"
  have l: "127 < length ?f" "length ''a.dll'' < 63" by simp_all
  have c: "dlls wg_dll_mapper_create = []" "next_thunk wg_dll_mapper_create = 0xDEAD0000"
    by (simp_all add: wg_dll_mapper_create_def WG_THUNK_BASE_def)
  from long_name_restubbed [OF ok_create l] c obtain m' where
    r: "wg_dll_mapper_resolve wg_dll_mapper_create ''a.dll'' ?f = Some (0xDEAD0000, m')"
    and m': "length (dlls m') = 1" "\<forall>e \<in> set (dlls m'). length (dll_name e) < 63" by auto
  have ok: "mapper_ok m'" using resolve_is_thunk_ok [OF ok_create r] .
  then have n: "next_thunk m' = 0xDEAD0008" using m'(1) by (simp add: mapper_okD WG_THUNK_BASE_def)
  from long_name_restubbed [OF ok l m'(2)] m'(1) n r show ?thesis by auto
qed

end
