(* ===== verification/Queues.thy ===== *)
theory Queues
  imports Base
begin

text \<open>
  Bounded queues in fixed arrays, as the engine keeps them: the contract of a queue from which
  entries are taken by a key (a plain first-in first-out queue is the case where every entry has
  the key that is asked for), the index arithmetic of a circular buffer with a head and a tail,
  and the law of a ring that overwrites its oldest entry.
\<close>

section \<open>The queue as a list\<close>

text \<open>A queue of at most \<open>cap\<close> entries; what does not fit is dropped. Taking with a key removes
  the oldest entry that has the key.\<close>

definition list_put :: "nat \<Rightarrow> 'e \<Rightarrow> 'e list \<Rightarrow> 'e list" where
  "list_put cap e xs = (if length xs < cap then xs @ [e] else xs)"

fun list_take :: "('k \<Rightarrow> 'e \<Rightarrow> bool) \<Rightarrow> 'k \<Rightarrow> 'e list \<Rightarrow> ('e \<times> 'e list) option" where
  "list_take has k [] = None"
| "list_take has k (x # xs) =
     (if has k x then Some (x, xs) else map_option (map_prod id ((#) x)) (list_take has k xs))"

lemma list_take_None: "list_take has k xs = None \<longleftrightarrow> (\<forall>x \<in> set xs. \<not> has k x)"
  by (induction xs) auto

lemma list_take_nth:
  assumes "p < length xs" and "has k (xs ! p)" and "\<And>q. q < p \<Longrightarrow> \<not> has k (xs ! q)"
  shows "list_take has k xs = Some (xs ! p, take p xs @ drop (Suc p) xs)"
  using assms
proof (induction xs arbitrary: p)
  case (Cons x xs)
  show ?case
  proof (cases p)
    case 0
    with Cons.prems show ?thesis by simp
  next
    case (Suc q)
    have "\<not> has k x" using Cons.prems(3) [of 0] Suc by simp
    moreover have "list_take has k xs = Some (xs ! q, take q xs @ drop (Suc q) xs)"
    proof (rule Cons.IH)
      show "\<not> has k (xs ! r)" if "r < q" for r using Cons.prems(3) [of "Suc r"] that Suc by simp
    qed (use Cons.prems Suc in simp_all)
    ultimately show ?thesis using Suc by simp
  qed
qed simp

text \<open>Per key, the queue is first in first out: the entries that have the key form a list of which
  the head is taken, whatever stands between them.\<close>

lemma list_take_view:
  "list_take has k xs = Some (e, ys) \<Longrightarrow> filter (has k) xs = e # filter (has k) ys"
  by (induction xs arbitrary: ys) (auto split: if_splits)

lemma list_take_other:
  "list_take has k xs = Some (e, ys) \<Longrightarrow> \<not> P e \<Longrightarrow> filter P xs = filter P ys"
  by (induction xs arbitrary: ys) (auto split: if_splits)

section \<open>The contract\<close>

datatype ('e, 'k) queue_op = Put 'e | Take 'k

text \<open>The answers to the \<open>Take\<close>s of a sequence of operations, and the queue after it.\<close>

fun queue_run :: "('e \<Rightarrow> 's \<Rightarrow> 's) \<Rightarrow> ('k \<Rightarrow> 's \<Rightarrow> ('e \<times> 's) option) \<Rightarrow> ('e, 'k) queue_op list \<Rightarrow> 's \<Rightarrow>
    'e option list \<times> 's" where
  "queue_run put get [] s = ([], s)"
| "queue_run put get (Put e # ops) s = queue_run put get ops (put e s)"
| "queue_run put get (Take k # ops) s =
     (case get k s of
        None \<Rightarrow> map_prod ((#) None) id (queue_run put get ops s)
      | Some (e, s') \<Rightarrow> map_prod ((#) (Some e)) id (queue_run put get ops s'))"

locale keyed_queue =
  fixes items :: "'s \<Rightarrow> 'e list"
    and wf :: "'s \<Rightarrow> bool"
    and cap :: nat
    and has :: "'k \<Rightarrow> 'e \<Rightarrow> bool"
    and put :: "'e \<Rightarrow> 's \<Rightarrow> 's"
    and get :: "'k \<Rightarrow> 's \<Rightarrow> ('e \<times> 's) option"
  assumes wf_put: "wf s \<Longrightarrow> wf (put e s)"
    and items_put: "wf s \<Longrightarrow> items (put e s) = list_put cap e (items s)"
    and wf_get: "wf s \<Longrightarrow> get k s = Some (e, s') \<Longrightarrow> wf s'"
    and items_get: "wf s \<Longrightarrow> map_option (map_prod id items) (get k s) = list_take has k (items s)"
begin

lemma get_None: "wf s \<Longrightarrow> get k s = None \<longleftrightarrow> (\<forall>x \<in> set (items s). \<not> has k x)"
  using items_get [of s k] by (metis list_take_None option.map_disc_iff)

lemma get_Some: "wf s \<Longrightarrow> get k s = Some (e, s') \<Longrightarrow> list_take has k (items s) = Some (e, items s')"
  using items_get [of s k] by simp

lemma get_oldest: "wf s \<Longrightarrow> get k s = Some (e, s') \<Longrightarrow> filter (has k) (items s) = e # filter (has k) (items s')"
  by (rule list_take_view [OF get_Some])

lemma get_keeps_others:
  "wf s \<Longrightarrow> get k s = Some (e, s') \<Longrightarrow> \<not> P e \<Longrightarrow> filter P (items s') = filter P (items s)"
  by (rule list_take_other [OF get_Some, symmetric])

text \<open>Every run of the queue gives the answers that the list gives.\<close>

lemma run_refines:
  "wf s \<Longrightarrow> queue_run (list_put cap) (list_take has) ops (items s) =
     map_prod id items (queue_run put get ops s)"
proof (induction ops arbitrary: s)
  case (Cons op ops)
  show ?case
  proof (cases op)
    case (Put e)
    with Cons.IH [OF wf_put [OF Cons.prems]] show ?thesis by (simp add: items_put [OF Cons.prems])
  next
    case (Take k)
    note eq = items_get [OF Cons.prems, of k]
    show ?thesis
    proof (cases "get k s")
      case None
      with Take Cons.IH [OF Cons.prems] eq show ?thesis by (simp add: prod.map_comp comp_def flip: eq)
    next
      case (Some x)
      obtain e s' where x: "x = (e, s')" by (cases x)
      from Cons.IH [OF wf_get [OF Cons.prems]] Some x have
        "queue_run (list_put cap) (list_take has) ops (items s') = map_prod id items (queue_run put get ops s')"
        by blast
      with Take Some x eq show ?thesis by (simp add: prod.map_comp comp_def flip: eq)
    qed
  qed
qed simp

text \<open>What is put into a queue with room comes out again, in the order in which it went in.\<close>

lemma put_all: "wf s \<Longrightarrow> length (items s) + length es \<le> cap \<Longrightarrow>
    wf (fold put es s) \<and> items (fold put es s) = items s @ es"
proof (induction es arbitrary: s)
  case (Cons e es)
  have "items (put e s) = items s @ [e]" using Cons.prems by (simp add: items_put list_put_def)
  with Cons.IH [of "put e s"] Cons.prems show ?case by (simp add: wf_put)
qed simp

end

section \<open>Circular buffers\<close>

text \<open>An array with the index of the first entry and the index behind the last one; the buffer is
  empty when they are equal, so one of the \<open>n\<close> cells stays unused.\<close>

record 'e ring =
  cells :: "'e list"
  rhead :: nat
  rtail :: nat

definition ring_wf :: "nat \<Rightarrow> 'e ring \<Rightarrow> bool" where
  "ring_wf n r \<longleftrightarrow> length (cells r) = n \<and> rhead r < n \<and> rtail r < n"

definition ring_length :: "nat \<Rightarrow> 'e ring \<Rightarrow> nat" where
  "ring_length n r = (if rhead r \<le> rtail r then rtail r - rhead r else rtail r + n - rhead r)"

definition ring_items :: "nat \<Rightarrow> 'e ring \<Rightarrow> 'e list" where
  "ring_items n r = map (\<lambda>i. cells r ! ((rhead r + i) mod n)) [0..<ring_length n r]"

lemma length_ring_items [simp]: "length (ring_items n r) = ring_length n r"
  by (simp add: ring_items_def)

lemma ring_items_nth: "i < ring_length n r \<Longrightarrow> ring_items n r ! i = cells r ! ((rhead r + i) mod n)"
  by (simp add: ring_items_def)

lemma ring_length_less: "ring_wf n r \<Longrightarrow> ring_length n r < n"
  by (auto simp: ring_wf_def ring_length_def)

lemma ring_tail: "ring_wf n r \<Longrightarrow> (rhead r + ring_length n r) mod n = rtail r"
  by (auto simp: ring_wf_def ring_length_def)

lemma shifted_mod: "h < n \<Longrightarrow> i < n \<Longrightarrow> (h + i) mod n = (if h + i < n then h + i else h + i - n)" for n :: nat
  by (simp add: mod_if)

lemma shifted_mod_inj: "h < n \<Longrightarrow> i < n \<Longrightarrow> j < n \<Longrightarrow> (h + i) mod n = (h + j) mod n \<longleftrightarrow> i = j" for n :: nat
  by (auto simp: shifted_mod split: if_splits)

lemma Suc_shifted_mod: "Suc ((h + i) mod n) mod n = (h + Suc i) mod n"
  by (simp add: mod_Suc_eq)

lemma ring_full: "ring_wf n r \<Longrightarrow> Suc (rtail r) mod n = rhead r \<longleftrightarrow> Suc (ring_length n r) = n"
  by (auto simp: ring_wf_def ring_length_def mod_if split: if_splits)

lemma ring_empty: "ring_wf n r \<Longrightarrow> rhead r = rtail r \<longleftrightarrow> ring_length n r = 0"
  by (auto simp: ring_wf_def ring_length_def)

lemma ring_lengthI:
  assumes "ring_wf n r" and "m < n" and "(rhead r + m) mod n = rtail r"
  shows "ring_length n r = m"
  using assms ring_tail [OF assms(1)] ring_length_less [OF assms(1)]
  by (metis ring_wf_def shifted_mod_inj)

lemma ring_put:
  fixes r :: "'e ring" and e :: 'e
  assumes wf: "ring_wf n r" and room: "Suc (ring_length n r) < n"
  defines "r' \<equiv> r\<lparr>cells := (cells r)[rtail r := e], rtail := Suc (rtail r) mod n\<rparr>"
  shows "ring_wf n r'" and "ring_items n r' = ring_items n r @ [e]"
proof -
  show wf': "ring_wf n r'" using wf room by (auto simp: ring_wf_def r'_def)
  have len: "ring_length n r' = Suc (ring_length n r)"
    by (rule ring_lengthI [OF wf' room])
      (simp add: r'_def ring_tail [OF wf, symmetric] Suc_shifted_mod)
  have "cells r' ! ((rhead r + i) mod n) = cells r ! ((rhead r + i) mod n)" if "i < ring_length n r" for i
    using that room wf shifted_mod_inj [of "rhead r" n i "ring_length n r"] ring_tail [OF wf]
    by (auto simp: r'_def ring_wf_def nth_list_update)
  moreover have "cells r' ! ((rhead r + ring_length n r) mod n) = e"
    using ring_tail [OF wf] wf by (simp add: r'_def ring_wf_def)
  moreover have "rhead r' = rhead r" by (simp add: r'_def)
  ultimately show "ring_items n r' = ring_items n r @ [e]"
    by (intro nth_equalityI) (auto simp: len ring_items_nth nth_append less_Suc_eq)
qed

lemma ring_get:
  assumes wf: "ring_wf n r" and ne: "0 < ring_length n r"
  defines "r' \<equiv> r\<lparr>rhead := Suc (rhead r) mod n\<rparr>"
  shows "ring_wf n r'" and "ring_items n r = cells r ! rhead r # ring_items n r'"
proof -
  show wf': "ring_wf n r'" using wf by (auto simp: ring_wf_def r'_def)
  have len: "Suc (ring_length n r') = ring_length n r"
  proof -
    obtain m where m: "ring_length n r = Suc m" using ne by (cases "ring_length n r") simp_all
    have "(rhead r' + m) mod n = (Suc (rhead r) + m) mod n"
      by (simp add: r'_def mod_add_left_eq del: add_Suc)
    also have "\<dots> = rtail r'" using ring_tail [OF wf] m by (simp add: r'_def)
    finally have "ring_length n r' = m"
      using ring_lengthI [OF wf'] ring_length_less [OF wf] m by simp
    with m show ?thesis by simp
  qed
  show "ring_items n r = cells r ! rhead r # ring_items n r'"
  proof (rule nth_equalityI)
    fix i assume "i < length (ring_items n r)"
    then show "ring_items n r ! i = (cells r ! rhead r # ring_items n r') ! i"
      using len wf by (cases i) (auto simp: ring_items_nth r'_def ring_wf_def mod_simps)
  qed (use len in simp)
qed

section \<open>Rings that overwrite\<close>

text \<open>Entry number \<open>j\<close> goes to cell \<open>j mod n\<close>: the array holds the last \<open>n\<close> of the entries \<open>xs\<close>.\<close>

definition holds_last :: "nat \<Rightarrow> 'e list \<Rightarrow> 'e list \<Rightarrow> bool" where
  "holds_last n xs cs \<longleftrightarrow> length cs = n \<and> (\<forall>j < length xs. length xs \<le> j + n \<longrightarrow> cs ! (j mod n) = xs ! j)"

lemma holds_last_Nil [simp]: "holds_last n [] cs \<longleftrightarrow> length cs = n"
  by (simp add: holds_last_def)

lemma holds_lastD: "holds_last n xs cs \<Longrightarrow> j < length xs \<Longrightarrow> length xs \<le> j + n \<Longrightarrow> cs ! (j mod n) = xs ! j"
  by (simp add: holds_last_def)

lemma holds_last_push:
  assumes h: "holds_last n xs cs" and n: "0 < n"
  shows "holds_last n (xs @ [e]) (cs[length xs mod n := e])"
  unfolding holds_last_def
proof (intro conjI allI impI)
  show "length (cs[length xs mod n := e]) = n" using h by (simp add: holds_last_def)
next
  fix j assume j: "j < length (xs @ [e])" "length (xs @ [e]) \<le> j + n"
  have l: "length cs = n" using h by (simp add: holds_last_def)
  show "cs[length xs mod n := e] ! (j mod n) = (xs @ [e]) ! j"
  proof (cases "j = length xs")
    case True
    then show ?thesis using n l by simp
  next
    case False
    then have j': "j < length xs" using j by simp
    have "j mod n \<noteq> length xs mod n"
    proof
      assume "j mod n = length xs mod n"
      then have "n dvd length xs - j" using j' by (metis mod_eq_dvd_iff_nat less_imp_le)
      then have "n \<le> length xs - j" using j' by (simp add: dvd_imp_le)
      then show False using j by simp
    qed
    then show ?thesis using holds_lastD [OF h j'] j j' by (simp add: nth_append)
  qed
qed

end
