(* ===== verification/EngineQueues.thy ===== *)
theory EngineQueues
  imports Queues
begin

text \<open>
  The fixed arrays that \<open>Sources/Core/wg_engine.c\<close> keeps as queues and rings: the completions of
  the I/O completion port, the messages posted to threads, the fonts, and the recent Win32 calls.
  Indices into the arrays start at 0 and are only advanced modulo the array size.
\<close>

section \<open>I/O completions\<close>

definition WG_MAX_COMPLETIONS :: nat where "WG_MAX_COMPLETIONS = 64"

record WGCompletion =
  c_bytes :: u32
  c_comp_key :: u32
  c_overlapped :: u32

definition zero_completion :: WGCompletion where
  "zero_completion = \<lparr>c_bytes = 0, c_comp_key = 0, c_overlapped = 0\<rparr>"

text \<open>\<open>s_completions\<close> with \<open>s_comp_head\<close> and \<open>s_comp_tail\<close>.\<close>

definition no_completions :: "WGCompletion ring" where
  "no_completions = \<lparr>cells = replicate WG_MAX_COMPLETIONS zero_completion, rhead = 0, rtail = 0\<rparr>"

definition iocp_post :: "WGCompletion \<Rightarrow> WGCompletion ring \<Rightarrow> WGCompletion ring" where
  "iocp_post c r =
     (let n = (rtail r + 1) mod WG_MAX_COMPLETIONS
      in if n = rhead r then r else r\<lparr>cells := (cells r)[rtail r := c], rtail := n\<rparr>)"

definition iocp_get :: "WGCompletion ring \<Rightarrow> (WGCompletion \<times> WGCompletion ring) option" where
  "iocp_get r =
     (if rhead r = rtail r then None
      else Some (cells r ! rhead r, r\<lparr>rhead := (rhead r + 1) mod WG_MAX_COMPLETIONS\<rparr>))"

section \<open>Thread messages\<close>

definition WG_MAX_THREAD_MSGS :: nat where "WG_MAX_THREAD_MSGS = 64"

record thread_msg =
  m_tid :: u32
  m_msg :: u32
  m_wparam :: u32
  m_lparam :: u32

definition zero_msg :: thread_msg where
  "zero_msg = \<lparr>m_tid = 0, m_msg = 0, m_wparam = 0, m_lparam = 0\<rparr>"

text \<open>\<open>s_thread_msgs\<close> with \<open>s_tmsg_head\<close> and \<open>s_tmsg_tail\<close>.\<close>

definition no_msgs :: "thread_msg ring" where
  "no_msgs = \<lparr>cells = replicate WG_MAX_THREAD_MSGS zero_msg, rhead = 0, rtail = 0\<rparr>"

definition tmsg_push :: "thread_msg \<Rightarrow> thread_msg ring \<Rightarrow> thread_msg ring" where
  "tmsg_push m r =
     (let n = (rtail r + 1) mod WG_MAX_THREAD_MSGS
      in if n = rhead r then r else r\<lparr>cells := (cells r)[rtail r := m], rtail := n\<rparr>)"

text \<open>How far \<open>i\<close> is before \<open>tail\<close>.\<close>

definition ring_dist :: "nat \<Rightarrow> nat \<Rightarrow> nat" where
  "ring_dist i t = (if i \<le> t then t - i else t + 64 - i)"

lemma ring_dist_step:
  "i < 64 \<Longrightarrow> t < 64 \<Longrightarrow> i \<noteq> t \<Longrightarrow> ring_dist (Suc i mod 64) t < ring_dist i t"
  by (auto simp: ring_dist_def mod_if)

text \<open>The search loop of \<open>tmsg_pop\<close>. Indices outside the array are undefined.\<close>

function tmsg_search :: "thread_msg list \<Rightarrow> u32 \<Rightarrow> nat \<Rightarrow> nat \<Rightarrow> nat option ub" where
  "tmsg_search ms t tail i =
     (if i = tail then Some None
      else if 64 \<le> i \<or> 64 \<le> tail then undef
      else if m_tid (ms ! i) = t then Some (Some i)
      else tmsg_search ms t tail ((i + 1) mod 64))"
  by pat_completeness auto
termination by (relation "measure (\<lambda>(ms, t, tail, i). ring_dist i tail)") (auto intro: ring_dist_step)

text \<open>The loop that shifts the entries behind the one at \<open>j\<close> down by one.\<close>

function tmsg_compact :: "nat \<Rightarrow> nat \<Rightarrow> thread_msg list \<Rightarrow> thread_msg list ub" where
  "tmsg_compact tail j ms =
     (let n = (j + 1) mod 64
      in if n = tail then Some ms
         else if 64 \<le> j \<or> 64 \<le> tail then undef
         else tmsg_compact tail n (ms[j := ms ! n]))"
  by pat_completeness auto
termination
proof (relation "measure (\<lambda>(tail, j, ms). ring_dist (Suc j mod 64) tail)", simp, clarsimp)
  fix tail j :: nat
  assume "Suc j mod 64 \<noteq> tail" "\<not> 64 \<le> j" "\<not> 64 \<le> tail"
  then show "ring_dist (Suc (Suc j mod 64) mod 64) tail < ring_dist (Suc j mod 64) tail"
    by (intro ring_dist_step) auto
qed

declare tmsg_search.simps [simp del] tmsg_compact.simps [simp del]

definition tmsg_pop :: "u32 \<Rightarrow> thread_msg ring \<Rightarrow> (thread_msg \<times> thread_msg ring) option ub" where
  "tmsg_pop t r = do {
     p \<leftarrow> tmsg_search (cells r) t (rtail r) (rhead r);
     case p of
       None \<Rightarrow> Some None
     | Some i \<Rightarrow> do {
         ms \<leftarrow> tmsg_compact (rtail r) i (cells r);
         Some (Some (cells r ! i,
           r\<lparr>cells := ms, rtail := (rtail r + WG_MAX_THREAD_MSGS - 1) mod WG_MAX_THREAD_MSGS\<rparr>))
       }
   }"

section \<open>Fonts\<close>

record WGFontRec =
  f_handle :: u32
  f_px :: int
  f_bold :: bool
  f_name :: string

text \<open>\<open>s_fonts\<close>, \<open>s_font_count\<close> and \<open>s_next_font_h\<close>.\<close>

record font_table =
  fonts :: "WGFontRec list"
  font_count :: int
  next_font :: u32

definition no_fonts :: font_table where
  "no_fonts = \<lparr>fonts = replicate 64 \<lparr>f_handle = 0, f_px = 0, f_bold = False, f_name = []\<rparr>,
     font_count = 0, next_font = 0xF0000\<rparr>"

definition wg_font_register :: "int \<Rightarrow> bool \<Rightarrow> string option \<Rightarrow> font_table \<Rightarrow> (u32 \<times> font_table) ub" where
  "wg_font_register px bold name ft = do {
     n \<leftarrow> c_int (font_count ft + 1);
     Some (next_font ft,
       ft\<lparr>fonts := (fonts ft)[nat (font_count ft mod 64) :=
             \<lparr>f_handle = next_font ft, f_px = px, f_bold = bold,
              f_name = (case name of Some s \<Rightarrow> take 63 s | None \<Rightarrow> [])\<rparr>],
          font_count := n, next_font := next_font ft + 1\<rparr>)
   }"

definition wg_font_find :: "font_table \<Rightarrow> u32 \<Rightarrow> WGFontRec option" where
  "wg_font_find ft h = List.find (\<lambda>f. f_handle f = h \<and> h \<noteq> 0) (fonts ft)"

section \<open>Recent calls\<close>

definition WG_CALL_RING_SIZE :: nat where "WG_CALL_RING_SIZE = 256"

text \<open>The name and the result of a call; \<open>None\<close>: the null name of an unused cell.\<close>

record call_ring =
  calls :: "(string \<times> u64) option list"
  call_idx :: int

definition no_calls :: call_ring where
  "no_calls = \<lparr>calls = replicate WG_CALL_RING_SIZE None, call_idx = 0\<rparr>"

text \<open>The character \<open>i\<close> of a function name: its array is filled up with NUL characters.\<close>

definition name_char :: "string \<Rightarrow> nat \<Rightarrow> char" where
  "name_char s i = (if i < length s then s ! i else CHR 0x00)"

definition noisy_call :: "string \<Rightarrow> bool" where
  "noisy_call s \<longleftrightarrow>
     name_char s 0 = CHR ''H'' \<and> name_char s 4 \<in> {CHR ''F'', CHR ''S'', CHR ''A''} \<or>
     name_char s 0 = CHR ''D'' \<and> name_char s 1 = CHR ''e'' \<or>
     name_char s 0 = CHR ''E'' \<and> name_char s 5 = CHR ''C'' \<or>
     name_char s 0 = CHR ''L'' \<and> name_char s 5 = CHR ''C'' \<or>
     name_char s 0 = CHR ''T'' \<and> name_char s 3 = CHR ''E'' \<or>
     name_char s 0 = CHR ''G'' \<and> name_char s 3 = CHR ''L'' \<or>
     name_char s 0 = CHR ''S'' \<and> name_char s 3 = CHR ''L'' \<or>
     name_char s 0 = CHR ''F'' \<and> name_char s 3 = CHR ''G'' \<or>
     name_char s 0 = CHR ''F'' \<and> name_char s 3 = CHR ''S''"

definition wg_call_ring_push :: "string \<Rightarrow> u64 \<Rightarrow> call_ring \<Rightarrow> call_ring ub" where
  "wg_call_ring_push name ret r =
     (if noisy_call name then Some r
      else do {
        guard (0 \<le> call_idx r);
        n \<leftarrow> c_int (call_idx r + 1);
        Some (r\<lparr>calls := (calls r)[nat (call_idx r mod 256) := Some (name, ret)], call_idx := n\<rparr>)
      })"

text \<open>The crash report of \<open>wg_engine_tick\<close>: the calls it logs, in its order. C's \<open>%\<close> of the
  possibly negative difference, corrected by the array size.\<close>

definition call_ring_dump :: "call_ring \<Rightarrow> (string \<times> u64) list" where
  "call_ring_dump r = concat (map (\<lambda>ri.
     let d = call_idx r - 256 + int ri;
         m = (if d < 0 then - ((- d) mod 256) else d mod 256);
         i = (if m < 0 then m + 256 else m)
     in case calls r ! nat i of None \<Rightarrow> [] | Some c \<Rightarrow> [c]) [0..<256])"

end
