(* ===== verification/EngineState.thy ===== *)
theory EngineState
  imports Threads PELoader EngineQueues
begin

text \<open>
  The state of the engine, \<open>Sources/Core/wg_engine.c\<close>, as far as its Win32 calls use it: the
  static tables of the file and the members of \<open>WGEngine\<close> as one record, access to guest memory,
  the guest heap, the thread environment blocks, the stack of interrupted calls, and the frame of
  a call: how a handler gets its arguments and how it returns to the guest.

  Arrays with a count are lists whose length is the count. \<open>calloc\<close>, \<open>malloc\<close> and blink's
  mapping of heap pages are assumed to succeed; the scheduler exists. Buffers that the source
  leaves uninitialised before a read are taken to hold zeros where the read stops at a fault.
\<close>

section \<open>State\<close>

datatype WGEngineState = WG_ENGINE_IDLE | WG_ENGINE_LOADED | WG_ENGINE_RUNNING | WG_ENGINE_PAUSED
  | WG_ENGINE_STOPPED | WG_ENGINE_ERROR

record WGPendingCall =
  pc_ret_addr :: u32
  pc_ret_rsp :: u32
  pc_ovr_eax :: u32
  pc_ovr :: bool
  pc_saved_regs :: "u64 list"

record WGTpWork =
  tp_callback :: u32
  tp_ctx :: u32
  tp_thread :: u32

definition WG_MAX_EVENTS :: nat where "WG_MAX_EVENTS = 256"
definition WG_EVENT_BASE :: u32 where "WG_EVENT_BASE = 0x200"
definition WG_IOCP_HANDLE :: u32 where "WG_IOCP_HANDLE = 0x8500"
definition WG_MAX_IOCP_SOCK :: nat where "WG_MAX_IOCP_SOCK = 32"
definition WG_TP_WORK_BASE :: u32 where "WG_TP_WORK_BASE = 0x9000"
definition WG_MAX_TP_WORK :: nat where "WG_MAX_TP_WORK = 16"
definition WG_GUEST_HEAP_BASE :: u32 where "WG_GUEST_HEAP_BASE = 0x20000000"
definition WG_MAX_ALLOCS :: nat where "WG_MAX_ALLOCS = 8192"
definition WG_SENDMSG_SENTINEL :: u32 where "WG_SENDMSG_SENTINEL = 0xC10010"

text \<open>TLS and FLS: the next index and, per thread slot, the 1088 values.\<close>

record local_storage =
  slot_next :: u32
  slot_values :: "u32 list list"

definition no_local_storage :: local_storage where
  "no_local_storage = \<lparr>slot_next = 0, slot_values = replicate WG_MAX_THREADS (replicate 1088 0)\<rparr>"

text \<open>\<open>s_seh_*\<close>: the exception that is being dispatched, and how many have been.\<close>

record seh_state =
  seh_active :: bool
  seh_frame :: u32
  seh_excrec :: u32
  seh_ctx :: u32
  seh_dispctx :: u32
  seh_depth :: int

definition no_exception :: seh_state where
  "no_exception = \<lparr>seh_active = False, seh_frame = 0, seh_excrec = 0, seh_ctx = 0, seh_dispctx = 0, seh_depth = 0\<rparr>"

text \<open>The diagnostic traps, \<open>s_errstr_armed\<close>, \<open>s_watch_armed\<close> and \<open>s_watch_orig\<close>.\<close>

record trap_state =
  errstr_armed :: bool
  watch_armed :: bool
  watch_orig :: u8

record engine =
  estate :: WGEngineState
  pe_img :: "pe_image option"
  sched :: scheduler
  ev_signalled :: "bool list"
  ev_manual :: "bool list"
  ev_next :: u32
  iocp_bindings :: "(u32 \<times> u32) list"
  completions :: "WGCompletion ring"
  iocp_created :: bool
  disable_iocp :: bool
  tp_work :: "WGTpWork list"
  thread_msgs :: "thread_msg ring"
  timer_hwnd :: u32
  timer_id :: u32
  timer_active :: bool
  tls :: local_storage
  fls :: local_storage
  heap_ptr :: u32
  alloc_sizes :: "(u32 \<times> u32) list"
  main_teb :: u32
  callstack :: "WGPendingCall list"
  last_error :: u32
  seh :: seh_state
  traps :: trap_state

section \<open>Guest memory\<close>

definition write_bytes :: "'m guest_api \<Rightarrow> u32 \<Rightarrow> u8 list \<Rightarrow> 'm blink \<Rightarrow> 'm blink" where
  "write_bytes api a bs b = snd (wg_blink_write_mem api b (ucast a) bs)"

definition write32 :: "'m guest_api \<Rightarrow> u32 \<Rightarrow> u32 \<Rightarrow> 'm blink \<Rightarrow> 'm blink" where
  "write32 api a v b = write_bytes api a (le_bytes 4 v) b"

text \<open>\<open>uint32_t v = 0; wg_blink_read_mem(blink, a, &v, 4);\<close>\<close>

definition read32 :: "'m guest_api \<Rightarrow> u64 \<Rightarrow> 'm blink \<Rightarrow> u32" where
  "read32 api a b = le_word (snd (wg_blink_read_mem api b a (le_bytes 4 (0 :: u32)) 4))"

fun words_of :: "u8 list \<Rightarrow> u32 list" where
  "words_of (b0 # b1 # b2 # b3 # bs) = le_word [b0, b1, b2, b3] # words_of bs"
| "words_of _ = []"

definition read_words :: "'m guest_api \<Rightarrow> u64 \<Rightarrow> nat \<Rightarrow> nat \<Rightarrow> 'm blink \<Rightarrow> u32 list" where
  "read_words api a len cap b = words_of (snd (wg_blink_read_mem api b a (replicate (4 * cap) 0) (4 * len)))"

lemma write_bytes_regs [simp]:
  "wg_blink_get_reg (write_bytes api a bs b) i = wg_blink_get_reg b i"
  "wg_blink_get_rip (write_bytes api a bs b) = wg_blink_get_rip b"
  by (simp_all add: write_bytes_def write_mem_regs)

lemma write32_regs [simp]:
  "wg_blink_get_reg (write32 api a v b) i = wg_blink_get_reg b i"
  "wg_blink_get_rip (write32 api a v b) = wg_blink_get_rip b"
  by (simp_all add: write32_def)

section \<open>The guest heap\<close>

definition track_alloc :: "u32 \<Rightarrow> u32 \<Rightarrow> engine \<Rightarrow> engine" where
  "track_alloc a n e =
     (if length (alloc_sizes e) < WG_MAX_ALLOCS then e\<lparr>alloc_sizes := alloc_sizes e @ [(a, n)]\<rparr> else e)"

definition lookup_alloc_size :: "u32 \<Rightarrow> engine \<Rightarrow> u32" where
  "lookup_alloc_size a e =
     (case List.find (\<lambda>(x, _). x = a) (rev (alloc_sizes e)) of None \<Rightarrow> 0 | Some (_, n) \<Rightarrow> n)"

definition wg_guest_alloc :: "'m guest_api \<Rightarrow> u32 \<Rightarrow> engine \<Rightarrow> 'm blink \<Rightarrow> u32 \<times> engine \<times> 'm blink" where
  "wg_guest_alloc api n e b =
     (let n = (if n = 0 then 1 else n)
      in if n AND 0x80000000 \<noteq> 0 \<or> 512 * 1024 * 1024 < n then (0, e, b)
         else let alloc = (n + 0xFFF) AND NOT 0xFFF;
                  addr = heap_ptr e;
                  b = snd (wg_blink_load_code api False b (ucast addr) (replicate (unat alloc) 0) alloc 0);
                  e = e\<lparr>heap_ptr := (heap_ptr e + alloc + 0xFFF) AND NOT 0xFFF\<rparr>
              in (addr, track_alloc addr n e, b))"

section \<open>Thread environment blocks\<close>

text \<open>The block of static thread-local data: a copy of the template of the PE's TLS directory, with
  its address in the first slot of the TLS array. The first result is \<open>addr_index\<close>.\<close>

definition tls_block :: "'m guest_api \<Rightarrow> u32 \<Rightarrow> u32 \<Rightarrow> engine \<Rightarrow> 'm blink \<Rightarrow> u32 \<times> engine \<times> 'm blink" where
  "tls_block api dir tls_array e b =
     (let d = read_words api (ucast dir) 6 6 b;
          raw_start = d ! 0; raw_end = d ! 1; zerofill = d ! 4;
          tpl = (if raw_start < raw_end then raw_end - raw_start else 0);
          data_size = (if tpl + zerofill = 0 then 4 else tpl + zerofill);
          (tls_data, e, b) = wg_guest_alloc api data_size e b;
          b = (if tls_data \<noteq> 0 \<and> tpl \<noteq> 0
               then write_bytes api tls_data
                      (snd (wg_blink_read_mem api b (ucast raw_start) (replicate (unat tpl) 0) (unat tpl))) b
               else b)
      in (d ! 2, e, write32 api tls_array tls_data b))"

text \<open>The main thread's block and the process environment block.\<close>

definition wg_setup_win32_teb :: "'m guest_api \<Rightarrow> engine \<Rightarrow> 'm blink \<Rightarrow> engine \<times> 'm blink" where
  "wg_setup_win32_teb api e b =
     (case pe_img e of
        None \<Rightarrow> (e, b)
      | Some pe \<Rightarrow>
          if is_64bit pe then (e, b)
          else let (teb, e, b) = wg_guest_alloc api 0x1000 e b;
                   (peb, e, b) = wg_guest_alloc api 0x1000 e b;
                   (tls_array, e, b) = wg_guest_alloc api 0x400 e b
               in if teb = 0 \<or> peb = 0 \<or> tls_array = 0 then (e, b)
                  else let base = ucast (image_base pe) :: u32;
                           b = write32 api teb 0xFFFFFFFF b;
                           b = write32 api (teb + 0x04) 0x7FFF0000 b;
                           b = write32 api (teb + 0x08) 0x7FEF0000 b;
                           b = write32 api (teb + 0x18) teb b;
                           b = write32 api (teb + 0x20) 0x1000 b;
                           b = write32 api (teb + 0x24) 0x1004 b;
                           b = write32 api (teb + 0x2C) tls_array b;
                           b = write32 api (teb + 0x30) peb b;
                           b = write32 api (teb + 0x34) 0 b;
                           b = write_bytes api (peb + 0x02) [0] b;
                           b = write32 api (peb + 0x08) base b;
                           b = write32 api (peb + 0x18) 0x00D00000 b;
                           b = write32 api (peb + 0x64) 1 b;
                           b = write32 api (peb + 0xA4) 10 b;
                           b = write32 api (peb + 0xA8) 0 b;
                           b = write_bytes api (peb + 0xAC) (le_bytes 2 (19045 :: u16)) b;
                           b = write32 api (peb + 0xB0) 2 b;
                           (e, b) = (if tls_rva pe \<noteq> 0
                             then let (addr_index, e, b) = tls_block api (base + tls_rva pe) tls_array e b
                                  in (e, if addr_index \<noteq> 0 then write32 api addr_index 0 b else b)
                             else (e, b))
                       in (e\<lparr>main_teb := teb\<rparr>, wg_blink_set_fs_base b (ucast teb)))"

definition wg_alloc_thread_teb ::
    "'m guest_api \<Rightarrow> u32 \<Rightarrow> u32 \<Rightarrow> u32 \<Rightarrow> engine \<Rightarrow> 'm blink \<Rightarrow> u32 \<times> engine \<times> 'm blink" where
  "wg_alloc_thread_teb api stack_top stack_limit t e b =
     (case pe_img e of
        None \<Rightarrow> (0, e, b)
      | Some pe \<Rightarrow>
          if is_64bit pe \<or> main_teb e = 0 then (0, e, b)
          else let (teb, e, b) = wg_guest_alloc api 0x1000 e b;
                   (tls_array, e, b) = wg_guest_alloc api 0x400 e b
               in if teb = 0 \<or> tls_array = 0 then (0, e, b)
                  else let peb = read32 api (ucast (main_teb e + 0x30)) b;
                           b = write32 api teb 0xFFFFFFFF b;
                           b = write32 api (teb + 0x04) stack_top b;
                           b = write32 api (teb + 0x08) stack_limit b;
                           b = write32 api (teb + 0x18) teb b;
                           b = write32 api (teb + 0x20) 0x1000 b;
                           b = write32 api (teb + 0x24) t b;
                           b = write32 api (teb + 0x2C) tls_array b;
                           b = write32 api (teb + 0x30) peb b;
                           b = write32 api (teb + 0x34) 0 b;
                           (e, b) = (if tls_rva pe \<noteq> 0
                                     then snd (tls_block api (ucast (image_base pe) + tls_rva pe) tls_array e b)
                                     else (e, b))
                       in (teb, e, b))"

section \<open>Calls into the guest\<close>

text \<open>\<open>s_callstack\<close>, of \<open>s_callstack_depth\<close> calls: the last element is the top.\<close>

definition push_call :: "WGPendingCall \<Rightarrow> engine \<Rightarrow> engine option" where
  "push_call fr e = (if length (callstack e) < 64 then Some (e\<lparr>callstack := callstack e @ [fr]\<rparr>) else None)"

definition pop_call :: "engine \<Rightarrow> (WGPendingCall \<times> engine) option" where
  "pop_call e = (if callstack e = [] then None
                 else Some (last (callstack e), e\<lparr>callstack := butlast (callstack e)\<rparr>))"

text \<open>\<open>None\<close>: the call is not armed (no procedure, or 64 calls are pending).\<close>

definition wg_call_wndproc_ovr ::
    "'m guest_api \<Rightarrow> u32 \<Rightarrow> u32 \<Rightarrow> u32 \<Rightarrow> u32 \<Rightarrow> u32 \<Rightarrow> u32 \<Rightarrow> u32 \<Rightarrow> bool \<Rightarrow> u32 \<Rightarrow>
     engine \<Rightarrow> 'm blink \<Rightarrow> (engine \<times> 'm blink) option" where
  "wg_call_wndproc_ovr api proc hwnd msg wp lp ret clean_rsp ovr ovr_eax e b =
     (if proc = 0 then None
      else case push_call \<lparr>pc_ret_addr = ret, pc_ret_rsp = clean_rsp, pc_ovr_eax = ovr_eax, pc_ovr = ovr,
                           pc_saved_regs = map (\<lambda>i. wg_blink_get_reg b (int i)) [0..<16]\<rparr> e of
             None \<Rightarrow> None
           | Some e \<Rightarrow>
               let new_rsp = clean_rsp - 20;
                   b = write_bytes api new_rsp
                         (concat (map (le_bytes 4) [WG_SENDMSG_SENTINEL, hwnd, msg, wp, lp])) b;
                   b = wg_blink_set_reg b 4 (ucast new_rsp);
                   b = wg_blink_set_rip b (ucast proc);
                   b = wg_blink_set_reg b 0 0
               in Some (e, b))"

definition wg_call_wndproc ::
    "'m guest_api \<Rightarrow> u32 \<Rightarrow> u32 \<Rightarrow> u32 \<Rightarrow> u32 \<Rightarrow> u32 \<Rightarrow> u32 \<Rightarrow> u32 \<Rightarrow>
     engine \<Rightarrow> 'm blink \<Rightarrow> (engine \<times> 'm blink) option" where
  "wg_call_wndproc api proc hwnd msg wp lp ret clean_rsp =
     wg_call_wndproc_ovr api proc hwnd msg wp lp ret clean_rsp False 0"

text \<open>The return to \<open>WG_SENDMSG_SENTINEL\<close>; repainting the dialog changes neither the machine nor
  this state. The loop restores the registers 1 to 15 but RSP.\<close>

fun restore_saved :: "u64 list \<Rightarrow> nat \<Rightarrow> 'm blink \<Rightarrow> 'm blink" where
  "restore_saved [] i b = b"
| "restore_saved (v # vs) i b =
     restore_saved vs (i + 1) (if i = 4 then b else wg_blink_set_reg b (int i) v)"

definition resume_caller :: "WGPendingCall \<Rightarrow> 'm blink \<Rightarrow> 'm blink" where
  "resume_caller pc b =
     (let result = (if pc_ovr pc then pc_ovr_eax pc else ucast (wg_blink_get_reg b 0));
          b = restore_saved (tl (pc_saved_regs pc)) 1 b;
          b = wg_blink_set_reg b 4 (ucast (pc_ret_rsp pc));
          b = wg_blink_set_rip b (ucast (pc_ret_addr pc))
      in wg_blink_set_reg b 0 (ucast result))"

definition sendmsg_return :: "engine \<Rightarrow> 'm blink \<Rightarrow> engine \<times> 'm blink" where
  "sendmsg_return e b =
     (case pop_call e of
        Some (pc, e) \<Rightarrow> (e, resume_caller pc b)
      | None \<Rightarrow> (e, wg_blink_set_rip b 0))"

section \<open>The frame of a Win32 call\<close>

text \<open>What \<open>handle_blink_thunk\<close> reads off the stack before it dispatches.\<close>

record call_frame =
  is_32bit :: bool
  frame_rsp :: u64
  ret_addr :: u64
  fargs :: "u32 list"

definition ptr_size :: "call_frame \<Rightarrow> u64" where
  "ptr_size f = (if is_32bit f then 4 else 8)"

definition read_frame :: "'m guest_api \<Rightarrow> engine \<Rightarrow> 'm blink \<Rightarrow> call_frame" where
  "read_frame api e b =
     (let is32 = (case pe_img e of None \<Rightarrow> False | Some pe \<Rightarrow> \<not> is_64bit pe);
          rsp = wg_blink_get_reg b 4
      in \<lparr>is_32bit = is32, frame_rsp = rsp,
          ret_addr = (if is32 then ucast (read32 api rsp b)
                      else le_word (snd (wg_blink_read_mem api b rsp (replicate 8 0) 8))),
          fargs = (if is32 then read_words api (rsp + 4) 16 16 b else replicate 16 0)\<rparr>)"

text \<open>The common end of a call: the callee pops the return address and its arguments.\<close>

definition finish_call :: "call_frame \<Rightarrow> int \<Rightarrow> u64 \<Rightarrow> 'm blink \<Rightarrow> 'm blink" where
  "finish_call f num_args ret_val b =
     (let b = wg_blink_set_reg b 4 (frame_rsp f + ptr_size f + of_int (num_args * (if is_32bit f then 4 else 8)));
          b = wg_blink_set_rip b (ret_addr f)
      in wg_blink_set_reg b 0 ret_val)"

text \<open>The result of a handler: the value to return at the common end, or \<open>Handled\<close>, when the
  handler has set up the machine itself.\<close>

datatype hresult = Ret u64 | Handled

type_synonym 'm handled = "hresult \<times> engine \<times> 'm blink"

end
