(* ===== verification/EngineSync.thy ===== *)
theory EngineSync
  imports EngineState
begin

text \<open>
  The Win32 calls of \<open>handle_blink_thunk\<close> in \<open>Sources/Core/wg_engine.c\<close> that synchronise guest
  threads: events, mutexes, waits, I/O completion ports, thread pool work, threads, thread
  messages, timers, thread-local storage, Sleep and ExitThread; the dispatch on the function's
  name; and the engine's ticks as far as they schedule threads. A call that blocks does not
  return to the guest: it leaves RIP on the thunk, so that it is made again when its thread runs
  again. Log output is left out.
\<close>

section \<open>Events\<close>

text \<open>The index of an event handle.\<close>

definition event_index :: "u32 \<Rightarrow> nat option" where
  "event_index h = (if WG_EVENT_BASE \<le> h \<and> h < WG_EVENT_BASE + of_nat WG_MAX_EVENTS
                    then Some (unat (h - WG_EVENT_BASE)) else None)"

definition wg_event_consume :: "u32 \<Rightarrow> engine \<Rightarrow> engine" where
  "wg_event_consume h e =
     (case event_index h of
        None \<Rightarrow> e
      | Some i \<Rightarrow> if ev_manual e ! i then e else e\<lparr>ev_signalled := (ev_signalled e)[i := False]\<rparr>)"

definition h_CreateEvent :: "u32 list \<Rightarrow> engine \<Rightarrow> 'm blink \<Rightarrow> 'm handled" where
  "h_CreateEvent args e b =
     (if ev_next e < of_nat WG_MAX_EVENTS
      then let i = unat (ev_next e)
           in (Ret (ucast (WG_EVENT_BASE + ev_next e)),
               e\<lparr>ev_next := ev_next e + 1, ev_signalled := (ev_signalled e)[i := args ! 2 \<noteq> 0],
                 ev_manual := (ev_manual e)[i := args ! 1 \<noteq> 0]\<rparr>, b)
      else (Ret 0, e, b))"

definition set_event :: "u32 \<Rightarrow> bool \<Rightarrow> engine \<Rightarrow> engine" where
  "set_event h v e =
     (case event_index h of None \<Rightarrow> e | Some i \<Rightarrow> e\<lparr>ev_signalled := (ev_signalled e)[i := v]\<rparr>)"

definition h_SetEvent :: "u32 list \<Rightarrow> engine \<Rightarrow> 'm blink \<Rightarrow> 'm handled" where
  "h_SetEvent args e b =
     (let e = set_event (args ! 0) True e
      in (Ret 1, e\<lparr>sched := wg_sched_wake (sched e) (args ! 0)\<rparr>, b))"

definition h_ResetEvent :: "u32 list \<Rightarrow> engine \<Rightarrow> 'm blink \<Rightarrow> 'm handled" where
  "h_ResetEvent args e b = (Ret 1, set_event (args ! 0) False e, b)"

text \<open>A mutex takes an event's number, but not its flags; \<open>dflt\<close> is the registered default result.\<close>

definition h_CreateMutex :: "u64 \<Rightarrow> engine \<Rightarrow> 'm blink \<Rightarrow> 'm handled" where
  "h_CreateMutex dflt e b =
     (if ev_next e < of_nat WG_MAX_EVENTS
      then (Ret (ucast (WG_EVENT_BASE + ev_next e)), e\<lparr>ev_next := ev_next e + 1, last_error := 0\<rparr>, b)
      else (Ret dflt, e\<lparr>last_error := 0\<rparr>, b))"

definition h_OpenMutex :: "engine \<Rightarrow> 'm blink \<Rightarrow> 'm handled" where
  "h_OpenMutex e b = (Ret 0, e\<lparr>last_error := 2\<rparr>, b)"

section \<open>Waiting\<close>

definition signalled :: "engine \<Rightarrow> u32 \<Rightarrow> bool" where
  "signalled e h \<longleftrightarrow>
     (case event_index h of Some i \<Rightarrow> ev_signalled e ! i | None \<Rightarrow> False) \<or>
     (case wg_sched_find (sched e) h of Some i \<Rightarrow> state (threads (sched e) ! i) = WG_THREAD_EXITED | None \<Rightarrow> False)"

text \<open>Record what the current thread waits for and yield.\<close>

definition note_wait :: "u32 \<Rightarrow> u32 \<Rightarrow> scheduler \<Rightarrow> scheduler" where
  "note_wait h timeout s =
     (case current s of
        None \<Rightarrow> s
      | Some c \<Rightarrow> update_thread s c (\<lambda>t. t\<lparr>wait_handle := h, wait_timeout := timeout\<rparr>))"

definition block_on :: "u32 \<Rightarrow> u32 \<Rightarrow> WGThreadState \<Rightarrow> engine \<Rightarrow> 'm blink \<Rightarrow> bool \<times> engine \<times> 'm blink" where
  "block_on h timeout blk e b =
     (let (switched, s, b) = wg_sched_yield (note_wait h timeout (sched e)) b blk
      in (switched, e\<lparr>sched := s\<rparr>, b))"

text \<open>The end of the waits when the handle is not signalled.\<close>

definition wait_or_time_out :: "u32 \<Rightarrow> u32 \<Rightarrow> engine \<Rightarrow> 'm blink \<Rightarrow> 'm handled" where
  "wait_or_time_out h timeout e b =
     (if timeout = 0 then (Ret 258, e, b)
      else let blk = (if timeout = 0xFFFFFFFF then WG_THREAD_WAITING else WG_THREAD_READY);
               (switched, e, b) = block_on h timeout blk e b
           in (if switched then Handled else Ret (if timeout = 0xFFFFFFFF then 0 else 258), e, b))"

definition h_WaitForSingleObject :: "u32 list \<Rightarrow> engine \<Rightarrow> 'm blink \<Rightarrow> 'm handled" where
  "h_WaitForSingleObject args e b =
     (let h = args ! 0; timeout = args ! 1
      in if signalled e h then (Ret 0, wg_event_consume h e, b)
         else wait_or_time_out h timeout e b)"

definition h_WaitForMultipleObjects :: "'m guest_api \<Rightarrow> u32 list \<Rightarrow> engine \<Rightarrow> 'm blink \<Rightarrow> 'm handled" where
  "h_WaitForMultipleObjects api args e b =
     (let ncount = min 16 (unat (args ! 0)); hptr = args ! 1; wait_all = (args ! 2 \<noteq> 0); timeout = args ! 3;
          handles = (if hptr \<noteq> 0 then read_words api (ucast hptr) ncount 16 b else replicate 16 0);
          sigs = map (\<lambda>i. signalled e (handles ! i)) [0..<ncount];
          nsig = length (filter id sigs);
          first = find_index id sigs
      in if ncount = 0 then (Ret 0, e, b)
         else if (if wait_all then nsig = ncount else 0 < nsig)
              then (Ret (case first of Some i \<Rightarrow> of_nat i | None \<Rightarrow> 0),
                    (if wait_all then fold (\<lambda>i. wg_event_consume (handles ! i)) [0..<ncount] e
                     else case first of Some i \<Rightarrow> wg_event_consume (handles ! i) e | None \<Rightarrow> e), b)
              else wait_or_time_out (handles ! 0) timeout e b)"

section \<open>I/O completion ports and the thread pool\<close>

definition iocp_comp_key :: "engine \<Rightarrow> u32 \<Rightarrow> u32" where
  "iocp_comp_key e sock =
     (case List.find (\<lambda>(s, _). s = sock) (iocp_bindings e) of None \<Rightarrow> 0 | Some (_, k) \<Rightarrow> k)"

definition h_CreateIoCompletionPort :: "u32 list \<Rightarrow> engine \<Rightarrow> 'm blink \<Rightarrow> 'm handled" where
  "h_CreateIoCompletionPort args e b =
     (if disable_iocp e then (Ret 0, e\<lparr>last_error := 50\<rparr>, b)
      else if args ! 0 = 0xFFFFFFFF then (Ret (ucast WG_IOCP_HANDLE), e\<lparr>iocp_created := True\<rparr>, b)
      else (Ret (ucast WG_IOCP_HANDLE),
            (if length (iocp_bindings e) < WG_MAX_IOCP_SOCK
             then e\<lparr>iocp_bindings := iocp_bindings e @ [(args ! 0, args ! 2)]\<rparr> else e), b))"

text \<open>What \<open>GetQueuedCompletionStatus\<close> and its \<open>Ex\<close> form write to the guest.\<close>

definition deliver_completion :: "'m guest_api \<Rightarrow> u32 list \<Rightarrow> WGCompletion \<Rightarrow> 'm blink \<Rightarrow> 'm blink" where
  "deliver_completion api args c b =
     (let b = (if args ! 1 \<noteq> 0 then write32 api (args ! 1) (c_bytes c) b else b);
          b = (if args ! 2 \<noteq> 0 then write32 api (args ! 2) (c_comp_key c) b else b);
          b = (if args ! 3 \<noteq> 0 then write32 api (args ! 3) (c_overlapped c) b else b)
      in if c_overlapped c \<noteq> 0
         then write32 api (c_overlapped c + 4) (c_bytes c) (write32 api (c_overlapped c) 0 b) else b)"

definition deliver_entry :: "'m guest_api \<Rightarrow> u32 list \<Rightarrow> WGCompletion \<Rightarrow> 'm blink \<Rightarrow> 'm blink" where
  "deliver_entry api args c b =
     (let p = args ! 1;
          b = (if p \<noteq> 0 then write32 api (p + 12) (c_bytes c) (write32 api (p + 8) (c_bytes c)
                 (write32 api (p + 4) (c_overlapped c) (write32 api p (c_comp_key c) b))) else b)
      in if args ! 3 \<noteq> 0 then write32 api (args ! 3) 1 b else b)"

definition h_GetQueuedCompletionStatus ::
    "'m guest_api \<Rightarrow> bool \<Rightarrow> u32 list \<Rightarrow> engine \<Rightarrow> 'm blink \<Rightarrow> 'm handled" where
  "h_GetQueuedCompletionStatus api is_ex args e b =
     (case iocp_get (completions e) of
        Some (c, q) \<Rightarrow>
          (Ret 1, e\<lparr>completions := q\<rparr>, if is_ex then deliver_entry api args c b else deliver_completion api args c b)
      | None \<Rightarrow>
          if args ! 4 = 0 then (Ret 0, e\<lparr>last_error := 258\<rparr>, b)
          else let (switched, e, b) = block_on WG_IOCP_HANDLE (args ! 4) WG_THREAD_WAITING e b
               in if switched then (Handled, e, b) else (Ret 0, e\<lparr>last_error := 258\<rparr>, b))"

definition h_PostQueuedCompletionStatus :: "u32 list \<Rightarrow> engine \<Rightarrow> 'm blink \<Rightarrow> 'm handled" where
  "h_PostQueuedCompletionStatus args e b =
     (Ret 1,
      e\<lparr>completions := iocp_post \<lparr>c_bytes = args ! 1, c_comp_key = args ! 2, c_overlapped = args ! 3\<rparr> (completions e),
        sched := wg_sched_wake (sched e) WG_IOCP_HANDLE\<rparr>, b)"

definition h_CreateThreadpoolWork :: "u32 list \<Rightarrow> engine \<Rightarrow> 'm blink \<Rightarrow> 'm handled" where
  "h_CreateThreadpoolWork args e b =
     (if length (tp_work e) < WG_MAX_TP_WORK
      then (Ret (ucast (WG_TP_WORK_BASE + of_nat (length (tp_work e)))),
            e\<lparr>tp_work := tp_work e @ [\<lparr>tp_callback = args ! 0, tp_ctx = args ! 1, tp_thread = 0\<rparr>]\<rparr>, b)
      else (Ret 0, e, b))"

text \<open>\<open>api\<close> and the two booleans of \<open>wg_sched_create_thread\<close>: the stack of the new thread is
  mapped, unless \<open>calloc\<close> fails or blink aborts.\<close>

definition new_thread ::
    "'m guest_api \<Rightarrow> bool \<Rightarrow> bool \<Rightarrow> u32 \<Rightarrow> u32 \<Rightarrow> u32 \<Rightarrow> engine \<Rightarrow> 'm blink \<Rightarrow> (u32 \<times> u32) option \<times> engine \<times> 'm blink" where
  "new_thread api z ab start prm flags e b =
     (let (r, s, b) = wg_sched_create_thread api z ab (sched e) b start prm flags
      in (r, e\<lparr>sched := s\<rparr>, b))"

definition h_SubmitThreadpoolWork ::
    "'m guest_api \<Rightarrow> bool \<Rightarrow> bool \<Rightarrow> u32 list \<Rightarrow> engine \<Rightarrow> 'm blink \<Rightarrow> 'm handled" where
  "h_SubmitThreadpoolWork api z ab args e b =
     (let pwk = args ! 0
      in if WG_TP_WORK_BASE \<le> pwk \<and> pwk < WG_TP_WORK_BASE + of_nat (length (tp_work e))
         then let i = unat (pwk - WG_TP_WORK_BASE); w = tp_work e ! i
              in if tp_callback w \<noteq> 0
                 then case new_thread api z ab (tp_callback w) (tp_ctx w) 0 e b of
                        (Some (h, t), e, b) \<Rightarrow> (Ret 0, if h \<noteq> 0 then e\<lparr>tp_work := (tp_work e)[i := w\<lparr>tp_thread := h\<rparr>]\<rparr> else e, b)
                      | (None, e, b) \<Rightarrow> (Ret 0, e, b)
                 else (Ret 0, e, b)
         else (Ret 0, e, b))"

section \<open>Threads\<close>

text \<open>A new thread gets a TEB of its own when there is one to be had.\<close>

definition give_teb :: "'m guest_api \<Rightarrow> u32 \<Rightarrow> u32 \<Rightarrow> engine \<Rightarrow> 'm blink \<Rightarrow> engine \<times> 'm blink" where
  "give_teb api h t e b =
     (case wg_sched_find (sched e) h of
        None \<Rightarrow> (e, b)
      | Some i \<Rightarrow>
          let nt = threads (sched e) ! i;
              (tb, e, b) = wg_alloc_thread_teb api (stack_base nt + stack_size nt) (stack_base nt) t e b
          in (if tb \<noteq> 0 then e\<lparr>sched := update_thread (sched e) i (\<lambda>t. t\<lparr>teb := tb, regs := (regs t)\<lparr>tfs_base := tb\<rparr>\<rparr>)\<rparr>
              else e, b))"

text \<open>The part that \<open>CreateThread\<close>, \<open>_beginthreadex\<close> and \<open>_beginthread\<close> share: the thread, its id
  at \<open>tid_ptr\<close>, its TEB. The result is 0 when there is no thread.\<close>

definition start_thread ::
    "'m guest_api \<Rightarrow> bool \<Rightarrow> bool \<Rightarrow> u32 \<Rightarrow> u32 \<Rightarrow> u32 \<Rightarrow> u32 \<Rightarrow> engine \<Rightarrow> 'm blink \<Rightarrow> u32 \<times> engine \<times> 'm blink" where
  "start_thread api z ab start prm flags tid_ptr e b =
     (let (r, e, b) = new_thread api z ab start prm flags e b;
          (h, t) = (case r of Some ht \<Rightarrow> ht | None \<Rightarrow> (0, 0));
          b = (if tid_ptr \<noteq> 0 \<and> t \<noteq> 0 then write32 api tid_ptr t b else b)
      in if h \<noteq> 0 then let (e, b) = give_teb api h t e b in (h, e, b) else (0, e, b))"

text \<open>Without a thread, \<open>CreateThread\<close> and \<open>QueueUserWorkItem\<close> call the start function at once;
  their result is then that of the arming call, whose value they ignore.\<close>

definition call_sync :: "'m guest_api \<Rightarrow> call_frame \<Rightarrow> u64 \<Rightarrow> u32 \<Rightarrow> u32 \<Rightarrow> engine \<Rightarrow> 'm blink \<Rightarrow> 'm handled" where
  "call_sync api f nargs start prm e b =
     (let clean_rsp = ucast (frame_rsp f + ptr_size f + nargs * ptr_size f)
      in case wg_call_wndproc_ovr api start prm 0 0 0 (ucast (ret_addr f)) clean_rsp True 0x7100 e b of
           None \<Rightarrow> (Handled, e, b)
         | Some (e, b) \<Rightarrow> (Handled, e, b))"

definition h_CreateThread ::
    "'m guest_api \<Rightarrow> bool \<Rightarrow> bool \<Rightarrow> call_frame \<Rightarrow> engine \<Rightarrow> 'm blink \<Rightarrow> 'm handled" where
  "h_CreateThread api z ab f e b =
     (let args = fargs f; start = args ! 2; prm = args ! 3; flags = args ! 4;
          (h, e, b) = start_thread api z ab start prm flags (args ! 5) e b
      in if h \<noteq> 0 then (Ret (ucast h), e, b)
         else if start \<noteq> 0 \<and> is_32bit f \<and> flags AND 4 = 0 then call_sync api f 6 start prm e b
         else (Ret 0x7100, e, b))"

definition h_beginthreadex ::
    "'m guest_api \<Rightarrow> bool \<Rightarrow> bool \<Rightarrow> u32 list \<Rightarrow> engine \<Rightarrow> 'm blink \<Rightarrow> 'm handled" where
  "h_beginthreadex api z ab args e b =
     (let (h, e, b) = start_thread api z ab (args ! 2) (args ! 3) (args ! 4) (args ! 5) e b in (Ret (ucast h), e, b))"

definition h_beginthread ::
    "'m guest_api \<Rightarrow> bool \<Rightarrow> bool \<Rightarrow> u32 list \<Rightarrow> engine \<Rightarrow> 'm blink \<Rightarrow> 'm handled" where
  "h_beginthread api z ab args e b =
     (let (h, e, b) = start_thread api z ab (args ! 0) (args ! 2) 0 0 e b in (Ret (ucast h), e, b))"

definition h_QueueUserWorkItem ::
    "'m guest_api \<Rightarrow> bool \<Rightarrow> bool \<Rightarrow> call_frame \<Rightarrow> engine \<Rightarrow> 'm blink \<Rightarrow> 'm handled" where
  "h_QueueUserWorkItem api z ab f e b =
     (let func = fargs f ! 0; ctx = fargs f ! 1
      in if func = 0 then (Ret 0, e, b)
         else case new_thread api z ab func ctx 0 e b of
                (r, e, b) \<Rightarrow>
                  if (case r of Some (h, _) \<Rightarrow> h \<noteq> 0 | None \<Rightarrow> False) then (Ret 1, e, b)
                  else if is_32bit f then call_sync api f 3 func ctx e b
                  else (Ret 1, e, b))"

definition h_ResumeThread :: "u32 list \<Rightarrow> engine \<Rightarrow> 'm blink \<Rightarrow> 'm handled" where
  "h_ResumeThread args e b =
     (let (r, s) = resume_thread (sched e) (args ! 0) in (Ret (ucast r), e\<lparr>sched := s\<rparr>, b))"

definition h_GetExitCodeThread :: "'m guest_api \<Rightarrow> u32 list \<Rightarrow> engine \<Rightarrow> 'm blink \<Rightarrow> 'm handled" where
  "h_GetExitCodeThread api args e b =
     (let code = (case wg_sched_find (sched e) (args ! 0) of
                    Some i \<Rightarrow> let t = threads (sched e) ! i in if state t = WG_THREAD_EXITED then exit_code t else 259
                  | None \<Rightarrow> 0)
      in (Ret 1, e, if args ! 1 \<noteq> 0 then write32 api (args ! 1) code b else b))"

text \<open>A positive time: the call returns at once, with the thread ready, to whoever runs next.\<close>

definition h_Sleep :: "call_frame \<Rightarrow> u64 \<Rightarrow> engine \<Rightarrow> 'm blink \<Rightarrow> 'm handled" where
  "h_Sleep f nargs e b =
     (if 0 < fargs f ! 0
      then let b = wg_blink_set_reg b 4 (frame_rsp f + ptr_size f + nargs * ptr_size f);
               b = wg_blink_set_rip b (ret_addr f);
               b = wg_blink_set_reg b 0 0;
               (_, s, b) = wg_sched_yield (sched e) b WG_THREAD_READY
           in (Handled, e\<lparr>sched := s\<rparr>, b)
      else (Ret 0, e, b))"

definition h_ExitThread :: "u32 list \<Rightarrow> engine \<Rightarrow> 'm blink \<Rightarrow> 'm handled" where
  "h_ExitThread args e b =
     (let (s, b) = wg_sched_exit_thread (sched e) b (args ! 0)
      in (Handled, e\<lparr>sched := s\<rparr>, if wg_sched_current s \<noteq> None then b else wg_blink_set_rip b 0))"

section \<open>Messages and timers\<close>

definition msg_bytes :: "u32 list \<Rightarrow> u8 list" where
  "msg_bytes ws = concat (map (le_bytes 4) ws)"

definition h_PostThreadMessage :: "u32 list \<Rightarrow> engine \<Rightarrow> 'm blink \<Rightarrow> 'm handled" where
  "h_PostThreadMessage args e b =
     (Ret 1, e\<lparr>thread_msgs := tmsg_push \<lparr>m_tid = args ! 0, m_msg = args ! 1, m_wparam = args ! 2,
                                         m_lparam = args ! 3\<rparr> (thread_msgs e)\<rparr>, b)"

definition h_PeekMessage :: "'m guest_api \<Rightarrow> u32 list \<Rightarrow> engine \<Rightarrow> 'm blink \<Rightarrow> 'm handled ub" where
  "h_PeekMessage api args e b =
     (let t = wg_sched_current_tid (sched e); t = (if t = 0 then 1 else t)
      in if args ! 0 = 0 then Some (Ret 0, e, b)
         else do {
           p \<leftarrow> tmsg_pop t (thread_msgs e);
           Some (case p of
               None \<Rightarrow> (Ret 0, e, b)
             | Some (m, q) \<Rightarrow>
                 (Ret 1, e\<lparr>thread_msgs := q\<rparr>,
                  write_bytes api (args ! 0) (msg_bytes [0, m_msg m, m_wparam m, m_lparam m, 0, 0, 0]) b))
         })"

text \<open>\<open>hwnd\<close>, message and parameters that \<open>GetMessageW\<close> delivers when no message is queued.\<close>

definition idle_message :: "engine \<Rightarrow> u32 list" where
  "idle_message e = (if timer_active e then [timer_hwnd e, 0x0113, timer_id e, 0] else [0, 0, 0, 0])"

definition h_GetMessage :: "'m guest_api \<Rightarrow> call_frame \<Rightarrow> engine \<Rightarrow> 'm blink \<Rightarrow> 'm handled ub" where
  "h_GetMessage api f e b = do {
     p \<leftarrow> tmsg_pop (wg_sched_current_tid (sched e)) (thread_msgs e);
     let (ws, e) = (case p of
           Some (m, q) \<Rightarrow> ([0, m_msg m, m_wparam m, m_lparam m], e\<lparr>thread_msgs := q\<rparr>)
         | None \<Rightarrow> (idle_message e, e));
         b = (if fargs f ! 0 \<noteq> 0 then write_bytes api (fargs f ! 0) (msg_bytes (ws @ [0, 0, 0])) b else b);
         b = wg_blink_set_reg b 4 (frame_rsp f + ptr_size f + 4 * ptr_size f);
         b = wg_blink_set_rip b (ret_addr f);
         b = wg_blink_set_reg b 0 1;
         (switched, s, b) = wg_sched_yield (sched e) b WG_THREAD_READY
     in Some (Handled, e\<lparr>sched := s, estate := (if switched then WG_ENGINE_RUNNING else WG_ENGINE_PAUSED)\<rparr>, b)
   }"

definition h_SetTimer :: "u32 list \<Rightarrow> engine \<Rightarrow> 'm blink \<Rightarrow> 'm handled" where
  "h_SetTimer args e b =
     (Ret (if args ! 1 \<noteq> 0 then ucast (args ! 1) else 1),
      e\<lparr>timer_hwnd := args ! 0, timer_id := args ! 1, timer_active := True\<rparr>, b)"

definition h_KillTimer :: "u32 list \<Rightarrow> engine \<Rightarrow> 'm blink \<Rightarrow> 'm handled" where
  "h_KillTimer args e b = (Ret 1, if args ! 1 = timer_id e then e\<lparr>timer_active := False\<rparr> else e, b)"

section \<open>Thread-local storage\<close>

text \<open>The row of the current thread; row 0 when no thread is current.\<close>

definition own_row :: "engine \<Rightarrow> nat" where
  "own_row e = (case current (sched e) of None \<Rightarrow> 0 | Some c \<Rightarrow> c)"

definition slot_alloc :: "local_storage \<Rightarrow> u32 \<times> local_storage" where
  "slot_alloc l = (if slot_next l < 1088 then (slot_next l, l\<lparr>slot_next := slot_next l + 1\<rparr>) else (0xFFFFFFFF, l))"

definition slot_get :: "local_storage \<Rightarrow> nat \<Rightarrow> u32 \<Rightarrow> u32" where
  "slot_get l row i = (if i < 1088 then slot_values l ! row ! unat i else 0)"

definition slot_set :: "local_storage \<Rightarrow> nat \<Rightarrow> u32 \<Rightarrow> u32 \<Rightarrow> local_storage" where
  "slot_set l row i v =
     (if i < 1088 then l\<lparr>slot_values := (slot_values l)[row := (slot_values l ! row)[unat i := v]]\<rparr> else l)"

definition h_TlsAlloc :: "engine \<Rightarrow> 'm blink \<Rightarrow> 'm handled" where
  "h_TlsAlloc e b = (let (i, l) = slot_alloc (tls e) in (Ret (ucast i), e\<lparr>tls := l\<rparr>, b))"

definition h_TlsGetValue :: "u32 list \<Rightarrow> engine \<Rightarrow> 'm blink \<Rightarrow> 'm handled" where
  "h_TlsGetValue args e b = (Ret (ucast (slot_get (tls e) (own_row e) (args ! 0))), e\<lparr>last_error := 0\<rparr>, b)"

definition h_TlsSetValue :: "u32 list \<Rightarrow> engine \<Rightarrow> 'm blink \<Rightarrow> 'm handled" where
  "h_TlsSetValue args e b = (Ret 1, e\<lparr>tls := slot_set (tls e) (own_row e) (args ! 0) (args ! 1)\<rparr>, b)"

definition h_FlsAlloc :: "engine \<Rightarrow> 'm blink \<Rightarrow> 'm handled" where
  "h_FlsAlloc e b = (let (i, l) = slot_alloc (fls e) in (Ret (ucast i), e\<lparr>fls := l\<rparr>, b))"

definition h_FlsGetValue :: "u32 list \<Rightarrow> engine \<Rightarrow> 'm blink \<Rightarrow> 'm handled" where
  "h_FlsGetValue args e b = (Ret (ucast (slot_get (fls e) (own_row e) (args ! 0))), e\<lparr>last_error := 0\<rparr>, b)"

definition h_FlsSetValue :: "u32 list \<Rightarrow> engine \<Rightarrow> 'm blink \<Rightarrow> 'm handled" where
  "h_FlsSetValue args e b = (Ret 1, e\<lparr>fls := slot_set (fls e) (own_row e) (args ! 0) (args ! 1)\<rparr>, b)"

section \<open>The call\<close>

text \<open>The branches of the dispatch that are modelled; \<open>None\<close> for a name that belongs to another
  branch. \<open>dflt\<close> is the default result of the stub.\<close>

definition sync_call ::
    "'m guest_api \<Rightarrow> bool \<Rightarrow> bool \<Rightarrow> string \<Rightarrow> u64 \<Rightarrow> call_frame \<Rightarrow> engine \<Rightarrow> 'm blink \<Rightarrow> 'm handled ub option" where
  "sync_call api z ab fn dflt f e b =
     (let args = fargs f in
      if fn = ''SetTimer'' then Some (Some (h_SetTimer args e b))
      else if fn = ''KillTimer'' then Some (Some (h_KillTimer args e b))
      else if fn = ''PostThreadMessageW'' \<or> fn = ''PostThreadMessageA'' then Some (Some (h_PostThreadMessage args e b))
      else if fn = ''GetMessageW'' \<or> fn = ''GetMessageA'' then Some (h_GetMessage api f e b)
      else if fn = ''PeekMessageW'' then Some (h_PeekMessage api args e b)
      else if fn = ''TlsAlloc'' then Some (Some (h_TlsAlloc e b))
      else if fn = ''TlsGetValue'' then Some (Some (h_TlsGetValue args e b))
      else if fn = ''TlsSetValue'' then Some (Some (h_TlsSetValue args e b))
      else if fn = ''TlsFree'' then Some (Some (Ret 1, e, b))
      else if fn = ''FlsAlloc'' then Some (Some (h_FlsAlloc e b))
      else if fn = ''FlsGetValue'' then Some (Some (h_FlsGetValue args e b))
      else if fn = ''FlsSetValue'' then Some (Some (h_FlsSetValue args e b))
      else if fn = ''FlsFree'' then Some (Some (Ret 1, e, b))
      else if fn = ''CreateEventA'' \<or> fn = ''CreateEventW'' then Some (Some (h_CreateEvent args e b))
      else if fn = ''SetEvent'' then Some (Some (h_SetEvent args e b))
      else if fn = ''ResetEvent'' then Some (Some (h_ResetEvent args e b))
      else if fn = ''CreateIoCompletionPort'' then Some (Some (h_CreateIoCompletionPort args e b))
      else if fn = ''GetQueuedCompletionStatus'' then Some (Some (h_GetQueuedCompletionStatus api False args e b))
      else if fn = ''GetQueuedCompletionStatusEx'' then Some (Some (h_GetQueuedCompletionStatus api True args e b))
      else if fn = ''PostQueuedCompletionStatus'' then Some (Some (h_PostQueuedCompletionStatus args e b))
      else if fn = ''CreateThreadpoolWork'' then Some (Some (h_CreateThreadpoolWork args e b))
      else if fn = ''SubmitThreadpoolWork'' then Some (Some (h_SubmitThreadpoolWork api z ab args e b))
      else if fn = ''WaitForSingleObject'' then Some (Some (h_WaitForSingleObject args e b))
      else if fn = ''WaitForMultipleObjects'' \<or> fn = ''WaitForMultipleObjectsEx'' \<or>
          fn = ''MsgWaitForMultipleObjects'' \<or> fn = ''MsgWaitForMultipleObjectsEx''
        then Some (Some (h_WaitForMultipleObjects api args e b))
      else if fn = ''CreateMutexW'' \<or> fn = ''CreateMutexA'' then Some (Some (h_CreateMutex dflt e b))
      else if fn = ''OpenMutexW'' \<or> fn = ''OpenMutexA'' then Some (Some (h_OpenMutex e b))
      else if fn = ''ReleaseMutex'' then Some (Some (Ret 1, e, b))
      else if fn = ''CreateThread'' then Some (Some (h_CreateThread api z ab f e b))
      else if fn = ''_beginthreadex'' then Some (Some (h_beginthreadex api z ab args e b))
      else if fn = ''_beginthread'' then Some (Some (h_beginthread api z ab args e b))
      else if fn = ''QueueUserWorkItem'' then Some (Some (h_QueueUserWorkItem api z ab f e b))
      else if fn = ''WaitForSingleObjectEx'' then Some (Some (h_WaitForSingleObject args e b))
      else if fn = ''ResumeThread'' then Some (Some (h_ResumeThread args e b))
      else if fn = ''GetExitCodeThread'' then Some (Some (h_GetExitCodeThread api args e b))
      else if fn = ''Sleep'' then Some (Some (h_Sleep f 1 e b))
      else if fn = ''SleepEx'' then Some (Some (h_Sleep f 2 e b))
      else if fn = ''ExitThread'' then Some (Some (h_ExitThread args e b))
      else None)"

section \<open>The engine's own steps\<close>

text \<open>The beginning of \<open>wg_engine_tick\<close>: a paused engine runs a thread that is ready.\<close>

definition tick_unpause :: "engine \<Rightarrow> 'm blink \<Rightarrow> engine \<times> 'm blink" where
  "tick_unpause e b =
     (if estate e = WG_ENGINE_PAUSED \<and> (\<exists>t \<in> set (threads (sched e)). state t = WG_THREAD_READY)
      then let s = wg_sched_save_current (sched e) b WG_THREAD_WAITING;
               (switched, s, b) = wg_sched_switch_next s b
           in (e\<lparr>sched := s, estate := (if switched then WG_ENGINE_RUNNING else estate e)\<rparr>, b)
      else (e, b))"

definition wg_engine_resume :: "engine \<Rightarrow> engine" where
  "wg_engine_resume e = (if estate e = WG_ENGINE_PAUSED then e\<lparr>estate := WG_ENGINE_RUNNING\<rparr> else e)"

definition wg_engine_stop :: "engine \<Rightarrow> engine" where
  "wg_engine_stop e = (if estate e = WG_ENGINE_RUNNING then e\<lparr>estate := WG_ENGINE_STOPPED\<rparr> else e)"

end
