(* ===== verification/EngineStateOk.thy ===== *)
theory EngineStateOk
  imports EngineState ThreadsOk
begin

text \<open>
  Calls into the guest return to their caller with its registers, innermost first; the guest heap
  hands out disjoint blocks; a call that ends at the common end returns behind its arguments.
\<close>

section \<open>What the thread environment blocks change\<close>

text \<open>Whatever an allocation on the guest heap keeps, these keep.\<close>

lemma tls_block_rule:
  assumes alloc: "\<And>n e b a e' b'. P e \<Longrightarrow> wg_guest_alloc api n e b = (a, e', b') \<Longrightarrow> P e'"
    and "P e" and "tls_block api dir arr e b = (x, e', b')"
  shows "P e'"
  using assms by (auto simp: tls_block_def Let_def split: prod.splits)

lemma thread_teb_rule:
  assumes alloc: "\<And>n e b a e' b'. P e \<Longrightarrow> wg_guest_alloc api n e b = (a, e', b') \<Longrightarrow> P e'"
    and e: "P e" and r: "wg_alloc_thread_teb api hi lo t e b = (tb, e', b')"
  shows "P e'"
proof (cases "\<exists>pe. pe_img e = Some pe \<and> \<not> is_64bit pe \<and> main_teb e \<noteq> 0")
  case False
  then show ?thesis using e r by (auto simp: wg_alloc_thread_teb_def split: option.splits)
next
  case True
  then obtain pe where pe: "pe_img e = Some pe" "\<not> is_64bit pe" "main_teb e \<noteq> 0" by blast
  obtain t1 e1 b1 where a1: "wg_guest_alloc api 0x1000 e b = (t1, e1, b1)" by (metis prod_cases3)
  obtain t2 e2 b2 where a2: "wg_guest_alloc api 0x400 e1 b1 = (t2, e2, b2)" by (metis prod_cases3)
  have e2: "P e2" by (rule alloc [OF alloc [OF e a1] a2])
  show ?thesis
  proof (cases "t1 = 0 \<or> t2 = 0 \<or> tls_rva pe = 0")
    case True
    then show ?thesis using r pe e2 by (auto simp: wg_alloc_thread_teb_def a1 a2 Let_def split: if_splits)
  next
    case False
    with r pe obtain dir b3 x where "tls_block api dir t2 e2 b3 = (x, e', b')"
      by (auto simp: wg_alloc_thread_teb_def a1 a2 Let_def split: prod.splits) (metis prod.collapse)
    from tls_block_rule [of P, OF alloc e2 this] show ?thesis .
  qed
qed

lemma setup_teb_rule:
  assumes alloc: "\<And>n e b a e' b'. P e \<Longrightarrow> wg_guest_alloc api n e b = (a, e', b') \<Longrightarrow> P e'"
    and teb: "\<And>e t. P e \<Longrightarrow> P (e\<lparr>main_teb := t\<rparr>)"
    and e: "P e" and r: "wg_setup_win32_teb api e b = (e', b')"
  shows "P e'"
proof (cases "\<exists>pe. pe_img e = Some pe \<and> \<not> is_64bit pe")
  case False
  then show ?thesis using e r by (auto simp: wg_setup_win32_teb_def split: option.splits)
next
  case True
  then obtain pe where pe: "pe_img e = Some pe" "\<not> is_64bit pe" by blast
  obtain t1 e1 b1 where a1: "wg_guest_alloc api 0x1000 e b = (t1, e1, b1)" by (metis prod_cases3)
  obtain t2 e2 b2 where a2: "wg_guest_alloc api 0x1000 e1 b1 = (t2, e2, b2)" by (metis prod_cases3)
  obtain t3 e3 b3 where a3: "wg_guest_alloc api 0x400 e2 b2 = (t3, e3, b3)" by (metis prod_cases3)
  have e3: "P e3" by (rule alloc [OF alloc [OF alloc [OF e a1] a2] a3])
  show ?thesis
  proof (cases "t1 = 0 \<or> t2 = 0 \<or> t3 = 0 \<or> tls_rva pe = 0")
    case True
    then show ?thesis using r pe e3 by (auto simp: wg_setup_win32_teb_def a1 a2 a3 Let_def intro: teb split: if_splits)
  next
    case False
    have "\<exists>bb. wg_setup_win32_teb api e b =
        (case (case tls_block api (ucast (image_base pe) + tls_rva pe) t3 e3 bb of
             (x, e4, b4) \<Rightarrow> (e4, if x \<noteq> 0 then write32 api x 0 b4 else b4)) of
           (e4, b4) \<Rightarrow> (e4\<lparr>main_teb := t1\<rparr>, wg_blink_set_fs_base b4 (ucast t1)))"
      using pe False by (simp add: wg_setup_win32_teb_def a1 a2 a3 Let_def) (rule exI, rule refl)
    then obtain bb where bb: "wg_setup_win32_teb api e b =
        (case (case tls_block api (ucast (image_base pe) + tls_rva pe) t3 e3 bb of
             (x, e4, b4) \<Rightarrow> (e4, if x \<noteq> 0 then write32 api x 0 b4 else b4)) of
           (e4, b4) \<Rightarrow> (e4\<lparr>main_teb := t1\<rparr>, wg_blink_set_fs_base b4 (ucast t1)))" by blast
    obtain x e4 b4 where t: "tls_block api (ucast (image_base pe) + tls_rva pe) t3 e3 bb = (x, e4, b4)"
      by (metis prod_cases3)
    have "P e4" by (rule tls_block_rule [of P, OF alloc e3 t])
    with teb [of e4 t1] r bb t show ?thesis by auto
  qed
qed

section \<open>Calls into the guest\<close>

interpretation calls: lifo push_call pop_call
    "\<lambda>e n. if n \<le> length (callstack e) then Some (take n (rev (callstack e))) else None" "\<lambda>_ k n. n + k \<le> 64"
proof (unfold_locales, goal_cases)
  case (3 e n v ws)
  then have n: "Suc n \<le> length (callstack e)" "take (Suc n) (rev (callstack e)) = v # ws" by (auto split: if_splits)
  then obtain fr cs where cs: "callstack e = cs @ [fr]" by (cases "callstack e" rule: rev_cases) auto
  with n show ?case by (simp add: pop_call_def)
qed (auto simp: push_call_def split: if_splits)

lemma push_list_callstack: "push_list push_call frs e = Some e' \<Longrightarrow> callstack e' = callstack e @ frs"
  by (induction frs arbitrary: e) (auto simp: push_call_def split: bind_splits if_splits)

lemma pop_list_callstack:
  "pop_list pop_call n e = Some (frs, e') \<Longrightarrow> callstack e' = take (length (callstack e) - n) (callstack e)"
proof (induction n arbitrary: e frs)
  case (Suc n)
  from Suc.prems obtain fr e1 frs1 where p: "pop_call e = Some (fr, e1)" "pop_list pop_call n e1 = Some (frs1, e')"
    by (auto split: bind_splits)
  then have "callstack e1 = butlast (callstack e)" by (auto simp: pop_call_def split: if_splits)
  with Suc.IH [OF p(2)] p(1) show ?case by (cases "callstack e" rule: rev_cases) (auto simp: pop_call_def)
qed simp

lemma restore_saved_Some: "\<exists>v'. restore_saved vs k (Some v) = Some v' \<and> ip v' = ip v \<and> gmem v' = gmem v"
proof (induction vs arbitrary: k v)
  case (Cons x vs)
  show ?case
    using Cons.IH [of "Suc k" v] Cons.IH [of "Suc k" "WGBlinkVM_SetReg v (int k) x"]
    by (auto simp: wg_blink_set_reg_def WGBlinkVM_SetReg_def)
qed simp

lemma restore_saved_get:
  "0 < k \<Longrightarrow> k + length vs = 16 \<Longrightarrow> i < 16 \<Longrightarrow> i \<noteq> 4 \<Longrightarrow>
   wg_blink_get_reg (restore_saved vs k (Some v)) (int i) =
     (if k \<le> i then vs ! (i - k) else wg_blink_get_reg (Some v) (int i))"
proof (induction vs arbitrary: k v)
  case (Cons x vs)
  let ?b = "if k = 4 then Some v else wg_blink_set_reg (Some v) (int k) x"
  obtain w where w: "?b = Some w" by (cases ?b) (auto simp: wg_blink_set_reg_def split: if_splits)
  have g: "wg_blink_get_reg (Some w) (int i) = (if i = k then x else wg_blink_get_reg (Some v) (int i))"
    using w Cons.prems blink_reg_same [of "int i" v x] blink_reg_other [of "int k" "int i" "Some v" x]
    by (auto split: if_splits)
  have "restore_saved (x # vs) k (Some v) = restore_saved vs (Suc k) (Some w)" using w by simp
  moreover have "wg_blink_get_reg (restore_saved vs (Suc k) (Some w)) (int i) =
      (if Suc k \<le> i then vs ! (i - Suc k) else wg_blink_get_reg (Some w) (int i))"
    by (rule Cons.IH) (use Cons.prems in simp_all)
  ultimately show ?case using g by (auto simp: nth_Cons' not_less_eq_eq)
qed simp

text \<open>What the machine is when the caller goes on.\<close>

lemma resume_caller_view:
  assumes "length (pc_saved_regs pc) = 16"
  shows "wg_blink_get_rip (resume_caller pc (Some v)) = ucast (pc_ret_addr pc)"
    and "wg_blink_get_reg (resume_caller pc (Some v)) 4 = ucast (pc_ret_rsp pc)"
    and "wg_blink_get_reg (resume_caller pc (Some v)) 0 =
      ucast (if pc_ovr pc then pc_ovr_eax pc else ucast (wg_blink_get_reg (Some v) 0) :: u32)"
    and "i < 16 \<Longrightarrow> i \<noteq> 0 \<Longrightarrow> i \<noteq> 4 \<Longrightarrow>
      wg_blink_get_reg (resume_caller pc (Some v)) (int i) = pc_saved_regs pc ! i"
proof -
  obtain w where w: "restore_saved (tl (pc_saved_regs pc)) 1 (Some v) = Some w"
    using restore_saved_Some by blast
  define r where "r = (if pc_ovr pc then pc_ovr_eax pc else ucast (wg_blink_get_reg (Some v) 0) :: u32)"
  define b1 where "b1 = wg_blink_set_reg (Some w) 4 (ucast (pc_ret_rsp pc))"
  have eq: "resume_caller pc (Some v) = wg_blink_set_reg (wg_blink_set_rip b1 (ucast (pc_ret_addr pc))) 0 (ucast r)"
    by (simp add: resume_caller_def Let_def w r_def b1_def del: One_nat_def)
  obtain x where x: "b1 = Some x" by (auto simp: b1_def wg_blink_set_reg_def)
  show "wg_blink_get_rip (resume_caller pc (Some v)) = ucast (pc_ret_addr pc)"
    by (simp add: eq x wg_blink_get_rip_def wg_blink_set_reg_def wg_blink_set_rip_def WGBlinkVM_SetReg_def)
  have get: "wg_blink_get_reg (wg_blink_set_rip b1 (ucast (pc_ret_addr pc))) j = wg_blink_get_reg b1 j" for j
    by (simp add: x wg_blink_get_reg_def wg_blink_set_rip_def WGBlinkVM_GetReg_def)
  show "wg_blink_get_reg (resume_caller pc (Some v)) 4 = ucast (pc_ret_rsp pc)"
    by (simp add: eq blink_reg_other get) (simp add: b1_def blink_reg_same)
  show "wg_blink_get_reg (resume_caller pc (Some v)) 0 = ucast r"
    by (simp add: eq x wg_blink_set_rip_def blink_reg_same)
  show "wg_blink_get_reg (resume_caller pc (Some v)) (int i) = pc_saved_regs pc ! i"
    if i: "i < 16" "i \<noteq> 0" "i \<noteq> 4"
  proof -
    have "wg_blink_get_reg (resume_caller pc (Some v)) (int i) = wg_blink_get_reg (Some w) (int i)"
      using i by (simp add: eq blink_reg_other get) (simp add: b1_def blink_reg_other)
    also have "\<dots> = tl (pc_saved_regs pc) ! (i - 1)"
      using restore_saved_get [of 1 "tl (pc_saved_regs pc)" i v] assms i by (simp add: w del: One_nat_def)
    also have "\<dots> = pc_saved_regs pc ! i" using assms i by (cases "pc_saved_regs pc") (auto simp: nth_Cons')
    finally show ?thesis .
  qed
qed

text \<open>The machine when a call is armed: at the procedure, with its four arguments on the stack.\<close>

lemma call_armed:
  assumes "wg_call_wndproc_ovr api proc hwnd msg wp lp ret rsp ovr ov e (Some v) = Some (e1, b1)"
  shows "wg_blink_get_rip b1 = ucast proc" and "wg_blink_get_reg b1 4 = ucast (rsp - 20)"
    and "wg_blink_get_reg b1 0 = 0"
    and "\<exists>fr. push_call fr e = Some e1 \<and> pc_ret_addr fr = ret \<and> pc_ret_rsp fr = rsp \<and> pc_ovr fr = ovr \<and>
      pc_ovr_eax fr = ov \<and> pc_saved_regs fr = map (\<lambda>i. wg_blink_get_reg (Some v) (int i)) [0..<16]"
  using assms
  by (auto simp: wg_call_wndproc_ovr_def Let_def write_bytes_def wg_blink_write_mem_def WGBlinkVM_WriteMem_def
      wg_blink_set_reg_def wg_blink_set_rip_def wg_blink_get_rip_def wg_blink_get_reg_def WGBlinkVM_SetReg_def
      WGBlinkVM_GetReg_def split: if_splits option.splits)

text \<open>Whatever the procedure does to the machine, and whatever the engine does meanwhile but for
  the pending calls: when it returns, the caller finds itself behind its call, with its stack
  pointer, its registers, and the result.\<close>

text \<open>C5: A call of the engine into a guest procedure returns behind the interrupted call with its stack pointer, its registers and the procedure's result or the one that overrides it, whatever the procedure does to the machine.\<close>

theorem wndproc_roundtrip:
  assumes "wg_call_wndproc_ovr api proc hwnd msg wp lp ret rsp ovr ov e (Some v) = Some (e1, b1)"
    and "callstack e2 = callstack e1" and "sendmsg_return e2 (Some w) = (e3, b3)"
  shows "callstack e3 = callstack e \<and> wg_blink_get_rip b3 = ucast ret \<and> wg_blink_get_reg b3 4 = ucast rsp \<and>
    wg_blink_get_reg b3 0 = (if ovr then ucast ov else wg_blink_get_reg (Some w) 0 AND mask 32) \<and>
    (\<forall>i \<in> {1..15} - {4}. wg_blink_get_reg b3 (int i) = wg_blink_get_reg (Some v) (int i))"
proof -
  from call_armed(4) [OF assms(1)] obtain fr where fr: "push_call fr e = Some e1" "pc_ret_addr fr = ret"
    "pc_ret_rsp fr = rsp" "pc_ovr fr = ovr" "pc_ovr_eax fr = ov"
    "pc_saved_regs fr = map (\<lambda>i. wg_blink_get_reg (Some v) (int i)) [0..<16]" by blast
  from fr(1) have "callstack e2 = callstack e @ [fr]" using assms(2) by (auto simp: push_call_def split: if_splits)
  with assms(3) have e3: "callstack e3 = callstack e" and b3: "b3 = resume_caller fr (Some w)"
    by (auto simp: sendmsg_return_def pop_call_def)
  have l: "length (pc_saved_regs fr) = 16" by (simp add: fr(6))
  have "wg_blink_get_reg b3 (int i) = wg_blink_get_reg (Some v) (int i)" if "i \<in> {1..15} - {4}" for i
    using resume_caller_view(4) [OF l, of i w] that fr(6) by (auto simp: b3 simp del: upt_Suc)
  then show ?thesis
    using resume_caller_view(1-3) [OF l, of w] fr e3 by (simp add: b3 ucast_32_mask)
qed

text \<open>Nested calls: the first result is what each return does to the machine it finds.\<close>

fun returns :: "'m vm list \<Rightarrow> engine \<Rightarrow> 'm blink list \<times> engine" where
  "returns [] e = ([], e)"
| "returns (v # vs) e =
     (case sendmsg_return e (Some v) of (e, b) \<Rightarrow> case returns vs e of (bs, e) \<Rightarrow> (b # bs, e))"

lemma returns_pop:
  "pop_list pop_call (length vs) e = Some (frs, e') \<Longrightarrow>
     returns vs e = (map2 (\<lambda>fr v. resume_caller fr (Some v)) frs vs, e')"
proof (induction vs arbitrary: e frs)
  case (Cons v vs)
  then obtain fr e1 frs1 where "pop_call e = Some (fr, e1)" "pop_list pop_call (length vs) e1 = Some (frs1, e')"
    "frs = fr # frs1" by (auto split: bind_splits)
  with Cons.IH [of e1 frs1] show ?case by (simp add: sendmsg_return_def)
qed simp

text \<open>The calls \<open>(ret, rsp, v)\<close>, armed one inside the other from the machine states \<open>v\<close>.\<close>

definition arm_call :: "'m guest_api \<Rightarrow> u32 \<Rightarrow> u32 \<times> u32 \<times> 'm vm \<Rightarrow> engine \<Rightarrow> engine option" where
  "arm_call api proc c e = (case c of (ret, rsp, v) \<Rightarrow>
     map_option fst (wg_call_wndproc api proc 0 0 0 0 ret rsp e (Some v)))"

definition frame_of :: "u32 \<times> u32 \<times> 'm vm \<Rightarrow> WGPendingCall" where
  "frame_of c = (case c of (ret, rsp, v) \<Rightarrow>
     \<lparr>pc_ret_addr = ret, pc_ret_rsp = rsp, pc_ovr_eax = 0, pc_ovr = False,
      pc_saved_regs = map (\<lambda>i. wg_blink_get_reg (Some v) (int i)) [0..<16]\<rparr>)"

lemma arm_call_push: "proc \<noteq> 0 \<Longrightarrow> arm_call api proc c e = push_call (frame_of c) e"
  by (cases c) (auto simp: arm_call_def frame_of_def wg_call_wndproc_def wg_call_wndproc_ovr_def Let_def
      split: option.split)

lemma arm_list_push:
  "proc \<noteq> 0 \<Longrightarrow> push_list (arm_call api proc) cs e = push_list push_call (map frame_of cs) e"
proof (induction cs arbitrary: e)
  case (Cons c cs)
  then show ?case by (cases "push_call (frame_of c) e") (simp_all add: arm_call_push)
qed simp

text \<open>Nested calls return innermost first, each to its own caller.\<close>

theorem nested_calls_return:
  assumes proc: "proc \<noteq> 0" and armed: "push_list (arm_call api proc) cs e = Some e'"
    and room: "length (callstack e) + length cs \<le> 64" and vs: "length vs = length cs"
  shows "map (\<lambda>b. (wg_blink_get_rip b, wg_blink_get_reg b 4)) (fst (returns vs e')) =
      rev (map (\<lambda>(ret, rsp, _). (ucast ret, ucast rsp)) cs) \<and>
    callstack (snd (returns vs e')) = callstack e"
proof -
  let ?n = "length (callstack e)"
  from armed proc have p: "push_list push_call (map frame_of cs) e = Some e'" by (simp add: arm_list_push)
  from calls.push_pop_list [OF p, of 0 "[]"] room obtain e''
    where e'': "pop_list pop_call (length cs) e' = Some (rev (map frame_of cs), e'')" by auto
  have cs'': "callstack e'' = callstack e"
    using pop_list_callstack [OF e''] push_list_callstack [OF p] by simp
  have r: "returns vs e' = (map2 (\<lambda>fr v. resume_caller fr (Some v)) (rev (map frame_of cs)) vs, e'')"
    by (rule returns_pop) (use e'' vs in simp)
  have "map (\<lambda>b. (wg_blink_get_rip b, wg_blink_get_reg b 4)) (fst (returns vs e')) =
      rev (map (\<lambda>(ret, rsp, _). (ucast ret, ucast rsp)) cs)"
  proof (rule nth_equalityI)
    fix i assume i: "i < length (map (\<lambda>b. (wg_blink_get_rip b, wg_blink_get_reg b 4)) (fst (returns vs e')))"
    then have i': "i < length cs" by (simp add: r vs)
    obtain ret rsp v where c: "rev cs ! i = (ret, rsp, v)" by (cases "rev cs ! i")
    have f: "rev (map frame_of cs) ! i = frame_of (ret, rsp, v)" using i' c by (simp only: rev_map nth_map length_rev)
    have g: "rev (map (\<lambda>(ret, rsp, _). (ucast ret :: u64, ucast rsp :: u64)) cs) ! i = (ucast ret, ucast rsp)"
      using i' c by (simp only: rev_map nth_map length_rev prod.case)
    show "map (\<lambda>b. (wg_blink_get_rip b, wg_blink_get_reg b 4)) (fst (returns vs e')) ! i =
        rev (map (\<lambda>(ret, rsp, _). (ucast ret, ucast rsp)) cs) ! i"
      using i' resume_caller_view(1,2) [of "frame_of (ret, rsp, v)" "vs ! i"]
      by (simp add: r vs f g frame_of_def del: upt_Suc)
  qed (simp add: r vs)
  with cs'' r show ?thesis by simp
qed

end
