(* ===== verification/EngineQueuesOk.thy ===== *)
theory EngineQueuesOk
  imports EngineQueues
begin

text \<open>
  The queues and rings of the engine meet their contracts: the completion queue and the thread
  messages refine bounded lists, the font table finds the last 64 fonts, and the crash report
  lists the last 256 calls.
\<close>

section \<open>The completion queue\<close>

lemma ring_wf_no_completions: "ring_wf 64 no_completions" "ring_items 64 no_completions = []"
  by (simp_all add: ring_wf_def no_completions_def WG_MAX_COMPLETIONS_def ring_items_def ring_length_def)

text \<open>Both queues put an entry the same way.\<close>

lemma ring_put_step:
  fixes r :: "'e ring" and e :: 'e
  assumes wf: "ring_wf 64 r"
  defines "r' \<equiv> (if Suc (rtail r) mod 64 = rhead r then r
      else r\<lparr>cells := (cells r)[rtail r := e], rtail := Suc (rtail r) mod 64\<rparr>)"
  shows "ring_wf 64 r' \<and> ring_items 64 r' = list_put 63 e (ring_items 64 r)"
proof (cases "Suc (rtail r) mod 64 = rhead r")
  case True
  then have "Suc (ring_length 64 r) = 64" using ring_full [OF wf] by simp
  with True wf show ?thesis by (simp add: r'_def list_put_def)
next
  case False
  then have "Suc (ring_length 64 r) < 64" using ring_full [OF wf] ring_length_less [OF wf] by simp
  with ring_put [OF wf this, of e] False show ?thesis by (simp add: r'_def list_put_def)
qed

interpretation iocp: keyed_queue "ring_items 64" "ring_wf 64" 63 "\<lambda>(_ :: unit) _. True" iocp_post "\<lambda>_. iocp_get"
proof
  fix r :: "WGCompletion ring" and e e' r' and k :: unit
  assume wf: "ring_wf 64 r"
  from ring_put_step [OF wf, of e] show "ring_wf 64 (iocp_post e r)"
    and "ring_items 64 (iocp_post e r) = list_put 63 e (ring_items 64 r)"
    by (simp_all add: iocp_post_def WG_MAX_COMPLETIONS_def Let_def)
  show "iocp_get r = Some (e', r') \<Longrightarrow> ring_wf 64 r'"
    using wf by (auto simp: iocp_get_def WG_MAX_COMPLETIONS_def ring_wf_def split: if_splits)
  show "map_option (map_prod id (ring_items 64)) (iocp_get r) = list_take (\<lambda>_ _. True) k (ring_items 64 r)"
  proof (cases "rhead r = rtail r")
    case True
    then have "ring_items 64 r = []" using ring_empty [OF wf] by (simp add: ring_items_def)
    with True show ?thesis by (simp add: iocp_get_def)
  next
    case False
    then have "0 < ring_length 64 r" using ring_empty [OF wf] by simp
    from ring_get(2) [OF wf this] False show ?thesis by (simp add: iocp_get_def WG_MAX_COMPLETIONS_def)
  qed
qed

section \<open>Thread messages\<close>

lemma ring_wf_no_msgs: "ring_wf 64 no_msgs" "ring_items 64 no_msgs = []"
  by (simp_all add: ring_wf_def no_msgs_def WG_MAX_THREAD_MSGS_def ring_items_def ring_length_def)

text \<open>The search from entry \<open>p\<close> of a queue of \<open>n\<close> entries on.\<close>

lemma search_from:
  assumes "h < 64" and "n < 64" and "p \<le> n" and "tail = (h + n) mod 64"
  shows "tmsg_search ms t tail ((h + p) mod 64) =
    Some (map_option (\<lambda>q. (h + (p + q)) mod 64)
      (find_index (\<lambda>i. m_tid (ms ! ((h + i) mod 64)) = t) [p..<n]))"
  using assms(3)
proof (induction "n - p" arbitrary: p)
  case 0
  then show ?case using assms(4) by (simp add: tmsg_search.simps)
next
  case (Suc d)
  then have p: "p < n" by simp
  have ne: "(h + p) mod 64 \<noteq> tail" using shifted_mod_inj [of h 64 p n] assms p by simp
  have lt: "(h + p) mod 64 < 64" "tail < 64" using assms(4) by simp_all
  have step: "(((h + p) mod 64) + 1) mod 64 = (h + Suc p) mod 64" by (simp add: mod_simps)
  have IH: "tmsg_search ms t tail ((h + Suc p) mod 64) =
    Some (map_option (\<lambda>q. (h + (Suc p + q)) mod 64)
      (find_index (\<lambda>i. m_tid (ms ! ((h + i) mod 64)) = t) [Suc p..<n]))"
    by (rule Suc.hyps(1)) (use Suc.hyps(2) p in simp_all)
  show ?case
    unfolding tmsg_search.simps [of ms t tail "(h + p) mod 64"] upt_conv_Cons [OF p] step IH
    using ne lt by (simp add: option.map_comp comp_def)
qed

text \<open>The compaction: the entries behind \<open>q\<close> move down by one.\<close>

lemma compact_from:
  assumes "h < 64" and "n < 64" and "q < n" and "tail = (h + n) mod 64" and "length ms = 64"
  shows "\<exists>ms'. tmsg_compact tail ((h + q) mod 64) ms = Some ms' \<and> length ms' = 64 \<and>
    (\<forall>i < n - 1. ms' ! ((h + i) mod 64) = ms ! ((h + (if i < q then i else Suc i)) mod 64))"
  using assms(3,5)
proof (induction "n - Suc q" arbitrary: q ms)
  case 0
  then have "Suc q = n" by simp
  then have "((h + q) mod 64 + 1) mod 64 = tail" "n - 1 = q" using assms(4) by (auto simp: mod_simps)
  with 0 show ?case by (subst tmsg_compact.simps) auto
next
  case (Suc d)
  then have q: "Suc q < n" by simp
  have step: "((h + q) mod 64 + 1) mod 64 = (h + Suc q) mod 64" by (simp add: mod_simps)
  have ne: "(h + Suc q) mod 64 \<noteq> tail" using shifted_mod_inj [of h 64 "Suc q" n] assms q by simp
  have lt: "(h + q) mod 64 < 64" "tail < 64" using assms(4) by simp_all
  let ?ms = "ms[(h + q) mod 64 := ms ! ((h + Suc q) mod 64)]"
  have "\<exists>ms'. tmsg_compact tail ((h + Suc q) mod 64) ?ms = Some ms' \<and> length ms' = 64 \<and>
    (\<forall>i < n - 1. ms' ! ((h + i) mod 64) = ?ms ! ((h + (if i < Suc q then i else Suc i)) mod 64))"
    by (rule Suc.hyps(1)) (use Suc.hyps(2) Suc.prems q in simp_all)
  then obtain ms' where ms': "tmsg_compact tail ((h + Suc q) mod 64) ?ms = Some ms'" "length ms' = 64"
    "\<And>i. i < n - 1 \<Longrightarrow> ms' ! ((h + i) mod 64) = ?ms ! ((h + (if i < Suc q then i else Suc i)) mod 64)" by blast
  have "ms' ! ((h + i) mod 64) = ms ! ((h + (if i < q then i else Suc i)) mod 64)" if i: "i < n - 1" for i
  proof (cases "i = q")
    case True
    then show ?thesis using ms'(3) [OF i] lt Suc.prems(2) by simp
  next
    case False
    let ?k = "if i < q then i else Suc i"
    have k: "?k < n" "?k \<noteq> q" "(if i < Suc q then i else Suc i) = ?k" using False i by auto
    have "?ms ! ((h + ?k) mod 64) = ms ! ((h + ?k) mod 64)"
      using shifted_mod_inj [of h 64 q ?k] assms(1,2) Suc.prems(1) k(1,2) by (simp only: nth_list_update_neq)
    with ms'(3) [OF i] k(3) show ?thesis by (simp only:)
  qed
  moreover have "tmsg_compact tail ((h + q) mod 64) ms = Some ms'"
    by (subst tmsg_compact.simps) (use ne lt ms'(1) in \<open>simp add: Let_def step del: One_nat_def\<close>)
  ultimately show ?case using ms'(2) by blast
qed

text \<open>One pop: the oldest message for the thread is taken out, the others keep their order.\<close>

lemma tmsg_pop_spec:
  assumes wf: "ring_wf 64 r"
  shows "\<exists>p. tmsg_pop t r = Some p \<and> (\<forall>m r'. p = Some (m, r') \<longrightarrow> ring_wf 64 r') \<and>
    map_option (map_prod id (ring_items 64)) p = list_take (\<lambda>t m. m_tid m = t) t (ring_items 64 r)"
proof -
  let ?n = "ring_length 64 r" and ?h = "rhead r"
  let ?P = "\<lambda>i. m_tid (cells r ! ((?h + i) mod 64)) = t"
  from wf have h: "?h < 64" "rtail r < 64" "length (cells r) = 64" by (auto simp: ring_wf_def)
  note n = ring_length_less [OF wf] and tl = ring_tail [OF wf, symmetric]
  have s: "tmsg_search (cells r) t (rtail r) ?h =
      Some (map_option (\<lambda>q. (?h + q) mod 64) (find_index ?P [0..<?n]))"
    using search_from [OF h(1) n _ tl, of 0 "cells r" t] h(1) by simp
  show ?thesis
  proof (cases "find_index ?P [0..<?n]")
    case None
    then have "list_take (\<lambda>t m. m_tid m = t) t (ring_items 64 r) = None"
      by (auto simp: list_take_None ring_items_def)
    with s None show ?thesis by (simp add: tmsg_pop_def del: find_index_None)
  next
    case (Some q)
    then have q: "q < ?n" "?P q" "\<And>j. j < q \<Longrightarrow> \<not> ?P j" by (auto simp: find_index_Some)
    from compact_from [OF h(1) n q(1) tl h(3)] obtain ms where ms:
      "tmsg_compact (rtail r) ((?h + q) mod 64) (cells r) = Some ms" "length ms = 64"
      "\<And>i. i < ?n - 1 \<Longrightarrow> ms ! ((?h + i) mod 64) = cells r ! ((?h + (if i < q then i else Suc i)) mod 64)"
      by blast
    let ?r = "r\<lparr>cells := ms, rtail := (63 + rtail r) mod 64\<rparr>"
    have wf': "ring_wf 64 ?r" using h ms(2) by (simp add: ring_wf_def)
    have len: "ring_length 64 ?r = ?n - 1"
    proof (rule ring_lengthI [OF wf'])
      obtain m where m: "?n = Suc m" using q(1) by (cases ?n) simp_all
      show "(rhead ?r + (?n - 1)) mod 64 = rtail ?r"
        using m by (simp add: tl mod_simps)
    qed (use n in simp)
    have items: "ring_items 64 ?r = take q (ring_items 64 r) @ drop (Suc q) (ring_items 64 r)"
      by (rule nth_equalityI)
        (use q(1) in \<open>auto simp: len ring_items_nth nth_append ms(3) min_def\<close>)
    have "list_take (\<lambda>t m. m_tid m = t) t (ring_items 64 r) =
        Some (ring_items 64 r ! q, take q (ring_items 64 r) @ drop (Suc q) (ring_items 64 r))"
      by (rule list_take_nth) (use q in \<open>simp_all add: ring_items_nth\<close>)
    moreover have "tmsg_pop t r = Some (Some (cells r ! ((?h + q) mod 64), ?r))"
      by (simp add: tmsg_pop_def s Some ms(1) WG_MAX_THREAD_MSGS_def)
    ultimately show ?thesis using wf' items q(1) by (simp add: ring_items_nth)
  qed
qed

definition tmsg_get :: "u32 \<Rightarrow> thread_msg ring \<Rightarrow> (thread_msg \<times> thread_msg ring) option" where
  "tmsg_get t r = Option.bind (tmsg_pop t r) id"

lemma tmsg_pop_get: "ring_wf 64 r \<Longrightarrow> tmsg_pop t r = Some (tmsg_get t r)"
  using tmsg_pop_spec [of r t] by (auto simp: tmsg_get_def)

interpretation tmsgs: keyed_queue "ring_items 64" "ring_wf 64" 63 "\<lambda>t m. m_tid m = t" tmsg_push tmsg_get
proof
  fix r :: "thread_msg ring" and e e' r' and t :: u32
  assume wf: "ring_wf 64 r"
  from ring_put_step [OF wf, of e] show "ring_wf 64 (tmsg_push e r)"
    and "ring_items 64 (tmsg_push e r) = list_put 63 e (ring_items 64 r)"
    by (simp_all add: tmsg_push_def WG_MAX_THREAD_MSGS_def Let_def)
  from tmsg_pop_spec [OF wf, of t] show "tmsg_get t r = Some (e', r') \<Longrightarrow> ring_wf 64 r'"
    and "map_option (map_prod id (ring_items 64)) (tmsg_get t r) = list_take (\<lambda>t m. m_tid m = t) t (ring_items 64 r)"
    by (auto simp: tmsg_get_def)
qed

text \<open>Whatever is posted and taken, by whichever threads, the queue answers as a list of at most 63
  messages does.\<close>

text \<open>C8: Whatever is posted and taken, by whichever threads, the ring of thread messages answers as a list of at most 63 messages does, from which each thread takes its oldest.\<close>

theorem tmsg_refines:
  "queue_run (list_put 63) (list_take (\<lambda>t m. m_tid m = t)) ops [] =
     map_prod id (ring_items 64) (queue_run tmsg_push tmsg_get ops no_msgs)"
  using tmsgs.run_refines [OF ring_wf_no_msgs(1), of ops] ring_wf_no_msgs(2) by simp

theorem iocp_refines:
  "queue_run (list_put 63) (list_take (\<lambda>_ _. True)) ops [] =
     map_prod id (ring_items 64) (queue_run iocp_post (\<lambda>_ :: unit. iocp_get) ops no_completions)"
  using iocp.run_refines [OF ring_wf_no_completions(1), of ops] ring_wf_no_completions(2) by simp

section \<open>Fonts\<close>

text \<open>The table after the fonts \<open>fs\<close>.\<close>

definition fonts_after :: "WGFontRec list \<Rightarrow> font_table \<Rightarrow> bool" where
  "fonts_after fs ft \<longleftrightarrow> font_count ft = int (length fs) \<and> length fs < 2 ^ 31 \<and>
     next_font ft = 0xF0000 + of_nat (length fs) \<and> holds_last 64 fs (fonts ft) \<and>
     (\<forall>i < length fs. f_handle (fs ! i) = 0xF0000 + of_nat i) \<and>
     (\<forall>i < 64. length fs \<le> i \<longrightarrow> f_handle (fonts ft ! i) = 0)"

definition font_of :: "u32 \<Rightarrow> int \<times> bool \<times> string option \<Rightarrow> WGFontRec" where
  "font_of h a = (case a of (px, bold, name) \<Rightarrow>
     \<lparr>f_handle = h, f_px = px, f_bold = bold, f_name = (case name of Some s \<Rightarrow> take 63 s | None \<Rightarrow> [])\<rparr>)"

lemma fonts_after_init: "fonts_after [] no_fonts"
  by (simp add: fonts_after_def no_fonts_def)

lemma fonts_after_register:
  assumes f: "fonts_after fs ft" and n: "length fs + 1 < 2 ^ 31"
  shows "\<exists>ft'. wg_font_register px b name ft = Some (0xF0000 + of_nat (length fs), ft') \<and>
    fonts_after (fs @ [font_of (0xF0000 + of_nat (length fs)) (px, b, name)]) ft'"
proof -
  from f have c: "font_count ft = int (length fs)" "next_font ft = 0xF0000 + of_nat (length fs)"
    and h: "holds_last 64 fs (fonts ft)" by (auto simp: fonts_after_def)
  have l: "length (fonts ft) = 64" using h by (simp add: holds_last_def)
  let ?e = "font_of (0xF0000 + of_nat (length fs)) (px, b, name)"
  have i: "nat (font_count ft mod 64) = length fs mod 64" by (simp add: c nat_mod_distrib)
  have z: "f_handle ((fonts ft)[length fs mod 64 := ?e] ! i) = 0" if "i < 64" "Suc (length fs) \<le> i" for i
    using that f l by (auto simp: fonts_after_def nth_list_update)
  have "fonts_after (fs @ [?e]) (ft\<lparr>fonts := (fonts ft)[length fs mod 64 := ?e],
      font_count := font_count ft + 1, next_font := next_font ft + 1\<rparr>)"
    using f n holds_last_push [OF h, of ?e] z
    by (auto simp: fonts_after_def c nth_append font_of_def less_Suc_eq)
  with n show ?thesis by (simp add: wg_font_register_def c font_of_def nat_mod_distrib)
qed

lemma font_handle_inj:
  "i < 2 ^ 31 \<Longrightarrow> j < 2 ^ 31 \<Longrightarrow> (0xF0000 + of_nat i :: u32) = 0xF0000 + of_nat j \<Longrightarrow> i = j"
proof -
  assume ij: "i < 2 ^ 31" "j < 2 ^ 31" "(0xF0000 + of_nat i :: u32) = 0xF0000 + of_nat j"
  then have "unat (of_nat i :: u32) = unat (of_nat j :: u32)" by simp
  with ij(1,2) show "i = j" by (simp add: unsigned_of_nat take_bit_nat_eq_self)
qed

text \<open>A handle finds its font as long as fewer than 64 others were registered after it; then the
  slot belongs to another font.\<close>

lemma fonts_after_find:
  assumes f: "fonts_after fs ft" and j: "j < length fs"
  shows "wg_font_find ft (0xF0000 + of_nat j) = (if length fs \<le> j + 64 then Some (fs ! j) else None)"
proof -
  from f have n: "length fs < 2 ^ 31" and h: "holds_last 64 fs (fonts ft)"
    and hd: "\<And>i. i < length fs \<Longrightarrow> f_handle (fs ! i) = 0xF0000 + of_nat i"
    and z: "\<And>i. i < 64 \<Longrightarrow> length fs \<le> i \<Longrightarrow> f_handle (fonts ft ! i) = 0" by (auto simp: fonts_after_def)
  have l: "length (fonts ft) = 64" using h by (simp add: holds_last_def)
  have nz: "(0xF0000 + of_nat i :: u32) \<noteq> 0" if "i < 2 ^ 31" for i
  proof -
    have "unat (0xF0000 + of_nat i :: u32) = 0xF0000 + i"
      using that by (simp add: unat_word_ariths unsigned_of_nat take_bit_nat_eq_self)
    then show ?thesis by auto
  qed
  text \<open>The font in a used cell, with its number.\<close>
  have cell: "\<exists>k. k < length fs \<and> length fs \<le> k + 64 \<and> k mod 64 = i \<and> fonts ft ! i = fs ! k"
    if i: "i < 64" "\<not> length fs \<le> i" for i
  proof -
    define d where "d = (length fs - Suc i) div 64"
    have "64 * d + (length fs - Suc i) mod 64 = length fs - Suc i" "(length fs - Suc i) mod 64 < 64"
      unfolding d_def by simp_all
    then have k: "i + 64 * d < length fs" "length fs \<le> (i + 64 * d) + 64" "(i + 64 * d) mod 64 = i" using i by auto
    with holds_lastD [OF h k(1,2)] show ?thesis by metis
  qed
  have only: "k = j" if "k < length fs" "f_handle (fs ! k) = 0xF0000 + of_nat j" for k
    using font_handle_inj [of k j] that hd n j by auto
  show ?thesis
  proof (cases "length fs \<le> j + 64")
    case True
    have at: "fonts ft ! (j mod 64) = fs ! j" by (rule holds_lastD [OF h j True])
    have "List.find (\<lambda>f. f_handle f = 0xF0000 + of_nat j \<and> (0xF0000 + of_nat j :: u32) \<noteq> 0) (fonts ft) = Some (fs ! j)"
      unfolding find_Some_iff
    proof (intro exI [of _ "j mod 64"] conjI allI impI)
      fix i assume i: "i < j mod 64"
      show "\<not> (f_handle (fonts ft ! i) = 0xF0000 + of_nat j \<and> (0xF0000 + of_nat j :: u32) \<noteq> 0)"
      proof (cases "length fs \<le> i")
        case True
        then show ?thesis using z [of i] i nz [of j] n j by auto
      next
        case False
        with cell [of i] i only show ?thesis by fastforce
      qed
    qed (use l at hd j nz n in auto)
    with True show ?thesis by (simp add: wg_font_find_def)
  next
    case False
    have "\<not> (f_handle (fonts ft ! i) = 0xF0000 + of_nat j \<and> (0xF0000 + of_nat j :: u32) \<noteq> 0)" if i: "i < 64" for i
    proof (cases "length fs \<le> i")
      case True
      then show ?thesis using z [of i] i nz [of j] n j by auto
    next
      case F: False
      from cell [OF i F] only False show ?thesis by fastforce
    qed
    then have "List.find (\<lambda>f. f_handle f = 0xF0000 + of_nat j \<and> (0xF0000 + of_nat j :: u32) \<noteq> 0) (fonts ft) = None"
      unfolding find_None_iff by (metis in_set_conv_nth l)
    with False show ?thesis by (simp add: wg_font_find_def)
  qed
qed

lemma fonts_after_each:
  "fonts_after fs ft \<Longrightarrow> length fs + length as < 2 ^ 31 \<Longrightarrow>
   \<exists>ft'. each (\<lambda>(px, b, name) ft. map_option snd (wg_font_register px b name ft)) as ft = Some ft' \<and>
     fonts_after (fs @ map2 (\<lambda>i. font_of (0xF0000 + of_nat i)) [length fs..<length fs + length as] as) ft'"
proof (induction as arbitrary: fs ft)
  case (Cons a as)
  obtain px b name where a: "a = (px, b, name)" by (cases a)
  from fonts_after_register [OF Cons.prems(1), of px b name] Cons.prems(2) obtain ft1 where ft1:
    "wg_font_register px b name ft = Some (0xF0000 + of_nat (length fs), ft1)"
    "fonts_after (fs @ [font_of (0xF0000 + of_nat (length fs)) a]) ft1" by (auto simp: a)
  from Cons.IH [OF ft1(2)] Cons.prems(2) obtain ft2 where
    "each (\<lambda>(px, b, name) ft. map_option snd (wg_font_register px b name ft)) as ft1 = Some ft2"
    "fonts_after ((fs @ [font_of (0xF0000 + of_nat (length fs)) a]) @
      map2 (\<lambda>i. font_of (0xF0000 + of_nat i)) [Suc (length fs)..<Suc (length fs) + length as] as) ft2" by auto
  moreover have "[length fs..<length fs + length (a # as)] = length fs # [Suc (length fs)..<Suc (length fs) + length as]"
    by (simp add: upt_conv_Cons del: upt_Suc)
  ultimately show ?case using ft1(1) by (simp add: a del: upt_Suc)
qed simp

text \<open>After any registrations the last 64 handles find their fonts, and older ones find nothing.\<close>

theorem fonts_found:
  assumes "length as < 2 ^ 31"
  shows "\<exists>ft. each (\<lambda>(px, b, name) ft. map_option snd (wg_font_register px b name ft)) as no_fonts = Some ft \<and>
    (\<forall>j < length as. wg_font_find ft (0xF0000 + of_nat j) =
       (if length as \<le> j + 64 then Some (font_of (0xF0000 + of_nat j) (as ! j)) else None))"
proof -
  let ?fs = "map2 (\<lambda>i. font_of (0xF0000 + of_nat i)) [0..<length as] as"
  from fonts_after_each [OF fonts_after_init, of as] assms obtain ft where ft:
    "each (\<lambda>(px, b, name) ft. map_option snd (wg_font_register px b name ft)) as no_fonts = Some ft"
    "fonts_after ?fs ft" by auto
  have "wg_font_find ft (0xF0000 + of_nat j) =
      (if length as \<le> j + 64 then Some (font_of (0xF0000 + of_nat j) (as ! j)) else None)" if "j < length as" for j
    using fonts_after_find [OF ft(2), of j] that by simp
  with ft(1) show ?thesis by blast
qed

theorem fonts_found_witness:
  "\<exists>ft. each (\<lambda>(px, b, name) ft. map_option snd (wg_font_register px b name ft))
      [(12, False, Some ''Arial''), (16, True, None)] no_fonts = Some ft \<and>
    wg_font_find ft 0xF0001 = Some \<lparr>f_handle = 0xF0001, f_px = 16, f_bold = True, f_name = []\<rparr>"
proof -
  have "length [(12 :: int, False, Some ''Arial''), (16, True, None)] < 2 ^ 31" by simp
  from fonts_found [OF this] obtain ft where
    e: "each (\<lambda>(px, b, name) ft. map_option snd (wg_font_register px b name ft))
      [(12, False, Some ''Arial''), (16, True, None)] no_fonts = Some ft"
    and f: "\<forall>j < 2. wg_font_find ft (0xF0000 + of_nat j) = (if 2 \<le> j + 64
      then Some (font_of (0xF0000 + of_nat j) ([(12, False, Some ''Arial''), (16, True, None)] ! j)) else None)"
    by auto
  from spec [OF f, of 1] e show ?thesis by (simp add: font_of_def)
qed

section \<open>Recent calls\<close>

definition calls_after :: "(string \<times> u64) list \<Rightarrow> call_ring \<Rightarrow> bool" where
  "calls_after cs r \<longleftrightarrow> call_idx r = int (length cs) \<and> holds_last 256 (map Some cs) (calls r) \<and>
     (\<forall>i < 256. length cs \<le> i \<longrightarrow> calls r ! i = None)"

lemma calls_after_init: "calls_after [] no_calls"
  by (simp add: calls_after_def no_calls_def WG_CALL_RING_SIZE_def)

lemma calls_after_push:
  assumes c: "calls_after cs r" and n: "length cs + 1 < 2 ^ 31"
  shows "\<exists>r'. wg_call_ring_push name v r = Some r' \<and>
    calls_after (if noisy_call name then cs else cs @ [(name, v)]) r'"
proof (cases "noisy_call name")
  case True
  with c show ?thesis by (simp add: wg_call_ring_push_def)
next
  case False
  from c have i: "call_idx r = int (length cs)" and h: "holds_last 256 (map Some cs) (calls r)"
    by (auto simp: calls_after_def)
  have l: "length (calls r) = 256" using h by (simp add: holds_last_def)
  have m: "nat (int (length cs) mod 256) = length cs mod 256" by (simp add: nat_mod_distrib)
  have "(calls r)[length cs mod 256 := Some (name, v)] ! i = None" if "i < 256" "Suc (length cs) \<le> i" for i
    using c that l by (auto simp: calls_after_def nth_list_update)
  with False i n m holds_last_push [OF h, of "Some (name, v)"] show ?thesis
    by (auto simp: wg_call_ring_push_def calls_after_def)
qed

lemma calls_after_each:
  "calls_after cs r \<Longrightarrow> length cs + length ds < 2 ^ 31 \<Longrightarrow>
   \<exists>r'. each (\<lambda>(name, v). wg_call_ring_push name v) ds r = Some r' \<and>
     calls_after (cs @ filter (\<lambda>(name, _). \<not> noisy_call name) ds) r'"
proof (induction ds arbitrary: cs r)
  case (Cons d ds)
  obtain name v where d: "d = (name, v)" by (cases d)
  from calls_after_push [OF Cons.prems(1), of name v] Cons.prems(2) obtain r1
    where r1: "wg_call_ring_push name v r = Some r1"
      "calls_after (if noisy_call name then cs else cs @ [(name, v)]) r1" by auto
  from Cons.IH [OF r1(2)] Cons.prems(2) have
    "\<exists>r'. each (\<lambda>(name, v). wg_call_ring_push name v) ds r1 = Some r' \<and>
       calls_after ((if noisy_call name then cs else cs @ [(name, v)]) @ filter (\<lambda>(name, _). \<not> noisy_call name) ds) r'"
    by (auto split: if_splits)
  with r1(1) d show ?case by (auto split: if_splits)
qed simp

lemma concat_if:
  "concat (map (\<lambda>x. if P x then [] else [g x]) xs) = map g (filter (\<lambda>x. \<not> P x) xs)"
  by (induction xs) auto

lemma filter_from: "k \<le> m \<Longrightarrow> filter (\<lambda>i. k \<le> i) [0..<m] = [k..<m]"
  by (induction m) (auto simp: le_Suc_eq)

lemma calls_after_dump:
  assumes c: "calls_after cs r"
  shows "call_ring_dump r = drop (length cs - 256) cs"
proof -
  let ?n = "length cs"
  from c have i: "call_idx r = int ?n" and h: "holds_last 256 (map Some cs) (calls r)"
    and z: "\<And>i. i < 256 \<Longrightarrow> ?n \<le> i \<Longrightarrow> calls r ! i = None" by (auto simp: calls_after_def)
  let ?f = "\<lambda>ri. let d = call_idx r - 256 + int ri;
         m = (if d < 0 then - ((- d) mod 256) else d mod 256);
         i = (if m < 0 then m + 256 else m)
     in case calls r ! nat i of None \<Rightarrow> [] | Some c \<Rightarrow> [c]"
  have f: "?f ri = (if ri + ?n < 256 then [] else [cs ! (ri + ?n - 256)])" if ri: "ri < 256" for ri
  proof (cases "ri + ?n < 256")
    case True
    define e where "e = 256 - (ri + ?n)"
    have e: "call_idx r - 256 + int ri = - int e" "0 < e" "e \<le> 256" "256 - e = ri + ?n"
      using True by (auto simp: i e_def)
    have zero: "calls r ! (256 - e) = None" using z [of "ri + ?n"] True e(4) by simp
    show ?thesis
    proof (cases "e = 256")
      case True
      then show ?thesis using e zero by (simp add: Let_def)
    next
      case False
      then have "int e mod 256 = int e" "nat (256 - int e) = 256 - e" using e(2,3) by auto
      then show ?thesis using e(2) zero True unfolding Let_def e(1) by simp
    qed
  next
    case False
    define j where "j = ri + ?n - 256"
    have d: "call_idx r - 256 + int ri = int j" using False by (simp add: i j_def)
    have "calls r ! (j mod 256) = Some (cs ! j)" using holds_lastD [OF h, of j] False ri by (simp add: j_def)
    moreover have "\<not> int j mod 256 < 0" by (simp add: not_less)
    ultimately show ?thesis using False unfolding Let_def d by (simp add: nat_mod_distrib flip: j_def)
  qed
  have "call_ring_dump r = concat (map (\<lambda>ri. if ri + ?n < 256 then [] else [cs ! (ri + ?n - 256)]) [0..<256])"
    unfolding call_ring_dump_def by (rule arg_cong [where f = concat], rule map_cong [OF refl], rule f) simp
  also have "\<dots> = map (\<lambda>ri. cs ! (ri + ?n - 256)) (filter (\<lambda>ri. \<not> ri + ?n < 256) [0..<256])"
    by (rule concat_if)
  also have "\<dots> = map (\<lambda>ri. cs ! (ri + ?n - 256)) [256 - ?n..<256]"
    using filter_from [of "256 - ?n" 256] by (simp add: not_less le_diff_conv)
  also have "\<dots> = drop (?n - 256) cs"
    by (rule nth_equalityI) (auto intro!: arg_cong [where f = "(!) cs"])
  finally show ?thesis .
qed

text \<open>The crash report lists the last 256 calls that are not filtered out, oldest first.\<close>

theorem call_ring_last:
  assumes "length cs < 2 ^ 31"
  shows "\<exists>r. each (\<lambda>(name, v). wg_call_ring_push name v) cs no_calls = Some r \<and>
    (let shown = filter (\<lambda>(name, _). \<not> noisy_call name) cs
     in call_ring_dump r = drop (length shown - 256) shown)"
  using calls_after_each [OF calls_after_init, of cs] calls_after_dump assms by (auto simp: Let_def)

text \<open>The filter is wider than its comments say: it also hides these.\<close>

lemma hidden_calls:
  "list_all noisy_call [''DestroyWindow'', ''DeleteFileW'', ''DefWindowProcW'', ''GetLocaleInfoW'']"
  by code_simp

end
