(* ===== verification/EngineWf.thy ===== *)
theory EngineWf
  imports EngineSync EngineStateOk EngineQueuesOk
begin

text \<open>
  Well-formed engine states: the arrays have their sizes, the counts are within them, the rings are
  rings and the scheduler's invariant holds. Every synchronisation call keeps a state well-formed
  and is free of undefined behaviour; so do the engine's own steps; and so every state that they
  reach, whatever the guest does to the machine between them, is well-formed.
\<close>

section \<open>Well-formed states\<close>

definition storage_ok :: "local_storage \<Rightarrow> bool" where
  "storage_ok l \<longleftrightarrow> unat (slot_next l) \<le> 1088 \<and> length (slot_values l) = WG_MAX_THREADS \<and>
     (\<forall>row \<in> set (slot_values l). length row = 1088)"

lemma storage_ok_none: "storage_ok no_local_storage"
  by (auto simp: storage_ok_def no_local_storage_def)

text \<open>All parts of the state but the scheduler.\<close>

definition tables_ok :: "engine \<Rightarrow> bool" where
  "tables_ok e \<longleftrightarrow>
     length (ev_signalled e) = WG_MAX_EVENTS \<and> length (ev_manual e) = WG_MAX_EVENTS \<and>
     unat (ev_next e) \<le> WG_MAX_EVENTS \<and>
     length (iocp_bindings e) \<le> WG_MAX_IOCP_SOCK \<and> ring_wf 64 (completions e) \<and>
     length (tp_work e) \<le> WG_MAX_TP_WORK \<and> ring_wf 64 (thread_msgs e) \<and>
     storage_ok (tls e) \<and> storage_ok (fls e) \<and>
     length (alloc_sizes e) \<le> WG_MAX_ALLOCS \<and> length (callstack e) \<le> 64"

definition engine_wf :: "engine \<Rightarrow> bool" where
  "engine_wf e \<longleftrightarrow> sched_inv (sched e) \<and> tables_ok e"

lemma engine_wfD:
  assumes "engine_wf e"
  shows "sched_inv (sched e)" and "tables_ok e"
  using assms by (simp_all add: engine_wf_def)

lemma tables_ok_simps [simp]:
  "tables_ok (e\<lparr>sched := s\<rparr>) = tables_ok e"
  "tables_ok (e\<lparr>estate := st\<rparr>) = tables_ok e"
  "tables_ok (e\<lparr>last_error := w\<rparr>) = tables_ok e"
  "tables_ok (e\<lparr>heap_ptr := w\<rparr>) = tables_ok e"
  "tables_ok (e\<lparr>main_teb := w\<rparr>) = tables_ok e"
  "tables_ok (e\<lparr>iocp_created := v\<rparr>) = tables_ok e"
  "tables_ok (e\<lparr>timer_hwnd := w\<rparr>) = tables_ok e"
  "tables_ok (e\<lparr>timer_id := w\<rparr>) = tables_ok e"
  "tables_ok (e\<lparr>timer_active := v\<rparr>) = tables_ok e"
  "tables_ok (e\<lparr>seh := sh\<rparr>) = tables_ok e"
  "tables_ok (e\<lparr>traps := tr\<rparr>) = tables_ok e"
  by (simp_all add: tables_ok_def)

named_theorems tables "parts of the engine that a step keeps well-formed"

lemma tables_signalled [tables]: "tables_ok e \<Longrightarrow> tables_ok (e\<lparr>ev_signalled := (ev_signalled e)[i := v]\<rparr>)"
  by (simp add: tables_ok_def)

lemma tables_set_event [tables]: "tables_ok e \<Longrightarrow> tables_ok (set_event h v e)"
  by (auto simp: set_event_def intro: tables split: option.split)

lemma tables_consume [tables]: "tables_ok e \<Longrightarrow> tables_ok (wg_event_consume h e)"
  by (auto simp: wg_event_consume_def intro: tables split: option.split)

lemma tables_consume_all [tables]: "tables_ok e \<Longrightarrow> tables_ok (fold (\<lambda>i. wg_event_consume (hs i)) xs e)"
  by (induction xs arbitrary: e) (auto intro: tables)

lemma sched_set_event [simp]: "sched (set_event h v e) = sched e"
  by (simp add: set_event_def split: option.split)

lemma sched_consume [simp]: "sched (wg_event_consume h e) = sched e"
  by (simp add: wg_event_consume_def split: option.split)

lemma sched_consume_all [simp]: "sched (fold (\<lambda>i. wg_event_consume (hs i)) xs e) = sched e"
  by (induction xs arbitrary: e) auto

lemma next_number: "w < of_nat n \<Longrightarrow> n < 2 ^ 32 \<Longrightarrow> unat w < n \<and> unat (w + 1 :: u32) = unat w + 1"
  by (auto simp: word_less_nat_alt unat_word_ariths unat_of_nat)

lemma tables_next_event [tables]:
  assumes "tables_ok e" and "ev_next e < of_nat WG_MAX_EVENTS"
  shows "tables_ok (e\<lparr>ev_next := ev_next e + 1\<rparr>)"
  using assms next_number [OF assms(2)] by (auto simp: tables_ok_def WG_MAX_EVENTS_def)

lemma tables_iocp_post [tables]: "tables_ok e \<Longrightarrow> tables_ok (e\<lparr>completions := iocp_post c (completions e)\<rparr>)"
  using iocp.wf_put by (simp add: tables_ok_def)

lemma tables_iocp_get [tables]: "tables_ok e \<Longrightarrow> iocp_get (completions e) = Some (c, q) \<Longrightarrow> tables_ok (e\<lparr>completions := q\<rparr>)"
  using iocp.wf_get by (auto simp: tables_ok_def)

lemma tables_tmsg_push [tables]: "tables_ok e \<Longrightarrow> tables_ok (e\<lparr>thread_msgs := tmsg_push m (thread_msgs e)\<rparr>)"
  using tmsgs.wf_put by (simp add: tables_ok_def)

lemma tables_tmsg_pop [tables]: "tables_ok e \<Longrightarrow> tmsg_pop t (thread_msgs e) = Some (Some (m, q)) \<Longrightarrow> tables_ok (e\<lparr>thread_msgs := q\<rparr>)"
  using tmsgs.wf_get [of "thread_msgs e" t m q] by (auto simp: tables_ok_def tmsg_pop_get)

lemma tables_tls [tables]: "storage_ok l \<Longrightarrow> tables_ok e \<Longrightarrow> tables_ok (e\<lparr>tls := l\<rparr>)"
  and [tables]: "storage_ok l \<Longrightarrow> tables_ok e \<Longrightarrow> tables_ok (e\<lparr>fls := l\<rparr>)"
  by (simp_all add: tables_ok_def)

lemma storage_alloc: "storage_ok l \<Longrightarrow> storage_ok (snd (slot_alloc l))"
  using next_number [of "slot_next l" 1088] by (auto simp: storage_ok_def slot_alloc_def)

lemma storage_set: "storage_ok l \<Longrightarrow> storage_ok (slot_set l row i v)"
  unfolding storage_ok_def slot_set_def
  by (cases "row < length (slot_values l)")
    (auto simp: list_update_beyond dest!: set_update_subset_insert [THEN subsetD])

lemma tables_add_work [tables]:
  assumes "tables_ok e" and "length (tp_work e) < WG_MAX_TP_WORK"
  shows "tables_ok (e\<lparr>tp_work := tp_work e @ [w]\<rparr>)"
  using assms by (simp add: tables_ok_def)

lemma tables_set_work [tables]: "tables_ok e \<Longrightarrow> tables_ok (e\<lparr>tp_work := (tp_work e)[i := w]\<rparr>)"
  by (simp add: tables_ok_def)

lemma tables_bind_socket [tables]:
  assumes "tables_ok e" and "length (iocp_bindings e) < WG_MAX_IOCP_SOCK"
  shows "tables_ok (e\<lparr>iocp_bindings := iocp_bindings e @ [x]\<rparr>)"
  using assms by (simp add: tables_ok_def)

lemma tables_track_alloc [tables]: "tables_ok e \<Longrightarrow> tables_ok (track_alloc a n e)"
  by (simp add: tables_ok_def track_alloc_def)

lemma push_call_tables: "tables_ok e \<Longrightarrow> push_call fr e = Some e' \<Longrightarrow> tables_ok e' \<and> sched e' = sched e"
  by (auto simp: tables_ok_def push_call_def split: if_splits)

lemma pop_call_tables: "tables_ok e \<Longrightarrow> pop_call e = Some (fr, e') \<Longrightarrow> tables_ok e' \<and> sched e' = sched e"
  by (auto simp: tables_ok_def pop_call_def split: if_splits)

section \<open>The heap and new threads\<close>

lemma guest_alloc_tables:
  "tables_ok e \<Longrightarrow> wg_guest_alloc api n e b = (a, e', b') \<Longrightarrow> tables_ok e' \<and> sched e' = sched e"
  by (auto simp: wg_guest_alloc_def Let_def track_alloc_def tables_ok_def split: if_splits)

lemma thread_teb_tables:
  assumes "tables_ok e" and "wg_alloc_thread_teb api hi lo t e b = (tb, e', b')"
  shows "tables_ok e' \<and> sched e' = sched e"
  by (rule thread_teb_rule [OF _ _ assms(2), of "\<lambda>e'. tables_ok e' \<and> sched e' = sched e"])
    (use assms(1) guest_alloc_tables in \<open>fastforce+\<close>)

lemma setup_teb_tables:
  assumes "tables_ok e" and "wg_setup_win32_teb api e b = (e', b')"
  shows "tables_ok e' \<and> sched e' = sched e"
  by (rule setup_teb_rule [OF _ _ _ assms(2), of "\<lambda>e'. tables_ok e' \<and> sched e' = sched e"])
    (use assms(1) guest_alloc_tables in \<open>fastforce+\<close>)

lemma new_thread_wf:
  assumes "engine_wf e" and "new_thread api z ab st prm fl e b = (r, e', b')"
  shows "engine_wf e'"
  using assms create_thread_inv [of "sched e"]
  by (auto simp: engine_wf_def new_thread_def split: prod.splits)

text \<open>An update of a thread that keeps its state.\<close>

lemma update_keeps_inv:
  assumes "sched_inv s" and "state (f (threads s ! i)) = state (threads s ! i)"
  shows "sched_inv (update_thread s i f)"
proof (rule sched_invI, goal_cases)
  case 1
  then show ?case using sched_invD(1) [OF assms(1)] by simp
next
  case (2 c)
  then have c: "current s = Some c" by simp
  then show ?case using sched_invD(1) [OF assms(1)] sched_invD(2,3) [OF assms(1) c] assms(2)
    by (auto simp: nth_update_thread)
next
  case (3 k)
  then show ?case using sched_invD(1,4) [OF assms(1)] assms(2) by (simp add: nth_update_thread split: if_splits)
qed

lemma give_teb_wf:
  assumes e: "engine_wf e" and "give_teb api h t e b = (e', b')"
  shows "engine_wf e'"
proof (cases "wg_sched_find (sched e) h")
  case None
  then show ?thesis using assms by (simp add: give_teb_def)
next
  case (Some i)
  let ?nt = "threads (sched e) ! i"
  obtain tb e1 b1 where t: "wg_alloc_thread_teb api (stack_base ?nt + stack_size ?nt) (stack_base ?nt) t e b = (tb, e1, b1)"
    by (metis prod_cases3)
  from thread_teb_tables [OF engine_wfD(2) [OF e] t] engine_wfD(1) [OF e]
  have e1: "tables_ok e1" "sched_inv (sched e1)" by simp_all
  then show ?thesis using assms(2) Some t
    by (auto simp: give_teb_def Let_def engine_wf_def update_keeps_inv split: if_splits)
qed

lemma start_thread_wf:
  assumes "engine_wf e" and "start_thread api z ab st prm fl tp e b = (h, e', b')"
  shows "engine_wf e'"
  using assms
  by (auto simp: start_thread_def Let_def split: prod.splits if_splits dest: new_thread_wf give_teb_wf)

section \<open>The calls\<close>

definition keeps_wf :: "'m handled \<Rightarrow> bool" where
  "keeps_wf r \<longleftrightarrow> engine_wf (fst (snd r))"

lemma keeps_wf_pair [simp]: "keeps_wf (r, e, b) \<longleftrightarrow> engine_wf e"
  by (simp add: keeps_wf_def)

named_theorems keeps "calls that keep the engine well-formed"

lemma consume_wf [keeps]: "engine_wf e \<Longrightarrow> engine_wf (wg_event_consume h e)"
  by (simp add: engine_wf_def tables)

lemma CreateEvent_keeps [keeps]: "engine_wf e \<Longrightarrow> keeps_wf (h_CreateEvent args e b)"
  using next_number [of "ev_next e" WG_MAX_EVENTS]
  by (auto simp: h_CreateEvent_def Let_def engine_wf_def tables_ok_def WG_MAX_EVENTS_def)

lemma SetEvent_keeps [keeps]: "engine_wf e \<Longrightarrow> keeps_wf (h_SetEvent args e b)"
  by (simp add: h_SetEvent_def engine_wf_def tables wake_inv)

lemma ResetEvent_keeps [keeps]: "engine_wf e \<Longrightarrow> keeps_wf (h_ResetEvent args e b)"
  by (simp add: h_ResetEvent_def engine_wf_def tables)

lemma CreateMutex_keeps [keeps]: "engine_wf e \<Longrightarrow> keeps_wf (h_CreateMutex dflt e b)"
  using next_number [of "ev_next e" WG_MAX_EVENTS]
  by (auto simp: h_CreateMutex_def engine_wf_def tables_ok_def WG_MAX_EVENTS_def)

lemma OpenMutex_keeps [keeps]: "engine_wf e \<Longrightarrow> keeps_wf (h_OpenMutex e b)"
  by (simp add: h_OpenMutex_def engine_wf_def)

lemma note_wait_inv: "sched_inv s \<Longrightarrow> sched_inv (note_wait h t s)"
  by (auto simp: note_wait_def update_keeps_inv split: option.split)

lemma block_on_wf:
  "engine_wf e \<Longrightarrow> blk \<noteq> WG_THREAD_RUNNING \<Longrightarrow> block_on h t blk e b = (sw, e', b') \<Longrightarrow> engine_wf e'"
  by (auto simp: block_on_def Let_def engine_wf_def dest: yield_inv [OF note_wait_inv] split: prod.splits)

lemma wait_or_time_out_keeps [keeps]: "engine_wf e \<Longrightarrow> keeps_wf (wait_or_time_out h t e b)"
  by (auto simp: wait_or_time_out_def Let_def split: prod.splits dest: block_on_wf)

lemma WaitForSingleObject_keeps [keeps]: "engine_wf e \<Longrightarrow> keeps_wf (h_WaitForSingleObject args e b)"
  by (simp add: h_WaitForSingleObject_def Let_def keeps)

lemma WaitForMultipleObjects_keeps [keeps]: "engine_wf e \<Longrightarrow> keeps_wf (h_WaitForMultipleObjects api args e b)"
  by (auto simp: h_WaitForMultipleObjects_def Let_def keeps engine_wf_def tables split: option.split)

lemma CreateIoCompletionPort_keeps [keeps]: "engine_wf e \<Longrightarrow> keeps_wf (h_CreateIoCompletionPort args e b)"
  by (simp add: h_CreateIoCompletionPort_def engine_wf_def tables)

lemma GetQueuedCompletionStatus_keeps [keeps]:
  "engine_wf e \<Longrightarrow> keeps_wf (h_GetQueuedCompletionStatus api ex args e b)"
proof (cases "iocp_get (completions e)")
  case None
  moreover assume "engine_wf e"
  ultimately show ?thesis
    by (auto simp: h_GetQueuedCompletionStatus_def Let_def engine_wf_def
        dest: block_on_wf [unfolded engine_wf_def, rotated 2] split: prod.splits)
next
  case (Some x)
  moreover assume "engine_wf e"
  ultimately show ?thesis
    by (cases x) (auto simp: h_GetQueuedCompletionStatus_def engine_wf_def intro: tables)
qed

lemma PostQueuedCompletionStatus_keeps [keeps]: "engine_wf e \<Longrightarrow> keeps_wf (h_PostQueuedCompletionStatus args e b)"
  using iocp.wf_put by (simp add: h_PostQueuedCompletionStatus_def engine_wf_def wake_inv tables_ok_def)

lemma CreateThreadpoolWork_keeps [keeps]: "engine_wf e \<Longrightarrow> keeps_wf (h_CreateThreadpoolWork args e b)"
  by (simp add: h_CreateThreadpoolWork_def engine_wf_def tables)

lemma SubmitThreadpoolWork_keeps [keeps]:
  "engine_wf e \<Longrightarrow> keeps_wf (h_SubmitThreadpoolWork api z ab args e b)"
proof -
  assume e: "engine_wf e"
  let ?w = "tp_work e ! unat (args ! 0 - WG_TP_WORK_BASE)"
  obtain r e1 b1 where n: "new_thread api z ab (tp_callback ?w) (tp_ctx ?w) 0 e b = (r, e1, b1)" by (metis prod_cases3)
  from new_thread_wf [OF e n] have "engine_wf e1" .
  then show ?thesis using e n
    by (auto simp: h_SubmitThreadpoolWork_def Let_def engine_wf_def tables split: option.split)
qed

lemma call_sync_keeps [keeps]: "engine_wf e \<Longrightarrow> keeps_wf (call_sync api f n st prm e b)"
  by (auto simp: call_sync_def Let_def wg_call_wndproc_ovr_def engine_wf_def
      split: option.splits if_splits dest: push_call_tables)

lemma CreateThread_keeps [keeps]: "engine_wf e \<Longrightarrow> keeps_wf (h_CreateThread api z ab f e b)"
  by (auto simp: h_CreateThread_def Let_def keeps split: prod.splits dest: start_thread_wf)

lemma beginthreadex_keeps [keeps]: "engine_wf e \<Longrightarrow> keeps_wf (h_beginthreadex api z ab args e b)"
  by (auto simp: h_beginthreadex_def Let_def split: prod.splits dest: start_thread_wf)

lemma beginthread_keeps [keeps]: "engine_wf e \<Longrightarrow> keeps_wf (h_beginthread api z ab args e b)"
  by (auto simp: h_beginthread_def Let_def split: prod.splits dest: start_thread_wf)

lemma QueueUserWorkItem_keeps [keeps]: "engine_wf e \<Longrightarrow> keeps_wf (h_QueueUserWorkItem api z ab f e b)"
  by (auto simp: h_QueueUserWorkItem_def Let_def keeps split: prod.splits dest: new_thread_wf)

lemma ResumeThread_keeps [keeps]: "engine_wf e \<Longrightarrow> keeps_wf (h_ResumeThread args e b)"
  using resume_inv [of "sched e" "args ! 0"] by (auto simp: h_ResumeThread_def engine_wf_def split: prod.split)

lemma GetExitCodeThread_keeps [keeps]: "engine_wf e \<Longrightarrow> keeps_wf (h_GetExitCodeThread api args e b)"
  by (simp add: h_GetExitCodeThread_def Let_def)

lemma Sleep_keeps [keeps]: "engine_wf e \<Longrightarrow> keeps_wf (h_Sleep f n e b)"
  using yield_inv [of "sched e" WG_THREAD_READY] by (auto simp: h_Sleep_def Let_def engine_wf_def split: prod.split)

lemma ExitThread_keeps [keeps]: "engine_wf e \<Longrightarrow> keeps_wf (h_ExitThread args e b)"
  by (auto simp: h_ExitThread_def engine_wf_def split: prod.split dest: exit_inv)

lemma timers_keep [keeps]:
  "engine_wf e \<Longrightarrow> keeps_wf (h_SetTimer args e b)" "engine_wf e \<Longrightarrow> keeps_wf (h_KillTimer args e b)"
  by (simp_all add: h_SetTimer_def h_KillTimer_def engine_wf_def)

lemma PostThreadMessage_keeps [keeps]: "engine_wf e \<Longrightarrow> keeps_wf (h_PostThreadMessage args e b)"
  by (simp add: h_PostThreadMessage_def engine_wf_def tables)

lemma local_storage_keeps [keeps]:
  assumes "engine_wf e"
  shows "keeps_wf (h_TlsAlloc e b)" and "keeps_wf (h_FlsAlloc e b)"
    and "keeps_wf (h_TlsGetValue args e b)" and "keeps_wf (h_FlsGetValue args e b)"
    and "keeps_wf (h_TlsSetValue args e b)" and "keeps_wf (h_FlsSetValue args e b)"
  using assms storage_alloc [of "tls e"] storage_alloc [of "fls e"]
  by (auto simp: h_TlsAlloc_def h_FlsAlloc_def h_TlsGetValue_def h_FlsGetValue_def h_TlsSetValue_def h_FlsSetValue_def
      engine_wf_def tables_ok_def storage_set split: prod.split)

text \<open>The calls that search the message ring: the search stays inside the array.\<close>

definition defined_wf :: "'m handled ub \<Rightarrow> bool" where
  "defined_wf r \<longleftrightarrow> (\<exists>x. r = Some x \<and> keeps_wf x)"

lemma defined_wf_Some [simp]: "defined_wf (Some x) \<longleftrightarrow> keeps_wf x"
  by (simp add: defined_wf_def)

lemma wf_messages: "engine_wf e \<Longrightarrow> ring_wf 64 (thread_msgs e)"
  by (simp add: engine_wf_def tables_ok_def)

lemma PeekMessage_keeps [keeps]:
  assumes "engine_wf e" shows "defined_wf (h_PeekMessage api args e b)"
  using assms tmsgs.wf_get [OF wf_messages [OF assms]]
  by (auto simp: h_PeekMessage_def Let_def tmsg_pop_get [OF wf_messages] engine_wf_def tables_ok_def split: option.split)

lemma GetMessage_keeps [keeps]:
  assumes "engine_wf e" shows "defined_wf (h_GetMessage api f e b)"
proof -
  let ?t = "wg_sched_current_tid (sched e)"
  define e1 where "e1 = (case tmsg_get ?t (thread_msgs e) of Some (m, q) \<Rightarrow> e\<lparr>thread_msgs := q\<rparr> | None \<Rightarrow> e)"
  have e1: "engine_wf e1" "sched e1 = sched e"
    using assms tmsgs.wf_get [OF wf_messages [OF assms], of ?t]
    by (auto simp: e1_def engine_wf_def tables_ok_def split: option.split)
  have "\<exists>b1. h_GetMessage api f e b = (case wg_sched_yield (sched e) b1 WG_THREAD_READY of
      (sw, s, b2) \<Rightarrow> Some (Handled, e1\<lparr>sched := s, estate := if sw then WG_ENGINE_RUNNING else WG_ENGINE_PAUSED\<rparr>, b2))"
  proof (cases "tmsg_get ?t (thread_msgs e)")
    case None
    then show ?thesis
      unfolding h_GetMessage_def Let_def tmsg_pop_get [OF wf_messages [OF assms]] e1_def
      by (simp only: Option.bind.simps option.case prod.case) (rule exI, rule refl)
  next
    case (Some x)
    obtain m q where x: "x = (m, q)" by (cases x)
    have eq: "sched (e\<lparr>thread_msgs := q\<rparr>) = sched e" by simp
    from Some show ?thesis
      unfolding h_GetMessage_def Let_def tmsg_pop_get [OF wf_messages [OF assms]] e1_def x
      by (simp only: Option.bind.simps option.case prod.case eq) (rule exI, rule refl)
  qed
  then obtain b1 where g: "h_GetMessage api f e b = (case wg_sched_yield (sched e) b1 WG_THREAD_READY of
      (sw, s, b2) \<Rightarrow> Some (Handled, e1\<lparr>sched := s, estate := if sw then WG_ENGINE_RUNNING else WG_ENGINE_PAUSED\<rparr>, b2))"
    by blast
  obtain sw s b2 where y: "wg_sched_yield (sched e) b1 WG_THREAD_READY = (sw, s, b2)" by (metis prod_cases3)
  have "sched_inv s" by (rule yield_inv [OF engine_wfD(1) [OF assms] _ y]) simp
  with g y e1 show ?thesis by (simp add: engine_wf_def)
qed

lemma defined_wfI: "keeps_wf x \<Longrightarrow> defined_wf (Some x)"
  by simp

lemma if_Some_elim: "(if P then Some a else r) = Some x \<Longrightarrow> (x = a \<Longrightarrow> Q) \<Longrightarrow> (r = Some x \<Longrightarrow> Q) \<Longrightarrow> Q"
  by (cases P) auto

lemma sync_call_wf:
  assumes e: "engine_wf e" and c: "sync_call api z ab fn dflt f e b = Some r"
  shows "defined_wf r"
  using c unfolding sync_call_def Let_def
  by (elim if_Some_elim) (simp_all add: keeps e)

end
