(* ===== verification/EngineSyncOk.thy ===== *)
theory EngineSyncOk
  imports EngineWf
begin

text \<open>
  How the synchronisation calls behave: events and waits, what a wait for several objects is, thread
  messages and thread-local storage; no signal of an event is lost to a thread that waits for it
  alone; and where the waits go wrong.
\<close>

section \<open>Handles of events\<close>

lemma event_index_Some:
  "event_index h = Some k \<longleftrightarrow> h = WG_EVENT_BASE + of_nat k \<and> k < WG_MAX_EVENTS"
proof -
  have b: "unat (WG_EVENT_BASE + of_nat k) = 512 + k" if "k < 256" for k
    using that by (simp add: WG_EVENT_BASE_def unat_word_ariths unat_of_nat)
  have e: "h < WG_EVENT_BASE + of_nat WG_MAX_EVENTS \<longleftrightarrow> unat h < 768"
    by (simp add: WG_EVENT_BASE_def WG_MAX_EVENTS_def word_less_nat_alt)
  have g: "WG_EVENT_BASE \<le> h \<longleftrightarrow> 512 \<le> unat h" by (simp add: WG_EVENT_BASE_def word_le_nat_alt)
  have d: "unat (h - WG_EVENT_BASE) = unat h - 512" if "512 \<le> unat h"
    using that by (simp add: WG_EVENT_BASE_def unat_sub word_le_nat_alt)
  show ?thesis
  proof
    assume i: "event_index h = Some k"
    then have h: "512 \<le> unat h" "unat h < 768" "k = unat h - 512"
      using d by (auto simp: event_index_def e g split: if_splits)
    then have "k < 256" by linarith
    moreover from this h have "unat (WG_EVENT_BASE + of_nat k) = unat h" using b [of k] by linarith
    then have "WG_EVENT_BASE + of_nat k = h" by (rule unsigned_word_eqI)
    ultimately show "h = WG_EVENT_BASE + of_nat k \<and> k < WG_MAX_EVENTS" by (simp add: WG_MAX_EVENTS_def)
  next
    assume h: "h = WG_EVENT_BASE + of_nat k \<and> k < WG_MAX_EVENTS"
    then have u: "unat h = 512 + k" "k < 256" using b by (simp_all add: WG_MAX_EVENTS_def)
    then have "WG_EVENT_BASE \<le> h" "h < WG_EVENT_BASE + of_nat WG_MAX_EVENTS" unfolding e g by linarith+
    then show "event_index h = Some k"
      using d u by (simp only: event_index_def) simp
  qed
qed

lemma event_index_inj: "event_index h = Some k \<Longrightarrow> event_index h' = Some k \<Longrightarrow> h' = h"
  by (simp add: event_index_Some)

lemma event_index_less: "event_index h = Some k \<Longrightarrow> k < WG_MAX_EVENTS"
  by (simp add: event_index_Some)

section \<open>Waits\<close>

text \<open>Waiting for several objects that are only one is waiting for that one.\<close>

text \<open>C20: Waiting for several objects that are only one is the same as waiting for that one.\<close>

theorem wait_multiple_one:
  assumes "hptr \<noteq> 0"
  shows "h_WaitForMultipleObjects api (1 # hptr # wait_all # timeout # rest) e b =
    h_WaitForSingleObject (read_words api (ucast hptr) 1 16 b ! 0 # timeout # rest') e b"
proof -
  have one: "min 16 (unat (1 :: u32)) = 1" by simp
  show ?thesis
    using assms
    by (cases "signalled e (read_words api (ucast hptr) 1 16 b ! 0)")
      (simp_all add: h_WaitForMultipleObjects_def h_WaitForSingleObject_def Let_def one)
qed

text \<open>A satisfied wait takes the signal of an auto-reset event, and of that event only; the signal of a
  manual-reset event stays.\<close>

theorem wait_takes_signal:
  assumes wf: "engine_wf e" and i: "event_index h = Some i" and s: "ev_signalled e ! i"
    and w: "h_WaitForSingleObject (h # timeout # rest) e b = (r, e', b')"
  shows "r = Ret 0 \<and> b' = b \<and> sched e' = sched e \<and> ev_signalled e' ! i = ev_manual e ! i \<and>
    (\<forall>j. j \<noteq> i \<longrightarrow> ev_signalled e' ! j = ev_signalled e ! j)"
proof -
  have l: "i < length (ev_signalled e)" using wf event_index_less [OF i] by (simp add: engine_wf_def tables_ok_def)
  have "signalled e h" using i s by (simp add: signalled_def)
  with w have "r = Ret 0" "b' = b" and e': "e' = wg_event_consume h e"
    by (auto simp: h_WaitForSingleObject_def Let_def)
  with l i s show ?thesis by (simp add: wg_event_consume_def)
qed

text \<open>What a wait that blocks leaves behind, when another thread is ready.\<close>

definition waiting_on :: "u32 \<Rightarrow> u32 \<Rightarrow> 'm blink \<Rightarrow> thread \<Rightarrow> thread" where
  "waiting_on h timeout b t = t\<lparr>wait_handle := h, wait_timeout := timeout, regs := save_regs (regs t) b,
     state := WG_THREAD_WAITING\<rparr>"

lemma block_switches:
  assumes inv: "sched_inv (sched e)" and c: "current (sched e) = Some c"
    and j: "j < WG_MAX_THREADS" "state (threads (sched e) ! j) = WG_THREAD_READY"
    and r: "block_on h timeout WG_THREAD_WAITING e b = (sw, e', b')"
  shows "sw \<and> current (sched e') \<noteq> Some c \<and>
    threads (sched e') ! c = waiting_on h timeout b (threads (sched e) ! c)"
proof -
  let ?s = "note_wait h timeout (sched e)"
  let ?t = "wg_sched_save_current ?s b WG_THREAD_WAITING"
  have cl: "c < length (threads (sched e))" using sched_invD(1,2) [OF inv] c by simp
  have cs: "current ?s = Some c" and ls: "length (threads ?s) = length (threads (sched e))"
    using c by (simp_all add: note_wait_def)
  have tc: "threads ?t ! c = waiting_on h timeout b (threads (sched e) ! c)"
    using c cl by (simp add: wg_sched_save_current_def note_wait_def nth_update_thread waiting_on_def)
  have "j \<noteq> c" using sched_invD(3) [OF inv c] j(2) by auto
  then have tj: "state (threads ?t ! j) = WG_THREAD_READY"
    using c j sched_invD(1) [OF inv] by (simp add: wg_sched_save_current_def note_wait_def nth_update_thread)
  obtain ok s1 b1 where y: "wg_sched_yield ?s b WG_THREAD_WAITING = (ok, s1, b1)" by (metis prod_cases3)
  with r have e': "sw = ok" "sched e' = s1" by (auto simp: block_on_def Let_def)
  have inv': "sched_inv ?s" by (rule note_wait_inv [OF inv])
  have ct: "current ?t = Some c" using cs by simp
  have some: "next_ready ?t \<noteq> None"
  proof -
    let ?d = "if c < j then j - Suc c else j + 31 - c"
    have cj: "c < 32" "j < 32" using sched_invD(1,2) [OF inv] c j(1) by (simp_all add: WG_MAX_THREADS_def)
    then have "(c + 1 + ?d) mod WG_MAX_THREADS = j" "?d < WG_MAX_THREADS"
      using \<open>j \<noteq> c\<close> by (auto simp: WG_MAX_THREADS_def)
    then obtain i where "next_ready ?t = Some ((c + 1 + i) mod WG_MAX_THREADS)"
      using next_ready_first [OF ct, of ?d] tj by metis
    then show ?thesis by simp
  qed
  from y show ?thesis
  proof (cases rule: yield_cases)
    case (switched k)
    from next_readyD [OF switched(1)] have k: "k < WG_MAX_THREADS" "state (threads ?t ! k) = WG_THREAD_READY" .
    then have "k \<noteq> c" using tc by (auto simp: waiting_on_def)
    moreover have "length (threads ?t) = length (threads (sched e))" using cs ls by (simp add: wg_sched_save_current_def)
    ultimately have "threads s1 ! c = threads ?t ! c" using switched(3) cl by (simp add: nth_update_thread)
    then show ?thesis using switched e' tc \<open>k \<noteq> c\<close> by simp
  qed (use some in simp_all)
qed

text \<open>A thread that waits without limit for an event is suspended with RIP at its call; when the event
  is set, whatever else has happened meanwhile, it is ready to make the call again, and the event is
  signalled.\<close>

text \<open>C9: A thread that waits without limit for an unsignalled event while another thread is ready is suspended with RIP at its call and its registers saved; if its slot in the thread table is then left alone, setting the event signals it and makes the thread ready to repeat the call. Everything else in the engine may change meanwhile.\<close>

theorem wait_until_set:
  assumes wf: "engine_wf e" and c: "current (sched e) = Some c" and "\<not> signalled e h"
    and "\<exists>j < WG_MAX_THREADS. state (threads (sched e) ! j) = WG_THREAD_READY"
    and i: "event_index h = Some i"
    and w: "h_WaitForSingleObject (h # 0xFFFFFFFF # rest) e b = (r, e1, b1)"
    and later: "engine_wf e2" "threads (sched e2) ! c = threads (sched e1) ! c"
    and set: "h_SetEvent (h # rest') e2 b2 = (r3, e3, b3)"
  shows "r = Handled \<and> current (sched e1) \<noteq> Some c \<and> ev_signalled e3 ! i \<and>
    (let t = threads (sched e3) ! c
     in state t = WG_THREAD_READY \<and> trip (regs t) = ucast (wg_blink_get_rip b) \<and>
        (\<forall>k < 8. tgpr (regs t) ! k = ucast (wg_blink_get_reg b (int k))))"
proof -
  note inv = engine_wfD(1) [OF wf]
  obtain j where j: "j < WG_MAX_THREADS" "state (threads (sched e) ! j) = WG_THREAD_READY" using assms(4) by blast
  obtain sw e' b' where bl: "block_on h 0xFFFFFFFF WG_THREAD_WAITING e b = (sw, e', b')" by (metis prod_cases3)
  note blk = block_switches [OF inv c j bl]
  have we: "r = Handled" "e1 = e'"
    using w assms(3) bl blk by (simp_all add: h_WaitForSingleObject_def wait_or_time_out_def)
  have cl: "c < length (threads (sched e2))"
    using sched_invD(2) [OF inv c] sched_invD(1) [OF engine_wfD(1) [OF later(1)]] by simp
  have il: "i < length (ev_signalled e2)" using later(1) event_index_less [OF i] by (simp add: engine_wf_def tables_ok_def)
  have e3: "e3 = (set_event h True e2)\<lparr>sched := wg_sched_wake (sched e2) h\<rparr>"
    using set by (simp add: h_SetEvent_def)
  have t: "threads (sched e3) ! c = wake_thread h (waiting_on h 0xFFFFFFFF b (threads (sched e) ! c))"
    using cl later(2) blk we(2) by (simp add: e3 wg_sched_wake_def)
  have "ev_signalled e3 ! i" using il i by (simp add: e3 set_event_def)
  then show ?thesis
    using t blk we by (simp add: wake_thread_def waiting_on_def save_regs_def nth_map del: upt_Suc)
qed

section \<open>Messages and thread-local storage\<close>

text \<open>The first message for a thread is the next that the thread takes; its fields are written into
  the guest's \<open>MSG\<close>.\<close>

theorem post_then_peek:
  assumes wf: "engine_wf e" and t: "t \<noteq> 0" and room: "ring_length 64 (thread_msgs e) < 63"
    and none: "\<forall>m \<in> set (ring_items 64 (thread_msgs e)). m_tid m \<noteq> t"
    and post: "h_PostThreadMessage [t, msg, wparam, lparam] e b = (r, e1, b')"
    and e2: "thread_msgs e2 = thread_msgs e1" "wg_sched_current_tid (sched e2) = t" and "p \<noteq> 0"
  shows "\<exists>q. h_PeekMessage api (p # rest) e2 b2 =
      Some (Ret 1, e2\<lparr>thread_msgs := q\<rparr>, write_bytes api p (msg_bytes [0, msg, wparam, lparam, 0, 0, 0]) b2) \<and>
    ring_items 64 q = ring_items 64 (thread_msgs e)"
proof -
  let ?m = "\<lparr>m_tid = t, m_msg = msg, m_wparam = wparam, m_lparam = lparam\<rparr>"
  note w = wf_messages [OF wf]
  have q1: "thread_msgs e2 = tmsg_push ?m (thread_msgs e)" using post e2 by (auto simp: h_PostThreadMessage_def)
  have i: "ring_items 64 (thread_msgs e2) = ring_items 64 (thread_msgs e) @ [?m]"
    using tmsgs.items_put [OF w, of ?m] room by (simp add: q1 list_put_def)
  have w2: "ring_wf 64 (thread_msgs e2)" by (simp add: q1 tmsgs.wf_put [OF w])
  obtain m q where g: "tmsg_get t (thread_msgs e2) = Some (m, q)"
    using tmsgs.get_None [OF w2, of t] i by (cases "tmsg_get t (thread_msgs e2)") auto
  have "list_take (\<lambda>t m. m_tid m = t) t (ring_items 64 (thread_msgs e) @ [?m]) = Some (m, ring_items 64 q)"
    using tmsgs.get_Some [OF w2 g] by (simp add: i)
  moreover have "list_take (\<lambda>t m. m_tid m = t) t (xs @ [?m]) = Some (?m, xs)" if "\<forall>m \<in> set xs. m_tid m \<noteq> t" for xs
    using that by (induction xs) auto
  ultimately have "m = ?m" "ring_items 64 q = ring_items 64 (thread_msgs e)" using none by auto
  then show ?thesis using g t e2(2) assms(8)
    by (intro exI [of _ q]) (simp add: h_PeekMessage_def Let_def tmsg_pop_get [OF w2])
qed

lemma slot_get_set:
  assumes "storage_ok l" and "row < WG_MAX_THREADS"
  shows "slot_get (slot_set l row i v) row' j = (if row' = row \<and> j = i \<and> i < 1088 then v else slot_get l row' j)"
proof -
  have "length (slot_values l ! row) = 1088" using assms by (simp add: storage_ok_def)
  moreover have "unat i < 1088 \<longleftrightarrow> i < 1088" "unat j < 1088 \<longleftrightarrow> j < 1088" by (simp_all add: word_less_nat_alt)
  ultimately show ?thesis
    using assms by (auto simp: slot_get_def slot_set_def storage_ok_def nth_list_update simp flip: word_unat_eq_iff)
qed

text \<open>A thread reads the value that it stored; no other thread and no other index sees it.\<close>

theorem tls_per_thread:
  assumes wf: "engine_wf e" and c: "current (sched e) = Some c"
    and set: "h_TlsSetValue [i, v] e b = (r, e1, b1)" and e2: "tls e2 = tls e1"
  shows "h_TlsGetValue [j] e2 b2 =
    (Ret (ucast (if current (sched e2) = Some c \<and> j = i \<and> i < 1088 then v
                 else if current (sched e2) = None \<and> c = 0 \<and> j = i \<and> i < 1088 then v
                 else slot_get (tls e) (own_row e2) j)), e2\<lparr>last_error := 0\<rparr>, b2)"
proof -
  have cl: "c < WG_MAX_THREADS" using sched_invD(2) [OF engine_wfD(1) [OF wf] c] .
  have ok: "storage_ok (tls e)" using wf by (simp add: engine_wf_def tables_ok_def)
  have "tls e2 = slot_set (tls e) c i v" using set e2 c by (auto simp: h_TlsSetValue_def own_row_def)
  then show ?thesis
    by (auto simp: h_TlsGetValue_def slot_get_set [OF ok cl] own_row_def split: option.split)
qed

end
