(* ===== verification/EngineSignals.thy ===== *)
theory EngineSignals
  imports EngineSyncOk
begin

text \<open>
  No signal is lost: while the guest synchronises with single waits, no thread is ever left waiting
  for an event that is signalled, nor for a completion port that has a completion. What the
  synchronisation calls do wrong follows: a wait that nothing else can end, a thread that exits
  while it is waited for, and a thread that the engine pauses.
\<close>

section \<open>Who waits\<close>

text \<open>The handles that the threads wait for.\<close>

definition waiters :: "scheduler \<Rightarrow> u32 set" where
  "waiters s = wait_handle ` {t \<in> set (threads s). state t = WG_THREAD_WAITING}"

lemma waitersI: "t \<in> set (threads s) \<Longrightarrow> state t = WG_THREAD_WAITING \<Longrightarrow> wait_handle t \<in> waiters s"
  by (auto simp: waiters_def)

lemma waiters_fields [simp]:
  "waiters (s\<lparr>current := c\<rparr>) = waiters s" "waiters (s\<lparr>thread_count := n\<rparr>) = waiters s"
  "waiters (s\<lparr>next_id := w\<rparr>) = waiters s" "waiters (s\<lparr>next_handle := w\<rparr>) = waiters s"
  "waiters (s\<lparr>next_stack_addr := w\<rparr>) = waiters s"
  by (simp_all add: waiters_def)

lemma waiters_put:
  assumes "state t \<noteq> WG_THREAD_WAITING \<or> wait_handle t = h"
  shows "waiters (s\<lparr>threads := (threads s)[i := t]\<rparr>) \<subseteq> insert h (waiters s)"
  using assms by (auto simp: waiters_def dest!: set_update_subset_insert [THEN subsetD])

lemma waiters_put_other:
  assumes "state t \<noteq> WG_THREAD_WAITING"
  shows "waiters (s\<lparr>threads := (threads s)[i := t]\<rparr>) \<subseteq> waiters s"
  using assms by (auto simp: waiters_def dest!: set_update_subset_insert [THEN subsetD])

lemma waiters_update:
  "state (f (threads s ! i)) \<noteq> WG_THREAD_WAITING \<Longrightarrow> waiters (update_thread s i f) \<subseteq> waiters s"
  by (simp add: update_thread_def waiters_put_other)

lemma waiters_keep:
  assumes "state (f (threads s ! i)) = state (threads s ! i)" and "wait_handle (f (threads s ! i)) = wait_handle (threads s ! i)"
  shows "waiters (update_thread s i f) \<subseteq> waiters s"
proof (cases "i < length (threads s)")
  case True
  have "w \<in> waiters s" if "w \<in> waiters (update_thread s i f)" for w
    using that assms nth_mem [OF True]
    by (auto simp: waiters_def update_thread_def dest!: set_update_subset_insert [THEN subsetD])
  then show ?thesis by blast
qed (simp add: update_thread_def list_update_beyond)

lemma waiters_wake: "waiters (wg_sched_wake s h) = waiters s - {h}"
  by (auto simp: waiters_def wg_sched_wake_def wake_thread_def image_iff split: if_splits)

lemma waiters_save: "r \<noteq> WG_THREAD_WAITING \<Longrightarrow> waiters (wg_sched_save_current s b r) \<subseteq> waiters s"
  by (auto simp: wg_sched_save_current_def split: option.splits dest!: waiters_update [THEN subsetD, rotated])

lemma waiters_switch: "wg_sched_switch_next s b = (sw, s', b') \<Longrightarrow> waiters s' \<subseteq> waiters s"
  using waiters_update [of "\<lambda>t. t\<lparr>state := WG_THREAD_RUNNING\<rparr>" "s\<lparr>current := c\<rparr>" for c]
  by (auto simp: wg_sched_switch_next_def Let_def split: option.splits)

lemma waiters_yield:
  assumes "wg_sched_yield s b r = (sw, s', b')"
  shows "waiters s' \<subseteq> waiters (wg_sched_save_current s b r)"
  using assms
proof (cases rule: yield_cases)
  case (switched j)
  then show ?thesis
    using waiters_update [of "\<lambda>t. t\<lparr>state := WG_THREAD_RUNNING\<rparr>" "(wg_sched_save_current s b r)\<lparr>current := Some j\<rparr>" j] by simp
next
  case (alone c)
  then show ?thesis
    using waiters_update [of "\<lambda>t. t\<lparr>state := WG_THREAD_RUNNING\<rparr>" "wg_sched_save_current s b r" c] by simp
qed simp

lemma waiters_yield_ready: "wg_sched_yield s b WG_THREAD_READY = (sw, s', b') \<Longrightarrow> waiters s' \<subseteq> waiters s"
  using waiters_yield [of s b WG_THREAD_READY] waiters_save [of WG_THREAD_READY s b] by fastforce

lemma waiters_block:
  assumes "block_on h timeout blk e b = (sw, e', b')"
  shows "waiters (sched e') \<subseteq> insert h (waiters (sched e))"
proof -
  let ?s = "note_wait h timeout (sched e)"
  obtain ok s1 b1 where y: "wg_sched_yield ?s b blk = (ok, s1, b1)" by (metis prod_cases3)
  with assms have s1: "sched e' = s1" by (auto simp: block_on_def Let_def)
  have "waiters (wg_sched_save_current ?s b blk) \<subseteq> insert h (waiters (sched e))"
  proof (cases "current (sched e)")
    case (Some c)
    then have eq: "wg_sched_save_current ?s b blk = update_thread (sched e) c (\<lambda>t. t\<lparr>wait_handle := h, wait_timeout := timeout,
        regs := save_regs (regs t) b, state := blk\<rparr>)"
      by (cases "c < length (threads (sched e))")
        (simp_all add: wg_sched_save_current_def note_wait_def update_thread_def list_update_beyond)
    show ?thesis unfolding eq update_thread_def by (rule waiters_put) simp
  qed (auto simp: wg_sched_save_current_def note_wait_def)
  with waiters_yield [OF y] s1 show ?thesis by blast
qed

section \<open>What is signalled\<close>

text \<open>A wait for \<open>h\<close> would end at once: the event is signalled, the port has a completion.\<close>

definition pending :: "engine \<Rightarrow> u32 \<Rightarrow> bool" where
  "pending e h \<longleftrightarrow>
     (case event_index h of Some k \<Rightarrow> ev_signalled e ! k
      | None \<Rightarrow> h = WG_IOCP_HANDLE \<and> iocp_get (completions e) \<noteq> None)"

definition created :: "engine \<Rightarrow> u32 \<Rightarrow> bool" where
  "created e h \<longleftrightarrow> (case event_index h of Some k \<Rightarrow> k < unat (ev_next e) | None \<Rightarrow> True)"

definition calm :: "engine \<Rightarrow> bool" where
  "calm e \<longleftrightarrow> (\<forall>h \<in> waiters (sched e). \<not> pending e h \<and> created e h)"

lemma iocp_no_event [simp]: "event_index WG_IOCP_HANDLE = None"
  by (simp add: event_index_def WG_IOCP_HANDLE_def WG_EVENT_BASE_def WG_MAX_EVENTS_def)

text \<open>Steps that signal nothing and leave nobody waiting.\<close>

definition quiet :: "engine \<Rightarrow> engine \<Rightarrow> bool" where
  "quiet e e' \<longleftrightarrow> waiters (sched e') \<subseteq> waiters (sched e) \<and> ev_signalled e' = ev_signalled e \<and>
     ev_next e' = ev_next e \<and> completions e' = completions e"

lemma quiet_refl [simp]: "quiet e e" by (simp add: quiet_def)

lemma quiet_trans: "quiet e e' \<Longrightarrow> quiet e' e'' \<Longrightarrow> quiet e e''"
  by (auto simp: quiet_def)

lemma quiet_calm:
  assumes "calm e" and q: "quiet e e'"
  shows "calm e'"
proof -
  have "pending e' = pending e" "created e' = created e"
    using q by (simp_all add: fun_eq_iff pending_def created_def quiet_def split: option.split)
  then show ?thesis using assms by (auto simp: calm_def quiet_def)
qed

lemma quiet_fields [simp]:
  "quiet e (e'\<lparr>estate := st\<rparr>) = quiet e e'" "quiet e (e'\<lparr>last_error := w\<rparr>) = quiet e e'"
  "quiet e (e'\<lparr>heap_ptr := w\<rparr>) = quiet e e'" "quiet e (e'\<lparr>iocp_created := v\<rparr>) = quiet e e'"
  "quiet e (e'\<lparr>iocp_bindings := bs\<rparr>) = quiet e e'" "quiet e (e'\<lparr>tp_work := ws\<rparr>) = quiet e e'"
  "quiet e (e'\<lparr>thread_msgs := q\<rparr>) = quiet e e'" "quiet e (e'\<lparr>timer_hwnd := w\<rparr>) = quiet e e'"
  "quiet e (e'\<lparr>timer_id := w\<rparr>) = quiet e e'" "quiet e (e'\<lparr>timer_active := v\<rparr>) = quiet e e'"
  "quiet e (e'\<lparr>tls := l\<rparr>) = quiet e e'" "quiet e (e'\<lparr>fls := l\<rparr>) = quiet e e'"
  "quiet e (e'\<lparr>alloc_sizes := as\<rparr>) = quiet e e'" "quiet e (e'\<lparr>callstack := cs\<rparr>) = quiet e e'"
  by (simp_all add: quiet_def)

lemma quiet_sched [simp]: "waiters s \<subseteq> waiters (sched e) \<Longrightarrow> quiet e (e\<lparr>sched := s\<rparr>)"
  by (simp add: quiet_def)

text \<open>The calls that are quiet.\<close>

definition quiet_call :: "engine \<Rightarrow> 'm handled \<Rightarrow> bool" where
  "quiet_call e r \<longleftrightarrow> quiet e (fst (snd r))"

lemma quiet_call_pair [simp]: "quiet_call e (r, e', b) \<longleftrightarrow> quiet e e'"
  by (simp add: quiet_call_def)

named_theorems quiet_calls "calls that signal nothing and leave nobody waiting"

lemma new_thread_quiet:
  assumes "new_thread api z ab st prm fl e b = (r, e', b')"
  shows "quiet e e'"
proof -
  obtain r s b1 where c: "wg_sched_create_thread api z ab (sched e) b st prm fl = (r, s, b1)" by (metis prod_cases3)
  have "waiters s \<subseteq> waiters (sched e)"
    using c
  proof (cases rule: create_thread_cases)
    case (created slot)
    have "state (fresh_thread (sched e) slot st prm fl) \<noteq> WG_THREAD_WAITING"
      using fresh_thread_state [of "sched e" slot st prm fl] by auto
    then show ?thesis using waiters_put_other by (simp add: created(3) waiters_def)
  qed simp
  then show ?thesis using assms c by (auto simp: new_thread_def)
qed

lemma guest_alloc_quiet: "quiet e0 e \<Longrightarrow> wg_guest_alloc api n e b = (a, e', b') \<Longrightarrow> quiet e0 e'"
  by (auto simp: wg_guest_alloc_def Let_def track_alloc_def split: if_splits)

lemma give_teb_quiet:
  assumes "give_teb api h t e b = (e', b')"
  shows "quiet e e'"
proof (cases "wg_sched_find (sched e) h")
  case (Some i)
  let ?nt = "threads (sched e) ! i"
  obtain tb e1 b1 where t: "wg_alloc_thread_teb api (stack_base ?nt + stack_size ?nt) (stack_base ?nt) t e b = (tb, e1, b1)"
    by (metis prod_cases3)
  have "quiet e e1" by (rule thread_teb_rule [OF _ _ t, of "quiet e"]) (auto intro: guest_alloc_quiet)
  moreover have "quiet e1 (e1\<lparr>sched := update_thread (sched e1) i
      (\<lambda>t. t\<lparr>teb := tb, regs := regs t\<lparr>tfs_base := tb\<rparr>\<rparr>)\<rparr>)" by (simp add: waiters_keep)
  ultimately show ?thesis using assms Some t
    by (auto simp: give_teb_def Let_def intro: quiet_trans split: if_splits)
qed (use assms in \<open>simp add: give_teb_def\<close>)

lemma start_thread_quiet: "start_thread api z ab st prm fl tp e b = (h, e', b') \<Longrightarrow> quiet e e'"
  by (auto simp: start_thread_def Let_def split: prod.splits if_splits
      dest!: new_thread_quiet give_teb_quiet intro: quiet_trans)

lemma call_sync_quiet: "quiet e e' \<Longrightarrow> quiet_call e (call_sync api f n st prm e' b)"
  by (auto simp: call_sync_def Let_def wg_call_wndproc_ovr_def push_call_def split: option.splits if_splits)

lemma threads_quiet [quiet_calls]:
  "quiet_call e (h_CreateThread api z ab f e b)" "quiet_call e (h_beginthreadex api z ab args e b)"
  "quiet_call e (h_beginthread api z ab args e b)" "quiet_call e (h_QueueUserWorkItem api z ab f e b)"
  by (auto simp: h_CreateThread_def h_beginthreadex_def h_beginthread_def h_QueueUserWorkItem_def Let_def
      call_sync_quiet split: prod.splits dest: start_thread_quiet new_thread_quiet)

lemma SubmitThreadpoolWork_quiet [quiet_calls]: "quiet_call e (h_SubmitThreadpoolWork api z ab args e b)"
proof -
  let ?w = "tp_work e ! unat (args ! 0 - WG_TP_WORK_BASE)"
  obtain r e1 b1 where n: "new_thread api z ab (tp_callback ?w) (tp_ctx ?w) 0 e b = (r, e1, b1)" by (metis prod_cases3)
  from new_thread_quiet [OF n] n show ?thesis by (auto simp: h_SubmitThreadpoolWork_def Let_def split: option.split)
qed

lemma tables_quiet [quiet_calls]:
  "quiet_call e (h_OpenMutex e b)" "quiet_call e (h_CreateIoCompletionPort args e b)"
  "quiet_call e (h_CreateThreadpoolWork args e b)" "quiet_call e (h_GetExitCodeThread api args e b)"
  "quiet_call e (h_SetTimer args e b)" "quiet_call e (h_KillTimer args e b)"
  "quiet_call e (h_PostThreadMessage args e b)" "quiet_call e (h_TlsAlloc e b)" "quiet_call e (h_FlsAlloc e b)"
  "quiet_call e (h_TlsGetValue args e b)" "quiet_call e (h_FlsGetValue args e b)"
  "quiet_call e (h_TlsSetValue args e b)" "quiet_call e (h_FlsSetValue args e b)"
  by (simp_all add: h_OpenMutex_def h_CreateIoCompletionPort_def h_CreateThreadpoolWork_def h_GetExitCodeThread_def
      h_SetTimer_def h_KillTimer_def h_PostThreadMessage_def h_TlsAlloc_def h_FlsAlloc_def h_TlsGetValue_def
      h_FlsGetValue_def h_TlsSetValue_def h_FlsSetValue_def Let_def split: prod.split)

lemma ResumeThread_quiet [quiet_calls]: "quiet_call e (h_ResumeThread args e b)"
  by (auto simp: h_ResumeThread_def resume_thread_def waiters_update intro!: quiet_sched split: prod.split option.split)

lemma Sleep_quiet [quiet_calls]: "quiet_call e (h_Sleep f n e b)"
  by (auto simp: h_Sleep_def Let_def intro!: quiet_sched split: prod.splits dest: waiters_yield_ready [THEN subsetD])

lemma ExitThread_quiet [quiet_calls]: "quiet_call e (h_ExitThread args e b)"
proof (cases "current (sched e)")
  case (Some c)
  let ?s = "update_thread (sched e) c (\<lambda>t. t\<lparr>state := WG_THREAD_EXITED, exit_code := args ! 0\<rparr>)"
  obtain sw s b1 where n: "wg_sched_switch_next (?s\<lparr>current := None\<rparr>) b = (sw, s, b1)" by (metis prod_cases3)
  have "waiters s \<subseteq> waiters (sched e)"
    using waiters_switch [OF n] waiters_update [of "\<lambda>t. t\<lparr>state := WG_THREAD_EXITED, exit_code := args ! 0\<rparr>" "sched e" c]
    by auto
  then show ?thesis using Some n by (simp add: h_ExitThread_def wg_sched_exit_thread_def Let_def)
qed (simp add: h_ExitThread_def wg_sched_exit_thread_def)

lemma PeekMessage_quiet: "h_PeekMessage api args e b = Some r \<Longrightarrow> quiet_call e r"
  by (auto simp: h_PeekMessage_def Let_def bind_eq_Some_conv split: if_splits option.splits)

lemma GetMessage_quiet:
  assumes "h_GetMessage api f e b = Some r"
  shows "quiet_call e r"
proof -
  obtain p where p: "tmsg_pop (wg_sched_current_tid (sched e)) (thread_msgs e) = Some p"
    using assms by (auto simp: h_GetMessage_def bind_eq_Some_conv)
  define e1 where "e1 = (case p of Some (m, q) \<Rightarrow> e\<lparr>thread_msgs := q\<rparr> | None \<Rightarrow> e)"
  have e1: "quiet e e1" "sched e1 = sched e" by (simp_all add: e1_def split: option.split)
  have "\<exists>b1. h_GetMessage api f e b = (case wg_sched_yield (sched e1) b1 WG_THREAD_READY of
      (sw, s, b2) \<Rightarrow> Some (Handled, e1\<lparr>sched := s, estate := if sw then WG_ENGINE_RUNNING else WG_ENGINE_PAUSED\<rparr>, b2))"
  proof (cases p)
    case None
    then show ?thesis
      unfolding h_GetMessage_def Let_def p e1_def
      by (simp only: Option.bind.simps option.case prod.case) (rule exI, rule refl)
  next
    case (Some x)
    obtain m q where x: "x = (m, q)" by (cases x)
    from Some show ?thesis
      unfolding h_GetMessage_def Let_def p e1_def x
      by (simp only: Option.bind.simps option.case prod.case) (rule exI, rule refl)
  qed
  then obtain b1 where g: "h_GetMessage api f e b = (case wg_sched_yield (sched e1) b1 WG_THREAD_READY of
      (sw, s, b2) \<Rightarrow> Some (Handled, e1\<lparr>sched := s, estate := if sw then WG_ENGINE_RUNNING else WG_ENGINE_PAUSED\<rparr>, b2))"
    by blast
  obtain sw s b2 where y: "wg_sched_yield (sched e1) b1 WG_THREAD_READY = (sw, s, b2)" by (metis prod_cases3)
  with g assms have r: "r = (Handled, e1\<lparr>sched := s, estate := if sw then WG_ENGINE_RUNNING else WG_ENGINE_PAUSED\<rparr>, b2)"
    by simp
  show ?thesis using waiters_yield_ready [OF y] e1 by (auto simp: r quiet_def)
qed

section \<open>Calls that signal or wait\<close>

definition calm_after :: "'m handled \<Rightarrow> bool" where
  "calm_after r \<longleftrightarrow> calm (fst (snd r))"

lemma calm_after_pair [simp]: "calm_after (r, e, b) \<longleftrightarrow> calm e"
  by (simp add: calm_after_def)

lemma quiet_call_calm: "calm e \<Longrightarrow> quiet_call e r \<Longrightarrow> calm_after r"
  by (simp add: quiet_call_def calm_after_def quiet_calm)

lemma calmI:
  "(\<And>h. h \<in> waiters (sched e) \<Longrightarrow> \<not> pending e h) \<Longrightarrow> (\<And>h. h \<in> waiters (sched e) \<Longrightarrow> created e h) \<Longrightarrow> calm e"
  by (simp add: calm_def)

lemma nth_update_True: "xs[i := v] ! j \<Longrightarrow> i = j \<and> v \<or> xs ! j"
  by (cases "i < length xs") (auto simp: nth_list_update list_update_beyond split: if_splits)

lemma pending_consume: "pending (wg_event_consume h e) h' \<Longrightarrow> pending e h'"
  by (cases "event_index h'"; cases "event_index h")
    (auto simp: pending_def wg_event_consume_def dest: nth_update_True split: if_splits)

lemma created_consume [simp]: "created (wg_event_consume h e) = created e"
  by (auto simp: created_def wg_event_consume_def fun_eq_iff split: option.split)

lemma consume_calm: "calm e \<Longrightarrow> calm (wg_event_consume h e)"
  using pending_consume by (auto simp: calm_def)

lemma created_set_event [simp]: "created (set_event h v e) = created e"
  by (auto simp: created_def set_event_def fun_eq_iff split: option.split)

lemma pending_set_event: "pending (set_event h v e) h' \<Longrightarrow> h' = h \<and> v \<or> pending e h'"
  by (cases "event_index h'"; cases "event_index h")
    (auto simp: pending_def set_event_def dest: nth_update_True event_index_inj)

named_theorems calm_calls "calls that lose no signal"

lemma SetEvent_calm [calm_calls]:
  assumes "calm e"
  shows "calm_after (h_SetEvent args e b)"
proof -
  let ?e = "set_event (args ! 0) True e"
  have same: "pending (?e\<lparr>sched := s\<rparr>) = pending ?e" "created (?e\<lparr>sched := s\<rparr>) = created e" for s
    by (auto simp: fun_eq_iff pending_def created_def set_event_def split: option.split)
  have "calm (?e\<lparr>sched := wg_sched_wake (sched e) (args ! 0)\<rparr>)"
    using assms pending_set_event [of "args ! 0" True e] by (auto simp: calm_def same waiters_wake)
  then show ?thesis by (simp add: h_SetEvent_def)
qed

lemma ResetEvent_calm [calm_calls]: "calm e \<Longrightarrow> calm_after (h_ResetEvent args e b)"
  using pending_set_event [of "args ! 0" False e] by (auto simp: h_ResetEvent_def calm_def)

lemma created_next: "ev_next e < of_nat WG_MAX_EVENTS \<Longrightarrow> created e h \<Longrightarrow> created (e\<lparr>ev_next := ev_next e + 1\<rparr>) h"
  using next_number [of "ev_next e" WG_MAX_EVENTS] by (auto simp: created_def WG_MAX_EVENTS_def split: option.splits)

text \<open>A new event may be signalled, but nobody waits for it yet.\<close>

lemma CreateEvent_calm [calm_calls]:
  assumes "calm e"
  shows "calm_after (h_CreateEvent args e b)"
proof (cases "ev_next e < of_nat WG_MAX_EVENTS")
  case True
  let ?i = "unat (ev_next e)"
  let ?e = "e\<lparr>ev_next := ev_next e + 1, ev_signalled := (ev_signalled e)[?i := args ! 2 \<noteq> 0],
    ev_manual := (ev_manual e)[?i := args ! 1 \<noteq> 0]\<rparr>"
  have "calm ?e"
  proof (rule calmI)
    fix h assume "h \<in> waiters (sched ?e)"
    with assms have h: "\<not> pending e h" "created e h" by (simp_all add: calm_def)
    then show "\<not> pending ?e h" by (auto simp: pending_def created_def nth_list_update split: option.splits)
    show "created ?e h" using created_next [OF True h(2)] by (simp add: created_def split: option.splits)
  qed
  then show ?thesis using True by (simp add: h_CreateEvent_def Let_def)
qed (use assms in \<open>simp add: h_CreateEvent_def\<close>)

lemma CreateMutex_calm [calm_calls]:
  assumes "calm e"
  shows "calm_after (h_CreateMutex dflt e b)"
proof -
  have e: "calm (e\<lparr>last_error := 0\<rparr>)" by (rule quiet_calm [OF assms]) simp
  show ?thesis
  proof (cases "ev_next e < of_nat WG_MAX_EVENTS")
    case True
    have "calm (e\<lparr>ev_next := ev_next e + 1\<rparr>)"
    proof (rule calmI)
      fix h assume "h \<in> waiters (sched (e\<lparr>ev_next := ev_next e + 1\<rparr>))"
      with assms have h: "\<not> pending e h" "created e h" by (simp_all add: calm_def)
      then show "\<not> pending (e\<lparr>ev_next := ev_next e + 1\<rparr>) h" by (simp add: pending_def split: option.splits)
      show "created (e\<lparr>ev_next := ev_next e + 1\<rparr>) h" by (rule created_next [OF True h(2)])
    qed
    then have "calm (e\<lparr>ev_next := ev_next e + 1, last_error := 0\<rparr>)" by (rule quiet_calm) simp
    then show ?thesis using True by (simp add: h_CreateMutex_def)
  qed (use e in \<open>simp add: h_CreateMutex_def\<close>)
qed

lemma block_calm:
  assumes e: "calm e" and h: "\<not> pending e h" "created e h" and b: "block_on h timeout blk e b = (sw, e', b')"
  shows "calm e'"
proof -
  have same: "pending e' = pending e" "created e' = created e"
    using b by (auto simp: block_on_def Let_def fun_eq_iff pending_def created_def split: prod.splits option.split)
  show ?thesis using waiters_block [OF b] e h by (auto simp: calm_def same)
qed

lemma iocp_pending: "pending e WG_IOCP_HANDLE \<longleftrightarrow> iocp_get (completions e) \<noteq> None"
  by (simp add: pending_def)

lemma completions_calm:
  assumes e: "calm e" and "WG_IOCP_HANDLE \<notin> waiters s \<or> iocp_get q = None" and s: "waiters s \<subseteq> waiters (sched e)"
  shows "calm (e\<lparr>completions := q, sched := s\<rparr>)"
proof (rule calmI)
  fix h assume h: "h \<in> waiters (sched (e\<lparr>completions := q, sched := s\<rparr>))"
  then have "\<not> pending e h" "created e h" using e s by (auto simp: calm_def)
  then show "\<not> pending (e\<lparr>completions := q, sched := s\<rparr>) h" "created (e\<lparr>completions := q, sched := s\<rparr>) h"
    using assms(2) h by (auto simp: pending_def created_def split: option.splits)
qed

lemma PostQueuedCompletionStatus_calm [calm_calls]: "calm e \<Longrightarrow> calm_after (h_PostQueuedCompletionStatus args e b)"
  unfolding h_PostQueuedCompletionStatus_def calm_after_pair
  by (rule completions_calm) (auto simp: waiters_wake)

lemma GetQueuedCompletionStatus_calm [calm_calls]:
  assumes e: "calm e"
  shows "calm_after (h_GetQueuedCompletionStatus api ex args e b)"
proof (cases "iocp_get (completions e)")
  case None
  obtain sw e' b' where bl: "block_on WG_IOCP_HANDLE (args ! 4) WG_THREAD_WAITING e b = (sw, e', b')" by (metis prod_cases3)
  have "calm e'" by (rule block_calm [OF e _ _ bl]) (simp_all add: iocp_pending None created_def)
  moreover have "calm (x\<lparr>last_error := 258\<rparr>)" if "calm x" for x by (rule quiet_calm [OF that]) simp
  ultimately show ?thesis using None bl e by (simp add: h_GetQueuedCompletionStatus_def)
next
  case (Some x)
  obtain c q where x: "x = (c, q)" by (cases x)
  have "WG_IOCP_HANDLE \<notin> waiters (sched e)" using e iocp_pending [of e] Some by (auto simp: calm_def)
  then have "calm (e\<lparr>completions := q, sched := sched e\<rparr>)" by (intro completions_calm [OF e]) auto
  then show ?thesis using Some by (simp add: h_GetQueuedCompletionStatus_def x)
qed

lemma WaitForSingleObject_calm:
  assumes e: "calm e" and h: "created e (args ! 0)" "args ! 0 \<noteq> WG_IOCP_HANDLE"
  shows "calm_after (h_WaitForSingleObject args e b)"
proof (cases "signalled e (args ! 0)")
  case True
  then show ?thesis using e by (simp add: h_WaitForSingleObject_def Let_def consume_calm)
next
  case False
  then have "\<not> pending e (args ! 0)" using h by (auto simp: pending_def signalled_def split: option.splits)
  note b = block_calm [OF e this h(1)]
  show ?thesis using False e
    by (auto simp: h_WaitForSingleObject_def wait_or_time_out_def Let_def split: prod.split dest: b)
qed

section \<open>No lost signals\<close>

text \<open>The calls that synchronise with single waits, each on an event that has been created.\<close>

definition single_waits :: "string \<Rightarrow> u32 list \<Rightarrow> engine \<Rightarrow> bool" where
  "single_waits fn args e \<longleftrightarrow>
     fn \<notin> {''WaitForMultipleObjects'', ''WaitForMultipleObjectsEx'', ''MsgWaitForMultipleObjects'',
            ''MsgWaitForMultipleObjectsEx''} \<and>
     (fn \<in> {''WaitForSingleObject'', ''WaitForSingleObjectEx''} \<longrightarrow>
        created e (args ! 0) \<and> args ! 0 \<noteq> WG_IOCP_HANDLE)"

lemma if_Some_cond:
  "(if P then Some a else r) = Some x \<Longrightarrow> (P \<Longrightarrow> x = a \<Longrightarrow> Q) \<Longrightarrow> (r = Some x \<Longrightarrow> Q) \<Longrightarrow> Q"
  by (cases P) auto

lemma sync_call_calm:
  assumes e: "calm e" and s: "single_waits fn (fargs f) e" and c: "sync_call api z ab fn dflt f e b = Some (Some r)"
  shows "calm_after r"
  using c unfolding sync_call_def Let_def
  by (elim if_Some_cond)
    (use s in \<open>auto simp: single_waits_def e calm_calls quiet_calls [THEN quiet_call_calm [OF e]] WaitForSingleObject_calm
      PeekMessage_quiet [THEN quiet_call_calm [OF e]] GetMessage_quiet [THEN quiet_call_calm [OF e]]\<close>)

text \<open>A run of such calls, from a state in which no thread waits; between the calls the guest may
  change the machine.\<close>

inductive signal_run :: "'m guest_api \<Rightarrow> engine \<times> 'm blink \<Rightarrow> bool" for api :: "'m guest_api" where
  none_waits: "(\<And>t. t \<in> set (threads (sched e)) \<Longrightarrow> state t \<noteq> WG_THREAD_WAITING) \<Longrightarrow> signal_run api (e, b)"
| synchronise: "signal_run api (e, b) \<Longrightarrow> single_waits fn (fargs f) e \<Longrightarrow>
    sync_call api z ab fn dflt f e b = Some (Some (r, e', b')) \<Longrightarrow> signal_run api (e', b'')"

lemma signal_run_calm: "signal_run api p \<Longrightarrow> calm (fst p)"
proof (induction rule: signal_run.induct)
  case (none_waits e b)
  then show ?case by (auto simp: calm_def waiters_def)
next
  case (synchronise e b fn f z ab dflt r e' b' b'')
  then show ?case using sync_call_calm [of e fn f] by fastforce
qed

text \<open>C4: While the guest synchronises with single waits on events it has created, no thread is left waiting for an event that is signalled, nor for a completion port that has a completion.\<close>

theorem no_lost_wakeup:
  assumes "signal_run api (e, b)" and "t \<in> set (threads (sched e))" and "state t = WG_THREAD_WAITING"
  shows "(\<forall>k. event_index (wait_handle t) = Some k \<longrightarrow> \<not> ev_signalled e ! k) \<and>
    (wait_handle t = WG_IOCP_HANDLE \<longrightarrow> iocp_get (completions e) = None)"
proof -
  have "\<not> pending e (wait_handle t)"
    using signal_run_calm [OF assms(1)] waitersI [OF assms(2,3)] by (simp add: calm_def)
  then show ?thesis by (auto simp: pending_def simp flip: not_None_eq)
qed

section \<open>Waits that go wrong\<close>

lemma signalled_same:
  assumes "ev_signalled e' = ev_signalled e" and l: "length (threads (sched e')) = length (threads (sched e))"
    and t: "\<And>i. i < length (threads (sched e)) \<Longrightarrow>
      thandle (threads (sched e') ! i) = thandle (threads (sched e) ! i) \<and>
      (state (threads (sched e') ! i) = WG_THREAD_FREE \<longleftrightarrow> state (threads (sched e) ! i) = WG_THREAD_FREE) \<and>
      (state (threads (sched e') ! i) = WG_THREAD_EXITED \<longleftrightarrow> state (threads (sched e) ! i) = WG_THREAD_EXITED)"
  shows "signalled e' h = signalled e h"
proof -
  have f: "wg_sched_find (sched e') h = wg_sched_find (sched e) h"
    unfolding wg_sched_find_def by (rule find_index_cong_nth) (use l t in auto)
  have "i < length (threads (sched e))" if "wg_sched_find (sched e) h = Some i" for i
    using that by (auto simp: wg_sched_find_def dest: find_index_SomeD)
  then show ?thesis using assms(1) t by (auto simp: signalled_def f split: option.split)
qed

text \<open>A wait without limit, when no other thread can run: it returns 0, the result of a wait that was
  satisfied, and the handle is still not signalled.\<close>

theorem lone_wait:
  assumes wf: "engine_wf e" and c: "current (sched e) = Some c" and n: "\<not> signalled e h"
    and lone: "\<forall>t \<in> set (threads (sched e)). state t \<noteq> WG_THREAD_READY"
    and w: "h_WaitForSingleObject (h # 0xFFFFFFFF # rest) e b = (r, e', b')"
  shows "r = Ret 0 \<and> \<not> signalled e' h"
proof -
  note inv = engine_wfD(1) [OF wf]
  note cl = sched_invD(1) [OF inv] sched_invD(2,3) [OF inv c]
  let ?s = "note_wait h 0xFFFFFFFF (sched e)"
  let ?t = "wg_sched_save_current ?s b WG_THREAD_WAITING"
  have t: "threads ?t = (threads (sched e))[c := waiting_on h 0xFFFFFFFF b (threads (sched e) ! c)]"
    using c cl by (simp add: wg_sched_save_current_def note_wait_def update_thread_def waiting_on_def)
  have "next_ready ?t \<noteq> Some j" for j
  proof
    assume r: "next_ready ?t = Some j"
    then have j: "j < WG_MAX_THREADS" "state (threads ?t ! j) = WG_THREAD_READY" by (rule next_readyD)+
    with cl have "threads (sched e) ! j \<in> set (threads (sched e))" by simp
    with lone j cl show False by (auto simp: t nth_list_update waiting_on_def split: if_splits)
  qed
  then have none: "next_ready ?t = None" by auto
  obtain ok s1 b1 where y: "wg_sched_yield ?s b WG_THREAD_WAITING = (ok, s1, b1)" by (metis prod_cases3)
  have s1: "\<not> ok \<and> threads s1 = (threads ?t)[c := (threads ?t ! c)\<lparr>state := WG_THREAD_RUNNING\<rparr>]"
    using y
  proof (cases rule: yield_cases)
    case (alone c')
    then have "c' = c" using c by (simp add: note_wait_def)
    with alone show ?thesis by (simp add: update_thread_def)
  qed (use none c in \<open>simp_all add: note_wait_def\<close>)
  with w n y have r: "r = Ret 0" and e': "e' = e\<lparr>sched := s1\<rparr>"
    by (auto simp: h_WaitForSingleObject_def wait_or_time_out_def block_on_def Let_def)
  have "signalled e' h = signalled e h"
    by (rule signalled_same) (use s1 t cl in \<open>auto simp: e' nth_list_update waiting_on_def\<close>)
  with r n show ?thesis by simp
qed

text \<open>A thread that calls \<open>ExitThread\<close> does not wake the threads that wait for it, although its handle
  is signalled from then on.\<close>

theorem exit_strands_waiter:
  assumes wf: "engine_wf e" and c: "current (sched e) = Some c" "wg_sched_find (sched e) h = Some c"
    and j: "j < WG_MAX_THREADS" "state (threads (sched e) ! j) = WG_THREAD_WAITING" "wait_handle (threads (sched e) ! j) = h"
    and x: "h_ExitThread args e b = (r, e', b')"
  shows "signalled e' h \<and> threads (sched e') ! j = threads (sched e) ! j"
proof -
  note inv = engine_wfD(1) [OF wf]
  note cl = sched_invD(1) [OF inv] sched_invD(2,3) [OF inv c(1)]
  let ?ts = "(threads (sched e))[c := (threads (sched e) ! c)\<lparr>state := WG_THREAD_EXITED, exit_code := args ! 0\<rparr>]"
  let ?s = "(sched e)\<lparr>threads := ?ts, current := None\<rparr>"
  have jc: "j \<noteq> c" using j cl by auto
  obtain sw s b1 where n: "wg_sched_switch_next ?s b = (sw, s, b1)" by (metis prod_cases3)
  have e': "e' = e\<lparr>sched := s\<rparr>"
    using x c n by (auto simp: h_ExitThread_def wg_sched_exit_thread_def update_thread_def Let_def)
  have th: "threads s = ?ts \<or> (\<exists>k < WG_MAX_THREADS. state (?ts ! k) = WG_THREAD_READY \<and>
      threads s = ?ts[k := (?ts ! k)\<lparr>state := WG_THREAD_RUNNING\<rparr>])"
    using n
  proof (cases rule: switch_next_cases)
    case (switched k)
    from next_readyD [OF switched(1)] switched(3) show ?thesis by (auto simp: update_thread_def)
  qed simp
  have f: "i < length (threads (sched e)) \<Longrightarrow> thandle (threads s ! i) = thandle (threads (sched e) ! i) \<and>
      (state (threads s ! i) = WG_THREAD_FREE \<longleftrightarrow> state (threads (sched e) ! i) = WG_THREAD_FREE)" for i
    using th cl by (auto simp: nth_list_update split: if_splits)
  have "length (threads s) = length (threads (sched e))" using th by auto
  then have "wg_sched_find s h = wg_sched_find (sched e) h"
    unfolding wg_sched_find_def by (intro find_index_cong_nth) (use f in auto)
  moreover have "state (threads s ! c) = WG_THREAD_EXITED" using th cl by (auto simp: nth_list_update split: if_splits)
  moreover have "threads s ! j = threads (sched e) ! j" using th j(1,2) cl jc by (auto simp: nth_list_update split: if_splits)
  ultimately show ?thesis using c by (simp add: e' signalled_def)
qed

text \<open>A paused engine that runs another thread leaves the paused one waiting for the handle of its
  last wait, though it did not wait for anything: neither a message nor any other handle makes it
  ready.\<close>

theorem pause_strands:
  assumes wf: "engine_wf e" and c: "current (sched e) = Some c" and p: "estate e = WG_ENGINE_PAUSED"
    and j: "\<exists>t \<in> set (threads (sched e)). state t = WG_THREAD_READY"
    and u: "tick_unpause e b = (e', b')"
    and h: "h \<noteq> wait_handle (threads (sched e) ! c)"
    and post: "h_PostThreadMessage (tid (threads (sched e) ! c) # ms) e' b1 = (r1, e1, b1')"
    and set: "h_SetEvent (h # rest) e1 b2 = (r2, e2, b2')"
  shows "state (threads (sched e2) ! c) = WG_THREAD_WAITING"
proof -
  note inv = engine_wfD(1) [OF wf]
  note cl = sched_invD(1) [OF inv] sched_invD(2,3) [OF inv c]
  let ?s = "wg_sched_save_current (sched e) b WG_THREAD_WAITING"
  have t: "threads ?s = (threads (sched e))[c := (threads (sched e) ! c)\<lparr>regs := save_regs (regs (threads (sched e) ! c)) b,
      state := WG_THREAD_WAITING\<rparr>]" using c by (simp add: wg_sched_save_current_def update_thread_def)
  obtain sw s b3 where n: "wg_sched_switch_next ?s b = (sw, s, b3)" by (metis prod_cases3)
  have e': "sched e' = s" using u p j n by (auto simp: tick_unpause_def)
  have th: "threads s ! c = threads ?s ! c"
    using n
  proof (cases rule: switch_next_cases)
    case (switched k)
    from next_readyD [OF switched(1)] have "k \<noteq> c" using t cl by auto
    with switched(3) show ?thesis by (simp add: update_thread_def)
  qed simp
  have l: "length (threads s) = length (threads (sched e))"
    using n by (cases rule: switch_next_cases) (simp_all add: t)
  have e2: "sched e2 = wg_sched_wake s h"
    using post set e' by (auto simp: h_PostThreadMessage_def h_SetEvent_def)
  show ?thesis using th t cl l h by (simp add: e2 wg_sched_wake_def wake_thread_def)
qed

end
