(* ===== verification/EngineLoad.thy ===== *)
theory EngineLoad
  imports EngineState DllMapper GuestMemory
begin

text \<open>
  Loading a program, from \<open>wg_engine_create\<close> to \<open>wg_engine_run\<close> in \<open>Sources/Core/wg_engine.c\<close>: the
  statics that \<open>wg_engine_load_pe\<close> resets, the image mapped into the blink machine or into the guest
  memory of the interpreter, the imports resolved to thunks and written to the import address table,
  the stack, the thread environment and the main thread. Host files, dialogs and bitmaps, which are
  reset as well, are not part of this state.
\<close>

section \<open>State\<close>

datatype WGBackend = WG_BACKEND_BUILTIN | WG_BACKEND_BLINK

text \<open>The members of \<open>WGEngine\<close> beside the state of the Win32 calls.\<close>

record 'm host =
  eng :: engine
  vmach :: "'m blink"
  backend :: WGBackend
  space :: mem_space
  cpu_of :: cpu
  imap :: mapper
  thunks_mapped :: bool
  tick_count :: u64

text \<open>The statics when the process starts, and a scheduler.\<close>

definition initial_engine :: engine where
  "initial_engine = \<lparr>estate = WG_ENGINE_IDLE, pe_img = None, sched = wg_sched_create,
     ev_signalled = replicate WG_MAX_EVENTS False, ev_manual = replicate WG_MAX_EVENTS False, ev_next = 0,
     iocp_bindings = [], completions = no_completions, iocp_created = False, disable_iocp = False,
     tp_work = [], thread_msgs = no_msgs, timer_hwnd = 0, timer_id = 0, timer_active = False,
     tls = no_local_storage, fls = no_local_storage, heap_ptr = WG_GUEST_HEAP_BASE, alloc_sizes = [],
     main_teb = 0, callstack = [], last_error = 0, seh = no_exception,
     traps = \<lparr>errstr_armed = False, watch_armed = False, watch_orig = 0\<rparr>\<rparr>"

text \<open>\<open>wg_engine_create\<close>, then \<open>wg_engine_init\<close> when its allocations succeed; \<open>s0\<close> is the zeroed
  processor state before it is reset.\<close>

definition wg_engine_init :: "cpu \<Rightarrow> 'm host" where
  "wg_engine_init s0 = \<lparr>eng = initial_engine, vmach = None, backend = WG_BACKEND_BLINK,
     space = wg_memory_create 0x100000000, cpu_of = wg_x86_state_reset s0,
     imap = wg_dll_mapper_register_defaults wg_dll_mapper_create, thunks_mapped = False, tick_count = 0\<rparr>"

text \<open>The resets of \<open>wg_engine_load_pe\<close>. The timer, the main thread's block and the scheduler stay.\<close>

definition reset_for_load :: "engine \<Rightarrow> engine" where
  "reset_for_load e = e\<lparr>heap_ptr := WG_GUEST_HEAP_BASE, last_error := 0, callstack := [],
     tls := no_local_storage, fls := no_local_storage, ev_next := 0,
     ev_signalled := replicate WG_MAX_EVENTS False, ev_manual := replicate WG_MAX_EVENTS False,
     thread_msgs := (thread_msgs e)\<lparr>rhead := 0, rtail := 0\<rparr>,
     completions := (completions e)\<lparr>rhead := 0, rtail := 0\<rparr>,
     iocp_bindings := [], iocp_created := False, tp_work := [], alloc_sizes := []\<rparr>"

section \<open>Parts of an image\<close>

text \<open>The bytes of a section that are copied: \<open>min(raw_size, virtual_size)\<close> from its data pointer.
  Reading past the file is undefined.\<close>

definition section_bytes :: "pe_image \<Rightarrow> pe_section \<Rightarrow> u8 list ub" where
  "section_bytes pe sec =
     (case sec_data sec of
        None \<Rightarrow> Some []
      | Some off \<Rightarrow>
          let copy_size = unat (if raw_size sec < virtual_size sec then raw_size sec else virtual_size sec)
          in if 0 < raw_size sec
             then do { guard (off + copy_size \<le> length (raw_data pe)); Some (take copy_size (drop off (raw_data pe))) }
             else Some [])"

definition section_base :: "pe_image \<Rightarrow> pe_section \<Rightarrow> u64" where
  "section_base pe sec = image_base pe + ucast (virtual_address sec)"

definition c_string :: "u8 list \<Rightarrow> string" where
  "c_string bs = map (\<lambda>b. char_of (unat b)) bs"

text \<open>The imports of an image: the name of the DLL, the name of the function and the address of the
  entry in the import address table.\<close>

definition import_slots :: "pe_image \<Rightarrow> (string \<times> string \<times> u64) list" where
  "import_slots pe = concat (map (\<lambda>d. map (\<lambda>f. (c_string (import_dll.dll_name d), c_string (fn_name f),
       image_base pe + ucast (fn_iat_rva f))) (dll_functions d)) (import_dlls pe))"

text \<open>The loop over the imports: \<open>put\<close> writes an address to a slot.\<close>

fun write_iat :: "(u64 \<Rightarrow> u64 \<Rightarrow> 's \<Rightarrow> 's ub) \<Rightarrow> (string \<times> string \<times> u64) list \<Rightarrow> mapper \<Rightarrow> 's \<Rightarrow> (mapper \<times> 's) ub" where
  "write_iat put [] m s = Some (m, s)"
| "write_iat put ((dll, func, iat) # fs) m s = do {
     (a, m) \<leftarrow> wg_dll_mapper_resolve m dll func;
     s \<leftarrow> (if a \<noteq> 0 then put iat a s else Some s);
     write_iat put fs m s
   }"

section \<open>The interpreter's program\<close>

text \<open>\<open>load_pe_builtin\<close>; \<open>ok\<close>: whether the allocations of the regions succeed. The first result
  is false when a region cannot be mapped.\<close>

definition section_prot :: "pe_section \<Rightarrow> u32" where
  "section_prot sec =
     1 OR (if characteristics sec AND 0x20000000 \<noteq> 0 then 4 else 0)
       OR (if characteristics sec AND 0x80000000 \<noteq> 0 then 2 else 0)"

fun load_sections :: "bool \<Rightarrow> pe_image \<Rightarrow> pe_section list \<Rightarrow> mem_space \<Rightarrow> (bool \<times> mem_space) ub" where
  "load_sections ok pe [] mem = Some (True, mem)"
| "load_sections ok pe (sec # secs) mem =
     (case wg_memory_map ok mem (section_base pe sec) (ucast (virtual_size sec)) (section_prot sec) of
        (False, mem) \<Rightarrow> Some (False, mem)
      | (True, mem) \<Rightarrow> do {
          bs \<leftarrow> section_bytes pe sec;
          load_sections ok pe secs (snd (wg_memory_write mem (section_base pe sec) bs))
        })"

definition put_memory :: "u64 \<Rightarrow> u64 \<Rightarrow> mem_space \<Rightarrow> mem_space ub" where
  "put_memory iat a mem = wg_memory_write_u64 mem iat a"

definition load_pe_builtin :: "bool \<Rightarrow> pe_image \<Rightarrow> 'm host \<Rightarrow> (bool \<times> 'm host) ub" where
  "load_pe_builtin ok pe h = do {
     (done, mem) \<leftarrow> load_sections ok pe (sections pe) (space h);
     if \<not> done then Some (False, h\<lparr>space := mem\<rparr>)
     else do {
       (m, mem) \<leftarrow> write_iat put_memory (import_slots pe) (imap h) mem;
       let (_, mem) = wg_memory_map ok mem (0x7FFE0000 - 0x100000) 0x100000 3;
           s = wg_x86_set_rip (cpu_of h) (image_base pe + ucast (entry_point pe));
           s = wg_x86_set_reg s WG_REG_RSP (0x7FFE0000 - 0x100);
           s = wg_x86_set_reg s WG_REG_RBP (0x7FFE0000 - 0x100)
       in Some (True, h\<lparr>imap := m, space := mem, cpu_of := s\<rparr>)
     }
   }"

section \<open>The blink machine's program\<close>

text \<open>\<open>aborted\<close>: blink aborts while it creates a machine or sets up the stack; mapping pages
  succeeds or fails as \<open>reserve_virtual\<close> says.\<close>

definition load_zeros :: "'m guest_api \<Rightarrow> u64 \<Rightarrow> u32 \<Rightarrow> 'm blink \<Rightarrow> 'm blink" where
  "load_zeros api a n b = snd (wg_blink_load_code api False b a (replicate (unat n) 0) n 0)"

text \<open>The thunks of a 32-bit program are at \<open>0xC00000\<close>, eight bytes apart, in a block of HLT.\<close>

definition renumber :: "u64 \<Rightarrow> mapper \<Rightarrow> mapper" where
  "renumber base_addr m =
     m\<lparr>dlls := map2 (\<lambda>i d. d\<lparr>thunk_addr := base_addr + of_nat i * 8\<rparr>) [0..<length (dlls m)] (dlls m),
       next_thunk := base_addr + of_nat (length (dlls m)) * 8\<rparr>"

definition map_thunks_to_blink :: "'m guest_api \<Rightarrow> 'm host \<Rightarrow> 'm host" where
  "map_thunks_to_blink api h =
     (if vmach h = None \<or> thunks_mapped h then h
      else let is_32bit = (case pe_img (eng h) of None \<Rightarrow> False | Some pe \<Rightarrow> \<not> is_64bit pe);
               thunk_base = (if is_32bit then 0xC00000 else WG_THUNK_BASE)
           in h\<lparr>imap := renumber thunk_base (imap h),
                vmach := snd (wg_blink_load_code api False (vmach h) thunk_base (replicate 0x20000 0xF4) 0x20000 0),
                thunks_mapped := True\<rparr>)"

text \<open>A fresh machine for every program. \<open>warm\<close> is how the two instructions of the warm-up end in an
  abort of blink, if they do.\<close>

definition ensure_blink_vm :: "'m guest_api \<Rightarrow> bool \<Rightarrow> 'm vm option \<Rightarrow> 'm host \<Rightarrow> bool \<times> 'm host" where
  "ensure_blink_vm api aborted warm h =
     (let h = (if vmach h \<noteq> None then h\<lparr>vmach := None, thunks_mapped := False\<rparr> else h)
      in case wg_blink_create api aborted of
           None \<Rightarrow> (False, h\<lparr>vmach := None, backend := WG_BACKEND_BUILTIN\<rparr>)
         | Some v \<Rightarrow>
             let b = snd (wg_blink_load_code api False (Some v) 0x3F0000 [0x90, 0xC3] 2 0x3F0000);
                 b = snd (wg_blink_run api warm b 10)
             in (True, map_thunks_to_blink api (h\<lparr>vmach := b\<rparr>)))"

definition blink_headers :: "'m guest_api \<Rightarrow> pe_image \<Rightarrow> 'm blink \<Rightarrow> 'm blink" where
  "blink_headers api pe b =
     (case sections pe of
        [] \<Rightarrow> b
      | sec # _ \<Rightarrow>
          if virtual_address sec = 0 then b
          else let n = min (unat (virtual_address sec)) (length (raw_data pe))
               in snd (wg_blink_load_code api False b (image_base pe) (take n (raw_data pe)) (of_nat n) 0))"

fun blink_sections :: "'m guest_api \<Rightarrow> pe_image \<Rightarrow> pe_section list \<Rightarrow> 'm blink \<Rightarrow> 'm blink ub" where
  "blink_sections api pe [] b = Some b"
| "blink_sections api pe (sec # secs) b =
     (if virtual_size sec = 0 then blink_sections api pe secs b
      else do {
        bs \<leftarrow> section_bytes pe sec;
        let b = load_zeros api (section_base pe sec) (virtual_size sec) b;
            b = (if sec_data sec \<noteq> None \<and> 0 < raw_size sec
                 then snd (wg_blink_write_mem api b (section_base pe sec) bs) else b)
        in blink_sections api pe secs b
      })"

text \<open>Eight bytes, also in the table of a 32-bit image, whose entries have four.\<close>

definition put_blink :: "'m guest_api \<Rightarrow> u64 \<Rightarrow> u64 \<Rightarrow> 'm blink \<Rightarrow> 'm blink ub" where
  "put_blink api iat a b = Some (snd (wg_blink_write_mem api b iat (le_bytes 8 a)))"

text \<open>The header that is mapped at the handle of the system DLLs.\<close>

definition fake_dll :: "u8 list" where
  "fake_dll = (replicate 0x200 0)[0 := 0x4D, 1 := 0x5A, 0x3C := 0x80, 0x80 := 0x50, 0x81 := 0x45,
     0x84 := 0x4C, 0x85 := 0x01, 0x94 := 0xE0, 0x98 := 0x0B, 0x99 := 0x01]"

definition fixed_pages :: "'m guest_api \<Rightarrow> 'm blink \<Rightarrow> 'm blink" where
  "fixed_pages api b =
     (let b = load_zeros api 0x00B00000 0x100000 b;
          b = load_zeros api 0 0x10000 b;
          b = load_zeros api 0x53572000 0x1000 b;
          b = load_zeros api 0x5ECF7000 0x1000 b;
          b = load_zeros api 0xFFFFF000 0x1000 b
      in snd (wg_blink_load_code api False b 0xBFFF0000 fake_dll 0x200 0))"

definition load_pe_blink ::
    "'m guest_api \<Rightarrow> bool \<Rightarrow> 'm vm option \<Rightarrow> bool \<Rightarrow> pe_image \<Rightarrow> 'm host \<Rightarrow> (bool \<times> 'm host) ub" where
  "load_pe_blink api aborted warm stack_aborted pe h =
     (let (created, h) = ensure_blink_vm api aborted warm h
      in if \<not> created then Some (False, h)
         else do {
           b \<leftarrow> blink_sections api pe (sections pe) (blink_headers api pe (vmach h));
           (m, b) \<leftarrow> write_iat (put_blink api) (import_slots pe) (imap h) b;
           let (ok, b) = wg_blink_setup_stack api stack_aborted b (image_base pe + ucast (entry_point pe))
           in if \<not> ok then Some (False, h\<lparr>vmach := b, imap := m\<rparr>)
              else let b = (if is_64bit pe then b else wg_blink_switch_to_32bit b);
                       (e, b) = wg_setup_win32_teb api (eng h) b;
                       b = fixed_pages api b
                   in Some (True, h\<lparr>eng := e\<lparr>sched := register_main_thread (sched e) (main_teb e)\<rparr>,
                                    vmach := b, imap := m\<rparr>)
         })"

section \<open>Loading and running\<close>

text \<open>The two parts of the loader behind the parser, for whichever of its two entries.\<close>

definition load_image ::
    "'m guest_api \<Rightarrow> bool \<Rightarrow> 'm vm option \<Rightarrow> bool \<Rightarrow> bool \<Rightarrow> pe_image \<Rightarrow> 'm host \<Rightarrow> (bool \<times> 'm host) ub" where
  "load_image api aborted warm stack_aborted ok pe h = do {
     let h = h\<lparr>eng := (eng h)\<lparr>pe_img := Some pe\<rparr>\<rparr>;
     (done, h) \<leftarrow> (if backend h = WG_BACKEND_BLINK then load_pe_blink api aborted warm stack_aborted pe h
                  else Some (False, h));
     (done, h) \<leftarrow> (if done then Some (True, h) else load_pe_builtin ok pe h);
     Some (done, h\<lparr>eng := (eng h)\<lparr>estate := (if done then WG_ENGINE_LOADED else WG_ENGINE_ERROR)\<rparr>\<rparr>)
   }"

text \<open>\<open>img\<close> is what the parser makes of the file.\<close>

definition wg_engine_load_pe ::
    "'m guest_api \<Rightarrow> bool \<Rightarrow> 'm vm option \<Rightarrow> bool \<Rightarrow> bool \<Rightarrow> pe_image option \<Rightarrow> 'm host \<Rightarrow> (bool \<times> 'm host) ub" where
  "wg_engine_load_pe api aborted warm stack_aborted ok img h =
     (let h = h\<lparr>eng := reset_for_load (eng h)\<rparr>
      in case img of
           None \<Rightarrow> Some (False, h\<lparr>eng := (eng h)\<lparr>pe_img := None, estate := WG_ENGINE_ERROR\<rparr>\<rparr>)
         | Some pe \<Rightarrow> load_image api aborted warm stack_aborted ok pe h)"

definition wg_engine_load_pe_memory ::
    "'m guest_api \<Rightarrow> bool \<Rightarrow> 'm vm option \<Rightarrow> bool \<Rightarrow> bool \<Rightarrow> pe_image option \<Rightarrow> 'm host \<Rightarrow> (bool \<times> 'm host) ub" where
  "wg_engine_load_pe_memory api aborted warm stack_aborted ok img h =
     (case img of
        None \<Rightarrow> Some (False, h\<lparr>eng := (eng h)\<lparr>pe_img := None, estate := WG_ENGINE_ERROR\<rparr>\<rparr>)
      | Some pe \<Rightarrow> load_image api aborted warm stack_aborted ok pe h)"

text \<open>The traps that \<open>wg_engine_run\<close> plants in a program with the image base \<open>0x400000\<close>.\<close>

definition s_errstr_bp :: u32 where "s_errstr_bp = 0x5FE710"
definition s_watch_addr :: u32 where "s_watch_addr = 0x69E59A"

definition plant_traps :: "'m guest_api \<Rightarrow> engine \<Rightarrow> 'm blink \<Rightarrow> engine \<times> 'm blink" where
  "plant_traps api e b =
     (if (case pe_img e of None \<Rightarrow> False | Some pe \<Rightarrow> image_base pe = 0x400000) \<and> b \<noteq> None \<and> \<not> errstr_armed (traps e)
      then let (ok, _) = wg_blink_read_mem api b (ucast s_errstr_bp) [0] 1;
               (e, b) = (if ok then (e\<lparr>traps := (traps e)\<lparr>errstr_armed := True\<rparr>\<rparr>, write_bytes api s_errstr_bp [0xF4] b)
                         else (e, b));
               (ok, orig) = wg_blink_read_mem api b (ucast s_watch_addr) [watch_orig (traps e)] 1
           in if ok
              then (e\<lparr>traps := (traps e)\<lparr>watch_armed := True, watch_orig := orig ! 0\<rparr>\<rparr>, write_bytes api s_watch_addr [0xF4] b)
              else (e, b)
      else (e, b))"

definition wg_engine_run :: "'m guest_api \<Rightarrow> engine \<Rightarrow> 'm blink \<Rightarrow> bool \<times> engine \<times> 'm blink" where
  "wg_engine_run api e b =
     (if estate e \<noteq> WG_ENGINE_LOADED then (False, e, b)
      else (True, plant_traps api (e\<lparr>estate := WG_ENGINE_RUNNING\<rparr>) b))"

text \<open>The interpreter's branch of \<open>wg_engine_tick\<close>.\<close>

definition tick_builtin :: "nat \<Rightarrow> 'm host \<Rightarrow> 'm host ub" where
  "tick_builtin insns h = do {
     (r, s, mem) \<leftarrow> wg_x86_exec_block (cpu_of h) (space h) insns;
     Some (h\<lparr>cpu_of := s, space := mem,
            eng := (case r of
                WG_INTERP_HALT \<Rightarrow> (eng h)\<lparr>estate := WG_ENGINE_STOPPED\<rparr>
              | WG_INTERP_ERROR \<Rightarrow> (eng h)\<lparr>estate := WG_ENGINE_ERROR\<rparr>
              | _ \<Rightarrow> eng h)\<rparr>)
   }"

end
