(* ===== verification/EngineLoadOk.thy ===== *)
theory EngineLoadOk
  imports EngineLoad EngineSync EngineStateOk
begin

text \<open>
  What loading a program establishes: the sections of an image are in guest memory, every slot of
  the import address table holds a thunk that the interpreter traps and that belongs to the imported
  function, the processor is at the entry point; and what it leaves over from the program before.
\<close>

section \<open>Blocks of guest memory\<close>

text \<open>A block that does not run past the end of the address space.\<close>

lemma unat_add_no_wrap: "unat b + unat n < 2 ^ 64 \<Longrightarrow> unat (b + n) = unat b + unat n" for b n :: u64
  by (simp add: unat_word_ariths)

lemma in_block_range:
  assumes "unat b + unat n < 2 ^ 64"
  shows "b \<le> a \<and> a < b + n \<longleftrightarrow> unat (a - b) < unat (n :: u64)"
proof -
  have s: "unat (b + n) = unat b + unat n" by (rule unat_add_no_wrap [OF assms])
  have "unat (a - b) < unat n \<longleftrightarrow> unat b \<le> unat a \<and> unat a < unat b + unat n"
  proof (cases "unat b \<le> unat a")
    case True
    then show ?thesis by (simp add: unat_diff_cases) linarith
  next
    case False
    then have "\<not> unat (a - b) < unat n" using assms by (simp add: unat_diff_cases)
    with False show ?thesis by blast
  qed
  then show ?thesis by (simp only: word_le_nat_alt word_less_nat_alt s)
qed

lemma block_range: "unat b + unat n < 2 ^ 64 \<Longrightarrow> block b n a = (if unat (a - b) < unat n then Some 0 else None)"
  using in_block_range [of b n a] by (simp add: block_def)

text \<open>A block that is stored completely is there afterwards.\<close>

lemma load_bytes_nth:
  "load_bytes ld m a n = (True, bs) \<Longrightarrow> length bs = n \<and> (\<forall>i < n. ld m (a + of_nat i) = Some (bs ! i))"
proof (induction n arbitrary: a bs)
  case (Suc n)
  then obtain b bs' where b: "ld m a = Some b" and bs': "load_bytes ld m (a + 1) n = (True, bs')" "bs = b # bs'"
    by (auto split: option.splits prod.splits)
  from Suc.IH [OF bs'(1)] b bs'(2) show ?case
    by (auto simp: nth_Cons' less_Suc_eq_0_disj add.assoc split: nat.split)
qed simp

lemma write_view:
  assumes wf: "wf_mem mem" and len: "length bs < 2 ^ 64"
    and room: "\<And>i. i < length bs \<Longrightarrow> mem_view mem (a + of_nat i) \<noteq> None"
  shows "wf_mem (snd (wg_memory_write mem a bs))"
    and "mem_view (snd (wg_memory_write mem a bs)) x =
      (if unat (x - a) < length bs then Some (bs ! unat (x - a)) else mem_view mem x)"
proof -
  let ?m = "snd (store_bytes store_at mem a bs)"
  have ok: "fst (store_bytes store_at mem a bs)"
    using room by (simp add: guest.store_ok_iff [OF wf] mem_view_def)
  have "load_bytes load_at ?m a (length bs) = (True, bs)"
    by (rule guest.load_after_store [OF wf len ok])
  from load_bytes_nth [OF this] have at: "\<And>i. i < length bs \<Longrightarrow> load_at ?m (a + of_nat i) = Some (bs ! i)" by blast
  show "wf_mem (snd (wg_memory_write mem a bs))" by (simp add: wg_memory_write_def guest.store_wf wf)
  show "mem_view (snd (wg_memory_write mem a bs)) x =
      (if unat (x - a) < length bs then Some (bs ! unat (x - a)) else mem_view mem x)"
  proof (cases "unat (x - a) < length bs")
    case True
    with at [of "unat (x - a)"] show ?thesis by (simp add: wg_memory_write_def mem_view_def)
  next
    case False
    then have "\<not> guest.in_block a (length bs) x" by (simp add: guest.in_block_def)
    from guest.store_frame [OF wf len this] False show ?thesis by (simp add: wg_memory_write_def mem_view_def)
  qed
qed

section \<open>The sections\<close>

definition section_size :: "pe_section \<Rightarrow> u64" where
  "section_size sec = align_page (ucast (virtual_size sec))"

definition in_section :: "pe_image \<Rightarrow> pe_section \<Rightarrow> u64 \<Rightarrow> bool" where
  "in_section pe sec a \<longleftrightarrow> unat (a - section_base pe sec) < unat (section_size sec)"

text \<open>No section runs past the end of the address space or meets another one.\<close>

definition sections_apart :: "pe_image \<Rightarrow> pe_section list \<Rightarrow> bool" where
  "sections_apart pe secs \<longleftrightarrow>
     (\<forall>sec \<in> set secs. unat (section_base pe sec) + unat (section_size sec) < 2 ^ 64) \<and>
     sorted_wrt (\<lambda>s t. \<forall>a. \<not> (in_section pe s a \<and> in_section pe t a)) secs"

text \<open>The bytes in a section's pages: those of the file, then zeros.\<close>

definition section_byte :: "u8 list \<Rightarrow> nat \<Rightarrow> u8" where
  "section_byte bs i = (if i < length bs then bs ! i else 0)"

lemma section_bytes_length:
  assumes "section_bytes pe sec = Some bs"
  shows "length bs \<le> unat (virtual_size sec)"
  using assms by (auto simp: section_bytes_def Let_def guard_def word_less_nat_alt split: option.splits if_splits)

lemma align_page_ge:
  assumes "unat n < 2 ^ 32"
  shows "unat n \<le> unat (align_page n)"
proof -
  have m: "(WG_PAGE_SIZE - 1) = (mask 12 :: u64)" by (simp add: WG_PAGE_SIZE_def mask_eq_exp_minus_1)
  let ?w = "n + WG_PAGE_SIZE - 1"
  have w: "unat ?w = unat n + 4095"
  proof -
    have eq: "?w = n + 4095" by (simp add: WG_PAGE_SIZE_def)
    show ?thesis unfolding eq using assms by (simp add: unat_word_ariths)
  qed
  have "?w AND NOT (mask 12) = push_bit 12 (drop_bit 12 ?w)"
    by (rule bit_word_eqI) (auto simp: bit_simps)
  moreover have "unat (push_bit 12 (drop_bit 12 ?w)) = unat ?w div 4096 * 4096"
  proof -
    have "unat ?w < 2 ^ LENGTH(64)" by (rule unsigned_less)
    then have "unat ?w div 4096 * 4096 < 2 ^ 64" using div_times_less_eq_dividend [of "unat ?w" 4096] by simp
    then show ?thesis
      by (simp add: push_bit_eq_mult drop_bit_eq_div unat_word_ariths unat_div_distrib)
  qed
  ultimately have "unat (?w AND NOT (mask 12)) = (unat n + 4095) div 4096 * 4096" using w by simp
  moreover have "unat n \<le> (unat n + 4095) div 4096 * 4096" by simp
  ultimately have "unat n \<le> unat (?w AND NOT (mask 12))" by simp
  then show ?thesis unfolding align_page_def Let_def m by (auto split: if_splits)
qed

lemma section_fits:
  assumes "section_bytes pe sec = Some bs"
  shows "length bs \<le> unat (section_size sec)"
proof -
  have l: "unat (virtual_size sec) < 2 ^ LENGTH(32)" by (rule unsigned_less)
  then have "unat (ucast (virtual_size sec) :: u64) = unat (virtual_size sec)"
    by (simp add: unsigned_ucast_eq take_bit_nat_eq_self)
  with l show ?thesis
    using section_bytes_length [OF assms] align_page_ge [of "ucast (virtual_size sec)"] by (simp add: section_size_def)
qed

lemma load_sections_view:
  assumes "load_sections ok pe secs mem = Some (True, mem')" and "wf_mem mem" and "sections_apart pe secs"
    and "\<forall>sec \<in> set secs. \<forall>a. in_section pe sec a \<longrightarrow> mem_view mem a = None"
  shows "wf_mem mem' \<and> (\<forall>a. (\<forall>sec \<in> set secs. \<not> in_section pe sec a) \<longrightarrow> mem_view mem' a = mem_view mem a) \<and>
    (\<forall>sec \<in> set secs. \<exists>bs. section_bytes pe sec = Some bs \<and>
       (\<forall>a. in_section pe sec a \<longrightarrow> mem_view mem' a = Some (section_byte bs (unat (a - section_base pe sec)))))"
  using assms
proof (induction secs arbitrary: mem)
  case (Cons sec secs)
  let ?b = "section_base pe sec" and ?n = "section_size sec"
  from Cons.prems(1) obtain mem1 bs where m1: "wg_memory_map ok mem ?b (ucast (virtual_size sec)) (section_prot sec) = (True, mem1)"
    and bs: "section_bytes pe sec = Some bs"
    and rest: "load_sections ok pe secs (snd (wg_memory_write mem1 ?b bs)) = Some (True, mem')"
    by (auto split: prod.splits bool.splits bind_splits)
  have wf1: "wf_mem mem1" using wf_mem_map [OF Cons.prems(2)] m1 by (metis snd_conv)
  have fits: "unat ?b + unat ?n < 2 ^ 64" using Cons.prems(3) by (simp add: sections_apart_def)
  have v1: "mem_view mem1 a = (if in_section pe sec a then Some 0 else mem_view mem a)" for a
    using mapped_view [OF Cons.prems(2) m1] Cons.prems(4) block_range [OF fits, of a]
    by (auto simp: in_section_def section_size_def map_add_def split: option.splits)
  have len: "length bs \<le> unat ?n" by (rule section_fits [OF bs])
  have "unat ?n < 2 ^ LENGTH(64)" by (rule unsigned_less)
  then have small: "length bs < 2 ^ 64" using len by simp
  have "unat (?b + of_nat i - ?b) < unat ?n" if "i < length bs" for i
    using that len small by (simp add: unat_of_nat)
  then have room: "mem_view mem1 (?b + of_nat i) \<noteq> None" if "i < length bs" for i
    using that by (simp add: v1 in_section_def)
  let ?mem2 = "snd (wg_memory_write mem1 ?b bs)"
  note w = write_view [OF wf1 small room]
  have v2: "mem_view ?mem2 a = (if in_section pe sec a then Some (section_byte bs (unat (a - ?b))) else mem_view mem a)" for a
    using w(2) [of a] v1 [of a] len by (auto simp: in_section_def section_byte_def)
  have apart: "\<forall>t \<in> set secs. \<forall>a. \<not> (in_section pe sec a \<and> in_section pe t a)" and "sections_apart pe secs"
    using Cons.prems(3) by (auto simp: sections_apart_def)
  have "\<forall>t \<in> set secs. \<forall>a. in_section pe t a \<longrightarrow> mem_view ?mem2 a = None"
    using Cons.prems(4) apart v2 by auto
  note IH = Cons.IH [OF rest w(1) \<open>sections_apart pe secs\<close> this]
  have "mem_view mem' a = Some (section_byte bs (unat (a - ?b)))" if "in_section pe sec a" for a
    using IH apart that v2 [of a] by auto
  with IH bs v2 show ?case by auto
qed simp

section \<open>The import address table\<close>

lemma write_u64_frame:
  assumes wf: "wf_mem mem" and w: "wg_memory_write_u64 mem a v = Some mem'" and out: "8 \<le> unat (x - a)"
  shows "mem_view mem' x = mem_view mem x"
proof (cases "resolve mem a")
  case None
  with w show ?thesis by (simp add: wg_memory_write_u64_def)
next
  case (Some p)
  then have c: "memcpy_to mem p (le_bytes 8 v) = Some mem'" using w by (simp add: wg_memory_write_u64_def)
  have "a - x \<noteq> 0" using out by auto
  then have "0 < unat (a - x)" by (simp only: unat_gt_0 not_False_eq_True)
  then have ap: "apart a (length (le_bytes 8 v)) x 1" using out by (simp add: apart_def)
  have rs: "resolve mem' x = resolve mem x" by (rule resolve_cong_layout [OF layout_memcpy_to [OF c]])
  show ?thesis
  proof (cases "resolve mem x")
    case None
    then show ?thesis using rs by (simp add: mem_view_def load_at_def)
  next
    case (Some q)
    from memcpy_from_to_apart [OF wf \<open>resolve mem a = Some p\<close> Some ap c]
    have "wg_memory_read_u8 mem' x = wg_memory_read_u8 mem x" using rs Some by (simp add: wg_memory_read_u8_def)
    then have "(case mem_view mem' x of None \<Rightarrow> 0 | Some b \<Rightarrow> b) = (case mem_view mem x of None \<Rightarrow> 0 | Some b \<Rightarrow> b)"
      using read_u8_view [OF wf, of x] read_u8_view [OF wf_mem_write_u64 [OF wf w], of x] by simp
    then show ?thesis using Some rs by (auto simp: mem_view_def load_at_def split: prod.splits)
  qed
qed

text \<open>A value that is the thunk of a stub for the function.\<close>

definition is_thunk_for :: "mapper \<Rightarrow> string \<Rightarrow> u64 \<Rightarrow> bool" where
  "is_thunk_for m func a \<longleftrightarrow> in_thunk_range a \<and>
     (\<exists>e \<in> set (dlls m). thunk_addr e = a \<and> func_name e = take 127 func \<and>
        wg_dll_mapper_get_handler m a = Some (handler e))"

lemma resolve_extends:
  assumes "mapper_ok m" and "wg_dll_mapper_resolve m dll func = Some (a, m')"
  shows "set (dlls m) \<subseteq> set (dlls m')"
  using assms by (cases rule: resolve_cases) auto

lemma thunk_for_mono:
  assumes "mapper_ok m'" and "set (dlls m) \<subseteq> set (dlls m')" and "is_thunk_for m func a"
  shows "is_thunk_for m' func a"
proof -
  from assms(2,3) obtain e where e: "e \<in> set (dlls m')" "thunk_addr e = a" "func_name e = take 127 func" "in_thunk_range a"
    by (auto simp: is_thunk_for_def)
  then obtain i where "i < length (dlls m')" "dlls m' ! i = e" by (auto simp: in_set_conv_nth)
  with handler_at [OF assms(1)] e show ?thesis by (auto simp: is_thunk_for_def intro!: bexI [of _ e])
qed

definition slots_apart :: "(string \<times> string \<times> u64) list \<Rightarrow> bool" where
  "slots_apart fs \<longleftrightarrow> sorted_wrt (\<lambda>(_, _, a) (_, _, b). apart b 8 a 8) fs"

lemma write_iat_spec:
  assumes "write_iat put_memory fs m mem = Some (m', mem')" and "wf_mem mem" and "mapper_ok m"
    and "slots_apart fs" and "\<forall>(_, _, iat) \<in> set fs. mapped mem iat"
  shows "wf_mem mem' \<and> mapper_ok m' \<and> set (dlls m) \<subseteq> set (dlls m') \<and>
    (\<forall>x. (\<forall>(_, _, iat) \<in> set fs. 8 \<le> unat (x - iat)) \<longrightarrow> mem_view mem' x = mem_view mem x) \<and>
    (\<forall>b. mapped mem' b = mapped mem b) \<and>
    (\<forall>b. (\<forall>(_, _, iat) \<in> set fs. apart iat 8 b 8) \<longrightarrow> wg_memory_read_u64 mem' b = wg_memory_read_u64 mem b) \<and>
    (length (dlls m') < 4096 \<longrightarrow>
      (\<forall>(dll, func, iat) \<in> set fs. \<exists>a. wg_memory_read_u64 mem' iat = Some a \<and> is_thunk_for m' func a))"
  using assms
proof (induction fs arbitrary: m mem)
  case (Cons f fs)
  obtain dll func iat where f: "f = (dll, func, iat)" by (cases f)
  from Cons.prems(1) f obtain a m1 mem1 where r: "wg_dll_mapper_resolve m dll func = Some (a, m1)"
    and put: "(if a \<noteq> 0 then put_memory iat a mem else Some mem) = Some mem1"
    and rest: "write_iat put_memory fs m1 mem1 = Some (m', mem')"
    by (auto split: bind_splits)
  from put have p: "(if a \<noteq> 0 then wg_memory_write_u64 mem iat a else Some mem) = Some mem1"
    by (simp add: put_memory_def split: if_splits)
  note res = resolve_is_thunk [OF Cons.prems(3) r]
  have wf1: "wf_mem mem1" using p wf_mem_write_u64 [OF Cons.prems(2)] Cons.prems(2) by (auto split: if_splits)
  have mapped1: "mapped mem1 b = mapped mem b" for b using p write_u64_mapped by (auto split: if_splits)
  have view1: "mem_view mem1 x = mem_view mem x" if "8 \<le> unat (x - iat)" for x
    using p write_u64_frame [OF Cons.prems(2) _ that] by (auto split: if_splits)
  have apart1: "wg_memory_read_u64 mem1 b = wg_memory_read_u64 mem b" if "apart iat 8 b 8" for b
    using p read_u64_apart [OF Cons.prems(2) _ that] by (auto split: if_splits)
  have ap: "\<forall>(_, _, b) \<in> set fs. apart b 8 iat 8" and aps: "slots_apart fs"
    using Cons.prems(4) f by (auto simp: slots_apart_def)
  have m: "\<forall>(_, _, iat) \<in> set fs. mapped mem1 iat" using Cons.prems(5) mapped1 by auto
  note IH = Cons.IH [OF rest wf1 conjunct1 [OF res] aps m]
  have first: "\<exists>a. wg_memory_read_u64 mem' iat = Some a \<and> is_thunk_for m' func a" if l: "length (dlls m') < 4096"
  proof -
    have "a \<noteq> 0"
    proof
      assume "a = 0"
      then have full: "m1 = m" "length (dlls m) = 4096" using res by auto
      have "distinct (dlls m)"
        unfolding distinct_conv_nth
      proof (intro allI impI)
        fix i j assume ij: "i < length (dlls m)" "j < length (dlls m)" "i \<noteq> j"
        have l: "i \<le> 4096" "j \<le> 4096" using ij(1,2) full(2) by simp_all
        show "dlls m ! i \<noteq> dlls m ! j"
        proof
          assume "dlls m ! i = dlls m ! j"
          with mapper_okD(4) [OF Cons.prems(3)] ij(1,2)
          have "WG_THUNK_BASE + 8 * of_nat i = WG_THUNK_BASE + 8 * of_nat j" by metis
          from thunk_inj [OF l this] ij(3) show False by blast
        qed
      qed
      then have "card (set (dlls m)) = 4096" using full by (simp add: distinct_card)
      moreover have "card (set (dlls m)) \<le> card (set (dlls m'))" using IH full by (intro card_mono) auto
      ultimately show False using l card_length [of "dlls m'"] by simp
    qed
    with p have w: "wg_memory_write_u64 mem iat a = Some mem1" by simp
    have "wg_memory_read_u64 mem1 iat = Some a"
      using read_write_u64 [OF Cons.prems(2) _ w] Cons.prems(5) f by auto
    then have "wg_memory_read_u64 mem' iat = Some a" using IH ap by auto
    moreover have "is_thunk_for m1 func a" using res \<open>a \<noteq> 0\<close> by (simp add: is_thunk_for_def)
    then have "is_thunk_for m' func a" using IH thunk_for_mono by blast
    ultimately show ?thesis by blast
  qed
  have "set (dlls m) \<subseteq> set (dlls m')" using IH resolve_extends [OF Cons.prems(3) r] by blast
  moreover have "mem_view mem' x = mem_view mem x" if "\<forall>(_, _, i) \<in> set (f # fs). 8 \<le> unat (x - i)" for x
    using that IH view1 [of x] f by auto
  moreover have "wg_memory_read_u64 mem' b = wg_memory_read_u64 mem b" if "\<forall>(_, _, i) \<in> set (f # fs). apart i 8 b 8" for b
    using that IH apart1 [of b] f by auto
  ultimately show ?case using IH first mapped1 f by auto
qed simp

text \<open>A region that is added changes nothing where something was mapped.\<close>

lemma map_keeps:
  assumes "mapped mem a"
  shows "wg_memory_read_u64 (snd (wg_memory_map ok mem b n p)) a = wg_memory_read_u64 mem a"
    and "load_at (snd (wg_memory_map ok mem b n p)) a = load_at mem a"
proof -
  from assms obtain i where i: "find_region mem a = Some i"
    by (auto simp: mapped_def resolve_def split: option.splits)
  then have l: "i < length (regions mem)" unfolding find_region_def by (rule find_index_SomeD(1))
  let ?mem' = "snd (wg_memory_map ok mem b n p)"
  obtain rs where rs: "regions ?mem' = regions mem @ rs"
    by (cases "WG_MAX_REGIONS \<le> length (regions mem) \<or> \<not> ok") (auto simp: wg_memory_map_def Let_def)
  have "resolve ?mem' a = resolve mem a"
    using i l by (simp add: resolve_def find_region_def rs find_index_append nth_append)
  then show "wg_memory_read_u64 ?mem' a = wg_memory_read_u64 mem a" and "load_at ?mem' a = load_at mem a"
    using i l by (auto simp: wg_memory_read_u64_def load_at_def resolve_def rs nth_append split: option.splits)
qed

text \<open>A program that the interpreter has loaded is ready to run.\<close>

text \<open>C6: A program that the interpreter has loaded is ready: the processor is at the entry point, every section's bytes are in guest memory but for the import table, and every import slot holds a thunk that belongs to the imported function.\<close>

theorem loaded_ready:
  assumes load: "load_pe_builtin ok pe h = Some (True, h')" and wf: "wf_mem (space h)" and mo: "mapper_ok (imap h)"
    and apart: "sections_apart pe (sections pe)" and slots: "slots_apart (import_slots pe)"
    and new: "\<forall>sec \<in> set (sections pe). \<forall>a. in_section pe sec a \<longrightarrow> mem_view (space h) a = None"
    and inside: "\<forall>(_, _, iat) \<in> set (import_slots pe). \<exists>sec \<in> set (sections pe). in_section pe sec iat"
    and room: "length (dlls (imap h')) < 4096"
  shows "rip (cpu_of h') = image_base pe + ucast (entry_point pe) \<and> gpr (cpu_of h') WG_REG_RSP = 0x7FFDFF00 \<and>
    (\<forall>(dll, func, iat) \<in> set (import_slots pe).
       \<exists>a. wg_memory_read_u64 (space h') iat = Some a \<and> is_thunk_for (imap h') func a) \<and>
    (\<forall>sec \<in> set (sections pe). \<exists>bs. section_bytes pe sec = Some bs \<and>
       (\<forall>a. in_section pe sec a \<longrightarrow> (\<forall>(_, _, iat) \<in> set (import_slots pe). 8 \<le> unat (a - iat)) \<longrightarrow>
          mem_view (space h') a = Some (section_byte bs (unat (a - section_base pe sec)))))"
proof -
  from load obtain mem1 m mem2 where
    s: "load_sections ok pe (sections pe) (space h) = Some (True, mem1)"
    and i: "write_iat put_memory (import_slots pe) (imap h) mem1 = Some (m, mem2)"
    and h': "space h' = snd (wg_memory_map ok mem2 (0x7FFE0000 - 0x100000) 0x100000 3)" "imap h' = m"
      "rip (cpu_of h') = image_base pe + ucast (entry_point pe)" "gpr (cpu_of h') WG_REG_RSP = 0x7FFDFF00"
    by (auto simp: load_pe_builtin_def Let_def wg_x86_set_rip_def wg_x86_set_reg_def reg_defs WG_REG_COUNT_def
        split: bind_splits prod.splits if_splits)
  note S = load_sections_view [OF s wf apart new]
  have mapped1: "mapped mem1 a" if "mem_view mem1 a \<noteq> None" for a
    using that by (cases "resolve mem1 a") (auto simp: mapped_def mem_view_def load_at_def)
  have "\<forall>(_, _, iat) \<in> set (import_slots pe). mapped mem1 iat"
    using inside S mapped1 by fastforce
  note I = write_iat_spec [OF i _ mo slots this]
  have wf1: "wf_mem mem1" using S by blast
  have iat: "\<exists>a. wg_memory_read_u64 (space h') iat = Some a \<and> is_thunk_for (imap h') func a"
    if f: "(dll, func, iat) \<in> set (import_slots pe)" for dll func iat
  proof -
    have "mapped mem2 iat" using I [OF wf1] \<open>\<forall>(_, _, iat) \<in> set (import_slots pe). mapped mem1 iat\<close> f by auto
    then show ?thesis using I [OF wf1] room f map_keeps(1) by (auto simp: h')
  qed
  have code: "mem_view (space h') a = Some (section_byte bs (unat (a - section_base pe sec)))"
    if sec: "sec \<in> set (sections pe)" "section_bytes pe sec = Some bs" "in_section pe sec a"
      "\<forall>(_, _, iat) \<in> set (import_slots pe). 8 \<le> unat (a - iat)" for sec bs a
  proof -
    have v1: "mem_view mem1 a = Some (section_byte bs (unat (a - section_base pe sec)))" using S sec by fastforce
    then have "mapped mem2 a" "mem_view mem2 a = mem_view mem1 a" using I [OF wf1] sec(4) mapped1 by auto
    then show ?thesis using v1 map_keeps(2) by (simp add: h' mem_view_def)
  qed
  from S iat code h' show ?thesis by blast
qed

section \<open>What is left of the program before\<close>

text \<open>The parts of the engine that neither the resets nor the loader touch.\<close>

definition leftovers :: "engine \<Rightarrow> scheduler \<times> u32 \<times> u32 \<times> bool" where
  "leftovers e = (sched e, timer_hwnd e, timer_id e, timer_active e)"

lemma leftovers_reset [simp]: "leftovers (reset_for_load e) = leftovers e"
  by (simp add: leftovers_def reset_for_load_def)

lemma leftovers_alloc: "wg_guest_alloc api n e b = (a, e', b') \<Longrightarrow> leftovers e' = leftovers e"
  by (auto simp: wg_guest_alloc_def Let_def track_alloc_def leftovers_def split: if_splits)

lemma leftovers_teb [simp]: "leftovers (e\<lparr>main_teb := t\<rparr>) = leftovers e"
  by (simp add: leftovers_def)

lemma leftovers_setup_teb:
  assumes "wg_setup_win32_teb api e b = (e', b')"
  shows "leftovers e' = leftovers e"
  by (rule setup_teb_rule [OF _ _ _ assms, of "\<lambda>e'. leftovers e' = leftovers e"]) (auto dest: leftovers_alloc)

lemma builtin_eng: "load_pe_builtin ok pe h = Some (r, h') \<Longrightarrow> eng h' = eng h"
  by (auto simp: load_pe_builtin_def Let_def split: bind_splits prod.splits if_splits)

lemma ensure_eng: "ensure_blink_vm api ab warm h = (r, h') \<Longrightarrow> eng h' = eng h"
  by (auto simp: ensure_blink_vm_def Let_def map_thunks_to_blink_def split: option.splits if_splits)

text \<open>What the blink loader does to the engine, if it gets as far.\<close>

definition with_main_thread :: "'m guest_api \<Rightarrow> engine \<Rightarrow> engine \<Rightarrow> bool" where
  "with_main_thread api e e' \<longleftrightarrow> (\<exists>b e1 b'. wg_setup_win32_teb api e b = (e1, b') \<and>
     e' = e1\<lparr>sched := register_main_thread (sched e1) (main_teb e1)\<rparr>)"

lemma blink_eng:
  assumes "load_pe_blink api ab warm sab pe h = Some (r, h')"
  shows "eng h' = eng h \<or> with_main_thread api (eng h) (eng h')"
proof -
  obtain c h1 where c: "ensure_blink_vm api ab warm h = (c, h1)" by (metis surj_pair)
  have e1: "eng h1 = eng h" by (rule ensure_eng [OF c])
  show ?thesis
  proof (cases c)
    case False
    then show ?thesis using assms c e1 by (simp add: load_pe_blink_def)
  next
    case True
    with assms c obtain b m b1 ok b2 where
      w: "write_iat (put_blink api) (import_slots pe) (imap h1) b = Some (m, b1)" and
      st: "wg_blink_setup_stack api sab b1 (image_base pe + ucast (entry_point pe)) = (ok, b2)" and
      r: "(if \<not> ok then Some (False, h1\<lparr>vmach := b2, imap := m\<rparr>)
          else let b = (if is_64bit pe then b2 else wg_blink_switch_to_32bit b2);
                   (e, b) = wg_setup_win32_teb api (eng h1) b;
                   b = fixed_pages api b
               in Some (True, h1\<lparr>eng := e\<lparr>sched := register_main_thread (sched e) (main_teb e)\<rparr>,
                                vmach := b, imap := m\<rparr>)) = Some (r, h')"
      by (auto simp: load_pe_blink_def Let_def split: bind_splits prod.splits)
    show ?thesis
    proof (cases ok)
      case False
      with r e1 show ?thesis by auto
    next
      case True
      obtain e b3 where t: "wg_setup_win32_teb api (eng h1) (if is_64bit pe then b2 else wg_blink_switch_to_32bit b2) = (e, b3)"
        by (metis surj_pair)
      have "eng h' = e\<lparr>sched := register_main_thread (sched e) (main_teb e)\<rparr>"
        using r True t by (auto simp: Let_def)
      with t e1 show ?thesis by (auto simp: with_main_thread_def)
    qed
  qed
qed

lemma load_image_eng:
  assumes "load_image api ab warm sab ok pe h = Some (r, h')"
  shows "\<exists>e. eng h' = e\<lparr>estate := (if r then WG_ENGINE_LOADED else WG_ENGINE_ERROR)\<rparr> \<and>
    (e = (eng h)\<lparr>pe_img := Some pe\<rparr> \<or> with_main_thread api ((eng h)\<lparr>pe_img := Some pe\<rparr>) e)"
proof -
  let ?h = "h\<lparr>eng := (eng h)\<lparr>pe_img := Some pe\<rparr>\<rparr>"
  from assms obtain d1 h1 h2 where
    1: "(if backend ?h = WG_BACKEND_BLINK then load_pe_blink api ab warm sab pe ?h else Some (False, ?h)) = Some (d1, h1)"
    and 2: "(if d1 then Some (True, h1) else load_pe_builtin ok pe h1) = Some (r, h2)"
    and h': "eng h' = (eng h2)\<lparr>estate := (if r then WG_ENGINE_LOADED else WG_ENGINE_ERROR)\<rparr>"
    by (auto simp: load_image_def Let_def split: bind_splits prod.splits)
  have "eng h2 = eng h1" using 2 builtin_eng by (auto split: if_splits)
  moreover have "eng h1 = eng ?h \<or> with_main_thread api (eng ?h) (eng h1)"
    using 1 blink_eng [of api ab warm sab pe ?h d1 h1] by (auto split: if_splits)
  ultimately show ?thesis using h' by (intro exI [of _ "eng h1"]) simp
qed

lemma register_main_others:
  "i \<noteq> 0 \<Longrightarrow> threads (register_main_thread s tb) ! i = threads s ! i"
  by (simp add: register_main_thread_def)

lemma load_image_leftovers:
  assumes "load_image api ab warm sab ok pe h = Some (r, h')"
  shows "leftovers (eng h') = leftovers (eng h) \<or>
    (\<exists>tb. leftovers (eng h') = apfst (\<lambda>s. register_main_thread s tb) (leftovers (eng h)))"
proof -
  have p [simp]: "leftovers (e\<lparr>pe_img := x\<rparr>) = leftovers e" "leftovers (e\<lparr>estate := y\<rparr>) = leftovers e" for e x y
    by (simp_all add: leftovers_def)
  from load_image_eng [OF assms] obtain e
    where h': "eng h' = e\<lparr>estate := (if r then WG_ENGINE_LOADED else WG_ENGINE_ERROR)\<rparr>"
      and e: "e = (eng h)\<lparr>pe_img := Some pe\<rparr> \<or> with_main_thread api ((eng h)\<lparr>pe_img := Some pe\<rparr>) e" by blast
  from e show ?thesis
  proof
    assume "with_main_thread api ((eng h)\<lparr>pe_img := Some pe\<rparr>) e"
    then obtain e1 where "leftovers e1 = leftovers (eng h)"
      "e = e1\<lparr>sched := register_main_thread (sched e1) (main_teb e1)\<rparr>"
      using leftovers_setup_teb by (fastforce simp: with_main_thread_def)
    then show ?thesis by (auto simp: h' leftovers_def)
  qed (simp add: h')
qed

text \<open>The worker threads of the program before stay in the scheduler's table as they were, ready ones
  included, and so does its timer: the next program runs them, in a machine without their stacks and
  code.\<close>

theorem load_keeps_old_program:
  assumes "wg_engine_load_pe api ab warm sab ok img h = Some (r, h')" and "i \<noteq> 0"
  shows "threads (sched (eng h')) ! i = threads (sched (eng h)) ! i \<and> idle_message (eng h') = idle_message (eng h)"
proof -
  have "leftovers (eng h') = leftovers (eng h) \<or>
    (\<exists>tb. leftovers (eng h') = apfst (\<lambda>s. register_main_thread s tb) (leftovers (eng h)))"
  proof (cases img)
    case None
    then show ?thesis using assms(1)
      by (auto simp: wg_engine_load_pe_def Let_def leftovers_def reset_for_load_def)
  next
    case (Some pe)
    then have "load_image api ab warm sab ok pe (h\<lparr>eng := reset_for_load (eng h)\<rparr>) = Some (r, h')"
      using assms(1) by (simp add: wg_engine_load_pe_def Let_def)
    from load_image_leftovers [OF this] show ?thesis by simp
  qed
  then show ?thesis using register_main_others [OF assms(2)] by (auto simp: leftovers_def idle_message_def)
qed

end
