(* ===== verification/EngineHeap.thy ===== *)
theory EngineHeap
  imports EngineStateOk
begin

text \<open>
  The allocation calls of \<open>handle_blink_thunk\<close> in \<open>Sources/Core/wg_engine.c\<close> (the process heap,
  the C runtime's allocators, \<open>GlobalAlloc\<close> and \<open>LocalAlloc\<close>) and its copying calls, and what the
  guest heap promises: blocks that do not overlap, on whole pages, whose sizes are found again.
\<close>

section \<open>The calls\<close>

definition alloc_result :: "u32 \<times> engine \<times> 'm blink \<Rightarrow> 'm handled" where
  "alloc_result r = (case r of (a, e, b) \<Rightarrow> (Ret (ucast a), e, b))"

text \<open>Copy \<open>n\<close> bytes through a buffer of the host.\<close>

definition copy_guest :: "'m guest_api \<Rightarrow> u32 \<Rightarrow> u32 \<Rightarrow> u32 \<Rightarrow> 'm blink \<Rightarrow> 'm blink" where
  "copy_guest api dst src n b =
     write_bytes api dst (snd (wg_blink_read_mem api b (ucast src) (replicate (unat n) 0) (unat n))) b"

text \<open>\<open>HeapReAlloc\<close> and \<open>realloc\<close>: a new block and as many bytes of the old one as the new size says.\<close>

definition realloc_block :: "'m guest_api \<Rightarrow> u32 \<Rightarrow> u32 \<Rightarrow> engine \<Rightarrow> 'm blink \<Rightarrow> 'm handled" where
  "realloc_block api old n e b =
     (let (np, e, b) = wg_guest_alloc api n e b
      in (Ret (ucast np), e, if np \<noteq> 0 \<and> old \<noteq> 0 \<and> n \<noteq> 0 then copy_guest api np old n b else b))"

definition h_GlobalAlloc :: "'m guest_api \<Rightarrow> u32 list \<Rightarrow> engine \<Rightarrow> 'm blink \<Rightarrow> 'm handled" where
  "h_GlobalAlloc api args e b =
     (let n = (if args ! 1 = 0 then 4096 else args ! 1)
      in if n AND 0x80000000 \<noteq> 0 \<or> 512 * 1024 * 1024 < n then (Ret 0, e, b)
         else let n = (n + 0xFFF) AND NOT 0xFFF;
                  addr = heap_ptr e;
                  b = snd (wg_blink_load_code api False b (ucast addr) (replicate (unat n) 0) n 0)
              in (Ret (ucast addr), e\<lparr>heap_ptr := (heap_ptr e + n + 0xFFF) AND NOT 0xFFF\<rparr>, b))"

definition h_memset :: "'m guest_api \<Rightarrow> u32 list \<Rightarrow> engine \<Rightarrow> 'm blink \<Rightarrow> 'm handled" where
  "h_memset api args e b =
     (let dst = args ! 0; n = args ! 2
      in (Ret (ucast dst), e,
          if dst \<noteq> 0 \<and> n \<noteq> 0 \<and> n \<le> 64 * 1024 * 1024
          then write_bytes api dst (replicate (unat n) (ucast (args ! 1))) b else b))"

definition h_memcpy :: "'m guest_api \<Rightarrow> u32 list \<Rightarrow> engine \<Rightarrow> 'm blink \<Rightarrow> 'm handled" where
  "h_memcpy api args e b =
     (let dst = args ! 0; src = args ! 1; n = args ! 2
      in (Ret (ucast dst), e,
          if dst \<noteq> 0 \<and> src \<noteq> 0 \<and> n \<noteq> 0 \<and> n \<le> 64 * 1024 * 1024 then copy_guest api dst src n b else b))"

text \<open>The dispatch; \<open>None\<close> for a name of another branch.\<close>

definition heap_call :: "'m guest_api \<Rightarrow> string \<Rightarrow> u32 list \<Rightarrow> engine \<Rightarrow> 'm blink \<Rightarrow> 'm handled option" where
  "heap_call api fn args e b =
     (if fn = ''EncodePointer'' \<or> fn = ''DecodePointer'' then Some (Ret (ucast (args ! 0)), e, b)
      else if fn = ''GetCurrentThread'' then Some (Ret 0xFFFFFFFE, e, b)
      else if fn = ''GetProcessHeap'' then Some (Ret 0x00D00000, e, b)
      else if fn = ''HeapCreate'' then Some (Ret 0x00D10000, e, b)
      else if fn = ''HeapAlloc'' then Some (alloc_result (wg_guest_alloc api (args ! 2) e b))
      else if fn = ''HeapSize'' then Some (Ret (ucast (lookup_alloc_size (args ! 2) e)), e, b)
      else if fn = ''HeapReAlloc'' then Some (realloc_block api (args ! 2) (args ! 3) e b)
      else if fn = ''??2@YAPAXI@Z'' \<or> fn = ''malloc'' then Some (alloc_result (wg_guest_alloc api (args ! 0) e b))
      else if fn = ''calloc'' then Some (alloc_result (wg_guest_alloc api (args ! 0 * args ! 1) e b))
      else if fn = ''realloc'' then Some (realloc_block api (args ! 0) (args ! 1) e b)
      else if fn = ''??3@YAXPAX@Z'' \<or> fn = ''free'' then Some (Ret 0, e, b)
      else if fn = ''memset'' then Some (h_memset api args e b)
      else if fn = ''memcpy'' \<or> fn = ''memmove'' then Some (h_memcpy api args e b)
      else if fn = ''GlobalAlloc'' then Some (h_GlobalAlloc api args e b)
      else if fn = ''GlobalLock'' then Some (Ret (ucast (args ! 0)), e, b)
      else if fn = ''LocalAlloc'' then Some (alloc_result (wg_guest_alloc api (if args ! 1 \<noteq> 0 then args ! 1 else 1) e b))
      else if fn = ''LocalFree'' then Some (Ret 0, e, b)
      else None)"

section \<open>Whole pages\<close>

text \<open>Rounding a number up to a multiple of 4096.\<close>

definition page_round :: "nat \<Rightarrow> nat" where
  "page_round n = (n + 4095) div 4096 * 4096"

lemma page_round_ge: "n \<le> page_round n"
  by (simp add: page_round_def)

lemma page_round_mult [simp]: "page_round (k * 4096) = k * 4096"
  by (simp add: page_round_def)

lemma page_round_dvd [simp]: "4096 dvd page_round n"
  by (simp add: page_round_def)

lemma page_round_le: "n \<le> k * 4096 \<Longrightarrow> page_round n \<le> k * 4096"
  by (simp add: page_round_def)

lemma page_mask: "(0xFFF :: u32) = mask 12" by (simp add: mask_eq_exp_minus_1)

lemma unat_clear_low: "unat (w AND NOT 0xFFF :: u32) = unat w div 4096 * 4096"
proof -
  have "w AND NOT 0xFFF = push_bit 12 (drop_bit 12 w)"
    unfolding page_mask by (rule bit_word_eqI) (auto simp: bit_simps)
  moreover have "unat (push_bit 12 (drop_bit 12 w)) = unat w div 4096 * 4096"
  proof -
    have "unat w < 2 ^ LENGTH(32)" by (rule unsigned_less)
    then have "unat w div 4096 * 4096 < 2 ^ 32" using div_times_less_eq_dividend [of "unat w" 4096] by simp
    then show ?thesis
      by (simp add: push_bit_eq_mult drop_bit_eq_div unat_word_ariths unat_div_distrib)
  qed
  ultimately show ?thesis by simp
qed

lemma small_no_top_bit: "unat n < 2 ^ 31 \<Longrightarrow> n AND 0x80000000 = (0 :: u32)"
proof -
  assume n: "unat n < 2 ^ 31"
  have "bit n 31 = bit (unat n) 31" by (simp add: bit_unsigned_iff)
  also have "\<dots> = bit (take_bit 31 (unat n)) 31" using n by (simp add: take_bit_nat_eq_self)
  also have "\<dots> = False" by (simp add: bit_take_bit_iff)
  finally have b: "\<not> bit n 31" by simp
  have top: "(0x80000000 :: u32) = push_bit 31 1" by (simp add: push_bit_eq_mult)
  have one: "bit (0x80000000 :: u32) i \<longleftrightarrow> i = 31" for i
    unfolding top bit_push_bit_iff bit_1_iff by auto
  show "n AND 0x80000000 = (0 :: u32)"
    by (rule bit_word_eqI) (use b in \<open>simp only: bit_and_iff one bit_0_eq, blast\<close>)
qed

lemma unat_add: "unat v + unat w < 2 ^ 32 \<Longrightarrow> unat (v + w :: u32) = unat v + unat w"
  by (simp add: unat_word_ariths)

section \<open>Blocks\<close>

text \<open>What an allocation does to the state: the block is at the old top of the heap, and the top
  moves up by whole pages.\<close>

definition heap_at :: "engine \<Rightarrow> nat \<Rightarrow> bool" where
  "heap_at e t \<longleftrightarrow> unat (heap_ptr e) = t \<and> 4096 dvd t"

lemma pages_up:
  assumes "4096 dvd t" and "t + page_round n < 2 ^ 32"
  shows "t + page_round n + 4095 < 2 ^ 32"
proof -
  from assms(1) obtain k where "t = 4096 * k" by (rule dvdE)
  then obtain m where m: "t + page_round n = 4096 * m" by (metis page_round_def distrib_left mult.commute)
  have "4096 * m < 2 ^ 32 \<Longrightarrow> 4096 * m + 4095 < (2 :: nat) ^ 32" by simp
  with m assms(2) show ?thesis by simp
qed

lemma guest_alloc_spec:
  assumes h: "heap_at e t" and n: "n \<noteq> 0" "unat n \<le> 512 * 1024 * 1024" and room: "t + page_round (unat n) < 2 ^ 32"
    and r: "wg_guest_alloc api n e b = (a, e', b')"
  shows "unat a = t" and "heap_at e' (t + page_round (unat n))"
    and "alloc_sizes e' = (if length (alloc_sizes e) < WG_MAX_ALLOCS then alloc_sizes e @ [(a, n)] else alloc_sizes e)"
    and "sched e' = sched e"
proof -
  let ?alloc = "(n + 0xFFF) AND NOT 0xFFF"
  have small: "n AND 0x80000000 = 0" by (rule small_no_top_bit) (use n(2) in simp)
  have le: "\<not> 0x20000000 < n" using n(2) by (simp add: word_less_nat_alt)
  have "unat (n + 0xFFF) = unat n + 4095" using n(2) by (subst unat_add) simp_all
  then have al: "unat ?alloc = page_round (unat n)" by (simp only: unat_clear_low page_round_def)
  have t: "unat (heap_ptr e) = t" "4096 dvd t" using h by (auto simp: heap_at_def)
  have s1: "unat (heap_ptr e + ?alloc) = t + page_round (unat n)"
    using room al t(1) by (subst unat_add) simp_all
  have "unat (heap_ptr e + ?alloc + 0xFFF) = t + page_round (unat n) + 4095"
    using pages_up [OF t(2) room] s1 by (subst unat_add) simp_all
  moreover have "4096 dvd t + page_round (unat n)" using t(2) by simp
  then have "(t + page_round (unat n) + 4095) div 4096 * 4096 = t + page_round (unat n)"
    by (elim dvdE) simp
  ultimately have top: "unat ((heap_ptr e + ?alloc + 0xFFF) AND NOT 0xFFF) = t + page_round (unat n)"
    by (simp only: unat_clear_low)
  from r n(1) small le have
    e': "e' = track_alloc a n (e\<lparr>heap_ptr := (heap_ptr e + ?alloc + 0xFFF) AND NOT 0xFFF\<rparr>)" and a: "a = heap_ptr e"
    by (auto simp: wg_guest_alloc_def Let_def)
  show "unat a = t" by (simp add: a t(1))
  show "heap_at e' (t + page_round (unat n))"
    using top t(2) by (simp add: e' heap_at_def track_alloc_def)
  show "alloc_sizes e' = (if length (alloc_sizes e) < WG_MAX_ALLOCS then alloc_sizes e @ [(a, n)] else alloc_sizes e)"
    and "sched e' = sched e" by (simp_all add: e' track_alloc_def)
qed

text \<open>A sequence of allocations.\<close>

fun alloc_list :: "'m guest_api \<Rightarrow> u32 list \<Rightarrow> engine \<Rightarrow> 'm blink \<Rightarrow> u32 list \<times> engine \<times> 'm blink" where
  "alloc_list api [] e b = ([], e, b)"
| "alloc_list api (n # ns) e b =
     (let (a, e, b) = wg_guest_alloc api n e b; (as, e, b) = alloc_list api ns e b in (a # as, e, b))"

lemma alloc_list_spec:
  assumes "heap_at e t" and "\<forall>n \<in> set ns. n \<noteq> 0 \<and> unat n \<le> 512 * 1024 * 1024"
    and "t + (\<Sum>n\<leftarrow>ns. page_round (unat n)) < 2 ^ 32"
    and "length (alloc_sizes e) + length ns \<le> WG_MAX_ALLOCS" and "alloc_list api ns e b = (as, e', b')"
  shows "length as = length ns \<and> alloc_sizes e' = alloc_sizes e @ zip as ns \<and>
    heap_at e' (t + (\<Sum>n\<leftarrow>ns. page_round (unat n))) \<and>
    (\<forall>i < length ns. unat (as ! i) = t + (\<Sum>n\<leftarrow>take i ns. page_round (unat n)))"
  using assms
proof (induction ns arbitrary: e t b as)
  case (Cons n ns)
  obtain a e1 b1 where r1: "wg_guest_alloc api n e b = (a, e1, b1)" by (cases "wg_guest_alloc api n e b") auto
  obtain as2 where r2: "alloc_list api ns e1 b1 = (as2, e', b')" "as = a # as2"
    using Cons.prems(5) r1 by (auto simp: Let_def split: prod.splits)
  have "t + page_round (unat n) < 2 ^ 32" using Cons.prems(3) by simp
  note g = guest_alloc_spec [OF Cons.prems(1) _ _ this r1]
  have sizes: "alloc_sizes e1 = alloc_sizes e @ [(a, n)]" using g(3) Cons.prems(2,4) by simp
  have "length as2 = length ns \<and> alloc_sizes e' = alloc_sizes e1 @ zip as2 ns \<and>
    heap_at e' ((t + page_round (unat n)) + (\<Sum>n\<leftarrow>ns. page_round (unat n))) \<and>
    (\<forall>i < length ns. unat (as2 ! i) = (t + page_round (unat n)) + (\<Sum>n\<leftarrow>take i ns. page_round (unat n)))"
    by (rule Cons.IH [OF g(2) _ _ _ r2(1)]) (use Cons.prems sizes in auto)
  then show ?case using g(1) sizes r2(2) Cons.prems(2) by (auto simp: nth_Cons' less_Suc_eq_0_disj add.assoc)
qed simp

lemma sum_pages_take:
  assumes "i < j" and "j < length ns"
  shows "(\<Sum>n\<leftarrow>take i ns. page_round (unat n)) + page_round (unat (ns ! i)) \<le> (\<Sum>n\<leftarrow>take j ns. page_round (unat n))"
proof -
  have e: "take i (take j ns) = take i ns" "take j ns ! i = ns ! i" using assms by (simp_all add: min_def)
  have "take j ns = take i (take j ns) @ take j ns ! i # drop (Suc i) (take j ns)"
    by (rule id_take_nth_drop) (use assms in simp)
  then have "take j ns = take i ns @ ns ! i # drop (Suc i) (take j ns)" by (simp only: e)
  then have "(\<Sum>n\<leftarrow>take j ns. page_round (unat n)) = (\<Sum>n\<leftarrow>take i ns. page_round (unat n)) +
      (page_round (unat (ns ! i)) + (\<Sum>n\<leftarrow>drop (Suc i) (take j ns). page_round (unat n)))"
    by (metis map_append list.simps(9) sum_list.append sum_list.Cons)
  then show ?thesis by simp
qed

lemma find_append_Some: "List.find P xs = Some x \<Longrightarrow> List.find P (xs @ ys) = Some x"
  by (induction xs) auto

lemma find_rev_zip:
  assumes "i < length as" and "length as = length ns" and "distinct as"
  shows "List.find (\<lambda>(x, _). x = as ! i) (rev (xs @ zip as ns)) = Some (as ! i, ns ! i)"
proof -
  let ?l = "rev (zip as ns)" and ?j = "length as - Suc i"
  have nth: "?l ! k = (as ! (length as - Suc k), ns ! (length as - Suc k))" if "k < length as" for k
    using that assms(2) by (simp add: rev_nth)
  have "List.find (\<lambda>(x, _). x = as ! i) ?l = Some (as ! i, ns ! i)"
    unfolding find_Some_iff
  proof (intro exI [of _ ?j] conjI allI impI)
    fix k assume k: "k < ?j"
    then have "length as - Suc k \<noteq> i" "length as - Suc k < length as" using assms(1) by auto
    then have "as ! (length as - Suc k) \<noteq> as ! i" using assms(1,3) by (simp add: nth_eq_iff_index_eq)
    then show "\<not> (case ?l ! k of (x, _) \<Rightarrow> x = as ! i)" using nth [of k] k by simp
  qed (use assms(1,2) nth [of ?j] in auto)
  then show ?thesis by (simp add: find_append_Some)
qed

text \<open>Allocations that fit into the address space get blocks on whole pages, one behind the other,
  and the size of each is found again as long as the table of sizes has room.\<close>

text \<open>C7: Allocations of 1 byte to 512 MB each that together end below 4 GB, with at most 8192 entries in the table of sizes after them, get whole pages of the guest heap, one behind the other and disjoint, and the size of each is found again.\<close>

theorem heap_blocks:
  assumes "heap_at e t" and "\<forall>n \<in> set ns. n \<noteq> 0 \<and> unat n \<le> 512 * 1024 * 1024"
    and "t + (\<Sum>n\<leftarrow>ns. page_round (unat n)) < 2 ^ 32"
    and "length (alloc_sizes e) + length ns \<le> WG_MAX_ALLOCS" and "alloc_list api ns e b = (as, e', b')"
  shows "length as = length ns \<and>
    (\<forall>i < length ns. t \<le> unat (as ! i) \<and> 4096 dvd unat (as ! i) \<and> lookup_alloc_size (as ! i) e' = ns ! i) \<and>
    (\<forall>j < length ns. \<forall>i < j. unat (as ! i) + unat (ns ! i) \<le> unat (as ! j))"
proof -
  from alloc_list_spec [OF assms] have l: "length as = length ns"
    and sizes: "alloc_sizes e' = alloc_sizes e @ zip as ns"
    and at: "\<And>i. i < length ns \<Longrightarrow> unat (as ! i) = t + (\<Sum>n\<leftarrow>take i ns. page_round (unat n))" by auto
  have dvd: "4096 dvd unat (as ! i)" if "i < length ns" for i
  proof -
    have "4096 dvd (\<Sum>n\<leftarrow>ms. page_round (unat n))" for ms :: "u32 list" by (induction ms) auto
    with assms(1) at [OF that] show ?thesis by (simp add: heap_at_def)
  qed
  have step: "unat (as ! i) + page_round (unat (ns ! i)) \<le> unat (as ! j)" if "i < j" "j < length ns" for i j
    using sum_pages_take [OF that] at [of i] at [of j] that by simp
  have pos: "0 < page_round (unat (ns ! i))" if "i < length ns" for i
  proof -
    have "ns ! i \<noteq> 0" using assms(2) that by auto
    then have "0 < unat (ns ! i)" by (simp add: unat_gt_0)
    then show ?thesis using page_round_ge [of "unat (ns ! i)"] by linarith
  qed
  have "distinct as"
    unfolding distinct_conv_nth
  proof (intro allI impI)
    fix i j assume "i < length as" "j < length as" "i \<noteq> j"
    then show "as ! i \<noteq> as ! j"
      using step [of i j] step [of j i] pos [of i] pos [of j] l by (metis add_le_same_cancel1 linorder_neqE_nat not_less)
  qed
  then have "lookup_alloc_size (as ! i) e' = ns ! i" if "i < length ns" for i
    using find_rev_zip [of i as ns "alloc_sizes e"] that l sizes by (simp add: lookup_alloc_size_def)
  moreover have "unat (as ! i) + unat (ns ! i) \<le> unat (as ! j)" if "i < j" "j < length ns" for i j
    using step [OF that] page_round_ge [of "unat (ns ! i)"] by simp
  ultimately show ?thesis using l at dvd by simp
qed

section \<open>Where it goes wrong\<close>

text \<open>Nothing keeps the heap out of the stacks of the threads, which begin at \<open>0x30000000\<close>: a single
  block of more than 256 MB lies over the first of them.\<close>

lemma heap_covers_stack:
  assumes "heap_ptr e = WG_GUEST_HEAP_BASE" and "sched e = wg_sched_create"
    and n: "0x10000000 < unat n" "unat n \<le> 512 * 1024 * 1024"
    and r: "wg_guest_alloc api n e b = (a, e', b')"
  shows "unat a \<le> unat (next_stack_addr (sched e')) \<and> unat (next_stack_addr (sched e')) < unat a + unat n"
proof -
  have h: "heap_at e 0x20000000" using assms(1) by (simp add: heap_at_def WG_GUEST_HEAP_BASE_def)
  have "page_round (unat n) \<le> 131072 * 4096" by (rule page_round_le) (use n in simp)
  then have "0x20000000 + page_round (unat n) < 2 ^ 32" by simp
  moreover have "n \<noteq> 0" using n(1) by auto
  ultimately show ?thesis using guest_alloc_spec(1,4) [OF h _ n(2) _ r] n
    by (auto simp: assms(2) wg_sched_create_def)
qed

text \<open>\<open>calloc\<close> multiplies in 32 bits: asked for 65536 elements of 65537 bytes it hands out one block
  of 65536 bytes.\<close>

lemma calloc_wraps:
  "heap_call api ''calloc'' (0x10000 # 0x10001 # args) e b = heap_call api ''malloc'' (0x10000 # args) e b"
proof -
  have eq: "(0x100010000 :: u32) = 0x10000" by code_simp
  show ?thesis by (simp add: heap_call_def) (simp only: eq)
qed

end
