(* ===== verification/EngineSeh.thy ===== *)
theory EngineSeh
  imports EngineState
begin

text \<open>
  Exceptions that \<open>Sources/Core/wg_engine.c\<close> dispatches to the guest's structured exception
  handlers: raising one in the main thread's handler chain, and what happens when a handler returns
  its disposition. The offsets are those of the 32-bit \<open>CONTEXT\<close>.
\<close>

definition WG_CTX_SIZE :: u32 where "WG_CTX_SIZE = 0x2CC"

text \<open>The registers of a \<open>CONTEXT\<close> but EIP and ESP: their offsets and their numbers.\<close>

definition ctx_regs :: "(u32 \<times> int) list" where
  "ctx_regs = [(0x9C, 7), (0xA0, 6), (0xA4, 3), (0xA8, 2), (0xAC, 1), (0xB0, 0), (0xB4, 5)]"

text \<open>\<open>WG_SEH_SENTINEL\<close> is the return address of a handler.\<close>

definition WG_SEH_SENTINEL :: u32 where "WG_SEH_SENTINEL = 0xC10020"

definition wg_seh_call_handler :: "'m guest_api \<Rightarrow> u32 \<Rightarrow> u32 \<Rightarrow> seh_state \<Rightarrow> 'm blink \<Rightarrow> 'm blink" where
  "wg_seh_call_handler api hnd frame s b =
     (let esp = ucast (wg_blink_get_reg b 4);
          new_rsp = esp - 20;
          b = write_bytes api new_rsp
                (concat (map (le_bytes 4) [WG_SEH_SENTINEL, seh_excrec s, frame, seh_ctx s, seh_dispctx s])) b;
          b = wg_blink_set_reg b 4 (ucast new_rsp);
          b = wg_blink_set_rip b (ucast hnd)
      in wg_blink_set_reg b 0 0)"

text \<open>The context of the fault.\<close>

definition write_context :: "'m guest_api \<Rightarrow> u32 \<Rightarrow> u32 \<Rightarrow> 'm blink \<Rightarrow> 'm blink" where
  "write_context api ctx fault_rip b =
     fold (\<lambda>(off, v). write32 api (ctx + off) v)
       ([(0, 0x10007)] @ map (\<lambda>(off, r). (off, ucast (wg_blink_get_reg b r))) ctx_regs @
        [(0xB8, fault_rip), (0xC4, ucast (wg_blink_get_reg b 4)), (0xC0, 0x202), (0xBC, 0x1B), (0xC8, 0x23)]) b"

text \<open>False: the exception is not dispatched.\<close>

definition wg_raise_guest_exception ::
    "'m guest_api \<Rightarrow> u32 \<Rightarrow> u32 \<Rightarrow> u32 \<Rightarrow> bool \<Rightarrow> engine \<Rightarrow> 'm blink \<Rightarrow> bool \<times> engine \<times> 'm blink" where
  "wg_raise_guest_exception api exc fault_addr fault_rip is_write e b =
     (if 8 < seh_depth (seh e) then (False, e, b)
      else let frame = read32 api (ucast (main_teb e)) b
           in if frame \<le> 0x1000 \<or> 0xFFFFFFFE \<le> frame then (False, e, b)
              else let (ctx, e, b) = wg_guest_alloc api WG_CTX_SIZE e b;
                       (rec, e, b) = wg_guest_alloc api 0x50 e b;
                       (dispctx, e, b) = wg_guest_alloc api 16 e b
                   in if ctx = 0 \<or> rec = 0 \<or> dispctx = 0 then (False, e, b)
                      else let b = write_context api ctx fault_rip b;
                               b = write_bytes api rec (concat (map (le_bytes 4)
                                     [exc, 0, 0, fault_rip, 2, if is_write then 1 else 0, fault_addr])) b;
                               s = \<lparr>seh_active = True, seh_frame = frame, seh_excrec = rec, seh_ctx = ctx,
                                    seh_dispctx = dispctx, seh_depth = seh_depth (seh e) + 1\<rparr>;
                               hnd = read32 api (ucast (frame + 4)) b
                           in if hnd \<le> 0x1000 then (False, e\<lparr>seh := s\<lparr>seh_active := False\<rparr>\<rparr>, b)
                              else (True, e\<lparr>seh := s\<rparr>, wg_seh_call_handler api hnd frame s b))"

text \<open>The return to \<open>WG_SEH_SENTINEL\<close>. With disposition 0 the guest resumes from the context; a word of it
  that cannot be read counts as 0 (the C variable is then not initialised).\<close>

definition resume_context :: "'m guest_api \<Rightarrow> u32 \<Rightarrow> 'm blink \<Rightarrow> 'm blink" where
  "resume_context api ctx b =
     (let eip = read32 api (ucast (ctx + 0xB8)) b;
          esp = read32 api (ucast (ctx + 0xC4)) b;
          b = fold (\<lambda>(off, r) b. wg_blink_set_reg b r (ucast (read32 api (ucast (ctx + off)) b)))
                [(0xB0, 0), (0xAC, 1), (0xA8, 2), (0xA4, 3), (0xB4, 5), (0xA0, 6), (0x9C, 7)] b
      in wg_blink_set_rip (wg_blink_set_reg b 4 (ucast esp)) (ucast eip))"

definition seh_return :: "'m guest_api \<Rightarrow> engine \<Rightarrow> 'm blink \<Rightarrow> engine \<times> 'm blink" where
  "seh_return api e b =
     (let s = seh e;
          ended = e\<lparr>seh := s\<lparr>seh_active := False, seh_depth := 0\<rparr>\<rparr>
      in if (ucast (wg_blink_get_reg b 0) :: u32) = 0 then (ended, resume_context api (seh_ctx s) b)
         else let nxt = read32 api (ucast (seh_frame s)) b;
                  hnd = read32 api (ucast (nxt + 4)) b
              in if 0x1000 < nxt \<and> nxt < 0xFFFFFFFE \<and> seh_frame s < nxt \<and> 0x1000 < hnd
                 then (e\<lparr>seh := s\<lparr>seh_frame := nxt\<rparr>\<rparr>, wg_seh_call_handler api hnd nxt s b)
                 else (ended, wg_blink_set_rip b 0))"

end
