(* ===== verification/EngineHalt.thy ===== *)
theory EngineHalt
  imports EngineLoad EngineSeh
begin

text \<open>
  What \<open>wg_engine_tick\<close> of \<open>Sources/Core/wg_engine.c\<close> does with a blink machine that has halted
  outside the thunks: one of the diagnostic traps, the return of a thread, a call through a bad
  pointer, or a fault. The reports are left out.
\<close>

text \<open>The trap that changes the cipher masks of one program.\<close>

definition watch_hit :: "'m guest_api \<Rightarrow> engine \<Rightarrow> 'm blink \<Rightarrow> 'm blink" where
  "watch_hit api e b =
     (let esi = ucast (wg_blink_get_reg b 6) :: u32;
          sub = read32 api (ucast (esi + 0x7C)) b;
          b = (if sub \<noteq> 0
               then write32 api (sub + 0x2AC) 0x303 (write32 api (sub + 0x2A4) 0 (write32 api (sub + 0x2A0) 0 b)) else b);
          b = write_bytes api s_watch_addr [watch_orig (traps e)] b;
          b = wg_blink_set_rip b (ucast s_watch_addr);
          b = snd (wg_blink_step api b)
      in write_bytes api s_watch_addr [0xF4] b)"

text \<open>The trapped function returns at once.\<close>

definition pop_return :: "u32 \<Rightarrow> u32 \<Rightarrow> 'm blink \<Rightarrow> 'm blink" where
  "pop_return esp ret b = wg_blink_set_rip (wg_blink_set_reg b 4 (ucast (esp + 4))) (ucast ret)"

definition errstr_hit :: "'m guest_api \<Rightarrow> 'm blink \<Rightarrow> 'm blink" where
  "errstr_hit api b = (let esp = ucast (wg_blink_get_reg b 4) in pop_return esp (read32 api (ucast esp) b) b)"

text \<open>A call through a bad pointer returns 0 when its return address is in the program.\<close>

definition auto_recover :: "'m guest_api \<Rightarrow> engine \<Rightarrow> 'm blink \<Rightarrow> 'm blink option" where
  "auto_recover api e b =
     (let pe_end = (case pe_img e of Some pe \<Rightarrow> ucast (image_base pe + 0x4C0000) | None \<Rightarrow> 0x8C0000) :: u32;
          text_lo = (case pe_img e of Some pe \<Rightarrow> ucast (image_base pe) + 0x1000 | None \<Rightarrow> 0x401000) :: u32;
          esp = ucast (wg_blink_get_reg b 4) :: u32;
          ret = read32 api (ucast esp) b
      in if ucast pe_end < wg_blink_get_rip b \<and> text_lo \<le> ret \<and> ret < pe_end
         then Some (pop_return esp ret (wg_blink_set_reg b 0 0)) else None)"

definition s_enable_guest_seh :: bool where "s_enable_guest_seh \<longleftrightarrow> False"

definition stopped :: "engine \<Rightarrow> engine" where
  "stopped e = e\<lparr>estate := WG_ENGINE_STOPPED\<rparr>"

text \<open>A halt that is not one of a thunk.\<close>

definition tick_halt :: "'m guest_api \<Rightarrow> engine \<Rightarrow> 'm blink \<Rightarrow> engine \<times> 'm blink" where
  "tick_halt api e b =
     (let pc = wg_blink_get_rip b
      in if watch_armed (traps e) \<and> pc = ucast s_watch_addr then (e, watch_hit api e b)
         else if errstr_armed (traps e) \<and> pc = ucast s_errstr_bp then (e, errstr_hit api b)
         else if pc = 0
         then let (switched, s, b) = worker_return (sched e) b;
                  e = e\<lparr>sched := s\<rparr>
              in (if switched then e else stopped e, b)
         else case auto_recover api e b of
                Some b \<Rightarrow> (e, b)
              | None \<Rightarrow>
                  let (raised, e, b) =
                        (if s_enable_guest_seh \<and> wg_blink_get_stop_reason b \<in> {- 4, - 8}
                         then wg_raise_guest_exception api 0xC0000005 (ucast (wg_blink_get_fault_addr b)) (ucast pc) False e b
                         else (False, e, b))
                  in (if raised then e else stopped e, b))"

text \<open>The halt of a thread that returns from its start function, other than the main thread.\<close>

definition worker_halt :: "engine \<Rightarrow> 'm blink \<Rightarrow> bool" where
  "worker_halt e b \<longleftrightarrow> wg_blink_get_rip b = 0 \<and>
     (case wg_sched_current (sched e) of None \<Rightarrow> False | Some t \<Rightarrow> tid t \<noteq> 1)"

end
