(* ===== verification/EngineRun.thy ===== *)
theory EngineRun
  imports EngineWf EngineLoadOk EngineHeap EngineHalt
begin

text \<open>
  Runs of the engine: a program is loaded, then its Win32 calls, the calls into the guest and their
  returns, and the engine's own steps follow each other in any order, with any change of the machine
  by the guest in between. Every state is well-formed, so every call finds the arguments and tables
  that it indexes, and no call is undefined.
\<close>

section \<open>The dispatch\<close>

text \<open>A call of the function \<open>fn\<close>, with the default result and the number of arguments that the
  table has for it, from the guest's state at its thunk; \<open>None\<close> for a function whose branch is not
  modelled.\<close>

definition win32_call ::
    "'m guest_api \<Rightarrow> bool \<Rightarrow> bool \<Rightarrow> string \<Rightarrow> int \<Rightarrow> int \<Rightarrow> engine \<Rightarrow> 'm blink \<Rightarrow> (engine \<times> 'm blink) ub option" where
  "win32_call api z ab fn dflt nargs e b =
     (let f = read_frame api e b;
          r = (case sync_call api z ab fn (of_int dflt) f e b of
                 Some r \<Rightarrow> Some r
               | None \<Rightarrow> map_option Some (heap_call api fn (fargs f) e b))
      in map_option (map_option (\<lambda>(r, e, b).
           case r of Ret v \<Rightarrow> (e, finish_call f nargs v b) | Handled \<Rightarrow> (e, b))) r)"

definition WG_DLG_SENTINEL :: u64 where "WG_DLG_SENTINEL = 0xC10000"

text \<open>\<open>handle_blink_thunk\<close>: the machine has halted. \<open>None\<close>: a branch that is not modelled. The boolean
  says whether the halt was one of a thunk. Repainting the dialog changes neither the machine nor
  this state.\<close>

definition at_thunk :: "u64 \<Rightarrow> bool" where
  "at_thunk a \<longleftrightarrow> 0xC00000 \<le> a \<and> a < 0xC00000 + 0x20000 \<or> WG_THUNK_BASE \<le> a \<and> a < WG_THUNK_BASE + 0x20000"

definition handle_blink_thunk ::
    "'m guest_api \<Rightarrow> bool \<Rightarrow> bool \<Rightarrow> mapper \<Rightarrow> engine \<Rightarrow> 'm blink \<Rightarrow> (bool \<times> engine \<times> 'm blink) ub option" where
  "handle_blink_thunk api z ab m e b =
     (let pc = wg_blink_get_rip b
      in if \<not> at_thunk pc then Some (Some (False, e, b))
         else if pc = ucast WG_SEH_SENTINEL then Some (Some (True, seh_return api e b))
         else if pc = WG_DLG_SENTINEL then Some (Some (True, e\<lparr>estate := WG_ENGINE_PAUSED\<rparr>, b))
         else if pc = ucast WG_SENDMSG_SENTINEL then Some (Some (True, sendmsg_return e b))
         else case List.find (\<lambda>d. thunk_addr d = pc) (dlls m) of
                None \<Rightarrow> Some (Some (True, e, finish_call (read_frame api e b) 0 0 b))
              | Some d \<Rightarrow>
                  if strcaseeq (dll_entry.dll_name d) ''nsDialogs.dll'' then None
                  else map_option (map_option (Pair True))
                         (win32_call api z ab (func_name d) (default_ret d) (num_args d) e b))"

section \<open>The other calls\<close>

lemma guest_alloc_wf: "engine_wf e \<Longrightarrow> wg_guest_alloc api n e b = (a, e', b') \<Longrightarrow> engine_wf e'"
  using guest_alloc_tables by (fastforce simp: engine_wf_def)

lemma alloc_result_keeps: "engine_wf e \<Longrightarrow> keeps_wf (alloc_result (wg_guest_alloc api n e b))"
  by (cases "wg_guest_alloc api n e b") (auto simp: alloc_result_def dest: guest_alloc_wf)

lemma realloc_keeps: "engine_wf e \<Longrightarrow> keeps_wf (realloc_block api old n e b)"
  by (auto simp: realloc_block_def split: prod.split dest: guest_alloc_wf)

lemma GlobalAlloc_keeps: "engine_wf e \<Longrightarrow> keeps_wf (h_GlobalAlloc api args e b)"
  by (simp add: h_GlobalAlloc_def Let_def engine_wf_def)

lemma heap_call_wf:
  assumes e: "engine_wf e" and c: "heap_call api fn args e b = Some r"
  shows "keeps_wf r"
  using c unfolding heap_call_def
  by (elim if_Some_elim)
    (simp_all add: e alloc_result_keeps realloc_keeps GlobalAlloc_keeps h_memset_def h_memcpy_def Let_def)

lemma sendmsg_return_wf: "engine_wf e \<Longrightarrow> sendmsg_return e b = (e', b') \<Longrightarrow> engine_wf e'"
  using pop_call_tables [of e] by (auto simp: sendmsg_return_def engine_wf_def split: option.splits)

lemma arm_wf:
  "engine_wf e \<Longrightarrow> wg_call_wndproc_ovr api proc hwnd msg wp lp ret rsp ovr ov e b = Some (e', b') \<Longrightarrow> engine_wf e'"
  using push_call_tables by (fastforce simp: wg_call_wndproc_ovr_def Let_def engine_wf_def split: option.splits if_splits)

lemma tick_unpause_wf:
  assumes e: "engine_wf e" and t: "tick_unpause e b = (e', b')"
  shows "engine_wf e'"
proof (cases "estate e = WG_ENGINE_PAUSED \<and> (\<exists>t \<in> set (threads (sched e)). state t = WG_THREAD_READY)")
  case False
  with t e show ?thesis by (auto simp: tick_unpause_def)
next
  case True
  note inv = engine_wfD(1) [OF e]
  let ?s = "wg_sched_save_current (sched e) b WG_THREAD_WAITING"
  obtain ok s1 b1 where sw: "wg_sched_switch_next ?s b = (ok, s1, b1)" by (metis prod_cases3)
  have p: "parked ?s" by (rule save_current_parked [OF inv]) simp
  from True obtain j where j: "j < WG_MAX_THREADS" "state (threads (sched e) ! j) = WG_THREAD_READY"
    using sched_invD(1) [OF inv] by (auto simp: in_set_conv_nth)
  have "current (sched e) \<noteq> Some j" using sched_invD(3) [OF inv, of j] j(2) by auto
  then have rj: "state (threads ?s ! j) = WG_THREAD_READY" using save_current_nth [OF inv j(1), of b] j(2) by simp
  have "next_ready ?s \<noteq> None"
  proof
    assume none: "next_ready ?s = None"
    define st where "st = (case current ?s of None \<Rightarrow> 0 | Some c \<Rightarrow> c + 1)"
    have "\<exists>i < WG_MAX_THREADS. (st + i) mod WG_MAX_THREADS = j"
    proof (intro exI conjI)
      show "(j + WG_MAX_THREADS * st - st) mod WG_MAX_THREADS < WG_MAX_THREADS" by (simp add: WG_MAX_THREADS_def)
      have "st + (j + WG_MAX_THREADS * st - st) = j + WG_MAX_THREADS * st" by (simp add: WG_MAX_THREADS_def)
      then show "(st + (j + WG_MAX_THREADS * st - st) mod WG_MAX_THREADS) mod WG_MAX_THREADS = j"
        using j(1) by (simp add: mod_add_right_eq)
    qed
    moreover have "state (threads ?s ! ((st + i) mod WG_MAX_THREADS)) \<noteq> WG_THREAD_READY" if "i < WG_MAX_THREADS" for i
      using none that unfolding next_ready_def Let_def st_def by auto
    ultimately show False using rj by blast
  qed
  with sw have "ok" by (auto simp: wg_sched_switch_next_def Let_def)
  with switch_next_inv [OF p] sw have "sched_inv s1" by simp
  with t True sw e show ?thesis by (auto simp: tick_unpause_def Let_def engine_wf_def)
qed

lemma start_stop_wf: "engine_wf e \<Longrightarrow> engine_wf (wg_engine_resume e)" "engine_wf e \<Longrightarrow> engine_wf (wg_engine_stop e)"
  by (simp_all add: wg_engine_resume_def wg_engine_stop_def engine_wf_def)

lemma tick_halt_wf:
  assumes wf: "engine_wf e" and w: "\<not> worker_halt e b"
  shows "engine_wf (fst (tick_halt api e b))"
proof -
  have st: "engine_wf (stopped x)" if "engine_wf x" for x using that by (simp add: stopped_def engine_wf_def)
  have "worker_return (sched e) b = (False, sched e, b)" if "wg_blink_get_rip b = 0"
    using w that by (auto simp: worker_halt_def worker_return_def wg_sched_current_def split: option.splits)
  then show ?thesis using wf st
    by (auto simp: tick_halt_def Let_def s_enable_guest_seh_def split: option.splits)
qed

section \<open>Arguments\<close>

lemma length_words_of: "length (words_of bs) = length bs div 4"
  by (induction bs rule: words_of.induct) simp_all

lemma read_frame_args: "length (fargs (read_frame api e b)) = 16"
proof -
  have "length (snd (wg_blink_read_mem api b a (replicate 64 0) 64)) = 64" for a
    by (subst length_read_mem) simp_all
  then show ?thesis by (simp add: read_frame_def Let_def read_words_def length_words_of)
qed

text \<open>A call is not undefined and keeps the state well-formed.\<close>

lemma win32_call_wf:
  assumes "engine_wf e" and "win32_call api z ab fn dflt n e b = Some r"
  shows "length (fargs (read_frame api e b)) = 16 \<and> (\<exists>e' b'. r = Some (e', b') \<and> engine_wf e')"
proof -
  let ?f = "read_frame api e b"
  let ?r = "case sync_call api z ab fn (of_int dflt) ?f e b of
      Some r \<Rightarrow> Some r | None \<Rightarrow> map_option Some (heap_call api fn (fargs ?f) e b)"
  from assms(2) obtain q where q: "?r = Some q"
    and r: "r = map_option (\<lambda>(r, e, b). case r of Ret v \<Rightarrow> (e, finish_call ?f n v b) | Handled \<Rightarrow> (e, b)) q"
    by (auto simp: win32_call_def Let_def)
  have "defined_wf q"
    using q sync_call_wf [OF assms(1)] heap_call_wf [OF assms(1)] by (auto split: option.splits)
  then obtain v e' b' where "q = Some (v, e', b')" "engine_wf e'" by (auto simp: defined_wf_def keeps_wf_def)
  with r read_frame_args show ?thesis by (cases v) auto
qed

lemma seh_return_wf: "engine_wf e \<Longrightarrow> seh_return api e b = (e', b') \<Longrightarrow> engine_wf e'"
  by (auto simp: seh_return_def Let_def engine_wf_def split: if_splits)

lemma thunk_wf:
  assumes "engine_wf e" and "handle_blink_thunk api z ab m e b = Some r"
  shows "length (fargs (read_frame api e b)) = 16 \<and> (\<exists>done e' b'. r = Some (done, e', b') \<and> engine_wf e')"
proof -
  let ?pc = "wg_blink_get_rip b"
  consider (same) ok where "r = Some (ok, e, b)"
    | (seh) "r = Some (True, seh_return api e b)"
    | (dialog) "r = Some (True, e\<lparr>estate := WG_ENGINE_PAUSED\<rparr>, b)"
    | (sent) "r = Some (True, sendmsg_return e b)"
    | (unknown) "r = Some (True, e, finish_call (read_frame api e b) 0 0 b)"
    | (branch) d :: dll_entry and q where "win32_call api z ab (func_name d) (default_ret d) (num_args d) e b = Some q" "r = map_option (Pair True) q"
    using assms(2) by (auto simp: handle_blink_thunk_def Let_def split: if_splits option.splits)
  then show ?thesis
  proof cases
    case branch
    from win32_call_wf [OF assms(1) branch(1)] branch(2) show ?thesis by auto
  next
    case sent
    obtain e' b' where "sendmsg_return e b = (e', b')" by (metis surj_pair)
    with sent read_frame_args sendmsg_return_wf [OF assms(1)] show ?thesis by auto
  next
    case seh
    obtain e' b' where "seh_return api e b = (e', b')" by (metis surj_pair)
    with seh read_frame_args seh_return_wf [OF assms(1)] show ?thesis by auto
  qed (use assms(1) read_frame_args in \<open>auto simp: engine_wf_def\<close>)
qed

section \<open>Runs\<close>

text \<open>One step of the engine beside the machine \<open>b\<close>; \<open>m\<close> is the table of the DLL mapper.\<close>

inductive engine_step :: "'m guest_api \<Rightarrow> mapper \<Rightarrow> engine \<times> 'm blink \<Rightarrow> engine \<times> 'm blink \<Rightarrow> bool"
  for api :: "'m guest_api" and m :: mapper where
  guest: "engine_step api m (e, b) (e, b')"
| call: "handle_blink_thunk api z ab m e b = Some (Some (handled, q)) \<Longrightarrow> engine_step api m (e, b) q"
| arm: "wg_call_wndproc_ovr api wproc hwnd msg wp lp ret rsp ovr ov e b = Some q \<Longrightarrow> engine_step api m (e, b) q"
| unpause: "engine_step api m (e, b) (tick_unpause e b)"
| halt: "\<not> worker_halt e b \<Longrightarrow> engine_step api m (e, b) (tick_halt api e b)"
| resume: "engine_step api m (e, b) (wg_engine_resume e, b)"
| stop: "engine_step api m (e, b) (wg_engine_stop e, b)"

inductive engine_run :: "'m guest_api \<Rightarrow> mapper \<Rightarrow> engine \<times> 'm blink \<Rightarrow> bool"
  for api :: "'m guest_api" and m :: mapper where
  loaded: "wg_engine_load_pe api ab warm sab ok img (wg_engine_init s0) = Some (True, h) \<Longrightarrow>
    wg_engine_run api (eng h) (vmach h) = (True, e, b) \<Longrightarrow> imap h = m \<Longrightarrow> engine_run api m (e, b)"
| step: "engine_run api m p \<Longrightarrow> engine_step api m p q \<Longrightarrow> engine_run api m q"

inductive_cases engine_stepE: "engine_step api m p q"

lemma engine_step_wf:
  assumes "engine_step api m p q" and wf: "engine_wf (fst p)"
  shows "engine_wf (fst q)"
  using assms(1)
proof (cases rule: engine_step.cases)
  case (call z ab e b handled)
  with wf thunk_wf have "\<exists>done e' b'. Some (handled, q) = Some (done, e', b') \<and> engine_wf e'" by fastforce
  then show ?thesis by auto
next
  case (arm wproc hwnd msg wp lp ret rsp ovr ov e b)
  with wf arm_wf show ?thesis by (metis fst_conv prod.collapse)
next
  case (unpause e b)
  with wf tick_unpause_wf show ?thesis by (metis fst_conv prod.collapse)
next
  case (halt e b)
  with wf tick_halt_wf show ?thesis by (metis fst_conv)
qed (use wf start_stop_wf in auto)

lemma initial_engine_parts [simp]:
  "sched initial_engine = wg_sched_create"
  "ev_signalled initial_engine = replicate WG_MAX_EVENTS False"
  "ev_manual initial_engine = replicate WG_MAX_EVENTS False"
  "ev_next initial_engine = 0" "iocp_bindings initial_engine = []" "completions initial_engine = no_completions"
  "tp_work initial_engine = []" "thread_msgs initial_engine = no_msgs" "tls initial_engine = no_local_storage"
  "fls initial_engine = no_local_storage" "alloc_sizes initial_engine = []" "callstack initial_engine = []"
  by (simp_all only: initial_engine_def engine.simps)

lemma initial_wf: "engine_wf initial_engine"
  by (simp add: engine_wf_def tables_ok_def create_inv ring_wf_no_completions ring_wf_no_msgs storage_ok_none)

lemma reset_wf: "engine_wf e \<Longrightarrow> engine_wf (reset_for_load e)"
  by (auto simp: engine_wf_def tables_ok_def reset_for_load_def storage_ok_none ring_wf_def)

lemma loaded_wf:
  assumes "wg_engine_load_pe api ab warm sab ok img (wg_engine_init s0) = Some (True, h)"
  shows "engine_wf (eng h)"
proof -
  let ?e = "reset_for_load initial_engine"
  have wf: "engine_wf ?e" by (rule reset_wf [OF initial_wf])
  have s: "sched ?e = wg_sched_create" by (simp add: reset_for_load_def)
  from assms obtain pe where pe: "load_image api ab warm sab ok pe ((wg_engine_init s0)\<lparr>eng := ?e\<rparr>) = Some (True, h)"
    by (auto simp: wg_engine_load_pe_def Let_def wg_engine_init_def split: option.splits)
  have pe_wf: "tables_ok (?e\<lparr>pe_img := Some pe\<rparr>)" using wf by (simp add: engine_wf_def tables_ok_def)
  from load_image_eng [OF pe] obtain e where h: "eng h = e\<lparr>estate := WG_ENGINE_LOADED\<rparr>"
    and e: "e = ?e\<lparr>pe_img := Some pe\<rparr> \<or> with_main_thread api (?e\<lparr>pe_img := Some pe\<rparr>) e" by auto
  from e have "engine_wf e"
  proof
    assume "with_main_thread api (?e\<lparr>pe_img := Some pe\<rparr>) e"
    then obtain b e1 b' where t: "wg_setup_win32_teb api (?e\<lparr>pe_img := Some pe\<rparr>) b = (e1, b')"
      and e: "e = e1\<lparr>sched := register_main_thread (sched e1) (main_teb e1)\<rparr>" by (auto simp: with_main_thread_def)
    from setup_teb_tables [OF pe_wf t] s have "tables_ok e1" "sched e1 = wg_sched_create" by simp_all
    with e register_main_inv show ?thesis by (simp add: engine_wf_def)
  qed (use wf s pe_wf in \<open>simp add: engine_wf_def\<close>)
  then show ?thesis by (simp add: h engine_wf_def)
qed

lemma engine_run_wf: "engine_wf e \<Longrightarrow> wg_engine_run api e b = (ok, e', b') \<Longrightarrow> engine_wf e'"
  by (auto simp: wg_engine_run_def plant_traps_def Let_def engine_wf_def split: prod.splits if_splits)

text \<open>Every state of a run is well-formed.\<close>

lemma run_wf: "engine_run api m p \<Longrightarrow> engine_wf (fst p)"
proof (induction rule: engine_run.induct)
  case (loaded ab warm sab ok img s0 h e b)
  then show ?case using engine_run_wf [OF loaded_wf [OF loaded(1)]] by auto
qed (rule engine_step_wf)

text \<open>C3: In every state reached after loading by Win32 calls of the modelled branches (synchronisation, threads, messages, timers, TLS, heap), calls into the guest and their returns, and engine steps other than a worker's return, the tables are well-formed and no such call is undefined. The guest may change its machine in between. The return of a worker is left out because it breaks the invariant (\<open>EngineTick\<close>).\<close>

theorem engine_stays_wf:
  assumes "engine_run api m (e, b)"
  shows "engine_wf e \<and> (\<forall>z ab. handle_blink_thunk api z ab m e b \<noteq> Some undef)"
  using run_wf [OF assms] thunk_wf by fastforce

end
