(* ===== verification/EngineProperties.thy ===== *)
theory EngineProperties
  imports Demo EngineSignals EngineRun
begin

text \<open>
  The properties of the engine at work: each is applied to a small engine, whose guest has a main
  thread and one more thread that is ready, or to a program of one section and one import.
\<close>

section \<open>A small engine\<close>

definition demo_engine :: engine where
  "demo_engine = initial_engine\<lparr>sched := demo_sched\<rparr>"

lemma demo_engine_parts [simp]:
  "sched demo_engine = demo_sched" "ev_signalled demo_engine = replicate WG_MAX_EVENTS False"
  "ev_manual demo_engine = replicate WG_MAX_EVENTS False" "ev_next demo_engine = 0"
  "thread_msgs demo_engine = no_msgs" "callstack demo_engine = []" "alloc_sizes demo_engine = []"
  "tls demo_engine = no_local_storage" "fls demo_engine = no_local_storage"
  "completions demo_engine = no_completions"
  by (simp_all add: demo_engine_def)

lemma demo_engine_wf: "engine_wf demo_engine"
  using initial_wf by (simp add: engine_wf_def demo_engine_def demo_sched_inv)

lemma event_0: "event_index 0x200 = Some 0"
  by (simp add: event_index_Some WG_EVENT_BASE_def WG_MAX_EVENTS_def)

lemma find_7000: "wg_sched_find demo_sched 0x7000 = Some 0"
  by (simp add: wg_sched_find_def demo_threads)

lemma no_find: "wg_sched_find demo_sched 0x200 = None"
  by (simp add: wg_sched_find_def demo_threads zero_thread_def)

lemma ready_5: "\<exists>j < WG_MAX_THREADS. state (threads demo_sched ! j) = WG_THREAD_READY"
  by (rule exI [of _ 5]) (simp add: demo_states WG_MAX_THREADS_def)

lemma unsignalled: "ev_signalled e ! 0 = False \<Longrightarrow> sched e = demo_sched \<Longrightarrow> \<not> signalled e 0x200"
  by (simp add: signalled_def event_0 no_find)

section \<open>Waits\<close>

theorem wait_multiple_one_witness:
  "h_WaitForMultipleObjects no_api [1, 0x5000, 0, 0] demo_engine (Some (demo_vm 0)) =
     h_WaitForSingleObject (read_words no_api 0x5000 1 16 (Some (demo_vm 0)) ! 0 # 0 # []) demo_engine (Some (demo_vm 0))"
  using wait_multiple_one [of "0x5000" no_api 0 0 "[]" demo_engine "Some (demo_vm 0)" "[]"] by simp

theorem wait_takes_signal_witness:
  "\<exists>r e' b'. h_WaitForSingleObject [0x200, 0] (demo_engine\<lparr>ev_signalled := (replicate 256 False)[0 := True]\<rparr>)
     (None :: unit blink) = (r, e', b') \<and> r = Ret 0 \<and> \<not> ev_signalled e' ! 0"
proof -
  let ?e = "demo_engine\<lparr>ev_signalled := (replicate 256 False)[0 := True]\<rparr>"
  obtain r e' b' where w: "h_WaitForSingleObject [0x200, 0] ?e (None :: unit blink) = (r, e', b')" by (metis prod_cases3)
  have "engine_wf ?e" using demo_engine_wf by (simp add: engine_wf_def tables_ok_def WG_MAX_EVENTS_def)
  from wait_takes_signal [OF this event_0 _ w] w show ?thesis by (simp add: WG_MAX_EVENTS_def)
qed

text \<open>The main thread waits, the other one sets the event.\<close>

theorem wait_until_set_witness:
  "\<exists>e1 b1 r3 e3 b3. h_WaitForSingleObject [0x200, 0xFFFFFFFF] demo_engine (Some (demo_vm 100)) = (Handled, e1, b1) \<and>
     h_SetEvent [0x200] e1 (Some (demo_vm 0)) = (r3, e3, b3) \<and> ev_signalled e3 ! 0 \<and>
     state (threads (sched e3) ! 0) = WG_THREAD_READY"
proof -
  let ?b = "Some (demo_vm 100)"
  obtain r e1 b1 where w: "h_WaitForSingleObject [0x200, 0xFFFFFFFF] demo_engine ?b = (r, e1, b1)" by (metis prod_cases3)
  obtain r3 e3 b3 where set: "h_SetEvent [0x200] e1 (Some (demo_vm 0)) = (r3, e3, b3)" by (metis prod_cases3)
  have "\<not> signalled demo_engine 0x200" by (rule unsignalled) (simp_all add: WG_MAX_EVENTS_def)
  moreover have "engine_wf e1" using WaitForSingleObject_keeps [OF demo_engine_wf, of "[0x200, 0xFFFFFFFF]" ?b] w by simp
  ultimately show ?thesis
    using wait_until_set [OF demo_engine_wf _ _ _ event_0 w _ _ set] demo_current ready_5 w set by (simp add: Let_def)
qed

theorem no_lost_wakeup_witness:
  "\<exists>e b r. h_WaitForSingleObject [0x200, 0xFFFFFFFF] (demo_engine\<lparr>ev_next := 1\<rparr>) (Some (demo_vm 100)) = (r, e, b) \<and>
     state (threads (sched e) ! 0) = WG_THREAD_WAITING \<and> \<not> ev_signalled e ! 0"
proof -
  let ?e = "demo_engine\<lparr>ev_next := 1\<rparr>" and ?b = "Some (demo_vm 100)"
  let ?f = "\<lparr>is_32bit = True, frame_rsp = 0, ret_addr = 0, fargs = [0x200, 0xFFFFFFFF]\<rparr>"
  obtain r e1 b1 where w: "h_WaitForSingleObject [0x200, 0xFFFFFFFF] ?e ?b = (r, e1, b1)" by (metis prod_cases3)
  have s: "sync_call no_api True False ''WaitForSingleObject'' 0 ?f ?e ?b = Some (Some (r, e1, b1))"
    by (simp add: sync_call_def w)
  have r0: "signal_run no_api (?e, ?b)"
    by (rule signal_run.none_waits) (auto simp: demo_threads zero_thread_def)
  have "single_waits ''WaitForSingleObject'' (fargs ?f) ?e"
    by (simp add: single_waits_def created_def event_0 WG_IOCP_HANDLE_def)
  from signal_run.synchronise [OF r0 this s] have r1: "signal_run no_api (e1, b1)" .
  obtain sw e' b' where bl: "block_on 0x200 0xFFFFFFFF WG_THREAD_WAITING ?e ?b = (sw, e', b')" by (metis prod_cases3)
  have "\<not> signalled ?e 0x200" by (rule unsignalled) (simp_all add: WG_MAX_EVENTS_def)
  then have e1: "e1 = e'" using w bl by (simp add: h_WaitForSingleObject_def wait_or_time_out_def)
  obtain j where j: "j < WG_MAX_THREADS" "state (threads (sched ?e) ! j) = WG_THREAD_READY" using ready_5 by auto
  have inv: "sched_inv (sched ?e)" by (simp add: demo_sched_inv)
  have t: "threads (sched e1) ! 0 = waiting_on 0x200 0xFFFFFFFF ?b (threads demo_sched ! 0)"
    using block_switches [OF inv _ j bl] demo_current by (simp add: e1)
  have "engine_wf ?e" using demo_engine_wf by (simp add: engine_wf_def tables_ok_def WG_MAX_EVENTS_def)
  then have "engine_wf e1" using WaitForSingleObject_keeps [of ?e "[0x200, 0xFFFFFFFF]" ?b] w by simp
  then have "threads (sched e1) ! 0 \<in> set (threads (sched e1))"
    using sched_invD(1) [of "sched e1"] by (intro nth_mem) (simp add: engine_wf_def WG_MAX_THREADS_def)
  from no_lost_wakeup [OF r1 this] show ?thesis using w event_0 by (simp add: t waiting_on_def)
qed

text \<open>The main thread alone.\<close>

definition lone_engine :: engine where
  "lone_engine = initial_engine\<lparr>sched := register_main_thread wg_sched_create 0\<rparr>"

lemma lone_wf: "engine_wf lone_engine"
  using initial_wf register_main_inv by (simp add: engine_wf_def lone_engine_def)

lemma lone_threads: "threads (sched lone_engine) = zero_thread\<lparr>state := WG_THREAD_RUNNING, tid := 1, thandle := 0x7000,
    exit_code := 259, regs := zero_regs\<lparr>tfs_base := 0\<rparr>, teb := 0\<rparr> # replicate 31 zero_thread"
  by code_simp

theorem lone_wait_witness:
  "\<exists>e' b'. h_WaitForSingleObject [0x200, 0xFFFFFFFF] lone_engine (Some (demo_vm 0)) = (Ret 0, e', b') \<and> \<not> signalled e' 0x200"
proof -
  obtain r e' b' where w: "h_WaitForSingleObject [0x200, 0xFFFFFFFF] lone_engine (Some (demo_vm 0)) = (r, e', b')"
    by (metis prod_cases3)
  have "current (sched lone_engine) = Some 0" by (simp add: lone_engine_def register_main_thread_def)
  moreover have "wg_sched_find (sched lone_engine) 0x200 = None" by (simp add: wg_sched_find_def lone_threads zero_thread_def)
  then have "\<not> signalled lone_engine 0x200" by (simp add: signalled_def event_0) (simp add: lone_engine_def WG_MAX_EVENTS_def)
  moreover have "\<forall>t \<in> set (threads (sched lone_engine)). state t \<noteq> WG_THREAD_READY"
    by (simp add: lone_threads zero_thread_def)
  ultimately show ?thesis using lone_wait [OF lone_wf _ _ _ w] w by simp
qed

text \<open>Thread 5 waits for the main thread, which exits.\<close>

definition joining :: engine where
  "joining = demo_engine\<lparr>sched := demo_sched\<lparr>threads := (threads demo_sched)
     [5 := zero_thread\<lparr>state := WG_THREAD_WAITING, thandle := 0x70F0, wait_handle := 0x7000\<rparr>]\<rparr>\<rparr>"

lemma joining_threads: "threads (sched joining) = zero_thread\<lparr>state := WG_THREAD_RUNNING, tid := 1, thandle := 0x7000,
       exit_code := 259, regs := zero_regs\<lparr>tfs_base := 0\<rparr>, teb := 0\<rparr> # replicate 4 zero_thread @
     zero_thread\<lparr>state := WG_THREAD_WAITING, thandle := 0x70F0, wait_handle := 0x7000\<rparr> # replicate 26 zero_thread"
  by (simp add: joining_def demo_threads list_update_append numeral_eq_Suc)

lemma joining_states: "i < 32 \<Longrightarrow> state (threads (sched joining) ! i) =
    (if i = 0 then WG_THREAD_RUNNING else if i = 5 then WG_THREAD_WAITING else WG_THREAD_FREE)"
  unfolding joining_threads by (auto simp: nth_Cons' nth_append zero_thread_def)

lemma joining_wf: "engine_wf joining"
proof -
  have c: "current (sched joining) = Some 0" by (simp add: joining_def demo_current)
  have "sched_inv (sched joining)"
    by (rule sched_invI) (auto simp: c joining_states WG_MAX_THREADS_def split: if_splits, simp add: joining_threads)
  then show ?thesis using demo_engine_wf by (simp add: engine_wf_def joining_def)
qed

theorem exit_strands_waiter_witness:
  "\<exists>r e' b'. h_ExitThread [7] joining (Some (demo_vm 0)) = (r, e', b') \<and> signalled e' 0x7000 \<and>
     state (threads (sched e') ! 5) = WG_THREAD_WAITING"
proof -
  obtain r e' b' where x: "h_ExitThread [7] joining (Some (demo_vm 0)) = (r, e', b')" by (metis prod_cases3)
  have "current (sched joining) = Some 0" by (simp add: joining_def demo_current)
  moreover have "wg_sched_find (sched joining) 0x7000 = Some 0" by (simp add: wg_sched_find_def joining_threads)
  moreover have "wait_handle (threads (sched joining) ! 5) = 0x7000" by (simp add: joining_threads numeral_eq_Suc)
  ultimately show ?thesis
    using exit_strands_waiter [OF joining_wf _ _ _ _ _ x, of 0 "0x7000" 5] x joining_states [of 5]
    by (simp add: WG_MAX_THREADS_def)
qed

theorem pause_strands_witness:
  "\<exists>e' b' r1 e1 b1 r2 e2 b2. tick_unpause (demo_engine\<lparr>estate := WG_ENGINE_PAUSED\<rparr>) (Some (demo_vm 0)) = (e', b') \<and>
     h_PostThreadMessage [1, 0x113, 0, 0] e' b' = (r1, e1, b1) \<and> h_SetEvent [0x200] e1 b1 = (r2, e2, b2) \<and>
     state (threads (sched e2) ! 0) = WG_THREAD_WAITING"
proof -
  let ?e = "demo_engine\<lparr>estate := WG_ENGINE_PAUSED\<rparr>"
  obtain e' b' where u: "tick_unpause ?e (Some (demo_vm 0)) = (e', b')" by (metis surj_pair)
  obtain r1 e1 b1 where p: "h_PostThreadMessage [1, 0x113, 0, 0] e' b' = (r1, e1, b1)" by (metis prod_cases3)
  obtain r2 e2 b2 where s: "h_SetEvent [0x200] e1 b1 = (r2, e2, b2)" by (metis prod_cases3)
  have t0: "tid (threads demo_sched ! 0) = 1" "wait_handle (threads demo_sched ! 0) = 0"
    by (simp_all add: demo_threads zero_thread_def)
  have wf: "engine_wf ?e" using demo_engine_wf by (simp add: engine_wf_def)
  have "\<exists>t \<in> set (threads (sched ?e)). state t = WG_THREAD_READY" by (simp add: demo_threads)
  then show ?thesis
    using pause_strands [OF wf _ _ _ u _ _ s, of 0 "[0x113, 0, 0]" b' r1 b1] demo_current t0 u p s by simp
qed

section \<open>Messages, storage, calls, the heap\<close>

theorem post_then_peek_witness:
  "\<exists>r e1 b'. h_PostThreadMessage [1, 0x400, 7, 9] demo_engine (None :: unit blink) = (r, e1, b') \<and>
     (\<exists>q. h_PeekMessage no_api [0x5000, 0] e1 (Some (demo_vm 0)) =
        Some (Ret 1, e1\<lparr>thread_msgs := q\<rparr>, write_bytes no_api 0x5000 (msg_bytes [0, 0x400, 7, 9, 0, 0, 0]) (Some (demo_vm 0))) \<and>
      ring_items 64 q = [])"
proof -
  obtain r e1 b' where p: "h_PostThreadMessage [1, 0x400, 7, 9] demo_engine (None :: unit blink) = (r, e1, b')"
    by (metis prod_cases3)
  have "sched e1 = demo_sched" using p by (auto simp: h_PostThreadMessage_def)
  then have "wg_sched_current_tid (sched e1) = 1"
    by (simp add: wg_sched_current_tid_def demo_current demo_threads)
  moreover have "ring_length 64 no_msgs = 0" using ring_wf_no_msgs(2) length_ring_items [of 64 no_msgs] by simp
  ultimately show ?thesis
    using post_then_peek [OF demo_engine_wf _ _ _ p refl, of "0x5000" no_api "[0]" "Some (demo_vm 0)"] p
    by (auto simp: ring_wf_no_msgs)
qed

theorem tls_per_thread_witness:
  "\<exists>r e1 b1. h_TlsSetValue [3, 42] demo_engine (None :: unit blink) = (r, e1, b1) \<and>
     h_TlsGetValue [3] e1 (None :: unit blink) = (Ret 42, e1\<lparr>last_error := 0\<rparr>, None) \<and>
     h_TlsGetValue [3] (e1\<lparr>sched := demo_sched\<lparr>current := Some 5\<rparr>\<rparr>) (None :: unit blink) =
       (Ret 0, e1\<lparr>sched := demo_sched\<lparr>current := Some 5\<rparr>, last_error := 0\<rparr>, None)"
proof -
  obtain r e1 b1 where s: "h_TlsSetValue [3, 42] demo_engine (None :: unit blink) = (r, e1, b1)" by (metis prod_cases3)
  have e1: "sched e1 = demo_sched" using s by (auto simp: h_TlsSetValue_def)
  have z: "slot_get (tls demo_engine) 5 3 = 0"
    by (simp add: slot_get_def no_local_storage_def WG_MAX_THREADS_def)
  have c: "current (sched demo_engine) = Some 0" by (simp add: demo_current)
  note t = tls_per_thread [OF demo_engine_wf c s]
  show ?thesis
    using s t [of e1 3 None] t [of "e1\<lparr>sched := demo_sched\<lparr>current := Some 5\<rparr>\<rparr>" 3 None] e1 z
    by (simp add: demo_current own_row_def)
qed

theorem call_ring_last_witness:
  "\<exists>r. each (\<lambda>(name, v). wg_call_ring_push name v) (replicate 300 (''Foo'', 7)) no_calls = Some r \<and>
     call_ring_dump r = replicate 256 (''Foo'', 7)"
proof -
  have n: "\<not> noisy_call ''Foo''" by code_simp
  have "filter (\<lambda>(name, _). \<not> noisy_call name) (replicate 300 (''Foo'', 7 :: u64)) = replicate 300 (''Foo'', 7)"
    by (rule filter_True) (simp add: n)
  then show ?thesis using call_ring_last [of "replicate 300 (''Foo'', 7)"] by (simp add: Let_def)
qed

theorem wndproc_roundtrip_witness:
  "\<exists>e1 b1 e3 b3. wg_call_wndproc_ovr no_api 0x401000 1 0x111 2 3 0x402000 0x7FF0 True 0x7100 demo_engine (Some (demo_vm 100))
       = Some (e1, b1) \<and> sendmsg_return e1 (Some (demo_vm 0)) = (e3, b3) \<and>
     wg_blink_get_rip b3 = 0x402000 \<and> wg_blink_get_reg b3 0 = 0x7100 \<and> wg_blink_get_reg b3 3 = 103"
proof -
  obtain e1 b1 where c: "wg_call_wndproc_ovr no_api 0x401000 1 0x111 2 3 0x402000 0x7FF0 True 0x7100 demo_engine
      (Some (demo_vm 100)) = Some (e1, b1)" by (simp add: wg_call_wndproc_ovr_def push_call_def Let_def)
  obtain e3 b3 where r: "sendmsg_return e1 (Some (demo_vm 0)) = (e3, b3)" by (metis surj_pair)
  have "wg_blink_get_reg (Some (demo_vm 100)) 3 = 103"
    by (simp add: wg_blink_get_reg_def WGBlinkVM_GetReg_def demo_vm_def)
  moreover have "wg_blink_get_reg b3 (int i) = wg_blink_get_reg (Some (demo_vm 100)) (int i)" if "i \<in> {1..15} - {4}" for i
    using wndproc_roundtrip [OF c refl r] that by blast
  from this [of 3] have "wg_blink_get_reg b3 3 = wg_blink_get_reg (Some (demo_vm 100)) 3" by simp
  ultimately show ?thesis using wndproc_roundtrip [OF c refl r] c r by simp
qed

theorem nested_calls_return_witness:
  "\<exists>e'. push_list (arm_call no_api 0x401000) [(0x402000, 0x7FF0, demo_vm 1), (0x402010, 0x7FD0, demo_vm 2)] demo_engine = Some e' \<and>
     map (\<lambda>b. (wg_blink_get_rip b, wg_blink_get_reg b 4)) (fst (returns [demo_vm 3, demo_vm 4] e')) =
       [(0x402010, 0x7FD0), (0x402000, 0x7FF0)]"
proof -
  let ?cs = "[(0x402000, 0x7FF0, demo_vm 1), (0x402010, 0x7FD0, demo_vm 2)]"
  obtain e' where a: "push_list (arm_call no_api 0x401000) ?cs demo_engine = Some e'"
    by (simp add: arm_list_push arm_call_push push_call_def)
  then show ?thesis using nested_calls_return [OF _ a, of "[demo_vm 3, demo_vm 4]"] by simp
qed

theorem heap_blocks_witness:
  "\<exists>a0 a1 e' b'. alloc_list no_api [1, 5000] initial_engine (Some (demo_vm 0)) = ([a0, a1], e', b') \<and>
     4096 dvd unat a1 \<and> unat a0 + 1 \<le> unat a1 \<and> lookup_alloc_size a1 e' = 5000"
proof -
  obtain as e' b' where l: "alloc_list no_api [1, 5000] initial_engine (Some (demo_vm 0)) = (as, e', b')" by (metis prod_cases3)
  have h: "heap_at initial_engine 0x20000000" by (simp add: heap_at_def initial_engine_def WG_GUEST_HEAP_BASE_def)
  have r: "page_round 1 = 4096" "page_round 5000 = 8192" by (simp_all add: page_round_def)
  have n: "length [1, 5000 :: u32] = 2" by simp
  have b: "length as = 2 \<and> (\<forall>i < 2. 0x20000000 \<le> unat (as ! i) \<and> 4096 dvd unat (as ! i) \<and>
        lookup_alloc_size (as ! i) e' = [1, 5000] ! i) \<and>
      (\<forall>j < 2. \<forall>i < j. unat (as ! i) + unat ([1, 5000 :: u32] ! i) \<le> unat (as ! j))"
    using heap_blocks [OF h _ _ _ l, unfolded n] r by (simp add: WG_MAX_ALLOCS_def initial_engine_def)
  then obtain a0 a1 where a: "as = [a0, a1]"
    by (metis (no_types, opaque_lifting) Suc_length_conv length_0_conv numeral_2_eq_2)
  have "4096 dvd unat a1 \<and> lookup_alloc_size a1 e' = 5000" using b [THEN conjunct2, THEN conjunct1, rule_format, of 1] a by simp
  moreover have "unat a0 + 1 \<le> unat a1" using b [THEN conjunct2, THEN conjunct2, rule_format, of 1 0] a by simp
  ultimately show ?thesis using l by (simp add: a)
qed

section \<open>A program\<close>

text \<open>One section of 16 bytes, two of them from the file, with the table of its one import behind them.\<close>

definition demo_section :: pe_section where
  "demo_section = \<lparr>sec_name = [], virtual_size = 16, virtual_address = 0x1000, raw_size = 2, raw_offset = 0,
     characteristics = 0x60000020, sec_data = Some 0\<rparr>"

definition demo_pe :: pe_image where
  "demo_pe = \<lparr>image_base = 0x400000, entry_point = 0x1000, size_of_image = 0x2000, size_of_headers = 0x200,
     subsystem = 2, dll_characteristics = 0, machine = 0x14C, is_64bit = False, sections = [demo_section],
     import_dlls = [\<lparr>import_dll.dll_name = [0x61], dll_functions = [\<lparr>fn_name = [0x66], ordinal = 0, fn_iat_rva = 0x1008\<rparr>]\<rparr>],
     export_rva = 0, export_size = 0, reloc_rva = 0, reloc_size = 0, tls_rva = 0, tls_size = 0,
     raw_data = [0x90, 0xC3]\<rparr>"

definition demo_host :: "unit host" where
  "demo_host = (wg_engine_init demo_cpu)\<lparr>imap := wg_dll_mapper_create\<rparr>"

lemma demo_names: "c_string [0x61] = ''a''" "c_string [0x66] = ''f''"
  by code_simp+

lemma demo_parts [simp]:
  "sections demo_pe = [demo_section]" "image_base demo_pe = 0x400000" "virtual_size demo_section = 16"
  "virtual_address demo_section = 0x1000" "raw_size demo_section = 2" "sec_data demo_section = Some 0"
  "raw_data demo_pe = [0x90, 0xC3]" "entry_point demo_pe = 0x1000" "section_base demo_pe demo_section = 0x401000"
  "section_bytes demo_pe demo_section = Some [0x90, 0xC3]" "section_size demo_section = 4096"
  "import_slots demo_pe = [(''a'', ''f'', 0x401008)]"
  by (simp_all add: demo_pe_def demo_section_def section_base_def section_bytes_def guard_def section_size_def
      align_page_def WG_PAGE_SIZE_def import_slots_def demo_names Let_def)

lemma demo_pages: "align_page 16 = 4096" "align_page 0x100000 = 0x100000"
  by (simp_all add: align_page_def WG_PAGE_SIZE_def Let_def)

lemma put_demo:
  assumes "length d = 4096"
  shows "\<exists>mem. put_memory 0x401008 a (snd (wg_memory_write
      \<lparr>regions = [\<lparr>base = 0x401000, rsize = 4096, prot = p, data = d\<rparr>], total_size = t\<rparr> 0x401000 [0x90, 0xC3])) = Some mem \<and>
    length (regions mem) = 1"
  using assms by (simp add: put_memory_def wg_memory_write_u64_def wg_memory_write_def store_at_def resolve_def find_region_def
      in_region_def)

lemma demo_load:
  "\<exists>h'. load_pe_builtin True demo_pe demo_host = Some (True, h') \<and> length (dlls (imap h')) = 1"
proof -
  have m: "space demo_host = \<lparr>regions = [], total_size = 0x100000000\<rparr>" "imap demo_host = wg_dll_mapper_create"
    by (simp_all add: demo_host_def wg_engine_init_def wg_memory_create_def)
  have r: "wg_dll_mapper_resolve wg_dll_mapper_create ''a'' ''f'' =
      Some (WG_THUNK_BASE, wg_dll_mapper_create\<lparr>dlls := [new_stub WG_THUNK_BASE ''a'' ''f'' (Some stub_default) 0],
        next_thunk := WG_THUNK_BASE + 8\<rparr>)"
    by (simp add: wg_dll_mapper_resolve_def wg_dll_mapper_create_def guard_def wg_dll_mapper_register_def)
  obtain mem where p: "put_memory 0x401008 WG_THUNK_BASE (snd (wg_memory_write
      \<lparr>regions = [\<lparr>base = 0x401000, rsize = 4096, prot = section_prot demo_section, data = replicate (unat (4096 :: u64)) 0\<rparr>],
       total_size = 0x100000000\<rparr> 0x401000 [0x90, 0xC3])) = Some mem" "length (regions mem) = 1"
    using put_demo [of "replicate (unat (4096 :: u64)) 0" WG_THUNK_BASE "section_prot demo_section" "0x100000000"] by auto
  have a: "WG_THUNK_BASE \<noteq> 0" by (simp add: WG_THUNK_BASE_def)
  show ?thesis
    using p a by (simp add: load_pe_builtin_def m r Let_def wg_memory_map_def WG_MAX_REGIONS_def demo_pages del: unat_numeral)
qed

theorem loaded_ready_witness:
  "\<exists>h'. load_pe_builtin True demo_pe demo_host = Some (True, h') \<and> rip (cpu_of h') = 0x401000 \<and>
     mem_view (space h') 0x401001 = Some 0xC3 \<and>
     (\<exists>a. wg_memory_read_u64 (space h') 0x401008 = Some a \<and> is_thunk_for (imap h') ''f'' a)"
proof -
  obtain h' where l: "load_pe_builtin True demo_pe demo_host = Some (True, h')" "length (dlls (imap h')) = 1"
    using demo_load by blast
  have h: "wf_mem (space demo_host)" "mapper_ok (imap demo_host)" "mem_view (space demo_host) a = None" for a
    by (simp_all add: demo_host_def wg_engine_init_def wg_memory_create_def wf_mem_def ok_create mem_view_def load_at_def
        resolve_def find_region_def)
  have apart: "sections_apart demo_pe (sections demo_pe)" by (simp add: sections_apart_def)
  have slots: "slots_apart (import_slots demo_pe)" by (simp add: slots_apart_def)
  have iat: "in_section demo_pe demo_section 0x401008" "in_section demo_pe demo_section 0x401001"
    by (simp_all add: in_section_def)
  note L = loaded_ready [OF l(1) h(1,2) apart slots, unfolded demo_parts]
  have room: "length (dlls (imap h')) < 4096" using l(2) by simp
  from L have L: "rip (cpu_of h') = 0x401000"
    "\<exists>a. wg_memory_read_u64 (space h') 0x401008 = Some a \<and> is_thunk_for (imap h') ''f'' a"
    "\<forall>a. in_section demo_pe demo_section a \<longrightarrow> 8 \<le> unat (a - 0x401008) \<longrightarrow>
       mem_view (space h') a = Some (section_byte [0x90, 0xC3] (unat (a - 0x401000)))"
    using h(3) iat(1) room by simp_all
  have "mem_view (space h') 0x401001 = Some (section_byte [0x90, 0xC3] (unat ((0x401001 :: u64) - 0x401000)))"
    using L(3) iat(2) by simp
  then show ?thesis using l(1) L(1,2) by (auto simp: section_byte_def)
qed

theorem load_keeps_old_program_witness:
  "\<exists>h'. wg_engine_load_pe no_api False None False True None (demo_host\<lparr>eng := demo_engine\<rparr>) = Some (False, h') \<and>
     state (threads (sched (eng h')) ! 5) = WG_THREAD_READY"
proof -
  obtain h' where l: "wg_engine_load_pe no_api False None False True None (demo_host\<lparr>eng := demo_engine\<rparr>) = Some (False, h')"
    by (simp add: wg_engine_load_pe_def Let_def)
  from load_keeps_old_program [OF l, of 5] demo_states [of 5] show ?thesis using l by simp
qed

text \<open>A call of \<open>TlsAlloc\<close> through the first thunk.\<close>

definition demo_mapper :: mapper where
  "demo_mapper = snd (wg_dll_mapper_register wg_dll_mapper_create ''kernel32.dll'' ''TlsAlloc'' None 0)"

definition calling :: "unit blink" where
  "calling = wg_blink_set_rip (Some (demo_vm 0)) WG_THUNK_BASE"

lemma call_demo: "\<exists>r. handle_blink_thunk no_api True False demo_mapper demo_engine calling = Some r"
proof -
  have f: "List.find (\<lambda>d. thunk_addr d = WG_THUNK_BASE) (dlls demo_mapper) =
      Some (new_stub WG_THUNK_BASE ''kernel32.dll'' ''TlsAlloc'' None 0)"
    by (simp add: demo_mapper_def wg_dll_mapper_register_def wg_dll_mapper_create_def new_stub_def)
  have n: "func_name (new_stub WG_THUNK_BASE ''kernel32.dll'' ''TlsAlloc'' None 0) = ''TlsAlloc''"
    by (simp add: new_stub_def)
  have l: "\<not> strcaseeq (dll_entry.dll_name (new_stub WG_THUNK_BASE ''kernel32.dll'' ''TlsAlloc'' None 0)) ''nsDialogs.dll''"
    by code_simp
  have p: "wg_blink_get_rip calling = WG_THUNK_BASE" "at_thunk WG_THUNK_BASE" "WG_THUNK_BASE \<noteq> ucast WG_SEH_SENTINEL"
    "WG_THUNK_BASE \<noteq> WG_DLG_SENTINEL" "WG_THUNK_BASE \<noteq> ucast WG_SENDMSG_SENTINEL"
    by (simp_all add: calling_def wg_blink_get_rip_def wg_blink_set_rip_def at_thunk_def WG_THUNK_BASE_def
        WG_SEH_SENTINEL_def WG_DLG_SENTINEL_def WG_SENDMSG_SENTINEL_def)
  show ?thesis
    by (simp add: handle_blink_thunk_def p f n l win32_call_def sync_call_def Let_def)
qed

text \<open>The call is defined, and the state stays well-formed.\<close>

lemma demo_call_wf:
  "\<exists>done e' b'. handle_blink_thunk no_api True False demo_mapper demo_engine calling = Some (Some (done, e', b')) \<and> engine_wf e'"
proof -
  obtain r where r: "handle_blink_thunk no_api True False demo_mapper demo_engine calling = Some r" using call_demo by blast
  from thunk_wf [OF demo_engine_wf r] r show ?thesis by auto
qed

theorem engine_stays_wf_witness:
  "\<exists>h e b m. wg_engine_load_pe no_api False None False True (Some (demo_pe\<lparr>sections := [], import_dlls := []\<rparr>))
       (wg_engine_init demo_cpu) = Some (True, h) \<and> wg_engine_run no_api (eng h) (vmach h) = (True, e, b) \<and> engine_wf (wg_engine_stop e) \<and>
     handle_blink_thunk no_api True False m (wg_engine_stop e) calling \<noteq> Some undef"
proof -
  let ?pe = "demo_pe\<lparr>sections := [], import_dlls := []\<rparr>"
  obtain h where l: "wg_engine_load_pe no_api False None False True (Some ?pe) (wg_engine_init demo_cpu) = Some (True, h)"
    and s: "estate (eng h) = WG_ENGINE_LOADED"
    by (auto simp: wg_engine_load_pe_def load_image_def load_pe_blink_def ensure_blink_vm_def wg_blink_create_def no_api_def
        load_pe_builtin_def wg_engine_init_def import_slots_def Let_def wg_memory_map_def wg_memory_create_def WG_MAX_REGIONS_def)
  have "fst (wg_engine_run no_api (eng h) (vmach h))" using s by (simp add: wg_engine_run_def)
  then obtain e b where e: "wg_engine_run no_api (eng h) (vmach h) = (True, e, b)" by (metis prod.collapse)
  have "engine_run no_api (imap h) (e, b)" by (rule engine_run.loaded [OF l e refl])
  then have "engine_run no_api (imap h) (wg_engine_stop e, b)" by (rule engine_run.step) (rule engine_step.stop)
  then have "engine_run no_api (imap h) (wg_engine_stop e, calling)" by (rule engine_run.step) (rule engine_step.guest)
  from engine_stays_wf [OF this] l e show ?thesis by blast
qed

end
