(* ===== verification/GuestRam.thy ===== *)
theory GuestRam
  imports EngineSeh EngineStateOk EngineHeap GuestMemory
begin

text \<open>
  What the engine leaves in the memory of a blink machine, when that memory is what its interface
  documents: bytes that were copied in are read back, and nothing else changes them. The frame of a
  call into the guest, the thread environment block and the context of an exception are then where
  32-bit Windows programs look for them.
\<close>

section \<open>Memory that keeps its bytes\<close>

text \<open>\<open>peek m x\<close> is the byte at \<open>x\<close>. Reserving pages may change the bytes of these pages only.\<close>

definition flat_ram :: "'m guest_api \<Rightarrow> ('m \<Rightarrow> u64 \<Rightarrow> u8) \<Rightarrow> bool" where
  "flat_ram api peek \<longleftrightarrow>
     (\<forall>m a n. copy_from_user api m a n = map (\<lambda>i. peek m (a + of_nat i)) [0..<n]) \<and>
     (\<forall>m a bs x. peek (copy_to_user api m a bs) x =
        (if unat (x - a) < length bs then bs ! unat (x - a) else peek m x)) \<and>
     (\<forall>m a sz m' x. reserve_virtual api m a sz = Some m' \<longrightarrow> unat sz \<le> unat (x - a) \<longrightarrow> peek m' x = peek m x)"

lemma flat_ramD:
  assumes "flat_ram api peek"
  shows "copy_from_user api m a n = map (\<lambda>i. peek m (a + of_nat i)) [0..<n]"
    and "peek (copy_to_user api m a bs) x = (if unat (x - a) < length bs then bs ! unat (x - a) else peek m x)"
    and "reserve_virtual api m a sz = Some m' \<Longrightarrow> unat sz \<le> unat (x - a) \<Longrightarrow> peek m' x = peek m x"
  using assms unfolding flat_ram_def by blast+

text \<open>The byte of a machine.\<close>

definition byte_in :: "('m \<Rightarrow> u64 \<Rightarrow> u8) \<Rightarrow> 'm blink \<Rightarrow> u64 \<Rightarrow> u8" where
  "byte_in peek b x = (case b of None \<Rightarrow> 0 | Some v \<Rightarrow> peek (gmem v) x)"

lemma byte_in_regs [simp]:
  "byte_in peek (wg_blink_set_reg b i w) = byte_in peek b" "byte_in peek (wg_blink_set_rip b w) = byte_in peek b"
  "byte_in peek (wg_blink_set_fs_base b w) = byte_in peek b"
  by (auto simp: byte_in_def wg_blink_set_reg_def wg_blink_set_rip_def wg_blink_set_fs_base_def
      WGBlinkVM_SetReg_def fun_eq_iff split: option.split)

lemma byte_in_write:
  assumes "flat_ram api peek" and "b \<noteq> None"
  shows "byte_in peek (write_bytes api a bs b) x =
      (if unat (x - ucast a) < length bs then bs ! unat (x - ucast a) else byte_in peek b x)"
  using assms(2)
  by (auto simp: byte_in_def write_bytes_def wg_blink_write_mem_def WGBlinkVM_WriteMem_def flat_ramD(2) [OF assms(1)])

lemma write_bytes_Some [simp]: "write_bytes api a bs b \<noteq> None \<longleftrightarrow> b \<noteq> None"
  by (auto simp: write_bytes_def wg_blink_write_mem_def split: option.split)

lemma write32_Some [simp]: "write32 api a v b \<noteq> None \<longleftrightarrow> b \<noteq> None"
  unfolding write32_def by (rule write_bytes_Some)

lemma read_mem_bytes:
  assumes "flat_ram api peek" and "b \<noteq> None" and "length buf = n"
  shows "snd (wg_blink_read_mem api b a buf n) = map (\<lambda>i. byte_in peek b (a + of_nat i)) [0..<n]"
  using assms(2,3)
  by (auto simp: wg_blink_read_mem_def WGBlinkVM_ReadMem_def byte_in_def flat_ramD(1) [OF assms(1)] Let_def)

lemma read32_bytes:
  assumes "flat_ram api peek" and "b \<noteq> None"
  shows "read32 api a b = le_word (map (\<lambda>i. byte_in peek b (a + of_nat i)) [0..<4])"
  unfolding read32_def by (subst read_mem_bytes [OF assms]) simp_all

section \<open>Words\<close>

text \<open>Two words of the lower 4 GB do not meet.\<close>

definition words_apart :: "u32 \<Rightarrow> u32 \<Rightarrow> bool" where
  "words_apart a c \<longleftrightarrow> unat a + 4 \<le> unat c \<or> unat c + 4 \<le> unat a"

lemma unat_ucast_up: "unat (ucast (a :: u32) :: u64) = unat a"
  by transfer (simp add: take_bit_eq_mod)

lemma unat_below: "unat (a :: u32) < 2 ^ 32"
proof -
  have "unat a < 2 ^ LENGTH(32)" by (rule unsigned_less)
  then show ?thesis by simp
qed

lemma unat_up_diff:
  fixes a c :: u32
  assumes "i < 4"
  shows "unat (ucast a + of_nat i - ucast c :: u64) =
    (if unat c \<le> unat a + i then unat a + i - unat c else 2 ^ 64 + (unat a + i) - unat c)"
proof -
  have u: "unat (ucast a + of_nat i :: u64) = unat a + i"
    using assms unat_below [of a] by (simp add: unat_word_ariths unat_ucast_up unat_of_nat)
  then show ?thesis using unat_below [of c] by (simp add: unat_diff_cases unat_ucast_up)
qed

lemma read32_write_bytes_other:
  fixes a c :: u32
  assumes "flat_ram api peek" and "b \<noteq> None"
    and "unat a + 4 \<le> unat c \<or> unat c + length bs \<le> unat a" and "length bs \<le> 2 ^ 32"
  shows "read32 api (ucast a) (write_bytes api c bs b) = read32 api (ucast a) b"
proof -
  have "byte_in peek (write_bytes api c bs b) (ucast a + of_nat i) = byte_in peek b (ucast a + of_nat i)" if "i < 4" for i
    using assms(3,4) unat_up_diff [OF that, of a c] that unat_below [of c]
    by (subst byte_in_write [OF assms(1,2)]) (auto split: if_splits)
  then have "map (\<lambda>i. byte_in peek (write_bytes api c bs b) (ucast a + of_nat i)) [0..<4] =
      map (\<lambda>i. byte_in peek b (ucast a + of_nat i)) [0..<4]" by simp
  moreover have w: "write_bytes api c bs b \<noteq> None" by (simp only: write_bytes_Some assms(2) not_False_eq_True)
  ultimately show ?thesis unfolding read32_bytes [OF assms(1) w] read32_bytes [OF assms(1,2)] by (simp only:)
qed

lemma read32_write32:
  assumes "flat_ram api peek" and "b \<noteq> None"
  shows "read32 api (ucast a) (write32 api a v b) = v"
    and "words_apart a c \<Longrightarrow> read32 api (ucast a) (write32 api c v b) = read32 api (ucast a) b"
proof -
  have "byte_in peek (write32 api a v b) (ucast a + of_nat i) = le_bytes 4 v ! i" if "i < 4" for i
    using unat_up_diff [OF that, of a a] that unfolding write32_def
    by (subst byte_in_write [OF assms]) (auto simp: length_le_bytes)
  then have "map (\<lambda>i. byte_in peek (write32 api a v b) (ucast a + of_nat i)) [0..<4] = le_bytes 4 v"
    by (intro nth_equalityI) (auto simp: length_le_bytes)
  then show "read32 api (ucast a) (write32 api a v b) = v"
    by (subst read32_bytes [OF assms(1)]) (simp_all add: assms(2) le_word_le_bytes_full del: not_None_eq)
  show "read32 api (ucast a) (write32 api c v b) = read32 api (ucast a) b" if "words_apart a c"
    unfolding write32_def
    by (rule read32_write_bytes_other [OF assms]) (use that in \<open>auto simp: words_apart_def length_le_bytes\<close>)
qed

text \<open>A structure at \<open>p\<close>, of words written at offsets that are apart.\<close>

definition write_fields :: "'m guest_api \<Rightarrow> u32 \<Rightarrow> (u32 \<times> u32) list \<Rightarrow> 'm blink \<Rightarrow> 'm blink" where
  "write_fields api p fs b = fold (\<lambda>(off, v). write32 api (p + off) v) fs b"

lemma write_fields_Cons: "write_fields api p ((off, v) # fs) b = write_fields api p fs (write32 api (p + off) v b)"
  by (simp add: write_fields_def)

lemma write_fields_Some [simp]: "write_fields api p fs b \<noteq> None \<longleftrightarrow> b \<noteq> None"
proof (induction fs arbitrary: b)
  case (Cons f fs)
  show ?case by (cases f) (simp only: write_fields_Cons Cons.IH write32_Some)
qed (simp add: write_fields_def)

lemma write_fields_regs [simp]:
  "wg_blink_get_reg (write_fields api p fs b) i = wg_blink_get_reg b i"
  by (induction fs arbitrary: b) (auto simp: write_fields_def)

lemma fields_apart:
  fixes p x y lim :: u32
  assumes "unat p + unat lim \<le> 2 ^ 32" and "unat x + 4 \<le> unat lim" and "unat y + 4 \<le> unat lim" and "words_apart x y"
  shows "words_apart (p + x) (p + y)"
proof -
  have "unat (p + x) = unat p + unat x" "unat (p + y) = unat p + unat y"
    using assms(1-3) by (simp_all add: unat_add)
  then show ?thesis using assms(4) by (auto simp: words_apart_def)
qed

definition fields_ok :: "u32 \<Rightarrow> (u32 \<times> u32) list \<Rightarrow> bool" where
  "fields_ok lim fs \<longleftrightarrow> (\<forall>(off, _) \<in> set fs. unat off + 4 \<le> unat lim) \<and> sorted_wrt (\<lambda>f g. words_apart (fst f) (fst g)) fs"

lemma write_fields_other:
  fixes p x lim :: u32
  assumes ram: "flat_ram api peek" and lim: "unat p + unat lim \<le> 2 ^ 32" and x: "unat x + 4 \<le> unat lim"
  shows "b \<noteq> None \<Longrightarrow> \<forall>(off, _) \<in> set fs. unat off + 4 \<le> unat lim \<and> words_apart x off \<Longrightarrow>
    read32 api (ucast (p + x)) (write_fields api p fs b) = read32 api (ucast (p + x)) b"
proof (induction fs arbitrary: b)
  case (Cons f fs)
  obtain off v where f: "f = (off, v)" by (cases f)
  have "words_apart (p + x) (p + off)" using Cons.prems(2) f by (intro fields_apart [OF lim x]) auto
  then have "read32 api (ucast (p + x)) (write32 api (p + off) v b) = read32 api (ucast (p + x)) b"
    by (rule read32_write32(2) [OF ram Cons.prems(1)])
  moreover have "write32 api (p + off) v b \<noteq> None" using Cons.prems(1) by (simp only: write32_Some not_False_eq_True)
  ultimately show ?case using Cons.IH [of "write32 api (p + off) v b"] Cons.prems(2) by (simp add: f write_fields_Cons del: not_None_eq)
qed (simp add: write_fields_def)

lemma read_fields:
  fixes p lim :: u32
  assumes ram: "flat_ram api peek" and lim: "unat p + unat lim \<le> 2 ^ 32"
  shows "b \<noteq> None \<Longrightarrow> fields_ok lim fs \<Longrightarrow> (off, v) \<in> set fs \<Longrightarrow>
    read32 api (ucast (p + off)) (write_fields api p fs b) = v"
proof (induction fs arbitrary: b)
  case (Cons f fs)
  obtain o' v' where f: "f = (o', v')" by (cases f)
  have b': "write32 api (p + o') v' b \<noteq> None" using Cons.prems(1) by (simp only: write32_Some not_False_eq_True)
  have ok: "fields_ok lim fs" and o': "unat o' + 4 \<le> unat lim"
    and ap: "\<forall>(x, _) \<in> set fs. unat x + 4 \<le> unat lim \<and> words_apart o' x"
    using Cons.prems(2) f by (auto simp: fields_ok_def)
  show ?case
  proof (cases "(off, v) \<in> set fs")
    case True
    then show ?thesis using Cons.IH [OF b' ok] by (simp add: f write_fields_Cons)
  next
    case False
    then have "off = o'" "v = v'" using Cons.prems(3) f by auto
    then show ?thesis
      using write_fields_other [OF ram lim o' b' ap] read32_write32(1) [OF ram Cons.prems(1)] by (simp add: f write_fields_Cons)
  qed
qed simp

text \<open>A write outside the structure does not change its words.\<close>

lemma read_field_frame:
  fixes p off lim c :: u32
  assumes "flat_ram api peek" and "b \<noteq> None" and "unat p + unat lim \<le> 2 ^ 32" and "unat off + 4 \<le> unat lim"
    and "unat p + unat lim \<le> unat c \<or> unat c + length bs \<le> unat p" and "length bs \<le> 2 ^ 32"
  shows "read32 api (ucast (p + off)) (write_bytes api c bs b) = read32 api (ucast (p + off)) b"
proof -
  have "unat (p + off) = unat p + unat off" using assms(3,4) by (simp add: unat_add)
  then show ?thesis using assms by (intro read32_write_bytes_other) auto
qed

lemma read_mem_regs [simp]:
  "wg_blink_read_mem api (wg_blink_set_reg b i w) a buf n = wg_blink_read_mem api b a buf n"
  "wg_blink_read_mem api (wg_blink_set_rip b w) a buf n = wg_blink_read_mem api b a buf n"
  "wg_blink_read_mem api (wg_blink_set_fs_base b w) a buf n = wg_blink_read_mem api b a buf n"
  by (auto simp: wg_blink_read_mem_def wg_blink_set_reg_def wg_blink_set_rip_def wg_blink_set_fs_base_def
      WGBlinkVM_SetReg_def WGBlinkVM_ReadMem_def split: option.split)

lemma read32_regs [simp]:
  "read32 api a (wg_blink_set_reg b i w) = read32 api a b" "read32 api a (wg_blink_set_rip b w) = read32 api a b"
  "read32 api a (wg_blink_set_fs_base b w) = read32 api a b"
  by (simp_all add: read32_def)

lemma set_regs_Some [simp]:
  "wg_blink_set_reg b i w \<noteq> None \<longleftrightarrow> b \<noteq> None" "wg_blink_set_rip b w \<noteq> None \<longleftrightarrow> b \<noteq> None"
  "wg_blink_set_fs_base b w \<noteq> None \<longleftrightarrow> b \<noteq> None"
  by (simp_all add: wg_blink_set_reg_def wg_blink_set_rip_def wg_blink_set_fs_base_def)

lemma write_fields_apart:
  fixes p lim a :: u32
  assumes ram: "flat_ram api peek" and lim: "unat p + unat lim \<le> 2 ^ 32" and a: "unat a + 4 \<le> unat p \<or> unat p + unat lim \<le> unat a"
  shows "b \<noteq> None \<Longrightarrow> fields_ok lim fs \<Longrightarrow> read32 api (ucast a) (write_fields api p fs b) = read32 api (ucast a) b"
proof (induction fs arbitrary: b)
  case (Cons f fs)
  obtain off v where f: "f = (off, v)" by (cases f)
  have "unat off + 4 \<le> unat lim" and ok: "fields_ok lim fs" using Cons.prems(2) by (auto simp: f fields_ok_def)
  then have "words_apart a (p + off)" using lim a by (auto simp: words_apart_def unat_add)
  then have "read32 api (ucast a) (write32 api (p + off) v b) = read32 api (ucast a) b"
    by (rule read32_write32(2) [OF ram Cons.prems(1)])
  moreover have "write32 api (p + off) v b \<noteq> None" using Cons.prems(1) by (simp only: write32_Some not_False_eq_True)
  ultimately show ?case using Cons.IH [OF _ ok] by (simp add: f write_fields_Cons del: not_None_eq)
qed (simp add: write_fields_def)

lemma write_fields_below:
  fixes p lim a :: u32
  assumes "flat_ram api peek" and "unat p + unat lim \<le> 2 ^ 32" and "unat a + 4 \<le> unat p" and "b \<noteq> None" and "fields_ok lim fs"
  shows "read32 api (ucast a) (write_fields api p fs b) = read32 api (ucast a) b"
  by (rule write_fields_apart [OF assms(1,2) _ assms(4,5)]) (use assms(3) in simp)

section \<open>Allocations\<close>

lemma alloc_keeps:
  assumes "wg_guest_alloc api n e b = (a, e', b')"
  shows "wg_blink_get_reg b' i = wg_blink_get_reg b i" and "b' \<noteq> None \<longleftrightarrow> b \<noteq> None" and "seh e' = seh e"
proof -
  have m: "wg_blink_get_reg (snd (wg_blink_load_code api False b x bs k 0)) i = wg_blink_get_reg b i" for x bs k
    by (rule load_code_regs(1) [OF prod.collapse [symmetric]])
  have s: "snd (wg_blink_load_code api False b x bs k 0) \<noteq> None \<longleftrightarrow> b \<noteq> None" for x bs k
    by (auto simp: wg_blink_load_code_def split: option.split)
  show "wg_blink_get_reg b' i = wg_blink_get_reg b i" "b' \<noteq> None \<longleftrightarrow> b \<noteq> None" "seh e' = seh e"
    using assms m s by (auto simp: wg_guest_alloc_def Let_def track_alloc_def simp del: not_None_eq split: if_splits)
qed

text \<open>An allocation changes nothing below the heap.\<close>

lemma unat_page_of: "unat (w AND - 4096 :: u64) = unat w div 4096 * 4096"
proof -
  have eq: "(- 4096 :: u64) = NOT (mask 12)" by (simp add: mask_eq_exp_minus_1 not_eq_complement)
  have "w AND - 4096 = push_bit 12 (drop_bit 12 w)"
    unfolding eq by (rule bit_word_eqI) (auto simp: bit_simps)
  moreover have "unat (push_bit 12 (drop_bit 12 w)) = unat w div 4096 * 4096"
  proof -
    have "unat w < 2 ^ LENGTH(64)" by (rule unsigned_less)
    then have "unat w div 4096 * 4096 < 2 ^ 64" using div_times_less_eq_dividend [of "unat w" 4096] by simp
    then show ?thesis
      by (simp add: push_bit_eq_mult drop_bit_eq_div unat_word_ariths unat_div_distrib)
  qed
  ultimately show ?thesis by simp
qed

lemma page_range_below:
  fixes p n :: u32
  assumes "4096 dvd unat p" and "unat x < unat p"
  shows "unat (snd (page_range (ucast p) n)) \<le> unat (x - fst (page_range (ucast p) n))"
proof -
  obtain q where q: "unat p = 4096 * q" using assms(1) by (rule dvdE)
  have pa: "(ucast p AND - 4096 :: u64) = ucast p" by (simp add: word_unat_eq_iff unat_page_of unat_ucast_up q)
  have sum: "unat (ucast p + ucast n + 4095 :: u64) = unat p + unat n + 4095"
    using unat_below [of p] unat_below [of n] by (simp add: unat_word_ariths unat_ucast_up)
  have "unat p \<le> (unat p + unat n + 4095) div 4096 * 4096" "(unat p + unat n + 4095) div 4096 * 4096 \<le> unat p + unat n + 4095"
    unfolding q by simp_all
  then have "unat (((ucast p + ucast n + 4095) AND - 4096) - ucast p :: u64) \<le> unat n + 4095"
    by (subst unat_diff_cases) (simp add: unat_page_of sum unat_ucast_up)
  moreover have "unat (x - ucast p) = 2 ^ 64 + unat x - unat p"
    using assms(2) by (simp add: unat_diff_cases unat_ucast_up)
  ultimately show ?thesis using unat_below [of n] unat_below [of p] assms(2)
    by (simp add: page_range_def Let_def pa)
qed

lemma alloc_same_below:
  fixes p :: u32
  assumes ram: "flat_ram api peek" and h: "heap_at e t" and r: "wg_guest_alloc api n e b = (p, e', b')"
    and b: "b \<noteq> None" and below: "unat x < t"
  shows "byte_in peek b' x = byte_in peek b x"
proof -
  have load: "byte_in peek (snd (wg_blink_load_code api False b (ucast (heap_ptr e)) (replicate (unat k) 0) k 0)) x
      = byte_in peek b x" if x: "unat x < t" "unat k \<le> 2 ^ 30" for x k
  proof -
    have hp: "unat (heap_ptr e) = t" "4096 dvd unat (heap_ptr e)" using h by (auto simp: heap_at_def)
    obtain v where v: "b = Some v" using b by auto
    obtain pa sz where ps: "page_range (ucast (heap_ptr e)) k = (pa, sz)" by (cases "page_range (ucast (heap_ptr e)) k")
    have far: "unat sz \<le> unat (x - pa)" using page_range_below [OF hp(2), of x k] x(1) hp(1) ps by simp
    have "unat (x - ucast (heap_ptr e)) = 2 ^ 64 + unat x - t"
      using x(1) hp(1) by (simp add: unat_diff_cases unat_ucast_up)
    then have "\<not> unat (x - ucast (heap_ptr e)) < unat k"
      using x hp(1) unat_below [of "heap_ptr e"] by simp
    then show ?thesis
      using flat_ramD(3) [OF ram _ far]
      by (auto simp: v ps byte_in_def wg_blink_load_code_def WGBlinkVM_LoadCode_def flat_ramD(2) [OF ram]
          split: option.split)
  qed
  have "unat ((n' + 0xFFF) AND NOT 0xFFF) \<le> 2 ^ 30" if "\<not> 512 * 1024 * 1024 < n'" for n' :: u32
  proof -
    have "unat (n' + 0xFFF) \<le> 2 ^ 29 + 4095" using that by (subst unat_add) (simp_all add: word_less_nat_alt)
    moreover have "unat (n' + 0xFFF) div 4096 * 4096 \<le> unat (n' + 0xFFF)" by simp
    ultimately show ?thesis by (simp only: unat_clear_low) simp
  qed
  then show ?thesis
    using r load [OF below] load [OF below, of 4096] by (auto simp: wg_guest_alloc_def Let_def split: if_splits)
qed

lemma alloc_keeps_below:
  fixes a p :: u32
  assumes ram: "flat_ram api peek" and h: "heap_at e t" and r: "wg_guest_alloc api n e b = (p, e', b')"
    and a: "unat a + 4 \<le> t" and b: "b \<noteq> None"
  shows "read32 api (ucast a) b' = read32 api (ucast a) b"
proof -
  note same = alloc_same_below [OF ram h r b]
  have b': "b' \<noteq> None" using alloc_keeps(2) [OF r] b by blast
  have "unat (ucast a + of_nat i :: u64) = unat a + i" if "i < 4" for i
    using that unat_below [of a] by (simp add: unat_word_ariths unat_ucast_up unat_of_nat)
  then have "map (\<lambda>i. byte_in peek b' (ucast a + of_nat i)) [0..<4] = map (\<lambda>i. byte_in peek b (ucast a + of_nat i)) [0..<4]"
    using same a by simp
  then show ?thesis unfolding read32_bytes [OF ram b'] read32_bytes [OF ram b] by (simp only:)
qed

text \<open>Nor does it change anything behind its pages, where the stacks are.\<close>

definition off_pages :: "nat \<Rightarrow> nat \<Rightarrow> u32 \<Rightarrow> nat \<Rightarrow> bool" where
  "off_pages t n a k \<longleftrightarrow> unat a + k \<le> t \<or> t + n \<le> unat a \<and> unat a + k \<le> 2 ^ 32"

lemma page_range_pages:
  fixes p n :: u32
  assumes "4096 dvd unat p" and "4096 dvd unat n"
  shows "page_range (ucast p) n = (ucast p, ucast n)"
proof -
  obtain q where q: "unat p = 4096 * q" using assms(1) by (rule dvdE)
  obtain m where m: "unat n = 4096 * m" using assms(2) by (rule dvdE)
  have pa: "(ucast p AND - 4096 :: u64) = ucast p" by (simp add: word_unat_eq_iff unat_page_of unat_ucast_up q)
  have sum: "unat (ucast p + ucast n + 4095 :: u64) = unat p + unat n + 4095"
    using unat_below [of p] unat_below [of n] by (simp add: unat_word_ariths unat_ucast_up)
  have "(4096 * q + 4096 * m + 4095) div 4096 * 4096 = 4096 * (q + m)"
    unfolding distrib_left [symmetric] by (subst div_mult_self4) simp_all
  then have "((ucast p + ucast n + 4095) AND - 4096 :: u64) = ucast p + ucast n"
    using unat_below [of p] unat_below [of n]
    by (simp add: word_unat_eq_iff unat_page_of sum q m unat_word_ariths unat_ucast_up distrib_left)
  then show ?thesis by (simp add: page_range_def Let_def pa)
qed

lemma load_same_out:
  fixes p k :: u32
  assumes ram: "flat_ram api peek" and dvd: "4096 dvd unat p" "4096 dvd unat k"
    and out: "unat p + unat k \<le> unat x"
  shows "byte_in peek (snd (wg_blink_load_code api False b (ucast p) (replicate (unat k) 0) k 0)) x = byte_in peek b x"
proof -
  have far: "unat k \<le> unat (x - ucast p)" using out by (simp add: unat_diff_cases unat_ucast_up)
  then have sz: "unat (ucast k :: u64) \<le> unat (x - ucast p)" by (simp only: unat_ucast_up)
  show ?thesis
    using flat_ramD(3) [OF ram _ sz] far
    by (auto simp: byte_in_def wg_blink_load_code_def WGBlinkVM_LoadCode_def flat_ramD(2) [OF ram]
          page_range_pages [OF dvd] split: option.split)
qed

lemma alloc_same_out:
  fixes p :: u32
  assumes ram: "flat_ram api peek" and h: "heap_at e t" and r: "wg_guest_alloc api n e b = (p, e', b')" and b: "b \<noteq> None"
    and n: "n \<noteq> 0" "unat n \<le> 512 * 1024 * 1024" and out: "unat x < t \<or> t + page_round (unat n) \<le> unat x"
  shows "byte_in peek b' x = byte_in peek b x"
proof (cases "unat x < t")
  case True
  then show ?thesis by (rule alloc_same_below [OF ram h r b])
next
  case False
  let ?k = "(n + 0xFFF) AND NOT 0xFFF"
  have hp: "unat (heap_ptr e) = t" "4096 dvd unat (heap_ptr e)" using h by (auto simp: heap_at_def)
  have "unat (n + 0xFFF) = unat n + 4095" using n(2) by (subst unat_add) simp_all
  then have k: "unat ?k = page_round (unat n)" by (simp only: unat_clear_low page_round_def)
  then have dvd: "4096 dvd unat ?k" by (simp add: page_round_def)
  have "b' = snd (wg_blink_load_code api False b (ucast (heap_ptr e)) (replicate (unat ?k) 0) ?k 0)"
    using r n small_no_top_bit [of n] by (auto simp: wg_guest_alloc_def Let_def word_less_nat_alt)
  moreover have "byte_in peek (snd (wg_blink_load_code api False b (ucast (heap_ptr e)) (replicate (unat ?k) 0) ?k 0)) x =
      byte_in peek b x"
    by (rule load_same_out [OF ram hp(2) dvd]) (use out False hp(1) k in simp)
  ultimately show ?thesis by simp
qed

lemma alloc_keeps_out:
  fixes a p :: u32
  assumes ram: "flat_ram api peek" and h: "heap_at e t" and r: "wg_guest_alloc api n e b = (p, e', b')" and b: "b \<noteq> None"
    and n: "n \<noteq> 0" "unat n \<le> 512 * 1024 * 1024" and a: "off_pages t (page_round (unat n)) a 4"
  shows "read32 api (ucast a) b' = read32 api (ucast a) b"
proof -
  note same = alloc_same_out [OF ram h r b n]
  have b': "b' \<noteq> None" using alloc_keeps(2) [OF r] b by blast
  have "unat (ucast a + of_nat i :: u64) = unat a + i" if "i < 4" for i
    using that unat_below [of a] by (simp add: unat_word_ariths unat_ucast_up unat_of_nat)
  then have "map (\<lambda>i. byte_in peek b' (ucast a + of_nat i)) [0..<4] = map (\<lambda>i. byte_in peek b (ucast a + of_nat i)) [0..<4]"
    using same a by (auto simp: off_pages_def)
  then show ?thesis unfolding read32_bytes [OF ram b'] read32_bytes [OF ram b] by (simp only:)
qed

section \<open>The frame of a call into the guest\<close>

lemma words_of_le_bytes: "words_of (concat (map (le_bytes 4) ws)) = ws"
proof (induction ws)
  case (Cons w ws)
  obtain b0 b1 b2 b3 where b: "le_bytes 4 w = [b0, b1, b2, b3]"
    using length_le_bytes [of 4 w] by (auto simp: eval_nat_numeral length_Suc_conv)
  have "le_word (le_bytes 4 w) = w" by (simp add: le_word_le_bytes_full)
  then show ?case using Cons.IH by (simp add: b)
qed simp

lemma read_back:
  assumes ram: "flat_ram api peek" and b: "b \<noteq> None" and n: "length bs = 4 * n" "4 * n < 2 ^ 64"
  shows "words_of (snd (wg_blink_read_mem api (write_bytes api a bs b) (ucast a) (replicate (4 * n) 0) (4 * n))) = words_of bs"
proof -
  have w: "write_bytes api a bs b \<noteq> None" by (simp only: write_bytes_Some b not_False_eq_True)
  have "map (\<lambda>i. byte_in peek (write_bytes api a bs b) (ucast a + of_nat i)) [0..<4 * n] = bs"
  proof (rule nth_equalityI)
    fix i assume i: "i < length (map (\<lambda>i. byte_in peek (write_bytes api a bs b) (ucast a + of_nat i)) [0..<4 * n])"
    then have "unat (of_nat i :: u64) = i" using n(2) by (simp add: unat_of_nat)
    then show "map (\<lambda>i. byte_in peek (write_bytes api a bs b) (ucast a + of_nat i)) [0..<4 * n] ! i = bs ! i"
      using i n(1) by (simp add: byte_in_write [OF ram b])
  qed (simp add: n(1))
  then show ?thesis by (simp only: read_mem_bytes [OF ram w length_replicate])
qed

lemma enter_regs:
  assumes "b \<noteq> None"
  shows "wg_blink_get_rip (wg_blink_set_reg (wg_blink_set_rip (wg_blink_set_reg b 4 sp) pc) 0 0) = pc \<and>
    wg_blink_get_reg (wg_blink_set_reg (wg_blink_set_rip (wg_blink_set_reg b 4 sp) pc) 0 0) 4 = sp"
  using assms by (auto simp: wg_blink_get_rip_def wg_blink_set_rip_def wg_blink_set_reg_def wg_blink_get_reg_def
      WGBlinkVM_SetReg_def WGBlinkVM_GetReg_def)

text \<open>The procedure finds its return address and its four arguments on the stack; the caller's stack
  above them and the rest of the memory are unchanged.\<close>

text \<open>C10: A call of the engine into a guest procedure starts it with ESP at a frame of the return sentinel and its four arguments, and leaves every byte of guest memory outside these 20 bytes as it was.\<close>

theorem wndproc_frame:
  assumes ram: "flat_ram api peek"
    and c: "wg_call_wndproc_ovr api wproc hwnd msg wp lp ret rsp ovr ov e (Some v) = Some (e1, b1)"
  shows "wg_blink_get_rip b1 = ucast wproc \<and> wg_blink_get_reg b1 4 = ucast (rsp - 20) \<and>
    read_words api (ucast (rsp - 20)) 5 5 b1 = [WG_SENDMSG_SENTINEL, hwnd, msg, wp, lp] \<and>
    (\<forall>x. 20 \<le> unat (x - ucast (rsp - 20)) \<longrightarrow> byte_in peek b1 x = byte_in peek (Some v) x)"
proof -
  let ?bs = "concat (map (le_bytes 4) [WG_SENDMSG_SENTINEL, hwnd, msg, wp, lp])"
  let ?b = "write_bytes api (rsp - 20) ?bs (Some v)"
  from c have b1: "b1 = wg_blink_set_reg (wg_blink_set_rip (wg_blink_set_reg ?b 4 (ucast (rsp - 20))) (ucast wproc)) 0 0"
    by (auto simp: wg_call_wndproc_ovr_def Let_def split: if_splits option.splits)
  have len: "length ?bs = 4 * 5" by (simp add: length_le_bytes)
  have rm: "wg_blink_read_mem api b1 a buf k = wg_blink_read_mem api ?b a buf k" for a buf k by (simp add: b1)
  have "read_words api (ucast (rsp - 20)) 5 5 b1 = words_of ?bs"
    unfolding read_words_def rm by (rule read_back [OF ram _ len]) simp_all
  moreover have "byte_in peek b1 x = byte_in peek (Some v) x" if "20 \<le> unat (x - ucast (rsp - 20))" for x
    unfolding b1 byte_in_regs by (subst byte_in_write [OF ram]) (use that len in simp_all)
  moreover have "wg_blink_get_rip b1 = ucast wproc \<and> wg_blink_get_reg b1 4 = ucast (rsp - 20)"
    unfolding b1 by (rule enter_regs) (simp only: write_bytes_Some not_False_eq_True option.simps)
  ultimately show ?thesis unfolding words_of_le_bytes by blast
qed

end
