(* ===== verification/GuestSeh.thy ===== *)
theory GuestSeh
  imports GuestRam
begin

text \<open>
  An exception that the engine raises in the guest and its handler declines to change: the program
  resumes where it was, with its registers.
\<close>

lemma get_set_reg:
  assumes "b \<noteq> None" and "i \<in> {0..15}"
  shows "wg_blink_get_reg (wg_blink_set_reg b i w) j = (if i = j then w else wg_blink_get_reg b j)"
  using assms blink_reg_same [of i] blink_reg_other [of i j] by auto

lemma get_rip_set:
  assumes "b \<noteq> None"
  shows "wg_blink_get_rip (wg_blink_set_rip b w) = w"
  using assms by (auto simp: wg_blink_get_rip_def wg_blink_set_rip_def)

text \<open>The words of the context that are written.\<close>

definition ctx_fields :: "u32 \<Rightarrow> 'm blink \<Rightarrow> (u32 \<times> u32) list" where
  "ctx_fields fault_rip b =
     [(0, 0x10007)] @ map (\<lambda>(off, r). (off, ucast (wg_blink_get_reg b r))) ctx_regs @
        [(0xB8, fault_rip), (0xC4, ucast (wg_blink_get_reg b 4)), (0xC0, 0x202), (0xBC, 0x1B), (0xC8, 0x23)]"

lemma write_context_fields: "write_context api ctx fault_rip b = write_fields api ctx (ctx_fields fault_rip b) b"
  by (simp only: write_context_def write_fields_def ctx_fields_def)

lemma ctx_fields_ok: "fields_ok WG_CTX_SIZE (ctx_fields fault_rip b)"
  by (simp add: fields_ok_def ctx_fields_def ctx_regs_def WG_CTX_SIZE_def words_apart_def)

lemma read_context:
  assumes "flat_ram api peek" and "b \<noteq> None" and "unat ctx + unat WG_CTX_SIZE \<le> 2 ^ 32"
    and "(off, v) \<in> set (ctx_fields fault_rip b)"
  shows "read32 api (ucast (ctx + off)) (write_context api ctx fault_rip b) = v"
  unfolding write_context_fields by (rule read_fields [OF assms(1,3,2) ctx_fields_ok assms(4)])

text \<open>Resuming from a context sets the registers from its words.\<close>

lemma resume_regs:
  assumes b: "b \<noteq> None"
  shows "wg_blink_get_rip (resume_context api ctx b) = ucast (read32 api (ucast (ctx + 0xB8)) b)"
    and "(off, r) \<in> set ((0xC4, 4) # ctx_regs) \<Longrightarrow>
      wg_blink_get_reg (resume_context api ctx b) r = ucast (read32 api (ucast (ctx + off)) b)"
proof -
  note S = set_regs_Some(1,2) b not_False_eq_True
  show "wg_blink_get_rip (resume_context api ctx b) = ucast (read32 api (ucast (ctx + 0xB8)) b)"
    unfolding resume_context_def Let_def by (rule get_rip_set) (simp add: S del: not_None_eq)
  have reg_rip: "wg_blink_get_reg (wg_blink_set_rip c w) j = wg_blink_get_reg c j" for c :: "'a blink" and w j
    by (auto simp: wg_blink_get_reg_def wg_blink_set_rip_def WGBlinkVM_GetReg_def split: option.split)
  show "wg_blink_get_reg (resume_context api ctx b) r = ucast (read32 api (ucast (ctx + off)) b)"
    if "(off, r) \<in> set ((0xC4, 4) # ctx_regs)"
    using that b
    by (auto simp: resume_context_def Let_def ctx_regs_def reg_rip get_set_reg simp del: not_None_eq)
qed

text \<open>What raising leaves: the context on its own page of the heap, and a call of the handler.\<close>

lemma raise_Some:
  assumes "wg_raise_guest_exception api exc fa fault_rip wr e b = (True, e1, b1)"
  shows "b \<noteq> None"
proof
  assume "b = None"
  then have "read32 api (ucast (main_teb e)) b = 0"
    by (simp add: read32_def wg_blink_read_mem_def le_word_le_bytes_full)
  then show False using assms by (simp add: wg_raise_guest_exception_def Let_def split: if_splits)
qed

lemma raise_steps:
  assumes "wg_raise_guest_exception api exc fa fault_rip wr e b = (True, e1, b1)"
  obtains frame ctx ea ba rc eb bb dc ec bc hnd where
    "frame = read32 api (ucast (main_teb e)) b"
    "wg_guest_alloc api WG_CTX_SIZE e b = (ctx, ea, ba)"
    "wg_guest_alloc api 0x50 ea ba = (rc, eb, bb)" "wg_guest_alloc api 16 eb bb = (dc, ec, bc)"
    "seh e1 = \<lparr>seh_active = True, seh_frame = frame, seh_excrec = rc, seh_ctx = ctx, seh_dispctx = dc,
       seh_depth = seh_depth (seh e) + 1\<rparr>"
    "b1 = wg_seh_call_handler api hnd frame (seh e1)
       (write_bytes api rc (concat (map (le_bytes 4) [exc, 0, 0, fault_rip, 2, if wr then 1 else 0, fa]))
         (write_context api ctx fault_rip bc))"
    "0x1000 < hnd"
proof -
  obtain ctx ea ba where 1: "wg_guest_alloc api WG_CTX_SIZE e b = (ctx, ea, ba)" by (rule prod_cases3)
  obtain rc eb bb where 2: "wg_guest_alloc api 0x50 ea ba = (rc, eb, bb)" by (rule prod_cases3)
  obtain dc ec bc where 3: "wg_guest_alloc api 16 eb bb = (dc, ec, bc)" by (rule prod_cases3)
  have "seh ec = seh e" using alloc_keeps(3) [OF 1] alloc_keeps(3) [OF 2] alloc_keeps(3) [OF 3] by simp
  then show thesis
    using assms that [OF refl 1 2 3]
    by (simp only: wg_raise_guest_exception_def 1 2 3 Let_def prod.case split: if_splits)
      (auto simp: not_le)
qed

lemma read_words_bytes:
  assumes "flat_ram api peek" and "b \<noteq> None"
  shows "read_words api a n n b = words_of (map (\<lambda>i. byte_in peek b (a + of_nat i)) [0..<4 * n])"
  unfolding read_words_def by (subst read_mem_bytes [OF assms]) simp_all

lemma read_words_back:
  fixes a :: u32
  assumes "flat_ram api peek" and "b \<noteq> None" and n: "length ws = n" and "n < 2 ^ 30"
  shows "read_words api (ucast a) n n (write_bytes api a (concat (map (le_bytes 4) ws)) b) = ws"
proof -
  have "length (concat (map (le_bytes 4) ws)) = 4 * length ws" by (induction ws) (simp_all add: length_le_bytes)
  from read_back [OF assms(1,2) this [unfolded n]] assms(4) show ?thesis by (simp add: read_words_def words_of_le_bytes)
qed

lemma read_words_frame:
  fixes a c :: u32
  assumes ram: "flat_ram api peek" and b: "b \<noteq> None" and fit: "unat a + 4 * n \<le> 2 ^ 32" "length bs \<le> 2 ^ 32"
    and apart: "unat a + 4 * n \<le> unat c \<or> unat c + length bs \<le> unat a"
  shows "read_words api (ucast a) n n (write_bytes api c bs b) = read_words api (ucast a) n n b"
proof -
  have w: "write_bytes api c bs b \<noteq> None" by (simp only: write_bytes_Some b not_False_eq_True)
  have "byte_in peek (write_bytes api c bs b) (ucast a + of_nat i) = byte_in peek b (ucast a + of_nat i)" if i: "i < 4 * n" for i
  proof -
    have "unat (ucast a + of_nat i :: u64) = unat a + i"
      using i fit by (simp add: unat_word_ariths unat_ucast_up unat_of_nat)
    then have "unat (ucast a + of_nat i - ucast c :: u64) = (if unat c \<le> unat a + i then unat a + i - unat c else 2 ^ 64 + (unat a + i) - unat c)"
      by (simp add: unat_diff_cases unat_ucast_up)
    then show ?thesis using apart i fit(2) unat_below [of c] by (subst byte_in_write [OF ram b]) (auto split: if_splits)
  qed
  then have "map (\<lambda>i. byte_in peek (write_bytes api c bs b) (ucast a + of_nat i)) [0..<4 * n] =
      map (\<lambda>i. byte_in peek b (ucast a + of_nat i)) [0..<4 * n]" by simp
  then show ?thesis unfolding read_words_bytes [OF ram w] read_words_bytes [OF ram b] by (simp only:)
qed

lemma write_context_regs [simp]: "wg_blink_get_reg (write_context api ctx pc b) i = wg_blink_get_reg b i"
  by (simp add: write_context_fields)

lemma write_context_Some: "write_context api ctx pc b \<noteq> None \<longleftrightarrow> b \<noteq> None"
  unfolding write_context_fields by (rule write_fields_Some)

lemma raise_enters:
  fixes b :: "'m blink" and sp :: u32
  assumes ram: "flat_ram api peek" and h: "heap_at e t" "0 < t" and room: "t + 3 * 4096 < 2 ^ 32" and b: "b \<noteq> None"
    and depth: "seh_depth (seh e) \<le> 8"
    and frame: "frame = read32 api (ucast (main_teb e)) b" "0x1000 < frame" "frame < 0xFFFFFFFE" "off_pages t (3 * 4096) frame 8"
    and hnd: "hnd = read32 api (ucast (frame + 4)) b" "0x1000 < hnd"
    and sp: "sp = ucast (wg_blink_get_reg b 4)" "20 \<le> unat sp" "off_pages t (3 * 4096) (sp - 20) 20"
  shows "\<exists>e1 b1. wg_raise_guest_exception api exc fa pc wr e b = (True, e1, b1) \<and>
    wg_blink_get_rip b1 = ucast hnd \<and> wg_blink_get_reg b1 4 = ucast (sp - 20) \<and>
    read_words api (ucast (sp - 20)) 5 5 b1 =
      [WG_SEH_SENTINEL, seh_excrec (seh e1), frame, seh_ctx (seh e1), seh_dispctx (seh e1)] \<and>
    read_words api (ucast (seh_excrec (seh e1))) 7 7 b1 = [exc, 0, 0, pc, 2, if wr then 1 else 0, fa]"
proof -
  obtain ctx ea ba where 1: "wg_guest_alloc api WG_CTX_SIZE e b = (ctx, ea, ba)" by (rule prod_cases3)
  obtain rc eb bb where 2: "wg_guest_alloc api 0x50 ea ba = (rc, eb, bb)" by (rule prod_cases3)
  obtain dc ec bc where 3: "wg_guest_alloc api 16 eb bb = (dc, ec, bc)" by (rule prod_cases3)
  have pr: "page_round (unat WG_CTX_SIZE) = 4096" "page_round (unat (0x50 :: u32)) = 4096" "page_round (unat (16 :: u32)) = 4096"
    by (simp_all add: page_round_def WG_CTX_SIZE_def)
  have ctx: "unat ctx = t" "heap_at ea (t + 4096)"
    using guest_alloc_spec(1,2) [OF h(1) _ _ _ 1] room by (simp_all add: pr) (simp_all add: WG_CTX_SIZE_def)
  have rc: "unat rc = t + 4096" "heap_at eb (t + 4096 + 4096)"
    using guest_alloc_spec(1,2) [OF ctx(2) _ _ _ 2] room by (simp_all only: pr) simp_all
  have dc: "unat dc = t + 8192"
    using guest_alloc_spec(1) [OF rc(2) _ _ _ 3] room by (simp only: pr) simp
  have ne: "ctx \<noteq> 0" "rc \<noteq> 0" "dc \<noteq> 0" using ctx(1) rc(1) dc h(2) by auto
  have ba: "ba \<noteq> None" and bb: "bb \<noteq> None" and bc: "bc \<noteq> None"
    using b alloc_keeps(2) [OF 1] alloc_keeps(2) [OF 2] alloc_keeps(2) [OF 3] by blast+
  have seh: "seh ec = seh e" using alloc_keeps(3) [OF 1] alloc_keeps(3) [OF 2] alloc_keeps(3) [OF 3] by simp
  let ?rec = "concat (map (le_bytes 4) [exc, 0, 0, pc, 2, if wr then 1 else 0, fa])"
  let ?w = "write_context api ctx pc bc"
  let ?x = "write_bytes api rc ?rec ?w"
  have w: "?w \<noteq> None" by (simp only: write_context_Some bc not_False_eq_True)
  have x: "?x \<noteq> None" by (simp only: write_bytes_Some w not_False_eq_True)
  have fr4: "unat (frame + 4) = unat frame + 4" using frame(4) room by (subst unat_add) (auto simp: off_pages_def)
  then have f4: "unat (frame + 4) + 4 \<le> t \<or> t + 12288 \<le> unat (frame + 4)" "unat (frame + 4) + 4 \<le> 2 ^ 32"
    using frame(4) room by (auto simp: off_pages_def)
  have out: "off_pages u (page_round (unat n)) (frame + 4) 4" if "page_round (unat n) = 4096" "u \<in> {t, t + 4096, t + 8192}"
    for u and n :: u32
    using that f4 by (auto simp: off_pages_def)
  have "read32 api (ucast (frame + 4)) ?x = read32 api (ucast (frame + 4)) ?w"
    by (rule read32_write_bytes_other [OF ram w]) (use f4 rc(1) in \<open>auto simp: length_le_bytes\<close>)
  also have "\<dots> = read32 api (ucast (frame + 4)) bc" unfolding write_context_fields
    by (rule write_fields_apart [OF ram _ _ bc ctx_fields_ok]) (use f4 ctx(1) room in \<open>auto simp: WG_CTX_SIZE_def\<close>)
  also have "\<dots> = read32 api (ucast (frame + 4)) bb" by (rule alloc_keeps_out [OF ram rc(2) 3 bb _ _ out [OF pr(3)]]) simp_all
  also have "\<dots> = read32 api (ucast (frame + 4)) ba" by (rule alloc_keeps_out [OF ram ctx(2) 2 ba _ _ out [OF pr(2)]]) simp_all
  also have "\<dots> = hnd" unfolding hnd(1)
    by (rule alloc_keeps_out [OF ram h(1) 1 b _ _ out [OF pr(1)]]) (simp_all add: WG_CTX_SIZE_def)
  finally have handler: "read32 api (ucast (frame + 4)) ?x = hnd" .
  let ?s = "\<lparr>seh_active = True, seh_frame = frame, seh_excrec = rc, seh_ctx = ctx, seh_dispctx = dc, seh_depth = seh_depth (seh e) + 1\<rparr>"
  let ?f = "[WG_SEH_SENTINEL, rc, frame, ctx, dc]"
  let ?y = "write_bytes api (sp - 20) (concat (map (le_bytes 4) ?f)) ?x"
  let ?b1 = "wg_blink_set_reg (wg_blink_set_rip (wg_blink_set_reg ?y 4 (ucast (sp - 20))) (ucast hnd)) 0 0"
  have "wg_blink_get_reg ?x 4 = wg_blink_get_reg b 4"
    using alloc_keeps(1) [OF 1] alloc_keeps(1) [OF 2] alloc_keeps(1) [OF 3] by simp
  then have esp: "ucast (wg_blink_get_reg ?x 4) = sp" by (simp only: sp(1))
  have call: "wg_seh_call_handler api hnd frame ?s ?x = ?b1"
    unfolding wg_seh_call_handler_def Let_def seh_state.simps esp ..
  have raised: "wg_raise_guest_exception api exc fa pc wr e b = (True, ec\<lparr>seh := ?s\<rparr>, ?b1)"
    unfolding wg_raise_guest_exception_def Let_def frame(1) [symmetric] 1 2 3 prod.case seh handler call
    using depth frame(2,3) hnd(2) ne by (simp add: not_le)
  have y: "?y \<noteq> None" by (simp only: write_bytes_Some x not_False_eq_True)
  have low: "unat (sp - 20) + 20 \<le> t \<or> t + 12288 \<le> unat (sp - 20)" using sp(3) by (auto simp: off_pages_def)
  have rm: "read_words api a n k ?b1 = read_words api a n k ?y" for a n k
    by (simp only: read_words_def read_mem_regs)
  have "read_words api (ucast (sp - 20)) 5 5 ?b1 = ?f"
    unfolding rm by (rule read_words_back [OF ram x]) simp_all
  moreover have "read_words api (ucast rc) 7 7 ?b1 = [exc, 0, 0, pc, 2, if wr then 1 else 0, fa]"
  proof -
    have "read_words api (ucast rc) 7 7 ?y = read_words api (ucast rc) 7 7 ?x"
      by (rule read_words_frame [OF ram x]) (use rc(1) room low in \<open>auto simp: length_le_bytes\<close>)
    also have "\<dots> = [exc, 0, 0, pc, 2, if wr then 1 else 0, fa]" by (rule read_words_back [OF ram w]) simp_all
    finally show ?thesis unfolding rm .
  qed
  ultimately show ?thesis using raised enter_regs [OF y, of "ucast (sp - 20)" "ucast hnd"] by auto
qed

text \<open>C14: Raising an exception, at most 8 deep, enters the first handler of the main thread, when its frame and the stack are outside the three new heap pages: on the stack it finds the record, the frame, the context and the dispatcher context, and in the record the code and the parameters.\<close>

theorem seh_dispatch:
  fixes b :: "'m blink" and sp :: u32
  assumes ram: "flat_ram api peek" and h: "heap_at e t" "0 < t" and room: "t + 3 * 4096 < 2 ^ 32" and b: "b \<noteq> None"
    and depth: "seh_depth (seh e) \<le> 8"
    and frame: "frame = read32 api (ucast (main_teb e)) b" "0x1000 < frame" "frame < 0xFFFFFFFE" "off_pages t (3 * 4096) frame 8"
    and hnd: "hnd = read32 api (ucast (frame + 4)) b" "0x1000 < hnd"
    and sp: "sp = ucast (wg_blink_get_reg b 4)" "20 \<le> unat sp" "off_pages t (3 * 4096) (sp - 20) 20"
  shows "\<exists>e1 b1. wg_raise_guest_exception api exc fa pc wr e b = (True, e1, b1) \<and>
    wg_blink_get_rip b1 = ucast hnd \<and> wg_blink_get_reg b1 4 = ucast (sp - 20) \<and>
    read_words api (ucast (sp - 20)) 5 5 b1 =
      [WG_SEH_SENTINEL, seh_excrec (seh e1), frame, seh_ctx (seh e1), seh_dispctx (seh e1)] \<and>
    read_words api (ucast (seh_excrec (seh e1))) 7 7 b1 = [exc, 0, 0, pc, 2, if wr then 1 else 0, fa]"
  using assms by (rule raise_enters)

lemma raise_leaves:
  fixes b :: "'m blink"
  assumes ram: "flat_ram api peek" and h: "heap_at e t" and room: "t + 3 * 4096 < 2 ^ 32"
    and sp: "sp = unat (ucast (wg_blink_get_reg b 4) :: u32)" "20 \<le> sp" "sp \<le> t \<or> t + 4096 \<le> sp - 20"
    and r: "wg_raise_guest_exception api exc fa fault_rip wr e b = (True, e1, b1)"
  shows "unat (seh_ctx (seh e1)) = t" and "b1 \<noteq> None"
    and "(off, v) \<in> set (ctx_fields fault_rip b) \<Longrightarrow> read32 api (ucast (seh_ctx (seh e1) + off)) b1 = v"
proof -
  obtain frame ctx ea ba rc eb bb dc ec bc hnd where s:
    "frame = read32 api (ucast (main_teb e)) b"
    "wg_guest_alloc api WG_CTX_SIZE e b = (ctx, ea, ba)"
    "wg_guest_alloc api 0x50 ea ba = (rc, eb, bb)" "wg_guest_alloc api 16 eb bb = (dc, ec, bc)"
    and e1: "seh e1 = \<lparr>seh_active = True, seh_frame = frame, seh_excrec = rc, seh_ctx = ctx, seh_dispctx = dc,
       seh_depth = seh_depth (seh e) + 1\<rparr>"
    and b1: "b1 = wg_seh_call_handler api hnd frame (seh e1)
       (write_bytes api rc (concat (map (le_bytes 4) [exc, 0, 0, fault_rip, 2, if wr then 1 else 0, fa]))
         (write_context api ctx fault_rip bc))"
    by (rule raise_steps [OF r]) blast
  have pr: "page_round (unat WG_CTX_SIZE) = 4096" "page_round (unat (0x50 :: u32)) = 4096"
    by (simp_all add: page_round_def WG_CTX_SIZE_def)
  have ctx: "unat ctx = t" "heap_at ea (t + 4096)"
    using guest_alloc_spec(1,2) [OF h _ _ _ s(2)] room by (simp_all add: pr) (simp_all add: WG_CTX_SIZE_def)
  have rc: "unat rc = t + 4096"
    using guest_alloc_spec(1) [OF ctx(2) _ _ _ s(3)] room by (simp only: pr) simp
  show "unat (seh_ctx (seh e1)) = t" using ctx(1) e1 by simp
  have bc: "bc \<noteq> None" using raise_Some [OF r] alloc_keeps(2) [OF s(2)] alloc_keeps(2) [OF s(3)] alloc_keeps(2) [OF s(4)]
    by blast
  have regs: "wg_blink_get_reg bc i = wg_blink_get_reg b i" for i
    using alloc_keeps(1) [OF s(2)] alloc_keeps(1) [OF s(3)] alloc_keeps(1) [OF s(4)] by metis
  then have fields: "ctx_fields fault_rip bc = ctx_fields fault_rip b"
    by (simp only: ctx_fields_def)
  let ?w = "write_context api ctx fault_rip bc"
  let ?rec = "concat (map (le_bytes 4) [exc, 0, 0, fault_rip, 2, if wr then 1 else 0, fa])"
  let ?x = "write_bytes api rc ?rec ?w"
  let ?esp = "ucast (wg_blink_get_reg ?x 4) :: u32"
  let ?fr = "concat (map (le_bytes 4) [WG_SEH_SENTINEL, seh_excrec (seh e1), frame, seh_ctx (seh e1), seh_dispctx (seh e1)])"
  have w: "?w \<noteq> None" unfolding write_context_fields by (simp only: write_fields_Some bc not_False_eq_True)
  then have x: "?x \<noteq> None" by (simp only: write_bytes_Some not_False_eq_True)
  show "b1 \<noteq> None" using x unfolding b1 wg_seh_call_handler_def Let_def
    by (simp only: write_bytes_Some set_regs_Some not_False_eq_True)
  show "read32 api (ucast (seh_ctx (seh e1) + off)) b1 = v" if f: "(off, v) \<in> set (ctx_fields fault_rip b)"
  proof -
    have off: "unat off + 4 \<le> unat WG_CTX_SIZE" using f ctx_fields_ok [of fault_rip b] by (auto simp: fields_ok_def)
    have wreg: "wg_blink_get_reg ?w i = wg_blink_get_reg bc i" for i
      unfolding write_context_fields by (rule write_fields_regs)
    have esp: "unat ?esp = sp" by (simp add: sp(1) wreg regs)
    have esp20: "unat (?esp - 20) = sp - 20" using esp sp(2) by (simp add: unat_sub word_le_nat_alt)
    have lens: "length ?rec = 28" "length ?fr = 20" by (simp_all add: length_le_bytes)
    have lim: "unat ctx + unat WG_CTX_SIZE \<le> 2 ^ 32" using ctx(1) room by (simp add: WG_CTX_SIZE_def)
    have "read32 api (ucast (ctx + off)) b1 = read32 api (ucast (ctx + off)) (write_bytes api (?esp - 20) ?fr ?x)"
      by (simp only: b1 wg_seh_call_handler_def Let_def read32_regs)
    also have "\<dots> = read32 api (ucast (ctx + off)) ?x"
      by (rule read_field_frame [OF ram x lim off]) (use lens esp20 sp(2,3) ctx(1) in \<open>auto simp: WG_CTX_SIZE_def\<close>)
    also have "\<dots> = read32 api (ucast (ctx + off)) ?w"
      by (rule read_field_frame [OF ram w lim off]) (use lens ctx(1) rc in \<open>auto simp: WG_CTX_SIZE_def\<close>)
    also have "\<dots> = v" by (rule read_context [OF ram bc lim]) (use f fields in simp)
    finally show ?thesis using e1 by simp
  qed
qed

lemma u32_down_up: "ucast (ucast (w :: u32) :: u64) = w"
  by transfer (simp add: take_bit_eq_mod)

text \<open>The handler answers \<open>ExceptionContinueExecution\<close> and has left the page of the context alone.\<close>

text \<open>C15: A handler that leaves the context alone and returns disposition 0 resumes the guest at the faulting instruction with the lower halves of all eight registers as they were, and the exception is over.\<close>

theorem seh_roundtrip:
  fixes b b2 :: "'m blink"
  assumes ram: "flat_ram api peek" and h: "heap_at e t" and room: "t + 3 * 4096 < 2 ^ 32"
    and sp: "sp = unat (ucast (wg_blink_get_reg b 4) :: u32)" "20 \<le> sp" "sp \<le> t \<or> t + 4096 \<le> sp - 20"
    and r: "wg_raise_guest_exception api exc fa fault_rip wr e b = (True, e1, b1)"
    and handler: "b2 \<noteq> None" "seh e2 = seh e1" "(ucast (wg_blink_get_reg b2 0) :: u32) = 0"
      "\<forall>x. unat (x - ucast (seh_ctx (seh e1))) < 4096 \<longrightarrow> byte_in peek b2 x = byte_in peek b1 x"
    and ret: "seh_return api e2 b2 = (e3, b3)"
  shows "\<not> seh_active (seh e3) \<and> seh_depth (seh e3) = 0 \<and> wg_blink_get_rip b3 = ucast fault_rip \<and>
    map (\<lambda>i. ucast (wg_blink_get_reg b3 i) :: u32) [0..7] = map (\<lambda>i. ucast (wg_blink_get_reg b i)) [0..7]"
proof -
  let ?ctx = "seh_ctx (seh e1)"
  note lv = raise_leaves [OF ram h room sp r]
  have eq: "read32 api (ucast (?ctx + off)) b2 = v" if f: "(off, v) \<in> set (ctx_fields fault_rip b)" for off v
  proof -
    have off: "unat off + 4 \<le> 0x2CC" using f ctx_fields_ok [of fault_rip b] by (auto simp: fields_ok_def WG_CTX_SIZE_def)
    have s: "unat (?ctx + off) = t + unat off" using lv(1) off room by (simp add: unat_add)
    have "byte_in peek b2 (ucast (?ctx + off) + of_nat i) = byte_in peek b1 (ucast (?ctx + off) + of_nat i)" if "i < 4" for i
      using handler(4) unat_up_diff [OF that, of "?ctx + off" ?ctx] s lv(1) off that by simp
    then have "map (\<lambda>i. byte_in peek b2 (ucast (?ctx + off) + of_nat i)) [0..<4] =
      map (\<lambda>i. byte_in peek b1 (ucast (?ctx + off) + of_nat i)) [0..<4]" by simp
    then show ?thesis unfolding read32_bytes [OF ram handler(1)] lv(3) [OF f, unfolded read32_bytes [OF ram lv(2)], symmetric]
      by (simp only:)
  qed
  have b3: "b3 = resume_context api ?ctx b2" and e3: "\<not> seh_active (seh e3)" "seh_depth (seh e3) = 0"
    using ret handler(2,3) by (auto simp: seh_return_def Let_def)
  have rip: "wg_blink_get_rip b3 = ucast fault_rip"
    unfolding b3 resume_regs(1) [OF handler(1)] by (subst eq [where v = fault_rip]) (simp_all add: ctx_fields_def)
  have reg: "(ucast (wg_blink_get_reg b3 i) :: u32) = ucast (wg_blink_get_reg b i)" if m: "(off, i) \<in> set ((0xC4, 4) # ctx_regs)" for off i
  proof -
    have "(off, ucast (wg_blink_get_reg b i)) \<in> set (ctx_fields fault_rip b)"
      using m by (auto simp: ctx_fields_def)
    then show ?thesis unfolding b3 resume_regs(2) [OF handler(1) m] by (simp only: eq u32_down_up)
  qed
  have "map (\<lambda>i. ucast (wg_blink_get_reg b3 i) :: u32) [0..7] = map (\<lambda>i. ucast (wg_blink_get_reg b i)) [0..7]"
    using reg [of "0xB0" "0"] reg [of "0xAC" "1"] reg [of "0xA8" "2"] reg [of "0xA4" "3"] reg [of "0xC4" "4"] reg [of "0xB4" "5"] reg [of "0xA0" "6"]
      reg [of "0x9C" "7"]
    by (simp add: ctx_regs_def upto.simps)
  then show ?thesis using e3 rip by simp
qed

end
