(* ===== verification/GuestTeb.thy ===== *)
theory GuestTeb
  imports GuestSeh
begin

text \<open>
  The thread environment block of the main thread: what a 32-bit program finds through its FS
  segment.
\<close>

definition teb_fields :: "u32 \<Rightarrow> u32 \<Rightarrow> u32 \<Rightarrow> u32 \<Rightarrow> u32 \<Rightarrow> u32 \<Rightarrow> (u32 \<times> u32) list" where
  "teb_fields blk peb tls_array hi lo t =
     [(0, 0xFFFFFFFF), (0x04, hi), (0x08, lo), (0x18, blk), (0x20, 0x1000), (0x24, t), (0x2C, tls_array), (0x30, peb),
      (0x34, 0)]"

definition peb_fields :: "u32 \<Rightarrow> (u32 \<times> u32) list" where
  "peb_fields ibase = [(0x08, ibase), (0x18, 0x00D00000), (0x64, 1), (0xA4, 10), (0xA8, 0)]"

lemma teb_fields_ok: "fields_ok 0x38 (teb_fields blk peb tls_array hi lo t)" "fields_ok 0xAC (peb_fields ibase)"
  by (simp_all add: fields_ok_def teb_fields_def peb_fields_def words_apart_def)

definition write_peb :: "'m guest_api \<Rightarrow> u32 \<Rightarrow> u32 \<Rightarrow> 'm blink \<Rightarrow> 'm blink" where
  "write_peb api peb ibase b =
     write32 api (peb + 0xB0) 2 (write_bytes api (peb + 0xAC) (le_bytes 2 (19045 :: u16))
       (write_fields api peb (peb_fields ibase) (write_bytes api (peb + 0x02) [0] b)))"

text \<open>Writes to the page of the PEB.\<close>

lemma write_peb_reads:
  fixes peb ibase a :: u32
  assumes ram: "flat_ram api peek" and b: "b \<noteq> None" and p: "unat peb + 4096 \<le> 2 ^ 32"
  shows "write_peb api peb ibase b \<noteq> None"
    and "(off, v) \<in> set (peb_fields ibase) \<Longrightarrow> read32 api (ucast (peb + off)) (write_peb api peb ibase b) = v"
    and "unat a + 4 \<le> unat peb \<Longrightarrow> read32 api (ucast a) (write_peb api peb ibase b) = read32 api (ucast a) b"
proof -
  let ?b1 = "write_bytes api (peb + 0x02) [0] b"
  let ?b2 = "write_fields api peb (peb_fields ibase) ?b1"
  let ?b3 = "write_bytes api (peb + 0xAC) (le_bytes 2 (19045 :: u16)) ?b2"
  have b1: "?b1 \<noteq> None" by (simp only: write_bytes_Some b not_False_eq_True)
  have b2: "?b2 \<noteq> None" by (simp only: write_fields_Some b1 not_False_eq_True)
  have b3: "?b3 \<noteq> None" by (simp only: write_bytes_Some b2 not_False_eq_True)
  show "write_peb api peb ibase b \<noteq> None" unfolding write_peb_def by (simp only: write32_Some b3 not_False_eq_True)
  have at: "unat (peb + k) = unat peb + unat k" if "unat k < 4096" for k using p that by (simp add: unat_add)
  show "read32 api (ucast (peb + off)) (write_peb api peb ibase b) = v" if f: "(off, v) \<in> set (peb_fields ibase)"
  proof -
    have off: "unat off + 4 \<le> 0xAC" using f by (auto simp: peb_fields_def)
    have "read32 api (ucast (peb + off)) (write_peb api peb ibase b) = read32 api (ucast (peb + off)) ?b3"
      unfolding write_peb_def by (rule read32_write32(2) [OF ram b3]) (use off at in \<open>simp add: words_apart_def\<close>)
    also have "\<dots> = read32 api (ucast (peb + off)) ?b2"
      by (rule read32_write_bytes_other [OF ram b2]) (use off at in \<open>simp_all add: length_le_bytes\<close>)
    also have "\<dots> = v" by (rule read_fields [OF ram _ b1 teb_fields_ok(2) f]) (use p in simp)
    finally show ?thesis .
  qed
  show "read32 api (ucast a) (write_peb api peb ibase b) = read32 api (ucast a) b" if a: "unat a + 4 \<le> unat peb"
  proof -
    have "read32 api (ucast a) (write_peb api peb ibase b) = read32 api (ucast a) ?b3"
      unfolding write_peb_def by (rule read32_write32(2) [OF ram b3]) (use a at in \<open>simp add: words_apart_def\<close>)
    also have "\<dots> = read32 api (ucast a) ?b2"
      by (rule read32_write_bytes_other [OF ram b2]) (use a at in \<open>simp_all add: length_le_bytes\<close>)
    also have "\<dots> = read32 api (ucast a) ?b1"
      using read32_write32(2) [OF ram] a at
      by (simp add: peb_fields_def write_fields_def words_apart_def b1 del: not_None_eq)
    also have "\<dots> = read32 api (ucast a) b"
      by (rule read32_write_bytes_other [OF ram b]) (use a at in simp_all)
    finally show ?thesis .
  qed
qed

section \<open>The blocks of the other threads\<close>

lemma alloc_teb_steps:
  assumes "pe_img e = Some pe" and "\<not> is_64bit pe" and "tls_rva pe = 0" and "main_teb e \<noteq> 0"
    and "wg_guest_alloc api 0x1000 e b = (blk, ea, ba)" and "wg_guest_alloc api 0x400 ea ba = (tls_array, ec, bc)"
    and "blk \<noteq> 0" and "tls_array \<noteq> 0"
  shows "wg_alloc_thread_teb api hi lo no e b = (blk, ec,
    write_fields api blk (teb_fields blk (read32 api (ucast (main_teb ec + 0x30)) bc) tls_array hi lo no) bc)"
  by (simp add: wg_alloc_thread_teb_def assms Let_def write_fields_def teb_fields_def)

lemma alloc_main_teb: "wg_guest_alloc api n e b = (a, e', b') \<Longrightarrow> main_teb e' = main_teb e"
  by (auto simp: wg_guest_alloc_def Let_def track_alloc_def split: if_splits)

text \<open>Its own stack bounds, number and TLS array, and the process block of the main thread; the blocks
  of the other threads, below it in the heap, stay as they were.\<close>

theorem thread_teb_layout:
  fixes b :: "'m blink" and hi lo no :: u32
  assumes ram: "flat_ram api peek" and h: "heap_at e t" "0 < t" and room: "t + 2 * 4096 < 2 ^ 32"
    and pe: "pe_img e = Some pe" "\<not> is_64bit pe" "tls_rva pe = 0" and b: "b \<noteq> None"
    and m: "main_teb e \<noteq> 0" "unat (main_teb e) + 0x34 \<le> t"
    and s: "wg_alloc_thread_teb api hi lo no e b = (blk, e1, b1)"
  shows "unat blk = t \<and> heap_at e1 (t + 2 * 4096) \<and>
    map (\<lambda>off. read32 api (ucast (blk + off)) b1) [0, 4, 8, 0x18, 0x24, 0x2C, 0x30] =
      [0xFFFFFFFF, hi, lo, blk, no, blk + 0x1000, read32 api (ucast (main_teb e + 0x30)) b] \<and>
    (\<forall>a :: u32. unat a + 4 \<le> t \<longrightarrow> read32 api (ucast a) b1 = read32 api (ucast a) b)"
proof -
  obtain bl ea ba where 1: "wg_guest_alloc api 0x1000 e b = (bl, ea, ba)" by (rule prod_cases3)
  obtain tls_array ec bc where 2: "wg_guest_alloc api 0x400 ea ba = (tls_array, ec, bc)" by (rule prod_cases3)
  have pr: "page_round (unat (0x1000 :: u32)) = 4096" "page_round (unat (0x400 :: u32)) = 4096"
    by (simp_all add: page_round_def)
  note g1 = guest_alloc_spec(1,2) [OF h(1) _ _ _ 1]
  have bl: "unat bl = t" "heap_at ea (t + 4096)" using g1 room by (simp_all only: pr) simp_all
  note g2 = guest_alloc_spec(1,2) [OF bl(2) _ _ _ 2]
  have tls: "unat tls_array = t + 4096" "heap_at ec (t + 4096 + 4096)" using g2 room by (simp_all only: pr) simp_all
  have ne: "bl \<noteq> 0" "tls_array \<noteq> 0" using bl(1) tls(1) h(2) by auto
  have ba: "ba \<noteq> None" using b alloc_keeps(2) [OF 1] by blast
  have bc: "bc \<noteq> None" using ba alloc_keeps(2) [OF 2] by blast
  have mt: "main_teb ec = main_teb e" using alloc_main_teb [OF 1] alloc_main_teb [OF 2] by simp
  have low: "read32 api (ucast a) bc = read32 api (ucast a) b" if "unat a + 4 \<le> t" for a :: u32
    using alloc_keeps_below [OF ram h(1) 1 that b] alloc_keeps_below [OF ram bl(2) 2 _ ba, of a] that by simp
  have peb: "read32 api (ucast (main_teb ec + 0x30)) bc = read32 api (ucast (main_teb e + 0x30)) b"
    unfolding mt by (rule low) (use m(2) room in \<open>simp add: unat_add\<close>)
  let ?fs = "teb_fields bl (read32 api (ucast (main_teb e + 0x30)) b) tls_array hi lo no"
  have r: "blk = bl" "e1 = ec" "b1 = write_fields api bl ?fs bc"
    using s alloc_teb_steps [OF pe m(1) 1 2 ne] peb by auto
  have lim: "unat bl + unat (0x38 :: u32) \<le> 2 ^ 32" using bl(1) room by simp
  have f: "read32 api (ucast (bl + off)) b1 = v" if "(off, v) \<in> set ?fs" for off v
    unfolding r(3) by (rule read_fields [OF ram lim bc teb_fields_ok(1) that])
  have offs: "tls_array = bl + 0x1000" using bl(1) tls(1) room by (simp add: word_unat_eq_iff unat_add)
  have old: "read32 api (ucast a) b1 = read32 api (ucast a) b" if a: "unat a + 4 \<le> t" for a :: u32
  proof -
    have "read32 api (ucast a) (write_fields api bl ?fs bc) = read32 api (ucast a) bc"
      by (rule write_fields_below [OF ram lim _ bc teb_fields_ok(1)]) (use a bl(1) in simp)
    then show ?thesis using low [OF a] by (simp add: r(3))
  qed
  have top: "heap_at e1 (t + 2 * 4096)" using tls(2) by (auto simp: r(2) heap_at_def ac_simps)
  show ?thesis
    using f [of 0] f [of 4] f [of 8] f [of "0x18"] f [of "0x24"] f [of "0x2C"] f [of "0x30"] old top bl(1) offs
    by (simp add: teb_fields_def r(1))
qed

end
