(* ===== verification/EngineModules.thy ===== *)
theory EngineModules
  imports EngineLoad
begin

text \<open>
  DLLs that are loaded into the blink machine, \<open>Sources/Core/wg_engine.c\<close>: the table of 16 modules,
  mapping and relocating an image, wiring its imports, and the lookup of its exports. A pointer into
  the parsed file is an offset into \<open>raw_data\<close>; reading behind its end is undefined.
\<close>

section \<open>The table\<close>

record wg_module =
  mod_name :: string
  mod_base :: u32
  mod_size :: u32
  mod_img :: pe_image

text \<open>\<open>s_modules\<close>, whose free slots are \<open>None\<close>, and \<open>s_dll_next_base\<close>.\<close>

record dll_space =
  s_modules :: "wg_module option list"
  s_dll_next_base :: u32

definition no_modules :: dll_space where
  "no_modules = \<lparr>s_modules = replicate 16 None, s_dll_next_base = 0x60000000\<rparr>"

text \<open>The part behind the last separator, in lower case, in a buffer of 64 bytes.\<close>

definition path_sep :: "char \<Rightarrow> bool" where
  "path_sep c \<longleftrightarrow> c = CHR ''/'' \<or> c = CHR 0x5C"

definition dll_basename :: "string \<Rightarrow> string" where
  "dll_basename path = map tolower (take 63 (rev (takeWhile (\<lambda>c. \<not> path_sep c) (rev path))))"

definition module_named :: "string \<Rightarrow> wg_module option \<Rightarrow> bool" where
  "module_named name r = (case r of None \<Rightarrow> False | Some md \<Rightarrow> mod_name md = name)"

definition wg_module_find :: "dll_space \<Rightarrow> string \<Rightarrow> u32" where
  "wg_module_find ds path =
     (case List.find (module_named (dll_basename path)) (s_modules ds) of Some (Some md) \<Rightarrow> mod_base md | _ \<Rightarrow> 0)"

section \<open>Reading the file\<close>

text \<open>The sums are those of \<open>uint32_t\<close>.\<close>

definition sec_extent :: "pe_section \<Rightarrow> u32" where
  "sec_extent s = (if virtual_size s \<noteq> 0 then virtual_size s else raw_size s)"

definition pe_rva_ptr :: "pe_image \<Rightarrow> u32 \<Rightarrow> u32 \<Rightarrow> nat option" where
  "pe_rva_ptr img rva need =
     (if rva + need \<le> size_of_headers img \<and> unat (rva + need) \<le> length (raw_data img) then Some (unat rva)
      else case List.find (\<lambda>s. virtual_address s \<le> rva \<and> rva + need \<le> virtual_address s + sec_extent s) (sections img) of
             None \<Rightarrow> None
           | Some s \<Rightarrow>
               let off = rva - virtual_address s
               in case sec_data s of
                    Some p \<Rightarrow> if off + need \<le> raw_size s then Some (p + unat off) else None
                  | None \<Rightarrow> None)"

definition file_bytes :: "pe_image \<Rightarrow> nat \<Rightarrow> nat \<Rightarrow> u8 list ub" where
  "file_bytes img p n = do { guard (p + n \<le> length (raw_data img)); Some (take n (drop p (raw_data img))) }"

definition file_u16 :: "pe_image \<Rightarrow> nat \<Rightarrow> u16 ub" where
  "file_u16 img p = do { bs \<leftarrow> file_bytes img p 2; Some (le_word bs) }"

definition file_u32 :: "pe_image \<Rightarrow> nat \<Rightarrow> u32 ub" where
  "file_u32 img p = do { bs \<leftarrow> file_bytes img p 4; Some (le_word bs) }"

text \<open>\<open>strcmp(nm, func) == 0\<close>, where \<open>nm\<close> is in the file.\<close>

fun strcmp_file :: "u8 list \<Rightarrow> string \<Rightarrow> bool ub" where
  "strcmp_file [] s = None"
| "strcmp_file (b # bs) [] = Some (b = 0)"
| "strcmp_file (b # bs) (c # cs) = (if char_of (unat b) = c then strcmp_file bs cs else Some False)"

section \<open>Relocation\<close>

definition relocate_entry :: "'m guest_api \<Rightarrow> u32 \<Rightarrow> u32 \<Rightarrow> u16 \<Rightarrow> 'm blink \<Rightarrow> 'm blink" where
  "relocate_entry api page delta v b =
     (if drop_bit 12 v = 3
      then let target = page + ucast (v AND 0xFFF)
           in write32 api target (read32 api (ucast target) b + delta) b
      else b)"

fun u16s :: "u8 list \<Rightarrow> u16 list" where
  "u16s (b0 # b1 # bs) = le_word [b0, b1] # u16s bs"
| "u16s _ = []"

text \<open>The blocks of the directory from the offset \<open>off\<close> on. A block size whose sum with the offset
  wraps may lead the loop backwards, so it is not known to end.\<close>

partial_function (option) relocate_from ::
    "'m guest_api \<Rightarrow> pe_image \<Rightarrow> u32 \<Rightarrow> u32 \<Rightarrow> u32 \<Rightarrow> 'm blink \<Rightarrow> ('m blink) ub" where
  "relocate_from api img load_base delta off b =
     (if \<not> off + 8 \<le> reloc_size img then Some b
      else case pe_rva_ptr img (reloc_rva img + off) 8 of
             None \<Rightarrow> Some b
           | Some blk \<Rightarrow> do {
               page_rva \<leftarrow> file_u32 img blk;
               blk_size \<leftarrow> file_u32 img (blk + 4);
               if blk_size < 8 \<or> reloc_size img < off + blk_size then Some b
               else let nent = (blk_size - 8) div 2
                    in case pe_rva_ptr img (reloc_rva img + off + 8) (nent * 2) of
                         None \<Rightarrow> Some b
                       | Some ents \<Rightarrow> do {
                           bs \<leftarrow> file_bytes img ents (2 * unat nent);
                           relocate_from api img load_base delta (off + blk_size)
                             (fold (relocate_entry api (load_base + page_rva) delta) (u16s bs) b)
                         }
             })"

section \<open>Loading\<close>

text \<open>The base and the difference to the preferred one; only an image with relocations is moved.\<close>

definition image_extent :: "pe_image \<Rightarrow> u32" where
  "image_extent img = (if size_of_image img \<noteq> 0 then size_of_image img else 0x100000)"

definition relocatable :: "pe_image \<Rightarrow> bool" where
  "relocatable img \<longleftrightarrow> reloc_rva img \<noteq> 0 \<and> reloc_size img \<noteq> 0"

definition place_dll :: "pe_image \<Rightarrow> dll_space \<Rightarrow> u32 \<times> u32 \<times> dll_space" where
  "place_dll img ds =
     (let preferred = ucast (image_base img)
      in if relocatable img
         then (s_dll_next_base ds, s_dll_next_base ds - preferred,
               ds\<lparr>s_dll_next_base := (s_dll_next_base ds + image_extent img + 0xFFFF) AND NOT 0xFFFF\<rparr>)
         else (preferred, 0, ds))"

fun dll_sections :: "'m guest_api \<Rightarrow> pe_image \<Rightarrow> u32 \<Rightarrow> pe_section list \<Rightarrow> 'm blink \<Rightarrow> ('m blink) ub" where
  "dll_sections api img load_base [] b = Some b"
| "dll_sections api img load_base (s # ss) b =
     (if virtual_size s = 0 then dll_sections api img load_base ss b
      else do {
        let va = load_base + virtual_address s;
        let b = load_zeros api (ucast va) (virtual_size s) b;
        bs \<leftarrow> section_bytes img s;
        let b = (if sec_data s \<noteq> None \<and> 0 < raw_size s then write_bytes api va bs b else b);
        dll_sections api img load_base ss b
      })"

definition dll_slots :: "pe_image \<Rightarrow> u32 \<Rightarrow> (string \<times> string \<times> u64) list" where
  "dll_slots img load_base = concat (map (\<lambda>d. map (\<lambda>f. (c_string (import_dll.dll_name d), c_string (fn_name f),
       ucast (load_base + fn_iat_rva f))) (dll_functions d)) (import_dlls img))"

definition put_dll :: "'m guest_api \<Rightarrow> u64 \<Rightarrow> u64 \<Rightarrow> 'm blink \<Rightarrow> ('m blink) ub" where
  "put_dll api iat stub b = Some (write32 api (ucast iat) (ucast stub) b)"

definition record_module :: "string \<Rightarrow> u32 \<Rightarrow> pe_image \<Rightarrow> dll_space \<Rightarrow> dll_space" where
  "record_module name load_base img ds =
     (case find_index (\<lambda>r. r = None) (s_modules ds) of
        None \<Rightarrow> ds
      | Some i \<Rightarrow> ds\<lparr>s_modules := (s_modules ds)[i := Some \<lparr>mod_name = name, mod_base = load_base,
            mod_size = image_extent img, mod_img = img\<rparr>]\<rparr>)"

definition map_dll ::
    "'m guest_api \<Rightarrow> pe_image \<Rightarrow> string \<Rightarrow> dll_space \<Rightarrow> mapper \<Rightarrow> 'm blink \<Rightarrow> (u32 \<times> dll_space \<times> mapper \<times> 'm blink) ub" where
  "map_dll api img name ds m b = do {
     let (load_base, delta, ds) = place_dll img ds;
     let b = (if size_of_headers img \<noteq> 0 \<and> unat (size_of_headers img) \<le> length (raw_data img)
              then write_bytes api load_base (take (unat (size_of_headers img)) (raw_data img)) b else b);
     b \<leftarrow> dll_sections api img load_base (sections img) b;
     b \<leftarrow> (if delta \<noteq> 0 \<and> relocatable img then relocate_from api img load_base delta 0 b else Some b);
     (m, b) \<leftarrow> write_iat (put_dll api) (dll_slots img load_base) m b;
     Some (load_base, record_module name load_base img ds, m, b)
   }"

text \<open>\<open>img\<close> is what the parser makes of the file.\<close>

definition wg_load_dll ::
    "'m guest_api \<Rightarrow> pe_image option \<Rightarrow> string \<Rightarrow> dll_space \<Rightarrow> mapper \<Rightarrow> 'm blink \<Rightarrow>
     (u32 \<times> dll_space \<times> mapper \<times> 'm blink) ub" where
  "wg_load_dll api img guest_name ds m b =
     (let name = dll_basename guest_name
      in case List.find (module_named name) (s_modules ds) of
           Some (Some md) \<Rightarrow> Some (mod_base md, ds, m, b)
         | _ \<Rightarrow> (case img of
               None \<Rightarrow> Some (0, ds, m, b)
             | Some img \<Rightarrow> if is_64bit img then Some (0, ds, m, b) else map_dll api img name ds m b))"

section \<open>Exports\<close>

definition emulated_plugin :: "string \<Rightarrow> bool" where
  "emulated_plugin name \<longleftrightarrow> name = ''nsprocess.dll'' \<or> name = ''nsexec.dll''"

text \<open>The loop over the names, from the \<open>k\<close>-th on.\<close>

fun find_export :: "pe_image \<Rightarrow> string \<Rightarrow> nat \<Rightarrow> nat \<Rightarrow> nat \<Rightarrow> u32 \<Rightarrow> u32 \<Rightarrow> nat list \<Rightarrow> u32 ub" where
  "find_export img func names ords funcs nfuncs ibase [] = Some 0"
| "find_export img func names ords funcs nfuncs ibase (k # ks) = do {
     nrva \<leftarrow> file_u32 img (names + k * 4);
     same \<leftarrow> (case pe_rva_ptr img nrva 1 of None \<Rightarrow> Some False | Some p \<Rightarrow> strcmp_file (drop p (raw_data img)) func);
     if same then do {
       idx \<leftarrow> file_u16 img (ords + k * 2);
       if nfuncs \<le> ucast idx then Some 0
       else do { frva \<leftarrow> file_u32 img (funcs + unat idx * 4); Some (ibase + frva) }
     } else find_export img func names ords funcs nfuncs ibase ks
   }"

definition export_of :: "pe_image \<Rightarrow> string \<Rightarrow> u32 \<Rightarrow> u32 ub" where
  "export_of img func ibase =
     (if export_rva img = 0 \<or> export_size img = 0 then Some 0
      else case pe_rva_ptr img (export_rva img) 40 of
             None \<Rightarrow> Some 0
           | Some ed \<Rightarrow> do {
               nfuncs \<leftarrow> file_u32 img (ed + 20);
               nnames \<leftarrow> file_u32 img (ed + 24);
               func_rva \<leftarrow> file_u32 img (ed + 28);
               name_rva \<leftarrow> file_u32 img (ed + 32);
               ord_rva \<leftarrow> file_u32 img (ed + 36);
               case (pe_rva_ptr img name_rva (nnames * 4), pe_rva_ptr img ord_rva (nnames * 2), pe_rva_ptr img func_rva (nfuncs * 4)) of
                 (Some names, Some ords, Some funcs) \<Rightarrow>
                   find_export img func names ords funcs nfuncs ibase [0..<unat nnames]
               | _ \<Rightarrow> Some 0
             })"

definition wg_module_export :: "dll_space \<Rightarrow> u32 \<Rightarrow> string \<Rightarrow> u32 ub" where
  "wg_module_export ds ibase func =
     (case List.find (\<lambda>r. case r of None \<Rightarrow> False | Some md \<Rightarrow> mod_base md = ibase) (s_modules ds) of
        Some (Some md) \<Rightarrow> if emulated_plugin (mod_name md) then Some 0 else export_of (mod_img md) func ibase
      | _ \<Rightarrow> Some 0)"

end
