(* ===== verification/EngineModuleCalls.thy ===== *)
theory EngineModuleCalls
  imports EngineModules Files
begin

text \<open>
  The Win32 calls on modules, \<open>handle_blink_thunk\<close> in \<open>Sources/Core/wg_engine.c\<close>: LoadLibraryW,
  GetModuleHandleA and W, and GetProcAddress. \<open>host\<close> is what the parser makes of a host file.
\<close>

section \<open>Strings of the guest\<close>

text \<open>A buffer of \<open>n + 1\<close> zero bytes into which \<open>n\<close> are read.\<close>

definition read_astr :: "'m guest_api \<Rightarrow> u32 \<Rightarrow> nat \<Rightarrow> 'm blink \<Rightarrow> string" where
  "read_astr api p n b =
     c_string (takeWhile (\<lambda>c. c \<noteq> 0) (snd (wg_blink_read_mem api b (ucast p) (replicate n 0) n)))"

text \<open>The same of \<open>n\<close> UTF-16 units, of which those that are not ASCII become question marks.\<close>

definition ascii_of :: "u16 \<Rightarrow> char" where
  "ascii_of c = (if c < 128 then char_of (unat c) else CHR ''?'')"

definition read_wstr :: "'m guest_api \<Rightarrow> u32 \<Rightarrow> nat \<Rightarrow> 'm blink \<Rightarrow> string" where
  "read_wstr api p n b =
     map ascii_of (takeWhile (\<lambda>c. c \<noteq> 0) (u16s (snd (wg_blink_read_mem api b (ucast p) (replicate (2 * n) 0) (2 * n)))))"

section \<open>GetModuleHandle\<close>

definition main_base :: "engine \<Rightarrow> u32" where
  "main_base e = (case pe_img e of Some pe \<Rightarrow> ucast (image_base pe) | None \<Rightarrow> 0x400000)"

definition system_dlls :: "string list" where
  "system_dlls = [''kernel32'', ''kernelbase'', ''ntdll'', ''ws2_32'', ''wsock32'', ''advapi32'', ''user32'', ''gdi32'',
     ''shell32'', ''ole32'', ''crypt32'', ''bcrypt'', ''msvcrt'', ''ucrtbase'', ''vcruntime'', ''msvcp'', ''iphlpapi'',
     ''winhttp'', ''wininet'', ''secur32'', ''schannel'', ''api-ms-win'']"

definition h_GetModuleHandleA :: "'m guest_api \<Rightarrow> u32 list \<Rightarrow> engine \<Rightarrow> 'm blink \<Rightarrow> u64" where
  "h_GetModuleHandleA api args e b =
     (if args ! 0 = 0 then ucast (main_base e)
      else let nm = read_astr api (args ! 0) 255 b
           in if list_ex (strcasestr nm) (system_dlls @ [''sspicli'']) then 0xBFFF0000 else 0)"

definition h_GetModuleHandleW :: "'m guest_api \<Rightarrow> u32 list \<Rightarrow> engine \<Rightarrow> dll_space \<Rightarrow> 'm blink \<Rightarrow> u64" where
  "h_GetModuleHandleW api args e ds b =
     (if args ! 0 = 0 then ucast (main_base e)
      else let nm = read_wstr api (args ! 0) 255 b;
               loaded = wg_module_find ds nm
           in if strcasestr nm ''nsdialogs'' then 0xBFFF0000
              else if loaded \<noteq> 0 then ucast loaded
              else if list_ex (strcasestr nm) system_dlls then 0xBFFF0000 else 0)"

section \<open>LoadLibrary\<close>

definition h_LoadLibraryW ::
    "'m guest_api \<Rightarrow> (string \<Rightarrow> pe_image option) \<Rightarrow> u32 list \<Rightarrow> engine \<Rightarrow> files \<Rightarrow> dll_space \<Rightarrow> mapper \<Rightarrow> 'm blink \<Rightarrow>
     (u64 \<times> files \<times> dll_space \<times> mapper \<times> 'm blink) ub" where
  "h_LoadLibraryW api host args e fs ds m b =
     (let nm = (if args ! 0 \<noteq> 0 then read_wstr api (args ! 0) 511 b else [])
      in if nm = [] then Some (ucast (main_base e), fs, ds, m, b)
         else do {
           let (path, fs) = wg_files_map_path nm fs;
           (base_addr, ds, m, b) \<leftarrow> wg_load_dll api (host path) nm ds m b;
           Some (if base_addr \<noteq> 0 then ucast base_addr else ucast (0x10000000 + of_nat (length (dlls m)) * 0x1000 :: u32),
                 fs, ds, m, b)
         })"

section \<open>GetProcAddress\<close>

definition is_nsdialogs_export :: "string \<Rightarrow> bool" where
  "is_nsdialogs_export n \<longleftrightarrow> n \<in> set [''Create'', ''CreateControl'', ''CreateItem'', ''Show'', ''SetImage'', ''SetIcon'',
     ''SetUserData'', ''GetUserData'', ''OnClick'', ''OnChange'', ''OnNotify'', ''OnBack'', ''SetRTL'', ''CreateTimer'', ''KillTimer'',
     ''SelectFileDialog'', ''SelectFolderDialog'', ''SetButtonLong'']"

text \<open>A thunk of a 32-bit program gets its HLT when its address is handed out.\<close>

definition arm_thunk :: "'m guest_api \<Rightarrow> u64 \<Rightarrow> 'm blink \<Rightarrow> 'm blink" where
  "arm_thunk api a b =
     (if 0xC00000 \<le> a \<and> a < 0xC00000 + 0x20000 then snd (wg_blink_write_mem api b a [0xF4]) else b)"

definition h_GetProcAddress ::
    "'m guest_api \<Rightarrow> u32 list \<Rightarrow> dll_space \<Rightarrow> mapper \<Rightarrow> 'm blink \<Rightarrow> (u64 \<times> mapper \<times> 'm blink) ub" where
  "h_GetProcAddress api args ds m b =
     (if 0xFFFF < args ! 1
      then let fn = read_astr api (args ! 1) 255 b
           in if is_nsdialogs_export fn
              then do {
                (a, m) \<leftarrow> wg_dll_mapper_resolve m ''nsDialogs.dll'' fn;
                let t = ucast (ucast a :: u32);
                Some (t, m, arm_thunk api t b)
              }
              else do {
                ex \<leftarrow> wg_module_export ds (args ! 0) fn;
                if ex \<noteq> 0 then Some (ucast ex, m, b)
                else do {
                  let a = wg_dll_mapper_find_any m fn;
                  (a, m) \<leftarrow> (if a = 0 then wg_dll_mapper_resolve m ''KERNEL32.dll'' fn else Some (a, m));
                  Some (a, m, arm_thunk api a b)
                }
              }
      else let ord = ucast (args ! 1) :: u16
           in do {
             (a, m) \<leftarrow> wg_dll_mapper_resolve m ''SHELL32.dll''
               (if ord = 680 then ''IsUserAnAdmin'' else c_string (ordinal_name ord));
             Some (a, m, arm_thunk api a b)
           })"

end
