(* ===== verification/EngineStrings.thy ===== *)
theory EngineStrings
  imports EngineModuleCalls "HOL-Library.Signed_Division"
begin

text \<open>
  The Win32 calls on strings, \<open>handle_blink_thunk\<close> in \<open>Sources/Core/wg_engine.c\<close>: lengths, copies,
  conversions between the two character sets, character types. They work through buffers on the
  host's stack that are not initialised: \<open>junk n\<close> are the \<open>n\<close> bytes that such a buffer holds, which a read
  that stops at a fault leaves there.
\<close>

section \<open>Buffers\<close>

definition read_buf :: "'m guest_api \<Rightarrow> (nat \<Rightarrow> u8 list) \<Rightarrow> u32 \<Rightarrow> nat \<Rightarrow> 'm blink \<Rightarrow> u8 list" where
  "read_buf api junk a n b = snd (wg_blink_read_mem api b (ucast a) (junk n) n)"

definition read_units :: "'m guest_api \<Rightarrow> (nat \<Rightarrow> u8 list) \<Rightarrow> u32 \<Rightarrow> nat \<Rightarrow> 'm blink \<Rightarrow> u16 list" where
  "read_units api junk a n b = u16s (read_buf api junk a (2 * n) b)"

definition zeros :: "nat \<Rightarrow> u8 list" where
  "zeros n = replicate n 0"

definition wide_bytes :: "u16 list \<Rightarrow> u8 list" where
  "wide_bytes ws = concat (map (le_bytes 2) ws)"

text \<open>What stands before the first NUL.\<close>

definition to_nul :: "'a::zero list \<Rightarrow> 'a list" where
  "to_nul xs = takeWhile (\<lambda>c. c \<noteq> 0) xs"

section \<open>Walking\<close>

definition h_CharNextW :: "'m guest_api \<Rightarrow> u64 \<Rightarrow> u32 list \<Rightarrow> 'm blink \<Rightarrow> u64" where
  "h_CharNextW api dflt args b =
     (if args ! 0 = 0 then dflt
      else if read_units api zeros (args ! 0) 1 b \<noteq> [0] then ucast (args ! 0 + 2) else ucast (args ! 0))"

definition h_CharNextA :: "'m guest_api \<Rightarrow> u64 \<Rightarrow> u32 list \<Rightarrow> 'm blink \<Rightarrow> u64" where
  "h_CharNextA api dflt args b =
     (if args ! 0 = 0 then dflt
      else if read_buf api zeros (args ! 0) 1 b \<noteq> [0] then ucast (args ! 0 + 1) else ucast (args ! 0))"

definition h_CharPrevW :: "u32 list \<Rightarrow> u64" where
  "h_CharPrevW args = (if args ! 0 < args ! 1 then ucast (args ! 1 - 2) else ucast (args ! 0))"

section \<open>Lengths and copies\<close>

definition h_lstrlenW :: "'m guest_api \<Rightarrow> (nat \<Rightarrow> u8 list) \<Rightarrow> u64 \<Rightarrow> u32 list \<Rightarrow> 'm blink \<Rightarrow> u64" where
  "h_lstrlenW api junk dflt args b =
     (if args ! 0 = 0 then dflt
      else of_nat (length (to_nul (take 1023 (read_units api junk (args ! 0) 1024 b)))))"

definition h_lstrlenA :: "'m guest_api \<Rightarrow> (nat \<Rightarrow> u8 list) \<Rightarrow> u64 \<Rightarrow> u32 list \<Rightarrow> 'm blink \<Rightarrow> u64" where
  "h_lstrlenA api junk dflt args b =
     (if args ! 0 = 0 then dflt
      else of_nat (length (to_nul (take 1023 (read_buf api junk (args ! 0) 1024 b)))))"

definition h_lstrcpyW :: "'m guest_api \<Rightarrow> (nat \<Rightarrow> u8 list) \<Rightarrow> u64 \<Rightarrow> u32 list \<Rightarrow> 'm blink \<Rightarrow> u64 \<times> 'm blink" where
  "h_lstrcpyW api junk dflt args b =
     (if args ! 0 \<noteq> 0 \<and> args ! 1 \<noteq> 0
      then let s = to_nul (take 1023 (read_units api junk (args ! 1) 1024 b))
           in (ucast (args ! 0), write_bytes api (args ! 0) (wide_bytes (s @ [0])) b)
      else (dflt, b))"

definition h_lstrcpyA :: "'m guest_api \<Rightarrow> (nat \<Rightarrow> u8 list) \<Rightarrow> u64 \<Rightarrow> u32 list \<Rightarrow> 'm blink \<Rightarrow> u64 \<times> 'm blink" where
  "h_lstrcpyA api junk dflt args b =
     (if args ! 0 \<noteq> 0 \<and> args ! 1 \<noteq> 0
      then let s = to_nul (take 1023 (read_buf api junk (args ! 1) 1024 b))
           in (ucast (args ! 0), write_bytes api (args ! 0) (s @ [0]) b)
      else (dflt, b))"

definition h_lstrcpynW :: "'m guest_api \<Rightarrow> (nat \<Rightarrow> u8 list) \<Rightarrow> u64 \<Rightarrow> u32 list \<Rightarrow> 'm blink \<Rightarrow> u64 \<times> 'm blink" where
  "h_lstrcpynW api junk dflt args b =
     (if args ! 0 \<noteq> 0 \<and> args ! 1 \<noteq> 0 \<and> 0 < sint (args ! 2)
      then let maxlen = min 1024 (nat (sint (args ! 2)));
               s = to_nul (take (maxlen - 1) (read_units api junk (args ! 1) maxlen b))
           in (ucast (args ! 0), write_bytes api (args ! 0) (wide_bytes (s @ [0])) b)
      else (dflt, b))"

text \<open>\<open>copylen\<close> is \<open>- 1\<close> when the destination has no end in its buffer, which cuts it off.\<close>

definition h_lstrcatW :: "'m guest_api \<Rightarrow> (nat \<Rightarrow> u8 list) \<Rightarrow> u64 \<Rightarrow> u32 list \<Rightarrow> 'm blink \<Rightarrow> u64 \<times> 'm blink" where
  "h_lstrcatW api junk dflt args b =
     (if args ! 0 \<noteq> 0 \<and> args ! 1 \<noteq> 0
      then let d = to_nul (take 1023 (read_units api junk (args ! 0) 1024 b));
               s = to_nul (take 1023 (read_units api junk (args ! 1) 1024 b));
               copylen = (if 1022 < length d + length s then 1022 - int (length d) else int (length s))
           in (ucast (args ! 0),
               write_bytes api (args ! 0)
                 (wide_bytes (take (nat (int (length d) + copylen)) (d @ take (nat copylen) s) @ [0])) b)
      else (dflt, b))"

section \<open>Conversions\<close>

text \<open>A string that ends with NUL is read unit by unit, at most \<open>n\<close> of them.\<close>

fun read_wz :: "'m guest_api \<Rightarrow> u32 \<Rightarrow> nat \<Rightarrow> 'm blink \<Rightarrow> u16 list" where
  "read_wz api a 0 b = []"
| "read_wz api a (Suc n) b =
     (let c = hd (read_units api zeros a 1 b) in if c = 0 then [c] else c # read_wz api (a + 2) n b)"

fun read_az :: "'m guest_api \<Rightarrow> u32 \<Rightarrow> nat \<Rightarrow> 'm blink \<Rightarrow> u8 list" where
  "read_az api a 0 b = []"
| "read_az api a (Suc n) b =
     (let c = hd (read_buf api zeros a 1 b) in if c = 0 then [c] else c # read_az api (a + 1) n b)"

definition narrow :: "u16 \<Rightarrow> u8" where
  "narrow c = (if c < 128 then ucast c else 0x3F)"

text \<open>A negative size of the destination becomes an enormous number of bytes that are taken from a
  buffer of the host.\<close>

definition put_converted :: "'m guest_api \<Rightarrow> ('a list \<Rightarrow> u8 list) \<Rightarrow> 'a list \<Rightarrow> u32 \<Rightarrow> int \<Rightarrow> 'm blink \<Rightarrow> (u64 \<times> 'm blink) ub" where
  "put_converted api enc xs dst cap b =
     (if cap = 0 then Some (of_nat (length xs), b)
      else let n = (if int (length xs) < cap then int (length xs) else cap)
           in if dst = 0 then Some (of_int n, b)
              else do { guard (0 \<le> n); Some (of_int n, write_bytes api dst (enc (take (nat n) xs)) b) })"

definition h_WideCharToMultiByte :: "'m guest_api \<Rightarrow> (nat \<Rightarrow> u8 list) \<Rightarrow> u32 list \<Rightarrow> 'm blink \<Rightarrow> (u64 \<times> 'm blink) ub" where
  "h_WideCharToMultiByte api junk args b =
     (let cch = sint (args ! 3);
          ws = (if args ! 2 = 0 then []
                else if cch < 0 then read_wz api (args ! 2) 2047 b
                else read_units api junk (args ! 2) (if cch < 2047 then nat cch else 2047) b)
      in put_converted api (\<lambda>xs. xs) (map narrow ws) (args ! 4) (sint (args ! 5)) b)"

definition h_MultiByteToWideChar :: "'m guest_api \<Rightarrow> (nat \<Rightarrow> u8 list) \<Rightarrow> u32 list \<Rightarrow> 'm blink \<Rightarrow> (u64 \<times> 'm blink) ub" where
  "h_MultiByteToWideChar api junk args b =
     (let cbmb = sint (args ! 3);
          bs = (if args ! 2 = 0 then []
                else if cbmb < 0 then read_az api (args ! 2) 2047 b
                else read_buf api junk (args ! 2) (if cbmb < 2047 then nat cbmb else 2047) b)
      in put_converted api wide_bytes (map ucast bs :: u16 list) (args ! 4) (sint (args ! 5)) b)"

section \<open>Character types and mappings\<close>

text \<open>The loop counts the units up to a NUL, which it includes. \<open>prev\<close> is what the variable of the unit
  holds.\<close>

fun count_units :: "'m guest_api \<Rightarrow> u16 \<Rightarrow> u32 \<Rightarrow> nat \<Rightarrow> 'm blink \<Rightarrow> nat" where
  "count_units api prev a 0 b = 0"
| "count_units api prev a (Suc n) b =
     (let c = le_word (snd (wg_blink_read_mem api b (ucast a) (le_bytes 2 prev) 2))
      in if c = 0 then 1 else Suc (count_units api c (a + 2) n b))"

definition char_type :: "u16 \<Rightarrow> u16" where
  "char_type c =
     (if 0x41 \<le> c \<and> c \<le> 0x5A then 0x0181
      else if 0x61 \<le> c \<and> c \<le> 0x7A then 0x0182
      else if 0x30 \<le> c \<and> c \<le> 0x39 then 0x0084
      else if c = 0x20 then 0x0048
      else if c < 0x20 then 0x0020
      else 0x0010)"

definition h_GetStringType :: "'m guest_api \<Rightarrow> (nat \<Rightarrow> u8 list) \<Rightarrow> bool \<Rightarrow> u32 list \<Rightarrow> 'm blink \<Rightarrow> u64 \<times> 'm blink" where
  "h_GetStringType api junk ex args b =
     (let ofs = (if ex then 1 else 0); src = args ! (1 + ofs); out = args ! (3 + ofs);
          count = sint (args ! (2 + ofs));
          count = (if count < 0 \<and> src \<noteq> 0 then int (count_units api (le_word (junk 2)) src 256 b) else count)
      in (1, if out \<noteq> 0 \<and> 0 < count \<and> count \<le> 512
             then write_bytes api out (wide_bytes
                    (if args ! ofs AND 1 \<noteq> 0 \<and> src \<noteq> 0 then map char_type (read_units api junk src (nat count) b)
                     else replicate (nat count) 0)) b
             else b))"

text \<open>\<open>fn[12]\<close> is never an \<open>A\<close>, so the unit has two bytes also for LCMapStringA.\<close>

definition h_LCMapString :: "'m guest_api \<Rightarrow> (nat \<Rightarrow> u8 list) \<Rightarrow> string \<Rightarrow> u32 list \<Rightarrow> 'm blink \<Rightarrow> (u64 \<times> 'm blink) ub" where
  "h_LCMapString api junk fn args b =
     (let ofs = (if fn ! 11 = CHR ''E'' then 1 else 0); src = args ! (2 + ofs); dst = args ! (4 + ofs);
          src_len = sint (args ! (3 + ofs)); dst_len = sint (args ! (5 + ofs));
          src_len = (if src_len < 0 \<and> src \<noteq> 0 then int (count_units api (le_word (junk 2)) src 512 b) else src_len)
      in if dst = 0 \<or> dst_len = 0 then Some (ucast (of_int src_len :: u32), b)
         else if src \<noteq> 0 \<and> 0 < src_len then do {
           let n = (if src_len < dst_len then src_len else dst_len);
           len \<leftarrow> c_int (n * 2);
           let len = (if 1024 < len then 1024 else len);
           guard (0 \<le> len);
           Some (ucast (of_int n :: u32), write_bytes api dst (read_buf api junk src (nat len) b) b)
         } else Some (0, b))"

definition cp_info :: "u8 list" where
  "cp_info = [1, 0, 0, 0, 0x3F] @ replicate 13 0"

section \<open>Arithmetic\<close>

definition h_MulDiv :: "u32 list \<Rightarrow> u64" where
  "h_MulDiv args =
     (if sint (args ! 2) = 0 then - 1 else of_int (sint (args ! 0) * sint (args ! 1) sdiv sint (args ! 2)))"

section \<open>The dispatch\<close>

text \<open>\<open>None\<close> for a name of another branch.\<close>

definition string_call ::
    "'m guest_api \<Rightarrow> (nat \<Rightarrow> u8 list) \<Rightarrow> u64 \<Rightarrow> string \<Rightarrow> u32 list \<Rightarrow> 'm blink \<Rightarrow> (u64 \<times> 'm blink) ub option" where
  "string_call api junk dflt fn args b =
     (if fn = ''CharNextW'' then Some (Some (h_CharNextW api dflt args b, b))
      else if fn = ''CharNextA'' then Some (Some (h_CharNextA api dflt args b, b))
      else if fn = ''CharPrevW'' then Some (Some (h_CharPrevW args, b))
      else if fn = ''lstrlenW'' then Some (Some (h_lstrlenW api junk dflt args b, b))
      else if fn = ''lstrlenA'' then Some (Some (h_lstrlenA api junk dflt args b, b))
      else if fn = ''lstrcpyW'' then Some (Some (h_lstrcpyW api junk dflt args b))
      else if fn = ''lstrcpyA'' then Some (Some (h_lstrcpyA api junk dflt args b))
      else if fn = ''lstrcpynW'' then Some (Some (h_lstrcpynW api junk dflt args b))
      else if fn = ''lstrcatW'' then Some (Some (h_lstrcatW api junk dflt args b))
      else if fn = ''lstrcmpW'' \<or> fn = ''lstrcmpiW'' \<or> fn = ''lstrcmpiA'' then Some (Some (0, b))
      else if fn = ''MulDiv'' then Some (Some (h_MulDiv args, b))
      else if fn = ''WideCharToMultiByte'' then Some (h_WideCharToMultiByte api junk args b)
      else if fn = ''MultiByteToWideChar'' then Some (h_MultiByteToWideChar api junk args b)
      else if fn = ''GetStringTypeW'' \<or> fn = ''GetStringTypeExW'' then Some (Some (h_GetStringType api junk (fn ! 13 = CHR ''E'') args b))
      else if fn = ''LCMapStringW'' \<or> fn = ''LCMapStringA'' \<or> fn = ''LCMapStringEx'' then Some (h_LCMapString api junk fn args b)
      else if fn = ''GetACP'' then Some (Some (1252, b))
      else if fn = ''GetOEMCP'' \<or> fn = ''GetConsoleOutputCP'' \<or> fn = ''GetConsoleCP'' then Some (Some (437, b))
      else if fn = ''IsValidCodePage'' then Some (Some (1, b))
      else if fn = ''GetCPInfo'' then Some (Some (1, if args ! 1 \<noteq> 0 then write_bytes api (args ! 1) cp_info b else b))
      else None)"

end
