(* ===== verification/GuestText.thy ===== *)
theory GuestText
  imports EngineStrings GuestRam
begin

text \<open>
  Strings in guest memory: what the calls that take a string read, when the memory keeps its bytes.
\<close>

definition bytes_at :: "('m \<Rightarrow> u64 \<Rightarrow> u8) \<Rightarrow> 'm blink \<Rightarrow> u32 \<Rightarrow> u8 list \<Rightarrow> bool" where
  "bytes_at peek b a bs \<longleftrightarrow> map (\<lambda>i. byte_in peek b (ucast a + of_nat i)) [0..<length bs] = bs"

lemma read_at:
  assumes "flat_ram api peek" and "b \<noteq> None" and "bytes_at peek b a bs" and "length bs \<le> n" and "length buf = n"
  shows "\<exists>rest. snd (wg_blink_read_mem api b (ucast a) buf n) = bs @ rest \<and> length rest = n - length bs"
proof -
  have n: "[0..<n] = [0..<length bs] @ [length bs..<n]" using assms(4) upt_add_eq_append [of 0 "length bs" "n - length bs"] by simp
  show ?thesis
    using assms(3) by (simp add: read_mem_bytes [OF assms(1,2,5)] n bytes_at_def)
qed

lemma to_nul_stop: "0 \<notin> set xs \<Longrightarrow> to_nul (xs @ 0 # ys) = xs"
  by (induction xs) (auto simp: to_nul_def)

lemma to_nul_take:
  assumes "0 \<notin> set xs" and "length xs \<le> m"
  shows "to_nul (take m (xs @ 0 # ys)) = xs"
proof (cases "length xs = m")
  case True
  have "to_nul xs = xs" using assms(1) by (auto simp: to_nul_def takeWhile_eq_all_conv)
  then show ?thesis using True by simp
next
  case False
  then obtain k where "m - length xs = Suc k" using assms(2) by (metis Suc_diff_Suc le_neq_implies_less)
  then show ?thesis using assms to_nul_stop [OF assms(1)] by simp
qed

text \<open>An ANSI string that is shorter than the buffer.\<close>

lemma read_astr_text:
  assumes "flat_ram api peek" and "b \<noteq> None" and "bytes_at peek b a (bs @ [0])" and "0 \<notin> set bs" and "length bs < n"
  shows "read_astr api a n b = c_string bs"
proof -
  obtain rest where "snd (wg_blink_read_mem api b (ucast a) (replicate n 0) n) = (bs @ [0]) @ rest"
    using read_at [OF assms(1-3), of n "replicate n 0"] assms(5) by auto
  then show ?thesis using to_nul_stop [OF assms(4), of rest] by (simp add: read_astr_def to_nul_def)
qed

text \<open>A string of UTF-16 units.\<close>

lemma length_wide_bytes [simp]: "length (wide_bytes ws) = 2 * length ws"
  by (induction ws) (simp_all add: wide_bytes_def)

lemma u16s_wide: "u16s (wide_bytes ws @ rest) = ws @ u16s rest"
proof (induction ws)
  case (Cons w ws)
  obtain b0 b1 where b: "le_bytes 2 w = [b0, b1]" using length_le_bytes [of 2 w] by (auto simp: eval_nat_numeral length_Suc_conv)
  have "le_word (le_bytes 2 w) = w" by (simp add: le_word_le_bytes_full)
  then show ?case using Cons by (simp add: wide_bytes_def b)
qed (simp add: wide_bytes_def)

lemma read_wstr_text:
  assumes "flat_ram api peek" and "b \<noteq> None" and "bytes_at peek b a (wide_bytes (ws @ [0]))" and "0 \<notin> set ws" and "length ws < n"
  shows "read_wstr api a n b = map ascii_of ws"
proof -
  have "length (wide_bytes (ws @ [0])) \<le> 2 * n" using assms(5) by simp
  then obtain rest where "snd (wg_blink_read_mem api b (ucast a) (replicate (2 * n) 0) (2 * n)) = wide_bytes (ws @ [0]) @ rest"
    using read_at [OF assms(1-3), of _ "replicate (2 * n) 0"] by auto
  then show ?thesis using to_nul_stop [OF assms(4), of "u16s rest"] by (simp add: read_wstr_def u16s_wide to_nul_def)
qed

section \<open>Writing\<close>

lemma offset_in: "i < 2 ^ 32 \<Longrightarrow> unat ((a :: u64) + of_nat i - a) = i"
  by (simp add: unat_of_nat)

lemma bytes_at_write:
  assumes "flat_ram api peek" and "b \<noteq> None" and "length bs < 2 ^ 32"
  shows "bytes_at peek (write_bytes api a bs b) a bs"
  unfolding bytes_at_def
proof (rule nth_equalityI)
  fix i assume "i < length (map (\<lambda>i. byte_in peek (write_bytes api a bs b) (ucast a + of_nat i)) [0..<length bs])"
  then have i: "i < length bs" by simp
  then have "i < 2 ^ 32" using assms(3) by simp
  from offset_in [OF this, of "ucast a"] i
  show "map (\<lambda>i. byte_in peek (write_bytes api a bs b) (ucast a + of_nat i)) [0..<length bs] ! i = bs ! i"
    by (simp add: byte_in_write [OF assms(1,2)])
qed simp

lemma write_elsewhere:
  assumes "flat_ram api peek" and "b \<noteq> None" and "length bs \<le> unat (x - ucast a)"
  shows "byte_in peek (write_bytes api a bs b) x = byte_in peek b x"
  using assms(3) by (simp add: byte_in_write [OF assms(1,2)])

lemma byte_outside:
  assumes "flat_ram api peek" and "b \<noteq> None" and "unat x < unat a \<or> unat a + length bs \<le> unat x" and "length bs \<le> 2 ^ 32"
  shows "byte_in peek (write_bytes api a bs b) x = byte_in peek b x"
  using assms(3,4) unat_below [of a]
  by (intro write_elsewhere [OF assms(1,2)]) (auto simp: unat_diff_cases unat_ucast_up)

lemma write32_outside:
  assumes "flat_ram api peek" and "b \<noteq> None" and "unat x < unat a \<or> unat a + 4 \<le> unat x"
  shows "byte_in peek (write32 api a v b) x = byte_in peek b x"
  unfolding write32_def by (rule byte_outside [OF assms(1,2)]) (use assms(3) in \<open>simp_all add: length_le_bytes\<close>)

lemma bytes_at_append:
  assumes "bytes_at peek b a (xs @ ys)" and "unat a + length xs < 2 ^ 32"
  shows "bytes_at peek b a xs" and "bytes_at peek b (a + of_nat (length xs)) ys"
proof -
  let ?f = "\<lambda>i. byte_in peek b (ucast a + of_nat i)"
  have n: "[0..<length xs + length ys] = [0..<length xs] @ map (\<lambda>i. i + length xs) [0..<length ys]"
    using upt_add_eq_append [of 0 "length xs" "length ys"] by (simp add: map_add_upt add.commute)
  then have s: "map ?f [0..<length xs] @ map (\<lambda>i. ?f (i + length xs)) [0..<length ys] = xs @ ys"
    using assms(1) by (simp add: bytes_at_def comp_def)
  then have "map ?f [0..<length xs] = xs" "map (\<lambda>i. ?f (i + length xs)) [0..<length ys] = ys"
    by (simp_all add: append_eq_append_conv)
  moreover have "ucast (a + of_nat (length xs)) + of_nat i = (ucast a + of_nat (i + length xs) :: u64)" for i
  proof -
    have u: "unat (of_nat (length xs) :: u32) = length xs" using assms(2) by (simp add: unat_of_nat)
    have "unat (a + of_nat (length xs)) = unat a + length xs" using assms(2) by (simp add: unat_word_ariths u)
    then have "unat (ucast (a + of_nat (length xs)) :: u64) = unat (ucast a + of_nat (length xs) :: u64)"
      using assms(2) by (simp add: unat_ucast_up unat_word_ariths unat_of_nat)
    then have "(ucast (a + of_nat (length xs)) :: u64) = ucast a + of_nat (length xs)" by (simp only: unsigned_word_eqI)
    then show ?thesis by simp
  qed
  ultimately show "bytes_at peek b a xs" "bytes_at peek b (a + of_nat (length xs)) ys"
    by (simp_all add: bytes_at_def algebra_simps)
qed

text \<open>A write leaves other bytes alone.\<close>

lemma unat_up_diff_far:
  fixes a c :: u32
  assumes "i < 2 ^ 32"
  shows "unat (ucast a + of_nat i - ucast c :: u64) =
    (if unat c \<le> unat a + i then unat a + i - unat c else 2 ^ 64 + (unat a + i) - unat c)"
proof -
  have u: "unat (ucast a + of_nat i :: u64) = unat a + i"
    using assms unat_below [of a] by (simp add: unat_word_ariths unat_ucast_up unat_of_nat)
  then show ?thesis using unat_below [of c] by (simp add: unat_diff_cases unat_ucast_up)
qed

lemma bytes_at_other:
  assumes "flat_ram api peek" and "b \<noteq> None" and "bytes_at peek b a bs" and "length bs \<le> 2 ^ 32" and "length cs \<le> 2 ^ 32"
    and "unat a + length bs \<le> unat c \<or> unat c + length cs \<le> unat a"
  shows "bytes_at peek (write_bytes api c cs b) a bs"
proof -
  have "byte_in peek (write_bytes api c cs b) (ucast a + of_nat i) = byte_in peek b (ucast a + of_nat i)" if "i < length bs" for i
  proof -
    have "i < 2 ^ 32" using that assms(4) by simp
    from unat_up_diff_far [OF this, of a c] have "length cs \<le> unat (ucast a + of_nat i - ucast c :: u64)"
      using assms(5,6) that unat_below [of c] by (auto split: if_splits)
    then show ?thesis by (rule write_elsewhere [OF assms(1,2)])
  qed
  then have "map (\<lambda>i. byte_in peek (write_bytes api c cs b) (ucast a + of_nat i)) [0..<length bs] =
      map (\<lambda>i. byte_in peek b (ucast a + of_nat i)) [0..<length bs]" by simp
  then show ?thesis using assms(3) by (simp only: bytes_at_def)
qed

lemma read_at_exact:
  assumes "flat_ram api peek" and "b \<noteq> None" and "bytes_at peek b a bs" and "length buf = length bs"
  shows "snd (wg_blink_read_mem api b (ucast a) buf (length bs)) = bs"
  using read_at [OF assms(1-3) order_refl assms(4)] by auto

end
