(* ===== verification/GuestTls.thy ===== *)
theory GuestTls
  imports GuestTeb GuestText
begin

text \<open>
  Static thread-local data: the block that the TLS directory of a 32-bit program describes, which
  \<open>wg_setup_win32_teb\<close> allocates behind the blocks of \<open>GuestTeb\<close>, fills from the template and enters
  in the TLS array.
\<close>

section \<open>What each part leaves alone\<close>

lemma write_fields_bytes:
  fixes p lim :: u32
  assumes ram: "flat_ram api peek" and lim: "unat p + unat lim \<le> 2 ^ 32"
    and x: "unat x < unat p \<or> unat p + unat lim \<le> unat x"
  shows "b \<noteq> None \<Longrightarrow> fields_ok lim fs \<Longrightarrow> byte_in peek (write_fields api p fs b) x = byte_in peek b x"
proof (induction fs arbitrary: b)
  case (Cons f fs)
  obtain off v where f: "f = (off, v)" by (cases f)
  have off: "unat off + 4 \<le> unat lim" and ok: "fields_ok lim fs" using Cons.prems(2) by (auto simp: f fields_ok_def)
  have "unat (p + off) = unat p + unat off" using off lim by (simp add: unat_add)
  then have "byte_in peek (write32 api (p + off) v b) x = byte_in peek b x"
    using off x by (intro write32_outside [OF ram Cons.prems(1)]) auto
  moreover have "write32 api (p + off) v b \<noteq> None" using Cons.prems(1) by (simp only: write32_Some not_False_eq_True)
  ultimately show ?case using Cons.IH [OF _ ok] by (simp add: f write_fields_Cons del: not_None_eq)
qed (simp add: write_fields_def)

lemma write_peb_bytes:
  fixes peb :: u32
  assumes ram: "flat_ram api peek" and b: "b \<noteq> None" and p: "unat peb + 4096 \<le> 2 ^ 32"
    and x: "unat x < unat peb \<or> unat peb + 4096 \<le> unat x"
  shows "byte_in peek (write_peb api peb ibase b) x = byte_in peek b x"
proof -
  let ?b1 = "write_bytes api (peb + 0x02) [0] b"
  let ?b2 = "write_fields api peb (peb_fields ibase) ?b1"
  let ?b3 = "write_bytes api (peb + 0xAC) (le_bytes 2 (19045 :: u16)) ?b2"
  have b1: "?b1 \<noteq> None" by (simp only: write_bytes_Some b not_False_eq_True)
  have b2: "?b2 \<noteq> None" by (simp only: write_fields_Some b1 not_False_eq_True)
  have b3: "?b3 \<noteq> None" by (simp only: write_bytes_Some b2 not_False_eq_True)
  have at: "unat (peb + k) = unat peb + unat k" if "unat k < 4096" for k using p that by (simp add: unat_add)
  have "byte_in peek (write_peb api peb ibase b) x = byte_in peek ?b3 x"
    unfolding write_peb_def by (rule write32_outside [OF ram b3]) (use x at in auto)
  also have "\<dots> = byte_in peek ?b2 x"
    by (rule byte_outside [OF ram b2]) (use x at in \<open>auto simp: length_le_bytes\<close>)
  also have "\<dots> = byte_in peek ?b1 x"
    by (rule write_fields_bytes [OF ram _ _ b1 teb_fields_ok(2)]) (use p x in auto)
  also have "\<dots> = byte_in peek b x" by (rule byte_outside [OF ram b]) (use x at in auto)
  finally show ?thesis .
qed

lemma read32_same:
  fixes a :: u32
  assumes ram: "flat_ram api peek" and b: "b \<noteq> None" "b' \<noteq> None" and fit: "unat a + 4 \<le> 2 ^ 32"
    and same: "\<And>x. unat a \<le> unat x \<Longrightarrow> unat x < unat a + 4 \<Longrightarrow> byte_in peek b' x = byte_in peek b x"
  shows "read32 api (ucast a) b' = read32 api (ucast a) b"
proof -
  have "unat (ucast a + of_nat i :: u64) = unat a + i" if "i < 4" for i
    using that fit by (simp add: unat_word_ariths unat_ucast_up unat_of_nat)
  then have "map (\<lambda>i. byte_in peek b' (ucast a + of_nat i)) [0..<4] = map (\<lambda>i. byte_in peek b (ucast a + of_nat i)) [0..<4]"
    using same by simp
  then show ?thesis unfolding read32_bytes [OF ram b(1)] read32_bytes [OF ram b(2)] by (simp only:)
qed

lemma bytes_same:
  fixes a :: u32
  assumes fit: "unat a + n \<le> 2 ^ 32"
    and same: "\<And>x. unat a \<le> unat x \<Longrightarrow> unat x < unat a + n \<Longrightarrow> byte_in peek b' x = byte_in peek b x"
  shows "map (\<lambda>i. byte_in peek b' (ucast a + of_nat i)) [0..<n] = map (\<lambda>i. byte_in peek b (ucast a + of_nat i)) [0..<n]"
proof (rule map_cong [OF refl])
  fix i assume "i \<in> set [0..<n]"
  then have "unat (ucast a + of_nat i :: u64) = unat a + i" "i < n"
    using fit by (simp_all add: unat_word_ariths unat_ucast_up unat_of_nat)
  then show "byte_in peek b' (ucast a + of_nat i) = byte_in peek b (ucast a + of_nat i)" by (intro same) simp_all
qed

text \<open>Where the machine has room, the pages of an allocation are zero.\<close>

lemma alloc_zeroes:
  fixes p :: u32
  assumes ram: "flat_ram api peek" and h: "heap_at e t" and r: "wg_guest_alloc api n e b = (p, e', b')" and b: "b \<noteq> None"
    and room: "\<And>m a n. reserve_virtual api m a n \<noteq> None"
    and n: "n \<noteq> 0" "unat n \<le> 512 * 1024 * 1024" and x: "t \<le> unat x" "unat x < t + page_round (unat n)"
  shows "byte_in peek b' x = 0"
proof -
  let ?k = "(n + 0xFFF) AND NOT 0xFFF"
  have hp: "unat (heap_ptr e) = t" using h by (auto simp: heap_at_def)
  have "unat (n + 0xFFF) = unat n + 4095" using n(2) by (subst unat_add) simp_all
  then have k: "unat ?k = page_round (unat n)" by (simp only: unat_clear_low page_round_def)
  have "unat (x - ucast (heap_ptr e)) = unat x - t" using x(1) hp by (simp add: unat_diff_cases unat_ucast_up)
  then have in_k: "unat (x - ucast (heap_ptr e)) < unat ?k" using x k by simp
  have load: "byte_in peek (snd (wg_blink_load_code api False b (ucast (heap_ptr e)) (replicate (unat q) 0) q 0)) x = 0"
    if "unat (x - ucast (heap_ptr e)) < unat q" for q :: u32
    using that room b
    by (auto simp: byte_in_def wg_blink_load_code_def WGBlinkVM_LoadCode_def flat_ramD(2) [OF ram]
          simp del: not_None_eq split: option.split prod.split)
  have "b' = snd (wg_blink_load_code api False b (ucast (heap_ptr e)) (replicate (unat ?k) 0) ?k 0)"
    using r n small_no_top_bit [of n] by (auto simp: wg_guest_alloc_def Let_def word_less_nat_alt)
  then show ?thesis using load [OF in_k] by simp
qed

section \<open>The blocks before the directory is read\<close>

text \<open>The rest of \<open>wg_setup_win32_teb\<close>, once the blocks \<open>blk\<close> and \<open>peb\<close> and the TLS array are there.\<close>

definition finish_teb :: "'m guest_api \<Rightarrow> pe_image \<Rightarrow> u32 \<Rightarrow> engine \<Rightarrow> 'm blink \<Rightarrow> engine \<times> 'm blink" where
  "finish_teb api pe blk e b =
     (let (e, b) = (if tls_rva pe \<noteq> 0
            then let (ix, e, b) = tls_block api (ucast (image_base pe) + tls_rva pe) (blk + 0x2000) e b
                 in (e, if ix \<noteq> 0 then write32 api ix 0 b else b)
            else (e, b))
      in (e\<lparr>main_teb := blk\<rparr>, wg_blink_set_fs_base b (ucast blk)))"

lemma setup_teb_blocks:
  fixes b :: "'m blink"
  assumes ram: "flat_ram api peek" and h: "heap_at e t" "0 < t" and room: "t + 3 * 4096 < 2 ^ 32"
    and pe: "pe_img e = Some pe" "\<not> is_64bit pe" and b: "b \<noteq> None"
  obtains blk ec bw where "wg_setup_win32_teb api e b = finish_teb api pe blk ec bw" and "unat blk = t"
    and "heap_at ec (t + 3 * 4096)" and "bw \<noteq> None"
    and "\<And>x. unat x < t \<or> t + 3 * 4096 \<le> unat x \<Longrightarrow> byte_in peek bw x = byte_in peek b x"
    and "\<And>off v. (off, v) \<in> set (teb_fields blk (blk + 0x1000) (blk + 0x2000) 0x7FFF0000 0x7FEF0000 0x1004) \<Longrightarrow>
      read32 api (ucast (blk + off)) bw = v"
    and "\<And>off v. (off, v) \<in> set (peb_fields (ucast (image_base pe))) \<Longrightarrow> read32 api (ucast (blk + 0x1000 + off)) bw = v"
proof -
  obtain blk ea ba where 1: "wg_guest_alloc api 0x1000 e b = (blk, ea, ba)" by (rule prod_cases3)
  obtain peb eb bb where 2: "wg_guest_alloc api 0x1000 ea ba = (peb, eb, bb)" by (rule prod_cases3)
  obtain tls_array ec bc where 3: "wg_guest_alloc api 0x400 eb bb = (tls_array, ec, bc)" by (rule prod_cases3)
  have pr: "page_round (unat (0x1000 :: u32)) = 4096" "page_round (unat (0x400 :: u32)) = 4096"
    by (simp_all add: page_round_def)
  note g1 = guest_alloc_spec(1,2) [OF h(1) _ _ _ 1]
  have blk: "unat blk = t" "heap_at ea (t + 4096)" using g1 room by (simp_all only: pr) simp_all
  note g2 = guest_alloc_spec(1,2) [OF blk(2) _ _ _ 2]
  have peb: "unat peb = t + 4096" "heap_at eb (t + 4096 + 4096)" using g2 room by (simp_all only: pr) simp_all
  note g3 = guest_alloc_spec(1,2) [OF peb(2) _ _ _ 3]
  have tls: "unat tls_array = t + 8192" "heap_at ec (t + 8192 + 4096)" using g3 room by (simp_all only: pr) simp_all
  have ne: "blk \<noteq> 0" "peb \<noteq> 0" "tls_array \<noteq> 0" using blk(1) peb(1) tls(1) h(2) by auto
  have offs: "peb = blk + 0x1000" "tls_array = blk + 0x2000"
    using blk(1) peb(1) tls(1) room by (simp_all add: word_unat_eq_iff unat_add)
  have ba: "ba \<noteq> None" and bb: "bb \<noteq> None" and bc: "bc \<noteq> None"
    using b alloc_keeps(2) [OF 1] alloc_keeps(2) [OF 2] alloc_keeps(2) [OF 3] by blast+
  let ?fs = "teb_fields blk (blk + 0x1000) (blk + 0x2000) 0x7FFF0000 0x7FEF0000 0x1004"
  let ?w = "write_fields api blk ?fs bc"
  let ?p = "write_peb api (blk + 0x1000) (ucast (image_base pe)) ?w"
  have w: "?w \<noteq> None" by (simp only: write_fields_Some bc not_False_eq_True)
  have lim: "unat (blk + 0x1000) + 4096 \<le> 2 ^ 32" "unat (blk + 0x1000) = t + 4096" using peb(1) room offs by simp_all
  note wp = write_peb_reads [OF ram w lim(1)]
  show thesis
  proof (rule that)
    show "wg_setup_win32_teb api e b = finish_teb api pe blk ec ?p"
      using ne 1 2 3 offs
      by (simp add: wg_setup_win32_teb_def pe Let_def finish_teb_def write_peb_def write_fields_def teb_fields_def peb_fields_def)
    show "?p \<noteq> None" by (rule wp(1))
    show "heap_at ec (t + 3 * 4096)" using tls(2) by (simp add: ac_simps)
    fix off v
    show "read32 api (ucast (blk + off)) ?p = v" if f: "(off, v) \<in> set ?fs"
    proof -
      have off: "unat off + 4 \<le> 0x38" using f by (auto simp: teb_fields_def)
      have "unat (blk + off) = t + unat off" using off blk(1) room by (simp add: unat_add)
      then show ?thesis using off lim(2) room
        by (subst wp(3)) (auto intro!: read_fields [OF ram _ bc teb_fields_ok(1) f] simp: blk(1))
    qed
    show "read32 api (ucast (blk + 0x1000 + off)) ?p = v" if "(off, v) \<in> set (peb_fields (ucast (image_base pe)))"
      by (rule wp(2)) (rule that)
  next
    fix x :: u64 assume x: "unat x < t \<or> t + 3 * 4096 \<le> unat x"
    then have out: "unat x < u \<or> u + page_round (unat n) \<le> unat x"
      if "page_round (unat n) = 4096" "u \<in> {t, t + 4096, t + 4096 + 4096}" for u and n :: u32 using that by auto
    have "byte_in peek ?p x = byte_in peek ?w x" by (rule write_peb_bytes [OF ram w lim(1)]) (use x lim(2) in auto)
    also have "\<dots> = byte_in peek bc x"
      by (rule write_fields_bytes [OF ram _ _ bc teb_fields_ok(1)]) (use x blk(1) room in auto)
    also have "\<dots> = byte_in peek bb x" by (rule alloc_same_out [OF ram peb(2) 3 bb _ _ out [OF pr(2)]]) simp_all
    also have "\<dots> = byte_in peek ba x" by (rule alloc_same_out [OF ram blk(2) 2 ba _ _ out [OF pr(1)]]) simp_all
    also have "\<dots> = byte_in peek b x" by (rule alloc_same_out [OF ram h(1) 1 b _ _ out [OF pr(1)]]) simp_all
    finally show "byte_in peek ?p x = byte_in peek b x" .
  qed (rule blk(1))
qed

text \<open>C16: Setting up the TEB of a 32-bit program without a TLS directory, with three heap pages left below 4 GB, makes FS point to a block on the guest heap that ends the handler chain and points to itself, to the TLS array and to the process block, which holds the image base.\<close>

theorem teb_layout:
  fixes b :: "'m blink"
  assumes ram: "flat_ram api peek" and h: "heap_at e t" "0 < t" and room: "t + 3 * 4096 < 2 ^ 32"
    and pe: "pe_img e = Some pe" "\<not> is_64bit pe" "tls_rva pe = 0" and b: "b \<noteq> None"
    and s: "wg_setup_win32_teb api e b = (e1, b1)"
  shows "unat (main_teb e1) = t \<and> heap_at e1 (t + 3 * 4096) \<and> map_option fs_base b1 = Some (ucast (main_teb e1)) \<and>
    map (\<lambda>off. read32 api (ucast (main_teb e1 + off)) b1) [0, 0x18, 0x24, 0x2C, 0x30] =
      [0xFFFFFFFF, main_teb e1, 0x1004, main_teb e1 + 0x2000, main_teb e1 + 0x1000] \<and>
    map (\<lambda>off. read32 api (ucast (main_teb e1 + 0x1000 + off)) b1) [8, 0x18] = [ucast (image_base pe), 0xD00000]"
proof -
  obtain blk ec bw where f: "wg_setup_win32_teb api e b = finish_teb api pe blk ec bw" and t: "unat blk = t"
    and top: "heap_at ec (t + 3 * 4096)" and bw: "bw \<noteq> None"
    and teb: "\<And>off v. (off, v) \<in> set (teb_fields blk (blk + 0x1000) (blk + 0x2000) 0x7FFF0000 0x7FEF0000 0x1004) \<Longrightarrow>
      read32 api (ucast (blk + off)) bw = v"
    and peb: "\<And>off v. (off, v) \<in> set (peb_fields (ucast (image_base pe))) \<Longrightarrow> read32 api (ucast (blk + 0x1000 + off)) bw = v"
    by (rule setup_teb_blocks [OF ram h room pe(1,2) b]) blast
  have e1: "e1 = ec\<lparr>main_teb := blk\<rparr>" and b1: "b1 = wg_blink_set_fs_base bw (ucast blk)"
    using s f pe(3) by (simp_all add: finish_teb_def)
  have "map_option fs_base b1 = Some (ucast blk)" using bw by (auto simp: b1 wg_blink_set_fs_base_def)
  moreover have "heap_at e1 (t + 3 * 4096)" using top by (simp add: e1 heap_at_def)
  ultimately show ?thesis
    using t teb [of 0] teb [of "0x18"] teb [of "0x24"] teb [of "0x2C"] teb [of "0x30"] peb [of 8] peb [of "0x18"]
    by (simp add: e1 b1 teb_fields_def peb_fields_def)
qed

section \<open>Static thread-local data\<close>

text \<open>The block: a copy of the template, and zeros behind it.\<close>

lemma tls_block_data:
  fixes dir arr first last index callbacks zeros flags :: u32
  assumes ram: "flat_ram api peek" and room: "\<And>m a n. reserve_virtual api m a n \<noteq> None"
    and h: "heap_at e u" and b: "b \<noteq> None"
    and dir: "read_words api (ucast dir) 6 6 b = [first, last, index, callbacks, zeros, flags]"
    and tpl: "first \<le> last" "n = unat last - unat first"
    and size: "n + unat zeros \<le> 512 * 1024 * 1024" "s = page_round (max 1 (n + unat zeros))" "u + s < 2 ^ 32"
    and src: "off_pages u s first n" and arr: "unat arr + 4 \<le> u" and u: "0 < u"
  shows "\<exists>dat e' b'. tls_block api dir arr e b = (index, e', b') \<and> unat dat = u \<and> heap_at e' (u + s) \<and> b' \<noteq> None \<and>
    read32 api (ucast arr) b' = dat \<and>
    bytes_at peek b' dat (map (\<lambda>i. byte_in peek b (ucast first + of_nat i)) [0..<n] @ replicate (unat zeros) 0) \<and>
    (\<forall>x. (unat x < u \<or> u + s \<le> unat x) \<and> (unat x < unat arr \<or> unat arr + 4 \<le> unat x) \<longrightarrow> byte_in peek b' x = byte_in peek b x)"
proof -
  define sz :: u32 where "sz = (if last - first + zeros = 0 then 4 else last - first + zeros)"
  have un: "unat (last - first) = n" using tpl by (simp add: unat_sub)
  then have uz: "unat (last - first + zeros) = n + unat zeros" using size(1) by (subst unat_add) simp_all
  have sz: "sz \<noteq> 0" "unat sz \<le> 512 * 1024 * 1024" "page_round (unat sz) = s"
    using uz size(1,2) by (auto simp: sz_def max_def page_round_def word_unat_eq_iff)
  obtain dat e1 b1 where 1: "wg_guest_alloc api sz e b = (dat, e1, b1)" by (rule prod_cases3)
  have d: "unat dat = u" "heap_at e1 (u + s)" using guest_alloc_spec(1,2) [OF h sz(1,2) _ 1] size(3) by (simp_all add: sz(3))
  have b1: "b1 \<noteq> None" using b alloc_keeps(2) [OF 1] by blast
  have out: "byte_in peek b1 x = byte_in peek b x" if "unat x < u \<or> u + s \<le> unat x" for x
    by (rule alloc_same_out [OF ram h 1 b sz(1,2)]) (use that sz(3) in simp)
  have zero: "byte_in peek b1 x = 0" if "u \<le> unat x" "unat x < u + s" for x
    by (rule alloc_zeroes [OF ram h 1 b room sz(1,2)]) (use that sz(3) in simp_all)
  let ?t = "map (\<lambda>i. byte_in peek b (ucast first + of_nat i)) [0..<n]"
  have rd: "snd (wg_blink_read_mem api b1 (ucast first) (replicate n 0) n) = ?t"
  proof -
    have "map (\<lambda>i. byte_in peek b1 (ucast first + of_nat i)) [0..<n] = ?t"
      by (rule bytes_same) (use src out size(3) in \<open>auto simp: off_pages_def\<close>)
    then show ?thesis by (subst read_mem_bytes [OF ram b1]) simp_all
  qed
  let ?b2 = "if n \<noteq> 0 then write_bytes api dat ?t b1 else b1"
  let ?b3 = "write32 api arr dat ?b2"
  have b2: "?b2 \<noteq> None" by (cases "n = 0") (simp_all only: write_bytes_Some b1 not_False_eq_True if_True if_False simp_thms)
  have b3: "?b3 \<noteq> None" by (simp only: write32_Some b2 not_False_eq_True)
  have "dat \<noteq> 0" using d(1) u by auto
  have cond: "(if first < last then last - first else 0) = last - first" using tpl(1) by (auto simp: word_le_less_eq)
  have ne: "(dat \<noteq> 0 \<and> last - first \<noteq> 0) = (n \<noteq> 0)" using un \<open>dat \<noteq> 0\<close> by (auto simp: unat_eq_0 [symmetric] simp del: unat_eq_0)
  let ?d = "[first, last, index, callbacks, zeros, flags]"
  have nth: "?d ! 0 = first" "?d ! 1 = last" "?d ! 2 = index" "?d ! 4 = zeros" by simp_all
  have tb: "tls_block api dir arr e b = (index, e1, ?b3)"
    by (simp only: tls_block_def dir Let_def nth cond sz_def [symmetric] 1 prod.case un rd ne)
  have lt: "length ?t = n" by simp
  have le: "n + unat zeros \<le> s" using page_round_ge [of "max 1 (n + unat zeros)"] by (simp add: size(2))
  have b2x: "byte_in peek ?b2 x = (if u \<le> unat x \<and> unat x < u + n then ?t ! (unat x - u) else byte_in peek b1 x)" for x :: u64
  proof (cases "u \<le> unat x \<and> unat x < u + n")
    case True
    then have eq: "unat (x - ucast dat) = unat x - u" using d(1) by (simp add: unat_diff_cases unat_ucast_up)
    have "unat x - u < n" "n \<noteq> 0" using True by auto
    then show ?thesis by (simp only: if_P [OF True] if_True not_False_eq_True byte_in_write [OF ram b1] lt eq)
  next
    case False
    have "byte_in peek (write_bytes api dat ?t b1) x = byte_in peek b1 x"
      by (rule byte_outside [OF ram b1]) (use False d(1) lt le size(3) in auto)
    then show ?thesis using False by auto
  qed
  have b3x: "byte_in peek ?b3 x = byte_in peek ?b2 x" if "unat x < unat arr \<or> unat arr + 4 \<le> unat x" for x :: u64
    by (rule write32_outside [OF ram b2 that])
  have "bytes_at peek ?b3 dat (?t @ replicate (unat zeros) 0)" unfolding bytes_at_def
  proof (rule nth_equalityI)
    fix i assume "i < length (map (\<lambda>i. byte_in peek ?b3 (ucast dat + of_nat i)) [0..<length (?t @ replicate (unat zeros) (0 :: u8))])"
    then have i: "i < n + unat zeros" by simp
    then have x: "unat (ucast dat + of_nat i :: u64) = u + i" using le size(3) d(1)
      by (simp add: unat_word_ariths unat_ucast_up unat_of_nat)
    have "byte_in peek ?b3 (ucast dat + of_nat i) = byte_in peek ?b2 (ucast dat + of_nat i)" by (rule b3x) (use x arr in simp)
    also have "\<dots> = (if i < n then ?t ! i else byte_in peek b1 (ucast dat + of_nat i))" unfolding b2x x by simp
    also have "\<dots> = (?t @ replicate (unat zeros) 0) ! i" using i x le zero [of "ucast dat + of_nat i"] by (auto simp: nth_append)
    finally have "byte_in peek ?b3 (ucast dat + of_nat i) = (?t @ replicate (unat zeros) 0) ! i" .
    then show "map (\<lambda>i. byte_in peek ?b3 (ucast dat + of_nat i)) [0..<length (?t @ replicate (unat zeros) (0 :: u8))] ! i =
        (?t @ replicate (unat zeros) 0) ! i" using i by simp
  qed simp
  moreover have "byte_in peek ?b3 x = byte_in peek b x"
    if "unat x < u \<or> u + s \<le> unat x" "unat x < unat arr \<or> unat arr + 4 \<le> unat x" for x :: u64
    unfolding b3x [OF that(2)] b2x using that(1) le by (auto simp: out)
  moreover have "read32 api (ucast arr) ?b3 = dat" by (rule read32_write32(1) [OF ram b2])
  ultimately show ?thesis using tb d b3 by blast
qed

text \<open>C11: Setting up the TEB of a 32-bit program with a TLS directory of at most 512 MB, its data outside the new pages and room for these below 4 GB, also makes its static TLS: slot 0 of the TLS array points to a copy of the template with the zeros behind it, and the index variable is 0. The TEB and the process block are as without a TLS directory; the machine can reserve the pages.\<close>

theorem teb_static_tls:
  fixes b :: "'m blink" and first last index callbacks zeros flags :: u32
  assumes ram: "flat_ram api peek" and free: "\<And>m a n. reserve_virtual api m a n \<noteq> None" and h: "heap_at e t" "0 < t"
    and pe: "pe_img e = Some pe" "\<not> is_64bit pe" "tls_rva pe \<noteq> 0" and b: "b \<noteq> None"
    and dir: "dir = ucast (image_base pe) + tls_rva pe" "off_pages t (3 * 4096) dir 24"
      "read_words api (ucast dir) 6 6 b = [first, last, index, callbacks, zeros, flags]"
    and tpl: "first \<le> last" "n = unat last - unat first"
    and size: "n + unat zeros \<le> 512 * 1024 * 1024" "s = page_round (max 1 (n + unat zeros))" "t + 3 * 4096 + s < 2 ^ 32"
    and apart: "off_pages t (3 * 4096 + s) first n" "index = 0 \<or> off_pages t (3 * 4096 + s) index 4"
    and r: "wg_setup_win32_teb api e b = (e1, b1)"
  shows "unat (main_teb e1) = t \<and> heap_at e1 (t + 3 * 4096 + s) \<and> map_option fs_base b1 = Some (ucast (main_teb e1)) \<and>
    map (\<lambda>off. read32 api (ucast (main_teb e1 + off)) b1) [0, 0x18, 0x24, 0x2C, 0x30, 0x2000] =
      [0xFFFFFFFF, main_teb e1, 0x1004, main_teb e1 + 0x2000, main_teb e1 + 0x1000, main_teb e1 + 0x3000] \<and>
    map (\<lambda>off. read32 api (ucast (main_teb e1 + 0x1000 + off)) b1) [8, 0x18] = [ucast (image_base pe), 0xD00000] \<and>
    bytes_at peek b1 (main_teb e1 + 0x3000)
      (map (\<lambda>i. byte_in peek b (ucast first + of_nat i)) [0..<n] @ replicate (unat zeros) 0) \<and>
    (index \<noteq> 0 \<longrightarrow> read32 api (ucast index) b1 = 0)"
proof -
  have room: "t + 3 * 4096 < 2 ^ 32" using size(3) by simp
  obtain blk ec bw where f: "wg_setup_win32_teb api e b = finish_teb api pe blk ec bw" and t: "unat blk = t"
    and top: "heap_at ec (t + 3 * 4096)" and bw: "bw \<noteq> None"
    and same: "\<And>x. unat x < t \<or> t + 3 * 4096 \<le> unat x \<Longrightarrow> byte_in peek bw x = byte_in peek b x"
    and teb: "\<And>off v. (off, v) \<in> set (teb_fields blk (blk + 0x1000) (blk + 0x2000) 0x7FFF0000 0x7FEF0000 0x1004) \<Longrightarrow>
      read32 api (ucast (blk + off)) bw = v"
    and peb: "\<And>off v. (off, v) \<in> set (peb_fields (ucast (image_base pe))) \<Longrightarrow> read32 api (ucast (blk + 0x1000 + off)) bw = v"
    by (rule setup_teb_blocks [OF ram h room pe(1,2) b]) blast
  have "map (\<lambda>i. byte_in peek bw (ucast dir + of_nat i)) [0..<4 * 6] = map (\<lambda>i. byte_in peek b (ucast dir + of_nat i)) [0..<4 * 6]"
    by (rule bytes_same) (use dir(2) room same in \<open>auto simp: off_pages_def\<close>)
  then have dir': "read_words api (ucast dir) 6 6 bw = [first, last, index, callbacks, zeros, flags]"
    using dir(3) unfolding read_words_bytes [OF ram bw] read_words_bytes [OF ram b] by (simp only:)
  let ?u = "t + 3 * 4096"
  have at: "unat (blk + k) = t + unat k" if "unat k < 16384" for k using that t size(2,3) page_round_ge [of "max 1 (n + unat zeros)"] by (simp add: unat_add page_round_def)
  have arr: "unat (blk + 0x2000) + 4 \<le> ?u" using at [of "0x2000"] by simp
  have src: "off_pages ?u s first n" using apart(1) by (auto simp: off_pages_def)
  obtain dat e' b' where k: "tls_block api dir (blk + 0x2000) ec bw = (index, e', b')" "unat dat = ?u" "heap_at e' (?u + s)" "b' \<noteq> None"
    "read32 api (ucast (blk + 0x2000)) b' = dat"
    "bytes_at peek b' dat (map (\<lambda>i. byte_in peek bw (ucast first + of_nat i)) [0..<n] @ replicate (unat zeros) 0)"
    and k': "\<forall>x. (unat x < ?u \<or> ?u + s \<le> unat x) \<and> (unat x < unat (blk + 0x2000) \<or> unat (blk + 0x2000) + 4 \<le> unat x) \<longrightarrow>
      byte_in peek b' x = byte_in peek bw x"
    using tls_block_data [OF ram free top bw dir' tpl size(1-3) src arr] h(2) by blast
  have k7: "byte_in peek b' x = byte_in peek bw x" if "unat x < t + 8192" for x
    using k' that at [of "0x2000"] by simp
  let ?b2 = "if index \<noteq> 0 then write32 api index 0 b' else b'"
  have b2: "?b2 \<noteq> None" using k(4) by (simp only: write32_Some simp_thms split: if_split)
  have e1: "e1 = e'\<lparr>main_teb := blk\<rparr>" and b1: "b1 = wg_blink_set_fs_base ?b2 (ucast blk)"
    using r f k(1) dir(1) pe(3) by (simp_all add: finish_teb_def)
  have ix: "byte_in peek ?b2 x = byte_in peek b' x" if "t \<le> unat x" "unat x < ?u + s" for x :: u64
    using apart(2) that by (cases "index = 0") (auto simp: off_pages_def intro!: write32_outside [OF ram k(4)])
  have low: "read32 api (ucast (blk + off)) ?b2 = v" if "read32 api (ucast (blk + off)) bw = v" "unat off + 4 \<le> 8192" for off v
  proof -
    have "unat (blk + off) = t + unat off" using that(2) by (intro at) simp
    then show ?thesis using that room by (subst read32_same [OF ram bw b2]) (auto simp: ix k7)
  qed
  have arr': "read32 api (ucast (blk + 0x2000)) ?b2 = dat"
    using at [of "0x2000"] size(3) k(5) by (subst read32_same [OF ram k(4) b2]) (auto simp: ix)
  have "dat = blk + 0x3000" using k(2) at [of "0x3000"] by (simp add: word_unat_eq_iff)
  moreover have "bytes_at peek ?b2 dat (map (\<lambda>i. byte_in peek b (ucast first + of_nat i)) [0..<n] @ replicate (unat zeros) 0)"
  proof -
    have "map (\<lambda>i. byte_in peek bw (ucast first + of_nat i)) [0..<n] = map (\<lambda>i. byte_in peek b (ucast first + of_nat i)) [0..<n]"
      by (rule bytes_same) (use apart(1) size(3) same in \<open>auto simp: off_pages_def\<close>)
    moreover have "n + unat zeros \<le> s" using page_round_ge [of "max 1 (n + unat zeros)"] by (simp add: size(2))
    then have "map (\<lambda>i. byte_in peek ?b2 (ucast dat + of_nat i)) [0..<n + unat zeros] =
        map (\<lambda>i. byte_in peek b' (ucast dat + of_nat i)) [0..<n + unat zeros]"
      by (intro bytes_same) (use k(2) size(3) in \<open>auto simp: ix\<close>)
    ultimately show ?thesis using k(6) by (simp only: bytes_at_def length_append length_map length_upt length_replicate diff_zero)
  qed
  moreover have "map_option fs_base b1 = Some (ucast blk)" using b2 by (auto simp: b1 wg_blink_set_fs_base_def)
  moreover have "heap_at e1 (?u + s)" using k(3) by (simp add: e1 heap_at_def)
  moreover have "read32 api (ucast index) ?b2 = 0" if "index \<noteq> 0"
    unfolding if_P [OF that] by (rule read32_write32(1) [OF ram k(4)])
  moreover have "main_teb e1 = blk" by (simp add: e1)
  moreover have "byte_in peek b1 = byte_in peek ?b2" "\<And>a. read32 api a b1 = read32 api a ?b2" unfolding b1 by simp_all
  moreover have "map (\<lambda>off. read32 api (ucast (blk + off)) ?b2) [0, 0x18, 0x24, 0x2C, 0x30] = [0xFFFFFFFF, blk, 0x1004, blk + 0x2000, blk + 0x1000]"
    using low [OF teb, of 0] low [OF teb, of "0x18"] low [OF teb, of "0x24"] low [OF teb, of "0x2C"] low [OF teb, of "0x30"]
    by (simp add: teb_fields_def)
  moreover have "map (\<lambda>off. read32 api (ucast (blk + 0x1000 + off)) ?b2) [8, 0x18] = [ucast (image_base pe), 0xD00000]"
    using low [of "0x1008"] low [of "0x1018"] peb [of 8] peb [of "0x18"] by (simp add: peb_fields_def add.assoc)
  ultimately show ?thesis
    using t arr' by (simp add: bytes_at_def)
qed

end
