(* ===== verification/EngineTick.thy ===== *)
theory EngineTick
  imports EngineRun
begin

text \<open>
  \<open>wg_engine_tick\<close> and \<open>wg_engine_run_sync\<close> of \<open>Sources/Core/wg_engine.c\<close>, for an engine that has
  a blink machine (the other branch is \<open>tick_builtin\<close>): a tick runs the machine for some instructions
  and then serves what stopped it. \<open>None\<close> on the outside: a Win32 call whose branch is not modelled;
  inside: undefined behaviour.
\<close>

section \<open>Ticks\<close>

text \<open>\<open>warm\<close>: the machine that an abort of blink leaves, if it aborts.\<close>

definition wg_engine_tick ::
    "'m guest_api \<Rightarrow> bool \<Rightarrow> bool \<Rightarrow> 'm vm option \<Rightarrow> mapper \<Rightarrow> nat \<Rightarrow> engine \<Rightarrow> 'm blink \<Rightarrow>
     (engine \<times> 'm blink) ub option" where
  "wg_engine_tick api z ab warm m insns e b =
     (let (e, b) = tick_unpause e b
      in if estate e \<noteq> WG_ENGINE_RUNNING then Some (Some (e, b))
         else let (r, b) = wg_blink_run api warm b insns
              in if r = WG_BLINK_OK then Some (Some (e, b))
                 else map_option (map_option (\<lambda>(handled, e, b).
                        if handled then (e, b)
                        else if r = WG_BLINK_HALT then tick_halt api e b else (stopped e, b)))
                      (handle_blink_thunk api z ab m e b))"

text \<open>Up to \<open>n\<close> ticks; the arguments of each tick come from \<open>w\<close>.\<close>

fun run_ticks ::
    "'m guest_api \<Rightarrow> (nat \<Rightarrow> bool \<times> bool \<times> 'm vm option) \<Rightarrow> mapper \<Rightarrow> nat \<Rightarrow> engine \<Rightarrow> 'm blink \<Rightarrow>
     (engine \<times> 'm blink) ub option" where
  "run_ticks api w m 0 e b = Some (Some (e, b))"
| "run_ticks api w m (Suc n) e b =
     (case w n of (z, ab, warm) \<Rightarrow>
        (case wg_engine_tick api z ab warm m 1000 e b of
           Some (Some (e, b)) \<Rightarrow> if estate e \<noteq> WG_ENGINE_RUNNING then Some (Some (e, b)) else run_ticks api w m n e b
         | r \<Rightarrow> r))"

definition wg_engine_run_sync ::
    "'m guest_api \<Rightarrow> (nat \<Rightarrow> bool \<times> bool \<times> 'm vm option) \<Rightarrow> mapper \<Rightarrow> nat \<Rightarrow> engine \<Rightarrow> 'm blink \<Rightarrow>
     (engine \<times> 'm blink) ub option" where
  "wg_engine_run_sync api w m n e b =
     (let (ok, e, b) = wg_engine_run api e b in if ok then run_ticks api w m n e b else Some (Some (e, b)))"

section \<open>A tick is a few steps of the engine\<close>

text \<open>The tick ends with the return of a worker.\<close>

definition worker_tick :: "'m guest_api \<Rightarrow> 'm vm option \<Rightarrow> nat \<Rightarrow> engine \<Rightarrow> 'm blink \<Rightarrow> bool" where
  "worker_tick api warm n e b = (let (e, b) = tick_unpause e b in worker_halt e (snd (wg_blink_run api warm b n)))"

lemma thunk_unhandled:
  "handle_blink_thunk api z ab m e b = Some (Some (False, e', b')) \<Longrightarrow> e' = e \<and> b' = b"
  by (auto simp: handle_blink_thunk_def Let_def split: if_splits option.splits)

lemma stopped_stop: "estate e = WG_ENGINE_RUNNING \<Longrightarrow> stopped e = wg_engine_stop e"
  by (simp add: stopped_def wg_engine_stop_def)

text \<open>A tick that does not end with the return of a worker stays within the states of runs, so that what holds
  in all of them holds between ticks.\<close>

theorem tick_step:
  assumes run: "engine_run api m (e, b)" and w: "\<not> worker_tick api warm n e b"
    and t: "wg_engine_tick api z ab warm m n e b = Some r"
  shows "\<exists>e' b'. r = Some (e', b') \<and> engine_run api m (e', b')"
proof -
  obtain e1 b1 where u: "tick_unpause e b = (e1, b1)" by (rule prod.exhaust)
  have r1: "engine_run api m (e1, b1)" using engine_run.step [OF run engine_step.unpause] u by simp
  show ?thesis
  proof (cases "estate e1 = WG_ENGINE_RUNNING")
    case False
    then show ?thesis using t r1 by (auto simp: wg_engine_tick_def u)
  next
    case running: True
    obtain res b2 where g: "wg_blink_run api warm b1 n = (res, b2)" by (rule prod.exhaust)
    have r2: "engine_run api m (e1, b2)" by (rule engine_run.step [OF r1 engine_step.guest])
    show ?thesis
    proof (cases "res = WG_BLINK_OK")
      case True
      then show ?thesis using t r2 by (auto simp: wg_engine_tick_def u running g)
    next
      case False
      then obtain q where q: "handle_blink_thunk api z ab m e1 b2 = Some q"
        using t by (auto simp: wg_engine_tick_def u running g)
      obtain handled e3 b3 where q3: "q = Some (handled, e3, b3)" using thunk_wf [OF _ q] run_wf [OF r2] by auto
      have r3: "engine_run api m (e3, b3)" by (rule engine_run.step [OF r2]) (rule engine_step.call [OF q [unfolded q3]])
      show ?thesis
      proof (cases handled)
        case True
        then show ?thesis using t False r3 by (auto simp: wg_engine_tick_def u running g q q3)
      next
        case unhandled: False
        then have same: "e3 = e1" "b3 = b2" using thunk_unhandled [of api z ab m e1 b2 e3 b3] q q3 by simp_all
        have "\<not> worker_halt e1 b2" using w by (simp add: worker_tick_def u g)
        from engine_run.step [OF r2 engine_step.halt [OF this]] engine_run.step [OF r2 engine_step.stop]
        have "engine_run api m (tick_halt api e1 b2)" "engine_run api m (stopped e1, b2)"
          by (simp_all add: stopped_stop [OF running])
        then show ?thesis using t False unhandled
          by (cases "tick_halt api e1 b2") (auto simp: wg_engine_tick_def u running g q q3 same split: if_splits)
      qed
    qed
  qed
qed

section \<open>What the halts do\<close>

lemma halt_at_0:
  assumes "wg_blink_get_rip b = 0" and "worker_return (sched e) b = (ok, s, b')"
  shows "tick_halt api e b = (if ok then e\<lparr>sched := s\<rparr> else stopped (e\<lparr>sched := s\<rparr>), b')"
  using assms by (simp add: tick_halt_def Let_def s_watch_addr_def s_errstr_bp_def)

text \<open>The exit of the worker has switched to the only ready thread; the second switch then finds none.\<close>

text \<open>C12: When a worker returns while exactly one other thread is ready, and none waits for the worker, the engine switches to that thread and then stops as if the program had ended, leaving the thread running and current.\<close>

theorem worker_return_stops:
  assumes inv: "sched_inv (sched e)" and c: "current (sched e) = Some c" and w: "tid (threads (sched e) ! c) \<noteq> 1"
    and j: "j < WG_MAX_THREADS" "state (threads (sched e) ! j) = WG_THREAD_READY"
    and only: "\<forall>k < WG_MAX_THREADS. state (threads (sched e) ! k) = WG_THREAD_READY \<longrightarrow> k = j"
    and idle: "\<forall>k < WG_MAX_THREADS. state (threads (sched e) ! k) = WG_THREAD_WAITING \<longrightarrow>
      wait_handle (threads (sched e) ! k) \<noteq> thandle (threads (sched e) ! c)"
    and pc: "wg_blink_get_rip b = 0"
    and t: "tick_halt api e b = (e', b')"
  shows "estate e' = WG_ENGINE_STOPPED \<and> current (sched e') = Some j \<and>
    state (threads (sched e') ! j) = WG_THREAD_RUNNING"
proof -
  let ?s = "sched e"
  let ?x = "exited ?s c (ucast (wg_blink_get_reg b 0))"
  have len: "length (threads ?s) = WG_MAX_THREADS" and cl: "c < WG_MAX_THREADS"
    using sched_invD(1,2) [OF inv] c by auto
  have jc: "j \<noteq> c" using sched_invD(3) [OF inv c] j(2) by auto
  have nth: "threads ?x ! k = (if k = c then (threads ?s ! k)\<lparr>state := WG_THREAD_EXITED, exit_code := ucast (wg_blink_get_reg b 0)\<rparr>
      else threads ?s ! k)" if "k < WG_MAX_THREADS" for k
    using that cl len by (simp add: exited_def nth_update_thread)
  obtain ok1 s1 b1 where sw: "wg_sched_switch_next ?x b = (ok1, s1, b1)" by (metis prod_cases3)
  have ready: "k = j" if "k < WG_MAX_THREADS" "state (threads ?x ! k) = WG_THREAD_READY" for k
    using that only nth by (auto split: if_splits)
  have cur: "current ?x = None" by (simp add: exited_def)
  have "next_ready ?x \<noteq> None"
    using j nth [OF j(1)] jc unfolding next_ready_def cur by (auto simp: Let_def WG_MAX_THREADS_def intro!: bexI [of _ j])
  then obtain i where i: "next_ready ?x = Some i" by (auto simp del: not_None_eq)
  then have ij: "i = j" using ready next_readyD [OF i] by blast
  with sw i have s1: "s1 = update_thread (?x\<lparr>current := Some j\<rparr>) j (\<lambda>t. t\<lparr>state := WG_THREAD_RUNNING\<rparr>)"
    by (auto elim!: switch_next_cases)
  let ?h = "thandle (threads s1 ! c)"
  have lx: "length (threads ?x) = WG_MAX_THREADS" using len by (simp add: exited_def)
  have n1: "threads s1 ! k = (if k = j then (threads ?s ! j)\<lparr>state := WG_THREAD_RUNNING\<rparr> else threads ?x ! k)"
    if "k < WG_MAX_THREADS" for k
    using that j(1) lx jc nth by (simp add: s1 nth_update_thread)
  have h: "?h = thandle (threads ?s ! c)" using n1 [OF cl] nth [OF cl] jc by simp
  let ?s2 = "wg_sched_wake s1 ?h"
  have l1: "length (threads s1) = WG_MAX_THREADS" using lx by (simp add: s1)
  have n2: "threads ?s2 ! k = threads s1 ! k" if "k < WG_MAX_THREADS" for k
    using that l1 idle n1 nth h by (auto simp: wg_sched_wake_def wake_thread_def)
  have "state (threads ?s2 ! k) \<noteq> WG_THREAD_READY" if "k < WG_MAX_THREADS" for k
    using that n2 n1 ready by auto
  then have "next_ready ?s2 = None" using next_readyD [of ?s2] by (metis option.exhaust)
  then have stuck: "wg_sched_switch_next ?s2 b1 = (False, ?s2, b1)" by (simp add: wg_sched_switch_next_def)
  have "worker_return ?s b = (False, ?s2, b1)"
    using c w sw stuck by (simp add: worker_return_def Let_def exit_eq [OF c])
  from halt_at_0 [OF pc this] have "e' = stopped (e\<lparr>sched := ?s2\<rparr>)" using t by simp
  moreover have "current ?s2 = Some j" by (simp add: wg_sched_wake_def s1)
  moreover have "state (threads ?s2 ! j) = WG_THREAD_RUNNING" using n2 [OF j(1)] n1 [OF j(1)] by simp
  ultimately show ?thesis by (simp add: stopped_def)
qed

text \<open>A fault stops the engine, whatever handlers the guest has.\<close>

theorem fault_stops:
  assumes "\<not> watch_armed (traps e)" and "\<not> errstr_armed (traps e)" and "wg_blink_get_rip b \<noteq> 0"
    and "auto_recover api e b = undef"
  shows "tick_halt api e b = (e\<lparr>estate := WG_ENGINE_STOPPED\<rparr>, b)"
  using assms by (simp add: tick_halt_def Let_def s_enable_guest_seh_def stopped_def)

text \<open>A call through a pointer beyond the image returns 0 to its caller.\<close>

theorem bad_call_returns:
  assumes pe: "pe_img e = Some pe" and pc: "ucast (ucast (image_base pe + 0x4C0000) :: u32) < wg_blink_get_rip b"
    and arms: "\<not> watch_armed (traps e)" "\<not> errstr_armed (traps e)"
    and ret: "r = read32 api (ucast (ucast (wg_blink_get_reg b 4) :: u32)) b"
      "ucast (image_base pe) + 0x1000 \<le> r" "r < ucast (image_base pe + 0x4C0000)"
    and b: "b = Some v" and t: "tick_halt api e b = (e', b')"
  shows "e' = e \<and> wg_blink_get_rip b' = ucast r \<and> wg_blink_get_reg b' 0 = 0 \<and>
    wg_blink_get_reg b' 4 = ucast (ucast (wg_blink_get_reg b 4) + 4 :: u32)"
proof -
  have "wg_blink_get_rip b \<noteq> 0" using pc by auto
  moreover have "auto_recover api e b = Some (pop_return (ucast (wg_blink_get_reg b 4)) r (wg_blink_set_reg b 0 0))"
    using pe pc ret by (simp add: auto_recover_def Let_def)
  ultimately have "e' = e" "b' = pop_return (ucast (wg_blink_get_reg b 4)) r (wg_blink_set_reg b 0 0)"
    using t arms by (simp_all add: tick_halt_def Let_def)
  then show ?thesis
    by (simp add: b pop_return_def wg_blink_get_rip_def wg_blink_set_rip_def wg_blink_set_reg_def wg_blink_get_reg_def
        WGBlinkVM_SetReg_def WGBlinkVM_GetReg_def)
qed

end
