(* ===== verification/GuestProperties.thy ===== *)
theory GuestProperties
  imports EngineProperties GuestTls EngineTick
begin

text \<open>
  The engine beside a machine with memory: each property is applied to a machine whose bytes are all
  \<open>0x11\<close>, so that the handler chain starts at \<open>0x11111111\<close>, and to the small scheduler.
\<close>

section \<open>A machine with memory\<close>

text \<open>A machine whose memory is a function.\<close>

definition mem_api :: "(u64 \<Rightarrow> u8) guest_api" where
  "mem_api = \<lparr>reserve_virtual = (\<lambda>m a n. Some m),
     copy_to_user = (\<lambda>m a bs x. if unat (x - a) < length bs then bs ! unat (x - a) else m x),
     copy_from_user = (\<lambda>m a n. map (\<lambda>i. m (a + of_nat i)) [0..<n]), execute = (\<lambda>v. (v, - 1)), new_vm = None\<rparr>"

definition mem_vm :: "u64 \<Rightarrow> (u64 \<Rightarrow> u8) vm" where
  "mem_vm pc = \<lparr>weg = (\<lambda>i. if i = 4 then 0x10008000 else of_nat (7 * i)), ip = pc, fs_base = 0, gs_base = 0,
     legacy32 = True, last_stop = - 4, faultaddr = 0, gmem = (\<lambda>_. 0x11)\<rparr>"

lemma mem_flat: "flat_ram mem_api (\<lambda>m. m)"
  by (simp add: flat_ram_def mem_api_def)

definition mem_engine :: engine where
  "mem_engine = demo_engine\<lparr>heap_ptr := 0x20000000, main_teb := 0x1000\<rparr>"

lemma mem_heap: "heap_at mem_engine 0x20000000"
  by (simp add: heap_at_def mem_engine_def)

lemma mem_read: "read32 mem_api a (Some (mem_vm pc)) = 0x11111111"
proof -
  have "le_word (map (\<lambda>i. byte_in (\<lambda>m. m) (Some (mem_vm pc)) (a + of_nat i)) [0..<4]) = le_word (replicate 4 0x11 :: u8 list)"
    by (simp add: byte_in_def mem_vm_def map_replicate_const)
  also have "\<dots> = (0x11111111 :: u32)" by code_simp
  finally show ?thesis by (simp only: read32_bytes [OF mem_flat option.distinct(2)])
qed

lemma mem_esp: "(ucast (wg_blink_get_reg (Some (mem_vm pc)) 4) :: u32) = 0x10008000"
  by (simp add: wg_blink_get_reg_def WGBlinkVM_GetReg_def mem_vm_def)

lemma mem_rip: "wg_blink_get_rip (Some (mem_vm pc)) = pc"
  by (simp add: wg_blink_get_rip_def mem_vm_def)

lemma mem_traps: "\<not> watch_armed (traps mem_engine)" "\<not> errstr_armed (traps mem_engine)"
  by (simp_all add: mem_engine_def demo_engine_def initial_engine_def)

section \<open>Calls into the guest\<close>

theorem wndproc_frame_witness:
  "\<exists>e1 b1. wg_call_wndproc_ovr mem_api 0x401000 0x10010 2 3 4 0x402000 0x10008000 False 0 mem_engine (Some (mem_vm 0x403000)) =
     Some (e1, b1) \<and> wg_blink_get_rip b1 = 0x401000 \<and>
     read_words mem_api 0x10007FEC 5 5 b1 = [WG_SENDMSG_SENTINEL, 0x10010, 2, 3, 4]"
proof -
  obtain e1 b1 where c: "wg_call_wndproc_ovr mem_api 0x401000 0x10010 2 3 4 0x402000 0x10008000 False 0 mem_engine
      (Some (mem_vm 0x403000)) = Some (e1, b1)"
    by (auto simp: wg_call_wndproc_ovr_def push_call_def mem_engine_def Let_def)
  from wndproc_frame [OF mem_flat c] c show ?thesis by auto
qed

section \<open>Exceptions\<close>

text \<open>The main thread on its own stack, as \<open>wg_engine_load_pe\<close> lays memory out: the TEB is the first page of
  the heap, and both the stack pointer and the frame of the handler are below 0x7FFF0000.\<close>

definition seh_texts :: "u64 \<Rightarrow> u8" where
  "seh_texts x = (if x - 0x20000000 < 4 then le_bytes 4 (0x7FFEFFE0 :: u32) ! unat (x - 0x20000000)
     else if x - 0x7FFEFFE4 < 4 then le_bytes 4 (0x401000 :: u32) ! unat (x - 0x7FFEFFE4) else 0)"

definition seh_vm :: "(u64 \<Rightarrow> u8) vm" where
  "seh_vm = (mem_vm 0x403000)\<lparr>weg := (\<lambda>i. if i = 4 then 0x7FFEFF00 else 0), gmem := seh_texts\<rparr>"

definition seh_engine :: engine where
  "seh_engine = mem_engine\<lparr>heap_ptr := 0x20003000, main_teb := 0x20000000\<rparr>"

theorem seh_dispatch_witness:
  "\<exists>e1 b1. wg_raise_guest_exception mem_api 0xC0000005 0 0x403000 True seh_engine (Some seh_vm) = (True, e1, b1) \<and>
     wg_blink_get_rip b1 = 0x401000 \<and> wg_blink_get_reg b1 4 = 0x7FFEFEEC \<and>
     read_words mem_api (ucast (seh_excrec (seh e1))) 7 7 b1 = [0xC0000005, 0, 0, 0x403000, 2, 1, 0]"
proof -
  have h: "heap_at seh_engine 0x20003000" "(0 :: nat) < 0x20003000" "0x20003000 + 3 * 4096 < (2 :: nat) ^ 32"
    by (simp_all add: heap_at_def seh_engine_def)
  have m: "main_teb seh_engine = 0x20000000" by (simp add: seh_engine_def)
  have f: "read32 mem_api (ucast (main_teb seh_engine)) (Some seh_vm) = 0x7FFEFFE0"
    unfolding m by code_simp
  have n: "read32 mem_api (ucast (0x7FFEFFE0 + 4 :: u32)) (Some seh_vm) = 0x401000" by code_simp
  have sp: "(ucast (wg_blink_get_reg (Some seh_vm) 4) :: u32) = 0x7FFEFF00"
    by (simp add: wg_blink_get_reg_def WGBlinkVM_GetReg_def seh_vm_def)
  have d: "seh_depth (seh seh_engine) \<le> 8"
    by (simp add: seh_engine_def mem_engine_def demo_engine_def initial_engine_def no_exception_def)
  have c: "Some seh_vm \<noteq> None" "(0x1000 :: u32) < 0x7FFEFFE0" "(0x7FFEFFE0 :: u32) < 0xFFFFFFFE"
    "off_pages 0x20003000 (3 * 4096) 0x7FFEFFE0 8" "(0x1000 :: u32) < 0x401000" "20 \<le> unat (0x7FFEFF00 :: u32)"
    "off_pages 0x20003000 (3 * 4096) (0x7FFEFF00 - 20) 20"
    by (simp_all add: off_pages_def)
  note q = seh_dispatch [OF mem_flat h c(1) d f [symmetric] c(2-4) n [symmetric] c(5) sp [symmetric] c(6,7), of "0xC0000005" 0 "0x403000" True]
  have e: "(ucast (0x401000 :: u32) :: u64) = 0x401000" "(ucast (0x7FFEFF00 - 20 :: u32) :: u64) = 0x7FFEFEEC" by simp_all
  from q show ?thesis unfolding e if_True by blast
qed

lemma handler_eax:
  assumes "b1 = wg_seh_call_handler api hnd frame s b" and "b1 \<noteq> None"
  shows "wg_blink_get_reg b1 0 = 0"
proof -
  define c where "c = (let new_rsp = ucast (wg_blink_get_reg b 4) - 20 in
    wg_blink_set_rip (wg_blink_set_reg (write_bytes api new_rsp
      (concat (map (le_bytes 4) [WG_SEH_SENTINEL, seh_excrec s, frame, seh_ctx s, seh_dispctx s])) b) 4 (ucast new_rsp)) (ucast hnd))"
  have e: "b1 = wg_blink_set_reg c 0 0" by (simp only: assms(1) wg_seh_call_handler_def c_def Let_def)
  with assms(2) have "c \<noteq> None" by (simp only: set_regs_Some not_False_eq_True)
  then show ?thesis by (simp add: e get_set_reg)
qed

text \<open>The handler returns 0 at once.\<close>

theorem seh_roundtrip_witness:
  "\<exists>e1 b1 e3 b3. wg_raise_guest_exception mem_api 0xC0000005 0 0x403000 True mem_engine (Some (mem_vm 0x403000)) = (True, e1, b1) \<and>
     seh_return mem_api e1 b1 = (e3, b3) \<and> wg_blink_get_rip b3 = 0x403000 \<and> \<not> seh_active (seh e3)"
proof -
  obtain e1 b1 where r: "wg_raise_guest_exception mem_api 0xC0000005 0 0x403000 True mem_engine (Some (mem_vm 0x403000)) = (True, e1, b1)"
    using raise_enters [OF mem_flat mem_heap _ _ _ _ refl _ _ _ refl _ refl, of "Some (mem_vm 0x403000)" "0xC0000005" 0 "0x403000" True]
    by (auto simp: off_pages_def mem_read mem_esp mem_engine_def demo_engine_def initial_engine_def no_exception_def)
  obtain e3 b3 where k: "seh_return mem_api e1 b1 = (e3, b3)" by (rule prod.exhaust)
  have b1: "b1 \<noteq> None" by (rule raise_leaves(2) [OF mem_flat mem_heap _ refl _ _ r]) (simp_all add: mem_esp)
  have eax: "(ucast (wg_blink_get_reg b1 0) :: u32) = 0"
    by (rule raise_steps [OF r], drule handler_eax [OF _ b1]) simp
  from seh_roundtrip [OF mem_flat mem_heap _ refl _ _ r b1 refl eax _ k] r k show ?thesis by (auto simp: mem_esp)
qed

section \<open>Thread environment blocks\<close>

theorem teb_layout_witness:
  "\<exists>e1 b1. wg_setup_win32_teb mem_api (mem_engine\<lparr>pe_img := Some demo_pe\<rparr>) (Some (mem_vm 0)) = (e1, b1) \<and>
     read32 mem_api (ucast (main_teb e1 + 0x18)) b1 = main_teb e1"
proof -
  obtain e1 b1 where s: "wg_setup_win32_teb mem_api (mem_engine\<lparr>pe_img := Some demo_pe\<rparr>) (Some (mem_vm 0)) = (e1, b1)" by (rule prod.exhaust)
  have h: "heap_at (mem_engine\<lparr>pe_img := Some demo_pe\<rparr>) 0x20000000" using mem_heap by (simp add: heap_at_def)
  from teb_layout [OF mem_flat h _ _ _ _ _ _ s] s show ?thesis by (simp add: demo_pe_def)
qed

text \<open>A program whose TLS directory, at 0x401000, describes four bytes at 0x402000 and four zeros.\<close>

definition tls_texts :: "u64 \<Rightarrow> u8" where
  "tls_texts x =
     (if unat (x - 0x401000) < 24
      then concat (map (le_bytes 4) [0x402000, 0x402004, 0x403000, 0, 4, 0 :: u32]) ! unat (x - 0x401000)
      else if unat (x - 0x402000) < 4 then of_nat (unat (x - 0x402000) + 1) else 0x11)"

theorem teb_static_tls_witness:
  "\<exists>e1 b1. wg_setup_win32_teb mem_api (mem_engine\<lparr>pe_img := Some (demo_pe\<lparr>tls_rva := 0x1000\<rparr>)\<rparr>)
       (Some ((mem_vm 0)\<lparr>gmem := tls_texts\<rparr>)) = (e1, b1) \<and>
     unat (main_teb e1) = 0x20000000 \<and> read32 mem_api (ucast (main_teb e1 + 0x2000)) b1 = main_teb e1 + 0x3000 \<and>
     bytes_at (\<lambda>m. m) b1 (main_teb e1 + 0x3000) [1, 2, 3, 4, 0, 0, 0, 0] \<and> read32 mem_api 0x403000 b1 = 0"
proof -
  let ?e = "mem_engine\<lparr>pe_img := Some (demo_pe\<lparr>tls_rva := 0x1000\<rparr>)\<rparr>"
  let ?b = "Some ((mem_vm 0)\<lparr>gmem := tls_texts\<rparr>)"
  obtain e1 b1 where s: "wg_setup_win32_teb mem_api ?e ?b = (e1, b1)" by (rule prod.exhaust)
  have h: "heap_at ?e 0x20000000" using mem_heap by (simp add: heap_at_def)
  have free: "reserve_virtual mem_api m a n \<noteq> None" for m a n by (simp add: mem_api_def)
  have pe: "pe_img ?e = Some (demo_pe\<lparr>tls_rva := 0x1000\<rparr>)" by simp
  have d: "read_words mem_api (ucast (0x401000 :: u32)) 6 6 ?b = [0x402000, 0x402004, 0x403000, 0, 4, 0]" by code_simp
  have t: "map (\<lambda>i. byte_in (\<lambda>m. m) ?b (ucast (0x402000 :: u32) + of_nat i)) [0..<4] = [1, 2, 3, 4]" by code_simp
  have c: "(0x401000 :: u32) = ucast (image_base (demo_pe\<lparr>tls_rva := 0x1000\<rparr>)) + tls_rva (demo_pe\<lparr>tls_rva := 0x1000\<rparr>)"
    "off_pages 0x20000000 (3 * 4096) 0x401000 24" "(0x402000 :: u32) \<le> 0x402004"
    "(4 :: nat) = unat (0x402004 :: u32) - unat (0x402000 :: u32)" "4 + unat (4 :: u32) \<le> 512 * 1024 * 1024"
    "(4096 :: nat) = page_round (max 1 (4 + unat (4 :: u32)))" "0x20000000 + 3 * 4096 + 4096 < (2 :: nat) ^ 32"
    "off_pages 0x20000000 (3 * 4096 + 4096) 0x402000 4"
    "(0x403000 :: u32) = 0 \<or> off_pages 0x20000000 (3 * 4096 + 4096) 0x403000 4"
    by (simp_all add: off_pages_def page_round_def demo_pe_def)
  have p: "\<not> is_64bit (demo_pe\<lparr>tls_rva := 0x1000\<rparr>)" "tls_rva (demo_pe\<lparr>tls_rva := 0x1000\<rparr>) \<noteq> 0" "(0 :: nat) < 0x20000000"
    by (simp_all add: demo_pe_def)
  note q = teb_static_tls [OF mem_flat free h p(3) pe p(1,2) option.distinct(2) c(1,2) d c(3-9) s, unfolded t]
  have z: "[1, 2, 3, 4] @ replicate (unat (4 :: u32)) 0 = [1, 2, 3, 4, 0, 0, 0, 0 :: u8]" by code_simp
  have e: "(ucast (0x403000 :: u32) :: u64) = 0x403000" "(0x403000 :: u32) \<noteq> 0" by simp_all
  from q have "read32 mem_api (ucast (main_teb e1 + 0x2000)) b1 = main_teb e1 + 0x3000"
    unfolding list.map list.inject by blast
  with q s show ?thesis unfolding z e(1) using e(2) by blast
qed

theorem thread_teb_layout_witness:
  "\<exists>blk e1 b1. wg_alloc_thread_teb mem_api 0x30101000 0x30001000 0x1008 (mem_engine\<lparr>pe_img := Some demo_pe\<rparr>) (Some (mem_vm 0)) =
     (blk, e1, b1) \<and> read32 mem_api (ucast (blk + 0x30)) b1 = 0x11111111"
proof -
  obtain blk e1 b1 where s: "wg_alloc_thread_teb mem_api 0x30101000 0x30001000 0x1008 (mem_engine\<lparr>pe_img := Some demo_pe\<rparr>)
      (Some (mem_vm 0)) = (blk, e1, b1)" by (rule prod_cases3)
  have h: "heap_at (mem_engine\<lparr>pe_img := Some demo_pe\<rparr>) 0x20000000" using mem_heap by (simp add: heap_at_def)
  from thread_teb_layout [OF mem_flat h _ _ _ _ _ _ _ _ s] s show ?thesis
    by (simp add: demo_pe_def mem_engine_def mem_read)
qed

section \<open>Ticks\<close>

text \<open>The demo program is loaded and started; it is in a thunk at once, and the machine runs no
  instruction.\<close>

theorem fault_stops_witness:
  "tick_halt mem_api mem_engine (Some (mem_vm 0x403000)) = (mem_engine\<lparr>estate := WG_ENGINE_STOPPED\<rparr>, Some (mem_vm 0x403000))"
  by (rule fault_stops)
    (simp_all add: mem_traps mem_rip auto_recover_def mem_engine_def demo_engine_def initial_engine_def Let_def)

theorem bad_call_returns_witness:
  "\<exists>e' b'. tick_halt mem_api (mem_engine\<lparr>pe_img := Some (demo_pe\<lparr>image_base := 0x11000000\<rparr>)\<rparr>) (Some (mem_vm 0x90000000)) = (e', b') \<and>
     wg_blink_get_rip b' = 0x11111111 \<and> wg_blink_get_reg b' 0 = 0"
proof -
  let ?e = "mem_engine\<lparr>pe_img := Some (demo_pe\<lparr>image_base := 0x11000000\<rparr>)\<rparr>"
  obtain e' b' where t: "tick_halt mem_api ?e (Some (mem_vm 0x90000000)) = (e', b')" by (rule prod.exhaust)
  have "pe_img ?e = Some (demo_pe\<lparr>image_base := 0x11000000\<rparr>)" by simp
  from bad_call_returns [OF this _ _ _ refl _ _ refl t] t show ?thesis
    by (auto simp: mem_read mem_rip mem_traps)
qed

text \<open>The worker of slot 5 returns while the main thread is ready.\<close>

definition returning :: engine where
  "returning = demo_engine\<lparr>estate := WG_ENGINE_RUNNING, sched := demo_sched
     \<lparr>threads := (threads demo_sched)[0 := (threads demo_sched ! 0)\<lparr>state := WG_THREAD_READY\<rparr>,
        5 := (threads demo_sched ! 5)\<lparr>state := WG_THREAD_RUNNING\<rparr>], current := Some 5\<rparr>\<rparr>"

lemma returning_state:
  "i < 32 \<Longrightarrow> state (threads (sched returning) ! i) =
     (if i = 0 then WG_THREAD_READY else if i = 5 then WG_THREAD_RUNNING else WG_THREAD_FREE)"
  using demo_states by (auto simp: returning_def nth_list_update demo_len)

lemma returning_inv: "sched_inv (sched returning)"
proof (rule sched_invI)
  show "length (threads (sched returning)) = WG_MAX_THREADS" by (simp add: returning_def demo_len WG_MAX_THREADS_def)
qed (auto simp: returning_def [THEN arg_cong [of _ _ "\<lambda>e. current (sched e)"]] returning_state WG_MAX_THREADS_def split: if_splits)

theorem worker_return_stops_witness:
  "\<exists>e' b'. tick_halt mem_api returning (Some (mem_vm 0)) = (e', b') \<and> estate e' = WG_ENGINE_STOPPED \<and>
     state (threads (sched e') ! 0) = WG_THREAD_RUNNING"
proof -
  obtain e' b' where t: "tick_halt mem_api returning (Some (mem_vm 0)) = (e', b')" by (rule prod.exhaust)
  have c: "current (sched returning) = Some 5" by (simp add: returning_def)
  have w: "tid (threads (sched returning) ! 5) \<noteq> 1" by (simp add: returning_def demo_threads nth_append)
  have z: "(0 :: nat) < WG_MAX_THREADS" by (simp add: WG_MAX_THREADS_def)
  have r: "state (threads (sched returning) ! 0) = WG_THREAD_READY" by (simp add: returning_state)
  have only: "\<forall>k < WG_MAX_THREADS. state (threads (sched returning) ! k) = WG_THREAD_READY \<longrightarrow> k = 0"
    by (simp add: returning_state WG_MAX_THREADS_def)
  have idle: "\<forall>k < WG_MAX_THREADS. state (threads (sched returning) ! k) = WG_THREAD_WAITING \<longrightarrow>
      wait_handle (threads (sched returning) ! k) \<noteq> thandle (threads (sched returning) ! 5)"
    by (simp add: returning_state WG_MAX_THREADS_def)
  from worker_return_stops [OF returning_inv c w z r only idle mem_rip t] t show ?thesis by blast
qed

text \<open>A tick in the middle of a call of the demo program.\<close>

theorem tick_step_witness:
  "\<exists>h e b r e' b'. wg_engine_load_pe no_api False None False True (Some (demo_pe\<lparr>sections := [], import_dlls := []\<rparr>))
       (wg_engine_init demo_cpu) = Some (True, h) \<and> wg_engine_run no_api (eng h) (vmach h) = (True, e, b) \<and>
     wg_engine_tick no_api True False None (imap h) 1000 e (Some (demo_vm 0)) = Some (Some (e', b')) \<and>
     engine_run no_api (imap h) (e', b')"
proof -
  let ?pe = "demo_pe\<lparr>sections := [], import_dlls := []\<rparr>"
  obtain h where l: "wg_engine_load_pe no_api False None False True (Some ?pe) (wg_engine_init demo_cpu) = Some (True, h)"
    and s: "estate (eng h) = WG_ENGINE_LOADED"
    by (auto simp: wg_engine_load_pe_def load_image_def load_pe_blink_def ensure_blink_vm_def wg_blink_create_def no_api_def
        load_pe_builtin_def wg_engine_init_def import_slots_def Let_def wg_memory_map_def wg_memory_create_def WG_MAX_REGIONS_def)
  have f: "fst (wg_engine_run no_api (eng h) (vmach h))" using s by (simp add: wg_engine_run_def)
  then obtain e b where e: "wg_engine_run no_api (eng h) (vmach h) = (True, e, b)" by (metis prod.collapse)
  have st: "estate e = WG_ENGINE_RUNNING" using e s
    by (auto simp: wg_engine_run_def plant_traps_def Let_def split: if_splits prod.splits)
  have "engine_run no_api (imap h) (e, b)" by (rule engine_run.loaded [OF l e refl])
  then have r: "engine_run no_api (imap h) (e, Some (demo_vm 0))" by (rule engine_run.step) (rule engine_step.guest)
  have run: "wg_blink_run no_api None (Some (demo_vm 0)) 1000 = (WG_BLINK_HALT, Some ((demo_vm 0)\<lparr>last_stop := - 1\<rparr>))"
  proof -
    have "(1000 :: nat) = Suc 999" by simp
    then show ?thesis by (simp only: wg_blink_run_def WGBlinkVM_Run.simps)
      (simp add: demo_vm_def no_api_def blink_result_def)
  qed
  have u: "tick_unpause e (Some (demo_vm 0)) = (e, Some (demo_vm 0))" using st by (simp add: tick_unpause_def)
  have ip: "wg_blink_get_rip (Some ((demo_vm 0)\<lparr>last_stop := - 1\<rparr>)) = 0x401000"
    by (simp add: wg_blink_get_rip_def demo_vm_def)
  have nw: "\<not> worker_tick no_api None 1000 e (Some (demo_vm 0))"
    by (simp add: worker_tick_def u run worker_halt_def ip)
  have nt: "handle_blink_thunk no_api True False (imap h) e (Some ((demo_vm 0)\<lparr>last_stop := - 1\<rparr>)) =
      Some (Some (False, e, Some ((demo_vm 0)\<lparr>last_stop := - 1\<rparr>)))"
    by (simp add: handle_blink_thunk_def Let_def at_thunk_def ip WG_THUNK_BASE_def)
  obtain t where t: "wg_engine_tick no_api True False None (imap h) 1000 e (Some (demo_vm 0)) = Some t"
    by (simp add: wg_engine_tick_def u st run nt)
  from tick_step [OF r nw t] t l e show ?thesis by blast
qed

end
