(* ===== verification/EngineModulesOk.thy ===== *)
theory EngineModulesOk
  imports GuestText
begin

text \<open>
  What loading a DLL does: a relocated image has the difference of the bases added to exactly the words
  that its relocation directory lists, a DLL is loaded once, moved images get disjoint places, and an
  export is found by its name. The lookup of exports is safe only for directories that are well-formed.
\<close>

section \<open>Reading\<close>

lemma file_bytes_at:
  assumes "drop p (raw_data img) = xs @ ys" and "p \<le> length (raw_data img)" and "n = length xs"
  shows "file_bytes img p n = Some xs"
proof -
  have "length (drop p (raw_data img)) = length xs + length ys" by (simp add: assms(1))
  then have "p + length xs \<le> length (raw_data img)" using assms(2) by simp
  then show ?thesis by (simp add: file_bytes_def assms(1,3))
qed

lemma u16s_concat: "u16s (concat (map (le_bytes 2) es)) = es"
  using u16s_wide [of es "[]"] by (simp add: wide_bytes_def)

section \<open>Relocation\<close>

text \<open>A relocation directory as a list of pages, each with its entries.\<close>

definition block_bytes :: "u32 \<times> u16 list \<Rightarrow> u8 list" where
  "block_bytes blk = (case blk of (page, es) \<Rightarrow>
     le_bytes 4 page @ le_bytes 4 (of_nat (8 + 2 * length es) :: u32) @ concat (map (le_bytes 2) es))"

definition dir_bytes :: "(u32 \<times> u16 list) list \<Rightarrow> u8 list" where
  "dir_bytes blks = concat (map block_bytes blks)"

text \<open>The words that it lists.\<close>

definition block_targets :: "u32 \<Rightarrow> u32 \<times> u16 list \<Rightarrow> u32 list" where
  "block_targets load_base blk = (case blk of (page, es) \<Rightarrow>
     map (\<lambda>v. load_base + page + ucast (v AND 0xFFF)) (filter (\<lambda>v. drop_bit 12 v = 3) es))"

definition dir_targets :: "u32 \<Rightarrow> (u32 \<times> u16 list) list \<Rightarrow> u32 list" where
  "dir_targets load_base blks = concat (map (block_targets load_base) blks)"

text \<open>The directory is at the offset \<open>p\<close> of the file, in one piece.\<close>

definition dir_at :: "pe_image \<Rightarrow> nat \<Rightarrow> u8 list \<Rightarrow> bool" where
  "dir_at img p bs \<longleftrightarrow> length bs + 8 < 2 ^ 32 \<and> reloc_size img = of_nat (length bs) \<and>
     p \<le> length (raw_data img) \<and> take (length bs) (drop p (raw_data img)) = bs \<and>
     (\<forall>off n. unat off + unat n \<le> length bs \<longrightarrow> pe_rva_ptr img (reloc_rva img + off) n = Some (p + unat off))"

definition add_delta :: "'m guest_api \<Rightarrow> u32 \<Rightarrow> u32 \<Rightarrow> 'm blink \<Rightarrow> 'm blink" where
  "add_delta api delta t b = write32 api t (read32 api (ucast t) b + delta) b"

lemma relocate_entries:
  "fold (relocate_entry api (load_base + page) delta) es b = fold (add_delta api delta) (block_targets load_base (page, es)) b"
  by (induction es arbitrary: b) (simp_all add: block_targets_def relocate_entry_def add_delta_def Let_def)

lemma length_concat_le: "length (concat (map (le_bytes n) ws)) = n * length ws"
  by (induction ws) simp_all

lemma length_block: "length (block_bytes (page, es)) = 8 + 2 * length es"
  by (simp add: block_bytes_def length_concat_le)

lemma relocate_blocks:
  assumes dir: "dir_at img p (pre @ dir_bytes blks)"
  shows "relocate_from api img load_base delta (of_nat (length pre)) b =
    Some (fold (add_delta api delta) (dir_targets load_base blks) b)"
  using dir
proof (induction blks arbitrary: pre b)
  case Nil
  then have "length pre + 8 < 2 ^ 32" "reloc_size img = of_nat (length pre)" by (simp_all add: dir_at_def dir_bytes_def)
  then have "\<not> (of_nat (length pre) + 8 :: u32) \<le> reloc_size img"
    by (simp add: word_le_nat_alt unat_word_ariths unat_of_nat)
  then show ?case by (simp add: relocate_from.simps dir_targets_def)
next
  case (Cons blk blks)
  obtain page es where blk: "blk = (page, es)" by (cases blk)
  let ?n = "length pre" and ?m = "8 + 2 * length es" and ?rest = "dir_bytes blks"
  let ?tot = "?n + ?m + length ?rest"
  have all: "pre @ dir_bytes (blk # blks) = (pre @ block_bytes blk) @ ?rest" by (simp add: dir_bytes_def)
  have len: "length (pre @ dir_bytes (blk # blks)) = ?tot" unfolding all by (simp add: blk length_block)
  note D = Cons.prems [unfolded dir_at_def len]
  have small: "?tot + 8 < 2 ^ 32" and rs: "reloc_size img = of_nat ?tot" using D by auto
  have un: "unat (of_nat k :: u32) = k" if "k \<le> ?tot + 8" for k
    using that small by (simp add: unat_of_nat)
  have pl: "p \<le> length (raw_data img)" using D by simp
  have tk: "take ?tot (drop p (raw_data img)) = pre @ block_bytes blk @ ?rest"
    using D by (simp add: dir_bytes_def)
  then have "drop p (raw_data img) = (pre @ block_bytes blk @ ?rest) @ drop ?tot (drop p (raw_data img))"
    by (metis append_take_drop_id)
  then obtain suf where suf: "drop p (raw_data img) = pre @ block_bytes blk @ suf" by simp
  have long: "p + ?tot \<le> length (raw_data img)"
  proof -
    have "length (take ?tot (drop p (raw_data img))) = ?tot" unfolding tk by (simp add: blk length_block)
    then show ?thesis using pl by simp
  qed
  have at: "drop (p + ?n) (raw_data img) = block_bytes blk @ suf"
    using arg_cong [OF suf, of "drop ?n"] by (simp add: add.commute)
  have ptr: "pe_rva_ptr img (reloc_rva img + off) n = Some (p + unat off)" if "unat off + unat n \<le> ?tot" for off n
    using D that by blast
  let ?off = "of_nat ?n :: u32"
  have tot: "unat (of_nat ?tot :: u32) = ?tot" by (rule un) simp
  have c1: "?off + 8 \<le> reloc_size img"
  proof -
    have "?off + 8 = of_nat (?n + 8)" by simp
    moreover have "unat (of_nat (?n + 8) :: u32) = ?n + 8" by (rule un) simp
    ultimately show ?thesis unfolding rs word_le_nat_alt tot by simp
  qed
  have u: "unat ?off = ?n" by (rule un) simp
  have p1: "pe_rva_ptr img (reloc_rva img + ?off) 8 = Some (p + ?n)" using ptr [of ?off 8] u by simp
  have pn: "p + ?n \<le> length (raw_data img)" using long by simp
  have at': "drop (p + ?n) (raw_data img) = le_bytes 4 page @ le_bytes 4 (of_nat ?m :: u32) @ concat (map (le_bytes 2) es) @ suf"
    using at by (simp add: blk block_bytes_def)
  have r1: "file_u32 img (p + ?n) = Some page"
    unfolding file_u32_def by (simp add: file_bytes_at [OF at' pn] le_word_le_bytes_full)
  have at4: "drop (p + ?n + 4) (raw_data img) = le_bytes 4 (of_nat ?m :: u32) @ concat (map (le_bytes 2) es) @ suf"
    using arg_cong [OF at', of "drop 4"] by (simp add: add.commute)
  have r2: "file_u32 img (p + ?n + 4) = Some (of_nat ?m)"
    unfolding file_u32_def using long by (simp add: file_bytes_at [OF at4] le_word_le_bytes_full)
  have at8: "drop (p + ?n + 8) (raw_data img) = concat (map (le_bytes 2) es) @ suf"
    using arg_cong [OF at', of "drop 8"] by (simp add: add.commute)
  have m: "unat (of_nat ?m :: u32) = ?m" by (rule un) simp
  have le: "unat (of_nat (length es) :: u32) = length es" by (rule un) simp
  have nent: "((of_nat ?m :: u32) - 8) div 2 = of_nat (length es)"
  proof -
    have "(of_nat ?m :: u32) - 8 = of_nat (2 * length es)" by simp
    moreover have "unat (of_nat (2 * length es) :: u32) = 2 * length es" by (rule un) simp
    ultimately show ?thesis by (simp add: word_unat_eq_iff unat_div_distrib le)
  qed
  have ne2: "unat (of_nat (length es) * 2 :: u32) = 2 * length es"
    using un [of "2 * length es"] by (simp add: mult.commute)
  have u8: "unat (?off + 8) = ?n + 8" using un [of "?n + 8"] by simp
  have p2: "pe_rva_ptr img (reloc_rva img + ?off + 8) (of_nat (length es) * 2) = Some (p + ?n + 8)"
    using ptr [of "?off + 8" "of_nat (length es) * 2"] u8 ne2 by (simp add: add.assoc)
  have r3: "file_bytes img (p + ?n + 8) (2 * length es) = Some (concat (map (le_bytes 2) es))"
    using long by (simp add: file_bytes_at [OF at8] length_concat_le)
  have nm: "?off + of_nat ?m = of_nat (?n + ?m)" by simp
  have c2: "\<not> ((of_nat ?m :: u32) < 8 \<or> reloc_size img < ?off + of_nat ?m)"
  proof -
    have "unat (of_nat (?n + ?m) :: u32) = ?n + ?m" by (rule un) simp
    then show ?thesis unfolding nm rs word_less_nat_alt tot m by simp
  qed
  have "relocate_from api img load_base delta ?off b =
      relocate_from api img load_base delta (of_nat (length (pre @ block_bytes blk)))
        (fold (relocate_entry api (load_base + page) delta) es b)"
    by (subst relocate_from.simps)
      (simp only: c1 not_True_eq_False if_False p1 option.case r1 r2 c2 [unfolded nm] nent Let_def p2 le r3 u16s_concat nm blk
        length_append length_block bind.simps)
  also have "\<dots> = Some (fold (add_delta api delta) (dir_targets load_base blks)
      (fold (add_delta api delta) (block_targets load_base (page, es)) b))"
    unfolding relocate_entries using Cons.IH [of "pre @ block_bytes blk"] Cons.prems all by simp
  finally show ?case by (simp add: dir_targets_def blk)
qed

lemma add_delta_Some: "b \<noteq> None \<Longrightarrow> add_delta api delta t b \<noteq> None"
  unfolding add_delta_def by (simp only: write32_Some not_False_eq_True)

lemma add_deltas:
  fixes ts :: "u32 list"
  assumes ram: "flat_ram api peek"
  shows "b \<noteq> None \<Longrightarrow> sorted_wrt words_apart ts \<Longrightarrow>
      (\<forall>t \<in> set ts. read32 api (ucast t) (fold (add_delta api delta) ts b) = read32 api (ucast t) b + delta) \<and>
      (\<forall>a. (\<forall>t \<in> set ts. words_apart a t) \<longrightarrow> read32 api (ucast a) (fold (add_delta api delta) ts b) = read32 api (ucast a) b)"
proof (induction ts arbitrary: b)
  case (Cons t ts)
  let ?b = "add_delta api delta t b"
  have b': "?b \<noteq> None" by (rule add_delta_Some [OF Cons.prems(1)])
  have ap: "\<forall>t' \<in> set ts. words_apart t t'" "sorted_wrt words_apart ts" using Cons.prems(2) by auto
  note IH = Cons.IH [OF b' ap(2)]
  have same: "read32 api (ucast t) ?b = read32 api (ucast t) b + delta"
    unfolding add_delta_def by (rule read32_write32(1) [OF ram Cons.prems(1)])
  have other: "read32 api (ucast a) ?b = read32 api (ucast a) b" if "words_apart a t" for a
    unfolding add_delta_def by (rule read32_write32(2) [OF ram Cons.prems(1) that])
  have sym: "words_apart t' t" if "t' \<in> set ts" for t' using ap(1) that by (auto simp: words_apart_def)
  show ?case using IH same other sym ap(1) by auto
qed simp

text \<open>The whole directory.\<close>

text \<open>C18: Relocating a DLL ends and adds the distance from the preferred base to exactly the words that a well-formed relocation directory lists; every word apart from them keeps its value.\<close>

theorem relocate_image:
  assumes ram: "flat_ram api peek" and b: "b \<noteq> None" and dir: "dir_at img p (dir_bytes blks)"
    and apart: "sorted_wrt words_apart (dir_targets load_base blks)"
  shows "\<exists>b'. relocate_from api img load_base delta 0 b = Some b' \<and>
    (\<forall>t \<in> set (dir_targets load_base blks). read32 api (ucast t) b' = read32 api (ucast t) b + delta) \<and>
    (\<forall>a. (\<forall>t \<in> set (dir_targets load_base blks). words_apart a t) \<longrightarrow> read32 api (ucast a) b' = read32 api (ucast a) b)"
  using relocate_blocks [of img p "[]" blks api load_base delta b] dir add_deltas [OF ram b apart] by simp

section \<open>Loading once\<close>

lemma find_module_named: "List.find (module_named name) ms \<noteq> Some None"
  by (auto simp: find_Some_iff module_named_def)

lemma find_named_update:
  assumes "List.find (module_named name) ms = None" and "find_index (\<lambda>r. r = None) ms = Some i" and "mod_name md = name"
  shows "List.find (module_named name) (ms[i := Some md]) = Some (Some md)"
  using assms
proof (induction ms arbitrary: i)
  case (Cons r ms)
  show ?case
  proof (cases "r = None")
    case True
    then show ?thesis using Cons.prems by (simp add: module_named_def)
  next
    case False
    with Cons.prems obtain j where j: "find_index (\<lambda>r. r = None) ms = Some j" "i = Suc j" by auto
    have n: "\<not> module_named name r" "List.find (module_named name) ms = None"
      using Cons.prems(1) by (simp_all split: if_splits)
    then show ?thesis using Cons.IH [OF n(2) j(1) Cons.prems(3)] j(2) by simp
  qed
qed simp

text \<open>A DLL that has been loaded into a table with a free slot is found, and loading it again, by any path
  with the same file name, changes nothing.\<close>

theorem load_dll_once:
  assumes l: "wg_load_dll api (Some img) path ds m b = Some (a, ds', m', b')"
    and new: "List.find (module_named (dll_basename path)) (s_modules ds) = None" and x86: "\<not> is_64bit img"
    and free: "None \<in> set (s_modules ds)" and same: "dll_basename path' = dll_basename path"
  shows "wg_module_find ds' path' = a \<and> wg_load_dll api file path' ds' m' b' = Some (a, ds', m', b')"
proof -
  let ?name = "dll_basename path"
  from l new x86 have "map_dll api img ?name ds m b = Some (a, ds', m', b')"
    by (simp add: wg_load_dll_def Let_def)
  then obtain ds1 delta where pl: "place_dll img ds = (a, delta, ds1)" and ds': "ds' = record_module ?name a img ds1"
    by (auto simp: map_dll_def split: bind_splits prod.splits)
  have ms: "s_modules ds1 = s_modules ds" using pl by (auto simp: place_dll_def Let_def split: if_splits)
  from free have "find_index (\<lambda>r. r = None) (s_modules ds) \<noteq> None" by simp
  then obtain i where i: "find_index (\<lambda>r. r = None) (s_modules ds) = Some i" by blast
  let ?md = "\<lparr>mod_name = ?name, mod_base = a, mod_size = image_extent img, mod_img = img\<rparr>"
  have "s_modules ds' = (s_modules ds)[i := Some ?md]" by (simp add: ds' record_module_def ms i)
  with find_named_update [OF new i, of ?md] have "List.find (module_named ?name) (s_modules ds') = Some (Some ?md)" by simp
  then show ?thesis by (simp add: wg_module_find_def wg_load_dll_def Let_def same)
qed

text \<open>In a full table it is not found, and it will be loaded again.\<close>

theorem full_table_forgets:
  assumes l: "wg_load_dll api (Some img) path ds m b = Some (a, ds', m', b')"
    and new: "List.find (module_named (dll_basename path)) (s_modules ds) = None" and x86: "\<not> is_64bit img"
    and full: "None \<notin> set (s_modules ds)"
  shows "wg_module_find ds' path = 0 \<and> s_modules ds' = s_modules ds"
proof -
  let ?name = "dll_basename path"
  from l new x86 have "map_dll api img ?name ds m b = Some (a, ds', m', b')"
    by (simp add: wg_load_dll_def Let_def)
  then obtain ds1 delta where pl: "place_dll img ds = (a, delta, ds1)" and ds': "ds' = record_module ?name a img ds1"
    by (auto simp: map_dll_def split: bind_splits prod.splits)
  have ms: "s_modules ds1 = s_modules ds" using pl by (auto simp: place_dll_def Let_def split: if_splits)
  have "find_index (\<lambda>r. r = None) (s_modules ds1) = None" unfolding find_index_None ms using full by (metis)
  then have "s_modules ds' = s_modules ds" by (simp add: ds' record_module_def ms del: find_index_None)
  then show ?thesis by (simp add: wg_module_find_def new)
qed

section \<open>Places\<close>

lemma unat_clear_16: "unat (w AND NOT 0xFFFF :: u32) = unat w div 65536 * 65536"
proof -
  have eq: "(0xFFFF :: u32) = mask 16" by (simp add: mask_eq_exp_minus_1)
  have "w AND NOT 0xFFFF = push_bit 16 (drop_bit 16 w)"
    unfolding eq by (rule bit_word_eqI) (auto simp: bit_simps)
  moreover have "unat (push_bit 16 (drop_bit 16 w)) = unat w div 65536 * 65536"
    using unat_below [of w] div_times_less_eq_dividend [of "unat w" 65536]
    by (simp add: push_bit_eq_mult drop_bit_eq_div unat_word_ariths unat_div_distrib)
  ultimately show ?thesis by simp
qed

definition in_place :: "dll_space \<Rightarrow> wg_module \<Rightarrow> bool" where
  "in_place ds md \<longleftrightarrow> unat (mod_base md) + unat (mod_size md) \<le> unat (s_dll_next_base ds)"

definition modules_apart :: "wg_module \<Rightarrow> wg_module \<Rightarrow> bool" where
  "modules_apart x y \<longleftrightarrow> unat (mod_base x) + unat (mod_size x) \<le> unat (mod_base y) \<or>
     unat (mod_base y) + unat (mod_size y) \<le> unat (mod_base x)"

text \<open>The images that have been moved are below the next base and do not meet.\<close>

definition dlls_apart :: "dll_space \<Rightarrow> bool" where
  "dlls_apart ds \<longleftrightarrow>
     (\<forall>i md. i < length (s_modules ds) \<longrightarrow> s_modules ds ! i = Some md \<longrightarrow> relocatable (mod_img md) \<longrightarrow> in_place ds md) \<and>
     (\<forall>i j x y. i < length (s_modules ds) \<longrightarrow> j < length (s_modules ds) \<longrightarrow> i \<noteq> j \<longrightarrow>
        s_modules ds ! i = Some x \<longrightarrow> s_modules ds ! j = Some y \<longrightarrow>
        relocatable (mod_img x) \<longrightarrow> relocatable (mod_img y) \<longrightarrow> modules_apart x y)"

lemma place_next:
  assumes "unat (s_dll_next_base ds) + unat (image_extent img) + 0xFFFF < 2 ^ 32" and "place_dll img ds = (a, d, ds')"
  shows "s_modules ds' = s_modules ds" and "unat (s_dll_next_base ds) \<le> unat (s_dll_next_base ds')"
    and "relocatable img \<Longrightarrow> a = s_dll_next_base ds \<and> unat a + unat (image_extent img) \<le> unat (s_dll_next_base ds')"
proof -
  let ?w = "s_dll_next_base ds + image_extent img + 0xFFFF"
  have w: "unat ?w = unat (s_dll_next_base ds) + unat (image_extent img) + 0xFFFF"
    using assms(1) by (simp add: unat_word_ariths)
  have up: "x \<le> (x + 65535) div 65536 * 65536" for x :: nat by linarith
  have "unat (s_dll_next_base ds) + unat (image_extent img) \<le> unat (?w AND NOT 0xFFFF)"
    unfolding unat_clear_16 w using up by simp
  then show "s_modules ds' = s_modules ds" "unat (s_dll_next_base ds) \<le> unat (s_dll_next_base ds')"
    "relocatable img \<Longrightarrow> a = s_dll_next_base ds \<and> unat a + unat (image_extent img) \<le> unat (s_dll_next_base ds')"
    using assms(2) by (auto simp: place_dll_def Let_def split: if_splits)
qed

lemma dlls_apart_grow:
  assumes inv: "dlls_apart ds" and ms: "s_modules ds' = s_modules ds"
    and grow: "unat (s_dll_next_base ds) \<le> unat (s_dll_next_base ds')"
  shows "dlls_apart ds'"
proof -
  have "in_place ds x \<Longrightarrow> in_place ds' x" for x using grow by (auto simp: in_place_def)
  then show ?thesis using inv unfolding dlls_apart_def ms by blast
qed

lemma dlls_apart_add:
  assumes inv: "dlls_apart ds" and tab: "s_modules ds' = (s_modules ds)[i := Some md]" "i < length (s_modules ds)"
    and grow: "unat (s_dll_next_base ds) \<le> unat (s_dll_next_base ds')"
    and new: "relocatable (mod_img md) \<Longrightarrow> in_place ds' md \<and> unat (s_dll_next_base ds) \<le> unat (mod_base md)"
  shows "dlls_apart ds'"
proof -
  have old: "in_place ds' x" "relocatable (mod_img md) \<Longrightarrow> modules_apart x md"
    if "j < length (s_modules ds)" "s_modules ds ! j = Some x" "relocatable (mod_img x)" for j x
  proof -
    have "in_place ds x" using inv that unfolding dlls_apart_def by blast
    then show "in_place ds' x" "relocatable (mod_img md) \<Longrightarrow> modules_apart x md"
      using grow new by (auto simp: in_place_def modules_apart_def)
  qed
  have sym: "modules_apart x y \<Longrightarrow> modules_apart y x" for x y by (auto simp: modules_apart_def)
  have nth: "s_modules ds' ! j = (if j = i then Some md else s_modules ds ! j)" if "j < length (s_modules ds)" for j
    using that by (simp add: tab)
  have len: "length (s_modules ds') = length (s_modules ds)" by (simp add: tab)
  show ?thesis unfolding dlls_apart_def len
  proof (intro conjI allI impI)
    fix j x assume "j < length (s_modules ds)" "s_modules ds' ! j = Some x" "relocatable (mod_img x)"
    then show "in_place ds' x" using nth old(1) new by (auto split: if_splits)
  next
    fix j k x y assume jk: "j < length (s_modules ds)" "k < length (s_modules ds)" "j \<noteq> k"
      "s_modules ds' ! j = Some x" "s_modules ds' ! k = Some y" "relocatable (mod_img x)" "relocatable (mod_img y)"
    consider "j = i" "k \<noteq> i" | "j \<noteq> i" "k = i" | "j \<noteq> i" "k \<noteq> i" using jk(3) by blast
    then show "modules_apart x y"
    proof cases
      case 1
      then show ?thesis using jk nth old(2) [of k y] sym by auto
    next
      case 2
      then show ?thesis using jk nth old(2) [of j x] by auto
    next
      case 3
      then show ?thesis using jk nth inv unfolding dlls_apart_def by (metis (no_types, lifting))
    qed
  qed
qed

text \<open>C19: While the addresses last, the relocated DLLs in the module table lie one behind the other without overlap, whatever is loaded.\<close>

theorem load_keeps_apart:
  assumes inv: "dlls_apart ds" and l: "wg_load_dll api file path ds m b = Some (a, ds', m', b')"
    and room: "\<forall>img. file = Some img \<longrightarrow> unat (s_dll_next_base ds) + unat (image_extent img) + 0xFFFF < 2 ^ 32"
  shows "dlls_apart ds'"
proof (cases "ds' = ds")
  case False
  let ?name = "dll_basename path"
  from l False obtain img where f: "file = Some img" and md: "map_dll api img ?name ds m b = Some (a, ds', m', b')"
    by (auto simp: wg_load_dll_def Let_def split: option.splits if_splits)
  then obtain ds1 delta where pl: "place_dll img ds = (a, delta, ds1)" and ds': "ds' = record_module ?name a img ds1"
    by (auto simp: map_dll_def split: bind_splits prod.splits)
  note P = place_next [OF room [rule_format, OF f] pl]
  show ?thesis
  proof (cases "find_index (\<lambda>r. r = None) (s_modules ds1)")
    case None
    then have "ds' = ds1" unfolding ds' record_module_def by (simp del: find_index_None)
    then show ?thesis using dlls_apart_grow [OF inv P(1,2)] by simp
  next
    case (Some i)
    let ?md = "\<lparr>mod_name = ?name, mod_base = a, mod_size = image_extent img, mod_img = img\<rparr>"
    have i: "i < length (s_modules ds)" using find_index_SomeD(1) [OF Some] P(1) by simp
    have r: "ds' = ds1\<lparr>s_modules := (s_modules ds1)[i := Some ?md]\<rparr>" by (simp add: ds' record_module_def Some)
    show ?thesis
    proof (rule dlls_apart_add [OF inv _ i])
      show "s_modules ds' = (s_modules ds)[i := Some ?md]" by (simp add: r P(1))
      show "unat (s_dll_next_base ds) \<le> unat (s_dll_next_base ds')" using P(2) by (simp add: r)
      show "in_place ds' ?md \<and> unat (s_dll_next_base ds) \<le> unat (mod_base ?md)" if "relocatable (mod_img ?md)"
        using P(3) that by (auto simp: r in_place_def)
    qed
  qed
qed (use inv in simp)

section \<open>Exports\<close>

lemma strcmp_file_string:
  assumes "0 \<notin> set bs" and "CHR 0x00 \<notin> set f"
  shows "strcmp_file (bs @ 0 # rest) f = Some (c_string bs = f)"
  using assms
proof (induction bs arbitrary: f)
  case Nil
  have z: "(char_of (0 :: nat) :: char) = CHR 0x00" by code_simp
  show ?case using Nil.prems by (cases f) (auto simp: c_string_def z)
next
  case (Cons b bs)
  show ?case
  proof (cases f)
    case (Cons c cs)
    then show ?thesis using Cons.IH [of cs] Cons.prems by (simp add: c_string_def)
  qed (use Cons.prems in \<open>simp add: c_string_def\<close>)
qed

text \<open>The \<open>k\<close>-th name of an export directory, and its function.\<close>

definition export_row :: "pe_image \<Rightarrow> nat \<Rightarrow> nat \<Rightarrow> nat \<Rightarrow> u32 \<Rightarrow> nat \<Rightarrow> string \<times> u32 \<Rightarrow> bool" where
  "export_row img names ords funcs nfuncs k row \<longleftrightarrow>
     (\<exists>nrva p bs rest idx. file_u32 img (names + k * 4) = Some nrva \<and> pe_rva_ptr img nrva 1 = Some p \<and>
        drop p (raw_data img) = bs @ 0 # rest \<and> 0 \<notin> set bs \<and> c_string bs = fst row \<and>
        file_u16 img (ords + k * 2) = Some idx \<and> ucast idx < nfuncs \<and>
        file_u32 img (funcs + unat idx * 4) = Some (snd row))"

text \<open>The image has a well-formed directory with these exports.\<close>

definition exports_are :: "pe_image \<Rightarrow> (string \<times> u32) list \<Rightarrow> bool" where
  "exports_are img exps \<longleftrightarrow> export_rva img \<noteq> 0 \<and> export_size img \<noteq> 0 \<and>
     (\<exists>ed nfuncs func_rva name_rva ord_rva names ords funcs.
        pe_rva_ptr img (export_rva img) 40 = Some ed \<and> length exps < 2 ^ 32 \<and>
        file_u32 img (ed + 20) = Some nfuncs \<and> file_u32 img (ed + 24) = Some (of_nat (length exps)) \<and>
        file_u32 img (ed + 28) = Some func_rva \<and> file_u32 img (ed + 32) = Some name_rva \<and> file_u32 img (ed + 36) = Some ord_rva \<and>
        pe_rva_ptr img name_rva (of_nat (length exps) * 4) = Some names \<and> pe_rva_ptr img ord_rva (of_nat (length exps) * 2) = Some ords \<and>
        pe_rva_ptr img func_rva (nfuncs * 4) = Some funcs \<and>
        (\<forall>k < length exps. export_row img names ords funcs nfuncs k (exps ! k)))"

lemma find_export_rows:
  assumes f: "CHR 0x00 \<notin> set f" and rows: "\<forall>k < length exps. export_row img names ords funcs nfuncs k (exps ! k)"
  shows "i \<le> length exps \<Longrightarrow> find_export img f names ords funcs nfuncs ibase [i..<length exps] =
    Some (case map_of (drop i exps) f of None \<Rightarrow> 0 | Some rva \<Rightarrow> ibase + rva)"
proof (induction "length exps - i" arbitrary: i)
  case 0
  then show ?case by simp
next
  case (Suc n)
  then have i: "i < length exps" by simp
  obtain nm rva where r: "exps ! i = (nm, rva)" by (cases "exps ! i")
  from rows i r obtain nrva p bs rest idx where row: "file_u32 img (names + i * 4) = Some nrva"
    "pe_rva_ptr img nrva 1 = Some p" "drop p (raw_data img) = bs @ 0 # rest" "0 \<notin> set bs" "c_string bs = nm"
    "file_u16 img (ords + i * 2) = Some idx" "\<not> nfuncs \<le> ucast idx" "file_u32 img (funcs + unat idx * 4) = Some rva"
    unfolding export_row_def by (auto simp: not_le)
  have IH: "find_export img f names ords funcs nfuncs ibase [Suc i..<length exps] =
      Some (case map_of (drop (Suc i) exps) f of None \<Rightarrow> 0 | Some rva \<Rightarrow> ibase + rva)"
    by (rule Suc.hyps(1)) (use Suc.hyps(2) i in auto)
  have d: "drop i exps = (nm, rva) # drop (Suc i) exps" using Cons_nth_drop_Suc [OF i] r by simp
  show ?case
    using strcmp_file_string [OF row(4) f, of rest] row IH by (simp add: upt_conv_Cons [OF i] d)
qed

lemma export_of_found:
  assumes "exports_are img exps" and "CHR 0x00 \<notin> set f"
  shows "export_of img f ibase = Some (case map_of exps f of None \<Rightarrow> 0 | Some rva \<Rightarrow> ibase + rva)"
proof -
  from assms(1) obtain ed nfuncs func_rva name_rva ord_rva names ords funcs where
    d: "pe_rva_ptr img (export_rva img) 40 = Some ed" "length exps < 2 ^ 32"
      "file_u32 img (ed + 20) = Some nfuncs" "file_u32 img (ed + 24) = Some (of_nat (length exps))"
      "file_u32 img (ed + 28) = Some func_rva" "file_u32 img (ed + 32) = Some name_rva" "file_u32 img (ed + 36) = Some ord_rva"
      "pe_rva_ptr img name_rva (of_nat (length exps) * 4) = Some names" "pe_rva_ptr img ord_rva (of_nat (length exps) * 2) = Some ords"
      "pe_rva_ptr img func_rva (nfuncs * 4) = Some funcs"
    and rows: "\<forall>k < length exps. export_row img names ords funcs nfuncs k (exps ! k)"
    and nz: "export_rva img \<noteq> 0" "export_size img \<noteq> 0"
    unfolding exports_are_def by blast
  have n: "unat (of_nat (length exps) :: u32) = length exps" using d(2) by (simp add: unat_of_nat)
  have "export_of img f ibase = find_export img f names ords funcs nfuncs ibase [0..<length exps]"
    by (simp add: export_of_def nz d n)
  then show ?thesis using find_export_rows [OF assms(2) rows, of 0] by simp
qed

text \<open>A DLL that has been loaded is found at its base, with the addresses of its exports.\<close>

lemma export_after_load:
  assumes l: "wg_load_dll api (Some img) path ds m b = Some (a, ds', m', b')"
    and new: "List.find (module_named (dll_basename path)) (s_modules ds) = None" and x86: "\<not> is_64bit img"
    and free: "None \<in> set (s_modules ds)" and own: "\<forall>md. Some md \<in> set (s_modules ds) \<longrightarrow> mod_base md \<noteq> a"
    and real: "\<not> emulated_plugin (dll_basename path)" and ex: "exports_are img exps" and f: "CHR 0x00 \<notin> set f"
  shows "wg_module_export ds' a f = Some (case map_of exps f of None \<Rightarrow> 0 | Some rva \<Rightarrow> a + rva)"
proof -
  let ?name = "dll_basename path"
  from l new x86 have "map_dll api img ?name ds m b = Some (a, ds', m', b')"
    by (simp add: wg_load_dll_def Let_def)
  then obtain ds1 delta where pl: "place_dll img ds = (a, delta, ds1)" and ds': "ds' = record_module ?name a img ds1"
    by (auto simp: map_dll_def split: bind_splits prod.splits)
  have ms: "s_modules ds1 = s_modules ds" using pl by (auto simp: place_dll_def Let_def split: if_splits)
  from free have "find_index (\<lambda>r. r = None) (s_modules ds) \<noteq> None" by simp
  then obtain i where i: "find_index (\<lambda>r. r = None) (s_modules ds) = Some i" by blast
  let ?md = "\<lparr>mod_name = ?name, mod_base = a, mod_size = image_extent img, mod_img = img\<rparr>"
  let ?P = "\<lambda>r. case r of None \<Rightarrow> False | Some md \<Rightarrow> mod_base md = a"
  have il: "i < length (s_modules ds)" using find_index_SomeD(1) [OF i] .
  have "s_modules ds' = (s_modules ds)[i := Some ?md]" by (simp add: ds' record_module_def ms i)
  moreover have "List.find ?P ((s_modules ds)[i := Some ?md]) = Some (Some ?md)"
  proof -
    have "\<not> ?P (s_modules ds ! j)" if "j < length (s_modules ds)" for j
      using own nth_mem [OF that] by (auto split: option.split)
    then show ?thesis using il by (auto simp: find_Some_iff nth_list_update intro!: exI [of _ i])
  qed
  ultimately show ?thesis using real export_of_found [OF ex f] by (simp add: wg_module_export_def)
qed

text \<open>A directory of \<open>2 ^ 31\<close> names needs no bytes for its tables, as far as the checks can see.\<close>

theorem export_reads_outside:
  assumes dir: "export_rva img \<noteq> 0" "export_size img \<noteq> 0" "pe_rva_ptr img (export_rva img) 40 = Some ed"
      "file_u32 img (ed + 20) = Some nfuncs" "file_u32 img (ed + 24) = Some 0x80000000"
      "file_u32 img (ed + 28) = Some func_rva" "file_u32 img (ed + 32) = Some name_rva" "file_u32 img (ed + 36) = Some ord_rva"
    and ptrs: "pe_rva_ptr img name_rva 0 = Some names" "pe_rva_ptr img ord_rva 0 = Some ords"
      "pe_rva_ptr img func_rva (nfuncs * 4) = Some funcs" and last: "length (raw_data img) < names + 4"
  shows "export_of img f ibase = undef"
proof -
  define n where "n = unat (0x80000000 :: u32)"
  have "0 < n" by (simp add: n_def)
  then have u: "[0..<n] = 0 # [1..<n]" by (subst upt_conv_Cons) simp_all
  have w: "(0x80000000 * 4 :: u32) = 0" "(0x80000000 * 2 :: u32) = 0" by code_simp+
  have "file_u32 img names = None" using last by (simp add: file_u32_def file_bytes_def)
  then have "find_export img f names ords funcs nfuncs ibase [0..<n] = undef" unfolding u by simp
  moreover have "export_of img f ibase = find_export img f names ords funcs nfuncs ibase [0..<n]"
    unfolding export_of_def by (simp only: dir bind.simps w ptrs option.case prod.case n_def HOL.simp_thms if_False)
  ultimately show ?thesis by simp
qed

section \<open>The calls\<close>

text \<open>A plug-in that LoadLibrary has mapped runs its own code: GetProcAddress gives the address of the
  export in it.\<close>

text \<open>C17: A 32-bit plug-in, not loaded before and neither nsProcess nor nsExec, that LoadLibraryW maps into a free slot of the module table at an unused base runs its own code: the handle is its base, and GetProcAddress gives the address of a named export, unless nsDialogs takes that name over. No stub is made.\<close>

theorem loaded_proc:
  assumes l: "h_LoadLibraryW api host args e fs ds m b = Some (h, fs', ds', m', b')"
    and nm: "args ! 0 \<noteq> 0" "read_wstr api (args ! 0) 511 b = nm" "nm \<noteq> []"
    and img: "host (fst (wg_files_map_path nm fs)) = Some img" "\<not> is_64bit img" "exports_are img exps"
    and new: "List.find (module_named (dll_basename nm)) (s_modules ds) = None" "None \<in> set (s_modules ds)"
      "\<not> emulated_plugin (dll_basename nm)"
    and a: "fst (place_dll img ds) = a" "a \<noteq> 0" "\<forall>md. Some md \<in> set (s_modules ds) \<longrightarrow> mod_base md \<noteq> a"
    and f: "args' = [a, p]" "0xFFFF < p" "read_astr api p 255 b'' = f" "\<not> is_nsdialogs_export f" "map_of exps f = Some rva" "a + rva \<noteq> 0"
    and ascii: "CHR 0x00 \<notin> set f"
  shows "h = ucast a \<and> h_GetProcAddress api args' ds' m' b'' = Some (ucast (a + rva), m', b'')"
proof -
  from l nm img(1) obtain a' where ld: "wg_load_dll api (Some img) nm ds m b = Some (a', ds', m', b')"
    and h: "h = (if a' \<noteq> 0 then ucast a' else ucast (0x10000000 + of_nat (length (dlls m')) * 0x1000 :: u32))"
    by (auto simp: h_LoadLibraryW_def Let_def split: prod.splits bind_splits)
  have "a' = a"
  proof -
    from ld new(1) img(2) have "map_dll api img (dll_basename nm) ds m b = Some (a', ds', m', b')"
      by (simp add: wg_load_dll_def Let_def)
    then show ?thesis using a(1) by (auto simp: map_dll_def split: bind_splits prod.splits)
  qed
  with ld have ld: "wg_load_dll api (Some img) nm ds m b = Some (a, ds', m', b')" by simp
  have ex: "wg_module_export ds' a f = Some (a + rva)"
    using export_after_load [OF ld new(1) img(2) new(2) a(3) new(3) img(3) ascii] f(5) by simp
  show ?thesis using h \<open>a' = a\<close> a(2) f(2-4,6) ex by (simp add: h_GetProcAddress_def f(1) Let_def)
qed

text \<open>The names that nsDialogs exports are taken from every module.\<close>

theorem nsdialogs_names_hijacked:
  assumes "is_nsdialogs_export (read_astr api p 255 b)" and "0xFFFF < p"
  shows "h_GetProcAddress api [h, p] ds m b = h_GetProcAddress api [h', p] ds' m b"
  using assms by (simp add: h_GetProcAddress_def Let_def)

text \<open>GetModuleHandleA does not look for loaded modules.\<close>

theorem handle_a_misses:
  assumes "args ! 0 \<noteq> 0" and "read_astr api (args ! 0) 255 b = nm" and "read_wstr api (args' ! 0) 255 b = nm" and "args' ! 0 \<noteq> 0"
    and "\<not> list_ex (strcasestr nm) (''sspicli'' # ''nsdialogs'' # system_dlls)" and "wg_module_find ds nm \<noteq> 0"
  shows "h_GetModuleHandleA api args e b = 0 \<and> h_GetModuleHandleW api args' e ds b = ucast (wg_module_find ds nm)"
  using assms by (simp add: h_GetModuleHandleA_def h_GetModuleHandleW_def Let_def)

end
