(* ===== verification/ModuleProperties.thy ===== *)
theory ModuleProperties
  imports EngineModulesOk GuestProperties FilesOk
begin

text \<open>
  The properties of the modules at a concrete DLL: its file of 88 bytes holds a relocation directory with
  one page and two entries, one of them padding, and an export directory with the function \<open>go\<close>.
\<close>

definition dll_bytes :: "u8 list" where
  "dll_bytes = replicate 16 0 @ dir_bytes [(0x1000, [0x3004, 0])] @ replicate 4 0 @ replicate 20 0 @
     le_bytes 4 (1 :: u32) @ le_bytes 4 (1 :: u32) @ le_bytes 4 (72 :: u32) @ le_bytes 4 (76 :: u32) @ le_bytes 4 (80 :: u32) @
     le_bytes 4 (0x1100 :: u32) @ le_bytes 4 (84 :: u32) @ [0, 0, 0, 0] @ [0x67, 0x6F, 0, 0]"

definition demo_dll :: pe_image where
  "demo_dll = demo_pe\<lparr>image_base := 0x10000000, size_of_headers := 88, sections := [], import_dlls := [],
     reloc_rva := 16, reloc_size := 12, export_rva := 32, export_size := 40, raw_data := dll_bytes\<rparr>"

lemma dll_length: "length dll_bytes = 88" by code_simp

lemma demo_dll_parts: "size_of_headers demo_dll = 88" "raw_data demo_dll = dll_bytes" "reloc_rva demo_dll = 16"
  "reloc_size demo_dll = 12" "\<not> is_64bit demo_dll" "sections demo_dll = []" "import_dlls demo_dll = []"
  "export_rva demo_dll = 32" "export_size demo_dll = 40" "image_base demo_dll = 0x10000000" "size_of_image demo_dll = 0x2000"
  by (simp_all add: demo_dll_def demo_pe_def)

lemma demo_dir: "dir_at demo_dll 16 (dir_bytes [(0x1000, [0x3004, 0])])"
proof -
  have len: "length (dir_bytes [(0x1000, [0x3004, 0])]) = 12" by code_simp
  have "take 12 (drop 16 dll_bytes) = dir_bytes [(0x1000, [0x3004, 0])]" by code_simp
  moreover have "pe_rva_ptr demo_dll (16 + off) n = Some (16 + unat off)" if "unat off + unat n \<le> 12" for off n
  proof -
    have s: "unat (16 + off) = 16 + unat off" using that by (subst unat_add) simp_all
    have "unat (16 + off + n) = 16 + unat off + unat n" using that s by (subst unat_add) simp_all
    then show ?thesis using that s by (simp add: pe_rva_ptr_def demo_dll_parts dll_length word_le_nat_alt)
  qed
  ultimately show ?thesis unfolding dir_at_def len by (simp add: demo_dll_parts dll_length)
qed

lemma demo_targets: "dir_targets 0x60000000 [(0x1000, [0x3004, 0])] = [0x60001004]"
  by code_simp

theorem relocate_image_witness:
  "\<exists>b'. relocate_from mem_api demo_dll 0x60000000 0x50000000 0 (Some (mem_vm 0)) = Some b' \<and>
     read32 mem_api 0x60001004 b' = 0x61111111 \<and> read32 mem_api 0x60001008 b' = 0x11111111"
proof -
  have ap: "sorted_wrt words_apart (dir_targets 0x60000000 [(0x1000, [0x3004, 0])])" by (simp add: demo_targets)
  have b: "Some (mem_vm 0) \<noteq> None" by simp
  obtain b' where r: "relocate_from mem_api demo_dll 0x60000000 0x50000000 0 (Some (mem_vm 0)) = Some b'"
    and t: "\<forall>t \<in> set (dir_targets 0x60000000 [(0x1000, [0x3004, 0])]). read32 mem_api (ucast t) b' = read32 mem_api (ucast t) (Some (mem_vm 0)) + 0x50000000"
    and o: "\<forall>a. (\<forall>t \<in> set (dir_targets 0x60000000 [(0x1000, [0x3004, 0])]). words_apart a t) \<longrightarrow>
        read32 mem_api (ucast a) b' = read32 mem_api (ucast a) (Some (mem_vm 0))"
    using relocate_image [OF mem_flat b demo_dir ap, of "0x50000000"] by blast
  have "read32 mem_api 0x60001004 b' = 0x61111111" using t by (simp add: demo_targets mem_read)
  moreover have "read32 mem_api 0x60001008 b' = 0x11111111"
    using o [rule_format, of "0x60001008"] by (simp add: demo_targets mem_read words_apart_def)
  ultimately show ?thesis using r by blast
qed

lemma demo_exports: "exports_are demo_dll [(''go'', 0x1100)]"
proof -
  have row: "export_row demo_dll 76 80 72 1 0 (''go'', 0x1100)"
    unfolding export_row_def
  proof (intro exI conjI)
    show "file_u32 demo_dll (76 + 0 * 4) = Some 84" "pe_rva_ptr demo_dll 84 1 = Some 84" "file_u16 demo_dll (80 + 0 * 2) = Some 0"
      "drop 84 (raw_data demo_dll) = [0x67, 0x6F] @ 0 # [0]" "c_string [0x67, 0x6F] = fst (''go'', 0x1100 :: u32)"
      "file_u32 demo_dll (72 + unat (0 :: u16) * 4) = Some (snd (''go'', 0x1100))"
      by code_simp+
  qed simp_all
  have n: "length [(''go'', 0x1100 :: u32)] = 1" by simp
  have "pe_rva_ptr demo_dll (export_rva demo_dll) 40 = Some 32" "file_u32 demo_dll (32 + 20) = Some 1"
    "file_u32 demo_dll (32 + 24) = Some (of_nat 1)" "file_u32 demo_dll (32 + 28) = Some 72"
    "file_u32 demo_dll (32 + 32) = Some 76" "file_u32 demo_dll (32 + 36) = Some 80"
    "pe_rva_ptr demo_dll 76 (of_nat 1 * 4) = Some 76"
    "pe_rva_ptr demo_dll 80 (of_nat 1 * 2) = Some 80" "pe_rva_ptr demo_dll 72 (1 * 4) = Some 72"
    by code_simp+
  moreover have "\<forall>k < 1. export_row demo_dll 76 80 72 1 k ([(''go'', 0x1100)] ! k)" using row by simp
  moreover have "export_rva demo_dll \<noteq> 0" "export_size demo_dll \<noteq> 0" "(1 :: nat) < 2 ^ 32" by (simp_all add: demo_dll_parts)
  ultimately show ?thesis unfolding exports_are_def n by blast
qed

lemma demo_relocated:
  "relocate_from mem_api demo_dll 0x60000000 0x50000000 0 b =
    Some (fold (add_delta mem_api 0x50000000) (dir_targets 0x60000000 [(0x1000, [0x3004, 0])]) b)"
  using relocate_blocks [of demo_dll 16 "[]"] demo_dir by simp

section \<open>Loading\<close>

definition demo_path :: string where "demo_path = ''C:/plugins/Go.dll''"

lemma demo_name: "dll_basename demo_path = ''go.dll''" "dll_basename ''GO.DLL'' = ''go.dll''" by code_simp+

lemma demo_place: "place_dll demo_dll no_modules = (0x60000000, 0x50000000, no_modules\<lparr>s_dll_next_base := 0x60010000\<rparr>)"
  by code_simp

lemma no_modules_find: "List.find (module_named x) (s_modules no_modules) = None" "None \<in> set (s_modules no_modules)"
  by (simp_all add: no_modules_def module_named_def find_None_iff)

lemma demo_loads:
  "\<exists>ds' b'. wg_load_dll mem_api (Some demo_dll) demo_path no_modules demo_mapper (Some (mem_vm 0)) = Some (0x60000000, ds', demo_mapper, b')"
  by (simp add: wg_load_dll_def no_modules_find demo_dll_parts map_dll_def demo_place relocatable_def dll_slots_def Let_def
      demo_relocated del: fold.simps)

theorem load_dll_once_witness:
  "\<exists>ds' b'. wg_load_dll mem_api (Some demo_dll) demo_path no_modules demo_mapper (Some (mem_vm 0)) = Some (0x60000000, ds', demo_mapper, b') \<and>
     wg_module_find ds' ''GO.DLL'' = 0x60000000 \<and>
     wg_load_dll mem_api None ''GO.DLL'' ds' demo_mapper b' = Some (0x60000000, ds', demo_mapper, b')"
proof -
  obtain ds' b' where l: "wg_load_dll mem_api (Some demo_dll) demo_path no_modules demo_mapper (Some (mem_vm 0)) =
      Some (0x60000000, ds', demo_mapper, b')" using demo_loads by blast
  have n: "dll_basename ''GO.DLL'' = dll_basename demo_path" by (simp only: demo_name)
  from load_dll_once [OF l no_modules_find(1) demo_dll_parts(5) no_modules_find(2) n, of None] l show ?thesis by blast
qed

theorem load_keeps_apart_witness:
  "\<exists>ds' b'. wg_load_dll mem_api (Some demo_dll) demo_path no_modules demo_mapper (Some (mem_vm 0)) = Some (0x60000000, ds', demo_mapper, b') \<and>
     dlls_apart ds'"
proof -
  obtain ds' b' where l: "wg_load_dll mem_api (Some demo_dll) demo_path no_modules demo_mapper (Some (mem_vm 0)) =
      Some (0x60000000, ds', demo_mapper, b')" using demo_loads by blast
  have i: "dlls_apart no_modules" by (simp add: dlls_apart_def no_modules_def)
  have "\<forall>img. Some demo_dll = Some img \<longrightarrow> unat (s_dll_next_base no_modules) + unat (image_extent img) + 0xFFFF < 2 ^ 32"
    by (simp add: no_modules_def image_extent_def demo_dll_parts)
  from load_keeps_apart [OF i l this] l show ?thesis by blast
qed

text \<open>A full table, of modules that have no names.\<close>

theorem full_table_forgets_witness:
  "\<exists>ds ds' b'. wg_load_dll mem_api (Some demo_dll) demo_path ds demo_mapper (Some (mem_vm 0)) = Some (0x60000000, ds', demo_mapper, b') \<and>
     wg_module_find ds' demo_path = 0"
proof -
  define md where "md = \<lparr>mod_name = '''', mod_base = 0x70000000, mod_size = 0, mod_img = demo_dll\<rparr>"
  define ds where "ds = \<lparr>s_modules = replicate 16 (Some md), s_dll_next_base = 0x60000000\<rparr>"
  have pl: "place_dll demo_dll ds = (0x60000000, 0x50000000, ds\<lparr>s_dll_next_base := 0x60010000\<rparr>)"
    using demo_place by (simp add: place_dll_def no_modules_def ds_def relocatable_def demo_dll_parts Let_def)
  have new: "List.find (module_named (dll_basename demo_path)) (s_modules ds) = None"
    by (simp add: ds_def demo_name module_named_def md_def find_None_iff)
  have "\<exists>ds' b'. wg_load_dll mem_api (Some demo_dll) demo_path ds demo_mapper (Some (mem_vm 0)) =
      Some (0x60000000, ds', demo_mapper, b')"
    using new by (simp add: wg_load_dll_def demo_dll_parts map_dll_def pl relocatable_def dll_slots_def Let_def demo_relocated)
  then obtain ds' b' where l: "wg_load_dll mem_api (Some demo_dll) demo_path ds demo_mapper (Some (mem_vm 0)) =
      Some (0x60000000, ds', demo_mapper, b')" by blast
  have full: "None \<notin> set (s_modules ds)" by (simp add: ds_def)
  from full_table_forgets [OF l new demo_dll_parts(5) full] l show ?thesis by blast
qed

section \<open>LoadLibrary and GetProcAddress\<close>

text \<open>A machine with the file name at 0x5000 and the name of the function at 0x16000.\<close>

definition demo_texts :: "u64 \<Rightarrow> u8" where
  "demo_texts x =
     (if 0x5000 \<le> x \<and> x < 0x500E then wide_bytes (map (of_char :: char \<Rightarrow> u16) ''go.dll'' @ [0]) ! unat (x - 0x5000)
      else if 0x16000 \<le> x \<and> x < 0x16003 then [0x67, 0x6F, 0] ! unat (x - 0x16000) else 0)"

definition text_vm :: "(u64 \<Rightarrow> u8) blink" where
  "text_vm = Some ((mem_vm 0)\<lparr>gmem := demo_texts\<rparr>)"

lemma text_vm_reads:
  "read_wstr mem_api 0x5000 511 text_vm = ''go.dll''" "read_astr mem_api 0x16000 255 text_vm = ''go''"
proof -
  have v: "text_vm \<noteq> None" by (simp add: text_vm_def)
  have "bytes_at (\<lambda>m. m) text_vm 0x5000 (wide_bytes (map (of_char :: char \<Rightarrow> u16) ''go.dll'' @ [0]))" by code_simp
  from read_wstr_text [OF mem_flat v this, of 511]
  have "read_wstr mem_api 0x5000 511 text_vm = map ascii_of (map (of_char :: char \<Rightarrow> u16) ''go.dll'')" by simp
  also have "\<dots> = ''go.dll''" by code_simp
  finally show "read_wstr mem_api 0x5000 511 text_vm = ''go.dll''" .
  have "bytes_at (\<lambda>m. m) text_vm 0x16000 ([0x67, 0x6F] @ [0])" by code_simp
  from read_astr_text [OF mem_flat v this, of 255]
  have "read_astr mem_api 0x16000 255 text_vm = c_string [0x67, 0x6F]" by simp
  also have "\<dots> = ''go''" by code_simp
  finally show "read_astr mem_api 0x16000 255 text_vm = ''go''" .
qed

lemma text_vm_loads:
  "\<exists>fs' ds' b'. h_LoadLibraryW mem_api (\<lambda>_. Some demo_dll) [0x5000] mem_engine demo_files no_modules demo_mapper text_vm =
     Some (0x60000000, fs', ds', demo_mapper, b')"
  by (simp add: h_LoadLibraryW_def text_vm_reads wg_load_dll_def no_modules_find demo_dll_parts map_dll_def demo_place
      relocatable_def dll_slots_def Let_def demo_relocated split_beta del: fold.simps)

theorem loaded_proc_witness:
  "\<exists>fs' ds' b'. h_LoadLibraryW mem_api (\<lambda>_. Some demo_dll) [0x5000] mem_engine demo_files no_modules demo_mapper text_vm =
     Some (0x60000000, fs', ds', demo_mapper, b') \<and>
     h_GetProcAddress mem_api [0x60000000, 0x16000] ds' demo_mapper text_vm = Some (0x60001100, demo_mapper, text_vm)"
proof -
  obtain fs' ds' b' where l: "h_LoadLibraryW mem_api (\<lambda>_. Some demo_dll) [0x5000] mem_engine demo_files no_modules demo_mapper text_vm =
     Some (0x60000000, fs', ds', demo_mapper, b')" using text_vm_loads by blast
  have n: "[0x5000] ! 0 \<noteq> (0 :: u32)" "read_wstr mem_api ([0x5000] ! 0) 511 text_vm = ''go.dll''" by (simp_all add: text_vm_reads)
  have g: "''go.dll'' \<noteq> []" "\<not> emulated_plugin (dll_basename ''go.dll'')" by code_simp+
  have p: "fst (place_dll demo_dll no_modules) = 0x60000000" "(0x60000000 :: u32) \<noteq> 0"
    "\<forall>md. Some md \<in> set (s_modules no_modules) \<longrightarrow> mod_base md \<noteq> 0x60000000"
    by (simp_all add: demo_place) (simp add: no_modules_def)
  have f: "(0xFFFF :: u32) < 0x16000" "\<not> is_nsdialogs_export ''go''" "map_of [(''go'', 0x1100)] ''go'' = Some (0x1100 :: u32)"
    "(0x60000000 + 0x1100 :: u32) \<noteq> 0" "CHR 0x00 \<notin> set ''go''"
    by code_simp+
  from loaded_proc [OF l n g(1) refl demo_dll_parts(5) demo_exports no_modules_find(1,2) g(2) p refl f(1) text_vm_reads(2) f(2,3,4,5)] l
  show ?thesis by auto
qed

end
