(* ===== verification/EngineFileCalls.thy ===== *)
theory EngineFileCalls
  imports EngineStrings
begin

text \<open>
  The Win32 calls on files, directories and paths, \<open>handle_blink_thunk\<close> in
  \<open>Sources/Core/wg_engine.c\<close>, over the file layer of \<open>Files\<close>. \<open>mal n\<close> is what \<open>malloc(n)\<close> returns, with the
  bytes that the block holds; \<open>unlink\<close>, \<open>rmtree\<close> and \<open>lookup\<close> (of \<open>find_in_bottle\<close>) are the host's.
  The bookkeeping for the copy of the installer's data, which is compiled out, is left out.
\<close>

section \<open>Paths of the guest\<close>

definition path_char :: "u16 \<Rightarrow> char" where
  "path_char c = (if c < 128 then char_of (unat c) else CHR ''_'')"

definition read_path :: "'m guest_api \<Rightarrow> u32 \<Rightarrow> 'm blink \<Rightarrow> string" where
  "read_path api p b = (if p = 0 then [] else map path_char (to_nul (read_units api zeros p 259 b)))"

section \<open>Files\<close>

definition h_CreateFileW :: "'m guest_api \<Rightarrow> u32 list \<Rightarrow> files \<Rightarrow> 'm blink \<Rightarrow> u64 \<times> files" where
  "h_CreateFileW api args fs b =
     (let (p, fs) = wg_files_map_path (read_path api (args ! 0) b) fs;
          (h, fs) = wg_files_create p (args ! 1) (args ! 4) fs
      in (case h of None \<Rightarrow> 0xFFFFFFFF | Some h \<Rightarrow> ucast h, fs))"

definition put_count :: "'m guest_api \<Rightarrow> u32 \<Rightarrow> nat \<Rightarrow> 'm blink \<Rightarrow> 'm blink" where
  "put_count api p n b = (if p \<noteq> 0 then write32 api p (of_nat n) b else b)"

definition h_ReadFile ::
    "'m guest_api \<Rightarrow> (nat \<Rightarrow> u8 list option) \<Rightarrow> u64 \<Rightarrow> u32 list \<Rightarrow> files \<Rightarrow> 'm blink \<Rightarrow> (u64 \<times> files \<times> 'm blink) ub" where
  "h_ReadFile api mal dflt args fs b =
     (let n = (if 0x100000 < args ! 2 then 0x100000 else unat (args ! 2))
      in do {
        (_, fs) \<leftarrow> wg_files_set_pointer (args ! 0) 0 1 fs;
        if mal n = None then Some (dflt, fs, b)
        else Some (case wg_files_read (args ! 0) n fs of
                     (None, fs) \<Rightarrow> (dflt, fs, b)
                   | (Some bs, fs) \<Rightarrow> (1, fs, put_count api (args ! 3) (length bs) (write_bytes api (args ! 1) bs b)))
      })"

text \<open>The handles of the standard streams and of pipes: what is written to them is only logged.\<close>

definition is_spew :: "u32 \<Rightarrow> bool" where
  "is_spew h \<longleftrightarrow> h = 0xF1 \<or> h = 0xF2 \<or> h = 0x7301"

definition h_WriteFile ::
    "'m guest_api \<Rightarrow> (nat \<Rightarrow> u8 list option) \<Rightarrow> u64 \<Rightarrow> u32 list \<Rightarrow> files \<Rightarrow> 'm blink \<Rightarrow> u64 \<times> files \<times> 'm blink" where
  "h_WriteFile api mal dflt args fs b =
     (let n = (if 0x100000 < args ! 2 then 0x100000 else unat (args ! 2))
      in if is_spew (args ! 0) then (1, fs, put_count api (args ! 3) n b)
         else case mal n of
                None \<Rightarrow> (dflt, fs, b)
              | Some buf \<Rightarrow>
                  (case wg_files_write (args ! 0) (snd (wg_blink_read_mem api b (ucast (args ! 1)) buf n)) fs of
                     (Some k, fs) \<Rightarrow> (1, fs, put_count api (args ! 3) k b)
                   | (None, fs) \<Rightarrow> (1, fs, put_count api (args ! 3) n b)))"

definition h_GetFileType :: "u32 list \<Rightarrow> u64" where
  "h_GetFileType args = (if 0x100 \<le> args ! 0 \<and> args ! 0 < 0x200 then 1 else 0)"

definition plausible_ptr :: "u32 \<Rightarrow> bool" where
  "plausible_ptr p \<longleftrightarrow> 0x10000 < p \<and> p < 0xF0000000"

definition h_GetFileSize :: "'m guest_api \<Rightarrow> u32 list \<Rightarrow> files \<Rightarrow> 'm blink \<Rightarrow> u64 \<times> 'm blink" where
  "h_GetFileSize api args fs b =
     (ucast (wg_files_get_size (args ! 0) fs), if plausible_ptr (args ! 1) then write32 api (args ! 1) 0 b else b)"

definition h_GetFileSizeEx :: "'m guest_api \<Rightarrow> u32 list \<Rightarrow> files \<Rightarrow> 'm blink \<Rightarrow> u64 \<times> 'm blink" where
  "h_GetFileSizeEx api args fs b =
     (1, if plausible_ptr (args ! 1)
         then write_bytes api (args ! 1) (le_bytes 8 (ucast (wg_files_get_size (args ! 0) fs) :: u64)) b else b)"

definition h_SetFilePointer :: "u32 list \<Rightarrow> files \<Rightarrow> (u64 \<times> files) ub" where
  "h_SetFilePointer args fs =
     do { (p, fs) \<leftarrow> wg_files_set_pointer (args ! 0) (sint (args ! 1)) (args ! 3) fs; Some (ucast p, fs) }"

definition h_CloseHandle :: "u32 list \<Rightarrow> files \<Rightarrow> (u64 \<times> files) ub" where
  "h_CloseHandle args fs = do { (_, fs) \<leftarrow> wg_files_close (args ! 0) fs; Some (1, fs) }"

definition h_GetOverlappedResult :: "'m guest_api \<Rightarrow> u32 list \<Rightarrow> 'm blink \<Rightarrow> u64 \<times> 'm blink" where
  "h_GetOverlappedResult api args b =
     (1, if args ! 1 \<noteq> 0 \<and> args ! 2 \<noteq> 0 then write32 api (args ! 2) (read32 api (ucast (args ! 1 + 4)) b) b else b)"

text \<open>\<open>stat\<close>: a directory, a file or nothing.\<close>

definition h_GetFileAttributesW :: "'m guest_api \<Rightarrow> u32 list \<Rightarrow> engine \<Rightarrow> files \<Rightarrow> 'm blink \<Rightarrow> u64 \<times> engine \<times> files" where
  "h_GetFileAttributesW api args e fs b =
     (let (p, fs) = wg_files_map_path (read_path api (args ! 0) b) fs
      in if p \<in> dirs (disk fs) then (0x10, e, fs)
         else if contents (disk fs) p \<noteq> None then (0x80, e, fs)
         else (0xFFFFFFFF, e\<lparr>last_error := 2\<rparr>, fs))"

definition h_DeleteFileW ::
    "'m guest_api \<Rightarrow> (string \<Rightarrow> disk \<Rightarrow> bool \<times> disk) \<Rightarrow> u32 list \<Rightarrow> files \<Rightarrow> 'm blink \<Rightarrow> u64 \<times> files" where
  "h_DeleteFileW api unlink args fs b =
     (let (p, fs) = wg_files_map_path (read_path api (args ! 0) b) fs;
          (ok, d) = unlink p (disk fs)
      in (if ok then 1 else 0, fs\<lparr>disk := d\<rparr>))"

section \<open>Directories\<close>

definition can_mkdir :: "disk \<Rightarrow> string \<Rightarrow> bool" where
  "can_mkdir d p \<longleftrightarrow> contents d p = None \<and> p \<notin> dirs d \<and> parent p \<in> dirs d"

definition h_CreateDirectoryW ::
    "'m guest_api \<Rightarrow> (string \<Rightarrow> disk \<Rightarrow> disk) \<Rightarrow> u32 list \<Rightarrow> engine \<Rightarrow> files \<Rightarrow> 'm blink \<Rightarrow> u64 \<times> engine \<times> files" where
  "h_CreateDirectoryW api rmtree args e fs b =
     (let apath = read_path api (args ! 0) b;
          (p, fs) = wg_files_map_path apath fs;
          d = wg_files_ensure_parents p (disk fs)
      in if can_mkdir d p then (1, e\<lparr>last_error := 0\<rparr>, fs\<lparr>disk := mkdir d p\<rparr>)
         else if contents d p \<noteq> None \<or> p \<in> dirs d
         then if strstr apath ''.tmp''
              then let d = rmtree p d
                   in if can_mkdir d p then (1, e\<lparr>last_error := 0\<rparr>, fs\<lparr>disk := mkdir d p\<rparr>)
                      else (0, e\<lparr>last_error := 183\<rparr>, fs\<lparr>disk := d\<rparr>)
              else (0, e\<lparr>last_error := 183\<rparr>, fs\<lparr>disk := d\<rparr>)
         else (0, e\<lparr>last_error := 3\<rparr>, fs\<lparr>disk := d\<rparr>))"

text \<open>\<open>%05X\<close> of 20 bits.\<close>

definition hex_digit :: "nat \<Rightarrow> char" where
  "hex_digit k = ''0123456789ABCDEF'' ! k"

definition hex5 :: "u32 \<Rightarrow> string" where
  "hex5 w = map (\<lambda>i. hex_digit (unat (drop_bit (4 * (4 - i)) w AND 0xF))) [0..<5]"

definition wide_of :: "string \<Rightarrow> u16 list" where
  "wide_of s = map of_char s"

text \<open>The name of a temporary file: path, prefix, number.\<close>

definition temp_name :: "u16 list \<Rightarrow> u16 list \<Rightarrow> u32 \<Rightarrow> u16 list" where
  "temp_name path pfx unique =
     (let dir = take 240 path;
          dir = (if dir \<noteq> [] \<and> last dir \<noteq> 0x5C \<and> last dir \<noteq> 0x2F then dir @ [0x5C] else dir)
      in dir @ to_nul (take 3 pfx) @ wide_of (hex5 unique) @ wide_of ''.tmp'')"

definition h_GetTempFileNameW ::
    "'m guest_api \<Rightarrow> u32 list \<Rightarrow> u32 \<Rightarrow> files \<Rightarrow> 'm blink \<Rightarrow> u64 \<times> u32 \<times> files \<times> 'm blink" where
  "h_GetTempFileNameW api args counter fs b =
     (let unique = (if args ! 2 \<noteq> 0 then args ! 2 else counter);
          counter = (if args ! 2 \<noteq> 0 then counter else counter + 1);
          path = (if args ! 0 \<noteq> 0 then to_nul (read_units api zeros (args ! 0) 259 b) else []);
          pfx = (if args ! 1 \<noteq> 0 then read_units api (\<lambda>_. wide_bytes (wide_of ''tmp'')) (args ! 1) 3 b else wide_of ''tmp'');
          nm = temp_name path pfx unique;
          b = (if args ! 3 \<noteq> 0 then write_bytes api (args ! 3) (wide_bytes (nm @ [0])) b else b);
          (p, fs) = wg_files_map_path (map path_char nm) fs
      in (ucast unique, counter, fs\<lparr>disk := snd (fopen (disk fs) p WB)\<rparr>, b))"

section \<open>Names\<close>

text \<open>A static string is written with its NUL when the buffer, of \<open>cap\<close> units, is large enough.\<close>

definition put_fixed :: "'m guest_api \<Rightarrow> string \<Rightarrow> u32 \<Rightarrow> u32 \<Rightarrow> 'm blink \<Rightarrow> u64 \<times> 'm blink" where
  "put_fixed api s p cap b =
     (let n = length s + 1
      in (if n \<le> unat cap then of_nat (n - 1) else of_nat n,
          if p \<noteq> 0 \<and> n \<le> unat cap then write_bytes api p (wide_bytes (wide_of s @ [0])) b else b))"

definition win_root :: string where "win_root = [CHR ''C'', CHR '':'', backslash]"

definition h_GetTempPathW :: "'m guest_api \<Rightarrow> u32 list \<Rightarrow> 'm blink \<Rightarrow> u64 \<times> 'm blink" where
  "h_GetTempPathW api args b = put_fixed api (win_root @ ''Temp'' @ [backslash]) (args ! 1) (args ! 0) b"

definition h_GetWindowsDirectoryW :: "'m guest_api \<Rightarrow> u32 list \<Rightarrow> 'm blink \<Rightarrow> u64 \<times> 'm blink" where
  "h_GetWindowsDirectoryW api args b = put_fixed api (win_root @ ''Windows'') (args ! 0) (args ! 1) b"

definition h_GetSystemDirectoryW :: "'m guest_api \<Rightarrow> u32 list \<Rightarrow> 'm blink \<Rightarrow> u64 \<times> 'm blink" where
  "h_GetSystemDirectoryW api args b =
     put_fixed api (win_root @ ''Windows'' @ [backslash] @ ''System32'') (args ! 0) (args ! 1) b"

definition h_GetDiskFreeSpace :: "'m guest_api \<Rightarrow> u32 list \<Rightarrow> 'm blink \<Rightarrow> u64 \<times> 'm blink" where
  "h_GetDiskFreeSpace api args b =
     (let put = (\<lambda>p (n :: u64) b. if p \<noteq> 0 then write_bytes api p (le_bytes 8 n) b else b);
          total = 200 * 1024 * 1024 * 1024; avail = 100 * 1024 * 1024 * 1024
      in (1, put (args ! 3) avail (put (args ! 2) total (put (args ! 1) avail b))))"

definition module_path :: "(string \<Rightarrow> string \<Rightarrow> string option) \<Rightarrow> u32 \<Rightarrow> engine \<Rightarrow> files \<Rightarrow> string \<times> files" where
  "module_path lookup h e fs =
     (if h = 0 \<or> h = main_base e then wg_files_exe_win_path lookup fs
      else (win_root @ ''Windows'' @ [backslash] @ ''System32'' @ [backslash] @ ''kernel32.dll'', fs))"

text \<open>A name that is cut has no NUL in A, and W copies through a buffer of 520 units. A negative length
  becomes an enormous one.\<close>

definition h_GetModuleFileNameA ::
    "'m guest_api \<Rightarrow> (string \<Rightarrow> string \<Rightarrow> string option) \<Rightarrow> u32 list \<Rightarrow> engine \<Rightarrow> files \<Rightarrow> 'm blink \<Rightarrow> (u64 \<times> files \<times> 'm blink) ub" where
  "h_GetModuleFileNameA api lookup args e fs b =
     (let (path, fs) = module_path lookup (args ! 0) e fs; len = int (length path)
      in if args ! 1 \<noteq> 0 \<and> 0 < args ! 2
         then do {
           most \<leftarrow> c_int (sint (args ! 2) - 1);
           let len = (if most < len then most else len);
           guard (0 \<le> len);
           Some (of_int len, fs, write_bytes api (args ! 1) (take (nat len + 1) (map of_char path @ [0])) b)
         } else Some (of_int len, fs, b))"

definition h_GetModuleFileNameW ::
    "'m guest_api \<Rightarrow> (string \<Rightarrow> string \<Rightarrow> string option) \<Rightarrow> u32 list \<Rightarrow> engine \<Rightarrow> files \<Rightarrow> 'm blink \<Rightarrow> (u64 \<times> files \<times> 'm blink) ub" where
  "h_GetModuleFileNameW api lookup args e fs b =
     (let (path, fs) = module_path lookup (args ! 0) e fs; len = int (length path)
      in if args ! 1 \<noteq> 0 \<and> 0 < args ! 2
         then do {
           most \<leftarrow> c_int (sint (args ! 2) - 1);
           let len = (if most < len then most else len);
           guard (0 \<le> len \<and> len < 520);
           Some (of_int len, fs, write_bytes api (args ! 1) (wide_bytes (wide_of (take (nat len) path) @ [0])) b)
         } else Some (of_int len, fs, b))"

section \<open>The current directory\<close>

definition h_SetCurrentDirectory :: "'m guest_api \<Rightarrow> bool \<Rightarrow> u32 list \<Rightarrow> files \<Rightarrow> 'm blink \<Rightarrow> u64 \<times> files" where
  "h_SetCurrentDirectory api wide args fs b =
     (let p = (if args ! 0 = 0 then [] else if wide then read_wstr api (args ! 0) 519 b else read_astr api (args ! 0) 519 b)
      in (1, wg_files_set_cwd (if p \<noteq> [] then Some p else None) fs))"

text \<open>The directory of the executable, in a buffer of 520 bytes.\<close>

definition with_root :: "string \<Rightarrow> string" where
  "with_root d = (if 2 \<le> length d \<and> last d = CHR '':'' then d @ [backslash] else d)"

definition exe_win_dir :: "string \<Rightarrow> string ub" where
  "exe_win_dir p =
     (let d = with_root (case strrchr backslash p of None \<Rightarrow> p | Some i \<Rightarrow> take i p)
      in do { guard (length d < 520); Some d })"

definition h_GetCurrentDirectory ::
    "'m guest_api \<Rightarrow> (string \<Rightarrow> string \<Rightarrow> string option) \<Rightarrow> bool \<Rightarrow> u32 list \<Rightarrow> files \<Rightarrow> 'm blink \<Rightarrow> (u64 \<times> files \<times> 'm blink) ub" where
  "h_GetCurrentDirectory api lookup wide args fs b =
     do {
       (d, fs) \<leftarrow> (case wg_files_get_cwd fs of
                     Some c \<Rightarrow> do { guard (length (with_root c) < 520); Some (with_root c, fs) }
                   | None \<Rightarrow> (let (p, fs) = wg_files_exe_win_path lookup fs in do { d \<leftarrow> exe_win_dir p; Some (d, fs) }));
       Some (of_nat (length d), fs,
             if args ! 1 \<noteq> 0 \<and> length d < unat (args ! 0)
             then write_bytes api (args ! 1) (if wide then wide_bytes (wide_of d @ [0]) else map of_char d @ [0]) b
             else b)
     }"

text \<open>A name that is not on a drive is taken from the directory of the executable.\<close>

definition full_path :: "(string \<Rightarrow> string \<Rightarrow> string option) \<Rightarrow> string \<Rightarrow> files \<Rightarrow> (string \<times> files) ub" where
  "full_path lookup nm fs =
     (if nm \<noteq> [] \<and> take 1 (drop 1 nm) = '':'' then Some (to_backslash nm, fs)
      else let (p, fs) = wg_files_exe_win_path lookup fs
           in do {
             d \<leftarrow> exe_win_dir p;
             guard (d \<noteq> []);
             Some (to_backslash (take 519 (d @ (if last d = backslash then [] else [backslash]) @ nm)), fs)
           })"

definition h_GetFullPathName ::
    "'m guest_api \<Rightarrow> (string \<Rightarrow> string \<Rightarrow> string option) \<Rightarrow> bool \<Rightarrow> u32 list \<Rightarrow> files \<Rightarrow> 'm blink \<Rightarrow> (u64 \<times> files \<times> 'm blink) ub" where
  "h_GetFullPathName api lookup wide args fs b =
     (let nm = (if args ! 0 = 0 then [] else if wide then read_wstr api (args ! 0) 519 b else read_astr api (args ! 0) 519 b)
      in do {
        (full, fs) \<leftarrow> full_path lookup nm fs;
        Some (of_nat (length full), fs,
          if args ! 2 \<noteq> 0 \<and> length full < unat (args ! 1)
          then let b = write_bytes api (args ! 2) (if wide then wide_bytes (wide_of full @ [0]) else map of_char full @ [0]) b;
                   off = (case strrchr backslash full of None \<Rightarrow> 0 | Some i \<Rightarrow> i + 1)
               in if args ! 3 \<noteq> 0 then write32 api (args ! 3) (args ! 2 + of_nat (if wide then off * 2 else off)) b else b
          else b)
      })"

section \<open>The command line\<close>

text \<open>The page of the two command lines: the wide one at its start, the other at 0x100. \<open>page\<close> says
  whether it has been mapped.\<close>

definition quoted :: "string \<Rightarrow> string" where
  "quoted s = [CHR 0x22] @ s @ [CHR 0x22]"

definition command_page :: "string \<Rightarrow> u8 list" where
  "command_page w =
     put_bytes 0x100 (map of_char (take 255 (quoted w)) @ [0])
       (put_bytes 0 (wide_bytes (wide_of (quoted (take 250 w)) @ [0])) (replicate 0x1000 0))"

definition h_GetCommandLine ::
    "'m guest_api \<Rightarrow> (string \<Rightarrow> string \<Rightarrow> string option) \<Rightarrow> bool \<Rightarrow> bool \<Rightarrow> files \<Rightarrow> 'm blink \<Rightarrow> u64 \<times> bool \<times> files \<times> 'm blink" where
  "h_GetCommandLine api lookup wide page fs b =
     (let (fs, b) = (if page then (fs, b)
                     else let (w, fs) = wg_files_exe_win_path lookup fs
                          in (fs, snd (wg_blink_load_code api False b 0xA00000 (command_page w) 0x1000 0)))
      in (if wide then 0xA00000 else 0xA00100, True, fs, b))"

text \<open>The whole command line becomes the only argument.\<close>

definition h_CommandLineToArgvW ::
    "'m guest_api \<Rightarrow> bool \<Rightarrow> u64 \<Rightarrow> u32 list \<Rightarrow> engine \<Rightarrow> 'm blink \<Rightarrow> u64 \<times> engine \<times> 'm blink" where
  "h_CommandLineToArgvW api z dflt args e b =
     (let cmd = (if args ! 0 = 0 then [] else to_nul (read_units api zeros (args ! 0) 511 b));
          blk = le_bytes 4 (heap_ptr e + 4) @ wide_bytes (cmd @ [0]);
          total = (of_nat (length blk) + 0xFFF) AND NOT 0xFFF :: u32
      in if \<not> z then (dflt, e, b)
         else let b = snd (wg_blink_load_code api False b (ucast (heap_ptr e))
                        (blk @ replicate (unat total - length blk) 0) total 0)
              in (ucast (heap_ptr e), e\<lparr>heap_ptr := heap_ptr e + total\<rparr>,
                  if args ! 1 \<noteq> 0 then write32 api (args ! 1) 1 b else b))"

end
