(* ===== verification/GuestStrings.thy ===== *)
theory GuestStrings
  imports GuestText
begin

text \<open>
  What the Win32 calls on strings do to the strings of the guest, when its memory keeps its bytes.
\<close>

section \<open>Buffers\<close>

lemma length_zeros [simp]: "length (zeros n) = n"
  by (simp add: zeros_def)

lemma read_units_prefix:
  assumes "flat_ram api peek" and "b \<noteq> None" and "bytes_at peek b a (wide_bytes (ws @ [0]))" and "length ws < n"
    and "\<And>k. length (junk k) = k"
  shows "\<exists>rest. read_units api junk a n b = ws @ 0 # rest"
proof -
  have "length (wide_bytes (ws @ [0])) \<le> 2 * n" using assms(4) by simp
  then obtain rest where "snd (wg_blink_read_mem api b (ucast a) (junk (2 * n)) (2 * n)) = wide_bytes (ws @ [0]) @ rest"
    using read_at [OF assms(1-3), of "2 * n" "junk (2 * n)"] assms(5) by blast
  then have "read_units api junk a n b = ws @ 0 # u16s rest" by (simp add: read_units_def read_buf_def u16s_wide)
  then show ?thesis ..
qed

lemma read_units_text:
  assumes "flat_ram api peek" and "b \<noteq> None" and "bytes_at peek b a (wide_bytes (ws @ [0]))" and "0 \<notin> set ws" and "length ws < n"
    and "\<And>k. length (junk k) = k"
  shows "to_nul (take (n - 1) (read_units api junk a n b)) = ws" and "to_nul (read_units api junk a n b) = ws"
proof -
  obtain rest where r: "read_units api junk a n b = ws @ 0 # rest" using read_units_prefix [OF assms(1-3,5,6)] by blast
  show "to_nul (take (n - 1) (read_units api junk a n b)) = ws" using r to_nul_take [OF assms(4), of "n - 1"] assms(5) by simp
  show "to_nul (read_units api junk a n b) = ws" using r to_nul_stop [OF assms(4)] by simp
qed

lemma wide_append: "wide_bytes (xs @ ys) = wide_bytes xs @ wide_bytes ys"
  by (simp add: wide_bytes_def)

lemma lstrlenW_text:
  assumes "flat_ram api peek" and "b \<noteq> None" and "bytes_at peek b a (wide_bytes (ws @ [0]))" and "0 \<notin> set ws" and "length ws < 1024"
    and "\<And>k. length (junk k) = k" and "a \<noteq> 0"
  shows "h_lstrlenW api junk dflt [a] b = of_nat (length ws)"
  using read_units_text(1) [OF assms(1-6)] assms(7) by (simp add: h_lstrlenW_def)

section \<open>Concatenation\<close>

text \<open>lstrcatW appends, as long as the result has at most 1022 units.\<close>

theorem lstrcat_appends:
  assumes ram: "flat_ram api peek" and b: "b \<noteq> None" and junk: "\<And>k. length (junk k) = k"
    and d: "bytes_at peek b dst (wide_bytes (d @ [0]))" and s: "bytes_at peek b src (wide_bytes (s @ [0]))"
    and nul: "0 \<notin> set d" "0 \<notin> set s" and fits: "length d + length s \<le> 1022" and nz: "dst \<noteq> 0" "src \<noteq> 0"
    and c: "h_lstrcatW api junk dflt [dst, src] b = (r, b')"
  shows "r = ucast dst \<and> bytes_at peek b' dst (wide_bytes (d @ s @ [0])) \<and>
    (\<forall>x. 2 * (length d + length s + 1) \<le> unat (x - ucast dst) \<longrightarrow> byte_in peek b' x = byte_in peek b x) \<and>
    h_lstrlenW api junk dflt [dst] b' = of_nat (length d + length s)"
proof -
  have "to_nul (take 1023 (read_units api junk dst 1024 b)) = d" "to_nul (take 1023 (read_units api junk src 1024 b)) = s"
    using read_units_text(1) [OF ram b d nul(1) _ junk, of 1024] read_units_text(1) [OF ram b s nul(2) _ junk, of 1024] fits by simp_all
  then have e: "r = ucast dst" "b' = write_bytes api dst (wide_bytes (d @ s @ [0])) b"
    using c nz fits by (simp_all add: h_lstrcatW_def Let_def nat_int_add)
  have l: "length (wide_bytes (d @ s @ [0])) = 2 * (length d + length s + 1)" by simp
  have at: "bytes_at peek b' dst (wide_bytes ((d @ s) @ [0]))" unfolding e(2)
    using bytes_at_write [OF ram b, of "wide_bytes (d @ s @ [0])" dst] fits by simp
  moreover have "\<forall>x. 2 * (length d + length s + 1) \<le> unat (x - ucast dst) \<longrightarrow> byte_in peek b' x = byte_in peek b x"
    unfolding e(2) using write_elsewhere [OF ram b] l by metis
  moreover have b': "b' \<noteq> None" using b by (simp only: e(2) write_bytes_Some not_False_eq_True)
  have "h_lstrlenW api junk dflt [dst] b' = of_nat (length (d @ s))"
    by (rule lstrlenW_text [OF ram b' at _ _ junk nz(1)]) (use nul fits in simp_all)
  ultimately show ?thesis using e(1) by simp
qed

section \<open>Conversions\<close>

lemma read_unit:
  assumes "flat_ram api peek" and "b \<noteq> None" and "bytes_at peek b a (wide_bytes (w # ws))"
  shows "hd (read_units api zeros a 1 b) = w"
proof -
  have at: "bytes_at peek b a (wide_bytes [w] @ wide_bytes ws)" using assms(3) by (simp add: wide_bytes_def)
  have "bytes_at peek b a (wide_bytes [w])"
    using at unfolding bytes_at_def by (auto simp: upt_add_eq_append [of 0 2 "2 * length ws", simplified] append_eq_append_conv)
  from read_at [OF assms(1,2) this, of 2 "zeros 2"] obtain rest where
    "snd (wg_blink_read_mem api b (ucast a) (zeros 2) 2) = wide_bytes [w] @ rest" by auto
  then show ?thesis using u16s_wide [of "[w]" rest] by (simp add: read_units_def read_buf_def)
qed

lemma read_wz_text:
  assumes "flat_ram api peek" and "b \<noteq> None"
  shows "bytes_at peek b a (wide_bytes (ws @ [0])) \<Longrightarrow> 0 \<notin> set ws \<Longrightarrow> length ws < n \<Longrightarrow> unat a + 2 * length ws < 2 ^ 32 \<Longrightarrow>
    read_wz api a n b = ws @ [0]"
proof (induction ws arbitrary: a n)
  case Nil
  then obtain m where n: "n = Suc m" by (cases n) auto
  show ?case using read_unit [OF assms, of a 0 "[]"] Nil.prems(1) by (simp add: n)
next
  case (Cons w ws)
  then obtain m where n: "n = Suc m" by (cases n) auto
  have w: "hd (read_units api zeros a 1 b) = w" using read_unit [OF assms] Cons.prems(1) by simp
  have at: "bytes_at peek b a (wide_bytes [w] @ wide_bytes (ws @ [0]))" using Cons.prems(1) by (simp add: wide_bytes_def)
  have "unat a + length (wide_bytes [w]) < 2 ^ 32" using Cons.prems(4) by simp
  from bytes_at_append(2) [OF at this] have at2: "bytes_at peek b (a + 2) (wide_bytes (ws @ [0]))" by simp
  have u: "unat (a + 2) = unat a + 2" using Cons.prems(4) by (simp add: unat_word_ariths)
  have "read_wz api (a + 2) m b = ws @ [0]" by (rule Cons.IH [OF at2]) (use Cons.prems u n in simp_all)
  then show ?case using w Cons.prems(2) by (simp add: n Let_def)
qed

lemma read_az_text:
  assumes "flat_ram api peek" and "b \<noteq> None"
  shows "bytes_at peek b a (bs @ [0]) \<Longrightarrow> 0 \<notin> set bs \<Longrightarrow> length bs < n \<Longrightarrow> unat a + length bs < 2 ^ 32 \<Longrightarrow>
    read_az api a n b = bs @ [0]"
proof (induction bs arbitrary: a n)
  case Nil
  then obtain m where n: "n = Suc m" by (cases n) auto
  from read_at [OF assms, of a "[0]" 1 "zeros 1"] Nil.prems(1) have "read_buf api zeros a 1 b = [0]"
    by (auto simp: read_buf_def)
  then show ?case by (simp add: n)
next
  case (Cons c bs)
  then obtain m where n: "n = Suc m" by (cases n) auto
  have at: "bytes_at peek b a ([c] @ bs @ [0])" using Cons.prems(1) by simp
  have l: "unat a + length [c] < 2 ^ 32" using Cons.prems(4) by simp
  from read_at [OF assms bytes_at_append(1) [OF at l], of 1 "zeros 1"] have c: "hd (read_buf api zeros a 1 b) = c"
    by (auto simp: read_buf_def)
  from bytes_at_append(2) [OF at l] have at2: "bytes_at peek b (a + 1) (bs @ [0])" by simp
  have u: "unat (a + 1) = unat a + 1" using Cons.prems(4) by (simp add: unat_word_ariths)
  have "read_az api (a + 1) m b = bs @ [0]" by (rule Cons.IH [OF at2]) (use Cons.prems u n in simp_all)
  then show ?case using c Cons.prems(2) by (simp add: n Let_def)
qed

lemma ascii_byte:
  fixes w :: u16
  assumes "w < 128"
  shows "(ucast w :: u8) = 0 \<Longrightarrow> w = 0" and "(ucast (ucast w :: u8) :: u16) = w"
proof -
  have w: "unat w < 128" using assms by (simp add: word_less_nat_alt)
  then have u: "unat (ucast w :: u8) = unat w" by (simp add: unsigned_ucast_eq take_bit_eq_mod unat_mod)
  show "w = 0" if "(ucast w :: u8) = 0" using u that by (simp add: unat_eq_0)
  have "unat (ucast (ucast w :: u8) :: u16) = unat w" using u w by (simp add: unsigned_ucast_eq take_bit_eq_mod unat_mod)
  then show "(ucast (ucast w :: u8) :: u16) = w" by (simp only: unsigned_word_eqI)
qed

lemma put_converted_fits:
  assumes "xs \<noteq> []" and "int (length xs) \<le> cap" and "dst \<noteq> 0"
  shows "put_converted api enc xs dst cap b = Some (of_nat (length xs), write_bytes api dst (enc xs) b)"
proof -
  have n: "(if int (length xs) < cap then int (length xs) else cap) = int (length xs)" using assms(2) by simp
  have "0 < length xs" using assms(1) by simp
  then have "cap \<noteq> 0" using assms(2) by linarith
  then show ?thesis using assms(3) unfolding put_converted_def Let_def n by simp
qed

text \<open>An ASCII string that is converted to bytes and back is the same again.\<close>

theorem convert_roundtrip:
  assumes ram: "flat_ram api peek" and b: "b \<noteq> None" and s: "bytes_at peek b src (wide_bytes (ws @ [0]))"
    and ascii: "\<forall>w \<in> set ws. 0 < w \<and> w < 128" and len: "length ws < 2047"
    and nz: "src \<noteq> 0" "dst \<noteq> 0" "dst' \<noteq> 0" and room: "unat src + 2 * length ws < 2 ^ 32" "unat dst + length ws < 2 ^ 32"
    and cap: "int (length ws) < sint cap" "int (length ws) < sint cap'"
  shows "\<exists>b1 b2. h_WideCharToMultiByte api junk [cp, fl, src, - 1, dst, cap] b = Some (of_nat (length ws + 1), b1) \<and>
    bytes_at peek b1 dst (map ucast ws @ [0]) \<and>
    h_MultiByteToWideChar api junk [cp, fl, dst, - 1, dst', cap'] b1 = Some (of_nat (length ws + 1), b2) \<and>
    bytes_at peek b2 dst' (wide_bytes (ws @ [0]))"
proof -
  let ?n = "length ws + 1"
  have nul: "0 \<notin> set ws" using ascii by auto
  have m1: "sint (- 1 :: u32) = - 1" by simp
  have conv: "map narrow (ws @ [0]) = map ucast ws @ [0]" using ascii by (auto simp: narrow_def)
  let ?b1 = "write_bytes api dst (map ucast ws @ [0]) b"
  have cv: "map narrow (ws @ [0]) \<noteq> []" "length (map narrow (ws @ [0])) = ?n" by simp_all
  have "put_converted api (\<lambda>xs. xs) (map narrow (ws @ [0])) dst (sint cap) b = Some (of_nat ?n, ?b1)"
    using put_converted_fits [OF cv(1) _ nz(2), of "sint cap" api "\<lambda>xs. xs" b] cap(1) unfolding cv(2) conv by simp
  then have "h_WideCharToMultiByte api junk [cp, fl, src, - 1, dst, cap] b = Some (of_nat ?n, ?b1)"
    using read_wz_text [OF ram b s nul len room(1)] nz(1) by (simp add: h_WideCharToMultiByte_def m1 del: map_append)
  moreover have b1: "?b1 \<noteq> None" using b by (simp only: write_bytes_Some not_False_eq_True)
  moreover have at1: "bytes_at peek ?b1 dst (map ucast ws @ [0])"
    by (rule bytes_at_write [OF ram b]) (use len in simp)
  moreover have "(0 :: u8) \<notin> set (map ucast ws)" using ascii ascii_byte(1) by fastforce
  then have az: "read_az api dst 2047 ?b1 = map ucast ws @ [0]"
    by (rule read_az_text [OF ram b1 at1]) (use len room(2) in simp_all)
  moreover have wid: "map ucast (map ucast ws @ [0 :: u8]) = ws @ [0 :: u16]"
    using ascii ascii_byte(2) by (simp add: map_idI)
  moreover have wc: "ws @ [0] \<noteq> []" "length (ws @ [0]) = ?n" by simp_all
  have "put_converted api wide_bytes (ws @ [0]) dst' (sint cap') ?b1 =
      Some (of_nat ?n, write_bytes api dst' (wide_bytes (ws @ [0])) ?b1)"
    using put_converted_fits [OF wc(1) _ nz(3), of "sint cap'" api wide_bytes ?b1] cap(2) unfolding wc(2) by simp
  then have "h_MultiByteToWideChar api junk [cp, fl, dst, - 1, dst', cap'] ?b1 =
      Some (of_nat ?n, write_bytes api dst' (wide_bytes (ws @ [0])) ?b1)"
    using az nz(2) wid by (simp add: h_MultiByteToWideChar_def m1 del: map_append)
  moreover have "bytes_at peek (write_bytes api dst' (wide_bytes (ws @ [0])) ?b1) dst' (wide_bytes (ws @ [0]))"
    by (rule bytes_at_write [OF ram b1]) (use len in simp)
  ultimately show ?thesis by blast
qed

section \<open>Mappings\<close>

text \<open>LCMapStringA, whose strings have one byte a character, copies two bytes for each.\<close>

theorem map_string_a_overruns:
  assumes "src \<noteq> 0" and "dst \<noteq> 0" and "0 < sint n" and "sint n \<le> 512"
  shows "h_LCMapString api junk ''LCMapStringA'' [lcid, flags, src, n, dst, n] b =
    Some (ucast n, write_bytes api dst (read_buf api junk src (2 * nat (sint n)) b) b)"
  using assms by (simp add: h_LCMapString_def Let_def nat_mult_distrib mult.commute)

end
