(* ===== verification/GuestFiles.thy ===== *)
theory GuestFiles
  imports EngineFileCalls FilesOk GuestStrings
begin

text \<open>
  The Win32 calls on files and paths, seen by the guest: what it writes to a file it reads back, and where
  the names are that the calls leave in its memory.
\<close>

section \<open>Files\<close>

lemma put_count_keeps:
  assumes "flat_ram api peek" and "b \<noteq> None" and "bytes_at peek b a bs" and "length bs \<le> 2 ^ 32"
    and "unat p + 4 \<le> unat a \<or> unat a + length bs \<le> unat p"
  shows "bytes_at peek (put_count api p n b) a bs"
proof -
  have "bytes_at peek (write_bytes api p (le_bytes 4 (of_nat n :: u32)) b) a bs"
    by (rule bytes_at_other [OF assms(1-4)]) (use assms(5) in auto)
  then show ?thesis using assms(3) by (simp add: put_count_def write32_def)
qed

text \<open>What the guest writes to a file at the position of the handle, it reads back after a seek to there.\<close>

text \<open>C38: Up to 1 MB that the guest writes at a position below 2 GB through a readable handle that does not append is read back after a seek to there, with the count; the file's other bytes, all other files and all other entries of the handle table keep their values. Allocations of the host succeed, the handle is not one of the standard streams, and the count is written outside the buffer.\<close>

theorem guest_file_roundtrip:
  assumes ram: "flat_ram api peek" and b: "b \<noteq> None" and mal: "\<And>k. \<exists>blk. mal k = Some blk \<and> length blk = k"
    and h: "find_file h fs = Some i" and f: "fp (ftab fs ! i) = Some f" "can_write f" "can_read f" "\<not> appends f"
    and spew: "\<not> is_spew h" and pos: "st_pos f < 2 ^ 31"
    and bs: "bytes_at peek b src bs" "bs \<noteq> []" "length bs \<le> 0x100000"
    and cnt: "cnt \<noteq> 0" "unat cnt + 4 \<le> unat dst \<or> unat dst + length bs \<le> unat cnt"
  shows "\<exists>fs1 fs2 fs3 b3.
    h_WriteFile api mal r [h, src, of_nat (length bs), 0] fs b = (1, fs1, b) \<and>
    h_SetFilePointer [h, of_nat (st_pos f), 0, 0] fs1 = Some (of_nat (st_pos f), fs2) \<and>
    h_ReadFile api mal r [h, dst, of_nat (length bs), cnt] fs2 b = Some (1, fs3, b3) \<and>
    bytes_at peek b3 dst bs \<and> read32 api (ucast cnt) b3 = of_nat (length bs) \<and>
    (\<forall>j. j < length (file_data (disk fs) f) \<and> (j < st_pos f \<or> st_pos f + length bs \<le> j) \<longrightarrow>
       file_data (disk fs3) f ! j = file_data (disk fs) f ! j) \<and>
    (\<forall>q. q \<noteq> st_path f \<longrightarrow> contents (disk fs3) q = contents (disk fs) q) \<and>
    (\<forall>k. k \<noteq> h \<longrightarrow> find_file k fs3 = find_file k fs) \<and> (\<forall>j. j \<noteq> i \<longrightarrow> ftab fs3 ! j = ftab fs ! j)"
proof -
  let ?n = "of_nat (length bs) :: u32"
  have n: "unat ?n = length bs" "\<not> 0x100000 < ?n" using bs(3) by (simp_all add: unat_of_nat word_less_nat_alt)
  obtain blk where blk: "mal (length bs) = Some blk" "length blk = length bs" using mal by blast
  obtain s1 s2 s3 p where w: "wg_files_write h bs fs = (Some (length bs), s1)"
    "wg_files_set_pointer h (int (st_pos f)) 0 s1 = Some (p, s2)" "p = of_nat (st_pos f)"
    "wg_files_set_pointer h 0 1 s2 = Some (p, s2)" "wg_files_read h (length bs) s2 = (Some bs, s3)"
    and other: "\<forall>j. j < length (file_data (disk fs) f) \<and> (j < st_pos f \<or> st_pos f + length bs \<le> j) \<longrightarrow>
       file_data (disk s3) f ! j = file_data (disk fs) f ! j"
      "\<forall>q. q \<noteq> st_path f \<longrightarrow> contents (disk s3) q = contents (disk fs) q"
      "\<forall>k. k \<noteq> h \<longrightarrow> find_file k s3 = find_file k fs" "\<forall>j. j \<noteq> i \<longrightarrow> ftab s3 ! j = ftab fs ! j"
    using write_seek_read [OF h f bs(2)] by blast
  have "h_WriteFile api mal r [h, src, ?n, 0] fs b = (1, s1, b)"
    using read_at_exact [OF ram b bs(1) blk(2)] n blk spew w(1) by (simp add: h_WriteFile_def put_count_def)
  moreover have "sint (of_nat (st_pos f) :: u32) = int (st_pos f)"
    using pos by (simp add: signed_of_nat signed_take_bit_int_eq_self)
  then have "h_SetFilePointer [h, of_nat (st_pos f), 0, 0] s1 = Some (of_nat (st_pos f), s2)"
    using w(2,3) pos by (simp add: h_SetFilePointer_def unsigned_of_nat take_bit_nat_eq_self)
  moreover let ?b3 = "put_count api cnt (length bs) (write_bytes api dst bs b)"
  have "h_ReadFile api mal r [h, dst, ?n, cnt] s2 b = Some (1, s3, ?b3)"
    using n blk w(4,5) by (simp add: h_ReadFile_def)
  moreover have b2: "write_bytes api dst bs b \<noteq> None" using b by (simp only: write_bytes_Some not_False_eq_True)
  have l: "length bs < 2 ^ 32" using bs(3) by simp
  have "bytes_at peek ?b3 dst bs"
    by (rule put_count_keeps [OF ram b2 bytes_at_write [OF ram b l]]) (use cnt(2) l in auto)
  moreover have "read32 api (ucast cnt) ?b3 = of_nat (length bs)"
    using cnt(1) by (simp add: put_count_def read32_write32 [OF ram b2])
  ultimately show ?thesis using other by blast
qed

section \<open>The command line\<close>

text \<open>The bytes at 0x100, which are the unit 128 of a long wide command line, are those of the other one.\<close>

lemma long_command_line:
  assumes "w \<noteq> []"
  shows "take 2 (drop 0x100 (command_page w)) = [0x22, of_char (hd w)]"
proof -
  obtain c cs where w: "w = c # cs" using assms by (cases w) auto
  let ?X = "put_bytes 0 (wide_bytes (wide_of (quoted (take 250 w)) @ [0])) (replicate 0x1000 0)"
  have "0x100 \<le> length ?X" by (simp add: put_bytes_def)
  then have "drop 0x100 (command_page w) = (map of_char (take 255 (quoted w)) @ [0]) @ drop (0x100 + length (map of_char (take 255 (quoted w)) @ [0 :: u8])) ?X"
    unfolding command_page_def by (simp add: put_bytes_def [of "0x100"])
  then show ?thesis by (simp add: w quoted_def numeral_eq_Suc)
qed

end
