(* ===== verification/EngineGdiCalls.thy ===== *)
theory EngineGdiCalls
  imports EngineFileCalls Gdi
begin

text \<open>
  The Win32 calls on device contexts, bitmaps and the rectangles of windows, \<open>handle_blink_thunk\<close> in
  \<open>Sources/Core/wg_engine.c\<close>, over the drawing of \<open>Gdi\<close>. The text output, which calls Core Text, and the
  host's \<open>malloc\<close> are arguments: \<open>ok\<close> is the success of allocations, \<open>n\<close> the fuel of lines.
\<close>

record text_api =
  text_out :: "u32 \<Rightarrow> int \<Rightarrow> int \<Rightarrow> u16 list \<Rightarrow> gdi \<Rightarrow> gdi"
  text_caption :: "u32 \<Rightarrow> int \<Rightarrow> int \<Rightarrow> u16 list \<Rightarrow> gdi \<Rightarrow> gdi"
  text_box :: "u32 \<Rightarrow> int \<Rightarrow> int \<Rightarrow> int \<Rightarrow> int \<Rightarrow> u16 list \<Rightarrow> gdi \<Rightarrow> gdi"
  text_width :: "u32 \<Rightarrow> u16 list \<Rightarrow> gdi \<Rightarrow> int"
  line_height :: "u32 \<Rightarrow> gdi \<Rightarrow> int"

definition int_bytes :: "int list \<Rightarrow> u8 list" where
  "int_bytes xs = concat (map (\<lambda>i. le_bytes 4 (of_int i :: u32)) xs)"

definition read_ints :: "'m guest_api \<Rightarrow> u32 \<Rightarrow> nat \<Rightarrow> 'm blink \<Rightarrow> int list" where
  "read_ints api p n b = map sint (read_words api (ucast p) n n b)"

section \<open>Windows\<close>

definition h_GetRect :: "'m guest_api \<Rightarrow> bool \<Rightarrow> u32 list \<Rightarrow> gdi \<Rightarrow> 'm blink \<Rightarrow> (u64 \<times> gdi \<times> 'm blink) ub" where
  "h_GetRect api whole args g b =
     (let (r, m) = wg_wm_find (args ! 0) (wins g); g = g\<lparr>wins := m\<rparr>
      in case r of
           None \<Rightarrow> Some (1, g, b)
         | Some i \<Rightarrow>
             if args ! 1 = 0 then Some (1, g, b)
             else let w = windows m ! i
                  in if whole
                     then do {
                       right \<leftarrow> c_int (wx w + ww w);
                       bottom \<leftarrow> c_int (wy w + wh w);
                       Some (1, g, write_bytes api (args ! 1) (int_bytes [wx w, wy w, right, bottom]) b)
                     }
                     else Some (1, g, write_bytes api (args ! 1) (int_bytes [0, 0, ww w, wh w]) b))"

definition handle_of :: "u32 option \<Rightarrow> u32" where
  "handle_of h = (case h of None \<Rightarrow> 0 | Some h \<Rightarrow> h)"

definition h_GetDC :: "'m guest_api \<Rightarrow> bool \<Rightarrow> u32 list \<Rightarrow> gdi \<Rightarrow> 'm blink \<Rightarrow> u64 \<times> gdi \<times> 'm blink" where
  "h_GetDC api begin_paint args g b =
     (let (h, g) = wg_gdi_get_dc (args ! 0) g
      in (ucast (handle_of h), g,
          if begin_paint \<and> args ! 1 \<noteq> 0 then write32 api (args ! 1) (handle_of h) b else b))"

section \<open>Drawing\<close>

text \<open>A brush that is not in the table is white.\<close>

definition h_FillRect :: "'m guest_api \<Rightarrow> bool \<Rightarrow> u32 list \<Rightarrow> gdi \<Rightarrow> 'm blink \<Rightarrow> (u64 \<times> gdi) ub" where
  "h_FillRect api ok args g b =
     (let rc = (if args ! 1 \<noteq> 0 then read_ints api (args ! 1) 4 b else [0, 0, 0, 0]);
          (c, found) = wg_gdi_brush_color (args ! 2) g
      in do {
        g \<leftarrow> wg_gdi_fill_rect ok (args ! 0) (rc ! 0) (rc ! 1) (rc ! 2) (rc ! 3) (if found then c else 0x00FFFFFF) g;
        Some (1, g)
      })"

definition clamp_count :: "u32 \<Rightarrow> nat" where
  "clamp_count c = (if sint c < 0 then 0 else if 1024 < sint c then 1024 else nat (sint c))"

definition h_TextOutW :: "'m guest_api \<Rightarrow> text_api \<Rightarrow> (nat \<Rightarrow> u8 list) \<Rightarrow> u32 list \<Rightarrow> gdi \<Rightarrow> 'm blink \<Rightarrow> u64 \<times> gdi" where
  "h_TextOutW api tx junk args g b =
     (let n = clamp_count (args ! 4);
          ws = (if args ! 3 \<noteq> 0 \<and> 0 < n then read_units api junk (args ! 3) n b else take n (u16s (junk 2050)))
      in (1, text_out tx (args ! 0) (sint (args ! 1)) (sint (args ! 2)) ws g))"

definition h_GetTextExtent ::
    "'m guest_api \<Rightarrow> text_api \<Rightarrow> (nat \<Rightarrow> u8 list) \<Rightarrow> bool \<Rightarrow> u32 list \<Rightarrow> gdi \<Rightarrow> 'm blink \<Rightarrow> u64 \<times> 'm blink" where
  "h_GetTextExtent api tx junk wide args g b =
     (let n = clamp_count (args ! 2);
          ws = (if args ! 1 = 0 \<or> n = 0 then replicate n 0
                else if wide then read_units api zeros (args ! 1) n b
                else map ucast (read_buf api junk (args ! 1) n b))
      in (1, if args ! 3 \<noteq> 0
             then write_bytes api (args ! 3) (int_bytes [text_width tx (args ! 0) ws g, line_height tx (args ! 0) g]) b
             else b))"

text \<open>\<open>BitBlt\<close> takes the size of the source from the target.\<close>

definition h_Blt :: "bool \<Rightarrow> bool \<Rightarrow> u32 list \<Rightarrow> gdi \<Rightarrow> (u64 \<times> gdi) ub" where
  "h_Blt ok stretch args g =
     do {
       let i = (\<lambda>k. sint (args ! k));
       g \<leftarrow> wg_gdi_blit ok (args ! 0) (i 1) (i 2) (i 3) (i 4) (args ! 5) (i 6) (i 7)
              (if stretch then i 8 else i 3) (if stretch then i 9 else i 4) g;
       Some (1, g)
     }"

text \<open>A packed picture of the guest. The header is copied to a buffer of 40 bytes, so a palette behind it
  would be read from outside; the pixels are put before the header here, so that this is a read behind the
  end.\<close>

definition h_StretchDIBits ::
    "'m guest_api \<Rightarrow> bool \<Rightarrow> (nat \<Rightarrow> u8 list option) \<Rightarrow> u64 \<Rightarrow> u32 list \<Rightarrow> gdi \<Rightarrow> 'm blink \<Rightarrow> (u64 \<times> gdi) ub" where
  "h_StretchDIBits api ok mal dflt args g b =
     (if args ! 10 = 0 \<or> args ! 9 = 0 then Some (dflt, g)
      else do {
        let bih = read_buf api zeros (args ! 10) 40 b;
        biW \<leftarrow> map_option sint (bmp_rd32 bih 4);
        biH \<leftarrow> map_option sint (bmp_rd32 bih 8);
        biBpp \<leftarrow> bmp_rd16 bih 14;
        aH \<leftarrow> c_int (if biH < 0 then - biH else biH);
        let total = dib_stride (nat biW) (unat biBpp div 8) * nat aH;
        if 0 < biW \<and> 0 < aH \<and> biW \<le> 16384 \<and> aH \<le> 16384 \<and> (biBpp = 8 \<or> biBpp = 24 \<or> biBpp = 32) \<and>
            total \<le> 64 * 1024 * 1024
        then case mal total of
               None \<Rightarrow> Some (of_int aH, g)
             | Some blk \<Rightarrow> do {
                 let px = snd (wg_blink_read_mem api b (ucast (args ! 9)) blk total);
                 (hb, t) \<leftarrow> wg_bitmap_from_dib ok (px @ bih) (length px) 0 (bits g);
                 let g = g\<lparr>bits := t\<rparr>;
                 if hb = 0 then Some (of_int aH, g)
                 else do {
                   g \<leftarrow> wg_gdi_draw_bitmap ok (args ! 0) (sint (args ! 1)) (sint (args ! 2)) (sint (args ! 3)) (sint (args ! 4))
                          hb 0 0 0 0 g;
                   Some (of_int aH, g\<lparr>bits := wg_bitmap_delete hb (bits g)\<rparr>)
                 }
               }
        else Some (of_int aH, g)
      })"

section \<open>Objects\<close>

text \<open>A bitmap file; a wizard's picture that is gone is taken from the cache.\<close>

definition h_LoadImageW ::
    "'m guest_api \<Rightarrow> bool \<Rightarrow> bool \<Rightarrow> u32 list \<Rightarrow> files \<Rightarrow> gdi \<Rightarrow> 'm blink \<Rightarrow> (u64 \<times> files \<times> gdi) ub" where
  "h_LoadImageW api ok rok args fs g b =
     (if args ! 2 = 0 \<and> args ! 5 AND 0x10 \<noteq> 0 \<and> args ! 1 \<noteq> 0
      then do {
        let apath = read_path api (args ! 1) b;
        let (p, fs) = wg_files_map_path apath fs;
        (h, t) \<leftarrow> wg_bitmap_load_file ok rok ok (contents (disk fs)) (Some p) (bits g);
        (h, t) \<leftarrow> (if h = 0 \<and> strcasestr apath ''wizard''
                   then (case wg_files_wizard_bmp fs of
                           None \<Rightarrow> Some (h, t)
                         | Some c \<Rightarrow> wg_bitmap_load_file ok rok ok (contents (disk fs)) (Some c) t)
                   else Some (h, t));
        Some (ucast h, fs, g\<lparr>bits := t\<rparr>)
      }
      else Some (0, fs, g))"

definition h_SelectObject :: "font_table \<Rightarrow> u32 list \<Rightarrow> gdi \<Rightarrow> u64 \<times> gdi" where
  "h_SelectObject ft args g =
     (if wg_bitmap_is (args ! 1) (bits g)
      then let (prev, g) = wg_gdi_select_bitmap (args ! 0) (args ! 1) g
           in (if prev \<noteq> 0 then ucast prev else 1, g)
      else (1, case wg_font_find ft (args ! 1) of
                 None \<Rightarrow> g
               | Some f \<Rightarrow> wg_gdi_select_font (args ! 0) (f_px f) (f_bold f) (Some (f_name f)) g))"

definition h_DeleteObject :: "u32 list \<Rightarrow> gdi \<Rightarrow> u64 \<times> gdi" where
  "h_DeleteObject args g =
     (1, if wg_bitmap_is (args ! 0) (bits g) then g\<lparr>bits := wg_bitmap_delete (args ! 0) (bits g)\<rparr> else g)"

definition h_GetObjectW :: "'m guest_api \<Rightarrow> u32 list \<Rightarrow> gdi \<Rightarrow> 'm blink \<Rightarrow> (u64 \<times> 'm blink) ub" where
  "h_GetObjectW api args g b =
     (case wg_bitmap_pixels (args ! 0) (bits g) of
        None \<Rightarrow> Some (0, b)
      | Some (_, bw, bh) \<Rightarrow>
          if args ! 2 = 0 \<or> args ! 1 < 24 then Some (0, b)
          else do {
            row \<leftarrow> c_int (bw * 4);
            Some (24, write_bytes api (args ! 2) (int_bytes [0, bw, bh, row, 0x10020, 0]) b)
          })"

text \<open>The face of a \<open>LOGFONT\<close> or of a name: at most 31 units, or 32 bytes that need not end.\<close>

definition font_face :: "'m guest_api \<Rightarrow> bool \<Rightarrow> u32 \<Rightarrow> 'm blink \<Rightarrow> string" where
  "font_face api wide p b =
     (if wide then map ascii_of (to_nul (take 31 (read_units api zeros p 32 b))) else read_astr api p 32 b)"

definition h_CreateFont ::
    "'m guest_api \<Rightarrow> (nat \<Rightarrow> u8 list) \<Rightarrow> bool \<Rightarrow> bool \<Rightarrow> u32 list \<Rightarrow> font_table \<Rightarrow> 'm blink \<Rightarrow> (u64 \<times> font_table) ub" where
  "h_CreateFont api junk indirect wide args ft b =
     (let (height, weight, face) =
            (if indirect
             then if args ! 0 = 0 then (0, 400, [])
                  else let lf = words_of (read_buf api junk (args ! 0) 20 b)
                       in (sint (lf ! 0), sint (lf ! 4), font_face api wide (args ! 0 + 28) b)
             else (sint (args ! 0), sint (args ! 4), if args ! 13 = 0 then [] else font_face api wide (args ! 13) b))
      in do {
        px \<leftarrow> c_int (if height < 0 then - height else height);
        let px = (if px \<le> 0 \<or> 200 < px then 13 else px);
        (h, ft) \<leftarrow> wg_font_register px (600 \<le> weight) (Some face) ft;
        Some (ucast h, ft)
      })"

section \<open>The dispatch\<close>

text \<open>The calls that change only the drawing state. \<open>None\<close> for a name of another branch.\<close>

definition gdi_call ::
    "'m guest_api \<Rightarrow> nat \<Rightarrow> bool \<Rightarrow> text_api \<Rightarrow> (nat \<Rightarrow> u8 list) \<Rightarrow> (nat \<Rightarrow> u8 list option) \<Rightarrow> u64 \<Rightarrow> string \<Rightarrow> u32 list \<Rightarrow>
     font_table \<Rightarrow> gdi \<Rightarrow> 'm blink \<Rightarrow> (u64 \<times> gdi \<times> 'm blink) ub option" where
  "gdi_call api n ok tx junk mal dflt fn args ft g b =
     (if fn = ''GetClientRect'' \<or> fn = ''GetWindowRect'' then Some (h_GetRect api (fn = ''GetWindowRect'') args g b)
      else if fn = ''GetDC'' \<or> fn = ''BeginPaint'' then Some (Some (h_GetDC api (fn = ''BeginPaint'') args g b))
      else if fn = ''ReleaseDC'' then Some (Some (1, wg_gdi_release_dc (args ! 1) g, b))
      else if fn = ''CreateSolidBrush'' then (let (h, g) = wg_gdi_create_solid_brush (args ! 0) g in Some (Some (ucast h, g, b)))
      else if fn = ''SetTextColor'' then Some (Some (0, wg_gdi_set_text_color (args ! 0) (args ! 1) g, b))
      else if fn = ''SetBkColor'' then Some (Some (0, wg_gdi_set_bk_color (args ! 0) (args ! 1) g, b))
      else if fn = ''SetBkMode'' then Some (Some (1, wg_gdi_set_bk_mode (args ! 0) (sint (args ! 1)) g, b))
      else if fn = ''FillRect'' then Some (map_option (\<lambda>(v, g). (v, g, b)) (h_FillRect api ok args g b))
      else if fn = ''TextOutW'' then (let (v, g) = h_TextOutW api tx junk args g b in Some (Some (v, g, b)))
      else if fn = ''GetTextExtentPoint32W'' \<or> fn = ''GetTextExtentPoint32A''
      then (let (v, b) = h_GetTextExtent api tx junk (fn = ''GetTextExtentPoint32W'') args g b in Some (Some (v, g, b)))
      else if fn = ''MoveToEx'' then Some (Some (1, wg_gdi_move_to (args ! 0) (sint (args ! 1)) (sint (args ! 2)) g, b))
      else if fn = ''LineTo''
      then Some (map_option (\<lambda>g. (1, g, b)) (wg_gdi_line_to n ok (args ! 0) (sint (args ! 1)) (sint (args ! 2)) g))
      else if fn = ''CreateCompatibleDC'' then (let (h, g) = wg_gdi_create_memory_dc g in Some (Some (ucast (handle_of h), g, b)))
      else if fn = ''DeleteDC'' then Some (Some (1, wg_gdi_delete_dc (args ! 0) g, b))
      else if fn = ''CreateCompatibleBitmap''
      then (let (h, t) = wg_bitmap_create ok (sint (args ! 1)) (sint (args ! 2)) (bits g) in Some (Some (ucast h, g\<lparr>bits := t\<rparr>, b)))
      else if fn = ''SelectObject'' then (let (v, g) = h_SelectObject ft args g in Some (Some (v, g, b)))
      else if fn = ''DeleteObject'' then (let (v, g) = h_DeleteObject args g in Some (Some (v, g, b)))
      else if fn = ''GetObjectW'' then Some (map_option (\<lambda>(v, b). (v, g, b)) (h_GetObjectW api args g b))
      else if fn = ''BitBlt'' \<or> fn = ''StretchBlt'' then Some (map_option (\<lambda>(v, g). (v, g, b)) (h_Blt ok (fn = ''StretchBlt'') args g))
      else if fn = ''StretchDIBits'' \<or> fn = ''SetDIBitsToDevice''
      then Some (map_option (\<lambda>(v, g). (v, g, b)) (h_StretchDIBits api ok mal dflt args g b))
      else if fn = ''SetStretchBltMode'' then Some (Some (1, g, b))
      else if fn = ''DefWindowProcW'' \<or> fn = ''TranslateMessage'' then Some (Some (0, g, b))
      else None)"

end
