(* ===== verification/EngineDialog.thy ===== *)
theory EngineDialog
  imports EngineGdiCalls EngineModules EngineRun
begin

text \<open>
  The dialogs of \<open>Sources/Core/wg_engine.c\<close>: the table of controls, the dialog templates in the program's
  resources, painting, and the control of a modal dialog. A pointer into the program's file is an offset
  into \<open>raw_data\<close>; reading behind its end is undefined.
\<close>

section \<open>Controls\<close>

definition WG_CTRL_HWND_BASE :: u32 where "WG_CTRL_HWND_BASE = 0x00C70000"
definition WG_CLS_PROGRESS :: u16 where "WG_CLS_PROGRESS = 0x0090"
definition WG_CLS_LISTVIEW :: u16 where "WG_CLS_LISTVIEW = 0x0091"

text \<open>\<open>WGDlgCtrl\<close>; the \<open>int16_t\<close> fields are words that are read as signed, the text has 80 units.\<close>

record ctrl =
  c_hwnd :: u32
  c_id :: u32
  c_style :: u32
  c_x :: u16
  c_y :: u16
  c_cx :: u16
  c_cy :: u16
  c_dlg_cx :: u16
  c_dlg_cy :: u16
  c_cls :: u16
  c_is_bitmap :: bool
  c_hbitmap :: u32
  c_text :: "u16 list"

definition zero_ctrl :: ctrl where
  "zero_ctrl = \<lparr>c_hwnd = 0, c_id = 0, c_style = 0, c_x = 0, c_y = 0, c_cx = 0, c_cy = 0, c_dlg_cx = 0,
     c_dlg_cy = 0, c_cls = 0, c_is_bitmap = False, c_hbitmap = 0, c_text = replicate 80 0\<rparr>"

text \<open>\<open>s_ctrls\<close> up to \<open>s_ctrl_count\<close>, and the variables of the dialog, of the current page and of its
  progress bar and list.\<close>

record dialogs =
  ctrls :: "ctrl list"
  dlg_active :: bool
  dlg_ret_addr :: u32
  dlg_ret_rsp :: u32
  dlg_hwnd :: u32
  dlg_proc :: u32
  dlg_result :: u32
  inner_page :: u32
  page_hwnd :: u32
  nsd_page :: u32
  nsd_next_id :: u32
  nsd_show_pause :: bool
  pb_pos :: u32
  pb_max :: u32
  detail_lines :: "string list"

definition initial_dialogs :: dialogs where
  "initial_dialogs = \<lparr>ctrls = [], dlg_active = False, dlg_ret_addr = 0, dlg_ret_rsp = 0, dlg_hwnd = 0, dlg_proc = 0,
     dlg_result = 1, inner_page = 0, page_hwnd = 0, nsd_page = 0, nsd_next_id = 2200, nsd_show_pause = False,
     pb_pos = 0, pb_max = 100, detail_lines = []\<rparr>"

text \<open>What loading a program resets.\<close>

definition reset_dialogs :: "dialogs \<Rightarrow> dialogs" where
  "reset_dialogs ds = ds\<lparr>dlg_active := False, dlg_hwnd := 0, dlg_proc := 0, ctrls := [], detail_lines := [],
     pb_pos := 0, pb_max := 100, page_hwnd := 0\<rparr>"

definition wg_find_ctrl :: "u32 \<Rightarrow> u32 \<Rightarrow> dialogs \<Rightarrow> nat option" where
  "wg_find_ctrl hwnd ident ds = find_index (\<lambda>c. c_hwnd c = hwnd \<and> c_id c = ident) (ctrls ds)"

definition ctrl_handle :: "nat option \<Rightarrow> u32" where
  "ctrl_handle r = (case r of None \<Rightarrow> 0 | Some i \<Rightarrow> WG_CTRL_HWND_BASE + of_nat i)"

definition wg_ctrl_from_handle :: "u32 \<Rightarrow> dialogs \<Rightarrow> nat option" where
  "wg_ctrl_from_handle h ds =
     (if WG_CTRL_HWND_BASE \<le> h \<and> h < WG_CTRL_HWND_BASE + 160 \<and> unat (h - WG_CTRL_HWND_BASE) < length (ctrls ds)
      then Some (unat (h - WG_CTRL_HWND_BASE)) else None)"

definition upd_ctrl :: "nat \<Rightarrow> (ctrl \<Rightarrow> ctrl) \<Rightarrow> dialogs \<Rightarrow> dialogs" where
  "upd_ctrl i f ds = ds\<lparr>ctrls := (ctrls ds)[i := f (ctrls ds ! i)]\<rparr>"

definition wg_remove_ctrls :: "u32 \<Rightarrow> dialogs \<Rightarrow> dialogs" where
  "wg_remove_ctrls hwnd ds = ds\<lparr>ctrls := filter (\<lambda>c. c_hwnd c \<noteq> hwnd) (ctrls ds)\<rparr>"

definition on_wins :: "(wm \<Rightarrow> wm) \<Rightarrow> gdi \<Rightarrow> gdi" where
  "on_wins f g = g\<lparr>wins := f (wins g)\<rparr>"

definition wg_retire_inner_page :: "u32 \<Rightarrow> dialogs \<Rightarrow> gdi \<Rightarrow> dialogs \<times> gdi" where
  "wg_retire_inner_page keep ds g =
     (if inner_page ds \<noteq> 0 \<and> inner_page ds \<noteq> keep
      then ((wg_remove_ctrls (inner_page ds) ds)\<lparr>inner_page := keep\<rparr>, on_wins (wg_wm_destroy (inner_page ds)) g)
      else (ds\<lparr>inner_page := keep\<rparr>, g))"

text \<open>Units in the buffer of a control, and those that are shown.\<close>

definition pad_text :: "u16 list \<Rightarrow> u16 list" where
  "pad_text ws = take 80 (ws @ replicate 80 0)"

definition ctrl_text :: "ctrl \<Rightarrow> u16 list" where
  "ctrl_text c = to_nul (take 79 (c_text c))"

section \<open>Resources\<close>

definition pe_rva :: "pe_image \<Rightarrow> u32 \<Rightarrow> nat option" where
  "pe_rva img rva =
     map_option (\<lambda>s. unat (raw_offset s) + unat (rva - virtual_address s))
       (List.find (\<lambda>s. virtual_address s \<le> rva \<and> rva < virtual_address s + raw_size s) (sections img))"

text \<open>The loop over the entries of a directory at \<open>dir\<close>: the first for which the body yields a result.\<close>

fun res_find :: "pe_image \<Rightarrow> nat \<Rightarrow> (u32 \<Rightarrow> u32 \<Rightarrow> 'r option ub) \<Rightarrow> nat list \<Rightarrow> 'r option ub" where
  "res_find img dir body [] = Some None"
| "res_find img dir body (i # is) = do {
     nm \<leftarrow> file_u32 img (dir + 16 + i * 8);
     off \<leftarrow> file_u32 img (dir + 16 + i * 8 + 4);
     r \<leftarrow> body nm off;
     if r \<noteq> None then Some r else res_find img dir body is
   }"

definition res_entries :: "pe_image \<Rightarrow> nat \<Rightarrow> nat list ub" where
  "res_entries img dir = do {
     a \<leftarrow> file_u16 img (dir + 12);
     n \<leftarrow> file_u16 img (dir + 14);
     Some [0..<unat a + unat n]
   }"

definition is_subdir :: "u32 \<Rightarrow> bool" where
  "is_subdir off \<longleftrightarrow> off AND 0x80000000 \<noteq> 0"

definition sub_at :: "nat \<Rightarrow> u32 \<Rightarrow> nat" where
  "sub_at dir off = dir + unat (off AND 0x7FFFFFFF)"

definition pe_find_dialog :: "pe_image \<Rightarrow> u32 \<Rightarrow> nat option ub" where
  "pe_find_dialog img dlg_id = do {
     e_lfanew \<leftarrow> file_u32 img 0x3C;
     rsrc_rva \<leftarrow> file_u32 img (unat e_lfanew + 24 + 112);
     case pe_rva img rsrc_rva of
       None \<Rightarrow> Some None
     | Some root \<Rightarrow> do {
         types \<leftarrow> res_entries img root;
         r \<leftarrow> res_find img root (\<lambda>nameid off.
           if nameid \<noteq> 5 \<or> \<not> is_subdir off then Some None
           else do {
             ids \<leftarrow> res_entries img (sub_at root off);
             res_find img (sub_at root off) (\<lambda>ident o1.
               if ident AND 0x7FFFFFFF \<noteq> dlg_id \<or> \<not> is_subdir o1 then Some None
               else do {
                 o2 \<leftarrow> file_u32 img (sub_at root o1 + 16 + 4);
                 data_rva \<leftarrow> file_u32 img (sub_at root o2);
                 Some (Some (pe_rva img data_rva))
               }) ids
           }) types;
         Some (case r of None \<Rightarrow> None | Some p \<Rightarrow> p)
       }
   }"

text \<open>The units before a NUL; \<open>None\<close> when the file ends first.\<close>

fun units_to_nul :: "u8 list \<Rightarrow> u16 list ub" where
  "units_to_nul (b0 # b1 # bs) =
     (let c = le_word [b0, b1] in if c = 0 then Some [] else map_option (Cons c) (units_to_nul bs))"
| "units_to_nul _ = None"

text \<open>A string or an ordinal: what is stored, in a buffer of \<open>cap\<close> units, and where the next item is.\<close>

definition res_skip_sz :: "pe_image \<Rightarrow> nat \<Rightarrow> nat \<Rightarrow> (u16 list \<times> nat) ub" where
  "res_skip_sz img p cap = do {
     v \<leftarrow> file_u16 img p;
     if v = 0 then Some ([], p + 2)
     else if v = 0xFFFF then Some ([], p + 4)
     else do {
       ws \<leftarrow> units_to_nul (drop p (raw_data img));
       Some (take (cap - 1) ws, p + 2 * (length ws + 1))
     }
   }"

text \<open>The class of a control that is given by name.\<close>

definition lower_ascii :: "u16 \<Rightarrow> char" where
  "lower_ascii c = (if c < 128 then tolower (char_of (unat c)) else CHR ''?'')"

definition named_class :: "u16 list \<Rightarrow> u16" where
  "named_class ws =
     (let ca = map lower_ascii ws
      in if strstr ca ''progress'' then WG_CLS_PROGRESS
         else if strstr ca ''listview'' \<or> strstr ca ''syslistview'' then WG_CLS_LISTVIEW
         else 0)"

text \<open>One item of the template \<open>t\<close>, from the offset \<open>p\<close> on, which is aligned first.\<close>

definition align4 :: "nat \<Rightarrow> nat" where
  "align4 n = (n + 3) div 4 * 4"

definition parse_item :: "pe_image \<Rightarrow> nat \<Rightarrow> u32 \<Rightarrow> u16 \<Rightarrow> u16 \<Rightarrow> nat \<Rightarrow> (ctrl \<times> nat) ub" where
  "parse_item img t hwnd dcx dcy p = do {
     let p = t + align4 (p - t) + 8;
     cstyle \<leftarrow> file_u32 img p;
     x \<leftarrow> file_u16 img (p + 4);
     y \<leftarrow> file_u16 img (p + 6);
     cx \<leftarrow> file_u16 img (p + 8);
     cy \<leftarrow> file_u16 img (p + 10);
     ident \<leftarrow> file_u32 img (p + 12);
     let p = p + 16;
     w0 \<leftarrow> file_u16 img p;
     (cls, p) \<leftarrow> (if w0 = 0xFFFF then do { c \<leftarrow> file_u16 img (p + 2); Some (c, p + 4) }
                  else do { (ws, p) \<leftarrow> res_skip_sz img p 40; Some (named_class ws, p) });
     (ttl, p) \<leftarrow> res_skip_sz img p 80;
     extra \<leftarrow> file_u16 img p;
     Some (zero_ctrl\<lparr>c_hwnd := hwnd, c_style := cstyle, c_dlg_cx := dcx, c_dlg_cy := dcy, c_x := x, c_y := y,
             c_cx := cx, c_cy := cy, c_id := ident, c_cls := cls,
             c_is_bitmap := (cls = 0x0082 \<and> cstyle AND 0x0F = 0x0E), c_text := pad_text ttl\<rparr>,
           p + 2 + unat extra)
   }"

text \<open>At most \<open>room\<close> items fit into the table.\<close>

fun parse_items :: "pe_image \<Rightarrow> nat \<Rightarrow> u32 \<Rightarrow> u16 \<Rightarrow> u16 \<Rightarrow> nat \<Rightarrow> nat \<Rightarrow> nat \<Rightarrow> ctrl list ub" where
  "parse_items img t hwnd dcx dcy 0 room p = Some []"
| "parse_items img t hwnd dcx dcy (Suc n) room p =
     (if room = 0 then Some []
      else do {
        (c, p) \<leftarrow> parse_item img t hwnd dcx dcy p;
        cs \<leftarrow> parse_items img t hwnd dcx dcy n (room - 1) p;
        Some (c # cs)
      })"

definition parse_template :: "pe_image \<Rightarrow> u32 \<Rightarrow> nat \<Rightarrow> nat \<Rightarrow> ctrl list ub" where
  "parse_template img hwnd room t = do {
     dlg_ver \<leftarrow> file_u16 img t;
     sig \<leftarrow> file_u16 img (t + 2);
     if dlg_ver \<noteq> 1 \<or> sig \<noteq> 0xFFFF then Some []
     else do {
       dstyle \<leftarrow> file_u32 img (t + 12);
       items \<leftarrow> file_u16 img (t + 16);
       dcx \<leftarrow> file_u16 img (t + 22);
       dcy \<leftarrow> file_u16 img (t + 24);
       (_, p) \<leftarrow> res_skip_sz img (t + 26) 0;
       (_, p) \<leftarrow> res_skip_sz img p 0;
       (_, p) \<leftarrow> res_skip_sz img p 0;
       p \<leftarrow> (if dstyle AND 0x40 \<noteq> 0 then map_option snd (res_skip_sz img (p + 6) 0) else Some p);
       parse_items img t hwnd dcx dcy (unat items) room p
     }
   }"

definition wg_parse_dialog :: "engine \<Rightarrow> u32 \<Rightarrow> u32 \<Rightarrow> dialogs \<Rightarrow> dialogs ub" where
  "wg_parse_dialog e hwnd dlg_id ds =
     (let ds = wg_remove_ctrls hwnd ds
      in case pe_img e of
           None \<Rightarrow> Some ds
         | Some img \<Rightarrow> do {
             t \<leftarrow> pe_find_dialog img dlg_id;
             case t of
               None \<Rightarrow> Some ds
             | Some t \<Rightarrow> do {
                 cs \<leftarrow> parse_template img hwnd (160 - length (ctrls ds)) t;
                 Some (ds\<lparr>ctrls := ctrls ds @ cs\<rparr>)
               }
           })"

section \<open>Painting\<close>

text \<open>What painting needs from outside: text, \<open>p_scale w ext v\<close>, the \<open>float\<close> product of \<open>v\<close> with the quotient of
  a client size and the extent of the dialog, \<open>p_part w pos max\<close>, the filled part of a progress bar, and the
  success of allocations.\<close>

record painter =
  p_text :: text_api
  p_scale :: "int \<Rightarrow> int \<Rightarrow> int \<Rightarrow> int"
  p_part :: "int \<Rightarrow> u32 \<Rightarrow> u32 \<Rightarrow> int"
  p_alloc :: bool

text \<open>A dialog unit in pixels: the scale is 1 for an extent of 0.\<close>

definition du_px :: "painter \<Rightarrow> int \<Rightarrow> u16 \<Rightarrow> u16 \<Rightarrow> int" where
  "du_px pt extent ext v = (if ext = 0 then sint v else p_scale pt extent (sint ext) (sint v))"

definition ctrl_rect :: "painter \<Rightarrow> int \<Rightarrow> int \<Rightarrow> ctrl \<Rightarrow> int \<times> int \<times> int \<times> int" where
  "ctrl_rect pt cw ch c =
     (du_px pt cw (c_dlg_cx c) (c_x c), du_px pt ch (c_dlg_cy c) (c_y c),
      du_px pt cw (c_dlg_cx c) (c_cx c), du_px pt ch (c_dlg_cy c) (c_cy c))"

definition is_shown :: "dialogs \<Rightarrow> ctrl \<Rightarrow> bool" where
  "is_shown ds c \<longleftrightarrow> c_cls c = WG_CLS_PROGRESS \<or> (c_cls c = WG_CLS_LISTVIEW \<and> detail_lines ds \<noteq> []) \<or>
     c_style c AND 0x10000000 \<noteq> 0"

definition box :: "painter \<Rightarrow> u32 \<Rightarrow> int \<Rightarrow> int \<Rightarrow> int \<Rightarrow> int \<Rightarrow> u32 \<Rightarrow> gdi \<Rightarrow> gdi ub" where
  "box pt dc x y w h c g = do {
     r \<leftarrow> c_int (x + w);
     bt \<leftarrow> c_int (y + h);
     wg_gdi_fill_rect (p_alloc pt) dc x y r bt c g
   }"

definition paint_button :: "painter \<Rightarrow> u32 \<Rightarrow> int \<times> int \<times> int \<times> int \<Rightarrow> int \<Rightarrow> ctrl \<Rightarrow> gdi \<Rightarrow> gdi ub" where
  "paint_button pt dc rc lh c g =
     (case rc of (px, py, pw, ph) \<Rightarrow>
        let ws = ctrl_text c; caption = text_caption (p_text pt) dc
        in if c_style c AND 0x07 = 0x07
           then do {
             g \<leftarrow> box pt dc px py pw 1 0x00A0A0A0 g;
             Some (if ws \<noteq> [] then caption (px + 6) (py - lh sdiv 2) ws g else g)
           }
           else do {
             g \<leftarrow> box pt dc px py pw ph 0x00E1E1E1 g;
             let tw = text_width (p_text pt) dc ws g;
             let x = px + (pw - tw) sdiv 2;
             let x = (if x < px + 4 then px + 4 else x);
             Some (if ws \<noteq> [] then caption x (py + (ph - lh) sdiv 2) ws g else g)
           })"

definition paint_static :: "painter \<Rightarrow> u32 \<Rightarrow> int \<times> int \<times> int \<times> int \<Rightarrow> int \<Rightarrow> ctrl \<Rightarrow> gdi \<Rightarrow> gdi ub" where
  "paint_static pt dc rc lh c g =
     (case rc of (px, py, pw, ph) \<Rightarrow>
        if c_is_bitmap c \<and> c_hbitmap c \<noteq> 0
        then wg_gdi_draw_bitmap (p_alloc pt) dc px py pw ph (c_hbitmap c) 0 0 0 0 g
        else Some (if ctrl_text c \<noteq> []
                   then text_box (p_text pt) dc px py pw (if lh < ph then ph else lh) (ctrl_text c) g else g))"

definition paint_edit :: "painter \<Rightarrow> u32 \<Rightarrow> int \<times> int \<times> int \<times> int \<Rightarrow> int \<Rightarrow> ctrl \<Rightarrow> gdi \<Rightarrow> gdi ub" where
  "paint_edit pt dc rc lh c g =
     (case rc of (px, py, pw, ph) \<Rightarrow> do {
        g \<leftarrow> box pt dc px py pw ph 0x00FFFFFF g;
        g \<leftarrow> box pt dc px py pw 1 0x00808080 g;
        g \<leftarrow> box pt dc px py 1 ph 0x00808080 g;
        Some (if ctrl_text c \<noteq> [] then text_out (p_text pt) dc (px + 3) (py + (ph - lh) sdiv 2) (ctrl_text c) g else g)
      })"

definition paint_progress :: "painter \<Rightarrow> dialogs \<Rightarrow> u32 \<Rightarrow> int \<times> int \<times> int \<times> int \<Rightarrow> gdi \<Rightarrow> gdi ub" where
  "paint_progress pt ds dc rc g =
     (case rc of (px, py, pw, ph) \<Rightarrow> do {
        g \<leftarrow> box pt dc px py pw ph 0x00C8C8C8 g;
        let mx = (if pb_max ds \<noteq> 0 then pb_max ds else 100);
        let part = p_part pt pw (if mx < pb_pos ds then mx else pb_pos ds) mx;
        g \<leftarrow> (if 0 < part then box pt dc px py part ph 0x00D77800 g else Some g);
        box pt dc px py pw 1 0x00808080 g
      })"

text \<open>The most recent lines of the list; a line height of \<open>- 2\<close> would divide by 0.\<close>

fun paint_lines :: "painter \<Rightarrow> u32 \<Rightarrow> int \<Rightarrow> int \<Rightarrow> int \<Rightarrow> string list \<Rightarrow> gdi \<Rightarrow> gdi" where
  "paint_lines pt dc x y step [] g = g"
| "paint_lines pt dc x y step (l # ls) g =
     paint_lines pt dc x (y + step) step ls
       (if l \<noteq> [] then text_out (p_text pt) dc x y (map of_char (take 119 l)) g else g)"

definition paint_list :: "painter \<Rightarrow> dialogs \<Rightarrow> u32 \<Rightarrow> int \<times> int \<times> int \<times> int \<Rightarrow> int \<Rightarrow> gdi \<Rightarrow> gdi ub" where
  "paint_list pt ds dc rc lh g =
     (case rc of (px, py, pw, ph) \<Rightarrow> do {
        g \<leftarrow> box pt dc px py pw ph 0x00FFFFFF g;
        g \<leftarrow> box pt dc px py pw 1 0x00808080 g;
        guard (lh + 2 \<noteq> 0);
        let rows = ph sdiv (lh + 2);
        let n = int (length (detail_lines ds));
        let first = (if rows < n then n - rows else 0);
        guard (0 \<le> first);
        Some (paint_lines pt dc (px + 3) (py + 2) (lh + 2) (drop (nat first) (detail_lines ds)) g)
      })"

definition paint_ctrl :: "painter \<Rightarrow> dialogs \<Rightarrow> u32 \<Rightarrow> int \<Rightarrow> int \<Rightarrow> ctrl \<Rightarrow> gdi \<Rightarrow> gdi ub" where
  "paint_ctrl pt ds dc cw ch c g =
     (let rc = ctrl_rect pt cw ch c; lh = line_height (p_text pt) dc g
      in if c_cls c = 0x0080 then paint_button pt dc rc lh c g
         else if c_cls c = 0x0082 then paint_static pt dc rc lh c g
         else if c_cls c = 0x0081 then paint_edit pt dc rc lh c g
         else if c_cls c = WG_CLS_PROGRESS then paint_progress pt ds dc rc g
         else if c_cls c = WG_CLS_LISTVIEW then paint_list pt ds dc rc lh g
         else Some g)"

fun paint_ctrls :: "painter \<Rightarrow> dialogs \<Rightarrow> u32 \<Rightarrow> int \<Rightarrow> int \<Rightarrow> ctrl list \<Rightarrow> gdi \<Rightarrow> gdi ub" where
  "paint_ctrls pt ds dc cw ch [] g = Some g"
| "paint_ctrls pt ds dc cw ch (c # cs) g = do { g \<leftarrow> paint_ctrl pt ds dc cw ch c g; paint_ctrls pt ds dc cw ch cs g }"

definition wg_render_dialog :: "painter \<Rightarrow> u32 \<Rightarrow> dialogs \<Rightarrow> gdi \<Rightarrow> gdi ub" where
  "wg_render_dialog pt hwnd ds g = do {
     (fb, g) \<leftarrow> client_of (p_alloc pt) hwnd g;
     case fb of
       None \<Rightarrow> Some g
     | Some i \<Rightarrow>
         let cw = client_w (windows (wins g) ! i); ch = client_h (windows (wins g) ! i); (dc, g) = wg_gdi_get_dc hwnd g
         in if handle_of dc = 0 then Some g
            else do {
              g \<leftarrow> wg_gdi_fill_rect (p_alloc pt) (handle_of dc) 0 0 cw ch 0x00FFFFFF g;
              g \<leftarrow> paint_ctrls pt ds (handle_of dc) cw ch (filter (\<lambda>c. c_hwnd c = hwnd \<and> is_shown ds c) (ctrls ds)) g;
              Some (mark_dirty hwnd (wg_gdi_release_dc (handle_of dc) g))
            }
   }"

text \<open>Repainting while a dialog is up.\<close>

definition repaint :: "painter \<Rightarrow> u32 \<Rightarrow> dialogs \<Rightarrow> gdi \<Rightarrow> gdi ub" where
  "repaint pt hwnd ds g = (if dlg_active ds then wg_render_dialog pt hwnd ds g else Some g)"

section \<open>Controls of the guest\<close>

text \<open>A control that is created at run time: its extent is the client size of its parent.\<close>

definition wg_register_child_control ::
    "bool \<Rightarrow> u32 \<Rightarrow> u32 \<Rightarrow> u32 \<Rightarrow> u16 \<Rightarrow> int \<Rightarrow> int \<Rightarrow> int \<Rightarrow> int \<Rightarrow> u16 list \<Rightarrow> dialogs \<Rightarrow> gdi \<Rightarrow> (dialogs \<times> gdi) ub" where
  "wg_register_child_control ok par ident cstyle cls x y w h txt ds g =
     (if 160 \<le> length (ctrls ds) then Some (ds, g)
      else do {
        (fb, g) \<leftarrow> client_of ok par g;
        let (cw, ch) = (case fb of None \<Rightarrow> (0, 0) | Some i \<Rightarrow> (client_w (windows (wins g) ! i), client_h (windows (wins g) ! i)));
        Some (ds\<lparr>ctrls := ctrls ds @ [zero_ctrl\<lparr>c_hwnd := par, c_id := ident, c_style := cstyle OR 0x10000000,
                 c_dlg_cx := of_int (if 0 < cw then cw else 1), c_dlg_cy := of_int (if 0 < ch then ch else 1),
                 c_x := of_int x, c_y := of_int y, c_cx := of_int w, c_cy := of_int h, c_cls := cls,
                 c_text := pad_text (take 79 (to_nul txt))\<rparr>]\<rparr>, g)
      })"

text \<open>The class of a child window by its name.\<close>

definition child_class :: "string \<Rightarrow> u16" where
  "child_class nm =
     (if strstr nm ''static'' then 0x0082 else if strstr nm ''button'' then 0x0080
      else if strstr nm ''edit'' then 0x0081 else 0)"

definition h_CreateWindowExW ::
    "'m guest_api \<Rightarrow> painter \<Rightarrow> u32 list \<Rightarrow> dialogs \<Rightarrow> gdi \<Rightarrow> 'm blink \<Rightarrow> (u64 \<times> dialogs \<times> gdi) ub" where
  "h_CreateWindowExW api pt args ds g b =
     (let ttl = (if args ! 2 \<noteq> 0 then read_units api zeros (args ! 2) 255 b else []);
          i = (\<lambda>k. sint (args ! k));
          (h, m) = wg_wm_create_window \<lparr>a_ex_style = args ! 0, a_class_atom = args ! 1, a_title = Some (to_nul ttl),
             a_style = args ! 3, a_x = i 4, a_y = i 5, a_w = i 6, a_h = i 7, a_parent = args ! 8\<rparr> (wins g);
          g = g\<lparr>wins := m\<rparr>;
          cls = (if args ! 8 \<noteq> 0 \<and> 0xFFFF < args ! 1
                 then child_class (map lower_ascii (to_nul (read_units api zeros (args ! 1) 39 b))) else 0)
      in if cls = 0 then Some (ucast (handle_of h), ds, g)
         else do {
           (ds, g) \<leftarrow> wg_register_child_control (p_alloc pt) (args ! 8) (args ! 9) (args ! 3) cls (i 4) (i 5) (i 6) (i 7) ttl ds g;
           g \<leftarrow> repaint pt (args ! 8) ds g;
           Some (ucast (handle_of h), ds, g)
         })"

definition h_DestroyWindow :: "u32 list \<Rightarrow> dialogs \<Rightarrow> gdi \<Rightarrow> u64 \<times> dialogs \<times> gdi" where
  "h_DestroyWindow args ds g = (1, wg_remove_ctrls (args ! 0) ds, on_wins (wg_wm_destroy (args ! 0)) g)"

definition h_GetDlgItem :: "u32 list \<Rightarrow> dialogs \<Rightarrow> u64" where
  "h_GetDlgItem args ds = ucast (ctrl_handle (wg_find_ctrl (args ! 0) (args ! 1) ds))"

text \<open>The text of a control in a buffer of \<open>cap\<close> units: what fits, with its NUL.\<close>

definition put_ctrl_text :: "'m guest_api \<Rightarrow> nat option \<Rightarrow> u32 \<Rightarrow> u32 \<Rightarrow> dialogs \<Rightarrow> 'm blink \<Rightarrow> u64 \<times> 'm blink" where
  "put_ctrl_text api r p cap ds b =
     (if p = 0 \<or> cap = 0 then (0, b)
      else let ws = (case r of None \<Rightarrow> [] | Some i \<Rightarrow> take (unat cap - 1) (ctrl_text (ctrls ds ! i)))
           in (of_nat (length ws), write_bytes api p (wide_bytes (ws @ [0])) b))"

definition h_GetDlgItemTextW :: "'m guest_api \<Rightarrow> u32 list \<Rightarrow> dialogs \<Rightarrow> 'm blink \<Rightarrow> u64 \<times> 'm blink" where
  "h_GetDlgItemTextW api args ds b = put_ctrl_text api (wg_find_ctrl (args ! 0) (args ! 1) ds) (args ! 2) (args ! 3) ds b"

definition h_GetWindowTextW :: "'m guest_api \<Rightarrow> u32 list \<Rightarrow> dialogs \<Rightarrow> 'm blink \<Rightarrow> u64 \<times> 'm blink" where
  "h_GetWindowTextW api args ds b = put_ctrl_text api (wg_ctrl_from_handle (args ! 0) ds) (args ! 1) (args ! 2) ds b"

text \<open>The 80 units are copied as they are, over those of the control.\<close>

definition h_SetDlgItemTextW ::
    "'m guest_api \<Rightarrow> painter \<Rightarrow> u32 list \<Rightarrow> dialogs \<Rightarrow> gdi \<Rightarrow> 'm blink \<Rightarrow> (u64 \<times> dialogs \<times> gdi) ub" where
  "h_SetDlgItemTextW api pt args ds g b =
     (case wg_find_ctrl (args ! 0) (args ! 1) ds of
        Some i \<Rightarrow>
          if args ! 2 = 0 then Some (1, ds, g)
          else let ws = u16s (snd (wg_blink_read_mem api b (ucast (args ! 2)) (wide_bytes (c_text (ctrls ds ! i))) 160));
                   ds = upd_ctrl i (\<lambda>c. c\<lparr>c_text := ws[79 := 0]\<rparr>) ds
               in do { g \<leftarrow> repaint pt (c_hwnd (ctrls ds ! i)) ds g; Some (1, ds, g) }
      | None \<Rightarrow> Some (1, ds, g))"

text \<open>The text of a control, or the title of a window, which is drawn in its client area.\<close>

definition h_SetWindowTextW ::
    "'m guest_api \<Rightarrow> painter \<Rightarrow> u32 list \<Rightarrow> dialogs \<Rightarrow> gdi \<Rightarrow> 'm blink \<Rightarrow> (u64 \<times> dialogs \<times> gdi) ub" where
  "h_SetWindowTextW api pt args ds g b =
     (let txt = to_nul (if args ! 1 \<noteq> 0 then read_units api zeros (args ! 1) 255 b else [])
      in case wg_ctrl_from_handle (args ! 0) ds of
           Some i \<Rightarrow>
             let t = take 79 txt; ds = upd_ctrl i (\<lambda>c. c\<lparr>c_text := t @ [0] @ drop (length t + 1) (c_text c)\<rparr>) ds
             in do { g \<leftarrow> repaint pt (c_hwnd (ctrls ds ! i)) ds g; Some (1, ds, g) }
         | None \<Rightarrow>
             let g = on_wins (wg_wm_set_text (args ! 0) (Some txt)) g; (r, m) = wg_wm_find (args ! 0) (wins g); g = g\<lparr>wins := m\<rparr>
             in case r of
                  None \<Rightarrow> Some (1, ds, g)
                | Some i \<Rightarrow>
                    if \<not> (0 < ww (windows m ! i) \<and> 0 < wh (windows m ! i) \<and> txt \<noteq> []) then Some (1, ds, g)
                    else do {
                      (fb, g) \<leftarrow> client_of (p_alloc pt) (args ! 0) g;
                      case fb of
                        None \<Rightarrow> Some (1, ds, g)
                      | Some j \<Rightarrow>
                          let w = windows (wins g) ! j;
                              n = client_w w * client_h w;
                              g = on_wins (\<lambda>m. upd_window m j (\<lambda>w. w\<lparr>client := Some (replicate (nat n) 0xFFF0F0F0)\<rparr>)) g;
                              (dc, g) = wg_gdi_get_dc (args ! 0) g;
                              g = wg_gdi_set_text_color (handle_of dc) 0 g;
                              lh = line_height (p_text pt) (handle_of dc) g;
                              g = text_out (p_text pt) (handle_of dc) 4 ((client_h w - lh) sdiv 2) txt g
                          in Some (1, ds, mark_dirty (args ! 0) (wg_gdi_release_dc (handle_of dc) g))
                    })"

section \<open>Messages\<close>

definition wg_resolve_wndproc :: "u32 \<Rightarrow> dialogs \<Rightarrow> gdi \<Rightarrow> u32" where
  "wg_resolve_wndproc hwnd ds g =
     (if hwnd = dlg_hwnd ds \<and> dlg_proc ds \<noteq> 0 then dlg_proc ds
      else case wm_find (wins g) hwnd of None \<Rightarrow> 0 | Some i \<Rightarrow> wndproc (windows (wins g) ! i))"

text \<open>The caller's stack pointer behind \<open>n\<close> arguments.\<close>

definition past_args :: "call_frame \<Rightarrow> u64 \<Rightarrow> u32" where
  "past_args f n = ucast (frame_rsp f + ptr_size f + n * ptr_size f)"

text \<open>The call of a window procedure, or the result when it cannot be made.\<close>

definition send_to ::
    "'m guest_api \<Rightarrow> call_frame \<Rightarrow> u64 \<Rightarrow> u32 \<Rightarrow> u32 \<Rightarrow> u32 \<Rightarrow> u32 \<Rightarrow> u32 \<Rightarrow> engine \<Rightarrow> 'm blink \<Rightarrow> 'm handled" where
  "send_to api f n proc hwnd msg wp lp e b =
     (case (if is_32bit f then wg_call_wndproc api proc hwnd msg wp lp (ucast (ret_addr f)) (past_args f n) e b else None) of
        Some (e, b) \<Rightarrow> (Handled, e, b)
      | None \<Rightarrow> (Ret 0, e, b))"

definition h_DispatchMessage :: "'m guest_api \<Rightarrow> call_frame \<Rightarrow> dialogs \<Rightarrow> gdi \<Rightarrow> engine \<Rightarrow> 'm blink \<Rightarrow> 'm handled" where
  "h_DispatchMessage api f ds g e b =
     (let m = (if fargs f ! 0 \<noteq> 0 then read_words api (ucast (fargs f ! 0)) 4 4 b else [0, 0, 0, 0])
      in if m ! 1 \<noteq> 0 then send_to api f 1 (wg_resolve_wndproc (m ! 0) ds g) (m ! 0) (m ! 1) (m ! 2) (m ! 3) e b
         else (Ret 0, e, b))"

text \<open>A line that is inserted into the list of details.\<close>

definition insert_detail :: "'m guest_api \<Rightarrow> painter \<Rightarrow> u32 \<Rightarrow> u32 \<Rightarrow> dialogs \<Rightarrow> gdi \<Rightarrow> 'm blink \<Rightarrow> (dialogs \<times> gdi) ub" where
  "insert_detail api pt msg lp ds g b =
     (let psz = read32 api (ucast (lp + 20)) b;
          l = (if psz = 0 then [] else if msg = 0x104D then read_wstr api psz 255 b else read_astr api psz 255 b)
      in if l = [] \<or> 256 \<le> length (detail_lines ds) then Some (ds, g)
         else let ds = ds\<lparr>detail_lines := detail_lines ds @ [take 119 l]\<rparr>
              in do { g \<leftarrow> (if page_hwnd ds \<noteq> 0 then repaint pt (page_hwnd ds) ds g else Some g); Some (ds, g) })"

definition set_progress :: "painter \<Rightarrow> u32 \<Rightarrow> u32 \<Rightarrow> u32 \<Rightarrow> dialogs \<Rightarrow> gdi \<Rightarrow> (dialogs \<times> gdi) ub" where
  "set_progress pt msg wp lp ds g =
     (let ds = (if msg = 0x0402 then ds\<lparr>pb_pos := wp\<rparr>
                else if msg = 0x0403 then ds\<lparr>pb_pos := pb_pos ds + wp\<rparr>
                else if lp \<noteq> 0 then ds\<lparr>pb_max := lp\<rparr> else ds)
      in do { g \<leftarrow> (if page_hwnd ds \<noteq> 0 then repaint pt (page_hwnd ds) ds g else Some g); Some (ds, g) })"

definition h_SendMessage ::
    "'m guest_api \<Rightarrow> painter \<Rightarrow> bool \<Rightarrow> call_frame \<Rightarrow> dialogs \<Rightarrow> gdi \<Rightarrow> engine \<Rightarrow> 'm blink \<Rightarrow>
     ('m handled \<times> dialogs \<times> gdi) ub" where
  "h_SendMessage api pt item f ds g e b =
     (let args = fargs f;
          (hwnd, msg, wp, lp) = (if item then (ctrl_handle (wg_find_ctrl (args ! 0) (args ! 1) ds), args ! 2, args ! 3, args ! 4)
                                 else (args ! 0, args ! 1, args ! 2, args ! 3))
      in do {
        (ds, g) \<leftarrow> (if msg = 0x104D \<or> msg = 0x1007 then insert_detail api pt msg lp ds g b else Some (ds, g));
        (ds, g) \<leftarrow> (if msg = 0x0402 \<or> msg = 0x0403 \<or> msg = 0x0406 then set_progress pt msg wp lp ds g else Some (ds, g));
        case (if msg = 0x0172 then wg_ctrl_from_handle hwnd ds else None) of
          Some i \<Rightarrow>
            let ds = upd_ctrl i (\<lambda>c. c\<lparr>c_hbitmap := lp, c_is_bitmap := True\<rparr>) ds
            in do { g \<leftarrow> repaint pt (c_hwnd (ctrls ds ! i)) ds g; Some ((Ret 0, e, b), ds, g) }
        | None \<Rightarrow> Some (send_to api f (if item then 5 else 4) (wg_resolve_wndproc hwnd ds g) hwnd msg wp lp e b, ds, g)
      })"

section \<open>Dialogs\<close>

definition new_page :: "u16 list \<Rightarrow> u32 \<Rightarrow> int \<Rightarrow> int \<Rightarrow> int \<Rightarrow> int \<Rightarrow> u32 \<Rightarrow> window_args" where
  "new_page ttl sty x y w h par = \<lparr>a_ex_style = 0, a_class_atom = 0, a_title = Some ttl, a_style = sty,
     a_x = x, a_y = y, a_w = w, a_h = h, a_parent = par\<rparr>"

text \<open>The frame of a dialog procedure: its return address is a trap, and its arguments.\<close>

definition enter_dlgproc :: "'m guest_api \<Rightarrow> u32 \<Rightarrow> u32 \<Rightarrow> u32 list \<Rightarrow> 'm blink \<Rightarrow> 'm blink" where
  "enter_dlgproc api proc new_rsp ws b =
     (let b = write_bytes api new_rsp (concat (map (le_bytes 4) (ucast WG_DLG_SENTINEL # ws))) b;
          b = wg_blink_set_reg b 4 (ucast new_rsp);
          b = wg_blink_set_rip b (ucast proc)
      in wg_blink_set_reg b 0 0)"

definition h_DialogBoxParamW ::
    "'m guest_api \<Rightarrow> call_frame \<Rightarrow> dialogs \<Rightarrow> gdi \<Rightarrow> engine \<Rightarrow> 'm blink \<Rightarrow> ('m handled \<times> dialogs \<times> gdi) ub" where
  "h_DialogBoxParamW api f ds g e b =
     (let args = fargs f;
          (h, m) = wg_wm_create_window (new_page (wide_of ''Steam Setup'') 0x10CF0000 50 50 500 360 0) (wins g);
          g = g\<lparr>wins := m\<rparr>; hwnd = handle_of h
      in do {
        ds \<leftarrow> wg_parse_dialog e hwnd (args ! 1) ds;
        let clean = frame_rsp f + ptr_size f + 5 * ptr_size f;
        if args ! 3 \<noteq> 0 \<and> is_32bit f
        then Some ((Handled, e, enter_dlgproc api (args ! 3) (ucast clean - 20) [hwnd, 0x0110, 0, args ! 4] b),
               ds\<lparr>dlg_active := True, dlg_hwnd := hwnd, dlg_proc := args ! 3, dlg_ret_addr := ucast (ret_addr f),
                  dlg_ret_rsp := ucast clean, dlg_result := 1\<rparr>, g)
        else Some ((Handled, e\<lparr>estate := WG_ENGINE_PAUSED\<rparr>,
                    wg_blink_set_reg (wg_blink_set_rip (wg_blink_set_reg b 4 clean) (ret_addr f)) 0 0), ds, g)
      })"

definition h_EndDialog :: "u32 list \<Rightarrow> dialogs \<Rightarrow> engine \<Rightarrow> 'm blink \<Rightarrow> 'm handled \<times> dialogs" where
  "h_EndDialog args ds e b =
     (if dlg_active ds
      then ((Handled, e\<lparr>callstack := []\<rparr>,
             wg_blink_set_reg (wg_blink_set_rip (wg_blink_set_reg b 4 (ucast (dlg_ret_rsp ds))) (ucast (dlg_ret_addr ds)))
               0 (ucast (args ! 1))),
            ds\<lparr>dlg_result := args ! 1, dlg_active := False\<rparr>)
      else ((Ret 1, e, b), ds))"

text \<open>Where an inner page goes: to its placeholder.\<close>

definition page_place :: "painter \<Rightarrow> nat option \<Rightarrow> u32 \<Rightarrow> dialogs \<Rightarrow> gdi \<Rightarrow> ((int \<times> int \<times> int \<times> int) \<times> gdi) ub" where
  "page_place pt r par ds g =
     (case r of
        None \<Rightarrow> Some ((0, 0, 480, 320), g)
      | Some i \<Rightarrow> do {
          (fb, g) \<leftarrow> client_of (p_alloc pt) par g;
          let (cw, ch) = (case fb of None \<Rightarrow> (0, 0) | Some i \<Rightarrow> (client_w (windows (wins g) ! i), client_h (windows (wins g) ! i)));
          Some (ctrl_rect pt cw ch (ctrls ds ! i), g)
        })"

definition h_CreateDialogParamW ::
    "'m guest_api \<Rightarrow> painter \<Rightarrow> call_frame \<Rightarrow> dialogs \<Rightarrow> gdi \<Rightarrow> engine \<Rightarrow> 'm blink \<Rightarrow> ('m handled \<times> dialogs \<times> gdi) ub" where
  "h_CreateDialogParamW api pt f ds g e b =
     (let args = fargs f
      in do {
        ((px, py, pw, ph), g) \<leftarrow> page_place pt (wg_find_ctrl (args ! 2) 1018 ds) (args ! 2) ds g;
        let (h, m) = wg_wm_create_window (new_page [] 0x50000000 px py pw ph (args ! 2)) (wins g);
        let hwnd = handle_of h;
        let m = (case wm_find m hwnd of None \<Rightarrow> m | Some i \<Rightarrow> upd_window m i (\<lambda>w. w\<lparr>wndproc := args ! 3\<rparr>));
        let (ds, g) = wg_retire_inner_page hwnd ds (g\<lparr>wins := m\<rparr>);
        ds \<leftarrow> wg_parse_dialog e hwnd (args ! 1) ds;
        let ds = ds\<lparr>page_hwnd := hwnd\<rparr>;
        g \<leftarrow> wg_render_dialog pt hwnd ds g;
        case (if is_32bit f
              then wg_call_wndproc_ovr api (args ! 3) hwnd 0x0110 0 (args ! 4) (ucast (ret_addr f)) (past_args f 5) True hwnd e b
              else None) of
          Some (e, b) \<Rightarrow> Some ((Handled, e, b), ds, g)
        | None \<Rightarrow> Some ((Ret (ucast hwnd), e, b), ds, g)
      })"

section \<open>Input\<close>

definition wg_engine_dialog_active :: "dialogs \<Rightarrow> bool" where
  "wg_engine_dialog_active ds = dlg_active ds"

definition wg_engine_dialog_command ::
    "'m guest_api \<Rightarrow> u32 \<Rightarrow> dialogs \<Rightarrow> engine \<Rightarrow> 'm blink \<Rightarrow> dialogs \<times> engine \<times> 'm blink" where
  "wg_engine_dialog_command api ident ds e b =
     (if estate e \<noteq> WG_ENGINE_PAUSED then (ds, e, b)
      else if nsd_show_pause ds then (ds\<lparr>nsd_show_pause := False\<rparr>, e\<lparr>estate := WG_ENGINE_RUNNING\<rparr>, b)
      else if \<not> dlg_active ds \<or> dlg_proc ds = 0 then (ds, e, b)
      else let h = ctrl_handle (wg_find_ctrl (dlg_hwnd ds) ident ds);
               esp = ucast (wg_blink_get_reg b 4) :: u32
           in (ds, e\<lparr>estate := WG_ENGINE_RUNNING\<rparr>,
               enter_dlgproc api (dlg_proc ds) (esp - 20) [dlg_hwnd ds, 0x0111, ident, h] b))"

definition in_rect :: "int \<Rightarrow> int \<Rightarrow> int \<times> int \<times> int \<times> int \<Rightarrow> bool" where
  "in_rect x y rc = (case rc of (px, py, pw, ph) \<Rightarrow> px \<le> x \<and> x < px + pw \<and> py \<le> y \<and> y < py + ph)"

text \<open>The first visible button of the modal dialog at a point of its client area, or 0.\<close>

definition button_at :: "painter \<Rightarrow> int \<Rightarrow> int \<Rightarrow> int \<Rightarrow> int \<Rightarrow> dialogs \<Rightarrow> u32" where
  "button_at pt cw ch x y ds =
     (case List.find (\<lambda>c. c_hwnd c = dlg_hwnd ds \<and> c_cls c = 0x0080 \<and> c_style c AND 0x10000000 \<noteq> 0 \<and>
        in_rect x y (ctrl_rect pt cw ch c)) (ctrls ds) of None \<Rightarrow> 0 | Some c \<Rightarrow> c_id c)"

definition wg_engine_hit_test :: "painter \<Rightarrow> int \<Rightarrow> int \<Rightarrow> dialogs \<Rightarrow> gdi \<Rightarrow> (u32 \<times> gdi) ub" where
  "wg_engine_hit_test pt vx vy ds g =
     (if \<not> dlg_active ds \<or> dlg_hwnd ds = 0 then Some (0, g)
      else case wm_find (wins g) (dlg_hwnd ds) of
             None \<Rightarrow> Some (0, g)
           | Some i \<Rightarrow> do {
               (fb, g) \<leftarrow> client_of (p_alloc pt) (dlg_hwnd ds) g;
               case fb of
                 None \<Rightarrow> Some (0, g)
               | Some j \<Rightarrow> do {
                   let w = windows (wins g) ! j;
                   x \<leftarrow> c_int (vx - wx w);
                   top \<leftarrow> c_int (wy w + (if parent w = 0 then WG_TITLEBAR_H else 0));
                   y \<leftarrow> c_int (vy - top);
                   if x < 0 \<or> y < 0 \<or> client_w w \<le> x \<or> client_h w \<le> y then Some (0, g)
                   else Some (button_at pt (client_w w) (client_h w) x y ds, g)
                 }
             })"

end
