(* ===== verification/DialogTemplate.thy ===== *)
theory DialogTemplate
  imports EngineDialog GuestText
begin

text \<open>
  Dialog templates: a reference encoder of the extended template of Windows, and the proof that the
  engine's parser finds the controls of every template that it encodes, wherever in the file it is.
\<close>

section \<open>Data in the file\<close>

definition data_at :: "pe_image \<Rightarrow> nat \<Rightarrow> u8 list \<Rightarrow> bool" where
  "data_at img p bs \<longleftrightarrow> (\<exists>pre post. raw_data img = pre @ bs @ post \<and> length pre = p)"

lemma data_at_iff: "data_at img p bs \<longleftrightarrow> p + length bs \<le> length (raw_data img) \<and> take (length bs) (drop p (raw_data img)) = bs"
proof
  assume h: "p + length bs \<le> length (raw_data img) \<and> take (length bs) (drop p (raw_data img)) = bs"
  then have "raw_data img = take p (raw_data img) @ bs @ drop (length bs) (drop p (raw_data img))" by (metis append_take_drop_id)
  moreover have "length (take p (raw_data img)) = p" using h by simp
  ultimately show "data_at img p bs" unfolding data_at_def by blast
qed (auto simp: data_at_def)

lemma data_at_append [simp]: "data_at img p (xs @ ys) \<longleftrightarrow> data_at img p xs \<and> data_at img (p + length xs) ys"
  unfolding data_at_iff by (auto simp: take_add ac_simps)

lemma data_atD: "data_at img p bs \<Longrightarrow> p + length bs \<le> length (raw_data img) \<and> (\<exists>post. drop p (raw_data img) = bs @ post)"
  unfolding data_at_def by auto

lemma data_at_length: "data_at img p bs \<Longrightarrow> p + length bs \<le> length (raw_data img)"
  by (auto dest: data_atD)

lemma data_at_drop: "data_at img p bs \<Longrightarrow> \<exists>post. drop p (raw_data img) = bs @ post"
  by (auto dest: data_atD)

lemma data_bytes_at:
  assumes "data_at img p bs" and "length bs = n"
  shows "file_bytes img p n = Some bs"
proof -
  obtain post where "drop p (raw_data img) = bs @ post" using data_at_drop [OF assms(1)] by blast
  then show ?thesis using data_at_length [OF assms(1)] assms(2) by (simp add: file_bytes_def)
qed

lemma file_u16_at: "data_at img p (le_bytes 2 w) \<Longrightarrow> file_u16 img p = Some w"
  by (simp add: file_u16_def data_bytes_at le_word_le_bytes_full)

lemma file_u32_at: "data_at img p (le_bytes 4 w) \<Longrightarrow> file_u32 img p = Some w"
  by (simp add: file_u32_def data_bytes_at le_word_le_bytes_full)

section \<open>Names\<close>

text \<open>A menu, a class or a title: an ordinal or a string.\<close>

datatype res_name = Ordinal u16 | Named "u16 list"

fun name_bytes :: "res_name \<Rightarrow> u8 list" where
  "name_bytes (Ordinal n) = wide_bytes [0xFFFF, n]"
| "name_bytes (Named ws) = wide_bytes (ws @ [0])"

fun name_ok :: "res_name \<Rightarrow> bool" where
  "name_ok (Ordinal n) = True"
| "name_ok (Named ws) = (0 \<notin> set ws \<and> take 1 ws \<noteq> [0xFFFF])"

fun name_text :: "res_name \<Rightarrow> u16 list" where
  "name_text (Ordinal n) = []"
| "name_text (Named ws) = ws"

lemma wide_Cons: "wide_bytes (w # ws) = le_bytes 2 w @ wide_bytes ws"
  by (simp add: wide_bytes_def)

lemma units_to_nul_wide: "0 \<notin> set ws \<Longrightarrow> units_to_nul (wide_bytes (ws @ [0]) @ rest) = Some ws"
proof (induction ws)
  case Nil
  have "le_bytes 2 (0 :: u16) = [0, 0]" by code_simp
  then show ?case by (simp add: wide_Cons wide_bytes_def)
next
  case (Cons w ws)
  obtain b0 b1 where b: "le_bytes 2 w = [b0, b1]" using length_le_bytes [of 2 w] by (auto simp: eval_nat_numeral length_Suc_conv)
  have "le_word (le_bytes 2 w) = w" by (simp add: le_word_le_bytes_full)
  then show ?case using Cons by (simp add: wide_Cons b)
qed

lemma first_unit:
  assumes "data_at img p (wide_bytes (w # ws))"
  shows "file_u16 img p = Some w"
  using assms by (simp add: wide_Cons file_u16_at)

lemma res_skip_name:
  assumes "data_at img p (name_bytes nm)" and "name_ok nm"
  shows "res_skip_sz img p cap = Some (take (cap - 1) (name_text nm), p + length (name_bytes nm))"
proof (cases nm)
  case (Ordinal n)
  then have "file_u16 img p = Some 0xFFFF" using first_unit [of img p "0xFFFF" "[n]"] assms(1) by simp
  then show ?thesis by (simp add: res_skip_sz_def Ordinal)
next
  case (Named ws)
  show ?thesis
  proof (cases ws)
    case Nil
    then have "file_u16 img p = Some 0" using first_unit [of img p "0" "[]"] assms(1) Named by simp
    then show ?thesis by (simp add: res_skip_sz_def Named Nil)
  next
    case (Cons w vs)
    have f: "file_u16 img p = Some w" using first_unit [of img p w "vs @ [0]"] assms(1) Named Cons by simp
    obtain post where "drop p (raw_data img) = wide_bytes (ws @ [0]) @ post"
      using data_at_drop [OF assms(1)] Named by auto
    then have u: "units_to_nul (drop p (raw_data img)) = Some ws" using units_to_nul_wide assms(2) Named by simp
    have "w \<noteq> 0" "w \<noteq> 0xFFFF" using assms(2) Named Cons by auto
    then show ?thesis using f u by (simp add: res_skip_sz_def Named algebra_simps)
  qed
qed

section \<open>Items\<close>

record dlg_item =
  it_help :: u32
  it_ex :: u32
  it_style :: u32
  it_x :: u16
  it_y :: u16
  it_cx :: u16
  it_cy :: u16
  it_id :: u32
  it_class :: res_name
  it_title :: res_name
  it_extra :: "u8 list"

definition item_bytes :: "dlg_item \<Rightarrow> u8 list" where
  "item_bytes it = le_bytes 4 (it_help it) @ le_bytes 4 (it_ex it) @ le_bytes 4 (it_style it) @
     le_bytes 2 (it_x it) @ le_bytes 2 (it_y it) @ le_bytes 2 (it_cx it) @ le_bytes 2 (it_cy it) @
     le_bytes 4 (it_id it) @ name_bytes (it_class it) @ name_bytes (it_title it) @
     le_bytes 2 (of_nat (length (it_extra it)) :: u16) @ it_extra it"

definition item_ok :: "dlg_item \<Rightarrow> bool" where
  "item_ok it \<longleftrightarrow> name_ok (it_class it) \<and> name_ok (it_title it) \<and> length (it_extra it) < 2 ^ 16"

text \<open>The control that an item stands for.\<close>

fun class_of :: "res_name \<Rightarrow> u16" where
  "class_of (Ordinal n) = n"
| "class_of (Named ws) = named_class (take 39 ws)"

definition ctrl_of :: "u32 \<Rightarrow> u16 \<Rightarrow> u16 \<Rightarrow> dlg_item \<Rightarrow> ctrl" where
  "ctrl_of hwnd dcx dcy it =
     \<lparr>c_hwnd = hwnd, c_id = it_id it, c_style = it_style it, c_x = it_x it, c_y = it_y it, c_cx = it_cx it, c_cy = it_cy it,
      c_dlg_cx = dcx, c_dlg_cy = dcy, c_cls = class_of (it_class it),
      c_is_bitmap = (class_of (it_class it) = 0x0082 \<and> it_style it AND 0x0F = 0x0E), c_hbitmap = 0,
      c_text = pad_text (take 79 (name_text (it_title it)))\<rparr>"

text \<open>The class of an item, given by an ordinal or by name.\<close>

lemma parse_class:
  assumes "data_at img p (name_bytes nm)" and "name_ok nm"
  shows "do { w0 \<leftarrow> file_u16 img p;
      (if w0 = 0xFFFF then do { c \<leftarrow> file_u16 img (p + 2); Some (c, p + 4) }
       else do { (ws, p) \<leftarrow> res_skip_sz img p 40; Some (named_class ws, p) }) } =
    Some (class_of nm, p + length (name_bytes nm))"
proof (cases nm)
  case (Ordinal n)
  then have d: "data_at img p (wide_bytes [0xFFFF, n])" using assms(1) by simp
  then have "data_at img (p + 2) (wide_bytes [n])" by (simp add: wide_Cons)
  then show ?thesis using first_unit [OF d] first_unit [of img "p + 2" n "[]"] Ordinal by simp
next
  case (Named ws)
  obtain w vs where w: "ws @ [0] = w # vs" by (cases ws) auto
  have "w \<noteq> 0xFFFF" using assms(2) Named w by (cases ws) auto
  moreover have "file_u16 img p = Some w" using first_unit [of img p w vs] assms(1) Named w by simp
  ultimately show ?thesis using res_skip_name [OF assms, of 40] Named by simp
qed

lemma parse_item_at:
  assumes d: "data_at img (t + align4 k) (item_bytes it)" and ok: "item_ok it" and p: "p = t + k"
  shows "parse_item img t hwnd dcx dcy p = Some (ctrl_of hwnd dcx dcy it, t + align4 k + length (item_bytes it))"
proof -
  define q where "q = t + align4 k"
  have p8: "t + align4 (p - t) + 8 = q + 8" using p by (simp add: q_def)
  let ?c = "q + 24 + length (name_bytes (it_class it))"
  let ?e = "?c + length (name_bytes (it_title it))"
  have f: "data_at img (q + 8) (le_bytes 4 (it_style it))" "data_at img (q + 12) (le_bytes 2 (it_x it))"
    "data_at img (q + 14) (le_bytes 2 (it_y it))" "data_at img (q + 16) (le_bytes 2 (it_cx it))"
    "data_at img (q + 18) (le_bytes 2 (it_cy it))" "data_at img (q + 20) (le_bytes 4 (it_id it))"
    "data_at img (q + 24) (name_bytes (it_class it))" "data_at img ?c (name_bytes (it_title it))"
    "data_at img ?e (le_bytes 2 (of_nat (length (it_extra it)) :: u16))"
    using d unfolding q_def [symmetric] by (simp_all add: item_bytes_def ac_simps)
  have x: "unat (of_nat (length (it_extra it)) :: u16) = length (it_extra it)" using ok by (simp add: item_ok_def unat_of_nat)
  have n: "name_ok (it_class it)" "name_ok (it_title it)" using ok by (simp_all add: item_ok_def)
  note g = file_u32_at [OF f(1)] file_u16_at [OF f(2)] file_u16_at [OF f(3)] file_u16_at [OF f(4)] file_u16_at [OF f(5)]
    file_u32_at [OF f(6)] file_u16_at [OF f(9)] res_skip_name [OF f(8) n(2)]
  obtain w0 where w0: "file_u16 img (q + 24) = Some w0" using parse_class [OF f(7) n(1)] by (cases "file_u16 img (q + 24)") auto
  have cls: "(if w0 = 0xFFFF then do { c \<leftarrow> file_u16 img (q + 26); Some (c, q + 28) }
       else do { (ws, p) \<leftarrow> res_skip_sz img (q + 24) 40; Some (named_class ws, p) }) = Some (class_of (it_class it), ?c)"
    using parse_class [OF f(7) n(1)] by (simp add: w0 ac_simps split: if_splits)
  have l: "length (item_bytes it) = 26 + length (name_bytes (it_class it)) + length (name_bytes (it_title it)) + length (it_extra it)"
    by (simp add: item_bytes_def)
  have offs: "q + 8 + 4 = q + 12" "q + 8 + 6 = q + 14" "q + 8 + 8 = q + 16" "q + 8 + 10 = q + 18" "q + 8 + 12 = q + 20"
    "q + 8 + 16 = q + 24" "q + 24 + 2 = q + 26" "q + 24 + 4 = q + 28" by simp_all
  show ?thesis
    unfolding parse_item_def Let_def p8 offs
    by (simp add: g w0 cls x l ctrl_of_def zero_ctrl_def flip: q_def)
qed

text \<open>The items from the offset \<open>k\<close> of the template on, each at a multiple of 4.\<close>

definition pad4 :: "nat \<Rightarrow> nat" where
  "pad4 k = (4 - k mod 4) mod 4"

fun items_bytes :: "nat \<Rightarrow> dlg_item list \<Rightarrow> u8 list" where
  "items_bytes k [] = []"
| "items_bytes k (it # its) =
     replicate (pad4 k) 0 @ item_bytes it @ items_bytes (k + pad4 k + length (item_bytes it)) its"

lemma align4_pad: "align4 k = k + pad4 k"
proof -
  define q r where "q = k div 4" and "r = k mod 4"
  have k: "k = r + q * 4" and "r < 4" by (simp_all add: q_def r_def)
  then have "r = 0 \<or> r = 1 \<or> r = 2 \<or> r = 3" by linarith
  moreover have "align4 k = (r + 3) div 4 * 4 + q * 4"
    using div_mult_self1 [of 4 "r + 3" q] by (simp add: align4_def k add.assoc add.commute [of "q * 4"])
  moreover have "pad4 k = (4 - r) mod 4" by (simp add: pad4_def r_def)
  ultimately show ?thesis by (elim disjE) (simp_all add: k)
qed

lemma parse_items_at:
  assumes "data_at img (t + k) (items_bytes k its)" and "\<forall>it \<in> set its. item_ok it"
  shows "parse_items img t hwnd dcx dcy (length its) room (t + k) = Some (map (ctrl_of hwnd dcx dcy) (take room its))"
  using assms
proof (induction its arbitrary: k room)
  case (Cons it its)
  show ?case
  proof (cases room)
    case (Suc m)
    have d: "data_at img (t + align4 k) (item_bytes it)"
      "data_at img (t + (align4 k + length (item_bytes it))) (items_bytes (align4 k + length (item_bytes it)) its)"
      using Cons.prems(1) by (simp_all add: align4_pad add.assoc)
    have "parse_item img t hwnd dcx dcy (t + k) = Some (ctrl_of hwnd dcx dcy it, t + (align4 k + length (item_bytes it)))"
      using parse_item_at [OF d(1) _ refl] Cons.prems(2) by (simp add: add.assoc)
    then show ?thesis using Cons.IH [OF d(2)] Cons.prems(2) Suc by simp
  qed simp
qed simp

section \<open>Templates\<close>

text \<open>The font is the point size, weight and character set in six bytes, and a name.\<close>

record dlg_template =
  d_help :: u32
  d_ex :: u32
  d_style :: u32
  d_x :: u16
  d_y :: u16
  d_cx :: u16
  d_cy :: u16
  d_menu :: res_name
  d_class :: res_name
  d_title :: res_name
  d_font :: "(u8 list \<times> u16 list) option"
  d_items :: "dlg_item list"

definition font_bytes :: "dlg_template \<Rightarrow> u8 list" where
  "font_bytes d = (case d_font d of None \<Rightarrow> [] | Some (f, ws) \<Rightarrow> f @ name_bytes (Named ws))"

definition head_bytes :: "dlg_template \<Rightarrow> u8 list" where
  "head_bytes d = le_bytes 2 (1 :: u16) @ le_bytes 2 (0xFFFF :: u16) @ le_bytes 4 (d_help d) @ le_bytes 4 (d_ex d) @
     le_bytes 4 (d_style d) @ le_bytes 2 (of_nat (length (d_items d)) :: u16) @ le_bytes 2 (d_x d) @ le_bytes 2 (d_y d) @
     le_bytes 2 (d_cx d) @ le_bytes 2 (d_cy d) @ name_bytes (d_menu d) @ name_bytes (d_class d) @ name_bytes (d_title d) @
     font_bytes d"

definition template_bytes :: "dlg_template \<Rightarrow> u8 list" where
  "template_bytes d = head_bytes d @ items_bytes (length (head_bytes d)) (d_items d)"

definition template_ok :: "dlg_template \<Rightarrow> bool" where
  "template_ok d \<longleftrightarrow> name_ok (d_menu d) \<and> name_ok (d_class d) \<and> name_ok (d_title d) \<and> length (d_items d) < 2 ^ 16 \<and>
     (\<forall>it \<in> set (d_items d). item_ok it) \<and>
     (case d_font d of None \<Rightarrow> d_style d AND 0x40 = 0
      | Some (f, ws) \<Rightarrow> d_style d AND 0x40 \<noteq> 0 \<and> length f = 6 \<and> name_ok (Named ws))"

lemma skip_font:
  assumes "data_at img p (font_bytes d)" and "template_ok d"
  shows "(if d_style d AND 0x40 \<noteq> 0 then map_option snd (res_skip_sz img (p + 6) 0) else Some p) = Some (p + length (font_bytes d))"
proof (cases "d_font d")
  case (Some r)
  then obtain f ws where r: "d_font d = Some (f, ws)" by (cases r) auto
  then have "d_style d AND 0x40 \<noteq> 0" "length f = 6" "name_ok (Named ws)" "data_at img (p + 6) (name_bytes (Named ws))"
    using assms by (simp_all add: font_bytes_def template_ok_def)
  then show ?thesis using res_skip_name [of img "p + 6" "Named ws" 0] by (simp add: r font_bytes_def)
qed (use assms in \<open>simp add: font_bytes_def template_ok_def\<close>)

text \<open>The parser finds exactly the controls of a template, as many as the table has room for.\<close>

lemma template_roundtrip:
  assumes d: "data_at img t (template_bytes d)" and ok: "template_ok d"
  shows "parse_template img hwnd room t = Some (map (ctrl_of hwnd (d_cx d) (d_cy d)) (take room (d_items d)))"
proof -
  let ?m = "t + 26 + length (name_bytes (d_menu d))"
  let ?c = "?m + length (name_bytes (d_class d))"
  let ?l = "?c + length (name_bytes (d_title d))"
  have h: "data_at img t (head_bytes d)" "data_at img (t + length (head_bytes d)) (items_bytes (length (head_bytes d)) (d_items d))"
    using d by (simp_all add: template_bytes_def)
  have f: "data_at img t (le_bytes 2 (1 :: u16))" "data_at img (t + 2) (le_bytes 2 (0xFFFF :: u16))"
    "data_at img (t + 12) (le_bytes 4 (d_style d))" "data_at img (t + 16) (le_bytes 2 (of_nat (length (d_items d)) :: u16))"
    "data_at img (t + 22) (le_bytes 2 (d_cx d))" "data_at img (t + 24) (le_bytes 2 (d_cy d))"
    "data_at img (t + 26) (name_bytes (d_menu d))" "data_at img ?m (name_bytes (d_class d))"
    "data_at img ?c (name_bytes (d_title d))" "data_at img ?l (font_bytes d)"
    using h(1) by (simp_all add: head_bytes_def ac_simps)
  have n: "name_ok (d_menu d)" "name_ok (d_class d)" "name_ok (d_title d)" using ok by (simp_all add: template_ok_def)
  have l: "?l + length (font_bytes d) = t + length (head_bytes d)" by (simp add: head_bytes_def)
  have c: "unat (of_nat (length (d_items d)) :: u16) = length (d_items d)" using ok by (simp add: template_ok_def unat_of_nat)
  have "file_u16 img (Suc (Suc t)) = Some 0xFFFF" using file_u16_at [OF f(2)] by simp
  note g = file_u16_at [OF f(1)] this file_u32_at [OF f(3)] file_u16_at [OF f(4)] file_u16_at [OF f(5)]
    file_u16_at [OF f(6)] res_skip_name [OF f(7) n(1)] res_skip_name [OF f(8) n(2)] res_skip_name [OF f(9) n(3)]
    skip_font [OF f(10) ok, unfolded l]
  have "parse_template img hwnd room t =
      parse_items img t hwnd (d_cx d) (d_cy d) (length (d_items d)) room (t + length (head_bytes d))"
    unfolding parse_template_def by (simp add: g c del: take_0)
  then show ?thesis using parse_items_at [OF h(2)] ok by (simp add: template_ok_def)
qed

text \<open>Parsing the dialog of a window replaces the window's controls and keeps those of the others.\<close>

text \<open>C33: A dialog template encoded from any header, font and list of items, wherever in the file it is, is parsed to exactly these items as controls of the window, as many as the table has room for; the controls of other windows stay.\<close>

theorem dialog_parsed:
  assumes img: "pe_img e = Some img" and t: "pe_find_dialog img k = Some (Some t)"
    and d: "data_at img t (template_bytes d)" and ok: "template_ok d"
    and rest: "rest = filter (\<lambda>c. c_hwnd c \<noteq> hwnd) (ctrls ds)"
  shows "wg_parse_dialog e hwnd k ds =
    Some (ds\<lparr>ctrls := rest @ map (ctrl_of hwnd (d_cx d) (d_cy d)) (take (160 - length rest) (d_items d))\<rparr>)"
  using template_roundtrip [OF d ok] by (simp add: wg_parse_dialog_def wg_remove_ctrls_def img t rest)

end
