(* ===== verification/DialogControls.thy ===== *)
theory DialogControls
  imports EngineDialog GuestStrings GuestSeh
begin

text \<open>
  The controls of dialogs and their handles: which control a handle names, the text of a control as the
  guest sets and reads it, and the return of a modal dialog to its caller.
\<close>

section \<open>Handles\<close>

lemma find_ctrl_update:
  assumes "i < length (ctrls ds)" and "c_hwnd (f (ctrls ds ! i)) = c_hwnd (ctrls ds ! i)" and "c_id (f (ctrls ds ! i)) = c_id (ctrls ds ! i)"
  shows "wg_find_ctrl hwnd ident (upd_ctrl i f ds) = wg_find_ctrl hwnd ident ds"
  unfolding wg_find_ctrl_def upd_ctrl_def
  by (simp, rule find_index_cong_nth) (use assms in \<open>auto simp: nth_list_update\<close>)

lemma find_ctrlD:
  assumes "wg_find_ctrl hwnd ident ds = Some i"
  shows "i < length (ctrls ds)" and "c_hwnd (ctrls ds ! i) = hwnd" and "c_id (ctrls ds ! i) = ident"
  using find_index_SomeD [OF assms [unfolded wg_find_ctrl_def]] by auto

lemma ctrl_from_handle:
  assumes "i < length (ctrls ds)" and "length (ctrls ds) \<le> 160"
  shows "wg_ctrl_from_handle (ctrl_handle (Some i)) ds = Some i"
proof -
  have i: "i < 160" using assms by simp
  then have u: "unat (of_nat i :: u32) = i" by (simp add: unat_of_nat)
  have s: "unat (WG_CTRL_HWND_BASE + of_nat i :: u32) = unat WG_CTRL_HWND_BASE + i"
    using i u by (simp add: WG_CTRL_HWND_BASE_def unat_word_ariths)
  then have "WG_CTRL_HWND_BASE \<le> WG_CTRL_HWND_BASE + (of_nat i :: u32)" "WG_CTRL_HWND_BASE + of_nat i < (WG_CTRL_HWND_BASE + 160 :: u32)"
    using i by (simp_all add: word_le_nat_alt word_less_nat_alt WG_CTRL_HWND_BASE_def)
  then show ?thesis using assms(1) u by (simp add: wg_ctrl_from_handle_def ctrl_handle_def)
qed

text \<open>Removing the controls of a window moves the later ones down.\<close>

lemma find_index_filter:
  assumes "find_index P xs = Some i" and "\<And>x. P x \<Longrightarrow> Q x"
  shows "find_index P (filter Q xs) = Some (length (filter Q (take i xs)))"
  using assms(1)
proof (induction xs arbitrary: i)
  case (Cons x xs)
  then show ?case using assms(2) by (cases "P x") (auto split: if_splits)
qed simp

theorem removal_moves_handles:
  assumes f: "wg_find_ctrl dlg ident ds = Some i" and ne: "w \<noteq> dlg"
  shows "\<exists>j. wg_find_ctrl dlg ident (wg_remove_ctrls w ds) = Some j \<and>
    ctrls (wg_remove_ctrls w ds) ! j = ctrls ds ! i \<and>
    i = j + length (filter (\<lambda>c. c_hwnd c = w) (take i (ctrls ds)))"
proof -
  let ?Q = "\<lambda>c. c_hwnd c \<noteq> w"
  let ?j = "length (filter ?Q (take i (ctrls ds)))"
  note i = find_ctrlD [OF f]
  have "wg_find_ctrl dlg ident (wg_remove_ctrls w ds) = Some ?j"
    unfolding wg_find_ctrl_def wg_remove_ctrls_def
    by (simp, rule find_index_filter [OF f [unfolded wg_find_ctrl_def]]) (use ne in auto)
  moreover have "ctrls ds = take i (ctrls ds) @ ctrls ds ! i # drop (Suc i) (ctrls ds)" using i(1) by (simp add: id_take_nth_drop)
  then have "filter ?Q (ctrls ds) = filter ?Q (take i (ctrls ds)) @ ctrls ds ! i # filter ?Q (drop (Suc i) (ctrls ds))"
    using i(2) ne by (metis (mono_tags, lifting) filter.simps(2) filter_append)
  then have "ctrls (wg_remove_ctrls w ds) ! ?j = ctrls ds ! i" by (simp add: wg_remove_ctrls_def nth_append)
  moreover have "i = length (take i (ctrls ds))" using i(1) by simp
  then have "i = ?j + length (filter (\<lambda>c. c_hwnd c = w) (take i (ctrls ds)))"
    using sum_length_filter_compl [of "\<lambda>c. c_hwnd c = w" "take i (ctrls ds)"] by simp
  ultimately show ?thesis by blast
qed

section \<open>Texts\<close>

lemma ctrl_text_set:
  assumes "0 \<notin> set ws" and "length ws \<le> 79" and "c_text c = ws @ 0 # rest"
  shows "ctrl_text c = ws"
  using to_nul_take [OF assms(1,2)] assms(3) by (simp add: ctrl_text_def)

text \<open>What the guest sets as the text of a control through its handle, it reads back.\<close>

text \<open>C37: A text that the guest sets on a control through the handle from GetDlgItem is read back by GetDlgItemTextW, up to 79 units and the size of the buffer; no other control changes.\<close>

theorem item_text_roundtrip:
  assumes ram: "flat_ram api peek" and b: "b \<noteq> None"
    and f: "wg_find_ctrl dlg ident ds = Some i" and room: "length (ctrls ds) \<le> 160"
    and s: "bytes_at peek b src (wide_bytes (ws @ [0]))" "0 \<notin> set ws" "length ws < 255" "src \<noteq> 0"
    and put: "h_SetWindowTextW api pt [ucast (h_GetDlgItem [dlg, ident] ds), src] ds g b = Some (r, ds', g')"
    and get: "h_GetDlgItemTextW api [dlg, ident, dst, cap] ds' b = (n, b')" and nz: "dst \<noteq> 0" "cap \<noteq> 0"
  shows "r = 1 \<and> n = of_nat (min (length ws) (min 79 (unat cap - 1))) \<and>
    bytes_at peek b' dst (wide_bytes (take (min 79 (unat cap - 1)) ws @ [0])) \<and>
    (\<forall>j. j \<noteq> i \<longrightarrow> ctrls ds' ! j = ctrls ds ! j)"
proof -
  note i = find_ctrlD [OF f]
  have h: "(ucast (h_GetDlgItem [dlg, ident] ds) :: u32) = ctrl_handle (Some i)" using f by (simp add: h_GetDlgItem_def u32_down_up)
  have c: "wg_ctrl_from_handle (ucast (h_GetDlgItem [dlg, ident] ds)) ds = Some i"
    unfolding h by (rule ctrl_from_handle [OF i(1) room])
  have tx: "to_nul (read_units api zeros src 255 b) = ws"
    by (rule read_units_text(2) [OF ram b s(1,2)]) (use s(3) in simp_all)
  let ?t = "take 79 ws"
  let ?f = "\<lambda>c. c\<lparr>c_text := ?t @ [0] @ drop (length ?t + 1) (c_text c)\<rparr>"
  have ds': "r = 1" "ds' = upd_ctrl i ?f ds"
    using put c tx s(4) by (auto simp: h_SetWindowTextW_def Let_def bind_eq_Some_conv)
  have find: "wg_find_ctrl dlg ident ds' = Some i" unfolding ds'(2) using find_ctrl_update [of i ds ?f] i(1) f by simp
  have "ctrl_text (ctrls ds' ! i) = ?t"
    by (rule ctrl_text_set [where rest = "drop (length ?t + 1) (c_text (ctrls ds ! i))"])
      (use s(2) i(1) in \<open>auto simp: ds'(2) upd_ctrl_def dest: in_set_takeD\<close>)
  moreover have "take (unat cap - 1) ?t = take (min 79 (unat cap - 1)) ws" by (simp add: min.commute)
  ultimately have e: "n = of_nat (length (take (min 79 (unat cap - 1)) ws))"
    "b' = write_bytes api dst (wide_bytes (take (min 79 (unat cap - 1)) ws @ [0])) b"
    using get find nz by (simp_all add: h_GetDlgItemTextW_def put_ctrl_text_def Let_def del: length_take)
  have "bytes_at peek b' dst (wide_bytes (take (min 79 (unat cap - 1)) ws @ [0]))"
    unfolding e(2) by (rule bytes_at_write [OF ram b]) simp
  moreover have "n = of_nat (min (length ws) (min 79 (unat cap - 1)))" unfolding e(1) by simp
  moreover have "\<forall>j. j \<noteq> i \<longrightarrow> ctrls ds' ! j = ctrls ds ! j" by (simp add: ds'(2) upd_ctrl_def)
  ultimately show ?thesis using ds'(1) by blast
qed

section \<open>Taps\<close>

lemma find_SomeD: "List.find P xs = Some x \<Longrightarrow> x \<in> set xs \<and> P x"
  by (induction xs) (auto split: if_splits)

lemma hit_point:
  assumes "wg_engine_hit_test pt vx vy ds g = Some (ident, g')" and "ident \<noteq> 0"
  shows "dlg_active ds \<and> (\<exists>cw ch x y. ident = button_at pt cw ch x y ds)"
  using assms by (auto simp: wg_engine_hit_test_def Let_def split: if_splits option.splits Option.bind_splits prod.splits)

lemma hit_button:
  assumes "wg_engine_hit_test pt vx vy ds g = Some (ident, g')" and "ident \<noteq> 0"
  shows "\<exists>c \<in> set (ctrls ds). c_hwnd c = dlg_hwnd ds \<and> c_id c = ident \<and> dlg_active ds"
  using hit_point [OF assms] assms(2) find_SomeD by (fastforce simp: button_at_def split: option.splits)

lemma find_ctrl_exists:
  assumes "c \<in> set (ctrls ds)" and "c_hwnd c = hwnd" and "c_id c = ident"
  shows "\<exists>i. wg_find_ctrl hwnd ident ds = Some i"
  using assms unfolding wg_find_ctrl_def by (metis (mono_tags, lifting) find_index_None not_Some_eq)

text \<open>A tap on a button of the modal dialog enters the dialog procedure with \<open>WM_COMMAND\<close>, the button's
  number and a handle of it on the stack.\<close>

text \<open>C34: While the engine is paused with no nsDialogs::Show pause, a tap on a button (id not 0) of the modal dialog enters its dialog procedure with WM_COMMAND, the id and a handle on the stack that names a control of the dialog with this id; the rest of guest memory is unchanged. The table has at most 160 controls.\<close>

theorem tap_enters_dlgproc:
  fixes sp :: u32
  assumes ram: "flat_ram api peek" and b: "b \<noteq> None"
    and hit: "wg_engine_hit_test pt vx vy ds g = Some (ident, g')" "ident \<noteq> 0" and room: "length (ctrls ds) \<le> 160"
    and st: "estate e = WG_ENGINE_PAUSED" "\<not> nsd_show_pause ds" "dlg_proc ds \<noteq> 0"
    and cmd: "wg_engine_dialog_command api ident ds e b = (ds', e', b')"
    and sp: "sp = (ucast (wg_blink_get_reg b 4) - 20 :: u32)"
  shows "\<exists>i. ds' = ds \<and> estate e' = WG_ENGINE_RUNNING \<and> wg_blink_get_rip b' = ucast (dlg_proc ds) \<and>
    wg_blink_get_reg b' 4 = ucast sp \<and>
    read_words api (ucast sp) 5 5 b' = [ucast WG_DLG_SENTINEL, dlg_hwnd ds, 0x0111, ident, ctrl_handle (Some i)] \<and>
    wg_ctrl_from_handle (ctrl_handle (Some i)) ds = Some i \<and>
    c_hwnd (ctrls ds ! i) = dlg_hwnd ds \<and> c_id (ctrls ds ! i) = ident \<and>
    (\<forall>x. 20 \<le> unat (x - ucast sp) \<longrightarrow> byte_in peek b' x = byte_in peek b x)"
proof -
  obtain c where c: "c \<in> set (ctrls ds)" "c_hwnd c = dlg_hwnd ds" "c_id c = ident" "dlg_active ds"
    using hit_button [OF hit] by blast
  obtain i where i: "wg_find_ctrl (dlg_hwnd ds) ident ds = Some i" using find_ctrl_exists [OF c(1-3)] by blast
  note fi = find_ctrlD [OF i]
  let ?bs = "concat (map (le_bytes 4) (ucast WG_DLG_SENTINEL # [dlg_hwnd ds, 0x0111, ident, ctrl_handle (Some i)]))"
  let ?b = "write_bytes api sp ?bs b"
  have e: "ds' = ds" "e' = e\<lparr>estate := WG_ENGINE_RUNNING\<rparr>"
    "b' = wg_blink_set_reg (wg_blink_set_rip (wg_blink_set_reg ?b 4 (ucast sp)) (ucast (dlg_proc ds))) 0 0"
    using cmd st c(4) i by (auto simp: wg_engine_dialog_command_def enter_dlgproc_def sp Let_def)
  have len: "length ?bs = 4 * 5" by (simp add: length_le_bytes)
  have rm: "wg_blink_read_mem api b' a buf k = wg_blink_read_mem api ?b a buf k" for a buf k by (simp add: e(3))
  have "read_words api (ucast sp) 5 5 b' = words_of ?bs"
    unfolding read_words_def rm by (rule read_back [OF ram b len]) simp
  moreover have "byte_in peek b' x = byte_in peek b x" if "20 \<le> unat (x - ucast sp)" for x
    unfolding e(3) byte_in_regs by (subst byte_in_write [OF ram b]) (use that len in simp_all)
  moreover have "wg_blink_get_rip b' = ucast (dlg_proc ds) \<and> wg_blink_get_reg b' 4 = ucast sp"
    unfolding e(3) by (rule enter_regs) (simp only: write_bytes_Some b not_False_eq_True)
  ultimately show ?thesis using ctrl_from_handle [OF fi(1) room] fi(2,3) e(1,2) unfolding words_of_le_bytes by auto
qed

section \<open>Modal dialogs\<close>

text \<open>What the guest and the user do while a dialog is up, whatever the rest of the engine does between.\<close>

inductive dialog_step :: "'m guest_api \<Rightarrow> dialogs \<Rightarrow> dialogs \<Rightarrow> bool" for api :: "'m guest_api" where
  step_create: "h_CreateWindowExW api pt args ds g b = Some (r, ds', g') \<Longrightarrow> dialog_step api ds ds'"
| step_destroy: "h_DestroyWindow args ds g = (r, ds', g') \<Longrightarrow> dialog_step api ds ds'"
| step_item_text: "h_SetDlgItemTextW api pt args ds g b = Some (r, ds', g') \<Longrightarrow> dialog_step api ds ds'"
| step_text: "h_SetWindowTextW api pt args ds g b = Some (r, ds', g') \<Longrightarrow> dialog_step api ds ds'"
| step_send: "h_SendMessage api pt item f ds g e b = Some (r, ds', g') \<Longrightarrow> dialog_step api ds ds'"
| step_page: "h_CreateDialogParamW api pt f ds g e b = Some (r, ds', g') \<Longrightarrow> dialog_step api ds ds'"
| step_tap: "wg_engine_dialog_command api ident ds e b = (ds', e', b') \<Longrightarrow> dialog_step api ds ds'"

definition modal_of :: "dialogs \<Rightarrow> bool \<times> u32 \<times> u32 \<times> u32 \<times> u32" where
  "modal_of ds = (dlg_active ds, dlg_ret_addr ds, dlg_ret_rsp ds, dlg_hwnd ds, dlg_proc ds)"

lemma modal_of_simps [simp]:
  "modal_of (ds\<lparr>ctrls := x\<rparr>) = modal_of ds" "modal_of (ds\<lparr>inner_page := y\<rparr>) = modal_of ds"
  "modal_of (ds\<lparr>page_hwnd := y\<rparr>) = modal_of ds" "modal_of (ds\<lparr>nsd_show_pause := z\<rparr>) = modal_of ds"
  "modal_of (ds\<lparr>pb_pos := y\<rparr>) = modal_of ds" "modal_of (ds\<lparr>pb_max := y\<rparr>) = modal_of ds"
  "modal_of (ds\<lparr>detail_lines := l\<rparr>) = modal_of ds" "modal_of (upd_ctrl i f ds) = modal_of ds"
  "modal_of (wg_remove_ctrls w ds) = modal_of ds"
  by (simp_all add: modal_of_def upd_ctrl_def wg_remove_ctrls_def)

lemma modal_parse: "wg_parse_dialog e hwnd k ds = Some ds' \<Longrightarrow> modal_of ds' = modal_of ds"
  by (auto simp: wg_parse_dialog_def Let_def split: option.splits Option.bind_splits)

lemma modal_register:
  "wg_register_child_control ok p k st cl x y w h t ds g = Some (ds', g') \<Longrightarrow> modal_of ds' = modal_of ds"
  by (auto simp: wg_register_child_control_def Let_def split: if_splits option.splits Option.bind_splits prod.splits)

lemma modal_retire: "wg_retire_inner_page k ds g = (ds', g') \<Longrightarrow> modal_of ds' = modal_of ds"
  by (auto simp: wg_retire_inner_page_def split: if_splits)

lemma modal_detail: "insert_detail api pt msg lp ds g b = Some (ds', g') \<Longrightarrow> modal_of ds' = modal_of ds"
  by (auto simp: insert_detail_def Let_def split: if_splits Option.bind_splits)

lemma modal_progress: "set_progress pt msg wp lp ds g = Some (ds', g') \<Longrightarrow> modal_of ds' = modal_of ds"
  by (auto simp: set_progress_def Let_def split: if_splits Option.bind_splits)

lemma modal_step: "dialog_step api ds ds' \<Longrightarrow> modal_of ds' = modal_of ds"
proof (induction rule: dialog_step.induct)
  case (step_create pt args ds g b r ds' g')
  then show ?case
    by (auto simp: h_CreateWindowExW_def Let_def split: if_splits prod.splits Option.bind_splits dest!: modal_register)
next
  case (step_destroy args ds g r ds' g')
  then show ?case by (auto simp: h_DestroyWindow_def)
next
  case (step_item_text pt args ds g b r ds' g')
  then show ?case by (auto simp: h_SetDlgItemTextW_def Let_def split: if_splits option.splits Option.bind_splits)
next
  case (step_text pt args ds g b r ds' g')
  then show ?case
    by (auto simp: h_SetWindowTextW_def Let_def split: if_splits option.splits prod.splits Option.bind_splits)
next
  case (step_send pt item f ds g e b r ds' g')
  then show ?case
    by (auto simp: h_SendMessage_def Let_def split: if_splits option.splits prod.splits Option.bind_splits
        dest!: modal_detail modal_progress)
next
  case (step_page pt f ds g e b r ds' g')
  then show ?case
    by (auto simp: h_CreateDialogParamW_def Let_def split: if_splits option.splits prod.splits Option.bind_splits
        dest!: modal_parse modal_retire)
next
  case (step_tap ident ds e b ds' e' b')
  then show ?case by (auto simp: wg_engine_dialog_command_def Let_def split: if_splits)
qed

lemma modal_steps: "(dialog_step api)\<^sup>*\<^sup>* ds ds' \<Longrightarrow> modal_of ds' = modal_of ds"
  by (induction rule: rtranclp_induct) (auto dest: modal_step)

lemma dialog_box_spec:
  assumes "h_DialogBoxParamW api f ds g e b = Some ((r, e1, b1), ds1, g1)" and "fargs f ! 3 \<noteq> 0" and "is_32bit f"
  shows "dlg_active ds1 \<and> dlg_proc ds1 = fargs f ! 3 \<and> dlg_ret_addr ds1 = ucast (ret_addr f) \<and> dlg_ret_rsp ds1 = past_args f 5"
  using assms by (auto simp: h_DialogBoxParamW_def past_args_def Let_def algebra_simps split: prod.splits Option.bind_splits)

lemma end_dialog_spec:
  assumes "h_EndDialog args ds e b = ((r, e', b'), ds')" and "dlg_active ds" and "b \<noteq> None"
  shows "r = Handled \<and> \<not> dlg_active ds' \<and> callstack e' = [] \<and> wg_blink_get_rip b' = ucast (dlg_ret_addr ds) \<and>
    wg_blink_get_reg b' 4 = ucast (dlg_ret_rsp ds) \<and> wg_blink_get_reg b' 0 = ucast (args ! 1) \<and>
    (\<forall>i. i \<noteq> 0 \<and> i \<noteq> 4 \<longrightarrow> wg_blink_get_reg b' i = wg_blink_get_reg b i)"
proof -
  from assms(3) obtain v where v: "b = Some v" by blast
  show ?thesis using assms(1,2)
    by (auto simp: h_EndDialog_def v wg_blink_set_reg_def wg_blink_set_rip_def wg_blink_get_reg_def wg_blink_get_rip_def
        WGBlinkVM_SetReg_def WGBlinkVM_GetReg_def)
qed

text \<open>EndDialog returns to the caller of DialogBoxParamW behind its arguments, with the result, whatever the
  dialog has done; the caller's other registers are those that the dialog left.\<close>

text \<open>C35: A modal dialog is a call: whatever windows, controls, pages, messages and taps follow DialogBoxParamW, EndDialog returns behind it with its result, abandons the pending calls, and leaves the other registers as the dialog left them.\<close>

theorem modal_returns:
  assumes box: "h_DialogBoxParamW api f ds g e b = Some ((r1, e1, b1), ds1, g1)" "fargs f ! 3 \<noteq> 0" "is_32bit f"
    and run: "(dialog_step api)\<^sup>*\<^sup>* ds1 ds2" and vm: "b2 \<noteq> None"
    and fin: "h_EndDialog args ds2 e2 b2 = ((r, e3, b3), ds3)"
  shows "r = Handled \<and> wg_blink_get_rip b3 = ucast (ucast (ret_addr f) :: u32) \<and> wg_blink_get_reg b3 4 = ucast (past_args f 5) \<and>
    wg_blink_get_reg b3 0 = ucast (args ! 1) \<and> callstack e3 = [] \<and> \<not> dlg_active ds3 \<and>
    (\<forall>i. i \<noteq> 0 \<and> i \<noteq> 4 \<longrightarrow> wg_blink_get_reg b3 i = wg_blink_get_reg b2 i)"
proof -
  have "modal_of ds2 = modal_of ds1" by (rule modal_steps [OF run])
  with dialog_box_spec [OF box] have "dlg_active ds2" "dlg_ret_addr ds2 = ucast (ret_addr f)" "dlg_ret_rsp ds2 = past_args f 5"
    by (auto simp: modal_of_def)
  with end_dialog_spec [OF fin this(1) vm] show ?thesis by auto
qed

text \<open>A dialog that opens another one is never left: when the inner one has ended, EndDialog does nothing.\<close>

text \<open>C36: When a dialog opens another one, the inner EndDialog returns to the inner caller; from then on, until a further dialog is opened or nsDialogs is called, EndDialog answers 1 and does nothing, so the outer dialog is not left. In between: the calls on windows, controls, pages, messages and taps of \<open>dialog_step\<close>.\<close>

theorem nested_dialog_stuck:
  assumes "dlg_active ds" and box: "h_DialogBoxParamW api f ds g e b = Some ((r1, e1, b1), ds1, g1)" "fargs f ! 3 \<noteq> 0" "is_32bit f"
    and run: "(dialog_step api)\<^sup>*\<^sup>* ds1 ds2" and vm: "b2 \<noteq> None"
    and inner: "h_EndDialog args ds2 e2 b2 = ((r, e3, b3), ds3)"
    and more: "(dialog_step api)\<^sup>*\<^sup>* ds3 ds4"
  shows "wg_blink_get_rip b3 = ucast (ucast (ret_addr f) :: u32) \<and> h_EndDialog args' ds4 e4 b4 = ((Ret 1, e4, b4), ds4)"
proof -
  have m: "modal_of ds2 = modal_of ds1" by (rule modal_steps [OF run])
  with dialog_box_spec [OF box] have a: "dlg_active ds2" "dlg_ret_addr ds2 = ucast (ret_addr f)" by (auto simp: modal_of_def)
  note s = end_dialog_spec [OF inner a(1) vm]
  have "modal_of ds4 = modal_of ds3" by (rule modal_steps [OF more])
  then have "\<not> dlg_active ds4" using s by (auto simp: modal_of_def)
  then show ?thesis using s a(2) by (simp add: h_EndDialog_def)
qed

end
