(* ===== verification/CallProperties.thy ===== *)
theory CallProperties
  imports ModuleProperties GdiProperties GuestFiles DialogTemplate DialogControls
begin

text \<open>
  The calls on strings, files and dialogs at concrete inputs: a machine with two strings in its memory, an
  open file, a program with one dialog, and a window with a button.
\<close>

section \<open>Strings and files\<close>

text \<open>A machine with \<open>ab\<close> at 0x5000 and \<open>c\<close> at 0x6000, both wide.\<close>

definition call_texts :: "u64 \<Rightarrow> u8" where
  "call_texts x =
     (if x = 0x5000 then 0x61 else if x = 0x5002 then 0x62 else if x = 0x6000 then 0x63 else 0)"

definition call_vm :: "(u64 \<Rightarrow> u8) blink" where
  "call_vm = Some ((mem_vm 0)\<lparr>gmem := call_texts\<rparr>)"

lemma call_vm_some: "call_vm \<noteq> None"
  by (simp add: call_vm_def)

lemma call_vm_texts:
  "bytes_at (\<lambda>m. m) call_vm 0x5000 (wide_bytes ([0x61, 0x62] @ [0]))" "bytes_at (\<lambda>m. m) call_vm 0x6000 (wide_bytes ([0x63] @ [0]))"
  by code_simp+

lemma length_zeros_all: "length (zeros k) = k"
  by simp

theorem lstrcat_appends_witness:
  "\<exists>r b'. h_lstrcatW mem_api zeros 0 [0x5000, 0x6000] call_vm = (r, b') \<and> r = 0x5000 \<and>
     bytes_at (\<lambda>m. m) b' 0x5000 (wide_bytes [0x61, 0x62, 0x63, 0]) \<and> h_lstrlenW mem_api zeros 0 [0x5000] b' = 3"
proof -
  obtain r b' where c: "h_lstrcatW mem_api zeros 0 [0x5000, 0x6000] call_vm = (r, b')" by fastforce
  have n: "(0 :: u16) \<notin> set [0x61, 0x62]" "(0 :: u16) \<notin> set [0x63]" "(0x5000 :: u32) \<noteq> 0" "(0x6000 :: u32) \<noteq> 0"
    "length [0x61, 0x62 :: u16] + length [0x63 :: u16] \<le> 1022" by simp_all
  from lstrcat_appends [OF mem_flat call_vm_some length_zeros_all call_vm_texts n(1,2,5,3,4) c] c show ?thesis by simp
qed

theorem convert_roundtrip_witness:
  "\<exists>b1 b2. h_WideCharToMultiByte mem_api zeros [0, 0, 0x5000, - 1, 0x7000, 100] call_vm = Some (3, b1) \<and>
     bytes_at (\<lambda>m. m) b1 0x7000 [0x61, 0x62, 0] \<and>
     h_MultiByteToWideChar mem_api zeros [0, 0, 0x7000, - 1, 0x8000, 100] b1 = Some (3, b2) \<and>
     bytes_at (\<lambda>m. m) b2 0x8000 (wide_bytes [0x61, 0x62, 0])"
proof -
  have a: "\<forall>w \<in> set [0x61, 0x62 :: u16]. 0 < w \<and> w < 128" by simp
  have l: "length [0x61, 0x62 :: u16] < 2047" "(0x5000 :: u32) \<noteq> 0" "(0x7000 :: u32) \<noteq> 0" "(0x8000 :: u32) \<noteq> 0"
    "unat (0x5000 :: u32) + 2 * length [0x61, 0x62 :: u16] < 2 ^ 32" "unat (0x7000 :: u32) + length [0x61, 0x62 :: u16] < 2 ^ 32"
    "int (length [0x61, 0x62 :: u16]) < sint (100 :: u32)" by simp_all
  from convert_roundtrip [OF mem_flat call_vm_some call_vm_texts(1) a l(1-7) l(7), of zeros 0 0] show ?thesis by simp
qed

theorem guest_file_roundtrip_witness:
  "\<exists>fs1 fs2 fs3 b3.
     h_WriteFile mem_api (\<lambda>k. Some (replicate k 0)) 0 [0x100, 0x5000, 4, 0] demo_files call_vm = (1, fs1, call_vm) \<and>
     h_SetFilePointer [0x100, 0, 0, 0] fs1 = Some (0, fs2) \<and>
     h_ReadFile mem_api (\<lambda>k. Some (replicate k 0)) 0 [0x100, 0x8000, 4, 0x9000] fs2 call_vm = Some (1, fs3, b3) \<and>
     bytes_at (\<lambda>m. m) b3 0x8000 [0x61, 0, 0x62, 0] \<and> read32 mem_api 0x9000 b3 = 4"
proof -
  let ?f = "\<lparr>st_path = ''/d/f'', st_pos = 0, can_read = True, can_write = True, appends = False\<rparr>"
  have h: "find_file 0x100 demo_files = Some 0" by code_simp
  have f: "fp (ftab demo_files ! 0) = Some ?f" by code_simp
  have bs: "bytes_at (\<lambda>m. m) call_vm 0x5000 [0x61, 0, 0x62, 0]" by code_simp
  have s: "\<not> is_spew 0x100" "st_pos ?f < 2 ^ 31" "can_write ?f" "can_read ?f" "\<not> appends ?f" "[0x61, 0, 0x62, 0 :: u8] \<noteq> []"
    "length [0x61, 0, 0x62, 0 :: u8] \<le> 0x100000" "(0x9000 :: u32) \<noteq> 0"
    "unat (0x9000 :: u32) + 4 \<le> unat (0x8000 :: u32) \<or> unat (0x8000 :: u32) + length [0x61, 0, 0x62, 0 :: u8] \<le> unat (0x9000 :: u32)"
    by (simp_all add: is_spew_def)
  have m: "\<exists>blk. Some (replicate k (0 :: u8)) = Some blk \<and> length blk = k" for k by simp
  from guest_file_roundtrip [OF mem_flat call_vm_some m h f s(3-5,1,2) bs s(6-9), of 0] show ?thesis by auto
qed

section \<open>Dialogs\<close>

text \<open>A program whose resources hold the dialog 101 with one button.\<close>

definition ok_button :: dlg_item where
  "ok_button = \<lparr>it_help = 0, it_ex = 0, it_style = 0x10000000, it_x = 0, it_y = 0, it_cx = 3, it_cy = 2, it_id = 7,
     it_class = Ordinal 0x0080, it_title = Named [0x47, 0x6F], it_extra = []\<rparr>"

definition demo_template :: dlg_template where
  "demo_template = \<lparr>d_help = 0, d_ex = 0, d_style = 0x40, d_x = 0, d_y = 0, d_cx = 100, d_cy = 50, d_menu = Named [],
     d_class = Named [], d_title = Named [0x41], d_font = Some ([8, 0, 0, 0, 0, 0], [0x46]), d_items = [ok_button]\<rparr>"

definition dialog_file :: "u8 list" where
  "dialog_file = replicate 0x3C 0 @ le_bytes 4 (0x40 :: u32) @ replicate 136 0 @ le_bytes 4 (0x1000 :: u32) @
     replicate 12 0 @ [0, 0, 1, 0] @ le_bytes 4 (5 :: u32) @ le_bytes 4 (0x80000018 :: u32) @
     replicate 12 0 @ [0, 0, 1, 0] @ le_bytes 4 (101 :: u32) @ le_bytes 4 (0x80000030 :: u32) @
     replicate 12 0 @ [0, 0, 1, 0] @ le_bytes 4 (1033 :: u32) @ le_bytes 4 (72 :: u32) @
     le_bytes 4 (0x1058 :: u32) @ replicate 12 0 @ template_bytes demo_template"

definition dialog_pe :: pe_image where
  "dialog_pe = demo_pe\<lparr>sections := [\<lparr>sec_name = [], virtual_size = 0x1000, virtual_address = 0x1000, raw_size = 0x1000,
     raw_offset = 204, characteristics = 0, sec_data = Some 204\<rparr>], raw_data := dialog_file\<rparr>"

lemma dialog_pe_find: "pe_find_dialog dialog_pe 101 = Some (Some 292)"
  by code_simp

lemma dialog_pe_template: "data_at dialog_pe 292 (template_bytes demo_template)"
  unfolding data_at_iff by code_simp

lemma demo_template_ok: "template_ok demo_template"
  by (simp add: template_ok_def demo_template_def ok_button_def item_ok_def)

theorem dialog_parsed_witness:
  "wg_parse_dialog (mem_engine\<lparr>pe_img := Some dialog_pe\<rparr>) 0x10010 101 initial_dialogs =
     Some (initial_dialogs\<lparr>ctrls := [ctrl_of 0x10010 100 50 ok_button]\<rparr>) \<and>
   c_cls (ctrl_of 0x10010 100 50 ok_button) = 0x0080 \<and> ctrl_text (ctrl_of 0x10010 100 50 ok_button) = [0x47, 0x6F]"
proof -
  have e: "pe_img (mem_engine\<lparr>pe_img := Some dialog_pe\<rparr>) = Some dialog_pe" by simp
  have "[] = filter (\<lambda>c. c_hwnd c \<noteq> 0x10010) (ctrls initial_dialogs)" by (simp add: initial_dialogs_def)
  from dialog_parsed [OF e dialog_pe_find dialog_pe_template demo_template_ok this]
  have "wg_parse_dialog (mem_engine\<lparr>pe_img := Some dialog_pe\<rparr>) 0x10010 101 initial_dialogs =
     Some (initial_dialogs\<lparr>ctrls := [ctrl_of 0x10010 100 50 ok_button]\<rparr>)" by (simp add: demo_template_def)
  moreover have "c_cls (ctrl_of 0x10010 100 50 ok_button) = 0x0080" "ctrl_text (ctrl_of 0x10010 100 50 ok_button) = [0x47, 0x6F]"
    by code_simp+
  ultimately show ?thesis by blast
qed

text \<open>A modal dialog with the button, in the window of the drawing layer's example.\<close>

definition demo_painter :: painter where
  "demo_painter = \<lparr>p_text = \<lparr>text_out = (\<lambda>dc x y ws g. g), text_caption = (\<lambda>dc x y ws g. g),
       text_box = (\<lambda>dc x y w h ws g. g), text_width = (\<lambda>dc ws g. 0), line_height = (\<lambda>dc g. 12)\<rparr>,
     p_scale = (\<lambda>extent ext v. v), p_part = (\<lambda>w pos mx. 0), p_alloc = True\<rparr>"

definition tap_dialogs :: dialogs where
  "tap_dialogs = initial_dialogs\<lparr>ctrls := [ctrl_of WG_HWND_BASE 100 50 ok_button], dlg_active := True,
     dlg_hwnd := WG_HWND_BASE, dlg_proc := 0x402000\<rparr>"

theorem removal_moves_handles_witness:
  "\<exists>j. wg_find_ctrl WG_HWND_BASE 7 (wg_remove_ctrls 0x10099 (tap_dialogs\<lparr>ctrls := zero_ctrl\<lparr>c_hwnd := 0x10099\<rparr> # ctrls tap_dialogs\<rparr>)) = Some j \<and> j + 1 = 1"
proof -
  let ?ds = "tap_dialogs\<lparr>ctrls := zero_ctrl\<lparr>c_hwnd := 0x10099\<rparr> # ctrls tap_dialogs\<rparr>"
  have f: "wg_find_ctrl WG_HWND_BASE 7 ?ds = Some 1" by code_simp
  have ne: "0x10099 \<noteq> WG_HWND_BASE" by (simp add: WG_HWND_BASE_def)
  have "length (filter (\<lambda>c. c_hwnd c = 0x10099) (take 1 (ctrls ?ds))) = 1" by code_simp
  then show ?thesis using removal_moves_handles [OF f ne] by auto
qed

theorem item_text_roundtrip_witness:
  "\<exists>r ds' g' n b'.
     h_SetWindowTextW mem_api demo_painter [ucast (h_GetDlgItem [WG_HWND_BASE, 7] (tap_dialogs\<lparr>dlg_active := False\<rparr>)), 0x5000]
       (tap_dialogs\<lparr>dlg_active := False\<rparr>) initial_gdi call_vm = Some (r, ds', g') \<and>
     h_GetDlgItemTextW mem_api [WG_HWND_BASE, 7, 0x8000, 2] ds' call_vm = (n, b') \<and>
     n = 1 \<and> bytes_at (\<lambda>m. m) b' 0x8000 (wide_bytes [0x61, 0])"
proof -
  let ?ds = "tap_dialogs\<lparr>dlg_active := False\<rparr>"
  have f: "wg_find_ctrl WG_HWND_BASE 7 ?ds = Some 0" by code_simp
  have l: "length (ctrls ?ds) \<le> 160" by (simp add: tap_dialogs_def)
  have h: "wg_ctrl_from_handle (ucast (h_GetDlgItem [WG_HWND_BASE, 7] ?ds)) ?ds = Some 0" by code_simp
  obtain r ds' g' where put: "h_SetWindowTextW mem_api demo_painter [ucast (h_GetDlgItem [WG_HWND_BASE, 7] ?ds), 0x5000] ?ds
      initial_gdi call_vm = Some (r, ds', g')"
    by (simp add: h_SetWindowTextW_def h Let_def repaint_def upd_ctrl_def)
  obtain n b' where get: "h_GetDlgItemTextW mem_api [WG_HWND_BASE, 7, 0x8000, 2] ds' call_vm = (n, b')" by fastforce
  have s: "(0 :: u16) \<notin> set [0x61, 0x62]" "length [0x61, 0x62 :: u16] < 255" "(0x5000 :: u32) \<noteq> 0" "(0x8000 :: u32) \<noteq> 0" "(2 :: u32) \<noteq> 0"
    by simp_all
  from item_text_roundtrip [OF mem_flat call_vm_some f l call_vm_texts(1) s(1-3) put get s(4,5)] put get show ?thesis by auto
qed

theorem tap_enters_dlgproc_witness:
  "\<exists>g' i e' b'. wg_engine_hit_test demo_painter 1 33 tap_dialogs demo_gdi = Some (7, g') \<and>
     wg_engine_dialog_command mem_api 7 tap_dialogs (mem_engine\<lparr>estate := WG_ENGINE_PAUSED\<rparr>) (Some (mem_vm 0)) = (tap_dialogs, e', b') \<and>
     wg_blink_get_rip b' = 0x402000 \<and>
     read_words mem_api 0x10007FEC 5 5 b' = [0xC10000, WG_HWND_BASE, 0x0111, 7, ctrl_handle (Some i)]"
proof -
  have "map_option fst (wg_engine_hit_test demo_painter 1 33 tap_dialogs demo_gdi) = Some 7" by code_simp
  then obtain g' where h: "wg_engine_hit_test demo_painter 1 33 tap_dialogs demo_gdi = Some (7, g')" by auto
  let ?e = "mem_engine\<lparr>estate := WG_ENGINE_PAUSED\<rparr>"
  obtain ds' e' b' where c: "wg_engine_dialog_command mem_api 7 tap_dialogs ?e (Some (mem_vm 0)) = (ds', e', b')"
    by (rule prod_cases3)
  have s: "estate ?e = WG_ENGINE_PAUSED" "\<not> nsd_show_pause tap_dialogs" "dlg_proc tap_dialogs \<noteq> 0" "(7 :: u32) \<noteq> 0" "length (ctrls tap_dialogs) \<le> 160"
    by (simp_all add: tap_dialogs_def initial_dialogs_def)
  have p: "dlg_proc tap_dialogs = 0x402000" "dlg_hwnd tap_dialogs = WG_HWND_BASE" "(ucast WG_DLG_SENTINEL :: u32) = 0xC10000"
    by (simp_all add: tap_dialogs_def WG_DLG_SENTINEL_def)
  have sp: "(0x10007FEC :: u32) = ucast (wg_blink_get_reg (Some (mem_vm 0)) 4) - 20" by (simp add: mem_esp)
  from tap_enters_dlgproc [OF mem_flat option.distinct(2) h s(4,5,1-3) c sp] h c show ?thesis unfolding p by auto
qed

definition box_frame :: call_frame where
  "box_frame = \<lparr>is_32bit = True, frame_rsp = 0x10007000, ret_addr = 0x401234, fargs = [0, 101, 0, 0x402000, 9]\<rparr>"

lemma box_opens:
  "\<exists>e1 b1 ds1 g1. h_DialogBoxParamW mem_api box_frame ds initial_gdi mem_engine (Some (mem_vm 0)) = Some ((Handled, e1, b1), ds1, g1)"
proof -
  have "pe_img mem_engine = None" by (simp add: mem_engine_def demo_engine_def initial_engine_def)
  then show ?thesis
    by (simp add: h_DialogBoxParamW_def box_frame_def wg_parse_dialog_def Let_def split: prod.splits)
qed

theorem modal_returns_witness:
  "\<exists>e1 b1 ds1 g1 r e3 b3 ds3.
     h_DialogBoxParamW mem_api box_frame initial_dialogs initial_gdi mem_engine (Some (mem_vm 0)) = Some ((Handled, e1, b1), ds1, g1) \<and>
     h_EndDialog [0, 5] ds1 e1 (Some (mem_vm 0)) = ((r, e3, b3), ds3) \<and> wg_blink_get_rip b3 = 0x401234 \<and>
     wg_blink_get_reg b3 4 = 0x10007018 \<and> wg_blink_get_reg b3 0 = 5"
proof -
  obtain e1 b1 ds1 g1 where box: "h_DialogBoxParamW mem_api box_frame initial_dialogs initial_gdi mem_engine (Some (mem_vm 0)) =
      Some ((Handled, e1, b1), ds1, g1)" using box_opens by blast
  have f: "fargs box_frame ! 3 \<noteq> 0" "is_32bit box_frame" "ret_addr box_frame = 0x401234" "past_args box_frame 5 = 0x10007018"
    by (simp_all add: box_frame_def past_args_def ptr_size_def)
  obtain r e3 b3 ds3 where fin: "h_EndDialog [0, 5] ds1 e1 (Some (mem_vm 0)) = ((r, e3, b3), ds3)" by (metis prod.exhaust)
  from modal_returns [OF box f(1,2) rtranclp.rtrancl_refl option.distinct(2) fin] box fin show ?thesis unfolding f by auto
qed

theorem nested_dialog_stuck_witness:
  "\<exists>e1 b1 ds1 g1 r e3 b3 ds3.
     h_DialogBoxParamW mem_api box_frame tap_dialogs initial_gdi mem_engine (Some (mem_vm 0)) = Some ((Handled, e1, b1), ds1, g1) \<and>
     h_EndDialog [0, 5] ds1 e1 (Some (mem_vm 0)) = ((r, e3, b3), ds3) \<and> wg_blink_get_rip b3 = 0x401234 \<and>
     h_EndDialog [0, 6] ds3 e3 b3 = ((Ret 1, e3, b3), ds3)"
proof -
  obtain e1 b1 ds1 g1 where box: "h_DialogBoxParamW mem_api box_frame tap_dialogs initial_gdi mem_engine (Some (mem_vm 0)) =
      Some ((Handled, e1, b1), ds1, g1)" using box_opens by blast
  have f: "fargs box_frame ! 3 \<noteq> 0" "is_32bit box_frame" "ret_addr box_frame = 0x401234" "dlg_active tap_dialogs"
    by (simp_all add: box_frame_def tap_dialogs_def)
  obtain r e3 b3 ds3 where fin: "h_EndDialog [0, 5] ds1 e1 (Some (mem_vm 0)) = ((r, e3, b3), ds3)" by (metis prod.exhaust)
  from nested_dialog_stuck [OF f(4) box f(1,2) rtranclp.rtrancl_refl option.distinct(2) fin rtranclp.rtrancl_refl, of "[0, 6]" e3 b3] box fin
  show ?thesis unfolding f by auto
qed

end
