(* ===== verification/EnginePlugins.thy ===== *)
theory EnginePlugins
  imports EngineDialog
begin

text \<open>
  The NSIS plug-ins that \<open>Sources/Core/wg_engine.c\<close> emulates: the stack of strings of the installer in
  guest memory, the pages of nsDialogs, and nsProcess and nsExec. The functions of C's library that they
  use, \<open>strtol\<close>, \<open>strtoul\<close> and \<open>snprintf\<close> with \<open>%d\<close>, are written out.
\<close>

section \<open>Numbers\<close>

definition is_space :: "char \<Rightarrow> bool" where
  "is_space c \<longleftrightarrow> c = CHR '' '' \<or> (9 \<le> (of_char c :: nat) \<and> (of_char c :: nat) \<le> 13)"

definition digit_value :: "char \<Rightarrow> nat option" where
  "digit_value c =
     (let n = (of_char c :: nat)
      in if 48 \<le> n \<and> n \<le> 57 then Some (n - 48)
         else if 97 \<le> n \<and> n \<le> 122 then Some (n - 87)
         else if 65 \<le> n \<and> n \<le> 90 then Some (n - 55)
         else None)"

text \<open>The digits of a base that a string starts with, added to an accumulator.\<close>

fun digits_of :: "nat \<Rightarrow> nat \<Rightarrow> string \<Rightarrow> nat" where
  "digits_of radix acc [] = acc"
| "digits_of radix acc (c # cs) =
     (case digit_value c of
        None \<Rightarrow> acc
      | Some k \<Rightarrow> if k < radix then digits_of radix (acc * radix + k) cs else acc)"

text \<open>Base 0: a prefix says whether the number is hexadecimal or octal. Sign and magnitude.\<close>

definition magnitude :: "string \<Rightarrow> nat" where
  "magnitude s =
     (if s \<noteq> [] \<and> hd s = CHR ''0''
      then if 3 \<le> length s \<and> (s ! 1 = CHR ''x'' \<or> s ! 1 = CHR ''X'') \<and> (case digit_value (s ! 2) of None \<Rightarrow> False | Some k \<Rightarrow> k < 16)
           then digits_of 16 0 (drop 2 s) else digits_of 8 0 s
      else digits_of 10 0 s)"

definition signed_digits :: "string \<Rightarrow> bool \<times> nat" where
  "signed_digits s =
     (let s = dropWhile is_space s
      in if s \<noteq> [] \<and> hd s = CHR ''-'' then (True, magnitude (tl s))
         else if s \<noteq> [] \<and> hd s = CHR ''+'' then (False, magnitude (tl s))
         else (False, magnitude s))"

definition strtol :: "string \<Rightarrow> int" where
  "strtol s =
     (let (neg, n) = signed_digits s
      in if neg then max (- (2 ^ 63)) (- int n) else min (2 ^ 63 - 1) (int n))"

definition strtoul :: "string \<Rightarrow> u64" where
  "strtoul s =
     (let (neg, n) = signed_digits s
      in if 2 ^ 64 \<le> n then - 1 else if neg then - of_nat n else of_nat n)"

fun decimal :: "nat \<Rightarrow> string" where
  "decimal n = (if n < 10 then [char_of (48 + n)] else decimal (n div 10) @ [char_of (48 + n mod 10)])"

declare decimal.simps [simp del]

definition print_int :: "int \<Rightarrow> string" where
  "print_int v = (if v < 0 then CHR ''-'' # decimal (nat (- v)) else decimal (nat v))"

text \<open>Units that are cast to \<open>char\<close>, in a buffer of \<open>n\<close>: the string ends at the first whose low byte is 0.\<close>

definition low_chars :: "nat \<Rightarrow> u16 list \<Rightarrow> string" where
  "low_chars n ws = takeWhile (\<lambda>c. c \<noteq> CHR 0x00) (map (\<lambda>w. char_of (unat w mod 256)) (to_nul (take (n - 1) ws)))"

text \<open>The conversion of a \<open>long\<close> to an \<open>int\<close>.\<close>

definition to_int :: "int \<Rightarrow> int" where
  "to_int v = sint (of_int v :: u32)"

section \<open>The stack of the installer\<close>

text \<open>\<open>out\<close> is the caller's buffer, of \<open>outmax\<close> units; the result says whether there was a string.\<close>

definition nsis_pop :: "'m guest_api \<Rightarrow> u32 \<Rightarrow> int \<Rightarrow> u16 list \<Rightarrow> 'm blink \<Rightarrow> bool \<times> u16 list \<times> 'm blink" where
  "nsis_pop api topp ssize out b =
     (let head = read32 api (ucast topp) b; outmax = length out
      in if head = 0 then (False, if outmax \<noteq> 0 then out[0 := 0] else out, b)
         else let nxt = read32 api (ucast head) b;
                  n = ssize + 1; n = (if int outmax < n then int outmax else n); n = nat (if n < 1 then 1 else n);
                  got = u16s (snd (wg_blink_read_mem api b (ucast (head + 4)) (wide_bytes (take n out)) (2 * n)));
                  out = got @ drop n out;
                  out = (if outmax \<noteq> 0 then out[outmax - 1 := 0] else out)
              in (True, out, write32 api topp nxt b))"

definition nsis_pop_int :: "'m guest_api \<Rightarrow> u32 \<Rightarrow> int \<Rightarrow> 'm blink \<Rightarrow> int \<times> 'm blink" where
  "nsis_pop_int api topp ssize b =
     (let (_, out, b) = nsis_pop api topp ssize (replicate 64 0) b in (to_int (strtol (low_chars 64 out)), b))"

definition nsis_push_int :: "'m guest_api \<Rightarrow> u32 \<Rightarrow> int \<Rightarrow> int \<Rightarrow> engine \<Rightarrow> 'm blink \<Rightarrow> engine \<times> 'm blink" where
  "nsis_push_int api topp ssize v e b =
     (let ssize = (if ssize < 1 then 1024 else ssize);
          (node, e, b) = wg_guest_alloc api (4 + of_int (ssize + 1) * 2) e b
      in if node = 0 then (e, b)
         else let head = read32 api (ucast topp) b;
                  b = write32 api node head b;
                  b = write_bytes api (node + 4) (wide_bytes (wide_of (print_int v) @ [0])) b
              in (e, write32 api topp node b))"

section \<open>nsDialogs\<close>

text \<open>A coordinate: pixels, dialog units or a percentage; a negative one counts from the far edge.\<close>

definition nsd_coord :: "u16 list \<Rightarrow> int \<Rightarrow> int \<Rightarrow> int \<Rightarrow> int ub" where
  "nsd_coord s extent_px unit_num unit_den =
     (let a = low_chars 32 s;
          pct = (a \<noteq> [] \<and> last a = CHR ''%'');
          du = (a \<noteq> [] \<and> \<not> pct \<and> (last a = CHR ''u'' \<or> last a = CHR ''U''));
          v = strtol (if pct \<or> du then butlast a else a)
      in do {
        guard (pct \<longrightarrow> - (2 ^ 63) \<le> v * extent_px \<and> v * extent_px < 2 ^ 63);
        guard (du \<longrightarrow> - (2 ^ 63) \<le> v * unit_num \<and> v * unit_num < 2 ^ 63);
        let px = (if pct then to_int (v * extent_px sdiv 100) else if du then to_int (v * unit_num sdiv unit_den) else to_int v);
        if px < 0 then c_int (px + extent_px) else Some px
      })"

text \<open>The class of a control by its name, and whether it shows a bitmap.\<close>

definition nsd_class :: "u16 list \<Rightarrow> u32 \<Rightarrow> u16 \<times> bool" where
  "nsd_class cls16 sty =
     (let c = map tolower (low_chars 40 cls16)
      in if strstr c ''button'' then (0x0080, False)
         else if strstr c ''edit'' then (0x0081, False)
         else (0x0082, sty AND 0x0F = 0x0E))"

text \<open>The size of a window's client area, 0 when there is none.\<close>

definition client_dims :: "bool \<Rightarrow> u32 \<Rightarrow> gdi \<Rightarrow> ((int \<times> int) \<times> gdi) ub" where
  "client_dims ok hwnd g = do {
     (fb, g) \<leftarrow> client_of ok hwnd g;
     Some ((case fb of None \<Rightarrow> (0, 0) | Some i \<Rightarrow> (client_w (windows (wins g) ! i), client_h (windows (wins g) ! i))), g)
   }"

definition nsd_create ::
    "'m guest_api \<Rightarrow> painter \<Rightarrow> u32 \<Rightarrow> int \<Rightarrow> u32 \<Rightarrow> dialogs \<Rightarrow> gdi \<Rightarrow> engine \<Rightarrow> 'm blink \<Rightarrow>
     (u32 \<times> dialogs \<times> gdi \<times> engine \<times> 'm blink) ub" where
  "nsd_create api pt par ssize topp ds g e b = do {
     let (phid, b) = nsis_pop_int api topp ssize b;
     ((cw, ch), g) \<leftarrow> client_dims (p_alloc pt) par g;
     let r = wg_find_ctrl par (of_int phid) ds;
     let r = (if r = None then wg_find_ctrl par 1018 ds else r);
     let (px, py, pw, ph) =
       (case r of Some i \<Rightarrow> ctrl_rect pt cw ch (ctrls ds ! i)
        | None \<Rightarrow> if 0 < cw \<and> 0 < ch then (0, 0, cw, ch) else (0, 0, 480, 320));
     let (h, m) = wg_wm_create_window (new_page [] 0x50000000 px py pw ph par) (wins g);
     let hwnd = handle_of h;
     let (ds, g) = wg_retire_inner_page hwnd ds (g\<lparr>wins := m\<rparr>);
     let ds = ds\<lparr>nsd_page := hwnd, page_hwnd := hwnd\<rparr>;
     let (e, b) = nsis_push_int api topp ssize (sint hwnd) e b;
     Some (hwnd, ds, g, e, b)
   }"

text \<open>Buffers that are popped one after the other.\<close>

fun nsis_pops :: "'m guest_api \<Rightarrow> u32 \<Rightarrow> int \<Rightarrow> nat list \<Rightarrow> 'm blink \<Rightarrow> u16 list list \<times> 'm blink" where
  "nsis_pops api topp ssize [] b = ([], b)"
| "nsis_pops api topp ssize (n # ns) b =
     (let (_, out, b) = nsis_pop api topp ssize (replicate n 0) b; (outs, b) = nsis_pops api topp ssize ns b in (out # outs, b))"

definition nsd_create_control ::
    "'m guest_api \<Rightarrow> painter \<Rightarrow> int \<Rightarrow> u32 \<Rightarrow> dialogs \<Rightarrow> gdi \<Rightarrow> engine \<Rightarrow> 'm blink \<Rightarrow>
     (u32 \<times> dialogs \<times> gdi \<times> engine \<times> 'm blink) ub" where
  "nsd_create_control api pt ssize topp ds g e b = do {
     let (s, b) = nsis_pops api topp ssize [40, 24, 24, 24, 24, 24, 24, 256] b;
     let sty = ucast (strtoul (low_chars 24 (s ! 1)));
     ((cw, ch), g) \<leftarrow> client_dims (p_alloc pt) (nsd_page ds) g;
     x \<leftarrow> nsd_coord (s ! 3) cw 3 2;
     y \<leftarrow> nsd_coord (s ! 4) ch 13 8;
     w \<leftarrow> nsd_coord (s ! 5) cw 3 2;
     h \<leftarrow> nsd_coord (s ! 6) ch 13 8;
     let (cls, bmp) = nsd_class (s ! 0) sty;
     let ident = nsd_next_id ds;
     let before = length (ctrls ds);
     (ds, g) \<leftarrow> wg_register_child_control (p_alloc pt) (nsd_page ds) ident sty cls x y w h (s ! 7) (ds\<lparr>nsd_next_id := ident + 1\<rparr>) g;
     let (hwnd, ds) =
       (if before < length (ctrls ds)
        then (ctrl_handle (Some (length (ctrls ds) - 1)),
              if bmp then upd_ctrl (length (ctrls ds) - 1) (\<lambda>c. c\<lparr>c_is_bitmap := True\<rparr>) ds else ds)
        else (0, ds));
     let (e, b) = nsis_push_int api topp ssize (sint hwnd) e b;
     Some (hwnd, ds, g, e, b)
   }"

text \<open>The welcome picture goes to the bitmap controls of the page that have none. The results: whether one
  has a picture, whether there is one, and the leftmost of the other controls.\<close>

fun attach_pictures ::
    "(bitmaps \<Rightarrow> (u32 \<times> bitmaps) ub) \<Rightarrow> u32 \<Rightarrow> bool \<Rightarrow> bool \<Rightarrow> int \<Rightarrow> ctrl list \<Rightarrow> bitmaps \<Rightarrow>
     (bool \<times> bool \<times> int \<times> ctrl list \<times> bitmaps) ub" where
  "attach_pictures load page att has mn [] t = Some (att, has, mn, [], t)"
| "attach_pictures load page att has mn (c # cs) t = do {
     (att, has, mn, c, t) \<leftarrow>
       (if c_hwnd c \<noteq> page then Some (att, has, mn, c, t)
        else if c_is_bitmap c
        then if c_hbitmap c = 0
             then do { (hb, t) \<leftarrow> load t; Some (att \<or> hb \<noteq> 0, True, mn, if hb \<noteq> 0 then c\<lparr>c_hbitmap := hb\<rparr> else c, t) }
             else Some (True, True, mn, c, t)
        else Some (att, has, if sint (c_x c) < mn then sint (c_x c) else mn, c, t));
     (att, has, mn, cs, t) \<leftarrow> attach_pictures load page att has mn cs t;
     Some (att, has, mn, c # cs, t)
   }"

definition add_strip :: "painter \<Rightarrow> u32 \<Rightarrow> int \<Rightarrow> int \<Rightarrow> dialogs \<Rightarrow> gdi \<Rightarrow> (dialogs \<times> gdi) ub" where
  "add_strip pt hb mn ph ds g = do {
     let ident = nsd_next_id ds;
     let before = length (ctrls ds);
     (ds, g) \<leftarrow> wg_register_child_control (p_alloc pt) (nsd_page ds) ident 0x0E 0x0082 0 0 mn ph [] (ds\<lparr>nsd_next_id := ident + 1\<rparr>) g;
     Some (if before < length (ctrls ds)
           then upd_ctrl (length (ctrls ds) - 1) (\<lambda>c. c\<lparr>c_is_bitmap := True, c_hbitmap := hb\<rparr>) ds else ds, g)
   }"

definition show_pictures ::
    "painter \<Rightarrow> (bitmaps \<Rightarrow> (u32 \<times> bitmaps) ub) \<Rightarrow> dialogs \<Rightarrow> gdi \<Rightarrow> (dialogs \<times> gdi) ub" where
  "show_pictures pt load ds g = do {
     ((pw, ph), g) \<leftarrow> client_dims (p_alloc pt) (nsd_page ds) g;
     (att, has, mn, cs, t) \<leftarrow> attach_pictures load (nsd_page ds) False False pw (ctrls ds) (bits g);
     let ds = ds\<lparr>ctrls := cs\<rparr>;
     let g = g\<lparr>bits := t\<rparr>;
     if \<not> att \<and> \<not> has \<and> 40 \<le> mn \<and> mn < pw \<and> 0 < ph
     then do {
       (hb, t) \<leftarrow> load (bits g);
       let g = g\<lparr>bits := t\<rparr>;
       if hb \<noteq> 0 then add_strip pt hb mn ph ds g else Some (ds, g)
     }
     else Some (ds, g)
   }"

definition nsd_show :: "painter \<Rightarrow> bool \<Rightarrow> files \<Rightarrow> dialogs \<Rightarrow> gdi \<Rightarrow> engine \<Rightarrow> (dialogs \<times> gdi \<times> engine) ub" where
  "nsd_show pt rok fs ds g e = do {
     (ds, g) \<leftarrow>
       (case wg_files_wizard_bmp fs of
          Some p \<Rightarrow>
            if nsd_page ds \<noteq> 0
            then show_pictures pt (wg_bitmap_load_file (p_alloc pt) rok (p_alloc pt) (contents (disk fs)) (Some p)) ds g
            else Some (ds, g)
        | None \<Rightarrow> Some (ds, g));
     g \<leftarrow> (if nsd_page ds \<noteq> 0 then wg_render_dialog pt (nsd_page ds) ds g else Some g);
     Some (ds\<lparr>nsd_show_pause := True\<rparr>, g, e\<lparr>estate := WG_ENGINE_PAUSED\<rparr>)
   }"

definition handle_nsdialogs ::
    "'m guest_api \<Rightarrow> painter \<Rightarrow> bool \<Rightarrow> string \<Rightarrow> u32 list \<Rightarrow> files \<Rightarrow> dialogs \<Rightarrow> gdi \<Rightarrow> engine \<Rightarrow> 'm blink \<Rightarrow>
     (u32 \<times> dialogs \<times> gdi \<times> engine \<times> 'm blink) ub" where
  "handle_nsdialogs api pt rok exp args fs ds g e b =
     (let ssize = sint (args ! 1); ssize = (if ssize \<le> 0 \<or> 8192 < ssize then 1024 else ssize)
      in if strcaseeq exp ''Create'' then nsd_create api pt (args ! 0) ssize (args ! 3) ds g e b
         else if strcaseeq exp ''CreateControl'' \<or> strcaseeq exp ''CreateItem''
         then nsd_create_control api pt ssize (args ! 3) ds g e b
         else if strcaseeq exp ''Show''
         then map_option (\<lambda>(ds, g, e). (0, ds, g, e, b)) (nsd_show pt rok fs ds g e)
         else Some (0, ds, g, e, b))"

section \<open>nsProcess and nsExec\<close>

text \<open>The string on top of the stack is overwritten.\<close>

definition replace_top :: "'m guest_api \<Rightarrow> u32 \<Rightarrow> string \<Rightarrow> 'm blink \<Rightarrow> 'm blink" where
  "replace_top api topp s b =
     (let head = (if topp \<noteq> 0 then read32 api (ucast topp) b else 0)
      in if head \<noteq> 0 then write_bytes api (head + 4) (wide_bytes (wide_of s @ [0])) b else b)"

definition h_nsProcess :: "'m guest_api \<Rightarrow> string \<Rightarrow> u32 list \<Rightarrow> 'm blink \<Rightarrow> u64 \<times> 'm blink" where
  "h_nsProcess api fn args b = (0, replace_top api (args ! 3) (if strstr fn ''FindProcess'' then ''603'' else ''0'') b)"

definition h_nsExec :: "'m guest_api \<Rightarrow> u32 list \<Rightarrow> 'm blink \<Rightarrow> u64 \<times> 'm blink" where
  "h_nsExec api args b = (0, replace_top api (args ! 3) ''0'' b)"

end
