(* ===== verification/EngineSystem.thy ===== *)
theory EngineSystem
  imports EnginePlugins EngineSync
begin

text \<open>
  The Win32 calls of \<open>handle_blink_thunk\<close> in \<open>Sources/Core/wg_engine.c\<close> that tell a program about the
  system: exit, versions, the processor, the last error, random numbers, classes and metrics, the processes that it
  starts, the folders of the shell, the COM objects for shortcuts, and the clock. \<open>dflt\<close> is the result that
  the table of the functions has. What the host's clock and generator give is an argument.
\<close>

section \<open>State\<close>

text \<open>The static variables of these calls; the COM handles are those of the six method stubs and of the two objects.\<close>

record sys_state =
  com_qi :: u32
  com_a1 :: u32
  com_a2 :: u32
  com_a3 :: u32
  com_a4 :: u32
  com_a5 :: u32
  com_shelllink :: u32
  com_persistfile :: u32
  pending_exec :: string
  next_atom :: u32
  sys_tick :: u32

definition initial_sys :: sys_state where
  "initial_sys = \<lparr>com_qi = 0, com_a1 = 0, com_a2 = 0, com_a3 = 0, com_a4 = 0, com_a5 = 0,
     com_shelllink = 0, com_persistfile = 0, pending_exec = [], next_atom = 0xC000, sys_tick = 0\<rparr>"

text \<open>Fields of a structure that is filled with zeros first.\<close>

definition put_fields :: "nat \<Rightarrow> (nat \<times> u8 list) list \<Rightarrow> u8 list" where
  "put_fields n fs = fold (\<lambda>(off, bs) buf. take off buf @ bs @ drop (off + length bs) buf) fs (replicate n 0)"

section \<open>The end of the program\<close>

definition h_exit :: "'m blink \<Rightarrow> 'm blink" where
  "h_exit b = wg_blink_set_rip b 0"

definition h_ExitProcess :: "call_frame \<Rightarrow> 'm blink \<Rightarrow> 'm blink" where
  "h_ExitProcess f b = wg_blink_set_rip (wg_blink_set_reg b 4 (frame_rsp f + ptr_size f)) 0"

definition h_TerminateProcess :: "'m blink \<Rightarrow> 'm blink" where
  "h_TerminateProcess b = wg_blink_set_rip b 0"

definition exit_call :: "string \<Rightarrow> call_frame \<Rightarrow> 'm blink \<Rightarrow> 'm blink option" where
  "exit_call fn f b =
     (if fn \<in> set [''exit'', ''_exit'', ''_cexit'', ''_c_exit'', ''quick_exit'', ''_o_exit''] then Some (h_exit b)
      else if fn = ''ExitProcess'' then Some (h_ExitProcess f b)
      else if fn = ''TerminateProcess'' then Some (h_TerminateProcess b)
      else None)"

section \<open>Descriptions\<close>

definition h_GetStartupInfo :: "'m guest_api \<Rightarrow> u32 list \<Rightarrow> 'm blink \<Rightarrow> u64 \<times> 'm blink" where
  "h_GetStartupInfo api args b =
     (0, if args ! 0 \<noteq> 0 then write_bytes api (args ! 0) (put_fields 68 [(0, le_bytes 4 (68 :: u32))]) b else b)"

definition h_GetVersionEx :: "'m guest_api \<Rightarrow> u32 list \<Rightarrow> 'm blink \<Rightarrow> u64 \<times> 'm blink" where
  "h_GetVersionEx api args b =
     (1, if args ! 0 \<noteq> 0
         then write32 api (args ! 0 + 20) 0 (write32 api (args ! 0 + 16) 2 (write32 api (args ! 0 + 12) 19045
           (write32 api (args ! 0 + 8) 0 (write32 api (args ! 0 + 4) 10 b)))) else b)"

definition h_GetVersion :: u64 where
  "h_GetVersion = 0x00000A00"

definition h_GetSystemInfo :: "'m guest_api \<Rightarrow> u32 list \<Rightarrow> 'm blink \<Rightarrow> u64 \<times> 'm blink" where
  "h_GetSystemInfo api args b =
     (0, if args ! 0 \<noteq> 0
         then write_bytes api (args ! 0) (put_fields 36 [(4, le_bytes 4 (4096 :: u32)), (8, le_bytes 4 (0x00010000 :: u32)),
           (12, le_bytes 4 (0x7FFE0000 :: u32)), (16, le_bytes 4 (1 :: u32)), (20, le_bytes 4 (1 :: u32)), (24, le_bytes 4 (586 :: u32)),
           (28, le_bytes 4 (0x00010000 :: u32)), (32, le_bytes 2 (6 :: u16))]) b else b)"

definition class_metrics :: "string \<Rightarrow> u32 list \<Rightarrow> u64 option" where
  "class_metrics fn args =
     (if fn = ''RegisterClassW'' then Some 0xC001
      else if fn = ''GetSystemMetrics'' then Some (if args ! 0 = 0 then 800 else if args ! 0 = 1 then 600 else 0)
      else if fn = ''GetSysColor'' then Some 0x00F0F0F0
      else if fn = ''GetDeviceCaps'' then Some 96
      else None)"

text \<open>Atoms of classes, and calls with constant answers.\<close>

definition package_call :: "'m guest_api \<Rightarrow> string \<Rightarrow> u32 list \<Rightarrow> sys_state \<Rightarrow> 'm blink \<Rightarrow> (u64 \<times> sys_state \<times> 'm blink) option" where
  "package_call api fn args s b =
     (if fn \<in> set [''RegisterClassExW'', ''RegisterClassExA'', ''RegisterClassA'']
        then Some (ucast (next_atom s), s\<lparr>next_atom := next_atom s + 1\<rparr>, b)
      else if fn = ''AppPolicyGetProcessTerminationMethod''
        then Some (0, s, if args ! 1 \<noteq> 0 then write32 api (args ! 1) 0 b else b)
      else if fn = ''GetCurrentPackageId'' then Some (15700, s, b)
      else if fn \<in> set [''IsUserAnAdmin'', ''IsWindowEnabled'', ''IsWindowVisible''] then Some (1, s, b)
      else if fn = ''IsWindow'' then Some (if args ! 0 \<noteq> 0 then 1 else 0, s, b)
      else None)"

section \<open>The last error, modules\<close>

definition error_call ::
    "'m guest_api \<Rightarrow> string \<Rightarrow> u64 \<Rightarrow> u32 list \<Rightarrow> engine \<Rightarrow> 'm blink \<Rightarrow> (u64 \<times> engine \<times> 'm blink) option" where
  "error_call api fn dflt args e b =
     (if fn = ''GetLastError'' then Some (ucast (last_error e), e, b)
      else if fn = ''SetLastError'' then Some (dflt, e\<lparr>last_error := args ! 0\<rparr>, b)
      else if fn = ''GetEnvironmentVariableW'' \<or> fn = ''GetEnvironmentVariableA'' then Some (0, e\<lparr>last_error := 203\<rparr>, b)
      else if fn = ''GetModuleHandleExW'' \<or> fn = ''GetModuleHandleExA''
        then Some (1, e, if args ! 2 \<noteq> 0 then write32 api (args ! 2) (if args ! 1 = 0 then main_base e else 0xBFFF0000) b else b)
      else None)"

text \<open>\<open>RtlUnwind\<close> sets the head of the handler chain and ends the exception.\<close>

definition h_RtlUnwind :: "'m guest_api \<Rightarrow> u32 list \<Rightarrow> engine \<Rightarrow> 'm blink \<Rightarrow> u64 \<times> engine \<times> 'm blink" where
  "h_RtlUnwind api args e b =
     (ucast (args ! 3), e\<lparr>seh := (seh e)\<lparr>seh_active := False, seh_depth := 0\<rparr>\<rparr>,
      if 0x1000 < args ! 0 \<and> args ! 0 < 0xFFFFFFFE then write32 api (main_teb e) (args ! 0) b else b)"

text \<open>Before there is a thread, the first one answers.\<close>

definition h_GetCurrentThreadId :: "engine \<Rightarrow> u64" where
  "h_GetCurrentThreadId e = (let t = wg_sched_current_tid (sched e) in if t = 0 then 1 else ucast t)"

section \<open>Random numbers\<close>

lemma chunk_step:
  fixes i len :: u32
  assumes "i < len" and "n = (if len - i < 512 then len - i else 512)"
  shows "unat n = min (unat len - unat i) 512" and "unat (i + n) = unat i + unat n" and "unat i < unat len"
proof -
  have d: "unat (len - i) = unat len - unat i" using assms(1) by (simp add: unat_sub_if_size word_less_nat_alt)
  then show n: "unat n = min (unat len - unat i) 512" using assms(2) by (auto simp: word_less_nat_alt min_def)
  show l: "unat i < unat len" using assms(1) by (simp add: word_less_nat_alt)
  have "unat len < 2 ^ 32" using unsigned_less [of len] by simp
  then show "unat (i + n) = unat i + unat n" using n l by (subst unat_add) auto
qed

text \<open>\<open>rnd k n\<close> are the \<open>n\<close> bytes of the \<open>k\<close>th call of the host's generator.\<close>

function fill_chunks ::
    "'m guest_api \<Rightarrow> (nat \<Rightarrow> nat \<Rightarrow> u8 list) \<Rightarrow> nat \<Rightarrow> u32 \<Rightarrow> u32 \<Rightarrow> u32 \<Rightarrow> 'm blink \<Rightarrow> 'm blink" where
  "fill_chunks api rnd k a len i b =
     (if i < len
      then let n = (if len - i < 512 then len - i else 512)
           in fill_chunks api rnd (Suc k) a len (i + n) (write_bytes api (a + i) (rnd k (unat n)) b)
      else b)"
  by pat_completeness auto

termination
proof (relation "measure (\<lambda>(_, _, _, _, len, i, _). unat len - unat i)")
  fix len i n :: u32
  assume i: "i < len" and n: "n = (if len - i < 512 then len - i else 512)"
  from chunk_step [OF i n] show
    "((api, rnd, Suc k, a, len, i + n, write_bytes api (a + i) (rnd k (unat n)) b), api, rnd, k, a, len, i, b)
       \<in> measure (\<lambda>(_, _, _, _, len, i, _). unat len - unat i)" for api rnd k a b
    by simp
qed simp

declare fill_chunks.simps [simp del]

definition wg_fill_random :: "'m guest_api \<Rightarrow> (nat \<Rightarrow> nat \<Rightarrow> u8 list) \<Rightarrow> u32 \<Rightarrow> u32 \<Rightarrow> 'm blink \<Rightarrow> 'm blink" where
  "wg_fill_random api rnd a len b = (if a = 0 \<or> len = 0 then b else fill_chunks api rnd 0 a len 0 b)"

definition random_call ::
    "'m guest_api \<Rightarrow> (nat \<Rightarrow> nat \<Rightarrow> u8 list) \<Rightarrow> string \<Rightarrow> u32 list \<Rightarrow> 'm blink \<Rightarrow> (u64 \<times> 'm blink) option" where
  "random_call api rnd fn args b =
     (if fn \<in> set [''SystemFunction036'', ''ProcessPrng'', ''RtlGenRandom''] then Some (1, wg_fill_random api rnd (args ! 0) (args ! 1) b)
      else if fn = ''BCryptGenRandom'' then Some (0, wg_fill_random api rnd (args ! 1) (args ! 2) b)
      else if fn = ''CryptAcquireContextW'' \<or> fn = ''CryptAcquireContextA''
        then Some (1, if args ! 0 \<noteq> 0 then write32 api (args ! 0) 0x43500001 b else b)
      else if fn = ''CryptGenRandom'' then Some (1, wg_fill_random api rnd (args ! 2) (args ! 1) b)
      else if fn = ''CryptReleaseContext'' then Some (1, b)
      else None)"

section \<open>Processes\<close>

text \<open>The path of the program in a command line: up to the closing quote or the end of \<open>steam.exe\<close>.\<close>

fun launch_path :: "string \<Rightarrow> string \<Rightarrow> string" where
  "launch_path acc [] = acc"
| "launch_path acc (c # cs) =
     (if c = CHR 0x22 \<or> 511 \<le> length acc then acc
      else let acc = acc @ [c]
           in if 9 \<le> length acc \<and> strcaseeq (drop (length acc - 9) acc) ''steam.exe'' then acc else launch_path acc cs)"

definition queue_launch :: "string \<Rightarrow> files \<Rightarrow> sys_state \<Rightarrow> files \<times> sys_state" where
  "queue_launch cl fs s =
     (let low = map tolower cl
      in if strstr low ''steam.exe'' \<and> \<not> strstr low ''steamservice''
         then let p = (if cl \<noteq> [] \<and> hd cl = CHR 0x22 then tl cl else cl);
                  (real_path, fs) = wg_files_map_path (launch_path [] p) fs
              in (fs, s\<lparr>pending_exec := take 1023 real_path\<rparr>)
         else (fs, s))"

definition h_CreateProcess ::
    "'m guest_api \<Rightarrow> u32 list \<Rightarrow> files \<Rightarrow> sys_state \<Rightarrow> 'm blink \<Rightarrow> u64 \<times> files \<times> sys_state \<times> 'm blink" where
  "h_CreateProcess api args fs s b =
     (let b = (if args ! 9 \<noteq> 0
               then write_bytes api (args ! 9) (concat (map (le_bytes 4) [0x00007200, 0x00007201, 0x00001200, 0x00001201 :: u32])) b else b);
          p = (if args ! 1 \<noteq> 0 then args ! 1 else args ! 0);
          (fs, s) = queue_launch (if p \<noteq> 0 then read_wstr api p 511 b else []) fs s
      in (1, fs, s, b))"

definition wg_engine_take_pending_exec :: "sys_state \<Rightarrow> string option \<times> sys_state" where
  "wg_engine_take_pending_exec s =
     (if pending_exec s = [] then (None, s) else (Some (take 1023 (pending_exec s)), s\<lparr>pending_exec := []\<rparr>))"

definition process_call :: "'m guest_api \<Rightarrow> string \<Rightarrow> u32 list \<Rightarrow> 'm blink \<Rightarrow> (u64 \<times> 'm blink) option" where
  "process_call api fn args b =
     (if fn = ''CreatePipe''
        then let b = (if args ! 0 \<noteq> 0 then write32 api (args ! 0) 0x00007300 b else b)
             in Some (1, if args ! 1 \<noteq> 0 then write32 api (args ! 1) 0x00007301 b else b)
      else if fn = ''GetExitCodeProcess'' then Some (1, if args ! 1 \<noteq> 0 then write32 api (args ! 1) 0 b else b)
      else if fn = ''PeekNamedPipe''
        then let b = (if args ! 3 \<noteq> 0 then write32 api (args ! 3) 0 b else b);
                 b = (if args ! 4 \<noteq> 0 then write32 api (args ! 4) 0 b else b)
             in Some (1, if args ! 5 \<noteq> 0 then write32 api (args ! 5) 0 b else b)
      else None)"

section \<open>The shell\<close>

text \<open>A path of the bottle, with its separators.\<close>

definition win_path :: "string list \<Rightarrow> string" where
  "win_path ps = ''C:'' @ concat (map (\<lambda>p. backslash # p) ps)"

definition folder_path :: "u32 \<Rightarrow> string" where
  "folder_path csidl =
     (if csidl = 0x00 \<or> csidl = 0x10 then win_path [''users'', ''steamuser'', ''Desktop'']
      else if csidl = 0x02 then win_path [''users'', ''steamuser'', ''Start Menu'', ''Programs'']
      else if csidl = 0x0B then win_path [''users'', ''steamuser'', ''Start Menu'']
      else if csidl = 0x17 then win_path [''ProgramData'', ''Microsoft'', ''Windows'', ''Start Menu'', ''Programs'']
      else if csidl = 0x05 then win_path [''users'', ''steamuser'', ''Documents'']
      else if csidl = 0x1A \<or> csidl = 0x23 then win_path [''users'', ''steamuser'', ''AppData'', ''Roaming'']
      else if csidl = 0x1C then win_path [''users'', ''steamuser'', ''AppData'', ''Local'']
      else if csidl = 0x24 then win_path [''Windows'']
      else if csidl = 0x25 then win_path [''Windows'', ''System32'']
      else if csidl = 0x26 then win_path [''Program Files'']
      else if csidl = 0x2A then win_path [''Program Files (x86)'']
      else win_path [''users'', ''steamuser''])"

definition h_SHGetFolderPathW :: "'m guest_api \<Rightarrow> u32 list \<Rightarrow> 'm blink \<Rightarrow> u64 \<times> 'm blink" where
  "h_SHGetFolderPathW api args b =
     (0, if args ! 4 \<noteq> 0
         then write_bytes api (args ! 4) (wide_bytes (wide_of (take 259 (folder_path (args ! 1 AND 0xFF))) @ [0])) b else b)"

section \<open>The objects for shortcuts\<close>

text \<open>The stubs of the methods, by their numbers of arguments; \<open>QueryInterface\<close> has its own.\<close>

definition register_methods :: "sys_state \<Rightarrow> mapper \<Rightarrow> sys_state \<times> mapper" where
  "register_methods s m =
     (if com_qi s \<noteq> 0 then (s, m)
      else let (q, m) = wg_dll_mapper_register m ''COM'' ''__comQI'' None 3;
               (a1, m) = wg_dll_mapper_register m ''COM'' ''__comA1'' None 1;
               (a2, m) = wg_dll_mapper_register m ''COM'' ''__comA2'' None 2;
               (a3, m) = wg_dll_mapper_register m ''COM'' ''__comA3'' None 3;
               (a4, m) = wg_dll_mapper_register m ''COM'' ''__comA4'' None 4;
               (a5, m) = wg_dll_mapper_register m ''COM'' ''__comA5'' None 5
           in (s\<lparr>com_qi := ucast q, com_a1 := ucast a1, com_a2 := ucast a2, com_a3 := ucast a3,
                 com_a4 := ucast a4, com_a5 := ucast a5\<rparr>, m))"

definition shell_link_vtable :: "sys_state \<Rightarrow> u32 list" where
  "shell_link_vtable s =
     [com_qi s, com_a1 s, com_a1 s, com_a5 s, com_a2 s, com_a2 s, com_a3 s, com_a2 s, com_a3 s, com_a2 s,
      com_a3 s, com_a2 s, com_a2 s, com_a2 s, com_a2 s, com_a2 s, com_a4 s, com_a3 s, com_a3 s, com_a3 s, com_a2 s]"

definition persist_file_vtable :: "sys_state \<Rightarrow> u32 list" where
  "persist_file_vtable s =
     [com_qi s, com_a1 s, com_a1 s, com_a2 s, com_a1 s, com_a3 s, com_a3 s, com_a2 s, com_a2 s]"

definition wg_build_fake_com ::
    "'m guest_api \<Rightarrow> sys_state \<Rightarrow> mapper \<Rightarrow> engine \<Rightarrow> 'm blink \<Rightarrow> sys_state \<times> mapper \<times> engine \<times> 'm blink" where
  "wg_build_fake_com api s m e b =
     (let (s, m) = register_methods s m
      in if com_shelllink s \<noteq> 0 then (s, m, e, b)
         else let sl = shell_link_vtable s; pf = persist_file_vtable s;
                  (slv, e, b) = wg_guest_alloc api 84 e b;
                  (pfv, e, b) = wg_guest_alloc api 36 e b;
                  (link, e, b) = wg_guest_alloc api 8 e b;
                  (pers, e, b) = wg_guest_alloc api 8 e b;
                  b = write_bytes api slv (concat (map (le_bytes 4) sl)) b;
                  b = write_bytes api pfv (concat (map (le_bytes 4) pf)) b;
                  b = write32 api link slv b;
                  b = write32 api pers pfv b
              in (s\<lparr>com_shelllink := link, com_persistfile := pers\<rparr>, m, e, b))"

definition h_CoCreateInstance ::
    "'m guest_api \<Rightarrow> u32 list \<Rightarrow> sys_state \<Rightarrow> mapper \<Rightarrow> engine \<Rightarrow> 'm blink \<Rightarrow> u64 \<times> sys_state \<times> mapper \<times> engine \<times> 'm blink" where
  "h_CoCreateInstance api args s m e b =
     (let (s, m, e, b) = wg_build_fake_com api s m e b;
          b = (if args ! 4 \<noteq> 0 then write32 api (args ! 4) (com_shelllink s) b else b)
      in (if com_shelllink s \<noteq> 0 then 0 else 0x80004002, s, m, e\<lparr>last_error := 0\<rparr>, b))"

definition h_comQI :: "'m guest_api \<Rightarrow> u32 list \<Rightarrow> sys_state \<Rightarrow> 'm blink \<Rightarrow> u64 \<times> 'm blink" where
  "h_comQI api args s b = (0, if args ! 2 \<noteq> 0 then write32 api (args ! 2) (com_persistfile s) b else b)"

section \<open>The clock\<close>

text \<open>The time of the host in seconds since 1970, which seeds the ticks.\<close>

definition h_GetTickCount :: "int \<Rightarrow> sys_state \<Rightarrow> u64 \<times> sys_state" where
  "h_GetTickCount now s =
     (let t = (if sys_tick s = 0 then of_int (now * 1000) OR 1 else sys_tick s) in (ucast t, s\<lparr>sys_tick := t + 16\<rparr>))"

definition h_GetSystemTimeAsFileTime :: "'m guest_api \<Rightarrow> int \<times> int \<Rightarrow> u32 list \<Rightarrow> 'm blink \<Rightarrow> u64 \<times> 'm blink" where
  "h_GetSystemTimeAsFileTime api ts args b =
     (0, if args ! 0 \<noteq> 0
         then write_bytes api (args ! 0)
                (le_bytes 8 (of_int (fst ts) * 10000000 + (of_int (snd ts) :: u64) div 100 + 116444736000000000)) b else b)"

text \<open>The broken-down time that \<open>gmtime\<close> or \<open>localtime\<close> gives.\<close>

record c_tm =
  tm_year :: int
  tm_mon :: int
  tm_wday :: int
  tm_mday :: int
  tm_hour :: int
  tm_min :: int
  tm_sec :: int

definition h_GetSystemTime :: "'m guest_api \<Rightarrow> c_tm \<Rightarrow> u32 list \<Rightarrow> 'm blink \<Rightarrow> u64 \<times> 'm blink" where
  "h_GetSystemTime api tm args b =
     (0, if args ! 0 \<noteq> 0
         then write_bytes api (args ! 0) (wide_bytes (map of_int
                [1900 + tm_year tm, 1 + tm_mon tm, tm_wday tm, tm_mday tm, tm_hour tm, tm_min tm, tm_sec tm, 0])) b else b)"

section \<open>The dispatch\<close>

text \<open>What the host gives: bytes of the generator, seconds and nanoseconds, the broken-down times.\<close>

record host_clock =
  hc_random :: "nat \<Rightarrow> nat \<Rightarrow> u8 list"
  hc_time :: "int \<times> int"
  hc_gm :: c_tm
  hc_local :: c_tm

text \<open>The branches that return to the guest with a result; \<open>None\<close> for a name of another branch.\<close>

definition system_call ::
    "'m guest_api \<Rightarrow> host_clock \<Rightarrow> u64 \<Rightarrow> string \<Rightarrow> u32 list \<Rightarrow> engine \<Rightarrow> files \<Rightarrow> sys_state \<Rightarrow> mapper \<Rightarrow> 'm blink \<Rightarrow>
     (u64 \<times> engine \<times> files \<times> sys_state \<times> mapper \<times> 'm blink) option" where
  "system_call api hc dflt fn args e fs s m b =
     (let only = (\<lambda>(r, b). Some (r, e, fs, s, m, b)) in
      if fn = ''GetStartupInfoW'' \<or> fn = ''GetStartupInfoA'' then only (h_GetStartupInfo api args b)
      else if strstr fn ''FindProcess'' \<or> strstr fn ''KillProcess'' then only (h_nsProcess api fn args b)
      else if fn \<in> set [''Exec'', ''ExecToLog'', ''ExecToStack''] then only (h_nsExec api args b)
      else if fn = ''GetVersionExW'' \<or> fn = ''GetVersionExA'' then only (h_GetVersionEx api args b)
      else if fn = ''GetVersion'' then only (h_GetVersion, b)
      else if fn = ''GetSystemInfo'' \<or> fn = ''GetNativeSystemInfo'' then only (h_GetSystemInfo api args b)
      else case class_metrics fn args of Some r \<Rightarrow> only (r, b)
      | None \<Rightarrow>
          if fn = ''RtlUnwind'' then (let (r, e, b) = h_RtlUnwind api args e b in Some (r, e, fs, s, m, b))
          else case error_call api fn dflt args e b of Some (r, e, b) \<Rightarrow> Some (r, e, fs, s, m, b)
          | None \<Rightarrow> (case random_call api (hc_random hc) fn args b of Some x \<Rightarrow> only x
          | None \<Rightarrow> (case package_call api fn args s b of Some (r, s, b) \<Rightarrow> Some (r, e, fs, s, m, b)
          | None \<Rightarrow>
              if fn = ''CreateProcessW'' \<or> fn = ''CreateProcessA''
                then (let (r, fs, s, b) = h_CreateProcess api args fs s b in Some (r, e, fs, s, m, b))
              else case process_call api fn args b of Some x \<Rightarrow> only x
              | None \<Rightarrow>
                  if fn = ''SHGetFolderPathW'' then only (h_SHGetFolderPathW api args b)
                  else if fn = ''CoCreateInstance''
                    then (let (r, s, m, e, b) = h_CoCreateInstance api args s m e b in Some (r, e, fs, s, m, b))
                  else if fn = ''__comQI'' then only (h_comQI api args s b)
                  else if fn = ''GetTickCount'' then (let (r, s) = h_GetTickCount (fst (hc_time hc)) s in Some (r, e, fs, s, m, b))
                  else if fn = ''GetSystemTimeAsFileTime'' \<or> fn = ''GetSystemTimePreciseAsFileTime''
                    then only (h_GetSystemTimeAsFileTime api (hc_time hc) args b)
                  else if fn = ''GetSystemTime'' then only (h_GetSystemTime api (hc_gm hc) args b)
                  else if fn = ''GetLocalTime'' then only (h_GetSystemTime api (hc_local hc) args b)
                  else if fn = ''GetCurrentThreadId'' then only (h_GetCurrentThreadId e, b)
                  else None)))"

end
