(* ===== verification/EngineNet.thy ===== *)
theory EngineNet
  imports EngineSystem
begin

text \<open>
  The branches of \<open>handle_blink_thunk\<close> in \<open>Sources/Core/wg_engine.c\<close> for the network libraries: the names
  behind the ordinals of WS2\_32, the extension functions, the completions of overlapped calls, WININET on
  top of WINHTTP, and the network adapters. The handlers of \<open>wg_winsock.c\<close>, \<open>wg_winhttp.c\<close> and
  \<open>wg_schannel.c\<close>, which call the host's network, are arguments with a state of their own: they give None for a function they do not
  know.
\<close>

section \<open>Ordinals\<close>

definition atoi :: "string \<Rightarrow> int" where
  "atoi s =
     (let s = dropWhile is_space s
      in if s \<noteq> [] \<and> hd s = CHR ''-'' then - int (digits_of 10 0 (tl s))
         else if s \<noteq> [] \<and> hd s = CHR ''+'' then int (digits_of 10 0 (tl s))
         else int (digits_of 10 0 s))"

definition ws_ordinals :: "(int \<times> string) list" where
  "ws_ordinals = [(1, ''accept''), (2, ''bind''), (3, ''closesocket''), (4, ''connect''), (5, ''getpeername''), (6, ''getsockname''),
     (7, ''getsockopt''), (8, ''htonl''), (9, ''htons''), (10, ''ioctlsocket''), (11, ''inet_addr''), (12, ''inet_ntoa''), (13, ''listen''),
     (14, ''ntohl''), (15, ''ntohs''), (16, ''recv''), (17, ''recvfrom''), (18, ''select''), (19, ''send''), (20, ''sendto''),
     (21, ''setsockopt''), (22, ''shutdown''), (23, ''socket''), (52, ''gethostbyname''), (57, ''gethostname''),
     (111, ''WSAGetLastError''), (112, ''WSASetLastError''), (151, ''__WSAFDIsSet''), (115, ''WSAStartup''), (116, ''WSACleanup''),
     (1142, ''WSAStartup'')]"

definition ws_name :: "string \<Rightarrow> string" where
  "ws_name fn =
     (if take 8 fn = ''Ordinal_''
      then (case map_of ws_ordinals (atoi (drop 8 fn)) of None \<Rightarrow> fn | Some n \<Rightarrow> n)
      else fn)"

section \<open>Extension functions\<close>

definition CONNECTEX_GUID :: "u8 list" where
  "CONNECTEX_GUID = [0xb9, 0x07, 0xa2, 0x25, 0xf3, 0xdd, 0x60, 0x46, 0x8e, 0xe9, 0x76, 0xe5, 0x8c, 0x74, 0x06, 0x3e]"

definition DISCONNECTEX_GUID :: "u8 list" where
  "DISCONNECTEX_GUID = [0x11, 0x2e, 0xda, 0x7f, 0x30, 0x86, 0x6f, 0x43, 0xa0, 0x31, 0xf5, 0x36, 0xa6, 0xee, 0xc1, 0x57]"

definition ACCEPTEX_GUID :: "u8 list" where
  "ACCEPTEX_GUID = [0xb5, 0x36, 0x7e, 0xb1, 0x11, 0xab, 0x0f, 0x00, 0xd9, 0xc9, 0x00, 0xa0, 0x24, 0x16, 0x09, 0x93]"

definition ext_name :: "u8 list \<Rightarrow> string option" where
  "ext_name guid =
     (if guid = CONNECTEX_GUID then Some ''ConnectEx''
      else if guid = DISCONNECTEX_GUID then Some ''DisconnectEx''
      else if guid = ACCEPTEX_GUID then Some ''AcceptEx''
      else None)"

text \<open>\<open>WSAIoctl\<close> with \<open>SIO_GET_EXTENSION_FUNCTION_POINTER\<close>; None for any other call.\<close>

definition ws_extension ::
    "'m guest_api \<Rightarrow> string \<Rightarrow> u32 list \<Rightarrow> mapper \<Rightarrow> 'm blink \<Rightarrow> (u64 \<times> mapper \<times> 'm blink) option ub" where
  "ws_extension api ws_fn args m b =
     (if ws_fn = ''WSAIoctl'' \<and> args ! 1 = 0xC8000006
      then let guid = (if args ! 2 \<noteq> 0 \<and> 16 \<le> args ! 3 then read_buf api zeros (args ! 2) 16 b else zeros 16)
           in (case ext_name guid of
                 None \<Rightarrow> Some None
               | Some ext \<Rightarrow> do {
                   let t = wg_dll_mapper_find_any m ext;
                   (t, m) \<leftarrow> (if t = 0 then wg_dll_mapper_resolve m ''WS2_32.dll'' ext else Some (t, m));
                   let b = (if 0xC00000 \<le> t \<and> t < 0xC20000 then write_bytes api (ucast t) [0xF4] b else b);
                   let b = (if args ! 4 \<noteq> 0 \<and> 4 \<le> args ! 5 then write32 api (args ! 4) (ucast t) b else b);
                   let b = (if args ! 6 \<noteq> 0 then write32 api (args ! 6) 4 b else b);
                   Some (Some (0, m, b))
                 })
      else Some None)"

section \<open>Overlapped calls\<close>

text \<open>A completion is posted for the socket, and the \<open>OVERLAPPED\<close> is marked as done.\<close>

definition complete_now ::
    "'m guest_api \<Rightarrow> u32 \<Rightarrow> u32 \<Rightarrow> u32 \<Rightarrow> engine \<Rightarrow> 'm blink \<Rightarrow> engine \<times> 'm blink" where
  "complete_now api sock ovl n e b =
     (e\<lparr>completions := iocp_post \<lparr>c_bytes = n, c_comp_key = iocp_comp_key e sock, c_overlapped = ovl\<rparr> (completions e),
        sched := wg_sched_wake (sched e) WG_IOCP_HANDLE\<rparr>,
      write32 api (ovl + 4) n (write32 api ovl 0 b))"

definition ws_complete ::
    "'m guest_api \<Rightarrow> (u32 \<Rightarrow> 's \<Rightarrow> 's) \<Rightarrow> string \<Rightarrow> u32 list \<Rightarrow> u64 \<Rightarrow> 's \<Rightarrow> engine \<Rightarrow> 'm blink \<Rightarrow> u64 \<times> 's \<times> engine \<times> 'm blink" where
  "ws_complete api set_err ws_fn args r ws e b =
     (if ws_fn = ''ConnectEx'' \<and> r = 1 \<and> args ! 6 \<noteq> 0
      then let (e, b) = complete_now api (args ! 0) (args ! 6) 0 e b in (0, set_err 997 ws, e, b)
      else if ws_fn \<in> set [''WSASend'', ''WSASendTo'', ''WSARecv'', ''WSARecvFrom''] \<and> r = 0 \<and> args ! 5 \<noteq> 0
      then let n = (if args ! 3 \<noteq> 0 then read32 api (ucast (args ! 3)) b else 0);
               (e, b) = complete_now api (args ! 0) (args ! 5) n e b
           in (0xFFFFFFFF, set_err 997 ws, e, b)
      else (r, ws, e, b))"

text \<open>A call into WS2\_32 or WSOCK32. \<open>ret\<close> is the result so far.\<close>

definition ws_dispatch ::
    "'m guest_api \<Rightarrow> (string \<Rightarrow> u32 list \<Rightarrow> 's \<Rightarrow> 'm blink \<Rightarrow> u64 option \<times> 's \<times> 'm blink) \<Rightarrow> (u32 \<Rightarrow> 's \<Rightarrow> 's) \<Rightarrow>
     string \<Rightarrow> u64 \<Rightarrow> u32 list \<Rightarrow> 's \<Rightarrow> mapper \<Rightarrow> engine \<Rightarrow> 'm blink \<Rightarrow> (u64 \<times> 's \<times> mapper \<times> engine \<times> 'm blink) ub" where
  "ws_dispatch api handle set_err fn ret args ws m e b = do {
     let ws_fn = ws_name fn;
     x \<leftarrow> ws_extension api ws_fn args m b;
     case x of
       Some (r, m, b) \<Rightarrow> Some (r, ws, m, e, b)
     | None \<Rightarrow>
         (case handle ws_fn args ws b of
            (None, ws, b) \<Rightarrow> Some (ret, ws, m, e, b)
          | (Some r, ws, b) \<Rightarrow>
              let (r, ws, e, b) = ws_complete api set_err ws_fn args r ws e b in Some (r, ws, m, e, b))
   }"

section \<open>WINHTTP and WININET\<close>

type_synonym ('m, 's) net_handler = "string \<Rightarrow> u32 list \<Rightarrow> 's \<Rightarrow> 'm blink \<Rightarrow> u64 option \<times> 's \<times> 'm blink"

text \<open>The handler of a library that may be missing; a default for what it does not answer.\<close>

definition forward ::
    "('m, 's) net_handler \<Rightarrow> string \<Rightarrow> u32 list \<Rightarrow> u64 \<Rightarrow> 's option \<Rightarrow> 'm blink \<Rightarrow> u64 \<times> 's option \<times> 'm blink" where
  "forward handle fn args d h b =
     (case h of
        None \<Rightarrow> (d, None, b)
      | Some h \<Rightarrow> let (r, h, b) = handle fn args h b in (case r of None \<Rightarrow> d | Some r \<Rightarrow> r, Some h, b))"

definition winhttp_dispatch ::
    "('m, 's) net_handler \<Rightarrow> string \<Rightarrow> u32 list \<Rightarrow> u64 \<Rightarrow> 's option \<Rightarrow> 'm blink \<Rightarrow> u64 \<times> 's option \<times> 'm blink" where
  "winhttp_dispatch handle fn args ret h b = forward handle fn args ret h b"

definition schannel_dispatch ::
    "('m, 's) net_handler \<Rightarrow> string \<Rightarrow> u32 list \<Rightarrow> u64 \<Rightarrow> 's option \<Rightarrow> 'm blink \<Rightarrow> u64 \<times> 's option \<times> 'm blink" where
  "schannel_dispatch handle fn args ret h b = forward handle fn args ret h b"

definition wininet_call ::
    "'m guest_api \<Rightarrow> ('m, 's) net_handler \<Rightarrow> string \<Rightarrow> u32 list \<Rightarrow> u64 \<Rightarrow> 's option \<Rightarrow> 'm blink \<Rightarrow> u64 \<times> 's option \<times> 'm blink" where
  "wininet_call api handle fn args ret h b =
     (if fn = ''InternetGetConnectedState'' \<or> fn = ''InternetGetConnectedStateExW''
        then (1, h, if args ! 0 \<noteq> 0 then write32 api (args ! 0) 1 b else b)
      else if fn = ''InternetAttemptConnect'' then (0, h, b)
      else if fn = ''InternetCheckConnectionA'' \<or> fn = ''InternetCheckConnectionW'' then (1, h, b)
      else if fn = ''InternetOpenA'' \<or> fn = ''InternetOpenW'' then forward handle ''WinHttpOpen'' args 0x5000 h b
      else if fn = ''InternetConnectA'' \<or> fn = ''InternetConnectW'' then forward handle ''WinHttpConnect'' args 0x5001 h b
      else if fn = ''InternetCloseHandle'' then (1, snd (forward handle ''WinHttpCloseHandle'' args 1 h b))
      else if fn = ''InternetSetStatusCallbackA'' \<or> fn = ''InternetSetStatusCallbackW'' then (0, h, b)
      else (ret, h, b))"

section \<open>Adapters\<close>

text \<open>The protocol of \<open>IPHLPAPI\<close>: too small a buffer is answered with the size that is needed.\<close>

definition sized_reply :: "'m guest_api \<Rightarrow> u32 \<Rightarrow> u32 \<Rightarrow> u8 list \<Rightarrow> 'm blink \<Rightarrow> u64 \<times> 'm blink" where
  "sized_reply api size_ptr buf_ptr reply b =
     (let needed = of_nat (length reply) :: u32;
          avail = (if size_ptr \<noteq> 0 then read32 api (ucast size_ptr) b else 0)
      in if buf_ptr = 0 \<or> avail < needed
         then (111, if size_ptr \<noteq> 0 then write32 api size_ptr needed b else b)
         else let b = write_bytes api buf_ptr reply b
              in (0, if size_ptr \<noteq> 0 then write32 api size_ptr needed b else b))"

definition ascii_bytes :: "string \<Rightarrow> u8 list" where
  "ascii_bytes s = map of_char s"

definition adapter_addresses :: "u8 list" where
  "adapter_addresses = put_fields 376 [(0, le_bytes 4 (376 :: u32)), (4, le_bytes 4 (1 :: u32)),
     (260, le_bytes 4 (6 :: u32)), (264, le_bytes 4 (1 :: u32))]"

definition adapter_info :: "u8 list" where
  "adapter_info = put_fields 640 [(260, le_bytes 4 (6 :: u32)), (432, ascii_bytes ''192.168.1.100''),
     (448, ascii_bytes ''255.255.255.0''), (472, ascii_bytes ''192.168.1.1'')]"

definition network_params :: "u8 list" where
  "network_params = put_fields 312 [(260, ascii_bytes ''8.8.8.8'')]"

definition iphlpapi_call :: "'m guest_api \<Rightarrow> string \<Rightarrow> u32 list \<Rightarrow> u64 \<Rightarrow> 'm blink \<Rightarrow> u64 \<times> 'm blink" where
  "iphlpapi_call api fn args ret b =
     (if fn = ''GetAdaptersAddresses'' then sized_reply api (args ! 4) (args ! 3) adapter_addresses b
      else if fn = ''GetAdaptersInfo'' then sized_reply api (args ! 1) (args ! 0) adapter_info b
      else if fn = ''GetNetworkParams'' then sized_reply api (args ! 1) (args ! 0) network_params b
      else if fn = ''GetBestInterface'' then (0, if args ! 1 \<noteq> 0 then write32 api (args ! 1) 1 b else b)
      else (ret, b))"

end
