(* ===== verification/PluginStack.thy ===== *)
theory PluginStack
  imports EnginePlugins GuestStrings
begin

text \<open>
  The installer's stack in guest memory, seen as a list: pushing a number adds its decimal digits in front,
  popping takes the first string away, and a number that is pushed is popped again.
\<close>

section \<open>Numbers\<close>

lemma decimal_digit: "n < 10 \<Longrightarrow> decimal n = [char_of (48 + n :: nat)]"
  by (simp add: decimal.simps)

lemma digit_of_char: "k < 10 \<Longrightarrow> digit_value (char_of (48 + k :: nat)) = Some k"
  by (simp add: digit_value_def of_char_of)

lemma digits_of_decimal: "digits_of 10 acc (decimal n @ s) = digits_of 10 (acc * 10 ^ length (decimal n) + n) s"
proof (induction n arbitrary: acc s rule: decimal.induct)
  case (1 n)
  show ?case
  proof (cases "n < 10")
    case True
    then show ?thesis by (simp add: decimal_digit digit_of_char)
  next
    case False
    then have d: "decimal n = decimal (n div 10) @ [char_of (48 + n mod 10)]" by (simp add: decimal.simps [of n])
    have "digits_of 10 acc (decimal n @ s) = digits_of 10 ((acc * 10 ^ length (decimal (n div 10)) + n div 10) * 10 + n mod 10) s"
      using 1 [OF False] by (simp add: d digit_of_char)
    also have "(acc * 10 ^ length (decimal (n div 10)) + n div 10) * 10 + n mod 10 = acc * 10 ^ length (decimal n) + n"
      by (simp add: d algebra_simps)
    finally show ?thesis .
  qed
qed

lemma decimal_step: "10 \<le> n \<Longrightarrow> decimal n = decimal (n div 10) @ [char_of (48 + n mod 10 :: nat)]"
  by (simp add: decimal.simps [of n])

lemma decimal_chars: "c \<in> set (decimal n) \<Longrightarrow> \<exists>k < 10. c = char_of (48 + k :: nat)"
proof (induction n rule: decimal.induct)
  case (1 n)
  show ?case
  proof (cases "n < 10")
    case True
    then have "c = char_of (48 + n)" using 1(2) decimal_digit by simp
    then show ?thesis using True by blast
  next
    case False
    then have "c \<in> set (decimal (n div 10)) \<or> c = char_of (48 + n mod 10)" using 1(2) decimal_step [of n] by auto
    moreover have "n mod 10 < 10" by simp
    ultimately show ?thesis using 1(1) [OF False] by blast
  qed
qed

lemma decimal_hd: "0 < n \<Longrightarrow> \<exists>k cs. decimal n = char_of (48 + k :: nat) # cs \<and> 0 < k \<and> k < 10"
proof (induction n rule: decimal.induct)
  case (1 n)
  show ?case
  proof (cases "n < 10")
    case True
    then show ?thesis using 1(2) decimal_digit by blast
  next
    case False
    then have "0 < n div 10" by simp
    from 1(1) [OF False this] obtain k cs where "decimal (n div 10) = char_of (48 + k :: nat) # cs" "0 < k" "k < 10" by blast
    then have "decimal n = char_of (48 + k) # (cs @ [char_of (48 + n mod 10)])" using False decimal_step [of n] by simp
    then show ?thesis using \<open>0 < k\<close> \<open>k < 10\<close> by blast
  qed
qed

lemma digit_char:
  assumes "k < (10 :: nat)"
  shows "(char_of (48 + k) :: char) = CHR ''0'' \<longleftrightarrow> k = 0" and "\<not> is_space (char_of (48 + k))"
    and "(char_of (48 + k) :: char) \<noteq> CHR ''-''" and "(char_of (48 + k) :: char) \<noteq> CHR ''+''" and "(char_of (48 + k) :: char) \<noteq> CHR 0x00"
proof -
  have o: "of_char (char_of (48 + k) :: char) = 48 + k" using assms by (simp add: of_char_of)
  have e: "(of_char (CHR ''0'') :: nat) = 48" "(of_char (CHR ''-'') :: nat) = 45" "(of_char (CHR ''+'') :: nat) = 43"
    "(of_char (CHR '' '') :: nat) = 32" "(of_char (CHR 0x00) :: nat) = 0" by simp_all
  show "(char_of (48 + k) :: char) = CHR ''0'' \<longleftrightarrow> k = 0" "(char_of (48 + k) :: char) \<noteq> CHR ''-''"
    "(char_of (48 + k) :: char) \<noteq> CHR ''+''" "(char_of (48 + k) :: char) \<noteq> CHR 0x00"
    using o e by (auto simp flip: of_char_eq_iff [where ?'a = nat])
  have "(char_of (48 + k) :: char) \<noteq> CHR '' ''" using o e by (auto simp flip: of_char_eq_iff [where ?'a = nat])
  then show "\<not> is_space (char_of (48 + k))" using o by (simp add: is_space_def)
qed

lemma magnitude_decimal: "magnitude (decimal n) = n"
proof (cases "n = 0")
  case True
  then show ?thesis by (simp add: decimal_digit magnitude_def digit_value_def)
next
  case False
  then obtain k cs where k: "decimal n = char_of (48 + k :: nat) # cs" "0 < k" "k < 10" using decimal_hd [of n] by auto
  have "magnitude (decimal n) = digits_of 10 0 (decimal n @ [])"
    using digit_char(1) [OF k(3)] k(2) by (simp add: magnitude_def k(1))
  then show ?thesis by (simp only: digits_of_decimal) simp
qed

lemma decimal_first: "\<exists>k cs. decimal n = char_of (48 + k :: nat) # cs \<and> k < 10"
proof (cases "n = 0")
  case True
  then have "decimal n = char_of (48 + 0 :: nat) # []" "(0 :: nat) < 10" by (simp_all add: decimal_digit)
  then show ?thesis by blast
qed (use decimal_hd [of n] in blast)

lemma signed_print: "signed_digits (print_int v) = (v < 0, nat \<bar>v\<bar>)"
proof -
  obtain k cs where k: "decimal (nat v) = char_of (48 + k :: nat) # cs" "k < 10" using decimal_first by blast
  have m: "\<not> is_space (CHR ''-'')" by (simp add: is_space_def)
  show ?thesis
    using digit_char [OF k(2)] magnitude_decimal [of "nat v"] magnitude_decimal [of "nat (- v)"] k m
    by (auto simp: signed_digits_def print_int_def)
qed

lemma strtol_print: "- (2 ^ 63) \<le> v \<Longrightarrow> v < 2 ^ 63 \<Longrightarrow> strtol (print_int v) = v"
  by (simp add: strtol_def signed_print)

lemma decimal_length: "n < 10 ^ k \<Longrightarrow> 0 < k \<Longrightarrow> length (decimal n) \<le> k"
proof (induction n arbitrary: k rule: decimal.induct)
  case (1 n)
  show ?case
  proof (cases "n < 10")
    case False
    then obtain j where j: "k = Suc j" "0 < j" using 1(2,3) by (cases k; cases "k - 1") auto
    then have "n div 10 < 10 ^ j" using 1(2) by simp
    then show ?thesis using 1(1) [OF False _ j(2)] False j(1) by (simp add: decimal_step)
  qed (use 1(3) in \<open>simp add: decimal_digit\<close>)
qed

lemma print_length:
  assumes "- (2 ^ 31) \<le> v" and "v < 2 ^ 31"
  shows "length (print_int v) \<le> 11"
proof -
  have "nat v < 10 ^ 10" "nat (- v) < 10 ^ 10" using assms by simp_all
  then show ?thesis using decimal_length [of "nat v" 10] decimal_length [of "nat (- v)" 10] by (simp add: print_int_def)
qed

lemma print_chars: "c \<in> set (print_int v) \<Longrightarrow> c \<noteq> CHR 0x00"
  using decimal_chars digit_char(5) by (fastforce simp: print_int_def split: if_splits)

lemma unat_of_char: "unat (of_char c :: u16) = of_char c"
proof -
  have "(256 :: nat) \<le> 2 ^ 16" by simp
  then have "(of_char c :: nat) < 2 ^ 16" by (rule less_le_trans [rotated]) simp
  then have "(of_char c :: nat) mod 2 ^ 16 = of_char c" by (rule mod_less)
  then have "unat (of_nat (of_char c) :: u16) = of_char c" by (simp add: unat_of_nat del: of_nat_of_char)
  then show ?thesis by (simp only: of_nat_of_char)
qed

lemma wide_of_chars: "map (\<lambda>w. char_of (unat w mod 256)) (wide_of s) = s"
proof -
  have "char_of (unat (of_char c :: u16) mod 256) = c" for c :: char by (simp only: unat_of_char) simp
  then show ?thesis by (simp add: wide_of_def comp_def)
qed

lemma wide_of_nul: "c \<noteq> CHR 0x00 \<Longrightarrow> (of_char c :: u16) \<noteq> 0"
proof
  assume c: "c \<noteq> CHR 0x00" and "(of_char c :: u16) = 0"
  then have "(of_char c :: nat) = 0" using unat_of_char [of c] by simp
  then have "(of_char c :: nat) = of_char (CHR 0x00)" by simp
  then show False using c by (simp only: of_char_eq_iff)
qed

text \<open>A string that fits is read back from a buffer of units.\<close>

lemma low_chars_wide:
  assumes "\<forall>c \<in> set s. c \<noteq> CHR 0x00" and "length s < n"
  shows "low_chars n (wide_of s @ 0 # rest) = s"
proof -
  have "0 \<notin> set (wide_of s)" using assms(1) wide_of_nul by (force simp: wide_of_def)
  moreover have "length (wide_of s) \<le> n - 1" using assms(2) by (simp add: wide_of_def)
  ultimately have "to_nul (take (n - 1) (wide_of s @ 0 # rest)) = wide_of s" by (rule to_nul_take)
  moreover have "takeWhile (\<lambda>c. c \<noteq> CHR 0x00) s = s" using assms(1) by (simp add: takeWhile_eq_all_conv)
  ultimately show ?thesis unfolding low_chars_def by (simp only: wide_of_chars)
qed

section \<open>The list in memory\<close>

text \<open>The list that starts at \<open>h\<close>: each node is a pointer to the next one and a string that ends with NUL,
  between the addresses \<open>lo\<close> and \<open>hi\<close>.\<close>

fun stack_at :: "'m guest_api \<Rightarrow> ('m \<Rightarrow> u64 \<Rightarrow> u8) \<Rightarrow> 'm blink \<Rightarrow> nat \<Rightarrow> nat \<Rightarrow> u32 \<Rightarrow> u16 list list \<Rightarrow> bool" where
  "stack_at api peek b lo hi h [] \<longleftrightarrow> h = 0"
| "stack_at api peek b lo hi h (ws # wss) \<longleftrightarrow>
     h \<noteq> 0 \<and> lo \<le> unat h \<and> unat h + 4 + 2 * (length ws + 1) \<le> hi \<and> bytes_at peek b (h + 4) (wide_bytes (ws @ [0])) \<and>
     stack_at api peek b lo hi (read32 api (ucast h) b) wss"

lemma unat_up_add: "i < 2 ^ 32 \<Longrightarrow> unat (ucast (a :: u32) + of_nat i :: u64) = unat a + i"
  using unat_below [of a] by (simp add: unat_word_ariths unat_ucast_up unat_of_nat)

lemma same_bytes:
  assumes "bytes_at peek b a bs" and "\<And>x. lo \<le> unat x \<Longrightarrow> unat x < hi \<Longrightarrow> byte_in peek b' x = byte_in peek b x"
    and "lo \<le> unat a" and "unat a + length bs \<le> hi" and "hi \<le> 2 ^ 32"
  shows "bytes_at peek b' a bs"
proof -
  have "byte_in peek b' (ucast a + of_nat i) = byte_in peek b (ucast a + of_nat i)" if "i < length bs" for i
    using that assms(3-5) unat_up_add [of i a] by (intro assms(2)) simp_all
  then have "map (\<lambda>i. byte_in peek b' (ucast a + of_nat i)) [0..<length bs] = map (\<lambda>i. byte_in peek b (ucast a + of_nat i)) [0..<length bs]"
    by simp
  then show ?thesis using assms(1) by (simp only: bytes_at_def)
qed

lemma same_word:
  fixes a :: u32
  assumes "flat_ram api peek" and "b \<noteq> None" and "b' \<noteq> None"
    and "\<And>x. lo \<le> unat x \<Longrightarrow> unat x < hi \<Longrightarrow> byte_in peek b' x = byte_in peek b x"
    and "lo \<le> unat a" and "unat a + 4 \<le> hi"
  shows "read32 api (ucast a) b' = read32 api (ucast a) b"
proof -
  have "byte_in peek b' (ucast a + of_nat i) = byte_in peek b (ucast a + of_nat i)" if "i < 4" for i
    using that assms(5,6) unat_up_add [of i a] by (intro assms(4)) simp_all
  then have "map (\<lambda>i. byte_in peek b' (ucast a + of_nat i)) [0..<4] = map (\<lambda>i. byte_in peek b (ucast a + of_nat i)) [0..<4]"
    by simp
  then show ?thesis unfolding read32_bytes [OF assms(1,2)] read32_bytes [OF assms(1,3)] by (simp only:)
qed

text \<open>The list stays when the memory between the bounds stays.\<close>

lemma stack_frame:
  assumes "flat_ram api peek" and "b \<noteq> None" and "b' \<noteq> None" and "hi \<le> 2 ^ 32"
    and same: "\<And>x. lo \<le> unat x \<Longrightarrow> unat x < hi \<Longrightarrow> byte_in peek b' x = byte_in peek b x" and "hi \<le> hi'"
  shows "stack_at api peek b lo hi h wss \<Longrightarrow> stack_at api peek b' lo hi' h wss"
proof (induction wss arbitrary: h)
  case (Cons ws wss)
  have h: "lo \<le> unat h" "unat h + 4 + 2 * (length ws + 1) \<le> hi" "bytes_at peek b (h + 4) (wide_bytes (ws @ [0]))"
    using Cons.prems by simp_all
  have u: "unat (h + 4) = unat h + 4" using h(2) assms(4) by (simp add: unat_word_ariths)
  then have "lo \<le> unat (h + 4)" "unat (h + 4) + length (wide_bytes (ws @ [0])) \<le> hi" using h(1,2) by (linarith, simp)
  then have "bytes_at peek b' (h + 4) (wide_bytes (ws @ [0]))"
    by (intro same_bytes [OF h(3), where lo = lo and hi = hi] same assms(4))
  moreover have "unat h + 4 \<le> hi" using h(2) by linarith
  then have "read32 api (ucast h) b' = read32 api (ucast h) b"
    by (intro same_word [OF assms(1-3), where lo = lo and hi = hi] same h(1))
  ultimately show ?case using Cons assms(6) by simp
qed simp

section \<open>Popping and pushing\<close>

lemma pop_spec:
  assumes ram: "flat_ram api peek" and b: "b \<noteq> None" and top: "unat topp + 4 \<le> lo" and hi: "hi \<le> 2 ^ 32"
    and at: "stack_at api peek b lo hi (read32 api (ucast topp) b) (ws # wss)"
    and room: "length ws < length out" "int (length ws) \<le> ssize"
  shows "\<exists>rest b'. nsis_pop api topp ssize out b = (True, ws @ 0 # rest, b') \<and> b' \<noteq> None \<and>
    stack_at api peek b' lo hi (read32 api (ucast topp) b') wss"
proof -
  let ?h = "read32 api (ucast topp) b"
  let ?b = "write32 api topp (read32 api (ucast ?h) b) b"
  define n where "n = nat (min (int (length out)) (ssize + 1))"
  have n: "length ws < n" "n \<le> length out" using room by (auto simp: n_def)
  have bytes: "bytes_at peek b (?h + 4) (wide_bytes (ws @ [0]))" using at by simp
  have "length (wide_bytes (ws @ [0])) \<le> 2 * n" "length (wide_bytes (take n out)) = 2 * n" using n by simp_all
  from read_at [OF ram b bytes this] obtain r where
    r: "snd (wg_blink_read_mem api b (ucast (?h + 4)) (wide_bytes (take n out)) (2 * n)) = wide_bytes (ws @ [0]) @ r" by blast
  have "(if int (length out) < ssize + 1 then int (length out) else ssize + 1) = int n" "\<not> int n < 1" "length out \<noteq> 0" "?h \<noteq> 0"
    using n room at by (auto simp: n_def)
  then have "nsis_pop api topp ssize out b = (True, (ws @ 0 # u16s r @ drop n out)[length out - 1 := 0], ?b)"
    unfolding nsis_pop_def Let_def by (simp add: r u16s_wide)
  moreover have "\<exists>rest. (ws @ 0 # u16s r @ drop n out)[length out - 1 := 0] = ws @ 0 # rest"
    using room(1) by (auto simp: list_update_append split: nat.split)
  moreover have w: "?b \<noteq> None" using b by (simp only: write32_Some not_False_eq_True)
  moreover have "byte_in peek ?b x = byte_in peek b x" if "lo \<le> unat x" for x
    by (rule write32_outside [OF ram b]) (use that top in simp)
  then have "stack_at api peek ?b lo hi (read32 api (ucast ?h) b) wss"
    using at by (intro stack_frame [OF ram b w hi]) simp_all
  ultimately show ?thesis using read32_write32(1) [OF ram b, of topp "read32 api (ucast ?h) b"] by auto
qed

lemma push_spec:
  assumes ram: "flat_ram api peek" and b: "b \<noteq> None" and top: "unat topp + 4 \<le> lo" and heap: "heap_at e t" "lo \<le> t"
    and at: "stack_at api peek b lo t (read32 api (ucast topp) b) wss"
    and v: "- (2 ^ 31) \<le> v" "v < 2 ^ 31" and ssize: "11 \<le> ssize" "ssize \<le> 8192" and room: "t + 20480 < 2 ^ 32"
  shows "\<exists>e' b' hi. nsis_push_int api topp ssize v e b = (e', b') \<and> heap_at e' hi \<and> t < hi \<and> hi \<le> t + 20480 \<and> b' \<noteq> None \<and>
    stack_at api peek b' lo hi (read32 api (ucast topp) b') (wide_of (print_int v) # wss)"
proof -
  define n :: u32 where "n = 4 + of_int (ssize + 1) * 2"
  define txt' where "txt' = wide_bytes (wide_of (print_int v) @ [0])"
  define k where "k = nat ssize"
  have k: "ssize = int k" "11 \<le> k" "k \<le> 8192" using ssize by (simp_all add: k_def)
  have "n = of_nat (6 + 2 * k)" by (simp add: n_def k(1))
  then have un: "unat n = 6 + 2 * k" using k(3) by (simp only: unat_of_nat) simp
  then have n: "n \<noteq> 0" "unat n \<le> 512 * 1024 * 1024" using k(3) by auto
  define hi where "hi = t + page_round (unat n)"
  have pr: "4096 \<le> page_round (unat n)" "page_round (unat n) \<le> 20480" using k(2,3) un by (auto simp: page_round_def)
  obtain node e1 b1 where a: "wg_guest_alloc api n e b = (node, e1, b1)" by (metis prod_cases3)
  note g = guest_alloc_spec [OF heap(1) n _ a]
  have node: "unat node = t" and heap1: "heap_at e1 hi" using g(1,2) pr room by (simp_all add: hi_def)
  have b1: "b1 \<noteq> None" using alloc_keeps(2) [OF a] b by blast
  let ?head = "read32 api (ucast topp) b"
  have head: "read32 api (ucast topp) b1 = ?head" by (rule alloc_keeps_below [OF ram heap(1) a _ b]) (use top heap(2) in simp)
  have len: "length txt' \<le> 24" using print_length [OF v] by (simp add: txt'_def wide_of_def)
  let ?b2 = "write32 api node ?head b1"
  let ?b3 = "write_bytes api (node + 4) txt' ?b2"
  let ?b4 = "write32 api topp node ?b3"
  have w: "?b2 \<noteq> None" "?b3 \<noteq> None" "?b4 \<noteq> None" using b1 by (simp_all only: write32_Some write_bytes_Some not_False_eq_True)
  have n4: "unat (node + 4) = t + 4" using node room by (simp add: unat_word_ariths)
  have push: "nsis_push_int api topp ssize v e b = (e1, ?b4)"
  proof -
    have "node \<noteq> 0" using node top heap(2) by auto
    then show ?thesis using a ssize unfolding nsis_push_int_def Let_def n_def txt'_def by (simp add: head)
  qed
  have bytes: "bytes_at peek ?b4 (node + 4) txt'"
    unfolding write32_def [of api topp]
    by (rule bytes_at_other [OF ram w(2) bytes_at_write [OF ram w(1)]]) (use len n4 top heap(2) in \<open>simp_all add: length_le_bytes\<close>)
  have nxt: "read32 api (ucast node) ?b4 = ?head"
  proof -
    have "read32 api (ucast node) ?b4 = read32 api (ucast node) ?b3"
      by (rule read32_write32(2) [OF ram w(2)]) (use top heap(2) node in \<open>simp add: words_apart_def\<close>)
    also have "\<dots> = read32 api (ucast node) ?b2"
      by (rule read32_write_bytes_other [OF ram w(1)]) (use node n4 len in simp_all)
    finally show ?thesis by (simp only: read32_write32(1) [OF ram b1])
  qed
  have rest: "stack_at api peek ?b4 lo hi ?head wss"
  proof (rule stack_frame [OF ram b w(3) _ _ _ at])
    fix x :: u64 assume x: "lo \<le> unat x" "unat x < t"
    have "byte_in peek ?b4 x = byte_in peek ?b3 x" by (rule write32_outside [OF ram w(2)]) (use x top in simp)
    also have "\<dots> = byte_in peek ?b2 x" by (rule byte_outside [OF ram w(1)]) (use x n4 len in simp_all)
    also have "\<dots> = byte_in peek b1 x" by (rule write32_outside [OF ram b1]) (use x node in simp)
    also have "\<dots> = byte_in peek b x" by (rule alloc_same_below [OF ram heap(1) a b x(2)])
    finally show "byte_in peek ?b4 x = byte_in peek b x" .
  qed (use room in \<open>simp_all add: hi_def\<close>)
  have new: "read32 api (ucast topp) ?b4 = node" by (rule read32_write32(1) [OF ram w(2)])
  have fit: "unat node + 4 + 2 * (length (wide_of (print_int v)) + 1) \<le> hi"
    using node pr(1) len by (simp add: hi_def txt'_def)
  have nz: "node \<noteq> 0" "lo \<le> unat node" using node top heap(2) by auto
  have "stack_at api peek ?b4 lo hi (read32 api (ucast topp) ?b4) (wide_of (print_int v) # wss)"
    unfolding stack_at.simps new nxt using nz fit bytes rest unfolding txt'_def by blast
  moreover have "t < hi" "hi \<le> t + 20480" using pr by (simp_all add: hi_def)
  ultimately show ?thesis using push heap1 w(3) by blast
qed

text \<open>Pushing a number and popping one is the identity on the list.\<close>

text \<open>C24: The installer's stack in guest memory refines a list of strings: pushing a number puts its decimal digits in front of the list, and popping a number gives it back and leaves the list as it was.\<close>

theorem nsis_stack_refines:
  assumes ram: "flat_ram api peek" and b: "b \<noteq> None" and top: "unat topp + 4 \<le> lo" and heap: "heap_at e t" "lo \<le> t"
    and at: "stack_at api peek b lo t (read32 api (ucast topp) b) wss"
    and v: "- (2 ^ 31) \<le> v" "v < 2 ^ 31" and ssize: "11 \<le> ssize" "ssize \<le> 8192" and room: "t + 20480 < 2 ^ 32"
  shows "\<exists>e' b' hi b''. nsis_push_int api topp ssize v e b = (e', b') \<and> heap_at e' hi \<and>
    stack_at api peek b' lo hi (read32 api (ucast topp) b') (wide_of (print_int v) # wss) \<and>
    nsis_pop_int api topp ssize b' = (v, b'') \<and> stack_at api peek b'' lo hi (read32 api (ucast topp) b'') wss"
proof -
  from push_spec [OF assms] obtain e' b' hi where p: "nsis_push_int api topp ssize v e b = (e', b')" "heap_at e' hi" "hi \<le> t + 20480"
    "b' \<noteq> None" "stack_at api peek b' lo hi (read32 api (ucast topp) b') (wide_of (print_int v) # wss)" by blast
  have l: "length (wide_of (print_int v)) \<le> 11" using print_length [OF v] by (simp add: wide_of_def)
  have hi: "hi \<le> 2 ^ 32" using p(3) room by simp
  have "length (wide_of (print_int v)) < length (replicate 64 (0 :: u16))" "int (length (wide_of (print_int v))) \<le> ssize"
    using l ssize(1) by simp_all
  from pop_spec [OF ram p(4) top hi p(5) this] obtain rest b'' where
    q: "nsis_pop api topp ssize (replicate 64 0) b' = (True, wide_of (print_int v) @ 0 # rest, b'')"
      "stack_at api peek b'' lo hi (read32 api (ucast topp) b'') wss" by blast
  have "low_chars 64 (wide_of (print_int v) @ 0 # rest) = print_int v"
    by (rule low_chars_wide) (use print_chars l in \<open>auto simp: wide_of_def\<close>)
  moreover have "to_int (strtol (print_int v)) = v"
    using strtol_print [of v] v by (simp add: to_int_def signed_of_int signed_take_bit_int_eq_self)
  ultimately have "nsis_pop_int api topp ssize b' = (v, b'')" by (simp add: nsis_pop_int_def q(1))
  then show ?thesis using p q(2) by blast
qed

end
