(* ===== verification/EngineSystemOk.thy ===== *)
theory EngineSystemOk
  imports EngineNet PluginStack
begin

text \<open>
  What the calls on the system leave in guest memory: random bytes, the objects for shortcuts whose methods
  the guest can call, replies of the size that was asked for; and the ticks of the clock.
\<close>

section \<open>Random numbers\<close>

text \<open>The bytes that the generator gives in calls for at most 512 of them.\<close>

function random_bytes :: "(nat \<Rightarrow> nat \<Rightarrow> u8 list) \<Rightarrow> nat \<Rightarrow> nat \<Rightarrow> u8 list" where
  "random_bytes rnd k n = (if n = 0 then [] else rnd k (min n 512) @ random_bytes rnd (Suc k) (n - min n 512))"
  by pat_completeness auto
termination by (relation "measure (\<lambda>(_, _, n). n)") auto

declare random_bytes.simps [simp del]

lemma length_random_bytes: "(\<And>k n. length (rnd k n) = n) \<Longrightarrow> length (random_bytes rnd k n) = n"
proof (induction n arbitrary: k rule: less_induct)
  case (less n)
  then show ?case by (subst random_bytes.simps) simp
qed

lemma written_byte:
  fixes a :: u32
  assumes ram: "flat_ram api peek" and b: "b \<noteq> None" and fits: "unat a + length bs \<le> 2 ^ 32"
  shows "byte_in peek (write_bytes api a bs b) x =
    (if unat a \<le> unat x \<and> unat x < unat a + length bs then bs ! (unat x - unat a) else byte_in peek b x)"
proof (cases "unat a \<le> unat x")
  case True
  then have "unat (x - ucast a) = unat x - unat a" by (simp add: unat_diff_cases unat_ucast_up)
  then show ?thesis using True by (auto simp: byte_in_write [OF ram b])
next
  case False
  then show ?thesis using byte_outside [OF ram b, of x a bs] fits by simp
qed

lemma fill_chunks_byte:
  assumes ram: "flat_ram api peek" and rnd: "\<And>k n. length (rnd k n) = n"
  shows "b \<noteq> None \<Longrightarrow> unat a + unat len \<le> 2 ^ 32 \<Longrightarrow> unat i \<le> unat len \<Longrightarrow>
    byte_in peek (fill_chunks api rnd k a len i b) x =
      (if unat a + unat i \<le> unat x \<and> unat x < unat a + unat len
       then random_bytes rnd k (unat len - unat i) ! (unat x - (unat a + unat i)) else byte_in peek b x)"
proof (induction "unat len - unat i" arbitrary: k i b rule: less_induct)
  case less
  show ?case
  proof (cases "i < len")
    case False
    then have "unat i = unat len" using less.prems(3) by (simp add: word_less_nat_alt)
    then show ?thesis using False by (subst fill_chunks.simps) auto
  next
    case True
    define n where "n = (if len - i < 512 then len - i else 512)"
    note s = chunk_step [OF True n_def]
    let ?b = "write_bytes api (a + i) (rnd k (unat n)) b"
    have ai: "unat (a + i) = unat a + unat i" using less.prems(2) s(3) by (subst unat_add) simp_all
    have w: "?b \<noteq> None" using less.prems(1) by (simp only: write_bytes_Some not_False_eq_True)
    have step: "fill_chunks api rnd k a len i b = fill_chunks api rnd (Suc k) a len (i + n) ?b"
      using True by (subst fill_chunks.simps) (simp add: n_def Let_def)
    have b1: "byte_in peek ?b x = (if unat a + unat i \<le> unat x \<and> unat x < unat a + unat i + unat n
        then rnd k (unat n) ! (unat x - (unat a + unat i)) else byte_in peek b x)"
      using written_byte [OF ram less.prems(1), of "a + i" "rnd k (unat n)" x] s less.prems(2) by (simp add: ai rnd)
    have ih: "byte_in peek (fill_chunks api rnd (Suc k) a len (i + n) ?b) x =
      (if unat a + unat (i + n) \<le> unat x \<and> unat x < unat a + unat len
       then random_bytes rnd (Suc k) (unat len - unat (i + n)) ! (unat x - (unat a + unat (i + n))) else byte_in peek ?b x)"
      by (rule less.hyps [OF _ w less.prems(2)]) (use s in auto)
    have m: "min (unat len - unat i) 512 = unat n" using s(1) by simp
    have r: "random_bytes rnd k (unat len - unat i) = rnd k (unat n) @ random_bytes rnd (Suc k) (unat len - unat (i + n))"
      using s by (subst random_bytes.simps) (simp only: m, simp)
    show ?thesis unfolding step ih r b1 using s(1,2) by (auto simp: nth_append rnd add.assoc)
  qed
qed

text \<open>C39: Every call for random numbers fills the guest's buffer, of any size, with the bytes of the host's generator in their order and changes nothing else.\<close>

theorem fill_random_fills:
  assumes ram: "flat_ram api peek" and rnd: "\<And>k n. length (rnd k n) = n" and b: "b \<noteq> None"
    and fits: "unat a + unat len \<le> 2 ^ 32" and a: "a \<noteq> 0"
  shows "(\<forall>i < unat len. byte_in peek (wg_fill_random api rnd a len b) (ucast a + of_nat i) = random_bytes rnd 0 (unat len) ! i) \<and>
    (\<forall>x. unat x < unat a \<or> unat a + unat len \<le> unat x \<longrightarrow> byte_in peek (wg_fill_random api rnd a len b) x = byte_in peek b x)"
proof (cases "len = 0")
  case True
  then show ?thesis by (simp add: wg_fill_random_def)
next
  case False
  then have f: "wg_fill_random api rnd a len b = fill_chunks api rnd 0 a len 0 b" using a by (simp add: wg_fill_random_def)
  have g: "byte_in peek (fill_chunks api rnd 0 a len 0 b) x =
      (if unat a \<le> unat x \<and> unat x < unat a + unat len then random_bytes rnd 0 (unat len) ! (unat x - unat a) else byte_in peek b x)" for x
    using fill_chunks_byte [OF ram rnd b fits, where i = 0 and k = 0 and x = x] by simp
  have "unat (ucast a + of_nat i :: u64) = unat a + i" if "i < unat len" for i
    by (rule unat_up_add) (use that fits in simp)
  then show ?thesis unfolding f g by auto
qed

section \<open>Arrays of words\<close>

lemma word_at: "flat_ram api peek \<Longrightarrow> b \<noteq> None \<Longrightarrow> bytes_at peek b a (le_bytes 4 w) \<Longrightarrow> read32 api (ucast a) b = w"
  using read_at_exact [of api peek b a "le_bytes 4 w" "le_bytes 4 (0 :: u32)"]
  by (simp add: read32_def length_le_bytes le_word_le_bytes_full)

lemma length_words: "length (concat (map (le_bytes 4) ws)) = 4 * length ws"
  by (induction ws) (simp_all add: length_le_bytes)

lemma words_at:
  assumes "flat_ram api peek" and "b \<noteq> None" and "bytes_at peek b a (concat (map (le_bytes 4) ws))" and "i < length ws"
    and "unat a + 4 * length ws < 2 ^ 32"
  shows "read32 api (ucast (a + of_nat (4 * i))) b = ws ! i"
proof -
  have "concat (map (le_bytes 4) ws) = concat (map (le_bytes 4) (take i ws)) @ le_bytes 4 (ws ! i) @ concat (map (le_bytes 4) (drop (Suc i) ws))"
    by (subst id_take_nth_drop [OF assms(4)]) simp
  with assms(3) have s: "bytes_at peek b a (concat (map (le_bytes 4) (take i ws)) @ le_bytes 4 (ws ! i) @ concat (map (le_bytes 4) (drop (Suc i) ws)))"
    by simp
  have l: "length (concat (map (le_bytes 4) (take i ws))) = 4 * i" using assms(4) by (simp only: length_words length_take min_absorb2 less_imp_le)
  have "unat a + 4 * i < 2 ^ 32" using assms(4,5) by simp
  with bytes_at_append(2) [OF s] have n: "bytes_at peek b (a + of_nat (4 * i)) (le_bytes 4 (ws ! i) @ concat (map (le_bytes 4) (drop (Suc i) ws)))"
    by (simp only: l)
  have "unat (of_nat k :: u32) = k" if "k < 2 ^ 32" for k using that by (simp add: unat_of_nat)
  from this [of "4 * i"] have u: "unat (of_nat (4 * i) :: u32) = 4 * i" using assms(4,5) by linarith
  then have "unat (a + of_nat (4 * i)) = unat a + 4 * i"
    using assms(4,5) unat_add [of a "of_nat (4 * i)"] by linarith
  then have "unat (a + of_nat (4 * i)) + length (le_bytes 4 (ws ! i)) < 2 ^ 32" using assms(4,5) by (simp add: length_le_bytes)
  from word_at [OF assms(1,2) bytes_at_append(1) [OF n this]] show ?thesis .
qed

section \<open>The objects for shortcuts\<close>

text \<open>What the interfaces \<open>IShellLinkW\<close> and \<open>IPersistFile\<close> have as numbers of arguments of their methods.\<close>

definition shell_link_args :: "int list" where
  "shell_link_args = [3, 1, 1, 5, 2, 2, 3, 2, 3, 2, 3, 2, 2, 2, 2, 2, 4, 3, 3, 3, 2]"

definition persist_file_args :: "int list" where
  "persist_file_args = [3, 1, 1, 2, 1, 3, 3, 2, 2]"

text \<open>The address is that of a stub, which pops so many arguments.\<close>

definition callable :: "mapper \<Rightarrow> u32 \<Rightarrow> int \<Rightarrow> bool" where
  "callable m a n \<longleftrightarrow> (\<exists>d. List.find (\<lambda>d. thunk_addr d = ucast a) (dlls m) = Some d \<and> num_args d = n)"

text \<open>An object whose table at the start of it holds such methods.\<close>

definition com_object :: "'m guest_api \<Rightarrow> mapper \<Rightarrow> 'm blink \<Rightarrow> u32 \<Rightarrow> int list \<Rightarrow> bool" where
  "com_object api m b p ns \<longleftrightarrow>
     (let vt = read32 api (ucast p) b in \<forall>i < length ns. callable m (read32 api (ucast (vt + of_nat (4 * i))) b) (ns ! i))"

lemma find_append_None: "List.find P xs = None \<Longrightarrow> List.find P (xs @ ys) = List.find P ys"
  by (induction xs) (auto split: if_splits)

lemma methods_registered:
  assumes qi: "com_qi s = 0" and room: "length (dlls m) + 6 \<le> capacity m" and top: "unat (next_thunk m) + 48 \<le> 2 ^ 32"
    and old: "\<forall>d \<in> set (dlls m). unat (thunk_addr d) < unat (next_thunk m)" and r: "register_methods s m = (s', m')"
  shows "callable m' (com_qi s') 3 \<and> callable m' (com_a1 s') 1 \<and> callable m' (com_a2 s') 2 \<and> callable m' (com_a3 s') 3 \<and>
    callable m' (com_a4 s') 4 \<and> callable m' (com_a5 s') 5 \<and> com_shelllink s' = com_shelllink s \<and>
    (next_thunk m \<noteq> 0 \<longrightarrow> com_qi s' \<noteq> 0)"
proof -
  let ?t = "next_thunk m"
  have u: "ucast (ucast (?t + of_nat k) :: u32) = ?t + of_nat k \<and> unat (?t + of_nat k) = unat ?t + k" if "k < 48" for k
  proof -
    have l: "unat (?t + of_nat k) = unat ?t + k" using that top by (simp add: unat_word_ariths unat_of_nat)
    have "unat (ucast (ucast (?t + of_nat k) :: u32) :: u64) = unat (?t + of_nat k)"
      using that top l by (simp add: unat_ucast_up unsigned_ucast_eq take_bit_eq_mod unat_mod)
    then have "(ucast (ucast (?t + of_nat k) :: u32) :: u64) = ?t + of_nat k" by (rule unsigned_word_eqI)
    then show ?thesis using l by blast
  qed
  have none: "List.find (\<lambda>d. thunk_addr d = ?t + of_nat k) (dlls m) = None" if "k < 48" for k
    using old u [OF that] by (force simp: find_None_iff)
  have d: "dlls m' = dlls m @ [new_stub ?t ''COM'' ''__comQI'' None 3, new_stub (?t + 8) ''COM'' ''__comA1'' None 1,
      new_stub (?t + 16) ''COM'' ''__comA2'' None 2, new_stub (?t + 24) ''COM'' ''__comA3'' None 3,
      new_stub (?t + 32) ''COM'' ''__comA4'' None 4, new_stub (?t + 40) ''COM'' ''__comA5'' None 5]"
    and s': "com_qi s' = ucast ?t" "com_a1 s' = ucast (?t + 8)" "com_a2 s' = ucast (?t + 16)" "com_a3 s' = ucast (?t + 24)"
      "com_a4 s' = ucast (?t + 32)" "com_a5 s' = ucast (?t + 40)" "com_shelllink s' = com_shelllink s"
    using r room qi by (auto simp: register_methods_def wg_dll_mapper_register_def Let_def add.assoc)
  show ?thesis
    using u [of 0, simplified] none [of 0] none [of 8] none [of 16] none [of 24] none [of 32] none [of 40]
      u [of 0] u [of 8] u [of 16] u [of 24] u [of 32] u [of 40]
    by (auto simp: callable_def d s' find_append_None new_stub_def)
qed

lemma bytes_at_write32:
  assumes "flat_ram api peek" and "b \<noteq> None" and "bytes_at peek b a bs" and "length bs \<le> 2 ^ 32"
    and "unat a + length bs \<le> unat c \<or> unat c + 4 \<le> unat a"
  shows "bytes_at peek (write32 api c v b) a bs"
  unfolding write32_def by (rule bytes_at_other [OF assms(1-4)]) (use assms(5) in \<open>simp_all add: length_le_bytes\<close>)

lemma array_object:
  assumes ram: "flat_ram api peek" and b: "b \<noteq> None" and p: "bytes_at peek b p (le_bytes 4 vt)"
    and vt: "bytes_at peek b vt bs" "bs = concat (map (le_bytes 4) ws)" and fits: "unat vt + 4 * length ws < 2 ^ 32"
    and ok: "list_all2 (callable m) ws ns"
  shows "com_object api m b p ns"
proof -
  have "read32 api (ucast (vt + of_nat (4 * i))) b = ws ! i" if "i < length ns" for i
    using words_at [OF ram b vt(1) [unfolded vt(2)] _ fits] that list_all2_lengthD [OF ok] by simp
  then show ?thesis using word_at [OF ram b p] list_all2_nthD2 [OF ok] by (simp add: com_object_def Let_def)
qed

lemma alloc_page:
  assumes h: "heap_at e t" and n: "0 < unat n" "unat n \<le> 4096" and room: "t + 4096 < 2 ^ 32"
    and r: "wg_guest_alloc api n e b = (a, e', b')" and u: "u = t + 4096"
  shows "unat a = t \<and> heap_at e' u \<and> (b' \<noteq> None \<longleftrightarrow> b \<noteq> None)"
proof -
  have pr: "page_round (unat n) = 4096" using n by (simp add: page_round_def)
  have "n \<noteq> 0" "unat n \<le> 512 * 1024 * 1024" using n by auto
  note g = guest_alloc_spec [OF h this _ r]
  show ?thesis using g(1,2) alloc_keeps(2) [OF r] room unfolding pr u by blast
qed

text \<open>C13: The first CoCreateInstance gives a guest whose pointer is outside the four new heap pages an object whose methods are stubs popping the arguments of IShellLinkW, and its QueryInterface one with those of IPersistFile; later calls give the same object. The mapper has room for the six stubs.\<close>

theorem com_objects_callable:
  assumes ram: "flat_ram api peek" and b: "b \<noteq> None" and h: "heap_at e t" and t: "t + 20480 \<le> 2 ^ 32" "0 < t"
    and fresh: "com_qi s = 0" "com_shelllink s = 0" and cap: "length (dlls m) + 6 \<le> capacity m"
    and top: "unat (next_thunk m) + 48 \<le> 2 ^ 32" "next_thunk m \<noteq> 0"
    and old: "\<forall>d \<in> set (dlls m). unat (thunk_addr d) < unat (next_thunk m)"
    and ppv: "ppv \<noteq> 0" "off_pages t (4 * 4096) ppv 4" and ppv': "ppv' \<noteq> 0" "off_pages t (4 * 4096) ppv' 4"
    and c: "h_CoCreateInstance api [clsid, outer, ctx, riid, ppv] s m e b = (r, s', m', e', b1)"
    and q: "h_comQI api [this, riid', ppv'] s' b1 = (r', b2)"
  shows "r = 0 \<and> com_object api m' b1 (read32 api (ucast ppv) b1) shell_link_args \<and>
    r' = 0 \<and> com_object api m' b2 (read32 api (ucast ppv') b2) persist_file_args \<and>
    (\<forall>clsid2 outer2 ctx2 riid2 ppv2 m2 e2 b3. ppv2 \<noteq> 0 \<longrightarrow>
       h_CoCreateInstance api [clsid2, outer2, ctx2, riid2, ppv2] s' m2 e2 b3 =
         (0, s', m2, e2\<lparr>last_error := 0\<rparr>, write32 api ppv2 (read32 api (ucast ppv) b1) b3))"
proof -
  obtain s0 where reg: "register_methods s m = (s0, m')" and s0: "com_shelllink s0 = 0"
    using c fresh(2) methods_registered [OF fresh(1) cap top(1) old]
    by (auto simp: h_CoCreateInstance_def wg_build_fake_com_def Let_def split: prod.splits if_splits)
  note calls = methods_registered [OF fresh(1) cap top(1) old reg]
  obtain slv e1 v1 where a1: "wg_guest_alloc api 84 e b = (slv, e1, v1)" by (metis prod_cases3)
  obtain pfv e2 v2 where a2: "wg_guest_alloc api 36 e1 v1 = (pfv, e2, v2)" by (metis prod_cases3)
  obtain link e3 v3 where a3: "wg_guest_alloc api 8 e2 v2 = (link, e3, v3)" by (metis prod_cases3)
  obtain pers e4 v4 where a4: "wg_guest_alloc api 8 e3 v3 = (pers, e4, v4)" by (metis prod_cases3)
  have p1: "unat slv = t \<and> heap_at e1 (t + 4096) \<and> v1 \<noteq> None" using alloc_page [OF h _ _ _ a1, of "t + 4096"] t(1) b by simp
  have p2: "unat pfv = t + 4096 \<and> heap_at e2 (t + 8192) \<and> v2 \<noteq> None" using alloc_page [OF _ _ _ _ a2, of "t + 4096" "t + 8192"] p1 t(1) by simp
  have p3: "unat link = t + 8192 \<and> heap_at e3 (t + 12288) \<and> v3 \<noteq> None" using alloc_page [OF _ _ _ _ a3, of "t + 8192" "t + 12288"] p2 t(1) by simp
  have p4: "unat pers = t + 12288 \<and> v4 \<noteq> None" using alloc_page [OF _ _ _ _ a4, of "t + 12288" "t + 16384"] p3 t(1) by simp
  define sl where "sl = concat (map (le_bytes 4) (shell_link_vtable s0))"
  define pf where "pf = concat (map (le_bytes 4) (persist_file_vtable s0))"
  have len: "length sl = 84" "length pf = 36" by (simp_all add: sl_def pf_def length_words shell_link_vtable_def persist_file_vtable_def)
  let ?w1 = "write_bytes api slv sl v4"
  let ?w2 = "write_bytes api pfv pf ?w1"
  let ?w3 = "write32 api link slv ?w2"
  let ?w4 = "write32 api pers pfv ?w3"
  let ?b1 = "write32 api ppv link ?w4"
  let ?b2 = "write32 api ppv' pers ?b1"
  have w: "?w1 \<noteq> None" "?w2 \<noteq> None" "?w3 \<noteq> None" "?w4 \<noteq> None" "?b1 \<noteq> None" "?b2 \<noteq> None"
    using p4 by (simp_all only: write32_Some write_bytes_Some not_False_eq_True)
  have nz: "link \<noteq> 0" "pers \<noteq> 0" using p3 p4 by auto
  have e: "r = 0" "b1 = ?b1" "com_persistfile s' = pers" "com_shelllink s' = link" "com_qi s' = com_qi s0"
    using c reg s0 a1 a2 a3 a4 nz ppv(1) by (auto simp: h_CoCreateInstance_def wg_build_fake_com_def Let_def sl_def pf_def)
  have e2: "r' = 0" "b2 = ?b2" using q ppv'(1) e by (simp_all add: h_comQI_def)
  have out: "unat ppv + 4 \<le> t \<or> t + 16384 \<le> unat ppv" "unat ppv' + 4 \<le> t \<or> t + 16384 \<le> unat ppv'"
    using ppv(2) ppv'(2) by (auto simp: off_pages_def)
  note at = p1 p2 p3 p4 len t
  have le4: "length (le_bytes 4 x) = 4" for x :: u32 by (simp add: length_le_bytes)
  have "bytes_at peek ?w1 slv sl" by (rule bytes_at_write [OF ram]) (use p4 len in simp_all)
  then have "bytes_at peek ?w2 slv sl" by (rule bytes_at_other [OF ram w(1)]) (use at in simp_all)
  then have "bytes_at peek ?w3 slv sl" by (rule bytes_at_write32 [OF ram w(2)]) (use at in simp_all)
  then have "bytes_at peek ?w4 slv sl" by (rule bytes_at_write32 [OF ram w(3)]) (use at in simp_all)
  then have sl: "bytes_at peek ?b1 slv sl" by (rule bytes_at_write32 [OF ram w(4)]) (use at out in auto)
  have "bytes_at peek ?w2 pfv pf" by (rule bytes_at_write [OF ram w(1)]) (use len in simp)
  then have "bytes_at peek ?w3 pfv pf" by (rule bytes_at_write32 [OF ram w(2)]) (use at in simp_all)
  then have "bytes_at peek ?w4 pfv pf" by (rule bytes_at_write32 [OF ram w(3)]) (use at in simp_all)
  then have "bytes_at peek ?b1 pfv pf" by (rule bytes_at_write32 [OF ram w(4)]) (use at out in auto)
  then have pf: "bytes_at peek ?b2 pfv pf" by (rule bytes_at_write32 [OF ram w(5)]) (use at out in auto)
  have "bytes_at peek ?w3 link (le_bytes 4 slv)" unfolding write32_def by (rule bytes_at_write [OF ram w(2)]) (simp add: le4)
  then have "bytes_at peek ?w4 link (le_bytes 4 slv)" by (rule bytes_at_write32 [OF ram w(3)]) (use at in \<open>simp_all add: le4\<close>)
  then have link: "bytes_at peek ?b1 link (le_bytes 4 slv)" by (rule bytes_at_write32 [OF ram w(4)]) (use at out in \<open>auto simp: le4\<close>)
  have "bytes_at peek ?w4 pers (le_bytes 4 pfv)" unfolding write32_def [of api pers] by (rule bytes_at_write [OF ram w(3)]) (simp add: le4)
  then have "bytes_at peek ?b1 pers (le_bytes 4 pfv)" by (rule bytes_at_write32 [OF ram w(4)]) (use at out in \<open>auto simp: le4\<close>)
  then have pers: "bytes_at peek ?b2 pers (le_bytes 4 pfv)" by (rule bytes_at_write32 [OF ram w(5)]) (use at out in \<open>auto simp: le4\<close>)
  have "list_all2 (callable m') (shell_link_vtable s0) shell_link_args" "list_all2 (callable m') (persist_file_vtable s0) persist_file_args"
    using calls by (simp_all add: shell_link_vtable_def shell_link_args_def persist_file_vtable_def persist_file_args_def)
  moreover have "unat slv + 4 * length (shell_link_vtable s0) < 2 ^ 32" "unat pfv + 4 * length (persist_file_vtable s0) < 2 ^ 32"
    using at by (simp_all add: shell_link_vtable_def persist_file_vtable_def)
  ultimately have "com_object api m' ?b1 link shell_link_args" "com_object api m' ?b2 pers persist_file_args"
    using array_object [OF ram w(5) link sl sl_def] array_object [OF ram w(6) pers pf pf_def] by blast+
  moreover have "read32 api (ucast ppv) ?b1 = link" "read32 api (ucast ppv') ?b2 = pers" by (rule read32_write32(1) [OF ram w(4)], rule read32_write32(1) [OF ram w(5)])
  moreover have "h_CoCreateInstance api [clsid2, outer2, ctx2, riid2, ppv2] s' m2 e3 b3 =
      (0, s', m2, e3\<lparr>last_error := 0\<rparr>, write32 api ppv2 link b3)" if "ppv2 \<noteq> 0" for clsid2 outer2 ctx2 riid2 ppv2 m2 e3 b3
  proof -
    have "com_qi s' \<noteq> 0" "com_shelllink s' \<noteq> 0" using calls top(2) e(4,5) nz by auto
    then show ?thesis using that e(4) by (simp add: h_CoCreateInstance_def wg_build_fake_com_def register_methods_def)
  qed
  ultimately show ?thesis unfolding e(1,2) e2 by simp
qed

section \<open>Replies, clock and launches\<close>

text \<open>Asked without a buffer for the size, and then with a buffer of that size, a call of IPHLPAPI puts its reply there.\<close>

lemma sized_reply_protocol:
  assumes ram: "flat_ram api peek" and b: "b \<noteq> None" and p: "szp \<noteq> 0" "buf \<noteq> 0" and n: "length reply < 2 ^ 32"
    and apart: "unat szp + 4 \<le> unat buf \<or> unat buf + length reply \<le> unat szp"
    and c1: "sized_reply api szp 0 reply b = (r1, b1)" and c2: "sized_reply api szp buf reply b1 = (r2, b2)"
  shows "r1 = 111 \<and> r2 = 0 \<and> read32 api (ucast szp) b1 = of_nat (length reply) \<and> bytes_at peek b2 buf reply"
proof -
  have e1: "r1 = 111" "b1 = write32 api szp (of_nat (length reply)) b" using c1 p by (simp_all add: sized_reply_def)
  have rd: "read32 api (ucast szp) b1 = of_nat (length reply)" unfolding e1 by (rule read32_write32(1) [OF ram b])
  have w: "b1 \<noteq> None" "write_bytes api buf reply b1 \<noteq> None" unfolding e1 using b by (simp_all only: write_bytes_Some write32_Some not_False_eq_True)
  have e2: "r2 = 0" "b2 = write32 api szp (of_nat (length reply)) (write_bytes api buf reply b1)"
    using c2 p rd by (simp_all add: sized_reply_def Let_def)
  have "bytes_at peek (write_bytes api buf reply b1) buf reply" by (rule bytes_at_write [OF ram w(1) n])
  then have "bytes_at peek b2 buf reply" unfolding e2
    by (rule bytes_at_write32 [OF ram w(2)]) (use n apart in auto)
  then show ?thesis using e1 e2 rd by simp
qed

text \<open>The clock is seeded once: an odd count of ticks stays odd, so it is never 0 again.\<close>

lemma ticks_stay:
  assumes "odd (unat (sys_tick s))"
  shows "h_GetTickCount now s = (ucast (sys_tick s), s\<lparr>sys_tick := sys_tick s + 16\<rparr>) \<and> odd (unat (sys_tick s + 16))"
proof -
  have "sys_tick s \<noteq> 0" using assms by auto
  moreover have "odd (unat (sys_tick s + 16))" using assms by (simp add: unat_word_ariths dvd_mod_iff)
  ultimately show ?thesis by (simp add: h_GetTickCount_def Let_def)
qed

text \<open>An overlapped \<open>WSARecvFrom\<close> takes the sixth argument, where the sender's address is to go, for the
  \<open>OVERLAPPED\<close>, and writes the count over the address that the handler has put there.\<close>

lemma recvfrom_clobbers:
  assumes ram: "flat_ram api peek" and b: "b \<noteq> None" and a: "args ! 5 \<noteq> 0" "args ! 3 \<noteq> 0" "unat (args ! 5) + 8 \<le> 2 ^ 32"
  shows "\<exists>e' b'. ws_complete api set_err ''WSARecvFrom'' args 0 ws e b = (0xFFFFFFFF, set_err 997 ws, e', b') \<and>
    read32 api (ucast (args ! 5)) b' = 0 \<and> read32 api (ucast (args ! 5 + 4)) b' = read32 api (ucast (args ! 3)) b"
proof -
  let ?o = "args ! 5"
  have w: "write32 api ?o 0 b \<noteq> None" using b by (simp only: write32_Some not_False_eq_True)
  have "unat (?o + 4) = unat ?o + 4" using a(3) by (simp add: unat_word_ariths)
  then have ap: "words_apart ?o (?o + 4)" by (simp add: words_apart_def)
  have "read32 api (ucast ?o) (write32 api (?o + 4) n (write32 api ?o 0 b)) = 0" for n
    using read32_write32(2) [OF ram w ap] read32_write32(1) [OF ram b] by simp
  moreover have "read32 api (ucast (?o + 4)) (write32 api (?o + 4) n (write32 api ?o 0 b)) = n" for n
    by (rule read32_write32(1) [OF ram w])
  ultimately show ?thesis using a by (simp add: ws_complete_def complete_now_def Let_def)
qed

text \<open>A quoted path that ends with the program's name, where the name is not met before, is the path that is launched.\<close>

lemma launch_path_upto:
  assumes "CHR 0x22 \<notin> set cs" and "length (acc @ cs) \<le> 511"
    and "\<forall>k. 0 < k \<and> k \<le> length cs \<and> 9 \<le> length acc + k \<longrightarrow>
           (strcaseeq (drop (length acc + k - 9) (acc @ take k cs)) ''steam.exe'' \<longleftrightarrow> k = length cs)"
    and "cs \<noteq> []" and "9 \<le> length (acc @ cs)"
  shows "launch_path acc (cs @ rest) = acc @ cs"
  using assms
proof (induction cs arbitrary: acc)
  case (Cons c cs)
  have first: "strcaseeq (drop (length acc + 1 - 9) (acc @ [c])) ''steam.exe'' \<longleftrightarrow> cs = []" if "9 \<le> length acc + 1"
    using Cons.prems(3) [rule_format, of 1] that by auto
  show ?case
  proof (cases "cs = []")
    case True
    then show ?thesis using Cons.prems(1,2,5) first by (auto simp: Let_def)
  next
    case False
    have "launch_path (acc @ [c]) (cs @ rest) = (acc @ [c]) @ cs"
    proof (rule Cons.IH)
      show "\<forall>k. 0 < k \<and> k \<le> length cs \<and> 9 \<le> length (acc @ [c]) + k \<longrightarrow>
          (strcaseeq (drop (length (acc @ [c]) + k - 9) ((acc @ [c]) @ take k cs)) ''steam.exe'' \<longleftrightarrow> k = length cs)"
      proof (intro allI impI)
        fix k assume k: "0 < k \<and> k \<le> length cs \<and> 9 \<le> length (acc @ [c]) + k"
        then show "strcaseeq (drop (length (acc @ [c]) + k - 9) ((acc @ [c]) @ take k cs)) ''steam.exe'' \<longleftrightarrow> k = length cs"
          using Cons.prems(3) [rule_format, of "Suc k"] by auto
      qed
    qed (use Cons.prems False in auto)
    then show ?thesis using Cons.prems(1,2) first False by (auto simp: Let_def)
  qed
qed simp

end
