(* ===== verification/NsisExtract.thy ===== *)
theory NsisExtract
  imports Files
begin

text \<open>
  The extraction of an NSIS installer's data, \<open>Sources/Win32/wg_nsis_extract.c\<close>. The one call of the LZMA
  SDK, \<open>LzmaDecode\<close>, is the argument \<open>lzma\<close>: it takes the five property bytes, the packed bytes and the
  size of the output buffer, and gives the bytes it has unpacked, or None when it fails. \<open>ok\<close> says whether
  \<open>malloc\<close> of a size succeeds.
\<close>

section \<open>Locating the data\<close>

definition NSIS_MAGIC :: "u8 list" where
  "NSIS_MAGIC = map of_char ''NullsoftInst''"

lemma length_magic [simp]: "length NSIS_MAGIC = 12"
  by (simp add: NSIS_MAGIC_def)

text \<open>The offset of the first marker that has at least five bytes behind it.\<close>

function find_magic :: "u8 list \<Rightarrow> nat option" where
  "find_magic bs =
     (if length bs \<le> 16 then None
      else if take 12 bs = NSIS_MAGIC then Some 0
      else map_option Suc (find_magic (tl bs)))"
  by pat_completeness auto
termination by (relation "measure length") auto

declare find_magic.simps [simp del]

definition PREFILL_CAP :: nat where "PREFILL_CAP = 64 * 1024 * 1024"

text \<open>The properties and the packed bytes; \<open>None\<close> in the inner option when there are fewer than six.
  The length behind the marker is read without a check of the file's size.\<close>

definition nsis_stream :: "u8 list \<Rightarrow> nat \<Rightarrow> (u8 list \<times> u8 list) option ub" where
  "nsis_stream bs i = do {
     guard (i + 20 \<le> length bs);
     let len_all = (le_word (take 4 (drop (i + 16) bs)) :: u32);
     let ds = i + 20;
     let len_all = (if length bs < ds + unat len_all then of_nat (length bs - ds) else len_all);
     Some (if len_all < 6 then None
           else Some (take 5 (drop ds bs), take (unat (len_all - 5)) (drop (ds + 5) bs)))
   }"

section \<open>The prefill\<close>

definition wg_nsis_prefill_datatmp ::
    "(u8 list \<Rightarrow> u8 list \<Rightarrow> nat \<Rightarrow> u8 list option) \<Rightarrow> (nat \<Rightarrow> bool) \<Rightarrow> string \<Rightarrow> string \<Rightarrow> disk \<Rightarrow> (bool \<times> disk) ub" where
  "wg_nsis_prefill_datatmp lzma ok exe out d =
     (case contents d exe of
        None \<Rightarrow> Some (False, d)
      | Some bs \<Rightarrow>
          if bs = [] \<or> \<not> ok (length bs) then Some (False, d)
          else case find_magic bs of
            None \<Rightarrow> Some (False, d)
          | Some i \<Rightarrow> do {
              s \<leftarrow> nsis_stream bs i;
              Some (case s of
                 None \<Rightarrow> (False, d)
               | Some (props, packed) \<Rightarrow>
                   if \<not> ok PREFILL_CAP then (False, d)
                   else case lzma props packed PREFILL_CAP of
                     None \<Rightarrow> (False, d)
                   | Some dest \<Rightarrow>
                       if dest = [] then (False, d)
                       else case fopen d out WB of
                         (None, d) \<Rightarrow> (False, d)
                       | (Some f, d) \<Rightarrow> let (wrote, f, d) = fwrite d f dest in (wrote = length dest, d))
            })"

section \<open>Properties\<close>

lemma find_magic_Some:
  "find_magic bs = Some i \<longleftrightarrow>
     i + 16 < length bs \<and> take 12 (drop i bs) = NSIS_MAGIC \<and> (\<forall>k < i. take 12 (drop k bs) \<noteq> NSIS_MAGIC)"
proof (induction bs arbitrary: i rule: find_magic.induct)
  case (1 bs)
  show ?case
  proof (cases "length bs \<le> 16 \<or> take 12 bs = NSIS_MAGIC")
    case True
    then show ?thesis by (subst find_magic.simps) (auto intro: gr0I)
  next
    case False
    then have f: "find_magic bs = map_option Suc (find_magic (tl bs))" by (subst find_magic.simps) simp
    show ?thesis
    proof (cases i)
      case 0
      then show ?thesis using False f by auto
    next
      case (Suc j)
      have "(\<forall>k < Suc j. take 12 (drop k bs) \<noteq> NSIS_MAGIC) \<longleftrightarrow> (\<forall>k < j. take 12 (drop k (tl bs)) \<noteq> NSIS_MAGIC)"
        using False by (simp add: All_less_Suc2 drop_Suc)
      moreover have "j + 16 < length (tl bs) \<longleftrightarrow> Suc j + 16 < length bs" by auto
      ultimately show ?thesis using 1 [of j] False by (simp add: f Suc drop_Suc)
    qed
  qed
qed

text \<open>The stream of a well-formed file is found, whatever follows it.\<close>

lemma stream_found:
  assumes "5 < length (props @ packed)" and "length props = 5" and "length (props @ packed) < 2 ^ 32" and "length hd4 = 4"
    and "bs = pre @ NSIS_MAGIC @ hd4 @ le_bytes 4 (of_nat (length (props @ packed)) :: u32) @ props @ packed @ post"
  shows "nsis_stream bs (length pre) = Some (Some (props, packed))"
proof -
  let ?n = "of_nat (length (props @ packed)) :: u32"
  have nat_u: "unat (of_nat k :: u32) = k" if "k < 2 ^ 32" for k using that by (simp add: unat_of_nat)
  from this [OF assms(3)] have u: "unat ?n = length (props @ packed)" .
  have d: "drop (length pre + 16) bs = le_bytes 4 ?n @ props @ packed @ post"
    using assms(4) by (simp add: assms(5))
  have d2: "drop (length pre + 20) bs = props @ packed @ post"
    using arg_cong [OF d, of "drop 4"] by (simp add: length_le_bytes add.commute)
  have d3: "drop (length pre + 20 + 5) bs = packed @ post"
    using arg_cong [OF d2, of "drop 5"] assms(2) by (simp add: add.commute)
  have l: "length bs = length pre + 20 + length (props @ packed) + length post"
    using assms(4) by (simp add: assms(5) length_le_bytes)
  have le: "le_word (take 4 (drop (length pre + 16) bs)) = ?n"
    unfolding d by (simp add: length_le_bytes le_word_le_bytes_full)
  have "?n - 5 = of_nat (length packed)" "length packed < 2 ^ 32" using assms(2,3) by simp_all
  then have "unat (?n - 5) = length packed" using nat_u by (simp only:)
  moreover have "\<not> ?n < 6" using u assms(1) by (simp add: word_less_nat_alt)
  ultimately show ?thesis
    using l u assms(2) unfolding nsis_stream_def Let_def le d2 d3 by simp
qed

text \<open>C21: An installer whose first NSIS marker is followed by the length of an LZMA stream and the stream itself, and by anything else, is unpacked to the output file; all other files stay.\<close>

theorem prefill_writes:
  assumes f: "contents d exe = Some bs"
    and bs: "bs = pre @ NSIS_MAGIC @ hd4 @ le_bytes 4 (of_nat (length (props @ packed)) :: u32) @ props @ packed @ post"
    and first: "\<forall>k < length pre. take 12 (drop k bs) \<noteq> NSIS_MAGIC"
    and len: "length hd4 = 4" "length props = 5" "packed \<noteq> []" "length (props @ packed) < 2 ^ 32"
    and lz: "lzma props packed PREFILL_CAP = Some dest" "dest \<noteq> []" and ok: "ok (length bs)" "ok PREFILL_CAP"
    and out: "contents d out \<noteq> None \<or> may_create d out"
  shows "\<exists>d'. wg_nsis_prefill_datatmp lzma ok exe out d = Some (True, d') \<and>
    contents d' = (contents d)(out := Some dest) \<and> dirs d' = dirs d"
proof -
  have "length pre + 16 < length bs" using len(1) by (simp add: bs length_le_bytes)
  moreover have "take 12 (drop (length pre) bs) = NSIS_MAGIC" by (simp add: bs)
  ultimately have at: "find_magic bs = Some (length pre)" using first by (simp add: find_magic_Some)
  have "nsis_stream bs (length pre) = Some (Some (props, packed))"
    by (rule stream_found [OF _ len(2,4,1) bs]) (use len(2,3) in simp)
  moreover have "bs \<noteq> []" using length_magic by (auto simp: bs simp del: length_magic)
  moreover obtain st where "fopen d out WB = (Some st, d\<lparr>contents := (contents d)(out := Some [])\<rparr>)"
    "can_write st" "\<not> appends st" "st_pos st = 0" "st_path st = out"
    using out by (cases "contents d out") (auto simp: fopen_def mk_stream_def)
  ultimately show ?thesis using f at lz ok
    by (auto simp: wg_nsis_prefill_datatmp_def fwrite_def file_data_def put_bytes_def)
qed

text \<open>The length behind the marker is read past the end of the file just when the first marker has five
  to seven bytes behind it.\<close>

lemma prefill_undefined:
  "wg_nsis_prefill_datatmp lzma ok exe out d = None \<longleftrightarrow>
     (\<exists>bs i. contents d exe = Some bs \<and> ok (length bs) \<and> find_magic bs = Some i \<and> length bs < i + 20)"
proof (cases "contents d exe")
  case (Some bs)
  have s: "nsis_stream bs i = None \<longleftrightarrow> length bs < i + 20" for i by (auto simp: nsis_stream_def Let_def guard_def)
  show ?thesis
  proof (cases "bs = [] \<or> \<not> ok (length bs)")
    case True
    then show ?thesis using Some by (auto simp: wg_nsis_prefill_datatmp_def find_magic_Some)
  next
    case False
    show ?thesis
    proof (cases "find_magic bs")
      case (Some i)
      have "wg_nsis_prefill_datatmp lzma ok exe out d = None \<longleftrightarrow> nsis_stream bs i = None"
        using False Some \<open>contents d exe = Some bs\<close> by (simp add: wg_nsis_prefill_datatmp_def split: Option.bind_splits)
      then show ?thesis using False Some \<open>contents d exe = Some bs\<close> s by simp
    qed (use False Some in \<open>simp add: wg_nsis_prefill_datatmp_def\<close>)
  qed
qed (simp add: wg_nsis_prefill_datatmp_def)

text \<open>An installer that ends five bytes behind its marker.\<close>

lemma prefill_overread:
  "wg_nsis_prefill_datatmp lzma (\<lambda>_. True) ''setup.exe'' out
     (d\<lparr>contents := [''setup.exe'' \<mapsto> NSIS_MAGIC @ replicate 5 0]\<rparr>) = None"
  unfolding prefill_undefined by (simp add: find_magic_Some NSIS_MAGIC_def)

end
