(* ===== verification/PluginProperties.thy ===== *)
theory PluginProperties
  imports GuestProperties EngineSystemOk NsisExtract
begin

text \<open>
  The installer's stack, the objects for shortcuts, the random numbers and the prefill at concrete inputs.
\<close>

section \<open>The stack of the installer\<close>

text \<open>The stack pointer at 0x7000 points to a node at 0x10000 that holds the string \<open>a\<close>.\<close>

definition stack_texts :: "u64 \<Rightarrow> u8" where
  "stack_texts x = (if x = 0x7002 then 1 else if x = 0x10004 then 0x61 else 0)"

definition stack_vm :: "(u64 \<Rightarrow> u8) blink" where
  "stack_vm = Some ((mem_vm 0)\<lparr>gmem := stack_texts\<rparr>)"

lemma stack_vm_some: "stack_vm \<noteq> None"
  by (simp add: stack_vm_def)

lemma stack_vm_at:
  "stack_at mem_api (\<lambda>m. m) stack_vm 0x10000 0x20000000 (read32 mem_api (ucast (0x7000 :: u32)) stack_vm) [[0x61]]"
proof -
  have h: "read32 mem_api (ucast (0x7000 :: u32)) stack_vm = 0x10000" by code_simp
  have n: "read32 mem_api (ucast (0x10000 :: u32)) stack_vm = 0" by code_simp
  have s: "bytes_at (\<lambda>m. m) stack_vm (0x10000 + 4) (wide_bytes ([0x61] @ [0]))" by code_simp
  show ?thesis unfolding h stack_at.simps n using s by simp
qed

theorem nsis_stack_refines_witness:
  "\<exists>e' b' b''. nsis_push_int mem_api 0x7000 1024 (- 42) mem_engine stack_vm = (e', b') \<and>
     nsis_pop_int mem_api 0x7000 1024 b' = (- 42, b'') \<and> print_int (- 42) = ''-42''"
proof -
  have c: "unat (0x7000 :: u32) + 4 \<le> 0x10000" "(0x10000 :: nat) \<le> 0x20000000" "- (2 ^ 31) \<le> (- 42 :: int)" "(- 42 :: int) < 2 ^ 31"
    "11 \<le> (1024 :: int)" "(1024 :: int) \<le> 8192" "(0x20000000 :: nat) + 20480 < 2 ^ 32" by simp_all
  have p: "print_int (- 42) = ''-42''" by code_simp
  from nsis_stack_refines [OF mem_flat stack_vm_some c(1) mem_heap c(2) stack_vm_at c(3-7)] p show ?thesis by blast
qed

section \<open>Shortcuts and random numbers\<close>

definition com_mapper :: mapper where
  "com_mapper = wg_dll_mapper_create\<lparr>next_thunk := 0xC00000\<rparr>"

text \<open>Both pointers are locals on the stack of the main thread.\<close>

theorem com_objects_callable_witness:
  "\<exists>s' m' e' b1 b2. h_CoCreateInstance mem_api [0, 0, 1, 0, 0x7FFEFF00] initial_sys com_mapper mem_engine stack_vm = (0, s', m', e', b1) \<and>
     com_object mem_api m' b1 (read32 mem_api 0x7FFEFF00 b1) shell_link_args \<and>
     h_comQI mem_api [0, 0, 0x7FFEFF04] s' b1 = (0, b2) \<and> com_object mem_api m' b2 (read32 mem_api 0x7FFEFF04 b2) persist_file_args"
proof -
  have c: "(0x20000000 :: nat) + 20480 \<le> 2 ^ 32" "(0 :: nat) < 0x20000000" "com_qi initial_sys = 0" "com_shelllink initial_sys = 0"
    "length (dlls com_mapper) + 6 \<le> capacity com_mapper" "unat (next_thunk com_mapper) + 48 \<le> 2 ^ 32" "next_thunk com_mapper \<noteq> 0"
    "\<forall>d \<in> set (dlls com_mapper). unat (thunk_addr d) < unat (next_thunk com_mapper)"
    "(0x7FFEFF00 :: u32) \<noteq> 0" "off_pages 0x20000000 (4 * 4096) 0x7FFEFF00 4"
    "(0x7FFEFF04 :: u32) \<noteq> 0" "off_pages 0x20000000 (4 * 4096) 0x7FFEFF04 4"
    by (simp_all add: initial_sys_def com_mapper_def wg_dll_mapper_create_def off_pages_def)
  obtain r s' m' e' b1 where h: "h_CoCreateInstance mem_api [0, 0, 1, 0, 0x7FFEFF00] initial_sys com_mapper mem_engine stack_vm = (r, s', m', e', b1)"
    by (metis prod.collapse)
  obtain r' b2 where q: "h_comQI mem_api [0, 0, 0x7FFEFF04] s' b1 = (r', b2)" by (metis prod.collapse)
  from com_objects_callable [OF mem_flat stack_vm_some mem_heap c h q] h q show ?thesis by auto
qed

theorem fill_random_fills_witness:
  "let b = wg_fill_random mem_api (\<lambda>k n. replicate n (of_nat k)) 0x5000 600 stack_vm
   in byte_in (\<lambda>m. m) b 0x5000 = 0 \<and> byte_in (\<lambda>m. m) b 0x51FF = 0 \<and> byte_in (\<lambda>m. m) b 0x5200 = 1 \<and> byte_in (\<lambda>m. m) b 0x5257 = 1 \<and>
      byte_in (\<lambda>m. m) b 0x10004 = 0x61"
proof -
  have c: "unat (0x5000 :: u32) + unat (600 :: u32) \<le> 2 ^ 32" "(0x5000 :: u32) \<noteq> 0" by simp_all
  have l: "length (replicate n (of_nat k :: u8)) = n" for k n by simp
  have r: "random_bytes (\<lambda>k n. replicate n (of_nat k)) 0 600 = replicate 512 0 @ replicate 88 1"
    by (simp add: random_bytes.simps)
  note f = fill_random_fills [where rnd = "\<lambda>k n. replicate n (of_nat k)", OF mem_flat l stack_vm_some c]
  have "unat (0x5000 :: u32) + unat (600 :: u32) \<le> unat (0x10004 :: u64)" by simp
  then have "byte_in (\<lambda>m. m) (wg_fill_random mem_api (\<lambda>k n. replicate n (of_nat k)) 0x5000 600 stack_vm) 0x10004 =
      byte_in (\<lambda>m. m) stack_vm 0x10004" using f by blast
  also have "\<dots> = 0x61" by code_simp
  finally show ?thesis
    using f [THEN conjunct1, rule_format, of 0] f [THEN conjunct1, rule_format, of 511] f [THEN conjunct1, rule_format, of 512]
      f [THEN conjunct1, rule_format, of 599] by (simp add: r nth_append Let_def)
qed

section \<open>The prefill\<close>

definition setup_file :: "u8 list" where
  "setup_file = [0x4D, 0x5A] @ NSIS_MAGIC @ [0, 0, 0, 0] @ le_bytes 4 (of_nat (length ([0x5D, 0, 0, 0, 1 :: u8] @ [7, 8])) :: u32) @
     [0x5D, 0, 0, 0, 1] @ [7, 8] @ [0x21]"

definition setup_disk :: disk where
  "setup_disk = \<lparr>contents = [''./setup.exe'' \<mapsto> setup_file], dirs = {''.''}\<rparr>"

theorem prefill_writes_witness:
  "\<exists>d'. wg_nsis_prefill_datatmp (\<lambda>props packed cap. Some (packed @ packed)) (\<lambda>_. True) ''./setup.exe'' ''./data'' setup_disk =
     Some (True, d') \<and> contents d' ''./data'' = Some [7, 8, 7, 8]"
proof -
  have f: "contents setup_disk ''./setup.exe'' = Some setup_file" by (simp add: setup_disk_def)
  have m: "\<forall>k < length [0x4D, 0x5A :: u8]. take 12 (drop k setup_file) \<noteq> NSIS_MAGIC"
    by (simp add: setup_file_def NSIS_MAGIC_def All_less_Suc2)
  have c: "length [0, 0, 0, 0 :: u8] = 4" "length [0x5D, 0, 0, 0, 1 :: u8] = 5" "[7, 8 :: u8] \<noteq> []"
    "length ([0x5D, 0, 0, 0, 1 :: u8] @ [7, 8]) < 2 ^ 32" by simp_all
  have w: "contents setup_disk ''./data'' \<noteq> None \<or> may_create setup_disk ''./data''" by (simp add: may_create_def setup_disk_def) code_simp
  have l: "[7, 8 :: u8] @ [7, 8] \<noteq> []" by simp
  from prefill_writes [OF f setup_file_def m c _ l _ _ w, where lzma = "\<lambda>props packed cap. Some (packed @ packed)" and ok = "\<lambda>_. True"]
  show ?thesis by auto
qed

end
