(* ===== verification/Log.thy ===== *)
theory Log
  imports Queues
begin

text \<open>
  The log of \<open>Sources/Core/wg_log.{h,c}\<close>: the filter by level and the two outputs of a message,
  and the ring buffer of recent lines. Messages are C strings, lists of characters without the
  terminating NUL. \<open>vsnprintf\<close>'s expansion of the format is the argument \<open>expanded\<close>.
\<close>

section \<open>Messages\<close>

definition WG_LOG_DEBUG :: int where "WG_LOG_DEBUG = 0"
definition WG_LOG_ERROR :: int where "WG_LOG_ERROR = 3"
definition WG_LOG_FATAL :: int where "WG_LOG_FATAL = 4"

definition level_names :: "string list" where
  "level_names = [''DBG'', ''INF'', ''WRN'', ''ERR'', ''FTL'']"

text \<open>\<open>s_callback\<close> with \<open>s_userdata\<close>, and \<open>s_minLevel\<close>.\<close>

record 'c log_state =
  callback :: "'c option"
  min_level :: int

definition wg_log_init :: "'c log_state" where
  "wg_log_init = \<lparr>callback = None, min_level = WG_LOG_DEBUG\<rparr>"

definition wg_log_set_callback :: "'c log_state \<Rightarrow> 'c option \<Rightarrow> 'c log_state" where
  "wg_log_set_callback st cb = st\<lparr>callback := cb\<rparr>"

definition wg_log_set_level :: "'c log_state \<Rightarrow> int \<Rightarrow> 'c log_state" where
  "wg_log_set_level st l = st\<lparr>min_level := l\<rparr>"

text \<open>\<open>snprintf\<close> and \<open>vsnprintf\<close> into a buffer of \<open>n\<close> bytes.\<close>

definition into_buffer :: "nat \<Rightarrow> string \<Rightarrow> string" where
  "into_buffer n s = take (n - 1) s"

text \<open>The line on the standard error and the call of the callback: its level, tag and message.
  \<open>tag\<close> and \<open>expanded\<close> are \<open>None\<close> when the pointer is NULL.\<close>

definition wg_log :: "'c log_state \<Rightarrow> int \<Rightarrow> string option \<Rightarrow> string option \<Rightarrow>
    (string \<times> ('c \<times> int \<times> string \<times> string) option) option" where
  "wg_log st level tag expanded =
     (if level < min_level st then None
      else let lvl = (if 0 \<le> level \<and> level \<le> WG_LOG_FATAL then level else WG_LOG_ERROR);
               safe_tag = (case tag of Some t \<Rightarrow> t | None \<Rightarrow> ''?'');
               buf = (case expanded of Some m \<Rightarrow> into_buffer 512 m | None \<Rightarrow> [])
           in Some (''['' @ level_names ! nat lvl @ ''/'' @ safe_tag @ ''] '' @ buf @ [CHR 10],
                map_option (\<lambda>cb. (cb, lvl, safe_tag, into_buffer 600 (''['' @ safe_tag @ ''] '' @ buf)))
                  (callback st)))"

text \<open>Whatever level is passed, the name is read inside the array.\<close>

lemma wg_log_level_in_bounds:
  "nat (if 0 \<le> level \<and> level \<le> WG_LOG_FATAL then level else WG_LOG_ERROR) < length level_names"
  by (auto simp: WG_LOG_FATAL_def WG_LOG_ERROR_def level_names_def)

section \<open>The ring of recent lines\<close>

record log_ring =
  log_lines :: "string list"
  log_levels :: "int list"
  log_count :: nat
  log_head :: nat
  log_capacity :: nat

definition wg_log_ring_init :: log_ring where
  "wg_log_ring_init = \<lparr>log_lines = replicate 256 [], log_levels = replicate 256 0,
     log_count = 0, log_head = 0, log_capacity = 256\<rparr>"

text \<open>\<open>strncpy\<close> of 255 characters and a NUL behind them; a zero \<open>capacity\<close> would divide by zero.\<close>

definition wg_log_ring_push :: "log_ring \<Rightarrow> int \<Rightarrow> string \<Rightarrow> log_ring ub" where
  "wg_log_ring_push r level msg = do {
     guard (log_head r < 256 \<and> log_capacity r \<noteq> 0);
     Some (r\<lparr>log_lines := (log_lines r)[log_head r := take 255 msg],
             log_levels := (log_levels r)[log_head r := level],
             log_head := (log_head r + 1) mod log_capacity r,
             log_count := (if log_count r < log_capacity r then log_count r + 1 else log_count r)\<rparr>)
   }"

definition wg_log_ring_count :: "log_ring \<Rightarrow> nat" where
  "wg_log_ring_count r = log_count r"

text \<open>\<open>None\<close> is the null pointer. The sums are not negative, as the count is at most the capacity.\<close>

definition wg_log_ring_get :: "log_ring \<Rightarrow> int \<Rightarrow> (int \<times> string) option" where
  "wg_log_ring_get r index =
     (if index < 0 \<or> int (log_count r) \<le> index then None
      else let start = (log_head r + log_capacity r - log_count r) mod log_capacity r;
               actual = (start + nat index) mod log_capacity r
           in Some (log_levels r ! actual, log_lines r ! actual))"

text \<open>The ring after the messages \<open>ms\<close>.\<close>

definition ring_after :: "(int \<times> string) list \<Rightarrow> log_ring \<Rightarrow> bool" where
  "ring_after ms r \<longleftrightarrow> log_capacity r = 256 \<and> log_count r = min 256 (length ms) \<and>
     log_head r = length ms mod 256 \<and>
     holds_last 256 (map fst ms) (log_levels r) \<and> holds_last 256 (map (take 255 \<circ> snd) ms) (log_lines r)"

lemma ring_after_init: "ring_after [] wg_log_ring_init"
  by (simp add: ring_after_def wg_log_ring_init_def)

lemma ring_after_push:
  assumes "ring_after ms r"
  shows "\<exists>r'. wg_log_ring_push r l m = Some r' \<and> ring_after (ms @ [(l, m)]) r'"
proof -
  from assms have a: "log_capacity r = 256" "log_count r = min 256 (length ms)" "log_head r = length ms mod 256"
    and h: "holds_last 256 (map fst ms) (log_levels r)" "holds_last 256 (map (take 255 \<circ> snd) ms) (log_lines r)"
    by (auto simp: ring_after_def)
  from holds_last_push [OF h(1), of l] holds_last_push [OF h(2), of "take 255 m"] a show ?thesis
    by (auto simp: wg_log_ring_push_def ring_after_def mod_Suc_eq min_def)
qed

lemma ring_after_pushes:
  assumes "ring_after ms r"
  shows "\<exists>r'. each (\<lambda>(l, m) r. wg_log_ring_push r l m) ns r = Some r' \<and> ring_after (ms @ ns) r'"
  using assms
proof (induction ns arbitrary: ms r)
  case (Cons n ns)
  obtain l m where n: "n = (l, m)" by (cases n)
  from ring_after_push [OF Cons.prems, of l m] obtain r1
    where r1: "wg_log_ring_push r l m = Some r1" "ring_after (ms @ [(l, m)]) r1" by blast
  from Cons.IH [OF r1(2)] r1(1) n show ?case by simp
qed simp

lemma ring_after_get:
  assumes r: "ring_after ms r" and i: "i < min 256 (length ms)"
  shows "wg_log_ring_get r (int i) = Some (map_prod id (take 255) (ms ! (length ms - 256 + i)))"
proof -
  let ?j = "length ms - 256 + i"
  from r have a: "log_capacity r = 256" "log_count r = min 256 (length ms)" "log_head r = length ms mod 256"
    and h: "holds_last 256 (map fst ms) (log_levels r)" "holds_last 256 (map (take 255 \<circ> snd) ms) (log_lines r)"
    by (auto simp: ring_after_def)
  have j: "?j < length ms" "length ms \<le> ?j + 256" using i by auto
  have "((length ms mod 256 + 256 - min 256 (length ms)) mod 256 + i) mod 256 = ?j mod 256"
  proof (cases "length ms < 256")
    case False
    then obtain k where "length ms = k + 256" using le_Suc_ex by (metis add.commute not_less)
    then show ?thesis by (simp add: mod_simps)
  qed simp
  moreover have "log_levels r ! (?j mod 256) = fst (ms ! ?j)"
    using holds_lastD [OF h(1), of ?j] j by simp
  moreover have "log_lines r ! (?j mod 256) = take 255 (snd (ms ! ?j))"
    using holds_lastD [OF h(2), of ?j] j by simp
  moreover have "\<not> min 256 (length ms) \<le> i" using i by (simp only: not_le)
  ultimately show ?thesis using a by (simp add: wg_log_ring_get_def Let_def map_prod_def split_beta)
qed

text \<open>After any messages the ring gives back the last 256, oldest first, cut to 255 characters.\<close>

theorem log_ring_recent:
  "\<exists>r. each (\<lambda>(l, m) r. wg_log_ring_push r l m) ms wg_log_ring_init = Some r \<and>
     map (\<lambda>i. wg_log_ring_get r (int i)) [0..<wg_log_ring_count r] =
       map (\<lambda>(l, m). Some (l, take 255 m)) (drop (length ms - 256) ms)"
proof -
  from ring_after_pushes [OF ring_after_init, of ms] obtain r
    where r: "each (\<lambda>(l, m) r. wg_log_ring_push r l m) ms wg_log_ring_init = Some r" "ring_after ms r" by auto
  have c: "wg_log_ring_count r = min 256 (length ms)"
    using r(2) by (simp add: wg_log_ring_count_def ring_after_def)
  have "map (\<lambda>i. wg_log_ring_get r (int i)) [0..<min 256 (length ms)] =
      map (\<lambda>(l, m). Some (l, take 255 m)) (drop (length ms - 256) ms)"
    by (rule nth_equalityI) (auto simp: ring_after_get [OF r(2)] split_beta map_prod_def)
  with r(1) c show ?thesis by auto
qed

end
