(* ===== verification/Spec2Isabelle.thy ===== *)
theory Spec2Isabelle
  imports X86Properties SystemProperties GdiProperties FilesOk DllMapper GuestProperties CallProperties PluginProperties Log
begin

text \<open>
  WineGlass runs 32- and 64-bit Windows programs on iOS and macOS. A program's file is parsed (the PE
  loader), its sections are put into guest memory, every imported function gets the address of a thunk
  (the DLL mapper), and the guest runs on one of two processors: an interpreter in the repository, or
  Blink, a third-party emulator behind a small bridge. A jump to a thunk stops the processor, and the
  engine executes the Win32 call that it stands for: it reads the arguments from the guest's stack,
  works on its own tables (heap, threads, events, queues, messages, windows, device contexts, bitmaps,
  files), writes the result to the guest's registers and lets it continue. Some calls go back into the
  guest: window procedures, exception handlers, other threads.

  \<^bold>\<open>Conventions.\<close> Machine integers are words of their width (\<open>u8\<close> to \<open>u64\<close>), C's \<open>int\<close> is \<open>int\<close> with the
  wrap of conversions written out, arrays are lists, a C string is the list of its characters without
  the NUL, and static variables are fields of the state that is passed along. Undefined behaviour of C
  (an access outside an array, a shift by the width, a signed overflow) is the value \<open>None\<close> of the type
  \<open>'a ub\<close>, so that a theorem that says that a call returns \<open>Some\<close> says that it is defined. Log output
  is left out. What is not in the sources is an argument: the routines of Blink (the record \<open>guest_api\<close>,
  whose memory type \<open>'m\<close> stays abstract), the clock, the success of \<open>calloc\<close>, \<open>stdio\<close> (a model of files
  whose contents are byte lists), and \<open>vsnprintf\<close>.

  \<^bold>\<open>Theories and sources.\<close>
  \<^item> Base, CString, Interfaces, Queues: the prelude. Little-endian bytes, undefined behaviour, strings,
    and the locales: handle tables (\<open>handle_table\<close>, \<open>handle_table_free\<close>), byte-addressed memory
    (\<open>byte_memory\<close>), last-in first-out stores (\<open>lifo\<close>) and bounded queues with keys (\<open>keyed_queue\<close>). Each
    is interpreted by the components that provide it: the scheduler, the windows, the bitmaps, the
    device contexts and the file handles are handle tables; guest memory is a byte memory; the guest's
    stack and the engine's pending calls are last-in first-out; the completion queue and the thread
    messages are bounded queues.
  \<^item> X86State, X86Opcode, X86Decode, X86Interp (Sources/CPU): registers and flags, the decoder (one
    definition for each group of opcodes of the C switch), the interpreter (one for each case).
    X86DecodeOk, X86Encode, X86Stack, X86Exec, X86Properties: the decoder is total, consumes what it
    reports and inverts reference encodings; arithmetic, conditions, stack and calls do what the
    processor manuals say.
  \<^item> GuestMemory (Sources/Memory): regions, protection, multi-byte access, and its view as a partial map
    from addresses to bytes.
  \<^item> PELoader, PELoaderOk (Sources/PE): parsing with the exact checks of the code; what an image that
    loads satisfies, and that a file laid out from headers and sections loads to these.
  \<^item> Blink (Sources/Core/wg_blink_bridge.c, Vendor/blink/wg_blink_impl.c): the bridge.
  \<^item> Threads, ThreadsOk (Sources/Win32/wg_threading.c): the cooperative scheduler; exactly the current
    thread runs, yielding is fair, stacks are disjoint.
  \<^item> Windows (wg_win32_windows.c), Bitmap (wg_win32_bitmap.c), Gdi, GdiOk, GdiBlit, GdiTables,
    GdiProperties (wg_win32_gdi.c): the windows, the DIB decoder, drawing. What rectangles, lines and
    blits paint is proved pixel by pixel. SystemProperties applies the theorems of these and of the
    loader and the scheduler.
  \<^item> Files, FilesOk (wg_win32_files.c): path mapping, file handles on the model of \<open>stdio\<close>, NSIS data.
  \<^item> DllTable, DllMapper (wg_dll_mapper.c): the stubs, the table of registrations, and
    resolution, which is compared with the documented return values.
  \<^item> Log (Sources/Core/wg_log.c).
  \<^item> The engine (Sources/Core/wg_engine.c). EngineQueues: its fixed arrays. EngineState: the record
    \<open>engine\<close> of its static variables, the guest heap, thread environment blocks, calls into the guest and
    their return, the frame and the end of a Win32 call. EngineSync: events, waits, completion ports,
    thread pool, threads, messages, timers, thread-local storage. EngineHeap: the allocation calls.
    EngineSeh: exceptions. EngineLoad: from creation to running. EngineHalt, EngineRun, EngineTick: the
    dispatch, runs, ticks. EngineModules, EngineModuleCalls: the loaded DLLs (\<open>wg_load_dll\<close>,
    \<open>wg_module_export\<close>) and the calls on them; they keep a state of their own (\<open>dll_space\<close>) beside \<open>engine\<close>.
    EngineStrings (strings, conversions), EngineFileCalls (files, directories, names, command line),
    EngineGdiCalls (drawing, bitmaps, fonts) and EngineDialog (controls, dialog templates, painting,
    messages, modal dialogs, taps) are the branches of the dispatch that lead to these parts; the dialogs
    have a state of their own (\<open>dialogs\<close>), and the text output and the scaling by \<open>float\<close> are arguments
    (\<open>text_api\<close>, \<open>painter\<close>). EnginePlugins: the plug-ins nsDialogs (\<open>handle_nsdialogs\<close>), nsProcess and nsExec
    with the installer's stack. EngineSystem: exit, versions, random numbers, processes, shell folders, the
    COM objects for shortcuts, the clock (\<open>sys_state\<close>). EngineNet: the dispatch to the network libraries,
    whose handlers are arguments, and the network adapters.
    EngineQueuesOk, EngineStateOk, EngineWf, EngineSyncOk, EngineSignals, EngineLoadOk: their theorems.
    GuestRam, GuestSeh, GuestTeb, GuestText, GuestTls: what the engine leaves in guest memory, static
    thread-local data included, and the strings it reads there. EngineModulesOk: relocation, the module table and the way of an export from the file to
    GetProcAddress. GuestStrings, GuestFiles: what the calls on strings and files do to the guest's
    strings and to what it reads back. DialogTemplate: a reference encoder of dialog templates, and that the
    parser inverts it. DialogControls: handles and texts of controls, taps, the return of modal dialogs
    (\<open>dialog_step\<close>: calls on windows, controls and pages, messages and taps while one is up). PluginStack: the installer's stack as a list of
    strings (\<open>stack_at\<close>). EngineSystemOk: random bytes, the method tables of the COM objects, replies, ticks.
    EngineProperties, GuestProperties, ModuleProperties, CallProperties and PluginProperties apply the
    theorems to small engines (Demo).
  \<^item> NsisExtract (wg_nsis_extract.c): the prefill of an installer's data file; \<open>LzmaDecode\<close> is an argument.

  \<^bold>\<open>What is proved of the engine.\<close> \<open>engine_wf\<close> is the invariant of its tables; every Win32 call of the branches
  of \<open>sync_call\<close> and \<open>heap_call\<close>, every return from the guest and every step of the engine but one keeps it,
  so no such call is undefined in any state of a run (\<open>engine_run\<close>: load, then calls, calls into the guest, halts and changes of the
  guest's machine in any order). The one step that breaks the invariant, the return of a worker thread,
  is left out of \<open>engine_step\<close> and treated by theorems of its own. A tick is a sequence of these steps.
  No wakeup is lost with single waits on events; where waits do go wrong is stated. The pending calls
  refine a stack, the queues refine lists, heap blocks are disjoint. With memory that keeps its bytes
  (\<open>flat_ram\<close>: bytes that are copied in are read back, and reserving pages changes these pages only),
  the frames of calls into the guest, the thread environment blocks and the contexts of exceptions are
  where Windows programs look for them.

  \<^bold>\<open>Bounds and fuel.\<close> Line drawing runs with fuel that is more than the number of steps of the longer axis,
  and the theorem on lines shows that it ends at the target before the fuel does, for coordinates up to
  \<open>2 ^ 28\<close>. The searches in rings have a measure, the distance to the tail. \<open>run_ticks\<close> is bounded by the
  \<open>max_ticks\<close> of the C function. \<open>WGBlinkVM_Run\<close> and \<open>wg_x86_exec_block\<close> are bounded by the instruction
  counts they are given.

  \<^bold>\<open>Not modelled.\<close> Third-party code (Sources/LZMA, Vendor/blink/include); the user interface, the
  compositor and the text output, which are Objective-C or call Core Text and Metal; sockets, HTTP and TLS,
  which are calls of the host's libraries; directory walks (\<open>rm_rf\<close>, \<open>reset_temp\<close>, \<open>find_in_bottle\<close>); the
  self test; the remaining branches of the dispatch in \<open>handle_blink_thunk\<close> (a call of one is \<open>None\<close> on the
  outside of \<open>win32_call\<close>, so no theorem speaks about it).
\<close>

section \<open>Calls of the guest into Win32 stubs\<close>

text \<open>The address that resolving an import gives is one that the interpreter traps: a CALL to it
  returns at once behind the CALL and reports a system call, and the stub is found again.\<close>

text \<open>C40: The address that resolving any import gives is trapped by the interpreter: a CALL to it reports a system call and returns behind the CALL, and the stub of that name is found at it.\<close>

theorem resolved_call_traps:
  assumes "mapper_ok m" and "wg_dll_mapper_resolve m dll func = Some (a, m')" and "a \<noteq> 0"
    and "wf_mem mem" and "mapped mem (gpr s WG_REG_RSP - 8)"
    and "push64 s mem next = Some (s1, mem1)" and "branch_target s1 mem1 i = Some a"
  shows "exec_call next s mem i = Some (WG_INTERP_SYSCALL, s\<lparr>rip := next\<rparr>, mem1) \<and>
    (\<exists>e \<in> set (dlls m'). thunk_addr e = a \<and> func_name e = take 127 func \<and>
       wg_dll_mapper_get_handler m' a = Some (handler e))"
  using resolve_is_thunk [OF assms(1,2)] assms(3)
    thunk_call_is_syscall [OF assms(4-7)] by simp

theorem resolved_call_traps_witness:
  "\<exists>mem' m'. wg_dll_mapper_resolve wg_dll_mapper_create ''a.dll'' ''f'' = Some (0xDEAD0000, m') \<and>
     exec_call 0x1005 demo_cpu (demo_mem []) (blank_insn\<lparr>operand0 := op_rel 0xDEAD0000, num_operands := 1\<rparr>) =
       Some (WG_INTERP_SYSCALL, demo_cpu\<lparr>rip := 0x1005\<rparr>, mem')"
proof -
  let ?i = "blank_insn\<lparr>operand0 := op_rel 0xDEAD0000, num_operands := 1\<rparr>"
  have "map_option fst (wg_dll_mapper_resolve wg_dll_mapper_create ''a.dll'' ''f'') = Some 0xDEAD0000" by code_simp
  then obtain m' where r: "wg_dll_mapper_resolve wg_dll_mapper_create ''a.dll'' ''f'' = Some (0xDEAD0000, m')" by auto
  have m: "mapped (demo_mem []) (gpr demo_cpu WG_REG_RSP - 8)" by code_simp
  have "push64 demo_cpu (demo_mem []) 0x1005 \<noteq> None" by code_simp
  then obtain s1 mem1 where p: "push64 demo_cpu (demo_mem []) 0x1005 = Some (s1, mem1)" by auto
  have "branch_target s1 mem1 ?i = Some 0xDEAD0000" by (simp add: branch_target_def op_rel_def)
  from resolved_call_traps [OF ok_create r _ wf_demo m p this] r show ?thesis by auto
qed

end
